(* ===== verification/Prelude.thy ===== *)
theory Prelude
  imports Main "HOL-Library.AList" "HOL-Library.Char_ord" "HOL-Library.List_Lexorder"
begin

text \<open>
  Shared ground of the development: JavaScript exceptions as values of a sum type, the
  sequencing of throwing computations (\<open>bindE\<close>, \<open>mapE\<close>), the JavaScript \<open>Map\<close> as an
  association list in insertion order, duplicate tests, and the collections of rewrite
  rules the component theories extend.
\<close>

named_theorems transition_defs \<open>unfolding of transition tables and of the operations that read them\<close>
named_theorems step_defs \<open>unfolding of the operations of a stateful component\<close>

subsection \<open>Exceptions as values\<close>

datatype js_error = TypeError string | Error string | RangeError string

type_synonym 'a res = "js_error + 'a"

definition bindE :: "'e + 'a \<Rightarrow> ('a \<Rightarrow> 'e + 'b) \<Rightarrow> 'e + 'b" where
  "bindE m f = (case m of Inl e \<Rightarrow> Inl e | Inr x \<Rightarrow> f x)"

text \<open>Evaluation looks at the first computation before the continuation.\<close>

declare bindE_def [code_unfold]

lemma bindE_Inl [simp]: "bindE (Inl e) f = Inl e"
  by (simp add: bindE_def)

lemma bindE_Inr [simp]: "bindE (Inr x) f = f x"
  by (simp add: bindE_def)

lemma bindE_eq_Inr [simp]: "bindE m f = Inr y \<longleftrightarrow> (\<exists>x. m = Inr x \<and> f x = Inr y)"
  by (cases m) auto

lemma bindE_eq_Inl: "bindE m f = Inl e \<longleftrightarrow> m = Inl e \<or> (\<exists>x. m = Inr x \<and> f x = Inl e)"
  by (cases m) auto

text \<open>A guard that throws, passed on the way to a result.\<close>

lemma guard_eq_Inr [simp]: "(if c then Inl e else m) = Inr y \<longleftrightarrow> \<not> c \<and> m = Inr y"
  by simp

lemma bindE_cong [fundef_cong]:
  "m = m' \<Longrightarrow> (\<And>x. m' = Inr x \<Longrightarrow> f x = f' x) \<Longrightarrow> bindE m f = bindE m' f'"
  by (cases m') auto

lemma not_Inl_iff: "(\<forall>e. m \<noteq> Inl e) \<longleftrightarrow> (\<exists>y. m = Inr y)"
  by (cases m) auto

fun mapE :: "('a \<Rightarrow> 'e + 'b) \<Rightarrow> 'a list \<Rightarrow> 'e + 'b list" where
  "mapE f [] = Inr []"
| "mapE f (x # xs) = bindE (f x) (\<lambda>y. bindE (mapE f xs) (\<lambda>ys. Inr (y # ys)))"

lemma mapE_eq_Inr [simp]: "mapE f xs = Inr ys \<longleftrightarrow> list_all2 (\<lambda>x y. f x = Inr y) xs ys"
  by (induction xs arbitrary: ys) (auto simp: list_all2_Cons1)

lemma mapE_cong [fundef_cong]:
  "xs = ys \<Longrightarrow> (\<And>x. x \<in> set ys \<Longrightarrow> f x = g x) \<Longrightarrow> mapE f xs = mapE g ys"
proof (induction ys arbitrary: xs)
  case (Cons y ys)
  then show ?case by simp
qed simp

lemma mapE_map_id: "\<forall>x \<in> set xs. f (g x) = Inr x \<Longrightarrow> mapE f (map g xs) = Inr xs"
  by (induction xs) (simp_all del: mapE_eq_Inr)

lemma mapE_length: "mapE f xs = Inr ys \<Longrightarrow> length ys = length xs"
  by (auto dest: list_all2_lengthD)

lemma list_all2_in_right: "list_all2 P xs ys \<Longrightarrow> y \<in> set ys \<Longrightarrow> \<exists>x \<in> set xs. P x y"
  by (induction rule: list_all2_induct) auto

lemma mapE_all: "mapE f xs = Inr ys \<Longrightarrow> y \<in> set ys \<Longrightarrow> \<exists>x \<in> set xs. f x = Inr y"
  by (auto dest: list_all2_in_right)

lemma mapE_total: "(\<And>x. x \<in> set xs \<Longrightarrow> \<exists>y. f x = Inr y) \<Longrightarrow> \<exists>ys. mapE f xs = Inr ys"
proof (induction xs)
  case (Cons x xs)
  obtain y where y: "f x = Inr y" using Cons.prems[of x] by auto
  obtain ys where "mapE f xs = Inr ys" using Cons by (meson list.set_intros(2))
  with y have "mapE f (x # xs) = Inr (y # ys)" by (simp del: mapE_eq_Inr)
  then show ?case by blast
qed simp

lemma mapE_id: "mapE f xs = Inr ys \<Longrightarrow> (\<And>x y. f x = Inr y \<Longrightarrow> y = g x) \<Longrightarrow> ys = map g xs"
  by (auto simp: list_all2_conv_all_nth intro!: nth_equalityI)

subsection \<open>State that survives a throw\<close>

text \<open>
  An operation on mutable state that may throw returns the state it has reached together with
  its result or its exception: what was changed before the throw stays changed.
\<close>

type_synonym ('s, 'a) act = "'s \<Rightarrow> 's \<times> (js_error + 'a)"

definition bindS :: "('s, 'a) act \<Rightarrow> ('a \<Rightarrow> ('s, 'b) act) \<Rightarrow> ('s, 'b) act" where
  "bindS m f s = (case m s of (s', Inl e) \<Rightarrow> (s', Inl e) | (s', Inr x) \<Rightarrow> f x s')"

definition returnS :: "'a \<Rightarrow> ('s, 'a) act" where
  "returnS x s = (s, Inr x)"

definition throwS :: "js_error \<Rightarrow> ('s, 'a) act" where
  "throwS e s = (s, Inl e)"

definition liftS :: "'a res \<Rightarrow> ('s, 'a) act" where
  "liftS r s = (s, r)"

definition modifyS :: "('s \<Rightarrow> 's) \<Rightarrow> ('s, unit) act" where
  "modifyS f s = (f s, Inr ())"

definition readS :: "('s \<Rightarrow> 'a) \<Rightarrow> ('s, 'a) act" where
  "readS f s = (s, Inr (f s))"

definition keeps :: "('s \<Rightarrow> bool) \<Rightarrow> ('s, 'a) act \<Rightarrow> bool" where
  "keeps P m \<longleftrightarrow> (\<forall>s. P s \<longrightarrow> P (fst (m s)))"

lemma returnS_run [simp]: "returnS x s = (s, Inr x)"
  by (simp add: returnS_def)

lemma throwS_run [simp]: "throwS e s = (s, Inl e)"
  by (simp add: throwS_def)

lemma liftS_run [simp]: "liftS r s = (s, r)"
  by (simp add: liftS_def)

lemma modifyS_run [simp]: "modifyS f s = (f s, Inr ())"
  by (simp add: modifyS_def)

lemma readS_run [simp]: "readS f s = (s, Inr (f s))"
  by (simp add: readS_def)

lemma bindS_Inl: "m s = (s', Inl e) \<Longrightarrow> bindS m f s = (s', Inl e)"
  by (simp add: bindS_def)

lemma bindS_Inr: "m s = (s', Inr x) \<Longrightarrow> bindS m f s = f x s'"
  by (simp add: bindS_def)

lemma bindS_simps [simp]:
  "bindS (returnS x) f s = f x s"
  "bindS (modifyS g) k s = k () (g s)"
  "bindS (readS h) f s = f (h s) s"
  "bindS (throwS e) f s = (s, Inl e)"
  "bindS (liftS (Inr x)) f s = f x s"
  "bindS (liftS (Inl e)) f s = (s, Inl e)"
  by (simp_all add: bindS_def)

lemma keeps_bindS:
  assumes "keeps P m" "\<And>x. keeps P (f x)"
  shows "keeps P (bindS m f)"
  unfolding keeps_def
proof (intro allI impI)
  fix s assume "P s"
  obtain s' r where m: "m s = (s', r)" by fastforce
  with assms(1) \<open>P s\<close> have "P s'" by (auto simp: keeps_def dest: spec[of _ s])
  with assms(2) m show "P (fst (bindS m f s))" by (cases r) (auto simp: bindS_def keeps_def)
qed

lemma keeps_modifyS: "(\<And>s. P s \<Longrightarrow> P (f s)) \<Longrightarrow> keeps P (modifyS f)"
  by (simp add: keeps_def)

lemma keeps_trivial [simp]: "keeps P (returnS x)" "keeps P (throwS e)" "keeps P (liftS r)" "keeps P (readS f)"
  by (simp_all add: keeps_def)

lemma keepsD: "keeps P m \<Longrightarrow> P s \<Longrightarrow> m s = (s', r) \<Longrightarrow> P s'"
  by (auto simp: keeps_def dest: spec[of _ s])

subsection \<open>The JavaScript Map\<close>

text \<open>
  A \<open>Map\<close> is a list of distinct keys with values in insertion order. \<open>set\<close> on a key that
  is present keeps its position, \<open>delete\<close> removes it; both are the library's
  \<open>AList.update\<close> and \<open>AList.delete\<close>, and \<open>get\<close> is \<open>map_of\<close>.
\<close>

type_synonym ('k, 'v) jsmap = "('k \<times> 'v) list"

definition mget :: "('k, 'v) jsmap \<Rightarrow> 'k \<Rightarrow> 'v option" where
  "mget m k = map_of m k"

definition mset_at :: "'k \<Rightarrow> 'v \<Rightarrow> ('k, 'v) jsmap \<Rightarrow> ('k, 'v) jsmap" where
  "mset_at k v m = AList.update k v m"

definition mdel :: "'k \<Rightarrow> ('k, 'v) jsmap \<Rightarrow> ('k, 'v) jsmap" where
  "mdel k m = AList.delete k m"

definition mvalues :: "('k, 'v) jsmap \<Rightarrow> 'v list" where
  "mvalues m = map snd m"

lemma mget_empty [simp]: "mget [] k = None"
  by (simp add: mget_def)

lemma mget_set [simp]: "mget (mset_at k v m) k' = (if k' = k then Some v else mget m k')"
  by (simp add: mget_def mset_at_def update_conv')

lemma mget_del [simp]: "mget (mdel k m) k' = (if k' = k then None else mget m k')"
  by (simp add: mget_def mdel_def delete_conv')

lemma mget_eq_None: "mget m k = None \<longleftrightarrow> k \<notin> set (map fst m)"
  by (simp add: mget_def map_of_eq_None_iff)

lemma mset_at_new: "mget m k = None \<Longrightarrow> mset_at k v m = m @ [(k, v)]"
  by (induction m) (auto simp: mget_def mset_at_def split: if_splits)

lemma keys_mset_at: "map fst (mset_at k v m) =
    (if k \<in> set (map fst m) then map fst m else map fst m @ [k])"
  by (simp add: mset_at_def update_keys)

lemma distinct_mset_at [simp]:
  "distinct (map fst m) \<Longrightarrow> distinct (map fst (mset_at k v m))"
  by (simp add: mset_at_def distinct_update)

lemma distinct_mdel [simp]: "distinct (map fst m) \<Longrightarrow> distinct (map fst (mdel k m))"
  by (simp add: mdel_def distinct_delete)

lemma mvalues_mget: "distinct (map fst m) \<Longrightarrow> v \<in> set (mvalues m) \<longleftrightarrow> (\<exists>k. mget m k = Some v)"
  by (auto simp: mvalues_def mget_def) (metis map_of_SomeD snd_conv image_eqI)

lemma find_Some_set: "find P xs = Some x \<Longrightarrow> x \<in> set xs \<and> P x"
  by (induction xs) (auto split: if_splits)

lemma find_append: "find P (xs @ ys) = (case find P xs of None \<Rightarrow> find P ys | Some x \<Rightarrow> Some x)"
  by (induction xs) auto

text \<open>\<open>new Map(xs.map((x) => [key(x), x]))\<close>: the last element with a key wins.\<close>

definition index_by :: "('a \<Rightarrow> 'k) \<Rightarrow> 'a list \<Rightarrow> 'k \<Rightarrow> 'a option" where
  "index_by key xs k = map_of (rev (map (\<lambda>x. (key x, x)) xs)) k"

lemma index_by_Some: "index_by key xs k = Some x \<Longrightarrow> x \<in> set xs \<and> key x = k"
  by (auto simp: index_by_def dest!: map_of_SomeD)

lemma index_by_None: "index_by key xs k = None \<longleftrightarrow> k \<notin> key ` set xs"
  by (simp add: index_by_def map_of_eq_None_iff image_image)

lemma index_by_distinct:
  assumes "distinct (map key xs)" "x \<in> set xs"
  shows "index_by key xs (key x) = Some x"
proof -
  have "index_by key xs (key x) \<noteq> None" using assms(2) by (simp add: index_by_None)
  then obtain y where y: "index_by key xs (key x) = Some y" by blast
  with index_by_Some[OF y] assms have "y = x" by (auto simp: distinct_map inj_on_def)
  with y show ?thesis by simp
qed

lemma index_by_iff:
  "distinct (map key xs) \<Longrightarrow> index_by key xs k = Some x \<longleftrightarrow> x \<in> set xs \<and> key x = k"
  using index_by_Some[of key xs k x] index_by_distinct[of key xs x] by auto

subsection \<open>Sorting with a comparator\<close>

text \<open>
  \<open>Array.prototype.sort\<close> is stable; \<open>le a b\<close> stands for \<open>compare(a, b) <= 0\<close>.
\<close>

fun insert_by :: "('a \<Rightarrow> 'a \<Rightarrow> bool) \<Rightarrow> 'a \<Rightarrow> 'a list \<Rightarrow> 'a list" where
  "insert_by le x [] = [x]"
| "insert_by le x (y # ys) = (if le x y then x # y # ys else y # insert_by le x ys)"

definition sort_by :: "('a \<Rightarrow> 'a \<Rightarrow> bool) \<Rightarrow> 'a list \<Rightarrow> 'a list" where
  "sort_by le xs = foldr (insert_by le) xs []"

lemma sort_by_Nil [simp]: "sort_by le [] = []"
  by (simp add: sort_by_def)

lemma set_insert_by [simp]: "set (insert_by le x ys) = insert x (set ys)"
  by (induction ys) auto

lemma set_sort_by [simp]: "set (sort_by le xs) = set xs"
  by (induction xs) (auto simp: sort_by_def)

lemma length_insert_by [simp]: "length (insert_by le x ys) = Suc (length ys)"
  by (induction ys) auto

lemma length_sort_by [simp]: "length (sort_by le xs) = length xs"
  by (induction xs) (auto simp: sort_by_def)

lemma sort_by_Nil_iff [simp]: "sort_by le xs = [] \<longleftrightarrow> xs = []"
  by (metis length_0_conv length_sort_by)

lemma distinct_map_insert_by: "distinct (map f (insert_by le x ys)) \<longleftrightarrow> f x \<notin> f ` set ys \<and> distinct (map f ys)"
  by (induction ys) auto

lemma distinct_map_sort_by [simp]: "distinct (map f (sort_by le xs)) \<longleftrightarrow> distinct (map f xs)"
proof (induction xs)
  case (Cons x xs)
  have "sort_by le (x # xs) = insert_by le x (sort_by le xs)" by (simp add: sort_by_def)
  with Cons show ?case by (simp add: distinct_map_insert_by)
qed (simp add: sort_by_def)

lemma sorted_insert_by:
  assumes tot: "\<And>a b. le a b \<or> le b a" and tr: "\<And>a b c. le a b \<Longrightarrow> le b c \<Longrightarrow> le a c"
  shows "sorted_wrt le ys \<Longrightarrow> sorted_wrt le (insert_by le x ys)"
proof (induction ys)
  case (Cons y ys)
  show ?case
  proof (cases "le x y")
    case True with Cons.prems show ?thesis by (auto dest: tr)
  next
    case False
    with tot have "le y x" by blast
    with False Cons show ?thesis by auto
  qed
qed simp

lemma sorted_sort_by:
  assumes "\<And>a b. le a b \<or> le b a" "\<And>a b c. le a b \<Longrightarrow> le b c \<Longrightarrow> le a c"
  shows "sorted_wrt le (sort_by le xs)"
  using sorted_insert_by[of le, OF assms] by (induction xs) (auto simp: sort_by_def)

subsection \<open>Sets built with new Set, and sorted code lists\<close>

text \<open>\<open>[...new Set(xs)].sort()\<close> on strings: the code-unit order is the list order of \<open>char\<close>.\<close>

definition sortedSet :: "'a::linorder list \<Rightarrow> 'a list" where
  "sortedSet xs = sort (remdups xs)"

lemma set_sortedSet [simp]: "set (sortedSet xs) = set xs"
  by (simp add: sortedSet_def)

lemma distinct_sortedSet [simp]: "distinct (sortedSet xs)"
  by (simp add: sortedSet_def)

lemma sorted_sortedSet [simp]: "sorted (sortedSet xs)"
  by (simp add: sortedSet_def)

lemma sortedSet_Nil_iff [simp]: "sortedSet xs = [] \<longleftrightarrow> xs = []"
  by (metis empty_set set_empty set_sortedSet)

lemma sortedSet_cong: "set xs = set ys \<Longrightarrow> sortedSet xs = sortedSet ys"
  by (rule sorted_distinct_set_unique) auto

end
