(* ===== verification/JsValue.thy ===== *)
theory JsValue
  imports Prelude
begin

text \<open>
  The JavaScript values the sources read: every constructor of the program takes an
  untyped object, so its model takes a value of type \<open>js\<close> and the checks it performs are
  written out.  Integers are \<open>JNum\<close>; any other number (a fraction, an infinity, NaN) is
  \<open>JDbl\<close> with its ECMAScript rendering.  A string is a list of ccode units below 256, so
  \<open>length\<close> and the ccode-unit order are those of the source on such strings.  Objects are
  own enumerable properties in property order.  Freezing has no counterpart: values here
  are immutable.
\<close>

datatype js = JUndef | JNull | JBool bool | JNum int | JDbl string | JStr string
  | JArr "js list" | JObj "(string \<times> js) list"

subsection \<open>Truth, equality, properties\<close>

fun truthy :: "js \<Rightarrow> bool" where
  "truthy JUndef = False"
| "truthy JNull = False"
| "truthy (JBool b) = b"
| "truthy (JNum n) = (n \<noteq> 0)"
| "truthy (JDbl s) = (s \<noteq> ''NaN'')"
| "truthy (JStr s) = (s \<noteq> [])"
| "truthy (JArr _) = True"
| "truthy (JObj _) = True"

definition or_js :: "js \<Rightarrow> js \<Rightarrow> js" where
  "or_js a b = (if truthy a then a else b)"

fun nullish :: "js \<Rightarrow> bool" where
  "nullish JUndef = True"
| "nullish JNull = True"
| "nullish _ = False"

definition coalesce :: "js \<Rightarrow> js \<Rightarrow> js" where
  "coalesce a b = (if nullish a then b else a)"

text \<open>\<open>value?.key\<close>: undefined when the value is nullish or has no such property.\<close>

fun field :: "js \<Rightarrow> string \<Rightarrow> js" where
  "field (JObj kvs) k = (case map_of kvs k of Some v \<Rightarrow> v | None \<Rightarrow> JUndef)"
| "field _ k = JUndef"

text \<open>\<open>value.key\<close>: throws on undefined and null.\<close>

definition fieldE :: "js \<Rightarrow> string \<Rightarrow> js res" where
  "fieldE v k = (if nullish v then Inl (TypeError (''Cannot read properties of undefined or null: '' @ k))
                else Inr (field v k))"

text \<open>\<open>!value || typeof value !== 'object' || Array.isArray(value)\<close> is the negation of:\<close>

fun plain_object :: "js \<Rightarrow> bool" where
  "plain_object (JObj _) = True"
| "plain_object _ = False"

text \<open>\<open>value && typeof value === 'object'\<close>\<close>

fun is_object :: "js \<Rightarrow> bool" where
  "is_object (JObj _) = True"
| "is_object (JArr _) = True"
| "is_object _ = False"

fun strict_eq_str :: "js \<Rightarrow> string \<Rightarrow> bool" where
  "strict_eq_str (JStr s) t = (s = t)"
| "strict_eq_str _ t = False"

lemma strict_eq_str_iff [simp]: "strict_eq_str v t \<longleftrightarrow> v = JStr t"
  by (cases v) auto

text \<open>\<open>LIST.includes(value)\<close> for a list of strings.\<close>

definition includes_str :: "string list \<Rightarrow> js \<Rightarrow> bool" where
  "includes_str ss v = (case v of JStr s \<Rightarrow> s \<in> set ss | _ \<Rightarrow> False)"

lemma includes_str_iff: "includes_str ss v \<longleftrightarrow> (\<exists>s \<in> set ss. v = JStr s)"
  by (auto simp: includes_str_def split: js.splits)

subsection \<open>String(value)\<close>

fun nat_digits :: "nat \<Rightarrow> string" where
  "nat_digits n = (if n < 10 then [char_of (48 + n)] else nat_digits (n div 10) @ [char_of (48 + n mod 10)])"

declare nat_digits.simps [simp del]

definition int_to_string :: "int \<Rightarrow> string" where
  "int_to_string i = (if i < 0 then ''-'' @ nat_digits (nat (- i)) else nat_digits (nat i))"

fun join_with :: "string \<Rightarrow> string list \<Rightarrow> string" where
  "join_with sep [] = []"
| "join_with sep [x] = x"
| "join_with sep (x # y # ys) = x @ sep @ join_with sep (y # ys)"

fun to_string :: "js \<Rightarrow> string" where
  "to_string JUndef = ''undefined''"
| "to_string JNull = ''null''"
| "to_string (JBool b) = (if b then ''true'' else ''false'')"
| "to_string (JNum n) = int_to_string n"
| "to_string (JDbl s) = s"
| "to_string (JStr s) = s"
| "to_string (JArr vs) = join_with '','' (map (\<lambda>v. if nullish v then [] else to_string v) vs)"
| "to_string (JObj _) = ''[object Object]''"

subsection \<open>Character classes and trimming\<close>

definition ccode :: "char \<Rightarrow> nat" where
  "ccode c = of_char c"

definition is_digit :: "char \<Rightarrow> bool" where
  "is_digit c = (48 \<le> ccode c \<and> ccode c \<le> 57)"

definition is_upper :: "char \<Rightarrow> bool" where
  "is_upper c = (65 \<le> ccode c \<and> ccode c \<le> 90)"

definition is_lower :: "char \<Rightarrow> bool" where
  "is_lower c = (97 \<le> ccode c \<and> ccode c \<le> 122)"

definition is_alnum :: "char \<Rightarrow> bool" where
  "is_alnum c = (is_digit c \<or> is_upper c \<or> is_lower c)"

definition is_hex :: "char \<Rightarrow> bool" where
  "is_hex c = (is_digit c \<or> (97 \<le> ccode c \<and> ccode c \<le> 102) \<or> (65 \<le> ccode c \<and> ccode c \<le> 70))"

definition is_space :: "char \<Rightarrow> bool" where
  "is_space c = (ccode c \<in> {9, 10, 11, 12, 13, 32, 160})"

definition ascii_lower :: "char \<Rightarrow> char" where
  "ascii_lower c = (if is_upper c then char_of (ccode c + 32) else c)"

definition trim_js :: "string \<Rightarrow> string" where
  "trim_js s = rev (dropWhile is_space (rev (dropWhile is_space s)))"

lemma dropWhile_idem [simp]: "dropWhile P (dropWhile P xs) = dropWhile P xs"
  by (induction xs) auto

lemma dropWhile_rev_keeps_front:
  assumes "dropWhile P xs = xs"
  shows "dropWhile P (rev (dropWhile P (rev xs))) = rev (dropWhile P (rev xs))"
proof (cases xs)
  case (Cons a as)
  with assms have a: "\<not> P a" by (metis dropWhile_eq_Cons_conv)
  have "dropWhile P (rev as @ [a]) = dropWhile P (rev as) @ [a]"
    using a by (induction as rule: rev_induct) auto
  with Cons a show ?thesis by simp
qed simp

lemma trim_idem [simp]: "trim_js (trim_js s) = trim_js s"
  by (simp add: trim_js_def dropWhile_rev_keeps_front)

lemma length_trim_le: "length (trim_js s) \<le> length s"
  using length_dropWhile_le[of is_space "rev (dropWhile is_space s)"] length_dropWhile_le[of is_space s]
  by (simp add: trim_js_def)

lemma trim_no_space: "list_all (\<lambda>c. \<not> is_space c) s \<Longrightarrow> trim_js s = s"
proof -
  assume a: "list_all (\<lambda>c. \<not> is_space c) s"
  then have d: "dropWhile is_space s = s" by (cases s) auto
  from a have "list_all (\<lambda>c. \<not> is_space c) (rev s)" by (simp add: list_all_iff)
  then have "dropWhile is_space (rev s) = rev s" by (cases "rev s") auto
  with d show ?thesis by (simp add: trim_js_def)
qed

subsection \<open>Number(value)\<close>

text \<open>
  \<open>to_integer v\<close> is \<open>Some n\<close> when \<open>Number(v)\<close> is the integer \<open>n\<close>, and \<open>None\<close> when it is a
  fraction, an infinity or NaN, which is all that \<open>Number.isInteger(Number(v))\<close> tells apart.
\<close>

definition digit_val :: "char \<Rightarrow> nat" where
  "digit_val c = (if is_digit c then ccode c - 48 else if is_lower c then ccode c - 87 else ccode c - 55)"

definition digits_val :: "nat \<Rightarrow> string \<Rightarrow> nat" where
  "digits_val b s = foldl (\<lambda>a c. a * b + digit_val c) 0 s"

lemma digit_char: "n < 10 \<Longrightarrow> digit_val (char_of (48 + n)) = n \<and> is_digit (char_of (48 + n))"
  by (simp add: digit_val_def is_digit_def ccode_def of_char_of)

lemma nat_digits_digits: "list_all is_digit (nat_digits n) \<and> nat_digits n \<noteq> []"
proof (induction n rule: nat_digits.induct)
  case (1 n)
  then show ?case by (subst (1 2) nat_digits.simps) (auto simp: digit_char)
qed

lemma digits_val_nat_digits [simp]: "digits_val 10 (nat_digits n) = n"
proof (induction n rule: nat_digits.induct)
  case (1 n)
  then show ?case by (subst nat_digits.simps) (auto simp: digits_val_def digit_char)
qed

lemma nat_digits_inject [simp]: "nat_digits m = nat_digits n \<longleftrightarrow> m = n"
  by (metis digits_val_nat_digits)

lemma minus_not_digit: "nat_digits n \<noteq> CHR ''-'' # s"
  using nat_digits_digits[of n] by (auto simp: is_digit_def ccode_def)

lemma int_to_string_inject [simp]: "int_to_string i = int_to_string j \<longleftrightarrow> i = j"
  using minus_not_digit by (auto simp: int_to_string_def) (metis minus_not_digit)+

definition scale10 :: "nat \<Rightarrow> int \<Rightarrow> nat option" where
  "scale10 m e = (if 0 \<le> e then Some (m * 10 ^ nat e)
                  else if m mod 10 ^ nat (- e) = 0 then Some (m div 10 ^ nat (- e)) else None)"

definition exponent_part :: "string \<Rightarrow> int option" where
  "exponent_part s = (case s of [] \<Rightarrow> Some 0
     | c # cs \<Rightarrow> if c \<in> {CHR ''e'', CHR ''E''} then
         (let neg = (cs \<noteq> [] \<and> hd cs = CHR ''-''); signed = (cs \<noteq> [] \<and> hd cs \<in> {CHR ''+'', CHR ''-''});
              ds = (if signed then tl cs else cs)
          in if ds \<noteq> [] \<and> list_all is_digit ds
             then Some (if neg then - int (digits_val 10 ds) else int (digits_val 10 ds)) else None)
         else None)"

definition unsigned_decimal :: "string \<Rightarrow> nat option" where
  "unsigned_decimal s =
    (let ip = takeWhile is_digit s; r = dropWhile is_digit s;
         dot = (r \<noteq> [] \<and> hd r = CHR ''.''); r' = (if dot then tl r else r);
         fp = (if dot then takeWhile is_digit r' else []); ex = (if dot then dropWhile is_digit r' else r')
     in if ip = [] \<and> fp = [] then None
        else case exponent_part ex of None \<Rightarrow> None
          | Some e \<Rightarrow> scale10 (digits_val 10 (ip @ fp)) (e - int (length fp)))"

definition prefixed_literal :: "string \<Rightarrow> nat option" where
  "prefixed_literal s =
    (if 2 < length s \<and> s ! 0 = CHR ''0'' then
       (let p = ascii_lower (s ! 1); ds = drop 2 s in
        if p = CHR ''x'' \<and> list_all is_hex ds then Some (digits_val 16 ds)
        else if p = CHR ''o'' \<and> list_all (\<lambda>c. is_digit c \<and> ccode c < 56) ds then Some (digits_val 8 ds)
        else if p = CHR ''b'' \<and> list_all (\<lambda>c. is_digit c \<and> ccode c < 50) ds then Some (digits_val 2 ds)
        else None)
     else None)"

definition string_to_integer :: "string \<Rightarrow> int option" where
  "string_to_integer s0 =
    (let s = trim_js s0 in
     if s = [] then Some 0
     else case prefixed_literal s of Some n \<Rightarrow> Some (int n)
       | None \<Rightarrow> (if hd s = CHR ''-'' then map_option (\<lambda>n. - int n) (unsigned_decimal (tl s))
                  else map_option int (unsigned_decimal (if hd s = CHR ''+'' then tl s else s))))"

fun to_integer :: "js \<Rightarrow> int option" where
  "to_integer JUndef = None"
| "to_integer JNull = Some 0"
| "to_integer (JBool b) = Some (if b then 1 else 0)"
| "to_integer (JNum n) = Some n"
| "to_integer (JDbl s) = None"
| "to_integer (JStr s) = string_to_integer s"
| "to_integer (JArr vs) = string_to_integer (to_string (JArr vs))"
| "to_integer (JObj _) = None"

subsection \<open>Arrays\<close>

definition as_array :: "js \<Rightarrow> js_error \<Rightarrow> js list res" where
  "as_array v e = (case v of JArr vs \<Rightarrow> Inr vs | _ \<Rightarrow> Inl e)"

lemma as_array_Inr [simp]: "as_array v e = Inr vs \<longleftrightarrow> v = JArr vs"
  by (cases v) (auto simp: as_array_def)

end
