(* ===== verification/Contracts.thy ===== *)
theory Contracts
  imports Prelude
begin

text \<open>
  The interfaces several components share.  \<open>state_machine\<close> is the contract of every
  transition function of the program: the same state again changes nothing, a state
  outside the table is refused, a permitted one is reached.  \<open>versioned_machine\<close> adds the
  revision counter.  \<open>keyed_store\<close> is what the services ask of a repository.
  \<open>chained_log\<close> is the contract of the append classifiers of the synchronisation and the
  delegation protocols.  Each is interpreted on the code's model in the theory of the
  component that provides it.
\<close>

subsection \<open>Transition functions\<close>

fun run_moves :: "('a \<Rightarrow> 'r \<Rightarrow> 's \<Rightarrow> 'e + 'r) \<Rightarrow> 'r \<Rightarrow> ('a \<times> 's) list \<Rightarrow> 'e + 'r" where
  "run_moves mv r [] = Inr r"
| "run_moves mv r ((a, s) # ms) = bindE (mv a r s) (\<lambda>r'. run_moves mv r' ms)"

definition succ_rel :: "('s \<Rightarrow> 's list) \<Rightarrow> ('s \<times> 's) set" where
  "succ_rel succs = {(a, b). b \<in> set (succs a)}"

locale state_machine =
  fixes st :: "'r \<Rightarrow> 's" and succs :: "'s \<Rightarrow> 's list"
    and move :: "'a \<Rightarrow> 'r \<Rightarrow> 's \<Rightarrow> 'e + 'r"
  assumes move_same: "move a r (st r) = Inr r' \<Longrightarrow> r' = r"
    and move_ok: "move a r s = Inr r' \<Longrightarrow> st r \<noteq> s \<Longrightarrow> s \<in> set (succs (st r)) \<and> st r' = s"
begin

lemma move_denied: "st r \<noteq> s \<Longrightarrow> s \<notin> set (succs (st r)) \<Longrightarrow> \<exists>e. move a r s = Inl e"
  by (cases "move a r s") (auto dest: move_ok)

lemma terminal_move: "succs (st r) = [] \<Longrightarrow> move a r s = Inr r' \<Longrightarrow> r' = r"
  by (metis empty_iff list.set(1) move_ok move_same)

lemma move_step: "move a r s = Inr r' \<Longrightarrow> (st r, st r') \<in> (succ_rel succs)\<^sup>="
  by (cases "st r = s") (auto simp: succ_rel_def dest: move_ok move_same)

lemma run_path: "run_moves move r ms = Inr r' \<Longrightarrow> (st r, st r') \<in> (succ_rel succs)\<^sup>*"
proof (induction ms arbitrary: r)
  case (Cons m ms)
  obtain a s where m: "m = (a, s)" by (cases m)
  with Cons.prems obtain r1 where "move a r s = Inr r1" "run_moves move r1 ms = Inr r'" by auto
  with Cons.IH[of r1] move_step[of a r s r1] show ?case
    by (auto intro: converse_rtrancl_into_rtrancl)
qed simp

lemma run_terminal: "succs (st r) = [] \<Longrightarrow> run_moves move r ms = Inr r' \<Longrightarrow> r' = r"
proof (induction ms arbitrary: r)
  case (Cons m ms)
  obtain a s where m: "m = (a, s)" by (cases m)
  with Cons.prems obtain r1 where "move a r s = Inr r1" "run_moves move r1 ms = Inr r'" by auto
  with Cons.IH[of r1] terminal_move[of r a s r1] Cons.prems(1) show ?case by auto
qed simp

end

locale versioned_machine = state_machine +
  fixes ver :: "'r \<Rightarrow> int"
  assumes move_ver: "move a r s = Inr r' \<Longrightarrow> st r \<noteq> s \<Longrightarrow> ver r' = ver r + 1"
begin

lemma step_ver: "move a r s = Inr r' \<Longrightarrow> r' = r \<or> ver r' = ver r + 1"
  by (cases "st r = s") (auto dest: move_ver move_same)

lemma run_version:
  "run_moves move r ms = Inr r' \<Longrightarrow> ver r \<le> ver r' \<and> ver r' \<le> ver r + int (length ms)"
proof (induction ms arbitrary: r)
  case (Cons m ms)
  obtain a s where m: "m = (a, s)" by (cases m)
  with Cons.prems obtain r1 where "move a r s = Inr r1" "run_moves move r1 ms = Inr r'" by auto
  with Cons.IH[of r1] step_ver[of a r s r1] show ?case by auto
qed simp

lemma run_unchanged: "run_moves move r ms = Inr r' \<Longrightarrow> ver r' = ver r \<Longrightarrow> r' = r"
proof (induction ms arbitrary: r)
  case (Cons m ms)
  obtain a s where m: "m = (a, s)" by (cases m)
  with Cons.prems obtain r1 where r1: "move a r s = Inr r1" "run_moves move r1 ms = Inr r'" by auto
  with step_ver[OF r1(1)] run_version[OF r1(2)] Cons show ?case by auto
qed simp

end

subsection \<open>Repositories\<close>

locale keyed_store =
  fixes lookup :: "'k \<Rightarrow> 's \<Rightarrow> 'v option" and store :: "'v \<Rightarrow> 's \<Rightarrow> 's" and key :: "'v \<Rightarrow> 'k"
  assumes lookup_store: "lookup k (store v s) = (if k = key v then Some v else lookup k s)"
begin

lemma lookup_stored: "lookup (key v) (store v s) = Some v"
  by (simp add: lookup_store)

lemma lookup_other: "k \<noteq> key v \<Longrightarrow> lookup k (store v s) = lookup k s"
  by (simp add: lookup_store)

lemma lookup_fold_other:
  "\<forall>v \<in> set vs. key v \<noteq> k \<Longrightarrow> lookup k (fold store vs s) = lookup k s"
  by (induction vs arbitrary: s) (auto simp: lookup_store)

lemma store_keyed:
  "(\<forall>k v. lookup k s = Some v \<longrightarrow> key v = k) \<Longrightarrow> (\<forall>k v'. lookup k (store v s) = Some v' \<longrightarrow> key v' = k)"
  by (auto simp: lookup_store split: if_splits)

end

subsection \<open>Chained logs\<close>

text \<open>
  A chained log is a list of entries, newest last, each carrying its position and the
  digest of its predecessor; \<open>accepts n d x\<close> is the classifier's verdict on \<open>x\<close> after \<open>n\<close>
  entries whose last digest is \<open>d\<close>.
\<close>

fun chain_ok :: "('x \<Rightarrow> int) \<Rightarrow> ('x \<Rightarrow> 'd option) \<Rightarrow> ('x \<Rightarrow> 'd) \<Rightarrow> int \<Rightarrow> 'd option \<Rightarrow> 'x list \<Rightarrow> bool" where
  "chain_ok pos prev dig n d [] \<longleftrightarrow> True"
| "chain_ok pos prev dig n d (x # xs) \<longleftrightarrow>
     pos x = n + 1 \<and> prev x = d \<and> chain_ok pos prev dig (n + 1) (Some (dig x)) xs"

definition last_digest :: "('x \<Rightarrow> 'd) \<Rightarrow> 'd option \<Rightarrow> 'x list \<Rightarrow> 'd option" where
  "last_digest dig d xs = (if xs = [] then d else Some (dig (last xs)))"

lemma chain_ok_append:
  "chain_ok pos prev dig n d (xs @ [x]) \<longleftrightarrow>
     chain_ok pos prev dig n d xs \<and> pos x = n + int (length xs) + 1 \<and> prev x = last_digest dig d xs"
  by (induction xs arbitrary: n d) (auto simp: last_digest_def)

lemma chain_ok_nth: "chain_ok pos prev dig n d xs \<Longrightarrow> i < length xs \<Longrightarrow> pos (xs ! i) = n + int i + 1"
  by (induction xs arbitrary: n d i) (auto simp: nth_Cons split: nat.splits)

lemma chain_ok_prev: "chain_ok pos prev dig n d xs \<Longrightarrow> Suc i < length xs \<Longrightarrow>
    prev (xs ! Suc i) = Some (dig (xs ! i))"
proof (induction xs arbitrary: n d i)
  case (Cons x xs)
  then show ?case by (cases xs; cases i) auto
qed simp

fun append_all :: "(int \<Rightarrow> 'd option \<Rightarrow> 'x \<Rightarrow> bool) \<Rightarrow> ('x \<Rightarrow> 'd) \<Rightarrow> 'x list \<Rightarrow> 'x list \<Rightarrow> 'x list" where
  "append_all acc dig log [] = log"
| "append_all acc dig log (x # xs) =
     append_all acc dig (if acc (int (length log)) (last_digest dig None log) x then log @ [x] else log) xs"

locale chained_log =
  fixes pos :: "'x \<Rightarrow> int" and prev :: "'x \<Rightarrow> 'd option" and dig :: "'x \<Rightarrow> 'd"
    and accepts :: "int \<Rightarrow> 'd option \<Rightarrow> 'x \<Rightarrow> bool"
  assumes accepts_next: "accepts n d x \<Longrightarrow> 0 \<le> n \<Longrightarrow> (n = 0 \<longrightarrow> d = None) \<Longrightarrow> pos x = n + 1 \<and> prev x = d"
begin

lemma append_step:
  assumes "chain_ok pos prev dig 0 None log" "accepts (int (length log)) (last_digest dig None log) x"
  shows "chain_ok pos prev dig 0 None (log @ [x])"
  using accepts_next[OF assms(2)] assms(1) by (auto simp: chain_ok_append last_digest_def split: if_splits)

lemma append_chain:
  "chain_ok pos prev dig 0 None log \<Longrightarrow> chain_ok pos prev dig 0 None (append_all accepts dig log xs)"
  by (induction xs arbitrary: log) (auto intro: append_step)

lemma append_prefix: "\<exists>ys. append_all accepts dig log xs = log @ ys"
proof (induction xs arbitrary: log)
  case (Cons x xs)
  from Cons[of "log @ [x]"] Cons[of log] show ?case by auto
qed simp

end

end
