(* ===== verification/Workspace.thy ===== *)
theory Workspace
  imports JsValue Contracts
begin

text \<open>
  Identifiers and workspaces (\<open>src/domain/identifiers.cjs\<close>, \<open>src/domain/workspace-model.cjs\<close>):
  the validators every other component calls, the project and workspace records, and the
  checks that a record belongs to the expected workspace.  \<open>now\<close> is the reading of
  \<open>new Date().toISOString()\<close> during the call.
\<close>

subsection \<open>Identifiers\<close>

definition id_char :: "char \<Rightarrow> bool" where
  "id_char c = (is_alnum c \<or> c \<in> {CHR ''.'', CHR ''_'', CHR ''-''})"

definition SAFE_IDENTIFIER :: "string \<Rightarrow> bool" where
  "SAFE_IDENTIFIER s = (case s of [] \<Rightarrow> False
     | c # cs \<Rightarrow> is_alnum c \<and> list_all id_char cs \<and> length cs \<le> 63)"

definition SAFE_GITHUB_NAME :: "string \<Rightarrow> bool" where
  "SAFE_GITHUB_NAME s = (list_all id_char s \<and> 1 \<le> length s \<and> length s \<le> 100)"

definition assertSafeIdentifier :: "js \<Rightarrow> string \<Rightarrow> string res" where
  "assertSafeIdentifier value label = (case value of
      JStr s \<Rightarrow> if SAFE_IDENTIFIER s then Inr s
                else Inl (TypeError (label @ '' must match /^[A-Za-z0-9][A-Za-z0-9._-]{0,63}$/''))
    | _ \<Rightarrow> Inl (TypeError (label @ '' must match /^[A-Za-z0-9][A-Za-z0-9._-]{0,63}$/'')))"

definition assertSafeGitHubName :: "js \<Rightarrow> string \<Rightarrow> string res" where
  "assertSafeGitHubName value label = (case value of
      JStr s \<Rightarrow> if SAFE_GITHUB_NAME s then Inr s
                else Inl (TypeError (label @ '' contains unsupported characters''))
    | _ \<Rightarrow> Inl (TypeError (label @ '' contains unsupported characters'')))"

lemma assertSafeIdentifier_Inr [simp]:
  "assertSafeIdentifier v l = Inr s \<longleftrightarrow> v = JStr s \<and> SAFE_IDENTIFIER s"
  by (auto simp: assertSafeIdentifier_def split: js.splits if_splits)

lemma assertSafeGitHubName_Inr [simp]:
  "assertSafeGitHubName v l = Inr s \<longleftrightarrow> v = JStr s \<and> SAFE_GITHUB_NAME s"
  by (auto simp: assertSafeGitHubName_def split: js.splits if_splits)

lemma SAFE_IDENTIFIER_chars: "SAFE_IDENTIFIER s \<Longrightarrow> c \<in> set s \<Longrightarrow> id_char c"
  by (auto simp: SAFE_IDENTIFIER_def id_char_def list_all_iff split: list.splits)

lemma SAFE_IDENTIFIER_no_sep:
  "SAFE_IDENTIFIER s \<Longrightarrow> CHR '':'' \<notin> set s \<and> CHR ''/'' \<notin> set s \<and> CHR ''*'' \<notin> set s"
  by (auto simp: id_char_def is_alnum_def is_digit_def is_upper_def is_lower_def ccode_def
      dest: SAFE_IDENTIFIER_chars)

lemma SAFE_IDENTIFIER_bounds: "SAFE_IDENTIFIER s \<Longrightarrow> 1 \<le> length s \<and> length s \<le> 64"
  by (auto simp: SAFE_IDENTIFIER_def split: list.splits)

lemma id_char_not_space: "id_char c \<Longrightarrow> \<not> is_space c"
  by (auto simp: id_char_def is_alnum_def is_digit_def is_upper_def is_lower_def is_space_def ccode_def)

lemma SAFE_IDENTIFIER_trim [simp]: "SAFE_IDENTIFIER s \<Longrightarrow> trim_js s = s"
  by (rule trim_no_space) (auto simp: list_all_iff id_char_not_space dest: SAFE_IDENTIFIER_chars)

text \<open>
  Keys built as \<open>`${a}:${b}`\<close> from an identifier without a colon determine both parts.
\<close>

definition colon_key :: "string \<Rightarrow> string \<Rightarrow> string" where
  "colon_key a b = a @ '':'' @ b"

lemma colon_key_inject:
  assumes "CHR '':'' \<notin> set a" "CHR '':'' \<notin> set a'"
  shows "colon_key a b = colon_key a' b' \<longleftrightarrow> a = a' \<and> b = b'"
proof
  assume e: "colon_key a b = colon_key a' b'"
  have "takeWhile (\<lambda>c. c \<noteq> CHR '':'') (colon_key a b) = a"
    using assms(1) unfolding colon_key_def by (subst takeWhile_append2) auto
  moreover have "takeWhile (\<lambda>c. c \<noteq> CHR '':'') (colon_key a' b') = a'"
    using assms(2) unfolding colon_key_def by (subst takeWhile_append2) auto
  ultimately have "a = a'" using e by simp
  with e show "a = a' \<and> b = b'" by (simp add: colon_key_def)
qed simp

subsection \<open>Text and projects\<close>

definition requiredText :: "js \<Rightarrow> string \<Rightarrow> nat \<Rightarrow> string res" where
  "requiredText value label maxLength = (case value of
      JStr s \<Rightarrow> if trim_js s = [] \<or> maxLength < length s
                then Inl (TypeError (label @ '' must be non-empty text up to '' @ nat_digits maxLength @ '' characters''))
                else Inr (trim_js s)
    | _ \<Rightarrow> Inl (TypeError (label @ '' must be non-empty text up to '' @ nat_digits maxLength @ '' characters'')))"

lemma requiredText_Inr [simp]: "requiredText v l n = Inr t \<longleftrightarrow>
    (\<exists>s. v = JStr s \<and> trim_js s \<noteq> [] \<and> length s \<le> n \<and> t = trim_js s)"
  by (auto simp: requiredText_def split: js.splits if_splits)

lemma requiredText_again: "requiredText v l n = Inr t \<Longrightarrow> requiredText (JStr t) l n = Inr t"
  by (auto intro: le_trans[OF length_trim_le])

record project =
  pr_id :: string
  pr_name :: string
  pr_status :: string
  pr_createdAt :: js
  pr_updatedAt :: js

record workspace =
  ws_id :: string
  ws_projectId :: string
  ws_name :: string
  ws_status :: string
  ws_createdAt :: js
  ws_updatedAt :: js

definition createProject :: "string \<Rightarrow> js \<Rightarrow> project res" where
  "createProject now input =
    bindE (assertSafeIdentifier (field input ''id'') ''project id'') (\<lambda>i.
    bindE (requiredText (field input ''name'') ''project name'' 200) (\<lambda>n.
    Inr \<lparr>pr_id = i, pr_name = n, pr_status = ''active'',
      pr_createdAt = or_js (field input ''createdAt'') (JStr now),
      pr_updatedAt = or_js (or_js (field input ''updatedAt'') (field input ''createdAt'')) (JStr now)\<rparr>))"

definition createWorkspace :: "string \<Rightarrow> js \<Rightarrow> workspace res" where
  "createWorkspace now input =
    bindE (assertSafeIdentifier (field input ''id'') ''workspace id'') (\<lambda>i.
    bindE (assertSafeIdentifier (field input ''projectId'') ''project id'') (\<lambda>p.
    bindE (requiredText (field input ''name'') ''workspace name'' 200) (\<lambda>n.
    Inr \<lparr>ws_id = i, ws_projectId = p, ws_name = n, ws_status = ''active'',
      ws_createdAt = or_js (field input ''createdAt'') (JStr now),
      ws_updatedAt = or_js (or_js (field input ''updatedAt'') (field input ''createdAt'')) (JStr now)\<rparr>)))"

text \<open>\<open>None\<close> is the undefined workspace.\<close>

definition assertWorkspace :: "workspace option \<Rightarrow> workspace res" where
  "assertWorkspace workspace = (case workspace of
      None \<Rightarrow> Inl (TypeError ''workspace is required'')
    | Some w \<Rightarrow> bindE (assertSafeIdentifier (JStr (ws_id w)) ''workspace id'') (\<lambda>_.
        if ws_status w \<notin> {''active'', ''archived''} then Inl (Error ''Unsupported workspace status'')
        else Inr w))"

definition archiveWorkspace :: "workspace option \<Rightarrow> js \<Rightarrow> workspace res" where
  "archiveWorkspace workspace occurredAt = bindE (assertWorkspace workspace) (\<lambda>w.
     if ws_status w = ''archived'' then Inr w
     else Inr (w\<lparr>ws_status := ''archived'', ws_updatedAt := occurredAt\<rparr>))"

definition assertWorkspaceActive :: "workspace option \<Rightarrow> workspace res" where
  "assertWorkspaceActive workspace = bindE (assertWorkspace workspace) (\<lambda>w.
     if ws_status w \<noteq> ''active'' then Inl (Error (''Workspace is not active: '' @ ws_id w)) else Inr w)"

text \<open>Each record of the rest argument is its \<open>workspaceId\<close>, or \<open>None\<close> when it is missing.\<close>

definition assertWorkspaceId :: "js \<Rightarrow> string option list \<Rightarrow> string res" where
  "assertWorkspaceId expectedWorkspaceId records =
    bindE (assertSafeIdentifier expectedWorkspaceId ''workspace id'') (\<lambda>expected.
      if list_all (\<lambda>r. r = Some expected) records then Inr expected
      else Inl (Error ''Cross-Workspace reference denied''))"

definition workspace_ok :: "workspace \<Rightarrow> bool" where
  "workspace_ok w \<longleftrightarrow> SAFE_IDENTIFIER (ws_id w) \<and> ws_status w \<in> {''active'', ''archived''}"

lemma createWorkspace_ok: "createWorkspace now input = Inr w \<Longrightarrow> workspace_ok w \<and> ws_status w = ''active''"
  by (auto simp: createWorkspace_def workspace_ok_def)

lemma assertWorkspace_Inr [simp]: "assertWorkspace wo = Inr w \<longleftrightarrow> wo = Some w \<and> workspace_ok w"
  by (auto simp: assertWorkspace_def workspace_ok_def split: option.splits if_splits)

lemma assertWorkspaceActive_Inr [simp]:
  "assertWorkspaceActive wo = Inr w \<longleftrightarrow> wo = Some w \<and> workspace_ok w \<and> ws_status w = ''active''"
  by (auto simp: assertWorkspaceActive_def split: if_splits)

lemma archiveWorkspace_ok: "archiveWorkspace wo t = Inr w \<Longrightarrow> workspace_ok w \<and> ws_status w = ''archived''"
  by (cases wo) (auto simp: archiveWorkspace_def workspace_ok_def split: if_splits)

lemma archived_not_active: "archiveWorkspace wo t = Inr w \<Longrightarrow> \<exists>e. assertWorkspaceActive (Some w) = Inl e"
  by (cases "assertWorkspaceActive (Some w)") (auto dest: archiveWorkspace_ok)

lemma assertWorkspaceId_Inr [simp]: "assertWorkspaceId v rs = Inr s \<longleftrightarrow>
    v = JStr s \<and> SAFE_IDENTIFIER s \<and> (\<forall>r \<in> set rs. r = Some s)"
  by (auto simp: assertWorkspaceId_def list_all_iff split: if_splits)

end
