(* ===== verification/GraphSearch.thy ===== *)
theory GraphSearch
  imports Prelude
begin

text \<open>
  The depth-first cycle search that the execution graph, the execution plan and the
  merge-order check all run: two sets \<open>visiting\<close> and \<open>visited\<close>, a recursive \<open>visit\<close>, an
  exception at a node that is being visited.  \<open>dfs\<close> models the loop over the nodes still
  to visit, with the recursive call for the successors; \<open>visited\<close> is kept in reverse order
  of completion, which makes it a topological order.  The search succeeds exactly on the
  acyclic graphs.
\<close>

lemma dfs_measure:
  assumes "n \<notin> set vg" "map_of adj n = Some ms"
  shows "card (set (map fst adj) - set (n # vg)) < card (set (map fst adj) - set vg)"
proof (rule psubset_card_mono)
  have "n \<in> set (map fst adj)" using assms(2) by (force dest: map_of_SomeD)
  with assms(1) show "set (map fst adj) - set (n # vg) \<subset> set (map fst adj) - set vg" by auto
qed simp

function dfs :: "js_error \<Rightarrow> js_error option \<Rightarrow> ('a \<times> 'a list) list \<Rightarrow> 'a list \<Rightarrow> 'a list \<Rightarrow> 'a list
    \<Rightarrow> 'a list res" where
  "dfs ec em adj visiting visited [] = Inr visited"
| "dfs ec em adj visiting visited (n # ns) =
     (if n \<in> set visiting then Inl ec
      else if n \<in> set visited then dfs ec em adj visiting visited ns
      else case map_of adj n of
          None \<Rightarrow> (case em of Some e \<Rightarrow> Inl e | None \<Rightarrow> dfs ec em adj visiting (n # visited) ns)
        | Some ms \<Rightarrow> (case dfs ec em adj (n # visiting) visited ms of
              Inl e \<Rightarrow> Inl e
            | Inr visited' \<Rightarrow> dfs ec em adj visiting (n # visited') ns))"
  by pat_completeness auto

termination
  by (relation "inv_image (less_than <*lex*> less_than)
        (\<lambda>(ec, em, adj, vg, vd, todo). (card (set (map fst adj) - set vg), length todo))")
     (auto simp: dfs_measure[simplified])

declare dfs.simps(2) [simp del]

definition edges_of :: "('a \<times> 'a list) list \<Rightarrow> ('a \<times> 'a) set" where
  "edges_of adj = {(a, b). \<exists>ms. map_of adj a = Some ms \<and> b \<in> set ms}"

definition succs_known :: "js_error option \<Rightarrow> ('a \<times> 'a list) list \<Rightarrow> bool" where
  "succs_known em adj \<longleftrightarrow> em = None \<or> (\<forall>(a, b) \<in> edges_of adj. b \<in> set (map fst adj))"

subsection \<open>Success yields a topological order\<close>

fun topo :: "('a \<times> 'a list) list \<Rightarrow> 'a list \<Rightarrow> bool" where
  "topo adj [] \<longleftrightarrow> True"
| "topo adj (n # vd) \<longleftrightarrow> n \<notin> set vd \<and> (\<forall>m. (n, m) \<in> edges_of adj \<longrightarrow> m \<in> set vd) \<and> topo adj vd"

lemma dfs_topo:
  "dfs ec em adj vg vd todo = Inr vd' \<Longrightarrow> topo adj vd \<Longrightarrow> set vg \<inter> set vd = {} \<Longrightarrow>
     topo adj vd' \<and> set vd \<subseteq> set vd' \<and> set todo \<subseteq> set vd' \<and> set vg \<inter> set vd' = {}"
proof (induction ec em adj vg vd todo arbitrary: vd' rule: dfs.induct)
  case (2 ec em adj vg vd n ns)
  show ?case
  proof (cases "n \<in> set vd \<or> n \<in> set vg")
    case True
    with "2.prems" "2.IH"(1) show ?thesis by (auto simp: dfs.simps(2) split: if_splits)
  next
    case new: False
    show ?thesis
    proof (cases "map_of adj n")
      case None
      with new "2.prems" have "em = None" and r: "dfs ec em adj vg (n # vd) ns = Inr vd'"
        by (auto simp: dfs.simps(2) split: option.splits)
      with None new "2.prems" "2.IH"(2)[of vd'] show ?thesis by (auto simp: edges_of_def)
    next
      case (Some ms)
      with new "2.prems" obtain vd1 where
        r1: "dfs ec em adj (n # vg) vd ms = Inr vd1" and r2: "dfs ec em adj vg (n # vd1) ns = Inr vd'"
        by (auto simp: dfs.simps(2) split: sum.splits)
      have i1: "topo adj vd1 \<and> set vd \<subseteq> set vd1 \<and> set ms \<subseteq> set vd1 \<and> set (n # vg) \<inter> set vd1 = {}"
        using "2.IH"(3)[OF _ _ Some r1] new "2.prems" by auto
      with Some have "topo adj (n # vd1)" by (auto simp: edges_of_def)
      with "2.IH"(4)[OF _ _ Some r1 r2] new i1 "2.prems" show ?thesis by auto
    qed
  qed
qed auto

lemma topo_step: "topo adj vd \<Longrightarrow> (a, b) \<in> edges_of adj \<Longrightarrow> a \<in> set vd \<Longrightarrow> b \<in> set vd"
  by (induction vd) auto

lemma topo_closed: "(a, b) \<in> (edges_of adj)\<^sup>+ \<Longrightarrow> topo adj vd \<Longrightarrow> a \<in> set vd \<Longrightarrow> b \<in> set vd"
  by (induction rule: trancl_induct) (auto intro: topo_step)

lemma topo_no_cycle: "topo adj vd \<Longrightarrow> a \<in> set vd \<Longrightarrow> (a, a) \<notin> (edges_of adj)\<^sup>+"
proof (induction vd)
  case (Cons n vd)
  show ?case
  proof (cases "a \<in> set vd")
    case True with Cons show ?thesis by simp
  next
    case False
    with Cons.prems have [simp]: "a = n" by simp
    show ?thesis
    proof
      assume "(a, a) \<in> (edges_of adj)\<^sup>+"
      then obtain m where "(n, m) \<in> edges_of adj" and m: "m = n \<or> (m, n) \<in> (edges_of adj)\<^sup>+"
        by (metis \<open>a = n\<close> converse_tranclE)
      with Cons.prems have "m \<in> set vd" and "topo adj vd" and "n \<notin> set vd" by auto
      with m topo_closed[of m n adj vd] show False by auto
    qed
  qed
qed simp

lemma dfs_sound:
  assumes "dfs ec em adj [] [] (map fst adj) = Inr vd"
  shows "acyclic (edges_of adj)"
proof -
  from dfs_topo[OF assms] have t: "topo adj vd" and s: "set (map fst adj) \<subseteq> set vd" by auto
  have "(a, a) \<notin> (edges_of adj)\<^sup>+" for a
  proof
    assume c: "(a, a) \<in> (edges_of adj)\<^sup>+"
    then have "a \<in> set (map fst adj)"
      by (auto simp: edges_of_def dest!: tranclD map_of_SomeD intro: rev_image_eqI)
    with s topo_no_cycle[OF t, of a] c show False by auto
  qed
  then show ?thesis by (simp add: acyclic_def)
qed

subsection \<open>An acyclic graph is accepted\<close>

lemma dfs_complete:
  "acyclic (edges_of adj) \<Longrightarrow> succs_known em adj \<Longrightarrow>
   (\<forall>n \<in> set todo. \<forall>g \<in> set vg. (g, n) \<in> (edges_of adj)\<^sup>+) \<Longrightarrow>
   (em = None \<or> set todo \<subseteq> set (map fst adj)) \<Longrightarrow>
   \<exists>vd'. dfs ec em adj vg vd todo = Inr vd'"
proof (induction ec em adj vg vd todo rule: dfs.induct)
  case (2 ec em adj vg vd n ns)
  have n: "n \<notin> set vg" using "2.prems" by (auto simp: acyclic_def)
  show ?case
  proof (cases "n \<in> set vd")
    case True with n "2.IH"(1) "2.prems" show ?thesis by (auto simp: dfs.simps(2))
  next
    case new: False
    show ?thesis
    proof (cases "map_of adj n")
      case None
      with "2.prems"(4) have "em = None" by (auto simp: map_of_eq_None_iff)
      with None n new "2.IH"(2) "2.prems" show ?thesis by (auto simp: dfs.simps(2))
    next
      case (Some ms)
      then have e: "(n, m) \<in> edges_of adj" if "m \<in> set ms" for m
        using that by (auto simp: edges_of_def)
      have ok: "\<forall>m \<in> set ms. \<forall>g \<in> set (n # vg). (g, m) \<in> (edges_of adj)\<^sup>+"
        using e "2.prems"(3) by (auto intro: trancl_into_trancl)
      have dom: "em = None \<or> set ms \<subseteq> set (map fst adj)"
        using "2.prems"(2) e by (fastforce simp: succs_known_def)
      obtain vd1 where r1: "dfs ec em adj (n # vg) vd ms = Inr vd1"
        using "2.IH"(3)[OF n new Some "2.prems"(1,2) ok dom] by blast
      then obtain vd2 where "dfs ec em adj vg (n # vd1) ns = Inr vd2"
        using "2.IH"(4)[OF n new Some r1] "2.prems" by auto
      with Some n new r1 show ?thesis by (auto simp: dfs.simps(2))
    qed
  qed
qed simp

theorem dfs_accepts_iff_acyclic:
  assumes "succs_known em adj"
  shows "(\<exists>vd. dfs ec em adj [] [] (map fst adj) = Inr vd) \<longleftrightarrow> acyclic (edges_of adj)"
  using dfs_sound dfs_complete[OF _ assms, of "map fst adj" "[]" ec "[]"] by auto

lemma dfs_error:
  assumes "succs_known em adj" "dfs ec em adj vg vd todo = Inl e"
    "em = None \<or> set todo \<subseteq> set (map fst adj)"
  shows "e = ec"
  using assms
proof (induction ec em adj vg vd todo rule: dfs.induct)
  case (2 ec em adj vg vd n ns)
  show ?case
  proof (cases "n \<in> set vg \<or> n \<in> set vd")
    case True with 2 show ?thesis by (auto simp: dfs.simps(2) split: if_splits)
  next
    case new: False
    show ?thesis
    proof (cases "map_of adj n")
      case None
      with "2.prems"(3) have "em = None" by (auto simp: map_of_eq_None_iff)
      with None new 2 show ?thesis by (auto simp: dfs.simps(2))
    next
      case (Some ms)
      then have dom: "em = None \<or> set ms \<subseteq> set (map fst adj)"
        using "2.prems"(1) by (fastforce simp: succs_known_def edges_of_def)
      with Some new 2 show ?thesis by (auto simp: dfs.simps(2) split: sum.splits)
    qed
  qed
qed simp

end
