(* ===== verification/TaskGraph.thy ===== *)
theory TaskGraph
  imports Workspace GraphSearch
begin

text \<open>
  The execution graph of \<open>src/domain/execution-graph-model.cjs\<close>: task nodes, dependency
  edges, the validation of a graph, the readiness of a task and the state machine of a
  task node.
\<close>

subsection \<open>Records\<close>

record exec_graph =
  eg_id :: string
  eg_workspaceId :: string
  eg_name :: string
  eg_status :: string

record task_node =
  tn_id :: string
  tn_workspaceId :: string
  tn_graphId :: string
  tn_agentId :: string
  tn_installationId :: string
  tn_capabilityAction :: string
  tn_target :: string
  tn_input :: js
  tn_state :: string
  tn_version :: int
  tn_lastReason :: js

record dep_edge =
  de_graphId :: string
  de_from :: string
  de_to :: string
  de_condition :: string

definition NODE_STATES :: "string list" where
  "NODE_STATES = [''draft'', ''queued'', ''ready'', ''waiting_dependency'', ''waiting_resource'',
    ''waiting_human'', ''active'', ''completed'', ''failed'', ''cancelled'']"

definition ALLOWED_TRANSITIONS :: "(string \<times> string list) list" where
  "ALLOWED_TRANSITIONS =
    [(''draft'', [''queued'', ''cancelled'']),
     (''queued'', [''ready'', ''waiting_dependency'', ''waiting_resource'', ''waiting_human'', ''cancelled'']),
     (''ready'', [''waiting_resource'', ''waiting_human'', ''active'', ''cancelled'']),
     (''waiting_dependency'', [''ready'', ''cancelled'']),
     (''waiting_resource'', [''ready'', ''waiting_human'', ''cancelled'']),
     (''waiting_human'', [''ready'', ''active'', ''failed'', ''cancelled'']),
     (''active'', [''waiting_human'', ''completed'', ''failed'']),
     (''completed'', []),
     (''failed'', []),
     (''cancelled'', [])]"

text \<open>\<open>TABLE[state]?.has(next)\<close>\<close>

definition table_succs :: "(string \<times> string list) list \<Rightarrow> string \<Rightarrow> string list" where
  "table_succs table s = (case map_of table s of Some ns \<Rightarrow> ns | None \<Rightarrow> [])"

definition createExecutionGraph :: "js \<Rightarrow> js \<Rightarrow> js \<Rightarrow> exec_graph res" where
  "createExecutionGraph i workspaceId name =
    bindE (assertSafeIdentifier i ''execution graph id'') (\<lambda>gid.
    bindE (assertSafeIdentifier workspaceId ''workspace id'') (\<lambda>wid.
    bindE (requiredText name ''execution graph name'' 200) (\<lambda>n.
    Inr \<lparr>eg_id = gid, eg_workspaceId = wid, eg_name = n, eg_status = ''active''\<rparr>)))"

definition createTaskNode :: "js \<Rightarrow> task_node res" where
  "createTaskNode input =
    (let state = or_js (field input ''state'') (JStr ''draft'') in
     case state of JStr s \<Rightarrow>
       (if s \<notin> set NODE_STATES then Inl (Error (''Unsupported task state: '' @ s))
        else
          bindE (assertSafeIdentifier (field input ''id'') ''task id'') (\<lambda>i.
          bindE (assertSafeIdentifier (field input ''workspaceId'') ''workspace id'') (\<lambda>w.
          bindE (assertSafeIdentifier (field input ''graphId'') ''execution graph id'') (\<lambda>g.
          bindE (assertSafeIdentifier (field input ''agentId'') ''agent id'') (\<lambda>a.
          bindE (assertSafeIdentifier (field input ''installationId'') ''capability installation id'') (\<lambda>n.
          bindE (assertSafeIdentifier (field input ''capabilityAction'') ''capability action'') (\<lambda>c.
          bindE (requiredText (field input ''target'') ''task target'' 500) (\<lambda>t.
          Inr \<lparr>tn_id = i, tn_workspaceId = w, tn_graphId = g, tn_agentId = a, tn_installationId = n,
            tn_capabilityAction = c, tn_target = t, tn_input = or_js (field input ''input'') (JObj []),
            tn_state = s, tn_version = (case field input ''version'' of JNum v \<Rightarrow> v | _ \<Rightarrow> 0),
            tn_lastReason = or_js (field input ''lastReason'') (JStr ''created'')\<rparr>))))))))
     | _ \<Rightarrow> Inl (Error (''Unsupported task state: '' @ to_string state)))"

definition createDependencyEdge :: "js \<Rightarrow> dep_edge res" where
  "createDependencyEdge input =
    (if \<not> includes_str [''completed'', ''evidence_accepted''] (field input ''condition'')
     then Inl (Error ''Unsupported dependency condition'')
     else
       bindE (assertSafeIdentifier (field input ''graphId'') ''execution graph id'') (\<lambda>g.
       bindE (assertSafeIdentifier (field input ''fromTaskId'') ''from task id'') (\<lambda>f.
       bindE (assertSafeIdentifier (field input ''toTaskId'') ''to task id'') (\<lambda>t.
       Inr \<lparr>de_graphId = g, de_from = f, de_to = t, de_condition = to_string (field input ''condition'')\<rparr>))))"

subsection \<open>Validation of a graph\<close>

text \<open>The loop over the tasks: \<open>ids\<close> are the keys of \<open>taskById\<close> so far.\<close>

fun check_tasks :: "string \<Rightarrow> string list \<Rightarrow> task_node list \<Rightarrow> string list res" where
  "check_tasks gid ids [] = Inr ids"
| "check_tasks gid ids (t # ts) =
     (if tn_graphId t \<noteq> gid then Inl (Error ''Task belongs to another graph'')
      else if tn_id t \<in> set ids then Inl (Error (''Duplicate task id: '' @ tn_id t))
      else check_tasks gid (ids @ [tn_id t]) ts)"

text \<open>The loop over the edges, filling the adjacency lists.\<close>

definition push_edge :: "string \<Rightarrow> string \<Rightarrow> (string \<times> string list) list \<Rightarrow> (string \<times> string list) list" where
  "push_edge a b adj = map (\<lambda>(k, vs). if k = a then (k, vs @ [b]) else (k, vs)) adj"

fun check_edges :: "string \<Rightarrow> string list \<Rightarrow> (string \<times> string list) list \<Rightarrow> dep_edge list
    \<Rightarrow> (string \<times> string list) list res" where
  "check_edges gid ids adj [] = Inr adj"
| "check_edges gid ids adj (e # es) =
     (if de_graphId e \<noteq> gid then Inl (Error ''Dependency belongs to another graph'')
      else if de_from e = de_to e then Inl (Error ''Task cannot depend on itself'')
      else if de_from e \<notin> set ids \<or> de_to e \<notin> set ids then Inl (Error ''Dependency references an unknown task'')
      else check_edges gid ids (push_edge (de_from e) (de_to e) adj) es)"

definition validateExecutionGraph :: "exec_graph option \<Rightarrow> task_node list option \<Rightarrow> dep_edge list option
    \<Rightarrow> (exec_graph \<times> task_node list \<times> dep_edge list) res" where
  "validateExecutionGraph graph tasks edges = (case (graph, tasks, edges) of
      (Some g, Some ts, Some es) \<Rightarrow>
        bindE (assertWorkspaceId (JStr (eg_workspaceId g)) (map (\<lambda>t. Some (tn_workspaceId t)) ts)) (\<lambda>_.
        bindE (check_tasks (eg_id g) [] ts) (\<lambda>ids.
        bindE (check_edges (eg_id g) ids (map (\<lambda>t. (tn_id t, [])) ts) es) (\<lambda>adj.
        bindE (dfs (Error ''Execution graph contains a cycle'')
                 (Some (TypeError ''adjacency.get(taskId) is not iterable'')) adj [] [] (map fst adj)) (\<lambda>_.
        Inr (g, ts, es)))))
    | _ \<Rightarrow> Inl (TypeError ''graph, tasks, and edges are required''))"

text \<open>What the validation promises.\<close>

definition dep_rel :: "dep_edge list \<Rightarrow> (string \<times> string) set" where
  "dep_rel es = (\<lambda>e. (de_from e, de_to e)) ` set es"

definition graph_wf :: "exec_graph \<Rightarrow> task_node list \<Rightarrow> dep_edge list \<Rightarrow> bool" where
  "graph_wf g ts es \<longleftrightarrow> SAFE_IDENTIFIER (eg_workspaceId g) \<and>
     (\<forall>t \<in> set ts. tn_workspaceId t = eg_workspaceId g \<and> tn_graphId t = eg_id g) \<and>
     distinct (map tn_id ts) \<and>
     (\<forall>e \<in> set es. de_graphId e = eg_id g \<and> de_from e \<in> tn_id ` set ts \<and> de_to e \<in> tn_id ` set ts) \<and>
     acyclic (dep_rel es)"

lemma check_tasks_Inr: "check_tasks gid ids ts = Inr ids' \<longleftrightarrow>
    (\<forall>t \<in> set ts. tn_graphId t = gid) \<and> (\<forall>i \<in> set (map tn_id ts). i \<notin> set ids) \<and>
    distinct (map tn_id ts) \<and> ids' = ids @ map tn_id ts"
proof (induction ts arbitrary: ids)
  case (Cons t ts)
  show ?case
    by (simp add: Cons.IH image_iff eq_commute[of "tn_id t"] cong: conj_cong) blast
qed auto

lemma keys_push_edge [simp]: "map fst (push_edge a b adj) = map fst adj"
  by (induction adj) (auto simp: push_edge_def)

lemma map_of_push_edge: "map_of (push_edge a b adj) k =
    map_option (\<lambda>vs. if k = a then vs @ [b] else vs) (map_of adj k)"
  by (induction adj) (auto simp: push_edge_def)

lemma edges_push_edge:
  assumes "a \<in> set (map fst adj)"
  shows "edges_of (push_edge a b adj) = insert (a, b) (edges_of adj)"
proof -
  obtain vs where vs: "map_of adj a = Some vs" using assms by (metis map_of_eq_None_iff not_None_eq set_map)
  have "(x, y) \<in> edges_of (push_edge a b adj) \<longleftrightarrow> (x, y) = (a, b) \<or> (x, y) \<in> edges_of adj" for x y
    by (cases "x = a") (auto simp: edges_of_def map_of_push_edge vs)
  then show ?thesis by auto
qed

definition edge_ok :: "string \<Rightarrow> string list \<Rightarrow> dep_edge \<Rightarrow> bool" where
  "edge_ok gid ids e \<longleftrightarrow> de_graphId e = gid \<and> de_from e \<noteq> de_to e \<and> de_from e \<in> set ids \<and> de_to e \<in> set ids"

lemma check_edges_Cons: "check_edges gid ids adj (e # es) = Inr adj' \<longleftrightarrow>
    edge_ok gid ids e \<and> check_edges gid ids (push_edge (de_from e) (de_to e) adj) es = Inr adj'"
  by (auto simp: edge_ok_def)

lemma dep_rel_Cons: "dep_rel (e # es) = insert (de_from e, de_to e) (dep_rel es)"
  by (simp add: dep_rel_def)

declare check_edges.simps(2) [simp del]

lemma check_edges_Inr:
  "set ids = set (map fst adj) \<Longrightarrow> check_edges gid ids adj es = Inr adj' \<Longrightarrow>
     (\<forall>e \<in> set es. edge_ok gid ids e) \<and>
     map fst adj' = map fst adj \<and> edges_of adj' = edges_of adj \<union> dep_rel es"
proof (induction es arbitrary: adj)
  case (Cons e es)
  then have e: "edge_ok gid ids e" and r: "check_edges gid ids (push_edge (de_from e) (de_to e) adj) es = Inr adj'"
    by (auto simp: check_edges_Cons)
  then have "de_from e \<in> set (map fst adj)" using Cons.prems(1) by (simp add: edge_ok_def)
  with Cons.IH[OF _ r] Cons.prems(1) e show ?case
    by (simp add: edges_push_edge dep_rel_Cons)
qed (simp add: dep_rel_def)

lemma check_edges_total:
  "(\<forall>e \<in> set es. edge_ok gid ids e) \<Longrightarrow> \<exists>adj'. check_edges gid ids adj es = Inr adj'"
  by (induction es arbitrary: adj) (auto simp: check_edges_Cons)

lemma edges_of_empty: "edges_of (map (\<lambda>t. (f t, [] :: 'b list)) ts) = {}"
proof -
  have n: "map_of (map (\<lambda>t. (f t, [] :: 'b list)) ts) a = Some ms \<Longrightarrow> ms = []" for a ms
    by (auto dest!: map_of_SomeD)
  show ?thesis by (auto simp: edges_of_def dest!: n)
qed

lemma acyclic_dep_irrefl: "acyclic (dep_rel es) \<Longrightarrow> e \<in> set es \<Longrightarrow> de_from e \<noteq> de_to e"
  by (force simp: acyclic_def dep_rel_def)

lemma validate_adj:
  assumes "check_edges gid (map tn_id ts) (map (\<lambda>t. (tn_id t, [])) ts) es = Inr adj"
  shows "map fst adj = map tn_id ts" "edges_of adj = dep_rel es" "succs_known (Some e) adj"
    "\<forall>e \<in> set es. edge_ok gid (map tn_id ts) e"
proof -
  have k: "set (map tn_id ts) = set (map fst (map (\<lambda>t. (tn_id t, [] :: string list)) ts))" by force
  from check_edges_Inr[OF k assms] show a: "map fst adj = map tn_id ts" "edges_of adj = dep_rel es"
    and c: "\<forall>e \<in> set es. edge_ok gid (map tn_id ts) e"
    by (auto simp: edges_of_empty comp_def)
  have "set (map fst adj) = set (map tn_id ts)" using a(1) by simp
  with a(2) c show "succs_known (Some e) adj"
    by (auto simp: succs_known_def dep_rel_def edge_ok_def)
qed

lemma graph_accepted_wf:
  assumes "\<exists>r. validateExecutionGraph (Some g) (Some ts) (Some es) = Inr r"
  shows "graph_wf g ts es"
proof -
  from assms obtain adj vd where
    w: "SAFE_IDENTIFIER (eg_workspaceId g)" "\<forall>t \<in> set ts. tn_workspaceId t = eg_workspaceId g"
    and t: "\<forall>t \<in> set ts. tn_graphId t = eg_id g" "distinct (map tn_id ts)"
    and e: "check_edges (eg_id g) (map tn_id ts) (map (\<lambda>t. (tn_id t, [])) ts) es = Inr adj"
    and d: "dfs (Error ''Execution graph contains a cycle'')
              (Some (TypeError ''adjacency.get(taskId) is not iterable'')) adj [] [] (map fst adj) = Inr vd"
    by (auto simp: validateExecutionGraph_def check_tasks_Inr)
  from dfs_sound[OF d] validate_adj[OF e] w t show ?thesis
    by (auto simp: graph_wf_def edge_ok_def)
qed

text \<open>
  C10: A graph is accepted exactly when every task belongs to the graph and its workspace,
  task ids are unique, every dependency joins two tasks of the graph, and the dependency
  relation is acyclic: the depth-first search neither misses a cycle nor refuses a graph
  without one.
\<close>

theorem validate_iff_wf:
  "(\<exists>r. validateExecutionGraph (Some g) (Some ts) (Some es) = Inr r) \<longleftrightarrow> graph_wf g ts es"
  (is "?L \<longleftrightarrow> ?R")
proof
  assume ?L
  then show ?R by (rule graph_accepted_wf)
next
  assume r: ?R
  then have ok: "\<forall>e \<in> set es. edge_ok (eg_id g) (map tn_id ts) e"
    by (auto simp: graph_wf_def edge_ok_def dest: acyclic_dep_irrefl)
  from check_edges_total[OF ok] obtain adj where
    e: "check_edges (eg_id g) (map tn_id ts) (map (\<lambda>t. (tn_id t, [])) ts) es = Inr adj" by blast
  have "acyclic (edges_of adj)" using validate_adj[OF e] r by (simp add: graph_wf_def)
  then obtain vd where "dfs (Error ''Execution graph contains a cycle'')
      (Some (TypeError ''adjacency.get(taskId) is not iterable'')) adj [] [] (map fst adj) = Inr vd"
    using dfs_accepts_iff_acyclic[OF validate_adj(3)[OF e]] by blast
  with r e show ?L
    by (auto simp: validateExecutionGraph_def check_tasks_Inr graph_wf_def)
qed

subsection \<open>Readiness\<close>

definition edge_satisfied :: "task_node option \<Rightarrow> string \<Rightarrow> string list \<Rightarrow> bool" where
  "edge_satisfied source condition accepted =
     (if condition = ''completed''
      then (case source of Some t \<Rightarrow> tn_state t = ''completed'' | None \<Rightarrow> False)
      else (case source of Some t \<Rightarrow> tn_state t = ''completed'' \<and> tn_id t \<in> set accepted | None \<Rightarrow> False))"

definition evaluateTaskDependencies :: "string \<Rightarrow> task_node list \<Rightarrow> dep_edge list \<Rightarrow> string list
    \<Rightarrow> (bool \<times> (string \<times> string) list) res" where
  "evaluateTaskDependencies taskId tasks edges acceptedEvidenceTaskIds =
    (if index_by tn_id tasks taskId = None then Inl (Error (''Unknown task: '' @ taskId))
     else let blockers = map (\<lambda>e. (de_from e, de_condition e))
            (filter (\<lambda>e. de_to e = taskId \<and>
               \<not> edge_satisfied (index_by tn_id tasks (de_from e)) (de_condition e) acceptedEvidenceTaskIds) edges)
          in Inr (blockers = [], blockers))"

definition dependency_met :: "task_node list \<Rightarrow> string list \<Rightarrow> dep_edge \<Rightarrow> bool" where
  "dependency_met ts acc e \<longleftrightarrow> (\<exists>t \<in> set ts. tn_id t = de_from e \<and> tn_state t = ''completed'' \<and>
     (de_condition e \<noteq> ''completed'' \<longrightarrow> tn_id t \<in> set acc))"

lemma edge_satisfied_iff:
  assumes d: "distinct (map tn_id ts)" and t: "t \<in> set ts" "tn_id t = de_from e"
  shows "edge_satisfied (index_by tn_id ts (de_from e)) (de_condition e) acc \<longleftrightarrow> dependency_met ts acc e"
proof -
  have i: "index_by tn_id ts (de_from e) = Some t" using index_by_distinct[OF d t(1)] t(2) by simp
  have inj: "inj_on tn_id (set ts)" using d by (simp add: distinct_map)
  have u: "t' = t" if "t' \<in> set ts" "tn_id t' = de_from e" for t'
    using inj_onD[OF inj _ that(1) t(1)] that(2) t(2) by simp
  have "(\<exists>t' \<in> set ts. tn_id t' = de_from e \<and> P t') \<longleftrightarrow> P t" for P
    using u t by metis
  with i show ?thesis by (simp add: edge_satisfied_def dependency_met_def)
qed

lemma evaluate_wf:
  assumes "graph_wf g ts es" "i \<in> tn_id ` set ts"
  shows "evaluateTaskDependencies i ts es acc =
    (let bs = map (\<lambda>e. (de_from e, de_condition e)) (filter (\<lambda>e. de_to e = i \<and> \<not> dependency_met ts acc e) es) in Inr (bs = [], bs))"
proof -
  have "edge_satisfied (index_by tn_id ts (de_from e)) (de_condition e) acc \<longleftrightarrow> dependency_met ts acc e"
    if "e \<in> set es" for e
  proof -
    from assms(1) that obtain t where "distinct (map tn_id ts)" "t \<in> set ts" "tn_id t = de_from e"
      by (auto simp: graph_wf_def)
    then show ?thesis by (rule edge_satisfied_iff)
  qed
  then have "filter (\<lambda>e. de_to e = i \<and> \<not> edge_satisfied (index_by tn_id ts (de_from e)) (de_condition e) acc) es =
      filter (\<lambda>e. de_to e = i \<and> \<not> dependency_met ts acc e) es" by (intro filter_cong) auto
  moreover have "index_by tn_id ts i \<noteq> None" using assms(2) by (simp add: index_by_None)
  ultimately show ?thesis by (simp add: evaluateTaskDependencies_def Let_def)
qed

text \<open>
  C11: In a valid graph a task is ready exactly when the source of each of its dependencies
  is completed and, for an \<open>evidence_accepted\<close> dependency, its evidence was accepted; the
  blockers are exactly the dependencies that are not met.
\<close>

theorem ready_iff_dependencies:
  assumes "graph_wf g ts es" "i \<in> tn_id ` set ts"
  shows "\<exists>bs. evaluateTaskDependencies i ts es acc = Inr (bs = [], bs) \<and>
    (bs = [] \<longleftrightarrow> (\<forall>e \<in> set es. de_to e = i \<longrightarrow> dependency_met ts acc e)) \<and>
    set bs = {(de_from e, de_condition e) | e. e \<in> set es \<and> de_to e = i \<and> \<not> dependency_met ts acc e}"
  unfolding evaluate_wf[OF assms] Let_def
  by (intro exI[of _ "map (\<lambda>e. (de_from e, de_condition e)) (filter (\<lambda>e. de_to e = i \<and> \<not> dependency_met ts acc e) es)"])
    (auto simp: filter_empty_conv)

lemma acyclic_finite_source:
  assumes "acyclic r" "finite A" "A \<noteq> {}"
  shows "\<exists>x \<in> A. \<forall>y \<in> A. (y, x) \<notin> r"
proof -
  have "finite (r \<inter> A \<times> A)" using assms(2) by (simp add: finite_cartesian_product)
  moreover have "acyclic (r \<inter> A \<times> A)" using assms(1) by (rule acyclic_subset) blast
  ultimately have "wf (r \<inter> A \<times> A)" by (rule finite_acyclic_wf)
  with assms(3) obtain x where "x \<in> A" "\<And>y. (y, x) \<in> r \<inter> A \<times> A \<Longrightarrow> y \<notin> A"
    by (metis ex_in_conv wf_eq_minimal)
  then show ?thesis by blast
qed

text \<open>Who waits for whom: the dependencies that are not met.\<close>

definition waits :: "task_node list \<Rightarrow> dep_edge list \<Rightarrow> string list \<Rightarrow> (string \<times> string) set" where
  "waits ts es acc = {(de_from e, de_to e) | e. e \<in> set es \<and> \<not> dependency_met ts acc e}"

lemma no_waits_ready:
  assumes "graph_wf g ts es" "i \<in> tn_id ` set ts" "\<And>x. (x, i) \<notin> waits ts es acc"
  shows "evaluateTaskDependencies i ts es acc = Inr (True, [])"
proof -
  have "filter (\<lambda>e. de_to e = i \<and> \<not> dependency_met ts acc e) es = []"
    using assms(3) by (auto simp: filter_empty_conv waits_def)
  then show ?thesis by (simp add: evaluate_wf[OF assms(1,2)])
qed

lemma waits_tasks:
  assumes "graph_wf g ts es" "(x, y) \<in> (waits ts es acc)\<^sup>+"
  shows "x \<in> tn_id ` set ts"
proof -
  from assms(2) obtain z where "(x, z) \<in> waits ts es acc" by (meson tranclD)
  with assms(1) show ?thesis by (auto simp: graph_wf_def waits_def)
qed

text \<open>
  C12: A valid graph cannot deadlock.  Whatever holds a blocked task back, following the unmet
  dependencies backwards from it ends at a task that nothing blocks: all its own dependencies are
  met, and it is either not completed yet (it can run, or has failed or was cancelled), or completed
  without accepted evidence while a dependency asks for it.  So tasks never wait for each other in
  a circle; only such a task at the end of the chain can hold the others up.
\<close>

theorem blocked_task_waits_for_unblocked:
  assumes wf: "graph_wf g ts es" and t: "t \<in> set ts" and blocked: "evaluateTaskDependencies (tn_id t) ts es acc = Inr (False, bs)"
  shows "\<exists>c \<in> set ts. evaluateTaskDependencies (tn_id c) ts es acc = Inr (True, []) \<and>
    (tn_id c, tn_id t) \<in> {(de_from e, de_to e) | e. e \<in> set es \<and> \<not> dependency_met ts acc e}\<^sup>+ \<and>
    (tn_state c \<noteq> ''completed'' \<or>
     tn_id c \<notin> set acc \<and> (\<exists>e \<in> set es. de_from e = tn_id c \<and> de_condition e \<noteq> ''completed''))"
proof -
  let ?W = "waits ts es acc"
  let ?A = "{x. (x, tn_id t) \<in> ?W\<^sup>+}"
  have "?A \<subseteq> tn_id ` set ts" using waits_tasks[OF wf] by blast
  then have fin: "finite ?A" by (rule finite_subset) simp
  have "\<exists>x. (x, tn_id t) \<in> ?W"
    using blocked no_waits_ready[OF wf, of "tn_id t" acc] t by auto
  then have ne: "?A \<noteq> {}" by (auto intro: r_into_trancl)
  have "?W \<subseteq> dep_rel es" by (auto simp: waits_def dep_rel_def)
  with wf have "acyclic ?W" by (auto simp: graph_wf_def intro: acyclic_subset)
  from acyclic_finite_source[OF this fin ne] obtain x where x: "(x, tn_id t) \<in> ?W\<^sup>+" and min: "\<forall>y \<in> ?A. (y, x) \<notin> ?W" by blast
  have free: "(y, x) \<notin> ?W" for y using min x trancl_into_trancl2[of y x ?W "tn_id t"] by blast
  obtain c where c: "c \<in> set ts" "tn_id c = x" using waits_tasks[OF wf x] by blast
  have r: "evaluateTaskDependencies (tn_id c) ts es acc = Inr (True, [])"
    using no_waits_ready[OF wf _ free] c by blast
  from x obtain z where "(x, z) \<in> ?W" by (meson tranclD)
  then obtain e where e: "e \<in> set es" "de_from e = tn_id c" "\<not> dependency_met ts acc e" using c by (auto simp: waits_def)
  then have "tn_state c \<noteq> ''completed'' \<or> de_condition e \<noteq> ''completed'' \<and> tn_id c \<notin> set acc"
    using c(1) by (auto simp: dependency_met_def)
  with r c e x show ?thesis by (intro bexI[of _ c]) (auto simp: waits_def)
qed

subsection \<open>The state machine of a task node\<close>

definition transitionTaskNode :: "task_node \<Rightarrow> js \<Rightarrow> js \<Rightarrow> task_node res" where
  "transitionTaskNode task nextState reason =
    (if \<not> includes_str NODE_STATES nextState then Inl (Error (''Unsupported task state: '' @ to_string nextState))
     else let next = to_string nextState in
       if tn_state task = next then Inr task
       else if next \<notin> set (table_succs ALLOWED_TRANSITIONS (tn_state task))
       then Inl (Error (''Invalid S1 task transition: '' @ tn_state task @ '' -> '' @ next))
       else bindE (requiredText reason ''transition reason'' 200) (\<lambda>r.
         Inr (task\<lparr>tn_state := next, tn_version := tn_version task + 1, tn_lastReason := JStr r\<rparr>)))"

lemma transitionTaskNode_same: "transitionTaskNode t (JStr (tn_state t)) reason = Inr t' \<Longrightarrow> t' = t"
  by (simp add: transitionTaskNode_def)

lemma transitionTaskNode_moved:
  assumes "transitionTaskNode t (JStr s) reason = Inr t'" "tn_state t \<noteq> s"
  shows "s \<in> set (table_succs ALLOWED_TRANSITIONS (tn_state t)) \<and> tn_state t' = s \<and> tn_version t' = tn_version t + 1"
proof -
  have "s \<in> set (table_succs ALLOWED_TRANSITIONS (tn_state t))"
    and "\<exists>r. t' = t\<lparr>tn_state := s, tn_version := tn_version t + 1, tn_lastReason := JStr r\<rparr>"
    using assms by (simp_all add: transitionTaskNode_def del: requiredText_Inr) blast
  then show ?thesis by auto
qed

interpretation node: versioned_machine tn_state "table_succs ALLOWED_TRANSITIONS"
  "\<lambda>reason t s. transitionTaskNode t (JStr s) reason" tn_version
  by unfold_locales (auto dest: transitionTaskNode_same transitionTaskNode_moved)

text \<open>
  Along any sequence of transitions of a task node, the states follow the permitted
  transitions, a completed, failed or cancelled node never changes again, and the version
  grows by one with each effective change, so equal versions mean an unchanged node.
\<close>

theorem task_node_lifecycle:
  assumes "run_moves (\<lambda>reason t s. transitionTaskNode t (JStr s) reason) t ms = Inr t'"
  shows "(tn_state t, tn_state t') \<in> (succ_rel (table_succs ALLOWED_TRANSITIONS))\<^sup>* \<and>
    (tn_state t \<in> {''completed'', ''failed'', ''cancelled''} \<longrightarrow> t' = t) \<and>
    tn_version t \<le> tn_version t' \<and> tn_version t' \<le> tn_version t + int (length ms) \<and>
    (tn_version t' = tn_version t \<longrightarrow> t' = t)"
proof -
  have "t' = t" if "tn_state t \<in> {''completed'', ''failed'', ''cancelled''}"
  proof (rule node.run_terminal[OF _ assms])
    show "table_succs ALLOWED_TRANSITIONS (tn_state t) = []"
      using that by (auto simp: table_succs_def ALLOWED_TRANSITIONS_def)
  qed
  with node.run_path[OF assms] node.run_version[OF assms] node.run_unchanged[OF assms]
  show ?thesis by blast
qed

subsection \<open>Witnesses\<close>

definition ex_graph :: exec_graph where
  "ex_graph = \<lparr>eg_id = ''g'', eg_workspaceId = ''w'', eg_name = ''G'', eg_status = ''active''\<rparr>"

definition ex_task :: "string \<Rightarrow> string \<Rightarrow> task_node" where
  "ex_task i s = \<lparr>tn_id = i, tn_workspaceId = ''w'', tn_graphId = ''g'', tn_agentId = ''a'', tn_installationId = ''n'',
     tn_capabilityAction = ''act'', tn_target = ''t'', tn_input = JObj [], tn_state = s, tn_version = 0,
     tn_lastReason = JStr ''created''\<rparr>"

definition ex_edge :: "string \<Rightarrow> string \<Rightarrow> dep_edge" where
  "ex_edge a b = \<lparr>de_graphId = ''g'', de_from = a, de_to = b, de_condition = ''completed''\<rparr>"

lemma ex_graph_wf:
  "graph_wf ex_graph [ex_task ''a'' ''completed'', ex_task ''b'' ''queued''] [ex_edge ''a'' ''b'']"
proof -
  have "\<exists>r. validateExecutionGraph (Some ex_graph)
      (Some [ex_task ''a'' ''completed'', ex_task ''b'' ''queued'']) (Some [ex_edge ''a'' ''b'']) = Inr r"
    by (simp add: validateExecutionGraph_def ex_graph_def ex_task_def ex_edge_def push_edge_def dfs.simps(2)
        check_edges.simps(2)) code_simp
  then show ?thesis by (rule graph_accepted_wf)
qed

lemma ready_iff_dependencies_witness:
  "\<exists>bs. evaluateTaskDependencies ''b'' [ex_task ''a'' ''completed'', ex_task ''b'' ''queued'']
      [ex_edge ''a'' ''b''] [] = Inr (bs = [], bs)"
  using ready_iff_dependencies[OF ex_graph_wf, of "''b''" "[]"] by (auto simp: ex_task_def)

lemma ex_waiting_wf:
  "graph_wf ex_graph [ex_task ''a'' ''failed'', ex_task ''b'' ''queued''] [ex_edge ''a'' ''b'']"
  using ex_graph_wf by (simp add: graph_wf_def ex_task_def)

lemma blocked_task_waits_for_unblocked_witness:
  "\<exists>c \<in> set [ex_task ''a'' ''failed'', ex_task ''b'' ''queued''].
     evaluateTaskDependencies (tn_id c) [ex_task ''a'' ''failed'', ex_task ''b'' ''queued''] [ex_edge ''a'' ''b''] [] = Inr (True, [])"
proof -
  let ?ts = "[ex_task ''a'' ''failed'', ex_task ''b'' ''queued'']"
  have "evaluateTaskDependencies ''b'' ?ts [ex_edge ''a'' ''b''] [] = Inr (False, [(''a'', ''completed'')])" by code_simp
  then have "evaluateTaskDependencies (tn_id (ex_task ''b'' ''queued'')) ?ts [ex_edge ''a'' ''b''] [] = Inr (False, [(''a'', ''completed'')])"
    by (simp add: ex_task_def)
  from blocked_task_waits_for_unblocked[OF ex_waiting_wf _ this] show ?thesis by auto
qed

lemma task_node_lifecycle_witness:
  "\<exists>t'. run_moves (\<lambda>reason t s. transitionTaskNode t (JStr s) reason) (ex_task ''b'' ''queued'')
      [(JStr ''go'', ''ready''), (JStr ''run'', ''active''), (JStr ''done'', ''completed'')] = Inr t' \<and>
    tn_version t' \<le> 3"
proof -
  let ?r = "run_moves (\<lambda>reason t s. transitionTaskNode t (JStr s) reason) (ex_task ''b'' ''queued'')
      [(JStr ''go'', ''ready''), (JStr ''run'', ''active''), (JStr ''done'', ''completed'')]"
  have "\<not> isl ?r" by code_simp
  then obtain t' where r: "?r = Inr t'" by (cases ?r) auto
  from task_node_lifecycle[OF r] have "tn_version t' \<le> 3" by (simp add: ex_task_def)
  with r show ?thesis by blast
qed

end
