(* ===== verification/Json.thy ===== *)
theory Json
  imports JsValue
begin

text \<open>
  \<open>JSON.stringify\<close> and the canonical form \<open>stableValue\<close> that the digests of the program
  hash.  SHA-256 itself is a parameter \<open>sha\<close> of the definitions that use it.
\<close>

definition hex_digit :: "nat \<Rightarrow> char" where
  "hex_digit n = (if n < 10 then char_of (48 + n) else char_of (87 + n))"

definition escape_char :: "char \<Rightarrow> string" where
  "escape_char c =
    (if ccode c = 34 then [char_of (92::nat), char_of (34::nat)]
     else if ccode c = 92 then [char_of (92::nat), char_of (92::nat)]
     else if ccode c = 8 then [char_of (92::nat), CHR ''b'']
     else if ccode c = 9 then [char_of (92::nat), CHR ''t'']
     else if ccode c = 10 then [char_of (92::nat), CHR ''n'']
     else if ccode c = 12 then [char_of (92::nat), CHR ''f'']
     else if ccode c = 13 then [char_of (92::nat), CHR ''r'']
     else if ccode c < 32 then [char_of (92::nat), CHR ''u'', CHR ''0'', CHR ''0'',
            hex_digit (ccode c div 16), hex_digit (ccode c mod 16)]
     else [c])"

definition quote :: "string \<Rightarrow> string" where
  "quote s = char_of (34::nat) # concat (map escape_char s) @ [char_of (34::nat)]"

text \<open>
  \<open>json v\<close> is the text of \<open>v\<close> inside an array, where undefined is written as null; an
  undefined property is left out.  At the top level \<open>JSON.stringify(undefined)\<close> is not a
  string; no caller of the program passes it.
\<close>

fun json :: "js \<Rightarrow> string" where
  "json JUndef = ''null''"
| "json JNull = ''null''"
| "json (JBool b) = (if b then ''true'' else ''false'')"
| "json (JNum n) = int_to_string n"
| "json (JDbl s) = (if s \<in> {''NaN'', ''Infinity'', ''-Infinity''} then ''null'' else s)"
| "json (JStr s) = quote s"
| "json (JArr vs) = ''['' @ join_with '','' (map json vs) @ '']''"
| "json (JObj kvs) = ''{'' @ join_with '','' (map (\<lambda>(k, v). quote k @ '':'' @ json v)
       (filter (\<lambda>(k, v). v \<noteq> JUndef) kvs)) @ ''}''"

text \<open>Property order: array-index keys first, ascending; the others in insertion order.\<close>

definition index_key :: "string \<Rightarrow> bool" where
  "index_key k \<longleftrightarrow> k \<noteq> [] \<and> list_all is_digit k \<and> (k = ''0'' \<or> hd k \<noteq> CHR ''0'') \<and> digits_val 10 k < 4294967295"

definition mk_obj :: "(string \<times> js) list \<Rightarrow> js" where
  "mk_obj kvs = JObj (sort_key (\<lambda>kv. digits_val 10 (fst kv)) (filter (\<lambda>kv. index_key (fst kv)) kvs)
     @ filter (\<lambda>kv. \<not> index_key (fst kv)) kvs)"

fun stableValue :: "js \<Rightarrow> js" where
  "stableValue (JArr vs) = JArr (map stableValue vs)"
| "stableValue (JObj kvs) = mk_obj (sort_key fst (map (\<lambda>(k, v). (k, stableValue v)) kvs))"
| "stableValue v = v"

definition stableStringify :: "js \<Rightarrow> string" where
  "stableStringify v = json (stableValue v)"

definition digest :: "(string \<Rightarrow> string) \<Rightarrow> js \<Rightarrow> string" where
  "digest sha v = ''sha256:'' @ sha (json (stableValue v))"

text \<open>The digests that hash the plain JSON text.\<close>

definition plainDigest :: "(string \<Rightarrow> string) \<Rightarrow> js \<Rightarrow> string" where
  "plainDigest sha v = ''sha256:'' @ sha (json v)"

text \<open>Equal digests mean equal texts, or two texts that SHA-256 does not tell apart.\<close>

definition sha_collision :: "(string \<Rightarrow> string) \<Rightarrow> bool" where
  "sha_collision sha \<longleftrightarrow> (\<exists>x y. x \<noteq> y \<and> sha x = sha y)"

lemma plainDigest_eq: "plainDigest sha a = plainDigest sha b \<Longrightarrow> json a = json b \<or> sha_collision sha"
  by (auto simp: plainDigest_def sha_collision_def)

lemma digest_eq: "digest sha a = digest sha b \<Longrightarrow> stableStringify a = stableStringify b \<or> sha_collision sha"
  by (auto simp: digest_def stableStringify_def sha_collision_def)

definition js_opt :: "string option \<Rightarrow> js" where
  "js_opt x = (case x of None \<Rightarrow> JNull | Some s \<Rightarrow> JStr s)"

definition js_strs :: "string list \<Rightarrow> js" where
  "js_strs xs = JArr (map JStr xs)"

lemma digest_const: "digest (\<lambda>_. c) v = ''sha256:'' @ c"
  by (simp add: digest_def)

text \<open>Every key of a value at any depth, and the values JSON can carry.\<close>

fun deep_keys :: "js \<Rightarrow> string list" where
  "deep_keys (JArr vs) = concat (map deep_keys vs)"
| "deep_keys (JObj kvs) = concat (map (\<lambda>(k, v). k # deep_keys v) kvs)"
| "deep_keys _ = []"

fun json_value :: "js \<Rightarrow> bool" where
  "json_value JUndef = False"
| "json_value (JDbl s) = (s \<notin> {''NaN'', ''Infinity'', ''-Infinity''})"
| "json_value (JArr vs) = list_all json_value vs"
| "json_value (JObj kvs) = list_all (\<lambda>(k, v). json_value v) kvs"
| "json_value _ = True"

text \<open>\<open>{ ...value, key: v, ... }\<close>; what is no plain object spreads no field the program reads.\<close>

definition with_fields :: "js \<Rightarrow> (string \<times> js) list \<Rightarrow> js" where
  "with_fields value kvs = JObj (fold (\<lambda>(k, v). AList.update k v) kvs (case value of JObj xs \<Rightarrow> xs | _ \<Rightarrow> []))"

text \<open>\<open>JSON.parse(JSON.stringify(v))\<close> on the parts of a value.\<close>

fun json_clone :: "js \<Rightarrow> js" where
  "json_clone JUndef = JNull"
| "json_clone (JDbl s) = (if s \<in> {''NaN'', ''Infinity'', ''-Infinity''} then JNull else JDbl s)"
| "json_clone (JArr vs) = JArr (map json_clone vs)"
| "json_clone (JObj kvs) = JObj (map (\<lambda>(k, v). (k, json_clone v)) (filter (\<lambda>(k, v). v \<noteq> JUndef) kvs))"
| "json_clone v = v"

lemma json_clone_id: "json_value v \<Longrightarrow> json_clone v = v"
proof (induction v rule: json_value.induct)
  case (4 kvs)
  then have "filter (\<lambda>(k, v). v \<noteq> JUndef) kvs = kvs" by (auto simp: filter_id_conv list_all_iff)
  with 4 show ?case by (auto simp: list_all_iff intro!: map_idI)
qed (auto simp: list_all_iff intro!: map_idI)

end
