(* ===== verification/JsonText.thy ===== *)
theory JsonText
  imports Json
begin

text \<open>A JSON string literal determines the text it quotes, also with more text behind it.\<close>

lemma ccode_eq: "ccode c = ccode d \<longleftrightarrow> c = d"
  by (simp add: ccode_def)

lemma escape_head: "\<exists>d ds. escape_char c = d # ds \<and> d \<noteq> char_of (34::nat)"
  by (auto simp: escape_char_def ccode_def)

definition hex_val :: "char \<Rightarrow> nat" where
  "hex_val c = (if ccode c < 87 then ccode c - 48 else ccode c - 87)"

lemma ccode_char_of: "n < 256 \<Longrightarrow> ccode (char_of n) = n"
  by (simp add: ccode_def)

lemma hex_val_digit: "n < 16 \<Longrightarrow> hex_val (hex_digit n) = n"
  by (simp add: hex_val_def hex_digit_def ccode_char_of)

text \<open>Reading one character back from an escaped text.\<close>

definition unescape :: "string \<Rightarrow> char \<times> string" where
  "unescape s = (if ccode (hd s) \<noteq> 92 then (hd s, tl s)
     else if ccode (s ! 1) = 98 then (char_of (8::nat), drop 2 s)
     else if ccode (s ! 1) = 116 then (char_of (9::nat), drop 2 s)
     else if ccode (s ! 1) = 110 then (char_of (10::nat), drop 2 s)
     else if ccode (s ! 1) = 102 then (char_of (12::nat), drop 2 s)
     else if ccode (s ! 1) = 114 then (char_of (13::nat), drop 2 s)
     else if ccode (s ! 1) = 117 then (char_of (hex_val (s ! 4) * 16 + hex_val (s ! 5)), drop 6 s)
     else (s ! 1, drop 2 s))"

lemma char_of_ccode: "char_of (ccode c) = c"
  by (simp add: ccode_def)

lemma ccode_is: "ccode c = n \<Longrightarrow> c = char_of n"
  by (auto simp: char_of_ccode)

lemma unescape_escape: "unescape (escape_char c @ s) = (c, s)"
proof -
  consider "ccode c \<in> {34, 92, 8, 9, 10, 12, 13}" | "ccode c \<notin> {34, 92, 8, 9, 10, 12, 13}" "ccode c < 32"
    | "ccode c \<notin> {34, 92}" "32 \<le> ccode c" by fastforce
  then show ?thesis
  proof cases
    case 1
    then have "c \<in> char_of ` {34::nat, 92, 8, 9, 10, 12, 13}" by (metis char_of_ccode imageI)
    moreover have "ccode CHR ''b'' = 98" "ccode CHR ''t'' = 116" "ccode CHR ''n'' = 110" "ccode CHR ''f'' = 102" "ccode CHR ''r'' = 114"
      by (simp_all add: ccode_def)
    ultimately show ?thesis
      by (elim imageE insertE emptyE) (simp_all only: escape_char_def unescape_def ccode_char_of, simp_all add: ccode_char_of)
  next
    case 2
    then have "ccode c div 16 < 16" "ccode c mod 16 < 16" by auto
    moreover have "ccode CHR ''u'' = 117" by (simp add: ccode_def)
    ultimately show ?thesis using 2
      by (simp add: escape_char_def unescape_def ccode_char_of hex_val_digit char_of_ccode)
  next
    case 3
    then show ?thesis by (simp add: escape_char_def unescape_def)
  qed
qed

lemma quoted_inject:
  "concat (map escape_char s) @ char_of (34::nat) # xs = concat (map escape_char t) @ char_of (34::nat) # ys \<Longrightarrow> s = t \<and> xs = ys"
proof (induction s arbitrary: t)
  case Nil
  show ?case
  proof (cases t)
    case (Cons d t')
    from escape_head[of d] obtain e es where "escape_char d = e # es" "e \<noteq> char_of (34::nat)" by blast
    with Nil Cons show ?thesis by auto
  qed (use Nil in simp)
next
  case (Cons c s)
  show ?case
  proof (cases t)
    case Nil
    from escape_head[of c] obtain e es where "escape_char c = e # es" "e \<noteq> char_of (34::nat)" by blast
    with Nil Cons.prems show ?thesis by auto
  next
    case t: (Cons d t')
    from Cons.prems have "unescape (escape_char c @ concat (map escape_char s) @ char_of (34::nat) # xs) =
        unescape (escape_char d @ concat (map escape_char t') @ char_of (34::nat) # ys)" by (simp add: t)
    then have "c = d" "concat (map escape_char s) @ char_of (34::nat) # xs = concat (map escape_char t') @ char_of (34::nat) # ys"
      by (simp_all only: unescape_escape prod.inject)
    with Cons.IH[OF this(2)] t show ?thesis by simp
  qed
qed

lemma quote_inject: "quote s @ xs = quote t @ ys \<longleftrightarrow> s = t \<and> xs = ys"
  by (auto simp: quote_def dest: quoted_inject)

lemma quote_eq [simp]: "quote s = quote t \<longleftrightarrow> s = t"
  using quote_inject[of s "[]" t "[]"] by simp

end
