(* ===== verification/JsonParse.thy ===== *)
theory JsonParse
  imports JsonText
begin

text \<open>
  \<open>JSON.parse\<close>, and that it reads back what \<open>JSON.stringify\<close> wrote: parsers are functions from
  a text to the value at its front and the rest.  \<open>num\<close> gives the value of a number that is
  not a safe integer in plain decimal digits.  Code units above 255 do not occur in the texts of
  the model, so an escape of such a unit is not read.
\<close>

subsection \<open>Tokens\<close>

definition json_space :: "char \<Rightarrow> bool" where
  "json_space c \<longleftrightarrow> ccode c \<in> {32, 9, 10, 13}"

definition skip_space :: "string \<Rightarrow> string" where
  "skip_space s = dropWhile json_space s"

definition hex_value :: "char \<Rightarrow> nat option" where
  "hex_value c = (if is_digit c then Some (ccode c - 48)
     else if 97 \<le> ccode c \<and> ccode c \<le> 102 then Some (ccode c - 87)
     else if 65 \<le> ccode c \<and> ccode c \<le> 70 then Some (ccode c - 55) else None)"

text \<open>The four hexadecimal digits of an escape.\<close>

definition read_unit :: "string \<Rightarrow> (char \<times> string) option" where
  "read_unit s = (case s of a # b # c # d # r \<Rightarrow>
      (case (hex_value a, hex_value b, hex_value c, hex_value d) of
         (Some 0, Some 0, Some x, Some y) \<Rightarrow> Some (char_of (16 * x + y), r)
       | _ \<Rightarrow> None)
    | _ \<Rightarrow> None)"

text \<open>What follows a backslash.\<close>

definition read_escape :: "string \<Rightarrow> (char \<times> string) option" where
  "read_escape s = (case s of [] \<Rightarrow> None | e # r \<Rightarrow>
      if ccode e \<in> {34, 92, 47} then Some (e, r)
      else if e = CHR ''b'' then Some (char_of (8::nat), r)
      else if e = CHR ''t'' then Some (char_of (9::nat), r)
      else if e = CHR ''n'' then Some (char_of (10::nat), r)
      else if e = CHR ''f'' then Some (char_of (12::nat), r)
      else if e = CHR ''r'' then Some (char_of (13::nat), r)
      else if e = CHR ''u'' then read_unit r else None)"

lemma read_escape_shorter: "read_escape s = Some (c, r) \<Longrightarrow> length r < length s"
  by (auto simp: read_escape_def read_unit_def split: list.splits if_splits option.splits nat.splits)

text \<open>The rest of a string literal after its opening quote.\<close>

function read_string :: "string \<Rightarrow> (string \<times> string) option" where
  "read_string s = (case s of [] \<Rightarrow> None | c # cs \<Rightarrow>
     if ccode c = 34 then Some ([], cs)
     else if ccode c < 32 then None
     else if ccode c = 92 then (case read_escape cs of None \<Rightarrow> None
       | Some (d, r) \<Rightarrow> map_option (\<lambda>(t, u). (d # t, u)) (read_string r))
     else map_option (\<lambda>(t, u). (c # t, u)) (read_string cs))"
  by pat_completeness auto
termination
  by (relation "measure length") (auto dest: read_escape_shorter)

declare read_string.simps [simp del]

subsection \<open>Numbers\<close>

definition number_char :: "char \<Rightarrow> bool" where
  "number_char c \<longleftrightarrow> is_digit c \<or> c \<in> {CHR ''-'', CHR ''+'', CHR ''.'', CHR ''e'', CHR ''E''}"

definition digits_only :: "string \<Rightarrow> bool" where
  "digits_only s \<longleftrightarrow> s \<noteq> [] \<and> list_all is_digit s"

definition exponent_ok :: "string \<Rightarrow> bool" where
  "exponent_ok s \<longleftrightarrow> (case s of [] \<Rightarrow> True | c # cs \<Rightarrow> c \<in> {CHR ''e'', CHR ''E''} \<and>
     (case cs of [] \<Rightarrow> False | d # ds \<Rightarrow> if d \<in> {CHR ''-'', CHR ''+''} then digits_only ds else digits_only cs))"

definition fraction_ok :: "string \<Rightarrow> bool" where
  "fraction_ok s \<longleftrightarrow> (case s of [] \<Rightarrow> True | c # cs \<Rightarrow>
     if c = CHR ''.'' then takeWhile is_digit cs \<noteq> [] \<and> exponent_ok (dropWhile is_digit cs) else exponent_ok s)"

definition unsigned :: "string \<Rightarrow> string" where
  "unsigned s = (case s of [] \<Rightarrow> [] | c # cs \<Rightarrow> if c = CHR ''-'' then cs else s)"

definition number_token :: "string \<Rightarrow> bool" where
  "number_token s \<longleftrightarrow> (let whole = takeWhile is_digit (unsigned s) in
     whole \<noteq> [] \<and> (whole = ''0'' \<or> hd whole \<noteq> CHR ''0'') \<and> fraction_ok (dropWhile is_digit (unsigned s)))"

text \<open>An integer in plain digits that a double represents exactly; minus zero is none.\<close>

definition plain_integer :: "string \<Rightarrow> bool" where
  "plain_integer s \<longleftrightarrow> digits_only (unsigned s) \<and> s \<noteq> ''-0'' \<and> digits_val 10 (unsigned s) \<le> 9007199254740991"

definition number_value :: "(string \<Rightarrow> js) \<Rightarrow> string \<Rightarrow> js" where
  "number_value num s = (if plain_integer s
     then JNum (if unsigned s = s then int (digits_val 10 s) else - int (digits_val 10 (unsigned s))) else num s)"

definition read_number :: "(string \<Rightarrow> js) \<Rightarrow> string \<Rightarrow> (js \<times> string) option" where
  "read_number num s = (let t = takeWhile number_char s in
     if number_token t then Some (number_value num t, dropWhile number_char s) else None)"

subsection \<open>Values\<close>

definition read_literal :: "string \<Rightarrow> js \<Rightarrow> string \<Rightarrow> (js \<times> string) option" where
  "read_literal word v s = (if take (length word) s = word then Some (v, drop (length word) s) else None)"

text \<open>A key that occurs twice keeps its place and gets the later value.\<close>

definition object_of :: "(string \<times> js) list \<Rightarrow> js" where
  "object_of kvs = mk_obj (fold (\<lambda>(k, v). AList.update k v) kvs [])"

text \<open>
  The value at the front of a text, the elements of an array after its bracket and the members of
  an object after its brace.  The first argument bounds the calls; \<open>parse_json\<close> gives enough.
\<close>

fun read_value :: "nat \<Rightarrow> (string \<Rightarrow> js) \<Rightarrow> string \<Rightarrow> (js \<times> string) option"
and read_elements :: "nat \<Rightarrow> (string \<Rightarrow> js) \<Rightarrow> string \<Rightarrow> (js list \<times> string) option"
and read_members :: "nat \<Rightarrow> (string \<Rightarrow> js) \<Rightarrow> string \<Rightarrow> ((string \<times> js) list \<times> string) option" where
  "read_value 0 num s = None"
| "read_value (Suc n) num s = (case skip_space s of [] \<Rightarrow> None | c # cs \<Rightarrow>
     if ccode c = 34 then map_option (\<lambda>(t, r). (JStr t, r)) (read_string cs)
     else if c = CHR ''['' then (case skip_space cs of [] \<Rightarrow> None | d # ds \<Rightarrow>
       if d = CHR '']'' then Some (JArr [], ds) else map_option (\<lambda>(vs, r). (JArr vs, r)) (read_elements n num cs))
     else if c = CHR ''{'' then (case skip_space cs of [] \<Rightarrow> None | d # ds \<Rightarrow>
       if d = CHR ''}'' then Some (object_of [], ds) else map_option (\<lambda>(kvs, r). (object_of kvs, r)) (read_members n num cs))
     else if c = CHR ''t'' then read_literal ''true'' (JBool True) (c # cs)
     else if c = CHR ''f'' then read_literal ''false'' (JBool False) (c # cs)
     else if c = CHR ''n'' then read_literal ''null'' JNull (c # cs)
     else read_number num (c # cs))"
| "read_elements 0 num s = None"
| "read_elements (Suc n) num s = (case read_value n num s of None \<Rightarrow> None | Some (v, r) \<Rightarrow>
     (case skip_space r of [] \<Rightarrow> None | d # ds \<Rightarrow>
       if d = CHR '','' then map_option (\<lambda>(vs, u). (v # vs, u)) (read_elements n num ds)
       else if d = CHR '']'' then Some ([v], ds) else None))"
| "read_members 0 num s = None"
| "read_members (Suc n) num s = (case skip_space s of [] \<Rightarrow> None | q # qs \<Rightarrow>
     if ccode q \<noteq> 34 then None
     else (case read_string qs of None \<Rightarrow> None | Some (k, r) \<Rightarrow>
       (case skip_space r of [] \<Rightarrow> None | c # cs \<Rightarrow>
         if c \<noteq> CHR '':'' then None
         else (case read_value n num cs of None \<Rightarrow> None | Some (v, t) \<Rightarrow>
           (case skip_space t of [] \<Rightarrow> None | d # ds \<Rightarrow>
             if d = CHR '','' then map_option (\<lambda>(kvs, u). ((k, v) # kvs, u)) (read_members n num ds)
             else if d = CHR ''}'' then Some ([(k, v)], ds) else None)))))"

definition parse_json :: "(string \<Rightarrow> js) \<Rightarrow> string \<Rightarrow> js option" where
  "parse_json num s = (case read_value (2 * length s + 1) num s of
      Some (v, r) \<Rightarrow> if skip_space r = [] then Some v else None | None \<Rightarrow> None)"

text \<open>The lines of a file, as \<open>split\<close> at newlines gives them.\<close>

fun split_lines :: "string \<Rightarrow> string list" where
  "split_lines [] = [[]]"
| "split_lines (c # cs) = (if c = char_of (10 :: nat) then [] # split_lines cs else (c # hd (split_lines cs)) # tl (split_lines cs))"

subsection \<open>Enough calls\<close>

lemma skip_space_length: "length (skip_space s) \<le> length s"
  by (simp add: skip_space_def length_dropWhile_le)

lemma skip_space_Cons: "skip_space s = c # cs \<Longrightarrow> length cs < length s"
  using skip_space_length[of s] by simp

lemma read_string_shorter: "read_string s = Some (t, r) \<Longrightarrow> length r < length s"
proof (induction s arbitrary: t r rule: read_string.induct)
  case (1 s)
  show ?case
  proof (cases s)
    case Nil
    with "1.prems" show ?thesis by (simp add: read_string.simps[of "[]"])
  next
    case (Cons c cs)
    note step = "1.prems"[unfolded Cons read_string.simps[of "c # cs"] list.case]
    consider "ccode c = 34" | "ccode c = 92" | "ccode c \<noteq> 34" "\<not> ccode c < 32" "ccode c \<noteq> 92" using step by (auto split: if_splits)
    then show ?thesis
    proof cases
      case 2
      with step obtain d u w where e: "read_escape cs = Some (d, u)" "read_string u = Some (w, r)"
        by (auto split: option.splits)
      from "1.IH"(1)[OF Cons _ _ _ e(1) refl e(2)] 2 read_escape_shorter[OF e(1)] show ?thesis by (simp add: Cons)
    next
      case 3
      with step obtain w where "read_string cs = Some (w, r)" by auto
      from "1.IH"(2)[OF Cons _ _ _ this] 3 show ?thesis by (simp add: Cons)
    qed (use step Cons in simp)
  qed
qed

lemma read_number_shorter: "read_number num s = Some (v, r) \<Longrightarrow> length r < length s"
proof -
  assume "read_number num s = Some (v, r)"
  then have t: "number_token (takeWhile number_char s)" and r: "r = dropWhile number_char s"
    by (auto simp: read_number_def Let_def split: if_splits)
  have "takeWhile number_char s \<noteq> []" using t by (auto simp: number_token_def unsigned_def Let_def)
  then have "0 < length (takeWhile number_char s)" by simp
  moreover have "length s = length (takeWhile number_char s) + length r" unfolding r by (metis length_append takeWhile_dropWhile_id)
  ultimately show ?thesis by simp
qed

lemma read_literal_shorter: "read_literal w v s = Some (x, r) \<Longrightarrow> w \<noteq> [] \<Longrightarrow> length r < length s"
  by (cases s) (auto simp: read_literal_def split: if_splits)

lemma read_shorter:
  "read_value n num s = Some (v, r) \<Longrightarrow> length r < length s"
  "read_elements n num s = Some (vs, r) \<Longrightarrow> length r < length s"
  "read_members n num s = Some (kvs, r) \<Longrightarrow> length r < length s"
proof (induction n num s and n num s and n num s arbitrary: v r and vs r and kvs r rule: read_value_read_elements_read_members.induct)
  case (2 n num s)
  from "2.prems" obtain c cs where c: "skip_space s = c # cs" by (auto split: list.splits)
  note len = skip_space_Cons[OF c]
  have full: "length (c # cs) \<le> length s" using skip_space_length[of s] c by simp
  note step = "2.prems"[unfolded read_value.simps c list.case]
  consider "ccode c = 34" | "c = CHR ''[''" | "c = CHR ''{''" | "ccode c \<noteq> 34" "c \<noteq> CHR ''[''" "c \<noteq> CHR ''{''" by blast
  then show ?case
  proof cases
    case 1
    with step obtain t where "read_string cs = Some (t, r)" by auto
    from read_string_shorter[OF this] len show ?thesis by simp
  next
    case 2
    then have q: "ccode c \<noteq> 34" by (simp add: ccode_def)
    with step 2 obtain d ds where d: "skip_space cs = d # ds" by (auto split: list.splits)
    show ?thesis
    proof (cases "d = CHR '']''")
      case True
      with step 2 q d have "r = ds" by simp
      with skip_space_Cons[OF d] len show ?thesis by simp
    next
      case False
      with step 2 q d obtain ws where "read_elements n num cs = Some (ws, r)" by auto
      from "2.IH"(1)[OF c q 2 d False this] len show ?thesis by simp
    qed
  next
    case 3
    then have q: "ccode c \<noteq> 34" "c \<noteq> CHR ''[''" by (simp_all add: ccode_def)
    with step 3 obtain d ds where d: "skip_space cs = d # ds" by (auto split: list.splits)
    show ?thesis
    proof (cases "d = CHR ''}''")
      case True
      with step 3 q d have "r = ds" by simp
      with skip_space_Cons[OF d] len show ?thesis by simp
    next
      case False
      with step 3 q d obtain ws where "read_members n num cs = Some (ws, r)" by auto
      from "2.IH"(2)[OF c q 3 d False this] len show ?thesis by simp
    qed
  next
    case 4
    with step have "\<exists>w x. (w \<noteq> [] \<and> read_literal w x (c # cs) = Some (v, r)) \<or> read_number num (c # cs) = Some (v, r)"
      by (auto split: if_splits)
    then show ?thesis using read_literal_shorter read_number_shorter full by (metis le_trans less_le_trans)
  qed
next
  case (4 n num s)
  from "4.prems" obtain x u where x: "read_value n num s = Some (x, u)" by (auto split: option.splits)
  from "4.prems" x obtain d ds where d: "skip_space u = d # ds" by (auto split: list.splits)
  note len = "4.IH"(1)[OF x] skip_space_Cons[OF d]
  show ?case
  proof (cases "d = CHR '',''")
    case True
    with "4.prems" x d obtain ws where "read_elements n num ds = Some (ws, r)" by auto
    from "4.IH"(2)[OF x refl d True this] len show ?thesis by simp
  next
    case False
    with "4.prems" x d have "r = ds" by (auto split: if_splits)
    with len show ?thesis by simp
  qed
next
  case (6 n num s)
  from "6.prems" obtain q qs where q: "skip_space s = q # qs" "\<not> ccode q \<noteq> 34" by (auto split: list.splits if_splits)
  from "6.prems" q obtain k t where k: "read_string qs = Some (k, t)" by (auto split: option.splits)
  from "6.prems" q k obtain c cs where c: "skip_space t = c # cs" "\<not> c \<noteq> CHR '':''" by (auto split: list.splits if_splits)
  from "6.prems" q k c obtain x u where x: "read_value n num cs = Some (x, u)" by (auto split: option.splits)
  from "6.prems" q k c x obtain d ds where d: "skip_space u = d # ds" by (auto split: list.splits)
  note len = "6.IH"(1)[OF q k refl c x] skip_space_Cons[OF d] skip_space_Cons[OF q(1)] skip_space_Cons[OF c(1)] read_string_shorter[OF k]
  show ?case
  proof (cases "d = CHR '',''")
    case True
    with "6.prems" q k c x d obtain ws where "read_members n num ds = Some (ws, r)" by auto
    from "6.IH"(2)[OF q k refl c x refl d True this] len show ?thesis by simp
  next
    case False
    with "6.prems" q k c x d have "r = ds" by (auto split: if_splits)
    with len show ?thesis by simp
  qed
qed auto

text \<open>The number of calls \<open>parse_json\<close> allows is never used up: with more, every text reads the same.\<close>

lemma enough_calls:
  "2 * length s + 1 \<le> n \<Longrightarrow> read_value (n + k) num s = read_value n num s"
  "2 * length s + 2 \<le> n \<Longrightarrow> read_elements (n + k) num s = read_elements n num s"
  "2 * length s + 2 \<le> n \<Longrightarrow> read_members (n + k) num s = read_members n num s"
proof (induction n num s and n num s and n num s rule: read_value_read_elements_read_members.induct)
  case (2 n num s)
  show ?case
  proof (cases "skip_space s")
    case Nil
    then show ?thesis by simp
  next
    case (Cons c cs)
    have len: "2 * length cs + 2 \<le> n" using skip_space_Cons[OF Cons] "2.prems" by simp
    have e: "read_elements (n + k) num cs = read_elements n num cs" if "ccode c \<noteq> 34" "c = CHR ''[''" "skip_space cs = d # ds" "d \<noteq> CHR '']''" for d ds
      by (rule "2.IH"(1)[OF Cons that len])
    have m: "read_members (n + k) num cs = read_members n num cs" if "ccode c \<noteq> 34" "c \<noteq> CHR ''[''" "c = CHR ''{''" "skip_space cs = d # ds" "d \<noteq> CHR ''}''" for d ds
      by (rule "2.IH"(2)[OF Cons that len])
    show ?thesis
    proof (cases "skip_space cs")
      case Nil
      with Cons show ?thesis by simp
    next
      case d: (Cons d ds)
      with Cons e[OF _ _ d] m[OF _ _ _ d] show ?thesis by simp
    qed
  qed
next
  case (4 n num s)
  have v: "read_value (n + k) num s = read_value n num s" using "4.prems" by (intro "4.IH"(1)) simp
  show ?case
  proof (cases "read_value n num s")
    case None
    with v show ?thesis by simp
  next
    case (Some x)
    obtain w u where x: "x = (w, u)" by fastforce
    show ?thesis
    proof (cases "skip_space u")
      case Nil
      with v Some x show ?thesis by simp
    next
      case (Cons d ds)
      have "2 * length ds + 2 \<le> n"
        using read_shorter(1)[OF Some[unfolded x]] skip_space_Cons[OF Cons] "4.prems" by simp
      with "4.IH"(2)[OF Some x[symmetric] Cons] v Some x Cons show ?thesis by simp
    qed
  qed
next
  case (6 n num s)
  show ?case
  proof (cases "skip_space s")
    case Nil
    then show ?thesis by simp
  next
    case q: (Cons q qs)
    show ?thesis
    proof (cases "ccode q \<noteq> 34 \<or> read_string qs = None")
      case True
      with q show ?thesis by auto
    next
      case False
      then obtain k1 t where kt: "\<not> ccode q \<noteq> 34" "read_string qs = Some (k1, t)" by auto
      show ?thesis
      proof (cases "skip_space t")
        case Nil
        with q kt show ?thesis by simp
      next
        case c: (Cons c cs)
        show ?thesis
        proof (cases "c = CHR '':''")
          case False
          with q kt c show ?thesis by simp
        next
          case colon: True
          then have nc: "\<not> c \<noteq> CHR '':''" by simp
          have len: "length cs + 2 < length s" using skip_space_Cons[OF q] read_string_shorter[OF kt(2)] skip_space_Cons[OF c] by simp
          have v: "read_value (n + k) num cs = read_value n num cs"
            by (rule "6.IH"(1)[OF q kt(1,2) refl c nc]) (use len "6.prems" in simp)
          show ?thesis
          proof (cases "read_value n num cs")
            case None
            with q kt c colon v show ?thesis by simp
          next
            case (Some x)
            obtain w u where x: "x = (w, u)" by fastforce
            show ?thesis
            proof (cases "skip_space u")
              case Nil
              with q kt c colon v Some x show ?thesis by simp
            next
              case (Cons d ds)
              have "2 * length ds + 2 \<le> n"
                using read_shorter(1)[OF Some[unfolded x]] skip_space_Cons[OF Cons] len "6.prems" by simp
              with "6.IH"(2)[OF q kt(1,2) refl c nc Some x[symmetric] Cons] q kt c colon v Some x Cons show ?thesis by simp
            qed
          qed
        qed
      qed
    qed
  qed
qed auto

lemma parse_json_enough: "2 * length s + 1 \<le> n \<Longrightarrow> parse_json num s =
    (case read_value n num s of Some (v, r) \<Rightarrow> if skip_space r = [] then Some v else None | None \<Rightarrow> None)"
  using enough_calls(1)[of s "2 * length s + 1" "n - (2 * length s + 1)" num] by (simp add: parse_json_def)

subsection \<open>Reading back what was written\<close>

lemma hex_value_digit: "n < 16 \<Longrightarrow> hex_value (hex_digit n) = Some n"
  by (auto simp: hex_value_def hex_digit_def is_digit_def ccode_char_of)

lemma read_string_escape:
  "read_string (escape_char c @ u) = map_option (\<lambda>(t, r). (c # t, r)) (read_string u)"
proof -
  consider "ccode c \<in> {34, 92, 8, 9, 10, 12, 13}" | "ccode c \<notin> {34, 92, 8, 9, 10, 12, 13}" "ccode c < 32"
    | "ccode c \<notin> {34, 92}" "32 \<le> ccode c" by fastforce
  then show ?thesis
  proof cases
    case 1
    then have c: "c \<in> char_of ` {34::nat, 92, 8, 9, 10, 12, 13}" by (metis char_of_ccode imageI)
    have "\<exists>e. escape_char c = [char_of (92::nat), e] \<and> read_escape (e # u) = Some (c, u)"
      using c by (elim imageE insertE emptyE) (simp_all add: escape_char_def read_escape_def ccode_char_of, simp_all add: ccode_def)
    then obtain e where "escape_char c = [char_of (92::nat), e]" "read_escape (e # u) = Some (c, u)" by blast
    then show ?thesis by (simp add: read_string.simps[of "char_of (92::nat) # _"] ccode_char_of)
  next
    case 2
    then have h: "ccode c div 16 < 16" "ccode c mod 16 < 16" "16 * (ccode c div 16) + ccode c mod 16 = ccode c" by auto
    have z: "hex_value CHR ''0'' = Some 0" by (simp add: hex_value_def is_digit_def ccode_def)
    have b: "ccode (char_of (92::nat)) = 92" by (simp add: ccode_char_of)
    have "read_escape (CHR ''u'' # CHR ''0'' # CHR ''0'' # hex_digit (ccode c div 16) # hex_digit (ccode c mod 16) # u) = Some (c, u)"
      by (simp add: read_escape_def read_unit_def z hex_value_digit[OF h(1)] hex_value_digit[OF h(2)] char_of_ccode)
         (simp add: ccode_def)
    with 2 show ?thesis by (simp add: escape_char_def read_string.simps[of "char_of (92::nat) # _"] b)
  next
    case 3
    then show ?thesis by (simp add: escape_char_def read_string.simps[of "c # u"])
  qed
qed

lemma read_string_quoted: "read_string (concat (map escape_char s) @ char_of (34::nat) # r) = Some (s, r)"
proof (induction s)
  case Nil
  then show ?case by (simp add: read_string.simps ccode_char_of)
next
  case (Cons c s)
  then show ?case by (simp add: read_string_escape)
qed

text \<open>What may follow a number.\<close>

definition ends_number :: "string \<Rightarrow> bool" where
  "ends_number r \<longleftrightarrow> (case r of [] \<Rightarrow> True | c # cs \<Rightarrow> \<not> number_char c)"

lemma read_number_token:
  assumes "number_token t" "list_all number_char t" "ends_number r"
  shows "read_number num (t @ r) = Some (number_value num t, r)"
proof -
  have "takeWhile number_char (t @ r) = t" "dropWhile number_char (t @ r) = r"
    using assms(2,3) by (auto simp: list_all_iff takeWhile_append2 dropWhile_append2 ends_number_def takeWhile_eq_Nil_iff split: list.splits)
  with assms(1) show ?thesis by (simp add: read_number_def)
qed

lemma nat_digits_head: "hd (nat_digits n) = CHR ''0'' \<Longrightarrow> nat_digits n = ''0''"
proof (induction n rule: nat_digits.induct)
  case (1 n)
  show ?case
  proof (cases "n < 10")
    case True
    with 1 show ?thesis by (simp add: nat_digits.simps[of n])
  next
    case False
    then have d: "nat_digits n = nat_digits (n div 10) @ [char_of (48 + n mod 10)]" by (simp add: nat_digits.simps[of n])
    then have "hd (nat_digits (n div 10)) = CHR ''0''" using "1.prems" nat_digits_digits[of "n div 10"] by simp
    from "1.IH"[OF False this] have "digits_val 10 (nat_digits (n div 10)) = digits_val 10 ''0''" by simp
    moreover have "digits_val 10 ''0'' = 0" by (simp add: digits_val_def digit_val_def is_digit_def ccode_def)
    ultimately have "n div 10 = 0" by (simp only: digits_val_nat_digits)
    with False show ?thesis by simp
  qed
qed

lemma nat_digits_token: "number_token (nat_digits n)" "unsigned (nat_digits n) = nat_digits n"
  "number_token (CHR ''-'' # nat_digits n)" "unsigned (CHR ''-'' # nat_digits n) = nat_digits n"
proof -
  have d: "list_all is_digit (nat_digits n)" "nat_digits n \<noteq> []" using nat_digits_digits by blast+
  have t: "takeWhile is_digit (nat_digits n) = nat_digits n" "dropWhile is_digit (nat_digits n) = []"
    using d(1) by (simp_all add: list_all_iff)
  show u: "unsigned (nat_digits n) = nat_digits n" "unsigned (CHR ''-'' # nat_digits n) = nat_digits n"
    using minus_not_digit[of n] by (auto simp: unsigned_def split: list.splits)
  show "number_token (nat_digits n)" "number_token (CHR ''-'' # nat_digits n)"
    using d nat_digits_head[of n] by (auto simp: number_token_def u t fraction_ok_def Let_def)
qed

lemma int_token: "number_token (int_to_string n)" "list_all number_char (int_to_string n)"
  using nat_digits_token nat_digits_digits by (auto simp: int_to_string_def number_char_def list_all_iff)

lemma number_value_int: "\<bar>n\<bar> \<le> 9007199254740991 \<Longrightarrow> number_value num (int_to_string n) = JNum n"
proof -
  assume b: "\<bar>n\<bar> \<le> 9007199254740991"
  have d: "digits_only (nat_digits m)" for m using nat_digits_digits by (simp add: digits_only_def)
  have z: "int_to_string n \<noteq> ''-0''"
  proof
    assume "int_to_string n = ''-0''"
    then have "n < 0 \<and> nat_digits (nat (- n)) = ''0''" using minus_not_digit by (auto simp: int_to_string_def split: if_splits)
    then have "nat (- n) = digits_val 10 ''0''" "n < 0" by (metis digits_val_nat_digits)+
    then show False by (simp add: digits_val_def digit_val_def is_digit_def ccode_def)
  qed
  show ?thesis
  proof (cases "n < 0")
    case True
    have ne: "nat_digits m \<noteq> CHR ''-'' # nat_digits m" for m using minus_not_digit by metis
    from True b z d ne show ?thesis
      by (simp add: number_value_def plain_integer_def nat_digits_token int_to_string_def) linarith
  next
    case False
    with b z d show ?thesis by (simp add: number_value_def plain_integer_def nat_digits_token int_to_string_def) linarith
  qed
qed

text \<open>
  The values as the program holds them: integers that are safe, other numbers in their own
  rendering, objects in property order with distinct keys.
\<close>

fun held :: "(string \<Rightarrow> js) \<Rightarrow> js \<Rightarrow> bool" where
  "held num (JNum n) \<longleftrightarrow> \<bar>n\<bar> \<le> 9007199254740991"
| "held num (JDbl s) \<longleftrightarrow> s \<in> {''NaN'', ''Infinity'', ''-Infinity''} \<or>
     number_token s \<and> list_all number_char s \<and> \<not> plain_integer s \<and> num s = JDbl s"
| "held num (JArr vs) \<longleftrightarrow> list_all (held num) vs"
| "held num (JObj kvs) \<longleftrightarrow> distinct (map fst kvs) \<and> mk_obj kvs = JObj kvs \<and> list_all (\<lambda>(k, v). held num v) kvs"
| "held num _ \<longleftrightarrow> True"

definition value_head :: "char \<Rightarrow> bool" where
  "value_head c \<longleftrightarrow> \<not> json_space c \<and> c \<noteq> CHR '']'' \<and> c \<noteq> CHR ''}''"

lemma number_head:
  assumes "number_token t"
  shows "\<exists>c cs. t = c # cs \<and> (is_digit c \<or> c = CHR ''-'')"
proof -
  from assms have w: "takeWhile is_digit (unsigned t) \<noteq> []" by (simp add: number_token_def Let_def)
  show ?thesis
  proof (cases t)
    case Nil
    with w show ?thesis by (simp add: unsigned_def)
  next
    case (Cons c cs)
    with w show ?thesis by (cases "c = CHR ''-''") (auto simp: unsigned_def split: if_splits)
  qed
qed

text \<open>A number does not start like anything else.\<close>

lemma number_head_other:
  assumes "is_digit c \<or> c = CHR ''-''"
  shows "value_head c" "ccode c \<noteq> 34" "c \<noteq> CHR ''[''" "c \<noteq> CHR ''{''" "c \<noteq> CHR ''t''" "c \<noteq> CHR ''f''" "c \<noteq> CHR ''n''"
  using assms by (auto simp: value_head_def json_space_def is_digit_def ccode_def)

lemma read_value_number:
  assumes "number_token t" "list_all number_char t" "ends_number r"
  shows "read_value (Suc n) num (t @ r) = Some (number_value num t, r)"
proof -
  obtain c cs where t: "t = c # cs" "is_digit c \<or> c = CHR ''-''" using number_head[OF assms(1)] by blast
  note o = number_head_other[OF t(2)]
  have "skip_space (t @ r) = c # (cs @ r)" using o(1) t by (simp add: skip_space_def value_head_def)
  with o read_number_token[OF assms, of num] t show ?thesis by simp
qed

lemma json_head:
  assumes "held num v"
  shows "\<exists>c cs. json v = c # cs \<and> value_head c"
proof -
  have q: "value_head (char_of (34::nat))"
    using ccode_char_of[of 34] by (auto simp: value_head_def json_space_def ccode_def simp del: of_char_of)
  have h: "value_head CHR ''n''" "value_head CHR ''t''" "value_head CHR ''f''" "value_head CHR ''[''" "value_head CHR ''{''"
    by (simp_all add: value_head_def json_space_def ccode_def)
  have num: "\<exists>c cs. t = c # cs \<and> value_head c" if "number_token t" for t
    using number_head[OF that] number_head_other(1) by blast
  show ?thesis using assms q h num int_token(1) by (cases v) (auto simp: quote_def)
qed

lemma skip_head: "s = c # cs \<Longrightarrow> value_head c \<Longrightarrow> skip_space (s @ r) = c # cs @ r"
  by (simp add: skip_space_def value_head_def)

lemma skip_char: "\<not> json_space c \<Longrightarrow> skip_space (c # r) = c # r"
  by (simp add: skip_space_def)

lemma no_space: "\<not> json_space CHR '',''" "\<not> json_space CHR '']''" "\<not> json_space CHR ''}''" "\<not> json_space CHR '':''"
  "\<not> json_space CHR ''[''" "\<not> json_space CHR ''{''" "\<not> json_space (char_of (34::nat))"
  by (simp_all add: json_space_def ccode_def)

lemma ends_at: "ends_number []" "ends_number (CHR '','' # r)" "ends_number (CHR '']'' # r)" "ends_number (CHR ''}'' # r)"
  by (simp_all add: ends_number_def number_char_def is_digit_def ccode_def)

text \<open>What it means that a value is read back from its text, with any text behind it and enough calls.\<close>

definition reads_back :: "(string \<Rightarrow> js) \<Rightarrow> js \<Rightarrow> bool" where
  "reads_back num v \<longleftrightarrow> (\<forall>n r. 2 * length (json v) + 1 \<le> n \<longrightarrow> ends_number r \<longrightarrow> read_value n num (json v @ r) = Some (json_clone v, r))"

lemma reads_backD: "reads_back num v \<Longrightarrow> 2 * length (json v) + 1 \<le> n \<Longrightarrow> ends_number r \<Longrightarrow>
    read_value n num (json v @ r) = Some (json_clone v, r)"
  by (simp add: reads_back_def)

lemma read_elements_back:
  "vs \<noteq> [] \<Longrightarrow> \<forall>v \<in> set vs. reads_back num v \<and> held num v \<Longrightarrow> 2 * length (join_with '','' (map json vs)) + 2 \<le> n \<Longrightarrow>
     read_elements n num (join_with '','' (map json vs) @ CHR '']'' # r) = Some (map json_clone vs, r)"
proof (induction vs arbitrary: n)
  case (Cons v vs)
  obtain m where n: "n = Suc m" using Cons.prems(3) by (cases n) auto
  have v: "reads_back num v" using Cons.prems(2) by simp
  show ?case
  proof (cases vs)
    case Nil
    with reads_backD[OF v, of m "CHR '']'' # r"] Cons.prems(3) show ?thesis by (simp add: n ends_at skip_char no_space)
  next
    case (Cons w ws)
    have "json v \<noteq> []" using json_head[of num v] Cons.prems(2) by auto
    then have l: "0 < length (json v)" by simp
    have j: "join_with '','' (map json (v # vs)) = json v @ CHR '','' # join_with '','' (map json vs)" by (simp add: Cons)
    from Cons.IH[of m] Cons.prems(2,3) Cons j l
    have e: "read_elements m num (join_with '','' (map json vs) @ CHR '']'' # r) = Some (map json_clone vs, r)" by (simp add: n)
    from Cons.prems(3) j have "2 * length (json v) + 1 \<le> m" by (simp add: n)
    from reads_backD[OF v this ends_at(2)] e show ?thesis unfolding j by (simp add: n skip_char no_space)
  qed
qed simp

definition member_text :: "string \<times> js \<Rightarrow> string" where
  "member_text kv = quote (fst kv) @ '':'' @ json (snd kv)"

lemma read_members_back:
  "kvs \<noteq> [] \<Longrightarrow> \<forall>kv \<in> set kvs. reads_back num (snd kv) \<Longrightarrow> 2 * length (join_with '','' (map member_text kvs)) + 2 \<le> n \<Longrightarrow>
     read_members n num (join_with '','' (map member_text kvs) @ CHR ''}'' # r) = Some (map (\<lambda>(k, v). (k, json_clone v)) kvs, r)"
proof (induction kvs arbitrary: n)
  case (Cons kv kvs)
  obtain m where n: "n = Suc m" using Cons.prems(3) by (cases n) auto
  obtain k v where kv: "kv = (k, v)" by fastforce
  have v: "reads_back num v" using Cons.prems(2) kv by simp
  have t: "member_text kv @ u = char_of (34::nat) # concat (map escape_char k) @ char_of (34::nat) # CHR '':'' # json v @ u" for u
    by (simp add: member_text_def quote_def kv)
  have l: "length (json v) + 2 \<le> length (member_text kv)" by (simp add: member_text_def quote_def kv)
  have key: "read_members n num (member_text kv @ u) = (case read_value m num (json v @ u) of None \<Rightarrow> None | Some (w, t) \<Rightarrow>
      (case skip_space t of [] \<Rightarrow> None | d # ds \<Rightarrow>
         if d = CHR '','' then map_option (\<lambda>(kvs, u). ((k, w) # kvs, u)) (read_members m num ds)
         else if d = CHR ''}'' then Some ([(k, w)], ds) else None))" for u
    unfolding t n by (simp add: skip_char no_space read_string_quoted ccode_char_of)
  show ?case
  proof (cases kvs)
    case Nil
    with reads_backD[OF v, of m "CHR ''}'' # r"] Cons.prems(3) l key[of "CHR ''}'' # r"] show ?thesis
      by (simp add: n ends_at skip_char no_space kv)
  next
    case (Cons w ws)
    have j: "join_with '','' (map member_text (kv # kvs)) = member_text kv @ CHR '','' # join_with '','' (map member_text kvs)" by (simp add: Cons)
    from Cons.IH[of m] Cons.prems(2,3) Cons j l
    have e: "read_members m num (join_with '','' (map member_text kvs) @ CHR ''}'' # r) = Some (map (\<lambda>(k, v). (k, json_clone v)) kvs, r)" by (simp add: n)
    from Cons.prems(3) j l have "2 * length (json v) + 1 \<le> m" by (simp add: n)
    from reads_backD[OF v this ends_at(2)] e key show ?thesis unfolding j by (simp add: skip_char no_space kv)
  qed
qed simp

text \<open>Objects under a change of their values and without their undefined properties.\<close>

definition on_values :: "(js \<Rightarrow> js) \<Rightarrow> (string \<times> js) list \<Rightarrow> (string \<times> js) list" where
  "on_values g = map (\<lambda>(k, v). (k, g v))"

definition defined_only :: "(string \<times> js) list \<Rightarrow> (string \<times> js) list" where
  "defined_only = filter (\<lambda>(k, v). v \<noteq> JUndef)"

lemma insort_on_values: "insort_key (f \<circ> fst) (k, g v) (on_values g xs) = on_values g (insort_key (f \<circ> fst) (k, v) xs)"
  by (induction xs) (auto simp: on_values_def)

lemma sort_on_values: "sort_key (f \<circ> fst) (on_values g xs) = on_values g (sort_key (f \<circ> fst) xs)"
proof (induction xs)
  case (Cons x xs)
  obtain k v where x: "x = (k, v)" by fastforce
  have "on_values g ((k, v) # xs) = (k, g v) # on_values g xs" by (simp add: on_values_def)
  with Cons show ?case by (simp add: x sort_key_def insort_on_values[unfolded comp_def])
qed (simp add: on_values_def)

lemma sort_on_fst: "sort_key fst (on_values g xs) = on_values g (sort_key fst xs)"
  using sort_on_values[of id g xs] by simp

lemma sort_on_num: "sort_key (\<lambda>kv. f (fst kv)) (on_values g xs) = on_values g (sort_key (\<lambda>kv. f (fst kv)) xs)"
  using sort_on_values[of f g xs] by (simp add: comp_def)

lemma filter_on_values: "filter (\<lambda>kv. P (fst kv)) (on_values g xs) = on_values g (filter (\<lambda>kv. P (fst kv)) xs)"
  by (induction xs) (auto simp: on_values_def)

lemma defined_sort: "defined_only (sort_key f xs) = sort_key f (defined_only xs)"
  by (simp add: defined_only_def filter_sort)

lemma defined_filter: "defined_only (filter P xs) = filter P (defined_only xs)"
  by (simp add: defined_only_def conj_commute)

lemma clone_obj: "json_clone (JObj kvs) = JObj (on_values json_clone (defined_only kvs))"
  by (simp add: on_values_def defined_only_def)

lemma mk_obj_clone: "json_clone (mk_obj xs) = mk_obj (on_values json_clone (defined_only xs))"
proof -
  have app: "on_values g (defined_only (as @ bs)) = on_values g (defined_only as) @ on_values g (defined_only bs)" for g as bs
    by (simp add: defined_only_def on_values_def)
  show ?thesis
    unfolding mk_obj_def clone_obj app defined_sort defined_filter sort_on_num[symmetric]
      filter_on_values[of "\<lambda>k. \<not> index_key k"] filter_on_values ..
qed

lemma update_new: "k \<notin> set (map fst acc) \<Longrightarrow> AList.update k v acc = acc @ [(k, v)]"
  by (induction acc) auto

lemma fold_update: "distinct (map fst (acc @ kvs)) \<Longrightarrow> fold (\<lambda>(k, v). AList.update k v) kvs acc = acc @ kvs"
proof (induction kvs arbitrary: acc)
  case (Cons kv kvs)
  obtain k v where kv: "kv = (k, v)" by fastforce
  from Cons.prems kv have "AList.update k v acc = acc @ [(k, v)]" by (intro update_new) auto
  with Cons.IH[of "acc @ [(k, v)]"] Cons.prems kv show ?case by simp
qed simp

text \<open>An object in property order keeps it when values change or undefined properties go.\<close>

lemma clone_in_order:
  assumes "distinct (map fst kvs)" "mk_obj kvs = JObj kvs"
  shows "object_of (on_values json_clone (defined_only kvs)) = json_clone (JObj kvs)"
proof -
  have "map fst (on_values json_clone (defined_only kvs)) = map fst (defined_only kvs)" by (auto simp: on_values_def)
  moreover have "distinct (map fst (defined_only kvs))" using assms(1) by (simp add: defined_only_def distinct_map_filter)
  ultimately have "distinct (map fst ([] @ on_values json_clone (defined_only kvs)))" by simp
  from fold_update[OF this] have "object_of (on_values json_clone (defined_only kvs)) = mk_obj (on_values json_clone (defined_only kvs))"
    by (simp add: object_of_def)
  also have "\<dots> = json_clone (mk_obj kvs)" by (rule mk_obj_clone[symmetric])
  finally show ?thesis by (simp add: assms(2))
qed

lemma json_obj_text: "json (JObj kvs) = CHR ''{'' # join_with '','' (map member_text (defined_only kvs)) @ [CHR ''}'']"
proof -
  have "(\<lambda>(k, v). quote k @ '':'' @ json v) = member_text" by (auto simp: member_text_def)
  then show ?thesis by (simp add: defined_only_def)
qed

lemma join_with_ne: "xs \<noteq> [] \<Longrightarrow> \<exists>ys. join_with sep xs = hd xs @ ys"
  by (cases xs rule: list.exhaust; cases "tl xs") auto

text \<open>A value is read back as its clone: undefined properties are gone, other undefined and non-finite numbers are null.\<close>

lemma held_reads_back: "held num v \<Longrightarrow> reads_back num v"
proof (induction v)
  case JUndef
  show ?case unfolding reads_back_def
  proof (intro allI impI)
    fix n r assume "2 * length (json JUndef) + 1 \<le> n"
    then obtain m where "n = Suc m" by (cases n) auto
    then show "read_value n num (json JUndef @ r) = Some (json_clone JUndef, r)"
      by (simp add: skip_space_def json_space_def ccode_def read_literal_def)
  qed
next
  case JNull
  show ?case unfolding reads_back_def
  proof (intro allI impI)
    fix n r assume "2 * length (json JNull) + 1 \<le> n"
    then obtain m where "n = Suc m" by (cases n) auto
    then show "read_value n num (json JNull @ r) = Some (json_clone JNull, r)"
      by (simp add: skip_space_def json_space_def ccode_def read_literal_def)
  qed
next
  case (JBool b)
  show ?case unfolding reads_back_def
  proof (intro allI impI)
    fix n r assume "2 * length (json (JBool b)) + 1 \<le> n"
    then obtain m where "n = Suc m" by (cases n) auto
    then show "read_value n num (json (JBool b) @ r) = Some (json_clone (JBool b), r)"
      by (cases b) (simp_all add: skip_space_def json_space_def ccode_def read_literal_def)
  qed
next
  case (JNum i)
  show ?case unfolding reads_back_def
  proof (intro allI impI)
    fix n r assume "2 * length (json (JNum i)) + 1 \<le> n" and r: "ends_number r"
    then obtain m where "n = Suc m" by (cases n) auto
    with read_value_number[OF int_token r, of m num i] number_value_int[of i num] JNum
    show "read_value n num (json (JNum i) @ r) = Some (json_clone (JNum i), r)" by simp
  qed
next
  case (JDbl s)
  show ?case unfolding reads_back_def
  proof (intro allI impI)
    fix n r assume "2 * length (json (JDbl s)) + 1 \<le> n" and r: "ends_number r"
    then obtain m where n: "n = Suc m" by (cases n) auto
    show "read_value n num (json (JDbl s) @ r) = Some (json_clone (JDbl s), r)"
    proof (cases "s \<in> {''NaN'', ''Infinity'', ''-Infinity''}")
      case True
      then show ?thesis by (simp add: n skip_space_def json_space_def ccode_def read_literal_def)
    next
      case False
      with JDbl have "number_token s" "list_all number_char s" "\<not> plain_integer s" "num s = JDbl s" by simp_all
      with read_value_number[OF this(1,2) r, of m num] False show ?thesis by (simp add: n number_value_def)
    qed
  qed
next
  case (JStr s)
  show ?case unfolding reads_back_def
  proof (intro allI impI)
    fix n r assume "2 * length (json (JStr s)) + 1 \<le> n"
    then obtain m where n: "n = Suc m" by (cases n) auto
    have "json (JStr s) @ r = char_of (34::nat) # (concat (map escape_char s) @ char_of (34::nat) # r)" by (simp add: quote_def)
    then show "read_value n num (json (JStr s) @ r) = Some (json_clone (JStr s), r)"
      by (simp only: n read_value.simps skip_char[OF no_space(7)] list.case) (simp add: ccode_char_of read_string_quoted)
  qed
next
  case (JArr vs)
  show ?case unfolding reads_back_def
  proof (intro allI impI)
    fix n r assume len: "2 * length (json (JArr vs)) + 1 \<le> n"
    then obtain m where n: "n = Suc m" by (cases n) auto
    show "read_value n num (json (JArr vs) @ r) = Some (json_clone (JArr vs), r)"
    proof (cases "vs = []")
      case True
      then show ?thesis by (simp add: n skip_char no_space) (simp add: ccode_def)
    next
      case False
      let ?t = "join_with '','' (map json vs)"
      have all: "\<forall>v \<in> set vs. reads_back num v \<and> held num v" using JArr by (auto simp: list_all_iff)
      have e: "read_elements m num (?t @ CHR '']'' # r) = Some (map json_clone vs, r)"
        by (rule read_elements_back[OF False all]) (use len n in simp)
      obtain c cs where c: "json (hd vs) = c # cs" "value_head c" using json_head[of num "hd vs"] all False by auto
      obtain ys where "?t = json (hd vs) @ ys" using join_with_ne[of "map json vs" "'',''"] False by (auto simp: hd_map)
      then have s: "skip_space (?t @ CHR '']'' # r) = c # (cs @ ys @ CHR '']'' # r)" using skip_head[OF c] by simp
      have "json (JArr vs) @ r = CHR ''['' # (?t @ CHR '']'' # r)" by simp
      with s e c(2) show ?thesis
        by (simp only: n read_value.simps skip_char[OF no_space(5)] list.case) (simp add: ccode_def value_head_def)
    qed
  qed
next
  case (JObj kvs)
  have o: "object_of (on_values json_clone (defined_only kvs)) = json_clone (JObj kvs)"
    using JObj.prems by (intro clone_in_order) simp_all
  show ?case unfolding reads_back_def
  proof (intro allI impI)
    fix n r assume len: "2 * length (json (JObj kvs)) + 1 \<le> n"
    then obtain m where n: "n = Suc m" by (cases n) auto
    let ?t = "join_with '','' (map member_text (defined_only kvs))"
    have shape: "json (JObj kvs) @ r = CHR ''{'' # (?t @ CHR ''}'' # r)" by (simp only: json_obj_text) simp
    show "read_value n num (json (JObj kvs) @ r) = Some (json_clone (JObj kvs), r)"
    proof (cases "defined_only kvs = []")
      case True
      then have "?t = []" "object_of [] = json_clone (JObj kvs)" using o by (simp_all add: on_values_def)
      then show ?thesis unfolding shape by (simp add: n skip_char no_space del: json_clone.simps) (simp add: ccode_def)
    next
      case False
      have all: "\<forall>kv \<in> set (defined_only kvs). reads_back num (snd kv)"
        using JObj by (auto simp: defined_only_def list_all_iff)
      have "2 * length ?t + 2 \<le> m" using len by (simp add: n json_obj_text del: json.simps)
      from read_members_back[OF False all this]
      have e: "read_members m num (?t @ CHR ''}'' # r) = Some (on_values json_clone (defined_only kvs), r)" by (simp add: on_values_def)
      obtain ys where "?t = member_text (hd (defined_only kvs)) @ ys"
        using join_with_ne[of "map member_text (defined_only kvs)" "'',''"] False by (auto simp: hd_map)
      then obtain us where "?t = char_of (34::nat) # us" by (simp add: member_text_def quote_def)
      then have s: "skip_space (?t @ CHR ''}'' # r) = char_of (34::nat) # (us @ CHR ''}'' # r)" by (simp add: skip_char no_space)
      have q: "char_of (34::nat) \<noteq> CHR ''}''" using ccode_char_of[of 34] by (auto simp: ccode_def simp del: of_char_of)
      show ?thesis unfolding shape
        by (simp only: n read_value.simps skip_char[OF no_space(6)] list.case s e) (simp add: ccode_def q o del: json_clone.simps)
    qed
  qed
qed

text \<open>\<open>JSON.parse\<close> of \<open>JSON.stringify\<close> is the clone.\<close>

lemma parse_json_text: "held num v \<Longrightarrow> parse_json num (json v) = Some (json_clone v)"
  using reads_backD[OF held_reads_back, of num v "2 * length (json v) + 1" "[]"] by (simp add: parse_json_def ends_at skip_space_def)

subsection \<open>Lines of JSON\<close>

text \<open>A JSON text is one line.\<close>

lemma escape_line: "char_of (10::nat) \<notin> set (escape_char c)"
proof -
  have d: "char_of (10::nat) \<noteq> hex_digit n" if "n < 16" for n
  proof
    assume "char_of (10::nat) = hex_digit n"
    then have "ccode (char_of (10::nat)) = ccode (hex_digit n)" by simp
    then show False using that by (simp add: hex_digit_def ccode_char_of split: if_splits)
  qed
  have n: "char_of (10::nat) \<noteq> x" if "ccode x \<noteq> 10" for x using that by (auto simp: ccode_char_of)
  have l: "ccode CHR ''b'' \<noteq> 10" "ccode CHR ''t'' \<noteq> 10" "ccode CHR ''n'' \<noteq> 10" "ccode CHR ''f'' \<noteq> 10" "ccode CHR ''r'' \<noteq> 10"
    "ccode CHR ''u'' \<noteq> 10" "ccode CHR ''0'' \<noteq> 10" "ccode (char_of (92::nat)) \<noteq> 10" "ccode (char_of (34::nat)) \<noteq> 10"
    by (simp_all add: ccode_def)
  show ?thesis
    using d[of "ccode c div 16"] d[of "ccode c mod 16"] l[THEN n] n[of c] by (auto simp: escape_char_def)
qed

lemma quote_line: "char_of (10::nat) \<notin> set (quote s)"
proof -
  have "char_of (10::nat) \<noteq> (char_of (34::nat) :: char)" using ccode_char_of[of 10] ccode_char_of[of 34] by auto
  then show ?thesis using escape_line by (auto simp: quote_def)
qed

lemma join_line: "\<forall>x \<in> set xs. char_of (10::nat) \<notin> set x \<Longrightarrow> char_of (10::nat) \<notin> set (join_with '','' xs)"
proof (induction "'','' :: string" xs rule: join_with.induct)
  case (3 x y ys)
  have "char_of (10::nat) \<noteq> CHR '',''" using ccode_char_of[of 10] by (auto simp: ccode_def simp del: of_char_of)
  with 3 show ?case by auto
qed auto

lemma number_line: "list_all number_char t \<Longrightarrow> char_of (10::nat) \<notin> set t"
proof -
  have "\<not> number_char (char_of (10::nat))"
    using ccode_char_of[of 10] by (auto simp: number_char_def is_digit_def ccode_def simp del: of_char_of)
  then show "list_all number_char t \<Longrightarrow> char_of (10::nat) \<notin> set t" by (auto simp: list_all_iff)
qed

lemma json_line: "held num v \<Longrightarrow> char_of (10::nat) \<notin> set (json v)"
proof (induction v)
  case (JArr vs)
  have "char_of (10::nat) \<noteq> CHR ''[''" "char_of (10::nat) \<noteq> CHR '']''"
    using ccode_char_of[of 10] by (auto simp: ccode_def simp del: of_char_of)
  with JArr join_line[of "map json vs"] show ?case by (auto simp: list_all_iff)
next
  case (JObj kvs)
  have c: "char_of (10::nat) \<noteq> CHR ''{''" "char_of (10::nat) \<noteq> CHR ''}''" "char_of (10::nat) \<noteq> CHR '':''"
    using ccode_char_of[of 10] by (auto simp: ccode_def simp del: of_char_of)
  have "\<forall>kv \<in> set (defined_only kvs). char_of (10::nat) \<notin> set (member_text kv)"
  proof
    fix kv assume "kv \<in> set (defined_only kvs)"
    then have k: "kv \<in> set kvs" by (auto simp: defined_only_def)
    then have "held num (snd kv)" using JObj.prems by (auto simp: list_all_iff)
    moreover have "snd kv \<in> Basic_BNFs.snds kv" by (simp add: prod_set_simps(2)[of "fst kv" "snd kv", simplified])
    ultimately have "char_of (10::nat) \<notin> set (json (snd kv))" using JObj.IH k by blast
    with c quote_line show "char_of (10::nat) \<notin> set (member_text kv)" by (auto simp: member_text_def)
  qed
  with c join_line[of "map member_text (defined_only kvs)"] show ?case by (simp add: json_obj_text del: json.simps)
next
  case (JStr s)
  show ?case using quote_line by simp
next
  case (JNum n)
  show ?case using number_line[OF int_token(2)] by simp
next
  case (JDbl s)
  have "char_of (10::nat) \<notin> set ''null''" using ccode_char_of[of 10] by (auto simp: ccode_def simp del: of_char_of)
  with JDbl number_line show ?case by auto
next
  case (JBool b)
  show ?case using ccode_char_of[of 10] by (auto simp: ccode_def simp del: of_char_of)
qed (use ccode_char_of[of 10] in \<open>auto simp: ccode_def simp del: of_char_of\<close>)

definition line_text :: "string list \<Rightarrow> string" where
  "line_text ls = concat (map (\<lambda>l. l @ [char_of (10::nat)]) ls)"

lemma split_lines_ne: "split_lines s \<noteq> []"
  by (cases s) auto

lemma split_lines_app: "char_of (10::nat) \<notin> set l \<Longrightarrow> split_lines (l @ char_of (10::nat) # s) = l # split_lines s"
  by (induction l) auto

lemma split_line_text: "\<forall>l \<in> set ls. char_of (10::nat) \<notin> set l \<Longrightarrow> split_lines (line_text ls) = ls @ [[]]"
  by (induction ls) (simp_all add: line_text_def split_lines_app)

end
