(* ===== verification/TaskLifecycle.thy ===== *)
theory TaskLifecycle
  imports TaskGraph JsonParse
begin

text \<open>
  The local tasks of \<open>src/domain/task-state.cjs\<close>, the event store of
  \<open>src/main/event-store.cjs\<close>, which appends JSON lines to a file, and the repository of
  \<open>src/main/task-repository.cjs\<close>, which keeps the tasks in a map and logs a snapshot of every
  change: a restart parses the file and gets back the same map as far as JSON carries it, and
  recovery leaves no task active.  The file is its text; one that does not exist reads as empty.
  UTF-8 encoding and decoding is the identity on the texts of the model.
\<close>

subsection \<open>Tasks\<close>

record task =
  tk_id :: string
  tk_projectId :: string
  tk_title :: string
  tk_payload :: js
  tk_state :: string
  tk_revision :: int
  tk_createdAt :: js
  tk_updatedAt :: js
  tk_lastTransitionReason :: js

definition TASK_STATES :: "string list" where
  "TASK_STATES = [''draft'', ''queued'', ''ready'', ''active'', ''paused'', ''waiting_human'',
    ''waiting_external'', ''blocked'', ''failed'', ''completed'', ''cancelled'']"

definition TRANSITIONS :: "(string \<times> string list) list" where
  "TRANSITIONS =
    [(''draft'', [''queued'', ''cancelled'']),
     (''queued'', [''ready'', ''blocked'', ''cancelled'']),
     (''ready'', [''active'', ''blocked'', ''cancelled'']),
     (''active'', [''paused'', ''waiting_human'', ''waiting_external'', ''blocked'', ''failed'', ''completed'']),
     (''paused'', [''active'', ''blocked'', ''cancelled'']),
     (''waiting_human'', [''active'', ''blocked'', ''cancelled'']),
     (''waiting_external'', [''active'', ''blocked'', ''failed'', ''completed'', ''cancelled'']),
     (''blocked'', [''ready'', ''cancelled'']),
     (''failed'', [''ready'', ''cancelled'']),
     (''completed'', []),
     (''cancelled'', [])]"

definition assertTaskState :: "js \<Rightarrow> string res" where
  "assertTaskState state = (if includes_str TASK_STATES state then Inr (to_string state)
     else Inl (TypeError (''Unknown task state: '' @ to_string state)))"

definition transitionTask :: "string \<Rightarrow> task \<Rightarrow> js \<Rightarrow> js \<Rightarrow> task res" where
  "transitionTask now task nextState metadata =
    bindE (assertTaskState (JStr (tk_state task))) (\<lambda>_.
    bindE (assertTaskState nextState) (\<lambda>next.
      if tk_state task = next then Inr task
      else if next \<notin> set (table_succs TRANSITIONS (tk_state task))
      then Inl (Error (''Invalid task transition: '' @ tk_state task @ '' -> '' @ next))
      else Inr (task\<lparr>tk_state := next,
             tk_updatedAt := or_js (field metadata ''occurredAt'') (JStr now),
             tk_revision := tk_revision task + 1,
             tk_lastTransitionReason := or_js (field metadata ''reason'') JNull\<rparr>)))"

definition createTask :: "string \<Rightarrow> js \<Rightarrow> task res" where
  "createTask now input =
    (let at = (if field input ''now'' = JUndef then JStr now else field input ''now'') in
    bindE (assertSafeIdentifier (field input ''id'') ''task id'') (\<lambda>i.
    bindE (assertSafeIdentifier (field input ''projectId'') ''project id'') (\<lambda>p.
    (case field input ''title'' of
       JStr title \<Rightarrow> if trim_js title = [] then Inl (TypeError ''title is required'')
         else Inr \<lparr>tk_id = i, tk_projectId = p, tk_title = title,
           tk_payload = coalesce (field input ''payload'') JNull, tk_state = ''draft'', tk_revision = 0,
           tk_createdAt = at, tk_updatedAt = at, tk_lastTransitionReason = JNull\<rparr>
     | _ \<Rightarrow> Inl (TypeError ''title is required'')))))"

lemma assertTaskState_Inr [simp]: "assertTaskState v = Inr s \<longleftrightarrow> v = JStr s \<and> s \<in> set TASK_STATES"
  by (auto simp: assertTaskState_def includes_str_def split: js.splits if_splits)

lemma transitionTask_cases:
  assumes "transitionTask now t (JStr s) m = Inr t'"
  obtains "tk_state t = s" "t' = t"
  | "tk_state t \<noteq> s" "s \<in> set (table_succs TRANSITIONS (tk_state t))" "tk_state t' = s"
    "tk_revision t' = tk_revision t + 1" "tk_id t' = tk_id t"
  using assms by (auto simp: transitionTask_def split: if_splits)

lemma transitionTask_known: "transitionTask now t s m = Inr t' \<Longrightarrow> tk_state t' \<in> set TASK_STATES \<and> tk_id t' = tk_id t"
  by (auto simp: transitionTask_def split: if_splits)

interpretation task: versioned_machine tk_state "table_succs TRANSITIONS"
  "\<lambda>(now, m) t s. transitionTask now t (JStr s) m" tk_revision
  by unfold_locales (auto elim!: transitionTask_cases)

subsection \<open>The repository\<close>

record task_repo =
  repo_tasks :: "(string, task) jsmap"
  repo_file :: string

text \<open>
  The event as it is stored: \<open>{ id: event.id || randomUUID(), occurredAt: event.occurredAt || now, ...event }\<close>,
  written as one line.
\<close>

definition stored_event :: "string \<Rightarrow> string \<Rightarrow> js \<Rightarrow> js" where
  "stored_event uuid now event = with_fields (JObj [(''id'', or_js (field event ''id'') (JStr uuid)),
     (''occurredAt'', or_js (field event ''occurredAt'') (JStr now))]) (case event of JObj kvs \<Rightarrow> kvs | _ \<Rightarrow> [])"

definition jsonl_append :: "string \<Rightarrow> string \<Rightarrow> js \<Rightarrow> string \<Rightarrow> (string \<times> js) res" where
  "jsonl_append uuid now event file =
    (if \<not> truthy event \<or> \<not> truthy (field event ''type'') then Inl (TypeError ''Event type is required'')
     else Inr (file @ json (stored_event uuid now event) @ [char_of (10 :: nat)], stored_event uuid now event))"

definition readAll :: "(string \<Rightarrow> js) \<Rightarrow> string \<Rightarrow> js list res" where
  "readAll num file = mapE (\<lambda>line. case parse_json num line of None \<Rightarrow> Inl (Error ''SyntaxError'') | Some v \<Rightarrow> Inr v)
     (filter (\<lambda>line. line \<noteq> []) (split_lines file))"

text \<open>A task as the object it is, and the task an object is when its fields have the types of \<open>createTask\<close>.\<close>

definition task_js :: "task \<Rightarrow> js" where
  "task_js t = JObj [(''id'', JStr (tk_id t)), (''projectId'', JStr (tk_projectId t)), (''title'', JStr (tk_title t)),
     (''payload'', tk_payload t), (''state'', JStr (tk_state t)), (''revision'', JNum (tk_revision t)),
     (''createdAt'', tk_createdAt t), (''updatedAt'', tk_updatedAt t), (''lastTransitionReason'', tk_lastTransitionReason t)]"

definition task_of :: "js \<Rightarrow> task option" where
  "task_of v = (case (field v ''id'', field v ''projectId'', field v ''title'', field v ''state'', field v ''revision'') of
      (JStr i, JStr p, JStr title, JStr state, JNum revision) \<Rightarrow>
        Some \<lparr>tk_id = i, tk_projectId = p, tk_title = title, tk_payload = field v ''payload'', tk_state = state, tk_revision = revision,
          tk_createdAt = field v ''createdAt'', tk_updatedAt = field v ''updatedAt'', tk_lastTransitionReason = field v ''lastTransitionReason''\<rparr>
    | _ \<Rightarrow> None)"

text \<open>
  The loop of \<open>rehydrate\<close>.  The code keeps whatever object a snapshot holds; the tasks of the model
  are those with the fields of \<open>createTask\<close>, so it stops at a snapshot of anything else, which no
  version of the repository writes.
\<close>

definition replay_event :: "js \<Rightarrow> (string, task) jsmap \<Rightarrow> (string, task) jsmap res" where
  "replay_event e tasks =
    (if nullish e then Inl (TypeError ''Cannot read properties of null (reading type)'')
     else if field e ''type'' = JStr ''task.snapshot'' \<and> truthy (field (field e ''task'') ''id'')
     then (case task_of (field e ''task'') of Some t \<Rightarrow> Inr (mset_at (tk_id t) t tasks) | None \<Rightarrow> Inl (Error ''not a task of the model''))
     else Inr tasks)"

fun replay_events :: "js list \<Rightarrow> (string, task) jsmap \<Rightarrow> (string, task) jsmap res" where
  "replay_events [] tasks = Inr tasks"
| "replay_events (e # es) tasks = bindE (replay_event e tasks) (replay_events es)"

definition rehydrate :: "(string \<Rightarrow> js) \<Rightarrow> string \<Rightarrow> task_repo res" where
  "rehydrate num file = bindE (readAll num file) (\<lambda>events. bindE (replay_events events []) (\<lambda>tasks.
     Inr \<lparr>repo_tasks = tasks, repo_file = file\<rparr>))"

text \<open>The repository on a file that does not exist yet.\<close>

definition new_repo :: task_repo where
  "new_repo = \<lparr>repo_tasks = [], repo_file = []\<rparr>"

lemma rehydrate_new: "rehydrate num [] = Inr new_repo"
  by (simp add: rehydrate_def readAll_def new_repo_def)

definition repo_get :: "task_repo \<Rightarrow> string \<Rightarrow> task option" where
  "repo_get r i = mget (repo_tasks r) i"

definition task_snapshot_event :: "task \<Rightarrow> js \<Rightarrow> js" where
  "task_snapshot_event t reason = JObj [(''type'', JStr ''task.snapshot''), (''task'', task_js t), (''reason'', reason)]"

text \<open>
  \<open>uuid n\<close> is the identifier drawn when the file has \<open>n\<close> characters.  The append throws only
  without a type, which a snapshot has.
\<close>

definition repo_save :: "(nat \<Rightarrow> string) \<Rightarrow> string \<Rightarrow> task \<Rightarrow> js \<Rightarrow> task_repo \<Rightarrow> task_repo" where
  "repo_save uuid now task reason r = r\<lparr>repo_tasks := mset_at (tk_id task) task (repo_tasks r),
     repo_file := (case jsonl_append (uuid (length (repo_file r))) now (task_snapshot_event task reason) (repo_file r) of
       Inr (file, _) \<Rightarrow> file | Inl _ \<Rightarrow> repo_file r)\<rparr>"

definition repo_create :: "(nat \<Rightarrow> string) \<Rightarrow> string \<Rightarrow> js \<Rightarrow> task_repo \<Rightarrow> (task_repo \<times> task) res" where
  "repo_create uuid now input r =
    (if (case field input ''id'' of JStr i \<Rightarrow> repo_get r i \<noteq> None | _ \<Rightarrow> False)
     then Inl (Error (''Task already exists: '' @ to_string (field input ''id'')))
     else bindE (createTask now input) (\<lambda>t0.
          bindE (transitionTask now t0 (JStr ''queued'') (JObj [(''reason'', JStr ''operator_created'')])) (\<lambda>t1.
          bindE (transitionTask now t1 (JStr ''ready'') (JObj [(''reason'', JStr ''no_dependencies'')])) (\<lambda>t2.
          Inr (repo_save uuid now t2 (JStr ''task_created'') r, t2)))))"

definition repo_transition :: "(nat \<Rightarrow> string) \<Rightarrow> string \<Rightarrow> string \<Rightarrow> js \<Rightarrow> js \<Rightarrow> task_repo \<Rightarrow> (task_repo \<times> task) res" where
  "repo_transition uuid now taskId nextState metadata r = (case repo_get r taskId of
      None \<Rightarrow> Inl (Error (''Unknown task: '' @ taskId))
    | Some current \<Rightarrow> bindE (transitionTask now current nextState metadata) (\<lambda>next.
        if next = current then Inr (r, current)
        else Inr (repo_save uuid now next (or_js (field metadata ''reason'') (JStr ''task_transitioned'')) r, next)))"

text \<open>The loop of \<open>recoverUncertain\<close> over the keys of the map, reading each task when its turn comes.\<close>

fun recover_keys :: "(nat \<Rightarrow> string) \<Rightarrow> string \<Rightarrow> string list \<Rightarrow> task_repo \<Rightarrow> (task_repo \<times> task list) res" where
  "recover_keys uuid now [] r = Inr (r, [])"
| "recover_keys uuid now (k # ks) r = (case repo_get r k of
      None \<Rightarrow> recover_keys uuid now ks r
    | Some t \<Rightarrow> if tk_state t \<noteq> ''active'' then recover_keys uuid now ks r
        else bindE (repo_transition uuid now (tk_id t) (JStr ''waiting_human'')
               (JObj [(''reason'', JStr ''application_recovery_requires_review'')]) r) (\<lambda>(r1, t1).
             bindE (recover_keys uuid now ks r1) (\<lambda>(r2, ts). Inr (r2, t1 # ts))))"

definition repo_recoverUncertain :: "(nat \<Rightarrow> string) \<Rightarrow> string \<Rightarrow> task_repo \<Rightarrow> (task_repo \<times> task list) res" where
  "repo_recoverUncertain uuid now r = recover_keys uuid now (map fst (repo_tasks r)) r"

interpretation tasks: keyed_store "\<lambda>i r. repo_get r i" "\<lambda>t. repo_save uuid now t JNull" tk_id for uuid now
  by unfold_locales (simp add: repo_get_def repo_save_def)

subsection \<open>Operations in sequence\<close>

datatype repo_op = CreateTask js | MoveTask string js js | RecoverTasks

text \<open>An operation that throws leaves the repository as it was.\<close>

definition repo_step :: "(nat \<Rightarrow> string) \<Rightarrow> string \<Rightarrow> repo_op \<Rightarrow> task_repo \<Rightarrow> task_repo" where
  "repo_step uuid now oper r = (case oper of
      CreateTask input \<Rightarrow> (case repo_create uuid now input r of Inr (r', _) \<Rightarrow> r' | Inl _ \<Rightarrow> r)
    | MoveTask i s m \<Rightarrow> (case repo_transition uuid now i s m r of Inr (r', _) \<Rightarrow> r' | Inl _ \<Rightarrow> r)
    | RecoverTasks \<Rightarrow> (case repo_recoverUncertain uuid now r of Inr (r', _) \<Rightarrow> r' | Inl _ \<Rightarrow> r))"

definition repo_run :: "(nat \<Rightarrow> string) \<Rightarrow> (string \<times> repo_op) list \<Rightarrow> task_repo \<Rightarrow> task_repo" where
  "repo_run uuid ops r = fold (\<lambda>(now, oper). repo_step uuid now oper) ops r"

definition repo_ok :: "task_repo \<Rightarrow> bool" where
  "repo_ok r \<longleftrightarrow> distinct (map fst (repo_tasks r)) \<and>
     (\<forall>k t. mget (repo_tasks r) k = Some t \<longrightarrow> tk_id t = k \<and> k \<noteq> [] \<and> tk_state t \<in> set TASK_STATES)"

lemma repo_save_ok:
  assumes "repo_ok r" "tk_id t \<noteq> []" "tk_state t \<in> set TASK_STATES"
  shows "repo_ok (repo_save uuid now t reason r)"
  using assms by (auto simp: repo_ok_def repo_save_def split: if_splits)

lemma SAFE_IDENTIFIER_nonempty: "SAFE_IDENTIFIER s \<Longrightarrow> s \<noteq> []"
  using SAFE_IDENTIFIER_bounds by fastforce

lemma createTask_Inr: "createTask now input = Inr t \<Longrightarrow> SAFE_IDENTIFIER (tk_id t) \<and> tk_state t = ''draft''
    \<and> field input ''id'' = JStr (tk_id t)"
  by (cases "field input ''title''") (auto simp: createTask_def Let_def split: if_splits)

lemma repo_create_ok: "repo_ok r \<Longrightarrow> repo_create uuid now input r = Inr (r', t) \<Longrightarrow> repo_ok r'"
  by (auto simp: repo_create_def dest!: createTask_Inr transitionTask_known
      SAFE_IDENTIFIER_nonempty intro!: repo_save_ok)

lemma repo_transition_Inr:
  assumes "repo_ok r" "repo_transition uuid now i s m r = Inr (r', t)"
  shows "repo_ok r' \<and> repo_get r' i = Some t \<and> tk_id t = i \<and> (\<forall>k. k \<noteq> i \<longrightarrow> repo_get r' k = repo_get r k)
    \<and> map fst (repo_tasks r') = map fst (repo_tasks r)"
proof -
  from assms(2) obtain cur where cur: "repo_get r i = Some cur" and tr: "transitionTask now cur s m = Inr t"
    and r': "r' = (if t = cur then r
      else repo_save uuid now t (or_js (field m ''reason'') (JStr ''task_transitioned'')) r)"
    by (auto simp: repo_transition_def split: option.splits if_splits)
  from assms(1) cur have i: "tk_id cur = i" "i \<noteq> []" by (auto simp: repo_ok_def repo_get_def)
  from transitionTask_known[OF tr] i have t: "tk_state t \<in> set TASK_STATES" "tk_id t = i" by auto
  have "i \<in> set (map fst (repo_tasks r))" using cur by (metis mget_eq_None option.simps(3) repo_get_def)
  with t i assms(1) cur show ?thesis
    by (auto simp: r' intro: repo_save_ok)
       (auto simp: repo_get_def repo_save_def keys_mset_at intro: rev_image_eqI)
qed

lemma recover_keys_ok:
  "repo_ok r \<Longrightarrow> recover_keys uuid now ks r = Inr (r', ts) \<Longrightarrow> repo_ok r' \<and>
     (\<forall>k \<in> set ks. \<forall>t. repo_get r' k = Some t \<longrightarrow> tk_state t \<noteq> ''active'') \<and>
     (\<forall>k t. repo_get r k = Some t \<longrightarrow> tk_state t \<noteq> ''active'' \<longrightarrow> repo_get r' k = Some t) \<and>
     map fst (repo_tasks r') = map fst (repo_tasks r)"
proof (induction ks arbitrary: r ts)
  case (Cons k ks)
  show ?case
  proof (cases "\<exists>t. repo_get r k = Some t \<and> tk_state t = ''active''")
    case False
    then have "recover_keys uuid now ks r = Inr (r', ts)"
      using Cons.prems(2) by (auto split: option.splits)
    note IH = Cons.IH[OF Cons.prems(1) this]
    then have none: "repo_get r k = None \<longleftrightarrow> repo_get r' k = None"
      unfolding repo_get_def mget_eq_None by simp
    with IH False show ?thesis by (cases "repo_get r k") auto
  next
    case True
    then obtain t where t: "repo_get r k = Some t" "tk_state t = ''active''" by blast
    with Cons.prems(1) have id: "tk_id t = k" by (auto simp: repo_ok_def repo_get_def)
    from Cons.prems(2) t id obtain r1 t1 ts' where
      r1: "repo_transition uuid now k (JStr ''waiting_human'')
             (JObj [(''reason'', JStr ''application_recovery_requires_review'')]) r = Inr (r1, t1)"
      and rest: "recover_keys uuid now ks r1 = Inr (r', ts')"
      by auto
    note f = repo_transition_Inr[OF Cons.prems(1) r1]
    have w: "tk_state t1 = ''waiting_human''"
      using r1 t by (auto simp: repo_transition_def split: if_splits elim!: transitionTask_cases)
    from f w have "repo_get r1 k = Some t1" "tk_state t1 \<noteq> ''active''" by auto
    with Cons.IH[OF _ rest] f have IH: "repo_ok r'"
      "\<forall>k \<in> set ks. \<forall>t. repo_get r' k = Some t \<longrightarrow> tk_state t \<noteq> ''active''"
      "\<forall>k t. repo_get r1 k = Some t \<longrightarrow> tk_state t \<noteq> ''active'' \<longrightarrow> repo_get r' k = Some t"
      "map fst (repo_tasks r') = map fst (repo_tasks r)" by auto
    then have "repo_get r' k = Some t1" using \<open>repo_get r1 k = Some t1\<close> w by auto
    moreover have "repo_get r' k' = Some t'" if "repo_get r k' = Some t'" "tk_state t' \<noteq> ''active''" for k' t'
    proof -
      have "k' \<noteq> k" using that t by auto
      with f that(1) have "repo_get r1 k' = Some t'" by auto
      with IH(3) that(2) show ?thesis by blast
    qed
    ultimately show ?thesis using IH(1,2,4) w by auto
  qed
qed auto

lemma repo_step_ok: "repo_ok r \<Longrightarrow> repo_ok (repo_step uuid now oper r)"
  by (cases oper) (auto simp: repo_step_def repo_recoverUncertain_def split: sum.splits
      dest: repo_create_ok repo_transition_Inr recover_keys_ok)

lemma repo_run_ok: "repo_ok r \<Longrightarrow> repo_ok (repo_run uuid ops r)"
  by (induction ops arbitrary: r) (auto simp: repo_run_def repo_step_ok)

lemma recover_keys_total:
  "repo_ok r \<Longrightarrow> \<exists>r' ts. recover_keys uuid now ks r = Inr (r', ts)"
proof (induction ks arbitrary: r)
  case (Cons k ks)
  show ?case
  proof (cases "\<exists>t. repo_get r k = Some t \<and> tk_state t = ''active''")
    case True
    then obtain t where t: "repo_get r k = Some t" "tk_state t = ''active''" by blast
    with Cons.prems have id: "tk_id t = k" by (auto simp: repo_ok_def repo_get_def)
    let ?m = "JObj [(''reason'', JStr ''application_recovery_requires_review'')]"
    have "\<exists>x. repo_transition uuid now k (JStr ''waiting_human'') ?m r = Inr x"
      using t by (simp add: repo_transition_def transitionTask_def TASK_STATES_def TRANSITIONS_def table_succs_def)
    then obtain r1 t1 where r1: "repo_transition uuid now k (JStr ''waiting_human'') ?m r = Inr (r1, t1)" by auto
    from repo_transition_Inr[OF Cons.prems r1] Cons.IH[of r1] r1 t id show ?thesis by auto
  qed (use Cons in \<open>auto split: option.splits\<close>)
qed auto

text \<open>
  Recovery always completes; afterwards no task is active, and the tasks that were not
  active are unchanged.
\<close>

theorem recovery_leaves_none_active:
  "\<exists>r' ts. repo_recoverUncertain uuid now (repo_run uuid ops new_repo) = Inr (r', ts) \<and>
     (\<forall>k t. repo_get r' k = Some t \<longrightarrow> tk_state t \<noteq> ''active'') \<and>
     (\<forall>k t. repo_get (repo_run uuid ops new_repo) k = Some t \<longrightarrow> tk_state t \<noteq> ''active'' \<longrightarrow> repo_get r' k = Some t)"
proof -
  let ?r = "repo_run uuid ops new_repo"
  have "repo_ok new_repo" by (simp add: repo_ok_def new_repo_def)
  then have ok: "repo_ok ?r" by (rule repo_run_ok)
  obtain r' ts where r: "recover_keys uuid now (map fst (repo_tasks ?r)) ?r = Inr (r', ts)"
    using recover_keys_total[OF ok] by blast
  note f = recover_keys_ok[OF ok r]
  have "tk_state t \<noteq> ''active''" if "repo_get r' k = Some t" for k t
  proof -
    have "k \<in> set (map fst (repo_tasks r'))" using that by (metis mget_eq_None option.simps(3) repo_get_def)
    with f that show ?thesis by metis
  qed
  with f r show ?thesis unfolding repo_recoverUncertain_def by blast
qed

definition sample_uuid :: "nat \<Rightarrow> string" where
  "sample_uuid n = nat_digits n"

definition sample_task_ops :: "(string \<times> repo_op) list" where
  "sample_task_ops = [(''t1'', CreateTask (JObj [(''id'', JStr ''a''), (''projectId'', JStr ''p''), (''title'', JStr ''x'')])),
     (''t2'', MoveTask ''a'' (JStr ''active'') (JObj []))]"

theorem recovery_leaves_none_active_witness:
  "(case repo_get (repo_run sample_uuid sample_task_ops new_repo) ''a'' of Some t \<Rightarrow> tk_state t = ''active'' | None \<Rightarrow> False) \<and>
   (\<exists>r' ts. repo_recoverUncertain sample_uuid ''t3'' (repo_run sample_uuid sample_task_ops new_repo) = Inr (r', ts) \<and>
     map_option tk_state (repo_get r' ''a'') \<noteq> Some ''active'')"
proof
  show "case repo_get (repo_run sample_uuid sample_task_ops new_repo) ''a'' of Some t \<Rightarrow> tk_state t = ''active'' | None \<Rightarrow> False"
    by code_simp
next
  obtain r' ts where r: "repo_recoverUncertain sample_uuid ''t3'' (repo_run sample_uuid sample_task_ops new_repo) = Inr (r', ts)"
    and n: "\<forall>k t. repo_get r' k = Some t \<longrightarrow> tk_state t \<noteq> ''active''"
    using recovery_leaves_none_active[of sample_uuid "''t3''" sample_task_ops] by blast
  from n have "map_option tk_state (repo_get r' ''a'') \<noteq> Some ''active''" by (cases "repo_get r' ''a''") auto
  with r show "\<exists>r' ts. repo_recoverUncertain sample_uuid ''t3'' (repo_run sample_uuid sample_task_ops new_repo) = Inr (r', ts) \<and>
     map_option tk_state (repo_get r' ''a'') \<noteq> Some ''active''" by blast
qed

subsection \<open>What the file holds\<close>

text \<open>A task as it comes back from its JSON text.\<close>

definition clone_task :: "task \<Rightarrow> task" where
  "clone_task t = t\<lparr>tk_payload := json_clone (tk_payload t), tk_createdAt := json_clone (tk_createdAt t),
     tk_updatedAt := json_clone (tk_updatedAt t), tk_lastTransitionReason := json_clone (tk_lastTransitionReason t)\<rparr>"

text \<open>The tasks that are written: no field undefined, every value as JavaScript holds it, a revision of at most \<open>b\<close>.\<close>

definition field_held :: "(string \<Rightarrow> js) \<Rightarrow> js \<Rightarrow> bool" where
  "field_held num v \<longleftrightarrow> held num v \<and> v \<noteq> JUndef"

definition task_held :: "(string \<Rightarrow> js) \<Rightarrow> int \<Rightarrow> task \<Rightarrow> bool" where
  "task_held num b t \<longleftrightarrow> field_held num (tk_payload t) \<and> field_held num (tk_createdAt t) \<and> field_held num (tk_updatedAt t) \<and>
     field_held num (tk_lastTransitionReason t) \<and> 0 \<le> tk_revision t \<and> tk_revision t \<le> b"

lemma no_index: "c \<noteq> [] \<Longrightarrow> \<not> is_digit (hd c) \<Longrightarrow> \<not> index_key c"
  by (cases c) (simp_all add: index_key_def)

lemma in_order: "\<forall>kv \<in> set kvs. \<not> index_key (fst kv) \<Longrightarrow> mk_obj kvs = JObj kvs"
proof -
  assume a: "\<forall>kv \<in> set kvs. \<not> index_key (fst kv)"
  then have "filter (\<lambda>kv. index_key (fst kv)) kvs = []" "filter (\<lambda>kv. \<not> index_key (fst kv)) kvs = kvs"
    by (auto simp: filter_empty_conv filter_id_conv)
  then show ?thesis by (simp add: mk_obj_def)
qed

lemma letters: "\<not> is_digit CHR ''i''" "\<not> is_digit CHR ''o''" "\<not> is_digit CHR ''t''" "\<not> is_digit CHR ''r''" "\<not> is_digit CHR ''p''"
  "\<not> is_digit CHR ''s''" "\<not> is_digit CHR ''c''" "\<not> is_digit CHR ''u''" "\<not> is_digit CHR ''l''"
  by (simp_all add: is_digit_def ccode_def)

lemma task_js_held: "task_held num b t \<Longrightarrow> b \<le> 9007199254740991 \<Longrightarrow> held num (task_js t)"
  unfolding task_js_def held.simps(4)
  by (intro conjI in_order) (simp_all add: task_held_def field_held_def no_index letters)

lemma task_of_clone: "task_held num b t \<Longrightarrow> task_of (json_clone (task_js t)) = Some (clone_task t)"
  by (simp add: task_js_def task_of_def clone_task_def task_held_def field_held_def)

definition snapshot_line :: "string \<Rightarrow> string \<Rightarrow> task \<Rightarrow> js \<Rightarrow> js" where
  "snapshot_line uuid now t reason = JObj [(''id'', JStr uuid), (''occurredAt'', JStr now), (''type'', JStr ''task.snapshot''),
     (''task'', task_js t), (''reason'', reason)]"

lemma snapshot_stored: "stored_event uuid now (task_snapshot_event t reason) = snapshot_line uuid now t reason"
  by (simp add: stored_event_def task_snapshot_event_def snapshot_line_def with_fields_def or_js_def)

lemma repo_save_file: "repo_file (repo_save uuid now t reason r) =
    repo_file r @ json (snapshot_line (uuid (length (repo_file r))) now t reason) @ [char_of (10::nat)]"
proof -
  have "truthy (task_snapshot_event t reason)" "truthy (field (task_snapshot_event t reason) ''type'')" by (simp_all add: task_snapshot_event_def)
  then show ?thesis by (simp add: repo_save_def jsonl_append_def snapshot_stored)
qed

lemma snapshot_held: "held num (task_js t) \<Longrightarrow> held num reason \<Longrightarrow> held num (snapshot_line uuid now t reason)"
  unfolding snapshot_line_def held.simps(4) by (intro conjI in_order) (simp_all add: no_index letters)

lemma replay_snapshot:
  assumes "task_held num b t" "tk_id t \<noteq> []"
  shows "replay_event (json_clone (snapshot_line uuid now t reason)) m = Inr (mset_at (tk_id t) (clone_task t) m)"
proof -
  have c: "field (json_clone (task_js t)) ''id'' = JStr (tk_id t)" by (simp add: task_js_def)
  have "field (json_clone (snapshot_line uuid now t reason)) ''task'' = json_clone (task_js t)"
    "field (json_clone (snapshot_line uuid now t reason)) ''type'' = JStr ''task.snapshot''"
    "\<not> nullish (json_clone (snapshot_line uuid now t reason))"
    by (simp_all add: snapshot_line_def task_js_def)
  with c assms(2) show ?thesis
    by (simp add: replay_event_def task_of_clone[OF assms(1)]) (simp add: clone_task_def)
qed

lemma replay_events_snoc: "replay_events (es @ [e]) m = bindE (replay_events es m) (replay_event e)"
proof (induction es arbitrary: m)
  case Nil
  show ?case by (cases "replay_event e m") simp_all
next
  case (Cons x es)
  show ?case by (cases "replay_event x m") (simp_all add: Cons)
qed

definition cloned :: "(string, task) jsmap \<Rightarrow> (string, task) jsmap" where
  "cloned m = map (\<lambda>(k, t). (k, clone_task t)) m"

lemma cloned_set: "cloned (mset_at k t m) = mset_at k (clone_task t) (cloned m)"
  by (induction m) (auto simp: cloned_def mset_at_def)

definition log_ok :: "(string \<Rightarrow> js) \<Rightarrow> int \<Rightarrow> task_repo \<Rightarrow> bool" where
  "log_ok num b r \<longleftrightarrow> (\<exists>es. repo_file r = line_text (map json es) \<and> (\<forall>e \<in> set es. held num e) \<and>
       replay_events (map json_clone es) [] = Inr (cloned (repo_tasks r))) \<and>
     (\<forall>k t. mget (repo_tasks r) k = Some t \<longrightarrow> task_held num b t)"

lemma log_ok_new: "log_ok num b new_repo"
  by (auto simp: log_ok_def new_repo_def line_text_def cloned_def mget_def)

lemma log_ok_more: "log_ok num b r \<Longrightarrow> b \<le> c \<Longrightarrow> log_ok num c r"
  by (fastforce simp: log_ok_def task_held_def)

lemma log_ok_save:
  assumes "log_ok num b r" "task_held num b t" "held num reason" "tk_id t \<noteq> []" "b \<le> 9007199254740991"
  shows "log_ok num b (repo_save uuid now t reason r)"
proof -
  from assms(1) obtain es where es: "repo_file r = line_text (map json es)" "\<forall>e \<in> set es. held num e"
    "replay_events (map json_clone es) [] = Inr (cloned (repo_tasks r))" by (auto simp: log_ok_def)
  let ?e = "snapshot_line (uuid (length (repo_file r))) now t reason"
  have e: "held num ?e" by (rule snapshot_held[OF task_js_held[OF assms(2,5)] assms(3)])
  have tasks: "repo_tasks (repo_save uuid now t reason r) = mset_at (tk_id t) t (repo_tasks r)" by (simp add: repo_save_def)
  have "repo_file (repo_save uuid now t reason r) = line_text (map json (es @ [?e]))"
    by (simp add: repo_save_file es(1) line_text_def)
  moreover have "\<forall>x \<in> set (es @ [?e]). held num x" using es(2) e by auto
  moreover have "replay_events (map json_clone (es @ [?e])) [] = Inr (cloned (repo_tasks (repo_save uuid now t reason r)))"
    by (simp add: replay_events_snoc es(3) replay_snapshot[OF assms(2,4)] tasks cloned_set del: json_clone.simps)
  moreover have "\<forall>k u. mget (repo_tasks (repo_save uuid now t reason r)) k = Some u \<longrightarrow> task_held num b u"
    using assms(1,2) by (auto simp: tasks log_ok_def split: if_splits)
  ultimately show ?thesis unfolding log_ok_def by blast
qed

text \<open>A restart on such a file.\<close>

lemma mapE_Inr_map: "\<forall>x \<in> set xs. f x = Inr (g x) \<Longrightarrow> mapE f xs = Inr (map g xs)"
  by (induction xs) (simp_all del: mapE_eq_Inr)

lemma json_not_empty: "held num e \<Longrightarrow> json e \<noteq> []"
  using json_head[of num e] by auto

lemma log_ok_rehydrate:
  assumes "log_ok num b r"
  shows "rehydrate num (repo_file r) = Inr \<lparr>repo_tasks = cloned (repo_tasks r), repo_file = repo_file r\<rparr>"
proof -
  from assms obtain es where es: "repo_file r = line_text (map json es)" "\<forall>e \<in> set es. held num e"
    "replay_events (map json_clone es) [] = Inr (cloned (repo_tasks r))" by (auto simp: log_ok_def)
  have "split_lines (repo_file r) = map json es @ [[]]"
    unfolding es(1) by (rule split_line_text) (use json_line es(2) in auto)
  moreover have "filter (\<lambda>line. line \<noteq> []) (map json es @ [[]]) = map json es"
    using es(2) json_not_empty by (auto simp: filter_id_conv)
  ultimately have l: "filter (\<lambda>line. line \<noteq> []) (split_lines (repo_file r)) = map json es" by simp
  have "mapE (\<lambda>line. case parse_json num line of None \<Rightarrow> Inl (Error ''SyntaxError'') | Some v \<Rightarrow> Inr v) (map json es) =
      Inr (map json_clone es)"
    using es(2) by (induction es) (simp_all add: parse_json_text del: mapE_eq_Inr)
  then have "readAll num (repo_file r) = Inr (map json_clone es)" by (simp only: readAll_def l)
  then show ?thesis by (simp add: rehydrate_def es(3))
qed

text \<open>The operations keep it that way, on values as JavaScript holds them.\<close>

fun op_held :: "(string \<Rightarrow> js) \<Rightarrow> repo_op \<Rightarrow> bool" where
  "op_held num (CreateTask input) \<longleftrightarrow> held num input"
| "op_held num (MoveTask i s m) \<longleftrightarrow> held num m"
| "op_held num RecoverTasks \<longleftrightarrow> True"

lemma field_is_held: "held num v \<Longrightarrow> held num (field v k)"
  by (cases v) (auto simp: list_all_iff split: option.split dest: map_of_SomeD)

lemma or_held: "held num a \<Longrightarrow> held num b \<Longrightarrow> b \<noteq> JUndef \<Longrightarrow> field_held num (or_js a b)"
  by (auto simp: field_held_def or_js_def)

lemma createTask_held: "createTask now input = Inr t \<Longrightarrow> held num input \<Longrightarrow> task_held num 0 t"
  by (cases "field input ''title''"; cases "field input ''now'' = JUndef"; cases "nullish (field input ''payload'')")
    (auto simp: createTask_def Let_def task_held_def field_held_def coalesce_def field_is_held split: if_splits)

lemma transitionTask_held:
  assumes "transitionTask now t s m = Inr t'" "held num m" "task_held num b t"
  shows "task_held num (b + 1) t'"
proof -
  from assms(1) consider "t' = t" | st where "t' = t\<lparr>tk_state := st, tk_updatedAt := or_js (field m ''occurredAt'') (JStr now),
      tk_revision := tk_revision t + 1, tk_lastTransitionReason := or_js (field m ''reason'') JNull\<rparr>"
    by (auto simp: transitionTask_def split: if_splits)
  then show ?thesis
  proof cases
    case 1
    with assms(3) show ?thesis by (simp add: task_held_def)
  next
    case 2
    have "field_held num (or_js (field m ''occurredAt'') (JStr now))" "field_held num (or_js (field m ''reason'') JNull)"
      using or_held[of num "field m ''occurredAt''" "JStr now"] or_held[of num "field m ''reason''" JNull] field_is_held[OF assms(2)]
      by simp_all
    with 2 assms(3) show ?thesis by (simp add: task_held_def)
  qed
qed

lemma log_ok_create:
  assumes "log_ok num b r" "repo_create uuid now input r = Inr (r', t)" "held num input" "0 \<le> b" "b + 2 \<le> 9007199254740991"
  shows "log_ok num (b + 2) r'"
proof -
  from assms(2) obtain t0 t1 where t0: "createTask now input = Inr t0"
    and t1: "transitionTask now t0 (JStr ''queued'') (JObj [(''reason'', JStr ''operator_created'')]) = Inr t1"
    and t: "transitionTask now t1 (JStr ''ready'') (JObj [(''reason'', JStr ''no_dependencies'')]) = Inr t"
    and r': "r' = repo_save uuid now t (JStr ''task_created'') r"
    by (auto simp: repo_create_def split: if_splits)
  have m: "held num (JObj [(''reason'', JStr x)])" for x
    unfolding held.simps(4) by (intro conjI in_order) (simp_all add: no_index letters)
  have "task_held num (0 + 1 + 1) t"
    by (rule transitionTask_held[OF t m transitionTask_held[OF t1 m createTask_held[OF t0 assms(3)]]])
  then have th: "task_held num (b + 2) t" using assms(4) by (simp add: task_held_def)
  have "tk_id t \<noteq> []" using createTask_Inr[OF t0] transitionTask_known[OF t1] transitionTask_known[OF t] SAFE_IDENTIFIER_nonempty by metis
  with log_ok_save[OF log_ok_more[OF assms(1), of "b + 2"] th _ _ assms(5), of "JStr ''task_created''"] show ?thesis
    by (simp add: r')
qed

lemma log_ok_transition:
  assumes "repo_ok r" "log_ok num c r" "repo_transition uuid now i s m r = Inr (r', t)" "held num m"
    and "\<And>u. repo_get r i = Some u \<Longrightarrow> task_held num a u" "a + 1 \<le> c" "c \<le> 9007199254740991"
  shows "log_ok num c r'"
proof -
  from assms(3) obtain cur where cur: "repo_get r i = Some cur" and tr: "transitionTask now cur s m = Inr t"
    and r': "r' = (if t = cur then r else repo_save uuid now t (or_js (field m ''reason'') (JStr ''task_transitioned'')) r)"
    by (auto simp: repo_transition_def split: option.splits if_splits)
  have "task_held num (a + 1) t" by (rule transitionTask_held[OF tr assms(4) assms(5)[OF cur]])
  then have "task_held num c t" using assms(6) by (simp add: task_held_def)
  moreover have "held num (or_js (field m ''reason'') (JStr ''task_transitioned''))"
    using or_held[OF field_is_held[OF assms(4)], of "JStr ''task_transitioned''" "''reason''"] by (simp add: field_held_def)
  moreover have "tk_id t \<noteq> []" using transitionTask_known[OF tr] cur assms(1) by (auto simp: repo_ok_def repo_get_def)
  ultimately show ?thesis using assms(2,7) by (simp add: r' log_ok_save)
qed

lemma log_ok_recover:
  "repo_ok r \<Longrightarrow> log_ok num (b + 1) r \<Longrightarrow> b + 1 \<le> 9007199254740991 \<Longrightarrow> distinct ks \<Longrightarrow>
     \<forall>k \<in> set ks. \<forall>t. repo_get r k = Some t \<longrightarrow> task_held num b t \<Longrightarrow>
     recover_keys uuid now ks r = Inr (r', ts) \<Longrightarrow> log_ok num (b + 1) r'"
proof (induction ks arbitrary: r ts)
  case (Cons k ks)
  show ?case
  proof (cases "\<exists>t. repo_get r k = Some t \<and> tk_state t = ''active''")
    case False
    then have "recover_keys uuid now ks r = Inr (r', ts)" using Cons.prems(6) by (auto split: option.splits)
    with Cons show ?thesis by simp
  next
    case True
    then obtain t where t: "repo_get r k = Some t" "tk_state t = ''active''" by blast
    with Cons.prems(1) have id: "tk_id t = k" by (auto simp: repo_ok_def repo_get_def)
    let ?m = "JObj [(''reason'', JStr ''application_recovery_requires_review'')]"
    have m: "held num ?m" unfolding held.simps(4) by (intro conjI in_order) (simp_all add: no_index letters)
    from Cons.prems(6) t id obtain r1 t1 ts' where r1: "repo_transition uuid now k (JStr ''waiting_human'') ?m r = Inr (r1, t1)"
      and rest: "recover_keys uuid now ks r1 = Inr (r', ts')" by auto
    note f = repo_transition_Inr[OF Cons.prems(1) r1]
    have "log_ok num (b + 1) r1"
      by (rule log_ok_transition[OF Cons.prems(1,2) r1 m]) (use Cons.prems(3,5) in auto)
    moreover have "\<forall>k' \<in> set ks. \<forall>u. repo_get r1 k' = Some u \<longrightarrow> task_held num b u"
      using Cons.prems(4,5) f by (metis distinct.simps(2) list.set_intros(2))
    ultimately show ?thesis using Cons.IH[OF _ _ Cons.prems(3) _ _ rest] f Cons.prems(4) by simp
  qed
qed simp

lemma log_ok_step:
  assumes "repo_ok r" "log_ok num b r" "op_held num oper" "0 \<le> b" "b + 2 \<le> 9007199254740991"
  shows "log_ok num (b + 2) (repo_step uuid now oper r)"
proof (cases oper)
  case (CreateTask input)
  show ?thesis
  proof (cases "repo_create uuid now input r")
    case (Inl e)
    with log_ok_more[OF assms(2)] show ?thesis by (simp add: CreateTask repo_step_def)
  next
    case (Inr x)
    obtain r' t where x: "x = (r', t)" by fastforce
    from log_ok_create[OF assms(2) Inr[unfolded x]] assms CreateTask show ?thesis by (simp add: repo_step_def Inr x)
  qed
next
  case (MoveTask i s m)
  show ?thesis
  proof (cases "repo_transition uuid now i s m r")
    case (Inl e)
    with log_ok_more[OF assms(2)] show ?thesis by (simp add: MoveTask repo_step_def)
  next
    case (Inr x)
    obtain r' t where x: "x = (r', t)" by fastforce
    have "log_ok num (b + 2) r'"
    proof (rule log_ok_transition[OF assms(1) log_ok_more[OF assms(2)] Inr[unfolded x]])
      show "task_held num b u" if "repo_get r i = Some u" for u using that assms(2) by (simp add: log_ok_def repo_get_def)
    qed (use assms MoveTask in simp_all)
    then show ?thesis by (simp add: MoveTask repo_step_def Inr x)
  qed
next
  case RecoverTasks
  show ?thesis
  proof (cases "repo_recoverUncertain uuid now r")
    case (Inl e)
    with log_ok_more[OF assms(2)] show ?thesis by (simp add: RecoverTasks repo_step_def)
  next
    case (Inr x)
    obtain r' ts where x: "x = (r', ts)" by fastforce
    have "log_ok num (b + 1) r'"
    proof (rule log_ok_recover[OF assms(1) log_ok_more[OF assms(2)] _ _ _ Inr[unfolded x repo_recoverUncertain_def]])
      show "distinct (map fst (repo_tasks r))" using assms(1) by (simp add: repo_ok_def)
      show "\<forall>k \<in> set (map fst (repo_tasks r)). \<forall>t. repo_get r k = Some t \<longrightarrow> task_held num b t"
        using assms(2) by (simp add: log_ok_def repo_get_def)
    qed (use assms in simp_all)
    then show ?thesis using log_ok_more[of num "b + 1" r' "b + 2"] by (simp add: RecoverTasks repo_step_def Inr x)
  qed
qed

lemma log_ok_run:
  "repo_ok r \<Longrightarrow> log_ok num b r \<Longrightarrow> \<forall>x \<in> set ops. op_held num (snd x) \<Longrightarrow> 0 \<le> b \<Longrightarrow>
     b + 2 * int (length ops) \<le> 9007199254740991 \<Longrightarrow> log_ok num (b + 2 * int (length ops)) (repo_run uuid ops r)"
proof (induction ops arbitrary: r b)
  case (Cons x ops)
  obtain now oper where x: "x = (now, oper)" by fastforce
  have "log_ok num (b + 2) (repo_step uuid now oper r)"
    by (rule log_ok_step) (use Cons.prems x in simp_all)
  from Cons.IH[OF repo_step_ok[OF Cons.prems(1)] this] Cons.prems show ?case by (simp add: repo_run_def x add.assoc)
qed (simp add: repo_run_def)

text \<open>
  C13: After any sequence of creations, transitions and recoveries on a new repository, a restart
  that parses the lines of the file, as \<open>JSON.stringify\<close> wrote them, comes up with the same tasks in
  the same order, each with the same identifier, project, title, state and revision, and with
  its payload, times and reason as JSON carries them: undefined members are gone, NaN and the
  infinities are null, and what consists of JSON values is exactly what it was.  Every task is under
  its own id and in a known state.  The values given are as JavaScript holds them (safe integers,
  numbers in their own rendering, objects in property order), and the history is short
  enough for the revisions to stay safe integers.
\<close>

theorem restart_restores_tasks:
  assumes "\<forall>x \<in> set ops. op_held num (snd x)" "2 * int (length ops) \<le> 9007199254740991"
  shows "\<exists>r. rehydrate num (repo_file (repo_run uuid ops new_repo)) = Inr r \<and>
    repo_file r = repo_file (repo_run uuid ops new_repo) \<and>
    map fst (repo_tasks r) = map fst (repo_tasks (repo_run uuid ops new_repo)) \<and>
    (\<forall>k t. repo_get (repo_run uuid ops new_repo) k = Some t \<longrightarrow>
       tk_id t = k \<and> tk_state t \<in> set TASK_STATES \<and>
       repo_get r k = Some (t\<lparr>tk_payload := json_clone (tk_payload t), tk_createdAt := json_clone (tk_createdAt t),
         tk_updatedAt := json_clone (tk_updatedAt t), tk_lastTransitionReason := json_clone (tk_lastTransitionReason t)\<rparr>) \<and>
       (json_value (tk_payload t) \<and> json_value (tk_createdAt t) \<and> json_value (tk_updatedAt t) \<and> json_value (tk_lastTransitionReason t) \<longrightarrow>
          repo_get r k = Some t))"
proof -
  let ?r = "repo_run uuid ops new_repo"
  have new: "repo_ok new_repo" by (simp add: repo_ok_def new_repo_def)
  have ok: "repo_ok ?r" by (rule repo_run_ok[OF new])
  have "log_ok num (0 + 2 * int (length ops)) ?r" by (rule log_ok_run[OF new log_ok_new]) (use assms in simp_all)
  note r = log_ok_rehydrate[OF this]
  have c: "mget (cloned m) k = map_option clone_task (mget m k)" for m k
    by (induction m) (auto simp: cloned_def mget_def)
  have "map fst (cloned m) = map fst m" for m by (auto simp: cloned_def)
  then show ?thesis
    by (intro exI[of _ "\<lparr>repo_tasks = cloned (repo_tasks ?r), repo_file = repo_file ?r\<rparr>"])
       (use ok in \<open>simp add: r repo_get_def c repo_ok_def clone_task_def json_clone_id\<close>)
qed

definition sample_payload_ops :: "(string \<times> repo_op) list" where
  "sample_payload_ops = [(''t1'', CreateTask (JObj [(''id'', JStr ''a''), (''projectId'', JStr ''p''), (''title'', JStr ''x''),
     (''payload'', JObj [(''n'', JUndef), (''m'', JNum 7)])]))]"

theorem restart_restores_tasks_witness:
  "\<exists>r t. rehydrate JDbl (repo_file (repo_run sample_uuid sample_payload_ops new_repo)) = Inr r \<and>
     repo_get (repo_run sample_uuid sample_payload_ops new_repo) ''a'' = Some t \<and> tk_payload t = JObj [(''n'', JUndef), (''m'', JNum 7)] \<and>
     repo_get r ''a'' = Some (t\<lparr>tk_payload := JObj [(''m'', JNum 7)]\<rparr>)"
proof -
  let ?r = "repo_run sample_uuid sample_payload_ops new_repo"
  have h: "\<forall>x \<in> set sample_payload_ops. op_held JDbl (snd x)"
    by (simp add: sample_payload_ops_def mk_obj_def index_key_def is_digit_def ccode_def)
  have l: "2 * int (length sample_payload_ops) \<le> 9007199254740991" by (simp add: sample_payload_ops_def)
  have "(case repo_get ?r ''a'' of Some t \<Rightarrow> tk_payload t = JObj [(''n'', JUndef), (''m'', JNum 7)] \<and>
      tk_createdAt t = JStr ''t1'' \<and> tk_updatedAt t = JStr ''t1'' \<and> tk_lastTransitionReason t = JStr ''no_dependencies'' | None \<Rightarrow> False)"
    by code_simp
  then obtain t where t: "repo_get ?r ''a'' = Some t" "tk_payload t = JObj [(''n'', JUndef), (''m'', JNum 7)]"
    "tk_createdAt t = JStr ''t1''" "tk_updatedAt t = JStr ''t1''" "tk_lastTransitionReason t = JStr ''no_dependencies''"
    by (cases "repo_get ?r ''a''") auto
  from restart_restores_tasks[OF h l, of sample_uuid] obtain r where r: "rehydrate JDbl (repo_file ?r) = Inr r"
    and g: "\<And>k t. repo_get ?r k = Some t \<Longrightarrow> repo_get r k = Some (t\<lparr>tk_payload := json_clone (tk_payload t), tk_createdAt := json_clone (tk_createdAt t),
         tk_updatedAt := json_clone (tk_updatedAt t), tk_lastTransitionReason := json_clone (tk_lastTransitionReason t)\<rparr>)" by blast
  have "t\<lparr>tk_payload := json_clone (tk_payload t), tk_createdAt := json_clone (tk_createdAt t),
         tk_updatedAt := json_clone (tk_updatedAt t), tk_lastTransitionReason := json_clone (tk_lastTransitionReason t)\<rparr> =
      t\<lparr>tk_payload := JObj [(''m'', JNum 7)]\<rparr>"
    using t by (cases t) simp
  with g[OF t(1)] r t show ?thesis by metis
qed

end
