(* ===== verification/Plans.thy ===== *)
theory Plans
  imports Workspace GraphSearch Json
begin

text \<open>
  Execution plans (\<open>src/domain/plan-model.cjs\<close>): steps, their bindings, the content digest
  of a plan and its validation.  \<open>lc a b\<close> stands for \<open>a.localeCompare(b) <= 0\<close>, the
  collation of the host.
\<close>

record step_binding =
  sb_id :: string
  sb_workspaceId :: string
  sb_agentId :: string
  sb_installationId :: string
  sb_capabilityVersionId :: string
  sb_action :: string
  sb_target :: string
  sb_providerSnapshotId :: string

record plan_step =
  st_id :: string
  st_planId :: string
  st_workspaceId :: string
  st_name :: string
  st_bindingId :: string
  st_dependsOn :: "string list"
  st_declaredInputs :: "js list"
  st_declaredOutputs :: "js list"
  st_evidenceRequirements :: "js list"
  st_humanGatePolicy :: string
  st_resourceRequirements :: "js list"

record exec_plan =
  pl_id :: string
  pl_missionRevisionId :: string
  pl_workspaceId :: string
  pl_stepIds :: "string list"
  pl_terminalStepIds :: "string list"
  pl_contentDigest :: string

definition cloneArray :: "js \<Rightarrow> js list res" where
  "cloneArray value = as_array value (TypeError ''expected an array'')"

definition createStepBinding :: "js \<Rightarrow> step_binding res" where
  "createStepBinding input =
    bindE (assertSafeIdentifier (field input ''id'') ''step binding id'') (\<lambda>i.
    bindE (assertSafeIdentifier (field input ''workspaceId'') ''workspace id'') (\<lambda>w.
    bindE (assertSafeIdentifier (field input ''agentId'') ''agent id'') (\<lambda>a.
    bindE (assertSafeIdentifier (field input ''installationId'') ''installation id'') (\<lambda>n.
    bindE (requiredText (field input ''capabilityVersionId'') ''capability version id'' 200) (\<lambda>v.
    bindE (assertSafeIdentifier (field input ''action'') ''capability action'') (\<lambda>c.
    bindE (requiredText (field input ''target'') ''step target'' 500) (\<lambda>t.
    bindE (assertSafeIdentifier (field input ''providerSnapshotId'') ''provider snapshot id'') (\<lambda>p.
    Inr \<lparr>sb_id = i, sb_workspaceId = w, sb_agentId = a, sb_installationId = n, sb_capabilityVersionId = v,
      sb_action = c, sb_target = t, sb_providerSnapshotId = p\<rparr>))))))))"

definition createPlanStep :: "js \<Rightarrow> plan_step res" where
  "createPlanStep input =
    (let policy = or_js (field input ''humanGatePolicy'') (JStr ''action'') in
     if \<not> includes_str [''never'', ''action'', ''always''] policy
     then Inl (Error (''Unsupported Human Gate policy: '' @ to_string policy))
     else
    bindE (assertSafeIdentifier (field input ''id'') ''plan step id'') (\<lambda>i.
    bindE (assertSafeIdentifier (field input ''planId'') ''execution plan id'') (\<lambda>p.
    bindE (assertSafeIdentifier (field input ''workspaceId'') ''workspace id'') (\<lambda>w.
    bindE (requiredText (field input ''name'') ''plan step name'' 200) (\<lambda>n.
    bindE (assertSafeIdentifier (field input ''bindingId'') ''step binding id'') (\<lambda>b.
    bindE (cloneArray (or_js (field input ''dependsOn'') (JArr []))) (\<lambda>ds.
    bindE (mapE (\<lambda>d. assertSafeIdentifier d ''dependency step id'') ds) (\<lambda>deps.
    bindE (cloneArray (or_js (field input ''declaredInputs'') (JArr []))) (\<lambda>ins.
    bindE (cloneArray (or_js (field input ''declaredOutputs'') (JArr []))) (\<lambda>outs.
    bindE (cloneArray (or_js (field input ''evidenceRequirements'') (JArr []))) (\<lambda>ev.
    bindE (cloneArray (or_js (field input ''resourceRequirements'') (JArr []))) (\<lambda>rs.
    Inr \<lparr>st_id = i, st_planId = p, st_workspaceId = w, st_name = n, st_bindingId = b, st_dependsOn = deps,
      st_declaredInputs = ins, st_declaredOutputs = outs, st_evidenceRequirements = ev,
      st_humanGatePolicy = to_string policy, st_resourceRequirements = rs\<rparr>))))))))))))"

definition step_digest_js :: "plan_step \<Rightarrow> js" where
  "step_digest_js s = JObj [(''id'', JStr (st_id s)), (''bindingId'', JStr (st_bindingId s)),
     (''dependsOn'', js_strs (sort (st_dependsOn s))), (''declaredInputs'', JArr (st_declaredInputs s)),
     (''declaredOutputs'', JArr (st_declaredOutputs s)), (''evidenceRequirements'', JArr (st_evidenceRequirements s)),
     (''humanGatePolicy'', JStr (st_humanGatePolicy s)), (''resourceRequirements'', JArr (st_resourceRequirements s))]"

definition planDigest :: "(string \<Rightarrow> string) \<Rightarrow> (string \<Rightarrow> string \<Rightarrow> bool) \<Rightarrow> string \<Rightarrow> string \<Rightarrow> string
    \<Rightarrow> plan_step list \<Rightarrow> string list \<Rightarrow> string" where
  "planDigest sha lc i missionRevisionId workspaceId steps terminalStepIds =
    plainDigest sha (JObj [(''id'', JStr i), (''missionRevisionId'', JStr missionRevisionId),
      (''workspaceId'', JStr workspaceId),
      (''steps'', JArr (map step_digest_js (sort_by (\<lambda>a b. lc (st_id a) (st_id b)) steps))),
      (''terminalStepIds'', js_strs (sort terminalStepIds))])"

subsection \<open>Validation\<close>

fun check_bindings :: "string list \<Rightarrow> step_binding list \<Rightarrow> unit res" where
  "check_bindings seen [] = Inr ()"
| "check_bindings seen (b # bs) =
     (if sb_id b \<in> set seen then Inl (Error (''Duplicate step binding id: '' @ sb_id b))
      else check_bindings (seen @ [sb_id b]) bs)"

fun check_steps :: "string \<Rightarrow> string \<Rightarrow> step_binding list \<Rightarrow> string list \<Rightarrow> plan_step list \<Rightarrow> unit res" where
  "check_steps pid wid bindings seen [] = Inr ()"
| "check_steps pid wid bindings seen (s # ss) =
     (if st_workspaceId s \<noteq> wid \<or> st_planId s \<noteq> pid then Inl (Error ''Cross-Workspace or cross-plan step reference denied'')
      else if st_id s \<in> set seen then Inl (Error (''Duplicate semantic step id: '' @ st_id s))
      else if bindings \<noteq> [] \<and> (case index_by sb_id bindings (st_bindingId s) of
               None \<Rightarrow> True | Some b \<Rightarrow> sb_workspaceId b \<noteq> wid)
      then Inl (Error (''Invalid or cross-Workspace step binding: '' @ st_bindingId s))
      else check_steps pid wid bindings (seen @ [st_id s]) ss)"

fun check_deps :: "string list \<Rightarrow> (string \<times> string) list \<Rightarrow> unit res" where
  "check_deps ids [] = Inr ()"
| "check_deps ids ((s, d) # ds) =
     (if d = s then Inl (Error ''Plan step cannot depend on itself'')
      else if d \<notin> set ids then Inl (Error (''Plan dependency missing: '' @ d))
      else check_deps ids ds)"

fun check_terminals :: "string list \<Rightarrow> string list \<Rightarrow> unit res" where
  "check_terminals ids [] = Inr ()"
| "check_terminals ids (t # ts) =
     (if t \<notin> set ids then Inl (Error (''Unknown terminal step: '' @ t)) else check_terminals ids ts)"

fun check_not_depended :: "string list \<Rightarrow> string list \<Rightarrow> unit res" where
  "check_not_depended deps [] = Inr ()"
| "check_not_depended deps (t # ts) =
     (if t \<in> set deps then Inl (Error (''Terminal step is not terminal: '' @ t)) else check_not_depended deps ts)"

definition step_deps :: "plan_step list \<Rightarrow> (string \<times> string) list" where
  "step_deps steps = concat (map (\<lambda>s. map (\<lambda>d. (st_id s, d)) (st_dependsOn s)) steps)"

text \<open>\<open>pid\<close>, \<open>wid\<close> and \<open>terms\<close> are the plan's id, workspace and terminal steps.\<close>

definition validateExecutionPlan :: "string \<Rightarrow> string \<Rightarrow> string list \<Rightarrow> plan_step list \<Rightarrow> step_binding list \<Rightarrow> unit res" where
  "validateExecutionPlan pid wid terms steps bindings =
    bindE (check_bindings [] bindings) (\<lambda>_.
    bindE (check_steps pid wid bindings [] steps) (\<lambda>_.
    bindE (check_deps (map st_id steps) (step_deps steps)) (\<lambda>_.
    bindE (dfs (Error ''Execution plan contains a cycle'')
             (Some (TypeError ''Cannot read properties of undefined (reading dependsOn)''))
             (map (\<lambda>s. (st_id s, st_dependsOn s)) steps) [] [] (map st_id steps)) (\<lambda>_.
    if terms = [] then Inl (Error ''Execution plan requires at least one terminal step'')
    else bindE (check_terminals (map st_id steps) terms) (\<lambda>_.
         check_not_depended (concat (map st_dependsOn steps)) terms)))))"

text \<open>An input step that carries a plan id is a step built earlier and is used as it is.\<close>

datatype step_input = Built plan_step | Raw js

definition set_field :: "string \<Rightarrow> js \<Rightarrow> js \<Rightarrow> js" where
  "set_field k v obj = (case obj of JObj kvs \<Rightarrow> JObj (AList.update k v kvs) | _ \<Rightarrow> JObj [(k, v)])"

definition plan_step_of :: "string \<Rightarrow> string \<Rightarrow> step_input \<Rightarrow> plan_step res" where
  "plan_step_of pid wid s = (case s of Built st \<Rightarrow> Inr st
     | Raw v \<Rightarrow> createPlanStep (set_field ''workspaceId'' (JStr wid) (set_field ''planId'' (JStr pid) v)))"

definition createExecutionPlan :: "(string \<Rightarrow> string) \<Rightarrow> (string \<Rightarrow> string \<Rightarrow> bool) \<Rightarrow> js \<Rightarrow> step_input list
    \<Rightarrow> step_binding list \<Rightarrow> exec_plan res" where
  "createExecutionPlan sha lc input steps0 bindings =
    (if steps0 = [] then Inl (TypeError ''execution plan steps are required'')
     else
    bindE (assertSafeIdentifier (field input ''id'') ''execution plan id'') (\<lambda>i.
    bindE (assertSafeIdentifier (field input ''missionRevisionId'') ''mission revision id'') (\<lambda>m.
    bindE (assertSafeIdentifier (field input ''workspaceId'') ''workspace id'') (\<lambda>w.
    bindE (mapE (plan_step_of i w) steps0) (\<lambda>steps.
    bindE (as_array (or_js (field input ''terminalStepIds'') (JArr []))
             (TypeError ''input.terminalStepIds.map is not a function'')) (\<lambda>ts.
    bindE (mapE (\<lambda>t. assertSafeIdentifier t ''terminal step id'') ts) (\<lambda>terms.
    bindE (validateExecutionPlan i w terms steps bindings) (\<lambda>_.
    Inr \<lparr>pl_id = i, pl_missionRevisionId = m, pl_workspaceId = w, pl_stepIds = map st_id steps,
      pl_terminalStepIds = terms, pl_contentDigest = planDigest sha lc i m w steps terms\<rparr>))))))))"

definition assertBindingSemanticMatch :: "step_binding option \<Rightarrow> step_binding \<Rightarrow> step_binding res" where
  "assertBindingSemanticMatch existing candidate = (case existing of None \<Rightarrow> Inr candidate
    | Some e \<Rightarrow> if sb_workspaceId e \<noteq> sb_workspaceId candidate \<or> sb_agentId e \<noteq> sb_agentId candidate
        \<or> sb_installationId e \<noteq> sb_installationId candidate
        \<or> sb_capabilityVersionId e \<noteq> sb_capabilityVersionId candidate \<or> sb_action e \<noteq> sb_action candidate
        \<or> sb_target e \<noteq> sb_target candidate \<or> sb_providerSnapshotId e \<noteq> sb_providerSnapshotId candidate
      then Inl (Error (''Step binding idempotency collision: '' @ sb_id e)) else Inr e)"

text \<open>What the validation promises.\<close>

definition plan_rel :: "plan_step list \<Rightarrow> (string \<times> string) set" where
  "plan_rel steps = {(st_id s, d) | s d. s \<in> set steps \<and> d \<in> set (st_dependsOn s)}"

definition binding_ok :: "string \<Rightarrow> step_binding list \<Rightarrow> plan_step \<Rightarrow> bool" where
  "binding_ok wid bindings s \<longleftrightarrow> bindings = [] \<or> (\<exists>b \<in> set bindings. sb_id b = st_bindingId s \<and> sb_workspaceId b = wid)"

definition plan_wf :: "string \<Rightarrow> string \<Rightarrow> string list \<Rightarrow> plan_step list \<Rightarrow> step_binding list \<Rightarrow> bool" where
  "plan_wf pid wid terms steps bindings \<longleftrightarrow>
     distinct (map sb_id bindings) \<and> distinct (map st_id steps) \<and>
     (\<forall>s \<in> set steps. st_workspaceId s = wid \<and> st_planId s = pid \<and> binding_ok wid bindings s) \<and>
     (\<forall>(s, d) \<in> plan_rel steps. d \<in> set (map st_id steps)) \<and> acyclic (plan_rel steps) \<and>
     terms \<noteq> [] \<and> set terms \<subseteq> set (map st_id steps) \<and> (\<forall>t \<in> set terms. \<forall>s. (s, t) \<notin> plan_rel steps)"

lemma check_bindings_Inr: "check_bindings seen bs = Inr u \<longleftrightarrow>
    distinct (map sb_id bs) \<and> set (map sb_id bs) \<inter> set seen = {}"
  by (induction bs arbitrary: seen) auto

lemma binding_check:
  assumes "distinct (map sb_id bindings)"
  shows "(bindings \<noteq> [] \<and> (case index_by sb_id bindings (st_bindingId s) of None \<Rightarrow> True | Some b \<Rightarrow> sb_workspaceId b \<noteq> wid))
    \<longleftrightarrow> \<not> binding_ok wid bindings s"
proof (cases "index_by sb_id bindings (st_bindingId s)")
  case None
  then have "st_bindingId s \<notin> sb_id ` set bindings" by (simp add: index_by_None)
  then have "binding_ok wid bindings s \<longleftrightarrow> bindings = []" by (force simp: binding_ok_def)
  then show ?thesis using None by simp
next
  case (Some b)
  then have b: "b \<in> set bindings" "sb_id b = st_bindingId s" by (auto dest: index_by_Some)
  have "b' = b" if "b' \<in> set bindings" "sb_id b' = st_bindingId s" for b'
  proof -
    have "index_by sb_id bindings (st_bindingId s) = Some b'" using index_by_iff[OF assms] that by blast
    with Some show ?thesis by simp
  qed
  then have "binding_ok wid bindings s \<longleftrightarrow> sb_workspaceId b = wid"
    using b unfolding binding_ok_def by (metis empty_iff list.set(1))
  moreover have "bindings \<noteq> []" using b by auto
  ultimately show ?thesis using Some by simp
qed

lemma check_steps_Cons: "distinct (map sb_id bindings) \<Longrightarrow> check_steps pid wid bindings seen (s # ss) = Inr u \<longleftrightarrow>
    st_workspaceId s = wid \<and> st_planId s = pid \<and> binding_ok wid bindings s \<and> st_id s \<notin> set seen \<and>
    check_steps pid wid bindings (seen @ [st_id s]) ss = Inr u"
  by (simp only: check_steps.simps guard_eq_Inr binding_check) blast

lemma check_steps_Inr:
  "distinct (map sb_id bindings) \<Longrightarrow> check_steps pid wid bindings seen steps = Inr u \<longleftrightarrow>
     (\<forall>s \<in> set steps. st_workspaceId s = wid \<and> st_planId s = pid \<and> binding_ok wid bindings s) \<and>
     distinct (map st_id steps) \<and> set (map st_id steps) \<inter> set seen = {}"
proof (induction steps arbitrary: seen)
  case (Cons s ss)
  show ?case unfolding check_steps_Cons[OF Cons.prems] Cons.IH[OF Cons.prems] by auto
qed simp

lemma check_deps_Inr: "check_deps ids ds = Inr u \<longleftrightarrow> (\<forall>(s, d) \<in> set ds. d \<noteq> s \<and> d \<in> set ids)"
  by (induction ids ds rule: check_deps.induct) auto

lemma check_terminals_Inr: "check_terminals ids ts = Inr u \<longleftrightarrow> set ts \<subseteq> set ids"
  by (induction ts) auto

lemma check_not_depended_Inr: "check_not_depended deps ts = Inr u \<longleftrightarrow> set ts \<inter> set deps = {}"
  by (induction ts) auto

lemma set_step_deps [simp]: "set (step_deps steps) = plan_rel steps"
  by (auto simp: step_deps_def plan_rel_def)

lemma edges_of_steps: "distinct (map st_id steps) \<Longrightarrow>
    edges_of (map (\<lambda>s. (st_id s, st_dependsOn s)) steps) = plan_rel steps"
proof -
  assume d: "distinct (map st_id steps)"
  have "map_of (map (\<lambda>s. (st_id s, st_dependsOn s)) steps) a = Some ms \<longleftrightarrow>
      (\<exists>s \<in> set steps. st_id s = a \<and> st_dependsOn s = ms)" for a ms
    using d by (subst map_of_eq_Some_iff) (auto simp: comp_def)
  then show ?thesis by (auto simp: edges_of_def plan_rel_def)
qed

lemma acyclic_plan_irrefl: "acyclic (plan_rel steps) \<Longrightarrow> s \<in> set steps \<Longrightarrow> st_id s \<notin> set (st_dependsOn s)"
  by (force simp: acyclic_def plan_rel_def)

lemma not_depended_iff: "set terms \<inter> set (concat (map st_dependsOn steps)) = {} \<longleftrightarrow>
    (\<forall>t \<in> set terms. \<forall>s. (s, t) \<notin> plan_rel steps)"
  by (auto simp: plan_rel_def)

lemma deps_ok_iff: "acyclic (plan_rel steps) \<Longrightarrow>
    (\<forall>(s, d) \<in> plan_rel steps. d \<noteq> s \<and> d \<in> A) \<longleftrightarrow> (\<forall>(s, d) \<in> plan_rel steps. d \<in> A)"
  by (auto simp: acyclic_def)

text \<open>
  C14: A plan is accepted exactly when its bindings and steps have unique ids and belong to
  the plan and its workspace, every dependency is a step of the plan, the dependencies are
  acyclic, and its terminal steps are steps no other step depends on.
\<close>

theorem plan_validation_exact:
  "validateExecutionPlan pid wid terms steps bindings = Inr () \<longleftrightarrow> plan_wf pid wid terms steps bindings"
proof (cases "distinct (map sb_id bindings) \<and> distinct (map st_id steps) \<and> (\<forall>(s, d) \<in> plan_rel steps. d \<in> set (map st_id steps))")
  case True
  let ?adj = "map (\<lambda>s. (st_id s, st_dependsOn s)) steps"
  have k: "map fst ?adj = map st_id steps" by (simp add: comp_def)
  have e: "edges_of ?adj = plan_rel steps" using True edges_of_steps by blast
  have kn: "succs_known (Some err) ?adj" for err
    using True unfolding succs_known_def e by (auto simp: image_image)
  have "(\<exists>vd. dfs ec (Some em) ?adj [] [] (map st_id steps) = Inr vd) \<longleftrightarrow> acyclic (plan_rel steps)" for ec em
    using dfs_accepts_iff_acyclic[OF kn, of ec] unfolding k e by simp
  note dfs_iff = this
  show ?thesis
  proof (cases "acyclic (plan_rel steps)")
    case False
    with dfs_iff show ?thesis unfolding validateExecutionPlan_def plan_wf_def by (simp del: split_paired_Ex)
  next
    case ac: True
    from ac dfs_iff obtain vd where "dfs (Error ''Execution plan contains a cycle'')
        (Some (TypeError ''Cannot read properties of undefined (reading dependsOn)'')) ?adj [] [] (map st_id steps) = Inr vd"
      by blast
    with True ac show ?thesis
      unfolding validateExecutionPlan_def plan_wf_def not_depended_iff[symmetric]
      by (simp add: check_bindings_Inr check_steps_Inr check_deps_Inr check_terminals_Inr
          check_not_depended_Inr deps_ok_iff)
  qed
next
  case False
  then show ?thesis
    by (auto simp: validateExecutionPlan_def plan_wf_def check_bindings_Inr check_steps_Inr check_deps_Inr)
qed

end
