(* ===== verification/Missions.thy ===== *)
theory Missions
  imports Plans TaskGraph
begin

text \<open>
  Missions, their revisions and runs (\<open>src/domain/mission-model.cjs\<close>) and the orchestration
  of a run (\<open>src/orchestration/mission-orchestrator.cjs\<close>): which steps may start, the life of
  a step attempt, its one external start, recovery after a restart, retry after review and
  completion.  States are the source's strings; \<open>now\<close> is the default of \<open>occurredAt\<close>.
\<close>

subsection \<open>Missions and revisions\<close>

record mission =
  mi_id :: string
  mi_workspaceId :: string
  mi_title :: string
  mi_status :: string
  mi_currentRevisionId :: js
  mi_createdAt :: js
  mi_updatedAt :: js

record mission_revision =
  mr_id :: string
  mr_missionId :: string
  mr_workspaceId :: string
  mr_revision :: int
  mr_objective :: string
  mr_planId :: string
  mr_createdAt :: js
  mr_frozenAt :: js
  mr_contentDigest :: string

record mission_run =
  run_id :: string
  run_workspaceId :: string
  run_missionId :: string
  run_missionRevisionId :: string
  run_planId :: string
  run_state :: string
  run_version :: int
  run_lastReason :: string
  run_createdAt :: js
  run_updatedAt :: js

definition RUN_STATES :: "string list" where
  "RUN_STATES = [''created'', ''running'', ''paused'', ''waiting_human'', ''blocked'',
    ''recovery_required'', ''completed'', ''cancelled'', ''failed'']"

definition RUN_TRANSITIONS :: "(string \<times> string list) list" where
  "RUN_TRANSITIONS =
    [(''created'', [''running'', ''cancelled'']),
     (''running'', [''paused'', ''waiting_human'', ''blocked'', ''recovery_required'', ''completed'', ''cancelled'', ''failed'']),
     (''paused'', [''running'', ''cancelled'']),
     (''waiting_human'', [''running'', ''recovery_required'', ''cancelled'', ''failed'']),
     (''blocked'', [''running'', ''paused'', ''cancelled'', ''failed'']),
     (''recovery_required'', [''running'', ''cancelled'', ''failed'']),
     (''completed'', []),
     (''cancelled'', []),
     (''failed'', [])]"

definition digestRevision :: "(string \<Rightarrow> string) \<Rightarrow> string \<Rightarrow> string \<Rightarrow> int \<Rightarrow> string \<Rightarrow> string \<Rightarrow> string" where
  "digestRevision sha workspaceId missionId revision objective planId =
    plainDigest sha (JObj [(''workspaceId'', JStr workspaceId), (''missionId'', JStr missionId),
      (''revision'', JNum revision), (''objective'', JStr objective), (''planId'', JStr planId)])"

definition createMission :: "string \<Rightarrow> js \<Rightarrow> mission res" where
  "createMission now input =
    bindE (assertSafeIdentifier (field input ''id'') ''mission id'') (\<lambda>i.
    bindE (assertSafeIdentifier (field input ''workspaceId'') ''workspace id'') (\<lambda>w.
    bindE (requiredText (field input ''title'') ''mission title'' 200) (\<lambda>t.
    Inr \<lparr>mi_id = i, mi_workspaceId = w, mi_title = t, mi_status = ''draft'',
      mi_currentRevisionId = or_js (field input ''currentRevisionId'') JNull,
      mi_createdAt = or_js (field input ''createdAt'') (JStr now),
      mi_updatedAt = or_js (or_js (field input ''updatedAt'') (field input ''createdAt'')) (JStr now)\<rparr>)))"

definition createMissionRevision :: "(string \<Rightarrow> string) \<Rightarrow> string \<Rightarrow> js \<Rightarrow> mission_revision res" where
  "createMissionRevision sha now input = (case field input ''revision'' of
      JNum revision \<Rightarrow>
        if revision < 1 then Inl (TypeError ''mission revision must be a positive integer'')
        else
       bindE (assertSafeIdentifier (field input ''id'') ''mission revision id'') (\<lambda>i.
       bindE (assertSafeIdentifier (field input ''missionId'') ''mission id'') (\<lambda>m.
       bindE (assertSafeIdentifier (field input ''workspaceId'') ''workspace id'') (\<lambda>w.
       bindE (requiredText (field input ''objective'') ''mission objective'' 2000) (\<lambda>ob.
       bindE (assertSafeIdentifier (field input ''planId'') ''execution plan id'') (\<lambda>p.
       Inr \<lparr>mr_id = i, mr_missionId = m, mr_workspaceId = w, mr_revision = revision, mr_objective = ob,
         mr_planId = p, mr_createdAt = or_js (field input ''createdAt'') (JStr now), mr_frozenAt = JNull,
         mr_contentDigest = digestRevision sha w m revision ob p\<rparr>)))))
    | _ \<Rightarrow> Inl (TypeError ''mission revision must be a positive integer''))"

definition freezeMissionRevision :: "string \<Rightarrow> mission_revision \<Rightarrow> mission_revision" where
  "freezeMissionRevision occurredAt revision =
    (if truthy (mr_frozenAt revision) then revision else revision\<lparr>mr_frozenAt := JStr occurredAt\<rparr>)"

definition revision_digest :: "(string \<Rightarrow> string) \<Rightarrow> mission_revision \<Rightarrow> string" where
  "revision_digest sha r = (if mr_contentDigest r \<noteq> [] then mr_contentDigest r
     else digestRevision sha (mr_workspaceId r) (mr_missionId r) (mr_revision r) (mr_objective r) (mr_planId r))"

definition assertRevisionSemanticMatch :: "(string \<Rightarrow> string) \<Rightarrow> mission_revision option \<Rightarrow> mission_revision
    \<Rightarrow> mission_revision res" where
  "assertRevisionSemanticMatch sha existing candidate = (case existing of None \<Rightarrow> Inr candidate
    | Some e \<Rightarrow> if revision_digest sha e \<noteq> revision_digest sha candidate
        then Inl (Error (''Mission revision idempotency collision: '' @ mr_id e)) else Inr e)"

definition createMissionRun :: "string \<Rightarrow> js \<Rightarrow> mission_run res" where
  "createMissionRun now input =
    bindE (assertSafeIdentifier (field input ''id'') ''mission run id'') (\<lambda>i.
    bindE (assertSafeIdentifier (field input ''workspaceId'') ''workspace id'') (\<lambda>w.
    bindE (assertSafeIdentifier (field input ''missionId'') ''mission id'') (\<lambda>m.
    bindE (assertSafeIdentifier (field input ''missionRevisionId'') ''mission revision id'') (\<lambda>r.
    bindE (assertSafeIdentifier (field input ''planId'') ''execution plan id'') (\<lambda>p.
    Inr \<lparr>run_id = i, run_workspaceId = w, run_missionId = m, run_missionRevisionId = r, run_planId = p,
      run_state = ''created'', run_version = 0, run_lastReason = ''created'',
      run_createdAt = or_js (field input ''createdAt'') (JStr now),
      run_updatedAt = or_js (field input ''createdAt'') (JStr now)\<rparr>)))))"

definition transitionMissionRun :: "string \<Rightarrow> js \<Rightarrow> mission_run \<Rightarrow> string \<Rightarrow> mission_run res" where
  "transitionMissionRun occurredAt reason run nextState =
    (if run_state run \<notin> set RUN_STATES then Inl (TypeError ''valid mission run is required'')
     else if nextState \<notin> set RUN_STATES then Inl (Error (''Unsupported mission run state: '' @ nextState))
     else if run_state run = nextState then Inr run
     else if nextState \<notin> set (table_succs RUN_TRANSITIONS (run_state run))
     then Inl (Error (''Invalid S2 mission transition: '' @ run_state run @ '' -> '' @ nextState))
     else bindE (requiredText reason ''mission transition reason'' 200) (\<lambda>lastReason.
          Inr (run\<lparr>run_state := nextState, run_version := run_version run + 1,
            run_lastReason := lastReason, run_updatedAt := JStr occurredAt\<rparr>)))"

interpretation mrun: versioned_machine run_state "table_succs RUN_TRANSITIONS"
  "\<lambda>(occurredAt, reason) r s. transitionMissionRun occurredAt reason r s" run_version
  by unfold_locales (auto simp: transitionMissionRun_def split: if_splits)

subsection \<open>Step attempts\<close>

record step_attempt =
  at_id :: string
  at_missionRunId :: string
  at_workspaceId :: string
  at_stepId :: string
  at_attemptNumber :: int
  at_state :: string
  at_executionRunId :: "string option"
  at_recoveryReason :: "string option"
  at_externalStartCommitted :: bool
  at_lastReason :: "string option"
  at_createdAt :: string
  at_updatedAt :: string

definition TERMINAL_ATTEMPT_STATES :: "string list" where
  "TERMINAL_ATTEMPT_STATES = [''completed'', ''cancelled'', ''failed'']"

definition semanticAttemptId :: "(string \<Rightarrow> string) \<Rightarrow> string \<Rightarrow> string \<Rightarrow> int \<Rightarrow> string" where
  "semanticAttemptId sha runId stepId attemptNumber =
    ''attempt-'' @ take 20 (sha (colon_key runId (colon_key stepId (int_to_string attemptNumber))))"

definition latestAttempt :: "step_attempt list \<Rightarrow> string \<Rightarrow> step_attempt option" where
  "latestAttempt attempts stepId =
    (case sort_by (\<lambda>a b. at_attemptNumber b \<le> at_attemptNumber a) (filter (\<lambda>a. at_stepId a = stepId) attempts) of
       [] \<Rightarrow> None | a # _ \<Rightarrow> Some a)"

definition completedAttempt :: "step_attempt list \<Rightarrow> string \<Rightarrow> step_attempt option" where
  "completedAttempt attempts stepId = find (\<lambda>a. at_stepId a = stepId \<and> at_state a = ''completed'') attempts"

record handoff_ref =
  hr_toStepId :: string
  hr_inputName :: string

definition handoffExists :: "handoff_ref list \<Rightarrow> string \<Rightarrow> js \<Rightarrow> bool" where
  "handoffExists handoffs stepId inputName =
    list_ex (\<lambda>h. hr_toStepId h = stepId \<and> strict_eq_str inputName (hr_inputName h)) handoffs"

definition declaredName :: "js \<Rightarrow> js" where
  "declaredName e = (case e of JStr s \<Rightarrow> e | _ \<Rightarrow> field e ''name'')"

datatype blocker = Blocker (bl_code: string) (bl_detail: js)

record blocked_step =
  bs_stepId :: string
  bs_blockers :: "blocker list"

definition run_barrier :: "mission_run \<Rightarrow> string option" where
  "run_barrier run = (if run_state run = ''paused'' then Some ''mission_paused''
     else if run_state run = ''cancelled'' then Some ''mission_cancelled'' else None)"

text \<open>\<open>conflict\<close> is the callback \<open>resourceConflictForStep\<close>; a falsy answer means no conflict.\<close>

definition step_blockers :: "mission_run \<Rightarrow> step_attempt list \<Rightarrow> handoff_ref list \<Rightarrow> (plan_step \<Rightarrow> js)
    \<Rightarrow> plan_step \<Rightarrow> blocker list" where
  "step_blockers run attempts handoffs conflict step =
    (case latestAttempt attempts (st_id step) of
       Some current \<Rightarrow> if at_state current \<in> {''failed'', ''cancelled''}
         then [Blocker ''recovery_requires_review'' (JStr (at_id current))] else []
     | None \<Rightarrow> []) @
    (case run_barrier run of Some code \<Rightarrow> [Blocker code JUndef]
     | None \<Rightarrow> if run_state run \<noteq> ''running'' then [Blocker ''mission_not_running'' JUndef] else []) @
    map (\<lambda>d. Blocker ''dependency_unsatisfied'' (JStr d))
      (filter (\<lambda>d. completedAttempt attempts d = None) (st_dependsOn step)) @
    map (\<lambda>e. Blocker ''step_output_missing'' (declaredName e))
      (filter (\<lambda>e. \<not> handoffExists handoffs (st_id step) (declaredName e)) (st_declaredInputs step)) @
    (if truthy (conflict step) then [Blocker ''resource_conflict'' (conflict step)] else [])"

definition step_skipped :: "step_attempt list \<Rightarrow> plan_step \<Rightarrow> bool" where
  "step_skipped attempts step \<longleftrightarrow> completedAttempt attempts (st_id step) \<noteq> None \<or>
     (case latestAttempt attempts (st_id step) of None \<Rightarrow> False
      | Some current \<Rightarrow> at_state current \<notin> {''failed'', ''cancelled''} \<and> at_state current \<notin> set TERMINAL_ATTEMPT_STATES)"

fun ready_loop :: "mission_run \<Rightarrow> step_attempt list \<Rightarrow> handoff_ref list \<Rightarrow> (plan_step \<Rightarrow> js)
    \<Rightarrow> plan_step list \<Rightarrow> string list \<times> blocked_step list" where
  "ready_loop run attempts handoffs conflict [] = ([], [])"
| "ready_loop run attempts handoffs conflict (s # ss) =
     (let (ready, blocked) = ready_loop run attempts handoffs conflict ss;
          bs = step_blockers run attempts handoffs conflict s
      in if step_skipped attempts s then (ready, blocked)
         else if bs \<noteq> [] then (ready, \<lparr>bs_stepId = st_id s, bs_blockers = bs\<rparr> # blocked)
         else (st_id s # ready, blocked))"

definition deriveReadySet :: "(string \<Rightarrow> string \<Rightarrow> bool) \<Rightarrow> mission_run \<Rightarrow> plan_step list \<Rightarrow> step_attempt list
    \<Rightarrow> handoff_ref list \<Rightarrow> (plan_step \<Rightarrow> js) \<Rightarrow> string list \<times> blocked_step list" where
  "deriveReadySet lc run steps attempts handoffs conflict =
    ready_loop run attempts handoffs conflict (sort_by (\<lambda>a b. lc (st_id a) (st_id b)) steps)"

definition createStepAttempt :: "(string \<Rightarrow> string) \<Rightarrow> mission_run \<Rightarrow> plan_step \<Rightarrow> int \<Rightarrow> string \<Rightarrow> step_attempt res" where
  "createStepAttempt sha run step attemptNumber createdAt =
    (if attemptNumber < 1 then Inl (TypeError ''attemptNumber must be a positive integer'')
     else Inr \<lparr>at_id = semanticAttemptId sha (run_id run) (st_id step) attemptNumber, at_missionRunId = run_id run,
       at_workspaceId = run_workspaceId run, at_stepId = st_id step, at_attemptNumber = attemptNumber,
       at_state = ''ready'', at_executionRunId = None, at_recoveryReason = None,
       at_externalStartCommitted = False, at_lastReason = None, at_createdAt = createdAt, at_updatedAt = createdAt\<rparr>)"

definition ATTEMPT_TRANSITIONS :: "(string \<times> string list) list" where
  "ATTEMPT_TRANSITIONS =
    [(''ready'', [''waiting_human'', ''active'', ''blocked'', ''cancelled'']),
     (''waiting_human'', [''active'', ''cancelled'', ''recovery_required'']),
     (''active'', [''completed'', ''failed'', ''recovery_required'', ''waiting_human'']),
     (''blocked'', [''ready'', ''cancelled'']),
     (''recovery_required'', [''cancelled'']),
     (''completed'', []),
     (''failed'', []),
     (''cancelled'', [])]"

definition transitionAttempt :: "string \<Rightarrow> js \<Rightarrow> step_attempt \<Rightarrow> string \<Rightarrow> step_attempt res" where
  "transitionAttempt occurredAt reason attempt nextState =
    (if at_state attempt = nextState then Inr attempt
     else if nextState \<notin> set (table_succs ATTEMPT_TRANSITIONS (at_state attempt))
     then Inl (Error (''Invalid S2 StepAttempt transition: '' @ at_state attempt @ '' -> '' @ nextState))
     else Inr (attempt\<lparr>at_state := nextState, at_lastReason := Some (to_string (or_js reason (JStr nextState))),
            at_updatedAt := occurredAt\<rparr>))"

definition markExternalStart :: "string \<Rightarrow> string \<Rightarrow> step_attempt \<Rightarrow> step_attempt res" where
  "markExternalStart occurredAt executionRunId attempt =
    (if executionRunId = [] then Inl (TypeError ''executionRunId is required'')
     else if at_externalStartCommitted attempt then
       (if at_executionRunId attempt \<noteq> Some executionRunId
        then Inl (Error (''StepAttempt external-start idempotency collision: '' @ at_id attempt)) else Inr attempt)
     else if at_state attempt \<notin> {''ready'', ''waiting_human''}
     then Inl (Error ''StepAttempt is not eligible for external start'')
     else Inr (attempt\<lparr>at_state := ''active'', at_executionRunId := Some executionRunId,
            at_externalStartCommitted := True, at_updatedAt := occurredAt\<rparr>))"

definition recoverAttempt :: "string \<Rightarrow> step_attempt \<Rightarrow> step_attempt" where
  "recoverAttempt occurredAt attempt = (if at_state attempt = ''active''
     then attempt\<lparr>at_state := ''recovery_required'',
            at_recoveryReason := Some ''application_recovery_requires_review'', at_updatedAt := occurredAt\<rparr>
     else attempt)"

definition recoverUncertainAttempts :: "string \<Rightarrow> step_attempt list \<Rightarrow> step_attempt list" where
  "recoverUncertainAttempts occurredAt attempts = map (recoverAttempt occurredAt) attempts"

text \<open>\<open>reviewed\<close> is any value; only a truthy one is a review.\<close>

definition retryAfterReview :: "(string \<Rightarrow> string) \<Rightarrow> step_attempt \<Rightarrow> mission_run \<Rightarrow> plan_step \<Rightarrow> js \<Rightarrow> string
    \<Rightarrow> step_attempt res" where
  "retryAfterReview sha previousAttempt run step reviewed occurredAt =
    (if \<not> truthy reviewed then Inl (Error ''Explicit human review is required before retry'')
     else let recoverableWaiting = (at_state previousAttempt = ''waiting_human'' \<and>
                at_recoveryReason previousAttempt \<notin> {None, Some []})
       in if \<not> recoverableWaiting \<and> at_state previousAttempt \<notin> {''recovery_required'', ''failed'', ''cancelled''}
          then Inl (Error ''Previous StepAttempt is not safely contained for retry'')
          else createStepAttempt sha run step (at_attemptNumber previousAttempt + 1) occurredAt)"

definition ORCHESTRATOR_TRANSITIONS :: "(string \<times> string list) list" where
  "ORCHESTRATOR_TRANSITIONS =
    [(''created'', [''running'', ''cancelled'']),
     (''running'', [''paused'', ''cancelled'', ''completed'', ''failed'', ''recovery_required'']),
     (''paused'', [''running'', ''cancelled'']),
     (''recovery_required'', [''running'', ''cancelled'', ''failed'']),
     (''completed'', []),
     (''cancelled'', []),
     (''failed'', [])]"

definition transitionRun :: "string \<Rightarrow> js \<Rightarrow> mission_run \<Rightarrow> string \<Rightarrow> mission_run res" where
  "transitionRun occurredAt reason run nextState =
    (if run_state run = nextState then Inr run
     else if nextState \<notin> set (table_succs ORCHESTRATOR_TRANSITIONS (run_state run))
     then Inl (Error (''Invalid S2 MissionRun transition: '' @ run_state run @ '' -> '' @ nextState))
     else Inr (run\<lparr>run_state := nextState, run_lastReason := to_string (or_js reason (JStr nextState)),
            run_version := run_version run + 1, run_updatedAt := JStr occurredAt\<rparr>))"

text \<open>
  A requirement is found in the set of available evidence when it is the same primitive
  value; two objects of separate origin are never the same.
\<close>

definition evidence_available :: "js list \<Rightarrow> js \<Rightarrow> bool" where
  "evidence_available available requirement = (\<not> is_object requirement \<and> requirement \<in> set available)"

definition terminal_blockers :: "plan_step list \<Rightarrow> step_attempt list \<Rightarrow> (string, js list) jsmap \<Rightarrow> string \<Rightarrow> blocker list" where
  "terminal_blockers steps attempts evidence t =
    (if completedAttempt attempts t = None then [Blocker ''dependency_unsatisfied'' (JStr t)] else []) @
    (case find (\<lambda>s. st_id s = t) steps of None \<Rightarrow> []
     | Some step \<Rightarrow> map (Blocker ''terminal_evidence_unsatisfied'')
         (filter (\<lambda>r. \<not> evidence_available (case mget evidence t of None \<Rightarrow> [] | Some es \<Rightarrow> es) r) (st_evidenceRequirements step)))"

definition evaluateMissionCompletion :: "mission_run \<Rightarrow> plan_step list \<Rightarrow> string list \<Rightarrow> step_attempt list
    \<Rightarrow> (string, js list) jsmap \<Rightarrow> bool \<times> blocker list" where
  "evaluateMissionCompletion run steps terminalStepIds attempts evidence =
    (if run_state run = ''cancelled'' \<or> run_state run = ''failed''
     then (False, [Blocker (''mission_'' @ run_state run) JUndef])
     else let bs = concat (map (terminal_blockers steps attempts evidence) terminalStepIds) in (bs = [], bs))"

interpretation orun: versioned_machine run_state "table_succs ORCHESTRATOR_TRANSITIONS"
  "\<lambda>(occurredAt, reason) r s. transitionRun occurredAt reason r s" run_version
  by unfold_locales (auto simp: transitionRun_def split: if_splits)

interpretation att: state_machine at_state "table_succs ATTEMPT_TRANSITIONS"
  "\<lambda>(occurredAt, reason) a s. transitionAttempt occurredAt reason a s"
  by unfold_locales (auto simp: transitionAttempt_def split: if_splits)

subsection \<open>Which steps are offered\<close>

lemma latestAttempt_None [simp]: "latestAttempt attempts i = None \<longleftrightarrow> (\<forall>a \<in> set attempts. at_stepId a \<noteq> i)"
proof -
  have "latestAttempt attempts i = None \<longleftrightarrow> filter (\<lambda>a. at_stepId a = i) attempts = []"
    unfolding latestAttempt_def by (subst sort_by_Nil_iff[symmetric]) (auto split: list.splits)
  then show ?thesis by (auto simp: filter_empty_conv)
qed

lemma latestAttempt_Some: "latestAttempt attempts i = Some a \<Longrightarrow> a \<in> set attempts \<and> at_stepId a = i"
proof -
  assume "latestAttempt attempts i = Some a"
  then have "a \<in> set (sort_by (\<lambda>a b. at_attemptNumber b \<le> at_attemptNumber a) (filter (\<lambda>a. at_stepId a = i) attempts))"
    by (auto simp: latestAttempt_def simp del: set_sort_by split: list.splits)
  then show ?thesis by simp
qed

lemma completedAttempt_None [simp]: "completedAttempt attempts i = None \<longleftrightarrow>
    (\<forall>a \<in> set attempts. at_stepId a = i \<longrightarrow> at_state a \<noteq> ''completed'')"
  by (auto simp: completedAttempt_def find_None_iff)

definition step_startable :: "mission_run \<Rightarrow> step_attempt list \<Rightarrow> handoff_ref list \<Rightarrow> (plan_step \<Rightarrow> js) \<Rightarrow> plan_step \<Rightarrow> bool" where
  "step_startable run attempts handoffs conflict s \<longleftrightarrow> run_state run = ''running'' \<and>
     (\<forall>a \<in> set attempts. at_stepId a \<noteq> st_id s) \<and>
     (\<forall>d \<in> set (st_dependsOn s). \<exists>a \<in> set attempts. at_stepId a = d \<and> at_state a = ''completed'') \<and>
     (\<forall>e \<in> set (st_declaredInputs s). handoffExists handoffs (st_id s) (declaredName e)) \<and>
     \<not> truthy (conflict s)"

lemma step_blockers_empty: "step_blockers run attempts handoffs conflict s = [] \<longleftrightarrow>
    run_state run = ''running'' \<and>
    (\<forall>a. latestAttempt attempts (st_id s) = Some a \<longrightarrow> at_state a \<notin> {''failed'', ''cancelled''}) \<and>
    (\<forall>d \<in> set (st_dependsOn s). completedAttempt attempts d \<noteq> None) \<and>
    (\<forall>e \<in> set (st_declaredInputs s). handoffExists handoffs (st_id s) (declaredName e)) \<and> \<not> truthy (conflict s)"
  unfolding step_blockers_def run_barrier_def append_is_Nil_conv map_is_Nil_conv filter_empty_conv
  by (cases "latestAttempt attempts (st_id s)") (simp_all del: completedAttempt_None latestAttempt_None)

lemma offered_iff_startable:
  "\<not> step_skipped attempts s \<and> step_blockers run attempts handoffs conflict s = [] \<longleftrightarrow>
     step_startable run attempts handoffs conflict s"
proof (cases "latestAttempt attempts (st_id s)")
  case None
  then have no: "\<forall>a \<in> set attempts. at_stepId a \<noteq> st_id s" by simp
  then have "\<not> step_skipped attempts s" using None
    by (simp add: step_skipped_def del: latestAttempt_None)
  with no None show ?thesis
    unfolding step_blockers_empty step_startable_def by (auto simp del: latestAttempt_None)
next
  case (Some a)
  note a = latestAttempt_Some[OF Some]
  then have "\<not> step_startable run attempts handoffs conflict s" by (auto simp: step_startable_def)
  moreover have "at_state a \<in> {''failed'', ''cancelled''}" if "\<not> step_skipped attempts s"
    using that Some a unfolding step_skipped_def TERMINAL_ATTEMPT_STATES_def by auto
  ultimately show ?thesis unfolding step_blockers_empty using Some by blast
qed

lemma ready_loop_fst: "fst (ready_loop run attempts handoffs conflict ss) =
    map st_id (filter (step_startable run attempts handoffs conflict) ss)"
proof (induction ss)
  case (Cons s ss)
  then show ?case using offered_iff_startable[of attempts s run handoffs conflict]
    by (cases "ready_loop run attempts handoffs conflict ss") (auto simp: Let_def)
qed simp

lemma ready_set: "fst (deriveReadySet lc run steps attempts handoffs conflict) =
    map st_id (filter (step_startable run attempts handoffs conflict) (sort_by (\<lambda>a b. lc (st_id a) (st_id b)) steps))"
  by (simp add: deriveReadySet_def ready_loop_fst)

text \<open>
  C15: A step is offered as ready exactly when the mission is running, the step was never
  attempted, every dependency has a completed attempt, every declared input has a handoff
  and no resource conflict is reported.
\<close>

theorem ready_set_exact:
  "i \<in> set (fst (deriveReadySet lc run steps attempts handoffs conflict)) \<longleftrightarrow>
     (\<exists>s \<in> set steps. st_id s = i \<and> step_startable run attempts handoffs conflict s)"
  by (auto simp: ready_set)

text \<open>
  A restart does not make a step with an uncertain attempt startable again, and afterwards no
  attempt is active.
\<close>

lemma recoverAttempt_fields [simp]:
  "at_stepId (recoverAttempt now a) = at_stepId a"
  "at_state (recoverAttempt now a) = ''completed'' \<longleftrightarrow> at_state a = ''completed''"
  "at_state (recoverAttempt now a) \<noteq> ''active''"
  by (auto simp: recoverAttempt_def)

text \<open>
  C16: Recovery after a restart leaves no attempt active and does not change which steps are
  offered: a step whose attempt was interrupted is never started again by itself.
\<close>

theorem recovery_restarts_nothing:
  "fst (deriveReadySet lc run steps (recoverUncertainAttempts now attempts) handoffs conflict) =
     fst (deriveReadySet lc run steps attempts handoffs conflict) \<and>
   (\<forall>a. a \<in> set (recoverUncertainAttempts now attempts) \<longrightarrow> at_state a \<noteq> ''active'')"
proof -
  have "step_startable run (recoverUncertainAttempts now attempts) handoffs conflict =
      step_startable run attempts handoffs conflict"
    by (rule ext) (simp add: step_startable_def recoverUncertainAttempts_def)
  then show ?thesis unfolding ready_set by (auto simp: recoverUncertainAttempts_def)
qed

text \<open>
  A mission is complete exactly when it is neither cancelled nor failed and every
  terminal step has a completed attempt and all the evidence it requires.
\<close>

theorem mission_completion_exact:
  "fst (evaluateMissionCompletion run steps terminals attempts evidence) \<longleftrightarrow>
     run_state run \<noteq> ''cancelled'' \<and> run_state run \<noteq> ''failed'' \<and>
     (\<forall>t \<in> set terminals. completedAttempt attempts t \<noteq> None \<and>
        (\<forall>s. find (\<lambda>s. st_id s = t) steps = Some s \<longrightarrow> (\<forall>r \<in> set (st_evidenceRequirements s).
            \<not> is_object r \<and> (\<exists>es. mget evidence t = Some es \<and> r \<in> set es))))"
proof -
  have "terminal_blockers steps attempts evidence t = [] \<longleftrightarrow> completedAttempt attempts t \<noteq> None \<and>
      (\<forall>s. find (\<lambda>s. st_id s = t) steps = Some s \<longrightarrow> (\<forall>r \<in> set (st_evidenceRequirements s).
          \<not> is_object r \<and> (\<exists>es. mget evidence t = Some es \<and> r \<in> set es)))" for t
    unfolding terminal_blockers_def evidence_available_def append_is_Nil_conv
    by (cases "find (\<lambda>s. st_id s = t) steps"; cases "mget evidence t")
       (auto simp: filter_empty_conv simp del: completedAttempt_None)
  then show ?thesis
    by (auto simp: evaluateMissionCompletion_def Let_def simp del: completedAttempt_None)
qed

definition sample_plan_steps :: "plan_step list" where
  "sample_plan_steps =
    [\<lparr>st_id = ''s1'', st_planId = ''p'', st_workspaceId = ''ws'', st_name = ''one'', st_bindingId = ''b'',
      st_dependsOn = [], st_declaredInputs = [], st_declaredOutputs = [], st_evidenceRequirements = [JStr ''report''],
      st_humanGatePolicy = ''action'', st_resourceRequirements = []\<rparr>]"

definition sample_mission_run :: mission_run where
  "sample_mission_run = \<lparr>run_id = ''run-1'', run_workspaceId = ''ws'', run_missionId = ''m'', run_missionRevisionId = ''r'',
     run_planId = ''p'', run_state = ''running'', run_version = 1, run_lastReason = ''start'',
     run_createdAt = JUndef, run_updatedAt = JUndef\<rparr>"

definition attempt_in :: "string \<Rightarrow> step_attempt" where
  "attempt_in s = \<lparr>at_id = ''a1'', at_missionRunId = ''run-1'', at_workspaceId = ''ws'', at_stepId = ''s1'',
     at_attemptNumber = 1, at_state = s, at_executionRunId = None, at_recoveryReason = None,
     at_externalStartCommitted = False, at_lastReason = None, at_createdAt = ''t0'', at_updatedAt = ''t0''\<rparr>"

theorem recovery_restarts_nothing_witness:
  "fst (deriveReadySet (\<lambda>a b. a \<le> b) sample_mission_run sample_plan_steps
      (recoverUncertainAttempts ''t'' [attempt_in ''active'']) [] (\<lambda>_. JNull)) = [] \<and>
   at_state (recoverAttempt ''t'' (attempt_in ''active'')) \<noteq> ''active''"
proof -
  have "fst (deriveReadySet (\<lambda>a b. a \<le> b) sample_mission_run sample_plan_steps [attempt_in ''active''] [] (\<lambda>_. JNull)) = []"
    by code_simp
  with recovery_restarts_nothing[of "\<lambda>a b. a \<le> b" sample_mission_run sample_plan_steps "''t''" "[attempt_in ''active'']" "[]" "\<lambda>_. JNull"]
  show ?thesis by (simp add: recoverUncertainAttempts_def)
qed

theorem mission_completion_exact_witness:
  "fst (evaluateMissionCompletion sample_mission_run sample_plan_steps [''s1''] [attempt_in ''completed'']
      [(''s1'', [JStr ''report''])]) \<and>
   completedAttempt [attempt_in ''completed''] ''s1'' \<noteq> None"
proof -
  have c: "fst (evaluateMissionCompletion sample_mission_run sample_plan_steps [''s1''] [attempt_in ''completed'']
      [(''s1'', [JStr ''report''])])"
    by code_simp
  with mission_completion_exact[of sample_mission_run sample_plan_steps "[''s1'']" "[attempt_in ''completed'']"
      "[(''s1'', [JStr ''report''])]"]
  show ?thesis by (simp del: completedAttempt_None)
qed

subsection \<open>The life of an attempt\<close>

datatype attempt_op = MoveAttempt string js string | StartExternal string string | RecoverAfterRestart string

text \<open>An operation that throws leaves the stored attempt as it was.\<close>

definition attempt_step :: "attempt_op \<Rightarrow> step_attempt \<Rightarrow> step_attempt" where
  "attempt_step oper a = (case oper of
      MoveAttempt now reason s \<Rightarrow> (case transitionAttempt now reason a s of Inr a' \<Rightarrow> a' | Inl _ \<Rightarrow> a)
    | StartExternal now x \<Rightarrow> (case markExternalStart now x a of Inr a' \<Rightarrow> a' | Inl _ \<Rightarrow> a)
    | RecoverAfterRestart now \<Rightarrow> recoverAttempt now a)"

text \<open>The external runs the start operations of a history were accepted with.\<close>

fun started_with :: "attempt_op list \<Rightarrow> step_attempt \<Rightarrow> string list" where
  "started_with [] a = []"
| "started_with (oper # ops) a =
     (case oper of StartExternal now x \<Rightarrow> (case markExternalStart now x a of Inr _ \<Rightarrow> [x] | Inl _ \<Rightarrow> []) | _ \<Rightarrow> []) @
     started_with ops (attempt_step oper a)"

definition commitment :: "step_attempt \<Rightarrow> string option" where
  "commitment a = (if at_externalStartCommitted a then at_executionRunId a else None)"

lemma markExternalStart_Inr: "markExternalStart now x a = Inr a' \<Longrightarrow> commitment a' = Some x \<and>
    (at_externalStartCommitted a \<longrightarrow> a' = a)"
  by (auto simp: markExternalStart_def commitment_def split: if_splits)

lemma attempt_step_keeps:
  assumes "at_externalStartCommitted a"
  shows "at_externalStartCommitted (attempt_step oper a) \<and> commitment (attempt_step oper a) = commitment a"
  using assms by (cases oper) (auto simp: attempt_step_def transitionAttempt_def recoverAttempt_def commitment_def
      split: sum.splits if_splits dest: markExternalStart_Inr)

lemma started_with_committed:
  "at_externalStartCommitted a \<Longrightarrow> x \<in> set (started_with ops a) \<Longrightarrow> commitment a = Some x"
proof (induction ops arbitrary: a)
  case (Cons oper ops)
  note k = attempt_step_keeps[OF Cons.prems(1), of oper] and IH = Cons.IH[of "attempt_step oper a"]
  from Cons.prems(2) consider "x \<in> set (started_with ops (attempt_step oper a))"
    | now a' where "markExternalStart now x a = Inr a'"
    by (cases oper) (auto split: sum.split_asm intro: that dest: sym)
  then show ?case
  proof cases
    case 2
    from markExternalStart_Inr[OF 2] Cons.prems(1) show ?thesis by auto
  qed (use k IH in simp)
qed simp

lemma started_with_one: "x \<in> set (started_with ops a) \<Longrightarrow> y \<in> set (started_with ops a) \<Longrightarrow> x = y"
proof (induction ops arbitrary: a)
  case (Cons oper ops)
  show ?case
  proof (cases "at_externalStartCommitted a")
    case True
    from started_with_committed[OF this Cons.prems(1)] started_with_committed[OF True Cons.prems(2)]
    show ?thesis by simp
  next
    case False
    show ?thesis
    proof (cases "\<exists>now z a'. oper = StartExternal now z \<and> markExternalStart now z a = Inr a'")
      case True
      then obtain now z a' where z: "oper = StartExternal now z" "markExternalStart now z a = Inr a'" by blast
      from markExternalStart_Inr[OF z(2)] have c: "commitment a' = Some z" by simp
      then have "at_externalStartCommitted a'" by (auto simp: commitment_def split: if_splits)
      from started_with_committed[OF this] c z Cons.prems show ?thesis by (auto simp: attempt_step_def)
    next
      case False
      then have "started_with (oper # ops) a = started_with ops (attempt_step oper a)"
        by (cases oper) (fastforce split: sum.split)+
      with Cons.IH[of "attempt_step oper a"] Cons.prems show ?thesis by metis
    qed
  qed
qed simp

text \<open>
  C17: Whatever sequence of transitions, starts and restarts an attempt goes through, all the
  external starts it accepts are for one and the same execution run.
\<close>

theorem one_external_run_per_attempt: "card (set (started_with ops a)) \<le> 1"
proof (cases "started_with ops a = []")
  case False
  then obtain x where x: "x \<in> set (started_with ops a)" by (cases "started_with ops a") auto
  then have "set (started_with ops a) = {x}" using started_with_one by fast
  then show ?thesis by simp
qed simp

text \<open>Attempts of a run have different ids, unless SHA-256 collides on its first twenty digits.\<close>

definition short_collision :: "(string \<Rightarrow> string) \<Rightarrow> bool" where
  "short_collision sha \<longleftrightarrow> (\<exists>x y. x \<noteq> y \<and> take 20 (sha x) = take 20 (sha y))"

lemma semanticAttemptId_inject:
  assumes "SAFE_IDENTIFIER r" "SAFE_IDENTIFIER r'" "SAFE_IDENTIFIER s" "SAFE_IDENTIFIER s'"
    and "semanticAttemptId sha r s n = semanticAttemptId sha r' s' n'" "\<not> short_collision sha"
  shows "r = r' \<and> s = s' \<and> n = n'"
proof -
  have nc: "CHR '':'' \<notin> set x" if "SAFE_IDENTIFIER x" for x using SAFE_IDENTIFIER_no_sep[OF that] by simp
  from assms(5,6) have "colon_key r (colon_key s (int_to_string n)) = colon_key r' (colon_key s' (int_to_string n'))"
    by (auto simp: semanticAttemptId_def short_collision_def)
  then show ?thesis using nc assms(1-4) by (simp add: colon_key_inject)
qed


definition sample_step :: plan_step where
  "sample_step = \<lparr>st_id = ''s1'', st_planId = ''p'', st_workspaceId = ''ws'', st_name = ''s'', st_bindingId = ''b'',
     st_dependsOn = [], st_declaredInputs = [], st_declaredOutputs = [], st_evidenceRequirements = [],
     st_humanGatePolicy = ''action'', st_resourceRequirements = []\<rparr>"

definition sample_attempt :: "string \<Rightarrow> int \<Rightarrow> step_attempt" where
  "sample_attempt s n = \<lparr>at_id = ''a1'', at_missionRunId = ''run-1'', at_workspaceId = ''ws'', at_stepId = ''s1'',
     at_attemptNumber = n, at_state = s, at_executionRunId = None, at_recoveryReason = None,
     at_externalStartCommitted = False, at_lastReason = None, at_createdAt = ''t0'', at_updatedAt = ''t0''\<rparr>"


text \<open>
  The orchestrator's run transitions refine the domain's: each accepted change is the
  change the mission model makes, up to the wording of the reason.
\<close>

theorem orchestrator_transitions_refine_model:
  assumes "transitionRun now (JStr reason) run next = Inr run'" "run_state run \<noteq> next"
    and "requiredText (JStr reason) ''mission transition reason'' 200 = Inr text"
  shows "transitionMissionRun now (JStr reason) run next = Inr (run'\<lparr>run_lastReason := text\<rparr>)"
proof -
  have t: "next \<in> set (table_succs ORCHESTRATOR_TRANSITIONS (run_state run))" 
    and r': "run' = run\<lparr>run_state := next, run_lastReason := to_string (or_js (JStr reason) (JStr next)),
            run_version := run_version run + 1, run_updatedAt := JStr now\<rparr>"
    using assms(1,2) by (auto simp: transitionRun_def split: if_splits)
  have sub: "\<forall>s. next \<in> set (table_succs ORCHESTRATOR_TRANSITIONS s) \<longrightarrow>
      s \<in> set RUN_STATES \<and> next \<in> set RUN_STATES \<and> next \<in> set (table_succs RUN_TRANSITIONS s)"
    by (auto simp: ORCHESTRATOR_TRANSITIONS_def RUN_TRANSITIONS_def RUN_STATES_def table_succs_def split: if_splits)
  with t assms(2,3) show ?thesis
    by (simp add: transitionMissionRun_def r' del: requiredText_Inr)
qed

theorem orchestrator_transitions_refine_model_witness:
  "\<exists>run'. transitionMissionRun ''t'' (JStr ''operator'') sample_mission_run ''paused'' = Inr run' \<and> run_state run' = ''paused''"
proof -
  obtain run' where r: "transitionRun ''t'' (JStr ''operator'') sample_mission_run ''paused'' = Inr run'" "run_state run' = ''paused''"
    by (simp add: transitionRun_def sample_mission_run_def ORCHESTRATOR_TRANSITIONS_def table_succs_def)
  have "requiredText (JStr ''operator'') ''mission transition reason'' 200 = Inr ''operator''" by code_simp
  moreover have "run_state sample_mission_run \<noteq> ''paused''" by (simp add: sample_mission_run_def)
  ultimately show ?thesis using orchestrator_transitions_refine_model[OF r(1)] r(2) by auto
qed

end
