(* ===== verification/Handoffs.thy ===== *)
theory Handoffs
  imports Missions
begin

text \<open>
  Step outputs (\<open>src/domain/step-output-model.cjs\<close>) and the handoffs that feed them to later
  steps (\<open>src/domain/agent-handoff-model.cjs\<close>).  Objects with another prototype than
  \<open>Object.prototype\<close> have no value in the model.
\<close>

subsection \<open>Step outputs\<close>

definition FORBIDDEN_OUTPUT_KEYS :: "string list" where
  "FORBIDDEN_OUTPUT_KEYS = [''password'', ''passwd'', ''cookie'', ''authorization'', ''token'', ''accesstoken'',
    ''refreshtoken'', ''profilepath'', ''profiledir'', ''profiledirectory'', ''userdata'', ''userdatadir'',
    ''processid'', ''pid'', ''ppid'']"

definition forbidden_output_key :: "string \<Rightarrow> bool" where
  "forbidden_output_key key = (map ascii_lower key \<in> set FORBIDDEN_OUTPUT_KEYS)"

fun assertJsonSafe :: "js \<Rightarrow> string \<Rightarrow> unit res"
and safe_items :: "nat \<Rightarrow> js list \<Rightarrow> string \<Rightarrow> unit res"
and safe_entries :: "(string \<times> js) list \<Rightarrow> string \<Rightarrow> unit res" where
  "assertJsonSafe JNull path = Inr ()"
| "assertJsonSafe (JStr s) path = Inr ()"
| "assertJsonSafe (JBool b) path = Inr ()"
| "assertJsonSafe (JNum n) path = Inr ()"
| "assertJsonSafe (JDbl s) path =
     (if s \<in> {''NaN'', ''Infinity'', ''-Infinity''} then Inl (TypeError (''StepOutput '' @ path @ '' must be JSON-safe data''))
      else Inr ())"
| "assertJsonSafe (JArr vs) path = safe_items 0 vs path"
| "assertJsonSafe (JObj kvs) path = safe_entries kvs path"
| "assertJsonSafe JUndef path = Inl (TypeError (''StepOutput '' @ path @ '' must be JSON-safe data''))"
| "safe_items i [] path = Inr ()"
| "safe_items i (v # vs) path =
     bindE (assertJsonSafe v (path @ ''['' @ nat_digits i @ '']'')) (\<lambda>_. safe_items (Suc i) vs path)"
| "safe_entries [] path = Inr ()"
| "safe_entries ((k, v) # kvs) path =
     (if forbidden_output_key k then Inl (Error (''Forbidden StepOutput field: '' @ path @ ''.'' @ k))
      else bindE (assertJsonSafe v (path @ ''.'' @ k)) (\<lambda>_. safe_entries kvs path))"

record step_output =
  so_id :: string
  so_workspaceId :: string
  so_missionRunId :: string
  so_stepAttemptId :: string
  so_outputName :: string
  so_schemaDigest :: string
  so_value :: js
  so_evidenceIds :: "string list"
  so_createdAt :: js

definition createStepOutput :: "string \<Rightarrow> js \<Rightarrow> step_output res" where
  "createStepOutput now input =
    bindE (assertJsonSafe (field input ''value'') ''value'') (\<lambda>_.
    bindE (assertSafeIdentifier (field input ''id'') ''step output id'') (\<lambda>i.
    bindE (assertSafeIdentifier (field input ''workspaceId'') ''workspace id'') (\<lambda>w.
    bindE (assertSafeIdentifier (field input ''missionRunId'') ''mission run id'') (\<lambda>m.
    bindE (assertSafeIdentifier (field input ''stepAttemptId'') ''step attempt id'') (\<lambda>a.
    bindE (assertSafeIdentifier (field input ''outputName'') ''output name'') (\<lambda>n.
    bindE (requiredText (field input ''schemaDigest'') ''output schema digest'' 200) (\<lambda>d.
    bindE (as_array (or_js (field input ''evidenceIds'') (JArr [])) (TypeError ''input.evidenceIds.map is not a function'')) (\<lambda>es.
    bindE (mapE (\<lambda>e. assertSafeIdentifier e ''evidence id'') es) (\<lambda>ev.
    Inr \<lparr>so_id = i, so_workspaceId = w, so_missionRunId = m, so_stepAttemptId = a, so_outputName = n,
      so_schemaDigest = d, so_value = field input ''value'', so_evidenceIds = ev,
      so_createdAt = or_js (field input ''createdAt'') (JStr now)\<rparr>)))))))))"

definition assertOutputSemanticMatch :: "step_output option \<Rightarrow> step_output \<Rightarrow> step_output res" where
  "assertOutputSemanticMatch existing candidate = (case existing of None \<Rightarrow> Inr candidate
    | Some e \<Rightarrow>
        if \<not> (so_workspaceId e = so_workspaceId candidate \<and> so_missionRunId e = so_missionRunId candidate
             \<and> so_stepAttemptId e = so_stepAttemptId candidate \<and> so_outputName e = so_outputName candidate
             \<and> so_schemaDigest e = so_schemaDigest candidate \<and> json (so_value e) = json (so_value candidate)
             \<and> json (js_strs (so_evidenceIds e)) = json (js_strs (so_evidenceIds candidate)))
        then Inl (Error (''Completed StepOutput is immutable: '' @ so_id e)) else Inr e)"

lemma assertJsonSafe_iff:
  "assertJsonSafe v path = Inr u \<longleftrightarrow> json_value v \<and> list_all (\<lambda>k. \<not> forbidden_output_key k) (deep_keys v)"
  "safe_items i vs path = Inr u \<longleftrightarrow>
     list_all json_value vs \<and> list_all (\<lambda>k. \<not> forbidden_output_key k) (concat (map deep_keys vs))"
  "safe_entries kvs path = Inr u \<longleftrightarrow> list_all (\<lambda>(k, v). json_value v) kvs \<and>
     list_all (\<lambda>k. \<not> forbidden_output_key k) (concat (map (\<lambda>(k, v). k # deep_keys v) kvs))"
  by (induction v path and i vs path and kvs path rule: assertJsonSafe_safe_items_safe_entries.induct) auto

text \<open>
  A step output is stored exactly with the value it was given, which is a JSON value with
  no credential, profile or process field at any depth.
\<close>

theorem step_output_carries_no_secret:
  assumes "createStepOutput now input = Inr out"
  shows "so_value out = field input ''value'' \<and> json_value (so_value out) \<and>
     (\<forall>k \<in> set (deep_keys (so_value out)). map ascii_lower k \<notin> set FORBIDDEN_OUTPUT_KEYS)"
proof -
  from assms have "assertJsonSafe (field input ''value'') ''value'' = Inr ()" and v: "so_value out = field input ''value''"
    by (auto simp: createStepOutput_def)
  then show ?thesis by (auto simp: assertJsonSafe_iff forbidden_output_key_def list_all_iff)
qed

theorem step_output_carries_no_secret_witness:
  "\<exists>out. createStepOutput ''t'' (JObj [(''value'', JObj [(''rows'', JArr [JNum 1, JNull])]), (''id'', JStr ''o1''),
      (''workspaceId'', JStr ''w''), (''missionRunId'', JStr ''r''), (''stepAttemptId'', JStr ''a''),
      (''outputName'', JStr ''table''), (''schemaDigest'', JStr ''d'')]) = Inr out \<and> json_value (so_value out)"
proof -
  let ?in = "JObj [(''value'', JObj [(''rows'', JArr [JNum 1, JNull])]), (''id'', JStr ''o1''),
      (''workspaceId'', JStr ''w''), (''missionRunId'', JStr ''r''), (''stepAttemptId'', JStr ''a''),
      (''outputName'', JStr ''table''), (''schemaDigest'', JStr ''d'')]"
  have "isl (createStepOutput ''t'' ?in) = False" by code_simp
  then obtain out where o: "createStepOutput ''t'' ?in = Inr out" by (cases "createStepOutput ''t'' ?in") auto
  with step_output_carries_no_secret[OF o] show ?thesis by blast
qed

subsection \<open>Handoffs\<close>

record agent_handoff =
  ho_id :: string
  ho_workspaceId :: string
  ho_missionRunId :: string
  ho_fromStepAttemptId :: string
  ho_toStepId :: string
  ho_inputName :: string
  ho_outputId :: string
  ho_createdAt :: js

text \<open>\<open>input\<close> is the rest of the argument beside the two steps and the output.\<close>

definition createAgentHandoff :: "string \<Rightarrow> js \<Rightarrow> plan_step option \<Rightarrow> plan_step option \<Rightarrow> step_output option
    \<Rightarrow> agent_handoff res" where
  "createAgentHandoff now input sourceStep targetStep output = (case (sourceStep, targetStep, output) of
      (Some src, Some tgt, Some out) \<Rightarrow>
        bindE (assertSafeIdentifier (field input ''workspaceId'') ''workspace id'') (\<lambda>w.
        if \<not> list_all (\<lambda>c. c = w) [st_workspaceId src, st_workspaceId tgt, so_workspaceId out]
        then Inl (Error ''Cross-Workspace Agent handoff denied'')
        else if st_id src \<notin> set (st_dependsOn tgt) then Inl (Error ''Handoff source is not a declared dependency'') else
        bindE (assertSafeIdentifier (field input ''inputName'') ''handoff input name'') (\<lambda>inputName.
        if JStr inputName \<notin> set (map declaredName (st_declaredInputs tgt))
        then Inl (Error (''Step input undeclared: '' @ inputName))
        else if JStr (so_outputName out) \<notin> set (map declaredName (st_declaredOutputs src))
        then Inl (Error (''Step output undeclared: '' @ so_outputName out))
        else if truthy (field input ''outputName'') \<and> field input ''outputName'' \<noteq> JStr (so_outputName out)
        then Inl (Error ''Handoff output name mismatch'') else
        bindE (assertSafeIdentifier (field input ''id'') ''agent handoff id'') (\<lambda>i.
        bindE (assertSafeIdentifier (field input ''missionRunId'') ''mission run id'') (\<lambda>m.
        bindE (assertSafeIdentifier (or_js (field input ''fromStepAttemptId'') (JStr (so_stepAttemptId out))) ''source step attempt id'') (\<lambda>f.
        bindE (assertSafeIdentifier (JStr (st_id tgt)) ''target step id'') (\<lambda>t.
        bindE (assertSafeIdentifier (JStr (so_id out)) ''step output id'') (\<lambda>oid.
        Inr \<lparr>ho_id = i, ho_workspaceId = w, ho_missionRunId = m, ho_fromStepAttemptId = f, ho_toStepId = t,
          ho_inputName = inputName, ho_outputId = oid, ho_createdAt = or_js (field input ''createdAt'') (JStr now)\<rparr>)))))))
    | _ \<Rightarrow> Inl (TypeError ''sourceStep, targetStep, and output are required''))"

definition assertHandoffSemanticMatch :: "agent_handoff option \<Rightarrow> agent_handoff \<Rightarrow> agent_handoff res" where
  "assertHandoffSemanticMatch existing candidate = (case existing of None \<Rightarrow> Inr candidate
    | Some e \<Rightarrow> if ho_workspaceId e \<noteq> ho_workspaceId candidate \<or> ho_missionRunId e \<noteq> ho_missionRunId candidate
          \<or> ho_fromStepAttemptId e \<noteq> ho_fromStepAttemptId candidate \<or> ho_toStepId e \<noteq> ho_toStepId candidate
          \<or> ho_inputName e \<noteq> ho_inputName candidate \<or> ho_outputId e \<noteq> ho_outputId candidate
        then Inl (Error (''AgentHandoff idempotency collision: '' @ ho_id e)) else Inr e)"

definition handoff_ref_of :: "agent_handoff \<Rightarrow> handoff_ref" where
  "handoff_ref_of h = \<lparr>hr_toStepId = ho_toStepId h, hr_inputName = ho_inputName h\<rparr>"

lemma createAgentHandoff_Inr:
  assumes "createAgentHandoff now input (Some src) (Some tgt) (Some out) = Inr h"
  shows "st_id src \<in> set (st_dependsOn tgt) \<and> st_workspaceId src = ho_workspaceId h \<and>
     st_workspaceId tgt = ho_workspaceId h \<and> so_workspaceId out = ho_workspaceId h \<and>
     ho_toStepId h = st_id tgt \<and> ho_outputId h = so_id out \<and>
     (\<exists>e \<in> set (st_declaredInputs tgt). declaredName e = JStr (ho_inputName h)) \<and>
     (\<exists>e \<in> set (st_declaredOutputs src). declaredName e = JStr (so_outputName out))"
proof -
  have mem: "\<exists>e \<in> set es. declaredName e = v" if "v \<in> set (map declaredName es)" for v es
    using that by auto
  from assms show ?thesis
    unfolding createAgentHandoff_def option.case prod.case
    by (auto simp del: set_map dest!: mem)
qed

text \<open>
  A handoff is only made along a declared dependency, between steps and an output of one
  workspace, for a declared input and a declared output; it satisfies exactly that input of
  that step for the readiness of the mission, and no other.
\<close>

theorem handoff_feeds_its_input_only:
  assumes "createAgentHandoff now input (Some src) (Some tgt) (Some out) = Inr h"
  shows "st_id src \<in> set (st_dependsOn tgt) \<and> st_workspaceId src = st_workspaceId tgt \<and>
     so_workspaceId out = st_workspaceId tgt \<and>
     (\<exists>e \<in> set (st_declaredInputs tgt). declaredName e = JStr (ho_inputName h)) \<and>
     (\<exists>e \<in> set (st_declaredOutputs src). declaredName e = JStr (so_outputName out)) \<and>
     (\<forall>s n. handoffExists (handoff_ref_of h # hs) s n \<longleftrightarrow>
        (s = st_id tgt \<and> n = JStr (ho_inputName h)) \<or> handoffExists hs s n)"
  using createAgentHandoff_Inr[OF assms] by (auto simp: handoffExists_def handoff_ref_of_def)

theorem handoff_feeds_its_input_only_witness:
  "\<exists>h. handoffExists [handoff_ref_of h] ''s2'' (JStr ''rows'')"
proof -
  let ?src = "sample_step\<lparr>st_declaredOutputs := [JStr ''table'']\<rparr>"
  let ?tgt = "sample_step\<lparr>st_id := ''s2'', st_dependsOn := [''s1''], st_declaredInputs := [JObj [(''name'', JStr ''rows'')]]\<rparr>"
  let ?out = "\<lparr>so_id = ''o1'', so_workspaceId = ''ws'', so_missionRunId = ''run-1'', so_stepAttemptId = ''a1'',
     so_outputName = ''table'', so_schemaDigest = ''d'', so_value = JNull, so_evidenceIds = [], so_createdAt = JNull\<rparr>"
  let ?in = "JObj [(''workspaceId'', JStr ''ws''), (''inputName'', JStr ''rows''), (''id'', JStr ''h1''),
     (''missionRunId'', JStr ''run-1'')]"
  have e: "(case createAgentHandoff ''t'' ?in (Some ?src) (Some ?tgt) (Some ?out) of
      Inr h \<Rightarrow> ho_inputName h = ''rows'' | Inl _ \<Rightarrow> False)"
    by code_simp
  then obtain h where h: "createAgentHandoff ''t'' ?in (Some ?src) (Some ?tgt) (Some ?out) = Inr h" "ho_inputName h = ''rows''"
    by (cases "createAgentHandoff ''t'' ?in (Some ?src) (Some ?tgt) (Some ?out)") auto
  from handoff_feeds_its_input_only[OF h(1), of "[]"] h(2)
  have "handoffExists [handoff_ref_of h] ''s2'' (JStr ''rows'')" by auto
  then show ?thesis by blast
qed

end
