(* ===== verification/JsDate.thy ===== *)
theory JsDate
  imports Workspace
begin

text \<open>
  Instants: \<open>Date.parse\<close> on the ISO forms the program writes, \<open>Date.prototype.toISOString\<close>
  and the validator \<open>isoInstant\<close> that the scheduling, synchronisation and delegation
  components share.  A time value is a number of milliseconds; \<open>legacy\<close> is the host's
  implementation-defined parser for every other form.
\<close>

subsection \<open>Days and civil dates\<close>

definition leap_year :: "int \<Rightarrow> bool" where
  "leap_year y \<longleftrightarrow> y mod 4 = 0 \<and> (y mod 100 \<noteq> 0 \<or> y mod 400 = 0)"

definition day_from_year :: "int \<Rightarrow> int" where
  "day_from_year y = 365 * (y - 1970) + (y - 1969) div 4 - (y - 1901) div 100 + (y - 1601) div 400"

definition month_starts :: "int \<Rightarrow> int list" where
  "month_starts y = (if leap_year y then [0, 31, 60, 91, 121, 152, 182, 213, 244, 274, 305, 335, 366]
                     else [0, 31, 59, 90, 120, 151, 181, 212, 243, 273, 304, 334, 365])"

text \<open>The year of a day number: an estimate that is off by at most one, corrected.\<close>

definition year_from_day :: "int \<Rightarrow> int" where
  "year_from_day d = (let y = d * 400 div 146097 + 1970 in
     if d < day_from_year y then y - 1 else if day_from_year (y + 1) \<le> d then y + 1 else y)"

definition month_from_offset :: "int \<Rightarrow> int \<Rightarrow> nat" where
  "month_from_offset y n = length (filter (\<lambda>s. s \<le> n) (month_starts y)) - 1"

subsection \<open>Texts\<close>

definition digit_char :: "nat \<Rightarrow> char" where
  "digit_char n = char_of (48 + n)"

fun pad_digits :: "nat \<Rightarrow> nat \<Rightarrow> string" where
  "pad_digits 0 n = []"
| "pad_digits (Suc k) n = pad_digits k (n div 10) @ [digit_char (n mod 10)]"

definition year_text :: "int \<Rightarrow> string" where
  "year_text y = (if 0 \<le> y \<and> y \<le> 9999 then pad_digits 4 (nat y)
     else if y < 0 then ''-'' @ pad_digits 6 (nat (- y)) else ''+'' @ pad_digits 6 (nat y))"

definition to_iso :: "int \<Rightarrow> string" where
  "to_iso t = (let d = t div 86400000; ms = t mod 86400000; y = year_from_day d; n = d - day_from_year y;
       m = month_from_offset y n
     in year_text y @ ''-'' @ pad_digits 2 (m + 1) @ ''-'' @ pad_digits 2 (nat (n - month_starts y ! m) + 1)
        @ ''T'' @ pad_digits 2 (nat (ms div 3600000)) @ '':'' @ pad_digits 2 (nat (ms div 60000 mod 60))
        @ '':'' @ pad_digits 2 (nat (ms div 1000 mod 60)) @ ''.'' @ pad_digits 3 (nat (ms mod 1000)) @ ''Z'')"

definition num_field :: "nat \<Rightarrow> nat \<Rightarrow> string \<Rightarrow> nat option" where
  "num_field i k s = (let ds = take k (drop i s) in
     if length ds = k \<and> list_all is_digit ds then Some (digits_val 10 ds) else None)"

text \<open>\<open>YYYY-MM-DDTHH:mm:ss.sssZ\<close>, with the extended years, as milliseconds.\<close>

definition civil_day :: "int \<Rightarrow> nat \<Rightarrow> nat \<Rightarrow> int option" where
  "civil_day y m d =
    (if 1 \<le> m \<and> m \<le> 12 \<and> 1 \<le> d \<and> int d \<le> month_starts y ! m - month_starts y ! (m - 1)
     then Some (day_from_year y + month_starts y ! (m - 1) + int d - 1) else None)"

definition time_of_day :: "nat \<Rightarrow> nat \<Rightarrow> nat \<Rightarrow> nat \<Rightarrow> int option" where
  "time_of_day h mi sc ms =
    (if (h < 24 \<or> h = 24 \<and> mi = 0 \<and> sc = 0 \<and> ms = 0) \<and> mi < 60 \<and> sc < 60
     then Some (int h * 3600000 + int mi * 60000 + int sc * 1000 + int ms) else None)"

definition parse_rest :: "int \<Rightarrow> string \<Rightarrow> int option" where
  "parse_rest y r =
    (if length r = 20 \<and> r ! 0 = CHR ''-'' \<and> r ! 3 = CHR ''-'' \<and> r ! 6 = CHR ''T'' \<and> r ! 9 = CHR '':''
        \<and> r ! 12 = CHR '':'' \<and> r ! 15 = CHR ''.'' \<and> r ! 19 = CHR ''Z''
     then (case (num_field 1 2 r, num_field 4 2 r, num_field 7 2 r, num_field 10 2 r, num_field 13 2 r, num_field 16 3 r) of
         (Some m, Some d, Some h, Some mi, Some sc, Some ms) \<Rightarrow>
           (case (civil_day y m d, time_of_day h mi sc ms) of
              (Some dd, Some tt) \<Rightarrow> Some (dd * 86400000 + tt) | _ \<Rightarrow> None)
       | _ \<Rightarrow> None)
     else None)"

definition parse_iso :: "string \<Rightarrow> int option" where
  "parse_iso s = (case s of [] \<Rightarrow> None
     | c # cs \<Rightarrow>
       if c \<in> {CHR ''+'', CHR ''-''}
       then (case num_field 0 6 cs of
           Some n \<Rightarrow> if c = CHR ''-'' \<and> n = 0 then None
                      else parse_rest (if c = CHR ''-'' then - int n else int n) (drop 6 cs)
         | None \<Rightarrow> None)
       else (case num_field 0 4 s of Some n \<Rightarrow> parse_rest (int n) (drop 4 s) | None \<Rightarrow> None))"

definition MAX_TIME :: int where
  "MAX_TIME = 8640000000000000"

definition clip_time :: "int \<Rightarrow> int option" where
  "clip_time t = (if \<bar>t\<bar> \<le> MAX_TIME then Some t else None)"

definition date_parse :: "(string \<Rightarrow> int option) \<Rightarrow> string \<Rightarrow> int option" where
  "date_parse legacy s = Option.bind (case parse_iso s of Some t \<Rightarrow> Some t | None \<Rightarrow> legacy s) clip_time"

definition isoInstant :: "(string \<Rightarrow> int option) \<Rightarrow> js \<Rightarrow> string \<Rightarrow> string res" where
  "isoInstant legacy value label =
    bindE (requiredText value label 40) (\<lambda>txt.
      case date_parse legacy txt of
        None \<Rightarrow> Inl (TypeError (label @ '' must be ISO-compatible''))
      | Some t \<Rightarrow> Inr (to_iso t))"

subsection \<open>Printing and parsing\<close>

lemma digit_char_val: "n < 10 \<Longrightarrow> is_digit (digit_char n) \<and> digit_val (digit_char n) = n"
  using digit_char[of n] by (simp add: digit_char_def)

lemma pad_digits_length [simp]: "length (pad_digits k n) = k"
  by (induction k arbitrary: n) auto

lemma pad_digits_digits: "list_all is_digit (pad_digits k n)"
  by (induction k arbitrary: n) (auto simp: digit_char_val)

lemma pad_digits_val: "digits_val 10 (pad_digits k n) = n mod 10 ^ k"
proof (induction k arbitrary: n)
  case (Suc k)
  have "digits_val 10 (pad_digits (Suc k) n) = digits_val 10 (pad_digits k (n div 10)) * 10 + n mod 10"
    by (simp add: digits_val_def digit_char_val)
  also have "\<dots> = n mod 10 ^ Suc k" by (simp add: Suc.IH mod_mult2_eq)
  finally show ?case .
qed (simp add: digits_val_def)

lemma num_field_pad:
  assumes "n < 10 ^ k" shows "num_field (length pre) k (pre @ pad_digits k n @ post) = Some n"
  using assms by (simp add: num_field_def pad_digits_digits pad_digits_val)

text \<open>The year and the month of a day number.\<close>

lemma div_bounds: "k * (a div k) \<le> a \<and> a < k * (a div k) + k" if "0 < k" for a k :: int
proof -
  have "a = k * (a div k) + a mod k" by simp
  with pos_mod_sign[OF that, of a] pos_mod_bound[OF that, of a] show ?thesis by linarith
qed

lemma day_from_year_near:
  "-800 \<le> 400 * day_from_year y - 146097 * (y - 1970) \<and> 400 * day_from_year y - 146097 * (y - 1970) \<le> 800"
proof -
  obtain a b c where q: "a = (y - 1969) div 4" "b = (y - 1901) div 100" "c = (y - 1601) div 400" by blast
  have f1: "4 * a \<le> y - 1969" "y - 1969 < 4 * a + 4" using div_bounds[of 4 "y - 1969"] by (simp_all add: q)
  have f2: "100 * b \<le> y - 1901" "y - 1901 < 100 * b + 100" using div_bounds[of 100 "y - 1901"] by (simp_all add: q)
  have f3: "400 * c \<le> y - 1601" "y - 1601 < 400 * c + 400" using div_bounds[of 400 "y - 1601"] by (simp_all add: q)
  have "-800 \<le> 400 * (365 * (y - 1970) + a - b + c) - 146097 * (y - 1970)" using f1 f2 f3 by (simp add: algebra_simps)
  moreover have "400 * (365 * (y - 1970) + a - b + c) - 146097 * (y - 1970) \<le> 800" using f1 f2 f3 by (simp add: algebra_simps)
  ultimately show ?thesis unfolding day_from_year_def q[symmetric] by (rule conjI)
qed

lemma year_from_day_bounds:
  "day_from_year (year_from_day d) \<le> d \<and> d < day_from_year (year_from_day d + 1)"
proof -
  define y where "y = d * 400 div 146097 + 1970"
  have e: "146097 * (y - 1970) \<le> d * 400" "d * 400 < 146097 * (y - 1970) + 146097"
    using div_bounds[of 146097 "d * 400"] by (simp_all add: y_def)
  have lo: "day_from_year (y - 1) \<le> d" using conjunct2[OF day_from_year_near[of "y - 1"]] e by simp
  have hi: "d < day_from_year (y + 1 + 1)" using conjunct1[OF day_from_year_near[of "y + 1 + 1"]] e by simp
  have eq: "year_from_day d = (if d < day_from_year y then y - 1 else if day_from_year (y + 1) \<le> d then y + 1 else y)"
    by (simp add: year_from_day_def y_def Let_def)
  show ?thesis unfolding eq using lo hi by auto
qed

lemma div_next: "(x + 1) div k = x div k + (if (x + 1) mod k = 0 then 1 else 0)" if "0 < k" for x k :: int
proof (cases "x mod k + 1 < k")
  case True
  have e: "x + 1 = k * (x div k) + (x mod k + 1)" by simp
  have r: "0 \<le> x mod k + 1" using pos_mod_sign[OF that, of x] by linarith
  from int_div_pos_eq[OF e r True] int_mod_pos_eq[OF e r True] pos_mod_sign[OF that, of x] show ?thesis by simp
next
  case False
  then have "x mod k + 1 = k" using pos_mod_bound[OF that, of x] by linarith
  then have e: "x + 1 = k * (x div k + 1) + 0" using mult_div_mod_eq[of k x] unfolding distrib_left by linarith
  from int_div_pos_eq[OF e _ that] int_mod_pos_eq[OF e _ that] show ?thesis by simp
qed

lemma mod_shift: "(y - k * j) mod k = 0 \<longleftrightarrow> y mod k = 0" for y k j :: int
  by (simp add: mod_eq_0_iff_dvd dvd_diff_left_iff dvd_diff_right_iff)

lemma year_length: "day_from_year (y + 1) = day_from_year y + (if leap_year y then 366 else 365)"
proof -
  have a: "(y + 1 - 1969) div 4 = (y - 1969) div 4 + (if y mod 4 = 0 then 1 else 0)"
    using div_next[of 4 "y - 1969"] mod_shift[of y 4 492] by simp
  have b: "(y + 1 - 1901) div 100 = (y - 1901) div 100 + (if y mod 100 = 0 then 1 else 0)"
    using div_next[of 100 "y - 1901"] mod_shift[of y 100 19] by simp
  have c: "(y + 1 - 1601) div 400 = (y - 1601) div 400 + (if y mod 400 = 0 then 1 else 0)"
    using div_next[of 400 "y - 1601"] mod_shift[of y 400 4] by simp
  have "(4::int) dvd 100" "(100::int) dvd 400" by simp_all
  then have m: "y mod 100 = 0 \<Longrightarrow> y mod 4 = 0" "y mod 400 = 0 \<Longrightarrow> y mod 100 = 0"
    unfolding mod_eq_0_iff_dvd by (meson dvd_trans)+
  consider "y mod 400 = 0" | "y mod 400 \<noteq> 0" "y mod 100 = 0" | "y mod 100 \<noteq> 0" by blast
  then show ?thesis
  proof cases
    case 1 with m have "y mod 100 = 0" "y mod 4 = 0" by blast+
    with 1 show ?thesis unfolding day_from_year_def a b c leap_year_def by simp
  next
    case 2 with m have "y mod 4 = 0" by blast
    with 2 show ?thesis unfolding day_from_year_def a b c leap_year_def by simp
  next
    case 3 then have "y mod 400 \<noteq> 0" using m(2) by metis
    with 3 show ?thesis unfolding day_from_year_def a b c leap_year_def by (cases "y mod 4 = 0") simp_all
  qed
qed

lemma month_bounds:
  assumes "0 \<le> n" "n < (if leap_year y then 366 else 365)"
  shows "month_from_offset y n < 12 \<and> month_starts y ! month_from_offset y n \<le> n \<and>
     n < month_starts y ! Suc (month_from_offset y n)"
proof (cases "leap_year y")
  case True
  have "n < 31 \<or> 31 \<le> n \<and> n < 60 \<or> 60 \<le> n \<and> n < 91 \<or> 91 \<le> n \<and> n < 121 \<or> 121 \<le> n \<and> n < 152 \<or> 152 \<le> n \<and> n < 182
    \<or> 182 \<le> n \<and> n < 213 \<or> 213 \<le> n \<and> n < 244 \<or> 244 \<le> n \<and> n < 274 \<or> 274 \<le> n \<and> n < 305 \<or> 305 \<le> n \<and> n < 335
    \<or> 335 \<le> n \<and> n < 366" using assms True by simp linarith
  with True assms show ?thesis by (elim disjE) (simp_all add: month_from_offset_def month_starts_def)
next
  case False
  have "n < 31 \<or> 31 \<le> n \<and> n < 59 \<or> 59 \<le> n \<and> n < 90 \<or> 90 \<le> n \<and> n < 120 \<or> 120 \<le> n \<and> n < 151 \<or> 151 \<le> n \<and> n < 181
    \<or> 181 \<le> n \<and> n < 212 \<or> 212 \<le> n \<and> n < 243 \<or> 243 \<le> n \<and> n < 273 \<or> 273 \<le> n \<and> n < 304 \<or> 304 \<le> n \<and> n < 334
    \<or> 334 \<le> n \<and> n < 365" using assms False by simp linarith
  with False assms show ?thesis by (elim disjE) (simp_all add: month_from_offset_def month_starts_def)
qed

lemma pad2: "pad_digits 2 n = [digit_char (n div 10 mod 10), digit_char (n mod 10)]"
  by (simp add: numeral_2_eq_2)

lemma pad3: "pad_digits 3 n = [digit_char (n div 10 div 10 mod 10), digit_char (n div 10 mod 10), digit_char (n mod 10)]"
  by (simp add: numeral_3_eq_3)

lemma two_digits: "n < 100 \<Longrightarrow> digits_val 10 [digit_char (n div 10), digit_char (n mod 10)] = n"
  using pad_digits_val[of 2 n] by (simp add: pad2)

lemma three_digits:
  "n < 1000 \<Longrightarrow> digits_val 10 [digit_char (n div 10 div 10), digit_char (n div 10 mod 10), digit_char (n mod 10)] = n"
  using pad_digits_val[of 3 n] by (simp add: pad3)

definition iso_rest :: "nat \<Rightarrow> nat \<Rightarrow> nat \<Rightarrow> nat \<Rightarrow> nat \<Rightarrow> nat \<Rightarrow> string" where
  "iso_rest m d h mi sc ms = ''-'' @ pad_digits 2 m @ ''-'' @ pad_digits 2 d @ ''T'' @ pad_digits 2 h @ '':'' @
     pad_digits 2 mi @ '':'' @ pad_digits 2 sc @ ''.'' @ pad_digits 3 ms @ ''Z''"

lemma parse_rest_iso:
  assumes "m < 100" "d < 100" "h < 100" "mi < 100" "sc < 100" "ms < 1000"
  shows "parse_rest y (iso_rest m d h mi sc ms) = (case (civil_day y m d, time_of_day h mi sc ms) of
     (Some dd, Some tt) \<Rightarrow> Some (dd * 86400000 + tt) | _ \<Rightarrow> None)"
proof -
  let ?r = "iso_rest m d h mi sc ms"
  have f: "num_field 1 2 ?r = Some m" "num_field 4 2 ?r = Some d" "num_field 7 2 ?r = Some h"
    "num_field 10 2 ?r = Some mi" "num_field 13 2 ?r = Some sc" "num_field 16 3 ?r = Some ms"
    using assms by (simp_all add: num_field_def iso_rest_def pad2 pad3 digit_char_val two_digits three_digits)
  have "length ?r = 20" "?r ! 0 = CHR ''-''" "?r ! 3 = CHR ''-''" "?r ! 6 = CHR ''T''" "?r ! 9 = CHR '':''"
    "?r ! 12 = CHR '':''" "?r ! 15 = CHR ''.''" "?r ! 19 = CHR ''Z''"
    by (simp_all add: iso_rest_def pad2 pad3)
  then show ?thesis unfolding parse_rest_def f by simp
qed

lemma parse_iso_year:
  assumes "\<bar>y\<bar> < 1000000"
  shows "parse_iso (year_text y @ iso_rest m d h mi sc ms) = parse_rest y (iso_rest m d h mi sc ms)"
proof -
  let ?r = "iso_rest m d h mi sc ms"
  consider (four) "0 \<le> y" "y \<le> 9999" | (neg) "y < 0" | (pos) "9999 < y" by linarith
  then show ?thesis
  proof cases
    case four
    obtain c cs where p: "pad_digits 4 (nat y) = c # cs"
      using pad_digits_length[of 4 "nat y"] by (cases "pad_digits 4 (nat y)") simp_all
    then have len: "length cs = 3" using pad_digits_length[of 4 "nat y"] by simp
    have c: "c \<notin> {CHR ''+'', CHR ''-''}"
      using pad_digits_digits[of 4 "nat y"] by (auto simp: p is_digit_def ccode_def)
    have n: "num_field 0 4 ((c # cs) @ ?r) = Some (nat y)"
      using num_field_pad[of "nat y" 4 "[]" ?r] four by (simp add: p)
    have y: "year_text y = c # cs" using four p by (simp add: year_text_def)
    from len have dr: "drop 4 ((c # cs) @ ?r) = ?r" by simp
    show ?thesis using n dr c four unfolding y parse_iso_def by simp
  next
    case neg
    with assms have n: "num_field 0 6 (pad_digits 6 (nat (- y)) @ ?r) = Some (nat (- y))"
      using num_field_pad[of "nat (- y)" 6 "[]" ?r] by simp
    have "year_text y = CHR ''-'' # pad_digits 6 (nat (- y))" using neg by (simp add: year_text_def)
    with n neg show ?thesis by (simp add: parse_iso_def)
  next
    case pos
    with assms have n: "num_field 0 6 (pad_digits 6 (nat y) @ ?r) = Some (nat y)"
      using num_field_pad[of "nat y" 6 "[]" ?r] by simp
    have "year_text y = CHR ''+'' # pad_digits 6 (nat y)" using pos by (simp add: year_text_def)
    with n pos show ?thesis by (simp add: parse_iso_def)
  qed
qed

lemma parse_to_iso:
  assumes "\<bar>t\<bar> \<le> MAX_TIME"
  shows "parse_iso (to_iso t) = Some t"
proof -
  obtain d ms y n m where e: "d = t div 86400000" "ms = t mod 86400000" "y = year_from_day d"
    "n = d - day_from_year y" "m = month_from_offset y n" by blast
  have ms: "0 \<le> ms" "ms < 86400000" by (simp_all add: e)
  have d: "\<bar>d\<bar> \<le> 100000000" using assms div_bounds[of 86400000 t] unfolding MAX_TIME_def e(1) by linarith
  have yb: "day_from_year y \<le> d" "d < day_from_year (y + 1)" using year_from_day_bounds[of d] by (simp_all add: e)
  have y: "\<bar>y\<bar> < 1000000"
    using yb d conjunct2[OF day_from_year_near[of "y + 1"]] conjunct1[OF day_from_year_near[of y]]
      conjunct1[OF day_from_year_near[of "y + 1"]] conjunct2[OF day_from_year_near[of y]] by (simp add: abs_less_iff abs_le_iff)
  have n: "0 \<le> n" "n < (if leap_year y then 366 else 365)" using yb year_length[of y] unfolding e(4) by simp_all
  note mb = month_bounds[OF n, folded e(5)]
  have sm: "month_starts y ! Suc m - month_starts y ! m \<le> 31"
    using mb by (auto simp: month_starts_def less_Suc_eq numeral_eq_Suc)
  let ?day = "nat (n - month_starts y ! m) + 1"
  have t: "to_iso t = year_text y @ iso_rest (m + 1) ?day (nat (ms div 3600000)) (nat (ms div 60000 mod 60))
      (nat (ms div 1000 mod 60)) (nat (ms mod 1000))"
    unfolding to_iso_def Let_def iso_rest_def e by simp
  have c: "civil_day y (m + 1) ?day = Some d"
    using mb by (simp add: civil_day_def e(4))
  have h: "ms div 3600000 < 24" "0 \<le> ms div 3600000" using ms div_bounds[of 3600000 ms] by linarith+
  have tod: "ms div 3600000 * 3600000 + ms div 60000 mod 60 * 60000 + ms div 1000 mod 60 * 1000 + ms mod 1000 = ms"
  proof -
    define q where "q = ms div 1000"
    define q1 where "q1 = q div 60"
    have a: "ms div 60000 = q1" "ms div 3600000 = q1 div 60"
      using zdiv_zmult2_eq[of 60 ms 1000] zdiv_zmult2_eq[of 3600 ms 1000] zdiv_zmult2_eq[of 60 q 60]
      by (simp_all add: q_def q1_def)
    have "1000 * q + ms mod 1000 = ms" "60 * q1 + q mod 60 = q" "60 * (q1 div 60) + q1 mod 60 = q1"
      by (simp_all add: q_def q1_def)
    then show ?thesis unfolding a q_def[symmetric] by linarith
  qed
  obtain a b u v where q: "a = ms div 3600000" "b = ms div 60000 mod 60" "u = ms div 1000 mod 60" "v = ms mod 1000" by blast
  have r: "0 \<le> a" "a < 24" "0 \<le> b" "b < 60" "0 \<le> u" "u < 60" "0 \<le> v" "v < 1000" using h by (simp_all add: q)
  have td: "time_of_day (nat (ms div 3600000)) (nat (ms div 60000 mod 60)) (nat (ms div 1000 mod 60)) (nat (ms mod 1000)) = Some ms"
    unfolding q[symmetric] time_of_day_def using r tod[folded q] by (simp add: nat_less_iff)
  have "parse_rest y (iso_rest (m + 1) ?day (nat (ms div 3600000)) (nat (ms div 60000 mod 60))
      (nat (ms div 1000 mod 60)) (nat (ms mod 1000))) = Some (d * 86400000 + ms)"
    unfolding q[symmetric] by (subst parse_rest_iso) (use mb sm r in \<open>simp_all add: c td[folded q] nat_less_iff del: One_nat_def\<close>)
  also have "d * 86400000 + ms = t" by (simp add: e)
  finally show ?thesis unfolding t parse_iso_year[OF y] .
qed

text \<open>A normalised instant is its own normal form, whatever the host's legacy parser.\<close>

lemma date_parse_to_iso: "\<bar>t\<bar> \<le> MAX_TIME \<Longrightarrow> date_parse legacy (to_iso t) = Some t"
  by (simp add: date_parse_def parse_to_iso clip_time_def)

lemma date_parse_bounds: "date_parse legacy s = Some t \<Longrightarrow> \<bar>t\<bar> \<le> MAX_TIME"
  by (auto simp: date_parse_def bind_eq_Some_conv clip_time_def split: if_splits)

lemma pad_digits_no_space: "list_all (\<lambda>c. \<not> is_space c) (pad_digits k n)"
  using pad_digits_digits[of k n] by (auto simp: list_all_iff is_digit_def is_space_def)

lemma sep_no_space: "\<not> is_space CHR ''-''" "\<not> is_space CHR ''+''" "\<not> is_space CHR ''T''" "\<not> is_space CHR '':''"
  "\<not> is_space CHR ''.''" "\<not> is_space CHR ''Z''"
  by (simp_all add: is_space_def ccode_def)

lemma to_iso_text: "list_all (\<lambda>c. \<not> is_space c) (to_iso t) \<and> to_iso t \<noteq> [] \<and> length (to_iso t) \<le> 40"
  unfolding to_iso_def Let_def year_text_def by (simp add: pad_digits_no_space sep_no_space)

lemma isoInstant_Inr:
  "isoInstant legacy v l = Inr s \<longleftrightarrow>
     (\<exists>txt t. requiredText v l 40 = Inr txt \<and> date_parse legacy txt = Some t \<and> s = to_iso t)"
  by (auto simp: isoInstant_def simp del: requiredText_Inr split: option.splits)

lemma isoInstant_instant:
  "isoInstant legacy v l = Inr s \<Longrightarrow> \<exists>t. s = to_iso t \<and> \<bar>t\<bar> \<le> MAX_TIME \<and> (\<forall>legacy'. date_parse legacy' s = Some t)"
  unfolding isoInstant_Inr using date_parse_bounds date_parse_to_iso by blast

lemma isoInstant_again:
  assumes "isoInstant legacy v l = Inr s" shows "isoInstant legacy' (JStr s) l' = Inr s"
proof -
  obtain t where t: "s = to_iso t" "date_parse legacy' s = Some t" using isoInstant_instant[OF assms] by blast
  have "requiredText (JStr s) l' 40 = Inr s" using to_iso_text[of t] by (auto simp: t(1) trim_no_space)
  with t show ?thesis unfolding isoInstant_Inr by blast
qed

text \<open>
  C23: Normalising an instant loses nothing and is idempotent: what \<open>isoInstant\<close> returns
  denotes the very millisecond that was read, under any host parser, and normalising it again
  returns it unchanged.
\<close>

theorem instant_round_trip:
  assumes "isoInstant legacy v l = Inr s"
  shows "isoInstant legacy' (JStr s) l' = Inr s \<and>
    (\<exists>txt t. requiredText v l 40 = Inr txt \<and> date_parse legacy txt = Some t \<and> date_parse legacy' s = Some t)"
proof -
  from assms obtain x t where t: "requiredText v l 40 = Inr x" "date_parse legacy x = Some t" "s = to_iso t"
    unfolding isoInstant_Inr by blast
  with date_parse_to_iso[OF date_parse_bounds[OF t(2)]] isoInstant_again[OF assms] show ?thesis by blast
qed

theorem instant_round_trip_witness:
  "isoInstant (\<lambda>_. None) (JStr ''2026-03-01T12:30:00.000Z '') ''at'' = Inr ''2026-03-01T12:30:00.000Z'' \<and>
   isoInstant (\<lambda>_. Some 0) (JStr ''2026-03-01T12:30:00.000Z'') ''again'' = Inr ''2026-03-01T12:30:00.000Z''"
proof -
  have i: "isoInstant (\<lambda>_. None) (JStr ''2026-03-01T12:30:00.000Z '') ''at'' = Inr ''2026-03-01T12:30:00.000Z''"
    by code_simp
  show ?thesis using i instant_round_trip[OF i, of "\<lambda>_. Some 0" "''again''"] by blast
qed

end
