(* ===== verification/Capabilities.thy ===== *)
theory Capabilities
  imports TaskGraph Json JsDate
begin

text \<open>
  Capability packages, versions and installations (\<open>src/domain/capability-model.cjs\<close>), agents
  and their grants (\<open>src/domain/agent-model.cjs\<close>) and the provider contract snapshots
  (\<open>src/domain/provider-contract-snapshot.cjs\<close>): who may do what in a workspace.  A missing
  record is \<open>None\<close>; \<open>now\<close> is the default of an instant, \<open>nowMs\<close> the clock in milliseconds.
\<close>

subsection \<open>Text patterns\<close>

text \<open>\<open>/^[0-9]+.[0-9]+.[0-9]+(?:-[0-9A-Za-z.-]+)?$/\<close> with literal dots.\<close>

definition version_tail :: "string \<Rightarrow> bool" where
  "version_tail s = (case s of [] \<Rightarrow> True
     | c # cs \<Rightarrow> c = CHR ''-'' \<and> cs \<noteq> [] \<and> list_all (\<lambda>d. is_alnum d \<or> d = CHR ''.'' \<or> d = CHR ''-'') cs)"

definition number_dot :: "string \<Rightarrow> string option" where
  "number_dot s = (case dropWhile is_digit s of
      c # r \<Rightarrow> if c = CHR ''.'' \<and> takeWhile is_digit s \<noteq> [] then Some r else None | [] \<Rightarrow> None)"

definition VERSION_PATTERN :: "string \<Rightarrow> bool" where
  "VERSION_PATTERN s = (case Option.bind (number_dot s) number_dot of None \<Rightarrow> False
     | Some r \<Rightarrow> takeWhile is_digit r \<noteq> [] \<and> version_tail (dropWhile is_digit r))"

definition DIGEST_PATTERN :: "string \<Rightarrow> bool" where
  "DIGEST_PATTERN s = (take 7 s = ''sha256:'' \<and> length s = 71 \<and>
     list_all (\<lambda>c. is_digit c \<or> (97 \<le> ccode c \<and> ccode c \<le> 102)) (drop 7 s))"

definition PUBLISHERS :: "string list" where
  "PUBLISHERS = [''project-owned'', ''approved-local'', ''approved-provider'']"

definition GATE_POLICIES :: "string list" where
  "GATE_POLICIES = [''never'', ''task'', ''action'']"

text \<open>The element check shared by the string-list validators.\<close>

definition text_item :: "bool \<Rightarrow> string \<Rightarrow> nat \<Rightarrow> js \<Rightarrow> string res" where
  "text_item identifiers label maxLength value =
    (if identifiers then assertSafeIdentifier value label else requiredText value label maxLength)"

definition uniqueStrings :: "js \<Rightarrow> string \<Rightarrow> bool \<Rightarrow> string list res" where
  "uniqueStrings values label identifiers =
    bindE (as_array values (TypeError (label @ '' must be an array''))) (\<lambda>vs.
    bindE (mapE (text_item identifiers label 300) vs) (\<lambda>normalized.
      if \<not> distinct normalized then Inl (Error (label @ '' must not contain duplicates'')) else Inr normalized))"

lemma uniqueStrings_distinct: "uniqueStrings v l i = Inr ss \<Longrightarrow> distinct ss"
  by (auto simp: uniqueStrings_def split: if_splits)

subsection \<open>Packages, versions, installations\<close>

record cap_package =
  cp_id :: string
  cp_name :: string
  cp_publisher :: string
  cp_description :: string

record cap_version =
  cv_packageId :: string
  cv_version :: string
  cv_integrityDigest :: string
  cv_inputSchema :: js
  cv_outputSchema :: js
  cv_evidenceRequirements :: "string list"
  cv_resourceRequirements :: "string list"
  cv_providerContractIds :: "string list"
  cv_humanGatePolicy :: string
  cv_status :: js

record installation =
  in_id :: string
  in_workspaceId :: string
  in_packageId :: string
  in_version :: string
  in_integrityDigest :: string
  in_status :: string
  in_installedAt :: string

definition createCapabilityPackage :: "js \<Rightarrow> cap_package res" where
  "createCapabilityPackage input =
    bindE (requiredText (field input ''publisher'') ''publisher'' 40) (\<lambda>publisher.
      if publisher \<notin> set PUBLISHERS then Inl (Error (''Unsupported capability publisher: '' @ publisher))
      else
    bindE (assertSafeIdentifier (field input ''id'') ''capability package id'') (\<lambda>i.
    bindE (requiredText (field input ''name'') ''capability package name'' 200) (\<lambda>n.
    bindE (requiredText (field input ''description'') ''capability package description'' 1000) (\<lambda>d.
    Inr \<lparr>cp_id = i, cp_name = n, cp_publisher = publisher, cp_description = d\<rparr>))))"

definition publishCapabilityVersion :: "js \<Rightarrow> cap_version res" where
  "publishCapabilityVersion input =
    bindE (assertSafeIdentifier (field input ''packageId'') ''capability package id'') (\<lambda>packageId.
    bindE (requiredText (field input ''version'') ''capability version'' 80) (\<lambda>version.
    if \<not> VERSION_PATTERN version then Inl (Error ''Capability version must be semver'') else
    bindE (requiredText (field input ''integrityDigest'') ''integrity digest'' 80) (\<lambda>integrityDigest.
    if \<not> DIGEST_PATTERN integrityDigest
    then Inl (Error ''Capability integrity digest must be sha256:<64 lowercase hex>'') else
    bindE (requiredText (field input ''humanGatePolicy'') ''human gate policy'' 20) (\<lambda>humanGatePolicy.
    if humanGatePolicy \<notin> set GATE_POLICIES then Inl (Error ''Unsupported Human Gate policy'')
    else if \<not> plain_object (field input ''inputSchema'') then Inl (TypeError ''inputSchema must be an object'')
    else if \<not> plain_object (field input ''outputSchema'') then Inl (TypeError ''outputSchema must be an object'') else
    bindE (uniqueStrings (or_js (field input ''evidenceRequirements'') (JArr [])) ''evidence requirement'' False) (\<lambda>ev.
    bindE (uniqueStrings (or_js (field input ''resourceRequirements'') (JArr [])) ''resource requirement'' False) (\<lambda>rs.
    bindE (uniqueStrings (or_js (field input ''providerContractIds'') (JArr [])) ''provider contract id'' True) (\<lambda>ps.
    Inr \<lparr>cv_packageId = packageId, cv_version = version, cv_integrityDigest = integrityDigest,
      cv_inputSchema = field input ''inputSchema'', cv_outputSchema = field input ''outputSchema'',
      cv_evidenceRequirements = ev, cv_resourceRequirements = rs, cv_providerContractIds = ps,
      cv_humanGatePolicy = humanGatePolicy, cv_status = or_js (field input ''status'') (JStr ''available'')\<rparr>)))))))"

definition createCapabilityInstallation :: "workspace option \<Rightarrow> cap_version option \<Rightarrow> js \<Rightarrow> string \<Rightarrow> installation res" where
  "createCapabilityInstallation workspace version i installedAt =
    bindE (assertWorkspaceActive workspace) (\<lambda>w. case version of
        None \<Rightarrow> Inl (Error ''Capability version is not available'')
      | Some v \<Rightarrow> if cv_status v \<noteq> JStr ''available'' then Inl (Error ''Capability version is not available'') else
          bindE (assertSafeIdentifier i ''capability installation id'') (\<lambda>iid.
          bindE (assertSafeIdentifier (JStr (cv_packageId v)) ''capability package id'') (\<lambda>p.
          Inr \<lparr>in_id = iid, in_workspaceId = ws_id w, in_packageId = p, in_version = cv_version v,
            in_integrityDigest = cv_integrityDigest v, in_status = ''installed'', in_installedAt = installedAt\<rparr>)))"

definition transitionInstallation :: "installation \<Rightarrow> string \<Rightarrow> installation res" where
  "transitionInstallation inst nextStatus =
    (if nextStatus \<notin> {''installed'', ''disabled'', ''removed''} then Inl (Error ''Unsupported installation status'')
     else if in_status inst = nextStatus then Inr inst
     else if in_status inst = ''removed'' then Inl (Error ''Removed installation cannot be reactivated'')
     else if in_status inst = ''disabled'' \<and> nextStatus = ''installed''
     then Inl (Error ''Disabled installation requires a new explicit installation command'')
     else Inr (inst\<lparr>in_status := nextStatus\<rparr>))"

definition assertInstallationUsable :: "installation option \<Rightarrow> cap_version option \<Rightarrow> installation res" where
  "assertInstallationUsable inst version = (case inst of
      None \<Rightarrow> Inl (Error ''Capability installation is missing or disabled'')
    | Some i \<Rightarrow> if in_status i \<noteq> ''installed'' then Inl (Error ''Capability installation is missing or disabled'')
        else (case version of None \<Rightarrow> Inr i
          | Some v \<Rightarrow> if in_packageId i \<noteq> cv_packageId v \<or> in_version i \<noteq> cv_version v
                 \<or> in_integrityDigest i \<noteq> cv_integrityDigest v
              then Inl (Error ''Capability installation digest/version mismatch'')
              else if cv_status v \<noteq> JStr ''available'' then Inl (Error ''Capability version is not available'')
              else Inr i))"

text \<open>The table the status checks of an installation amount to.\<close>

definition installation_succs :: "string \<Rightarrow> string list" where
  "installation_succs s = (if s = ''removed'' then [] else if s = ''disabled'' then [''removed'']
     else filter (\<lambda>n. n \<noteq> s) [''installed'', ''disabled'', ''removed''])"

lemma transitionInstallation_same: "transitionInstallation i (in_status i) = Inr i' \<Longrightarrow> i' = i"
  unfolding transitionInstallation_def guard_eq_Inr by simp

lemma transitionInstallation_move:
  assumes "transitionInstallation i s = Inr i'" "in_status i \<noteq> s"
  shows "s \<in> set (installation_succs (in_status i)) \<and> in_status i' = s"
proof -
  from assms have s: "s \<in> {''installed'', ''disabled'', ''removed''}" "in_status i \<noteq> ''removed''"
      "\<not> (in_status i = ''disabled'' \<and> s = ''installed'')" "i' = i\<lparr>in_status := s\<rparr>"
    unfolding transitionInstallation_def guard_eq_Inr by simp_all
  show ?thesis
  proof (cases "in_status i = ''disabled''")
    case True with s assms(2) show ?thesis by (auto simp: installation_succs_def)
  next
    case False
    then have t: "installation_succs (in_status i) = filter (\<lambda>n. n \<noteq> in_status i) [''installed'', ''disabled'', ''removed'']"
      using s(2) by (simp only: installation_succs_def if_False)
    have "s \<in> set (filter (\<lambda>n. n \<noteq> in_status i) [''installed'', ''disabled'', ''removed''])"
      unfolding set_filter list.set using s(1) assms(2)[symmetric] by (intro CollectI conjI)
    with t s(4) show ?thesis by simp
  qed
qed

interpretation inst: state_machine in_status installation_succs "\<lambda>_ i s. transitionInstallation i s"
  by unfold_locales (simp_all add: transitionInstallation_same transitionInstallation_move)

subsection \<open>Agents and grants\<close>

record agent =
  ag_id :: string
  ag_workspaceId :: string
  ag_name :: string
  ag_role :: string
  ag_status :: string
  ag_createdAt :: string

record grant =
  gr_id :: string
  gr_workspaceId :: string
  gr_agentId :: string
  gr_installationId :: string
  gr_allowedActions :: "string list"
  gr_allowedTargets :: "string list"
  gr_status :: string
  gr_grantedAt :: string

definition createAgent :: "js \<Rightarrow> workspace option \<Rightarrow> js \<Rightarrow> js \<Rightarrow> string \<Rightarrow> agent res" where
  "createAgent i workspace name role createdAt =
    bindE (assertWorkspaceActive workspace) (\<lambda>w.
    bindE (assertSafeIdentifier i ''agent id'') (\<lambda>aid.
    bindE (requiredText name ''agent name'' 200) (\<lambda>n.
    bindE (requiredText role ''agent role'' 100) (\<lambda>r.
    Inr \<lparr>ag_id = aid, ag_workspaceId = ws_id w, ag_name = n, ag_role = r, ag_status = ''active'',
      ag_createdAt = createdAt\<rparr>))))"

definition disableAgent :: "agent \<Rightarrow> agent" where
  "disableAgent agent = (if ag_status agent = ''disabled'' then agent else agent\<lparr>ag_status := ''disabled''\<rparr>)"

definition normalizeList :: "js \<Rightarrow> string \<Rightarrow> bool \<Rightarrow> string list res" where
  "normalizeList values label identifiers =
    bindE (as_array values (TypeError (label @ ''s must be an array''))) (\<lambda>vs.
    bindE (mapE (text_item identifiers label 500) vs) (\<lambda>normalized.
      if \<not> distinct normalized then Inl (Error (label @ ''s must be unique'')) else Inr normalized))"

definition createAgentCapabilityGrant :: "js \<Rightarrow> workspace option \<Rightarrow> agent option \<Rightarrow> installation option \<Rightarrow> js \<Rightarrow> js
    \<Rightarrow> string \<Rightarrow> grant res" where
  "createAgentCapabilityGrant i workspace agent inst allowedActions allowedTargets grantedAt =
    bindE (assertWorkspaceActive workspace) (\<lambda>w.
    bindE (assertWorkspaceId (JStr (ws_id w)) [map_option ag_workspaceId agent, map_option in_workspaceId inst]) (\<lambda>_.
    if ag_status (the agent) \<noteq> ''active'' then Inl (Error ''Agent is not active'') else
    bindE (assertInstallationUsable inst None) (\<lambda>n.
    bindE (normalizeList allowedActions ''allowed action'' True) (\<lambda>actions.
    bindE (normalizeList allowedTargets ''allowed target'' False) (\<lambda>targets.
    if actions = [] \<or> targets = [] then Inl (Error ''Grant requires at least one action and target'') else
    bindE (assertSafeIdentifier i ''grant id'') (\<lambda>gid.
    Inr \<lparr>gr_id = gid, gr_workspaceId = ws_id w, gr_agentId = ag_id (the agent), gr_installationId = in_id n,
      gr_allowedActions = actions, gr_allowedTargets = targets, gr_status = ''active'', gr_grantedAt = grantedAt\<rparr>))))))"

definition revokeGrant :: "grant \<Rightarrow> grant" where
  "revokeGrant g = (if gr_status g = ''revoked'' then g else g\<lparr>gr_status := ''revoked''\<rparr>)"

text \<open>
  The workspace check has already refused a missing agent, installation or grant where the
  later fields are read.
\<close>

definition assertGrantAllows :: "workspace option \<Rightarrow> agent option \<Rightarrow> installation option \<Rightarrow> grant option \<Rightarrow> js \<Rightarrow> js
    \<Rightarrow> bool res" where
  "assertGrantAllows workspace agent inst grant action target =
    bindE (assertWorkspaceActive workspace) (\<lambda>w.
    bindE (assertWorkspaceId (JStr (ws_id w))
      [map_option ag_workspaceId agent, map_option in_workspaceId inst, map_option gr_workspaceId grant]) (\<lambda>_.
    if ag_status (the agent) \<noteq> ''active'' then Inl (Error ''Agent is not active'') else
    bindE (assertInstallationUsable inst None) (\<lambda>i.
    if gr_status (the grant) \<noteq> ''active'' then Inl (Error ''Agent capability grant is missing or revoked'')
    else if gr_agentId (the grant) \<noteq> ag_id (the agent) \<or> gr_installationId (the grant) \<noteq> in_id i
    then Inl (Error ''Grant does not bind this Agent and installation'') else
    bindE (assertSafeIdentifier action ''capability action'') (\<lambda>normalizedAction.
    bindE (requiredText target ''capability target'' 500) (\<lambda>normalizedTarget.
    if normalizedAction \<notin> set (gr_allowedActions (the grant)) then Inl (Error ''Capability action is not granted'')
    else if normalizedTarget \<notin> set (gr_allowedTargets (the grant)) then Inl (Error ''Capability target is not granted'')
    else Inr True)))))"

subsection \<open>Provider contract snapshots\<close>

record provider_snapshot =
  ps_contractId :: string
  ps_providerId :: string
  ps_surfaceId :: string
  ps_status :: string
  ps_reviewedAt :: string
  ps_expiresAt :: string
  ps_governingTermsDigest :: string
  ps_permittedActions :: "string list"
  ps_prohibitedActions :: "string list"
  ps_snapshotDigest :: string

definition normalizeActions :: "js \<Rightarrow> string \<Rightarrow> string list res" where
  "normalizeActions values label =
    bindE (as_array values (TypeError (label @ '' must be an array''))) (\<lambda>vs.
    bindE (mapE (\<lambda>v. assertSafeIdentifier v label) vs) (\<lambda>acts.
      if \<not> distinct acts then Inl (Error (label @ '' must be unique'')) else Inr (sort acts)))"

definition snapshot_js :: "provider_snapshot \<Rightarrow> js" where
  "snapshot_js s = JObj [(''contractId'', JStr (ps_contractId s)), (''providerId'', JStr (ps_providerId s)),
     (''surfaceId'', JStr (ps_surfaceId s)), (''status'', JStr (ps_status s)), (''reviewedAt'', JStr (ps_reviewedAt s)),
     (''expiresAt'', JStr (ps_expiresAt s)), (''governingTermsDigest'', JStr (ps_governingTermsDigest s)),
     (''permittedActions'', js_strs (ps_permittedActions s)), (''prohibitedActions'', js_strs (ps_prohibitedActions s))]"

definition createProviderContractSnapshot :: "(string \<Rightarrow> string) \<Rightarrow> (string \<Rightarrow> int option) \<Rightarrow> js \<Rightarrow> provider_snapshot res" where
  "createProviderContractSnapshot sha legacy input =
    (if \<not> includes_str [''accepted'', ''blocked''] (field input ''status'')
     then Inl (Error ''Provider contract status must be accepted or blocked'') else
    bindE (requiredText (field input ''reviewedAt'') ''reviewedAt'' 40) (\<lambda>reviewedAt.
    bindE (requiredText (field input ''expiresAt'') ''expiresAt'' 40) (\<lambda>expiresAt.
    if date_parse legacy reviewedAt = None \<or> date_parse legacy expiresAt = None
    then Inl (Error ''Provider contract dates must be ISO-compatible'') else
    bindE (assertSafeIdentifier (field input ''contractId'') ''provider contract id'') (\<lambda>c.
    bindE (assertSafeIdentifier (field input ''providerId'') ''provider id'') (\<lambda>p.
    bindE (assertSafeIdentifier (field input ''surfaceId'') ''provider surface id'') (\<lambda>s.
    bindE (requiredText (field input ''governingTermsDigest'') ''governing terms digest'' 100) (\<lambda>g.
    bindE (normalizeActions (or_js (field input ''permittedActions'') (JArr [])) ''permitted action'') (\<lambda>permitted.
    bindE (normalizeActions (or_js (field input ''prohibitedActions'') (JArr [])) ''prohibited action'') (\<lambda>prohibited.
    let snapshot = \<lparr>ps_contractId = c, ps_providerId = p, ps_surfaceId = s, ps_status = to_string (field input ''status''),
          ps_reviewedAt = reviewedAt, ps_expiresAt = expiresAt, ps_governingTermsDigest = g,
          ps_permittedActions = permitted, ps_prohibitedActions = prohibited, ps_snapshotDigest = []\<rparr>
    in Inr (snapshot\<lparr>ps_snapshotDigest := digest sha (snapshot_js snapshot)\<rparr>))))))))))"

text \<open>An expiry that does not parse is NaN, which no clock reaches.\<close>

definition snapshot_expired :: "(string \<Rightarrow> int option) \<Rightarrow> string \<Rightarrow> int \<Rightarrow> bool" where
  "snapshot_expired legacy expiresAt nowMs = (case date_parse legacy expiresAt of None \<Rightarrow> False | Some t \<Rightarrow> t \<le> nowMs)"

definition assertProviderSnapshotAllows :: "(string \<Rightarrow> int option) \<Rightarrow> provider_snapshot option \<Rightarrow> js \<Rightarrow> int \<Rightarrow> bool res" where
  "assertProviderSnapshotAllows legacy snapshot action nowMs = (case snapshot of
      None \<Rightarrow> Inl (Error ''Provider contract is unknown or blocked'')
    | Some s \<Rightarrow> if ps_status s \<noteq> ''accepted'' then Inl (Error ''Provider contract is unknown or blocked'') else
        bindE (assertSafeIdentifier action ''provider action'') (\<lambda>normalizedAction.
        if snapshot_expired legacy (ps_expiresAt s) nowMs then Inl (Error ''Provider contract changed or expired'')
        else if normalizedAction \<in> set (ps_prohibitedActions s) then Inl (Error ''Provider action is prohibited'')
        else if normalizedAction \<notin> set (ps_permittedActions s) then Inl (Error ''Provider action is not permitted'')
        else Inr True))"

subsection \<open>What the checks grant\<close>

lemma assertInstallationUsable_None [simp]:
  "assertInstallationUsable (Some i) None = Inr j \<longleftrightarrow> in_status i = ''installed'' \<and> j = i"
  by (auto simp: assertInstallationUsable_def)

lemma assertGrantAllows_iff:
  "assertGrantAllows (Some w) (Some a) (Some i) (Some g) action target = Inr r \<longleftrightarrow>
     r = True \<and> workspace_ok w \<and> ws_status w = ''active'' \<and>
     ag_workspaceId a = ws_id w \<and> in_workspaceId i = ws_id w \<and> gr_workspaceId g = ws_id w \<and>
     ag_status a = ''active'' \<and> in_status i = ''installed'' \<and> gr_status g = ''active'' \<and>
     gr_agentId g = ag_id a \<and> gr_installationId g = in_id i \<and>
     (\<exists>act. action = JStr act \<and> SAFE_IDENTIFIER act \<and> act \<in> set (gr_allowedActions g)) \<and>
     (\<exists>t. requiredText target ''capability target'' 500 = Inr t \<and> t \<in> set (gr_allowedTargets g))"
  unfolding assertGrantAllows_def
  by (simp del: requiredText_Inr add: workspace_ok_def) blast

lemma assertGrantAllows_missing: "a = None \<or> i = None \<or> g = None \<Longrightarrow> \<exists>e. assertGrantAllows w a i g action target = Inl e"
  by (cases "assertGrantAllows w a i g action target") (auto simp: assertGrantAllows_def)

text \<open>
  C19: A capability action is allowed exactly when the workspace is active, the agent, the
  installation and the grant belong to it and are active, the grant binds that agent to that
  installation, and it lists the action and the target.
\<close>

theorem grant_check_exact:
  "assertGrantAllows (Some w) (Some a) (Some i) (Some g) action target = Inr True \<longleftrightarrow>
     workspace_ok w \<and> ws_status w = ''active'' \<and>
     ag_workspaceId a = ws_id w \<and> in_workspaceId i = ws_id w \<and> gr_workspaceId g = ws_id w \<and>
     ag_status a = ''active'' \<and> in_status i = ''installed'' \<and> gr_status g = ''active'' \<and>
     gr_agentId g = ag_id a \<and> gr_installationId g = in_id i \<and>
     (\<exists>act. action = JStr act \<and> SAFE_IDENTIFIER act \<and> act \<in> set (gr_allowedActions g)) \<and>
     (\<exists>t. requiredText target ''capability target'' 500 = Inr t \<and> t \<in> set (gr_allowedTargets g))"
  by (simp only: assertGrantAllows_iff simp_thms)

lemma installation_path: "(s, s') \<in> (succ_rel installation_succs)\<^sup>* \<Longrightarrow> s \<in> {''disabled'', ''removed''} \<Longrightarrow>
    s' \<in> {''disabled'', ''removed''}"
  by (induction rule: rtrancl_induct) (auto simp: succ_rel_def installation_succs_def)

text \<open>
  C20: Whatever the workspace, action and target: a disabled agent, a revoked grant, and an
  installation that was disabled or removed, after any further status changes, are refused.
\<close>

theorem withdrawn_access_stays_withdrawn:
  assumes "in_status i \<in> {''disabled'', ''removed''}"
    and "run_moves (\<lambda>_::unit. transitionInstallation) i moves = Inr i'"
  shows "(\<exists>e. assertGrantAllows w a (Some i') g action target = Inl e) \<and>
     (\<exists>e. assertGrantAllows w (Some (disableAgent agt)) inst g action target = Inl e) \<and>
     (\<exists>e. assertGrantAllows w a inst (Some (revokeGrant grt)) action target = Inl e) \<and>
     (\<exists>e. assertInstallationUsable (Some i') v = Inl e)"
proof -
  have refuse: "\<exists>e. assertGrantAllows w a i g action target = Inl e"
    if "\<And>w' a' i' g'. w = Some w' \<Longrightarrow> a = Some a' \<Longrightarrow> i = Some i' \<Longrightarrow> g = Some g' \<Longrightarrow>
      ag_status a' \<noteq> ''active'' \<or> in_status i' \<noteq> ''installed'' \<or> gr_status g' \<noteq> ''active''" for a i g
  proof (cases "assertGrantAllows w a i g action target")
    case (Inr r)
    then have "w \<noteq> None" by (auto simp: assertGrantAllows_def)
    moreover have "\<not> (a = None \<or> i = None \<or> g = None)"
      using assertGrantAllows_missing[of a i g w action target] Inr by (metis sum.distinct(1))
    ultimately obtain w' a' i' g' where e: "w = Some w'" "a = Some a'" "i = Some i'" "g = Some g'"
      by (meson not_None_eq)
    with Inr that[OF e] show ?thesis by (auto simp: assertGrantAllows_iff)
  qed simp
  have "in_status i' \<in> {''disabled'', ''removed''}"
    using installation_path[OF inst.run_path] assms by blast
  then have ns: "in_status i' \<noteq> ''installed''" by auto
  have off: "ag_status (disableAgent agt) \<noteq> ''active''" "gr_status (revokeGrant grt) \<noteq> ''active''"
    by (simp_all add: disableAgent_def revokeGrant_def)
  show ?thesis
  proof (intro conjI)
    show "\<exists>e. assertInstallationUsable (Some i') v = Inl e" using ns by (simp add: assertInstallationUsable_def)
  qed (rule refuse; use ns off in simp)+
qed

theorem withdrawn_access_stays_withdrawn_witness:
  "\<exists>e. assertInstallationUsable (Some \<lparr>in_id = ''i'', in_workspaceId = ''w'', in_packageId = ''p'', in_version = ''1.0.0'',
       in_integrityDigest = [], in_status = ''removed'', in_installedAt = ''t''\<rparr>) None = Inl e"
proof -
  let ?i = "\<lambda>s. \<lparr>in_id = ''i'', in_workspaceId = ''w'', in_packageId = ''p'', in_version = ''1.0.0'',
       in_integrityDigest = [], in_status = s, in_installedAt = ''t''\<rparr>"
  have "run_moves (\<lambda>_::unit. transitionInstallation) (?i ''disabled'') [((), ''removed'')] = Inr (?i ''removed'')"
    by (simp add: transitionInstallation_def)
  from withdrawn_access_stays_withdrawn[OF _ this] show ?thesis by simp
qed

text \<open>
  A contract snapshot built from an input allows an action exactly when it was accepted,
  has not expired by then, permits the action and does not prohibit it: a prohibition
  outweighs a permission.
\<close>

theorem provider_snapshot_exact:
  assumes "createProviderContractSnapshot sha legacy input = Inr s"
  shows "assertProviderSnapshotAllows legacy (Some s) action nowMs = Inr True \<longleftrightarrow>
     field input ''status'' = JStr ''accepted'' \<and>
     (\<exists>t. date_parse legacy (ps_expiresAt s) = Some t \<and> nowMs < t) \<and>
     (\<exists>act. action = JStr act \<and> act \<in> set (ps_permittedActions s) \<and> act \<notin> set (ps_prohibitedActions s))"
proof -
  from assms have st: "JStr (ps_status s) = field input ''status''"
    by (auto simp: createProviderContractSnapshot_def includes_str_iff Let_def)
  from assms have d: "date_parse legacy (ps_expiresAt s) \<noteq> None"
    by (auto simp: createProviderContractSnapshot_def Let_def simp del: requiredText_Inr)
  have norm: "SAFE_IDENTIFIER a" if "normalizeActions v l = Inr ss" "a \<in> set ss" for v l ss a
    using that by (auto simp: normalizeActions_def split: if_splits dest: list_all2_in_right)
  from assms obtain v l where "normalizeActions v l = Inr (ps_permittedActions s)"
    by (auto simp: createProviderContractSnapshot_def Let_def simp del: requiredText_Inr)
  with norm have "SAFE_IDENTIFIER a" if "a \<in> set (ps_permittedActions s)" for a using that by blast
  with d st[symmetric] show ?thesis
    by (auto simp: assertProviderSnapshotAllows_def snapshot_expired_def)
qed

end
