(* ===== verification/Locks.thy ===== *)
theory Locks
  imports Workspace
begin

text \<open>
  The resource locks of \<open>src/main/resource-lock/resource-lock-manager.cjs\<close>: a run takes all
  the resources it asks for or none, and keeps them until it releases them.  \<open>lc\<close> is the
  host's collation.
\<close>

record resource =
  rs_type :: string
  rs_key :: string
  rs_normalizedKey :: string

record lock =
  lk_id :: string
  lk_workspaceId :: string
  lk_taskId :: string
  lk_executionRunId :: string
  lk_resourceType :: string
  lk_resourceKey :: string
  lk_normalizedKey :: string
  lk_acquiredAt :: string
  lk_releasedAt :: "string option"

type_synonym lock_table = "(string, lock) jsmap"

definition normalizeResource :: "js \<Rightarrow> resource res" where
  "normalizeResource resource =
    (if \<not> is_object resource then Inl (TypeError ''resource is required'')
     else let type = trim_js (to_string (or_js (field resource ''type'') (JStr [])));
              key = trim_js (to_string (or_js (field resource ''key'') (JStr [])))
       in if type = [] \<or> key = [] then Inl (TypeError ''resource type and key are required'')
          else Inr \<lparr>rs_type = type, rs_key = key, rs_normalizedKey = colon_key type key\<rparr>)"

definition resource_js :: "resource \<Rightarrow> js" where
  "resource_js r = JObj [(''type'', JStr (rs_type r)), (''key'', JStr (rs_key r)),
     (''normalizedKey'', JStr (rs_normalizedKey r))]"

text \<open>\<open>None\<close> is the default executionRunId, null, which no lock has.\<close>

definition lock_conflicts :: "lock_table \<Rightarrow> js list \<Rightarrow> string option \<Rightarrow> resource list res" where
  "lock_conflicts locks resources executionRunId =
    bindE (mapE normalizeResource resources) (\<lambda>rs. Inr (filter (\<lambda>r.
      case mget locks (rs_normalizedKey r) of None \<Rightarrow> False
      | Some held \<Rightarrow> Some (lk_executionRunId held) \<noteq> executionRunId) rs))"

text \<open>The first element whose key equals that of its predecessor.\<close>

fun find_duplicate :: "resource list \<Rightarrow> resource option" where
  "find_duplicate (a # b # rs) = (if rs_normalizedKey b = rs_normalizedKey a then Some b else find_duplicate (b # rs))"
| "find_duplicate _ = None"

definition make_lock :: "string \<Rightarrow> string \<Rightarrow> string \<Rightarrow> string \<Rightarrow> resource \<Rightarrow> lock" where
  "make_lock workspaceId taskId executionRunId acquiredAt r =
    \<lparr>lk_id = colon_key executionRunId (rs_normalizedKey r), lk_workspaceId = workspaceId, lk_taskId = taskId,
     lk_executionRunId = executionRunId, lk_resourceType = rs_type r, lk_resourceKey = rs_key r,
     lk_normalizedKey = rs_normalizedKey r, lk_acquiredAt = acquiredAt, lk_releasedAt = None\<rparr>"

definition put_locks :: "lock list \<Rightarrow> lock_table \<Rightarrow> lock_table" where
  "put_locks acquired locks = fold (\<lambda>l. mset_at (lk_normalizedKey l) l) acquired locks"

text \<open>The part of \<open>acquireAll\<close> after the requested resources are normalised and sorted.\<close>

definition acquire_sorted :: "string \<Rightarrow> string \<Rightarrow> string \<Rightarrow> string \<Rightarrow> lock_table \<Rightarrow> resource list
    \<Rightarrow> (lock_table \<times> lock list) res" where
  "acquire_sorted workspaceId taskId executionRunId acquiredAt locks normalized = (case find_duplicate normalized of
      Some d \<Rightarrow> Inl (Error (''Duplicate requested resource: '' @ rs_normalizedKey d))
    | None \<Rightarrow>
        bindE (lock_conflicts locks (map resource_js normalized) (Some executionRunId)) (\<lambda>conflicts.
        if conflicts \<noteq> [] then Inl (Error (''Resource conflict: '' @ join_with '', '' (map rs_normalizedKey conflicts)))
        else let acquired = map (make_lock workspaceId taskId executionRunId acquiredAt) normalized
             in Inr (put_locks acquired locks, acquired)))"

definition acquireAll :: "(string \<Rightarrow> string \<Rightarrow> bool) \<Rightarrow> string \<Rightarrow> string \<Rightarrow> string \<Rightarrow> js \<Rightarrow> string \<Rightarrow> lock_table
    \<Rightarrow> (lock_table \<times> lock list) res" where
  "acquireAll lc workspaceId taskId executionRunId resources acquiredAt locks =
    (if workspaceId = [] \<or> taskId = [] \<or> executionRunId = []
     then Inl (TypeError ''workspaceId, taskId and executionRunId are required'') else
    bindE (as_array resources (TypeError ''resources must be an array'')) (\<lambda>rs.
    if rs = [] then Inr (locks, []) else
    bindE (mapE normalizeResource rs) (\<lambda>unsorted.
    acquire_sorted workspaceId taskId executionRunId acquiredAt locks
      (sort_by (\<lambda>a b. lc (rs_normalizedKey a) (rs_normalizedKey b)) unsorted))))"

definition releaseAll :: "string \<Rightarrow> string \<Rightarrow> lock_table \<Rightarrow> lock_table \<times> lock list" where
  "releaseAll executionRunId releasedAt locks =
    (filter (\<lambda>(k, l). lk_executionRunId l \<noteq> executionRunId) locks,
     map (\<lambda>(k, l). l\<lparr>lk_releasedAt := Some releasedAt\<rparr>) (filter (\<lambda>(k, l). lk_executionRunId l = executionRunId) locks))"

subsection \<open>Normalisation\<close>

lemma normalizeResource_Inr:
  "normalizeResource v = Inr r \<Longrightarrow> rs_type r \<noteq> [] \<and> rs_key r \<noteq> [] \<and> trim_js (rs_type r) = rs_type r \<and>
     trim_js (rs_key r) = rs_key r \<and> rs_normalizedKey r = colon_key (rs_type r) (rs_key r)"
  by (auto simp: normalizeResource_def Let_def split: if_splits)

lemma normalize_again: "normalizeResource v = Inr r \<Longrightarrow> normalizeResource (resource_js r) = Inr r"
proof -
  assume "normalizeResource v = Inr r"
  note f = normalizeResource_Inr[OF this]
  then have "r = \<lparr>rs_type = rs_type r, rs_key = rs_key r, rs_normalizedKey = colon_key (rs_type r) (rs_key r)\<rparr>"
    by (cases r) simp
  moreover have "normalizeResource (resource_js r) =
      Inr \<lparr>rs_type = rs_type r, rs_key = rs_key r, rs_normalizedKey = colon_key (rs_type r) (rs_key r)\<rparr>"
    using f by (simp add: normalizeResource_def resource_js_def or_js_def Let_def)
  ultimately show ?thesis by simp
qed

lemma normalize_all_again: "\<forall>r \<in> set rs. \<exists>v. normalizeResource v = Inr r \<Longrightarrow>
    mapE normalizeResource (map resource_js rs) = Inr rs"
  by (auto simp: list_all2_conv_all_nth intro: normalize_again)

subsection \<open>Who holds what\<close>

definition held_by :: "string \<Rightarrow> string \<Rightarrow> lock_table \<Rightarrow> bool" where
  "held_by run k locks \<longleftrightarrow> (\<exists>l. mget locks k = Some l \<and> lk_executionRunId l = run)"

definition locks_ok :: "lock_table \<Rightarrow> bool" where
  "locks_ok locks \<longleftrightarrow> distinct (map fst locks) \<and> (\<forall>k l. mget locks k = Some l \<longrightarrow> lk_normalizedKey l = k)"

lemma put_locks_simps [simp]:
  "put_locks [] locks = locks"
  "put_locks (l # ls) locks = put_locks ls (mset_at (lk_normalizedKey l) l locks)"
  by (simp_all add: put_locks_def)

lemma mget_put_locks: "mget (put_locks ls locks) k =
    (case find (\<lambda>l. lk_normalizedKey l = k) (rev ls) of Some l \<Rightarrow> Some l | None \<Rightarrow> mget locks k)"
  by (induction ls arbitrary: locks) (auto simp: find_append split: option.split)

lemma locks_ok_mset_at: "locks_ok locks \<Longrightarrow> locks_ok (mset_at (lk_normalizedKey l) l locks)"
  by (simp add: locks_ok_def)

lemma put_locks_ok: "locks_ok locks \<Longrightarrow> locks_ok (put_locks ls locks)"
  by (induction ls arbitrary: locks) (simp_all add: locks_ok_mset_at)

lemma mget_filter: "distinct (map fst m) \<Longrightarrow> mget (filter (\<lambda>(k, v). P v) m) k =
    (case mget m k of Some v \<Rightarrow> if P v then Some v else None | None \<Rightarrow> None)"
proof (induction m)
  case (Cons kv m)
  obtain k' v' where kv: "kv = (k', v')" by fastforce
  with Cons.prems have "mget m k' = None" by (simp add: mget_eq_None)
  with Cons kv show ?case by (auto simp: mget_def split: option.splits)
qed simp

lemma mget_releaseAll: "locks_ok locks \<Longrightarrow> mget (fst (releaseAll run now locks)) k =
    (case mget locks k of Some l \<Rightarrow> if lk_executionRunId l \<noteq> run then Some l else None | None \<Rightarrow> None)"
  using mget_filter[of locks "\<lambda>l. lk_executionRunId l \<noteq> run" k] by (simp add: locks_ok_def releaseAll_def)

lemma releaseAll_ok: "locks_ok locks \<Longrightarrow> locks_ok (fst (releaseAll run now locks))"
proof -
  assume a: "locks_ok locks"
  then have "distinct (map fst (fst (releaseAll run now locks)))"
    by (simp add: locks_ok_def releaseAll_def distinct_map_filter)
  with a mget_releaseAll[OF a] show ?thesis by (auto simp: locks_ok_def split: option.splits if_splits)
qed

lemma held_by_releaseAll: "locks_ok locks \<Longrightarrow>
    held_by r k (fst (releaseAll run now locks)) \<longleftrightarrow> r \<noteq> run \<and> held_by r k locks"
  by (auto simp: held_by_def mget_releaseAll split: option.splits)

lemma held_by_unique: "held_by r k locks \<Longrightarrow> held_by r' k locks \<Longrightarrow> r = r'"
  by (auto simp: held_by_def)

lemma lock_conflicts_empty: "mapE normalizeResource resources = Inr rs \<Longrightarrow> lock_conflicts locks resources run = Inr [] \<longleftrightarrow>
    (\<forall>r \<in> set rs. \<forall>l. mget locks (rs_normalizedKey r) = Some l \<longrightarrow> Some (lk_executionRunId l) = run)"
proof -
  assume a: "mapE normalizeResource resources = Inr rs"
  have "(case mget locks k of None \<Rightarrow> False | Some held \<Rightarrow> Some (lk_executionRunId held) \<noteq> run) \<longleftrightarrow>
      \<not> (\<forall>l. mget locks k = Some l \<longrightarrow> Some (lk_executionRunId l) = run)" for k
    by (cases "mget locks k") simp_all
  then show ?thesis by (simp only: lock_conflicts_def a bindE_Inr sum.inject filter_empty_conv simp_thms)
qed

lemma acquireAll_Inr:
  assumes "acquireAll lc w t run (JArr vs) now locks = Inr (locks', ls)"
  obtains rs where "mapE normalizeResource vs = Inr rs"
    and "set (map lk_normalizedKey ls) = rs_normalizedKey ` set rs"
    and "\<forall>l \<in> set ls. lk_executionRunId l = run \<and> lk_workspaceId l = w \<and> lk_taskId l = t"
    and "locks' = put_locks ls locks"
    and "\<forall>r \<in> set rs. \<forall>l. mget locks (rs_normalizedKey r) = Some l \<longrightarrow> lk_executionRunId l = run"
    and "set ls = make_lock w t run now ` set rs"
proof (cases "vs = []")
  case True
  with assms show thesis by (intro that[of "[]"]) (simp_all add: acquireAll_def as_array_def split: if_splits)
next
  case False
  let ?le = "\<lambda>a b. lc (rs_normalizedKey a) (rs_normalizedKey b)"
  from assms False obtain rs where rs: "mapE normalizeResource vs = Inr rs"
    and c: "acquire_sorted w t run now locks (sort_by ?le rs) = Inr (locks', ls)"
    unfolding acquireAll_def by (cases "mapE normalizeResource vs") (simp_all add: as_array_def del: mapE_eq_Inr)
  then have cf: "lock_conflicts locks (map resource_js (sort_by ?le rs)) (Some run) = Inr []"
    and ls: "ls = map (make_lock w t run now) (sort_by ?le rs)" "locks' = put_locks ls locks"
    unfolding acquire_sorted_def
    by (cases "find_duplicate (sort_by ?le rs)"; simp add: Let_def; metis)+
  have "mapE normalizeResource (map resource_js (sort_by ?le rs)) = Inr (sort_by ?le rs)"
    by (rule normalize_all_again) (use mapE_all[OF rs] in auto)
  with cf have "\<forall>r \<in> set rs. \<forall>l. mget locks (rs_normalizedKey r) = Some l \<longrightarrow> lk_executionRunId l = run"
    using lock_conflicts_empty[of "map resource_js (sort_by ?le rs)" "sort_by ?le rs" locks "Some run"] by auto
  with that[OF rs] ls show thesis by (auto simp: make_lock_def)
qed

lemma held_by_put_locks:
  assumes "\<forall>l \<in> set ls. lk_executionRunId l = run"
    and "\<forall>l \<in> set ls. \<forall>h. mget locks (lk_normalizedKey l) = Some h \<longrightarrow> lk_executionRunId h = run"
  shows "held_by r k (put_locks ls locks) \<longleftrightarrow> held_by r k locks \<or> (r = run \<and> k \<in> lk_normalizedKey ` set ls)"
proof (cases "find (\<lambda>l. lk_normalizedKey l = k) (rev ls)")
  case None
  then have "mget (put_locks ls locks) k = mget locks k" "k \<notin> lk_normalizedKey ` set ls"
    by (simp add: mget_put_locks, auto simp: find_None_iff)
  then show ?thesis by (simp add: held_by_def)
next
  case (Some l)
  then have l: "l \<in> set ls" "lk_normalizedKey l = k" by (auto dest: find_Some_set)
  have m: "mget (put_locks ls locks) k = Some l" using Some by (simp add: mget_put_locks)
  have h: "held_by r k locks \<Longrightarrow> r = run" using assms(2) l by (auto simp: held_by_def)
  have "held_by r k (put_locks ls locks) \<longleftrightarrow> r = run" using m l assms(1) by (auto simp: held_by_def)
  with h l show ?thesis by auto
qed

lemma acquireAll_held:
  assumes "acquireAll lc w t run (JArr vs) now locks = Inr (locks', ls)"
  shows "held_by r k locks' \<longleftrightarrow> held_by r k locks \<or> (r = run \<and> k \<in> lk_normalizedKey ` set ls)"
  using assms
proof (rule acquireAll_Inr)
  fix rs
  assume k: "set (map lk_normalizedKey ls) = rs_normalizedKey ` set rs"
    and own: "\<forall>l \<in> set ls. lk_executionRunId l = run \<and> lk_workspaceId l = w \<and> lk_taskId l = t"
    and p: "locks' = put_locks ls locks"
    and free: "\<forall>r \<in> set rs. \<forall>l. mget locks (rs_normalizedKey r) = Some l \<longrightarrow> lk_executionRunId l = run"
  have "lk_executionRunId h = run" if l: "l \<in> set ls" and h: "mget locks (lk_normalizedKey l) = Some h" for l h
  proof -
    from l have "lk_normalizedKey l \<in> set (map lk_normalizedKey ls)" by simp
    then obtain r where "r \<in> set rs" "lk_normalizedKey l = rs_normalizedKey r" unfolding k by blast
    with free h show ?thesis by simp
  qed
  then have "\<forall>l \<in> set ls. \<forall>h. mget locks (lk_normalizedKey l) = Some h \<longrightarrow> lk_executionRunId h = run"
    by blast
  with own show ?thesis unfolding p by (intro held_by_put_locks) simp_all
qed

subsection \<open>Runs of lock operations\<close>

datatype lock_op = Acquire string string string js string | Release string string

definition lock_step :: "(string \<Rightarrow> string \<Rightarrow> bool) \<Rightarrow> lock_op \<Rightarrow> lock_table \<Rightarrow> lock_table" where
  "lock_step lc oper locks = (case oper of
      Acquire w t run resources now \<Rightarrow>
        (case acquireAll lc w t run resources now locks of Inr (locks', _) \<Rightarrow> locks' | Inl _ \<Rightarrow> locks)
    | Release run now \<Rightarrow> fst (releaseAll run now locks))"

definition lock_run :: "(string \<Rightarrow> string \<Rightarrow> bool) \<Rightarrow> lock_op list \<Rightarrow> lock_table \<Rightarrow> lock_table" where
  "lock_run lc ops locks = fold (lock_step lc) ops locks"

lemma lock_step_Acquire:
  assumes "locks_ok locks"
  shows "locks_ok (lock_step lc (Acquire w t run v now) locks) \<and>
     (\<forall>r k. held_by r k locks \<longrightarrow> held_by r k (lock_step lc (Acquire w t run v now) locks))"
proof (cases "acquireAll lc w t run v now locks")
  case (Inr x)
  obtain locks' ls where x: "x = (locks', ls)" by fastforce
  from Inr obtain vs where v: "v = JArr vs" by (auto simp: acquireAll_def split: if_splits)
  from acquireAll_Inr[OF Inr[unfolded v x]] have "locks' = put_locks ls locks" by blast
  with assms Inr x acquireAll_held[OF Inr[unfolded v x]] show ?thesis
    by (simp add: lock_step_def put_locks_ok)
qed (simp add: lock_step_def assms)

lemma lock_step_Release: "locks_ok locks \<Longrightarrow> locks_ok (lock_step lc (Release run now) locks) \<and>
    (\<forall>r k. r \<noteq> run \<longrightarrow> held_by r k locks \<longrightarrow> held_by r k (lock_step lc (Release run now) locks))"
  by (simp add: lock_step_def releaseAll_ok held_by_releaseAll)

lemma lock_run_keeps:
  "locks_ok locks \<Longrightarrow> \<forall>now. Release r now \<notin> set ops \<Longrightarrow> held_by r k locks \<Longrightarrow>
     locks_ok (lock_run lc ops locks) \<and> held_by r k (lock_run lc ops locks)"
proof (induction ops arbitrary: locks)
  case (Cons oper ops)
  have "locks_ok (lock_step lc oper locks) \<and> held_by r k (lock_step lc oper locks)"
    using Cons.prems lock_step_Acquire[of locks lc] lock_step_Release[of locks lc]
    by (cases oper) auto
  with Cons show ?case by (simp add: lock_run_def)
qed (simp add: lock_run_def)

lemma lock_run_ok: "locks_ok locks \<Longrightarrow> locks_ok (lock_run lc ops locks)"
proof (induction ops arbitrary: locks)
  case (Cons oper ops)
  have "locks_ok (lock_step lc oper locks)"
    using Cons.prems lock_step_Acquire[of locks lc] lock_step_Release[of locks lc] by (cases oper) auto
  with Cons.IH show ?case by (simp add: lock_run_def)
qed (simp add: lock_run_def)

text \<open>What an accepted request writes: a fresh lock under each requested key, and nothing else.\<close>

lemma mget_acquireAll:
  assumes "acquireAll lc w t run (JArr vs) now locks = Inr (locks', ls)"
  shows "(\<exists>v \<in> set vs. \<exists>r. normalizeResource v = Inr r \<and> rs_normalizedKey r = k \<and> mget locks' k = Some (make_lock w t run now r)) \<or>
     (\<forall>v \<in> set vs. \<forall>r. normalizeResource v = Inr r \<longrightarrow> rs_normalizedKey r \<noteq> k) \<and> mget locks' k = mget locks k"
proof -
  obtain rs where rs: "mapE normalizeResource vs = Inr rs" and p: "locks' = put_locks ls locks"
    and ls: "set ls = make_lock w t run now ` set rs"
    by (rule acquireAll_Inr[OF assms]) blast
  have req: "r \<in> set rs \<longleftrightarrow> (\<exists>v \<in> set vs. normalizeResource v = Inr r)" for r
    using rs by (auto simp: list_all2_conv_all_nth set_conv_nth)
  show ?thesis
  proof (cases "find (\<lambda>l. lk_normalizedKey l = k) (rev ls)")
    case None
    then have "\<forall>r \<in> set rs. rs_normalizedKey r \<noteq> k" by (auto simp: find_None_iff ls make_lock_def)
    with None req p show ?thesis by (auto simp: mget_put_locks)
  next
    case (Some l)
    then have "l \<in> set ls" "lk_normalizedKey l = k" by (auto dest: find_Some_set)
    then obtain r where "r \<in> set rs" "l = make_lock w t run now r" "rs_normalizedKey r = k"
      unfolding ls by (auto simp: make_lock_def)
    with Some req p show ?thesis by (auto simp: mget_put_locks)
  qed
qed

lemma mget_lock_step_other:
  assumes "locks_ok locks" "held_by r k locks" "\<And>now. oper \<noteq> Release r now" "\<And>w t v now. oper \<noteq> Acquire w t r v now"
  shows "mget (lock_step lc oper locks) k = mget locks k"
proof (cases oper)
  case (Acquire w t run v now)
  show ?thesis
  proof (cases "acquireAll lc w t run v now locks")
    case (Inr x)
    obtain locks' ls where x: "x = (locks', ls)" by fastforce
    from Inr obtain vs where v: "v = JArr vs" by (auto simp: acquireAll_def split: if_splits)
    have "\<not> held_by run k locks'" using acquireAll_held[OF Inr[unfolded v x], of r k] assms(2,4) held_by_unique[of r k locks' run]
      by (auto simp: Acquire)
    with mget_acquireAll[OF Inr[unfolded v x], of k] have "mget locks' k = mget locks k"
      by (auto simp: held_by_def make_lock_def)
    then show ?thesis by (simp add: Acquire lock_step_def Inr x)
  qed (simp add: Acquire lock_step_def)
next
  case (Release run now)
  with assms(3)[of now] have "run \<noteq> r" by auto
  with assms(1,2) show ?thesis by (auto simp: Release lock_step_def mget_releaseAll held_by_def)
qed

lemma mget_lock_run_other:
  "locks_ok locks \<Longrightarrow> held_by r k locks \<Longrightarrow> \<forall>oper \<in> set ops. (\<forall>now. oper \<noteq> Release r now) \<and> (\<forall>w t v now. oper \<noteq> Acquire w t r v now) \<Longrightarrow>
     mget (lock_run lc ops locks) k = mget locks k"
proof (induction ops arbitrary: locks)
  case (Cons oper ops)
  have "locks_ok (lock_step lc oper locks)"
    using Cons.prems(1) lock_step_Acquire[of locks lc] lock_step_Release[of locks lc] by (cases oper) auto
  moreover have m: "mget (lock_step lc oper locks) k = mget locks k"
    using mget_lock_step_other[OF Cons.prems(1,2)] Cons.prems(3) by simp
  moreover have "held_by r k (lock_step lc oper locks)" using Cons.prems(2) m by (simp add: held_by_def)
  ultimately show ?case using Cons.IH[of "lock_step lc oper locks"] Cons.prems(3) by (simp add: lock_run_def)
qed (simp add: lock_run_def)

text \<open>
  C7: A run that acquires resources writes a fresh lock of its own under the key of each
  resource it asks for, where no other run held one, and leaves the lock table as it was under
  every other key, its own earlier locks included.  Whatever is acquired or released afterwards,
  as long as the run itself releases nothing it keeps holding them and nobody else does; while it
  does not acquire either, the very lock stays.  A release takes away exactly the locks of the
  run, returns them stamped, and leaves every other lock as it was.
\<close>

theorem locks_exclusive_until_released:
  assumes "locks_ok locks" "acquireAll lc w t run (JArr vs) now locks = Inr (locks', ls)"
    and "\<forall>at. Release run at \<notin> set ops"
  shows "(\<forall>k. (\<exists>v \<in> set vs. \<exists>r. normalizeResource v = Inr r \<and> rs_normalizedKey r = k \<and>
             mget locks' k = Some (make_lock w t run now r) \<and>
             (\<forall>l. mget locks k = Some l \<longrightarrow> lk_executionRunId l = run) \<and>
             held_by run k (lock_run lc ops locks') \<and>
             (\<forall>r'. held_by r' k (lock_run lc ops locks') \<longrightarrow> r' = run) \<and>
             ((\<forall>w t v now. Acquire w t run v now \<notin> set ops) \<longrightarrow>
                mget (lock_run lc ops locks') k = Some (make_lock w t run now r))) \<or>
          (\<forall>v \<in> set vs. \<forall>r. normalizeResource v = Inr r \<longrightarrow> rs_normalizedKey r \<noteq> k) \<and> mget locks' k = mget locks k) \<and>
     (\<forall>at k. mget (fst (releaseAll run at (lock_run lc ops locks'))) k =
        (if held_by run k (lock_run lc ops locks') then None else mget (lock_run lc ops locks') k)) \<and>
     (\<forall>at l. l \<in> set (snd (releaseAll run at (lock_run lc ops locks'))) \<longleftrightarrow>
        (\<exists>k l0. mget (lock_run lc ops locks') k = Some l0 \<and> lk_executionRunId l0 = run \<and> l = l0\<lparr>lk_releasedAt := Some at\<rparr>))"
proof (intro conjI allI)
  obtain rs where rs: "mapE normalizeResource vs = Inr rs" and p: "locks' = put_locks ls locks"
    and free: "\<forall>r \<in> set rs. \<forall>l. mget locks (rs_normalizedKey r) = Some l \<longrightarrow> lk_executionRunId l = run"
    by (rule acquireAll_Inr[OF assms(2)]) blast
  have ok: "locks_ok locks'" using p assms(1) by (simp add: put_locks_ok)
  have free': "lk_executionRunId l = run"
    if "v \<in> set vs" "normalizeResource v = Inr r" "mget locks (rs_normalizedKey r) = Some l" for v r l
  proof -
    from rs that(1,2) have "r \<in> set rs" by (auto simp: list_all2_conv_all_nth set_conv_nth)
    with free that(3) show ?thesis by blast
  qed
  have kept: "held_by run k (lock_run lc ops locks') \<and> (\<forall>r'. held_by r' k (lock_run lc ops locks') \<longrightarrow> r' = run) \<and>
      ((\<forall>w t v now. Acquire w t run v now \<notin> set ops) \<longrightarrow> mget (lock_run lc ops locks') k = Some (make_lock w t run now r))"
    if m: "mget locks' k = Some (make_lock w t run now r)" for k r
  proof -
    have h: "held_by run k locks'" using m by (simp add: held_by_def make_lock_def)
    note k = lock_run_keeps[OF ok assms(3) h]
    moreover have "mget (lock_run lc ops locks') k = mget locks' k" if "\<forall>w t v now. Acquire w t run v now \<notin> set ops"
      by (rule mget_lock_run_other[OF ok h]) (use that assms(3) in blast)
    ultimately show ?thesis using m by (auto dest: held_by_unique)
  qed
  show "(\<exists>v \<in> set vs. \<exists>r. normalizeResource v = Inr r \<and> rs_normalizedKey r = k \<and>
             mget locks' k = Some (make_lock w t run now r) \<and>
             (\<forall>l. mget locks k = Some l \<longrightarrow> lk_executionRunId l = run) \<and>
             held_by run k (lock_run lc ops locks') \<and>
             (\<forall>r'. held_by r' k (lock_run lc ops locks') \<longrightarrow> r' = run) \<and>
             ((\<forall>w t v now. Acquire w t run v now \<notin> set ops) \<longrightarrow>
                mget (lock_run lc ops locks') k = Some (make_lock w t run now r))) \<or>
          (\<forall>v \<in> set vs. \<forall>r. normalizeResource v = Inr r \<longrightarrow> rs_normalizedKey r \<noteq> k) \<and> mget locks' k = mget locks k" for k
    using mget_acquireAll[OF assms(2), of k]
  proof (elim disjE bexE exE conjE)
    fix v r assume a: "v \<in> set vs" "normalizeResource v = Inr r" "rs_normalizedKey r = k" "mget locks' k = Some (make_lock w t run now r)"
    with free' kept[OF a(4)] show ?thesis by blast
  qed simp
  have ok': "locks_ok (lock_run lc ops locks')" by (rule lock_run_ok[OF ok])
  show "mget (fst (releaseAll run at (lock_run lc ops locks'))) k =
        (if held_by run k (lock_run lc ops locks') then None else mget (lock_run lc ops locks') k)" for at k
    using mget_releaseAll[OF ok', of run at k] by (auto simp: held_by_def split: option.split)
  show "l \<in> set (snd (releaseAll run at (lock_run lc ops locks'))) \<longleftrightarrow>
        (\<exists>k l0. mget (lock_run lc ops locks') k = Some l0 \<and> lk_executionRunId l0 = run \<and> l = l0\<lparr>lk_releasedAt := Some at\<rparr>)" for at l
    using ok' by (auto simp: releaseAll_def locks_ok_def mget_def image_iff)
qed

theorem locks_exclusive_until_released_witness:
  "\<exists>locks'. mget (lock_run (\<lambda>a b. a \<le> b)
       [Acquire ''w'' ''t2'' ''run-2'' (JArr [JObj [(''type'', JStr ''profile''), (''key'', JStr ''p1'')]]) ''at''] locks') ''profile:p1''
     = Some (make_lock ''w'' ''t'' ''run-1'' ''at'' \<lparr>rs_type = ''profile'', rs_key = ''p1'', rs_normalizedKey = ''profile:p1''\<rparr>)"
proof -
  let ?v = "JObj [(''type'', JStr ''profile''), (''key'', JStr ''p1'')]"
  let ?r = "\<lparr>rs_type = ''profile'', rs_key = ''p1'', rs_normalizedKey = ''profile:p1''\<rparr>"
  have "isl (acquireAll (\<lambda>a b. a \<le> b) ''w'' ''t'' ''run-1'' (JArr [?v]) ''at'' []) = False" by code_simp
  then obtain locks' ls where a: "acquireAll (\<lambda>a b. a \<le> b) ''w'' ''t'' ''run-1'' (JArr [?v]) ''at'' [] = Inr (locks', ls)"
    by (cases "acquireAll (\<lambda>a b. a \<le> b) ''w'' ''t'' ''run-1'' (JArr [?v]) ''at'' []") auto
  have n: "normalizeResource ?v = Inr ?r" by code_simp
  have "locks_ok []" by (simp add: locks_ok_def)
  from locks_exclusive_until_released[OF this a, of "[Acquire ''w'' ''t2'' ''run-2'' (JArr [?v]) ''at'']",
      THEN conjunct1, THEN spec, of "''profile:p1''"]
  have "mget (lock_run (\<lambda>a b. a \<le> b) [Acquire ''w'' ''t2'' ''run-2'' (JArr [?v]) ''at''] locks') ''profile:p1''
     = Some (make_lock ''w'' ''t'' ''run-1'' ''at'' ?r)"
    using n by auto
  then show ?thesis by blast
qed

text \<open>
  The key of a lock does not separate type and key: two different resources can have the
  same normalised key and then exclude each other; with types that contain no colon the key
  determines the resource.
\<close>

lemma lock_key_collision:
  "(\<exists>r1 r2. normalizeResource (JObj [(''type'', JStr ''a:b''), (''key'', JStr ''c'')]) = Inr r1 \<and>
      normalizeResource (JObj [(''type'', JStr ''a''), (''key'', JStr ''b:c'')]) = Inr r2 \<and>
      r1 \<noteq> r2 \<and> rs_normalizedKey r1 = rs_normalizedKey r2)"
proof -
  let ?n = "\<lambda>t k. normalizeResource (JObj [(''type'', JStr t), (''key'', JStr k)])"
  have "?n ''a:b'' ''c'' = Inr \<lparr>rs_type = ''a:b'', rs_key = ''c'', rs_normalizedKey = ''a:b:c''\<rparr>"
    "?n ''a'' ''b:c'' = Inr \<lparr>rs_type = ''a'', rs_key = ''b:c'', rs_normalizedKey = ''a:b:c''\<rparr>"
    by code_simp+
  then show ?thesis by auto
qed

lemma lock_key_inject: "normalizeResource v1 = Inr r1 \<Longrightarrow> normalizeResource v2 = Inr r2 \<Longrightarrow>
    CHR '':'' \<notin> set (rs_type r1) \<Longrightarrow> CHR '':'' \<notin> set (rs_type r2) \<Longrightarrow>
    rs_normalizedKey r1 = rs_normalizedKey r2 \<longleftrightarrow> rs_type r1 = rs_type r2 \<and> rs_key r1 = rs_key r2"
  by (auto dest!: normalizeResource_Inr simp: colon_key_inject)

end
