(* ===== verification/Gates.thy ===== *)
theory Gates
  imports TaskGraph Json
begin

text \<open>
  Human Gates (\<open>src/main/human-gate/human-gate-service.cjs\<close>): a request is idempotent for
  the same content and refused for another, and a gate is decided at most once.  The
  repository is the map of \<open>src/application/projection-repository.cjs\<close> from ids to gates;
  its revision counter is modelled with the event store.
\<close>

record gate =
  hg_id :: string
  hg_workspaceId :: string
  hg_taskId :: string
  hg_executionRunId :: string
  hg_actionClass :: string
  hg_workerId :: string
  hg_capabilityAction :: string
  hg_target :: string
  hg_payloadPreview :: js
  hg_evidenceExpected :: js
  hg_state :: string
  hg_requestedAt :: string
  hg_decidedAt :: "string option"

type_synonym gates = "(string, gate) jsmap"

definition gate_get :: "js \<Rightarrow> gates \<Rightarrow> gate option" where
  "gate_get i gs = (case i of JStr s \<Rightarrow> mget gs s | _ \<Rightarrow> None)"

definition gate_save :: "gate \<Rightarrow> gates \<Rightarrow> gates" where
  "gate_save g gs = mset_at (hg_id g) g gs"

interpretation gates: keyed_store "\<lambda>k gs. mget gs k" gate_save hg_id
  by unfold_locales (simp add: gate_save_def)

definition same_gate_request :: "gate \<Rightarrow> js \<Rightarrow> bool" where
  "same_gate_request existing input \<longleftrightarrow>
     hg_workspaceId existing = to_string (field input ''workspaceId'') \<and>
     hg_taskId existing = to_string (field input ''taskId'') \<and>
     hg_executionRunId existing = to_string (field input ''executionRunId'') \<and>
     hg_actionClass existing = to_string (field input ''actionClass'') \<and>
     hg_workerId existing = to_string (field input ''workerId'') \<and>
     hg_capabilityAction existing = to_string (field input ''capabilityAction'') \<and>
     hg_target existing = to_string (field input ''target'') \<and>
     json (hg_payloadPreview existing) = json (or_js (field input ''payloadPreview'') (JObj [])) \<and>
     json (hg_evidenceExpected existing) = json (or_js (field input ''evidenceExpected'') (JArr []))"

definition gate_request :: "string \<Rightarrow> js \<Rightarrow> gates \<Rightarrow> (gates \<times> bool \<times> gate) res" where
  "gate_request now input gs = (case gate_get (field input ''id'') gs of
      Some existing \<Rightarrow>
        if \<not> same_gate_request existing input
        then Inl (Error (''Human Gate idempotency collision: '' @ to_string (field input ''id'')))
        else Inr (gs, False, existing)
    | None \<Rightarrow>
        let gate = \<lparr>hg_id = to_string (field input ''id''), hg_workspaceId = to_string (field input ''workspaceId''),
              hg_taskId = to_string (field input ''taskId''), hg_executionRunId = to_string (field input ''executionRunId''),
              hg_actionClass = to_string (field input ''actionClass''), hg_workerId = to_string (field input ''workerId''),
              hg_capabilityAction = to_string (field input ''capabilityAction''), hg_target = to_string (field input ''target''),
              hg_payloadPreview = or_js (field input ''payloadPreview'') (JObj []),
              hg_evidenceExpected = or_js (field input ''evidenceExpected'') (JArr []),
              hg_state = ''requested'', hg_requestedAt = now, hg_decidedAt = None\<rparr>
        in if hg_id gate = [] then Inl (TypeError ''humanGate record id is required'')
           else Inr (gate_save gate gs, True, gate))"

text \<open>The part of \<open>decide\<close> after the gate has been read.\<close>

definition decide_current :: "string \<Rightarrow> gate \<Rightarrow> string \<Rightarrow> (bool \<times> gate) res" where
  "decide_current now current decision =
    (if decision \<notin> {''approved'', ''rejected'', ''expired''} then Inl (Error ''Unsupported Human Gate decision'')
     else if hg_state current = decision then Inr (False, current)
     else if hg_state current \<noteq> ''requested'' then Inl (Error (''Human Gate already decided: '' @ hg_state current))
     else Inr (True, current\<lparr>hg_state := decision, hg_decidedAt := Some now\<rparr>))"

definition gate_decide :: "string \<Rightarrow> string \<Rightarrow> string \<Rightarrow> gates \<Rightarrow> (gates \<times> bool \<times> gate) res" where
  "gate_decide now i decision gs =
    (if decision \<notin> {''approved'', ''rejected'', ''expired''} then Inl (Error ''Unsupported Human Gate decision'')
     else case mget gs i of None \<Rightarrow> Inl (Error (''Unknown Human Gate: '' @ i))
     | Some current \<Rightarrow> bindE (decide_current now current decision) (\<lambda>(changed, gate).
         Inr (if changed then gate_save gate gs else gs, changed, gate)))"

definition gate_succs :: "string \<Rightarrow> string list" where
  "gate_succs s = (if s = ''requested'' then [''approved'', ''rejected'', ''expired''] else [])"

definition gate_move :: "string \<Rightarrow> gate \<Rightarrow> string \<Rightarrow> gate res" where
  "gate_move now g s = bindE (decide_current now g s) (\<lambda>(_, g'). Inr g')"

lemma gate_move_Inr: "gate_move now g s = Inr g' \<longleftrightarrow> s \<in> set (gate_succs ''requested'') \<and>
    (hg_state g = s \<and> g' = g \<or>
     hg_state g \<noteq> s \<and> hg_state g = ''requested'' \<and> g' = g\<lparr>hg_state := s, hg_decidedAt := Some now\<rparr>)"
proof -
  have "s \<in> {''approved'', ''rejected'', ''expired''} \<longleftrightarrow> s \<in> set (gate_succs ''requested'')"
    by (simp add: gate_succs_def)
  then show ?thesis by (cases "hg_state g = s"; cases "hg_state g = ''requested''")
      (simp_all add: gate_move_def decide_current_def eq_commute[of g'])
qed

interpretation gate: state_machine hg_state gate_succs gate_move
  by unfold_locales (auto simp: gate_move_Inr gate_succs_def)

text \<open>The decision as the code writes it, over the whole repository.\<close>

lemma gate_decide_Inr: "gate_decide now i s gs = Inr (gs', ch, g') \<longleftrightarrow>
    (\<exists>g. mget gs i = Some g \<and> gate_move now g s = Inr g' \<and> ch = (hg_state g \<noteq> s) \<and>
       gs' = (if ch then gate_save g' gs else gs))"
proof -
  have "decide_current now g s = Inr (c, h) \<longleftrightarrow> gate_move now g s = Inr h \<and> c = (hg_state g \<noteq> s)" for g c h
    by (cases "hg_state g = s"; cases "hg_state g = ''requested''") (auto simp: gate_move_def decide_current_def)
  moreover have "gate_move now g s = Inr h \<Longrightarrow> s \<in> {''approved'', ''rejected'', ''expired''}" for g h
    by (simp add: gate_move_Inr gate_succs_def)
  ultimately show ?thesis
    by (cases "mget gs i") (auto simp: gate_decide_def split: prod.splits)
qed

definition gates_ok :: "gates \<Rightarrow> bool" where
  "gates_ok gs \<longleftrightarrow> (\<forall>k g. mget gs k = Some g \<longrightarrow> hg_id g = k)"

subsection \<open>Requests and decisions in sequence\<close>

datatype gate_op = RequestGate js | DecideGate string string

definition gate_step :: "string \<Rightarrow> gate_op \<Rightarrow> gates \<Rightarrow> gates" where
  "gate_step now oper gs = (case oper of
      RequestGate input \<Rightarrow> (case gate_request now input gs of Inr (gs', _) \<Rightarrow> gs' | Inl _ \<Rightarrow> gs)
    | DecideGate i d \<Rightarrow> (case gate_decide now i d gs of Inr (gs', _) \<Rightarrow> gs' | Inl _ \<Rightarrow> gs))"

definition gate_run :: "(string \<times> gate_op) list \<Rightarrow> gates \<Rightarrow> gates" where
  "gate_run ops gs = fold (\<lambda>(now, oper). gate_step now oper) ops gs"

lemma gate_request_Inr:
  assumes "gate_request now input gs = Inr (gs', created, g)"
  shows "\<not> created \<and> gs' = gs \<and> same_gate_request g input \<and> gate_get (field input ''id'') gs = Some g \<or>
     created \<and> gs' = gate_save g gs \<and> gate_get (field input ''id'') gs = None \<and> hg_state g = ''requested'' \<and>
     hg_id g = to_string (field input ''id'') \<and> hg_executionRunId g = to_string (field input ''executionRunId'')"
  using assms by (auto simp: gate_request_def Let_def split: option.splits if_splits)

lemma gate_move_fields: "gate_move now g s = Inr g' \<Longrightarrow> hg_id g' = hg_id g \<and> hg_state g' = s \<and>
    hg_executionRunId g' = hg_executionRunId g \<and> s \<noteq> ''requested''"
proof -
  have ne: "x \<noteq> ''requested''" if "x \<in> set (gate_succs ''requested'')" for x
    using that by (auto simp: gate_succs_def)
  assume "gate_move now g s = Inr g'"
  with ne show ?thesis unfolding gate_move_Inr by (elim conjE disjE) simp_all
qed

lemma gate_move_decided: "gate_move now g s = Inr g' \<Longrightarrow> hg_state g \<noteq> ''requested'' \<Longrightarrow> g' = g"
  by (rule gate.terminal_move[of g]) (simp_all add: gate_succs_def)

lemma gates_ok_save: "gates_ok gs \<Longrightarrow> gates_ok (gate_save g gs)"
  unfolding gates_ok_def by (rule gates.store_keyed)

lemma gate_decide_shape:
  assumes "gate_decide now i s gs = Inr (gs', ch, g')"
  shows "gs' = gs \<or> gs' = gate_save g' gs"
  using assms unfolding gate_decide_Inr by metis

lemma gate_step_ok:
  assumes "gates_ok gs"
  shows "gates_ok (gate_step now oper gs)"
proof -
  have "gate_step now oper gs = gs \<or> (\<exists>g. gate_step now oper gs = gate_save g gs)"
  proof (cases oper)
    case (RequestGate input)
    show ?thesis
    proof (cases "gate_request now input gs")
      case (Inr x)
      obtain gs' cr h where "x = (gs', cr, h)" by (cases x)
      with gate_request_Inr[of now input gs gs' cr h] Inr RequestGate show ?thesis by (auto simp: gate_step_def)
    qed (simp add: gate_step_def RequestGate)
  next
    case (DecideGate i d)
    show ?thesis
    proof (cases "gate_decide now i d gs")
      case (Inr x)
      obtain gs' cr h where "x = (gs', cr, h)" by (cases x)
      with gate_decide_shape[of now i d gs gs' cr h] Inr DecideGate show ?thesis by (auto simp: gate_step_def)
    qed (simp add: gate_step_def DecideGate)
  qed
  with assms show ?thesis by (auto simp: gates_ok_save)
qed

definition string_id :: "gate_op \<Rightarrow> bool" where
  "string_id oper = (case oper of RequestGate input \<Rightarrow> (case field input ''id'' of JStr _ \<Rightarrow> True | _ \<Rightarrow> False)
     | DecideGate _ _ \<Rightarrow> True)"

lemma gate_step_decided:
  assumes "gates_ok gs" "mget gs k = Some g" "hg_state g \<noteq> ''requested''" "string_id oper"
  shows "mget (gate_step now oper gs) k = Some g"
proof (cases oper)
  case (RequestGate input)
  with assms(4) obtain s where s: "field input ''id'' = JStr s" by (auto simp: string_id_def split: js.splits)
  show ?thesis
  proof (cases "gate_request now input gs")
    case (Inr x)
    obtain gs' cr h where x: "x = (gs', cr, h)" by (cases x)
    from gate_request_Inr[OF Inr[unfolded x]] s
    have "gs' = gs \<or> (gs' = gate_save h gs \<and> hg_id h = s \<and> mget gs s = None)" by (auto simp: gate_get_def)
    with assms(2) Inr x RequestGate show ?thesis by (auto simp: gate_step_def gate_save_def)
  qed (simp add: gate_step_def RequestGate assms(2))
next
  case (DecideGate i d)
  show ?thesis
  proof (cases "gate_decide now i d gs")
    case (Inr x)
    obtain gs' ch h where x: "x = (gs', ch, h)" by (cases x)
    from Inr[unfolded x gate_decide_Inr] obtain g0 where g0: "mget gs i = Some g0" "gate_move now g0 d = Inr h"
      "ch = (hg_state g0 \<noteq> d)" "gs' = (if ch then gate_save h gs else gs)" by blast
    note f = gate_move_fields[OF g0(2)]
    have id: "hg_id g0 = i" using assms(1) g0(1) by (simp add: gates_ok_def)
    have "mget gs' k = Some g"
    proof (cases "k = i")
      case True
      with g0(1) assms(2) have "g0 = g" by simp
      with gate_move_decided[OF g0(2)] assms(3) have "h = g" by simp
      with g0(4) f assms(2) True id show ?thesis by (simp add: gate_save_def)
    next
      case False
      with g0(4) f id assms(2) show ?thesis by (simp add: gate_save_def)
    qed
    then show ?thesis by (simp add: gate_step_def DecideGate Inr x)
  qed (simp add: gate_step_def DecideGate assms(2))
qed

lemma gate_run_decided:
  "gates_ok gs \<Longrightarrow> mget gs k = Some g \<Longrightarrow> hg_state g \<noteq> ''requested'' \<Longrightarrow> \<forall>(now, oper) \<in> set ops. string_id oper \<Longrightarrow>
     mget (gate_run ops gs) k = Some g"
proof (induction ops arbitrary: gs)
  case (Cons nop ops)
  obtain now oper where nop: "nop = (now, oper)" by fastforce
  with Cons.prems have "mget (gate_step now oper gs) k = Some g" "gates_ok (gate_step now oper gs)"
    by (auto intro: gate_step_decided gate_step_ok)
  with Cons nop show ?case by (simp add: gate_run_def)
qed (simp add: gate_run_def)

text \<open>
  A Human Gate that was approved, rejected or expired keeps that decision, its content and
  its time, whatever requests and decisions follow, as long as requests name gates by strings.
\<close>

theorem gate_decision_is_final:
  assumes "gates_ok gs" "gate_decide now k d gs = Inr (gs', ch, g)"
    and "\<forall>(now, oper) \<in> set ops. string_id oper"
  shows "mget (gate_run ops gs') k = Some g \<and> hg_state g = d"
proof -
  from assms(2) obtain g0 where g0: "mget gs k = Some g0" "gate_move now g0 d = Inr g" "ch = (hg_state g0 \<noteq> d)"
    "gs' = (if ch then gate_save g gs else gs)" unfolding gate_decide_Inr by blast
  note f = gate_move_fields[OF g0(2)]
  have id: "hg_id g0 = k" using assms(1) g0(1) by (simp add: gates_ok_def)
  have "mget gs' k = Some g"
  proof (cases ch)
    case True
    with g0(4) f id show ?thesis by (simp add: gate_save_def)
  next
    case False
    with g0(3) have "hg_state g0 \<noteq> ''requested''" using f by simp
    with gate_move_decided[OF g0(2)] g0(1,4) False show ?thesis by simp
  qed
  moreover have "gates_ok gs'" using g0(4) assms(1) by (simp add: gates_ok_save)
  ultimately show ?thesis using gate_run_decided[OF _ _ _ assms(3)] f by simp
qed

definition sample_gate :: gate where
  "sample_gate = \<lparr>hg_id = ''g1'', hg_workspaceId = ''w'', hg_taskId = ''t'', hg_executionRunId = ''r'',
     hg_actionClass = ''EXTERNAL_WRITE'', hg_workerId = ''wk'', hg_capabilityAction = ''a'', hg_target = ''tg'',
     hg_payloadPreview = JObj [], hg_evidenceExpected = JArr [], hg_state = ''requested'', hg_requestedAt = ''t0'',
     hg_decidedAt = None\<rparr>"

theorem gate_decision_is_final_witness:
  "\<exists>gs'. mget (gate_run [(''t2'', DecideGate ''g1'' ''rejected'')] gs') ''g1'' =
     Some (sample_gate\<lparr>hg_state := ''approved'', hg_decidedAt := Some ''t1''\<rparr>)"
proof -
  have ok: "gates_ok [(''g1'', sample_gate)]" by (simp add: gates_ok_def mget_def sample_gate_def)
  have d: "gate_decide ''t1'' ''g1'' ''approved'' [(''g1'', sample_gate)] =
      Inr ([(''g1'', sample_gate\<lparr>hg_state := ''approved'', hg_decidedAt := Some ''t1''\<rparr>)], True,
        sample_gate\<lparr>hg_state := ''approved'', hg_decidedAt := Some ''t1''\<rparr>)"
    by code_simp
  from gate_decision_is_final[OF ok d, of "[(''t2'', DecideGate ''g1'' ''rejected'')]"]
  show ?thesis by (auto simp: string_id_def)
qed

text \<open>
  A request whose id is a number misses the stored gate, which is kept under the text of the
  number, and replaces it: the decision is lost.
\<close>

lemma numeric_gate_id_resets_decision:
  "\<exists>gs' g. gate_request ''t2'' (JObj [(''id'', JNum 1)])
       [(''1'', sample_gate\<lparr>hg_id := ''1'', hg_state := ''approved''\<rparr>)] = Inr (gs', True, g) \<and>
     mget gs' ''1'' = Some g \<and> hg_state g = ''requested''"
proof -
  have "case gate_request ''t2'' (JObj [(''id'', JNum 1)])
       [(''1'', sample_gate\<lparr>hg_id := ''1'', hg_state := ''approved''\<rparr>)] of
     Inr (gs', c, g) \<Rightarrow> c \<and> mget gs' ''1'' = Some g \<and> hg_state g = ''requested'' | Inl _ \<Rightarrow> False"
    by code_simp
  then show ?thesis by (auto split: sum.splits)
qed

end
