(* ===== verification/Readiness.thy ===== *)
theory Readiness
  imports Capabilities Locks Missions
begin

text \<open>
  The readiness of an execution (\<open>src/main/scheduler/readiness-evaluator.cjs\<close>): the blockers
  that keep a task from running.  Missing records are \<open>None\<close>; \<open>nowMs\<close> is the time of the
  evaluation.
\<close>

record readiness_input =
  ri_workspace :: "workspace option"
  ri_agent :: "agent option"
  ri_installation :: "installation option"
  ri_grant :: "grant option"
  ri_task :: "task_node option"
  ri_providerSnapshot :: "provider_snapshot option"
  ri_currentProviderDigest :: "string option"
  ri_nowMs :: int
  ri_dependenciesReady :: js
  ri_resourceConflicts :: "resource list"
  ri_recoveryRequired :: js
  ri_humanGatePolicy :: js

definition BLOCKER_CODES :: "string list" where
  "BLOCKER_CODES = [''workspace_inactive'', ''agent_inactive'', ''installation_missing_or_disabled'',
    ''grant_missing_or_revoked'', ''action_or_target_not_granted'', ''provider_contract_unknown'',
    ''provider_contract_changed_or_expired'', ''dependency_unsatisfied'', ''resource_conflict'',
    ''human_gate_required'', ''recovery_requires_review'']"

definition readiness_blocker :: "string \<Rightarrow> js \<Rightarrow> blocker res" where
  "readiness_blocker code detail = (if code \<notin> set BLOCKER_CODES
     then Inl (Error (''Unknown blocker code: '' @ code)) else Inr (Blocker code detail))"

definition ws_key :: "workspace option \<Rightarrow> string option" where
  "ws_key w = map_option ws_id w"

definition workspace_blocked :: "readiness_input \<Rightarrow> bool" where
  "workspace_blocked input \<longleftrightarrow> (case ri_workspace input of None \<Rightarrow> True | Some w \<Rightarrow> ws_status w \<noteq> ''active'')"

definition agent_blocked :: "readiness_input \<Rightarrow> bool" where
  "agent_blocked input \<longleftrightarrow> (case ri_agent input of None \<Rightarrow> True
     | Some a \<Rightarrow> ag_status a \<noteq> ''active'' \<or> Some (ag_workspaceId a) \<noteq> ws_key (ri_workspace input))"

definition installation_blocked :: "readiness_input \<Rightarrow> bool" where
  "installation_blocked input \<longleftrightarrow> (case ri_installation input of None \<Rightarrow> True
     | Some i \<Rightarrow> in_status i \<noteq> ''installed'' \<or> Some (in_workspaceId i) \<noteq> ws_key (ri_workspace input))"

definition grant_blocked :: "readiness_input \<Rightarrow> bool" where
  "grant_blocked input \<longleftrightarrow> (case ri_grant input of None \<Rightarrow> True
     | Some g \<Rightarrow> gr_status g \<noteq> ''active'' \<or> Some (gr_workspaceId g) \<noteq> ws_key (ri_workspace input)
         \<or> Some (gr_agentId g) \<noteq> map_option ag_id (ri_agent input)
         \<or> Some (gr_installationId g) \<noteq> map_option in_id (ri_installation input))"

definition action_blocked :: "readiness_input \<Rightarrow> bool" where
  "action_blocked input \<longleftrightarrow> (case (ri_task input, ri_grant input) of
      (Some t, Some g) \<Rightarrow> tn_capabilityAction t \<notin> set (gr_allowedActions g) \<or> tn_target t \<notin> set (gr_allowedTargets g)
    | _ \<Rightarrow> True)"

definition provider_codes :: "(string \<Rightarrow> int option) \<Rightarrow> readiness_input \<Rightarrow> string list" where
  "provider_codes legacy input = (case ri_providerSnapshot input of
      None \<Rightarrow> [''provider_contract_unknown'']
    | Some s \<Rightarrow> if ps_status s \<noteq> ''accepted'' then [''provider_contract_unknown'']
        else let changed = (case ri_currentProviderDigest input of None \<Rightarrow> False
                 | Some d \<Rightarrow> d \<noteq> [] \<and> d \<noteq> ps_snapshotDigest s)
          in if changed \<or> snapshot_expired legacy (ps_expiresAt s) (ri_nowMs input)
             then [''provider_contract_changed_or_expired''] else [])"

record readiness =
  rd_ready :: bool
  rd_blockers :: "blocker list"
  rd_requiresHumanGate :: bool

text \<open>The pushes of \<open>evaluateExecutionReadiness\<close>, in order.\<close>

definition readiness_pushes :: "(string \<Rightarrow> int option) \<Rightarrow> readiness_input \<Rightarrow> (string \<times> js) list" where
  "readiness_pushes legacy input =
    (if workspace_blocked input then [(''workspace_inactive'', JNull)] else []) @
    (if agent_blocked input then [(''agent_inactive'', JNull)] else []) @
    (if installation_blocked input then [(''installation_missing_or_disabled'', JNull)] else []) @
    (if grant_blocked input then [(''grant_missing_or_revoked'', JNull)]
     else if action_blocked input then [(''action_or_target_not_granted'', JNull)] else []) @
    map (\<lambda>c. (c, JNull)) (provider_codes legacy input) @
    (if ri_dependenciesReady input = JBool False then [(''dependency_unsatisfied'', JNull)] else []) @
    (if ri_resourceConflicts input \<noteq> []
     then [(''resource_conflict'', JArr (map resource_js (ri_resourceConflicts input)))] else []) @
    (if ri_recoveryRequired input = JBool True then [(''recovery_requires_review'', JNull)] else [])"

definition evaluateExecutionReadiness :: "(string \<Rightarrow> int option) \<Rightarrow> readiness_input \<Rightarrow> readiness res" where
  "evaluateExecutionReadiness legacy input =
    bindE (mapE (\<lambda>(c, d). readiness_blocker c d) (readiness_pushes legacy input)) (\<lambda>blockers.
      Inr \<lparr>rd_ready = (blockers = []), rd_blockers = blockers,
           rd_requiresHumanGate = (ri_humanGatePolicy input \<noteq> JStr ''never'')\<rparr>)"

subsection \<open>What ready means\<close>

lemma provider_codes_known: "c \<in> set (provider_codes legacy input) \<Longrightarrow> c \<in> set BLOCKER_CODES"
  by (simp add: BLOCKER_CODES_def provider_codes_def Let_def split: if_split_asm option.split_asm)

lemma readiness_codes: "(c, d) \<in> set (readiness_pushes legacy input) \<Longrightarrow> c \<in> set BLOCKER_CODES"
proof -
  have p: "(c, d) \<in> set (map (\<lambda>c. (c, JNull)) (provider_codes legacy input)) \<Longrightarrow> c \<in> set BLOCKER_CODES"
    using provider_codes_known by auto
  assume "(c, d) \<in> set (readiness_pushes legacy input)"
  then show ?thesis
    unfolding readiness_pushes_def set_append Un_iff
  proof (elim disjE)
    assume "(c, d) \<in> set (map (\<lambda>c. (c, JNull)) (provider_codes legacy input))"
    then show ?thesis by (rule p)
  qed (simp_all add: BLOCKER_CODES_def split: if_split_asm)
qed

lemma readiness_Inr: "evaluateExecutionReadiness legacy input = Inr
    \<lparr>rd_ready = (readiness_pushes legacy input = []),
     rd_blockers = map (\<lambda>(c, d). Blocker c d) (readiness_pushes legacy input),
     rd_requiresHumanGate = (ri_humanGatePolicy input \<noteq> JStr ''never'')\<rparr>"
proof -
  have "mapE (\<lambda>(c, d). readiness_blocker c d) ps = Inr (map (\<lambda>(c, d). Blocker c d) ps)"
    if "\<forall>(c, d) \<in> set ps. c \<in> set BLOCKER_CODES" for ps
    using that by (induction ps) (auto simp: readiness_blocker_def simp del: mapE_eq_Inr)
  from this[of "readiness_pushes legacy input"] readiness_codes show ?thesis
    by (auto simp: evaluateExecutionReadiness_def simp del: mapE_eq_Inr)
qed

lemma ready_iff: "readiness_pushes legacy input = [] \<longleftrightarrow>
    \<not> workspace_blocked input \<and> \<not> agent_blocked input \<and> \<not> installation_blocked input \<and> \<not> grant_blocked input \<and>
    \<not> action_blocked input \<and> provider_codes legacy input = [] \<and> ri_dependenciesReady input \<noteq> JBool False \<and>
    ri_resourceConflicts input = [] \<and> ri_recoveryRequired input \<noteq> JBool True"
  by (simp add: readiness_pushes_def)

lemma provider_codes_empty: "provider_codes legacy input = [] \<longleftrightarrow>
    (\<exists>s. ri_providerSnapshot input = Some s \<and> ps_status s = ''accepted'' \<and>
       ri_currentProviderDigest input \<in> {None, Some [], Some (ps_snapshotDigest s)} \<and>
       \<not> snapshot_expired legacy (ps_expiresAt s) (ri_nowMs input))"
  by (cases "ri_providerSnapshot input"; cases "ri_currentProviderDigest input")
     (auto simp: provider_codes_def Let_def)

text \<open>
  C21: The readiness evaluation always answers, and whenever it answers ready for well-formed
  records, the grant check of the agent model accepts the same action and target: nothing is
  started that the grant does not allow.
\<close>

theorem ready_implies_granted:
  assumes "evaluateExecutionReadiness legacy input = Inr r" "rd_ready r"
    and "ri_workspace input = Some w" "workspace_ok w" "ri_task input = Some t"
    and "SAFE_IDENTIFIER (tn_capabilityAction t)"
    and "requiredText (JStr (tn_target t)) ''capability target'' 500 = Inr (tn_target t)"
  shows "assertGrantAllows (ri_workspace input) (ri_agent input) (ri_installation input) (ri_grant input)
     (JStr (tn_capabilityAction t)) (JStr (tn_target t)) = Inr True"
proof -
  from assms(1,2) have "readiness_pushes legacy input = []" by (auto simp: readiness_Inr)
  then have b: "\<not> workspace_blocked input" "\<not> agent_blocked input" "\<not> installation_blocked input"
    "\<not> grant_blocked input" "\<not> action_blocked input"
    unfolding ready_iff by blast+
  from b(2) obtain a where a: "ri_agent input = Some a" "ag_status a = ''active''" "ag_workspaceId a = ws_id w"
    by (auto simp: agent_blocked_def ws_key_def assms(3) split: option.splits)
  from b(3) obtain i where i: "ri_installation input = Some i" "in_status i = ''installed''" "in_workspaceId i = ws_id w"
    by (auto simp: installation_blocked_def ws_key_def assms(3) split: option.splits)
  from b(4) a i obtain g where g: "ri_grant input = Some g" "gr_status g = ''active''" "gr_workspaceId g = ws_id w"
      "gr_agentId g = ag_id a" "gr_installationId g = in_id i"
    by (auto simp: grant_blocked_def ws_key_def assms(3) split: option.splits)
  from b(1) have "ws_status w = ''active''" by (simp add: workspace_blocked_def assms(3))
  moreover from b(5) g have "tn_capabilityAction t \<in> set (gr_allowedActions g)" "tn_target t \<in> set (gr_allowedTargets g)"
    by (simp_all add: action_blocked_def assms(5))
  ultimately show ?thesis using a i g assms(3,4,6,7) by (simp add: assertGrantAllows_iff del: requiredText_Inr)
qed

text \<open>
  A task is ready exactly when every blocker condition is absent; the blockers are pushed
  in the order of the source and every code is one of the known codes.
\<close>

theorem readiness_exact:
  "\<exists>r. evaluateExecutionReadiness legacy input = Inr r \<and>
     (rd_ready r \<longleftrightarrow> \<not> workspace_blocked input \<and> \<not> agent_blocked input \<and> \<not> installation_blocked input \<and>
        \<not> grant_blocked input \<and> \<not> action_blocked input \<and>
        (\<exists>s. ri_providerSnapshot input = Some s \<and> ps_status s = ''accepted'' \<and>
           ri_currentProviderDigest input \<in> {None, Some [], Some (ps_snapshotDigest s)} \<and>
           \<not> snapshot_expired legacy (ps_expiresAt s) (ri_nowMs input)) \<and>
        ri_dependenciesReady input \<noteq> JBool False \<and> ri_resourceConflicts input = [] \<and>
        ri_recoveryRequired input \<noteq> JBool True) \<and>
     set (map bl_code (rd_blockers r)) \<subseteq> set BLOCKER_CODES"
proof -
  have "set (map bl_code (map (\<lambda>(c, d). Blocker c d) (readiness_pushes legacy input))) \<subseteq> set BLOCKER_CODES"
    using readiness_codes by fastforce
  then show ?thesis unfolding readiness_Inr by (simp add: ready_iff provider_codes_empty del: set_map map_map)
qed

definition sample_ready :: readiness_input where
  "sample_ready =
    \<lparr>ri_workspace = Some \<lparr>ws_id = ''w'', ws_projectId = ''p'', ws_name = ''n'', ws_status = ''active'',
        ws_createdAt = JNull, ws_updatedAt = JNull\<rparr>,
     ri_agent = Some \<lparr>ag_id = ''a'', ag_workspaceId = ''w'', ag_name = ''n'', ag_role = ''r'', ag_status = ''active'',
        ag_createdAt = ''t''\<rparr>,
     ri_installation = Some \<lparr>in_id = ''i'', in_workspaceId = ''w'', in_packageId = ''p'', in_version = ''1.0.0'',
        in_integrityDigest = ''d'', in_status = ''installed'', in_installedAt = ''t''\<rparr>,
     ri_grant = Some \<lparr>gr_id = ''g'', gr_workspaceId = ''w'', gr_agentId = ''a'', gr_installationId = ''i'',
        gr_allowedActions = [''submit''], gr_allowedTargets = [''form''], gr_status = ''active'', gr_grantedAt = ''t''\<rparr>,
     ri_task = Some \<lparr>tn_id = ''t1'', tn_workspaceId = ''w'', tn_graphId = ''gr'', tn_agentId = ''a'',
        tn_installationId = ''i'', tn_capabilityAction = ''submit'', tn_target = ''form'', tn_input = JObj [],
        tn_state = ''queued'', tn_version = 0, tn_lastReason = JNull\<rparr>,
     ri_providerSnapshot = Some \<lparr>ps_contractId = ''c'', ps_providerId = ''p'', ps_surfaceId = ''s'',
        ps_status = ''accepted'', ps_reviewedAt = ''2026-01-01T00:00:00.000Z'', ps_expiresAt = ''2030-01-01T00:00:00.000Z'',
        ps_governingTermsDigest = ''d'', ps_permittedActions = [''submit''], ps_prohibitedActions = [],
        ps_snapshotDigest = ''x''\<rparr>,
     ri_currentProviderDigest = Some ''x'', ri_nowMs = 0, ri_dependenciesReady = JBool True,
     ri_resourceConflicts = [], ri_recoveryRequired = JUndef, ri_humanGatePolicy = JStr ''action''\<rparr>"

theorem ready_implies_granted_witness:
  "assertGrantAllows (ri_workspace sample_ready) (ri_agent sample_ready) (ri_installation sample_ready)
     (ri_grant sample_ready) (JStr ''submit'') (JStr ''form'') = Inr True"
proof -
  have "case evaluateExecutionReadiness (\<lambda>_. None) sample_ready of Inr r \<Rightarrow> rd_ready r | Inl _ \<Rightarrow> False"
    by code_simp
  then obtain r where r: "evaluateExecutionReadiness (\<lambda>_. None) sample_ready = Inr r" "rd_ready r"
    by (auto split: sum.splits)
  have w: "ri_workspace sample_ready = Some (the (ri_workspace sample_ready))"
    "ri_task sample_ready = Some (the (ri_task sample_ready))" by (simp_all add: sample_ready_def)
  have t: "tn_capabilityAction (the (ri_task sample_ready)) = ''submit''" "tn_target (the (ri_task sample_ready)) = ''form''"
    by (simp_all add: sample_ready_def)
  have "workspace_ok (the (ri_workspace sample_ready))" "SAFE_IDENTIFIER ''submit''"
    "requiredText (JStr ''form'') ''capability target'' 500 = Inr ''form''" by code_simp+
  with ready_implies_granted[OF r w(1) _ w(2)] show ?thesis unfolding t by simp
qed

end
