(* ===== verification/Coordinator.thy ===== *)
theory Coordinator
  imports Gates Readiness
begin

text \<open>
  The execution coordinator (\<open>src/main/scheduler/execution-coordinator.cjs\<close>) and its use by
  the application service (\<open>src/application/s1-application-service.cjs\<close>): a request reserves
  resources and asks for a Human Gate, an approval starts the runtime once, a rejection
  releases the resources, a restart restores the locks and parks interrupted runs.
  \<open>approve\<close> is split at its \<open>await\<close>: \<open>approve_begin\<close> ends with the call of the runtime and
  \<open>approve_finish\<close> starts with its outcome, so other operations can run in between.  The
  event writer accepts an event once per idempotency key; failures of the store are not
  modelled.  \<open>co_calls\<close> lists the calls of \<open>runtime.execute\<close>, the external effects.
\<close>

subsection \<open>State\<close>

record exec_run =
  xr_id :: string
  xr_workspaceId :: "string option"
  xr_taskId :: "string option"
  xr_workerId :: js
  xr_capabilityAction :: string
  xr_target :: string
  xr_payload :: js
  xr_providerSnapshot :: "provider_snapshot option"
  xr_currentProviderDigest :: "string option"
  xr_state :: string
  xr_blockers :: "blocker list"
  xr_requestedAt :: string
  xr_startedAt :: "string option"
  xr_completedAt :: "string option"
  xr_execution :: js
  xr_recoveryReason :: "string option"

record cevent =
  ce_type :: string
  ce_key :: string
  ce_runId :: string
  ce_gateId :: "string option"
  ce_locks :: "lock list"
  ce_detail :: js

record coord =
  co_runs :: "(string, exec_run) jsmap"
  co_gates :: gates
  co_locks :: lock_table
  co_events :: "cevent list"
  co_calls :: "string list"

record exec_request =
  er_executionRunId :: string
  er_gateId :: js
  er_ready :: readiness_input
  er_workerId :: js
  er_payload :: js
  er_actionClass :: js
  er_payloadPreview :: js
  er_evidenceExpected :: js
  er_resources :: js

text \<open>\<open>eventWriter.append\<close>: an event whose idempotency key is known is not stored again.\<close>

definition append_event :: "cevent \<Rightarrow> cevent list \<Rightarrow> cevent list" where
  "append_event e log = (if ce_key e \<in> ce_key ` set log then log else log @ [e])"

definition cevent_of :: "string \<Rightarrow> string \<Rightarrow> string \<Rightarrow> string option \<Rightarrow> lock list \<Rightarrow> js \<Rightarrow> cevent" where
  "cevent_of type key runId gateId locks detail =
    \<lparr>ce_type = type, ce_key = key, ce_runId = runId, ce_gateId = gateId, ce_locks = locks, ce_detail = detail\<rparr>"

definition log_event :: "string \<Rightarrow> string \<Rightarrow> string \<Rightarrow> string option \<Rightarrow> lock list \<Rightarrow> js \<Rightarrow> (coord, unit) act" where
  "log_event type key runId gateId locks detail =
    modifyS (\<lambda>c. c\<lparr>co_events := append_event (cevent_of type key runId gateId locks detail) (co_events c)\<rparr>)"

definition run_get :: "coord \<Rightarrow> string \<Rightarrow> exec_run option" where
  "run_get c i = mget (co_runs c) i"

definition save_run :: "exec_run \<Rightarrow> (coord, unit) act" where
  "save_run run = (if xr_id run = [] then throwS (TypeError ''executionRun record id is required'')
     else modifyS (\<lambda>c. c\<lparr>co_runs := mset_at (xr_id run) run (co_runs c)\<rparr>))"

interpretation runs: keyed_store "\<lambda>k c. run_get c k"
    "\<lambda>r c. c\<lparr>co_runs := mset_at (xr_id r) r (co_runs c)\<rparr>" xr_id
  by unfold_locales (simp add: run_get_def)

definition release_run :: "string \<Rightarrow> string \<Rightarrow> (coord, lock list) act" where
  "release_run runId now c = (let (locks', released) = releaseAll runId now (co_locks c)
     in (c\<lparr>co_locks := locks'\<rparr>, Inr released))"

subsection \<open>Request\<close>

definition blocked_run :: "string \<Rightarrow> exec_request \<Rightarrow> blocker list \<Rightarrow> exec_run" where
  "blocked_run now input blockers =
    \<lparr>xr_id = er_executionRunId input,
     xr_workspaceId = (case ri_workspace (er_ready input) of Some w \<Rightarrow> Some (ws_id w)
        | None \<Rightarrow> map_option tn_workspaceId (ri_task (er_ready input))),
     xr_taskId = map_option tn_id (ri_task (er_ready input)),
     xr_workerId = JUndef, xr_capabilityAction = [], xr_target = [], xr_payload = JUndef, xr_providerSnapshot = None,
     xr_currentProviderDigest = None, xr_state = ''blocked'', xr_blockers = blockers, xr_requestedAt = now,
     xr_startedAt = None, xr_completedAt = None, xr_execution = JUndef, xr_recoveryReason = None\<rparr>"

definition requested_run :: "string \<Rightarrow> exec_request \<Rightarrow> workspace \<Rightarrow> task_node \<Rightarrow> bool \<Rightarrow> exec_run" where
  "requested_run now input w t requiresHumanGate =
    \<lparr>xr_id = er_executionRunId input, xr_workspaceId = Some (ws_id w), xr_taskId = Some (tn_id t),
     xr_workerId = er_workerId input, xr_capabilityAction = tn_capabilityAction t, xr_target = tn_target t,
     xr_payload = er_payload input, xr_providerSnapshot = ri_providerSnapshot (er_ready input),
     xr_currentProviderDigest = ri_currentProviderDigest (er_ready input),
     xr_state = (if requiresHumanGate then ''waiting_human'' else ''ready''), xr_blockers = [], xr_requestedAt = now,
     xr_startedAt = None, xr_completedAt = None, xr_execution = JUndef, xr_recoveryReason = None\<rparr>"

definition gate_input :: "exec_request \<Rightarrow> exec_run \<Rightarrow> js" where
  "gate_input input run = JObj [(''id'', er_gateId input), (''workspaceId'', js_opt (xr_workspaceId run)),
     (''taskId'', js_opt (xr_taskId run)), (''executionRunId'', JStr (xr_id run)), (''actionClass'', er_actionClass input),
     (''workerId'', xr_workerId run), (''capabilityAction'', JStr (xr_capabilityAction run)),
     (''target'', JStr (xr_target run)), (''payloadPreview'', or_js (er_payloadPreview input) (JObj [])),
     (''evidenceExpected'', or_js (er_evidenceExpected input) (JArr []))]"

definition request_gate :: "string \<Rightarrow> js \<Rightarrow> (coord, gate) act" where
  "request_gate now input c = (case gate_request now input (co_gates c) of
      Inl e \<Rightarrow> (c, Inl e) | Inr (gs, _, g) \<Rightarrow> (c\<lparr>co_gates := gs\<rparr>, Inr g))"

definition acquire_for :: "(string \<Rightarrow> string \<Rightarrow> bool) \<Rightarrow> string \<Rightarrow> exec_request \<Rightarrow> workspace \<Rightarrow> task_node
    \<Rightarrow> (coord, lock list) act" where
  "acquire_for lc now input w t c =
    (case acquireAll lc (ws_id w) (tn_id t) (er_executionRunId input) (er_resources input) now (co_locks c) of
       Inl e \<Rightarrow> (c, Inl e) | Inr (locks', ls) \<Rightarrow> (c\<lparr>co_locks := locks'\<rparr>, Inr ls))"

text \<open>The result is \<open>(created, run, gate)\<close>.\<close>

type_synonym request_result = "bool \<times> exec_run \<times> gate option"

definition request_blocked :: "string \<Rightarrow> exec_request \<Rightarrow> blocker list \<Rightarrow> (coord, request_result) act" where
  "request_blocked now input blockers =
    (let run = blocked_run now input blockers in
     bindS (save_run run) (\<lambda>_.
     bindS (log_event ''execution.blocked'' (''blocked:'' @ xr_id run) (xr_id run) None []
              (JArr (map (\<lambda>b. JStr (bl_code b)) blockers))) (\<lambda>_.
     returnS (True, run, None))))"

definition request_ready :: "(string \<Rightarrow> string \<Rightarrow> bool) \<Rightarrow> string \<Rightarrow> exec_request \<Rightarrow> bool \<Rightarrow> workspace \<Rightarrow> task_node
    \<Rightarrow> (coord, request_result) act" where
  "request_ready lc now input requiresHumanGate w t =
    bindS (acquire_for lc now input w t) (\<lambda>locks.
    let run = requested_run now input w t requiresHumanGate in
    bindS (save_run run) (\<lambda>_.
    bindS (log_event ''execution.requested'' (''request:'' @ xr_id run) (xr_id run) None [] JUndef) (\<lambda>_.
    bindS (log_event ''resource.reserved'' (''reserve:'' @ xr_id run) (xr_id run) None locks JUndef) (\<lambda>_.
    if requiresHumanGate then
      bindS (request_gate now (gate_input input run)) (\<lambda>gate.
      bindS (log_event ''human_gate.requested'' (''gate-request:'' @ hg_id gate) (xr_id run) (Some (hg_id gate)) [] JUndef) (\<lambda>_.
      returnS (True, run, Some gate)))
    else returnS (True, run, None)))))"

definition request_new :: "(string \<Rightarrow> string \<Rightarrow> bool) \<Rightarrow> (string \<Rightarrow> int option) \<Rightarrow> string \<Rightarrow> exec_request \<Rightarrow> resource list
    \<Rightarrow> (coord, request_result) act" where
  "request_new lc legacy now input resourceConflicts =
    bindS (liftS (evaluateExecutionReadiness legacy (er_ready input\<lparr>ri_resourceConflicts := resourceConflicts\<rparr>))) (\<lambda>readiness.
    if \<not> rd_ready readiness then request_blocked now input (rd_blockers readiness)
    else case (ri_workspace (er_ready input), ri_task (er_ready input)) of
      (Some w, Some t) \<Rightarrow> request_ready lc now input (rd_requiresHumanGate readiness) w t
    | _ \<Rightarrow> throwS (TypeError ''Cannot read properties of undefined (reading id)''))"

definition coord_request :: "(string \<Rightarrow> string \<Rightarrow> bool) \<Rightarrow> (string \<Rightarrow> int option) \<Rightarrow> string \<Rightarrow> exec_request
    \<Rightarrow> (coord, request_result) act" where
  "coord_request lc legacy now input c = (case run_get c (er_executionRunId input) of
      Some existing \<Rightarrow> (c, Inr (False, existing, if truthy (er_gateId input) then gate_get (er_gateId input) (co_gates c) else None))
    | None \<Rightarrow>
        bindS (liftS (as_array (or_js (er_resources input) (JArr [])) (TypeError ''resources.map is not a function''))) (\<lambda>rs.
        bindS (liftS (lock_conflicts (co_locks c) rs None)) (\<lambda>resourceConflicts.
        request_new lc legacy now input resourceConflicts)) c)"

subsection \<open>Rejection\<close>

definition gate_decision :: "string \<Rightarrow> string \<Rightarrow> string \<Rightarrow> (coord, bool \<times> gate) act" where
  "gate_decision now gateId decision c = (case gate_decide now gateId decision (co_gates c) of
      Inl e \<Rightarrow> (c, Inl e) | Inr (gs, changed, g) \<Rightarrow> (c\<lparr>co_gates := gs\<rparr>, Inr (changed, g)))"

text \<open>The result is \<open>(changed, run, gate)\<close>.\<close>

definition coord_reject :: "string \<Rightarrow> string \<Rightarrow> (coord, bool \<times> exec_run option \<times> gate) act" where
  "coord_reject now gateId =
    bindS (gate_decision now gateId ''rejected'') (\<lambda>(changed, gate).
    bindS (readS (\<lambda>c. run_get c (hg_executionRunId gate))) (\<lambda>run.
    if \<not> changed then returnS (False, run, gate)
    else case run of None \<Rightarrow> throwS (TypeError ''executionRun record id is required'')
    | Some r \<Rightarrow>
        let next = r\<lparr>xr_state := ''cancelled'', xr_completedAt := Some now\<rparr> in
        bindS (save_run next) (\<lambda>_.
        bindS (release_run (xr_id r) now) (\<lambda>released.
        bindS (log_event ''human_gate.rejected'' (''gate-reject:'' @ gateId) (xr_id r) (Some gateId) [] JUndef) (\<lambda>_.
        bindS (log_event ''resource.released'' (''release:'' @ xr_id r) (xr_id r) None released JUndef) (\<lambda>_.
        returnS (True, Some next, gate)))))))"

subsection \<open>Approval\<close>

datatype approval = AlreadyStarted exec_run gate | Started exec_run gate

definition call_runtime :: "string \<Rightarrow> (coord, unit) act" where
  "call_runtime runId = modifyS (\<lambda>c. c\<lparr>co_calls := co_calls c @ [runId]\<rparr>)"

text \<open>\<open>revalidate\<close> is the provider revalidator; \<open>None\<close> lets the run pass.\<close>

definition approve_begin :: "string \<Rightarrow> (exec_run \<Rightarrow> js_error option) \<Rightarrow> string \<Rightarrow> (coord, approval) act" where
  "approve_begin now revalidate gateId =
    bindS (readS (\<lambda>c. mget (co_gates c) gateId)) (\<lambda>currentGate. case currentGate of
      None \<Rightarrow> throwS (Error (''Unknown Human Gate: '' @ gateId))
    | Some gate \<Rightarrow>
    bindS (readS (\<lambda>c. run_get c (hg_executionRunId gate))) (\<lambda>found. case found of
      None \<Rightarrow> throwS (TypeError ''Cannot read properties of null (reading state)'')
    | Some run \<Rightarrow>
      if xr_state run \<in> {''active'', ''result_observed'', ''completed''} then returnS (AlreadyStarted run gate)
      else if xr_state run \<noteq> ''waiting_human'' then throwS (Error (''Execution is not waiting for approval: '' @ xr_state run))
      else case revalidate run of Some e \<Rightarrow> throwS e
      | None \<Rightarrow>
        bindS (gate_decision now gateId ''approved'') (\<lambda>(changed, decided).
        bindS (log_event ''human_gate.approved'' (''gate-approve:'' @ gateId) (xr_id run) (Some gateId) [] JUndef) (\<lambda>_.
        bindS (log_event ''execution.started'' (''start:'' @ xr_id run) (xr_id run) None [] JUndef) (\<lambda>_.
        let started = run\<lparr>xr_state := ''active'', xr_startedAt := Some now\<rparr> in
        bindS (save_run started) (\<lambda>_.
        bindS (call_runtime (xr_id started)) (\<lambda>_.
        returnS (Started started decided))))))))"

text \<open>\<open>run\<close> is the run captured before the await, \<open>outcome\<close> what the runtime answers.\<close>

definition approve_finish :: "string \<Rightarrow> exec_run \<Rightarrow> js_error + js \<Rightarrow> (coord, exec_run) act" where
  "approve_finish now run outcome = (case outcome of
      Inr execution \<Rightarrow>
        let completed = run\<lparr>xr_state := ''result_observed'', xr_execution := execution, xr_completedAt := Some now\<rparr> in
        bindS (save_run completed) (\<lambda>_.
        bindS (log_event ''execution.result_observed'' (''result:'' @ xr_id run) (xr_id run) None [] execution) (\<lambda>_.
        bindS (release_run (xr_id run) now) (\<lambda>released.
        bindS (log_event ''resource.released'' (''release:'' @ xr_id run) (xr_id run) None released JUndef) (\<lambda>_.
        returnS completed))))
    | Inl e \<Rightarrow>
        let uncertain = run\<lparr>xr_state := ''waiting_human'', xr_recoveryReason := Some ''execution_uncertain_requires_review''\<rparr> in
        bindS (save_run uncertain) (\<lambda>_.
        bindS (log_event ''execution.waiting_human'' (''uncertain:'' @ xr_id run) (xr_id run) None []
                (JStr ''execution_uncertain_requires_review'')) (\<lambda>_.
        throwS e)))"

subsection \<open>Recovery\<close>

text \<open>The loop of \<open>recoverUncertain\<close> over the runs listed at its start.\<close>

fun recover_runs :: "exec_run list \<Rightarrow> (coord, exec_run list) act" where
  "recover_runs [] = returnS []"
| "recover_runs (r # rs) =
     (if xr_state r \<noteq> ''active'' then recover_runs rs
      else let next = r\<lparr>xr_state := ''waiting_human'', xr_recoveryReason := Some ''application_recovery_requires_review''\<rparr> in
        bindS (save_run next) (\<lambda>_.
        bindS (log_event ''execution.waiting_human'' (''recovery:'' @ xr_id r) (xr_id r) None []
                (JStr ''application_recovery_requires_review'')) (\<lambda>_.
        bindS (recover_runs rs) (\<lambda>recovered. returnS (next # recovered)))))"

definition coord_recoverUncertain :: "(coord, exec_run list) act" where
  "coord_recoverUncertain = bindS (readS (\<lambda>c. mvalues (co_runs c))) recover_runs"

text \<open>\<open>rehydrateLocks\<close>: the reservations of the log that were not released are taken again.\<close>

definition FINISHED_RUN_STATES :: "string list" where
  "FINISHED_RUN_STATES = [''completed'', ''result_observed'', ''cancelled'', ''failed'']"

definition lock_resource_js :: "lock \<Rightarrow> js" where
  "lock_resource_js l = JObj [(''type'', JStr (lk_resourceType l)), (''key'', JStr (lk_resourceKey l))]"

fun rehydrate_events :: "(string \<Rightarrow> string \<Rightarrow> bool) \<Rightarrow> (string, exec_run) jsmap \<Rightarrow> string list \<Rightarrow> cevent list
    \<Rightarrow> lock_table \<Rightarrow> lock_table res" where
  "rehydrate_events lc runs released [] locks = Inr locks"
| "rehydrate_events lc runs released (e # es) locks =
     (if ce_type e \<noteq> ''resource.reserved'' \<or> ce_runId e \<in> set released
         \<or> list_ex (\<lambda>l. lk_executionRunId l = ce_runId e) (mvalues locks)
      then rehydrate_events lc runs released es locks
      else case mget runs (ce_runId e) of None \<Rightarrow> rehydrate_events lc runs released es locks
      | Some run \<Rightarrow>
          if ce_locks e = [] \<or> xr_state run \<in> set FINISHED_RUN_STATES
          then rehydrate_events lc runs released es locks
          else bindE (acquireAll lc (case xr_workspaceId run of Some w \<Rightarrow> w | None \<Rightarrow> [])
                 (case xr_taskId run of Some t \<Rightarrow> t | None \<Rightarrow> []) (xr_id run)
                 (JArr (map lock_resource_js (ce_locks e))) (lk_acquiredAt (hd (ce_locks e))) locks)
               (\<lambda>(locks', _). rehydrate_events lc runs released es locks'))"

definition rehydrateLocks :: "(string \<Rightarrow> string \<Rightarrow> bool) \<Rightarrow> coord \<Rightarrow> lock_table res" where
  "rehydrateLocks lc c = rehydrate_events lc (co_runs c)
     (map ce_runId (filter (\<lambda>e. ce_type e = ''resource.released'') (co_events c))) (co_events c) []"

subsection \<open>The application service\<close>

text \<open>The guard of \<open>approveHumanGate\<close> and the start of the approval it guards.\<close>

definition approveHumanGate_begin :: "string \<Rightarrow> (exec_run \<Rightarrow> js_error option) \<Rightarrow> string \<Rightarrow> (coord, approval) act" where
  "approveHumanGate_begin now revalidate gateId c =
    (case Option.bind (mget (co_gates c) gateId) (\<lambda>g. run_get c (hg_executionRunId g)) of
       Some run \<Rightarrow> if xr_recoveryReason run \<notin> {None, Some []}
         then (c, Inl (Error ''Recovered or uncertain execution cannot be replayed; create a new reviewed task''))
         else approve_begin now revalidate gateId c
     | None \<Rightarrow> approve_begin now revalidate gateId c)"

text \<open>The revalidator of the service: \<open>current\<close> is the stored snapshot of the run's contract.\<close>

definition service_revalidator :: "(string \<Rightarrow> int option) \<Rightarrow> int \<Rightarrow> provider_snapshot option \<Rightarrow> exec_run \<Rightarrow> js_error option" where
  "service_revalidator legacy nowMs current run = (case current of
      None \<Rightarrow> Some (Error ''Provider contract changed or expired'')
    | Some s \<Rightarrow> if Some (ps_snapshotDigest s) \<noteq> xr_currentProviderDigest run
        then Some (Error ''Provider contract changed or expired'')
        else (case assertProviderSnapshotAllows legacy (Some s) (JStr (xr_capabilityAction run)) nowMs of
            Inl e \<Rightarrow> Some e | Inr _ \<Rightarrow> None))"

record service =
  sv_coord :: coord
  sv_inflight :: "exec_run list"

datatype service_op = RequestRun exec_request | ApproveGate string "exec_run \<Rightarrow> js_error option"
  | RuntimeAnswers nat "js_error + js" | RejectGate string | RestartService

text \<open>
  One step of the service.  \<open>RuntimeAnswers n o\<close> delivers the outcome of the n-th call in
  flight; a restart loses the calls in flight, and does not come up when the locks cannot
  be restored.
\<close>

definition service_step :: "(string \<Rightarrow> string \<Rightarrow> bool) \<Rightarrow> (string \<Rightarrow> int option) \<Rightarrow> string \<Rightarrow> service_op \<Rightarrow> service \<Rightarrow> service" where
  "service_step lc legacy now oper s = (case oper of
      RequestRun input \<Rightarrow> s\<lparr>sv_coord := fst (coord_request lc legacy now input (sv_coord s))\<rparr>
    | ApproveGate g revalidate \<Rightarrow> (case approveHumanGate_begin now revalidate g (sv_coord s) of
        (c, Inr (Started run _)) \<Rightarrow> \<lparr>sv_coord = c, sv_inflight = sv_inflight s @ [run]\<rparr>
      | (c, _) \<Rightarrow> s\<lparr>sv_coord := c\<rparr>)
    | RuntimeAnswers n outcome \<Rightarrow>
        if n < length (sv_inflight s)
        then \<lparr>sv_coord = fst (approve_finish now (sv_inflight s ! n) outcome (sv_coord s)),
              sv_inflight = take n (sv_inflight s) @ drop (Suc n) (sv_inflight s)\<rparr>
        else s
    | RejectGate g \<Rightarrow> s\<lparr>sv_coord := fst (coord_reject now g (sv_coord s))\<rparr>
    | RestartService \<Rightarrow> (case rehydrateLocks lc (sv_coord s) of
        Inl _ \<Rightarrow> s
      | Inr locks \<Rightarrow> \<lparr>sv_coord = fst (coord_recoverUncertain ((sv_coord s)\<lparr>co_locks := locks\<rparr>)), sv_inflight = []\<rparr>))"

definition service_init :: service where
  "service_init = \<lparr>sv_coord = \<lparr>co_runs = [], co_gates = [], co_locks = [], co_events = [], co_calls = []\<rparr>, sv_inflight = []\<rparr>"

definition service_run :: "(string \<Rightarrow> string \<Rightarrow> bool) \<Rightarrow> (string \<Rightarrow> int option) \<Rightarrow> (string \<times> service_op) list \<Rightarrow> service" where
  "service_run lc legacy ops = fold (\<lambda>(now, oper). service_step lc legacy now oper) ops service_init"

end
