(* ===== verification/CoordinatorSafety.thy ===== *)
theory CoordinatorSafety
  imports Coordinator
begin

text \<open>
  What the coordinator guarantees under its application service, for every sequence of
  requests, approvals, outcomes, rejections and restarts: the runtime is called at most once
  per run, and the resources of unfinished runs stay reserved, across restarts.
\<close>

subsection \<open>What each operation changes\<close>

definition uncertain :: "exec_run \<Rightarrow> bool" where
  "uncertain r \<longleftrightarrow> xr_recoveryReason r \<notin> {None, Some []}"

lemma run_get_save [simp]: "run_get (c\<lparr>co_runs := mset_at k r (co_runs c)\<rparr>) i = (if i = k then Some r else run_get c i)"
  by (simp add: run_get_def)

lemma run_get_other [simp]:
  "run_get (c\<lparr>co_gates := gs\<rparr>) i = run_get c i" "run_get (c\<lparr>co_locks := ls\<rparr>) i = run_get c i"
  "run_get (c\<lparr>co_events := es\<rparr>) i = run_get c i" "run_get (c\<lparr>co_calls := cs\<rparr>) i = run_get c i"
  by (simp_all add: run_get_def)

lemma log_event_run: "log_event t k r g ls d c =
    (c\<lparr>co_events := append_event (cevent_of t k r g ls d) (co_events c)\<rparr>, Inr ())"
  by (simp add: log_event_def)

lemma save_run_run: "xr_id r \<noteq> [] \<Longrightarrow> save_run r c = (c\<lparr>co_runs := mset_at (xr_id r) r (co_runs c)\<rparr>, Inr ())"
  by (simp add: save_run_def)

lemma release_run_run: "release_run i now c =
    (c\<lparr>co_locks := fst (releaseAll i now (co_locks c))\<rparr>, Inr (snd (releaseAll i now (co_locks c))))"
  by (simp add: release_run_def split: prod.split)

lemma bindS_log [simp]: "bindS (log_event t k r g ls d) f c =
    f () (c\<lparr>co_events := append_event (cevent_of t k r g ls d) (co_events c)\<rparr>)"
  by (simp add: bindS_def log_event_run)

lemma bindS_save: "xr_id r \<noteq> [] \<Longrightarrow> bindS (save_run r) f c = f () (c\<lparr>co_runs := mset_at (xr_id r) r (co_runs c)\<rparr>)"
  by (simp add: bindS_def save_run_run)

lemma bindS_release [simp]: "bindS (release_run i now) f c =
    f (snd (releaseAll i now (co_locks c))) (c\<lparr>co_locks := fst (releaseAll i now (co_locks c))\<rparr>)"
  by (simp add: bindS_def release_run_run)

text \<open>The runs, gates and calls after an operation; locks and events do not matter here.\<close>

definition core :: "coord \<Rightarrow> (string \<Rightarrow> exec_run option) \<times> (string \<Rightarrow> gate option) \<times> string list" where
  "core c = (run_get c, mget (co_gates c), co_calls c)"

definition new_run :: "coord \<Rightarrow> coord \<Rightarrow> bool" where
  "new_run c c' \<longleftrightarrow> (\<exists>run. run_get c (xr_id run) = None \<and> xr_id run \<noteq> [] \<and>
     xr_state run \<in> {''blocked'', ''ready'', ''waiting_human''} \<and>
     run_get c' = (run_get c)(xr_id run := Some run) \<and> co_calls c' = co_calls c \<and>
     (mget (co_gates c') = mget (co_gates c) \<or>
      (\<exists>g. mget (co_gates c') = (mget (co_gates c))(hg_id g := Some g) \<and> hg_executionRunId g = xr_id run \<and>
         hg_state g = ''requested'')))"

lemma request_gate_core:
  assumes "request_gate now input c = (c', r)"
  shows "co_runs c' = co_runs c \<and> co_calls c' = co_calls c \<and> co_locks c' = co_locks c \<and> co_events c' = co_events c \<and>
    (co_gates c' = co_gates c \<or>
     (\<exists>g. co_gates c' = gate_save g (co_gates c) \<and> hg_state g = ''requested'' \<and>
        hg_executionRunId g = to_string (field input ''executionRunId'')))"
proof (cases "gate_request now input (co_gates c)")
  case (Inr x)
  obtain gs cr g where x: "x = (gs, cr, g)" by (cases x)
  from gate_request_Inr[OF Inr[unfolded x]] Inr x assms show ?thesis by (auto simp: request_gate_def)
qed (use assms in \<open>auto simp: request_gate_def\<close>)

lemma gate_input_run: "to_string (field (gate_input input run) ''executionRunId'') = xr_id run"
  by (simp add: gate_input_def)

lemma mget_gate_save [simp]: "mget (gate_save g gs) = (mget gs)(hg_id g := Some g)"
  by (rule ext) (simp add: gate_save_def)

lemma request_blocked_new:
  assumes "run_get c (er_executionRunId input) = None"
  shows "fst (request_blocked now input bs c) = c \<or> new_run c (fst (request_blocked now input bs c))"
proof (cases "er_executionRunId input = []")
  case True
  then show ?thesis by (simp add: request_blocked_def blocked_run_def save_run_def Let_def)
next
  case False
  let ?r = "blocked_run now input bs"
  have "xr_id ?r = er_executionRunId input" "xr_state ?r = ''blocked''" by (simp_all add: blocked_run_def)
  with False assms have "new_run c (fst (request_blocked now input bs c))"
    unfolding new_run_def by (intro exI[of _ ?r]) (auto simp: request_blocked_def bindS_save Let_def run_get_def)
  then show ?thesis ..
qed

lemma acquire_for_run: "acquire_for lc now input w t c = (c', r) \<Longrightarrow>
    (\<exists>e. c' = c \<and> r = Inl e) \<or> (\<exists>locks' ls. acquireAll lc (ws_id w) (tn_id t) (er_executionRunId input) (er_resources input)
       now (co_locks c) = Inr (locks', ls) \<and> c' = c\<lparr>co_locks := locks'\<rparr> \<and> r = Inr ls)"
  by (auto simp: acquire_for_def split: sum.splits)

lemma acquireAll_id: "acquireAll lc w t run v now locks = Inr x \<Longrightarrow> run \<noteq> []"
  by (auto simp: acquireAll_def)

text \<open>The state of a request that is ready, up to and after the gate.\<close>

definition reserved_state :: "string \<Rightarrow> exec_request \<Rightarrow> workspace \<Rightarrow> task_node \<Rightarrow> bool \<Rightarrow> lock_table \<Rightarrow> lock list \<Rightarrow> coord \<Rightarrow> coord" where
  "reserved_state now input w t hg locks' ls c =
    (let run = requested_run now input w t hg in
     c\<lparr>co_locks := locks', co_runs := mset_at (xr_id run) run (co_runs c),
       co_events := append_event (cevent_of ''resource.reserved'' (''reserve:'' @ xr_id run) (xr_id run) None ls JUndef)
         (append_event (cevent_of ''execution.requested'' (''request:'' @ xr_id run) (xr_id run) None [] JUndef) (co_events c))\<rparr>)"

lemma request_ready_shape:
  obtains "fst (request_ready lc now input hg w t c) = c"
  | locks' ls c1 g where "acquireAll lc (ws_id w) (tn_id t) (er_executionRunId input) (er_resources input) now (co_locks c) = Inr (locks', ls)"
      "co_runs c1 = co_runs (reserved_state now input w t hg locks' ls c)"
      "co_calls c1 = co_calls c" "co_locks c1 = locks'"
      "co_events c1 = co_events (reserved_state now input w t hg locks' ls c)"
      "co_gates c1 = co_gates c \<or> (co_gates c1 = gate_save g (co_gates c) \<and> hg_state g = ''requested'' \<and>
         hg_executionRunId g = er_executionRunId input)"
      "fst (request_ready lc now input hg w t c) = c1 \<or>
       (\<exists>i. fst (request_ready lc now input hg w t c) = c1\<lparr>co_events := append_event
         (cevent_of ''human_gate.requested'' (''gate-request:'' @ i) (er_executionRunId input) (Some i) [] JUndef) (co_events c1)\<rparr>)"
proof -
  obtain c0 r0 where a: "acquire_for lc now input w t c = (c0, r0)" by fastforce
  from acquire_for_run[OF a] show thesis
  proof (elim disjE exE conjE)
    fix e assume "c0 = c" "r0 = Inl e"
    with a show thesis by (intro that(1)) (simp add: request_ready_def bindS_def)
  next
    fix locks' ls
    assume acq: "acquireAll lc (ws_id w) (tn_id t) (er_executionRunId input) (er_resources input) now (co_locks c) = Inr (locks', ls)"
      and c0: "c0 = c\<lparr>co_locks := locks'\<rparr>" "r0 = Inr ls"
    let ?run = "requested_run now input w t hg" and ?s = "reserved_state now input w t hg locks' ls c"
    have id: "xr_id ?run = er_executionRunId input" by (simp add: requested_run_def)
    then have ne: "xr_id ?run \<noteq> []" using acquireAll_id[OF acq] by simp
    have run: "request_ready lc now input hg w t c =
        (if hg then bindS (request_gate now (gate_input input ?run)) (\<lambda>gate.
           bindS (log_event ''human_gate.requested'' (''gate-request:'' @ hg_id gate) (xr_id ?run) (Some (hg_id gate)) [] JUndef) (\<lambda>_.
           returnS (True, ?run, Some gate))) ?s
         else (?s, Inr (True, ?run, None)))"
      using a c0 ne by (simp add: request_ready_def bindS_Inr bindS_save Let_def reserved_state_def)
    have calls: "co_calls ?s = co_calls c" "co_locks ?s = locks'" "co_gates ?s = co_gates c"
      by (simp_all add: reserved_state_def Let_def)
    show thesis
    proof (cases hg)
      case False
      with run calls show thesis by (intro that(2)[OF acq, of ?s]) simp_all
    next
      case True
      obtain c1 r1 where g: "request_gate now (gate_input input ?run) ?s = (c1, r1)" by fastforce
      note gc = request_gate_core[OF g, unfolded gate_input_run id]
      then obtain g where "co_gates c1 = co_gates c \<or> (co_gates c1 = gate_save g (co_gates c) \<and> hg_state g = ''requested'' \<and>
         hg_executionRunId g = er_executionRunId input)" using calls by auto
      moreover have "fst (request_ready lc now input hg w t c) = c1 \<or>
       (\<exists>i. fst (request_ready lc now input hg w t c) = c1\<lparr>co_events := append_event
         (cevent_of ''human_gate.requested'' (''gate-request:'' @ i) (er_executionRunId input) (Some i) [] JUndef) (co_events c1)\<rparr>)"
        using run True g id by (cases r1) (auto simp: bindS_def log_event_run)
      ultimately show thesis using gc calls by (intro that(2)[OF acq, of c1 g]) simp_all
    qed
  qed
qed

lemma request_ready_new:
  assumes "run_get c (er_executionRunId input) = None"
  shows "fst (request_ready lc now input hg w t c) = c \<or> new_run c (fst (request_ready lc now input hg w t c))"
proof (rule request_ready_shape[of lc now input hg w t c])
  fix locks' ls c1 g
  assume acq: "acquireAll lc (ws_id w) (tn_id t) (er_executionRunId input) (er_resources input) now (co_locks c) = Inr (locks', ls)"
    and r: "co_runs c1 = co_runs (reserved_state now input w t hg locks' ls c)" and cs: "co_calls c1 = co_calls c"
    and g: "co_gates c1 = co_gates c \<or> (co_gates c1 = gate_save g (co_gates c) \<and> hg_state g = ''requested'' \<and>
         hg_executionRunId g = er_executionRunId input)"
    and f: "fst (request_ready lc now input hg w t c) = c1 \<or>
       (\<exists>i. fst (request_ready lc now input hg w t c) = c1\<lparr>co_events := append_event
         (cevent_of ''human_gate.requested'' (''gate-request:'' @ i) (er_executionRunId input) (Some i) [] JUndef) (co_events c1)\<rparr>)"
  let ?run = "requested_run now input w t hg"
  have id: "xr_id ?run = er_executionRunId input" "xr_state ?run \<in> {''ready'', ''waiting_human''}"
    by (simp_all add: requested_run_def)
  have rg: "run_get c1 = (run_get c)(xr_id ?run := Some ?run)"
    by (rule ext) (simp add: run_get_def r reserved_state_def Let_def)
  have "new_run c c1"
    unfolding new_run_def using id rg cs g assms acquireAll_id[OF acq] by (intro exI[of _ ?run]) auto
  then have "new_run c (c1\<lparr>co_events := es\<rparr>)" for es by (auto simp: new_run_def run_get_def fun_eq_iff)
  with f \<open>new_run c c1\<close> show ?thesis by auto
qed simp

lemma coord_request_new:
  "fst (coord_request lc legacy now input c) = c \<or> new_run c (fst (coord_request lc legacy now input c))"
proof (cases "run_get c (er_executionRunId input)")
  case None
  show ?thesis
  proof (cases "as_array (or_js (er_resources input) (JArr [])) (TypeError ''resources.map is not a function'')")
    case arr: (Inr rs)
    show ?thesis
    proof (cases "lock_conflicts (co_locks c) rs None")
      case (Inr cf)
      have "fst (coord_request lc legacy now input c) = fst (request_new lc legacy now input cf c)"
        using None Inr by (simp add: coord_request_def arr del: as_array_Inr)
      moreover have "fst (request_new lc legacy now input cf c) = c \<or> new_run c (fst (request_new lc legacy now input cf c))"
        using request_blocked_new[OF None] request_ready_new[OF None]
        by (simp add: request_new_def readiness_Inr split: option.split)
      ultimately show ?thesis by simp
    qed (use None in \<open>simp add: coord_request_def arr del: as_array_Inr\<close>)
  qed (use None in \<open>simp add: coord_request_def\<close>)
qed (simp add: coord_request_def)

lemma gate_decision_run: "gate_decision now i d c = (c', r) \<Longrightarrow>
    (\<exists>e. c' = c \<and> r = Inl e) \<or>
    (\<exists>g0 g. mget (co_gates c) i = Some g0 \<and> gate_move now g0 d = Inr g \<and> r = Inr (hg_state g0 \<noteq> d, g) \<and>
       c' = c\<lparr>co_gates := (if hg_state g0 \<noteq> d then gate_save g (co_gates c) else co_gates c)\<rparr>)"
proof (cases "gate_decide now i d (co_gates c)")
  case (Inr x)
  assume a: "gate_decision now i d c = (c', r)"
  obtain gs ch g where x: "x = (gs, ch, g)" by (cases x)
  from Inr[unfolded x gate_decide_Inr] obtain g0 where
    "mget (co_gates c) i = Some g0" "gate_move now g0 d = Inr g" "ch = (hg_state g0 \<noteq> d)"
    "gs = (if ch then gate_save g (co_gates c) else co_gates c)" by blast
  moreover from a Inr x have "c' = c\<lparr>co_gates := gs\<rparr>" "r = Inr (ch, g)" by (simp_all add: gate_decision_def)
  ultimately show ?thesis by auto
qed (auto simp: gate_decision_def)

definition gate_updated :: "gate \<Rightarrow> gate \<Rightarrow> string \<Rightarrow> coord \<Rightarrow> coord \<Rightarrow> bool" where
  "gate_updated g0 g d c c' \<longleftrightarrow> hg_id g = hg_id g0 \<and> hg_executionRunId g = hg_executionRunId g0 \<and> hg_state g = d \<and>
     (mget (co_gates c') = (mget (co_gates c))(hg_id g0 := Some g))"

text \<open>A rejection changes nothing but the gate, or cancels the run of a requested gate.\<close>

lemma coord_reject_shape:
  assumes ok: "gates_ok (co_gates c)" and runs: "\<And>k r. run_get c k = Some r \<Longrightarrow> xr_id r = k \<and> k \<noteq> []"
    and found: "\<And>k g. mget (co_gates c) k = Some g \<Longrightarrow> run_get c (hg_executionRunId g) \<noteq> None"
  obtains "fst (coord_reject now i c) = c"
  | g0 g r nxt where "mget (co_gates c) i = Some g0" "hg_state g0 = ''requested''"
      "gate_updated g0 g ''rejected'' c (fst (coord_reject now i c))"
      "run_get c (hg_executionRunId g0) = Some r" "nxt = r\<lparr>xr_state := ''cancelled'', xr_completedAt := Some now\<rparr>"
      "co_runs (fst (coord_reject now i c)) = mset_at (xr_id r) nxt (co_runs c)"
      "co_calls (fst (coord_reject now i c)) = co_calls c"
      "co_locks (fst (coord_reject now i c)) = fst (releaseAll (xr_id r) now (co_locks c))"
      "co_events (fst (coord_reject now i c)) =
         append_event (cevent_of ''resource.released'' (''release:'' @ xr_id r) (xr_id r) None (snd (releaseAll (xr_id r) now (co_locks c))) JUndef)
         (append_event (cevent_of ''human_gate.rejected'' (''gate-reject:'' @ i) (xr_id r) (Some i) [] JUndef) (co_events c))"
proof -
  obtain c1 r1 where d: "gate_decision now i ''rejected'' c = (c1, r1)" by fastforce
  from gate_decision_run[OF d] show thesis
  proof (elim disjE exE conjE)
    fix e assume "c1 = c" "r1 = Inl e"
    with d show thesis by (intro that(1)) (simp add: coord_reject_def bindS_def)
  next
    fix g0 g
    assume g0: "mget (co_gates c) i = Some g0" "gate_move now g0 ''rejected'' = Inr g"
      and r1: "r1 = Inr (hg_state g0 \<noteq> ''rejected'', g)"
      and c1: "c1 = c\<lparr>co_gates := (if hg_state g0 \<noteq> ''rejected'' then gate_save g (co_gates c) else co_gates c)\<rparr>"
    note gf = gate_move_fields[OF g0(2)]
    show thesis
    proof (cases "hg_state g0 = ''rejected''")
      case True
      with d r1 c1 show thesis by (intro that(1)) (simp add: coord_reject_def bindS_Inr)
    next
      case False
      from found[OF g0(1)] obtain r where r: "run_get c (hg_executionRunId g0) = Some r" by blast
      have id: "xr_id r \<noteq> []" using runs[OF r] by simp
      have req: "hg_state g0 = ''requested''"
        using gate_move_decided[OF g0(2)] False gf by (metis)
      have rg: "run_get c1 (hg_executionRunId g) = Some r" using r gf c1 False by (simp add: run_get_def)
      have st: "gate_updated g0 g ''rejected'' c (fst (coord_reject now i c)) \<and>
        co_runs (fst (coord_reject now i c)) = mset_at (xr_id r) (r\<lparr>xr_state := ''cancelled'', xr_completedAt := Some now\<rparr>) (co_runs c) \<and>
        co_calls (fst (coord_reject now i c)) = co_calls c \<and>
        co_locks (fst (coord_reject now i c)) = fst (releaseAll (xr_id r) now (co_locks c)) \<and>
        co_events (fst (coord_reject now i c)) =
         append_event (cevent_of ''resource.released'' (''release:'' @ xr_id r) (xr_id r) None (snd (releaseAll (xr_id r) now (co_locks c))) JUndef)
         (append_event (cevent_of ''human_gate.rejected'' (''gate-reject:'' @ i) (xr_id r) (Some i) [] JUndef) (co_events c))"
        using d r1 c1 False rg id gf
        by (simp add: coord_reject_def bindS_Inr bindS_save Let_def gate_updated_def)
      with r req g0 show thesis by (intro that(2)) auto
    qed
  qed
qed

text \<open>A guarded approval changes nothing, or starts a run that waits and is not uncertain.\<close>

lemma approve_begin_shape:
  assumes ok: "gates_ok (co_gates c)" and runs: "\<And>k r. run_get c k = Some r \<Longrightarrow> xr_id r = k \<and> k \<noteq> []"
  obtains x where "approveHumanGate_begin now rv i c = (c, x)" "\<And>run g. x \<noteq> Inr (Started run g)"
  | c' g0 g r run where "approveHumanGate_begin now rv i c = (c', Inr (Started run g))"
      "mget (co_gates c) i = Some g0" "hg_state g0 \<in> {''requested'', ''approved''}" "gate_updated g0 g ''approved'' c c'"
      "run_get c (hg_executionRunId g0) = Some r" "xr_state r = ''waiting_human''" "\<not> uncertain r" "rv r = None"
      "run = r\<lparr>xr_state := ''active'', xr_startedAt := Some now\<rparr>"
      "co_runs c' = mset_at (xr_id r) run (co_runs c)" "co_calls c' = co_calls c @ [xr_id r]"
      "co_locks c' = co_locks c"
      "co_events c' = append_event (cevent_of ''execution.started'' (''start:'' @ xr_id r) (xr_id r) None [] JUndef)
         (append_event (cevent_of ''human_gate.approved'' (''gate-approve:'' @ i) (xr_id r) (Some i) [] JUndef) (co_events c))"
proof (cases "mget (co_gates c) i")
  case None
  then have "\<exists>x. approveHumanGate_begin now rv i c = (c, x) \<and> (\<forall>run g. x \<noteq> Inr (Started run g))"
    by (simp add: approveHumanGate_begin_def approve_begin_def)
  with that(1) show thesis by blast
next
  case (Some g0)
  show thesis
  proof (cases "run_get c (hg_executionRunId g0)")
    case None
    with Some have "\<exists>x. approveHumanGate_begin now rv i c = (c, x) \<and> (\<forall>run g. x \<noteq> Inr (Started run g))"
      by (simp add: approveHumanGate_begin_def approve_begin_def)
    with that(1) show thesis by blast
  next
    case r: (Some r)
    show thesis
    proof (cases "uncertain r \<or> xr_state r \<noteq> ''waiting_human'' \<or> rv r \<noteq> None")
      case True
      have "\<exists>x. approveHumanGate_begin now rv i c = (c, x) \<and> (\<forall>run g. x \<noteq> Inr (Started run g))"
        using True Some r unfolding uncertain_def
        by (cases "rv r") (auto simp: approveHumanGate_begin_def approve_begin_def)
      with that(1) show thesis by blast
    next
      case False
      obtain c1 r1 where d: "gate_decision now i ''approved'' c = (c1, r1)" by fastforce
      have ap: "approveHumanGate_begin now rv i c = bindS (gate_decision now i ''approved'') (\<lambda>(changed, decided).
        bindS (log_event ''human_gate.approved'' (''gate-approve:'' @ i) (xr_id r) (Some i) [] JUndef) (\<lambda>_.
        bindS (log_event ''execution.started'' (''start:'' @ xr_id r) (xr_id r) None [] JUndef) (\<lambda>_.
        let started = r\<lparr>xr_state := ''active'', xr_startedAt := Some now\<rparr> in
        bindS (save_run started) (\<lambda>_.
        bindS (call_runtime (xr_id started)) (\<lambda>_.
        returnS (Started started decided)))))) c"
        using False Some r unfolding uncertain_def
        by (simp add: approveHumanGate_begin_def approve_begin_def)
      from gate_decision_run[OF d] show thesis
      proof (elim disjE exE conjE)
        fix e assume "c1 = c" "r1 = Inl e"
        with d ap have "approveHumanGate_begin now rv i c = (c, Inl e)" by (simp add: bindS_def)
        with that(1) show thesis by blast
      next
        fix g0' g
        assume g0: "mget (co_gates c) i = Some g0'" "gate_move now g0' ''approved'' = Inr g"
          and r1: "r1 = Inr (hg_state g0' \<noteq> ''approved'', g)"
          and c1: "c1 = c\<lparr>co_gates := (if hg_state g0' \<noteq> ''approved'' then gate_save g (co_gates c) else co_gates c)\<rparr>"
        have e: "g0' = g0" using g0(1) Some by simp
        note gf = gate_move_fields[OF g0(2)]
        have id: "xr_id r \<noteq> []" using runs[OF r] by simp
        have gi: "hg_id g0 = i" using ok Some by (simp add: gates_ok_def)
        have same: "hg_state g0 = ''approved'' \<Longrightarrow> g = g0" using gate_move_decided[OF g0(2)] e by simp
        have was: "hg_state g0 \<in> {''requested'', ''approved''}" using g0(2) e unfolding gate_move_Inr by auto
        let ?c' = "fst (approveHumanGate_begin now rv i c)"
        let ?run = "r\<lparr>xr_state := ''active'', xr_startedAt := Some now\<rparr>"
        have st: "approveHumanGate_begin now rv i c = (?c', Inr (Started ?run g)) \<and>
          co_gates ?c' = co_gates c1 \<and> co_runs ?c' = mset_at (xr_id r) ?run (co_runs c) \<and>
          co_calls ?c' = co_calls c @ [xr_id r] \<and> co_locks ?c' = co_locks c \<and>
          co_events ?c' = append_event (cevent_of ''execution.started'' (''start:'' @ xr_id r) (xr_id r) None [] JUndef)
         (append_event (cevent_of ''human_gate.approved'' (''gate-approve:'' @ i) (xr_id r) (Some i) [] JUndef) (co_events c))"
          using d r1 c1 id by (simp add: ap bindS_Inr bindS_save Let_def call_runtime_def)
        moreover have "gate_updated g0 g ''approved'' c ?c'"
          using st c1 gf e gi same Some by (auto simp: gate_updated_def fun_eq_iff)
        ultimately show thesis using Some was r False id
          by (intro that(2)[of ?c' ?run g g0 r]) auto
      qed
    qed
  qed
qed

lemma approve_finish_ok:
  assumes "xr_id run \<noteq> []"
  shows "fst (approve_finish now run (Inr x) c) = (let released = releaseAll (xr_id run) now (co_locks c) in
     c\<lparr>co_runs := mset_at (xr_id run) (run\<lparr>xr_state := ''result_observed'', xr_execution := x, xr_completedAt := Some now\<rparr>) (co_runs c),
       co_locks := fst released,
       co_events := append_event (cevent_of ''resource.released'' (''release:'' @ xr_id run) (xr_id run) None (snd released) JUndef)
         (append_event (cevent_of ''execution.result_observed'' (''result:'' @ xr_id run) (xr_id run) None [] x) (co_events c))\<rparr>)"
  using assms by (simp add: approve_finish_def Let_def bindS_save)

lemma approve_finish_failed:
  assumes "xr_id run \<noteq> []"
  shows "fst (approve_finish now run (Inl e) c) =
     c\<lparr>co_runs := mset_at (xr_id run) (run\<lparr>xr_state := ''waiting_human'', xr_recoveryReason := Some ''execution_uncertain_requires_review''\<rparr>) (co_runs c),
       co_events := append_event (cevent_of ''execution.waiting_human'' (''uncertain:'' @ xr_id run) (xr_id run) None []
                (JStr ''execution_uncertain_requires_review'')) (co_events c)\<rparr>"
  using assms by (simp add: approve_finish_def Let_def bindS_save)

definition parked :: "exec_run \<Rightarrow> exec_run" where
  "parked r = r\<lparr>xr_state := ''waiting_human'', xr_recoveryReason := Some ''application_recovery_requires_review''\<rparr>"

definition recover_one :: "exec_run \<Rightarrow> coord \<Rightarrow> coord" where
  "recover_one r c = (if xr_state r \<noteq> ''active'' then c
     else c\<lparr>co_runs := mset_at (xr_id r) (parked r) (co_runs c),
            co_events := append_event (cevent_of ''execution.waiting_human'' (''recovery:'' @ xr_id r) (xr_id r) None []
                (JStr ''application_recovery_requires_review'')) (co_events c)\<rparr>)"

lemma recover_runs_fold:
  "\<forall>r \<in> set rs. xr_id r \<noteq> [] \<Longrightarrow> fst (recover_runs rs c) = fold recover_one rs c"
proof (induction rs arbitrary: c)
  case (Cons r rs)
  have tail: "fst (bindS (recover_runs rs) (\<lambda>recovered. returnS (x # recovered)) c) = fst (recover_runs rs c)" for x c
    by (cases "recover_runs rs c"; cases "snd (recover_runs rs c)") (auto simp: bindS_def)
  show ?case
  proof (cases "xr_state r = ''active''")
    case True
    with Cons.prems have "fst (recover_runs (r # rs) c) = fst (recover_runs rs (recover_one r c))"
      by (simp add: Let_def bindS_save tail parked_def recover_one_def)
    with Cons show ?thesis by simp
  qed (use Cons in \<open>simp add: recover_one_def\<close>)
qed simp

subsection \<open>One external call per run\<close>

definition runs_keyed :: "coord \<Rightarrow> bool" where
  "runs_keyed c \<longleftrightarrow> distinct (map fst (co_runs c)) \<and> (\<forall>k r. run_get c k = Some r \<longrightarrow> xr_id r = k \<and> k \<noteq> [])"

lemma runs_keyedD: "runs_keyed c \<Longrightarrow> run_get c k = Some r \<Longrightarrow> xr_id r = k \<and> k \<noteq> []"
  by (simp add: runs_keyed_def)

definition gates_bound :: "coord \<Rightarrow> bool" where
  "gates_bound c \<longleftrightarrow> gates_ok (co_gates c) \<and>
     (\<forall>k g. mget (co_gates c) k = Some g \<longrightarrow> run_get c (hg_executionRunId g) \<noteq> None) \<and>
     (\<forall>k1 g1 k2 g2. mget (co_gates c) k1 = Some g1 \<longrightarrow> mget (co_gates c) k2 = Some g2 \<longrightarrow>
        hg_executionRunId g1 = hg_executionRunId g2 \<longrightarrow> k1 = k2)"

definition called_ok :: "coord \<Rightarrow> bool" where
  "called_ok c \<longleftrightarrow> distinct (co_calls c) \<and>
     (\<forall>k \<in> set (co_calls c). (\<exists>r. run_get c k = Some r \<and> (xr_state r \<in> {''active'', ''result_observed''} \<or> uncertain r)) \<and>
        (\<forall>j g. mget (co_gates c) j = Some g \<longrightarrow> hg_executionRunId g = k \<longrightarrow> hg_state g = ''approved''))"

definition inflight_ok :: "coord \<Rightarrow> exec_run list \<Rightarrow> bool" where
  "inflight_ok c fl \<longleftrightarrow> distinct (map xr_id fl) \<and>
     (\<forall>r \<in> set fl. run_get c (xr_id r) = Some r \<and> xr_state r = ''active'' \<and> xr_id r \<in> set (co_calls c))"

definition core_ok :: "coord \<Rightarrow> exec_run list \<Rightarrow> bool" where
  "core_ok c fl \<longleftrightarrow> runs_keyed c \<and> gates_bound c \<and> called_ok c \<and> inflight_ok c fl"

lemma run_get_fun: "co_runs c' = mset_at k r (co_runs c) \<Longrightarrow> run_get c' = (run_get c)(k := Some r)"
  by (rule ext) (simp add: run_get_def)

lemma runs_keyed_set:
  assumes "runs_keyed c" "co_runs c' = mset_at (xr_id r) r (co_runs c)" "xr_id r \<noteq> []"
  shows "runs_keyed c'"
  using assms by (simp add: runs_keyed_def run_get_fun)

lemma gates_boundD:
  assumes "gates_bound c" "mget (co_gates c) k = Some g"
  shows "hg_id g = k" and "run_get c (hg_executionRunId g) \<noteq> None"
    and "mget (co_gates c) k' = Some g' \<Longrightarrow> hg_executionRunId g' = hg_executionRunId g \<Longrightarrow> k' = k"
proof -
  show "hg_id g = k" using assms unfolding gates_bound_def gates_ok_def by simp
  show "run_get c (hg_executionRunId g) \<noteq> None" using assms unfolding gates_bound_def by (elim conjE) (drule spec, drule spec, erule mp)
  show "k' = k" if "mget (co_gates c) k' = Some g'" "hg_executionRunId g' = hg_executionRunId g"
    using assms that unfolding gates_bound_def by (elim conjE) (metis (no_types))
qed

lemma gates_boundI:
  assumes "\<And>k g. mget (co_gates c) k = Some g \<Longrightarrow> hg_id g = k \<and> run_get c (hg_executionRunId g) \<noteq> None"
    and "\<And>k g k' g'. mget (co_gates c) k = Some g \<Longrightarrow> mget (co_gates c) k' = Some g' \<Longrightarrow>
      hg_executionRunId g = hg_executionRunId g' \<Longrightarrow> k = k'"
  shows "gates_bound c"
  unfolding gates_bound_def gates_ok_def using assms by (intro conjI allI impI) (simp_all del: not_None_eq)

lemma gates_bound_runs:
  assumes "gates_bound c" "mget (co_gates c') = mget (co_gates c)" "\<And>k. run_get c k \<noteq> None \<Longrightarrow> run_get c' k \<noteq> None"
  shows "gates_bound c'"
proof (rule gates_boundI)
  fix k g assume "mget (co_gates c') k = Some g"
  then have "mget (co_gates c) k = Some g" using assms(2) by simp
  with gates_boundD[OF assms(1) this] assms(3) show "hg_id g = k \<and> run_get c' (hg_executionRunId g) \<noteq> None" by blast
next
  fix k g k' g'
  assume "mget (co_gates c') k = Some g" "mget (co_gates c') k' = Some g'" and e: "hg_executionRunId g = hg_executionRunId g'"
  then have "mget (co_gates c) k = Some g" "mget (co_gates c) k' = Some g'" using assms(2) by simp_all
  from gates_boundD(3)[OF assms(1) this(2) this(1)] e show "k = k'" by simp
qed

lemma gates_bound_update:
  assumes "gates_bound c" "mget (co_gates c) i = Some g0" "gate_updated g0 g d c c'"
    and "\<And>k. run_get c k \<noteq> None \<Longrightarrow> run_get c' k \<noteq> None"
  shows "gates_bound c'"
proof -
  have i: "hg_id g0 = i" using gates_boundD(1)[OF assms(1,2)] .
  have old: "\<exists>g'. mget (co_gates c) k = Some g' \<and> hg_id g' = hg_id h \<and> hg_executionRunId g' = hg_executionRunId h"
    if "mget (co_gates c') k = Some h" for k h
    using that assms(2,3) i by (cases "k = i") (auto simp: gate_updated_def)
  show ?thesis
  proof (rule gates_boundI)
    fix k h assume "mget (co_gates c') k = Some h"
    from old[OF this] obtain h0 where h0: "mget (co_gates c) k = Some h0" "hg_id h0 = hg_id h"
      "hg_executionRunId h0 = hg_executionRunId h" by blast
    from gates_boundD(1,2)[OF assms(1) h0(1)] assms(4) h0(2,3)
    show "hg_id h = k \<and> run_get c' (hg_executionRunId h) \<noteq> None" by simp
  next
    fix k h k' h'
    assume "mget (co_gates c') k = Some h" "mget (co_gates c') k' = Some h'" and e: "hg_executionRunId h = hg_executionRunId h'"
    from old[OF this(1)] old[OF this(2)] obtain h0 h1 where
      "mget (co_gates c) k = Some h0" "mget (co_gates c) k' = Some h1"
      "hg_executionRunId h0 = hg_executionRunId h" "hg_executionRunId h1 = hg_executionRunId h'" by blast
    with gates_boundD(3)[OF assms(1)] e show "k = k'" by simp
  qed
qed

text \<open>A run that exists and is not yet called keeps the calls in order when it changes.\<close>

lemma core_ok_new_run:
  assumes "core_ok c fl" "new_run c c'" "runs_keyed c'"
  shows "core_ok c' fl"
proof -
  from assms(2) obtain run where fresh: "run_get c (xr_id run) = None"
    and rg: "run_get c' = (run_get c)(xr_id run := Some run)" and cs: "co_calls c' = co_calls c"
    and g: "mget (co_gates c') = mget (co_gates c) \<or>
      (\<exists>g. mget (co_gates c') = (mget (co_gates c))(hg_id g := Some g) \<and> hg_executionRunId g = xr_id run \<and>
         hg_state g = ''requested'')"
    unfolding new_run_def by blast
  have c: "gates_bound c" "called_ok c" "inflight_ok c fl" using assms(1) by (simp_all add: core_ok_def)
  have none: "hg_executionRunId h \<noteq> xr_id run" if "mget (co_gates c) k = Some h" for k h
    using gates_boundD(2)[OF c(1) that] fresh by auto
  have nc: "xr_id run \<notin> set (co_calls c)" using c(2) fresh by (auto simp: called_ok_def)
  from g have "gates_bound c'"
  proof
    assume "mget (co_gates c') = mget (co_gates c)"
    with c(1) rg show ?thesis by (intro gates_bound_runs[of c c']) auto
  next
    assume "\<exists>g. mget (co_gates c') = (mget (co_gates c))(hg_id g := Some g) \<and> hg_executionRunId g = xr_id run \<and>
         hg_state g = ''requested''"
    then obtain g where "mget (co_gates c') = (mget (co_gates c))(hg_id g := Some g)" "hg_executionRunId g = xr_id run" by blast
    note gm = this
    show ?thesis
    proof (rule gates_boundI)
      fix k h assume "mget (co_gates c') k = Some h"
      with gm rg gates_boundD(1,2)[OF c(1), of k h] show "hg_id h = k \<and> run_get c' (hg_executionRunId h) \<noteq> None"
        by (auto split: if_splits)
    next
      fix k h k' h'
      assume "mget (co_gates c') k = Some h" "mget (co_gates c') k' = Some h'" "hg_executionRunId h = hg_executionRunId h'"
      with gm none[of k h] none[of k' h'] gates_boundD(3)[OF c(1), of k h k' h'] show "k = k'"
        by (simp split: if_splits)
    qed
  qed
  moreover have "called_ok c'"
    using c(2) g nc unfolding called_ok_def cs rg by (auto split: if_splits)
  moreover have "inflight_ok c' fl" using c(3) fresh unfolding inflight_ok_def cs rg by auto
  ultimately show ?thesis using assms(3) by (simp add: core_ok_def)
qed

lemma called_okD:
  assumes "called_ok c" "k \<in> set (co_calls c)"
  shows "\<exists>r. run_get c k = Some r \<and> (xr_state r \<in> {''active'', ''result_observed''} \<or> uncertain r)"
    and "mget (co_gates c) j = Some g \<Longrightarrow> hg_executionRunId g = k \<Longrightarrow> hg_state g = ''approved''"
  using assms by (auto simp: called_ok_def)

lemma called_okI:
  assumes "distinct (co_calls c)"
    and "\<And>k. k \<in> set (co_calls c) \<Longrightarrow> \<exists>r. run_get c k = Some r \<and> (xr_state r \<in> {''active'', ''result_observed''} \<or> uncertain r)"
    and "\<And>k j g. k \<in> set (co_calls c) \<Longrightarrow> mget (co_gates c) j = Some g \<Longrightarrow> hg_executionRunId g = k \<Longrightarrow> hg_state g = ''approved''"
  shows "called_ok c"
  unfolding called_ok_def using assms by blast

lemma inflight_okD: "inflight_ok c fl \<Longrightarrow> r \<in> set fl \<Longrightarrow>
    run_get c (xr_id r) = Some r \<and> xr_state r = ''active'' \<and> xr_id r \<in> set (co_calls c)"
  by (simp add: inflight_ok_def)

text \<open>A run that was not called and is not in flight is rejected.\<close>

lemma core_ok_reject:
  assumes ok: "core_ok c fl"
  shows "core_ok (fst (coord_reject now i c)) fl"
proof -
  have c: "runs_keyed c" "gates_bound c" "called_ok c" "inflight_ok c fl" using ok by (simp_all add: core_ok_def)
  have gok: "gates_ok (co_gates c)" using c(2) by (simp add: gates_bound_def)
  have keyed: "\<And>k r. run_get c k = Some r \<Longrightarrow> xr_id r = k \<and> k \<noteq> []" using c(1) by (simp add: runs_keyed_def)
  show ?thesis
  proof (rule coord_reject_shape[OF gok keyed gates_boundD(2)[OF c(2)], where now = now and i = i])
    assume "fst (coord_reject now i c) = c" with ok show ?thesis by simp
  next
    fix g0 g r nxt
    let ?c' = "fst (coord_reject now i c)"
    assume g0: "mget (co_gates c) i = Some g0" "hg_state g0 = ''requested''" and upd: "gate_updated g0 g ''rejected'' c ?c'"
      and r: "run_get c (hg_executionRunId g0) = Some r" and nxt: "nxt = r\<lparr>xr_state := ''cancelled'', xr_completedAt := Some now\<rparr>"
      and runs: "co_runs ?c' = mset_at (xr_id r) nxt (co_runs c)" and calls: "co_calls ?c' = co_calls c"
    have id: "xr_id r = hg_executionRunId g0" "xr_id r \<noteq> []" using keyed[OF r] by simp_all
    have rg: "run_get ?c' = (run_get c)(xr_id r := Some nxt)" by (rule run_get_fun[OF runs])
    have nc: "xr_id r \<notin> set (co_calls c)"
      using called_okD(2)[OF c(3) _ g0(1)] g0(2) id(1) by fastforce
    have "runs_keyed ?c'" using runs_keyed_set[OF c(1), of ?c' nxt] runs nxt id by simp
    moreover have "gates_bound ?c'" by (rule gates_bound_update[OF c(2) g0(1) upd]) (simp add: rg)
    moreover have "called_ok ?c'"
    proof (rule called_okI)
      show "distinct (co_calls ?c')" using c(3) calls by (simp add: called_ok_def)
    next
      fix k assume k: "k \<in> set (co_calls ?c')"
      with nc calls have "k \<noteq> xr_id r" by metis
      with called_okD(1)[OF c(3)] k calls show "\<exists>r. run_get ?c' k = Some r \<and> (xr_state r \<in> {''active'', ''result_observed''} \<or> uncertain r)"
        by (simp add: rg)
    next
      fix k j h assume k: "k \<in> set (co_calls ?c')" and h: "mget (co_gates ?c') j = Some h" "hg_executionRunId h = k"
      from upd have m: "mget (co_gates ?c') = (mget (co_gates c))(hg_id g0 := Some g)" "hg_executionRunId g = xr_id r"
        using id by (simp_all add: gate_updated_def)
      have "j \<noteq> hg_id g0"
      proof
        assume "j = hg_id g0"
        with h m have "k = xr_id r" by simp
        with k calls nc show False by simp
      qed
      with m h have "mget (co_gates c) j = Some h" by simp
      from called_okD(2)[OF c(3) _ this h(2)] k calls show "hg_state h = ''approved''" by simp
    qed
    moreover have "inflight_ok ?c' fl"
    proof -
      have "xr_id x \<noteq> xr_id r" if "x \<in> set fl" for x using inflight_okD[OF c(4) that] nc by metis
      with c(4) calls show ?thesis by (simp add: inflight_ok_def rg)
    qed
    ultimately show ?thesis by (simp add: core_ok_def)
  qed
qed

lemma core_ok_approve:
  assumes ok: "core_ok c fl" and ap: "approveHumanGate_begin now rv i c = (c', x)"
  shows "core_ok c' (case x of Inr (Started run _) \<Rightarrow> fl @ [run] | _ \<Rightarrow> fl)"
proof -
  have c: "runs_keyed c" "gates_bound c" "called_ok c" "inflight_ok c fl" using ok by (simp_all add: core_ok_def)
  have gok: "gates_ok (co_gates c)" using c(2) by (simp add: gates_bound_def)
  have keyed: "\<And>k r. run_get c k = Some r \<Longrightarrow> xr_id r = k \<and> k \<noteq> []" using c(1) by (simp add: runs_keyed_def)
  show ?thesis
  proof (rule approve_begin_shape[OF gok keyed, of now rv i])
    fix x' assume "approveHumanGate_begin now rv i c = (c, x')" and ns: "\<And>run g. x' \<noteq> Inr (Started run g)"
    with ap have "c' = c" "x = x'" by simp_all
    with ns ok show ?thesis by (auto split: sum.split approval.split)
  next
    fix c1 g0 g r run
    assume a: "approveHumanGate_begin now rv i c = (c1, Inr (Started run g))"
      and g0: "mget (co_gates c) i = Some g0" and upd: "gate_updated g0 g ''approved'' c c1"
      and r: "run_get c (hg_executionRunId g0) = Some r" "xr_state r = ''waiting_human''" "\<not> uncertain r"
      and run: "run = r\<lparr>xr_state := ''active'', xr_startedAt := Some now\<rparr>"
      and runs: "co_runs c1 = mset_at (xr_id r) run (co_runs c)" and calls: "co_calls c1 = co_calls c @ [xr_id r]"
    have id: "xr_id r = hg_executionRunId g0" "xr_id r \<noteq> []" "xr_id run = xr_id r" using keyed[OF r(1)] run by simp_all
    have rg: "run_get c1 = (run_get c)(xr_id r := Some run)" by (rule run_get_fun[OF runs])
    have nc: "xr_id r \<notin> set (co_calls c)"
      using called_okD(1)[OF c(3), of "xr_id r"] r id(1) by auto
    have "runs_keyed c1" using runs_keyed_set[OF c(1), of c1 run] runs id by simp
    moreover have "gates_bound c1" by (rule gates_bound_update[OF c(2) g0 upd]) (simp add: rg)
    moreover have "called_ok c1"
    proof (rule called_okI)
      show "distinct (co_calls c1)" using c(3) calls nc by (simp add: called_ok_def)
    next
      fix k assume k: "k \<in> set (co_calls c1)"
      show "\<exists>r. run_get c1 k = Some r \<and> (xr_state r \<in> {''active'', ''result_observed''} \<or> uncertain r)"
      proof (cases "k = xr_id r")
        case True then show ?thesis by (simp add: rg run)
      next
        case False
        with called_okD(1)[OF c(3)] k calls show ?thesis by (simp add: rg)
      qed
    next
      fix k j h assume k: "k \<in> set (co_calls c1)" and h: "mget (co_gates c1) j = Some h" "hg_executionRunId h = k"
      from upd have m: "mget (co_gates c1) = (mget (co_gates c))(hg_id g0 := Some g)" "hg_state g = ''approved''"
        by (simp_all add: gate_updated_def)
      have i: "hg_id g0 = i" by (rule gates_boundD(1)[OF c(2) g0])
      show "hg_state h = ''approved''"
      proof (cases "j = i")
        case True with h m i show ?thesis by simp
      next
        case False
        with h m i have hj: "mget (co_gates c) j = Some h" by simp
        then have "k \<noteq> xr_id r" using gates_boundD(3)[OF c(2) g0 hj] h(2) id(1) False by auto
        with k calls called_okD(2)[OF c(3) _ hj h(2)] show ?thesis by simp
      qed
    qed
    moreover have "inflight_ok c1 (fl @ [run])"
    proof -
      have "xr_id x \<noteq> xr_id r" if "x \<in> set fl" for x using inflight_okD[OF c(4) that] nc by metis
      note diff = this
      have new: "xr_id r \<notin> xr_id ` set fl"
      proof
        assume "xr_id r \<in> xr_id ` set fl"
        then obtain x where x: "xr_id r = xr_id x" "x \<in> set fl" by (rule imageE)
        from diff[OF x(2)] x(1) show False by simp
      qed
      have d: "distinct (map xr_id fl)" using c(4) by (simp add: inflight_ok_def)
      show ?thesis
        unfolding inflight_ok_def
      proof (intro conjI ballI)
        show "distinct (map xr_id (fl @ [run]))" using d new id(3) by simp
      next
        fix x assume "x \<in> set (fl @ [run])"
        then consider "x \<in> set fl" | "x = run" by auto
        then have "run_get c1 (xr_id x) = Some x \<and> xr_state x = ''active'' \<and> xr_id x \<in> set (co_calls c1)"
        proof cases
          case 1
          with inflight_okD[OF c(4) 1] diff[OF 1] show ?thesis by (simp add: rg calls)
        next
          case 2
          then show ?thesis by (simp add: rg calls run)
        qed
        then show "run_get c1 (xr_id x) = Some x" "xr_state x = ''active''" "xr_id x \<in> set (co_calls c1)" by simp_all
      qed
    qed
    ultimately show ?thesis using a ap by (simp add: core_ok_def)
  qed
qed

text \<open>The outcome of a call in flight, or its loss, replaces an active run by a settled or uncertain one.\<close>

lemma core_ok_settle:
  assumes ok: "core_ok c fl" and r: "run_get c (xr_id r) = Some r"
    and runs: "co_runs c' = mset_at (xr_id r) r' (co_runs c)" and id: "xr_id r' = xr_id r"
    and settled: "xr_state r' \<in> {''active'', ''result_observed''} \<or> uncertain r'"
    and same: "mget (co_gates c') = mget (co_gates c)" "co_calls c' = co_calls c"
    and fl': "distinct (map xr_id fl')" "set fl' \<subseteq> set fl" "\<forall>x \<in> set fl'. xr_id x \<noteq> xr_id r"
  shows "core_ok c' fl'"
proof -
  have c: "runs_keyed c" "gates_bound c" "called_ok c" "inflight_ok c fl" using ok by (simp_all add: core_ok_def)
  have ne: "xr_id r \<noteq> []" using runs_keyedD[OF c(1) r] by simp
  have rg: "run_get c' = (run_get c)(xr_id r := Some r')" by (rule run_get_fun[OF runs])
  have "runs_keyed c'" using runs_keyed_set[OF c(1), of c' r'] runs id ne by simp
  moreover have "gates_bound c'" by (rule gates_bound_runs[OF c(2) same(1)]) (simp add: rg)
  moreover have "called_ok c'"
  proof (rule called_okI)
    show "distinct (co_calls c')" using c(3) same by (simp add: called_ok_def)
  next
    fix k assume k: "k \<in> set (co_calls c')"
    then have "k \<in> set (co_calls c)" using same by simp
    from called_okD(1)[OF c(3) this] obtain r0 where
      r0: "run_get c k = Some r0" "xr_state r0 \<in> {''active'', ''result_observed''} \<or> uncertain r0" by blast
    show "\<exists>r. run_get c' k = Some r \<and> (xr_state r \<in> {''active'', ''result_observed''} \<or> uncertain r)"
    proof (cases "k = xr_id r")
      case True
      then have "run_get c' k = Some r'" by (simp add: rg)
      with settled show ?thesis by blast
    next
      case False
      then have "run_get c' k = Some r0" using r0 by (simp add: rg)
      with r0(2) show ?thesis by blast
    qed
  next
    fix k j g assume "k \<in> set (co_calls c')" "mget (co_gates c') j = Some g" "hg_executionRunId g = k"
    with called_okD(2)[OF c(3)] same show "hg_state g = ''approved''" by simp
  qed
  moreover have "inflight_ok c' fl'"
    unfolding inflight_ok_def
  proof (intro conjI ballI)
    fix x assume x: "x \<in> set fl'"
    with fl'(2,3) inflight_okD[OF c(4), of x] same show "run_get c' (xr_id x) = Some x" "xr_state x = ''active''" "xr_id x \<in> set (co_calls c')"
      by (auto simp: rg)
  qed (rule fl'(1))
  ultimately show ?thesis by (simp add: core_ok_def)
qed

lemma new_run_keyed:
  assumes "runs_keyed c" "run_get c (er_executionRunId input) = None"
  shows "runs_keyed (fst (request_blocked now input bs c))" and "runs_keyed (fst (request_ready lc now input hg w t c))"
proof -
  let ?b = "blocked_run now input bs"
  show "runs_keyed (fst (request_blocked now input bs c))"
  proof (cases "er_executionRunId input = []")
    case True
    with assms(1) show ?thesis by (simp add: request_blocked_def blocked_run_def save_run_def Let_def)
  next
    case False
    have id: "xr_id ?b = er_executionRunId input" by (simp add: blocked_run_def)
    with False have "co_runs (fst (request_blocked now input bs c)) = mset_at (xr_id ?b) ?b (co_runs c)"
      by (simp add: request_blocked_def bindS_save Let_def)
    from runs_keyed_set[OF assms(1) this] False id show ?thesis by simp
  qed
  show "runs_keyed (fst (request_ready lc now input hg w t c))"
  proof (rule request_ready_shape[of lc now input hg w t c])
    fix locks' ls c1 and g :: gate
    assume acq: "acquireAll lc (ws_id w) (tn_id t) (er_executionRunId input) (er_resources input) now (co_locks c) = Inr (locks', ls)"
      and r: "co_runs c1 = co_runs (reserved_state now input w t hg locks' ls c)"
      and f: "fst (request_ready lc now input hg w t c) = c1 \<or>
       (\<exists>i. fst (request_ready lc now input hg w t c) = c1\<lparr>co_events := append_event
         (cevent_of ''human_gate.requested'' (''gate-request:'' @ i) (er_executionRunId input) (Some i) [] JUndef) (co_events c1)\<rparr>)"
    let ?run = "requested_run now input w t hg"
    have id: "xr_id ?run = er_executionRunId input" by (simp add: requested_run_def)
    from r f have "co_runs (fst (request_ready lc now input hg w t c)) = mset_at (xr_id ?run) ?run (co_runs c)"
      by (auto simp: reserved_state_def Let_def)
    from runs_keyed_set[OF assms(1) this] acquireAll_id[OF acq] id show ?thesis by simp
  qed (simp add: assms(1))
qed

lemma coord_request_cases:
  obtains "fst (coord_request lc legacy now input c) = c"
  | bs where "run_get c (er_executionRunId input) = None" "fst (coord_request lc legacy now input c) = fst (request_blocked now input bs c)"
  | hg w t where "run_get c (er_executionRunId input) = None" "fst (coord_request lc legacy now input c) = fst (request_ready lc now input hg w t c)"
proof (cases "run_get c (er_executionRunId input)")
  case None
  show thesis
  proof (cases "as_array (or_js (er_resources input) (JArr [])) (TypeError ''resources.map is not a function'')")
    case arr: (Inr rs)
    show thesis
    proof (cases "lock_conflicts (co_locks c) rs None")
      case (Inr cf)
      have e: "fst (coord_request lc legacy now input c) = fst (request_new lc legacy now input cf c)"
        using None Inr by (simp add: coord_request_def arr del: as_array_Inr)
      let ?i = "er_ready input\<lparr>ri_resourceConflicts := cf\<rparr>"
      show thesis
      proof (cases "readiness_pushes legacy ?i = []")
        case False
        with e show thesis by (intro that(2)[OF None]) (simp add: request_new_def readiness_Inr)
      next
        case True
        show thesis
        proof (cases "ri_workspace (er_ready input)")
          case None
          with e True show thesis by (intro that(1)) (simp add: request_new_def readiness_Inr)
        next
          case w: (Some w)
          show thesis
          proof (cases "ri_task (er_ready input)")
            case None
            with e True w show thesis by (intro that(1)) (simp add: request_new_def readiness_Inr)
          next
            case (Some t)
            with e True w show thesis by (intro that(3)[OF None]) (simp add: request_new_def readiness_Inr)
          qed
        qed
      qed
    qed (use None that(1) in \<open>simp add: coord_request_def arr del: as_array_Inr\<close>)
  qed (use None that(1) in \<open>simp add: coord_request_def\<close>)
qed (use that(1) in \<open>simp add: coord_request_def\<close>)

lemma core_ok_request:
  assumes "core_ok c fl"
  shows "core_ok (fst (coord_request lc legacy now input c)) fl"
proof -
  have k: "runs_keyed c" using assms by (simp add: core_ok_def)
  show ?thesis
  proof (rule coord_request_cases[of lc legacy now input c])
    assume "fst (coord_request lc legacy now input c) = c" with assms show ?thesis by simp
  next
    fix bs assume "run_get c (er_executionRunId input) = None"
      "fst (coord_request lc legacy now input c) = fst (request_blocked now input bs c)"
    with request_blocked_new[of c input now bs] new_run_keyed(1)[OF k] core_ok_new_run[OF assms] assms
    show ?thesis by metis
  next
    fix hg w t assume "run_get c (er_executionRunId input) = None"
      "fst (coord_request lc legacy now input c) = fst (request_ready lc now input hg w t c)"
    with request_ready_new[of c input lc now hg w t] new_run_keyed(2)[OF k] core_ok_new_run[OF assms] assms
    show ?thesis by metis
  qed
qed

lemma core_ok_finish:
  assumes ok: "core_ok c fl" and n: "n < length fl"
  shows "core_ok (fst (approve_finish now (fl ! n) outcome c)) (take n fl @ drop (Suc n) fl)"
proof -
  let ?r = "fl ! n"
  have fl: "inflight_ok c fl" using ok by (simp add: core_ok_def)
  from inflight_okD[OF this nth_mem[OF n]] have r: "run_get c (xr_id ?r) = Some ?r" by simp
  have k: "runs_keyed c" using ok by (simp add: core_ok_def)
  from runs_keyedD[OF k r] have ne: "xr_id ?r \<noteq> []" by simp
  have split: "fl = take n fl @ ?r # drop (Suc n) fl" using n by (rule id_take_nth_drop)
  have d: "distinct (map xr_id (take n fl @ ?r # drop (Suc n) fl))" using fl split by (simp add: inflight_ok_def)
  have d1: "distinct (map xr_id (take n fl @ drop (Suc n) fl))" using d by simp
  have d2: "set (take n fl @ drop (Suc n) fl) \<subseteq> set fl" using set_take_subset[of n fl] set_drop_subset[of "Suc n" fl] by auto
  have d3: "\<forall>x \<in> set (take n fl @ drop (Suc n) fl). xr_id x \<noteq> xr_id ?r"
  proof
    fix x assume "x \<in> set (take n fl @ drop (Suc n) fl)"
    then have "xr_id x \<in> xr_id ` set (take n fl) \<union> xr_id ` set (drop (Suc n) fl)" by auto
    moreover have "xr_id ?r \<notin> xr_id ` set (take n fl) \<union> xr_id ` set (drop (Suc n) fl)" using d by simp
    ultimately show "xr_id x \<noteq> xr_id ?r" by metis
  qed
  show ?thesis
  proof (cases outcome)
    case (Inl e)
    show ?thesis unfolding Inl approve_finish_failed[OF ne]
      by (rule core_ok_settle[OF ok r _ _ _ _ _ d1 d2 d3, where r' = "?r\<lparr>xr_state := ''waiting_human'',
            xr_recoveryReason := Some ''execution_uncertain_requires_review''\<rparr>"]) (simp_all add: uncertain_def)
  next
    case (Inr x)
    show ?thesis unfolding Inr approve_finish_ok[OF ne] Let_def
      by (rule core_ok_settle[OF ok r _ _ _ _ _ d1 d2 d3, where r' = "?r\<lparr>xr_state := ''result_observed'',
            xr_execution := x, xr_completedAt := Some now\<rparr>"]) simp_all
  qed
qed

lemma core_ok_drop: "core_ok c fl \<Longrightarrow> core_ok c []"
  by (simp add: core_ok_def inflight_ok_def)

lemma core_ok_locks: "core_ok c fl \<Longrightarrow> core_ok (c\<lparr>co_locks := ls\<rparr>) fl"
  by (simp add: core_ok_def runs_keyed_def gates_bound_def called_ok_def inflight_ok_def)

lemma core_ok_recover:
  "core_ok c [] \<Longrightarrow> \<forall>r \<in> set rs. run_get c (xr_id r) = Some r \<Longrightarrow> distinct (map xr_id rs) \<Longrightarrow>
     core_ok (fold recover_one rs c) []"
proof (induction rs arbitrary: c)
  case (Cons r rs)
  have r: "run_get c (xr_id r) = Some r" using Cons.prems(2) by simp
  show ?case
  proof (cases "xr_state r = ''active''")
    case True
    let ?c' = "recover_one r c"
    have runs: "co_runs ?c' = mset_at (xr_id r) (parked r) (co_runs c)" using True by (simp add: recover_one_def)
    have "core_ok ?c' []"
      by (rule core_ok_settle[OF Cons.prems(1) r runs]) (simp_all add: parked_def uncertain_def recover_one_def)
    moreover have "\<forall>x \<in> set rs. run_get ?c' (xr_id x) = Some x"
    proof
      fix x assume x: "x \<in> set rs"
      with Cons.prems(3) have "xr_id x \<noteq> xr_id r" by (metis distinct.simps(2) image_eqI list.map(2) list.set_map)
      with Cons.prems(2) x show "run_get ?c' (xr_id x) = Some x" by (simp add: run_get_fun[OF runs])
    qed
    ultimately show ?thesis using Cons.IH[of ?c'] Cons.prems(3) by simp
  qed (use Cons in \<open>simp add: recover_one_def\<close>)
qed simp

lemma runs_listed:
  assumes "runs_keyed c"
  shows "\<forall>r \<in> set (mvalues (co_runs c)). run_get c (xr_id r) = Some r" and "distinct (map xr_id (mvalues (co_runs c)))"
proof -
  have d: "distinct (map fst (co_runs c))" using assms by (simp add: runs_keyed_def)
  have k: "xr_id (snd kr) = fst kr" if "kr \<in> set (co_runs c)" for kr
  proof -
    have "map_of (co_runs c) (fst kr) = Some (snd kr)" using that d by (simp add: map_of_is_SomeI)
    then show ?thesis using runs_keyedD[OF assms] by (simp add: run_get_def mget_def)
  qed
  then have e: "map xr_id (mvalues (co_runs c)) = map fst (co_runs c)" by (simp add: mvalues_def)
  then show "distinct (map xr_id (mvalues (co_runs c)))" using d by simp
  show "\<forall>r \<in> set (mvalues (co_runs c)). run_get c (xr_id r) = Some r"
  proof
    fix r assume "r \<in> set (mvalues (co_runs c))"
    then obtain k0 where "run_get c k0 = Some r" using mvalues_mget[OF d] by (auto simp: run_get_def)
    with runs_keyedD[OF assms this] show "run_get c (xr_id r) = Some r" by simp
  qed
qed

lemma core_ok_restart:
  assumes "core_ok c fl"
  shows "core_ok (fst (coord_recoverUncertain (c\<lparr>co_locks := ls\<rparr>))) []"
proof -
  let ?c = "c\<lparr>co_locks := ls\<rparr>"
  have ok: "core_ok ?c []" using core_ok_drop[OF core_ok_locks[OF assms]] .
  then have k: "runs_keyed ?c" by (simp add: core_ok_def)
  have "\<forall>r \<in> set (mvalues (co_runs ?c)). xr_id r \<noteq> []" using runs_listed(1)[OF k] runs_keyedD[OF k] by metis
  then have "fst (coord_recoverUncertain ?c) = fold recover_one (mvalues (co_runs ?c)) ?c"
    by (simp add: coord_recoverUncertain_def recover_runs_fold)
  with core_ok_recover[OF ok runs_listed[OF k]] show ?thesis by simp
qed

definition service_ok :: "service \<Rightarrow> bool" where
  "service_ok s \<longleftrightarrow> core_ok (sv_coord s) (sv_inflight s)"

lemma service_step_ok:
  assumes "service_ok s"
  shows "service_ok (service_step lc legacy now oper s)"
proof (cases oper)
  case (RequestRun input)
  with assms core_ok_request show ?thesis by (simp add: service_ok_def service_step_def)
next
  case (ApproveGate g rv)
  obtain c' x where x: "approveHumanGate_begin now rv g (sv_coord s) = (c', x)" by fastforce
  note a = core_ok_approve[OF assms[unfolded service_ok_def] x]
  show ?thesis
  proof (cases x)
    case (Inr y)
    with a show ?thesis by (cases y) (simp_all add: service_ok_def service_step_def ApproveGate x)
  qed (use a in \<open>simp add: service_ok_def service_step_def ApproveGate x\<close>)
next
  case (RuntimeAnswers n o1)
  with assms core_ok_finish show ?thesis by (simp add: service_ok_def service_step_def)
next
  case (RejectGate g)
  with assms core_ok_reject show ?thesis by (simp add: service_ok_def service_step_def)
next
  case RestartService
  with assms core_ok_restart show ?thesis by (simp add: service_ok_def service_step_def split: sum.split)
qed

lemma service_init_ok: "service_ok service_init"
  by (simp add: service_ok_def service_init_def core_ok_def runs_keyed_def gates_bound_def gates_ok_def called_ok_def
      inflight_ok_def run_get_def)

lemma service_run_ok: "service_ok (service_run lc legacy ops)"
proof -
  have "service_ok (fold (\<lambda>(now, oper). service_step lc legacy now oper) ops s)" if "service_ok s" for s
    using that by (induction ops arbitrary: s) (auto simp: service_step_ok)
  then show ?thesis by (simp add: service_run_def service_init_ok)
qed

text \<open>
  What a step does to the calls and to the approved gates: nothing, or it approves an open gate
  whose run waits, and calls the runtime for that run.
\<close>

definition approves :: "service \<Rightarrow> service \<Rightarrow> string \<Rightarrow> (exec_run \<Rightarrow> js_error option) \<Rightarrow> gate \<Rightarrow> exec_run \<Rightarrow> gate \<Rightarrow> bool" where
  "approves s s' j rv g0 r g \<longleftrightarrow>
     mget (co_gates (sv_coord s)) j = Some g0 \<and> hg_state g0 \<in> {''requested'', ''approved''} \<and>
     run_get (sv_coord s) (hg_executionRunId g0) = Some r \<and>
     xr_state r = ''waiting_human'' \<and> \<not> uncertain r \<and> rv r = None \<and>
     hg_executionRunId g = hg_executionRunId g0 \<and> hg_state g = ''approved'' \<and>
     mget (co_gates (sv_coord s')) = (mget (co_gates (sv_coord s)))(j := Some g) \<and>
     co_calls (sv_coord s') = co_calls (sv_coord s) @ [hg_executionRunId g0]"

definition calls_nothing :: "service \<Rightarrow> service \<Rightarrow> bool" where
  "calls_nothing s s' \<longleftrightarrow> co_calls (sv_coord s') = co_calls (sv_coord s) \<and>
     (\<forall>j g. mget (co_gates (sv_coord s')) j = Some g \<longrightarrow> hg_state g = ''approved'' \<longrightarrow> mget (co_gates (sv_coord s)) j = Some g)"

lemma calls_nothingI:
  assumes "co_calls (sv_coord s') = co_calls (sv_coord s)"
    and "mget (co_gates (sv_coord s')) = mget (co_gates (sv_coord s)) \<or>
      (\<exists>i g. mget (co_gates (sv_coord s')) = (mget (co_gates (sv_coord s)))(i := Some g) \<and> hg_state g \<noteq> ''approved'')"
  shows "calls_nothing s s'"
  using assms unfolding calls_nothing_def by (auto split: if_splits)

lemma recover_fold_same: "co_calls (fold recover_one rs c) = co_calls c \<and> co_gates (fold recover_one rs c) = co_gates c"
  by (induction rs arbitrary: c) (simp_all add: recover_one_def)

lemma finish_same:
  assumes "xr_id run \<noteq> []"
  shows "co_calls (fst (approve_finish now run x c)) = co_calls c" and "co_gates (fst (approve_finish now run x c)) = co_gates c"
  by (cases x; simp add: approve_finish_ok[OF assms] approve_finish_failed[OF assms] Let_def)+

lemma request_calls_nothing:
  assumes "sv_coord s' = fst (coord_request lc legacy now input (sv_coord s))"
  shows "calls_nothing s s'"
  using coord_request_new[of lc legacy now input "sv_coord s"]
proof
  assume "fst (coord_request lc legacy now input (sv_coord s)) = sv_coord s"
  with assms show ?thesis by (intro calls_nothingI) simp_all
next
  assume "new_run (sv_coord s) (fst (coord_request lc legacy now input (sv_coord s)))"
  then obtain g where "co_calls (sv_coord s') = co_calls (sv_coord s)"
    "mget (co_gates (sv_coord s')) = mget (co_gates (sv_coord s)) \<or>
      (mget (co_gates (sv_coord s')) = (mget (co_gates (sv_coord s)))(hg_id g := Some g) \<and> hg_state g = ''requested'')"
    unfolding new_run_def assms by blast
  then show ?thesis by (intro calls_nothingI) auto
qed

lemma restart_calls_nothing:
  assumes "service_ok s"
  shows "calls_nothing s (service_step lc legacy now RestartService s)"
proof (cases "rehydrateLocks lc (sv_coord s)")
  case (Inl e)
  then show ?thesis by (intro calls_nothingI) (simp_all add: service_step_def)
next
  case (Inr locks)
  let ?c = "(sv_coord s)\<lparr>co_locks := locks\<rparr>"
  have "core_ok ?c []" using core_ok_drop[OF core_ok_locks] assms by (simp add: service_ok_def)
  then have k: "runs_keyed ?c" by (simp add: core_ok_def)
  have "\<forall>r \<in> set (mvalues (co_runs ?c)). xr_id r \<noteq> []" using runs_listed(1)[OF k] runs_keyedD[OF k] by metis
  then have "fst (coord_recoverUncertain ?c) = fold recover_one (mvalues (co_runs ?c)) ?c"
    by (simp add: coord_recoverUncertain_def recover_runs_fold)
  then have "sv_coord (service_step lc legacy now RestartService s) = fold recover_one (mvalues (co_runs ?c)) ?c"
    by (simp add: service_step_def Inr)
  with recover_fold_same[of "mvalues (co_runs ?c)" ?c] show ?thesis by (intro calls_nothingI) simp_all
qed

lemma service_step_calls:
  assumes ok: "service_ok s"
  obtains "calls_nothing s (service_step lc legacy now oper s)"
  | j rv g0 r g where "oper = ApproveGate j rv" "approves s (service_step lc legacy now oper s) j rv g0 r g"
proof (cases oper)
  case (RequestRun input)
  have "sv_coord (service_step lc legacy now oper s) = fst (coord_request lc legacy now input (sv_coord s))"
    by (simp add: service_step_def RequestRun)
  from that(1)[OF request_calls_nothing[OF this]] show thesis .
next
  case (ApproveGate j rv)
  have c: "runs_keyed (sv_coord s)" "gates_bound (sv_coord s)" using ok by (simp_all add: service_ok_def core_ok_def)
  have gok: "gates_ok (co_gates (sv_coord s))" using c(2) by (simp add: gates_bound_def)
  show thesis
  proof (rule approve_begin_shape[OF gok runs_keyedD[OF c(1)], of now rv j])
    fix x assume "approveHumanGate_begin now rv j (sv_coord s) = (sv_coord s, x)" "\<And>run g. x \<noteq> Inr (Started run g)"
    then have "sv_coord (service_step lc legacy now oper s) = sv_coord s"
      by (auto simp: service_step_def ApproveGate split: sum.split approval.split)
    then show thesis by (intro that(1) calls_nothingI) simp_all
  next
    fix c' g0 g r run
    assume "approveHumanGate_begin now rv j (sv_coord s) = (c', Inr (Started run g))"
      and g: "mget (co_gates (sv_coord s)) j = Some g0" "hg_state g0 \<in> {''requested'', ''approved''}" "gate_updated g0 g ''approved'' (sv_coord s) c'"
      and r: "run_get (sv_coord s) (hg_executionRunId g0) = Some r" "xr_state r = ''waiting_human''" "\<not> uncertain r" "rv r = None"
      and calls: "co_calls c' = co_calls (sv_coord s) @ [xr_id r]"
    then have s': "sv_coord (service_step lc legacy now oper s) = c'" by (simp add: service_step_def ApproveGate)
    have "xr_id r = hg_executionRunId g0" "hg_id g0 = j"
      using runs_keyedD[OF c(1) r(1)] gates_boundD(1)[OF c(2) g(1)] by simp_all
    with g r calls s' have "approves s (service_step lc legacy now oper s) j rv g0 r g"
      by (simp add: approves_def gate_updated_def)
    from that(2)[OF ApproveGate this] show thesis .
  qed
next
  case (RuntimeAnswers n x)
  show thesis
  proof (cases "n < length (sv_inflight s)")
    case True
    have "inflight_ok (sv_coord s) (sv_inflight s)" "runs_keyed (sv_coord s)"
      using ok by (simp_all add: service_ok_def core_ok_def)
    with inflight_okD nth_mem[OF True] runs_keyedD have "xr_id (sv_inflight s ! n) \<noteq> []" by metis
    from finish_same[OF this] True show thesis
      by (intro that(1) calls_nothingI) (simp_all add: service_step_def RuntimeAnswers)
  qed (intro that(1) calls_nothingI; simp add: service_step_def RuntimeAnswers)
next
  case (RejectGate i)
  have c: "runs_keyed (sv_coord s)" "gates_bound (sv_coord s)" using ok by (simp_all add: service_ok_def core_ok_def)
  have gok: "gates_ok (co_gates (sv_coord s))" using c(2) by (simp add: gates_bound_def)
  have s': "sv_coord (service_step lc legacy now oper s) = fst (coord_reject now i (sv_coord s))"
    by (simp add: service_step_def RejectGate)
  show thesis
  proof (rule coord_reject_shape[OF gok runs_keyedD[OF c(1)] gates_boundD(2)[OF c(2)], where now = now and i = i])
    assume "fst (coord_reject now i (sv_coord s)) = sv_coord s"
    with s' show thesis by (intro that(1) calls_nothingI) simp_all
  next
    fix g0 g assume "gate_updated g0 g ''rejected'' (sv_coord s) (fst (coord_reject now i (sv_coord s)))"
      "co_calls (fst (coord_reject now i (sv_coord s))) = co_calls (sv_coord s)"
    then have "co_calls (fst (coord_reject now i (sv_coord s))) = co_calls (sv_coord s)"
      "mget (co_gates (fst (coord_reject now i (sv_coord s)))) = (mget (co_gates (sv_coord s)))(hg_id g0 := Some g)"
      "hg_state g \<noteq> ''approved''" by (simp_all add: gate_updated_def)
    with s' show thesis by (intro that(1) calls_nothingI) auto
  qed
next
  case RestartService
  with restart_calls_nothing[OF ok] that(1) show thesis by blast
qed

lemma service_run_snoc: "service_run lc legacy (ops @ [(now, oper)]) = service_step lc legacy now oper (service_run lc legacy ops)"
  by (simp add: service_run_def)

text \<open>A gate is approved only together with a call of its run.\<close>

lemma approved_gates_called:
  "mget (co_gates (sv_coord (service_run lc legacy ops))) j = Some g \<Longrightarrow> hg_state g = ''approved'' \<Longrightarrow>
     hg_executionRunId g \<in> set (co_calls (sv_coord (service_run lc legacy ops)))"
proof (induction ops arbitrary: j g rule: rev_induct)
  case Nil
  then show ?case by (simp add: service_run_def service_init_def)
next
  case (snoc x ops)
  obtain now oper where x: "x = (now, oper)" by (cases x)
  let ?s = "service_run lc legacy ops"
  show ?case
  proof (rule service_step_calls[OF service_run_ok, of lc legacy ops lc legacy now oper])
    assume "calls_nothing ?s (service_step lc legacy now oper ?s)"
    then have same: "co_calls (sv_coord (service_step lc legacy now oper ?s)) = co_calls (sv_coord ?s)"
      "\<And>j g. mget (co_gates (sv_coord (service_step lc legacy now oper ?s))) j = Some g \<Longrightarrow> hg_state g = ''approved'' \<Longrightarrow>
         mget (co_gates (sv_coord ?s)) j = Some g" by (simp_all add: calls_nothing_def)
    from snoc.prems have "mget (co_gates (sv_coord ?s)) j = Some g" by (intro same(2)) (simp_all add: x service_run_snoc)
    from snoc.IH[OF this snoc.prems(2)] show ?thesis by (simp add: x service_run_snoc same(1))
  next
    fix i rv g0 r h assume "approves ?s (service_step lc legacy now oper ?s) i rv g0 r h"
    with snoc show ?thesis by (cases "j = i") (auto simp: x service_run_snoc approves_def)
  qed
qed

text \<open>An approval that calls the runtime found its gate open.\<close>

lemma approval_found_open:
  assumes "approves (service_run lc legacy pre) s' j rv g0 r g"
  shows "hg_state g0 = ''requested''"
proof (rule ccontr)
  let ?c = "sv_coord (service_run lc legacy pre)"
  assume "hg_state g0 \<noteq> ''requested''"
  with assms have g0: "mget (co_gates ?c) j = Some g0" "hg_state g0 = ''approved''" by (auto simp: approves_def)
  have ok: "called_ok ?c" using service_run_ok[of lc legacy pre] by (simp add: service_ok_def core_ok_def)
  from called_okD(1)[OF ok approved_gates_called[OF g0]] assms show False by (auto simp: approves_def)
qed

text \<open>Every called run was called by an approval in the history.\<close>

lemma called_by_approval:
  "k \<in> set (co_calls (sv_coord (service_run lc legacy ops))) \<Longrightarrow>
    \<exists>pre now j rv post g0 r g. ops = pre @ (now, ApproveGate j rv) # post \<and> hg_executionRunId g0 = k \<and>
      approves (service_run lc legacy pre) (service_run lc legacy (pre @ [(now, ApproveGate j rv)])) j rv g0 r g"
proof (induction ops rule: rev_induct)
  case Nil
  then show ?case by (simp add: service_run_def service_init_def)
next
  case (snoc x ops)
  obtain now oper where x: "x = (now, oper)" by (cases x)
  let ?s = "service_run lc legacy ops"
  have old: ?case if "k \<in> set (co_calls (sv_coord ?s))"
  proof -
    from snoc.IH[OF that] obtain pre now j rv post g0 r g where
      "ops = pre @ (now, ApproveGate j rv) # post" "hg_executionRunId g0 = k"
      "approves (service_run lc legacy pre) (service_run lc legacy (pre @ [(now, ApproveGate j rv)])) j rv g0 r g" by blast
    then show ?thesis by (intro exI[of _ pre] exI[of _ now] exI[of _ j] exI[of _ rv] exI[of _ "post @ [x]"]) auto
  qed
  show ?case
  proof (rule service_step_calls[OF service_run_ok, of lc legacy ops lc legacy now oper])
    assume "calls_nothing ?s (service_step lc legacy now oper ?s)"
    with snoc.prems old show ?thesis by (simp add: x service_run_snoc calls_nothing_def)
  next
    fix j rv g0 r g assume a: "oper = ApproveGate j rv" "approves ?s (service_step lc legacy now oper ?s) j rv g0 r g"
    show ?thesis
    proof (cases "k \<in> set (co_calls (sv_coord ?s))")
      case False
      with snoc.prems a have "hg_executionRunId g0 = k" by (auto simp: x service_run_snoc approves_def)
      with a show ?thesis
        by (intro exI[of _ ops] exI[of _ now] exI[of _ j] exI[of _ rv] exI[of _ "[]"]) (auto simp: x service_run_snoc)
    qed (rule old)
  qed
qed

text \<open>
  C1: Whatever requests, approvals, outcomes, rejections and restarts happen, in any order and
  with other operations between the call of the runtime and its answer, the runtime is called
  at most once for each execution run.  Each call was made by an approval in the history that
  found a gate of this very run, still open, and the run waiting for it, neither recovered nor
  uncertain, and passed by the revalidator; the approval approved that gate and appended the call.
  And no gate that is bound to a called run is in any state but approved.
\<close>

theorem runtime_called_at_most_once:
  "distinct (co_calls (sv_coord (service_run lc legacy ops))) \<and>
   (\<forall>k. k \<in> set (co_calls (sv_coord (service_run lc legacy ops))) \<longrightarrow>
      (\<exists>pre now j rv post g0 r g. ops = pre @ (now, ApproveGate j rv) # post \<and>
         mget (co_gates (sv_coord (service_run lc legacy pre))) j = Some g0 \<and>
         hg_executionRunId g0 = k \<and> hg_state g0 = ''requested'' \<and>
         run_get (sv_coord (service_run lc legacy pre)) k = Some r \<and> xr_state r = ''waiting_human'' \<and>
         \<not> uncertain r \<and> rv r = None \<and>
         mget (co_gates (sv_coord (service_run lc legacy (pre @ [(now, ApproveGate j rv)])))) j = Some g \<and>
         hg_executionRunId g = k \<and> hg_state g = ''approved'' \<and>
         co_calls (sv_coord (service_run lc legacy (pre @ [(now, ApproveGate j rv)]))) =
           co_calls (sv_coord (service_run lc legacy pre)) @ [k]) \<and>
      (\<forall>j g. mget (co_gates (sv_coord (service_run lc legacy ops))) j = Some g \<longrightarrow> hg_executionRunId g = k \<longrightarrow>
         hg_state g = ''approved''))"
proof (intro conjI allI impI)
  have ok: "called_ok (sv_coord (service_run lc legacy ops))"
    using service_run_ok[of lc legacy ops] by (simp add: service_ok_def core_ok_def)
  then show "distinct (co_calls (sv_coord (service_run lc legacy ops)))" by (simp add: called_ok_def)
  fix k assume k: "k \<in> set (co_calls (sv_coord (service_run lc legacy ops)))"
  show "hg_state g = ''approved''" if "mget (co_gates (sv_coord (service_run lc legacy ops))) j = Some g"
    "hg_executionRunId g = k" for j g using called_okD(2)[OF ok k that] .
  from called_by_approval[OF k] obtain pre now j rv post g0 r g where
    h: "ops = pre @ (now, ApproveGate j rv) # post" "hg_executionRunId g0 = k"
      "approves (service_run lc legacy pre) (service_run lc legacy (pre @ [(now, ApproveGate j rv)])) j rv g0 r g" by blast
  note open_gate = approval_found_open[OF h(3)]
  show "\<exists>pre now j rv post g0 r g. ops = pre @ (now, ApproveGate j rv) # post \<and>
         mget (co_gates (sv_coord (service_run lc legacy pre))) j = Some g0 \<and>
         hg_executionRunId g0 = k \<and> hg_state g0 = ''requested'' \<and>
         run_get (sv_coord (service_run lc legacy pre)) k = Some r \<and> xr_state r = ''waiting_human'' \<and>
         \<not> uncertain r \<and> rv r = None \<and>
         mget (co_gates (sv_coord (service_run lc legacy (pre @ [(now, ApproveGate j rv)])))) j = Some g \<and>
         hg_executionRunId g = k \<and> hg_state g = ''approved'' \<and>
         co_calls (sv_coord (service_run lc legacy (pre @ [(now, ApproveGate j rv)]))) =
           co_calls (sv_coord (service_run lc legacy pre)) @ [k]"
    by (rule exI[of _ pre], rule exI[of _ now], rule exI[of _ j], rule exI[of _ rv], rule exI[of _ post],
        rule exI[of _ g0], rule exI[of _ r], rule exI[of _ g]) (use h open_gate in \<open>simp add: approves_def\<close>)
qed

definition sample_request :: exec_request where
  "sample_request = \<lparr>er_executionRunId = ''r1'', er_gateId = JStr ''g1'', er_ready = sample_ready, er_workerId = JStr ''w1'',
     er_payload = JStr ''p'', er_actionClass = JStr ''EXTERNAL_WRITE'', er_payloadPreview = JObj [], er_evidenceExpected = JArr [],
     er_resources = JArr [JObj [(''type'', JStr ''profile''), (''key'', JStr ''p1'')]]\<rparr>"

definition sample_ops :: "(string \<times> service_op) list" where
  "sample_ops = [(''t1'', RequestRun sample_request), (''t2'', ApproveGate ''g1'' (\<lambda>_. None)),
     (''t3'', ApproveGate ''g1'' (\<lambda>_. None)), (''t4'', RuntimeAnswers 0 (Inl (Error ''lost''))),
     (''t5'', ApproveGate ''g1'' (\<lambda>_. None)), (''t6'', RestartService), (''t7'', ApproveGate ''g1'' (\<lambda>_. None))]"

lemma sample_calls: "co_calls (sv_coord (service_run (\<lambda>a b. a \<le> b) (\<lambda>_. None) sample_ops)) = [''r1'']"
  by code_simp

lemma sample_gate: "map_option hg_executionRunId (mget (co_gates (sv_coord (service_run (\<lambda>a b. a \<le> b) (\<lambda>_. None) sample_ops))) ''g1'')
    = Some ''r1''"
  by code_simp

theorem runtime_called_at_most_once_witness:
  "co_calls (sv_coord (service_run (\<lambda>a b. a \<le> b) (\<lambda>_. None) sample_ops)) = [''r1''] \<and>
   map_option hg_state (mget (co_gates (sv_coord (service_run (\<lambda>a b. a \<le> b) (\<lambda>_. None) sample_ops))) ''g1'') = Some ''approved''"
proof -
  let ?c = "sv_coord (service_run (\<lambda>a b. a \<le> b) (\<lambda>_. None) sample_ops)"
  have "map_option hg_executionRunId (mget (co_gates ?c) ''g1'') = Some ''r1''" by (rule sample_gate)
  then obtain g where g: "mget (co_gates ?c) ''g1'' = Some g" "hg_executionRunId g = ''r1''" by auto
  have "''r1'' \<in> set (co_calls ?c)" by (simp only: sample_calls list.set insertI1)
  with runtime_called_at_most_once[of "\<lambda>a b. a \<le> b" "\<lambda>_. None" sample_ops] g
  have "hg_state g = ''approved''" by blast
  with g(1) sample_calls show ?thesis by simp
qed

text \<open>
  Without the guard of the service the coordinator itself does replay: after a failed
  outcome its \<open>approve\<close> accepts the same gate again and calls the runtime a second time.
\<close>

definition replayed_coord :: coord where
  "replayed_coord =
    (let c0 = sv_coord service_init;
         c1 = fst (coord_request (\<lambda>a b. a \<le> b) (\<lambda>_. None) ''t1'' sample_request c0);
         (c2, r2) = approve_begin ''t2'' (\<lambda>_. None) ''g1'' c1;
         c3 = (case r2 of Inr (Started run _) \<Rightarrow> fst (approve_finish ''t3'' run (Inl (Error ''lost'')) c2) | _ \<Rightarrow> c2)
     in fst (approve_begin ''t4'' (\<lambda>_. None) ''g1'' c3))"

lemma unguarded_approval_replays: "co_calls replayed_coord = [''r1'', ''r1'']"
  by code_simp

end
