(* ===== verification/CoordinatorLocks.thy ===== *)
theory CoordinatorLocks
  imports CoordinatorSafety
begin

text \<open>
  The reservations of the coordinator: at every moment a run holds exactly the resources its
  \<open>resource.reserved\<close> event lists, as long as it is not finished, and a restart that reads
  the event log takes exactly those locks again.
\<close>

definition collation :: "(string \<Rightarrow> string \<Rightarrow> bool) \<Rightarrow> bool" where
  "collation lc \<longleftrightarrow> (\<forall>a b. lc a b \<or> lc b a) \<and> (\<forall>a b c. lc a b \<longrightarrow> lc b c \<longrightarrow> lc a c)"

definition key_le :: "(string \<Rightarrow> string \<Rightarrow> bool) \<Rightarrow> resource \<Rightarrow> resource \<Rightarrow> bool" where
  "key_le lc a b = lc (rs_normalizedKey a) (rs_normalizedKey b)"

definition RES :: string where "RES = ''resource.reserved''"
definition REL :: string where "REL = ''resource.released''"

definition unfinished_run :: "exec_run \<Rightarrow> bool" where
  "unfinished_run r \<longleftrightarrow> xr_state r \<notin> set FINISHED_RUN_STATES"

definition unfinished :: "(string \<Rightarrow> exec_run option) \<Rightarrow> string \<Rightarrow> bool" where
  "unfinished rg k \<longleftrightarrow> (\<exists>r. rg k = Some r \<and> unfinished_run r)"

definition reserves :: "cevent \<Rightarrow> string \<Rightarrow> string \<Rightarrow> bool" where
  "reserves e k x \<longleftrightarrow> ce_type e = RES \<and> ce_runId e = k \<and> x \<in> lk_normalizedKey ` set (ce_locks e)"

text \<open>The locks of a reservation, read back as resources.\<close>

definition relockable :: "(string \<Rightarrow> string \<Rightarrow> bool) \<Rightarrow> lock list \<Rightarrow> bool" where
  "relockable lc ls \<longleftrightarrow> (\<exists>rs. mapE normalizeResource (map lock_resource_js ls) = Inr rs \<and>
     map rs_normalizedKey rs = map lk_normalizedKey ls \<and> find_duplicate (sort_by (key_le lc) rs) = None)"

definition owner_ok :: "(string \<Rightarrow> exec_run option) \<Rightarrow> string \<Rightarrow> bool" where
  "owner_ok rg k \<longleftrightarrow> (\<exists>r w t. rg k = Some r \<and> xr_id r = k \<and> k \<noteq> [] \<and> xr_workspaceId r = Some w \<and> w \<noteq> [] \<and>
     xr_taskId r = Some t \<and> t \<noteq> [])"

definition events_ok :: "(string \<Rightarrow> string \<Rightarrow> bool) \<Rightarrow> (string \<Rightarrow> exec_run option) \<Rightarrow> cevent list \<Rightarrow> bool" where
  "events_ok lc rg evs \<longleftrightarrow> distinct (map ce_key evs) \<and> (\<forall>e \<in> set evs. rg (ce_runId e) \<noteq> None \<and>
     (\<forall>k. ce_key e = ''reserve:'' @ k \<longrightarrow> ce_type e = RES \<and> ce_runId e = k) \<and>
     (ce_type e = RES \<longrightarrow> ce_key e = ''reserve:'' @ ce_runId e \<and> owner_ok rg (ce_runId e) \<and> relockable lc (ce_locks e)) \<and>
     (ce_type e = REL \<longrightarrow> \<not> unfinished rg (ce_runId e)))"

definition locks_match :: "(string \<Rightarrow> exec_run option) \<Rightarrow> lock_table \<Rightarrow> cevent list \<Rightarrow> bool" where
  "locks_match rg locks evs \<longleftrightarrow> locks_ok locks \<and>
     (\<forall>k x. held_by k x locks \<longleftrightarrow> unfinished rg k \<and> (\<exists>e \<in> set evs. reserves e k x))"

definition lock_inv :: "(string \<Rightarrow> string \<Rightarrow> bool) \<Rightarrow> (string \<Rightarrow> exec_run option) \<Rightarrow> lock_table \<Rightarrow> cevent list \<Rightarrow> bool" where
  "lock_inv lc rg locks evs \<longleftrightarrow> events_ok lc rg evs \<and> locks_match rg locks evs"

definition event_ok :: "(string \<Rightarrow> string \<Rightarrow> bool) \<Rightarrow> (string \<Rightarrow> exec_run option) \<Rightarrow> cevent \<Rightarrow> bool" where
  "event_ok lc rg e \<longleftrightarrow> rg (ce_runId e) \<noteq> None \<and>
     (\<forall>k. ce_key e = ''reserve:'' @ k \<longrightarrow> ce_type e = RES \<and> ce_runId e = k) \<and>
     (ce_type e = RES \<longrightarrow> ce_key e = ''reserve:'' @ ce_runId e \<and> owner_ok rg (ce_runId e) \<and> relockable lc (ce_locks e)) \<and>
     (ce_type e = REL \<longrightarrow> \<not> unfinished rg (ce_runId e))"

lemma event_ok_key: "event_ok lc rg e \<Longrightarrow> reserves e k x \<Longrightarrow> ce_key e = ''reserve:'' @ k"
  unfolding event_ok_def reserves_def by (elim conjE) (drule mp, assumption, simp only:)

lemma event_ok_owner: "event_ok lc rg e \<Longrightarrow> ce_type e = RES \<Longrightarrow> owner_ok rg (ce_runId e) \<and> relockable lc (ce_locks e)"
  unfolding event_ok_def by blast

lemma events_ok_iff: "events_ok lc rg evs \<longleftrightarrow> distinct (map ce_key evs) \<and> (\<forall>e \<in> set evs. event_ok lc rg e)"
  by (simp add: events_ok_def event_ok_def)

lemma events_ok_append:
  assumes "events_ok lc rg evs" "event_ok lc rg e"
  shows "events_ok lc rg (append_event e evs)"
  using assms by (simp add: events_ok_iff append_event_def)

lemma not_reserves: "ce_type e \<noteq> RES \<Longrightarrow> \<not> reserves e k x"
  by (simp add: reserves_def)

lemma set_append_event: "set (append_event e evs) \<subseteq> insert e (set evs)" "set evs \<subseteq> set (append_event e evs)"
  by (auto simp: append_event_def)

lemma reserves_append: "ce_type e \<noteq> RES \<Longrightarrow> (\<exists>x \<in> set (append_event e evs). reserves x k y) \<longleftrightarrow> (\<exists>x \<in> set evs. reserves x k y)"
  using set_append_event(1)[of e evs] set_append_event(2)[of evs e] not_reserves[of e k y] by blast

text \<open>An event that reserves nothing changes nothing.\<close>

lemma lock_inv_event:
  assumes "lock_inv lc rg locks evs" "event_ok lc rg e" "ce_type e \<noteq> RES"
  shows "lock_inv lc rg locks (append_event e evs)"
  using assms unfolding lock_inv_def locks_match_def
  by (simp only: events_ok_append reserves_append simp_thms)

lemma owner_ok_update:
  assumes "rg k = Some r" "xr_id r' = xr_id r" "xr_workspaceId r' = xr_workspaceId r" "xr_taskId r' = xr_taskId r"
  shows "owner_ok (rg(k := Some r')) j \<longleftrightarrow> owner_ok rg j"
  using assms by (cases "j = k") (simp_all add: owner_ok_def)

lemma unfinished_update: "unfinished (rg(k := Some r')) j \<longleftrightarrow> (if j = k then unfinished_run r' else unfinished rg j)"
  by (simp add: unfinished_def)

text \<open>A run that goes on, and a run that ends and releases its locks.\<close>

lemma events_ok_update:
  assumes ev: "events_ok lc rg evs" and r: "rg k = Some r" "xr_id r' = xr_id r" "xr_workspaceId r' = xr_workspaceId r"
      "xr_taskId r' = xr_taskId r" "unfinished_run r' \<longrightarrow> unfinished_run r"
  shows "events_ok lc (rg(k := Some r')) evs"
proof -
  have "event_ok lc (rg(k := Some r')) e" if "e \<in> set evs" for e
  proof -
    have e: "event_ok lc rg e" using ev that by (simp add: events_ok_iff)
    have u: "\<not> unfinished rg (ce_runId e) \<Longrightarrow> \<not> unfinished (rg(k := Some r')) (ce_runId e)"
      using r(1,5) unfolding unfinished_update by (auto simp: unfinished_def split: if_splits)
    have n: "(rg(k := Some r')) (ce_runId e) \<noteq> None" using e by (simp add: event_ok_def)
    show ?thesis using e u n unfolding event_ok_def owner_ok_update[of rg k r r', OF r(1-4)] by blast
  qed
  with ev show ?thesis by (simp add: events_ok_iff)
qed

lemma lock_inv_update:
  assumes "lock_inv lc rg locks evs" "rg k = Some r" "xr_id r' = xr_id r" "xr_workspaceId r' = xr_workspaceId r"
      "xr_taskId r' = xr_taskId r" "unfinished_run r'" "unfinished_run r"
  shows "lock_inv lc (rg(k := Some r')) locks evs"
proof -
  have "unfinished (rg(k := Some r')) j \<longleftrightarrow> unfinished rg j" for j
    using assms(2,6,7) unfolding unfinished_update by (simp add: unfinished_def)
  then show ?thesis
    using assms(1) events_ok_update[of lc rg evs k r r'] assms(2-7)
    unfolding lock_inv_def locks_match_def by simp
qed

lemma lock_inv_finish:
  assumes "lock_inv lc rg locks evs" "rg k = Some r" "xr_id r' = xr_id r" "xr_workspaceId r' = xr_workspaceId r"
      "xr_taskId r' = xr_taskId r" "\<not> unfinished_run r'"
  shows "lock_inv lc (rg(k := Some r')) (fst (releaseAll k now locks)) evs"
proof -
  have l: "locks_ok locks" using assms(1) by (simp add: lock_inv_def locks_match_def)
  have "held_by j x (fst (releaseAll k now locks)) \<longleftrightarrow>
      unfinished (rg(k := Some r')) j \<and> (\<exists>e \<in> set evs. reserves e j x)" for j x
    using assms(1,6) unfolding held_by_releaseAll[OF l] unfinished_update lock_inv_def locks_match_def by simp
  moreover have "events_ok lc (rg(k := Some r')) evs"
    using assms(1,6) by (intro events_ok_update[of lc rg evs k r r'] assms(2-5)) (simp_all add: lock_inv_def)
  ultimately show ?thesis using releaseAll_ok[OF l] by (simp add: lock_inv_def locks_match_def)
qed

lemma lock_inv_new:
  assumes "lock_inv lc rg locks evs" "rg k = None"
  shows "lock_inv lc (rg(k := Some r)) locks evs"
proof -
  have ev: "events_ok lc rg evs" using assms(1) by (simp add: lock_inv_def)
  have ne: "ce_runId e \<noteq> k" if e: "e \<in> set evs" for e
  proof
    assume "ce_runId e = k"
    moreover have "event_ok lc rg e" using ev e by (simp add: events_ok_iff)
    ultimately show False using assms(2) by (simp add: event_ok_def)
  qed
  have "event_ok lc (rg(k := Some r)) e" if e: "e \<in> set evs" for e
  proof -
    have eq: "(rg(k := Some r)) (ce_runId e) = rg (ce_runId e)" using ne[OF e] by simp
    have "event_ok lc rg e" using ev e by (simp add: events_ok_iff)
    then show ?thesis unfolding event_ok_def owner_ok_def unfinished_def eq .
  qed
  then have "events_ok lc (rg(k := Some r)) evs" using ev by (simp add: events_ok_iff)
  moreover have "unfinished (rg(k := Some r)) j \<and> (\<exists>e \<in> set evs. reserves e j x) \<longleftrightarrow>
      unfinished rg j \<and> (\<exists>e \<in> set evs. reserves e j x)" for j x
  proof (cases "j = k")
    case True
    have "\<not> (\<exists>e \<in> set evs. reserves e j x)" using ne True by (auto simp: reserves_def)
    then show ?thesis by blast
  qed (simp add: unfinished_def)
  ultimately show ?thesis using assms(1) by (simp add: lock_inv_def locks_match_def)
qed

text \<open>Acquired locks can be taken again, and their reservation makes them match.\<close>

lemma sort_by_sorted: "sorted_wrt le xs \<Longrightarrow> sort_by le xs = xs"
proof (induction xs)
  case (Cons x xs)
  then show ?case by (cases xs) (auto simp: sort_by_def)
qed simp

lemma sort_by_again: "collation lc \<Longrightarrow> sort_by (key_le lc) (sort_by (key_le lc) rs) = sort_by (key_le lc) rs"
  by (rule sort_by_sorted, rule sorted_sort_by) (auto simp: collation_def key_le_def)

lemma acquired_relockable:
  assumes "collation lc" "acquireAll lc w t run (JArr vs) now locks = Inr (locks', ls)"
  shows "relockable lc ls"
proof (cases "vs = []")
  case True
  with assms(2) have "ls = []" by (auto simp: acquireAll_def)
  then show ?thesis by (simp add: relockable_def)
next
  case False
  obtain rs where rs: "mapE normalizeResource vs = Inr rs"
    and c: "acquire_sorted w t run now locks (sort_by (key_le lc) rs) = Inr (locks', ls)"
    using assms(2) False unfolding acquireAll_def key_le_def
    by (cases "mapE normalizeResource vs") (simp_all add: as_array_def del: mapE_eq_Inr)
  let ?s = "sort_by (key_le lc) rs"
  from c have ls: "ls = map (make_lock w t run now) ?s" and dup: "find_duplicate ?s = None"
    unfolding acquire_sorted_def
    by (cases "find_duplicate ?s"; simp add: Let_def)+
  have "normalizeResource (lock_resource_js (make_lock w t run now r)) = Inr r" if "r \<in> set ?s" for r
  proof -
    from that mapE_all[OF rs] obtain v where "normalizeResource v = Inr r" by auto
    from normalizeResource_Inr[OF this] show ?thesis
      by (cases r) (simp add: normalizeResource_def lock_resource_js_def make_lock_def or_js_def Let_def)
  qed
  then have "mapE normalizeResource (map lock_resource_js ls) = Inr ?s"
    unfolding ls map_map comp_def by (intro mapE_map_id ballI)
  moreover have "map rs_normalizedKey ?s = map lk_normalizedKey ls" by (simp add: ls make_lock_def)
  ultimately show ?thesis using dup unfolding relockable_def by (intro exI[of _ ?s]) (simp add: sort_by_again[OF assms(1)] del: mapE_eq_Inr)
qed

lemma lock_inv_reserve:
  assumes inv: "lock_inv lc rg locks evs" and lc: "collation lc"
    and acq: "acquireAll lc w t run (JArr vs) now locks = Inr (locks', ls)"
    and r: "rg run = Some r" "unfinished_run r" "owner_ok rg run"
    and fresh: "''reserve:'' @ run \<notin> ce_key ` set evs"
  shows "lock_inv lc rg locks' (append_event (cevent_of RES (''reserve:'' @ run) run None ls JUndef) evs)"
proof -
  let ?e = "cevent_of RES (''reserve:'' @ run) run None ls JUndef"
  have ap: "append_event ?e evs = evs @ [?e]" using fresh by (simp add: append_event_def cevent_of_def)
  have "event_ok lc rg ?e" using r acquired_relockable[OF lc acq] by (simp add: event_ok_def cevent_of_def RES_def REL_def)
  then have "events_ok lc rg (append_event ?e evs)" using inv by (simp add: lock_inv_def events_ok_append)
  moreover have "held_by k x locks' \<longleftrightarrow> unfinished rg k \<and> (\<exists>e \<in> set (append_event ?e evs). reserves e k x)" for k x
  proof -
    have "reserves ?e k x \<longleftrightarrow> k = run \<and> x \<in> lk_normalizedKey ` set ls" by (auto simp: reserves_def cevent_of_def)
    moreover have "unfinished rg run" using r by (simp add: unfinished_def)
    ultimately show ?thesis
      using inv acquireAll_held[OF acq, of k x] unfolding lock_inv_def locks_match_def ap by auto
  qed
  moreover have "locks_ok locks'"
    using inv by (rule_tac acquireAll_Inr[OF acq]) (simp add: lock_inv_def locks_match_def put_locks_ok)
  ultimately show ?thesis by (simp add: lock_inv_def locks_match_def)
qed

subsection \<open>Every operation of the service keeps the reservations\<close>

definition coord_locked :: "(string \<Rightarrow> string \<Rightarrow> bool) \<Rightarrow> coord \<Rightarrow> bool" where
  "coord_locked lc c \<longleftrightarrow> lock_inv lc (run_get c) (co_locks c) (co_events c)"

lemma run_get_fields [simp]:
  "run_get (c\<lparr>co_events := es\<rparr>) = run_get c" "run_get (c\<lparr>co_locks := ls\<rparr>) = run_get c"
  "run_get (c\<lparr>co_runs := mset_at k r (co_runs c)\<rparr>) = (run_get c)(k := Some r)"
  by (rule ext, simp)+

lemma quiet_event_ok:
  assumes "rg k \<noteq> None" "type \<noteq> RES" "type \<noteq> REL" "\<And>j. key \<noteq> ''reserve:'' @ j"
  shows "event_ok lc rg (cevent_of type key k gi ls d)"
  using assms by (simp add: event_ok_def cevent_of_def del: not_None_eq)

lemma release_event_ok:
  assumes "rg k \<noteq> None" "\<not> unfinished rg k"
  shows "event_ok lc rg (cevent_of REL (''release:'' @ k) k gi ls d)"
  using assms by (simp add: event_ok_def cevent_of_def RES_def REL_def del: not_None_eq)

lemma cevent_of_type [simp]: "ce_type (cevent_of type key k gi ls d) = type"
  by (simp add: cevent_of_def)

lemma lock_inv_quiet:
  assumes "lock_inv lc rg locks evs" "rg k \<noteq> None" "type \<noteq> RES" "type \<noteq> REL" "\<And>j. key \<noteq> ''reserve:'' @ j"
  shows "lock_inv lc rg locks (append_event (cevent_of type key k gi ls d) evs)"
  using assms by (intro lock_inv_event quiet_event_ok) simp_all

lemma lock_inv_release:
  assumes "lock_inv lc rg locks evs" "rg k \<noteq> None" "\<not> unfinished rg k"
  shows "lock_inv lc rg locks (append_event (cevent_of REL (''release:'' @ k) k gi ls d) evs)"
  using assms by (intro lock_inv_event release_event_ok) (simp_all add: RES_def REL_def)

lemma locked_request:
  assumes lc: "collation lc" and inv: "coord_locked lc c"
  shows "coord_locked lc (fst (coord_request lc legacy now input c))"
proof (rule coord_request_cases[of lc legacy now input c])
  assume "fst (coord_request lc legacy now input c) = c" with inv show ?thesis by simp
next
  fix bs
  assume none: "run_get c (er_executionRunId input) = None"
    and e: "fst (coord_request lc legacy now input c) = fst (request_blocked now input bs c)"
  let ?b = "blocked_run now input bs"
  show ?thesis
  proof (cases "er_executionRunId input = []")
    case True
    with inv e show ?thesis by (simp add: request_blocked_def blocked_run_def save_run_def Let_def)
  next
    case False
    have id: "xr_id ?b = er_executionRunId input" by (simp add: blocked_run_def)
    have "lock_inv lc ((run_get c)(xr_id ?b := Some ?b)) (co_locks c) (co_events c)"
      using inv none id by (intro lock_inv_new) (simp_all add: coord_locked_def)
    then have "lock_inv lc ((run_get c)(xr_id ?b := Some ?b)) (co_locks c)
        (append_event (cevent_of ''execution.blocked'' (''blocked:'' @ xr_id ?b) (xr_id ?b) None []
          (JArr (map (\<lambda>b. JStr (bl_code b)) bs))) (co_events c))"
      by (rule lock_inv_quiet) (simp_all add: RES_def REL_def)
    moreover have "run_get (fst (request_blocked now input bs c)) = (run_get c)(xr_id ?b := Some ?b)"
      using False id by (intro run_get_fun) (simp add: request_blocked_def bindS_save Let_def)
    ultimately show ?thesis unfolding e coord_locked_def
      using False id by (simp add: request_blocked_def bindS_save Let_def)
  qed
next
  fix hg w t
  assume none: "run_get c (er_executionRunId input) = None"
    and e: "fst (coord_request lc legacy now input c) = fst (request_ready lc now input hg w t c)"
  show ?thesis unfolding e
  proof (rule request_ready_shape[of lc now input hg w t c])
    fix locks' ls c1 and g :: gate
    assume acq: "acquireAll lc (ws_id w) (tn_id t) (er_executionRunId input) (er_resources input) now (co_locks c) = Inr (locks', ls)"
      and runs: "co_runs c1 = co_runs (reserved_state now input w t hg locks' ls c)" and l1: "co_locks c1 = locks'"
      and evs: "co_events c1 = co_events (reserved_state now input w t hg locks' ls c)"
      and f: "fst (request_ready lc now input hg w t c) = c1 \<or>
       (\<exists>i. fst (request_ready lc now input hg w t c) = c1\<lparr>co_events := append_event
         (cevent_of ''human_gate.requested'' (''gate-request:'' @ i) (er_executionRunId input) (Some i) [] JUndef) (co_events c1)\<rparr>)"
    let ?run = "requested_run now input w t hg" and ?k = "er_executionRunId input"
    have id: "xr_id ?run = ?k" by (simp add: requested_run_def)
    from acq obtain vs where vs: "er_resources input = JArr vs" by (auto simp: acquireAll_def split: if_splits)
    have wt: "ws_id w \<noteq> []" "tn_id t \<noteq> []" "?k \<noteq> []" using acq by (auto simp: acquireAll_def)
    let ?rg = "(run_get c)(?k := Some ?run)"
    let ?ev1 = "append_event (cevent_of ''execution.requested'' (''request:'' @ ?k) ?k None [] JUndef) (co_events c)"
    have rg: "run_get c1 = ?rg" by (rule run_get_fun) (simp add: runs reserved_state_def Let_def id)
    have i0: "lock_inv lc ?rg (co_locks c) (co_events c)"
      using inv none by (intro lock_inv_new) (simp_all add: coord_locked_def)
    then have i1: "lock_inv lc ?rg (co_locks c) ?ev1"
      by (rule lock_inv_quiet) (simp_all add: RES_def REL_def)
    have "''reserve:'' @ ?k \<notin> ce_key ` set (co_events c)"
    proof
      assume "''reserve:'' @ ?k \<in> ce_key ` set (co_events c)"
      then obtain ev where ev: "''reserve:'' @ ?k = ce_key ev" "ev \<in> set (co_events c)" by (rule imageE)
      from inv ev(2) have ok: "event_ok lc (run_get c) ev" by (simp add: coord_locked_def lock_inv_def events_ok_iff)
      with ev(1)[symmetric] have "ce_runId ev = ?k" unfolding event_ok_def by blast
      with ok none show False by (simp add: event_ok_def)
    qed
    then have fresh: "''reserve:'' @ ?k \<notin> ce_key ` set ?ev1"
      by (auto simp: append_event_def cevent_of_def)
    have "unfinished_run ?run" "owner_ok ?rg ?k"
      using wt by (simp_all add: requested_run_def unfinished_run_def FINISHED_RUN_STATES_def owner_ok_def)
    from lock_inv_reserve[OF i1 lc acq[unfolded vs] _ this fresh]
    have i2: "lock_inv lc ?rg locks' (append_event (cevent_of RES (''reserve:'' @ ?k) ?k None ls JUndef) ?ev1)" by simp
    then have "coord_locked lc c1"
      unfolding coord_locked_def rg l1 evs by (simp add: reserved_state_def Let_def id RES_def)
    moreover have "coord_locked lc (c1\<lparr>co_events := append_event
         (cevent_of ''human_gate.requested'' (''gate-request:'' @ i) ?k (Some i) [] JUndef) (co_events c1)\<rparr>)" for i
    proof -
      have "lock_inv lc (run_get c1) (co_locks c1) (append_event
         (cevent_of ''human_gate.requested'' (''gate-request:'' @ i) ?k (Some i) [] JUndef) (co_events c1))"
        using \<open>coord_locked lc c1\<close> unfolding coord_locked_def
        by (rule lock_inv_quiet) (simp_all add: rg RES_def REL_def)
      then show ?thesis by (simp add: coord_locked_def)
    qed
    ultimately show "coord_locked lc (fst (request_ready lc now input hg w t c))" using f by metis
  next
    assume "fst (request_ready lc now input hg w t c) = c"
    with inv show "coord_locked lc (fst (request_ready lc now input hg w t c))" by simp
  qed
qed

lemma locked_reject:
  assumes ok: "core_ok c fl" and inv: "coord_locked lc c"
  shows "coord_locked lc (fst (coord_reject now i c))"
proof -
  have c: "runs_keyed c" "gates_bound c" using ok by (simp_all add: core_ok_def)
  have gok: "gates_ok (co_gates c)" using c(2) by (simp add: gates_bound_def)
  show ?thesis
  proof (rule coord_reject_shape[OF gok runs_keyedD[OF c(1)] gates_boundD(2)[OF c(2)], where now = now and i = i])
    assume "fst (coord_reject now i c) = c" with inv show ?thesis by simp
  next
    fix g0 g r nxt
    let ?c' = "fst (coord_reject now i c)"
    assume r: "run_get c (hg_executionRunId g0) = Some r" and nxt: "nxt = r\<lparr>xr_state := ''cancelled'', xr_completedAt := Some now\<rparr>"
      and runs: "co_runs ?c' = mset_at (xr_id r) nxt (co_runs c)"
      and locks: "co_locks ?c' = fst (releaseAll (xr_id r) now (co_locks c))"
      and evs: "co_events ?c' =
         append_event (cevent_of ''resource.released'' (''release:'' @ xr_id r) (xr_id r) None (snd (releaseAll (xr_id r) now (co_locks c))) JUndef)
         (append_event (cevent_of ''human_gate.rejected'' (''gate-reject:'' @ i) (xr_id r) (Some i) [] JUndef) (co_events c))"
    have id: "xr_id r = hg_executionRunId g0" using runs_keyedD[OF c(1) r] by simp
    let ?rg = "(run_get c)(xr_id r := Some nxt)"
    have i1: "lock_inv lc ?rg (fst (releaseAll (xr_id r) now (co_locks c))) (co_events c)"
      using inv r id nxt by (intro lock_inv_finish) (simp_all add: coord_locked_def unfinished_run_def FINISHED_RUN_STATES_def)
    then have i2: "lock_inv lc ?rg (fst (releaseAll (xr_id r) now (co_locks c)))
        (append_event (cevent_of ''human_gate.rejected'' (''gate-reject:'' @ i) (xr_id r) (Some i) [] JUndef) (co_events c))"
      by (rule lock_inv_quiet) (simp_all add: RES_def REL_def)
    have "\<not> unfinished ?rg (xr_id r)" by (simp add: unfinished_def unfinished_run_def FINISHED_RUN_STATES_def nxt)
    from lock_inv_release[OF i2 _ this] show ?thesis
      unfolding coord_locked_def run_get_fun[OF runs] locks evs by (simp add: REL_def)
  qed
qed

lemma locked_approve:
  assumes ok: "core_ok c fl" and inv: "coord_locked lc c" and ap: "approveHumanGate_begin now rv i c = (c', x)"
  shows "coord_locked lc c'"
proof -
  have c: "runs_keyed c" "gates_bound c" using ok by (simp_all add: core_ok_def)
  have gok: "gates_ok (co_gates c)" using c(2) by (simp add: gates_bound_def)
  show ?thesis
  proof (rule approve_begin_shape[OF gok runs_keyedD[OF c(1)], of now rv i])
    fix x' assume "approveHumanGate_begin now rv i c = (c, x')"
    with ap inv show ?thesis by simp
  next
    fix c1 g0 g r run
    assume a: "approveHumanGate_begin now rv i c = (c1, Inr (Started run g))"
      and r: "run_get c (hg_executionRunId g0) = Some r" "xr_state r = ''waiting_human''"
      and run: "run = r\<lparr>xr_state := ''active'', xr_startedAt := Some now\<rparr>"
      and runs: "co_runs c1 = mset_at (xr_id r) run (co_runs c)" and locks: "co_locks c1 = co_locks c"
      and evs: "co_events c1 = append_event (cevent_of ''execution.started'' (''start:'' @ xr_id r) (xr_id r) None [] JUndef)
         (append_event (cevent_of ''human_gate.approved'' (''gate-approve:'' @ i) (xr_id r) (Some i) [] JUndef) (co_events c))"
    have id: "xr_id r = hg_executionRunId g0" using runs_keyedD[OF c(1) r(1)] by simp
    let ?rg = "(run_get c)(xr_id r := Some run)"
    have u: "unfinished_run r" "unfinished_run run"
      by (simp_all add: unfinished_run_def FINISHED_RUN_STATES_def r(2) run)
    have "lock_inv lc ?rg (co_locks c) (co_events c)"
      using inv r(1) id u by (intro lock_inv_update) (simp_all add: coord_locked_def run)
    then have "lock_inv lc ?rg (co_locks c) (append_event (cevent_of ''human_gate.approved'' (''gate-approve:'' @ i) (xr_id r) (Some i) [] JUndef) (co_events c))"
      by (rule lock_inv_quiet) (simp_all add: RES_def REL_def)
    then have "lock_inv lc ?rg (co_locks c) (append_event (cevent_of ''execution.started'' (''start:'' @ xr_id r) (xr_id r) None [] JUndef)
         (append_event (cevent_of ''human_gate.approved'' (''gate-approve:'' @ i) (xr_id r) (Some i) [] JUndef) (co_events c)))"
      by (rule lock_inv_quiet) (simp_all add: RES_def REL_def)
    then have "coord_locked lc c1" unfolding coord_locked_def run_get_fun[OF runs] locks evs .
    with a ap show ?thesis by simp
  qed
qed

lemma locked_finish:
  assumes ok: "core_ok c fl" and inv: "coord_locked lc c" and n: "n < length fl"
  shows "coord_locked lc (fst (approve_finish now (fl ! n) outcome c))"
proof -
  let ?r = "fl ! n"
  have k: "runs_keyed c" "inflight_ok c fl" using ok by (simp_all add: core_ok_def)
  from inflight_okD[OF k(2) nth_mem[OF n]] have r: "run_get c (xr_id ?r) = Some ?r" "xr_state ?r = ''active''" by simp_all
  have ne: "xr_id ?r \<noteq> []" using runs_keyedD[OF k(1) r(1)] by simp
  show ?thesis
  proof (cases outcome)
    case (Inl e)
    let ?r' = "?r\<lparr>xr_state := ''waiting_human'', xr_recoveryReason := Some ''execution_uncertain_requires_review''\<rparr>"
    let ?rg = "(run_get c)(xr_id ?r := Some ?r')"
    have u: "unfinished_run ?r" "unfinished_run ?r'"
      by (simp_all add: unfinished_run_def FINISHED_RUN_STATES_def r(2))
    have "lock_inv lc ?rg (co_locks c) (co_events c)"
      using inv r(1) u by (intro lock_inv_update) (simp_all add: coord_locked_def)
    then have "lock_inv lc ?rg (co_locks c) (append_event (cevent_of ''execution.waiting_human'' (''uncertain:'' @ xr_id ?r) (xr_id ?r) None []
                (JStr ''execution_uncertain_requires_review'')) (co_events c))"
      by (rule lock_inv_quiet) (simp_all add: RES_def REL_def)
    then show ?thesis unfolding Inl approve_finish_failed[OF ne] coord_locked_def by simp
  next
    case (Inr x)
    let ?r' = "?r\<lparr>xr_state := ''result_observed'', xr_execution := x, xr_completedAt := Some now\<rparr>"
    let ?rg = "(run_get c)(xr_id ?r := Some ?r')"
    have "lock_inv lc ?rg (fst (releaseAll (xr_id ?r) now (co_locks c))) (co_events c)"
      using inv r by (intro lock_inv_finish) (simp_all add: coord_locked_def unfinished_run_def FINISHED_RUN_STATES_def)
    then have i2: "lock_inv lc ?rg (fst (releaseAll (xr_id ?r) now (co_locks c)))
        (append_event (cevent_of ''execution.result_observed'' (''result:'' @ xr_id ?r) (xr_id ?r) None [] x) (co_events c))"
      by (rule lock_inv_quiet) (simp_all add: RES_def REL_def)
    have "\<not> unfinished ?rg (xr_id ?r)" by (simp add: unfinished_def unfinished_run_def FINISHED_RUN_STATES_def)
    from lock_inv_release[OF i2 _ this] show ?thesis
      unfolding Inr approve_finish_ok[OF ne] coord_locked_def by (simp add: Let_def REL_def)
  qed
qed

subsection \<open>Restart\<close>

lemma acquire_again:
  assumes rel: "relockable lc ls" and ne: "ls \<noteq> []" "w \<noteq> []" "t \<noteq> []" "run \<noteq> []"
    and free: "\<And>x l. x \<in> lk_normalizedKey ` set ls \<Longrightarrow> mget locks x = Some l \<Longrightarrow> lk_executionRunId l = run"
  obtains locks' ls' where "acquireAll lc w t run (JArr (map lock_resource_js ls)) now locks = Inr (locks', ls')"
    and "lk_normalizedKey ` set ls' = lk_normalizedKey ` set ls"
proof -
  from rel obtain rs where rs: "mapE normalizeResource (map lock_resource_js ls) = Inr rs"
    and keys: "map rs_normalizedKey rs = map lk_normalizedKey ls" and dup: "find_duplicate (sort_by (key_le lc) rs) = None"
    unfolding relockable_def by blast
  let ?s = "sort_by (key_le lc) rs"
  have kset: "rs_normalizedKey ` set rs = lk_normalizedKey ` set ls" using arg_cong[OF keys, of set] by simp
  have norm: "mapE normalizeResource (map resource_js ?s) = Inr ?s"
    by (rule normalize_all_again) (use mapE_all[OF rs] in auto)
  have "\<forall>r \<in> set ?s. \<forall>l. mget locks (rs_normalizedKey r) = Some l \<longrightarrow> Some (lk_executionRunId l) = Some run"
  proof (intro ballI allI impI)
    fix r l assume "r \<in> set ?s" "mget locks (rs_normalizedKey r) = Some l"
    moreover from this kset have "rs_normalizedKey r \<in> lk_normalizedKey ` set ls" by auto
    ultimately show "Some (lk_executionRunId l) = Some run" using free by simp
  qed
  with lock_conflicts_empty[OF norm] have cf: "lock_conflicts locks (map resource_js ?s) (Some run) = Inr []" by blast
  have kl: "(\<lambda>a b. lc (rs_normalizedKey a) (rs_normalizedKey b)) = key_le lc"
    by (intro ext) (simp add: key_le_def)
  have "acquireAll lc w t run (JArr (map lock_resource_js ls)) now locks =
      Inr (put_locks (map (make_lock w t run now) ?s) locks, map (make_lock w t run now) ?s)"
    unfolding acquireAll_def acquire_sorted_def kl
    using ne rs dup cf by (simp add: as_array_def Let_def del: mapE_eq_Inr)
  moreover have "lk_normalizedKey ` set (map (make_lock w t run now) ?s) = lk_normalizedKey ` set ls"
    unfolding kset[symmetric] by (simp add: image_image make_lock_def)
  ultimately show thesis by (rule that)
qed

lemma locks_held_iff: "locks_ok locks \<Longrightarrow> list_ex (\<lambda>l. lk_executionRunId l = k) (mvalues locks) \<longleftrightarrow> (\<exists>x. held_by k x locks)"
proof -
  assume "locks_ok locks"
  then have d: "distinct (map fst locks)" by (simp add: locks_ok_def)
  show ?thesis unfolding list_ex_iff held_by_def using mvalues_mget[OF d] by blast
qed

definition match_done :: "(string \<Rightarrow> exec_run option) \<Rightarrow> lock_table \<Rightarrow> cevent list \<Rightarrow> bool" where
  "match_done rg locks evs \<longleftrightarrow> locks_match rg locks evs"

lemma match_skip:
  assumes "locks_match rg locks done1" "\<And>x. unfinished rg (ce_runId e) \<Longrightarrow> reserves e (ce_runId e) x \<Longrightarrow> False"
  shows "locks_match rg locks (done1 @ [e])"
proof -
  have "unfinished rg k \<and> (\<exists>a \<in> set (done1 @ [e]). reserves a k x) \<longleftrightarrow> unfinished rg k \<and> (\<exists>a \<in> set done1. reserves a k x)" for k x
    using assms(2)[of x] by (auto simp: reserves_def)
  with assms(1) show ?thesis unfolding locks_match_def by blast
qed

lemma rehydrate_loop:
  assumes ev: "events_ok lc (mget runs) (done1 @ rest)" and old: "locks_match (mget runs) old evs"
    and evs: "set (done1 @ rest) \<subseteq> set evs"
    and released: "\<And>k. k \<in> set rel \<Longrightarrow> \<not> unfinished (mget runs) k"
    and cur: "locks_match (mget runs) locks done1"
  shows "\<exists>locks'. rehydrate_events lc runs rel rest locks = Inr locks' \<and> locks_match (mget runs) locks' (done1 @ rest)"
  using ev evs cur
proof (induction rest arbitrary: done1 locks)
  case (Cons e rest)
  let ?k = "ce_runId e"
  have eo: "event_ok lc (mget runs) e" using Cons.prems(1) by (simp add: events_ok_iff)
  have lk: "locks_ok locks" using Cons.prems(3) by (simp add: locks_match_def)
  have next_ok: "\<exists>locks'. rehydrate_events lc runs rel rest l = Inr locks' \<and> locks_match (mget runs) locks' (done1 @ e # rest)"
    if "locks_match (mget runs) l (done1 @ [e])" for l
    using Cons.IH[of "done1 @ [e]" l] Cons.prems(1,2) that by simp
  have skip: ?case if s: "rehydrate_events lc runs rel (e # rest) locks = rehydrate_events lc runs rel rest locks"
    and no: "\<And>x. unfinished (mget runs) ?k \<Longrightarrow> reserves e ?k x \<Longrightarrow> False"
    unfolding s by (rule next_ok[OF match_skip[OF Cons.prems(3) no]])
  show ?case
  proof (cases "ce_type e = RES \<and> ?k \<notin> set rel \<and> \<not> list_ex (\<lambda>l. lk_executionRunId l = ?k) (mvalues locks)")
    case False
    show ?thesis
    proof (rule skip)
      show "rehydrate_events lc runs rel (e # rest) locks = rehydrate_events lc runs rel rest locks"
        using False by (simp add: RES_def del: list_ex_iff)
    next
      fix x assume u: "unfinished (mget runs) ?k" and r: "reserves e ?k x"
      with False released[of ?k] have "list_ex (\<lambda>l. lk_executionRunId l = ?k) (mvalues locks)" by (auto simp: reserves_def)
      then obtain y where "held_by ?k y locks" using locks_held_iff[OF lk] by blast
      with Cons.prems(3) obtain e' where e': "e' \<in> set done1" "reserves e' ?k y" by (auto simp: locks_match_def)
      have "event_ok lc (mget runs) e'" using Cons.prems(1) e'(1) by (simp add: events_ok_iff)
      from event_ok_key[OF this e'(2)] have "ce_key e' = ''reserve:'' @ ?k" .
      moreover from event_ok_key[OF eo r] have "ce_key e = ''reserve:'' @ ?k" .
      moreover have "ce_key e \<notin> ce_key ` set done1" using Cons.prems(1) by (simp add: events_ok_iff)
      ultimately show False using e'(1) by (metis image_eqI)
    qed
  next
    case go: True
    from eo go have own: "owner_ok (mget runs) ?k" and rl: "relockable lc (ce_locks e)" using event_ok_owner[OF eo] by simp_all
    from own obtain r w t where r: "mget runs ?k = Some r" "xr_id r = ?k" "?k \<noteq> []" "xr_workspaceId r = Some w" "w \<noteq> []"
      "xr_taskId r = Some t" "t \<noteq> []" unfolding owner_ok_def by blast
    show ?thesis
    proof (cases "ce_locks e = [] \<or> xr_state r \<in> set FINISHED_RUN_STATES")
      case True
      show ?thesis
      proof (rule skip)
        show "rehydrate_events lc runs rel (e # rest) locks = rehydrate_events lc runs rel rest locks"
          using True r go by (simp add: RES_def del: list_ex_iff)
        show "\<And>x. unfinished (mget runs) ?k \<Longrightarrow> reserves e ?k x \<Longrightarrow> False"
          using True r(1) by (auto simp: reserves_def unfinished_def unfinished_run_def)
      qed
    next
      case False
      then have u: "unfinished (mget runs) ?k" using r(1) by (simp add: unfinished_def unfinished_run_def)
      have free: "lk_executionRunId l = ?k" if x: "x \<in> lk_normalizedKey ` set (ce_locks e)" and l: "mget locks x = Some l" for x l
      proof -
        have "held_by (lk_executionRunId l) x locks" using l by (simp add: held_by_def)
        with Cons.prems(3) obtain e' where "e' \<in> set done1" "reserves e' (lk_executionRunId l) x"
          "unfinished (mget runs) (lk_executionRunId l)" by (auto simp: locks_match_def)
        with Cons.prems(2) old have "held_by (lk_executionRunId l) x old" by (auto simp: locks_match_def)
        moreover have "reserves e ?k x" using x go by (simp add: reserves_def)
        with Cons.prems(2) old u have "held_by ?k x old" by (auto simp: locks_match_def)
        ultimately show ?thesis by (rule held_by_unique)
      qed
      obtain locks' ls' where a: "acquireAll lc w t ?k (JArr (map lock_resource_js (ce_locks e))) (lk_acquiredAt (hd (ce_locks e))) locks = Inr (locks', ls')"
        and keys: "lk_normalizedKey ` set ls' = lk_normalizedKey ` set (ce_locks e)"
        by (rule acquire_again[OF rl _ r(5,7,3) free]) (use False in auto)
      have step: "rehydrate_events lc runs rel (e # rest) locks = rehydrate_events lc runs rel rest locks'"
        using go False r a by (simp add: RES_def)
      have "locks_ok locks'"
        by (rule acquireAll_Inr[OF a]) (simp add: put_locks_ok lk)
      moreover have "held_by k x locks' \<longleftrightarrow> unfinished (mget runs) k \<and> (\<exists>e' \<in> set (done1 @ [e]). reserves e' k x)" for k x
        using acquireAll_held[OF a, of k x] Cons.prems(3) u go keys by (auto simp: locks_match_def reserves_def)
      ultimately have "locks_match (mget runs) locks' (done1 @ [e])" by (simp add: locks_match_def)
      from next_ok[OF this] show ?thesis unfolding step .
    qed
  qed
qed simp

lemma rehydrate_ok:
  assumes "coord_locked lc c"
  shows "\<exists>locks'. rehydrateLocks lc c = Inr locks' \<and> locks_match (run_get c) locks' (co_events c)"
proof -
  have rg: "run_get c = mget (co_runs c)" by (rule ext) (simp add: run_get_def)
  have inv: "events_ok lc (mget (co_runs c)) (co_events c)" "locks_match (mget (co_runs c)) (co_locks c) (co_events c)"
    using assms by (simp_all add: coord_locked_def lock_inv_def rg)
  have rel: "\<not> unfinished (mget (co_runs c)) k"
    if "k \<in> set (map ce_runId (filter (\<lambda>e. ce_type e = ''resource.released'') (co_events c)))" for k
    using that inv(1) by (auto simp: events_ok_iff event_ok_def REL_def)
  have "locks_match (mget (co_runs c)) [] []" by (simp add: locks_match_def locks_ok_def held_by_def)
  from rehydrate_loop[of lc "co_runs c" "[]" "co_events c", OF _ inv(2) _ rel this] inv(1)
  show ?thesis unfolding rehydrateLocks_def rg by fastforce
qed

lemma locked_recover:
  assumes "runs_keyed c" "\<forall>r \<in> set rs. run_get c (xr_id r) = Some r" "distinct (map xr_id rs)" "coord_locked lc c"
  shows "coord_locked lc (fold recover_one rs c)"
  using assms
proof (induction rs arbitrary: c)
  case (Cons r rs)
  have r: "run_get c (xr_id r) = Some r" using Cons.prems(2) by simp
  show ?case
  proof (cases "xr_state r = ''active''")
    case True
    let ?c' = "recover_one r c"
    have runs: "co_runs ?c' = mset_at (xr_id r) (parked r) (co_runs c)" using True by (simp add: recover_one_def)
    have u: "unfinished_run r" "unfinished_run (parked r)"
      by (simp_all add: unfinished_run_def FINISHED_RUN_STATES_def True parked_def)
    have "lock_inv lc ((run_get c)(xr_id r := Some (parked r))) (co_locks c) (co_events c)"
      using Cons.prems(4) r u by (intro lock_inv_update) (simp_all add: coord_locked_def parked_def)
    then have "lock_inv lc ((run_get c)(xr_id r := Some (parked r))) (co_locks c)
        (append_event (cevent_of ''execution.waiting_human'' (''recovery:'' @ xr_id r) (xr_id r) None []
                (JStr ''application_recovery_requires_review'')) (co_events c))"
      by (rule lock_inv_quiet) (simp_all add: RES_def REL_def)
    then have "coord_locked lc ?c'" using True by (simp add: coord_locked_def recover_one_def)
    moreover have "runs_keyed ?c'" using runs_keyed_set[OF Cons.prems(1), of ?c' "parked r"] runs runs_keyedD[OF Cons.prems(1) r]
      by (simp add: parked_def)
    moreover have "\<forall>x \<in> set rs. run_get ?c' (xr_id x) = Some x"
    proof
      fix x assume x: "x \<in> set rs"
      with Cons.prems(3) have "xr_id x \<noteq> xr_id r" by (metis distinct.simps(2) image_eqI list.map(2) list.set_map)
      with Cons.prems(2) x show "run_get ?c' (xr_id x) = Some x" by (simp add: run_get_fun[OF runs])
    qed
    ultimately show ?thesis using Cons.IH[of ?c'] Cons.prems(3) by simp
  qed (use Cons in \<open>simp add: recover_one_def\<close>)
qed simp

lemma locked_restart:
  assumes "core_ok c fl" "coord_locked lc c" "rehydrateLocks lc c = Inr locks"
  shows "coord_locked lc (fst (coord_recoverUncertain (c\<lparr>co_locks := locks\<rparr>)))"
proof -
  let ?c = "c\<lparr>co_locks := locks\<rparr>"
  have k: "runs_keyed ?c" using assms(1) by (simp add: core_ok_def runs_keyed_def)
  have "coord_locked lc ?c"
    using rehydrate_ok[OF assms(2)] assms(2,3) by (simp add: coord_locked_def lock_inv_def)
  moreover have "\<forall>r \<in> set (mvalues (co_runs ?c)). xr_id r \<noteq> []" using runs_listed(1)[OF k] runs_keyedD[OF k] by metis
  then have "fst (coord_recoverUncertain ?c) = fold recover_one (mvalues (co_runs ?c)) ?c"
    by (simp add: coord_recoverUncertain_def recover_runs_fold)
  ultimately show ?thesis using locked_recover[OF k runs_listed[OF k]] by simp
qed

lemma service_locked_step:
  assumes "collation lc" "service_ok s" "coord_locked lc (sv_coord s)"
  shows "coord_locked lc (sv_coord (service_step lc legacy now oper s))"
proof (cases oper)
  case (RequestRun input)
  with assms locked_request show ?thesis by (simp add: service_step_def)
next
  case (ApproveGate g rv)
  obtain c' x where x: "approveHumanGate_begin now rv g (sv_coord s) = (c', x)" by fastforce
  have "coord_locked lc c'" using locked_approve[OF _ assms(3) x] assms(2) by (simp add: service_ok_def)
  moreover have "sv_coord (service_step lc legacy now oper s) = c'"
  proof (cases x)
    case (Inr y)
    then show ?thesis by (cases y) (simp_all add: service_step_def ApproveGate x)
  qed (simp add: service_step_def ApproveGate x)
  ultimately show ?thesis by simp
next
  case (RuntimeAnswers n o1)
  with assms locked_finish show ?thesis by (simp add: service_ok_def service_step_def)
next
  case (RejectGate g)
  with assms locked_reject show ?thesis by (simp add: service_ok_def service_step_def)
next
  case RestartService
  with assms locked_restart show ?thesis by (simp add: service_ok_def service_step_def split: sum.split)
qed

lemma service_locked:
  assumes "collation lc"
  shows "coord_locked lc (sv_coord (service_run lc legacy ops))"
proof -
  have "service_ok (fold (\<lambda>(now, oper). service_step lc legacy now oper) ops s) \<and>
      coord_locked lc (sv_coord (fold (\<lambda>(now, oper). service_step lc legacy now oper) ops s))"
    if "service_ok s" "coord_locked lc (sv_coord s)" for s
    using that assms
    by (induction ops arbitrary: s) (simp_all add: service_step_ok service_locked_step split: prod.split)
  moreover have "coord_locked lc (sv_coord service_init)"
    by (simp add: service_init_def coord_locked_def lock_inv_def events_ok_def locks_match_def locks_ok_def held_by_def)
  ultimately show ?thesis using service_init_ok by (simp add: service_run_def)
qed

lemma service_match:
  assumes "collation lc"
  shows "locks_match (run_get (sv_coord (service_run lc legacy ops))) (co_locks (sv_coord (service_run lc legacy ops)))
    (co_events (sv_coord (service_run lc legacy ops)))"
  using service_locked[OF assms] by (simp add: coord_locked_def lock_inv_def)

lemma collation_strings: "collation (\<lambda>a b. a \<le> b)"
  by (auto simp: collation_def)

text \<open>
  C6: After any history of the service, a run that is not finished still holds every resource
  of its reservation, so no other run holds any of them: two runs that are waiting or
  executing never have a resource in common.
\<close>

theorem unfinished_runs_keep_their_resources:
  assumes "collation lc" "c = sv_coord (service_run lc legacy ops)"
    and "e \<in> set (co_events c)" "ce_type e = ''resource.reserved''" "l \<in> set (ce_locks e)"
    and "run_get c (ce_runId e) = Some r" "xr_state r \<notin> set FINISHED_RUN_STATES"
  shows "held_by (ce_runId e) (lk_normalizedKey l) (co_locks c) \<and>
     (\<forall>k. held_by k (lk_normalizedKey l) (co_locks c) \<longrightarrow> k = ce_runId e)"
proof -
  have "reserves e (ce_runId e) (lk_normalizedKey l)" using assms(4,5) by (simp add: reserves_def RES_def)
  moreover have "unfinished (run_get c) (ce_runId e)" using assms(6,7) by (simp add: unfinished_def unfinished_run_def)
  ultimately have "held_by (ce_runId e) (lk_normalizedKey l) (co_locks c)"
    using service_match[OF assms(1), of legacy ops] assms(2,3) by (auto simp: locks_match_def)
  then show ?thesis by (auto dest: held_by_unique)
qed

definition sample_waiting :: coord where
  "sample_waiting = sv_coord (service_run (\<lambda>a b. a \<le> b) (\<lambda>_. None) [(''t1'', RequestRun sample_request), (''t2'', RestartService)])"

theorem unfinished_runs_keep_their_resources_witness: "held_by ''r1'' ''profile:p1'' (co_locks sample_waiting)"
proof -
  have "list_ex (\<lambda>e. ce_type e = ''resource.reserved'' \<and> ce_runId e = ''r1'' \<and>
      list_ex (\<lambda>l. lk_normalizedKey l = ''profile:p1'') (ce_locks e)) (co_events sample_waiting)"
    by code_simp
  then obtain e l where ev: "e \<in> set (co_events sample_waiting)" "ce_type e = ''resource.reserved''"
    and e: "ce_runId e = ''r1''" "l \<in> set (ce_locks e)" "lk_normalizedKey l = ''profile:p1''"
    unfolding list_ex_iff by blast
  have "case run_get sample_waiting ''r1'' of Some r \<Rightarrow> xr_state r \<notin> set FINISHED_RUN_STATES | None \<Rightarrow> False"
    by code_simp
  then obtain r where "run_get sample_waiting (ce_runId e) = Some r" "xr_state r \<notin> set FINISHED_RUN_STATES"
    by (auto simp: e split: option.splits)
  with unfinished_runs_keep_their_resources[OF collation_strings sample_waiting_def ev e(2)] e show ?thesis by simp
qed

text \<open>
  C22: After any history the service can restart: reading the event log restores exactly the
  locks that were held, run by run and resource by resource.
\<close>

theorem restart_restores_locks:
  assumes "collation lc" "c = sv_coord (service_run lc legacy ops)"
  shows "\<exists>locks'. rehydrateLocks lc c = Inr locks' \<and> (\<forall>k x. held_by k x locks' \<longleftrightarrow> held_by k x (co_locks c))"
proof -
  obtain locks' where r: "rehydrateLocks lc c = Inr locks'" and m: "locks_match (run_get c) locks' (co_events c)"
    using rehydrate_ok[OF service_locked[OF assms(1), of legacy ops]] unfolding assms(2) by (elim exE conjE)
  have "locks_match (run_get c) (co_locks c) (co_events c)" unfolding assms(2) by (rule service_match[OF assms(1)])
  with m have "held_by k x locks' \<longleftrightarrow> held_by k x (co_locks c)" for k x by (simp add: locks_match_def)
  with r show ?thesis by (intro exI[of _ locks']) simp
qed

theorem restart_restores_locks_witness:
  "\<exists>locks'. rehydrateLocks (\<lambda>a b. a \<le> b) sample_waiting = Inr locks' \<and>
     (\<forall>k x. held_by k x locks' \<longleftrightarrow> held_by k x (co_locks sample_waiting))"
  by (rule restart_restores_locks[OF collation_strings sample_waiting_def])

end
