(* ===== verification/SchedPolicy.thy ===== *)
theory SchedPolicy
  imports JsDate Json "HOL-Library.Product_Lexorder" "HOL-Library.Multiset"
begin

text \<open>
  The scheduling policy (\<open>src/scheduling/policy/index.cjs\<close>): policy snapshots, the effective
  priority of a candidate under bounded aging, and the ranking of candidates.  \<open>sha\<close> is the
  SHA-256 of the host, \<open>legacy\<close> its parser for dates outside the ISO forms.
\<close>

definition PRIORITIES :: "string list" where
  "PRIORITIES = [''critical'', ''high'', ''normal'', ''low'']"

definition SESSION_REUSE :: "string list" where
  "SESSION_REUSE = [''compatible-only'', ''disabled'']"

definition positiveInteger :: "js \<Rightarrow> string \<Rightarrow> bool \<Rightarrow> int res" where
  "positiveInteger value label allowZero = (case to_integer value of
      Some n \<Rightarrow> if n < (if allowZero then 0 else 1)
                then Inl (TypeError (label @ '' must be '' @ (if allowZero then ''a non-negative'' else ''a positive'') @ '' integer''))
                else Inr n
    | None \<Rightarrow> Inl (TypeError (label @ '' must be '' @ (if allowZero then ''a non-negative'' else ''a positive'') @ '' integer'')))"

lemma positiveInteger_Inr:
  "positiveInteger v l z = Inr n \<longleftrightarrow> to_integer v = Some n \<and> (if z then 0 else 1) \<le> n"
  by (auto simp: positiveInteger_def split: option.splits if_splits)

definition normalizePriorityOrder :: "js \<Rightarrow> string list res" where
  "normalizePriorityOrder order = (case order of
      JArr vs \<Rightarrow>
        if length vs \<noteq> length PRIORITIES then Inl (TypeError ''priorityOrder must contain exactly four priority classes'')
        else let normalized = map to_string vs in
          if length (remdups normalized) \<noteq> length PRIORITIES \<or> list_ex (\<lambda>p. p \<notin> set normalized) PRIORITIES
          then Inl (Error ''priorityOrder must be a permutation of critical, high, normal, low'')
          else Inr normalized
    | _ \<Rightarrow> Inl (TypeError ''priorityOrder must contain exactly four priority classes''))"

subsection \<open>Policy snapshots\<close>

record sched_policy =
  sp_id :: string
  sp_workspaceId :: string
  sp_version :: string
  sp_status :: string
  sp_globalMaxActive :: int
  sp_workspaceMaxActive :: int
  sp_priorityOrder :: "string list"
  sp_agingIntervalSeconds :: int
  sp_maxPriorityBoostSteps :: int
  sp_sessionReuse :: string
  sp_createdAt :: string
  sp_digest :: string

text \<open>The object \<open>base\<close> whose digest the snapshot carries.\<close>

definition policy_base :: "sched_policy \<Rightarrow> js" where
  "policy_base p = JObj [(''id'', JStr (sp_id p)), (''workspaceId'', JStr (sp_workspaceId p)),
     (''version'', JStr (sp_version p)), (''status'', JStr (sp_status p)),
     (''globalMaxActive'', JNum (sp_globalMaxActive p)), (''workspaceMaxActive'', JNum (sp_workspaceMaxActive p)),
     (''priorityOrder'', js_strs (sp_priorityOrder p)),
     (''fairness'', JObj [(''mode'', JStr ''bounded-aging''),
        (''agingIntervalSeconds'', JNum (sp_agingIntervalSeconds p)),
        (''maxPriorityBoostSteps'', JNum (sp_maxPriorityBoostSteps p))]),
     (''sessionReuse'', JStr (sp_sessionReuse p)), (''createdAt'', JStr (sp_createdAt p))]"

definition createSchedulingPolicySnapshot ::
  "(string \<Rightarrow> string) \<Rightarrow> (string \<Rightarrow> int option) \<Rightarrow> string \<Rightarrow> js \<Rightarrow> sched_policy res" where
  "createSchedulingPolicySnapshot sha legacy now input =
    (let status = or_js (field input ''status'') (JStr ''active'') in
     if \<not> includes_str [''active'', ''superseded''] status then Inl (Error ''Invalid SchedulingPolicySnapshot status'')
     else bindE (positiveInteger (field input ''globalMaxActive'') ''globalMaxActive'' False) (\<lambda>gmax.
       bindE (positiveInteger (field input ''workspaceMaxActive'') ''workspaceMaxActive'' False) (\<lambda>wmax.
       if wmax > gmax then Inl (Error ''workspaceMaxActive cannot exceed globalMaxActive'')
       else let fairness = field input ''fairness'' in
       if field fairness ''mode'' \<noteq> JStr ''bounded-aging'' then Inl (Error ''S6 v1 fairness mode must be bounded-aging'')
       else bindE (positiveInteger (field fairness ''agingIntervalSeconds'') ''agingIntervalSeconds'' False) (\<lambda>aging.
       bindE (positiveInteger (coalesce (field fairness ''maxPriorityBoostSteps'') (JNum 0)) ''maxPriorityBoostSteps'' True) (\<lambda>boost.
       if boost > int (length PRIORITIES) - 1 then Inl (Error ''maxPriorityBoostSteps exceeds available priority tiers'')
       else let reuse = or_js (field input ''sessionReuse'') (JStr ''compatible-only'') in
       if \<not> includes_str SESSION_REUSE reuse then Inl (Error ''Invalid sessionReuse mode'')
       else bindE (isoInstant legacy (or_js (field input ''createdAt'') (JStr now)) ''createdAt'') (\<lambda>created.
       bindE (assertSafeIdentifier (field input ''id'') ''scheduling policy id'') (\<lambda>i.
       bindE (assertSafeIdentifier (field input ''workspaceId'') ''workspace id'') (\<lambda>w.
       bindE (requiredText (field input ''version'') ''scheduling policy version'' 80) (\<lambda>v.
       bindE (normalizePriorityOrder (or_js (field input ''priorityOrder'') (js_strs PRIORITIES))) (\<lambda>ord.
       let p = \<lparr>sp_id = i, sp_workspaceId = w, sp_version = v, sp_status = to_string status,
             sp_globalMaxActive = gmax, sp_workspaceMaxActive = wmax, sp_priorityOrder = ord,
             sp_agingIntervalSeconds = aging, sp_maxPriorityBoostSteps = boost,
             sp_sessionReuse = to_string reuse, sp_createdAt = created, sp_digest = []\<rparr>
       in Inr (p\<lparr>sp_digest := digest sha (policy_base p)\<rparr>)))))))))))"

text \<open>What every policy snapshot satisfies.\<close>

definition policy_ok :: "sched_policy \<Rightarrow> bool" where
  "policy_ok p \<longleftrightarrow> sp_status p \<in> {''active'', ''superseded''} \<and> 1 \<le> sp_workspaceMaxActive p \<and>
     sp_workspaceMaxActive p \<le> sp_globalMaxActive p \<and> 1 \<le> sp_agingIntervalSeconds p \<and>
     0 \<le> sp_maxPriorityBoostSteps p \<and> sp_maxPriorityBoostSteps p \<le> 3 \<and>
     distinct (sp_priorityOrder p) \<and> set (sp_priorityOrder p) = set PRIORITIES"

lemma normalizePriorityOrder_perm:
  assumes "normalizePriorityOrder v = Inr os"
  shows "distinct os \<and> set os = set PRIORITIES"
proof -
  obtain vs where v: "v = JArr vs" using assms by (cases v) (simp_all add: normalizePriorityOrder_def)
  with assms have o: "os = map to_string vs" by (simp add: normalizePriorityOrder_def Let_def)
  from v assms have l: "length os = length PRIORITIES" "length (remdups os) = length os" "\<forall>p \<in> set PRIORITIES. p \<in> set os"
    unfolding o by (simp_all add: normalizePriorityOrder_def Let_def list_ex_iff)
  from l(2) have d: "distinct os" using card_distinct[of os] by (simp add: length_remdups_card_conv)
  from l d have "card (set os) = card (set PRIORITIES)"
    by (simp add: distinct_card PRIORITIES_def)
  with l(3) have "set PRIORITIES = set os" by (intro card_subset_eq) auto
  with d show ?thesis by simp
qed

lemma createSchedulingPolicySnapshot_ok:
  assumes "createSchedulingPolicySnapshot sha legacy now input = Inr p"
  shows "policy_ok p"
proof -
  from assms obtain status gmax wmax aging boost ord where
    s: "includes_str [''active'', ''superseded''] status" "sp_status p = to_string status"
    and n: "positiveInteger (field input ''workspaceMaxActive'') ''workspaceMaxActive'' False = Inr wmax" "\<not> wmax > gmax"
      "sp_globalMaxActive p = gmax" "sp_workspaceMaxActive p = wmax"
    and a: "positiveInteger (field (field input ''fairness'') ''agingIntervalSeconds'') ''agingIntervalSeconds'' False = Inr aging"
      "sp_agingIntervalSeconds p = aging"
    and b: "positiveInteger (coalesce (field (field input ''fairness'') ''maxPriorityBoostSteps'') (JNum 0)) ''maxPriorityBoostSteps'' True = Inr boost"
      "\<not> boost > int (length PRIORITIES) - 1" "sp_maxPriorityBoostSteps p = boost"
    and o1: "normalizePriorityOrder (or_js (field input ''priorityOrder'') (js_strs PRIORITIES)) = Inr ord" "sp_priorityOrder p = ord"
    unfolding createSchedulingPolicySnapshot_def Let_def bindE_eq_Inr guard_eq_Inr by (elim exE conjE) auto
  from s have "sp_status p \<in> {''active'', ''superseded''}" by (auto simp: includes_str_iff)
  moreover from normalizePriorityOrder_perm[OF o1(1)] have "distinct ord \<and> set ord = set PRIORITIES" .
  ultimately show ?thesis using n a b o1(2) unfolding policy_ok_def positiveInteger_Inr
    by (simp add: PRIORITIES_def)
qed

subsection \<open>Candidates and their effective priority\<close>

record sched_candidate =
  sc_id :: string
  sc_workspaceId :: string
  sc_priority :: string
  sc_readySince :: string
  sc_reusable :: bool

definition assertCandidate :: "(string \<Rightarrow> int option) \<Rightarrow> js \<Rightarrow> sched_candidate res" where
  "assertCandidate legacy candidate =
    (if \<not> plain_object candidate then Inl (TypeError ''SchedulingCandidate is required'')
     else if field candidate ''readyState'' \<noteq> JStr ''ready'' then Inl (Error ''S6 policy only ranks canonical ready candidates'')
     else if \<not> includes_str PRIORITIES (field candidate ''priority'') then Inl (Error ''Invalid candidate priority'')
     else bindE (assertSafeIdentifier (field candidate ''id'') ''scheduling candidate id'') (\<lambda>i.
       bindE (assertSafeIdentifier (field candidate ''workspaceId'') ''workspace id'') (\<lambda>w.
       bindE (isoInstant legacy (field candidate ''readySince'') ''candidate readySince'') (\<lambda>r.
       Inr \<lparr>sc_id = i, sc_workspaceId = w, sc_priority = to_string (field candidate ''priority''), sc_readySince = r,
         sc_reusable = (field candidate ''reusableSessionCompatible'' = JBool True)\<rparr>))))"

text \<open>The normalised candidate as the object it is.\<close>

definition candidate_obj :: "sched_candidate \<Rightarrow> js" where
  "candidate_obj c = JObj [(''id'', JStr (sc_id c)), (''workspaceId'', JStr (sc_workspaceId c)), (''readyState'', JStr ''ready''),
     (''priority'', JStr (sc_priority c)), (''readySince'', JStr (sc_readySince c)),
     (''reusableSessionCompatible'', JBool (sc_reusable c))]"

lemma assertCandidate_again:
  assumes "assertCandidate legacy v = Inr c" shows "assertCandidate legacy (candidate_obj c) = Inr c"
proof -
  from assms have c: "sc_priority c \<in> set PRIORITIES" "SAFE_IDENTIFIER (sc_id c)" "SAFE_IDENTIFIER (sc_workspaceId c)"
    and r: "isoInstant legacy (field v ''readySince'') ''candidate readySince'' = Inr (sc_readySince c)"
    by (auto simp: assertCandidate_def includes_str_iff split: if_splits)
  from isoInstant_again[OF r] c show ?thesis
    by (simp add: assertCandidate_def candidate_obj_def includes_str_iff)
qed

record eff_priority =
  ep_rawRank :: int
  ep_boostSteps :: int
  ep_effectiveRank :: int
  ep_ageBucket :: int
  ep_ageSeconds :: int

definition indexOf :: "string list \<Rightarrow> string \<Rightarrow> int" where
  "indexOf xs x = (if x \<in> set xs then int (length (takeWhile (\<lambda>y. y \<noteq> x) xs)) else - 1)"

text \<open>\<open>Date.parse\<close> of a text that \<open>isoInstant\<close> returned; it is never NaN.\<close>

definition parse_ms :: "(string \<Rightarrow> int option) \<Rightarrow> string \<Rightarrow> int" where
  "parse_ms legacy s = (case date_parse legacy s of Some t \<Rightarrow> t | None \<Rightarrow> 0)"

definition computeEffectivePriority ::
  "(string \<Rightarrow> int option) \<Rightarrow> js \<Rightarrow> sched_policy option \<Rightarrow> js \<Rightarrow> eff_priority res" where
  "computeEffectivePriority legacy candidate policy evaluatedAt =
    bindE (assertCandidate legacy candidate) (\<lambda>normalized.
    case policy of None \<Rightarrow> Inl (TypeError ''SchedulingPolicySnapshot is required'')
    | Some p \<Rightarrow>
      bindE (isoInstant legacy evaluatedAt ''evaluatedAt'') (\<lambda>at.
      let nowMs = parse_ms legacy at;
          readyMs = parse_ms legacy (sc_readySince normalized);
          ageSeconds = max 0 ((nowMs - readyMs) div 1000);
          rawRank = indexOf (sp_priorityOrder p) (sc_priority normalized)
      in if rawRank < 0 then Inl (Error ''Candidate priority is not present in policy priorityOrder'')
      else let boostSteps = min (sp_maxPriorityBoostSteps p) (ageSeconds div sp_agingIntervalSeconds p)
      in Inr \<lparr>ep_rawRank = rawRank, ep_boostSteps = boostSteps, ep_effectiveRank = max 0 (rawRank - boostSteps),
           ep_ageBucket = ageSeconds div sp_agingIntervalSeconds p, ep_ageSeconds = ageSeconds\<rparr>))"

lemma indexOf_bounds: "x \<in> set xs \<Longrightarrow> 0 \<le> indexOf xs x \<and> indexOf xs x < int (length xs)"
proof -
  assume x: "x \<in> set xs"
  then have "length (takeWhile (\<lambda>y. y \<noteq> x) xs) < length xs"
    by (metis (mono_tags, lifting) length_takeWhile_le nat_less_le takeWhile_eq_all_conv takeWhile_eq_take take_all_iff order_refl)
  with x show ?thesis by (simp add: indexOf_def)
qed

lemma indexOf_nth: "x \<in> set xs \<Longrightarrow> xs ! nat (indexOf xs x) = x"
  using nth_length_takeWhile[of "\<lambda>y. y \<noteq> x" xs] indexOf_bounds[of x xs] by (simp add: indexOf_def)

lemma policy_order_length: "policy_ok p \<Longrightarrow> length (sp_priorityOrder p) = 4"
proof -
  assume "policy_ok p"
  then have "distinct (sp_priorityOrder p)" "set (sp_priorityOrder p) = set PRIORITIES" by (simp_all add: policy_ok_def)
  with distinct_card[of "sp_priorityOrder p"] show ?thesis by (simp add: PRIORITIES_def)
qed

lemma assertCandidate_priority: "assertCandidate legacy v = Inr c \<Longrightarrow> sc_priority c \<in> set PRIORITIES"
  by (auto simp: assertCandidate_def includes_str_iff split: if_splits)

lemma computeEffectivePriority_fields:
  assumes "computeEffectivePriority legacy v (Some p) at = Inr e"
  shows "\<exists>c at'. assertCandidate legacy v = Inr c \<and> isoInstant legacy at ''evaluatedAt'' = Inr at' \<and>
    ep_rawRank e = indexOf (sp_priorityOrder p) (sc_priority c) \<and> 0 \<le> ep_rawRank e \<and>
    ep_ageSeconds e = max 0 ((parse_ms legacy at' - parse_ms legacy (sc_readySince c)) div 1000) \<and>
    ep_ageBucket e = ep_ageSeconds e div sp_agingIntervalSeconds p \<and>
    ep_boostSteps e = min (sp_maxPriorityBoostSteps p) (ep_ageBucket e) \<and>
    ep_effectiveRank e = max 0 (ep_rawRank e - ep_boostSteps e)"
proof -
  from assms obtain c where c: "assertCandidate legacy v = Inr c"
    unfolding computeEffectivePriority_def bindE_eq_Inr by blast
  with assms obtain at' where at': "isoInstant legacy at ''evaluatedAt'' = Inr at'"
    unfolding computeEffectivePriority_def bindE_eq_Inr option.case by blast
  from assms c at' have r: "0 \<le> indexOf (sp_priorityOrder p) (sc_priority c)"
    by (simp add: computeEffectivePriority_def Let_def split: if_splits)
  with assms c at' have "e = \<lparr>ep_rawRank = indexOf (sp_priorityOrder p) (sc_priority c),
    ep_boostSteps = min (sp_maxPriorityBoostSteps p) (max 0 ((parse_ms legacy at' - parse_ms legacy (sc_readySince c)) div 1000) div sp_agingIntervalSeconds p),
    ep_effectiveRank = max 0 (indexOf (sp_priorityOrder p) (sc_priority c) - min (sp_maxPriorityBoostSteps p) (max 0 ((parse_ms legacy at' - parse_ms legacy (sc_readySince c)) div 1000) div sp_agingIntervalSeconds p)),
    ep_ageBucket = max 0 ((parse_ms legacy at' - parse_ms legacy (sc_readySince c)) div 1000) div sp_agingIntervalSeconds p,
    ep_ageSeconds = max 0 ((parse_ms legacy at' - parse_ms legacy (sc_readySince c)) div 1000)\<rparr>"
    unfolding computeEffectivePriority_def c at' Let_def bindE_Inr option.case by (simp only: if_not_P not_less r simp_thms sum.inject)
  then show ?thesis by (intro exI[of _ c] exI[of _ at'] conjI) (simp_all only: c at' r eff_priority.simps)
qed

lemma priority_bounds:
  assumes ok: "policy_ok p" and e: "computeEffectivePriority legacy v (Some p) at = Inr e"
  shows "0 \<le> ep_ageSeconds e \<and> 0 \<le> ep_effectiveRank e \<and> ep_effectiveRank e \<le> ep_rawRank e \<and> ep_rawRank e \<le> 3 \<and>
     ep_ageBucket e = ep_ageSeconds e div sp_agingIntervalSeconds p \<and> 0 \<le> ep_ageBucket e \<and>
     ep_boostSteps e = min (sp_maxPriorityBoostSteps p) (ep_ageBucket e) \<and>
     ep_effectiveRank e = max 0 (ep_rawRank e - ep_boostSteps e)"
proof -
  obtain c at' where c: "assertCandidate legacy v = Inr c"
    and f: "ep_rawRank e = indexOf (sp_priorityOrder p) (sc_priority c)" "0 \<le> ep_rawRank e"
    "ep_ageSeconds e = max 0 ((parse_ms legacy at' - parse_ms legacy (sc_readySince c)) div 1000)"
    and a: "ep_ageBucket e = ep_ageSeconds e div sp_agingIntervalSeconds p"
    "ep_boostSteps e = min (sp_maxPriorityBoostSteps p) (ep_ageBucket e)"
    "ep_effectiveRank e = max 0 (ep_rawRank e - ep_boostSteps e)"
    using computeEffectivePriority_fields[OF e] by blast
  have pr: "sc_priority c \<in> set (sp_priorityOrder p)"
    using assertCandidate_priority[OF c] ok by (simp add: policy_ok_def)
  have r: "ep_rawRank e \<le> 3" using indexOf_bounds[OF pr] policy_order_length[OF ok] f(1) by simp
  have g: "0 \<le> ep_ageSeconds e" by (simp add: f(3))
  have p: "1 \<le> sp_agingIntervalSeconds p" "0 \<le> sp_maxPriorityBoostSteps p" using ok by (simp_all add: policy_ok_def)
  with g a(1) have b: "0 \<le> ep_ageBucket e" by (simp add: pos_imp_zdiv_nonneg_iff)
  have m: "0 \<le> ep_boostSteps e" using p b a(2) by simp
  show ?thesis using g r a b m f(2) by simp
qed

subsection \<open>Ranking\<close>

type_synonym rank_tuple = "int \<times> int \<times> int \<times> int \<times> string \<times> string"

record rank_entry =
  re_normalized :: sched_candidate
  re_priority :: eff_priority
  re_tuple :: rank_tuple

record ranked_candidate =
  rc_id :: string
  rc_workspaceId :: string
  rc_priority :: string
  rc_readySince :: string
  rc_effectivePriorityRank :: int
  rc_boundedBoostSteps :: int
  rc_ageBucket :: int
  rc_workspaceActiveCount :: int
  rc_reusePreferred :: bool

definition rank_one ::
  "(string \<Rightarrow> int option) \<Rightarrow> sched_policy \<Rightarrow> string \<Rightarrow> js \<Rightarrow> string list \<Rightarrow> js \<Rightarrow> rank_entry res" where
  "rank_one legacy p evaluated counts seen candidate =
    bindE (assertCandidate legacy candidate) (\<lambda>normalized.
    if sc_workspaceId normalized \<noteq> sp_workspaceId p then Inl (Error ''Cross-Workspace SchedulingCandidate denied'')
    else if sc_id normalized \<in> set seen then Inl (Error ''SchedulingCandidate ids must be unique'')
    else bindE (computeEffectivePriority legacy (candidate_obj normalized) (Some p) (JStr evaluated)) (\<lambda>priority.
      bindE (fieldE counts (sc_workspaceId normalized)) (\<lambda>n.
      bindE (positiveInteger (coalesce n (JNum 0)) ''workspace active count'' True) (\<lambda>count.
      let reusePreference = (if sp_sessionReuse p = ''compatible-only'' \<and> sc_reusable normalized then 0 else 1) in
      Inr \<lparr>re_normalized = normalized, re_priority = priority,
        re_tuple = (ep_effectiveRank priority, - ep_ageBucket priority, count, reusePreference,
          sc_readySince normalized, sc_id normalized)\<rparr>))))"

fun rank_all ::
  "(string \<Rightarrow> int option) \<Rightarrow> sched_policy \<Rightarrow> string \<Rightarrow> js \<Rightarrow> string list \<Rightarrow> js list \<Rightarrow> rank_entry list res" where
  "rank_all legacy p evaluated counts seen [] = Inr []"
| "rank_all legacy p evaluated counts seen (c # cs) =
     bindE (rank_one legacy p evaluated counts seen c) (\<lambda>e.
     bindE (rank_all legacy p evaluated counts (sc_id (re_normalized e) # seen) cs) (\<lambda>es. Inr (e # es)))"

definition ranked_of :: "rank_entry \<Rightarrow> ranked_candidate" where
  "ranked_of e = (let c = re_normalized e; (_, _, count, reuse, _, _) = re_tuple e in
     \<lparr>rc_id = sc_id c, rc_workspaceId = sc_workspaceId c, rc_priority = sc_priority c, rc_readySince = sc_readySince c,
       rc_effectivePriorityRank = ep_effectiveRank (re_priority e), rc_boundedBoostSteps = ep_boostSteps (re_priority e),
       rc_ageBucket = ep_ageBucket (re_priority e), rc_workspaceActiveCount = count, rc_reusePreferred = (reuse = 0)\<rparr>)"

definition rankSchedulingCandidates ::
  "(string \<Rightarrow> int option) \<Rightarrow> sched_policy option \<Rightarrow> js \<Rightarrow> js \<Rightarrow> js \<Rightarrow> ranked_candidate list res" where
  "rankSchedulingCandidates legacy policy candidates evaluatedAt counts = (case policy of
      None \<Rightarrow> Inl (Error ''An active SchedulingPolicySnapshot is required'')
    | Some p \<Rightarrow>
      if sp_status p \<noteq> ''active'' then Inl (Error ''An active SchedulingPolicySnapshot is required'')
      else bindE (as_array candidates (TypeError ''candidates must be an array'')) (\<lambda>cs.
        bindE (isoInstant legacy evaluatedAt ''evaluatedAt'') (\<lambda>evaluated.
        bindE (rank_all legacy p evaluated (if counts = JUndef then JObj [] else counts) [] cs) (\<lambda>es.
        Inr (map ranked_of (sort_key re_tuple es))))))"

text \<open>The key the output of the ranking is ordered by, read off an output element.\<close>

definition ranked_key :: "ranked_candidate \<Rightarrow> rank_tuple" where
  "ranked_key r = (rc_effectivePriorityRank r, - rc_ageBucket r, rc_workspaceActiveCount r,
     if rc_reusePreferred r then 0 else 1, rc_readySince r, rc_id r)"

lemma rank_one_fields:
  assumes "rank_one legacy p evaluated counts seen v = Inr e"
  shows "assertCandidate legacy v = Inr (re_normalized e) \<and> sc_workspaceId (re_normalized e) = sp_workspaceId p \<and>
    sc_id (re_normalized e) \<notin> set seen \<and> ranked_key (ranked_of e) = re_tuple e \<and>
    computeEffectivePriority legacy (candidate_obj (re_normalized e)) (Some p) (JStr evaluated) = Inr (re_priority e)"
  using assms unfolding rank_one_def bindE_eq_Inr guard_eq_Inr Let_def
  by (elim exE conjE) (auto simp: ranked_key_def ranked_of_def)

lemma rank_all_fields:
  assumes "rank_all legacy p evaluated counts seen cs = Inr es"
  shows "list_all2 (\<lambda>v e. assertCandidate legacy v = Inr (re_normalized e) \<and> sc_workspaceId (re_normalized e) = sp_workspaceId p \<and>
      ranked_key (ranked_of e) = re_tuple e \<and>
      computeEffectivePriority legacy (candidate_obj (re_normalized e)) (Some p) (JStr evaluated) = Inr (re_priority e)) cs es \<and>
    distinct (map (sc_id \<circ> re_normalized) es) \<and> set (map (sc_id \<circ> re_normalized) es) \<inter> set seen = {}"
  using assms
proof (induction cs arbitrary: seen es)
  case (Cons c cs)
  from Cons.prems obtain e es' where e: "rank_one legacy p evaluated counts seen c = Inr e"
    "rank_all legacy p evaluated counts (sc_id (re_normalized e) # seen) cs = Inr es'" "es = e # es'" by auto
  from Cons.IH[OF e(2)] rank_one_fields[OF e(1)] show ?case by (auto simp: e(3))
qed simp

lemma rankSchedulingCandidates_Inr:
  assumes "rankSchedulingCandidates legacy (Some p) candidates evaluatedAt counts = Inr rs"
  obtains cs evaluated es where "sp_status p = ''active''" "candidates = JArr cs"
    "isoInstant legacy evaluatedAt ''evaluatedAt'' = Inr evaluated"
    "rank_all legacy p evaluated (if counts = JUndef then JObj [] else counts) [] cs = Inr es"
    "rs = map ranked_of (sort_key re_tuple es)"
proof -
  from assms show thesis
    unfolding rankSchedulingCandidates_def option.case bindE_eq_Inr guard_eq_Inr as_array_Inr sum.inject not_not
    by (elim exE conjE) (rule that, assumption+, rule sym, assumption)
qed

lemma assertCandidate_id: "assertCandidate legacy v = Inr c \<Longrightarrow> field v ''id'' = JStr (sc_id c)"
  by (auto simp: assertCandidate_def split: if_splits)

lemma ranked_of_fields: "rc_id (ranked_of e) = sc_id (re_normalized e)" "rc_workspaceId (ranked_of e) = sc_workspaceId (re_normalized e)"
  "rc_effectivePriorityRank (ranked_of e) = ep_effectiveRank (re_priority e)"
  by (simp_all add: ranked_of_def Let_def split: prod.splits)

text \<open>
  C24: The ranking is a permutation of the candidates it was given, all of the policy's workspace
  and with pairwise different ids, in ascending order of the tuple of effective rank, age,
  active count, session reuse, ready instant and id.
\<close>

theorem ranking_is_sorted_permutation:
  assumes "rankSchedulingCandidates legacy (Some p) (JArr cs) evaluatedAt counts = Inr rs"
  shows "mset (map (\<lambda>r. JStr (rc_id r)) rs) = mset (map (\<lambda>v. field v ''id'') cs) \<and> distinct (map rc_id rs) \<and>
    sorted (map ranked_key rs) \<and> (\<forall>r \<in> set rs. rc_workspaceId r = sp_workspaceId p)"
proof -
  from assms obtain evaluated es where
    es: "rank_all legacy p evaluated (if counts = JUndef then JObj [] else counts) [] cs = Inr es"
    and rs: "rs = map ranked_of (sort_key re_tuple es)"
    by (auto elim!: rankSchedulingCandidates_Inr)
  note f = rank_all_fields[OF es]
  from f have ids: "map (\<lambda>v. field v ''id'') cs = map (\<lambda>e. JStr (sc_id (re_normalized e))) es"
    by (auto simp: list_all2_conv_all_nth assertCandidate_id intro!: nth_equalityI)
  from f have k: "\<forall>e \<in> set es. ranked_key (ranked_of e) = re_tuple e \<and> sc_workspaceId (re_normalized e) = sp_workspaceId p"
    by (auto dest: list_all2_in_right)
  have "map ranked_key rs = map re_tuple (sort_key re_tuple es)" using k by (simp add: rs)
  then have "sorted (map ranked_key rs)" by simp
  moreover have "mset (map (\<lambda>r. JStr (rc_id r)) rs) = mset (map (\<lambda>v. field v ''id'') cs)"
    by (simp add: rs ids ranked_of_fields comp_def)
  moreover have "distinct (map rc_id rs)"
  proof -
    have "mset (map rc_id rs) = mset (map (sc_id \<circ> re_normalized) es)" by (simp add: rs ranked_of_fields comp_def)
    with f show ?thesis using mset_eq_imp_distinct_iff by blast
  qed
  moreover have "\<forall>r \<in> set rs. rc_workspaceId r = sp_workspaceId p" using k by (auto simp: rs ranked_of_fields)
  ultimately show ?thesis by blast
qed


subsection \<open>Digests of inputs and decisions\<close>

definition ranked_js :: "ranked_candidate \<Rightarrow> js" where
  "ranked_js r = JObj [(''id'', JStr (rc_id r)), (''workspaceId'', JStr (rc_workspaceId r)),
     (''priority'', JStr (rc_priority r)), (''readySince'', JStr (rc_readySince r)),
     (''effectivePriorityRank'', JNum (rc_effectivePriorityRank r)), (''boundedBoostSteps'', JNum (rc_boundedBoostSteps r)),
     (''ageBucket'', JNum (rc_ageBucket r)), (''workspaceActiveCount'', JNum (rc_workspaceActiveCount r)),
     (''reusePreferred'', JBool (rc_reusePreferred r))]"

definition createSchedulingInputDigest ::
  "(string \<Rightarrow> string) \<Rightarrow> (string \<Rightarrow> int option) \<Rightarrow> sched_policy option \<Rightarrow> js \<Rightarrow> js \<Rightarrow> js \<Rightarrow> string res" where
  "createSchedulingInputDigest sha legacy policy candidates evaluatedAt counts =
    bindE (rankSchedulingCandidates legacy policy candidates evaluatedAt counts) (\<lambda>ranked.
    bindE (isoInstant legacy evaluatedAt ''evaluatedAt'') (\<lambda>at.
    Inr (digest sha (JObj [(''policyDigest'', (case policy of Some p \<Rightarrow> JStr (sp_digest p) | None \<Rightarrow> JUndef)),
      (''evaluatedAt'', JStr at), (''ranked'', JArr (map ranked_js ranked))]))))"

definition optionalIdentifier :: "js \<Rightarrow> string \<Rightarrow> string option res" where
  "optionalIdentifier v label = (if nullish v then Inr None else bindE (assertSafeIdentifier v label) (\<lambda>i. Inr (Some i)))"

definition createSchedulingDecisionDigest :: "(string \<Rightarrow> string) \<Rightarrow> js \<Rightarrow> string res" where
  "createSchedulingDecisionDigest sha input =
    (if \<not> is_object input then Inl (TypeError ''decision input is required'')
     else bindE (as_array (field input ''orderedCandidateIds'') (TypeError ''orderedCandidateIds must be an array'')) (\<lambda>os.
       bindE (mapE (\<lambda>v. assertSafeIdentifier v ''ordered candidate id'') os) (\<lambda>ordered.
       bindE (optionalIdentifier (field input ''selectedCandidateId'') ''selected candidate id'') (\<lambda>cand.
       bindE (optionalIdentifier (field input ''selectedWorkerId'') ''selected worker id'') (\<lambda>worker.
       bindE (case field input ''reasonCodes'' of
           JArr cs \<Rightarrow> bindE (mapE (\<lambda>v. assertSafeIdentifier v ''scheduling reason code'') cs) (\<lambda>codes. Inr (sortedSet codes))
         | _ \<Rightarrow> Inr []) (\<lambda>reasons.
       bindE (assertSafeIdentifier (field input ''policySnapshotId'') ''scheduling policy id'') (\<lambda>p.
       bindE (requiredText (field input ''inputDigest'') ''scheduling input digest'' 100) (\<lambda>d.
       Inr (digest sha (JObj [(''policySnapshotId'', JStr p), (''inputDigest'', JStr d), (''orderedCandidateIds'', js_strs ordered),
         (''selectedCandidateId'', js_opt cand), (''selectedWorkerId'', js_opt worker), (''reasonCodes'', js_strs reasons)]))))))))))"

subsection \<open>An instance\<close>

definition sample_policy_input :: js where
  "sample_policy_input = JObj [(''id'', JStr ''pol1''), (''workspaceId'', JStr ''w''), (''version'', JStr ''1''),
     (''globalMaxActive'', JNum 4), (''workspaceMaxActive'', JNum 2),
     (''fairness'', JObj [(''mode'', JStr ''bounded-aging''), (''agingIntervalSeconds'', JNum 60), (''maxPriorityBoostSteps'', JNum 2)]),
     (''createdAt'', JStr ''2026-03-01T00:00:00.000Z'')]"

definition sample_policy :: sched_policy where
  "sample_policy = \<lparr>sp_id = ''pol1'', sp_workspaceId = ''w'', sp_version = ''1'', sp_status = ''active'', sp_globalMaxActive = 4,
     sp_workspaceMaxActive = 2, sp_priorityOrder = PRIORITIES, sp_agingIntervalSeconds = 60, sp_maxPriorityBoostSteps = 2,
     sp_sessionReuse = ''compatible-only'', sp_createdAt = ''2026-03-01T00:00:00.000Z'', sp_digest = ''sha256:0''\<rparr>"

definition sample_candidate :: "string \<Rightarrow> string \<Rightarrow> string \<Rightarrow> js" where
  "sample_candidate i pr since = JObj [(''id'', JStr i), (''workspaceId'', JStr ''w''), (''readyState'', JStr ''ready''),
     (''priority'', JStr pr), (''readySince'', JStr since)]"

lemma length_PRIORITIES: "length PRIORITIES = 4"
  by (simp add: PRIORITIES_def)

lemma sample_policy_created_at:
  "createSchedulingPolicySnapshot (\<lambda>_. ''0'') (\<lambda>_. None) t sample_policy_input = Inr sample_policy"
proof -
  have i: "isoInstant (\<lambda>_. None) (JStr ''2026-03-01T00:00:00.000Z'') ''createdAt'' = Inr ''2026-03-01T00:00:00.000Z''"
    by code_simp
  have s: "SAFE_IDENTIFIER ''pol1''" "SAFE_IDENTIFIER ''w''" "requiredText (JStr ''1'') ''scheduling policy version'' 80 = Inr ''1''"
    by code_simp+
  have n: "normalizePriorityOrder (js_strs PRIORITIES) = Inr PRIORITIES" by code_simp
  show ?thesis
    by (simp add: createSchedulingPolicySnapshot_def sample_policy_input_def sample_policy_def Let_def digest_const
        assertSafeIdentifier_def or_js_def includes_str_def positiveInteger_def coalesce_def SESSION_REUSE_def i s n
        length_PRIORITIES del: requiredText_Inr)
qed

lemmas sample_policy_created = sample_policy_created_at[of "''t''"]

lemma sample_instants:
  "isoInstant (\<lambda>_. None) (JStr ''2026-03-01T00:00:00.000Z'') l = Inr ''2026-03-01T00:00:00.000Z''"
  "isoInstant (\<lambda>_. None) (JStr ''2026-03-01T00:10:00.000Z'') l = Inr ''2026-03-01T00:10:00.000Z''"
  "parse_ms (\<lambda>_. None) ''2026-03-01T00:00:00.000Z'' = 1772323200000"
  "parse_ms (\<lambda>_. None) ''2026-03-01T00:10:00.000Z'' = 1772323800000"
proof -
  have d: "date_parse (\<lambda>_. None) ''2026-03-01T00:00:00.000Z'' = Some 1772323200000" by code_simp
  have e: "date_parse (\<lambda>_. None) ''2026-03-01T00:10:00.000Z'' = Some 1772323800000" by code_simp
  have td: "to_iso 1772323200000 = ''2026-03-01T00:00:00.000Z''" by code_simp
  have te: "to_iso 1772323800000 = ''2026-03-01T00:10:00.000Z''" by code_simp
  have rd: "requiredText (JStr ''2026-03-01T00:00:00.000Z'') l 40 = Inr ''2026-03-01T00:00:00.000Z''"
    using to_iso_text[of 1772323200000] by (auto simp: td trim_no_space)
  have re: "requiredText (JStr ''2026-03-01T00:10:00.000Z'') l 40 = Inr ''2026-03-01T00:10:00.000Z''"
    using to_iso_text[of 1772323800000] by (auto simp: te trim_no_space)
  show "isoInstant (\<lambda>_. None) (JStr ''2026-03-01T00:00:00.000Z'') l = Inr ''2026-03-01T00:00:00.000Z''"
    unfolding isoInstant_Inr using rd d td by metis
  show "isoInstant (\<lambda>_. None) (JStr ''2026-03-01T00:10:00.000Z'') l = Inr ''2026-03-01T00:10:00.000Z''"
    unfolding isoInstant_Inr using re e te by metis
  from d show "parse_ms (\<lambda>_. None) ''2026-03-01T00:00:00.000Z'' = 1772323200000" by (simp add: parse_ms_def)
  from e show "parse_ms (\<lambda>_. None) ''2026-03-01T00:10:00.000Z'' = 1772323800000" by (simp add: parse_ms_def)
qed

lemma sample_ids: "SAFE_IDENTIFIER ''a''" "SAFE_IDENTIFIER ''b''" "SAFE_IDENTIFIER ''w''"
  by code_simp+

lemma sample_assert:
  "assertCandidate (\<lambda>_. None) (sample_candidate ''a'' ''low'' ''2026-03-01T00:00:00.000Z'') =
     Inr \<lparr>sc_id = ''a'', sc_workspaceId = ''w'', sc_priority = ''low'', sc_readySince = ''2026-03-01T00:00:00.000Z'', sc_reusable = False\<rparr>"
  "assertCandidate (\<lambda>_. None) (sample_candidate ''b'' ''high'' ''2026-03-01T00:10:00.000Z'') =
     Inr \<lparr>sc_id = ''b'', sc_workspaceId = ''w'', sc_priority = ''high'', sc_readySince = ''2026-03-01T00:10:00.000Z'', sc_reusable = False\<rparr>"
  by (simp_all add: assertCandidate_def sample_candidate_def sample_instants sample_ids assertSafeIdentifier_def includes_str_def PRIORITIES_def)

lemma sample_priorities:
  "computeEffectivePriority (\<lambda>_. None) (sample_candidate ''a'' ''low'' ''2026-03-01T00:00:00.000Z'') (Some sample_policy)
     (JStr ''2026-03-01T00:10:00.000Z'') = Inr \<lparr>ep_rawRank = 3, ep_boostSteps = 2, ep_effectiveRank = 1, ep_ageBucket = 10, ep_ageSeconds = 600\<rparr>"
  "computeEffectivePriority (\<lambda>_. None) (candidate_obj \<lparr>sc_id = ''a'', sc_workspaceId = ''w'', sc_priority = ''low'', sc_readySince = ''2026-03-01T00:00:00.000Z'', sc_reusable = False\<rparr>) (Some sample_policy)
     (JStr ''2026-03-01T00:10:00.000Z'') = Inr \<lparr>ep_rawRank = 3, ep_boostSteps = 2, ep_effectiveRank = 1, ep_ageBucket = 10, ep_ageSeconds = 600\<rparr>"
  "computeEffectivePriority (\<lambda>_. None) (candidate_obj \<lparr>sc_id = ''b'', sc_workspaceId = ''w'', sc_priority = ''high'', sc_readySince = ''2026-03-01T00:10:00.000Z'', sc_reusable = False\<rparr>) (Some sample_policy)
     (JStr ''2026-03-01T00:10:00.000Z'') = Inr \<lparr>ep_rawRank = 1, ep_boostSteps = 0, ep_effectiveRank = 1, ep_ageBucket = 0, ep_ageSeconds = 0\<rparr>"
  by (simp_all add: computeEffectivePriority_def sample_assert assertCandidate_again[OF sample_assert(1)]
      assertCandidate_again[OF sample_assert(2)] sample_instants sample_policy_def PRIORITIES_def indexOf_def Let_def)

theorem ranking_is_sorted_permutation_witness:
  "\<exists>rs. rankSchedulingCandidates (\<lambda>_. None) (Some sample_policy)
      (JArr [sample_candidate ''b'' ''high'' ''2026-03-01T00:10:00.000Z'', sample_candidate ''a'' ''low'' ''2026-03-01T00:00:00.000Z''])
      (JStr ''2026-03-01T00:10:00.000Z'') JUndef = Inr rs \<and> sorted (map ranked_key rs) \<and> map rc_id rs = [''a'', ''b'']"
proof -
  let ?cs = "[sample_candidate ''b'' ''high'' ''2026-03-01T00:10:00.000Z'', sample_candidate ''a'' ''low'' ''2026-03-01T00:00:00.000Z'']"
  let ?r = "rankSchedulingCandidates (\<lambda>_. None) (Some sample_policy) (JArr ?cs) (JStr ''2026-03-01T00:10:00.000Z'') JUndef"
  have w: "sp_workspaceId sample_policy = ''w''" "sp_status sample_policy = ''active''" by (simp_all add: sample_policy_def)
  obtain rs where rs: "?r = Inr rs" "map rc_id rs = [''a'', ''b'']"
    by (simp add: rankSchedulingCandidates_def rank_one_def w sample_assert sample_priorities sample_instants fieldE_def
        as_array_def positiveInteger_def coalesce_def Let_def sort_key_def ranked_of_fields)
  from ranking_is_sorted_permutation[OF rs(1)] have "sorted (map ranked_key rs)" by (elim conjE)
  with rs show ?thesis by (intro exI[of _ rs] conjI)
qed


end
