(* ===== verification/SchedCapacity.thy ===== *)
theory SchedCapacity
  imports SchedPolicy
begin

text \<open>
  Scheduling capacity (\<open>src/scheduling/capacity/index.cjs\<close>): concurrency budgets, provider and
  worker capacity snapshots, and the evaluation of a candidate against them.  \<open>lc a b\<close> stands
  for \<open>a.localeCompare(b) <= 0\<close>; a candidate is the untyped object the code receives, budgets
  and snapshots are the records its constructors return.
\<close>

definition PROVIDER_STATUSES :: "string list" where
  "PROVIDER_STATUSES = [''current'', ''stale'', ''unknown'', ''blocked'']"

definition WORKER_STATUSES :: "string list" where
  "WORKER_STATUSES = [''eligible'', ''draining'', ''unavailable'']"

definition CAPACITY_SOURCES :: "string list" where
  "CAPACITY_SOURCES = [''explicit-local-policy'', ''accepted-provider-evidence'']"

text \<open>The words \<open>SENSITIVE_KEY\<close> matches, in lower case; the pattern ignores case.\<close>

definition SENSITIVE_KEYS :: "string list" where
  "SENSITIVE_KEYS = [''authorization'', ''proxy-authorization'', ''cookie'', ''cookies'', ''set-cookie'', ''password'', ''passwd'',
     ''token'', ''accesstoken'', ''access_token'', ''access-token'', ''refreshtoken'', ''refresh_token'', ''refresh-token'',
     ''secret'', ''privatekey'', ''private_key'', ''private key'', ''private-key'', ''profilepath'', ''profiledir'',
     ''profiledirectory'', ''browserprofile'', ''userdata'', ''userdatadir'', ''storagestate'', ''processid'', ''pid'', ''ppid'']"

definition SENSITIVE_KEY :: "string \<Rightarrow> bool" where
  "SENSITIVE_KEY k = (map ascii_lower k \<in> set SENSITIVE_KEYS)"

definition nonNegativeInteger :: "js \<Rightarrow> string \<Rightarrow> int res" where
  "nonNegativeInteger value label = (case to_integer value of
      Some n \<Rightarrow> if n < 0 then Inl (TypeError (label @ '' must be a non-negative integer'')) else Inr n
    | None \<Rightarrow> Inl (TypeError (label @ '' must be a non-negative integer'')))"

definition capacityInteger :: "js \<Rightarrow> string \<Rightarrow> int res" where
  "capacityInteger value label =
    bindE (nonNegativeInteger value label) (\<lambda>number.
    if number < 1 then Inl (TypeError (label @ '' must be a positive integer'')) else Inr number)"

definition nullableInstant :: "(string \<Rightarrow> int option) \<Rightarrow> js \<Rightarrow> string \<Rightarrow> string option res" where
  "nullableInstant legacy value label =
    (if nullish value then Inr None else bindE (isoInstant legacy value label) (\<lambda>t. Inr (Some t)))"

definition own_keys :: "js \<Rightarrow> string list" where
  "own_keys v = (case v of JObj kvs \<Rightarrow> map fst kvs | _ \<Rightarrow> [])"

definition assertNoSensitiveFields :: "js \<Rightarrow> string \<Rightarrow> unit res" where
  "assertNoSensitiveFields input label =
    (if \<not> plain_object input then Inl (TypeError (label @ '' must be an object''))
     else case find SENSITIVE_KEY (own_keys input) of
         Some k \<Rightarrow> Inl (Error (label @ '' must not contain sensitive runtime field: '' @ k))
       | None \<Rightarrow> Inr ())"

definition normalizeSafeKeys :: "js \<Rightarrow> string list res" where
  "normalizeSafeKeys keys =
    (if nullish keys then Inr []
     else bindE (as_array keys (TypeError ''safeCompatibilityKeys must be an array'')) (\<lambda>ks.
       bindE (mapE (\<lambda>k. assertSafeIdentifier k ''safe compatibility key'') ks) (\<lambda>normalized.
       if \<not> distinct normalized then Inl (Error ''safeCompatibilityKeys must be unique'') else Inr (sort normalized))))"

subsection \<open>Budgets and snapshots\<close>

record concurrency_budget =
  cb_id :: string
  cb_workspaceId :: "string option"
  cb_scope :: string
  cb_maxActive :: int
  cb_activeObserved :: int
  cb_status :: string
  cb_observedAt :: string
  cb_remaining :: int
  cb_digest :: string

definition budget_base :: "concurrency_budget \<Rightarrow> js" where
  "budget_base b = JObj [(''id'', JStr (cb_id b)), (''workspaceId'', js_opt (cb_workspaceId b)), (''scope'', JStr (cb_scope b)),
     (''maxActive'', JNum (cb_maxActive b)), (''activeObserved'', JNum (cb_activeObserved b)), (''status'', JStr (cb_status b)),
     (''observedAt'', JStr (cb_observedAt b))]"

definition createConcurrencyBudget ::
  "(string \<Rightarrow> string) \<Rightarrow> (string \<Rightarrow> int option) \<Rightarrow> js \<Rightarrow> concurrency_budget res" where
  "createConcurrencyBudget sha legacy input =
    (if \<not> includes_str [''global'', ''workspace''] (field input ''scope'')
     then Inl (Error ''ConcurrencyBudget scope must be global or workspace'')
     else let scope = to_string (field input ''scope'') in
       bindE (capacityInteger (field input ''maxActive'') ''ConcurrencyBudget maxActive'') (\<lambda>maxActive.
       bindE (nonNegativeInteger (coalesce (field input ''activeObserved'') (JNum 0)) ''ConcurrencyBudget activeObserved'') (\<lambda>activeObserved.
       bindE (assertSafeIdentifier (field input ''id'') ''concurrency budget id'') (\<lambda>i.
       bindE (if scope = ''workspace'' then bindE (assertSafeIdentifier (field input ''workspaceId'') ''workspace id'') (\<lambda>w. Inr (Some w))
              else Inr None) (\<lambda>w.
       if field input ''status'' \<noteq> JStr ''current'' then Inl (Error ''ConcurrencyBudget must be current'')
       else bindE (isoInstant legacy (field input ''observedAt'') ''ConcurrencyBudget observedAt'') (\<lambda>observedAt.
       let b = \<lparr>cb_id = i, cb_workspaceId = w, cb_scope = scope, cb_maxActive = maxActive, cb_activeObserved = activeObserved,
             cb_status = ''current'', cb_observedAt = observedAt, cb_remaining = max 0 (maxActive - activeObserved), cb_digest = []\<rparr>
       in Inr (b\<lparr>cb_digest := digest sha (budget_base b)\<rparr>)))))))"

record provider_capacity =
  pc_id :: string
  pc_workspaceId :: string
  pc_providerId :: string
  pc_action :: string
  pc_maxActive :: int
  pc_activeObserved :: int
  pc_status :: string
  pc_observedAt :: string
  pc_expiresAt :: "string option"
  pc_source :: string
  pc_remaining :: int
  pc_digest :: string

definition provider_base :: "provider_capacity \<Rightarrow> js" where
  "provider_base b = JObj [(''id'', JStr (pc_id b)), (''workspaceId'', JStr (pc_workspaceId b)), (''providerId'', JStr (pc_providerId b)),
     (''action'', JStr (pc_action b)), (''maxActive'', JNum (pc_maxActive b)), (''activeObserved'', JNum (pc_activeObserved b)),
     (''status'', JStr (pc_status b)), (''observedAt'', JStr (pc_observedAt b)), (''expiresAt'', js_opt (pc_expiresAt b)),
     (''source'', JStr (pc_source b))]"

definition createProviderCapacitySnapshot ::
  "(string \<Rightarrow> string) \<Rightarrow> (string \<Rightarrow> int option) \<Rightarrow> js \<Rightarrow> provider_capacity res" where
  "createProviderCapacitySnapshot sha legacy input =
    (if \<not> includes_str PROVIDER_STATUSES (field input ''status'') then Inl (Error ''Invalid ProviderCapacitySnapshot status'')
     else bindE (capacityInteger (field input ''maxActive'') ''ProviderCapacitySnapshot maxActive'') (\<lambda>maxActive.
       bindE (nonNegativeInteger (coalesce (field input ''activeObserved'') (JNum 0)) ''ProviderCapacitySnapshot activeObserved'') (\<lambda>activeObserved.
       if \<not> includes_str CAPACITY_SOURCES (field input ''source'') then Inl (Error ''Invalid ProviderCapacitySnapshot source'')
       else bindE (isoInstant legacy (field input ''observedAt'') ''ProviderCapacitySnapshot observedAt'') (\<lambda>observedAt.
       bindE (nullableInstant legacy (field input ''expiresAt'') ''ProviderCapacitySnapshot expiresAt'') (\<lambda>expiresAt.
       if (case expiresAt of Some x \<Rightarrow> parse_ms legacy x < parse_ms legacy observedAt | None \<Rightarrow> False)
       then Inl (Error ''ProviderCapacitySnapshot expiresAt precedes observedAt'')
       else bindE (assertSafeIdentifier (field input ''id'') ''provider capacity snapshot id'') (\<lambda>i.
       bindE (assertSafeIdentifier (field input ''workspaceId'') ''workspace id'') (\<lambda>w.
       bindE (assertSafeIdentifier (field input ''providerId'') ''provider id'') (\<lambda>p.
       bindE (assertSafeIdentifier (field input ''action'') ''provider action'') (\<lambda>a.
       let b = \<lparr>pc_id = i, pc_workspaceId = w, pc_providerId = p, pc_action = a, pc_maxActive = maxActive, pc_activeObserved = activeObserved,
             pc_status = to_string (field input ''status''), pc_observedAt = observedAt, pc_expiresAt = expiresAt,
             pc_source = to_string (field input ''source''), pc_remaining = max 0 (maxActive - activeObserved), pc_digest = []\<rparr>
       in Inr (b\<lparr>pc_digest := digest sha (provider_base b)\<rparr>))))))))))"

record worker_capacity =
  wc_workerId :: string
  wc_workspaceId :: string
  wc_status :: string
  wc_browserChannel :: string
  wc_activeAssignmentCount :: int
  wc_reusableSession :: bool
  wc_safeCompatibilityKeys :: "string list"

definition createWorkerCapacitySnapshot :: "js \<Rightarrow> worker_capacity res" where
  "createWorkerCapacitySnapshot input =
    bindE (assertNoSensitiveFields input ''WorkerCapacitySnapshot'') (\<lambda>_.
    if \<not> includes_str WORKER_STATUSES (field input ''status'') then Inl (Error ''Invalid WorkerCapacitySnapshot status'')
    else bindE (requiredText (field input ''browserChannel'') ''worker browserChannel'' 40) (\<lambda>browserChannel.
      if browserChannel \<notin> {''chrome'', ''chromium''} then Inl (Error ''worker browserChannel must be chrome or chromium'')
      else bindE (assertSafeIdentifier (field input ''workerId'') ''worker id'') (\<lambda>i.
      bindE (assertSafeIdentifier (field input ''workspaceId'') ''workspace id'') (\<lambda>w.
      bindE (nonNegativeInteger (coalesce (field input ''activeAssignmentCount'') (JNum 0)) ''worker activeAssignmentCount'') (\<lambda>n.
      bindE (normalizeSafeKeys (field input ''safeCompatibilityKeys'')) (\<lambda>keys.
      Inr \<lparr>wc_workerId = i, wc_workspaceId = w, wc_status = to_string (field input ''status''), wc_browserChannel = browserChannel,
        wc_activeAssignmentCount = n, wc_reusableSession = (field input ''reusableSession'' = JBool True),
        wc_safeCompatibilityKeys = keys\<rparr>))))))"

subsection \<open>Provider capacity\<close>

record provider_verdict =
  pv_allowed :: bool
  pv_reasonCode :: string
  pv_snapshot :: "provider_capacity option"

definition snapshot_expired :: "(string \<Rightarrow> int option) \<Rightarrow> provider_capacity \<Rightarrow> js \<Rightarrow> bool res" where
  "snapshot_expired legacy s now = (case pc_expiresAt s of
      None \<Rightarrow> Inr False
    | Some x \<Rightarrow> if x = [] then Inr False
                else bindE (isoInstant legacy now ''capacity evaluatedAt'') (\<lambda>at. Inr (parse_ms legacy x \<le> parse_ms legacy at)))"

definition snapshot_verdict :: "(string \<Rightarrow> int option) \<Rightarrow> provider_capacity \<Rightarrow> js \<Rightarrow> provider_verdict res" where
  "snapshot_verdict legacy s now =
    (if pc_status s = ''unknown'' then Inr \<lparr>pv_allowed = False, pv_reasonCode = ''provider_capacity_unknown'', pv_snapshot = Some s\<rparr>
     else if pc_status s = ''stale'' then Inr \<lparr>pv_allowed = False, pv_reasonCode = ''provider_capacity_stale'', pv_snapshot = Some s\<rparr>
     else if pc_status s = ''blocked'' then Inr \<lparr>pv_allowed = False, pv_reasonCode = ''provider_capacity_blocked'', pv_snapshot = Some s\<rparr>
     else bindE (snapshot_expired legacy s now) (\<lambda>expired.
       if expired then Inr \<lparr>pv_allowed = False, pv_reasonCode = ''provider_capacity_stale'', pv_snapshot = Some s\<rparr>
       else if pc_activeObserved s \<ge> pc_maxActive s
         then Inr \<lparr>pv_allowed = False, pv_reasonCode = ''provider_capacity_exhausted'', pv_snapshot = Some s\<rparr>
       else Inr \<lparr>pv_allowed = True, pv_reasonCode = ''provider_capacity_current'', pv_snapshot = Some s\<rparr>))"

definition providerCapacityReason ::
  "(string \<Rightarrow> int option) \<Rightarrow> js \<Rightarrow> provider_capacity list \<Rightarrow> js \<Rightarrow> provider_verdict res" where
  "providerCapacityReason legacy candidate snapshots now =
    (let requirement = field candidate ''providerRequirement'' in
     if nullish requirement then Inr \<lparr>pv_allowed = True, pv_reasonCode = ''provider_not_required'', pv_snapshot = None\<rparr>
     else bindE (assertSafeIdentifier (field requirement ''providerId'') ''provider id'') (\<lambda>providerId.
       bindE (assertSafeIdentifier (field requirement ''action'') ''provider action'') (\<lambda>action.
       bindE (assertSafeIdentifier (field candidate ''workspaceId'') ''workspace id'') (\<lambda>workspaceId.
       case filter (\<lambda>s. pc_workspaceId s = workspaceId \<and> pc_providerId s = providerId \<and> pc_action s = action) snapshots of
         [] \<Rightarrow> Inr \<lparr>pv_allowed = False, pv_reasonCode = ''provider_capacity_unknown'', pv_snapshot = None\<rparr>
       | [s] \<Rightarrow> snapshot_verdict legacy s now
       | _ \<Rightarrow> Inl (Error ''Multiple ProviderCapacitySnapshots match one provider requirement'')))))"

subsection \<open>Worker compatibility\<close>

text \<open>The values \<open>for (const x of v)\<close> runs over.\<close>

definition iterate :: "js \<Rightarrow> js list res" where
  "iterate v = (case v of JArr vs \<Rightarrow> Inr vs | JStr s \<Rightarrow> Inr (map (\<lambda>c. JStr [c]) s)
    | _ \<Rightarrow> Inl (TypeError ''object is not iterable''))"

record compatibility =
  cy_compatible :: bool
  cy_reasonCodes :: "string list"

definition profile_reason :: "worker_capacity option \<Rightarrow> js \<Rightarrow> string list res" where
  "profile_reason worker requirements =
    (if truthy (field requirements ''exactProfileClass'')
     then bindE (assertSafeIdentifier (field requirements ''exactProfileClass'') ''exact profile class'') (\<lambda>p.
       Inr (if case worker of Some w \<Rightarrow> ''profile-'' @ p \<in> set (wc_safeCompatibilityKeys w) | None \<Rightarrow> False
            then [] else [''profile_class_mismatch'']))
     else Inr [])"

definition surface_reason :: "worker_capacity option \<Rightarrow> js \<Rightarrow> string list res" where
  "surface_reason worker candidate =
    (let requirement = field candidate ''providerRequirement'' in
     if truthy requirement
     then bindE (assertSafeIdentifier (field requirement ''providerId'') ''provider id'') (\<lambda>p.
       bindE (assertSafeIdentifier (field requirement ''action'') ''provider action'') (\<lambda>a.
       Inr (if case worker of Some w \<Rightarrow> ''provider-'' @ p @ ''-'' @ a \<in> set (wc_safeCompatibilityKeys w) | None \<Rightarrow> False
            then [] else [''provider_surface_mismatch''])))
     else Inr [])"

fun resource_reasons :: "string list \<Rightarrow> js list \<Rightarrow> string list res" where
  "resource_reasons blocked [] = Inr []"
| "resource_reasons blocked (r # rs) =
     bindE (assertSafeIdentifier r ''required resource id'') (\<lambda>i.
     bindE (resource_reasons blocked rs) (\<lambda>more. Inr (if i \<in> set blocked then ''resource_conflict'' # more else more)))"

definition status_reasons :: "worker_capacity option \<Rightarrow> string \<Rightarrow> string list" where
  "status_reasons worker workspaceId =
    (if case worker of None \<Rightarrow> True | Some w \<Rightarrow> wc_workspaceId w \<noteq> workspaceId then [''cross_workspace_worker''] else []) @
    (case worker of None \<Rightarrow> [''worker_unavailable'']
     | Some w \<Rightarrow> if wc_status w = ''draining'' then [''worker_draining'']
                  else if wc_status w \<noteq> ''eligible'' then [''worker_unavailable''] else [])"

definition channel_reason :: "worker_capacity option \<Rightarrow> js \<Rightarrow> string list" where
  "channel_reason worker requirements =
    (let c = field requirements ''browserChannel'' in
     if truthy c \<and> (case worker of None \<Rightarrow> True | Some w \<Rightarrow> JStr (wc_browserChannel w) \<noteq> c)
     then [''browser_channel_mismatch''] else [])"

definition workerCompatibility :: "js \<Rightarrow> worker_capacity option \<Rightarrow> js \<Rightarrow> compatibility res" where
  "workerCompatibility candidate worker blockedResources =
    (if \<not> truthy candidate \<or> field candidate ''readyState'' \<noteq> JStr ''ready''
     then Inr \<lparr>cy_compatible = False, cy_reasonCodes = [''candidate_not_ready'']\<rparr>
     else bindE (assertSafeIdentifier (field candidate ''workspaceId'') ''workspace id'') (\<lambda>workspaceId.
       let requirements = or_js (field candidate ''workerRequirements'') (JObj []) in
       bindE (profile_reason worker requirements) (\<lambda>profile.
       bindE (surface_reason worker candidate) (\<lambda>surface.
       bindE (as_array (or_js blockedResources (JArr [])) (TypeError ''blockedResources.map is not a function'')) (\<lambda>bs.
       bindE (mapE (\<lambda>b. assertSafeIdentifier b ''blocked resource id'') bs) (\<lambda>blocked.
       bindE (iterate (or_js (field candidate ''requiredResources'') (JArr []))) (\<lambda>rs.
       bindE (resource_reasons blocked rs) (\<lambda>conflicts.
       let reasons = status_reasons worker workspaceId @ channel_reason worker requirements @ profile @ surface @ conflicts
       in Inr \<lparr>cy_compatible = (reasons = []), cy_reasonCodes = sortedSet reasons\<rparr>))))))))"

subsection \<open>The evaluation of a candidate\<close>

record capacity_result =
  cr_eligible :: bool
  cr_compatibleWorkerIds :: "string list"
  cr_reasonCodes :: "string list"
  cr_providerCapacityId :: "string option"
  cr_providerCapacityDigest :: "string option"

definition worker_before :: "(string \<Rightarrow> string \<Rightarrow> bool) \<Rightarrow> worker_capacity \<Rightarrow> worker_capacity \<Rightarrow> bool" where
  "worker_before lc left right =
    (if wc_activeAssignmentCount left \<noteq> wc_activeAssignmentCount right
     then wc_activeAssignmentCount left < wc_activeAssignmentCount right
     else if wc_reusableSession left \<noteq> wc_reusableSession right then wc_reusableSession left
     else lc (wc_workerId left) (wc_workerId right))"

definition global_reason :: "concurrency_budget option \<Rightarrow> string list" where
  "global_reason budget = (case budget of None \<Rightarrow> [''global_capacity_unknown'']
    | Some b \<Rightarrow> if cb_scope b \<noteq> ''global'' \<or> cb_status b \<noteq> ''current'' then [''global_capacity_unknown'']
                 else if cb_activeObserved b \<ge> cb_maxActive b then [''global_capacity_exhausted''] else [])"

definition workspace_reason :: "concurrency_budget option \<Rightarrow> js \<Rightarrow> string list" where
  "workspace_reason budget workspaceId = (case budget of None \<Rightarrow> [''workspace_capacity_unknown'']
    | Some b \<Rightarrow> if cb_scope b \<noteq> ''workspace'' \<or> js_opt (cb_workspaceId b) \<noteq> workspaceId \<or> cb_status b \<noteq> ''current''
                 then [''workspace_capacity_unknown'']
                 else if cb_activeObserved b \<ge> cb_maxActive b then [''workspace_capacity_exhausted''] else [])"

fun compatible_workers :: "js \<Rightarrow> js \<Rightarrow> worker_capacity list \<Rightarrow> worker_capacity list res" where
  "compatible_workers candidate blocked [] = Inr []"
| "compatible_workers candidate blocked (w # ws) =
     bindE (workerCompatibility candidate (Some w) blocked) (\<lambda>r.
     bindE (compatible_workers candidate blocked ws) (\<lambda>more. Inr (if cy_compatible r then w # more else more)))"

definition evaluateCandidateCapacity ::
  "(string \<Rightarrow> string \<Rightarrow> bool) \<Rightarrow> (string \<Rightarrow> int option) \<Rightarrow> string \<Rightarrow> js \<Rightarrow> concurrency_budget option \<Rightarrow> concurrency_budget option \<Rightarrow>
   provider_capacity list \<Rightarrow> worker_capacity list \<Rightarrow> js \<Rightarrow> js \<Rightarrow> capacity_result res" where
  "evaluateCandidateCapacity lc legacy now candidate globalBudget workspaceBudget providerCapacities workers blockedResources evaluatedAt =
    (if \<not> truthy candidate \<or> field candidate ''readyState'' \<noteq> JStr ''ready''
     then Inr \<lparr>cr_eligible = False, cr_compatibleWorkerIds = [], cr_reasonCodes = [''candidate_not_ready''],
            cr_providerCapacityId = None, cr_providerCapacityDigest = None\<rparr>
     else bindE (providerCapacityReason legacy candidate providerCapacities (if evaluatedAt = JUndef then JStr now else evaluatedAt)) (\<lambda>provider.
       bindE (compatible_workers candidate blockedResources workers) (\<lambda>compatible.
       let reasons = global_reason globalBudget @ workspace_reason workspaceBudget (field candidate ''workspaceId'') @
             (if pv_allowed provider then [] else [pv_reasonCode provider]) @
             (if compatible = [] then [''no_compatible_worker''] else [])
       in Inr \<lparr>cr_eligible = (reasons = []),
            cr_compatibleWorkerIds = map wc_workerId (sort_by (worker_before lc) compatible),
            cr_reasonCodes = sortedSet reasons,
            cr_providerCapacityId = map_option pc_id (pv_snapshot provider),
            cr_providerCapacityDigest = map_option pc_digest (pv_snapshot provider)\<rparr>)))"

subsection \<open>What the evaluation decides\<close>

definition budget_open :: "concurrency_budget option \<Rightarrow> string \<Rightarrow> bool" where
  "budget_open budget scope \<longleftrightarrow> (\<exists>b. budget = Some b \<and> cb_scope b = scope \<and> cb_status b = ''current'' \<and>
     cb_activeObserved b < cb_maxActive b)"

definition provider_open :: "(string \<Rightarrow> int option) \<Rightarrow> js \<Rightarrow> provider_capacity list \<Rightarrow> js \<Rightarrow> bool" where
  "provider_open legacy candidate snapshots now \<longleftrightarrow>
     nullish (field candidate ''providerRequirement'') \<or>
     (\<exists>s. filter (\<lambda>s. JStr (pc_workspaceId s) = field candidate ''workspaceId'' \<and>
            JStr (pc_providerId s) = field (field candidate ''providerRequirement'') ''providerId'' \<and>
            JStr (pc_action s) = field (field candidate ''providerRequirement'') ''action'') snapshots = [s] \<and>
        pc_status s \<notin> {''unknown'', ''stale'', ''blocked''} \<and> snapshot_expired legacy s now = Inr False \<and>
        pc_activeObserved s < pc_maxActive s)"

lemma snapshot_verdict_allowed:
  assumes "snapshot_verdict legacy s now = Inr v"
  shows "pv_allowed v \<longleftrightarrow> pc_status s \<notin> {''unknown'', ''stale'', ''blocked''} \<and> snapshot_expired legacy s now = Inr False \<and>
    pc_activeObserved s < pc_maxActive s"
proof (cases "pc_status s \<in> {''unknown'', ''stale'', ''blocked''}")
  case True
  with assms have "\<not> pv_allowed v" unfolding snapshot_verdict_def by (elim insertE) auto
  with True show ?thesis by blast
next
  case False
  then have run: "snapshot_verdict legacy s now = bindE (snapshot_expired legacy s now) (\<lambda>expired.
       if expired then Inr \<lparr>pv_allowed = False, pv_reasonCode = ''provider_capacity_stale'', pv_snapshot = Some s\<rparr>
       else if pc_activeObserved s \<ge> pc_maxActive s
         then Inr \<lparr>pv_allowed = False, pv_reasonCode = ''provider_capacity_exhausted'', pv_snapshot = Some s\<rparr>
       else Inr \<lparr>pv_allowed = True, pv_reasonCode = ''provider_capacity_current'', pv_snapshot = Some s\<rparr>)"
    by (simp add: snapshot_verdict_def)
  show ?thesis
  proof (cases "snapshot_expired legacy s now")
    case (Inr b)
    with assms run False show ?thesis by (cases b; cases "pc_activeObserved s \<ge> pc_maxActive s") auto
  qed (use assms run in simp)
qed

lemma providerCapacityReason_ids:
  assumes "providerCapacityReason legacy candidate snapshots now = Inr v" "\<not> nullish (field candidate ''providerRequirement'')"
  obtains p a w where "assertSafeIdentifier (field (field candidate ''providerRequirement'') ''providerId'') ''provider id'' = Inr p"
    "assertSafeIdentifier (field (field candidate ''providerRequirement'') ''action'') ''provider action'' = Inr a"
    "assertSafeIdentifier (field candidate ''workspaceId'') ''workspace id'' = Inr w"
proof -
  let ?req = "field candidate ''providerRequirement''"
  from assms have b: "bindE (assertSafeIdentifier (field ?req ''providerId'') ''provider id'') (\<lambda>providerId.
       bindE (assertSafeIdentifier (field ?req ''action'') ''provider action'') (\<lambda>action.
       bindE (assertSafeIdentifier (field candidate ''workspaceId'') ''workspace id'') (\<lambda>workspaceId.
       case filter (\<lambda>s. pc_workspaceId s = workspaceId \<and> pc_providerId s = providerId \<and> pc_action s = action) snapshots of
         [] \<Rightarrow> Inr \<lparr>pv_allowed = False, pv_reasonCode = ''provider_capacity_unknown'', pv_snapshot = None\<rparr>
       | [s] \<Rightarrow> snapshot_verdict legacy s now
       | _ \<Rightarrow> Inl (Error ''Multiple ProviderCapacitySnapshots match one provider requirement'')))) = Inr v"
    unfolding providerCapacityReason_def Let_def by (simp only: if_False)
  from b obtain p where p: "assertSafeIdentifier (field ?req ''providerId'') ''provider id'' = Inr p"
    unfolding bindE_eq_Inr by blast
  from b obtain a where a: "assertSafeIdentifier (field ?req ''action'') ''provider action'' = Inr a"
    unfolding bindE_eq_Inr by blast
  from b obtain w where w: "assertSafeIdentifier (field candidate ''workspaceId'') ''workspace id'' = Inr w"
    unfolding bindE_eq_Inr by blast
  from p a w show thesis by (rule that)
qed

lemma providerCapacityReason_allowed:
  assumes "providerCapacityReason legacy candidate snapshots now = Inr v"
  shows "pv_allowed v \<longleftrightarrow> provider_open legacy candidate snapshots now"
proof (cases "nullish (field candidate ''providerRequirement'')")
  case True
  with assms have "v = \<lparr>pv_allowed = True, pv_reasonCode = ''provider_not_required'', pv_snapshot = None\<rparr>"
    by (simp add: providerCapacityReason_def)
  with True show ?thesis by (simp add: provider_open_def)
next
  case False
  let ?req = "field candidate ''providerRequirement''"
  obtain p a w where ids: "assertSafeIdentifier (field ?req ''providerId'') ''provider id'' = Inr p"
    "assertSafeIdentifier (field ?req ''action'') ''provider action'' = Inr a"
    "assertSafeIdentifier (field candidate ''workspaceId'') ''workspace id'' = Inr w"
    using providerCapacityReason_ids[OF assms False] by blast
  let ?m = "filter (\<lambda>s. pc_workspaceId s = w \<and> pc_providerId s = p \<and> pc_action s = a) snapshots"
  have sel: "filter (\<lambda>s. JStr (pc_workspaceId s) = field candidate ''workspaceId'' \<and>
      JStr (pc_providerId s) = field ?req ''providerId'' \<and> JStr (pc_action s) = field ?req ''action'') snapshots = ?m"
    using ids by simp
  have run: "(case ?m of
         [] \<Rightarrow> Inr \<lparr>pv_allowed = False, pv_reasonCode = ''provider_capacity_unknown'', pv_snapshot = None\<rparr>
       | [s] \<Rightarrow> snapshot_verdict legacy s now
       | _ \<Rightarrow> Inl (Error ''Multiple ProviderCapacitySnapshots match one provider requirement'')) = Inr v"
    using assms False unfolding providerCapacityReason_def Let_def by (simp only: if_False ids bindE_Inr)
  have o: "provider_open legacy candidate snapshots now \<longleftrightarrow> (\<exists>s. ?m = [s] \<and> pc_status s \<notin> {''unknown'', ''stale'', ''blocked''} \<and>
      snapshot_expired legacy s now = Inr False \<and> pc_activeObserved s < pc_maxActive s)"
    using False unfolding provider_open_def sel by blast
  show ?thesis
  proof (cases ?m)
    case Nil
    then have "\<not> provider_open legacy candidate snapshots now" unfolding o by simp
    moreover from run have "\<not> pv_allowed v" unfolding Nil by auto
    ultimately show ?thesis by simp
  next
    case (Cons s r)
    show ?thesis
    proof (cases r)
      case Nil
      from run have "snapshot_verdict legacy s now = Inr v" unfolding Cons Nil by simp
      from snapshot_verdict_allowed[OF this] show ?thesis unfolding o Cons Nil by simp
    next
      case (Cons t u)
      from run show ?thesis unfolding \<open>?m = s # r\<close> Cons by simp
    qed
  qed
qed

lemma global_reason_empty: "global_reason b = [] \<longleftrightarrow> budget_open b ''global''"
  by (cases b) (auto simp: global_reason_def budget_open_def)

lemma workspace_reason_empty:
  "workspace_reason b w = [] \<longleftrightarrow> budget_open b ''workspace'' \<and> (\<exists>x. b = Some x \<and> js_opt (cb_workspaceId x) = w)"
  by (cases b) (auto simp: workspace_reason_def budget_open_def)

definition fits :: "js \<Rightarrow> js \<Rightarrow> worker_capacity \<Rightarrow> bool" where
  "fits candidate blocked w \<longleftrightarrow> (\<exists>r. workerCompatibility candidate (Some w) blocked = Inr r \<and> cy_compatible r)"

lemma compatible_workers_filter:
  "compatible_workers candidate blocked ws = Inr cs \<Longrightarrow> cs = filter (fits candidate blocked) ws"
proof (induction ws arbitrary: cs)
  case (Cons w ws)
  from Cons.prems obtain r more where r: "workerCompatibility candidate (Some w) blocked = Inr r"
    and m: "compatible_workers candidate blocked ws = Inr more" and c: "cs = (if cy_compatible r then w # more else more)" by auto
  have "fits candidate blocked w \<longleftrightarrow> cy_compatible r" using r by (auto simp: fits_def)
  with Cons.IH[OF m] c show ?case by simp
qed simp

lemma mset_insert_by: "mset (insert_by le x ys) = add_mset x (mset ys)"
  by (induction ys) auto

lemma mset_sort_by: "mset (sort_by le xs) = mset xs"
  by (induction xs) (simp_all add: sort_by_def mset_insert_by)

lemma sort_by_sorted_wrt:
  assumes "\<And>a b. le a b \<Longrightarrow> R a b" "\<And>a b. \<not> le a b \<Longrightarrow> R b a" "\<And>a b c. R a b \<Longrightarrow> R b c \<Longrightarrow> R a c"
  shows "sorted_wrt R (sort_by le xs)"
proof (induction xs)
  case (Cons x xs)
  have "sorted_wrt R ys \<Longrightarrow> sorted_wrt R (insert_by le x ys)" for ys
  proof (induction ys)
    case (Cons y ys)
    show ?case
    proof (cases "le x y")
      case True
      with Cons.prems assms(1) assms(3)[of x y] show ?thesis by auto
    next
      case False
      with Cons assms(2) show ?thesis by auto
    qed
  qed simp
  with Cons.IH show ?case by (simp add: sort_by_def)
qed (simp add: sort_by_def)

text \<open>Fewer assignments first; among equally loaded workers those with a reusable session first.\<close>

definition preferred :: "worker_capacity \<Rightarrow> worker_capacity \<Rightarrow> bool" where
  "preferred a b \<longleftrightarrow> wc_activeAssignmentCount a < wc_activeAssignmentCount b \<or>
     wc_activeAssignmentCount a = wc_activeAssignmentCount b \<and> (wc_reusableSession b \<longrightarrow> wc_reusableSession a)"

lemma sort_workers_preferred: "sorted_wrt preferred (sort_by (worker_before lc) ws)"
  by (rule sort_by_sorted_wrt) (auto simp: preferred_def worker_before_def split: if_splits)

lemma sort_workers_sorted: "sorted (map wc_activeAssignmentCount (sort_by (worker_before lc) ws))"
  unfolding sorted_map by (rule sorted_wrt_mono_rel[OF _ sort_workers_preferred]) (auto simp: preferred_def)

lemma sort_workers_before:
  assumes "\<And>x y. lc x y \<or> lc y x" "\<And>x y z. lc x y \<Longrightarrow> lc y z \<Longrightarrow> lc x z"
  shows "sorted_wrt (worker_before lc) (sort_by (worker_before lc) ws)"
proof (rule sorted_sort_by)
  show "worker_before lc a b \<or> worker_before lc b a" for a b using assms(1) by (auto simp: worker_before_def)
  show "worker_before lc a b \<Longrightarrow> worker_before lc b c \<Longrightarrow> worker_before lc a c" for a b c
    using assms(2)[of "wc_workerId a" "wc_workerId b" "wc_workerId c"] by (auto simp: worker_before_def split: if_splits)
qed

lemma evaluateCandidateCapacity_Inr:
  assumes "evaluateCandidateCapacity lc legacy now cand gb wb pcs ws blocked (JStr at) = Inr r"
    and "truthy cand" "field cand ''readyState'' = JStr ''ready''"
  obtains v where "providerCapacityReason legacy cand pcs (JStr at) = Inr v"
    "compatible_workers cand blocked ws = Inr (filter (fits cand blocked) ws)"
    "cr_eligible r \<longleftrightarrow> global_reason gb = [] \<and> workspace_reason wb (field cand ''workspaceId'') = [] \<and> pv_allowed v \<and>
       filter (fits cand blocked) ws \<noteq> []"
    "cr_compatibleWorkerIds r = map wc_workerId (sort_by (worker_before lc) (filter (fits cand blocked) ws))"
    "cr_reasonCodes r = [] \<longleftrightarrow> cr_eligible r"
proof -
  have nr: "\<not> (\<not> truthy cand \<or> field cand ''readyState'' \<noteq> JStr ''ready'')" using assms(2,3) by simp
  have at: "(if JStr at = JUndef then JStr now else JStr at) = JStr at" by simp
  note ev = assms(1)[unfolded evaluateCandidateCapacity_def if_not_P[OF nr] at Let_def]
  from ev obtain v where v: "providerCapacityReason legacy cand pcs (JStr at) = Inr v" unfolding bindE_eq_Inr by blast
  from ev[unfolded v bindE_Inr] obtain cs where cs: "compatible_workers cand blocked ws = Inr cs" unfolding bindE_eq_Inr by blast
  from compatible_workers_filter[OF cs] have f: "cs = filter (fits cand blocked) ws" .
  let ?rs = "global_reason gb @ workspace_reason wb (field cand ''workspaceId'') @
    (if pv_allowed v then [] else [pv_reasonCode v]) @ (if cs = [] then [''no_compatible_worker''] else [])"
  from ev[unfolded v bindE_Inr cs] have r: "r = \<lparr>cr_eligible = (?rs = []),
      cr_compatibleWorkerIds = map wc_workerId (sort_by (worker_before lc) cs), cr_reasonCodes = sortedSet ?rs,
      cr_providerCapacityId = map_option pc_id (pv_snapshot v), cr_providerCapacityDigest = map_option pc_digest (pv_snapshot v)\<rparr>"
    unfolding sum.inject by (rule sym)
  show thesis
    by (rule that[OF v cs[unfolded f]]) (simp_all add: r f[symmetric] del: append_is_Nil_conv, simp)
qed

text \<open>
  C26: The capacity evaluation of a ready candidate answers eligible exactly when both budgets are
  current and have a free slot, the required provider surface has one matching unexpired snapshot
  with a free slot, and some worker fits.  What it offers is the list of the fitting workers, each
  exactly as often as it was given, ordered: least loaded first, reusable sessions before others
  among equally loaded ones, and then by the host's collation of the identifiers when that is a
  total preorder.  It gives a reason exactly when the candidate is not eligible.
\<close>

theorem capacity_exact:
  assumes "evaluateCandidateCapacity lc legacy now cand gb wb pcs ws blocked (JStr at) = Inr r"
    and "truthy cand" and "field cand ''readyState'' = JStr ''ready''"
  shows "(cr_eligible r \<longleftrightarrow> budget_open gb ''global'' \<and>
      (budget_open wb ''workspace'' \<and> (\<exists>b. wb = Some b \<and> js_opt (cb_workspaceId b) = field cand ''workspaceId'')) \<and>
      provider_open legacy cand pcs (JStr at) \<and> (\<exists>w. w \<in> set ws \<and> fits cand blocked w)) \<and>
    (\<exists>offered. cr_compatibleWorkerIds r = map wc_workerId offered \<and> mset offered = mset (filter (fits cand blocked) ws) \<and>
       sorted_wrt (\<lambda>a b. wc_activeAssignmentCount a < wc_activeAssignmentCount b \<or>
         wc_activeAssignmentCount a = wc_activeAssignmentCount b \<and> (wc_reusableSession b \<longrightarrow> wc_reusableSession a)) offered \<and>
       ((\<forall>x y. lc x y \<or> lc y x) \<longrightarrow> (\<forall>x y z. lc x y \<longrightarrow> lc y z \<longrightarrow> lc x z) \<longrightarrow>
          sorted_wrt (\<lambda>a b. wc_activeAssignmentCount a = wc_activeAssignmentCount b \<longrightarrow> wc_reusableSession a = wc_reusableSession b \<longrightarrow>
            lc (wc_workerId a) (wc_workerId b)) offered)) \<and>
    (cr_reasonCodes r = [] \<longleftrightarrow> cr_eligible r)"
proof -
  obtain v where v: "providerCapacityReason legacy cand pcs (JStr at) = Inr v"
    and e: "cr_eligible r \<longleftrightarrow> global_reason gb = [] \<and> workspace_reason wb (field cand ''workspaceId'') = [] \<and> pv_allowed v \<and>
       filter (fits cand blocked) ws \<noteq> []"
    and ids: "cr_compatibleWorkerIds r = map wc_workerId (sort_by (worker_before lc) (filter (fits cand blocked) ws))"
    and rc: "cr_reasonCodes r = [] \<longleftrightarrow> cr_eligible r"
    using evaluateCandidateCapacity_Inr[OF assms] by blast
  let ?o = "sort_by (worker_before lc) (filter (fits cand blocked) ws)"
  have "filter (fits cand blocked) ws \<noteq> [] \<longleftrightarrow> (\<exists>w. w \<in> set ws \<and> fits cand blocked w)"
    by (auto simp: filter_empty_conv)
  with e have "cr_eligible r \<longleftrightarrow> budget_open gb ''global'' \<and>
      (budget_open wb ''workspace'' \<and> (\<exists>b. wb = Some b \<and> js_opt (cb_workspaceId b) = field cand ''workspaceId'')) \<and>
      provider_open legacy cand pcs (JStr at) \<and> (\<exists>w. w \<in> set ws \<and> fits cand blocked w)"
    unfolding global_reason_empty workspace_reason_empty providerCapacityReason_allowed[OF v] by blast
  moreover have "sorted_wrt (\<lambda>a b. wc_activeAssignmentCount a = wc_activeAssignmentCount b \<longrightarrow> wc_reusableSession a = wc_reusableSession b \<longrightarrow>
      lc (wc_workerId a) (wc_workerId b)) ?o"
    if lc: "\<forall>x y. lc x y \<or> lc y x" "\<forall>x y z. lc x y \<longrightarrow> lc y z \<longrightarrow> lc x z"
  proof (rule sorted_wrt_mono_rel)
    show "sorted_wrt (worker_before lc) ?o" using lc by (intro sort_workers_before) blast+
  qed (simp add: worker_before_def)
  ultimately show ?thesis
    using rc ids mset_sort_by sort_workers_preferred[unfolded preferred_def] by blast
qed

definition sample_budget :: "string \<Rightarrow> string option \<Rightarrow> concurrency_budget" where
  "sample_budget scope w = \<lparr>cb_id = ''b'', cb_workspaceId = w, cb_scope = scope, cb_maxActive = 2, cb_activeObserved = 1,
     cb_status = ''current'', cb_observedAt = ''t'', cb_remaining = 1, cb_digest = ''d''\<rparr>"

definition sample_worker :: "string \<Rightarrow> int \<Rightarrow> worker_capacity" where
  "sample_worker i n = \<lparr>wc_workerId = i, wc_workspaceId = ''w'', wc_status = ''eligible'', wc_browserChannel = ''chrome'',
     wc_activeAssignmentCount = n, wc_reusableSession = False, wc_safeCompatibilityKeys = []\<rparr>"

theorem capacity_exact_witness:
  "\<exists>r. evaluateCandidateCapacity (\<lambda>a b. a \<le> b) (\<lambda>_. None) ''t'' (sample_candidate ''a'' ''low'' ''2026-03-01T00:00:00.000Z'')
     (Some (sample_budget ''global'' None)) (Some (sample_budget ''workspace'' (Some ''w''))) []
     [sample_worker ''w2'' 3, sample_worker ''w1'' 0] JUndef (JStr ''t'') = Inr r \<and>
     cr_eligible r \<and> cr_compatibleWorkerIds r = [''w1'', ''w2''] \<and> cr_reasonCodes r = []"
proof -
  let ?c = "sample_candidate ''a'' ''low'' ''2026-03-01T00:00:00.000Z''"
  let ?r = "evaluateCandidateCapacity (\<lambda>a b. a \<le> b) (\<lambda>_. None) ''t'' ?c
     (Some (sample_budget ''global'' None)) (Some (sample_budget ''workspace'' (Some ''w''))) []
     [sample_worker ''w2'' 3, sample_worker ''w1'' 0] JUndef (JStr ''t'')"
  have "(case ?r of Inr r \<Rightarrow> cr_eligible r \<and> cr_compatibleWorkerIds r = [''w1'', ''w2''] | Inl _ \<Rightarrow> False)" by code_simp
  then obtain r where r: "?r = Inr r" "cr_eligible r" "cr_compatibleWorkerIds r = [''w1'', ''w2'']" by (cases ?r) simp_all
  have c: "truthy ?c" "field ?c ''readyState'' = JStr ''ready''" by (simp_all add: sample_candidate_def)
  from capacity_exact[OF r(1) c] have "cr_reasonCodes r = [] \<longleftrightarrow> cr_eligible r" by blast
  with r show ?thesis by (intro exI[of _ r] conjI) simp_all
qed

end
