(* ===== verification/SchedDecision.thy ===== *)
theory SchedDecision
  imports SchedCapacity
begin

text \<open>
  Scheduling orchestration (\<open>src/scheduling/orchestration/index.cjs\<close>): which canonical records
  become candidates, the decision that assigns at most one of them, the assignment proposal and
  its revalidation.  The ranking and the capacity evaluation are callbacks of the decision, as
  in the code; \<open>computeSchedulingDecisionForWorkspace\<close> of \<open>src/application/s6-index.cjs\<close> supplies
  the ranking of \<open>SchedPolicy\<close> and the evaluation of \<open>SchedCapacity\<close>.
\<close>

subsection \<open>Canonical readiness\<close>

text \<open>\<open>Some code\<close> is the reason the record is not schedulable.\<close>

definition canonicalReadiness :: "js \<Rightarrow> string option" where
  "canonicalReadiness record =
    (if \<not> plain_object record then Some ''invalid_source_record''
     else if field record ''workspaceStatus'' \<noteq> JStr ''active'' then Some ''workspace_not_active''
     else if field record ''readyState'' \<noteq> JStr ''ready''
       then Some (if field record ''readyState'' = JStr ''waiting_human'' then ''human_gate_required'' else ''source_not_ready'')
     else if truthy (field record ''missionState'') \<and> field record ''missionState'' \<noteq> JStr ''active'' then Some ''mission_not_active''
     else if field record ''dependenciesSatisfied'' \<noteq> JBool True then Some ''dependencies_unsatisfied''
     else if field record ''authorityValid'' \<noteq> JBool True then Some ''authority_invalid''
     else if field record ''humanGateClear'' \<noteq> JBool True then Some ''human_gate_required''
     else if field record ''executionIdentityCurrent'' \<noteq> JBool True then Some ''stale_execution_identity''
     else if field record ''resourceRequirementsDeclared'' \<noteq> JBool True then Some ''resource_requirements_unknown''
     else if truthy (field record ''providerRequirement'') \<and> field record ''providerUseAccepted'' \<noteq> JBool True
       then Some ''provider_use_not_accepted''
     else if field record ''priorEffectState'' = JStr ''uncertain'' then Some ''uncertain_execution''
     else None)"

record source_candidate =
  so_cand_id :: string
  so_cand_workspaceId :: string
  so_cand_sourceKind :: string
  so_cand_sourceId :: string
  so_cand_executionIdentity :: string
  so_cand_readySince :: string
  so_cand_priority :: string
  so_cand_requiredResources :: "string list"
  so_cand_providerRequirement :: "(string \<times> string) option"
  so_cand_workerRequirements :: "(string \<times> string) list"

definition candidate_provider :: "js \<Rightarrow> (string \<times> string) option res" where
  "candidate_provider v =
    (if nullish v then Inr None
     else bindE (assertSafeIdentifier (field v ''providerId'') ''provider id'') (\<lambda>p.
       bindE (assertSafeIdentifier (field v ''action'') ''provider action'') (\<lambda>a. Inr (Some (p, a)))))"

definition candidate_worker :: "js \<Rightarrow> (string \<times> string) list res" where
  "candidate_worker v =
    (if \<not> is_object v then Inr []
     else bindE (if truthy (field v ''browserChannel'')
          then bindE (requiredText (field v ''browserChannel'') ''browser channel'' 40) (\<lambda>c. Inr [(''browserChannel'', c)]) else Inr []) (\<lambda>channel.
       bindE (if truthy (field v ''exactProfileClass'')
          then bindE (assertSafeIdentifier (field v ''exactProfileClass'') ''exact profile class'') (\<lambda>c. Inr [(''exactProfileClass'', c)])
          else Inr []) (\<lambda>profile. Inr (channel @ profile))))"

definition toCandidate :: "(string \<Rightarrow> int option) \<Rightarrow> js \<Rightarrow> source_candidate res" where
  "toCandidate legacy record =
    bindE (case field record ''requiredResources'' of
        JArr rs \<Rightarrow> mapE (\<lambda>r. assertSafeIdentifier r ''required resource id'') rs | _ \<Rightarrow> Inr []) (\<lambda>resources.
    bindE (candidate_provider (field record ''providerRequirement'')) (\<lambda>provider.
    bindE (candidate_worker (field record ''workerRequirements'')) (\<lambda>worker.
    bindE (assertSafeIdentifier (field record ''id'') ''scheduling candidate id'') (\<lambda>i.
    bindE (assertSafeIdentifier (field record ''workspaceId'') ''workspace id'') (\<lambda>w.
    if \<not> includes_str [''task'', ''plan_step''] (field record ''sourceKind'')
    then Inl (Error ''Scheduling sourceKind must be task or plan_step'')
    else bindE (assertSafeIdentifier (field record ''sourceId'') ''scheduling source id'') (\<lambda>s.
    bindE (assertSafeIdentifier (field record ''executionIdentity'') ''execution identity'') (\<lambda>x.
    bindE (isoInstant legacy (field record ''readySince'') ''candidate readySince'') (\<lambda>since.
    if \<not> includes_str PRIORITIES (field record ''priority'') then Inl (Error ''Invalid scheduling priority'')
    else Inr \<lparr>so_cand_id = i, so_cand_workspaceId = w, so_cand_sourceKind = to_string (field record ''sourceKind''),
      so_cand_sourceId = s, so_cand_executionIdentity = x, so_cand_readySince = since,
      so_cand_priority = to_string (field record ''priority''), so_cand_requiredResources = resources,
      so_cand_providerRequirement = provider, so_cand_workerRequirements = worker\<rparr>))))))))"

text \<open>The candidate as the object the ranking and the capacity evaluation receive.\<close>

definition source_candidate_obj :: "source_candidate \<Rightarrow> js" where
  "source_candidate_obj c = JObj [(''id'', JStr (so_cand_id c)), (''workspaceId'', JStr (so_cand_workspaceId c)),
     (''sourceKind'', JStr (so_cand_sourceKind c)), (''sourceId'', JStr (so_cand_sourceId c)),
     (''executionIdentity'', JStr (so_cand_executionIdentity c)), (''readyState'', JStr ''ready''),
     (''readySince'', JStr (so_cand_readySince c)), (''priority'', JStr (so_cand_priority c)),
     (''requiredResources'', js_strs (so_cand_requiredResources c)),
     (''providerRequirement'', (case so_cand_providerRequirement c of None \<Rightarrow> JNull
        | Some (p, a) \<Rightarrow> JObj [(''providerId'', JStr p), (''action'', JStr a)])),
     (''workerRequirements'', JObj (map (\<lambda>(k, v). (k, JStr v)) (so_cand_workerRequirements c)))]"

record deferred_record =
  dr_sourceId :: js
  dr_candidateId :: js
  dr_reasonCodes :: "string list"

fun derive_loop ::
  "(string \<Rightarrow> int option) \<Rightarrow> string list \<Rightarrow> js list \<Rightarrow> (source_candidate list \<times> deferred_record list) res" where
  "derive_loop legacy seen [] = Inr ([], [])"
| "derive_loop legacy seen (r # rs) = (case canonicalReadiness r of
      Some code \<Rightarrow> bindE (derive_loop legacy seen rs) (\<lambda>(cs, ds).
        Inr (cs, \<lparr>dr_sourceId = or_js (field r ''sourceId'') JNull, dr_candidateId = or_js (field r ''id'') JNull,
          dr_reasonCodes = [code]\<rparr> # ds))
    | None \<Rightarrow> bindE (toCandidate legacy r) (\<lambda>c.
        if so_cand_id c \<in> set seen then Inl (Error ''SchedulingCandidate ids must be unique'')
        else bindE (derive_loop legacy (so_cand_id c # seen) rs) (\<lambda>(cs, ds). Inr (c # cs, ds))))"

definition deriveSchedulingCandidates ::
  "(string \<Rightarrow> int option) \<Rightarrow> js \<Rightarrow> (source_candidate list \<times> deferred_record list) res" where
  "deriveSchedulingCandidates legacy records =
    bindE (as_array records (TypeError ''canonical source records must be an array'')) (derive_loop legacy [])"

subsection \<open>The decision\<close>

text \<open>\<open>item[key]\<close> of every element, checked as an identifier.\<close>

definition identifiers_of :: "string \<Rightarrow> string \<Rightarrow> js list \<Rightarrow> string list res" where
  "identifiers_of key label xs = mapE (\<lambda>x. bindE (fieldE x key) (\<lambda>v. assertSafeIdentifier v label)) xs"

definition createInputDigest ::
  "(string \<Rightarrow> string) \<Rightarrow> (string \<Rightarrow> int option) \<Rightarrow> sched_policy option \<Rightarrow> js list \<Rightarrow> js list \<Rightarrow> js \<Rightarrow> js \<Rightarrow> string res" where
  "createInputDigest sha legacy policy candidates workers capacitySnapshot evaluatedAt =
    bindE (requiredText (case policy of Some p \<Rightarrow> JStr (sp_digest p) | None \<Rightarrow> JUndef) ''policy digest'' 100) (\<lambda>pd.
    bindE (isoInstant legacy evaluatedAt ''evaluatedAt'') (\<lambda>at.
    bindE (identifiers_of ''id'' ''candidate id'' candidates) (\<lambda>cs.
    bindE (identifiers_of ''workerId'' ''worker id'' workers) (\<lambda>ws.
    Inr (digest sha (JObj [(''policyDigest'', JStr pd), (''evaluatedAt'', JStr at), (''candidateIds'', js_strs (sort cs)),
      (''workerIds'', js_strs (sort ws)),
      (''capacityDigest'', or_js (field capacitySnapshot ''digest'') (JStr (digest sha (or_js capacitySnapshot (JObj [])))))]))))))"

record deferred_candidate =
  dc_candidateId :: string
  dc_reasonCodes :: "string list"

record sched_decision =
  sd_id :: string
  sd_policySnapshotId :: string
  sd_inputDigest :: string
  sd_evaluatedAt :: string
  sd_orderedCandidateIds :: "string list"
  sd_selectedCandidateId :: "string option"
  sd_selectedWorkerId :: "string option"
  sd_reasonCodes :: "string list"
  sd_deferred :: "deferred_candidate list"
  sd_decisionDigest :: string

definition decision_base :: "sched_decision \<Rightarrow> js" where
  "decision_base d = JObj [(''id'', JStr (sd_id d)), (''policySnapshotId'', JStr (sd_policySnapshotId d)),
     (''inputDigest'', JStr (sd_inputDigest d)), (''evaluatedAt'', JStr (sd_evaluatedAt d)),
     (''orderedCandidateIds'', js_strs (sd_orderedCandidateIds d)), (''selectedCandidateId'', js_opt (sd_selectedCandidateId d)),
     (''selectedWorkerId'', js_opt (sd_selectedWorkerId d)), (''reasonCodes'', js_strs (sd_reasonCodes d)),
     (''deferred'', JArr (map (\<lambda>x. JObj [(''candidateId'', JStr (dc_candidateId x)), (''reasonCodes'', js_strs (dc_reasonCodes x))])
        (sd_deferred d)))]"

definition result_workers :: "js \<Rightarrow> string list res" where
  "result_workers result = (case field result ''compatibleWorkerIds'' of
      JArr ws \<Rightarrow> mapE (\<lambda>w. assertSafeIdentifier w ''compatible worker id'') ws | _ \<Rightarrow> Inr [])"

definition deferred_codes :: "js \<Rightarrow> string list res" where
  "deferred_codes result = (case field result ''reasonCodes'' of
      JArr cs \<Rightarrow> if cs = [] then Inr [''no_compatible_worker'']
                 else bindE (mapE (\<lambda>c. assertSafeIdentifier c ''capacity reason code'') cs) (\<lambda>codes. Inr (sortedSet codes))
    | _ \<Rightarrow> Inr [''no_compatible_worker''])"

text \<open>
  The loop over the ordered candidates: \<open>evaluate\<close> is the capacity callback on the candidate
  with the given id, \<open>selected\<close> the assignment found so far.
\<close>

fun decide_loop ::
  "(string \<Rightarrow> js res) \<Rightarrow> (string \<times> string) option \<Rightarrow> string list \<Rightarrow> ((string \<times> string) option \<times> deferred_candidate list) res" where
  "decide_loop evaluate selected [] = Inr (selected, [])"
| "decide_loop evaluate selected (c # cs) =
     bindE (evaluate c) (\<lambda>result.
     if \<not> is_object result then Inl (TypeError ''evaluateCapacity must return an object'')
     else bindE (result_workers result) (\<lambda>workerIds.
       if field result ''eligible'' = JBool True \<and> workerIds \<noteq> [] \<and> selected = None
       then decide_loop evaluate (Some (c, hd workerIds)) cs
       else bindE (deferred_codes result) (\<lambda>codes.
         bindE (decide_loop evaluate selected cs) (\<lambda>(sel, ds). Inr (sel, \<lparr>dc_candidateId = c, dc_reasonCodes = codes\<rparr> # ds)))))"

definition computeSchedulingDecision ::
  "(string \<Rightarrow> string) \<Rightarrow> (string \<Rightarrow> int option) \<Rightarrow> js \<Rightarrow> sched_policy option \<Rightarrow> js list \<Rightarrow> js list \<Rightarrow> js \<Rightarrow> js \<Rightarrow>
   (sched_policy \<Rightarrow> js list \<Rightarrow> string \<Rightarrow> js \<Rightarrow> js res) \<Rightarrow> (js \<Rightarrow> sched_policy \<Rightarrow> js list \<Rightarrow> js \<Rightarrow> string \<Rightarrow> js res) \<Rightarrow> sched_decision res" where
  "computeSchedulingDecision sha legacy i policy candidates workers capacitySnapshot evaluatedAt rankCandidates evaluateCapacity =
    (case policy of None \<Rightarrow> Inl (Error ''Active scheduling policy is required'')
    | Some p \<Rightarrow>
      if sp_status p \<noteq> ''active'' then Inl (Error ''Active scheduling policy is required'')
      else bindE (isoInstant legacy evaluatedAt ''evaluatedAt'') (\<lambda>evaluated.
      bindE (rankCandidates p candidates evaluated capacitySnapshot) (\<lambda>ordered.
      bindE (as_array ordered (TypeError ''rankCandidates must return an array'')) (\<lambda>items.
      bindE (mapE (\<lambda>c. bindE (fieldE c ''id'') (\<lambda>k. Inr (k, c))) candidates) (\<lambda>byId.
      bindE (mapE (\<lambda>item. bindE (fieldE item ''id'') (\<lambda>k. assertSafeIdentifier (or_js k (field item ''candidateId'')) ''ordered candidate id''))
        items) (\<lambda>ids.
      if \<not> distinct ids then Inl (Error ''rankCandidates returned duplicate candidate ids'')
      else if list_ex (\<lambda>c. index_by fst byId (JStr c) = None) ids then Inl (Error ''rankCandidates returned an unknown candidate id'')
      else bindE (decide_loop (\<lambda>c. case index_by fst byId (JStr c) of
             Some (_, candidate) \<Rightarrow> evaluateCapacity candidate p workers capacitySnapshot evaluated
           | None \<Rightarrow> Inl (Error ''unreachable'')) None ids) (\<lambda>(selected, deferred).
      bindE (createInputDigest sha legacy policy candidates workers capacitySnapshot (JStr evaluated)) (\<lambda>inputDigest.
      bindE (assertSafeIdentifier i ''scheduling decision id'') (\<lambda>did.
      bindE (assertSafeIdentifier (JStr (sp_id p)) ''scheduling policy id'') (\<lambda>pid.
      let d = \<lparr>sd_id = did, sd_policySnapshotId = pid, sd_inputDigest = inputDigest, sd_evaluatedAt = evaluated,
            sd_orderedCandidateIds = ids, sd_selectedCandidateId = map_option fst selected,
            sd_selectedWorkerId = map_option snd selected,
            sd_reasonCodes = (if selected \<noteq> None then [''selected''] else [''no_assignment'']),
            sd_deferred = deferred, sd_decisionDigest = []\<rparr>
      in Inr (d\<lparr>sd_decisionDigest := digest sha (decision_base d)\<rparr>)))))))))))"

subsection \<open>Proposals\<close>

record assignment_proposal =
  ap_id :: string
  ap_decisionId :: string
  ap_workspaceId :: string
  ap_candidateId :: string
  ap_workerId :: string
  ap_executionIdentity :: string
  ap_authoritySnapshotDigest :: string
  ap_state :: string
  ap_reasonCode :: "string option"

definition createAssignmentProposal :: "js \<Rightarrow> sched_decision option \<Rightarrow> js \<Rightarrow> js \<Rightarrow> assignment_proposal res" where
  "createAssignmentProposal i decision candidate authoritySnapshotDigest = (case decision of
      None \<Rightarrow> Inl (Error ''SchedulingDecision has no selected assignment'')
    | Some d \<Rightarrow> (case (sd_selectedCandidateId d, sd_selectedWorkerId d) of
        (Some c, Some w) \<Rightarrow>
          if \<not> truthy candidate \<or> field candidate ''id'' \<noteq> JStr c \<or> field candidate ''readyState'' \<noteq> JStr ''ready''
          then Inl (Error ''Selected candidate does not match SchedulingDecision'')
          else bindE (assertSafeIdentifier i ''assignment proposal id'') (\<lambda>pid.
            bindE (assertSafeIdentifier (JStr (sd_id d)) ''scheduling decision id'') (\<lambda>did.
            bindE (assertSafeIdentifier (field candidate ''workspaceId'') ''workspace id'') (\<lambda>ws.
            bindE (assertSafeIdentifier (field candidate ''id'') ''candidate id'') (\<lambda>cid.
            bindE (assertSafeIdentifier (JStr w) ''worker id'') (\<lambda>wid.
            bindE (assertSafeIdentifier (field candidate ''executionIdentity'') ''execution identity'') (\<lambda>x.
            bindE (requiredText authoritySnapshotDigest ''authority snapshot digest'' 100) (\<lambda>a.
            Inr \<lparr>ap_id = pid, ap_decisionId = did, ap_workspaceId = ws, ap_candidateId = cid, ap_workerId = wid,
              ap_executionIdentity = x, ap_authoritySnapshotDigest = a, ap_state = ''proposed'', ap_reasonCode = None\<rparr>)))))))
      | _ \<Rightarrow> Inl (Error ''SchedulingDecision has no selected assignment'')))"

definition revalidateAssignmentProposal :: "assignment_proposal option \<Rightarrow> js \<Rightarrow> assignment_proposal res" where
  "revalidateAssignmentProposal proposal current = (case proposal of
      None \<Rightarrow> Inl (Error ''Only proposed assignments can be revalidated'')
    | Some p \<Rightarrow>
      if ap_state p \<noteq> ''proposed'' then Inl (Error ''Only proposed assignments can be revalidated'')
      else if \<not> is_object current then Inl (TypeError ''current authority state is required'')
      else let reject = (\<lambda>state code. Inr (p\<lparr>ap_state := state, ap_reasonCode := Some code\<rparr>)) in
        if field current ''authoritySnapshotDigest'' \<noteq> JStr (ap_authoritySnapshotDigest p) then reject ''stale'' ''stale_authority_snapshot''
        else if field current ''executionIdentity'' \<noteq> JStr (ap_executionIdentity p) then reject ''stale'' ''stale_execution_identity''
        else if field current ''candidateReady'' \<noteq> JBool True then reject ''rejected'' ''rejected_not_ready''
        else if field current ''resourceAvailable'' \<noteq> JBool True then reject ''rejected'' ''rejected_resource_conflict''
        else if field current ''providerCapacityCurrent'' \<noteq> JBool True then reject ''rejected'' ''rejected_provider_capacity''
        else if field current ''humanGateClear'' \<noteq> JBool True then reject ''rejected'' ''rejected_human_gate''
        else if field current ''priorEffectCertain'' \<noteq> JBool True then reject ''rejected'' ''rejected_uncertain''
        else Inr (p\<lparr>ap_state := ''accepted'', ap_reasonCode := Some ''accepted_current''\<rparr>))"

subsection \<open>The contract of the callbacks and what the loop does with them\<close>

text \<open>What the evaluation offers a candidate: its first compatible worker, when it is eligible.\<close>

definition offer :: "(string \<Rightarrow> js res) \<Rightarrow> string \<Rightarrow> string option" where
  "offer evaluate c = (case evaluate c of Inl _ \<Rightarrow> None
    | Inr result \<Rightarrow> (case result_workers result of
        Inr (w # _) \<Rightarrow> if field result ''eligible'' = JBool True then Some w else None
      | _ \<Rightarrow> None))"

lemma offer_eval:
  assumes "evaluate c = Inr result" "result_workers result = Inr ws"
  shows "offer evaluate c = (if field result ''eligible'' = JBool True \<and> ws \<noteq> [] then Some (hd ws) else None)"
  using assms by (cases ws) (simp_all add: offer_def)

lemma decide_loop_selected:
  "decide_loop evaluate (Some s) cs = Inr (sel, ds) \<Longrightarrow> sel = Some s \<and> map dc_candidateId ds = cs"
proof (induction cs arbitrary: sel ds)
  case (Cons c cs)
  from Cons.prems obtain result where r: "evaluate c = Inr result" by (cases "evaluate c") simp_all
  with Cons.prems obtain ws where ws: "result_workers result = Inr ws" and o: "is_object result"
    by (cases "result_workers result"; cases "is_object result") simp_all
  from Cons.prems r ws o obtain codes ds' where "deferred_codes result = Inr codes"
    "decide_loop evaluate (Some s) cs = Inr (sel, ds')" "ds = \<lparr>dc_candidateId = c, dc_reasonCodes = codes\<rparr> # ds'"
    by (auto simp del: bindE_eq_Inr simp: bindE_def split: sum.splits)
  with Cons.IH[of sel ds'] show ?case by simp
qed simp

lemma decide_loop_first:
  "decide_loop evaluate None cs = Inr (sel, ds) \<Longrightarrow>
    sel = map_option (\<lambda>c. (c, the (offer evaluate c))) (find (\<lambda>c. offer evaluate c \<noteq> None) cs) \<and>
    map dc_candidateId ds = (case sel of None \<Rightarrow> cs | Some (c, _) \<Rightarrow> remove1 c cs)"
proof (induction cs arbitrary: sel ds)
  case (Cons c cs)
  from Cons.prems obtain result where r: "evaluate c = Inr result" by (cases "evaluate c") simp_all
  with Cons.prems obtain ws where ws: "result_workers result = Inr ws" and o: "is_object result"
    by (cases "result_workers result"; cases "is_object result") simp_all
  note of = offer_eval[of evaluate, OF r ws]
  show ?case
  proof (cases "field result ''eligible'' = JBool True \<and> ws \<noteq> []")
    case True
    with Cons.prems r ws o have "decide_loop evaluate (Some (c, hd ws)) cs = Inr (sel, ds)" by simp
    from decide_loop_selected[OF this] True of show ?thesis by simp
  next
    case False
    then have no: "offer evaluate c = None" using of by simp
    from Cons.prems r ws o False obtain codes ds' where d: "deferred_codes result = Inr codes"
      "decide_loop evaluate None cs = Inr (sel, ds')" "ds = \<lparr>dc_candidateId = c, dc_reasonCodes = codes\<rparr> # ds'"
      by (cases "deferred_codes result"; cases "decide_loop evaluate None cs") auto
    from Cons.IH[OF d(2)] have s: "sel = map_option (\<lambda>c. (c, the (offer evaluate c))) (find (\<lambda>c. offer evaluate c \<noteq> None) cs)"
      and m: "map dc_candidateId ds' = (case sel of None \<Rightarrow> cs | Some (c, _) \<Rightarrow> remove1 c cs)" by blast+
    show ?thesis
    proof (cases "find (\<lambda>c. offer evaluate c \<noteq> None) cs")
      case None
      with s m no d(3) show ?thesis by simp
    next
      case (Some x)
      with find_Some_set[OF Some] no have "x \<noteq> c" by auto
      with Some s m no d(3) show ?thesis by simp
    qed
  qed
qed simp

end
