(* ===== verification/S6Scheduling.thy ===== *)
theory S6Scheduling
  imports SchedDecision Locks
begin

text \<open>
  The scheduling half of the S6 application service (\<open>src/application/s6-index.cjs\<close> with the
  overrides of \<open>src/application/s6-scheduler-service.cjs\<close>): recording policies and provider
  capacities, collecting the inputs of a decision, deciding and proposing, revalidating.  What
  the service reads from the other stages is the record \<open>s6_env\<close>: the active workspaces, the
  lock table, the worker bindings, the live workers, the canonical records of a workspace and
  the clock.  Projection stores are maps by id and never fail.
\<close>

subsection \<open>Identifiers and resources\<close>

definition boundedId :: "(string \<Rightarrow> string) \<Rightarrow> string \<Rightarrow> string list \<Rightarrow> string" where
  "boundedId sha prefix parts = prefix @ ''-'' @ take 20 (sha (join_with '':'' parts))"

definition resourceParts :: "js \<Rightarrow> (string \<times> string) option" where
  "resourceParts requirement =
    (if \<not> plain_object requirement then None
     else let type = trim_js (to_string (or_js (field requirement ''type'') (JStr [])));
              key = trim_js (to_string (or_js (field requirement ''key'') (JStr [])))
          in if type = [] \<or> key = [] then None else Some (type, key))"

definition resourceIdentifier :: "(string \<Rightarrow> string) \<Rightarrow> js \<Rightarrow> string option" where
  "resourceIdentifier sha resource =
    map_option (\<lambda>(type, key). boundedId sha ''resource'' [type, key]) (resourceParts resource)"

subsection \<open>State and environment\<close>

record worker_binding =
  wb_id :: string
  wb_workspaceId :: string
  wb_browserChannel :: js

record live_worker =
  lw_id :: string
  lw_status :: string
  lw_browserChannel :: js

record s6_env =
  se_active :: "string \<Rightarrow> bool"
  se_locks :: "lock list"
  se_bindings :: "worker_binding list"
  se_live :: "live_worker list"
  se_records :: "string \<Rightarrow> js list"
  se_clock :: string

record s6_event =
  sv_workspaceId :: string
  sv_type :: string
  sv_aggregateType :: string
  sv_aggregateId :: string
  sv_idempotencyKey :: string
  sv_payload :: js

record s6_state =
  s6_policies :: "(string, sched_policy) jsmap"
  s6_capacities :: "(string, provider_capacity) jsmap"
  s6_decisions :: "(string, string \<times> sched_decision) jsmap"
  s6_proposals :: "(string, assignment_proposal \<times> int) jsmap"
  s6_events :: "s6_event list"

text \<open>
  The event store ignores an event it already has and refuses another one under the same
  idempotency key.
\<close>

definition appendS6Event :: "s6_event \<Rightarrow> (s6_state, unit) act" where
  "appendS6Event e s = (case find (\<lambda>x. sv_idempotencyKey x = sv_idempotencyKey e) (s6_events s) of
      None \<Rightarrow> (s\<lparr>s6_events := s6_events s @ [e]\<rparr>, Inr ())
    | Some x \<Rightarrow>
        if sv_workspaceId x = sv_workspaceId e \<and> sv_aggregateType x = sv_aggregateType e \<and> sv_aggregateId x = sv_aggregateId e
           \<and> sv_type x = sv_type e \<and> stableStringify (sv_payload x) = stableStringify (sv_payload e)
        then (s, Inr ()) else (s, Inl (Error (''Idempotency key collision: '' @ sv_idempotencyKey e))))"

definition requireS6Workspace :: "s6_env \<Rightarrow> js \<Rightarrow> string res" where
  "requireS6Workspace env workspaceId = (case workspaceId of
      JStr w \<Rightarrow> if se_active env w then Inr w else Inl (Error (''Workspace not found or inactive: '' @ w))
    | v \<Rightarrow> Inl (Error (''Workspace not found or inactive: '' @ to_string v)))"

definition active_policies :: "s6_state \<Rightarrow> string \<Rightarrow> sched_policy list" where
  "active_policies s w = filter (\<lambda>p. sp_workspaceId p = w \<and> sp_status p = ''active'') (mvalues (s6_policies s))"

definition activeSchedulingPolicy :: "s6_state \<Rightarrow> string \<Rightarrow> sched_policy option res" where
  "activeSchedulingPolicy s w = (case active_policies s w of
      [] \<Rightarrow> Inr None
    | [p] \<Rightarrow> Inr (Some p)
    | _ \<Rightarrow> Inl (Error (''Multiple active SchedulingPolicySnapshots for Workspace: '' @ w)))"

subsection \<open>Recording policies and capacities\<close>

definition recordSchedulingPolicy ::
  "(string \<Rightarrow> string) \<Rightarrow> (string \<Rightarrow> int option) \<Rightarrow> s6_env \<Rightarrow> js \<Rightarrow> (s6_state, sched_policy) act" where
  "recordSchedulingPolicy sha legacy env input s =
    (if \<not> plain_object input then (s, Inl (TypeError ''Scheduling policy input must be a plain object''))
     else case bindE (requireS6Workspace env (field input ''workspaceId'')) (\<lambda>_.
            createSchedulingPolicySnapshot sha legacy (se_clock env) input) of
         Inl e \<Rightarrow> (s, Inl e)
       | Inr candidate \<Rightarrow> (case mget (s6_policies s) (sp_id candidate) of
           Some existing \<Rightarrow>
             if sp_digest existing \<noteq> sp_digest candidate
             then (s, Inl (Error (''SchedulingPolicySnapshot idempotency collision: '' @ sp_id candidate)))
             else (s, Inr existing)
         | None \<Rightarrow> (case activeSchedulingPolicy s (sp_workspaceId candidate) of
             Inl e \<Rightarrow> (s, Inl e)
           | Inr (Some active) \<Rightarrow> (s, Inl (Error (''Workspace already has an active SchedulingPolicySnapshot: '' @ sp_id active)))
           | Inr None \<Rightarrow>
               bindS (modifyS (\<lambda>s. s\<lparr>s6_policies := mset_at (sp_id candidate) candidate (s6_policies s)\<rparr>)) (\<lambda>_.
               bindS (appendS6Event \<lparr>sv_workspaceId = sp_workspaceId candidate, sv_type = ''scheduling.policy_recorded'',
                   sv_aggregateType = ''schedulingPolicy'', sv_aggregateId = sp_id candidate,
                   sv_idempotencyKey = ''scheduling.policy_recorded:'' @ sp_id candidate @ '':'' @ sp_digest candidate,
                   sv_payload = JObj [(''policyId'', JStr (sp_id candidate)), (''digest'', JStr (sp_digest candidate)),
                     (''version'', JStr (sp_version candidate))]\<rparr>) (\<lambda>_. returnS candidate)) s)))"

definition recordProviderCapacity ::
  "(string \<Rightarrow> string) \<Rightarrow> (string \<Rightarrow> int option) \<Rightarrow> s6_env \<Rightarrow> js \<Rightarrow> (s6_state, provider_capacity) act" where
  "recordProviderCapacity sha legacy env input s =
    (if \<not> plain_object input then (s, Inl (TypeError ''Provider capacity input must be a plain object''))
     else case bindE (requireS6Workspace env (field input ''workspaceId'')) (\<lambda>_. createProviderCapacitySnapshot sha legacy input) of
         Inl e \<Rightarrow> (s, Inl e)
       | Inr candidate \<Rightarrow> (case mget (s6_capacities s) (pc_id candidate) of
           Some existing \<Rightarrow>
             if pc_digest existing \<noteq> pc_digest candidate
             then (s, Inl (Error (''ProviderCapacitySnapshot idempotency collision: '' @ pc_id candidate)))
             else (s, Inr existing)
         | None \<Rightarrow>
             bindS (modifyS (\<lambda>s. s\<lparr>s6_capacities := mset_at (pc_id candidate) candidate (s6_capacities s)\<rparr>)) (\<lambda>_.
             bindS (appendS6Event \<lparr>sv_workspaceId = pc_workspaceId candidate, sv_type = ''scheduling.provider_capacity_recorded'',
                 sv_aggregateType = ''providerCapacitySnapshot'', sv_aggregateId = pc_id candidate,
                 sv_idempotencyKey = ''scheduling.provider_capacity_recorded:'' @ pc_id candidate @ '':'' @ pc_digest candidate,
                 sv_payload = JObj [(''capacityId'', JStr (pc_id candidate)), (''providerId'', JStr (pc_providerId candidate)),
                   (''action'', JStr (pc_action candidate)), (''status'', JStr (pc_status candidate)),
                   (''digest'', JStr (pc_digest candidate))]\<rparr>) (\<lambda>_. returnS candidate)) s))"

subsection \<open>The inputs of a decision\<close>

text \<open>\<open>lc a b\<close> is \<open>a.localeCompare(b) <= 0\<close>.\<close>

definition newer_capacity :: "(string \<Rightarrow> string \<Rightarrow> bool) \<Rightarrow> provider_capacity \<Rightarrow> provider_capacity \<Rightarrow> bool" where
  "newer_capacity lc snapshot current \<longleftrightarrow> \<not> lc (pc_observedAt snapshot) (pc_observedAt current) \<or>
     pc_observedAt snapshot = pc_observedAt current \<and> \<not> lc (pc_id snapshot) (pc_id current)"

definition keep_latest ::
  "(string \<Rightarrow> string \<Rightarrow> bool) \<Rightarrow> provider_capacity \<Rightarrow> (string, provider_capacity) jsmap \<Rightarrow> (string, provider_capacity) jsmap" where
  "keep_latest lc snapshot latest =
    (let key = colon_key (pc_providerId snapshot) (pc_action snapshot) in
     case mget latest key of
       None \<Rightarrow> mset_at key snapshot latest
     | Some current \<Rightarrow> if newer_capacity lc snapshot current then mset_at key snapshot latest else latest)"

definition latestProviderCapacities :: "(string \<Rightarrow> string \<Rightarrow> bool) \<Rightarrow> s6_state \<Rightarrow> string \<Rightarrow> provider_capacity list" where
  "latestProviderCapacities lc s w =
    mvalues (fold (keep_latest lc) (filter (\<lambda>c. pc_workspaceId c = w) (mvalues (s6_capacities s))) [])"

definition workerRuntimeStatus :: "live_worker option \<Rightarrow> string" where
  "workerRuntimeStatus worker = (case worker of None \<Rightarrow> ''unavailable''
    | Some w \<Rightarrow> if lw_status w = ''idle'' \<or> lw_status w = ''active'' then ''eligible''
                 else if lw_status w = ''draining'' then ''draining'' else ''unavailable'')"

definition worker_channel :: "live_worker option \<Rightarrow> worker_binding \<Rightarrow> js" where
  "worker_channel live binding =
    (case live of
       Some l \<Rightarrow> if includes_str [''chrome'', ''chromium''] (lw_browserChannel l) then lw_browserChannel l
                  else if includes_str [''chrome'', ''chromium''] (wb_browserChannel binding) then wb_browserChannel binding
                  else JStr ''chromium''
     | None \<Rightarrow> if includes_str [''chrome'', ''chromium''] (wb_browserChannel binding) then wb_browserChannel binding
               else JStr ''chromium'')"

definition locked_workers :: "lock list \<Rightarrow> string list" where
  "locked_workers ls = map lk_resourceKey (filter (\<lambda>l. lk_resourceType l = ''browser_profile'') ls)"

definition worker_snapshot :: "s6_env \<Rightarrow> string \<Rightarrow> worker_binding \<Rightarrow> worker_capacity res" where
  "worker_snapshot env w binding =
    (let live = index_by lw_id (se_live env) (wb_id binding);
         locked = (wb_id binding \<in> set (locked_workers (se_locks env)))
     in createWorkerCapacitySnapshot (JObj [(''workerId'', JStr (wb_id binding)), (''workspaceId'', JStr w),
       (''status'', JStr (if locked then ''unavailable'' else workerRuntimeStatus live)),
       (''browserChannel'', worker_channel live binding),
       (''activeAssignmentCount'', JNum (if locked then 1 else 0)),
       (''reusableSession'', JBool (\<not> locked \<and> (case live of Some l \<Rightarrow> lw_status l = ''idle'' \<or> lw_status l = ''active'' | None \<Rightarrow> False))),
       (''safeCompatibilityKeys'', JArr [JStr (''profile-worker-'' @ wb_id binding)])]))"

definition safeWorkerSnapshots :: "s6_env \<Rightarrow> string \<Rightarrow> worker_capacity list res" where
  "safeWorkerSnapshots env w = mapE (worker_snapshot env w) (filter (\<lambda>b. wb_workspaceId b = w) (se_bindings env))"

definition concurrencyBudgets ::
  "(string \<Rightarrow> string) \<Rightarrow> (string \<Rightarrow> int option) \<Rightarrow> s6_env \<Rightarrow> string \<Rightarrow> sched_policy \<Rightarrow> (concurrency_budget \<times> concurrency_budget) res" where
  "concurrencyBudgets sha legacy env w policy =
    (let globalAssigned = remdups (locked_workers (se_locks env));
         workspaceAssigned = remdups (locked_workers (filter (\<lambda>l. lk_workspaceId l = w) (se_locks env)));
         observedAt = se_clock env
     in bindE (createConcurrencyBudget sha legacy (JObj [(''id'', JStr (boundedId sha ''budget-global'' [sp_id policy, observedAt])),
          (''scope'', JStr ''global''), (''maxActive'', JNum (sp_globalMaxActive policy)),
          (''activeObserved'', JNum (int (length globalAssigned))), (''status'', JStr ''current''), (''observedAt'', JStr observedAt)])) (\<lambda>g.
        bindE (createConcurrencyBudget sha legacy (JObj [(''id'', JStr (boundedId sha ''budget-workspace'' [w, sp_id policy, observedAt])),
          (''workspaceId'', JStr w), (''scope'', JStr ''workspace''), (''maxActive'', JNum (sp_workspaceMaxActive policy)),
          (''activeObserved'', JNum (int (length workspaceAssigned))), (''status'', JStr ''current''), (''observedAt'', JStr observedAt)])) (\<lambda>b.
        Inr (g, b))))"

definition blockedResourceIds :: "(string \<Rightarrow> string) \<Rightarrow> s6_env \<Rightarrow> string list" where
  "blockedResourceIds sha env = List.map_filter (\<lambda>l.
     resourceIdentifier sha (JObj [(''type'', JStr (lk_resourceType l)), (''key'', JStr (lk_resourceKey l))])) (se_locks env)"

record sched_inputs =
  si_sourceRecords :: "js list"
  si_candidates :: "source_candidate list"
  si_workers :: "worker_capacity list"
  si_providerCapacities :: "provider_capacity list"
  si_globalBudget :: concurrency_budget
  si_workspaceBudget :: concurrency_budget
  si_blockedResources :: "string list"
  si_capacitySnapshot :: js

definition worker_obj :: "worker_capacity \<Rightarrow> js" where
  "worker_obj w = JObj [(''workerId'', JStr (wc_workerId w)), (''workspaceId'', JStr (wc_workspaceId w)), (''status'', JStr (wc_status w)),
     (''browserChannel'', JStr (wc_browserChannel w)), (''activeAssignmentCount'', JNum (wc_activeAssignmentCount w)),
     (''reusableSession'', JBool (wc_reusableSession w)), (''safeCompatibilityKeys'', js_strs (wc_safeCompatibilityKeys w))]"

definition with_extra :: "js \<Rightarrow> (string \<times> js) list \<Rightarrow> js" where
  "with_extra base extra = (case base of JObj kvs \<Rightarrow> JObj (kvs @ extra) | _ \<Rightarrow> JObj extra)"

definition capacity_snapshot_obj ::
  "(string \<Rightarrow> string) \<Rightarrow> concurrency_budget \<Rightarrow> concurrency_budget \<Rightarrow> provider_capacity list \<Rightarrow> worker_capacity list \<Rightarrow> string list \<Rightarrow> js" where
  "capacity_snapshot_obj sha g b capacities workers blocked =
    JObj [(''digest'', JStr (digest sha (JObj [(''globalBudgetDigest'', JStr (cb_digest g)), (''workspaceBudgetDigest'', JStr (cb_digest b)),
        (''providerCapacityDigests'', js_strs (sort (map pc_digest capacities))), (''workers'', JArr (map worker_obj workers)),
        (''blockedResources'', js_strs blocked)]))),
      (''globalBudget'', with_extra (budget_base g) [(''remaining'', JNum (cb_remaining g)), (''digest'', JStr (cb_digest g))]),
      (''workspaceBudget'', with_extra (budget_base b) [(''remaining'', JNum (cb_remaining b)), (''digest'', JStr (cb_digest b))]),
      (''providerCapacities'', JArr (map (\<lambda>c. with_extra (provider_base c)
         [(''remaining'', JNum (pc_remaining c)), (''digest'', JStr (pc_digest c))]) capacities)),
      (''blockedResources'', js_strs blocked)]"

definition schedulingInputs ::
  "(string \<Rightarrow> string \<Rightarrow> bool) \<Rightarrow> (string \<Rightarrow> string) \<Rightarrow> (string \<Rightarrow> int option) \<Rightarrow> s6_env \<Rightarrow> s6_state \<Rightarrow> string \<Rightarrow> sched_policy \<Rightarrow> sched_inputs res" where
  "schedulingInputs lc sha legacy env s w policy =
    (let sourceRecords = se_records env w in
     bindE (deriveSchedulingCandidates legacy (JArr sourceRecords)) (\<lambda>(candidates, _).
     bindE (safeWorkerSnapshots env w) (\<lambda>workers.
     let capacities = latestProviderCapacities lc s w in
     bindE (concurrencyBudgets sha legacy env w policy) (\<lambda>(g, b).
     let blocked = blockedResourceIds sha env in
     Inr \<lparr>si_sourceRecords = sourceRecords, si_candidates = candidates, si_workers = workers, si_providerCapacities = capacities,
       si_globalBudget = g, si_workspaceBudget = b, si_blockedResources = blocked,
       si_capacitySnapshot = capacity_snapshot_obj sha g b capacities workers blocked\<rparr>))))"

definition evaluateCapacityFromInputs ::
  "(string \<Rightarrow> string \<Rightarrow> bool) \<Rightarrow> (string \<Rightarrow> int option) \<Rightarrow> string \<Rightarrow> sched_inputs \<Rightarrow> js \<Rightarrow> string \<Rightarrow> capacity_result res" where
  "evaluateCapacityFromInputs lc legacy now inputs candidate evaluatedAt =
    evaluateCandidateCapacity lc legacy now candidate (Some (si_globalBudget inputs)) (Some (si_workspaceBudget inputs))
      (si_providerCapacities inputs) (si_workers inputs) (js_strs (si_blockedResources inputs)) (JStr evaluatedAt)"

definition capacity_result_obj :: "capacity_result \<Rightarrow> js" where
  "capacity_result_obj r = JObj [(''eligible'', JBool (cr_eligible r)), (''compatibleWorkerIds'', js_strs (cr_compatibleWorkerIds r)),
     (''reasonCodes'', js_strs (cr_reasonCodes r)), (''providerCapacityId'', js_opt (cr_providerCapacityId r)),
     (''providerCapacityDigest'', js_opt (cr_providerCapacityDigest r))]"

subsection \<open>Deciding and proposing\<close>

definition authorityDigestForRecord :: "(string \<Rightarrow> string) \<Rightarrow> js \<Rightarrow> string" where
  "authorityDigestForRecord sha record = digest sha (JObj (map (\<lambda>k. (k, field record k))
     [''workspaceId'', ''sourceId'', ''executionIdentity'', ''workspaceStatus'', ''readyState'', ''missionState'',
      ''dependenciesSatisfied'', ''authorityValid'', ''humanGateClear'', ''executionIdentityCurrent'',
      ''resourceRequirementsDeclared'', ''providerUseAccepted'', ''priorEffectState'', ''requiredResources'',
      ''providerRequirement'', ''workerRequirements'']))"

definition decisionForInputs ::
  "(string \<Rightarrow> string \<Rightarrow> bool) \<Rightarrow> (string \<Rightarrow> string) \<Rightarrow> (string \<Rightarrow> int option) \<Rightarrow> js \<Rightarrow> string \<Rightarrow> sched_policy \<Rightarrow> sched_inputs \<Rightarrow> string \<Rightarrow> sched_decision res" where
  "decisionForInputs lc sha legacy decisionId w policy inputs evaluatedAt =
    computeSchedulingDecision sha legacy decisionId (Some policy) (map source_candidate_obj (si_candidates inputs))
      (map worker_obj (si_workers inputs)) (si_capacitySnapshot inputs) (JStr evaluatedAt)
      (\<lambda>p cs at _. bindE (rankSchedulingCandidates legacy (Some p) (JArr cs) (JStr at)
         (JObj [(w, JNum (cb_activeObserved (si_workspaceBudget inputs)))])) (\<lambda>rs. Inr (JArr (map ranked_js rs))))
      (\<lambda>candidate _ _ _ at. bindE (evaluateCapacityFromInputs lc legacy evaluatedAt inputs candidate at) (\<lambda>r. Inr (capacity_result_obj r)))"

definition store_decision :: "string \<Rightarrow> sched_decision \<Rightarrow> (s6_state, unit) act" where
  "store_decision w d =
    bindS (modifyS (\<lambda>s. s\<lparr>s6_decisions := mset_at (sd_id d) (w, d) (s6_decisions s)\<rparr>)) (\<lambda>_.
    appendS6Event \<lparr>sv_workspaceId = w, sv_type = ''scheduling.decision_recorded'', sv_aggregateType = ''schedulingDecision'',
      sv_aggregateId = sd_id d, sv_idempotencyKey = ''scheduling.decision_recorded:'' @ sd_id d @ '':'' @ sd_decisionDigest d,
      sv_payload = JObj [(''decisionId'', JStr (sd_id d)), (''policySnapshotId'', JStr (sd_policySnapshotId d)),
        (''inputDigest'', JStr (sd_inputDigest d)), (''decisionDigest'', JStr (sd_decisionDigest d)),
        (''selectedCandidateId'', js_opt (sd_selectedCandidateId d)), (''selectedWorkerId'', js_opt (sd_selectedWorkerId d)),
        (''reasonCodes'', js_strs (sd_reasonCodes d))]\<rparr>)"

text \<open>\<open>assignmentProposal.save\<close>: the stored proposal and its new revision.\<close>

definition save_proposal :: "assignment_proposal \<Rightarrow> (s6_state, int) act" where
  "save_proposal p s =
    (let revision = (case mget (s6_proposals s) (ap_id p) of None \<Rightarrow> 1 | Some (_, n) \<Rightarrow> n + 1)
     in (s\<lparr>s6_proposals := mset_at (ap_id p) (p, revision) (s6_proposals s)\<rparr>, Inr revision))"

definition store_proposed :: "string \<Rightarrow> assignment_proposal \<Rightarrow> (s6_state, unit) act" where
  "store_proposed w p =
    bindS (save_proposal p) (\<lambda>_.
    appendS6Event \<lparr>sv_workspaceId = w, sv_type = ''scheduling.assignment_proposed'', sv_aggregateType = ''assignmentProposal'',
      sv_aggregateId = ap_id p, sv_idempotencyKey = ''scheduling.assignment_proposed:'' @ ap_id p,
      sv_payload = JObj [(''proposalId'', JStr (ap_id p)), (''decisionId'', JStr (ap_decisionId p)),
        (''candidateId'', JStr (ap_candidateId p)), (''workerId'', JStr (ap_workerId p)), (''state'', JStr (ap_state p))]\<rparr>)"

definition store_revalidated :: "string \<Rightarrow> assignment_proposal \<Rightarrow> (s6_state, unit) act" where
  "store_revalidated w p =
    bindS (save_proposal p) (\<lambda>revision.
    appendS6Event \<lparr>sv_workspaceId = w, sv_type = ''scheduling.proposal_revalidated'', sv_aggregateType = ''assignmentProposal'',
      sv_aggregateId = ap_id p,
      sv_idempotencyKey = ''scheduling.proposal_revalidated:'' @ ap_id p @ '':'' @ int_to_string revision,
      sv_payload = JObj [(''proposalId'', JStr (ap_id p)), (''state'', JStr (ap_state p)), (''reasonCode'', js_opt (ap_reasonCode p))]\<rparr>)"

definition propose ::
  "(string \<Rightarrow> string) \<Rightarrow> string \<Rightarrow> js \<Rightarrow> sched_inputs \<Rightarrow> sched_decision \<Rightarrow> (s6_state, assignment_proposal option) act" where
  "propose sha w input inputs d s = (case (sd_selectedCandidateId d, sd_selectedWorkerId d) of
      (Some c, Some worker) \<Rightarrow>
        let candidate = (case find (\<lambda>x. so_cand_id x = c) (si_candidates inputs) of Some x \<Rightarrow> source_candidate_obj x | None \<Rightarrow> JUndef) in
        (case find (\<lambda>r. field r ''id'' = JStr c) (si_sourceRecords inputs) of
           None \<Rightarrow> (s, Inl (TypeError ''Cannot read properties of undefined''))
         | Some sourceRecord \<Rightarrow>
           (case createAssignmentProposal
                 (or_js (field input ''proposalId'') (JStr (boundedId sha ''assignment'' [sd_id d, c, worker]))) (Some d) candidate
                 (JStr (authorityDigestForRecord sha sourceRecord)) of
              Inl e \<Rightarrow> (s, Inl e)
            | Inr p \<Rightarrow> bindS (store_proposed w p) (\<lambda>_. returnS (Some p)) s))
    | _ \<Rightarrow> (s, Inr None))"

definition computeSchedulingDecisionForWorkspace ::
  "(string \<Rightarrow> string \<Rightarrow> bool) \<Rightarrow> (string \<Rightarrow> string) \<Rightarrow> (string \<Rightarrow> int option) \<Rightarrow> s6_env \<Rightarrow> js \<Rightarrow>
   (s6_state, sched_decision \<times> assignment_proposal option) act" where
  "computeSchedulingDecisionForWorkspace lc sha legacy env input s =
    (if \<not> plain_object input then (s, Inl (TypeError ''Scheduling decision input must be a plain object''))
     else case bindE (requireS6Workspace env (field input ''workspaceId'')) (\<lambda>w.
        bindE (activeSchedulingPolicy s w) (\<lambda>policy. case policy of
          None \<Rightarrow> Inl (Error (''No active SchedulingPolicySnapshot for Workspace: '' @ w))
        | Some p \<Rightarrow> bindE (schedulingInputs lc sha legacy env s w p) (\<lambda>inputs.
            bindE (decisionForInputs lc sha legacy
               (or_js (field input ''id'') (JStr (boundedId sha ''scheddecision''
                  [w, sp_id p, se_clock env, nat_digits (length (s6_decisions s))]))) w p inputs (se_clock env)) (\<lambda>d.
            Inr (w, inputs, d))))) of
        Inl e \<Rightarrow> (s, Inl e)
      | Inr (w, inputs, d) \<Rightarrow> (case mget (s6_decisions s) (sd_id d) of
          Some (_, existing) \<Rightarrow>
            if sd_decisionDigest existing \<noteq> sd_decisionDigest d
            then (s, Inl (Error (''SchedulingDecision idempotency collision: '' @ sd_id d)))
            else (s, Inr (existing, find (\<lambda>p. ap_decisionId p = sd_id existing) (map fst (mvalues (s6_proposals s)))))
        | None \<Rightarrow> bindS (store_decision w d) (\<lambda>_. bindS (propose sha w input inputs d) (\<lambda>p. returnS (d, p))) s))"

subsection \<open>Revalidation\<close>

text \<open>The object \<open>current\<close> that a proposal is compared with.\<close>

definition current_authority ::
  "(string \<Rightarrow> string) \<Rightarrow> sched_inputs \<Rightarrow> assignment_proposal \<Rightarrow> capacity_result option \<Rightarrow> bool \<Rightarrow> js" where
  "current_authority sha inputs p capacity providerAllowed =
    (let sourceRecord = find (\<lambda>r. field r ''id'' = JStr (ap_candidateId p)) (si_sourceRecords inputs);
         candidate = find (\<lambda>c. so_cand_id c = ap_candidateId p) (si_candidates inputs);
         exhausted = (case capacity of None \<Rightarrow> False
           | Some r \<Rightarrow> \<not> cr_eligible r \<and> list_ex (\<lambda>code. code \<in> {''global_capacity_exhausted'', ''workspace_capacity_exhausted'',
               ''no_compatible_worker''}) (cr_reasonCodes r))
     in JObj [(''authoritySnapshotDigest'', JStr (case sourceRecord of Some r \<Rightarrow> authorityDigestForRecord sha r
            | None \<Rightarrow> ap_authoritySnapshotDigest p)),
          (''executionIdentity'', or_js (case sourceRecord of Some r \<Rightarrow> field r ''executionIdentity'' | None \<Rightarrow> JUndef)
             (JStr (ap_executionIdentity p))),
          (''candidateReady'', JBool (candidate \<noteq> None \<and> \<not> exhausted)),
          (''resourceAvailable'', JBool (case candidate of None \<Rightarrow> False
             | Some c \<Rightarrow> \<not> list_ex (\<lambda>r. r \<in> set (si_blockedResources inputs)) (so_cand_requiredResources c))),
          (''providerCapacityCurrent'', JBool (case candidate of Some c \<Rightarrow>
             (case so_cand_providerRequirement c of Some _ \<Rightarrow> providerAllowed | None \<Rightarrow> True) | None \<Rightarrow> True)),
          (''humanGateClear'', JBool (case sourceRecord of Some r \<Rightarrow> field r ''humanGateClear'' = JBool True | None \<Rightarrow> False)),
          (''priorEffectCertain'', JBool (case sourceRecord of Some r \<Rightarrow> field r ''priorEffectState'' \<noteq> JStr ''uncertain'' | None \<Rightarrow> False))])"

definition revalidateSchedulingProposal ::
  "(string \<Rightarrow> string \<Rightarrow> bool) \<Rightarrow> (string \<Rightarrow> string) \<Rightarrow> (string \<Rightarrow> int option) \<Rightarrow> s6_env \<Rightarrow> js \<Rightarrow> (s6_state, assignment_proposal) act" where
  "revalidateSchedulingProposal lc sha legacy env input s =
    (if \<not> plain_object input then (s, Inl (TypeError ''Scheduling proposal revalidation input must be a plain object''))
     else case requireS6Workspace env (field input ''workspaceId'') of
       Inl e \<Rightarrow> (s, Inl e)
     | Inr w \<Rightarrow> (case (case field input ''proposalId'' of JStr i \<Rightarrow> mget (s6_proposals s) i | _ \<Rightarrow> None) of
         None \<Rightarrow> (s, Inl (Error (''AssignmentProposal not found: '' @ to_string (field input ''proposalId''))))
       | Some (p, _) \<Rightarrow>
         if ap_workspaceId p \<noteq> w then (s, Inl (Error ''Cross-Workspace AssignmentProposal access denied''))
         else if ap_state p \<noteq> ''proposed'' then (s, Inr p)
         else case bindE (activeSchedulingPolicy s w) (\<lambda>policy. case policy of
              None \<Rightarrow> Inl (Error (''No active SchedulingPolicySnapshot for Workspace: '' @ w))
            | Some pol \<Rightarrow> bindE (schedulingInputs lc sha legacy env s w pol) (\<lambda>inputs.
                bindE (case find (\<lambda>c. so_cand_id c = ap_candidateId p) (si_candidates inputs) of
                    None \<Rightarrow> Inr (None, False)
                  | Some c \<Rightarrow> bindE (evaluateCapacityFromInputs lc legacy (se_clock env) inputs (source_candidate_obj c) (se_clock env)) (\<lambda>r.
                      bindE (providerCapacityReason legacy (source_candidate_obj c) (si_providerCapacities inputs) (JStr (se_clock env))) (\<lambda>v.
                      Inr (Some r, pv_allowed v)))) (\<lambda>(capacity, allowed).
                revalidateAssignmentProposal (Some p) (current_authority sha inputs p capacity allowed)))) of
            Inl e \<Rightarrow> (s, Inl e)
          | Inr result \<Rightarrow> bindS (store_revalidated w result) (\<lambda>_. returnS result) s))"

subsection \<open>Assignments stay within capacity\<close>

lemma computeSchedulingDecision_loop:
  assumes "computeSchedulingDecision sha legacy i (Some p) cs ws cap at rank eval = Inr d"
  obtains evaluated byId ids sel ds where
    "mapE (\<lambda>c. bindE (fieldE c ''id'') (\<lambda>k. Inr (k, c))) cs = Inr byId"
    "decide_loop (\<lambda>c. case index_by fst byId (JStr c) of
         Some (_, candidate) \<Rightarrow> eval candidate p ws cap evaluated | None \<Rightarrow> Inl (Error ''unreachable'')) None ids = Inr (sel, ds)"
    "sd_orderedCandidateIds d = ids" "sd_selectedCandidateId d = map_option fst sel" "sd_selectedWorkerId d = map_option snd sel"
    "sd_evaluatedAt d = evaluated" "sd_deferred d = ds" "distinct ids"
proof -
  note run = assms[unfolded computeSchedulingDecision_def option.case bindE_eq_Inr guard_eq_Inr]
  from run obtain evaluated ordered items byId ids z inputDigest did pid where
    b: "mapE (\<lambda>c. bindE (fieldE c ''id'') (\<lambda>k. Inr (k, c))) cs = Inr byId"
    and l: "decide_loop (\<lambda>c. case index_by fst byId (JStr c) of
         Some (_, candidate) \<Rightarrow> eval candidate p ws cap evaluated | None \<Rightarrow> Inl (Error ''unreachable'')) None ids = Inr z"
    and di: "distinct ids"
    and r: "(case z of (selected, deferred) \<Rightarrow>
       bindE (createInputDigest sha legacy (Some p) cs ws cap (JStr evaluated)) (\<lambda>inputDigest.
       bindE (assertSafeIdentifier i ''scheduling decision id'') (\<lambda>did.
       bindE (assertSafeIdentifier (JStr (sp_id p)) ''scheduling policy id'') (\<lambda>pid.
       let d = \<lparr>sd_id = did, sd_policySnapshotId = pid, sd_inputDigest = inputDigest, sd_evaluatedAt = evaluated,
            sd_orderedCandidateIds = ids, sd_selectedCandidateId = map_option fst selected,
            sd_selectedWorkerId = map_option snd selected,
            sd_reasonCodes = (if selected \<noteq> None then [''selected''] else [''no_assignment'']),
            sd_deferred = deferred, sd_decisionDigest = []\<rparr>
       in Inr (d\<lparr>sd_decisionDigest := digest sha (decision_base d)\<rparr>))))) = Inr d"
    unfolding bindE_eq_Inr prod.case_eq_if not_not by blast
  obtain sel ds where z: "z = (sel, ds)" by (cases z)
  from r obtain inputDigest did pid where "d = (let d = \<lparr>sd_id = did, sd_policySnapshotId = pid, sd_inputDigest = inputDigest, sd_evaluatedAt = evaluated,
            sd_orderedCandidateIds = ids, sd_selectedCandidateId = map_option fst sel,
            sd_selectedWorkerId = map_option snd sel,
            sd_reasonCodes = (if sel \<noteq> None then [''selected''] else [''no_assignment'']),
            sd_deferred = ds, sd_decisionDigest = []\<rparr>
       in d\<lparr>sd_decisionDigest := digest sha (decision_base d)\<rparr>)"
    unfolding z prod.case bindE_eq_Inr Let_def sum.inject by blast
  then have "sd_orderedCandidateIds d = ids" "sd_selectedCandidateId d = map_option fst sel" "sd_selectedWorkerId d = map_option snd sel"
    "sd_evaluatedAt d = evaluated" "sd_deferred d = ds" by (simp_all add: Let_def)
  with that[OF b l[unfolded z]] di show thesis by blast
qed

lemma mapE_safe_strings: "mapE (\<lambda>w. assertSafeIdentifier w l) (map JStr xs) = Inr ys \<Longrightarrow> ys = xs"
proof (induction xs arbitrary: ys)
  case (Cons x xs)
  then show ?case by (auto simp: list_all2_Cons1 simp flip: mapE_eq_Inr)
qed simp

lemma capacity_result_workers: "result_workers (capacity_result_obj r) = Inr ws \<Longrightarrow> ws = cr_compatibleWorkerIds r"
  using mapE_safe_strings[of "''compatible worker id''" "cr_compatibleWorkerIds r" ws]
  by (simp add: result_workers_def capacity_result_obj_def js_strs_def del: mapE_eq_Inr)

lemma source_candidate_field: "field (source_candidate_obj c) ''id'' = JStr (so_cand_id c)"
  "field (source_candidate_obj c) ''readyState'' = JStr ''ready''" "truthy (source_candidate_obj c)"
  "field (source_candidate_obj c) ''workspaceId'' = JStr (so_cand_workspaceId c)"
  by (simp_all add: source_candidate_obj_def)

lemma by_id_candidates:
  assumes "mapE (\<lambda>c. bindE (fieldE c ''id'') (\<lambda>k. Inr (k, c))) (map source_candidate_obj cs) = Inr byId"
    and "index_by fst byId (JStr i) = Some (k, v)"
  obtains c where "c \<in> set cs" "so_cand_id c = i" "v = source_candidate_obj c"
proof -
  from index_by_Some[OF assms(2)] have kv: "(k, v) \<in> set byId" "k = JStr i" by auto
  from mapE_all[OF assms(1) kv(1)] obtain u where u: "u \<in> set (map source_candidate_obj cs)"
    "bindE (fieldE u ''id'') (\<lambda>k. Inr (k, u)) = Inr (k, v)" by blast
  from u(1) obtain c where c: "c \<in> set cs" "u = source_candidate_obj c" by auto
  have "fieldE u ''id'' = Inr (JStr (so_cand_id c))"
    by (simp add: c(2) fieldE_def source_candidate_field) (simp add: source_candidate_obj_def)
  with u(2) have "(JStr (so_cand_id c), u) = (k, v)" by (simp only: bindE_Inr sum.inject)
  with kv(2) have "so_cand_id c = i" "v = source_candidate_obj c" using c(2) by simp_all
  with c(1) show thesis by (rule that)
qed

definition candidate_fits :: "sched_inputs \<Rightarrow> source_candidate \<Rightarrow> worker_capacity \<Rightarrow> bool" where
  "candidate_fits inputs cand w = fits (source_candidate_obj cand) (js_strs (si_blockedResources inputs)) w"

lemma sorted_map_hd: "sorted (map f (x # xs)) \<Longrightarrow> y \<in> set (x # xs) \<Longrightarrow> f x \<le> f y"
  by auto

lemma decision_offer:
  assumes "decisionForInputs lc sha legacy did w policy inputs at = Inr d" "sd_selectedCandidateId d = Some c"
  obtains cand r worker where "cand \<in> set (si_candidates inputs)" "so_cand_id cand = c"
    "evaluateCapacityFromInputs lc legacy at inputs (source_candidate_obj cand) (sd_evaluatedAt d) = Inr r"
    "cr_eligible r" "cr_compatibleWorkerIds r \<noteq> []" "sd_selectedWorkerId d = Some (hd (cr_compatibleWorkerIds r))"
    "map dc_candidateId (sd_deferred d) = remove1 c (sd_orderedCandidateIds d)"
proof -
  obtain evaluated byId ids sel ds where
    b: "mapE (\<lambda>c. bindE (fieldE c ''id'') (\<lambda>k. Inr (k, c))) (map source_candidate_obj (si_candidates inputs)) = Inr byId"
    and l: "decide_loop (\<lambda>c. case index_by fst byId (JStr c) of
         Some (_, candidate) \<Rightarrow> bindE (evaluateCapacityFromInputs lc legacy at inputs candidate evaluated) (\<lambda>r. Inr (capacity_result_obj r))
       | None \<Rightarrow> Inl (Error ''unreachable'')) None ids = Inr (sel, ds)"
    and d: "sd_orderedCandidateIds d = ids" "sd_selectedCandidateId d = map_option fst sel" "sd_selectedWorkerId d = map_option snd sel"
      "sd_evaluatedAt d = evaluated" "sd_deferred d = ds"
    by (rule computeSchedulingDecision_loop[OF assms(1)[unfolded decisionForInputs_def]]) (rule that; assumption)
  define ev where "ev = (\<lambda>c. case index_by fst byId (JStr c) of
         Some (_, candidate) \<Rightarrow> bindE (evaluateCapacityFromInputs lc legacy at inputs candidate evaluated) (\<lambda>r. Inr (capacity_result_obj r))
       | None \<Rightarrow> Inl (Error ''unreachable''))"
  note dl = decide_loop_first[OF l[folded ev_def]]
  from assms(2) d(2) obtain x where x: "sel = Some (c, x)" by (cases sel) auto
  with dl have f: "find (\<lambda>c. offer ev c \<noteq> None) ids = Some c" and xw: "offer ev c = Some x"
    and rm: "map dc_candidateId ds = remove1 c ids"
    by (auto simp: map_option_case split: option.splits dest: find_Some_set)
  from xw obtain result where r: "ev c = Inr result" by (cases "ev c") (simp_all add: offer_def)
  then obtain k v where kv: "index_by fst byId (JStr c) = Some (k, v)"
    by (cases "index_by fst byId (JStr c)") (simp_all add: ev_def, metis prod.collapse)
  obtain cand where cand: "cand \<in> set (si_candidates inputs)" "so_cand_id cand = c" "v = source_candidate_obj cand"
    using by_id_candidates[OF b kv] by blast
  from r kv obtain cr where cr: "evaluateCapacityFromInputs lc legacy at inputs v evaluated = Inr cr" "result = capacity_result_obj cr"
    by (cases "evaluateCapacityFromInputs lc legacy at inputs v evaluated") (simp_all add: ev_def)
  from xw r obtain y ys where ws: "result_workers result = Inr (y # ys)" "field result ''eligible'' = JBool True" "x = y"
    by (auto simp: offer_def split: sum.splits list.splits if_splits)
  from capacity_result_workers[OF ws(1)[unfolded cr(2)]] have ids: "cr_compatibleWorkerIds cr = y # ys" by simp
  have el: "cr_eligible cr" using ws(2) by (simp add: cr(2) capacity_result_obj_def)
  show thesis
    by (rule that[OF cand(1,2) cr(1)[unfolded cand(3) d(4)[symmetric]] el]) (simp_all add: ids d x ws(3) rm)
qed

text \<open>
  C27: When the service decides to assign a candidate, both concurrency budgets have a free slot,
  the candidate's provider surface has one, the worker fits the candidate and no fitting worker
  carries fewer assignments; every other candidate of the ranking is deferred, in rank order.
\<close>

theorem assignment_respects_capacity:
  assumes "decisionForInputs lc sha legacy i w policy inputs at = Inr d" and "sd_selectedCandidateId d = Some c"
  shows "(\<exists>cand worker. cand \<in> set (si_candidates inputs) \<and> so_cand_id cand = c \<and> worker \<in> set (si_workers inputs) \<and>
      sd_selectedWorkerId d = Some (wc_workerId worker) \<and> candidate_fits inputs cand worker \<and>
      (\<forall>v. v \<in> set (si_workers inputs) \<and> candidate_fits inputs cand v \<longrightarrow>
         wc_activeAssignmentCount worker \<le> wc_activeAssignmentCount v) \<and>
      cb_activeObserved (si_globalBudget inputs) < cb_maxActive (si_globalBudget inputs) \<and>
      cb_activeObserved (si_workspaceBudget inputs) < cb_maxActive (si_workspaceBudget inputs) \<and>
      cb_workspaceId (si_workspaceBudget inputs) = Some (so_cand_workspaceId cand) \<and>
      provider_open legacy (source_candidate_obj cand) (si_providerCapacities inputs) (JStr (sd_evaluatedAt d))) \<and>
    map dc_candidateId (sd_deferred d) = remove1 c (sd_orderedCandidateIds d)"
proof -
  obtain cand r where cand: "cand \<in> set (si_candidates inputs)" "so_cand_id cand = c"
    and r: "evaluateCapacityFromInputs lc legacy at inputs (source_candidate_obj cand) (sd_evaluatedAt d) = Inr r"
    and el: "cr_eligible r" "cr_compatibleWorkerIds r \<noteq> []" "sd_selectedWorkerId d = Some (hd (cr_compatibleWorkerIds r))"
    and df: "map dc_candidateId (sd_deferred d) = remove1 c (sd_orderedCandidateIds d)"
    using decision_offer[OF assms] by metis
  let ?ok = "candidate_fits inputs cand"
  obtain v where v: "providerCapacityReason legacy (source_candidate_obj cand) (si_providerCapacities inputs) (JStr (sd_evaluatedAt d)) = Inr v"
    and e: "cr_eligible r \<longleftrightarrow> global_reason (Some (si_globalBudget inputs)) = [] \<and>
       workspace_reason (Some (si_workspaceBudget inputs)) (JStr (so_cand_workspaceId cand)) = [] \<and> pv_allowed v \<and>
       filter ?ok (si_workers inputs) \<noteq> []"
    and ids: "cr_compatibleWorkerIds r = map wc_workerId (sort_by (worker_before lc) (filter ?ok (si_workers inputs)))"
    using evaluateCandidateCapacity_Inr[OF r[unfolded evaluateCapacityFromInputs_def] source_candidate_field(3) source_candidate_field(2)]
    unfolding source_candidate_field(4) candidate_fits_def[abs_def] by metis
  obtain x xs where x: "sort_by (worker_before lc) (filter ?ok (si_workers inputs)) = x # xs"
    using el(2) ids by (cases "sort_by (worker_before lc) (filter ?ok (si_workers inputs))") simp_all
  have fx: "set (x # xs) = {u \<in> set (si_workers inputs). ?ok u}" unfolding x[symmetric] by simp
  then have "x \<in> set (si_workers inputs)" "?ok x" by auto
  moreover have "wc_activeAssignmentCount x \<le> wc_activeAssignmentCount u" if "u \<in> set (si_workers inputs) \<and> ?ok u" for u
    using sorted_map_hd[of wc_activeAssignmentCount x xs u] sort_workers_sorted[of lc "filter ?ok (si_workers inputs)"] that fx
    unfolding x by blast
  moreover have "sd_selectedWorkerId d = Some (wc_workerId x)" using el(3) unfolding ids x by simp
  moreover from el(1) e have g: "budget_open (Some (si_globalBudget inputs)) ''global''"
    "budget_open (Some (si_workspaceBudget inputs)) ''workspace''"
    "js_opt (cb_workspaceId (si_workspaceBudget inputs)) = JStr (so_cand_workspaceId cand)" "pv_allowed v"
    unfolding global_reason_empty workspace_reason_empty by auto
  moreover from g(3) have "cb_workspaceId (si_workspaceBudget inputs) = Some (so_cand_workspaceId cand)"
    by (auto simp: js_opt_def split: option.splits)
  ultimately show ?thesis
    using cand df providerCapacityReason_allowed[OF v] by (auto simp: budget_open_def)
qed

text \<open>
  The workers the service reports carry the compatibility key of their own profile only, so a
  candidate with a provider requirement fits none of them.
\<close>

lemma profile_key_is_not_surface: "''provider-'' @ p \<noteq> ''profile-worker-'' @ b"
  by simp

lemma safe_keys_single: "normalizeSafeKeys (JArr [JStr k]) = Inr ks \<Longrightarrow> ks = [k]"
  by (auto simp: normalizeSafeKeys_def as_array_def simp del: as_array_Inr split: if_splits)

lemma worker_snapshot_keys:
  assumes "worker_snapshot env w b = Inr s" shows "wc_safeCompatibilityKeys s = [''profile-worker-'' @ wb_id b]"
  using assms unfolding worker_snapshot_def Let_def createWorkerCapacitySnapshot_def bindE_eq_Inr guard_eq_Inr
  by (elim exE conjE) (auto dest: safe_keys_single)

lemma external_candidate_fits_none:
  assumes "safeWorkerSnapshots env w = Inr ws" "si_workers inputs = ws" "so_cand_providerRequirement cand \<noteq> None" "v \<in> set ws"
  shows "\<not> candidate_fits inputs cand v"
proof
  assume "candidate_fits inputs cand v"
  then obtain r where r: "workerCompatibility (source_candidate_obj cand) (Some v) (js_strs (si_blockedResources inputs)) = Inr r"
    "cy_compatible r" by (auto simp: candidate_fits_def fits_def)
  from assms(1,4) obtain b where "worker_snapshot env w b = Inr v"
    using mapE_all[OF assms(1)[unfolded safeWorkerSnapshots_def] assms(4)] by blast
  from worker_snapshot_keys[OF this] have k: "wc_safeCompatibilityKeys v = [''profile-worker-'' @ wb_id b]" .
  obtain p a where pa: "so_cand_providerRequirement cand = Some (p, a)" using assms(3) by auto
  then have req: "field (source_candidate_obj cand) ''providerRequirement'' = JObj [(''providerId'', JStr p), (''action'', JStr a)]"
    by (simp add: source_candidate_obj_def)
  have "\<not> (\<not> truthy (source_candidate_obj cand) \<or> field (source_candidate_obj cand) ''readyState'' \<noteq> JStr ''ready'')"
    by (simp add: source_candidate_field)
  note run = r(1)[unfolded workerCompatibility_def if_not_P[OF this] Let_def bindE_eq_Inr]
  from run obtain s profile conflicts wsid where s: "surface_reason (Some v) (source_candidate_obj cand) = Inr s"
    and c: "Inr \<lparr>cy_compatible = (status_reasons (Some v) wsid @ channel_reason (Some v)
           (or_js (field (source_candidate_obj cand) ''workerRequirements'') (JObj [])) @ profile @ s @ conflicts = []),
         cy_reasonCodes = sortedSet (status_reasons (Some v) wsid @ channel_reason (Some v)
           (or_js (field (source_candidate_obj cand) ''workerRequirements'') (JObj [])) @ profile @ s @ conflicts)\<rparr> = Inr r"
    by blast
  have "s = [''provider_surface_mismatch'']"
    using s req k profile_key_is_not_surface by (auto simp: surface_reason_def)
  with r(2) c[unfolded sum.inject, symmetric] show False by simp
qed

subsection \<open>Histories of the service\<close>

datatype s6_op = RecordPolicy js | RecordCapacity js | Decide js | Revalidate js

definition s6_step ::
  "(string \<Rightarrow> string \<Rightarrow> bool) \<Rightarrow> (string \<Rightarrow> string) \<Rightarrow> (string \<Rightarrow> int option) \<Rightarrow> s6_env \<times> s6_op \<Rightarrow> s6_state \<Rightarrow> s6_state" where
  "s6_step lc sha legacy = (\<lambda>(env, oper) s. (case oper of
      RecordPolicy input \<Rightarrow> fst (recordSchedulingPolicy sha legacy env input s)
    | RecordCapacity input \<Rightarrow> fst (recordProviderCapacity sha legacy env input s)
    | Decide input \<Rightarrow> fst (computeSchedulingDecisionForWorkspace lc sha legacy env input s)
    | Revalidate input \<Rightarrow> fst (revalidateSchedulingProposal lc sha legacy env input s)))"

definition s6_init :: s6_state where
  "s6_init = \<lparr>s6_policies = [], s6_capacities = [], s6_decisions = [], s6_proposals = [], s6_events = []\<rparr>"

definition s6_run ::
  "(string \<Rightarrow> string \<Rightarrow> bool) \<Rightarrow> (string \<Rightarrow> string) \<Rightarrow> (string \<Rightarrow> int option) \<Rightarrow> (s6_env \<times> s6_op) list \<Rightarrow> s6_state" where
  "s6_run lc sha legacy ops = fold (s6_step lc sha legacy) ops s6_init"

definition policies_ok :: "(string, sched_policy) jsmap \<Rightarrow> bool" where
  "policies_ok m \<longleftrightarrow> distinct (map fst m) \<and> (\<forall>k p. mget m k = Some p \<longrightarrow> sp_id p = k \<and> policy_ok p) \<and>
     (\<forall>w. length (filter (\<lambda>p. sp_workspaceId p = w \<and> sp_status p = ''active'') (mvalues m)) \<le> 1)"

definition policies_fixed :: "(s6_state, 'a) act \<Rightarrow> bool" where
  "policies_fixed m \<longleftrightarrow> (\<forall>s. s6_policies (fst (m s)) = s6_policies s)"

lemma policies_fixedD: "policies_fixed m \<Longrightarrow> s6_policies (fst (m s)) = s6_policies s"
  by (simp add: policies_fixed_def)

lemma policies_fixed_bindS:
  assumes "policies_fixed m" "\<And>x. policies_fixed (f x)" shows "policies_fixed (bindS m f)"
  unfolding policies_fixed_def
proof
  fix s
  obtain s' r where m: "m s = (s', r)" by fastforce
  then have "s6_policies s' = s6_policies s" using policies_fixedD[OF assms(1), of s] by simp
  with m show "s6_policies (fst (bindS m f s)) = s6_policies s"
    using policies_fixedD[OF assms(2), of _ s'] by (cases r) (simp_all add: bindS_def)
qed

lemma policies_fixed_basic:
  "policies_fixed (returnS x)" "policies_fixed (save_proposal p)" "policies_fixed (appendS6Event e)"
  by (auto simp: policies_fixed_def save_proposal_def Let_def appendS6Event_def split: option.splits)

lemma policies_fixed_stores:
  "policies_fixed (store_decision w d)" "policies_fixed (store_proposed w p)" "policies_fixed (store_revalidated w p)"
  unfolding store_decision_def store_proposed_def store_revalidated_def
  by (intro policies_fixed_bindS policies_fixed_basic, simp add: policies_fixed_def)
     (intro policies_fixed_bindS policies_fixed_basic)+

lemma policies_fixed_propose: "policies_fixed (propose sha w input inputs d)"
  using policies_fixedD[OF policies_fixed_bindS[OF policies_fixed_stores(2) policies_fixed_basic(1)]]
  by (auto simp: policies_fixed_def propose_def Let_def split: option.splits sum.splits)

lemma decide_keeps_policies: "s6_policies (fst (computeSchedulingDecisionForWorkspace lc sha legacy env input s)) = s6_policies s"
proof -
  note k = policies_fixedD[OF policies_fixed_bindS[OF policies_fixed_stores(1)
    policies_fixed_bindS[OF policies_fixed_propose policies_fixed_basic(1)]]]
  show ?thesis unfolding computeSchedulingDecisionForWorkspace_def
    by (auto simp: k simp del: bindE_eq_Inr split: sum.split prod.split option.split)
qed

lemma revalidate_keeps_policies: "s6_policies (fst (revalidateSchedulingProposal lc sha legacy env input s)) = s6_policies s"
proof -
  note k = policies_fixedD[OF policies_fixed_bindS[OF policies_fixed_stores(3) policies_fixed_basic(1)]]
  show ?thesis unfolding revalidateSchedulingProposal_def
    by (auto simp: k simp del: bindE_eq_Inr split: sum.split prod.split option.split)
qed

lemma event_then_return: "s6_policies (fst (bindS (appendS6Event e) (\<lambda>_. returnS c) s)) = s6_policies s"
  by (rule policies_fixedD[OF policies_fixed_bindS[OF policies_fixed_basic(3) policies_fixed_basic(1)]])

lemma capacity_keeps_policies: "s6_policies (fst (recordProviderCapacity sha legacy env input s)) = s6_policies s"
  unfolding recordProviderCapacity_def
  by (auto simp: event_then_return simp del: bindE_eq_Inr split: sum.split option.split)

lemma policies_ok_new:
  assumes "policies_ok m" "mget m (sp_id p) = None" "policy_ok p"
    "filter (\<lambda>q. sp_workspaceId q = sp_workspaceId p \<and> sp_status q = ''active'') (mvalues m) = []"
  shows "policies_ok (mset_at (sp_id p) p m)"
proof -
  have e: "mset_at (sp_id p) p m = m @ [(sp_id p, p)]" using mset_at_new[OF assms(2)] .
  have v: "mvalues (mset_at (sp_id p) p m) = mvalues m @ [p]" by (simp add: e mvalues_def)
  have "length (filter (\<lambda>q. sp_workspaceId q = w \<and> sp_status q = ''active'') (mvalues m @ [p])) \<le> 1" for w
    using assms(1,4) by (cases "w = sp_workspaceId p") (auto simp: policies_ok_def)
  moreover have "distinct (map fst (mset_at (sp_id p) p m))" using assms(1) by (simp add: policies_ok_def)
  ultimately show ?thesis using assms(1,3) unfolding policies_ok_def v by (auto split: if_splits)
qed

lemma record_policy_cases:
  "s6_policies (fst (recordSchedulingPolicy sha legacy env input s)) = s6_policies s \<or>
   (\<exists>p. mget (s6_policies s) (sp_id p) = None \<and> policy_ok p \<and> active_policies s (sp_workspaceId p) = [] \<and>
      s6_policies (fst (recordSchedulingPolicy sha legacy env input s)) = mset_at (sp_id p) p (s6_policies s))"
proof (cases "bindE (requireS6Workspace env (field input ''workspaceId'')) (\<lambda>_. createSchedulingPolicySnapshot sha legacy (se_clock env) input)")
  case (Inl e)
  then show ?thesis by (simp add: recordSchedulingPolicy_def)
next
  case (Inr p)
  then have ok: "policy_ok p" using createSchedulingPolicySnapshot_ok by auto
  show ?thesis
  proof (cases "plain_object input \<and> mget (s6_policies s) (sp_id p) = None \<and> activeSchedulingPolicy s (sp_workspaceId p) = Inr None")
    case True
    then have "s6_policies (fst (recordSchedulingPolicy sha legacy env input s)) = mset_at (sp_id p) p (s6_policies s)"
      using Inr by (simp add: recordSchedulingPolicy_def event_then_return del: bindE_eq_Inr)
    moreover have "active_policies s (sp_workspaceId p) = []"
      using True by (auto simp: activeSchedulingPolicy_def split: list.splits)
    ultimately show ?thesis using True ok by blast
  next
    case False
    then show ?thesis using Inr by (auto simp: recordSchedulingPolicy_def simp del: bindE_eq_Inr split: option.splits sum.splits)
  qed
qed

lemma s6_step_policies:
  "s6_policies (s6_step lc sha legacy x s) = s6_policies s \<or>
   (\<exists>p. mget (s6_policies s) (sp_id p) = None \<and> policy_ok p \<and> active_policies s (sp_workspaceId p) = [] \<and>
      s6_policies (s6_step lc sha legacy x s) = mset_at (sp_id p) p (s6_policies s))"
proof (cases x)
  case (Pair env oper)
  show ?thesis
    by (cases oper) (simp_all add: Pair s6_step_def record_policy_cases decide_keeps_policies revalidate_keeps_policies capacity_keeps_policies)
qed

lemma s6_fold_policies:
  "policies_ok (s6_policies s) \<Longrightarrow> policies_ok (s6_policies (fold (s6_step lc sha legacy) ops s)) \<and>
   (\<forall>k p. mget (s6_policies s) k = Some p \<longrightarrow> mget (s6_policies (fold (s6_step lc sha legacy) ops s)) k = Some p)"
proof (induction ops arbitrary: s)
  case (Cons x ops)
  have ok: "policies_ok (s6_policies (s6_step lc sha legacy x s))"
    using s6_step_policies[of lc sha legacy x s]
  proof
    assume "s6_policies (s6_step lc sha legacy x s) = s6_policies s"
    with Cons.prems show ?thesis by simp
  next
    assume "\<exists>p. mget (s6_policies s) (sp_id p) = None \<and> policy_ok p \<and> active_policies s (sp_workspaceId p) = [] \<and>
      s6_policies (s6_step lc sha legacy x s) = mset_at (sp_id p) p (s6_policies s)"
    then obtain p where p: "mget (s6_policies s) (sp_id p) = None" "policy_ok p" "active_policies s (sp_workspaceId p) = []"
      "s6_policies (s6_step lc sha legacy x s) = mset_at (sp_id p) p (s6_policies s)" by blast
    from policies_ok_new[OF Cons.prems p(1,2) p(3)[unfolded active_policies_def]] show ?thesis unfolding p(4) .
  qed
  have "mget (s6_policies (s6_step lc sha legacy x s)) k = Some p" if "mget (s6_policies s) k = Some p" for k p
    using s6_step_policies[of lc sha legacy x s] that by auto
  with Cons.IH[OF ok] show ?case by simp
qed simp

text \<open>
  C28: After any history of the service no workspace has more than one active scheduling policy,
  so reading the active policy never fails; every recorded policy is well formed and no later
  operation changes it.
\<close>

theorem one_active_policy:
  "(\<exists>p. activeSchedulingPolicy (s6_run lc sha legacy ops) w = Inr p) \<and>
   (\<forall>k p. mget (s6_policies (s6_run lc sha legacy ops)) k = Some p \<longrightarrow>
      policy_ok p \<and> mget (s6_policies (s6_run lc sha legacy (ops @ later))) k = Some p)"
proof -
  have "policies_ok (s6_policies s6_init)" by (simp add: policies_ok_def s6_init_def mvalues_def)
  then have ok: "policies_ok (s6_policies (s6_run lc sha legacy ops))" unfolding s6_run_def using s6_fold_policies by blast
  then have "length (active_policies (s6_run lc sha legacy ops) w) \<le> 1" by (simp add: policies_ok_def active_policies_def)
  then have "\<exists>p. activeSchedulingPolicy (s6_run lc sha legacy ops) w = Inr p"
    by (auto simp: activeSchedulingPolicy_def split: list.splits)
  moreover have "policy_ok p \<and> mget (s6_policies (s6_run lc sha legacy (ops @ later))) k = Some p"
    if "mget (s6_policies (s6_run lc sha legacy ops)) k = Some p" for k p
    using that ok s6_fold_policies[OF ok, of lc sha legacy later] by (auto simp: policies_ok_def s6_run_def)
  ultimately show ?thesis by blast
qed

subsection \<open>An instance\<close>

definition sample_env :: s6_env where
  "sample_env = \<lparr>se_active = (\<lambda>w. w = ''w''), se_locks = [], se_bindings = [], se_live = [], se_records = (\<lambda>_. []),
     se_clock = ''2026-03-01T00:00:00.000Z''\<rparr>"

lemma sample_record_policy:
  "recordSchedulingPolicy (\<lambda>_. ''0'') (\<lambda>_. None) sample_env sample_policy_input s6_init =
    (s6_init\<lparr>s6_policies := [(''pol1'', sample_policy)],
       s6_events := [\<lparr>sv_workspaceId = ''w'', sv_type = ''scheduling.policy_recorded'', sv_aggregateType = ''schedulingPolicy'',
         sv_aggregateId = ''pol1'', sv_idempotencyKey = ''scheduling.policy_recorded:pol1:sha256:0'',
         sv_payload = JObj [(''policyId'', JStr ''pol1''), (''digest'', JStr ''sha256:0''), (''version'', JStr ''1'')]\<rparr>]\<rparr>, Inr sample_policy)"
proof -
  have c: "createSchedulingPolicySnapshot (\<lambda>_. ''0'') (\<lambda>_. None) (se_clock sample_env) sample_policy_input = Inr sample_policy"
    using sample_policy_created_at[of "se_clock sample_env"] .
  have i: "plain_object sample_policy_input" "requireS6Workspace sample_env (field sample_policy_input ''workspaceId'') = Inr ''w''"
    by (simp_all add: sample_policy_input_def requireS6Workspace_def sample_env_def)
  show ?thesis
    by (simp add: recordSchedulingPolicy_def i c s6_init_def activeSchedulingPolicy_def active_policies_def mvalues_def
        appendS6Event_def mset_at_def bindS_def sample_policy_def del: bindE_eq_Inr)
qed

theorem one_active_policy_witness:
  "mget (s6_policies (s6_run (\<lambda>a b. a \<le> b) (\<lambda>_. ''0'') (\<lambda>_. None) [(sample_env, RecordPolicy sample_policy_input), (sample_env, Decide (JObj []))]))
     ''pol1'' = Some sample_policy \<and> policy_ok sample_policy"
proof -
  have "s6_run (\<lambda>a b. a \<le> b) (\<lambda>_. ''0'') (\<lambda>_. None) [(sample_env, RecordPolicy sample_policy_input)] =
      fst (recordSchedulingPolicy (\<lambda>_. ''0'') (\<lambda>_. None) sample_env sample_policy_input s6_init)"
    by (simp add: s6_run_def s6_step_def)
  then have "mget (s6_policies (s6_run (\<lambda>a b. a \<le> b) (\<lambda>_. ''0'') (\<lambda>_. None) [(sample_env, RecordPolicy sample_policy_input)])) ''pol1'' = Some sample_policy"
    by (simp add: sample_record_policy mget_def)
  with one_active_policy[of "\<lambda>a b. a \<le> b" "\<lambda>_. ''0''" "\<lambda>_. None" "[(sample_env, RecordPolicy sample_policy_input)]" "''w''"
      "[(sample_env, Decide (JObj []))]"] show ?thesis by (simp only: append.simps)
qed

text \<open>
  A decision taken under the proposal id of an accepted assignment overwrites it: the assignment is
  back in state \<open>proposed\<close>, and the operation then fails on the idempotency key of its event.
\<close>

definition accepted_sample :: assignment_proposal where
  "accepted_sample = \<lparr>ap_id = ''a1'', ap_decisionId = ''d1'', ap_workspaceId = ''w'', ap_candidateId = ''c'', ap_workerId = ''k'',
     ap_executionIdentity = ''x'', ap_authoritySnapshotDigest = ''g'', ap_state = ''accepted'', ap_reasonCode = Some ''accepted_current''\<rparr>"

lemma reused_proposal_id_resets_assignment:
  "(let s = fst (store_proposed ''w'' (accepted_sample\<lparr>ap_state := ''proposed'', ap_reasonCode := None\<rparr>) s6_init);
        s1 = s\<lparr>s6_proposals := [(''a1'', (accepted_sample, 2))]\<rparr>;
        (s2, r) = store_proposed ''w'' (accepted_sample\<lparr>ap_decisionId := ''d2'', ap_state := ''proposed'', ap_reasonCode := None\<rparr>) s1
    in map_option (\<lambda>(p, n). (ap_state p, ap_decisionId p)) (mget (s6_proposals s2) ''a1'') = Some (''proposed'', ''d2'') \<and>
       (case r of Inl e \<Rightarrow> True | Inr _ \<Rightarrow> False))"
  by code_simp

definition sample_source_candidate :: source_candidate where
  "sample_source_candidate = \<lparr>so_cand_id = ''a'', so_cand_workspaceId = ''w'', so_cand_sourceKind = ''task'', so_cand_sourceId = ''t'',
     so_cand_executionIdentity = ''x'', so_cand_readySince = ''2026-03-01T00:00:00.000Z'', so_cand_priority = ''low'',
     so_cand_requiredResources = [], so_cand_providerRequirement = None, so_cand_workerRequirements = []\<rparr>"

definition sample_inputs :: sched_inputs where
  "sample_inputs = \<lparr>si_sourceRecords = [], si_candidates = [sample_source_candidate], si_workers = [sample_worker ''b'' 1, sample_worker ''a'' 0],
     si_providerCapacities = [], si_globalBudget = sample_budget ''global'' None, si_workspaceBudget = sample_budget ''workspace'' (Some ''w''),
     si_blockedResources = [], si_capacitySnapshot = JObj [(''digest'', JStr ''c'')]\<rparr>"

lemma sample_decision:
  "(case decisionForInputs (\<lambda>a b. a \<le> b) (\<lambda>_. ''0'') (\<lambda>_. None) (JStr ''d'') ''w'' sample_policy sample_inputs ''2026-03-01T00:00:00.000Z'' of
     Inr d \<Rightarrow> sd_selectedCandidateId d = Some ''a'' | Inl _ \<Rightarrow> False)"
  by code_simp

theorem assignment_respects_capacity_witness:
  "\<exists>d. decisionForInputs (\<lambda>a b. a \<le> b) (\<lambda>_. ''0'') (\<lambda>_. None) (JStr ''d'') ''w'' sample_policy sample_inputs ''2026-03-01T00:00:00.000Z'' = Inr d \<and>
     map dc_candidateId (sd_deferred d) = remove1 ''a'' (sd_orderedCandidateIds d) \<and>
     cb_activeObserved (si_workspaceBudget sample_inputs) < cb_maxActive (si_workspaceBudget sample_inputs)"
proof -
  let ?r = "decisionForInputs (\<lambda>a b. a \<le> b) (\<lambda>_. ''0'') (\<lambda>_. None) (JStr ''d'') ''w'' sample_policy sample_inputs ''2026-03-01T00:00:00.000Z''"
  obtain d where d: "?r = Inr d" "sd_selectedCandidateId d = Some ''a''"
    using sample_decision by (cases ?r) simp_all
  from assignment_respects_capacity[OF d] d(1) show ?thesis by blast
qed

end
