(* ===== verification/SyncEnvelope.thy ===== *)
theory SyncEnvelope
  imports JsDate Json SchedPolicy
begin

text \<open>
  Synchronisation envelopes (\<open>src/sync/envelope/index.cjs\<close>): the payload filter, the envelopes
  and cursors a source produces, the classifier that decides whether an envelope extends a log,
  acknowledgements and divergence records.  A payload is a tree: cycles have no value in the
  model, nor has an own property named \<open>__proto__\<close>.
\<close>

definition RECORD_CLASSES :: "string list" where
  "RECORD_CLASSES = [''workspace.summary'', ''mission.summary'', ''plan-step.summary'', ''human-gate.summary'',
     ''scheduling.summary'', ''github-delivery.summary'', ''provider-observation.summary'', ''evidence.summary'',
     ''worker-presence.summary'']"

text \<open>The words \<open>FORBIDDEN_KEY\<close> matches, in lower case.\<close>

definition FORBIDDEN_KEYS :: "string list" where
  "FORBIDDEN_KEYS = [''authorization'', ''proxy-authorization'', ''cookie'', ''cookies'', ''set-cookie'', ''password'', ''passwd'',
     ''accesstoken'', ''access_token'', ''access-token'', ''refreshtoken'', ''refresh_token'', ''refresh-token'',
     ''idtoken'', ''id_token'', ''id-token'', ''token'', ''secret'', ''privatekey'', ''private_key'', ''private key'', ''private-key'',
     ''profilepath'', ''profiledir'', ''profiledirectory'', ''browserprofile'', ''userdata'', ''userdatadir'', ''storagestate'',
     ''processid'', ''pid'', ''ppid'', ''body'', ''responsebody'', ''wallet'', ''seed'', ''signingmaterial'']"

definition FORBIDDEN_KEY :: "string \<Rightarrow> bool" where
  "FORBIDDEN_KEY k = (map ascii_lower k \<in> set FORBIDDEN_KEYS)"

subsection \<open>Sensitive strings\<close>

definition is_word :: "char \<Rightarrow> bool" where
  "is_word c = (is_alnum c \<or> c = CHR ''_'')"

definition token_char :: "char \<Rightarrow> bool" where
  "token_char c = (is_alnum c \<or> c \<in> set ''._~+/=-'')"

definition prefix_ci :: "string \<Rightarrow> string \<Rightarrow> bool" where
  "prefix_ci lit s = (map ascii_lower (take (length lit) s) = lit)"

definition bearer_here :: "string \<Rightarrow> bool" where
  "bearer_here s = (prefix_ci ''bearer'' s \<and>
     (let r = drop 6 s in r \<noteq> [] \<and> is_space (hd r) \<and> 12 \<le> length (takeWhile token_char (dropWhile is_space r))))"

definition key_block_here :: "string \<Rightarrow> bool" where
  "key_block_here s = list_ex (\<lambda>k. prefix_ci (''-----begin '' @ k @ ''private key-----'') s) ['''', ''rsa '', ''ec '', ''openssh '']"

definition phrase_here :: "string \<Rightarrow> bool" where
  "phrase_here s = list_ex (\<lambda>p. prefix_ci p s \<and> (let r = drop (length p) s in r = [] \<or> \<not> is_word (hd r))) [''seed phrase'', ''mnemonic'']"

definition assignment_here :: "string \<Rightarrow> bool" where
  "assignment_here s = list_ex (\<lambda>p. prefix_ci p s) [''sessionid='', ''access_token='', ''refresh_token='', ''id_token='']"

text \<open>\<open>boundary\<close>: the character before is not a word character, so \<open>\b\<close> holds before a word.\<close>

fun sensitive_from :: "bool \<Rightarrow> string \<Rightarrow> bool" where
  "sensitive_from boundary [] = False"
| "sensitive_from boundary (c # cs) =
     (key_block_here (c # cs) \<or> boundary \<and> (bearer_here (c # cs) \<or> assignment_here (c # cs) \<or> phrase_here (c # cs))
      \<or> sensitive_from (\<not> is_word c) cs)"

definition SENSITIVE_STRING :: "string \<Rightarrow> bool" where
  "SENSITIVE_STRING s = sensitive_from True s"

subsection \<open>The payload filter\<close>

definition MAX_DEPTH :: nat where "MAX_DEPTH = 8"

definition MAX_OBJECT_KEYS :: nat where "MAX_OBJECT_KEYS = 128"

definition MAX_ARRAY_ITEMS :: nat where "MAX_ARRAY_ITEMS = 256"

definition MAX_STRING_LENGTH :: nat where "MAX_STRING_LENGTH = 4096"

definition MAX_PAYLOAD_BYTES :: nat where "MAX_PAYLOAD_BYTES = 65536"

fun safeClone :: "js \<Rightarrow> string \<Rightarrow> nat \<Rightarrow> js res"
and clone_items :: "nat \<Rightarrow> js list \<Rightarrow> string \<Rightarrow> nat \<Rightarrow> js list res"
and clone_entries :: "(string \<times> js) list \<Rightarrow> string \<Rightarrow> nat \<Rightarrow> (string \<times> js) list res" where
  "safeClone value trail depth =
    (if MAX_DEPTH < depth then Inl (Error (''collaboration payload exceeds maximum depth at '' @ trail))
     else case value of
       JNull \<Rightarrow> Inr JNull
     | JBool b \<Rightarrow> Inr (JBool b)
     | JNum n \<Rightarrow> Inr (JNum n)
     | JDbl s \<Rightarrow> if s \<in> {''NaN'', ''Infinity'', ''-Infinity''} then Inl (Error (''non-finite number at '' @ trail)) else Inr (JDbl s)
     | JStr s \<Rightarrow> if MAX_STRING_LENGTH < length s then Inl (Error (''string too long at '' @ trail))
                  else if SENSITIVE_STRING s then Inl (Error (''sensitive-looking value at '' @ trail))
                  else Inr (JStr s)
     | JUndef \<Rightarrow> Inl (Error (''unsupported collaboration payload value at '' @ trail))
     | JArr vs \<Rightarrow> if MAX_ARRAY_ITEMS < length vs then Inl (Error (''array too large at '' @ trail))
                   else bindE (clone_items 0 vs trail depth) (\<lambda>ws. Inr (JArr ws))
     | JObj kvs \<Rightarrow> if MAX_OBJECT_KEYS < length kvs then Inl (Error (''object too large at '' @ trail))
                    else bindE (clone_entries kvs trail depth) (\<lambda>ws. Inr (JObj ws)))"
| "clone_items i [] trail depth = Inr []"
| "clone_items i (v # vs) trail depth =
     bindE (safeClone v (trail @ ''['' @ nat_digits i @ '']'') (Suc depth)) (\<lambda>w.
     bindE (clone_items (Suc i) vs trail depth) (\<lambda>ws. Inr (w # ws)))"
| "clone_entries [] trail depth = Inr []"
| "clone_entries ((k, v) # kvs) trail depth =
     (if FORBIDDEN_KEY k then Inl (Error (''forbidden collaboration field '' @ trail @ ''.'' @ k))
      else bindE (safeClone v (trail @ ''.'' @ k) (Suc depth)) (\<lambda>w.
           bindE (clone_entries kvs trail depth) (\<lambda>ws. Inr ((k, w) # ws))))"

text \<open>\<open>Buffer.byteLength(s, 'utf8')\<close> for code units below 256.\<close>

definition utf8_length :: "string \<Rightarrow> nat" where
  "utf8_length s = sum_list (map (\<lambda>c. if ccode c < 128 then 1 else 2) s)"

definition assertCollaborationPayload :: "string \<Rightarrow> js \<Rightarrow> js res" where
  "assertCollaborationPayload recordClass payload =
    (if recordClass \<notin> set RECORD_CLASSES then Inl (Error (''unsupported collaboration record class: '' @ recordClass))
     else bindE (safeClone payload ''$'' 0) (\<lambda>safe.
       if MAX_PAYLOAD_BYTES < utf8_length (stableStringify safe)
       then Inl (Error (''collaboration payload exceeds '' @ nat_digits MAX_PAYLOAD_BYTES @ '' bytes'')) else Inr safe))"

subsection \<open>Sources, envelopes, cursors\<close>

record sync_source =
  ss_id :: string
  ss_instancePublicId :: string
  ss_status :: string
  ss_createdAt :: string

definition createSyncSourceInstance :: "(string \<Rightarrow> int option) \<Rightarrow> string \<Rightarrow> js \<Rightarrow> sync_source res" where
  "createSyncSourceInstance legacy now input =
    (let status = or_js (field input ''status'') (JStr ''active'') in
     if \<not> includes_str [''active'', ''retired''] status then Inl (Error ''Invalid SyncSourceInstance status'')
     else bindE (assertSafeIdentifier (field input ''id'') ''sync source instance id'') (\<lambda>i.
       bindE (assertSafeIdentifier (or_js (field input ''instancePublicId'') (field input ''id'')) ''sync source public id'') (\<lambda>p.
       bindE (isoInstant legacy (or_js (field input ''createdAt'') (JStr now)) ''sync source createdAt'') (\<lambda>c.
       Inr \<lparr>ss_id = i, ss_instancePublicId = p, ss_status = to_string status, ss_createdAt = c\<rparr>))))"

record sync_envelope =
  se_id :: string
  se_workspaceId :: string
  se_sourceInstanceId :: string
  se_cursor :: int
  se_schemaVersion :: string
  se_recordClass :: string
  se_recordId :: string
  se_recordRevision :: int
  se_payload :: js
  se_payloadDigest :: string
  se_previousEnvelopeDigest :: "string option"
  se_createdAt :: string
  se_envelopeDigest :: string

definition envelope_base :: "sync_envelope \<Rightarrow> (string \<times> js) list" where
  "envelope_base e = [(''id'', JStr (se_id e)), (''workspaceId'', JStr (se_workspaceId e)),
     (''sourceInstanceId'', JStr (se_sourceInstanceId e)), (''cursor'', JNum (se_cursor e)),
     (''schemaVersion'', JStr (se_schemaVersion e)), (''recordClass'', JStr (se_recordClass e)),
     (''recordId'', JStr (se_recordId e)), (''recordRevision'', JNum (se_recordRevision e)), (''payload'', se_payload e),
     (''payloadDigest'', JStr (se_payloadDigest e)), (''previousEnvelopeDigest'', js_opt (se_previousEnvelopeDigest e)),
     (''createdAt'', JStr (se_createdAt e))]"

definition optionalText :: "js \<Rightarrow> string \<Rightarrow> nat \<Rightarrow> string option res" where
  "optionalText v label n = (if nullish v then Inr None else bindE (requiredText v label n) (\<lambda>t. Inr (Some t)))"

definition createSyncEnvelope :: "(string \<Rightarrow> string) \<Rightarrow> (string \<Rightarrow> int option) \<Rightarrow> string \<Rightarrow> js \<Rightarrow> sync_envelope res" where
  "createSyncEnvelope sha legacy now input =
    (if \<not> plain_object input then Inl (TypeError ''SyncEnvelope input is required'')
     else bindE (positiveInteger (field input ''cursor'') ''SyncEnvelope cursor'' False) (\<lambda>cursor.
       bindE (optionalText (field input ''previousEnvelopeDigest'') ''previousEnvelopeDigest'' 100) (\<lambda>previous.
       if cursor = 1 \<and> previous \<noteq> None then Inl (Error ''cursor 1 must not have previousEnvelopeDigest'')
       else if cursor > 1 \<and> previous = None then Inl (Error ''cursor > 1 requires previousEnvelopeDigest'')
       else bindE (requiredText (field input ''recordClass'') ''recordClass'' 80) (\<lambda>recordClass.
       bindE (assertCollaborationPayload recordClass (field input ''payload'')) (\<lambda>payload.
       bindE (assertSafeIdentifier (field input ''id'') ''sync envelope id'') (\<lambda>i.
       bindE (assertSafeIdentifier (field input ''workspaceId'') ''workspace id'') (\<lambda>w.
       bindE (assertSafeIdentifier (field input ''sourceInstanceId'') ''source instance id'') (\<lambda>s.
       bindE (requiredText (or_js (field input ''schemaVersion'') (JStr ''1'')) ''sync schema version'' 40) (\<lambda>v.
       bindE (assertSafeIdentifier (field input ''recordId'') ''sync record id'') (\<lambda>r.
       bindE (positiveInteger (coalesce (field input ''recordRevision'') (JNum 1)) ''sync record revision'' False) (\<lambda>n.
       bindE (isoInstant legacy (or_js (field input ''createdAt'') (JStr now)) ''sync envelope createdAt'') (\<lambda>c.
       let e = \<lparr>se_id = i, se_workspaceId = w, se_sourceInstanceId = s, se_cursor = cursor, se_schemaVersion = v,
             se_recordClass = recordClass, se_recordId = r, se_recordRevision = n, se_payload = payload,
             se_payloadDigest = digest sha payload, se_previousEnvelopeDigest = previous, se_createdAt = c, se_envelopeDigest = []\<rparr>
       in Inr (e\<lparr>se_envelopeDigest := digest sha (JObj (envelope_base e))\<rparr>)))))))))))))"

record sync_cursor =
  sy_workspaceId :: string
  sy_sourceInstanceId :: string
  sy_lastProducedCursor :: int
  sy_lastAcknowledgedCursor :: int
  sy_lastEnvelopeDigest :: "string option"
  sy_status :: string
  sy_updatedAt :: string

definition SYNC_CURSOR_STATES :: "string list" where
  "SYNC_CURSOR_STATES = [''current'', ''stale'', ''gap'', ''divergent'', ''unavailable'']"

definition createSyncCursor :: "(string \<Rightarrow> int option) \<Rightarrow> string \<Rightarrow> js \<Rightarrow> sync_cursor res" where
  "createSyncCursor legacy now input =
    (let status = or_js (field input ''status'') (JStr ''current'') in
     if \<not> includes_str SYNC_CURSOR_STATES status then Inl (Error ''Invalid SyncCursor status'')
     else bindE (positiveInteger (coalesce (field input ''lastProducedCursor'') (JNum 0)) ''lastProducedCursor'' True) (\<lambda>produced.
       bindE (positiveInteger (coalesce (field input ''lastAcknowledgedCursor'') (JNum 0)) ''lastAcknowledgedCursor'' True) (\<lambda>acknowledged.
       if acknowledged > produced then Inl (Error ''acknowledged cursor cannot exceed produced cursor'')
       else bindE (optionalText (field input ''lastEnvelopeDigest'') ''lastEnvelopeDigest'' 100) (\<lambda>lastDigest.
       if produced = 0 \<and> lastDigest \<noteq> None then Inl (Error ''empty cursor cannot have lastEnvelopeDigest'')
       else if produced > 0 \<and> lastDigest = None then Inl (Error ''produced cursor requires lastEnvelopeDigest'')
       else bindE (bindE (fieldE input ''workspaceId'') (\<lambda>v. assertSafeIdentifier v ''workspace id'')) (\<lambda>w.
       bindE (assertSafeIdentifier (field input ''sourceInstanceId'') ''source instance id'') (\<lambda>s.
       bindE (isoInstant legacy (or_js (field input ''updatedAt'') (JStr now)) ''sync cursor updatedAt'') (\<lambda>u.
       Inr \<lparr>sy_workspaceId = w, sy_sourceInstanceId = s, sy_lastProducedCursor = produced, sy_lastAcknowledgedCursor = acknowledged,
         sy_lastEnvelopeDigest = lastDigest, sy_status = to_string status, sy_updatedAt = u\<rparr>)))))))"

subsection \<open>Classification and advance\<close>

record append_verdict =
  av_state :: string
  av_reasonCode :: string
  av_cursor :: "int option"
  av_expectedCursor :: "int option"
  av_envelopeDigest :: "string option"
  av_expectedPreviousDigest :: "string option"

definition verdict :: "string \<Rightarrow> string \<Rightarrow> append_verdict" where
  "verdict s r = \<lparr>av_state = s, av_reasonCode = r, av_cursor = None, av_expectedCursor = None, av_envelopeDigest = None,
     av_expectedPreviousDigest = None\<rparr>"

definition classifyEnvelopeAppend ::
  "string \<Rightarrow> string \<Rightarrow> int \<Rightarrow> string option \<Rightarrow> sync_envelope option \<Rightarrow> sync_envelope \<Rightarrow> append_verdict res" where
  "classifyEnvelopeAppend workspaceId sourceInstanceId lastCursor lastDigest existing envelope =
    (let at = (\<lambda>v. v\<lparr>av_cursor := Some (se_cursor envelope)\<rparr>) in
     if se_workspaceId envelope \<noteq> workspaceId then Inr (verdict ''rejected'' ''cross_workspace'')
     else if se_sourceInstanceId envelope \<noteq> sourceInstanceId then Inr (verdict ''rejected'' ''unknown_source'')
     else case existing of
       Some x \<Rightarrow>
         if se_id x \<noteq> se_id envelope then Inl (Error ''existingEnvelope id mismatch'')
         else if se_envelopeDigest x = se_envelopeDigest envelope
         then Inr (at (verdict ''duplicate'' ''exact_duplicate'')\<lparr>av_envelopeDigest := Some (se_envelopeDigest envelope)\<rparr>)
         else Inr (at (verdict ''divergent'' ''envelope_id_digest_conflict''))
     | None \<Rightarrow>
         if se_cursor envelope \<le> lastCursor
         then Inr (at (verdict ''divergent'' ''cursor_reuse_or_regression'')\<lparr>av_expectedCursor := Some (lastCursor + 1)\<rparr>)
         else if se_cursor envelope > lastCursor + 1
         then Inr (at (verdict ''gap'' ''cursor_gap'')\<lparr>av_expectedCursor := Some (lastCursor + 1)\<rparr>)
         else if lastCursor = 0 \<and> se_previousEnvelopeDigest envelope \<noteq> None
         then Inr (at (verdict ''divergent'' ''unexpected_previous_digest''))
         else if lastCursor \<noteq> 0 \<and> se_previousEnvelopeDigest envelope \<noteq> lastDigest
         then Inr (at (verdict ''divergent'' ''previous_digest_mismatch'')\<lparr>av_expectedPreviousDigest := lastDigest\<rparr>)
         else Inr (at (verdict ''accepted'' ''append_current'')\<lparr>av_envelopeDigest := Some (se_envelopeDigest envelope)\<rparr>))"

definition cursor_obj :: "sync_cursor \<Rightarrow> int \<Rightarrow> int \<Rightarrow> string option \<Rightarrow> string \<Rightarrow> js \<Rightarrow> js" where
  "cursor_obj c produced acknowledged lastDigest status updated = JObj [(''workspaceId'', JStr (sy_workspaceId c)),
     (''sourceInstanceId'', JStr (sy_sourceInstanceId c)), (''lastProducedCursor'', JNum produced),
     (''lastAcknowledgedCursor'', JNum acknowledged), (''lastEnvelopeDigest'', js_opt lastDigest), (''status'', JStr status),
     (''updatedAt'', updated)]"

definition advanceSyncCursor ::
  "(string \<Rightarrow> int option) \<Rightarrow> string \<Rightarrow> sync_cursor \<Rightarrow> sync_envelope \<Rightarrow> bool \<Rightarrow> js \<Rightarrow> sync_cursor res" where
  "advanceSyncCursor legacy now c envelope acknowledged observedAt =
    bindE (classifyEnvelopeAppend (sy_workspaceId c) (sy_sourceInstanceId c) (sy_lastProducedCursor c) (sy_lastEnvelopeDigest c) None envelope) (\<lambda>result.
    if av_state result \<noteq> ''accepted'' then Inl (Error (''cannot advance cursor: '' @ av_reasonCode result))
    else createSyncCursor legacy now (cursor_obj c (se_cursor envelope)
      (if acknowledged then se_cursor envelope else sy_lastAcknowledgedCursor c) (Some (se_envelopeDigest envelope)) ''current''
      (or_js observedAt (JStr now))))"

definition acknowledgeCursor ::
  "(string \<Rightarrow> int option) \<Rightarrow> string \<Rightarrow> sync_cursor \<Rightarrow> sync_envelope \<Rightarrow> string \<Rightarrow> js \<Rightarrow> sync_cursor res" where
  "acknowledgeCursor legacy now c envelope state observedAt =
    (if state \<notin> {''accepted'', ''duplicate''} then Inl (Error ''only accepted/duplicate envelopes may advance acknowledgement'')
     else if se_workspaceId envelope \<noteq> sy_workspaceId c \<or> se_sourceInstanceId envelope \<noteq> sy_sourceInstanceId c
     then Inl (Error ''acknowledgement scope mismatch'')
     else if se_cursor envelope > sy_lastProducedCursor c then Inl (Error ''cannot acknowledge unproduced cursor'')
     else if se_cursor envelope < sy_lastAcknowledgedCursor c then Inl (Error ''acknowledgement cursor regression'')
     else createSyncCursor legacy now (cursor_obj c (sy_lastProducedCursor c) (se_cursor envelope) (sy_lastEnvelopeDigest c)
       (sy_status c) (or_js observedAt (JStr now))))"

record sync_ack =
  sk_workspaceId :: string
  sk_sourceInstanceId :: string
  sk_cursor :: int
  sk_envelopeDigest :: string
  sk_state :: string
  sk_reasonCode :: "string option"
  sk_observedAt :: string

definition createSyncAck :: "(string \<Rightarrow> int option) \<Rightarrow> string \<Rightarrow> js \<Rightarrow> sync_ack res" where
  "createSyncAck legacy now input =
    (if \<not> includes_str [''accepted'', ''duplicate'', ''rejected'', ''divergent''] (field input ''state'')
     then Inl (Error ''Invalid SyncAck state'')
     else bindE (assertSafeIdentifier (field input ''workspaceId'') ''workspace id'') (\<lambda>w.
       bindE (assertSafeIdentifier (field input ''sourceInstanceId'') ''source instance id'') (\<lambda>s.
       bindE (positiveInteger (field input ''cursor'') ''sync ack cursor'' False) (\<lambda>n.
       bindE (requiredText (field input ''envelopeDigest'') ''sync ack envelopeDigest'' 100) (\<lambda>d.
       bindE (optionalIdentifier (field input ''reasonCode'') ''sync ack reason code'') (\<lambda>r.
       bindE (isoInstant legacy (or_js (field input ''observedAt'') (JStr now)) ''sync ack observedAt'') (\<lambda>t.
       Inr \<lparr>sk_workspaceId = w, sk_sourceInstanceId = s, sk_cursor = n, sk_envelopeDigest = d,
         sk_state = to_string (field input ''state''), sk_reasonCode = r, sk_observedAt = t\<rparr>)))))))"

record sync_divergence =
  sg_workspaceId :: string
  sg_sourceInstanceId :: string
  sg_cursor :: int
  sg_envelopeId :: string
  sg_expectedDigest :: "string option"
  sg_observedDigest :: "string option"
  sg_reasonCode :: string
  sg_observedAt :: string

definition createSyncDivergence :: "(string \<Rightarrow> int option) \<Rightarrow> string \<Rightarrow> js \<Rightarrow> sync_divergence res" where
  "createSyncDivergence legacy now input =
    bindE (bindE (fieldE input ''workspaceId'') (\<lambda>v. assertSafeIdentifier v ''workspace id'')) (\<lambda>w.
    bindE (assertSafeIdentifier (field input ''sourceInstanceId'') ''source instance id'') (\<lambda>s.
    bindE (positiveInteger (field input ''cursor'') ''sync divergence cursor'' False) (\<lambda>n.
    bindE (assertSafeIdentifier (field input ''envelopeId'') ''sync envelope id'') (\<lambda>e.
    bindE (optionalText (field input ''expectedDigest'') ''expectedDigest'' 100) (\<lambda>x.
    bindE (optionalText (field input ''observedDigest'') ''observedDigest'' 100) (\<lambda>y.
    bindE (assertSafeIdentifier (field input ''reasonCode'') ''sync divergence reason code'') (\<lambda>r.
    bindE (isoInstant legacy (or_js (field input ''observedAt'') (JStr now)) ''sync divergence observedAt'') (\<lambda>t.
    Inr \<lparr>sg_workspaceId = w, sg_sourceInstanceId = s, sg_cursor = n, sg_envelopeId = e, sg_expectedDigest = x,
      sg_observedDigest = y, sg_reasonCode = r, sg_observedAt = t\<rparr>))))))))"

subsection \<open>What a payload may contain\<close>

text \<open>The values inside a value with their depth, and what the filter demands of each.\<close>

fun parts :: "nat \<Rightarrow> js \<Rightarrow> (nat \<times> js) list" where
  "parts d (JArr vs) = (d, JArr vs) # concat (map (parts (Suc d)) vs)"
| "parts d (JObj kvs) = (d, JObj kvs) # concat (map (\<lambda>(k, v). parts (Suc d) v) kvs)"
| "parts d v = [(d, v)]"

definition part_ok :: "nat \<times> js \<Rightarrow> bool" where
  "part_ok = (\<lambda>(d, v). d \<le> 8 \<and> (case v of JUndef \<Rightarrow> False
     | JDbl s \<Rightarrow> s \<notin> {''NaN'', ''Infinity'', ''-Infinity''}
     | JStr s \<Rightarrow> length s \<le> 4096 \<and> \<not> SENSITIVE_STRING s
     | JArr vs \<Rightarrow> length vs \<le> 256 | JObj kvs \<Rightarrow> length kvs \<le> 128 | _ \<Rightarrow> True))"

definition clean :: "nat \<Rightarrow> js \<Rightarrow> bool" where
  "clean d v \<longleftrightarrow> list_all part_ok (parts d v) \<and> list_all (\<lambda>k. \<not> FORBIDDEN_KEY k) (deep_keys v)"

lemma clean_arr: "clean d (JArr vs) \<longleftrightarrow> d \<le> 8 \<and> length vs \<le> 256 \<and> list_all (clean (Suc d)) vs"
  unfolding clean_def by (auto simp: part_ok_def list_all_iff)

lemma clean_obj: "clean d (JObj kvs) \<longleftrightarrow> d \<le> 8 \<and> length kvs \<le> 128 \<and>
    list_all (\<lambda>(k, v). \<not> FORBIDDEN_KEY k \<and> clean (Suc d) v) kvs"
  unfolding clean_def by (auto simp: part_ok_def list_all_iff)

lemma clean_atom:
  "clean d JUndef \<longleftrightarrow> False" "clean d JNull \<longleftrightarrow> d \<le> 8" "clean d (JBool b) \<longleftrightarrow> d \<le> 8" "clean d (JNum n) \<longleftrightarrow> d \<le> 8"
  "clean d (JDbl s) \<longleftrightarrow> d \<le> 8 \<and> s \<notin> {''NaN'', ''Infinity'', ''-Infinity''}"
  "clean d (JStr s) \<longleftrightarrow> d \<le> 8 \<and> length s \<le> 4096 \<and> \<not> SENSITIVE_STRING s"
  by (simp_all add: clean_def part_ok_def)

declare safeClone.simps [simp del]

lemma safeClone_iff:
  "safeClone v t d = Inr w \<longleftrightarrow> w = v \<and> clean d v"
  "clone_items i vs t d = Inr ws \<longleftrightarrow> ws = vs \<and> list_all (clean (Suc d)) vs"
  "clone_entries kvs t d = Inr us \<longleftrightarrow> us = kvs \<and> list_all (\<lambda>(k, v). \<not> FORBIDDEN_KEY k \<and> clean (Suc d) v) kvs"
proof (induction v t d and i vs t d and kvs t d arbitrary: w and ws and us rule: safeClone_clone_items_clone_entries.induct)
  case (1 v t d)
  show ?case
  proof (cases "MAX_DEPTH < d")
    case True
    then have "\<not> clean d v" by (cases v) (auto simp: clean_atom clean_arr clean_obj MAX_DEPTH_def)
    with True show ?thesis by (subst safeClone.simps) simp
  next
    case False
    then have d: "d \<le> 8" by (simp add: MAX_DEPTH_def)
    show ?thesis
    proof (cases v)
      case (JArr vs)
      with False 1(1) show ?thesis
        by (subst safeClone.simps) (auto simp: clean_arr d MAX_ARRAY_ITEMS_def)
    next
      case (JObj kvs)
      with False 1(2) show ?thesis
        by (subst safeClone.simps) (auto simp: clean_obj d MAX_OBJECT_KEYS_def)
    next
      case (JStr s)
      with False d show ?thesis
        by (subst safeClone.simps) (auto simp: clean_atom MAX_STRING_LENGTH_def)
    next
      case (JDbl s)
      with False d show ?thesis by (subst safeClone.simps) (auto simp: clean_atom)
    next
      case JNull
      with False d show ?thesis by (subst safeClone.simps) (auto simp: clean_atom)
    next
      case (JBool b)
      with False d show ?thesis by (subst safeClone.simps) (auto simp: clean_atom)
    next
      case (JNum n)
      with False d show ?thesis by (subst safeClone.simps) (auto simp: clean_atom)
    next
      case JUndef
      with False d show ?thesis by (subst safeClone.simps) (auto simp: clean_atom)
    qed
  qed
qed auto

end
