(* ===== verification/SyncMirror.thy ===== *)
theory SyncMirror
  imports SyncEnvelope
begin

text \<open>
  The project-owned mirror (\<open>src/sync/transport/mirror.cjs\<close>, class \<open>ProjectOwnedSyncMirror\<close>):
  the store behind the synchronisation endpoint.  A batch changes the store envelope by
  envelope, and what was stored before a throw stays stored.  Envelopes arrive as untyped
  values; \<open>gt\<close> is the host's comparison of numbers that are not both integers.  The HTTP
  status a thrown error carries is not modelled, its reason code is the message.
\<close>

record mirror_source =
  ms_workspaceId :: string
  ms_sourceInstanceId :: string
  ms_lastCursor :: int
  ms_lastEnvelopeDigest :: "string option"
  ms_envelopesById :: "(js, js) jsmap"

record mirror =
  mr_allowedRecordClasses :: "string list"
  mr_sources :: "(string, mirror_source) jsmap"
  mr_recordsByWorkspace :: "(string, (string, (string, js) jsmap) jsmap) jsmap"

definition mirror_init :: "string list \<Rightarrow> mirror" where
  "mirror_init allowed = \<lparr>mr_allowedRecordClasses = allowed, mr_sources = [], mr_recordsByWorkspace = []\<rparr>"

definition sourceKey :: "string \<Rightarrow> string \<Rightarrow> string" where
  "sourceKey workspaceId sourceInstanceId = workspaceId @ '':'' @ sourceInstanceId"

definition recordKey :: "js \<Rightarrow> js \<Rightarrow> string" where
  "recordKey recordClass recordId = to_string recordClass @ '':'' @ to_string recordId"

definition registerSource :: "js \<Rightarrow> js \<Rightarrow> (mirror, string \<times> string) act" where
  "registerSource workspaceId sourceInstanceId =
    bindS (liftS (assertSafeIdentifier workspaceId ''workspace id'')) (\<lambda>workspace.
    bindS (liftS (assertSafeIdentifier sourceInstanceId ''source instance id'')) (\<lambda>source.
    bindS (modifyS (\<lambda>m. if mget (mr_sources m) (sourceKey workspace source) \<noteq> None then m
      else m\<lparr>mr_sources := mset_at (sourceKey workspace source)
        \<lparr>ms_workspaceId = workspace, ms_sourceInstanceId = source, ms_lastCursor = 0, ms_lastEnvelopeDigest = None,
         ms_envelopesById = []\<rparr> (mr_sources m)\<rparr>)) (\<lambda>_.
    returnS (workspace, source))))"

definition requireSource :: "mirror \<Rightarrow> string \<Rightarrow> string \<Rightarrow> mirror_source res" where
  "requireSource m workspaceId sourceInstanceId = (case mget (mr_sources m) (sourceKey workspaceId sourceInstanceId) of
      None \<Rightarrow> Inl (Error ''unknown_source'') | Some st \<Rightarrow> Inr st)"

text \<open>A key of a \<open>Map\<close> that is an object is only equal to itself, and every stored value is a fresh copy.\<close>

definition envelope_get :: "(js, js) jsmap \<Rightarrow> js \<Rightarrow> js option" where
  "envelope_get m k = (if is_object k then None else mget m k)"

definition envelope_put :: "js \<Rightarrow> js \<Rightarrow> (js, js) jsmap \<Rightarrow> (js, js) jsmap" where
  "envelope_put k v m = (if is_object k then m @ [(k, v)] else mset_at k v m)"

definition number_greater :: "(js \<Rightarrow> js \<Rightarrow> bool) \<Rightarrow> js \<Rightarrow> js \<Rightarrow> bool" where
  "number_greater gt a b = (case (to_integer a, to_integer b) of (Some m, Some n) \<Rightarrow> n < m | _ \<Rightarrow> gt a b)"

record mirror_ack =
  ma_cursor :: js
  ma_envelopeDigest :: js
  ma_state :: string
  ma_reasonCode :: string

definition starts_with :: "string \<Rightarrow> string \<Rightarrow> bool" where
  "starts_with p s = (take (length p) s = p)"

text \<open>The checks of an envelope that do not look at the stored ones.\<close>

definition envelope_shape :: "string list \<Rightarrow> string \<Rightarrow> string \<Rightarrow> js \<Rightarrow> unit res" where
  "envelope_shape allowed workspace source envelope =
    (if \<not> plain_object envelope then Inl (Error ''invalid_envelope'')
     else if field envelope ''workspaceId'' \<noteq> JStr workspace then Inl (Error ''cross_workspace'')
     else if field envelope ''sourceInstanceId'' \<noteq> JStr source then Inl (Error ''unknown_source'')
     else if \<not> includes_str allowed (field envelope ''recordClass'') then Inl (Error ''unsupported_record_class'')
     else case field envelope ''envelopeDigest'' of
       JStr d \<Rightarrow> if starts_with ''sha256:'' d then Inr () else Inl (Error ''invalid_envelope_digest'')
     | _ \<Rightarrow> Inl (Error ''invalid_envelope_digest''))"

text \<open>The checks of an envelope with a new id against the end of the log.\<close>

definition envelope_follows :: "(js \<Rightarrow> js \<Rightarrow> bool) \<Rightarrow> mirror_source \<Rightarrow> js \<Rightarrow> unit res" where
  "envelope_follows gt st envelope =
    (let expected = ms_lastCursor st + 1; previous = field envelope ''previousEnvelopeDigest'' in
     if field envelope ''cursor'' \<noteq> JNum expected
     then Inl (Error (if number_greater gt (field envelope ''cursor'') (JNum expected) then ''cursor_gap'' else ''cursor_reuse_or_regression''))
     else if ms_lastCursor st = 0
     then (if \<not> nullish previous then Inl (Error ''unexpected_previous_digest'') else Inr ())
     else if previous \<noteq> js_opt (ms_lastEnvelopeDigest st) then Inl (Error ''previous_digest_mismatch'')
     else Inr ())"

definition store_envelope :: "js \<Rightarrow> mirror_source \<Rightarrow> mirror_source" where
  "store_envelope stored st = st\<lparr>ms_envelopesById := envelope_put (field stored ''id'') stored (ms_envelopesById st),
     ms_lastCursor := (case field stored ''cursor'' of JNum n \<Rightarrow> n | _ \<Rightarrow> 0),
     ms_lastEnvelopeDigest := (case field stored ''envelopeDigest'' of JStr d \<Rightarrow> Some d | _ \<Rightarrow> None)\<rparr>"

definition map_or_new :: "('k, ('l, 'v) jsmap) jsmap \<Rightarrow> 'k \<Rightarrow> ('l, 'v) jsmap" where
  "map_or_new m k = (case mget m k of None \<Rightarrow> [] | Some x \<Rightarrow> x)"

text \<open>The record of an envelope replaces the one held when its revision is greater.\<close>

definition keep_newer :: "(js \<Rightarrow> js \<Rightarrow> bool) \<Rightarrow> js \<Rightarrow> (string, js) jsmap \<Rightarrow> (string, js) jsmap" where
  "keep_newer gt stored perSource =
    (let key = recordKey (field stored ''recordClass'') (field stored ''recordId'') in
     case mget perSource key of
       None \<Rightarrow> mset_at key stored perSource
     | Some previous \<Rightarrow> if number_greater gt (field stored ''recordRevision'') (field previous ''recordRevision'')
                        then mset_at key stored perSource else perSource)"

definition append_new :: "(js \<Rightarrow> js \<Rightarrow> bool) \<Rightarrow> string \<Rightarrow> string \<Rightarrow> mirror_source \<Rightarrow> js \<Rightarrow> mirror \<Rightarrow> mirror" where
  "append_new gt workspace source st envelope m =
    (let stored = json_clone envelope;
         workspaceRecords = map_or_new (mr_recordsByWorkspace m) workspace;
         perSource = keep_newer gt stored (map_or_new workspaceRecords source)
     in m\<lparr>mr_sources := mset_at (sourceKey workspace source) (store_envelope stored st) (mr_sources m),
          mr_recordsByWorkspace := mset_at workspace (mset_at source perSource workspaceRecords) (mr_recordsByWorkspace m)\<rparr>)"

definition append_one :: "(js \<Rightarrow> js \<Rightarrow> bool) \<Rightarrow> string \<Rightarrow> string \<Rightarrow> js \<Rightarrow> (mirror, mirror_ack) act" where
  "append_one gt workspace source envelope m =
    bindS (liftS (requireSource m workspace source)) (\<lambda>st.
    bindS (liftS (envelope_shape (mr_allowedRecordClasses m) workspace source envelope)) (\<lambda>_.
    case envelope_get (ms_envelopesById st) (field envelope ''id'') of
      Some existing \<Rightarrow>
        if field existing ''envelopeDigest'' \<noteq> field envelope ''envelopeDigest'' then throwS (Error ''envelope_id_digest_conflict'')
        else returnS \<lparr>ma_cursor = field existing ''cursor'', ma_envelopeDigest = field existing ''envelopeDigest'',
               ma_state = ''duplicate'', ma_reasonCode = ''exact_duplicate''\<rparr>
    | None \<Rightarrow>
        bindS (liftS (envelope_follows gt st envelope)) (\<lambda>_.
        bindS (modifyS (append_new gt workspace source st envelope)) (\<lambda>_.
        returnS \<lparr>ma_cursor = field (json_clone envelope) ''cursor'', ma_envelopeDigest = field (json_clone envelope) ''envelopeDigest'',
               ma_state = ''accepted'', ma_reasonCode = ''append_current''\<rparr>)))) m"

fun append_each :: "(js \<Rightarrow> js \<Rightarrow> bool) \<Rightarrow> string \<Rightarrow> string \<Rightarrow> js list \<Rightarrow> (mirror, mirror_ack list) act" where
  "append_each gt workspace source [] = returnS []"
| "append_each gt workspace source (e # es) =
     bindS (append_one gt workspace source e) (\<lambda>a.
     bindS (append_each gt workspace source es) (\<lambda>as. returnS (a # as)))"

record mirror_result =
  mx_workspaceId :: string
  mx_sourceInstanceId :: string
  mx_lastCursor :: int
  mx_lastEnvelopeDigest :: "string option"
  mx_acks :: "mirror_ack list"

definition source_result :: "string \<Rightarrow> string \<Rightarrow> mirror_source \<Rightarrow> mirror_ack list \<Rightarrow> mirror_result" where
  "source_result w s st acks = \<lparr>mx_workspaceId = w, mx_sourceInstanceId = s, mx_lastCursor = ms_lastCursor st,
     mx_lastEnvelopeDigest = ms_lastEnvelopeDigest st, mx_acks = acks\<rparr>"

definition appendEnvelopes :: "(js \<Rightarrow> js \<Rightarrow> bool) \<Rightarrow> js \<Rightarrow> js \<Rightarrow> js \<Rightarrow> (mirror, mirror_result) act" where
  "appendEnvelopes gt workspaceId sourceInstanceId envelopes =
    bindS (liftS (assertSafeIdentifier workspaceId ''workspace id'')) (\<lambda>workspace.
    bindS (liftS (assertSafeIdentifier sourceInstanceId ''source instance id'')) (\<lambda>source.
    bindS (liftS (case envelopes of JArr (v # vs) \<Rightarrow> Inr (v # vs) | _ \<Rightarrow> Inl (Error ''invalid_envelopes''))) (\<lambda>es.
    bindS (readS (\<lambda>m. requireSource m workspace source)) (\<lambda>st.
    bindS (liftS st) (\<lambda>_.
    bindS (append_each gt workspace source es) (\<lambda>acks.
    bindS (readS (\<lambda>m. requireSource m workspace source)) (\<lambda>st.
    bindS (liftS st) (\<lambda>st. returnS (source_result workspace source st acks)))))))))"

definition readCursor :: "mirror \<Rightarrow> js \<Rightarrow> js \<Rightarrow> mirror_result res" where
  "readCursor m workspaceId sourceInstanceId =
    bindE (requireSource m (to_string workspaceId) (to_string sourceInstanceId)) (\<lambda>st.
    Inr (source_result (ms_workspaceId st) (ms_sourceInstanceId st) st []))"

definition mirror_view :: "js \<Rightarrow> js" where
  "mirror_view e = JObj (map (\<lambda>k. (k, field e k)) [''workspaceId'', ''sourceInstanceId'', ''cursor'', ''recordClass'', ''recordId'',
     ''recordRevision'', ''payload'', ''payloadDigest'', ''envelopeDigest'', ''createdAt''])"

definition readMirror :: "(js \<Rightarrow> js \<Rightarrow> bool) \<Rightarrow> mirror \<Rightarrow> js \<Rightarrow> js \<Rightarrow> (string \<times> int \<times> (string \<times> int \<times> js list) list) res" where
  "readMirror gt m workspaceId sinceCursor =
    bindE (assertSafeIdentifier workspaceId ''workspace id'') (\<lambda>workspace.
    case to_integer (if sinceCursor = JUndef then JNum 0 else sinceCursor) of
      None \<Rightarrow> Inl (Error ''invalid_since_cursor'')
    | Some cursor \<Rightarrow> if cursor < 0 then Inl (Error ''invalid_since_cursor'')
        else Inr (workspace, cursor, map (\<lambda>(source, records).
          (source, (case mget (mr_sources m) (sourceKey workspace source) of None \<Rightarrow> 0 | Some st \<Rightarrow> ms_lastCursor st),
           map mirror_view (filter (\<lambda>e. number_greater gt (field e ''cursor'') (JNum cursor)) (mvalues records))))
          (map_or_new (mr_recordsByWorkspace m) workspace)))"

end
