(* ===== verification/SyncLog.thy ===== *)
theory SyncLog
  imports SyncMirror
begin

text \<open>
  What the envelopes of a source amount to: a cursor that is only moved by \<open>advanceSyncCursor\<close>
  and \<open>acknowledgeCursor\<close> describes a gapless chain of envelopes, and the mirror's inline
  checks are those of \<open>classifyEnvelopeAppend\<close>.
\<close>

subsection \<open>The cursor and its log\<close>

definition sync_dig :: "sync_envelope \<Rightarrow> string" where
  "sync_dig e = trim_js (se_envelopeDigest e)"

definition sync_accepts :: "string \<Rightarrow> string \<Rightarrow> int \<Rightarrow> string option \<Rightarrow> sync_envelope \<Rightarrow> bool" where
  "sync_accepts w s n d e = (case classifyEnvelopeAppend w s n d None e of Inr v \<Rightarrow> av_state v = ''accepted'' | _ \<Rightarrow> False)"

lemma sync_accepts_iff: "sync_accepts w s n d e \<longleftrightarrow> se_workspaceId e = w \<and> se_sourceInstanceId e = s \<and>
    se_cursor e = n + 1 \<and> se_previousEnvelopeDigest e = (if n = 0 then None else d)"
  by (auto simp: sync_accepts_def classifyEnvelopeAppend_def verdict_def Let_def)

interpretation sync_chain: chained_log se_cursor se_previousEnvelopeDigest sync_dig "sync_accepts w s" for w s
  by unfold_locales (auto simp: sync_accepts_iff)

lemma optionalText_Inr: "optionalText (js_opt d) l n = Inr r \<Longrightarrow> r = map_option trim_js d"
  by (auto simp: optionalText_def js_opt_def split: option.splits)

lemma createSyncCursor_Inr:
  assumes "createSyncCursor legacy now (cursor_obj c p a d st u) = Inr c'"
  shows "sy_workspaceId c' = sy_workspaceId c \<and> sy_sourceInstanceId c' = sy_sourceInstanceId c \<and> sy_lastProducedCursor c' = p \<and>
    sy_lastAcknowledgedCursor c' = a \<and> 0 \<le> a \<and> a \<le> p \<and> sy_lastEnvelopeDigest c' = map_option trim_js d \<and> (p = 0 \<longrightarrow> d = None)"
proof -
  have f: "field (cursor_obj c p a d st u) ''lastProducedCursor'' = JNum p"
    "field (cursor_obj c p a d st u) ''lastAcknowledgedCursor'' = JNum a"
    "field (cursor_obj c p a d st u) ''lastEnvelopeDigest'' = js_opt d"
    "fieldE (cursor_obj c p a d st u) ''workspaceId'' = Inr (JStr (sy_workspaceId c))"
    "field (cursor_obj c p a d st u) ''sourceInstanceId'' = JStr (sy_sourceInstanceId c)"
    by (simp_all add: cursor_obj_def fieldE_def)
  obtain l where l: "optionalText (js_opt d) ''lastEnvelopeDigest'' 100 = Inr l" "p = 0 \<longrightarrow> l = None"
    using assms unfolding createSyncCursor_def Let_def f by (auto simp: positiveInteger_Inr coalesce_def)
  have "l = map_option trim_js d" using optionalText_Inr[OF l(1)] .
  with assms l show ?thesis
    unfolding createSyncCursor_def Let_def f by (auto simp: positiveInteger_Inr coalesce_def)
qed

datatype cursor_op = Advance sync_envelope bool js | Acknowledge sync_envelope string js

definition cursor_op_result :: "(string \<Rightarrow> int option) \<Rightarrow> string \<Rightarrow> cursor_op \<Rightarrow> sync_cursor \<Rightarrow> sync_cursor res" where
  "cursor_op_result legacy now op c = (case op of
      Advance e acknowledged observedAt \<Rightarrow> advanceSyncCursor legacy now c e acknowledged observedAt
    | Acknowledge e state observedAt \<Rightarrow> acknowledgeCursor legacy now c e state observedAt)"

text \<open>A history of calls, with the envelopes that were advanced over; a call that throws changes nothing.\<close>

fun cursor_run :: "(string \<Rightarrow> int option) \<Rightarrow> (string \<times> cursor_op) list \<Rightarrow> sync_cursor \<times> sync_envelope list \<Rightarrow> sync_cursor \<times> sync_envelope list" where
  "cursor_run legacy [] s = s"
| "cursor_run legacy ((now, op) # ops) (c, log) = (case cursor_op_result legacy now op c of
      Inl _ \<Rightarrow> cursor_run legacy ops (c, log)
    | Inr c' \<Rightarrow> cursor_run legacy ops (c', (case op of Advance e _ _ \<Rightarrow> log @ [e] | _ \<Rightarrow> log)))"

definition cursor_inv :: "sync_cursor \<Rightarrow> sync_envelope list \<Rightarrow> bool" where
  "cursor_inv c log \<longleftrightarrow> chain_ok se_cursor se_previousEnvelopeDigest sync_dig 0 None log \<and>
     (\<forall>e \<in> set log. se_workspaceId e = sy_workspaceId c \<and> se_sourceInstanceId e = sy_sourceInstanceId c) \<and>
     sy_lastProducedCursor c = int (length log) \<and> sy_lastEnvelopeDigest c = last_digest sync_dig None log \<and>
     0 \<le> sy_lastAcknowledgedCursor c \<and> sy_lastAcknowledgedCursor c \<le> sy_lastProducedCursor c"

lemma advance_inv:
  assumes "advanceSyncCursor legacy now c e ack at = Inr c'" "cursor_inv c log"
  shows "cursor_inv c' (log @ [e]) \<and> sy_lastAcknowledgedCursor c \<le> sy_lastAcknowledgedCursor c' \<and>
    sy_workspaceId c' = sy_workspaceId c \<and> sy_sourceInstanceId c' = sy_sourceInstanceId c"
proof -
  have acc: "sync_accepts (sy_workspaceId c) (sy_sourceInstanceId c) (int (length log)) (last_digest sync_dig None log) e"
    using assms by (auto simp: advanceSyncCursor_def sync_accepts_def cursor_inv_def)
  note fields = acc[unfolded sync_accepts_iff]
  have new: "createSyncCursor legacy now (cursor_obj c (se_cursor e) (if ack then se_cursor e else sy_lastAcknowledgedCursor c)
      (Some (se_envelopeDigest e)) ''current'' (or_js at (JStr now))) = Inr c'"
    using assms(1) by (auto simp: advanceSyncCursor_def)
  have chain: "chain_ok se_cursor se_previousEnvelopeDigest sync_dig 0 None (log @ [e])"
    by (rule sync_chain.append_step[OF _ acc]) (use assms(2) in \<open>simp add: cursor_inv_def\<close>)
  from createSyncCursor_Inr[OF new] fields assms(2) chain show ?thesis
    by (auto simp: cursor_inv_def last_digest_def sync_dig_def)
qed

lemma trim_last_digest [simp]: "map_option trim_js (last_digest sync_dig None log) = last_digest sync_dig None log"
  by (simp add: last_digest_def sync_dig_def)

lemma acknowledge_inv:
  assumes "acknowledgeCursor legacy now c e st at = Inr c'" "cursor_inv c log"
  shows "cursor_inv c' log \<and> sy_lastAcknowledgedCursor c \<le> sy_lastAcknowledgedCursor c' \<and>
    sy_workspaceId c' = sy_workspaceId c \<and> sy_sourceInstanceId c' = sy_sourceInstanceId c"
proof -
  have new: "createSyncCursor legacy now (cursor_obj c (sy_lastProducedCursor c) (se_cursor e) (sy_lastEnvelopeDigest c)
      (sy_status c) (or_js at (JStr now))) = Inr c'" and g: "sy_lastAcknowledgedCursor c \<le> se_cursor e"
    using assms(1) by (auto simp: acknowledgeCursor_def)
  from createSyncCursor_Inr[OF new] g assms(2) show ?thesis by (auto simp: cursor_inv_def)
qed

lemma op_inv:
  assumes "cursor_op_result legacy now op c = Inr c'" "cursor_inv c log"
  shows "cursor_inv c' (case op of Advance e _ _ \<Rightarrow> log @ [e] | _ \<Rightarrow> log) \<and> sy_lastAcknowledgedCursor c \<le> sy_lastAcknowledgedCursor c' \<and>
    sy_workspaceId c' = sy_workspaceId c \<and> sy_sourceInstanceId c' = sy_sourceInstanceId c"
proof (cases op)
  case (Advance e ack at)
  with assms have "advanceSyncCursor legacy now c e ack at = Inr c'" by (simp add: cursor_op_result_def)
  from advance_inv[OF this assms(2)] Advance show ?thesis by simp
next
  case (Acknowledge e st at)
  with assms have "acknowledgeCursor legacy now c e st at = Inr c'" by (simp add: cursor_op_result_def)
  from acknowledge_inv[OF this assms(2)] Acknowledge show ?thesis by simp
qed

lemma run_inv:
  "cursor_run legacy ops (c, log) = (c', log') \<Longrightarrow> cursor_inv c log \<Longrightarrow>
     cursor_inv c' log' \<and> sy_lastAcknowledgedCursor c \<le> sy_lastAcknowledgedCursor c' \<and>
     sy_workspaceId c' = sy_workspaceId c \<and> sy_sourceInstanceId c' = sy_sourceInstanceId c \<and> (\<exists>es. log' = log @ es)"
proof (induction ops arbitrary: c log)
  case (Cons o1 ops)
  obtain now op where o: "o1 = (now, op)" by fastforce
  show ?case
  proof (cases "cursor_op_result legacy now op c")
    case (Inl x)
    with Cons.prems Cons.IH o show ?thesis by simp
  next
    case (Inr c1)
    let ?log = "case op of Advance e _ _ \<Rightarrow> log @ [e] | _ \<Rightarrow> log"
    from op_inv[OF Inr Cons.prems(2)] have i: "cursor_inv c1 ?log" "sy_lastAcknowledgedCursor c \<le> sy_lastAcknowledgedCursor c1"
      "sy_workspaceId c1 = sy_workspaceId c" "sy_sourceInstanceId c1 = sy_sourceInstanceId c" by auto
    have "cursor_run legacy ops (c1, ?log) = (c', log')" using Cons.prems(1) Inr o by simp
    from Cons.IH[OF this i(1)] i show ?thesis by (auto split: cursor_op.splits)
  qed
qed simp

lemma sync_log_is_chained_clauses:
  assumes "createSyncCursor legacy now input = Inr c0" "sy_lastProducedCursor c0 = 0"
    and run: "cursor_run legacy ops (c0, []) = (c, log)"
  shows "sy_lastProducedCursor c = int (length log)"
    and "\<forall>i < length log. se_cursor (log ! i) = int i + 1 \<and>
       se_workspaceId (log ! i) = sy_workspaceId c0 \<and> se_sourceInstanceId (log ! i) = sy_sourceInstanceId c0 \<and>
       se_previousEnvelopeDigest (log ! i) = (if i = 0 then None else Some (trim_js (se_envelopeDigest (log ! (i - 1)))))"
    and "sy_lastEnvelopeDigest c = (if log = [] then None else Some (trim_js (se_envelopeDigest (last log))))"
    and "0 \<le> sy_lastAcknowledgedCursor c" "sy_lastAcknowledgedCursor c \<le> sy_lastProducedCursor c"
proof -
  have i0: "cursor_inv c0 []"
    using assms(1,2) unfolding createSyncCursor_def Let_def
    by (auto simp: cursor_inv_def last_digest_def positiveInteger_Inr)
  from run_inv[OF run i0] have i: "cursor_inv c log" and s: "sy_workspaceId c = sy_workspaceId c0" "sy_sourceInstanceId c = sy_sourceInstanceId c0" by auto
  have ch: "chain_ok se_cursor se_previousEnvelopeDigest sync_dig 0 None log" using i by (simp add: cursor_inv_def)
  show "sy_lastProducedCursor c = int (length log)" "0 \<le> sy_lastAcknowledgedCursor c"
    "sy_lastAcknowledgedCursor c \<le> sy_lastProducedCursor c"
    "sy_lastEnvelopeDigest c = (if log = [] then None else Some (trim_js (se_envelopeDigest (last log))))"
    using i by (simp_all add: cursor_inv_def last_digest_def sync_dig_def)
  show "\<forall>i < length log. se_cursor (log ! i) = int i + 1 \<and>
       se_workspaceId (log ! i) = sy_workspaceId c0 \<and> se_sourceInstanceId (log ! i) = sy_sourceInstanceId c0 \<and>
       se_previousEnvelopeDigest (log ! i) = (if i = 0 then None else Some (trim_js (se_envelopeDigest (log ! (i - 1)))))"
  proof (intro allI impI conjI)
    fix k assume k: "k < length log"
    show "se_cursor (log ! k) = int k + 1" using chain_ok_nth[OF ch k] by simp
    show "se_workspaceId (log ! k) = sy_workspaceId c0" "se_sourceInstanceId (log ! k) = sy_sourceInstanceId c0"
      using i s nth_mem[OF k] by (auto simp: cursor_inv_def)
    show "se_previousEnvelopeDigest (log ! k) = (if k = 0 then None else Some (trim_js (se_envelopeDigest (log ! (k - 1)))))"
    proof (cases k)
      case 0
      with k ch show ?thesis by (cases log) auto
    next
      case (Suc j)
      with chain_ok_prev[OF ch, of j] k show ?thesis by (simp add: sync_dig_def)
    qed
  qed
qed

text \<open>
  C29: A cursor that starts empty and is moved by any history of advances and
  acknowledgements (calls that throw change nothing) describes a gapless chain: the envelopes it was
  advanced over are numbered from 1, all belong to the cursor's workspace and source, each
  names the digest of its predecessor, the cursor holds their number and the last digest, and
  the acknowledged position lies between zero and the produced one.
\<close>

theorem sync_log_is_chained:
  assumes "createSyncCursor legacy now input = Inr c0" "sy_lastProducedCursor c0 = 0"
    and run: "cursor_run legacy ops (c0, []) = (c, log)"
  shows "sy_lastProducedCursor c = int (length log) \<and>
    (\<forall>i < length log. se_cursor (log ! i) = int i + 1 \<and>
       se_workspaceId (log ! i) = sy_workspaceId c0 \<and> se_sourceInstanceId (log ! i) = sy_sourceInstanceId c0 \<and>
       se_previousEnvelopeDigest (log ! i) = (if i = 0 then None else Some (trim_js (se_envelopeDigest (log ! (i - 1)))))) \<and>
    sy_lastEnvelopeDigest c = (if log = [] then None else Some (trim_js (se_envelopeDigest (last log)))) \<and>
    0 \<le> sy_lastAcknowledgedCursor c \<and> sy_lastAcknowledgedCursor c \<le> sy_lastProducedCursor c"
  using sync_log_is_chained_clauses[OF assms] by blast

definition sample_envelope :: "int \<Rightarrow> string option \<Rightarrow> string \<Rightarrow> sync_envelope" where
  "sample_envelope n p d = \<lparr>se_id = ''e'' @ int_to_string n, se_workspaceId = ''w'', se_sourceInstanceId = ''a'', se_cursor = n, se_schemaVersion = ''1'',
     se_recordClass = ''mission.summary'', se_recordId = ''b'', se_recordRevision = n, se_payload = JObj [], se_payloadDigest = ''sha256:0'',
     se_previousEnvelopeDigest = p, se_createdAt = ''2026-03-01T00:00:00.000Z'', se_envelopeDigest = d\<rparr>"

definition sample_cursor_input :: js where
  "sample_cursor_input = JObj [(''workspaceId'', JStr ''w''), (''sourceInstanceId'', JStr ''a''), (''updatedAt'', JStr ''2026-03-01T00:00:00.000Z'')]"

definition sample_cursor :: "int \<Rightarrow> int \<Rightarrow> string option \<Rightarrow> sync_cursor" where
  "sample_cursor p a d = \<lparr>sy_workspaceId = ''w'', sy_sourceInstanceId = ''a'', sy_lastProducedCursor = p, sy_lastAcknowledgedCursor = a,
     sy_lastEnvelopeDigest = d, sy_status = ''current'', sy_updatedAt = ''2026-03-01T00:00:00.000Z''\<rparr>"

lemma sample_digests: "requiredText (JStr ''sha256:1'') l 100 = Inr ''sha256:1''" "requiredText (JStr ''sha256:2'') l 100 = Inr ''sha256:2''"
  by (auto simp: requiredText_Inr trim_no_space is_space_def ccode_def)

lemma sample_cursor_created:
  "createSyncCursor (\<lambda>_. None) t sample_cursor_input = Inr (sample_cursor 0 0 None)"
  by (simp add: createSyncCursor_def sample_cursor_input_def sample_cursor_def or_js_def includes_str_def SYNC_CURSOR_STATES_def
      positiveInteger_def coalesce_def optionalText_def fieldE_def assertSafeIdentifier_def sample_ids sample_instants)

definition sample_ops :: "(string \<times> cursor_op) list" where
  "sample_ops = map (\<lambda>p. (''2026-03-01T00:00:00.000Z'', p))
     [Advance (sample_envelope 1 None ''sha256:1'') False JUndef, Advance (sample_envelope 3 None ''sha256:3'') False JUndef,
      Advance (sample_envelope 2 (Some ''sha256:1'') ''sha256:2'') False JUndef, Acknowledge (sample_envelope 1 None ''sha256:1'') ''accepted'' JUndef]"

lemma sample_cursor_run: "cursor_run (\<lambda>_. None) sample_ops (sample_cursor 0 0 None, []) =
    (sample_cursor 2 1 (Some ''sha256:2''), [sample_envelope 1 None ''sha256:1'', sample_envelope 2 (Some ''sha256:1'') ''sha256:2''])"
  by (simp add: sample_ops_def cursor_op_result_def advanceSyncCursor_def acknowledgeCursor_def classifyEnvelopeAppend_def verdict_def
      Let_def sample_cursor_def sample_envelope_def createSyncCursor_def cursor_obj_def or_js_def includes_str_def SYNC_CURSOR_STATES_def
      positiveInteger_def coalesce_def optionalText_def js_opt_def fieldE_def assertSafeIdentifier_def sample_ids sample_instants sample_digests
      del: requiredText_Inr bindE_eq_Inr)

theorem sync_log_is_chained_witness:
  "sy_lastProducedCursor (sample_cursor 2 1 (Some ''sha256:2'')) = 2 \<and> sy_lastAcknowledgedCursor (sample_cursor 2 1 (Some ''sha256:2'')) \<le> 2"
  using sync_log_is_chained[OF sample_cursor_created _ sample_cursor_run] by (simp add: sample_cursor_def)

subsection \<open>Payloads\<close>

lemma assertCollaborationPayload_iff: "assertCollaborationPayload rc p = Inr q \<longleftrightarrow>
    rc \<in> set RECORD_CLASSES \<and> clean 0 p \<and> utf8_length (stableStringify p) \<le> 65536 \<and> q = p"
  by (auto simp: assertCollaborationPayload_def safeClone_iff MAX_PAYLOAD_BYTES_def)

lemma created_envelope_is_clean_clauses:
  assumes "createSyncEnvelope sha legacy now input = Inr e"
  shows "se_payload e = field input ''payload''" "clean 0 (se_payload e)" "utf8_length (stableStringify (se_payload e)) \<le> 65536"
    and "se_recordClass e \<in> set RECORD_CLASSES" "list_all SAFE_IDENTIFIER [se_id e, se_workspaceId e, se_sourceInstanceId e, se_recordId e]"
    and "1 \<le> se_recordRevision e" "1 \<le> se_cursor e" "se_previousEnvelopeDigest e = None \<longleftrightarrow> se_cursor e = 1"
    and "se_payloadDigest e = digest sha (field input ''payload'')"
    and "rc \<in> set RECORD_CLASSES \<Longrightarrow> (\<exists>er. assertCollaborationPayload rc p = Inl er) \<longleftrightarrow> \<not> clean 0 p \<or> 65536 < utf8_length (stableStringify p)"
proof -
  obtain cursor previous where c: "positiveInteger (field input ''cursor'') ''SyncEnvelope cursor'' False = Inr cursor"
      "optionalText (field input ''previousEnvelopeDigest'') ''previousEnvelopeDigest'' 100 = Inr previous"
      "\<not> (cursor = 1 \<and> previous \<noteq> None)" "\<not> (cursor > 1 \<and> previous = None)"
      "se_cursor e = cursor" "se_previousEnvelopeDigest e = previous"
    and p: "assertCollaborationPayload (se_recordClass e) (field input ''payload'') = Inr (se_payload e)"
    and ids: "SAFE_IDENTIFIER (se_id e)" "SAFE_IDENTIFIER (se_workspaceId e)" "SAFE_IDENTIFIER (se_sourceInstanceId e)" "SAFE_IDENTIFIER (se_recordId e)"
    and r: "positiveInteger (coalesce (field input ''recordRevision'') (JNum 1)) ''sync record revision'' False = Inr (se_recordRevision e)"
    and d: "se_payloadDigest e = digest sha (se_payload e)"
    using assms unfolding createSyncEnvelope_def Let_def by (auto simp del: requiredText_Inr)
  note pp = p[unfolded assertCollaborationPayload_iff]
  from pp show "se_payload e = field input ''payload''" "clean 0 (se_payload e)" "utf8_length (stableStringify (se_payload e)) \<le> 65536"
    "se_recordClass e \<in> set RECORD_CLASSES" by auto
  from ids show "list_all SAFE_IDENTIFIER [se_id e, se_workspaceId e, se_sourceInstanceId e, se_recordId e]" by simp
  from r show "1 \<le> se_recordRevision e" by (simp add: positiveInteger_Inr)
  from c show "1 \<le> se_cursor e" "se_previousEnvelopeDigest e = None \<longleftrightarrow> se_cursor e = 1" by (auto simp: positiveInteger_Inr)
  from d pp show "se_payloadDigest e = digest sha (field input ''payload'')" by simp
  show "(\<exists>er. assertCollaborationPayload rc p = Inl er) \<longleftrightarrow> \<not> clean 0 p \<or> 65536 < utf8_length (stableStringify p)" if "rc \<in> set RECORD_CLASSES"
  proof (cases "assertCollaborationPayload rc p")
    case (Inl er)
    with that assertCollaborationPayload_iff[of rc p p] show ?thesis by auto
  next
    case (Inr q)
    with assertCollaborationPayload_iff[of rc p q] show ?thesis by simp
  qed
qed

text \<open>
  C30: An envelope that was created is well typed: its payload is the input's payload and
  clean (no part deeper than eight levels, no array above 256 or object above 128 entries, no
  string that is long or looks like a credential, no forbidden key at any depth, no undefined
  or non-finite value), it serialises to at most 64 KiB, its record class is a known one, its
  identifiers are safe, its revision is positive, and only the first envelope has no predecessor.
  A payload of a known class is refused exactly when it is not clean or too large.
\<close>

theorem created_envelope_is_clean:
  assumes "createSyncEnvelope sha legacy now input = Inr e"
  shows "se_payload e = field input ''payload'' \<and> clean 0 (se_payload e) \<and> utf8_length (stableStringify (se_payload e)) \<le> 65536 \<and>
    se_recordClass e \<in> set RECORD_CLASSES \<and> list_all SAFE_IDENTIFIER [se_id e, se_workspaceId e, se_sourceInstanceId e, se_recordId e] \<and>
    1 \<le> se_recordRevision e \<and> 1 \<le> se_cursor e \<and> (se_previousEnvelopeDigest e = None \<longleftrightarrow> se_cursor e = 1) \<and>
    se_payloadDigest e = digest sha (field input ''payload'') \<and>
    (rc \<in> set RECORD_CLASSES \<longrightarrow>
      (\<exists>er. assertCollaborationPayload rc p = Inl er) = (\<not> clean 0 p \<or> 65536 < utf8_length (stableStringify p)))"
  using created_envelope_is_clean_clauses[OF assms] by (intro conjI impI) assumption+

definition sample_sync_input :: js where
  "sample_sync_input = JObj [(''id'', JStr ''e1''), (''workspaceId'', JStr ''w''), (''sourceInstanceId'', JStr ''a''), (''cursor'', JNum 1),
     (''recordClass'', JStr ''mission.summary''), (''recordId'', JStr ''b''), (''payload'', JObj [(''title'', JStr ''ok'')]),
     (''createdAt'', JStr ''2026-03-01T00:00:00.000Z'')]"

lemma sample_sync_created: "\<exists>e. createSyncEnvelope (\<lambda>_. ''0'') (\<lambda>_. None) t sample_sync_input = Inr e"
proof -
  have p: "assertCollaborationPayload ''mission.summary'' (JObj [(''title'', JStr ''ok'')]) = Inr (JObj [(''title'', JStr ''ok'')])"
  proof -
    have "clean 0 (JObj [(''title'', JStr ''ok'')])"
      unfolding clean_obj by (simp add: clean_atom) code_simp
    moreover have "utf8_length (stableStringify (JObj [(''title'', JStr ''ok'')])) = 14"
      by (simp add: stableStringify_def mk_obj_def index_key_def is_digit_def quote_def escape_char_def ccode_def utf8_length_def sort_key_def)
    ultimately show ?thesis by (simp add: assertCollaborationPayload_iff RECORD_CLASSES_def)
  qed
  have s: "SAFE_IDENTIFIER ''e1''" "requiredText (JStr ''mission.summary'') ''recordClass'' 80 = Inr ''mission.summary''"
    "requiredText (JStr ''1'') ''sync schema version'' 40 = Inr ''1''"
    by code_simp+
  show ?thesis
    by (simp add: createSyncEnvelope_def sample_sync_input_def positiveInteger_def optionalText_def coalesce_def or_js_def
        assertSafeIdentifier_def sample_ids sample_instants p s Let_def del: requiredText_Inr bindE_eq_Inr)
qed

theorem created_envelope_is_clean_witness:
  "\<exists>e. createSyncEnvelope (\<lambda>_. ''0'') (\<lambda>_. None) ''t'' sample_sync_input = Inr e \<and> clean 0 (se_payload e) \<and>
     se_payload e = JObj [(''title'', JStr ''ok'')]"
proof -
  obtain e where e: "createSyncEnvelope (\<lambda>_. ''0'') (\<lambda>_. None) ''t'' sample_sync_input = Inr e" using sample_sync_created by blast
  from conjunct1[OF created_envelope_is_clean[OF e]] conjunct1[OF conjunct2[OF created_envelope_is_clean[OF e]]] e show ?thesis by (simp add: sample_sync_input_def)
qed

subsection \<open>The mirror against the classifier\<close>

definition envelope_js :: "sync_envelope \<Rightarrow> js" where
  "envelope_js e = JObj (envelope_base e @ [(''envelopeDigest'', JStr (se_envelopeDigest e))])"

lemma clean_json_value: "clean d v \<Longrightarrow> json_value v"
proof (induction v arbitrary: d rule: json_value.induct)
  case (3 vs)
  then show ?case by (auto simp: clean_arr list_all_iff)
next
  case (4 kvs)
  then show ?case by (auto simp: clean_obj list_all_iff)
qed (auto simp: clean_atom)

lemma envelope_js_value: "json_value (se_payload e) \<Longrightarrow> json_clone (envelope_js e) = envelope_js e"
  by (rule json_clone_id) (simp add: envelope_js_def envelope_base_def js_opt_def split: option.splits)

lemma envelope_js_fields [simp]:
  "plain_object (envelope_js e)" "field (envelope_js e) ''id'' = JStr (se_id e)"
  "field (envelope_js e) ''workspaceId'' = JStr (se_workspaceId e)" "field (envelope_js e) ''sourceInstanceId'' = JStr (se_sourceInstanceId e)"
  "field (envelope_js e) ''cursor'' = JNum (se_cursor e)" "field (envelope_js e) ''recordClass'' = JStr (se_recordClass e)"
  "field (envelope_js e) ''envelopeDigest'' = JStr (se_envelopeDigest e)"
  "field (envelope_js e) ''previousEnvelopeDigest'' = js_opt (se_previousEnvelopeDigest e)"
  by (simp_all add: envelope_js_def envelope_base_def)

lemma js_opt_inject [simp]: "js_opt a = js_opt b \<longleftrightarrow> a = b" "nullish (js_opt a) \<longleftrightarrow> a = None"
  by (auto simp: js_opt_def split: option.splits)

lemma envelope_shape_js: "envelope_shape allowed w s (envelope_js e) =
    (if se_workspaceId e \<noteq> w then Inl (Error ''cross_workspace'') else if se_sourceInstanceId e \<noteq> s then Inl (Error ''unknown_source'')
     else if se_recordClass e \<notin> set allowed then Inl (Error ''unsupported_record_class'')
     else if starts_with ''sha256:'' (se_envelopeDigest e) then Inr () else Inl (Error ''invalid_envelope_digest''))"
  by (simp add: envelope_shape_def includes_str_def)

lemma follows_classified: "envelope_follows gt st (envelope_js e) =
    (let v = classifyEnvelopeAppend (se_workspaceId e) (se_sourceInstanceId e) (ms_lastCursor st) (ms_lastEnvelopeDigest st) None e
     in case v of Inr v \<Rightarrow> if av_state v = ''accepted'' then Inr () else Inl (Error (av_reasonCode v)) | Inl x \<Rightarrow> Inl x)"
  by (auto simp: envelope_follows_def classifyEnvelopeAppend_def number_greater_def verdict_def Let_def)

text \<open>
  C31: The mirror decides about an envelope exactly as the classifier does: given what it
  holds for the source, it acknowledges what the classifier accepts or finds to be a duplicate,
  with the classifier's state and reason, and otherwise throws the classifier's reason; only an accepted
  envelope changes the mirror, which then holds it under its id with its cursor and digest as
  the end of the log.
\<close>

theorem mirror_agrees_with_classifier:
  assumes src: "mget (mr_sources m) (sourceKey w s) = Some st"
    and ok: "se_recordClass e \<in> set (mr_allowedRecordClasses m)" "starts_with ''sha256:'' (se_envelopeDigest e)" "clean 0 (se_payload e)"
    and old: "mget (ms_envelopesById st) (JStr (se_id e)) = map_option envelope_js x" "\<And>y. x = Some y \<Longrightarrow> se_id y = se_id e"
  shows "\<exists>v. classifyEnvelopeAppend w s (ms_lastCursor st) (ms_lastEnvelopeDigest st) x e = Inr v \<and>
     map_sum id (\<lambda>a. (ma_state a, ma_reasonCode a, ma_envelopeDigest a)) (snd (append_one gt w s (envelope_js e) m)) =
       (if av_state v \<in> {''accepted'', ''duplicate''} then Inr (av_state v, av_reasonCode v, JStr (se_envelopeDigest e))
        else Inl (Error (av_reasonCode v))) \<and>
     (if av_state v = ''accepted''
      then \<exists>st'. mget (mr_sources (fst (append_one gt w s (envelope_js e) m))) (sourceKey w s) = Some st' \<and>
        ms_lastCursor st' = ms_lastCursor st + 1 \<and> ms_lastEnvelopeDigest st' = Some (se_envelopeDigest e) \<and>
        mget (ms_envelopesById st') (JStr (se_id e)) = Some (envelope_js e)
      else fst (append_one gt w s (envelope_js e) m) = m)"
proof (cases "se_workspaceId e = w \<and> se_sourceInstanceId e = s")
  case False
  then show ?thesis
    by (auto simp: append_one_def src requireSource_def envelope_shape_js classifyEnvelopeAppend_def verdict_def)
next
  case True
  note scope = this
  have shape: "envelope_shape (mr_allowedRecordClasses m) w s (envelope_js e) = Inr ()" using ok True by (simp add: envelope_shape_js)
  have clone: "json_clone (envelope_js e) = envelope_js e" using envelope_js_value[OF clean_json_value[OF ok(3)]] .
  show ?thesis
  proof (cases x)
    case (Some y)
    have g: "mget (ms_envelopesById st) (JStr (se_id e)) = Some (envelope_js y)" "se_id y = se_id e"
      using old(1) old(2)[OF Some] Some by simp_all
    have one: "append_one gt w s (envelope_js e) m = (if se_envelopeDigest y \<noteq> se_envelopeDigest e then throwS (Error ''envelope_id_digest_conflict'')
        else returnS \<lparr>ma_cursor = JNum (se_cursor y), ma_envelopeDigest = JStr (se_envelopeDigest y),
               ma_state = ''duplicate'', ma_reasonCode = ''exact_duplicate''\<rparr>) m"
      by (simp add: append_one_def src requireSource_def shape envelope_get_def g)
    show ?thesis
      by (cases "se_envelopeDigest y = se_envelopeDigest e")
        (simp_all add: one Some classifyEnvelopeAppend_def verdict_def scope g)
  next
    case None
    with old have n: "mget (ms_envelopesById st) (JStr (se_id e)) = None" by simp
    have "\<exists>v. classifyEnvelopeAppend w s (ms_lastCursor st) (ms_lastEnvelopeDigest st) None e = Inr v"
      using scope by (simp add: classifyEnvelopeAppend_def Let_def)
    then obtain v where v: "classifyEnvelopeAppend w s (ms_lastCursor st) (ms_lastEnvelopeDigest st) None e = Inr v" by blast
    have f: "envelope_follows gt st (envelope_js e) = (if av_state v = ''accepted'' then Inr () else Inl (Error (av_reasonCode v)))"
      using follows_classified[of gt st e] v True by simp
    have a: "av_state v = ''accepted'' \<Longrightarrow> av_reasonCode v = ''append_current'' \<and> se_cursor e = ms_lastCursor st + 1"
      "av_state v \<noteq> ''duplicate''"
      using v True by (auto simp: classifyEnvelopeAppend_def verdict_def Let_def split: if_splits)
    show ?thesis
    proof (cases "av_state v = ''accepted''")
      case True
      with a v None show ?thesis
        by (simp add: append_one_def src requireSource_def shape envelope_get_def n f clone append_new_def Let_def store_envelope_def envelope_put_def)
    next
      case False
      with a(2) v None show ?thesis by (simp add: append_one_def src requireSource_def shape envelope_get_def n f)
    qed
  qed
qed

definition sample_mirror :: mirror where
  "sample_mirror = fst (appendEnvelopes (\<lambda>_ _. False) (JStr ''w'') (JStr ''a'') (JArr [envelope_js (sample_envelope 1 None ''sha256:1'')])
     (fst (registerSource (JStr ''w'') (JStr ''a'') (mirror_init RECORD_CLASSES))))"

lemma sample_numerals: "int_to_string 1 = ''1''" "int_to_string 2 = ''2''"
  by code_simp+

lemma sample_mirror_source:
  "mget (mr_sources sample_mirror) (sourceKey ''w'' ''a'') = Some \<lparr>ms_workspaceId = ''w'', ms_sourceInstanceId = ''a'', ms_lastCursor = 1,
     ms_lastEnvelopeDigest = Some ''sha256:1'', ms_envelopesById = [(JStr ''e1'', envelope_js (sample_envelope 1 None ''sha256:1''))]\<rparr>"
  "mr_allowedRecordClasses sample_mirror = RECORD_CLASSES"
proof -
  let ?e = "sample_envelope 1 None ''sha256:1''"
  let ?m = "fst (registerSource (JStr ''w'') (JStr ''a'') (mirror_init RECORD_CLASSES))"
  have m: "?m = \<lparr>mr_allowedRecordClasses = RECORD_CLASSES, mr_sources = [(sourceKey ''w'' ''a'', \<lparr>ms_workspaceId = ''w'', ms_sourceInstanceId = ''a'',
      ms_lastCursor = 0, ms_lastEnvelopeDigest = None, ms_envelopesById = []\<rparr>)], mr_recordsByWorkspace = []\<rparr>"
    by (simp add: registerSource_def assertSafeIdentifier_def sample_ids mirror_init_def mset_at_def)
  have c: "json_clone (envelope_js ?e) = envelope_js ?e" by (rule envelope_js_value) (simp add: sample_envelope_def)
  have f: "se_id ?e = ''e1''" "se_cursor ?e = 1" "se_envelopeDigest ?e = ''sha256:1''" "se_previousEnvelopeDigest ?e = None"
    by (simp_all add: sample_envelope_def sample_numerals)
  have h: "envelope_shape RECORD_CLASSES ''w'' ''a'' (envelope_js ?e) = Inr ()"
    by (simp add: envelope_shape_js) (simp add: sample_envelope_def RECORD_CLASSES_def starts_with_def)
  have g: "mget [(sourceKey ''w'' ''a'', st)] (sourceKey ''w'' ''a'') = Some st" for st :: mirror_source by (simp add: mget_def)
  show "mget (mr_sources sample_mirror) (sourceKey ''w'' ''a'') = Some \<lparr>ms_workspaceId = ''w'', ms_sourceInstanceId = ''a'', ms_lastCursor = 1,
     ms_lastEnvelopeDigest = Some ''sha256:1'', ms_envelopesById = [(JStr ''e1'', envelope_js (sample_envelope 1 None ''sha256:1''))]\<rparr>"
    "mr_allowedRecordClasses sample_mirror = RECORD_CLASSES"
    by (simp_all add: sample_mirror_def appendEnvelopes_def m assertSafeIdentifier_def sample_ids requireSource_def g append_one_def h f c
        envelope_get_def envelope_follows_def append_new_def store_envelope_def envelope_put_def mset_at_def bindS_def Let_def)
qed

theorem mirror_agrees_with_classifier_witness:
  "\<exists>a. snd (append_one (\<lambda>_ _. False) ''w'' ''a'' (envelope_js (sample_envelope 2 (Some ''sha256:1'') ''sha256:2'')) sample_mirror) = Inr a \<and>
     ma_state a = ''accepted''"
proof -
  let ?e = "sample_envelope 2 (Some ''sha256:1'') ''sha256:2''"
  have ok: "se_recordClass ?e \<in> set (mr_allowedRecordClasses sample_mirror)" "starts_with ''sha256:'' (se_envelopeDigest ?e)" "clean 0 (se_payload ?e)"
    by (simp_all add: sample_mirror_source sample_envelope_def starts_with_def clean_obj RECORD_CLASSES_def)
  have n: "se_id ?e = ''e2''" by (simp add: sample_envelope_def sample_numerals)
  from mirror_agrees_with_classifier[OF sample_mirror_source(1) ok, of None "\<lambda>_ _. False"]
  obtain v where v: "classifyEnvelopeAppend ''w'' ''a'' 1 (Some ''sha256:1'') None ?e = Inr v"
    "map_sum id (\<lambda>a. (ma_state a, ma_reasonCode a, ma_envelopeDigest a)) (snd (append_one (\<lambda>_ _. False) ''w'' ''a'' (envelope_js ?e) sample_mirror)) =
       (if av_state v \<in> {''accepted'', ''duplicate''} then Inr (av_state v, av_reasonCode v, JStr (se_envelopeDigest ?e)) else Inl (Error (av_reasonCode v)))"
    by (auto simp: n mget_def)
  have "av_state v = ''accepted''" using v(1) by (auto simp: classifyEnvelopeAppend_def sample_envelope_def verdict_def)
  with v(2) show ?thesis
    by (cases "snd (append_one (\<lambda>_ _. False) ''w'' ''a'' (envelope_js ?e) sample_mirror)") auto
qed

end
