(* ===== verification/Collaboration.thy ===== *)
theory Collaboration
  imports SyncEnvelope
begin

text \<open>
  Team visibility (\<open>src/sync/collaboration/index.cjs\<close>): roles, memberships, the projection of a
  mirrored record to the fields a role may see, shared workspace snapshots and the presence of
  remote workers.  A membership is a typed record, \<open>None\<close> when missing; \<open>num\<close> is the
  host's \<open>Number\<close> on values that are no integers.
\<close>

definition TEAM_ROLES :: "string list" where
  "TEAM_ROLES = [''owner-view'', ''operator-view'', ''reviewer-view'', ''observer-view'']"

definition MEMBERSHIP_STATES :: "string list" where
  "MEMBERSHIP_STATES = [''active'', ''suspended'', ''revoked'']"

definition SYNC_STATES :: "string list" where
  "SYNC_STATES = [''disabled'', ''enabled'', ''paused'', ''current'', ''stale'', ''gap'', ''divergent'', ''unavailable'']"

definition ALL_CLASSES :: "string list" where
  "ALL_CLASSES = [''workspace.summary'', ''mission.summary'', ''plan-step.summary'', ''human-gate.summary'', ''scheduling.summary'',
     ''github-delivery.summary'', ''provider-observation.summary'', ''evidence.summary'', ''worker-presence.summary'']"

text \<open>\<open>TABLE[key] || []\<close> for the tables below; their keys are no names of inherited properties.\<close>

definition lookup_or_empty :: "(string \<times> string list) list \<Rightarrow> string \<Rightarrow> string list" where
  "lookup_or_empty tbl k = (case map_of tbl k of None \<Rightarrow> [] | Some v \<Rightarrow> v)"

definition ROLE_CLASSES :: "(string \<times> string list) list" where
  "ROLE_CLASSES = [(''owner-view'', ALL_CLASSES), (''operator-view'', ALL_CLASSES),
     (''reviewer-view'', [''workspace.summary'', ''mission.summary'', ''plan-step.summary'', ''human-gate.summary'',
        ''github-delivery.summary'', ''evidence.summary'', ''scheduling.summary'']),
     (''observer-view'', [''workspace.summary'', ''mission.summary'', ''scheduling.summary''])]"

definition FIELD_POLICY :: "(string \<times> string list) list" where
  "FIELD_POLICY =
    [(''workspace.summary'', [''id'', ''name'', ''status'', ''projectId'', ''updatedAt'']),
     (''mission.summary'', [''id'', ''title'', ''status'', ''revision'', ''runId'', ''updatedAt'']),
     (''plan-step.summary'', [''id'', ''missionId'', ''name'', ''state'', ''priority'', ''updatedAt'']),
     (''human-gate.summary'', [''id'', ''missionId'', ''stepId'', ''state'', ''reasonCode'', ''requestedAt'', ''updatedAt'']),
     (''scheduling.summary'', [''id'', ''policyId'', ''selectedCandidateId'', ''selectedWorkerPublicId'', ''reasonCodes'', ''inputDigest'', ''decisionDigest'', ''evaluatedAt'']),
     (''github-delivery.summary'', [''id'', ''repository'', ''pullRequestNumber'', ''headSha'', ''state'', ''gateState'', ''observedAt'']),
     (''provider-observation.summary'', [''id'', ''provider'', ''action'', ''state'', ''statusCode'', ''targetClass'', ''observedAt'', ''evidenceDigest'']),
     (''evidence.summary'', [''id'', ''type'', ''state'', ''digest'', ''observedAt'', ''sourceClass'']),
     (''worker-presence.summary'', [''workerPublicId'', ''workspaceId'', ''statusClass'', ''browserChannelClass'', ''role'', ''observedAt''])]"

definition OBSERVER_FIELDS :: "(string \<times> string list) list" where
  "OBSERVER_FIELDS =
    [(''workspace.summary'', [''id'', ''name'', ''status'', ''updatedAt'']),
     (''mission.summary'', [''id'', ''title'', ''status'', ''updatedAt'']),
     (''scheduling.summary'', [''id'', ''reasonCodes'', ''evaluatedAt''])]"

definition REVIEWER_FIELDS :: "(string \<times> string list) list" where
  "REVIEWER_FIELDS = map (\<lambda>c. (c, lookup_or_empty FIELD_POLICY c))
      [''workspace.summary'', ''mission.summary'', ''plan-step.summary'', ''human-gate.summary'', ''github-delivery.summary'', ''evidence.summary'']
    @ [(''scheduling.summary'', [''id'', ''policyId'', ''reasonCodes'', ''inputDigest'', ''decisionDigest'', ''evaluatedAt''])]"

text \<open>Both patterns ignore case.\<close>

definition AUTHORITY_SHAPED_KEY :: "string \<Rightarrow> bool" where
  "AUTHORITY_SHAPED_KEY k = (map ascii_lower k \<in> set [''approve'', ''approvedby'', ''reject'', ''rejectedby'', ''start'', ''stop'', ''pause'',
     ''resume'', ''retry'', ''execute'', ''command'', ''control'', ''providerwrite'', ''mutation'', ''capabilitygrant'', ''resourcerelease'', ''resourceacquire''])"

definition FORBIDDEN_MIRROR_KEY :: "string \<Rightarrow> bool" where
  "FORBIDDEN_MIRROR_KEY k = (map ascii_lower k \<in> set [''authorization'', ''cookie'', ''token'', ''secret'', ''password'', ''privatekey'', ''profilepath'',
     ''profiledir'', ''userdata'', ''userdatadir'', ''storagestate'', ''processid'', ''pid'', ''ppid'', ''debugendpoint'', ''controlhandle''])"

subsection \<open>Roles and memberships\<close>

record team_role =
  tr_id :: string
  tr_visibilityOnly :: bool
  tr_recordClasses :: "string list"

definition createTeamRole :: "js \<Rightarrow> team_role res" where
  "createTeamRole input =
    bindE (assertSafeIdentifier (field input ''id'') ''team role id'') (\<lambda>i.
    if i \<notin> set TEAM_ROLES then Inl (Error (''Unsupported TeamRole: '' @ i))
    else Inr \<lparr>tr_id = i, tr_visibilityOnly = True, tr_recordClasses = lookup_or_empty ROLE_CLASSES i\<rparr>)"

record membership =
  wm_id :: string
  wm_workspaceId :: string
  wm_subjectId :: string
  wm_teamRoleId :: string
  wm_status :: string
  wm_createdAt :: string

definition createWorkspaceMembership :: "(string \<Rightarrow> int option) \<Rightarrow> string \<Rightarrow> js \<Rightarrow> membership res" where
  "createWorkspaceMembership legacy now input =
    (let status = or_js (field input ''status'') (JStr ''active'') in
     if \<not> includes_str MEMBERSHIP_STATES status then Inl (Error ''Invalid WorkspaceMembership status'')
     else bindE (assertSafeIdentifier (field input ''teamRoleId'') ''team role id'') (\<lambda>role.
       if role \<notin> set TEAM_ROLES then Inl (Error (''Unsupported TeamRole: '' @ role))
       else bindE (assertSafeIdentifier (field input ''id'') ''workspace membership id'') (\<lambda>i.
       bindE (assertSafeIdentifier (field input ''workspaceId'') ''workspace id'') (\<lambda>w.
       bindE (assertSafeIdentifier (field input ''subjectId'') ''membership subject id'') (\<lambda>s.
       bindE (isoInstant legacy (or_js (field input ''createdAt'') (JStr now)) ''membership createdAt'') (\<lambda>c.
       Inr \<lparr>wm_id = i, wm_workspaceId = w, wm_subjectId = s, wm_teamRoleId = role, wm_status = to_string status, wm_createdAt = c\<rparr>))))))"

record access =
  ac_allowed :: bool
  ac_reasonCode :: string
  ac_teamRoleId :: "string option"

definition accessDecision :: "membership option \<Rightarrow> string \<Rightarrow> string \<Rightarrow> access" where
  "accessDecision membership workspaceId recordClass = (case membership of
      None \<Rightarrow> \<lparr>ac_allowed = False, ac_reasonCode = ''membership_missing'', ac_teamRoleId = None\<rparr>
    | Some m \<Rightarrow>
        if wm_workspaceId m \<noteq> workspaceId then \<lparr>ac_allowed = False, ac_reasonCode = ''cross_workspace_membership'', ac_teamRoleId = None\<rparr>
        else if wm_status m \<noteq> ''active'' then \<lparr>ac_allowed = False, ac_reasonCode = ''membership_'' @ wm_status m, ac_teamRoleId = None\<rparr>
        else if wm_teamRoleId m \<notin> set TEAM_ROLES then \<lparr>ac_allowed = False, ac_reasonCode = ''team_role_unknown'', ac_teamRoleId = None\<rparr>
        else if recordClass \<notin> set (lookup_or_empty ROLE_CLASSES (wm_teamRoleId m)) then \<lparr>ac_allowed = False, ac_reasonCode = ''record_class_hidden'', ac_teamRoleId = None\<rparr>
        else \<lparr>ac_allowed = True, ac_reasonCode = ''visible'', ac_teamRoleId = Some (wm_teamRoleId m)\<rparr>)"

definition fieldsForRole :: "string \<Rightarrow> string \<Rightarrow> string list" where
  "fieldsForRole teamRoleId recordClass =
    (if teamRoleId = ''observer-view'' then lookup_or_empty OBSERVER_FIELDS recordClass
     else if teamRoleId = ''reviewer-view'' then lookup_or_empty REVIEWER_FIELDS recordClass
     else lookup_or_empty FIELD_POLICY recordClass)"

subsection \<open>The projection\<close>

fun assertNoAuthorityShape :: "js \<Rightarrow> string \<Rightarrow> unit res"
and no_authority_items :: "nat \<Rightarrow> js list \<Rightarrow> string \<Rightarrow> unit res"
and no_authority_entries :: "(string \<times> js) list \<Rightarrow> string \<Rightarrow> unit res" where
  "assertNoAuthorityShape (JArr vs) trail = no_authority_items 0 vs trail"
| "assertNoAuthorityShape (JObj kvs) trail = no_authority_entries kvs trail"
| "assertNoAuthorityShape _ trail = Inr ()"
| "no_authority_items i [] trail = Inr ()"
| "no_authority_items i (v # vs) trail =
     bindE (assertNoAuthorityShape v (trail @ ''['' @ nat_digits i @ '']'')) (\<lambda>_. no_authority_items (Suc i) vs trail)"
| "no_authority_entries [] trail = Inr ()"
| "no_authority_entries ((k, v) # kvs) trail =
     (if AUTHORITY_SHAPED_KEY k then Inl (Error (''execution-authority-shaped mirror field '' @ trail @ ''.'' @ k))
      else if FORBIDDEN_MIRROR_KEY k then Inl (Error (''forbidden mirror field '' @ trail @ ''.'' @ k))
      else bindE (assertNoAuthorityShape v (trail @ ''.'' @ k)) (\<lambda>_. no_authority_entries kvs trail))"

definition pick_fields :: "string list \<Rightarrow> js \<Rightarrow> js" where
  "pick_fields fs payload = (case payload of
      JObj kvs \<Rightarrow> JObj (concat (map (\<lambda>f. case map_of kvs f of Some v \<Rightarrow> [(f, v)] | None \<Rightarrow> []) fs)) | _ \<Rightarrow> JObj [])"

record projection =
  pj_found :: bool
  pj_reasonCode :: string
  pj_recordClass :: string
  pj_payload :: js

definition projectRecordForMembership :: "membership option \<Rightarrow> string \<Rightarrow> string \<Rightarrow> js \<Rightarrow> projection res" where
  "projectRecordForMembership membership workspaceId recordClass payload =
    (let decision = accessDecision membership workspaceId recordClass in
     case membership of
       Some m \<Rightarrow>
         if \<not> ac_allowed decision
         then Inr \<lparr>pj_found = False, pj_reasonCode = ac_reasonCode decision, pj_recordClass = recordClass, pj_payload = JNull\<rparr>
         else if \<not> plain_object payload then Inl (TypeError ''mirror payload must be an object'')
         else bindE (assertNoAuthorityShape payload ''$'') (\<lambda>_.
           Inr \<lparr>pj_found = True, pj_reasonCode = ''visible'', pj_recordClass = recordClass,
             pj_payload = pick_fields (fieldsForRole (wm_teamRoleId m) recordClass) payload\<rparr>)
     | None \<Rightarrow> Inr \<lparr>pj_found = False, pj_reasonCode = ac_reasonCode decision, pj_recordClass = recordClass, pj_payload = JNull\<rparr>)"

subsection \<open>Snapshots and presence\<close>

definition number_of :: "(js \<Rightarrow> js) \<Rightarrow> js \<Rightarrow> js" where
  "number_of num v = (case to_integer v of Some n \<Rightarrow> JNum n | None \<Rightarrow> num v)"

record shared_record =
  sr_recordClass :: string
  sr_recordId :: string
  sr_recordRevision :: js
  sr_payload :: js

record shared_workspace =
  sw_found :: bool
  sw_workspaceId :: string
  sw_reasonCode :: string
  sw_remoteSourceInstanceId :: "string option"
  sw_syncCursor :: js
  sw_syncStatus :: "string option"
  sw_records :: "shared_record list"
  sw_observedAt :: "string option"

definition hidden_reason :: "membership option \<Rightarrow> string \<Rightarrow> string" where
  "hidden_reason membership workspaceId = (case membership of
      None \<Rightarrow> ''membership_missing''
    | Some m \<Rightarrow> if wm_workspaceId m \<noteq> workspaceId then ''cross_workspace_membership'' else ''membership_'' @ wm_status m)"

definition shared_record_of :: "(js \<Rightarrow> js) \<Rightarrow> membership option \<Rightarrow> string \<Rightarrow> js \<Rightarrow> shared_record option res" where
  "shared_record_of num membership workspaceId record =
    (if \<not> is_object record then Inl (TypeError ''SharedWorkspace record must be an object'')
     else bindE (requiredText (field record ''recordClass'') ''recordClass'' 80) (\<lambda>c.
       bindE (projectRecordForMembership membership workspaceId c (field record ''payload'')) (\<lambda>projected.
       if \<not> pj_found projected then Inr None
       else bindE (assertSafeIdentifier (field record ''recordId'') ''shared record id'') (\<lambda>i.
         Inr (Some \<lparr>sr_recordClass = pj_recordClass projected, sr_recordId = i,
           sr_recordRevision = number_of num (or_js (field record ''recordRevision'') (JNum 1)), sr_payload = pj_payload projected\<rparr>)))))"

definition visible_records :: "(js \<Rightarrow> js) \<Rightarrow> membership option \<Rightarrow> string \<Rightarrow> js list \<Rightarrow> shared_record list res" where
  "visible_records num membership workspaceId records =
    bindE (mapE (shared_record_of num membership workspaceId) records) (\<lambda>rs. Inr (List.map_filter id rs))"

definition createSharedWorkspaceSnapshot ::
  "(js \<Rightarrow> js) \<Rightarrow> (string \<Rightarrow> int option) \<Rightarrow> string \<Rightarrow> js \<Rightarrow> membership option \<Rightarrow> shared_workspace res" where
  "createSharedWorkspaceSnapshot num legacy now input membership =
    bindE (assertSafeIdentifier (field input ''workspaceId'') ''workspace id'') (\<lambda>workspaceId.
    if (case membership of None \<Rightarrow> True | Some m \<Rightarrow> wm_workspaceId m \<noteq> workspaceId \<or> wm_status m \<noteq> ''active'')
    then Inr \<lparr>sw_found = False, sw_workspaceId = workspaceId, sw_reasonCode = hidden_reason membership workspaceId,
           sw_remoteSourceInstanceId = None, sw_syncCursor = JNull, sw_syncStatus = None, sw_records = [], sw_observedAt = None\<rparr>
    else bindE (requiredText (field input ''syncStatus'') ''shared syncStatus'' 40) (\<lambda>syncStatus.
      if syncStatus \<notin> set SYNC_STATES then Inl (Error (''Invalid SharedWorkspace sync status: '' @ syncStatus))
      else bindE (as_array (field input ''records'') (TypeError ''SharedWorkspace records must be an array'')) (\<lambda>records.
      bindE (visible_records num membership workspaceId records) (\<lambda>visible.
      bindE (assertSafeIdentifier (field input ''remoteSourceInstanceId'') ''remote source instance id'') (\<lambda>remote.
      bindE (isoInstant legacy (or_js (field input ''observedAt'') (JStr now)) ''shared workspace observedAt'') (\<lambda>observed.
      Inr \<lparr>sw_found = True, sw_workspaceId = workspaceId, sw_reasonCode = ''visible'', sw_remoteSourceInstanceId = Some remote,
        sw_syncCursor = number_of num (or_js (field input ''syncCursor'') (JNum 0)), sw_syncStatus = Some syncStatus,
        sw_records = visible, sw_observedAt = Some observed\<rparr>))))))"

record worker_presence =
  wp_workerPublicId :: string
  wp_workspaceId :: string
  wp_statusClass :: string
  wp_browserChannelClass :: string
  wp_role :: string
  wp_observedAt :: string

definition createRemoteWorkerPresence :: "(string \<Rightarrow> int option) \<Rightarrow> string \<Rightarrow> js \<Rightarrow> worker_presence res" where
  "createRemoteWorkerPresence legacy now input =
    (if \<not> plain_object input then Inl (TypeError ''RemoteWorkerPresence input is required'')
     else bindE (assertNoAuthorityShape input ''$'') (\<lambda>_.
       bindE (requiredText (field input ''statusClass'') ''remote worker statusClass'' 40) (\<lambda>st.
       if st \<notin> {''available'', ''busy'', ''paused'', ''offline'', ''unknown''} then Inl (Error ''Invalid remote worker statusClass'')
       else bindE (requiredText (or_js (field input ''browserChannelClass'') (JStr ''unknown'')) ''remote worker browserChannelClass'' 40) (\<lambda>ch.
       if ch \<notin> {''chrome'', ''chromium'', ''unknown''} then Inl (Error ''Invalid remote worker browserChannelClass'')
       else bindE (assertSafeIdentifier (field input ''workerPublicId'') ''remote worker public id'') (\<lambda>i.
       bindE (assertSafeIdentifier (field input ''workspaceId'') ''workspace id'') (\<lambda>w.
       bindE (requiredText (or_js (field input ''role'') (JStr ''unknown'')) ''remote worker role'' 80) (\<lambda>r.
       bindE (isoInstant legacy (or_js (field input ''observedAt'') (JStr now)) ''remote worker observedAt'') (\<lambda>t.
       Inr \<lparr>wp_workerPublicId = i, wp_workspaceId = w, wp_statusClass = st, wp_browserChannelClass = ch, wp_role = r, wp_observedAt = t\<rparr>))))))))"

subsection \<open>What a role sees\<close>

definition harmless_key :: "string \<Rightarrow> bool" where
  "harmless_key k \<longleftrightarrow> \<not> AUTHORITY_SHAPED_KEY k \<and> \<not> FORBIDDEN_MIRROR_KEY k"

lemma assertNoAuthorityShape_iff:
  "assertNoAuthorityShape v t = Inr u \<longleftrightarrow> list_all harmless_key (deep_keys v)"
  "no_authority_items i vs t = Inr u \<longleftrightarrow> list_all (\<lambda>v. list_all harmless_key (deep_keys v)) vs"
  "no_authority_entries kvs t = Inr u \<longleftrightarrow> list_all (\<lambda>(k, v). harmless_key k \<and> list_all harmless_key (deep_keys v)) kvs"
proof (induction v t and i vs t and kvs t rule: assertNoAuthorityShape_no_authority_items_no_authority_entries.induct)
  case (1 vs trail)
  then show ?case by (auto simp: list_all_iff)
next
  case (2 kvs trail)
  then show ?case by (auto simp: list_all_iff split: prod.splits)
qed (auto simp: harmless_key_def)

lemma map_of_pick: "map_of (concat (map (\<lambda>f. case map_of kvs f of Some v \<Rightarrow> [(f, v)] | None \<Rightarrow> []) fs)) k =
    (if k \<in> set fs then map_of kvs k else None)"
  by (induction fs) (auto simp: map_add_def split: option.splits)

lemma pick_fields_spec: "field (pick_fields fs (JObj kvs)) k = (if k \<in> set fs then field (JObj kvs) k else JUndef)"
  by (auto simp: pick_fields_def map_of_pick)

lemma pick_fields_keys: "set (deep_keys (pick_fields fs (JObj kvs))) \<subseteq> set (deep_keys (JObj kvs))"
  by (auto simp: pick_fields_def split: option.splits dest!: map_of_SomeD[OF sym])

lemma projection_spec:
  assumes "projectRecordForMembership mem w c payload = Inr p"
  shows "pj_recordClass p = c" "pj_found p = ac_allowed (accessDecision mem w c)" "\<not> pj_found p \<Longrightarrow> pj_payload p = JNull"
    "pj_found p \<Longrightarrow> \<exists>m kvs. mem = Some m \<and> payload = JObj kvs \<and> wm_workspaceId m = w \<and> wm_status m = ''active'' \<and> wm_teamRoleId m \<in> set TEAM_ROLES \<and>
       c \<in> set (lookup_or_empty ROLE_CLASSES (wm_teamRoleId m)) \<and> list_all harmless_key (deep_keys payload) \<and>
       pj_payload p = pick_fields (fieldsForRole (wm_teamRoleId m) c) payload"
proof -
  have n: "ac_allowed (accessDecision None w c) = False" by (simp add: accessDecision_def)
  have "pj_recordClass p = c \<and> pj_found p = ac_allowed (accessDecision mem w c) \<and> (\<not> pj_found p \<longrightarrow> pj_payload p = JNull)"
    using assms by (cases mem; cases "ac_allowed (accessDecision mem w c)") (auto simp: projectRecordForMembership_def Let_def n)
  then show "pj_recordClass p = c" "pj_found p = ac_allowed (accessDecision mem w c)" "\<not> pj_found p \<Longrightarrow> pj_payload p = JNull" by auto
  assume f: "pj_found p"
  with assms obtain m where m: "mem = Some m" "ac_allowed (accessDecision mem w c)" "plain_object payload"
    "assertNoAuthorityShape payload ''$'' = Inr ()" "pj_payload p = pick_fields (fieldsForRole (wm_teamRoleId m) c) payload"
    by (auto simp: projectRecordForMembership_def Let_def split: option.splits if_splits)
  obtain kvs where "payload = JObj kvs" using m(3) by (cases payload) auto
  moreover have "list_all harmless_key (deep_keys payload)" using m(4) assertNoAuthorityShape_iff(1)[of payload "''$''" "()"] by blast
  moreover have "wm_workspaceId m = w \<and> wm_status m = ''active'' \<and> wm_teamRoleId m \<in> set TEAM_ROLES \<and> c \<in> set (lookup_or_empty ROLE_CLASSES (wm_teamRoleId m))"
    using m(2) unfolding m(1) accessDecision_def by (simp split: if_splits)
  ultimately show "\<exists>m kvs. mem = Some m \<and> payload = JObj kvs \<and> wm_workspaceId m = w \<and> wm_status m = ''active'' \<and> wm_teamRoleId m \<in> set TEAM_ROLES \<and>
       c \<in> set (lookup_or_empty ROLE_CLASSES (wm_teamRoleId m)) \<and> list_all harmless_key (deep_keys payload) \<and>
       pj_payload p = pick_fields (fieldsForRole (wm_teamRoleId m) c) payload"
    using m(1,5) by blast
qed

lemma shared_record_of_Some:
  assumes "shared_record_of num mem w rec = Inr (Some r)"
  shows "\<exists>m kvs c. mem = Some m \<and> wm_workspaceId m = w \<and> wm_status m = ''active'' \<and> requiredText (field rec ''recordClass'') ''recordClass'' 80 = Inr c \<and>
     sr_recordClass r = c \<and> c \<in> set (lookup_or_empty ROLE_CLASSES (wm_teamRoleId m)) \<and> field rec ''payload'' = JObj kvs \<and>
     list_all harmless_key (deep_keys (JObj kvs)) \<and> sr_payload r = pick_fields (fieldsForRole (wm_teamRoleId m) c) (JObj kvs)"
proof -
  from assms obtain c p where c: "requiredText (field rec ''recordClass'') ''recordClass'' 80 = Inr c"
    "projectRecordForMembership mem w c (field rec ''payload'') = Inr p" "pj_found p" "sr_recordClass r = pj_recordClass p" "sr_payload r = pj_payload p"
    unfolding shared_record_of_def by (auto simp del: requiredText_Inr split: if_splits)
  from projection_spec(1)[OF c(2)] projection_spec(4)[OF c(2,3)] c show ?thesis by (auto simp del: requiredText_Inr)
qed

lemma shared_record_of_class:
  assumes "shared_record_of num mem w rec = Inr r"
  shows "\<exists>c. requiredText (field rec ''recordClass'') ''recordClass'' 80 = Inr c \<and>
    (case r of None \<Rightarrow> \<not> ac_allowed (accessDecision mem w c) | Some x \<Rightarrow> ac_allowed (accessDecision mem w c) \<and> sr_recordClass x = c)"
proof -
  from assms obtain c p where c: "requiredText (field rec ''recordClass'') ''recordClass'' 80 = Inr c"
    "projectRecordForMembership mem w c (field rec ''payload'') = Inr p"
    "r = None \<and> \<not> pj_found p \<or> (\<exists>x. r = Some x \<and> pj_found p \<and> sr_recordClass x = pj_recordClass p)"
    unfolding shared_record_of_def by (auto simp del: requiredText_Inr split: if_splits)
  from projection_spec(1,2)[OF c(2)] c show ?thesis by (auto simp del: requiredText_Inr)
qed

text \<open>The class of a record as the snapshot reads it.\<close>

definition record_class :: "js \<Rightarrow> string" where
  "record_class rec = trim_js (to_string (field rec ''recordClass''))"

lemma visible_classes:
  assumes "list_all2 (\<lambda>rec r. shared_record_of num mem w rec = Inr r) records rs"
  shows "map sr_recordClass (List.map_filter id rs) =
    filter (\<lambda>c. ac_allowed (accessDecision mem w c)) (map record_class records)"
  using assms
proof (induction rule: list_all2_induct)
  case (Cons rec recs r rs)
  from shared_record_of_class[OF Cons.hyps(1)] obtain c where rc: "requiredText (field rec ''recordClass'') ''recordClass'' 80 = Inr c"
    "case r of None \<Rightarrow> \<not> ac_allowed (accessDecision mem w c) | Some x \<Rightarrow> ac_allowed (accessDecision mem w c) \<and> sr_recordClass x = c" by blast
  from rc(1) have "record_class rec = c" by (auto simp: record_class_def)
  with rc(2) Cons.IH show ?case by (cases r) (auto simp: map_filter_simps)
qed (simp add: map_filter_simps)

lemma snapshot_cases:
  assumes "createSharedWorkspaceSnapshot num legacy now input mem = Inr snap" "sw_found snap"
  obtains m records rs where "mem = Some m" "wm_workspaceId m = sw_workspaceId snap" "wm_status m = ''active''"
    "field input ''workspaceId'' = JStr (sw_workspaceId snap)" "field input ''records'' = JArr records"
    "list_all2 (\<lambda>rec r. shared_record_of num mem (sw_workspaceId snap) rec = Inr r) records rs" "sw_records snap = List.map_filter id rs"
proof -
  note run = assms(1)[unfolded createSharedWorkspaceSnapshot_def bindE_eq_Inr]
  then obtain w where w: "field input ''workspaceId'' = JStr w" by (auto simp del: requiredText_Inr)
  have sw: "sw_workspaceId snap = w" using run w by (auto simp del: requiredText_Inr split: if_splits)
  obtain m where m: "mem = Some m" "wm_workspaceId m = w" "wm_status m = ''active''"
    using run w assms(2) by (cases mem) (auto simp del: requiredText_Inr split: if_splits)
  obtain records where r: "field input ''records'' = JArr records" "visible_records num mem w records = Inr (sw_records snap)"
    using run m w assms(2) by (auto simp del: requiredText_Inr split: if_splits)
  then obtain rs where "list_all2 (\<lambda>rec r. shared_record_of num mem w rec = Inr r) records rs" "sw_records snap = List.map_filter id rs"
    by (auto simp: visible_records_def)
  note rs = this
  show thesis by (rule that[of m records rs]) (use m w sw r rs in simp_all)
qed

lemma snapshot_shows_role_fields_only_clauses:
  assumes snap: "createSharedWorkspaceSnapshot num legacy now input mem = Inr snap"
  shows "sw_found snap \<longleftrightarrow> (\<exists>m. mem = Some m \<and> JStr (wm_workspaceId m) = field input ''workspaceId'' \<and> wm_status m = ''active'')"
    and "\<not> sw_found snap \<Longrightarrow> sw_records snap = []"
    and "sw_found snap \<Longrightarrow> \<exists>records. field input ''records'' = JArr records \<and> map sr_recordClass (sw_records snap) =
       filter (\<lambda>c. ac_allowed (accessDecision mem (sw_workspaceId snap) c)) (map record_class records)"
    and "r \<in> set (sw_records snap) \<Longrightarrow> \<exists>m kvs. mem = Some m \<and> sr_recordClass r \<in> set (lookup_or_empty ROLE_CLASSES (wm_teamRoleId m)) \<and>
       (\<forall>k. field (sr_payload r) k = (if k \<in> set (fieldsForRole (wm_teamRoleId m) (sr_recordClass r)) then field (JObj kvs) k else JUndef)) \<and>
       list_all harmless_key (deep_keys (sr_payload r)) \<and>
       (\<exists>records rec. field input ''records'' = JArr records \<and> rec \<in> set records \<and> field rec ''payload'' = JObj kvs)"
    and "set (fieldsForRole ''observer-view'' c) \<subseteq> set (fieldsForRole ''reviewer-view'' c)"
      "set (fieldsForRole ''reviewer-view'' c) \<subseteq> set (fieldsForRole ''operator-view'' c)"
      "fieldsForRole ''operator-view'' c = fieldsForRole ''owner-view'' c"
proof -
  show "sw_found snap \<longleftrightarrow> (\<exists>m. mem = Some m \<and> JStr (wm_workspaceId m) = field input ''workspaceId'' \<and> wm_status m = ''active'')"
    using snap unfolding createSharedWorkspaceSnapshot_def by (auto simp del: requiredText_Inr split: if_splits option.splits)
  show "\<not> sw_found snap \<Longrightarrow> sw_records snap = []"
    using snap unfolding createSharedWorkspaceSnapshot_def by (auto simp del: requiredText_Inr split: if_splits)
  then have none: "r \<in> set (sw_records snap) \<Longrightarrow> sw_found snap" for r by (cases "sw_found snap") auto
  show "\<exists>records. field input ''records'' = JArr records \<and> map sr_recordClass (sw_records snap) =
       filter (\<lambda>c. ac_allowed (accessDecision mem (sw_workspaceId snap) c)) (map record_class records)" if "sw_found snap"
  proof (rule snapshot_cases[OF snap that])
    fix m records rs assume "field input ''records'' = JArr records" "sw_records snap = List.map_filter id rs"
      "list_all2 (\<lambda>rec r. shared_record_of num mem (sw_workspaceId snap) rec = Inr r) records rs"
    with visible_classes show ?thesis by metis
  qed
  show "\<exists>m kvs. mem = Some m \<and> sr_recordClass r \<in> set (lookup_or_empty ROLE_CLASSES (wm_teamRoleId m)) \<and>
       (\<forall>k. field (sr_payload r) k = (if k \<in> set (fieldsForRole (wm_teamRoleId m) (sr_recordClass r)) then field (JObj kvs) k else JUndef)) \<and>
       list_all harmless_key (deep_keys (sr_payload r)) \<and>
       (\<exists>records rec. field input ''records'' = JArr records \<and> rec \<in> set records \<and> field rec ''payload'' = JObj kvs)"
    if r: "r \<in> set (sw_records snap)"
  proof (rule snapshot_cases[OF snap none[OF r]])
    fix m records rs assume a: "field input ''records'' = JArr records" "sw_records snap = List.map_filter id rs"
      "list_all2 (\<lambda>rec r. shared_record_of num mem (sw_workspaceId snap) rec = Inr r) records rs"
    from r a(2) have "Some r \<in> set rs" by (auto simp: List.map_filter_def)
    with list_all2_in_right[OF a(3)] obtain rec where rec: "rec \<in> set records" "shared_record_of num mem (sw_workspaceId snap) rec = Inr (Some r)" by blast
    from shared_record_of_Some[OF rec(2)] obtain m kvs where m: "mem = Some m" "sr_recordClass r \<in> set (lookup_or_empty ROLE_CLASSES (wm_teamRoleId m))"
      "field rec ''payload'' = JObj kvs" "list_all harmless_key (deep_keys (JObj kvs))"
      "sr_payload r = pick_fields (fieldsForRole (wm_teamRoleId m) (sr_recordClass r)) (JObj kvs)" by blast
    have "list_all harmless_key (deep_keys (sr_payload r))"
      unfolding m(5) using m(4) pick_fields_keys unfolding list_all_iff by blast
    with m a(1) rec(1) pick_fields_spec show ?thesis by metis
  qed
  show "set (fieldsForRole ''observer-view'' c) \<subseteq> set (fieldsForRole ''reviewer-view'' c)"
      "set (fieldsForRole ''reviewer-view'' c) \<subseteq> set (fieldsForRole ''operator-view'' c)"
      "fieldsForRole ''operator-view'' c = fieldsForRole ''owner-view'' c"
    by (auto simp: fieldsForRole_def lookup_or_empty_def OBSERVER_FIELDS_def REVIEWER_FIELDS_def FIELD_POLICY_def split: if_splits)
qed

text \<open>
  C32: A snapshot of a shared workspace shows a subject only what its role may see: nothing
  without an active membership of that workspace; otherwise exactly the records whose class the
  role sees, in order, each reduced to the role's fields for that class with the mirrored values, and no key
  anywhere in a shown payload has the shape of an execution authority or a secret.  The roles are
  ordered: an observer sees no more than a reviewer, a reviewer no more than an operator, and
  operator and owner the same.
\<close>

theorem snapshot_shows_role_fields_only:
  assumes snap: "createSharedWorkspaceSnapshot num legacy now input mem = Inr snap"
  shows "(sw_found snap \<longleftrightarrow> (\<exists>m. mem = Some m \<and> JStr (wm_workspaceId m) = field input ''workspaceId'' \<and> wm_status m = ''active'')) \<and>
    (\<not> sw_found snap \<longrightarrow> sw_records snap = []) \<and>
    (sw_found snap \<longrightarrow> (\<exists>records. field input ''records'' = JArr records \<and> map sr_recordClass (sw_records snap) =
       filter (\<lambda>c. ac_allowed (accessDecision mem (sw_workspaceId snap) c)) (map record_class records))) \<and>
    (r \<in> set (sw_records snap) \<longrightarrow> (\<exists>m kvs. mem = Some m \<and> sr_recordClass r \<in> set (lookup_or_empty ROLE_CLASSES (wm_teamRoleId m)) \<and>
       (\<forall>k. field (sr_payload r) k = (if k \<in> set (fieldsForRole (wm_teamRoleId m) (sr_recordClass r)) then field (JObj kvs) k else JUndef)) \<and>
       list_all harmless_key (deep_keys (sr_payload r)) \<and>
       (\<exists>records rec. field input ''records'' = JArr records \<and> rec \<in> set records \<and> field rec ''payload'' = JObj kvs))) \<and>
    set (fieldsForRole ''observer-view'' c) \<subseteq> set (fieldsForRole ''reviewer-view'' c) \<and>
    set (fieldsForRole ''reviewer-view'' c) \<subseteq> set (fieldsForRole ''operator-view'' c) \<and>
    fieldsForRole ''operator-view'' c = fieldsForRole ''owner-view'' c"
  by (intro conjI impI; (erule snapshot_shows_role_fields_only_clauses[OF snap] | rule snapshot_shows_role_fields_only_clauses[OF snap]))

definition sample_member :: "string \<Rightarrow> string \<Rightarrow> membership" where
  "sample_member role st = \<lparr>wm_id = ''m1'', wm_workspaceId = ''w'', wm_subjectId = ''s1'', wm_teamRoleId = role, wm_status = st,
     wm_createdAt = ''2026-03-01T00:00:00.000Z''\<rparr>"

definition sample_shared_input :: js where
  "sample_shared_input = JObj [(''workspaceId'', JStr ''w''), (''syncStatus'', JStr ''current''), (''remoteSourceInstanceId'', JStr ''a''),
     (''observedAt'', JStr ''2026-03-01T00:00:00.000Z''),
     (''records'', JArr [JObj [(''recordClass'', JStr ''mission.summary''), (''recordId'', JStr ''b''),
         (''payload'', JObj [(''title'', JStr ''t''), (''runId'', JStr ''r1'')])],
       JObj [(''recordClass'', JStr ''evidence.summary''), (''recordId'', JStr ''b''), (''payload'', JObj [])]])]"

lemma sample_snapshot: "\<exists>s. createSharedWorkspaceSnapshot (\<lambda>v. v) (\<lambda>_. None) t sample_shared_input (Some (sample_member ''observer-view'' ''active'')) = Inr s \<and>
   sw_found s \<and> map sr_payload (sw_records s) = [JObj [(''title'', JStr ''t'')]]"
proof -
  let ?m = "sample_member ''observer-view'' ''active''"
  have s: "requiredText (JStr ''mission.summary'') ''recordClass'' 80 = Inr ''mission.summary''"
    "requiredText (JStr ''evidence.summary'') ''recordClass'' 80 = Inr ''evidence.summary''"
    "requiredText (JStr ''current'') ''shared syncStatus'' 40 = Inr ''current''"
    "AUTHORITY_SHAPED_KEY ''title'' = False" "AUTHORITY_SHAPED_KEY ''runId'' = False" "FORBIDDEN_MIRROR_KEY ''title'' = False"
    "FORBIDDEN_MIRROR_KEY ''runId'' = False" "''current'' \<in> set SYNC_STATES"
    by code_simp+
  have a: "accessDecision (Some ?m) ''w'' ''mission.summary'' = \<lparr>ac_allowed = True, ac_reasonCode = ''visible'', ac_teamRoleId = Some ''observer-view''\<rparr>"
    "accessDecision (Some ?m) ''w'' ''evidence.summary'' = \<lparr>ac_allowed = False, ac_reasonCode = ''record_class_hidden'', ac_teamRoleId = None\<rparr>"
    by code_simp+
  have f: "fieldsForRole (wm_teamRoleId ?m) ''mission.summary'' = [''id'', ''title'', ''status'', ''updatedAt'']" by code_simp
  show ?thesis
    by (simp add: createSharedWorkspaceSnapshot_def sample_shared_input_def assertSafeIdentifier_def sample_ids sample_instants s
        visible_records_def shared_record_of_def projectRecordForMembership_def a f pick_fields_def number_of_def or_js_def as_array_def
        map_filter_simps Let_def del: requiredText_Inr bindE_eq_Inr mapE_eq_Inr) (simp add: sample_member_def)
qed

theorem snapshot_shows_role_fields_only_witness:
  "\<exists>s. createSharedWorkspaceSnapshot (\<lambda>v. v) (\<lambda>_. None) ''t'' sample_shared_input (Some (sample_member ''observer-view'' ''active'')) = Inr s \<and>
     map sr_recordClass (sw_records s) = [''mission.summary''] \<and> field (sr_payload (sw_records s ! 0)) ''runId'' = JUndef"
proof -
  let ?m = "sample_member ''observer-view'' ''active''"
  obtain s where sn: "createSharedWorkspaceSnapshot (\<lambda>v. v) (\<lambda>_. None) ''t'' sample_shared_input (Some ?m) = Inr s \<and> sw_found s \<and>
    map sr_payload (sw_records s) = [JObj [(''title'', JStr ''t'')]]" using sample_snapshot[of "''t''"] by (rule exE)
  note s = conjunct1[OF sn] conjunct1[OF conjunct2[OF sn]] conjunct2[OF conjunct2[OF sn]]
  have "field sample_shared_input ''workspaceId'' = JStr (sw_workspaceId s)" by (rule snapshot_cases[OF s(1,2)])
  then have f: "sw_workspaceId s = ''w''" by (simp add: sample_shared_input_def)
  have a: "ac_allowed (accessDecision (Some ?m) ''w'' ''mission.summary'')" "\<not> ac_allowed (accessDecision (Some ?m) ''w'' ''evidence.summary'')"
    by code_simp+
  have c: "record_class (JObj [(''recordClass'', JStr ''mission.summary''), (''recordId'', JStr ''b''),
         (''payload'', JObj [(''title'', JStr ''t''), (''runId'', JStr ''r1'')])]) = ''mission.summary''"
    "record_class (JObj [(''recordClass'', JStr ''evidence.summary''), (''recordId'', JStr ''b''), (''payload'', JObj [])]) = ''evidence.summary''"
    by code_simp+
  from snapshot_shows_role_fields_only[OF s(1)] s(2) have "map sr_recordClass (sw_records s) = [''mission.summary'']"
    unfolding sample_shared_input_def by (simp add: c a f)
  with s show ?thesis by (cases "sw_records s") auto
qed

end
