(* ===== verification/Authorization.thy ===== *)
theory Authorization
  imports JsDate Json
begin

text \<open>
  The execution authorisation (\<open>src/authorization/execution-authorization-v1.cjs\<close>): the
  normalisation of a request and its resolved authority, and the decision over it.  \<open>sha\<close> is the
  SHA-256 of the host, \<open>lc a b\<close> stands for \<open>a.localeCompare(b) <= 0\<close>, \<open>legacy\<close> parses dates
  outside the ISO forms.  A JavaScript \<open>Set\<close> is a list without duplicates.
\<close>

definition TOP_LEVEL_KEYS :: "string list" where
  "TOP_LEVEL_KEYS = [''schema'', ''requestRef'', ''organizationRef'', ''actorRef'', ''actorKind'', ''requestedActionRef'', ''action'',
     ''targetRef'', ''observedAt'', ''requirements'', ''resolved'']"

definition REQUIREMENT_KEYS :: "string list" where
  "REQUIREMENT_KEYS = [''requiredHumanCapabilityRefs'', ''requiredAgentCapabilityRefs'', ''requiredEvidenceRefs'',
     ''requiredPolicyRefs'', ''humanGateRequired'']"

definition RESOLVED_KEYS :: "string list" where
  "RESOLVED_KEYS = [''authorityGrant'', ''delegation'', ''humanCapabilityCredentials'', ''agentCapabilityPackages'', ''evidence'',
     ''policies'', ''humanGate'', ''revocations'']"

definition AUTHORITY_KEYS :: "string list" where
  "AUTHORITY_KEYS = [''ref'', ''status'', ''organizationRef'', ''actorRef'', ''allowedActions'', ''allowedTargets'', ''expiresAt'']"

definition CREDENTIAL_KEYS :: "string list" where
  "CREDENTIAL_KEYS = [''ref'', ''capabilityRef'', ''status'', ''eligibility'']"

definition PACKAGE_KEYS :: "string list" where
  "PACKAGE_KEYS = [''ref'', ''status'']"

definition EVIDENCE_KEYS :: "string list" where
  "EVIDENCE_KEYS = [''ref'', ''status'']"

definition POLICY_KEYS :: "string list" where
  "POLICY_KEYS = [''ref'', ''status'']"

definition HUMAN_GATE_KEYS :: "string list" where
  "HUMAN_GATE_KEYS = [''ref'', ''state'']"

definition REVOCATION_KEYS :: "string list" where
  "REVOCATION_KEYS = [''ref'', ''subjectRef'', ''status'']"

definition FORBIDDEN_INPUT_KEYS :: "string list" where
  "FORBIDDEN_INPUT_KEYS = [''allow'', ''approved'', ''authorized'', ''authorizationDecision'', ''decision'', ''executionAuthorized'',
     ''authorityGranted'', ''force'', ''bypass'', ''skipHumanGate'']"

subsection \<open>Checks of the input\<close>

text \<open>An array is refused by \<open>strictKeys\<close> like any other value that is no plain object.\<close>

definition strictKeys :: "js \<Rightarrow> string list \<Rightarrow> string \<Rightarrow> unit res" where
  "strictKeys value allowed label = (case value of
      JObj kvs \<Rightarrow> (let unknown = filter (\<lambda>k. k \<notin> set allowed) (map fst kvs) in
        if unknown \<noteq> [] then Inl (TypeError (label @ '' contains unknown field: '' @ hd (sort unknown))) else Inr ())
    | _ \<Rightarrow> Inl (TypeError (label @ '' must be an object'')))"

fun rejectSelfAuthorizationKeys :: "js \<Rightarrow> string \<Rightarrow> unit res"
and reject_items :: "nat \<Rightarrow> js list \<Rightarrow> string \<Rightarrow> unit res"
and reject_entries :: "(string \<times> js) list \<Rightarrow> string \<Rightarrow> unit res" where
  "rejectSelfAuthorizationKeys (JArr vs) path = reject_items 0 vs path"
| "rejectSelfAuthorizationKeys (JObj kvs) path = reject_entries kvs path"
| "rejectSelfAuthorizationKeys _ path = Inr ()"
| "reject_items i [] path = Inr ()"
| "reject_items i (v # vs) path =
     bindE (rejectSelfAuthorizationKeys v (path @ ''['' @ nat_digits i @ '']'')) (\<lambda>_. reject_items (Suc i) vs path)"
| "reject_entries [] path = Inr ()"
| "reject_entries ((k, v) # kvs) path =
     (if k \<in> set FORBIDDEN_INPUT_KEYS then Inl (TypeError (path @ ''.'' @ k @ '' is forbidden self-authorization input''))
      else bindE (rejectSelfAuthorizationKeys v (path @ ''.'' @ k)) (\<lambda>_. reject_entries kvs path))"

definition auth_text :: "js \<Rightarrow> string \<Rightarrow> nat \<Rightarrow> string res" where
  "auth_text value label maxLength = (case value of
      JStr s \<Rightarrow> if trim_js s = [] \<or> maxLength < length (trim_js s) then Inl (TypeError (label @ '' is invalid'')) else Inr (trim_js s)
    | _ \<Rightarrow> Inl (TypeError (label @ '' must be a string'')))"

definition auth_iso :: "(string \<Rightarrow> int option) \<Rightarrow> js \<Rightarrow> string \<Rightarrow> (string \<times> int) res" where
  "auth_iso legacy value label =
    bindE (auth_text value label 64) (\<lambda>cleaned. case date_parse legacy cleaned of
      None \<Rightarrow> Inl (TypeError (label @ '' must be ISO-compatible'')) | Some ms \<Rightarrow> Inr (cleaned, ms))"

definition indexed :: "string \<Rightarrow> nat \<Rightarrow> string" where
  "indexed label i = label @ ''['' @ nat_digits i @ '']''"

definition uniqueRefs :: "js \<Rightarrow> string \<Rightarrow> string list res" where
  "uniqueRefs values label =
    bindE (as_array values (TypeError (label @ '' must be an array''))) (\<lambda>vs.
    bindE (mapE (\<lambda>(i, v). auth_text v (indexed label i) 300) (enumerate 0 vs)) (\<lambda>normalized.
    if \<not> distinct normalized then Inl (TypeError (label @ '' contains duplicates'')) else Inr (sort normalized)))"

subsection \<open>The canonical form and its digest\<close>

fun canonical :: "(string \<Rightarrow> string \<Rightarrow> bool) \<Rightarrow> js \<Rightarrow> js" where
  "canonical lc (JArr vs) = JArr (sort_by (\<lambda>a b. lc (json a) (json b)) (map (canonical lc) vs))"
| "canonical lc (JObj kvs) = mk_obj (sort_key fst (map (\<lambda>(k, v). (k, canonical lc v)) kvs))"
| "canonical lc v = v"

definition auth_sha256 :: "(string \<Rightarrow> string) \<Rightarrow> (string \<Rightarrow> string \<Rightarrow> bool) \<Rightarrow> js \<Rightarrow> string" where
  "auth_sha256 sha lc v = sha (json (canonical lc v))"

subsection \<open>The normalised request\<close>

record auth_grant =
  ag_ref :: string
  ag_status :: string
  ag_organizationRef :: string
  ag_actorRef :: string
  ag_allowedActions :: "string list"
  ag_allowedTargets :: "string list"
  ag_expiresAt :: "string option"

record auth_credential =
  cr_ref :: string
  cr_capabilityRef :: string
  cr_status :: string
  cr_eligibility :: string

text \<open>Packages, evidence and policies have a reference and a status.\<close>

record auth_entry =
  ae_ref :: string
  ae_status :: string

record auth_revocation =
  rv_ref :: string
  rv_subjectRef :: string
  rv_status :: string

record auth_gate =
  hg_ref :: string
  hg_state :: string

record auth_request =
  aq_requestRef :: string
  aq_organizationRef :: string
  aq_actorRef :: string
  aq_actorKind :: string
  aq_requestedActionRef :: string
  aq_action :: string
  aq_targetRef :: string
  aq_observedAt :: string
  aq_observedAtMs :: int
  aq_requiredHumanCapabilityRefs :: "string list"
  aq_requiredAgentCapabilityRefs :: "string list"
  aq_requiredEvidenceRefs :: "string list"
  aq_requiredPolicyRefs :: "string list"
  aq_humanGateRequired :: bool
  aq_authorityGrant :: "auth_grant option"
  aq_delegation :: "auth_grant option"
  aq_humanCapabilityCredentials :: "auth_credential list"
  aq_agentCapabilityPackages :: "auth_entry list"
  aq_evidence :: "auth_entry list"
  aq_policies :: "auth_entry list"
  aq_humanGate :: "auth_gate option"
  aq_revocations :: "auth_revocation list"

definition normalizeAuthority :: "(string \<Rightarrow> int option) \<Rightarrow> js \<Rightarrow> string \<Rightarrow> auth_grant option res" where
  "normalizeAuthority legacy value label =
    (if nullish value then Inr None
     else bindE (strictKeys value AUTHORITY_KEYS label) (\<lambda>_.
       bindE (auth_text (field value ''ref'') (label @ ''.ref'') 300) (\<lambda>r.
       bindE (auth_text (field value ''status'') (label @ ''.status'') 40) (\<lambda>s.
       bindE (auth_text (field value ''organizationRef'') (label @ ''.organizationRef'') 300) (\<lambda>orgref.
       bindE (auth_text (field value ''actorRef'') (label @ ''.actorRef'') 300) (\<lambda>a.
       bindE (uniqueRefs (field value ''allowedActions'') (label @ ''.allowedActions'')) (\<lambda>acts.
       bindE (uniqueRefs (field value ''allowedTargets'') (label @ ''.allowedTargets'')) (\<lambda>tgts.
       bindE (if nullish (field value ''expiresAt'') then Inr None
              else bindE (auth_iso legacy (field value ''expiresAt'') (label @ ''.expiresAt'')) (\<lambda>i. Inr (Some (fst i)))) (\<lambda>x.
       Inr (Some \<lparr>ag_ref = r, ag_status = s, ag_organizationRef = orgref, ag_actorRef = a, ag_allowedActions = acts,
         ag_allowedTargets = tgts, ag_expiresAt = x\<rparr>))))))))))"

definition normalizeList :: "js \<Rightarrow> string list \<Rightarrow> string \<Rightarrow> (js \<Rightarrow> string \<Rightarrow> 'a res) \<Rightarrow> 'a list res" where
  "normalizeList values keys label mapper =
    bindE (as_array values (TypeError (label @ '' must be an array''))) (\<lambda>vs.
    mapE (\<lambda>(i, v). bindE (strictKeys v keys (indexed label i)) (\<lambda>_. mapper v (indexed label i))) (enumerate 0 vs))"

definition auth_credential_of :: "js \<Rightarrow> string \<Rightarrow> auth_credential res" where
  "auth_credential_of v label =
    bindE (auth_text (field v ''ref'') (label @ ''.ref'') 300) (\<lambda>r.
    bindE (auth_text (field v ''capabilityRef'') (label @ ''.capabilityRef'') 300) (\<lambda>c.
    bindE (auth_text (field v ''status'') (label @ ''.status'') 40) (\<lambda>s.
    bindE (auth_text (field v ''eligibility'') (label @ ''.eligibility'') 60) (\<lambda>e.
    Inr \<lparr>cr_ref = r, cr_capabilityRef = c, cr_status = s, cr_eligibility = e\<rparr>))))"

definition auth_entry_of :: "js \<Rightarrow> string \<Rightarrow> auth_entry res" where
  "auth_entry_of v label =
    bindE (auth_text (field v ''ref'') (label @ ''.ref'') 300) (\<lambda>r.
    bindE (auth_text (field v ''status'') (label @ ''.status'') 40) (\<lambda>s. Inr \<lparr>ae_ref = r, ae_status = s\<rparr>))"

definition auth_revocation_of :: "js \<Rightarrow> string \<Rightarrow> auth_revocation res" where
  "auth_revocation_of v label =
    bindE (auth_text (field v ''ref'') (label @ ''.ref'') 300) (\<lambda>r.
    bindE (auth_text (field v ''subjectRef'') (label @ ''.subjectRef'') 300) (\<lambda>j.
    bindE (auth_text (field v ''status'') (label @ ''.status'') 40) (\<lambda>s. Inr \<lparr>rv_ref = r, rv_subjectRef = j, rv_status = s\<rparr>)))"

definition auth_gate_of :: "js \<Rightarrow> auth_gate option res" where
  "auth_gate_of v =
    (if nullish v then Inr None
     else bindE (strictKeys v HUMAN_GATE_KEYS ''resolved.humanGate'') (\<lambda>_.
       bindE (auth_text (field v ''ref'') ''resolved.humanGate.ref'' 300) (\<lambda>r.
       bindE (auth_text (field v ''state'') ''resolved.humanGate.state'' 40) (\<lambda>s. Inr (Some \<lparr>hg_ref = r, hg_state = s\<rparr>)))))"

definition normalizeInput :: "(string \<Rightarrow> int option) \<Rightarrow> js \<Rightarrow> auth_request res" where
  "normalizeInput legacy input =
    (let requirements = field input ''requirements''; resolved = field input ''resolved'' in
     bindE (rejectSelfAuthorizationKeys input ''input'') (\<lambda>_.
     bindE (strictKeys input TOP_LEVEL_KEYS ''input'') (\<lambda>_.
     if field input ''schema'' \<noteq> JStr ''execution.authorization.request.v1'' then Inl (TypeError ''unsupported authorization request schema'')
     else bindE (auth_iso legacy (field input ''observedAt'') ''observedAt'') (\<lambda>observed.
     if \<not> includes_str [''human'', ''agent''] (field input ''actorKind'') then Inl (TypeError ''actorKind must be human or agent'')
     else bindE (strictKeys requirements REQUIREMENT_KEYS ''requirements'') (\<lambda>_.
     bindE (strictKeys resolved RESOLVED_KEYS ''resolved'') (\<lambda>_.
     bindE (case field requirements ''humanGateRequired'' of JBool b \<Rightarrow> Inr b
            | _ \<Rightarrow> Inl (TypeError ''requirements.humanGateRequired must be boolean'')) (\<lambda>gateRequired.
     bindE (normalizeList (field resolved ''humanCapabilityCredentials'') CREDENTIAL_KEYS ''resolved.humanCapabilityCredentials'' auth_credential_of) (\<lambda>credentials.
     bindE (normalizeList (field resolved ''agentCapabilityPackages'') PACKAGE_KEYS ''resolved.agentCapabilityPackages'' auth_entry_of) (\<lambda>packages.
     bindE (normalizeList (field resolved ''evidence'') EVIDENCE_KEYS ''resolved.evidence'' auth_entry_of) (\<lambda>evidence.
     bindE (normalizeList (field resolved ''policies'') POLICY_KEYS ''resolved.policies'' auth_entry_of) (\<lambda>policies.
     bindE (normalizeList (field resolved ''revocations'') REVOCATION_KEYS ''resolved.revocations'' auth_revocation_of) (\<lambda>revocations.
     bindE (auth_gate_of (field resolved ''humanGate'')) (\<lambda>gate.
     bindE (auth_text (field input ''requestRef'') ''requestRef'' 300) (\<lambda>requestRef.
     bindE (auth_text (field input ''organizationRef'') ''organizationRef'' 300) (\<lambda>organizationRef.
     bindE (auth_text (field input ''actorRef'') ''actorRef'' 300) (\<lambda>actorRef.
     bindE (auth_text (field input ''requestedActionRef'') ''requestedActionRef'' 300) (\<lambda>requestedActionRef.
     bindE (auth_text (field input ''action'') ''action'' 160) (\<lambda>action.
     bindE (auth_text (field input ''targetRef'') ''targetRef'' 300) (\<lambda>targetRef.
     bindE (uniqueRefs (field requirements ''requiredHumanCapabilityRefs'') ''requirements.requiredHumanCapabilityRefs'') (\<lambda>humanCaps.
     bindE (uniqueRefs (field requirements ''requiredAgentCapabilityRefs'') ''requirements.requiredAgentCapabilityRefs'') (\<lambda>agentCaps.
     bindE (uniqueRefs (field requirements ''requiredEvidenceRefs'') ''requirements.requiredEvidenceRefs'') (\<lambda>evidenceRefs.
     bindE (uniqueRefs (field requirements ''requiredPolicyRefs'') ''requirements.requiredPolicyRefs'') (\<lambda>policyRefs.
     bindE (normalizeAuthority legacy (field resolved ''authorityGrant'') ''resolved.authorityGrant'') (\<lambda>grant.
     bindE (normalizeAuthority legacy (field resolved ''delegation'') ''resolved.delegation'') (\<lambda>delegation.
     Inr \<lparr>aq_requestRef = requestRef, aq_organizationRef = organizationRef, aq_actorRef = actorRef,
       aq_actorKind = to_string (field input ''actorKind''), aq_requestedActionRef = requestedActionRef, aq_action = action,
       aq_targetRef = targetRef, aq_observedAt = fst observed, aq_observedAtMs = snd observed,
       aq_requiredHumanCapabilityRefs = humanCaps, aq_requiredAgentCapabilityRefs = agentCaps, aq_requiredEvidenceRefs = evidenceRefs,
       aq_requiredPolicyRefs = policyRefs, aq_humanGateRequired = gateRequired, aq_authorityGrant = grant, aq_delegation = delegation,
       aq_humanCapabilityCredentials = credentials, aq_agentCapabilityPackages = packages, aq_evidence = evidence,
       aq_policies = policies, aq_humanGate = gate, aq_revocations = revocations\<rparr>)))))))))))))))))))))))))"

subsection \<open>The decision\<close>

record auth_sets =
  as_verified :: "string list"
  as_missing :: "string list"
  as_deny :: "string list"
  as_unknown :: "string list"
  as_review :: "string list"

definition set_add :: "'a \<Rightarrow> 'a list \<Rightarrow> 'a list" where
  "set_add x xs = (if x \<in> set xs then xs else xs @ [x])"

definition no_sets :: auth_sets where
  "no_sets = \<lparr>as_verified = [], as_missing = [], as_deny = [], as_unknown = [], as_review = []\<rparr>"

definition verify :: "string \<Rightarrow> auth_sets \<Rightarrow> auth_sets" where
  "verify r s = s\<lparr>as_verified := set_add r (as_verified s)\<rparr>"

definition miss :: "string \<Rightarrow> auth_sets \<Rightarrow> auth_sets" where
  "miss r s = s\<lparr>as_missing := set_add r (as_missing s)\<rparr>"

definition deny :: "string \<Rightarrow> auth_sets \<Rightarrow> auth_sets" where
  "deny r s = s\<lparr>as_deny := set_add r (as_deny s)\<rparr>"

definition unsure :: "string \<Rightarrow> auth_sets \<Rightarrow> auth_sets" where
  "unsure r s = s\<lparr>as_unknown := set_add r (as_unknown s)\<rparr>"

definition ask :: "string \<Rightarrow> auth_sets \<Rightarrow> auth_sets" where
  "ask r s = s\<lparr>as_review := set_add r (as_review s)\<rparr>"

definition authorityState ::
  "(string \<Rightarrow> int option) \<Rightarrow> auth_grant option \<Rightarrow> auth_request \<Rightarrow> string \<Rightarrow> auth_sets \<Rightarrow> string \<times> auth_sets" where
  "authorityState legacy authority i prefix s = (case authority of
      None \<Rightarrow> (''unknown'', miss (prefix @ '':missing'') s)
    | Some a \<Rightarrow> (
        if ag_status a = ''revoked'' \<or> ag_status a = ''rejected'' \<or> ag_status a = ''expired'' \<or> ag_status a = ''suspended'' then ''deny''
        else if ag_status a \<noteq> ''active'' then ''unknown''
        else if ag_organizationRef a \<noteq> aq_organizationRef i \<or> ag_actorRef a \<noteq> aq_actorRef i then ''deny''
        else if aq_action i \<notin> set (ag_allowedActions a) \<or> aq_targetRef i \<notin> set (ag_allowedTargets a) then ''deny''
        else if (case ag_expiresAt a of None \<Rightarrow> False
                 | Some x \<Rightarrow> (case date_parse legacy x of None \<Rightarrow> False | Some t \<Rightarrow> t \<le> aq_observedAtMs i)) then ''deny''
        else ''pass'', verify (ag_ref a) s))"

definition with_authority ::
  "(string \<Rightarrow> int option) \<Rightarrow> auth_grant option \<Rightarrow> auth_request \<Rightarrow> string \<Rightarrow> string \<Rightarrow> string \<Rightarrow> auth_sets \<Rightarrow> auth_sets" where
  "with_authority legacy g i prefix denied unknown s0 = (let (st, s) = authorityState legacy g i prefix s0;
      s = (if st = ''deny'' then deny denied s else s)
    in if st = ''unknown'' then unsure unknown s else s)"

definition step_grant :: "(string \<Rightarrow> int option) \<Rightarrow> auth_request \<Rightarrow> auth_sets \<Rightarrow> auth_sets" where
  "step_grant legacy i = with_authority legacy (aq_authorityGrant i) i ''authorityGrant'' ''authority_grant_denied'' ''authority_grant_unknown''"

definition step_delegation :: "(string \<Rightarrow> int option) \<Rightarrow> auth_request \<Rightarrow> auth_sets \<Rightarrow> auth_sets" where
  "step_delegation legacy i s = (if aq_actorKind i = ''agent''
     then with_authority legacy (aq_delegation i) i ''delegation'' ''delegation_denied'' ''delegation_unknown'' s else s)"

text \<open>The references whose revocation counts; a missing grant or delegation contributes no string.\<close>

definition revocable_refs :: "auth_request \<Rightarrow> string list" where
  "revocable_refs i = aq_actorRef i # (case aq_authorityGrant i of None \<Rightarrow> [] | Some a \<Rightarrow> [ag_ref a])
     @ (if aq_actorKind i = ''agent'' then (case aq_delegation i of None \<Rightarrow> [] | Some a \<Rightarrow> [ag_ref a]) else [])"

definition step_revocations :: "auth_request \<Rightarrow> auth_sets \<Rightarrow> auth_sets" where
  "step_revocations i s0 = (let revoked = filter (\<lambda>e. rv_status e = ''revoked'') (aq_revocations i);
      s = fold (verify \<circ> rv_ref) (aq_revocations i) s0
    in if list_ex (\<lambda>e. rv_subjectRef e \<in> set (revocable_refs i)) revoked then deny ''revocation_active'' s else s)"

definition eligible_capabilities :: "auth_request \<Rightarrow> string list" where
  "eligible_capabilities i = map cr_capabilityRef
     (filter (\<lambda>c. cr_status c = ''valid'' \<and> cr_eligibility c = ''eligible_prerequisite'') (aq_humanCapabilityCredentials i))"

definition accepted_packages :: "auth_request \<Rightarrow> string list" where
  "accepted_packages i = map ae_ref (filter (\<lambda>p. ae_status p = ''accepted'') (aq_agentCapabilityPackages i))"

text \<open>The loop over required references: one that is not provided is missing, with a reason.\<close>

definition require_each :: "(string \<Rightarrow> bool) \<Rightarrow> string \<Rightarrow> string list \<Rightarrow> auth_sets \<Rightarrow> auth_sets" where
  "require_each provided reason refs = fold (\<lambda>r s. if provided r then s else unsure reason (miss r s)) refs"

text \<open>Capabilities of the other kind of actor cannot be bound at all.\<close>

definition require_none :: "string \<Rightarrow> string list \<Rightarrow> auth_sets \<Rightarrow> auth_sets" where
  "require_none reason refs s = (if refs \<noteq> [] then fold miss refs (unsure reason s) else s)"

definition step_capabilities :: "auth_request \<Rightarrow> auth_sets \<Rightarrow> auth_sets" where
  "step_capabilities i s = (if aq_actorKind i = ''human''
     then require_none ''agent_capability_binding_unknown'' (aq_requiredAgentCapabilityRefs i)
       (require_each (\<lambda>r. r \<in> set (eligible_capabilities i)) ''human_capability_prerequisite_unknown'' (aq_requiredHumanCapabilityRefs i)
         (fold (verify \<circ> cr_ref) (aq_humanCapabilityCredentials i) s))
     else require_none ''human_capability_binding_unknown'' (aq_requiredHumanCapabilityRefs i)
       (require_each (\<lambda>r. r \<in> set (accepted_packages i)) ''agent_capability_prerequisite_unknown'' (aq_requiredAgentCapabilityRefs i)
         (fold (verify \<circ> ae_ref) (aq_agentCapabilityPackages i) s)))"

definition evidence_current :: "auth_request \<Rightarrow> string \<Rightarrow> bool" where
  "evidence_current i r = (case index_by ae_ref (aq_evidence i) r of None \<Rightarrow> False | Some e \<Rightarrow> ae_status e = ''current'')"

definition step_evidence :: "auth_request \<Rightarrow> auth_sets \<Rightarrow> auth_sets" where
  "step_evidence i s = require_each (evidence_current i) ''required_evidence_unknown'' (aq_requiredEvidenceRefs i)
     (fold (verify \<circ> ae_ref) (aq_evidence i) s)"

definition require_policy :: "auth_request \<Rightarrow> string \<Rightarrow> auth_sets \<Rightarrow> auth_sets" where
  "require_policy i r s = (case index_by ae_ref (aq_policies i) r of
      Some e \<Rightarrow> if ae_status e \<in> {''accepted'', ''current''} then s
        else if ae_status e \<in> {''rejected'', ''revoked''} then deny ''required_policy_denied'' (miss r s)
        else unsure ''required_policy_unknown'' (miss r s)
    | None \<Rightarrow> unsure ''required_policy_unknown'' (miss r s))"

definition step_policies :: "auth_request \<Rightarrow> auth_sets \<Rightarrow> auth_sets" where
  "step_policies i s = fold (require_policy i) (aq_requiredPolicyRefs i) (fold (verify \<circ> ae_ref) (aq_policies i) s)"

definition step_gate :: "auth_request \<Rightarrow> auth_sets \<Rightarrow> auth_sets" where
  "step_gate i s = (if aq_humanGateRequired i
     then (case aq_humanGate i of
         None \<Rightarrow> miss ''humanGate:missing'' (ask ''human_gate_required'' s)
       | Some g \<Rightarrow> if hg_state g = ''requested'' then ask ''human_gate_required'' (verify (hg_ref g) s)
           else if hg_state g \<noteq> ''approved'' then deny ''human_gate_denied'' (verify (hg_ref g) s) else verify (hg_ref g) s)
     else (case aq_humanGate i of None \<Rightarrow> s | Some g \<Rightarrow> verify (hg_ref g) s))"

definition auth_collect :: "(string \<Rightarrow> int option) \<Rightarrow> auth_request \<Rightarrow> auth_sets" where
  "auth_collect legacy i = step_gate i (step_policies i (step_evidence i (step_capabilities i (step_revocations i
     (step_delegation legacy i (step_grant legacy i no_sets))))))"

definition decision_of :: "auth_sets \<Rightarrow> string \<times> string list" where
  "decision_of s = (if as_deny s \<noteq> [] then (''deny'', sort (as_deny s))
     else if as_review s \<noteq> [] then (''needs_human_review'', sort (as_review s))
     else if as_unknown s \<noteq> [] \<or> as_missing s \<noteq> [] then (''unknown'', sort (as_unknown s))
     else (''allow'', []))"

definition valid_until :: "(string \<Rightarrow> int option) \<Rightarrow> auth_request \<Rightarrow> string option" where
  "valid_until legacy i =
    (let expiry = (\<lambda>a. case a of None \<Rightarrow> [] | Some g \<Rightarrow> (case ag_expiresAt g of None \<Rightarrow> [] | Some x \<Rightarrow> [x]));
         expiries = expiry (aq_authorityGrant i) @ (if aq_actorKind i = ''agent'' then expiry (aq_delegation i) else []);
         ms = (\<lambda>x. case date_parse legacy x of Some t \<Rightarrow> t | None \<Rightarrow> 0)
     in case sort_by (\<lambda>a b. ms a \<le> ms b) expiries of [] \<Rightarrow> None | x # _ \<Rightarrow> Some x)"

subsection \<open>The decision record\<close>

definition grant_js :: "auth_grant option \<Rightarrow> js" where
  "grant_js g = (case g of None \<Rightarrow> JNull | Some a \<Rightarrow> JObj [(''ref'', JStr (ag_ref a)), (''status'', JStr (ag_status a)),
     (''organizationRef'', JStr (ag_organizationRef a)), (''actorRef'', JStr (ag_actorRef a)), (''allowedActions'', js_strs (ag_allowedActions a)),
     (''allowedTargets'', js_strs (ag_allowedTargets a)), (''expiresAt'', js_opt (ag_expiresAt a))])"

definition entry_js :: "auth_entry \<Rightarrow> js" where
  "entry_js e = JObj [(''ref'', JStr (ae_ref e)), (''status'', JStr (ae_status e))]"

definition request_js :: "auth_request \<Rightarrow> js" where
  "request_js i = JObj [(''schema'', JStr ''execution.authorization.request.v1''), (''requestRef'', JStr (aq_requestRef i)),
     (''organizationRef'', JStr (aq_organizationRef i)), (''actorRef'', JStr (aq_actorRef i)), (''actorKind'', JStr (aq_actorKind i)),
     (''requestedActionRef'', JStr (aq_requestedActionRef i)), (''action'', JStr (aq_action i)), (''targetRef'', JStr (aq_targetRef i)),
     (''observedAt'', JStr (aq_observedAt i)),
     (''requirements'', JObj [(''requiredHumanCapabilityRefs'', js_strs (aq_requiredHumanCapabilityRefs i)),
        (''requiredAgentCapabilityRefs'', js_strs (aq_requiredAgentCapabilityRefs i)), (''requiredEvidenceRefs'', js_strs (aq_requiredEvidenceRefs i)),
        (''requiredPolicyRefs'', js_strs (aq_requiredPolicyRefs i)), (''humanGateRequired'', JBool (aq_humanGateRequired i))]),
     (''resolved'', JObj [(''authorityGrant'', grant_js (aq_authorityGrant i)), (''delegation'', grant_js (aq_delegation i)),
        (''humanCapabilityCredentials'', JArr (map (\<lambda>c. JObj [(''ref'', JStr (cr_ref c)), (''capabilityRef'', JStr (cr_capabilityRef c)),
           (''status'', JStr (cr_status c)), (''eligibility'', JStr (cr_eligibility c))]) (aq_humanCapabilityCredentials i))),
        (''agentCapabilityPackages'', JArr (map entry_js (aq_agentCapabilityPackages i))), (''evidence'', JArr (map entry_js (aq_evidence i))),
        (''policies'', JArr (map entry_js (aq_policies i))),
        (''humanGate'', (case aq_humanGate i of None \<Rightarrow> JNull | Some g \<Rightarrow> JObj [(''ref'', JStr (hg_ref g)), (''state'', JStr (hg_state g))])),
        (''revocations'', JArr (map (\<lambda>r. JObj [(''ref'', JStr (rv_ref r)), (''subjectRef'', JStr (rv_subjectRef r)), (''status'', JStr (rv_status r))])
           (aq_revocations i)))])]"

record auth_decision =
  ad_requestRef :: string
  ad_organizationRef :: string
  ad_actorRef :: string
  ad_actorKind :: string
  ad_requestedActionRef :: string
  ad_decision :: string
  ad_reasonCodes :: "string list"
  ad_verifiedPrerequisiteRefs :: "string list"
  ad_missingPrerequisiteRefs :: "string list"
  ad_observedAt :: string
  ad_validUntil :: "string option"
  ad_requestDigest :: string
  ad_decisionRef :: string
  ad_decisionEvidenceDigest :: string

definition decision_core :: "auth_decision \<Rightarrow> js" where
  "decision_core d = JObj [(''schema'', JStr ''execution.authorization.v1''), (''requestRef'', JStr (ad_requestRef d)),
     (''organizationRef'', JStr (ad_organizationRef d)), (''actorRef'', JStr (ad_actorRef d)), (''actorKind'', JStr (ad_actorKind d)),
     (''requestedActionRef'', JStr (ad_requestedActionRef d)), (''decision'', JStr (ad_decision d)), (''reasonCodes'', js_strs (ad_reasonCodes d)),
     (''verifiedPrerequisiteRefs'', js_strs (ad_verifiedPrerequisiteRefs d)), (''missingPrerequisiteRefs'', js_strs (ad_missingPrerequisiteRefs d)),
     (''observedAt'', JStr (ad_observedAt d)), (''validUntil'', js_opt (ad_validUntil d)), (''requestDigest'', JStr (ad_requestDigest d)),
     (''authorityGrantCreated'', JBool False), (''humanGateDecisionCreated'', JBool False), (''delegationCreated'', JBool False),
     (''executionPerformed'', JBool False), (''externalActionPerformed'', JBool False)]"

definition evaluateExecutionAuthorizationV1 ::
  "(string \<Rightarrow> string) \<Rightarrow> (string \<Rightarrow> string \<Rightarrow> bool) \<Rightarrow> (string \<Rightarrow> int option) \<Rightarrow> js \<Rightarrow> auth_decision res" where
  "evaluateExecutionAuthorizationV1 sha lc legacy rawInput =
    bindE (normalizeInput legacy rawInput) (\<lambda>i.
    let s = auth_collect legacy i; (decision, reasons) = decision_of s;
        d = \<lparr>ad_requestRef = aq_requestRef i, ad_organizationRef = aq_organizationRef i, ad_actorRef = aq_actorRef i,
          ad_actorKind = aq_actorKind i, ad_requestedActionRef = aq_requestedActionRef i, ad_decision = decision, ad_reasonCodes = reasons,
          ad_verifiedPrerequisiteRefs = sort (as_verified s), ad_missingPrerequisiteRefs = sort (as_missing s),
          ad_observedAt = aq_observedAt i, ad_validUntil = valid_until legacy i,
          ad_requestDigest = auth_sha256 sha lc (canonical lc (request_js i)), ad_decisionRef = [], ad_decisionEvidenceDigest = []\<rparr>;
        evidence = auth_sha256 sha lc (decision_core d)
    in Inr (d\<lparr>ad_decisionRef := ''execauth_'' @ take 24 evidence, ad_decisionEvidenceDigest := evidence\<rparr>))"

subsection \<open>When a request is allowed\<close>

definition authority_matches :: "auth_grant \<Rightarrow> auth_request \<Rightarrow> bool" where
  "authority_matches a i \<longleftrightarrow> ag_organizationRef a = aq_organizationRef i \<and> ag_actorRef a = aq_actorRef i \<and>
     aq_action i \<in> set (ag_allowedActions a) \<and> aq_targetRef i \<in> set (ag_allowedTargets a)"

definition authority_expired :: "(string \<Rightarrow> int option) \<Rightarrow> auth_grant \<Rightarrow> auth_request \<Rightarrow> bool" where
  "authority_expired legacy a i \<longleftrightarrow> (\<exists>x t. ag_expiresAt a = Some x \<and> date_parse legacy x = Some t \<and> t \<le> aq_observedAtMs i)"

definition authority_denies :: "(string \<Rightarrow> int option) \<Rightarrow> auth_grant option \<Rightarrow> auth_request \<Rightarrow> bool" where
  "authority_denies legacy g i \<longleftrightarrow> (\<exists>a. g = Some a \<and> (ag_status a \<in> {''revoked'', ''rejected'', ''expired'', ''suspended''} \<or>
     ag_status a = ''active'' \<and> (\<not> authority_matches a i \<or> authority_expired legacy a i)))"

definition authority_passes :: "(string \<Rightarrow> int option) \<Rightarrow> auth_grant option \<Rightarrow> auth_request \<Rightarrow> bool" where
  "authority_passes legacy g i \<longleftrightarrow> (\<exists>a. g = Some a \<and> ag_status a = ''active'' \<and> authority_matches a i \<and> \<not> authority_expired legacy a i)"

definition policy_status :: "auth_request \<Rightarrow> string \<Rightarrow> string option" where
  "policy_status i r = map_option ae_status (index_by ae_ref (aq_policies i) r)"

definition auth_denied :: "(string \<Rightarrow> int option) \<Rightarrow> auth_request \<Rightarrow> bool" where
  "auth_denied legacy i \<longleftrightarrow> authority_denies legacy (aq_authorityGrant i) i \<or>
     aq_actorKind i = ''agent'' \<and> authority_denies legacy (aq_delegation i) i \<or>
     (\<exists>e \<in> set (aq_revocations i). rv_status e = ''revoked'' \<and> rv_subjectRef e \<in> set (revocable_refs i)) \<or>
     (\<exists>r \<in> set (aq_requiredPolicyRefs i). policy_status i r \<in> {Some ''rejected'', Some ''revoked''}) \<or>
     aq_humanGateRequired i \<and> (\<exists>g. aq_humanGate i = Some g \<and> hg_state g \<notin> {''requested'', ''approved''})"

definition auth_pending :: "auth_request \<Rightarrow> bool" where
  "auth_pending i \<longleftrightarrow> aq_humanGateRequired i \<and> (\<forall>g. aq_humanGate i = Some g \<longrightarrow> hg_state g = ''requested'')"

definition capabilities_met :: "auth_request \<Rightarrow> bool" where
  "capabilities_met i \<longleftrightarrow> (if aq_actorKind i = ''human''
     then aq_requiredAgentCapabilityRefs i = [] \<and> set (aq_requiredHumanCapabilityRefs i) \<subseteq> set (eligible_capabilities i)
     else aq_requiredHumanCapabilityRefs i = [] \<and> set (aq_requiredAgentCapabilityRefs i) \<subseteq> set (accepted_packages i))"

definition auth_satisfied :: "(string \<Rightarrow> int option) \<Rightarrow> auth_request \<Rightarrow> bool" where
  "auth_satisfied legacy i \<longleftrightarrow> authority_passes legacy (aq_authorityGrant i) i \<and>
     (aq_actorKind i = ''agent'' \<longrightarrow> authority_passes legacy (aq_delegation i) i) \<and> capabilities_met i \<and>
     (\<forall>r \<in> set (aq_requiredEvidenceRefs i). evidence_current i r) \<and>
     (\<forall>r \<in> set (aq_requiredPolicyRefs i). policy_status i r \<in> {Some ''accepted'', Some ''current''})"

text \<open>What the steps do to the sets of reasons: \<open>pending\<close> is a missing prerequisite or an unknown.\<close>

definition lacking :: "auth_sets \<Rightarrow> bool" where
  "lacking s \<longleftrightarrow> as_unknown s \<noteq> [] \<or> as_missing s \<noteq> []"

lemma set_add_ne [simp]: "set_add x xs \<noteq> []"
  by (auto simp: set_add_def)

lemma set_adds [simp]:
  "as_deny (verify r s) = as_deny s" "as_deny (miss r s) = as_deny s" "as_deny (unsure r s) = as_deny s" "as_deny (ask r s) = as_deny s"
  "as_deny (deny r s) \<noteq> []"
  "as_review (verify r s) = as_review s" "as_review (miss r s) = as_review s" "as_review (unsure r s) = as_review s"
  "as_review (deny r s) = as_review s" "as_review (ask r s) \<noteq> []"
  "lacking (verify r s) = lacking s" "lacking (miss r s)" "lacking (unsure r s)" "lacking (ask r s) = lacking s" "lacking (deny r s) = lacking s"
  by (simp_all add: verify_def miss_def deny_def unsure_def ask_def lacking_def)

lemma fold_verify [simp]:
  "as_deny (fold (verify \<circ> f) xs s) = as_deny s" "as_review (fold (verify \<circ> f) xs s) = as_review s"
  "lacking (fold (verify \<circ> f) xs s) = lacking s"
  by (induction xs arbitrary: s) simp_all

lemma fold_miss [simp]:
  "as_deny (fold miss xs s) = as_deny s" "as_review (fold miss xs s) = as_review s" "lacking (fold miss xs s) \<longleftrightarrow> lacking s \<or> xs \<noteq> []"
  by (induction xs arbitrary: s) auto

lemma require_each_sets [simp]:
  "as_deny (require_each p reason xs s) = as_deny s" "as_review (require_each p reason xs s) = as_review s"
  "lacking (require_each p reason xs s) \<longleftrightarrow> lacking s \<or> (\<exists>x \<in> set xs. \<not> p x)"
  by (induction xs arbitrary: s) (auto simp: require_each_def)

lemma require_none_sets [simp]:
  "as_deny (require_none reason xs s) = as_deny s" "as_review (require_none reason xs s) = as_review s"
  "lacking (require_none reason xs s) \<longleftrightarrow> lacking s \<or> xs \<noteq> []"
  by (auto simp: require_none_def)

lemma authorityState_verdict:
  "fst (authorityState legacy g i p s) = ''deny'' \<longleftrightarrow> authority_denies legacy g i"
  "fst (authorityState legacy g i p s) = ''unknown'' \<longleftrightarrow> \<not> authority_denies legacy g i \<and> \<not> authority_passes legacy g i"
proof -
  have e: "(case ag_expiresAt a of None \<Rightarrow> False | Some x \<Rightarrow> (case date_parse legacy x of None \<Rightarrow> False | Some t \<Rightarrow> t \<le> aq_observedAtMs i))
     = authority_expired legacy a i" for a
    by (auto simp: authority_expired_def split: option.splits)
  show "fst (authorityState legacy g i p s) = ''deny'' \<longleftrightarrow> authority_denies legacy g i"
    "fst (authorityState legacy g i p s) = ''unknown'' \<longleftrightarrow> \<not> authority_denies legacy g i \<and> \<not> authority_passes legacy g i"
    by (cases g; auto simp: authorityState_def authority_denies_def authority_passes_def authority_matches_def e)+
qed

lemma authorityState_sets:
  "as_deny (snd (authorityState legacy g i p s)) = as_deny s" "as_review (snd (authorityState legacy g i p s)) = as_review s"
  "lacking (snd (authorityState legacy g i p s)) \<longleftrightarrow> lacking s \<or> g = None"
  by (cases g; simp add: authorityState_def)+

lemma authority_None [simp]: "\<not> authority_denies legacy None i" "\<not> authority_passes legacy None i"
  by (simp_all add: authority_denies_def authority_passes_def)

lemma with_authority_sets [simp]:
  "as_deny (with_authority legacy g i p dn un s) = [] \<longleftrightarrow> as_deny s = [] \<and> \<not> authority_denies legacy g i"
  "as_review (with_authority legacy g i p dn un s) = as_review s"
  "lacking (with_authority legacy g i p dn un s) \<longleftrightarrow> lacking s \<or> \<not> authority_denies legacy g i \<and> \<not> authority_passes legacy g i"
proof -
  obtain st s' where e: "authorityState legacy g i p s = (st, s')" by fastforce
  note v = authorityState_verdict[of legacy g i p s, unfolded e fst_conv]
  note t = authorityState_sets[of legacy g i p s, unfolded e snd_conv]
  have w: "with_authority legacy g i p dn un s = (let s'' = (if authority_denies legacy g i then deny dn s' else s')
      in if \<not> authority_denies legacy g i \<and> \<not> authority_passes legacy g i then unsure un s'' else s'')"
    unfolding with_authority_def e prod.case Let_def v ..
  have n: "g = None \<Longrightarrow> \<not> authority_denies legacy g i \<and> \<not> authority_passes legacy g i" by simp
  show "as_deny (with_authority legacy g i p dn un s) = [] \<longleftrightarrow> as_deny s = [] \<and> \<not> authority_denies legacy g i"
    "as_review (with_authority legacy g i p dn un s) = as_review s"
    "lacking (with_authority legacy g i p dn un s) \<longleftrightarrow> lacking s \<or> \<not> authority_denies legacy g i \<and> \<not> authority_passes legacy g i"
    using n by (auto simp: w t Let_def)
qed

lemma step_grant_sets [simp]:
  "as_deny (step_grant legacy i s) = [] \<longleftrightarrow> as_deny s = [] \<and> \<not> authority_denies legacy (aq_authorityGrant i) i"
  "as_review (step_grant legacy i s) = as_review s"
  "lacking (step_grant legacy i s) \<longleftrightarrow> lacking s \<or> \<not> authority_denies legacy (aq_authorityGrant i) i \<and> \<not> authority_passes legacy (aq_authorityGrant i) i"
  by (simp_all add: step_grant_def)

lemma step_delegation_sets [simp]:
  "as_deny (step_delegation legacy i s) = [] \<longleftrightarrow> as_deny s = [] \<and> \<not> (aq_actorKind i = ''agent'' \<and> authority_denies legacy (aq_delegation i) i)"
  "as_review (step_delegation legacy i s) = as_review s"
  "lacking (step_delegation legacy i s) \<longleftrightarrow> lacking s \<or>
     aq_actorKind i = ''agent'' \<and> \<not> authority_denies legacy (aq_delegation i) i \<and> \<not> authority_passes legacy (aq_delegation i) i"
  by (simp_all add: step_delegation_def)

lemma step_revocations_sets [simp]:
  "as_deny (step_revocations i s) = [] \<longleftrightarrow> as_deny s = [] \<and>
     \<not> (\<exists>e \<in> set (aq_revocations i). rv_status e = ''revoked'' \<and> rv_subjectRef e \<in> set (revocable_refs i))"
  "as_review (step_revocations i s) = as_review s" "lacking (step_revocations i s) = lacking s"
  by (auto simp: step_revocations_def Let_def list_ex_iff)

lemma step_capabilities_sets [simp]:
  "as_deny (step_capabilities i s) = as_deny s" "as_review (step_capabilities i s) = as_review s"
  "lacking (step_capabilities i s) \<longleftrightarrow> lacking s \<or> \<not> capabilities_met i"
  by (auto simp: step_capabilities_def capabilities_met_def)

lemma step_evidence_sets [simp]:
  "as_deny (step_evidence i s) = as_deny s" "as_review (step_evidence i s) = as_review s"
  "lacking (step_evidence i s) \<longleftrightarrow> lacking s \<or> \<not> (\<forall>r \<in> set (aq_requiredEvidenceRefs i). evidence_current i r)"
  by (auto simp: step_evidence_def)

lemma require_policy_sets:
  "as_deny (require_policy i r s) = [] \<longleftrightarrow> as_deny s = [] \<and> policy_status i r \<notin> {Some ''rejected'', Some ''revoked''}"
  "as_review (require_policy i r s) = as_review s"
  "lacking (require_policy i r s) \<longleftrightarrow> lacking s \<or> policy_status i r \<notin> {Some ''accepted'', Some ''current''}"
  by (cases "index_by ae_ref (aq_policies i) r"; auto simp: require_policy_def policy_status_def)+

lemma fold_policy_sets:
  "as_deny (fold (require_policy i) rs s) = [] \<longleftrightarrow> as_deny s = [] \<and> (\<forall>r \<in> set rs. policy_status i r \<notin> {Some ''rejected'', Some ''revoked''})"
  "as_review (fold (require_policy i) rs s) = as_review s"
  "lacking (fold (require_policy i) rs s) \<longleftrightarrow> lacking s \<or> (\<exists>r \<in> set rs. policy_status i r \<notin> {Some ''accepted'', Some ''current''})"
  by (induction rs arbitrary: s) (simp_all only: fold_simps list.set require_policy_sets comp_apply, auto)

lemma step_policies_sets [simp]:
  "as_deny (step_policies i s) = [] \<longleftrightarrow> as_deny s = [] \<and>
     (\<forall>r \<in> set (aq_requiredPolicyRefs i). policy_status i r \<notin> {Some ''rejected'', Some ''revoked''})"
  "as_review (step_policies i s) = as_review s"
  "lacking (step_policies i s) \<longleftrightarrow> lacking s \<or> (\<exists>r \<in> set (aq_requiredPolicyRefs i). policy_status i r \<notin> {Some ''accepted'', Some ''current''})"
  by (simp_all only: step_policies_def fold_policy_sets fold_verify)

lemma step_gate_sets [simp]:
  "as_deny (step_gate i s) = [] \<longleftrightarrow> as_deny s = [] \<and>
     \<not> (aq_humanGateRequired i \<and> (\<exists>g. aq_humanGate i = Some g \<and> hg_state g \<notin> {''requested'', ''approved''}))"
  "as_review (step_gate i s) = [] \<longleftrightarrow> as_review s = [] \<and> \<not> auth_pending i"
  "\<not> auth_pending i \<Longrightarrow> lacking (step_gate i s) \<longleftrightarrow> lacking s"
  by (cases "aq_humanGate i"; auto simp: step_gate_def auth_pending_def split: if_splits)+

lemma auth_collect_sets:
  "as_deny (auth_collect legacy i) = [] \<longleftrightarrow> \<not> auth_denied legacy i"
  "as_review (auth_collect legacy i) = [] \<longleftrightarrow> \<not> auth_pending i"
  "\<not> auth_denied legacy i \<Longrightarrow> \<not> auth_pending i \<Longrightarrow> lacking (auth_collect legacy i) \<longleftrightarrow> \<not> auth_satisfied legacy i"
proof -
  have n: "as_deny no_sets = []" "as_review no_sets = []" "lacking no_sets = False" by (simp_all add: no_sets_def lacking_def)
  show "as_deny (auth_collect legacy i) = [] \<longleftrightarrow> \<not> auth_denied legacy i"
    by (simp add: auth_collect_def auth_denied_def n)
  show "as_review (auth_collect legacy i) = [] \<longleftrightarrow> \<not> auth_pending i" by (simp add: auth_collect_def n)
  show "\<not> auth_denied legacy i \<Longrightarrow> \<not> auth_pending i \<Longrightarrow> lacking (auth_collect legacy i) \<longleftrightarrow> \<not> auth_satisfied legacy i"
    by (simp add: auth_collect_def auth_denied_def auth_satisfied_def n) blast
qed

lemma decision_of_cases:
  "fst (decision_of s) = (if as_deny s \<noteq> [] then ''deny'' else if as_review s \<noteq> [] then ''needs_human_review''
     else if lacking s then ''unknown'' else ''allow'')"
  by (simp add: decision_of_def lacking_def)

lemma evaluate_fields:
  assumes "normalizeInput legacy raw = Inr i"
  shows "\<exists>d. evaluateExecutionAuthorizationV1 sha lc legacy raw = Inr d \<and> ad_decision d = fst (decision_of (auth_collect legacy i)) \<and>
    ad_validUntil d = valid_until legacy i \<and> ad_actorRef d = aq_actorRef i \<and> ad_requestedActionRef d = aq_requestedActionRef i"
  by (simp add: evaluateExecutionAuthorizationV1_def assms Let_def split: prod.splits)

lemma evaluate_valid: "evaluateExecutionAuthorizationV1 sha lc legacy raw = Inr d \<Longrightarrow> \<exists>i. normalizeInput legacy raw = Inr i"
  by (auto simp: evaluateExecutionAuthorizationV1_def)

lemma valid_until_expiry:
  assumes "valid_until legacy i = Some x"
  shows "\<exists>a. ag_expiresAt a = Some x \<and> (aq_authorityGrant i = Some a \<or> aq_actorKind i = ''agent'' \<and> aq_delegation i = Some a)"
proof -
  define expiry where "expiry = (\<lambda>a :: auth_grant option. case a of None \<Rightarrow> [] | Some g \<Rightarrow> (case ag_expiresAt g of None \<Rightarrow> [] | Some x \<Rightarrow> [x]))"
  define ms where "ms = (\<lambda>x. case date_parse legacy x of Some t \<Rightarrow> t | None \<Rightarrow> 0)"
  define xs where "xs = expiry (aq_authorityGrant i) @ (if aq_actorKind i = ''agent'' then expiry (aq_delegation i) else [])"
  have "(case sort_by (\<lambda>a b. ms a \<le> ms b) xs of [] \<Rightarrow> None | y # _ \<Rightarrow> Some y) = Some x"
    using assms unfolding valid_until_def Let_def xs_def expiry_def ms_def .
  then have "x \<in> set (sort_by (\<lambda>a b. ms a \<le> ms b) xs)"
    by (cases "sort_by (\<lambda>a b. ms a \<le> ms b) xs") (auto simp del: set_sort_by)
  then have "x \<in> set xs" by simp
  then show ?thesis by (auto simp: xs_def expiry_def split: option.splits if_splits)
qed

text \<open>
  C33: A request that can be normalised is decided exactly: deny when an authority is
  withdrawn, foreign, out of scope or expired, a revocation applies, a required policy is
  rejected or the gate was decided against; otherwise review while a required gate is open;
  otherwise allow exactly when the grant (and an agent's delegation) is active and covers actor, action and
  target, every capability, evidence and policy requirement is met; in every other case unknown.
  An allowed request names an expiry, if any, after the instant of observation.
\<close>

theorem authorization_decision_exact:
  assumes "normalizeInput legacy raw = Inr i"
  shows "\<exists>d. evaluateExecutionAuthorizationV1 sha lc legacy raw = Inr d \<and>
    ad_decision d = (if auth_denied legacy i then ''deny'' else if auth_pending i then ''needs_human_review''
      else if auth_satisfied legacy i then ''allow'' else ''unknown'') \<and>
    (ad_decision d = ''allow'' \<longrightarrow> (\<forall>x t. ad_validUntil d = Some x \<and> date_parse legacy x = Some t \<longrightarrow> aq_observedAtMs i < t))"
proof -
  obtain d where d: "evaluateExecutionAuthorizationV1 sha lc legacy raw = Inr d" "ad_decision d = fst (decision_of (auth_collect legacy i))"
    "ad_validUntil d = valid_until legacy i" using evaluate_fields[OF assms] by blast
  have dec: "ad_decision d = (if auth_denied legacy i then ''deny'' else if auth_pending i then ''needs_human_review''
      else if auth_satisfied legacy i then ''allow'' else ''unknown'')"
    unfolding d(2) decision_of_cases using auth_collect_sets[where legacy = legacy and i = i] by auto
  have "aq_observedAtMs i < t" if "ad_decision d = ''allow''" "ad_validUntil d = Some x" "date_parse legacy x = Some t" for x t
  proof -
    have sat: "auth_satisfied legacy i" using that(1) dec by (auto split: if_splits)
    from valid_until_expiry[of legacy i x] that(2) d(3) obtain a where a: "ag_expiresAt a = Some x"
      "aq_authorityGrant i = Some a \<or> aq_actorKind i = ''agent'' \<and> aq_delegation i = Some a" by auto
    with sat have "\<not> authority_expired legacy a i" by (auto simp: auth_satisfied_def authority_passes_def)
    with a that(3) show ?thesis by (auto simp: authority_expired_def)
  qed
  with d(1) dec show ?thesis by blast
qed

subsection \<open>What is refused\<close>

definition type_errors :: "'a res \<Rightarrow> bool" where
  "type_errors m \<longleftrightarrow> (\<forall>e. m = Inl e \<longrightarrow> (\<exists>t. e = TypeError t))"

named_theorems type_errors \<open>computations that only throw a TypeError\<close>

lemma type_errors_basic [type_errors]: "type_errors (Inr x)" "type_errors (Inl (TypeError t))"
  by (simp_all add: type_errors_def)

lemma type_errors_bindE [type_errors]: "type_errors m \<Longrightarrow> (\<And>x. m = Inr x \<Longrightarrow> type_errors (f x)) \<Longrightarrow> type_errors (bindE m f)"
  by (cases m) (auto simp: type_errors_def)

lemma type_errors_if [type_errors]: "type_errors a \<Longrightarrow> type_errors b \<Longrightarrow> type_errors (if c then a else b)"
  by simp

lemma type_errors_mapE [type_errors]: "(\<And>x. type_errors (f x)) \<Longrightarrow> type_errors (mapE f xs)"
  by (induction xs) (auto intro!: type_errors simp del: mapE_eq_Inr)

lemma type_errors_as_array [type_errors]: "type_errors (as_array v (TypeError t))"
  by (cases v) (auto simp: as_array_def type_errors_def)

lemma type_errors_strictKeys [type_errors]: "type_errors (strictKeys v a l)"
  by (cases v) (auto simp: strictKeys_def type_errors_def Let_def)

lemma type_errors_text [type_errors]: "type_errors (auth_text v l n)"
  by (cases v) (auto simp: auth_text_def type_errors_def)

lemma type_errors_iso [type_errors]: "type_errors (auth_iso legacy v l)"
  unfolding auth_iso_def by (intro type_errors) (auto intro: type_errors split: option.splits)

lemma type_errors_uniqueRefs [type_errors]: "type_errors (uniqueRefs v l)"
  unfolding uniqueRefs_def by (intro type_errors) (auto intro!: type_errors split: prod.splits)

lemma type_errors_reject: "type_errors (rejectSelfAuthorizationKeys v p)" "type_errors (reject_items i vs p)" "type_errors (reject_entries kvs p)"
  by (induction v p and i vs p and kvs p rule: rejectSelfAuthorizationKeys_reject_items_reject_entries.induct)
    (auto intro!: type_errors)

lemmas type_errors_reject1 [type_errors] = type_errors_reject(1)

lemma type_errors_authority [type_errors]: "type_errors (normalizeAuthority legacy v l)"
  unfolding normalizeAuthority_def by (intro type_errors)

lemma type_errors_list [type_errors]: "(\<And>v l. type_errors (mapper v l)) \<Longrightarrow> type_errors (normalizeList vs ks l mapper)"
  unfolding normalizeList_def by (intro type_errors) (auto intro!: type_errors split: prod.splits)

lemma type_errors_entries [type_errors]: "type_errors (auth_credential_of v l)" "type_errors (auth_entry_of v l)"
  "type_errors (auth_revocation_of v l)" "type_errors (auth_gate_of v)"
  unfolding auth_credential_of_def auth_entry_of_def auth_revocation_of_def auth_gate_of_def by (intro type_errors)+

lemma type_errors_bool [type_errors]: "type_errors (case v of JBool b \<Rightarrow> Inr b | _ \<Rightarrow> Inl (TypeError t))"
  by (cases v) (auto simp: type_errors_def)

lemma type_errors_normalize [type_errors]: "type_errors (normalizeInput legacy raw)"
  unfolding normalizeInput_def Let_def by (intro type_errors)

lemma type_errors_evaluate: "type_errors (evaluateExecutionAuthorizationV1 sha lc legacy raw)"
  unfolding evaluateExecutionAuthorizationV1_def Let_def by (auto intro!: type_errors split: prod.splits)

lemma rejectSelf_iff:
  "rejectSelfAuthorizationKeys v p = Inr u \<longleftrightarrow> list_all (\<lambda>k. k \<notin> set FORBIDDEN_INPUT_KEYS) (deep_keys v)"
  "reject_items i vs p = Inr u \<longleftrightarrow> list_all (\<lambda>v. list_all (\<lambda>k. k \<notin> set FORBIDDEN_INPUT_KEYS) (deep_keys v)) vs"
  "reject_entries kvs p = Inr u \<longleftrightarrow> list_all (\<lambda>(k, v). k \<notin> set FORBIDDEN_INPUT_KEYS \<and> list_all (\<lambda>k. k \<notin> set FORBIDDEN_INPUT_KEYS) (deep_keys v)) kvs"
proof (induction v p and i vs p and kvs p rule: rejectSelfAuthorizationKeys_reject_items_reject_entries.induct)
  case (1 vs p)
  then show ?case by (auto simp: list_all_iff)
next
  case (2 kvs p)
  then show ?case by (auto simp: list_all_iff split: prod.splits)
qed auto

lemma strictKeys_Inr: "strictKeys v allowed l = Inr u \<longleftrightarrow> (\<exists>kvs. v = JObj kvs \<and> set (map fst kvs) \<subseteq> set allowed)"
  by (cases v) (auto simp: strictKeys_def Let_def filter_empty_conv)

text \<open>
  The objects of a request whose fields are listed: the request itself, its requirements and
  resolved authority, the grant, the delegation, the human gate, and every element of the lists
  of credentials, packages, evidence, policies and revocations.
\<close>

definition elements :: "js \<Rightarrow> js list" where
  "elements v = (case v of JArr vs \<Rightarrow> vs | _ \<Rightarrow> [])"

definition request_parts :: "js \<Rightarrow> (js \<times> string list) list" where
  "request_parts raw = (let resolved = field raw ''resolved'' in
     [(raw, TOP_LEVEL_KEYS), (field raw ''requirements'', REQUIREMENT_KEYS), (resolved, RESOLVED_KEYS),
      (field resolved ''authorityGrant'', AUTHORITY_KEYS), (field resolved ''delegation'', AUTHORITY_KEYS),
      (field resolved ''humanGate'', HUMAN_GATE_KEYS)] @
     map (\<lambda>v. (v, CREDENTIAL_KEYS)) (elements (field resolved ''humanCapabilityCredentials'')) @
     map (\<lambda>v. (v, PACKAGE_KEYS)) (elements (field resolved ''agentCapabilityPackages'')) @
     map (\<lambda>v. (v, EVIDENCE_KEYS)) (elements (field resolved ''evidence'')) @
     map (\<lambda>v. (v, POLICY_KEYS)) (elements (field resolved ''policies'')) @
     map (\<lambda>v. (v, REVOCATION_KEYS)) (elements (field resolved ''revocations'')))"

definition only_fields :: "js \<times> string list \<Rightarrow> bool" where
  "only_fields p \<longleftrightarrow> (\<forall>kvs. fst p = JObj kvs \<longrightarrow> set (map fst kvs) \<subseteq> set (snd p))"

lemma strictKeys_only: "strictKeys v allowed l = Inr u \<Longrightarrow> only_fields (v, allowed)"
  by (auto simp: strictKeys_Inr only_fields_def)

lemma nullish_only: "nullish v \<Longrightarrow> only_fields (v, allowed)"
  by (auto simp: only_fields_def)

lemma normalizeAuthority_only: "normalizeAuthority legacy v l = Inr x \<Longrightarrow> only_fields (v, AUTHORITY_KEYS)"
  unfolding normalizeAuthority_def by (auto split: if_splits intro: nullish_only strictKeys_only)

lemma auth_gate_only: "auth_gate_of v = Inr x \<Longrightarrow> only_fields (v, HUMAN_GATE_KEYS)"
  unfolding auth_gate_of_def by (auto split: if_splits intro: nullish_only strictKeys_only)

lemma mapE_each: "mapE f xs = Inr ys \<Longrightarrow> x \<in> set xs \<Longrightarrow> \<exists>y. f x = Inr y"
  by (auto simp: list_all2_conv_all_nth in_set_conv_nth)

lemma normalizeList_only:
  assumes "normalizeList vs ks l mapper = Inr xs"
  shows "list_all only_fields (map (\<lambda>v. (v, ks)) (elements vs))"
proof -
  from assms obtain us where vs: "vs = JArr us"
    and m: "mapE (\<lambda>(i, v). bindE (strictKeys v ks (indexed l i)) (\<lambda>_. mapper v (indexed l i))) (enumerate 0 us) = Inr xs"
    by (auto simp: normalizeList_def as_array_def simp del: mapE_eq_Inr split: js.splits)
  have "only_fields (v, ks)" if "v \<in> set us" for v
  proof -
    from that obtain i where "i < length us" "us ! i = v" by (auto simp: in_set_conv_nth)
    then have "(i, v) \<in> set (enumerate 0 us)" by (simp add: in_set_enumerate_eq)
    with mapE_each[OF m] obtain y where "bindE (strictKeys v ks (indexed l i)) (\<lambda>_. mapper v (indexed l i)) = Inr y" by fastforce
    then show ?thesis by (auto intro: strictKeys_only)
  qed
  then show ?thesis by (simp add: vs elements_def list_all_iff)
qed

lemma normalizeInput_strict:
  assumes "normalizeInput legacy raw = Inr i"
  shows "rejectSelfAuthorizationKeys raw ''input'' = Inr ()" and "list_all only_fields (request_parts raw)"
proof -
  let ?r = "field raw ''resolved''"
  note run = assms[unfolded normalizeInput_def Let_def bindE_eq_Inr guard_eq_Inr]
  from run obtain u1 u2 where u: "rejectSelfAuthorizationKeys raw ''input'' = Inr u1" "strictKeys raw TOP_LEVEL_KEYS ''input'' = Inr u2" by blast
  then show "rejectSelfAuthorizationKeys raw ''input'' = Inr ()" by simp
  from run obtain u3 u4 where w: "strictKeys (field raw ''requirements'') REQUIREMENT_KEYS ''requirements'' = Inr u3"
    "strictKeys ?r RESOLVED_KEYS ''resolved'' = Inr u4" by blast
  from run obtain x1 x2 x3 where x: "normalizeAuthority legacy (field ?r ''authorityGrant'') ''resolved.authorityGrant'' = Inr x1"
    "normalizeAuthority legacy (field ?r ''delegation'') ''resolved.delegation'' = Inr x2" "auth_gate_of (field ?r ''humanGate'') = Inr x3" by blast
  from run obtain y1 y2 y3 y4 y5 where y:
    "normalizeList (field ?r ''humanCapabilityCredentials'') CREDENTIAL_KEYS ''resolved.humanCapabilityCredentials'' auth_credential_of = Inr y1"
    "normalizeList (field ?r ''agentCapabilityPackages'') PACKAGE_KEYS ''resolved.agentCapabilityPackages'' auth_entry_of = Inr y2"
    "normalizeList (field ?r ''evidence'') EVIDENCE_KEYS ''resolved.evidence'' auth_entry_of = Inr y3"
    "normalizeList (field ?r ''policies'') POLICY_KEYS ''resolved.policies'' auth_entry_of = Inr y4"
    "normalizeList (field ?r ''revocations'') REVOCATION_KEYS ''resolved.revocations'' auth_revocation_of = Inr y5" by blast
  show "list_all only_fields (request_parts raw)"
    using strictKeys_only[OF u(2)] strictKeys_only[OF w(1)] strictKeys_only[OF w(2)] normalizeAuthority_only[OF x(1)]
      normalizeAuthority_only[OF x(2)] auth_gate_only[OF x(3)] y[THEN normalizeList_only]
    by (simp add: request_parts_def Let_def)
qed

text \<open>
  C34: The evaluation answers or throws a TypeError and nothing else, and it throws when
  the request, at any depth, carries a field that claims its own authorisation, and when any
  object of the request has a field outside the ones known for it: the request, its requirements,
  its resolved authority, the grant, the delegation, the human gate, or any credential, package,
  evidence, policy or revocation in its lists.
\<close>

theorem self_authorization_is_refused:
  shows "((\<exists>d. evaluateExecutionAuthorizationV1 sha lc legacy raw = Inr d) \<or> (\<exists>m. evaluateExecutionAuthorizationV1 sha lc legacy raw = Inl (TypeError m))) \<and>
    (k \<in> set (deep_keys raw) \<and> k \<in> set FORBIDDEN_INPUT_KEYS \<longrightarrow> (\<exists>m. evaluateExecutionAuthorizationV1 sha lc legacy raw = Inl (TypeError m))) \<and>
    ((JObj kvs, allowed) \<in> set (request_parts raw) \<and> k \<in> set (map fst kvs) \<and> k \<notin> set allowed \<longrightarrow>
      (\<exists>m. evaluateExecutionAuthorizationV1 sha lc legacy raw = Inl (TypeError m)))"
proof (intro conjI impI)
  show t: "(\<exists>d. evaluateExecutionAuthorizationV1 sha lc legacy raw = Inr d) \<or> (\<exists>m. evaluateExecutionAuthorizationV1 sha lc legacy raw = Inl (TypeError m))"
    using type_errors_evaluate[of sha lc legacy raw] by (cases "evaluateExecutionAuthorizationV1 sha lc legacy raw") (auto simp: type_errors_def)
  have ok: "rejectSelfAuthorizationKeys raw ''input'' = Inr () \<and> list_all only_fields (request_parts raw)"
    if "\<nexists>m. evaluateExecutionAuthorizationV1 sha lc legacy raw = Inl (TypeError m)"
    using that t evaluate_valid normalizeInput_strict by blast
  show "\<exists>m. evaluateExecutionAuthorizationV1 sha lc legacy raw = Inl (TypeError m)" if "k \<in> set (deep_keys raw) \<and> k \<in> set FORBIDDEN_INPUT_KEYS"
    using ok that rejectSelf_iff(1)[of raw "''input''" "()"] by (auto simp: list_all_iff)
  show "\<exists>m. evaluateExecutionAuthorizationV1 sha lc legacy raw = Inl (TypeError m)"
    if "(JObj kvs, allowed) \<in> set (request_parts raw) \<and> k \<in> set (map fst kvs) \<and> k \<notin> set allowed"
  proof (rule ccontr)
    assume "\<nexists>m. evaluateExecutionAuthorizationV1 sha lc legacy raw = Inl (TypeError m)"
    from ok[OF this] that have "only_fields (JObj kvs, allowed)" by (auto simp only: list_all_iff)
    then have "set (map fst kvs) \<subseteq> set allowed" by (simp add: only_fields_def)
    with that show False by blast
  qed
qed

definition sample_auth_input :: js where
  "sample_auth_input = JObj [(''schema'', JStr ''execution.authorization.request.v1''), (''requestRef'', JStr ''r''), (''organizationRef'', JStr ''g''),
     (''actorRef'', JStr ''u''), (''actorKind'', JStr ''human''), (''requestedActionRef'', JStr ''q''), (''action'', JStr ''run''), (''targetRef'', JStr ''t''),
     (''observedAt'', JStr ''2026-03-01T00:00:00.000Z''),
     (''requirements'', JObj [(''requiredHumanCapabilityRefs'', JArr []), (''requiredAgentCapabilityRefs'', JArr []), (''requiredEvidenceRefs'', JArr []),
        (''requiredPolicyRefs'', JArr []), (''humanGateRequired'', JBool False)]),
     (''resolved'', JObj [(''authorityGrant'', JObj [(''ref'', JStr ''k''), (''status'', JStr ''active''), (''organizationRef'', JStr ''g''), (''actorRef'', JStr ''u''),
         (''allowedActions'', JArr [JStr ''run'']), (''allowedTargets'', JArr [JStr ''t''])]), (''humanCapabilityCredentials'', JArr []),
        (''agentCapabilityPackages'', JArr []), (''evidence'', JArr []), (''policies'', JArr []), (''revocations'', JArr [])])]"

definition sample_auth_request :: auth_request where
  "sample_auth_request = \<lparr>aq_requestRef = ''r'', aq_organizationRef = ''g'', aq_actorRef = ''u'', aq_actorKind = ''human'', aq_requestedActionRef = ''q'',
     aq_action = ''run'', aq_targetRef = ''t'', aq_observedAt = ''2026-03-01T00:00:00.000Z'', aq_observedAtMs = 1772323200000,
     aq_requiredHumanCapabilityRefs = [], aq_requiredAgentCapabilityRefs = [], aq_requiredEvidenceRefs = [], aq_requiredPolicyRefs = [],
     aq_humanGateRequired = False,
     aq_authorityGrant = Some \<lparr>ag_ref = ''k'', ag_status = ''active'', ag_organizationRef = ''g'', ag_actorRef = ''u'', ag_allowedActions = [''run''],
       ag_allowedTargets = [''t''], ag_expiresAt = None\<rparr>,
     aq_delegation = None, aq_humanCapabilityCredentials = [], aq_agentCapabilityPackages = [], aq_evidence = [], aq_policies = [],
     aq_humanGate = None, aq_revocations = []\<rparr>"

lemma sample_auth_normalized: "normalizeInput (\<lambda>_. None) sample_auth_input = Inr sample_auth_request"
proof -
  have k: "rejectSelfAuthorizationKeys sample_auth_input ''input'' = Inr ()" by code_simp
  have s: "strictKeys sample_auth_input TOP_LEVEL_KEYS ''input'' = Inr ()"
    "strictKeys (field sample_auth_input ''requirements'') REQUIREMENT_KEYS ''requirements'' = Inr ()"
    "strictKeys (field sample_auth_input ''resolved'') RESOLVED_KEYS ''resolved'' = Inr ()"
    "normalizeAuthority (\<lambda>_. None) (field (field sample_auth_input ''resolved'') ''authorityGrant'') ''resolved.authorityGrant'' = Inr (aq_authorityGrant sample_auth_request)"
    by code_simp+
  have d: "auth_iso (\<lambda>_. None) (JStr ''2026-03-01T00:00:00.000Z'') ''observedAt'' = Inr (''2026-03-01T00:00:00.000Z'', 1772323200000)" by code_simp
  have t: "auth_text (JStr ''r'') l 300 = Inr ''r''" "auth_text (JStr ''g'') l 300 = Inr ''g''" "auth_text (JStr ''u'') l 300 = Inr ''u''"
    "auth_text (JStr ''q'') l 300 = Inr ''q''" "auth_text (JStr ''run'') l 160 = Inr ''run''" "auth_text (JStr ''t'') l 300 = Inr ''t''" for l
    by (simp_all add: auth_text_def trim_js_def is_space_def ccode_def)
  have f: "field sample_auth_input ''schema'' = JStr ''execution.authorization.request.v1''" "field sample_auth_input ''observedAt'' = JStr ''2026-03-01T00:00:00.000Z''"
    "field sample_auth_input ''actorKind'' = JStr ''human''" "field sample_auth_input ''requestRef'' = JStr ''r''" "field sample_auth_input ''organizationRef'' = JStr ''g''"
    "field sample_auth_input ''actorRef'' = JStr ''u''" "field sample_auth_input ''requestedActionRef'' = JStr ''q''" "field sample_auth_input ''action'' = JStr ''run''"
    "field sample_auth_input ''targetRef'' = JStr ''t''" "field (field sample_auth_input ''requirements'') ''humanGateRequired'' = JBool False"
    "field (field sample_auth_input ''requirements'') ''requiredHumanCapabilityRefs'' = JArr []" "field (field sample_auth_input ''requirements'') ''requiredAgentCapabilityRefs'' = JArr []"
    "field (field sample_auth_input ''requirements'') ''requiredEvidenceRefs'' = JArr []" "field (field sample_auth_input ''requirements'') ''requiredPolicyRefs'' = JArr []"
    "field (field sample_auth_input ''resolved'') ''humanCapabilityCredentials'' = JArr []" "field (field sample_auth_input ''resolved'') ''agentCapabilityPackages'' = JArr []"
    "field (field sample_auth_input ''resolved'') ''evidence'' = JArr []" "field (field sample_auth_input ''resolved'') ''policies'' = JArr []"
    "field (field sample_auth_input ''resolved'') ''revocations'' = JArr []" "field (field sample_auth_input ''resolved'') ''humanGate'' = JUndef"
    "field (field sample_auth_input ''resolved'') ''delegation'' = JUndef"
    by (simp_all add: sample_auth_input_def)
  have u: "uniqueRefs (JArr []) l = Inr []" "normalizeList (JArr []) ks l m = Inr []" for l ks and m :: "js \<Rightarrow> string \<Rightarrow> 'a res"
    by (simp_all add: uniqueRefs_def normalizeList_def as_array_def del: bindE_eq_Inr mapE_eq_Inr)
  show ?thesis
    unfolding normalizeInput_def Let_def k s bindE_Inr f d t u
    by (simp add: includes_str_def auth_gate_of_def normalizeAuthority_def as_array_def uniqueRefs_def normalizeList_def sample_auth_request_def
        del: bindE_eq_Inr mapE_eq_Inr)
qed

theorem authorization_decision_exact_witness:
  "\<exists>d. evaluateExecutionAuthorizationV1 (\<lambda>_. ''0'') (\<lambda>_ _. True) (\<lambda>_. None) sample_auth_input = Inr d \<and> ad_decision d = ''allow''"
proof -
  have "\<not> auth_denied (\<lambda>_. None) sample_auth_request" "\<not> auth_pending sample_auth_request" "auth_satisfied (\<lambda>_. None) sample_auth_request"
    by (simp_all add: sample_auth_request_def auth_denied_def auth_pending_def auth_satisfied_def authority_denies_def authority_passes_def
        authority_matches_def authority_expired_def capabilities_met_def)
  with authorization_decision_exact[OF sample_auth_normalized, of "\<lambda>_. ''0''" "\<lambda>_ _. True"] show ?thesis by auto
qed

theorem self_authorization_is_refused_witness:
  "(\<exists>m. evaluateExecutionAuthorizationV1 (\<lambda>_. ''0'') (\<lambda>_ _. True) (\<lambda>_. None) (JObj [(''resolved'', JArr [JObj [(''force'', JBool True)]])]) = Inl (TypeError m)) \<and>
   (\<exists>m. evaluateExecutionAuthorizationV1 (\<lambda>_. ''0'') (\<lambda>_ _. True) (\<lambda>_. None)
      (JObj [(''resolved'', JObj [(''policies'', JArr [JObj [(''colour'', JNull)]])])]) = Inl (TypeError m))"
proof
  show "\<exists>m. evaluateExecutionAuthorizationV1 (\<lambda>_. ''0'') (\<lambda>_ _. True) (\<lambda>_. None) (JObj [(''resolved'', JArr [JObj [(''force'', JBool True)]])]) = Inl (TypeError m)"
    using self_authorization_is_refused[where k = "''force''" and raw = "JObj [(''resolved'', JArr [JObj [(''force'', JBool True)]])]"]
    by (simp add: FORBIDDEN_INPUT_KEYS_def)
  let ?raw = "JObj [(''resolved'', JObj [(''policies'', JArr [JObj [(''colour'', JNull)]])])]"
  have "(JObj [(''colour'', JNull)], POLICY_KEYS) \<in> set (request_parts ?raw)"
    by (simp add: request_parts_def elements_def Let_def)
  then show "\<exists>m. evaluateExecutionAuthorizationV1 (\<lambda>_. ''0'') (\<lambda>_ _. True) (\<lambda>_. None) ?raw = Inl (TypeError m)"
    using self_authorization_is_refused[where raw = ?raw and allowed = POLICY_KEYS and k = "''colour''" and kvs = "[(''colour'', JNull)]"]
    by (simp add: POLICY_KEYS_def)
qed

end
