(* ===== verification/OperationGrants.thy ===== *)
theory OperationGrants
  imports JsDate Json
begin

text \<open>
  Operation grants and their ledger (\<open>src/authorization/execution-operation-grant-v1.cjs\<close>,
  \<open>src/authorization/execution-operation-grant-ledger.cjs\<close>).  A consumption reads the grant,
  awaits the reader of source approvals and then writes the grant, so it is two steps here:
  \<open>consume_begin\<close> up to the await and \<open>consume_finish\<close> with the awaited approval.
\<close>

subsection \<open>Grants\<close>

definition ref_char :: "char \<Rightarrow> bool" where
  "ref_char c = (is_alnum c \<or> c \<in> set ''._:@/-'')"

definition REF_RE :: "string \<Rightarrow> bool" where
  "REF_RE s = (case s of [] \<Rightarrow> False | c # cs \<Rightarrow> is_alnum c \<and> list_all ref_char cs \<and> 1 \<le> length cs \<and> length cs \<le> 239)"

definition DIGEST_RE :: "string \<Rightarrow> bool" where
  "DIGEST_RE s = (take 7 s = ''sha256:'' \<and> length s = 71 \<and>
     list_all (\<lambda>c. is_digit c \<or> (97 \<le> ccode c \<and> ccode c \<le> 102)) (drop 7 s))"

definition grant_ref :: "js \<Rightarrow> string \<Rightarrow> string res" where
  "grant_ref value label = (case value of
      JStr s \<Rightarrow> if REF_RE (trim_js s) then Inr (trim_js s) else Inl (TypeError (label @ '' must be an opaque ref''))
    | _ \<Rightarrow> Inl (TypeError (label @ '' must be an opaque ref'')))"

definition grant_sha :: "js \<Rightarrow> string \<Rightarrow> string res" where
  "grant_sha value label = (case value of
      JStr s \<Rightarrow> if DIGEST_RE s then Inr s else Inl (TypeError (label @ '' must be sha256 digest''))
    | _ \<Rightarrow> Inl (TypeError (label @ '' must be sha256 digest'')))"

definition grant_instant :: "(string \<Rightarrow> int option) \<Rightarrow> js \<Rightarrow> string \<Rightarrow> string res" where
  "grant_instant legacy value label = (case value of
      JStr s \<Rightarrow> if CHR ''T'' \<in> set s \<and> date_parse legacy s \<noteq> None then Inr s else Inl (TypeError (label @ '' must be ISO instant''))
    | _ \<Rightarrow> Inl (TypeError (label @ '' must be ISO instant'')))"

text \<open>\<open>Date.parse(a) <= Date.parse(b)\<close>, false when either is no instant.\<close>

definition not_after :: "(string \<Rightarrow> int option) \<Rightarrow> string \<Rightarrow> string \<Rightarrow> bool" where
  "not_after legacy a b = (case (date_parse legacy a, date_parse legacy b) of (Some x, Some y) \<Rightarrow> x \<le> y | _ \<Rightarrow> False)"

definition GRANT_STATUSES :: "string list" where
  "GRANT_STATUSES = [''active'', ''revoked'', ''expired'', ''exhausted'']"

record operation_grant =
  og_grantRef :: string
  og_sourceApprovalRef :: string
  og_organizationRef :: string
  og_actorRef :: string
  og_automationRef :: string
  og_jobRef :: string
  og_operationRef :: string
  og_targetRef :: string
  og_commandDigest :: string
  og_cwdDigest :: string
  og_envDigest :: string
  og_configDigest :: string
  og_capabilityDigest :: string
  og_issuedAt :: string
  og_expiresAt :: string
  og_maxUses :: int
  og_uses :: int
  og_status :: string
  og_revokedAt :: "string option"

definition grant_limits :: "js \<Rightarrow> (int \<times> int) res" where
  "grant_limits value =
    bindE (case field value ''maxUses'' of JNum n \<Rightarrow> if n < 1 then Inl (Error ''maxUses must be at least one'') else Inr n
           | _ \<Rightarrow> Inl (Error ''maxUses must be at least one'')) (\<lambda>maxUses.
    bindE (case field value ''uses'' of JNum n \<Rightarrow> if n < 0 \<or> n > maxUses then Inl (Error ''uses is outside maxUses'') else Inr n
           | _ \<Rightarrow> Inl (Error ''uses is outside maxUses'')) (\<lambda>uses. Inr (maxUses, uses)))"

definition grant_record :: "(string \<Rightarrow> int option) \<Rightarrow> js \<Rightarrow> string \<Rightarrow> string \<Rightarrow> int \<Rightarrow> int \<Rightarrow> operation_grant res" where
  "grant_record legacy value issuedAt expiresAt maxUses uses =
     bindE (grant_ref (field value ''grantRef'') ''grantRef'') (\<lambda>grantRef.
     bindE (grant_ref (field value ''sourceApprovalRef'') ''sourceApprovalRef'') (\<lambda>sourceApprovalRef.
     bindE (grant_ref (field value ''organizationRef'') ''organizationRef'') (\<lambda>organizationRef.
     bindE (grant_ref (field value ''actorRef'') ''actorRef'') (\<lambda>actorRef.
     bindE (grant_ref (field value ''automationRef'') ''automationRef'') (\<lambda>automationRef.
     bindE (grant_ref (field value ''jobRef'') ''jobRef'') (\<lambda>jobRef.
     bindE (grant_ref (field value ''operationRef'') ''operationRef'') (\<lambda>operationRef.
     bindE (grant_ref (field value ''targetRef'') ''targetRef'') (\<lambda>targetRef.
     bindE (grant_sha (field value ''commandDigest'') ''commandDigest'') (\<lambda>commandDigest.
     bindE (grant_sha (field value ''cwdDigest'') ''cwdDigest'') (\<lambda>cwdDigest.
     bindE (grant_sha (field value ''envDigest'') ''envDigest'') (\<lambda>envDigest.
     bindE (grant_sha (field value ''configDigest'') ''configDigest'') (\<lambda>configDigest.
     bindE (grant_sha (field value ''capabilityDigest'') ''capabilityDigest'') (\<lambda>capabilityDigest.
     bindE (if nullish (field value ''revokedAt'') then Inr None
            else bindE (grant_instant legacy (field value ''revokedAt'') ''revokedAt'') (\<lambda>t. Inr (Some t))) (\<lambda>revokedAt.
     Inr \<lparr>og_grantRef = grantRef, og_sourceApprovalRef = sourceApprovalRef, og_organizationRef = organizationRef, og_actorRef = actorRef,
       og_automationRef = automationRef, og_jobRef = jobRef, og_operationRef = operationRef, og_targetRef = targetRef,
       og_commandDigest = commandDigest, og_cwdDigest = cwdDigest, og_envDigest = envDigest, og_configDigest = configDigest,
       og_capabilityDigest = capabilityDigest, og_issuedAt = issuedAt, og_expiresAt = expiresAt, og_maxUses = maxUses, og_uses = uses,
       og_status = to_string (field value ''status''), og_revokedAt = revokedAt\<rparr>))))))))))))))"

definition normalizeOperationGrant :: "(string \<Rightarrow> int option) \<Rightarrow> js \<Rightarrow> operation_grant res" where
  "normalizeOperationGrant legacy value =
    (if \<not> plain_object value then Inl (TypeError ''operation grant must be an object'')
     else if field value ''schema'' \<noteq> JStr ''execution.operation-grant.v1'' then Inl (Error ''unsupported operation grant schema'')
     else bindE (grant_instant legacy (field value ''issuedAt'') ''issuedAt'') (\<lambda>issuedAt.
     bindE (grant_instant legacy (field value ''expiresAt'') ''expiresAt'') (\<lambda>expiresAt.
     if not_after legacy expiresAt issuedAt then Inl (Error ''expiresAt must be after issuedAt'')
     else bindE (grant_limits value) (\<lambda>(maxUses, uses).
     if \<not> includes_str GRANT_STATUSES (field value ''status'') then Inl (Error ''unsupported operation grant status'')
     else grant_record legacy value issuedAt expiresAt maxUses uses))))"

definition createOperationGrant :: "(string \<Rightarrow> int option) \<Rightarrow> js \<Rightarrow> operation_grant res" where
  "createOperationGrant legacy input =
    bindE (fieldE input ''uses'') (\<lambda>uses.
    normalizeOperationGrant legacy (with_fields input [(''schema'', JStr ''execution.operation-grant.v1''), (''uses'', coalesce uses (JNum 0)),
      (''revokedAt'', coalesce (field input ''revokedAt'') JNull)]))"

definition grant_obj :: "operation_grant \<Rightarrow> js" where
  "grant_obj g = JObj [(''schema'', JStr ''execution.operation-grant.v1''), (''grantRef'', JStr (og_grantRef g)),
     (''sourceApprovalRef'', JStr (og_sourceApprovalRef g)), (''organizationRef'', JStr (og_organizationRef g)), (''actorRef'', JStr (og_actorRef g)),
     (''automationRef'', JStr (og_automationRef g)), (''jobRef'', JStr (og_jobRef g)), (''operationRef'', JStr (og_operationRef g)),
     (''targetRef'', JStr (og_targetRef g)), (''commandDigest'', JStr (og_commandDigest g)), (''cwdDigest'', JStr (og_cwdDigest g)),
     (''envDigest'', JStr (og_envDigest g)), (''configDigest'', JStr (og_configDigest g)), (''capabilityDigest'', JStr (og_capabilityDigest g)),
     (''issuedAt'', JStr (og_issuedAt g)), (''expiresAt'', JStr (og_expiresAt g)), (''maxUses'', JNum (og_maxUses g)), (''uses'', JNum (og_uses g)),
     (''status'', JStr (og_status g)), (''revokedAt'', js_opt (og_revokedAt g))]"

definition MATCHED_FIELDS :: "string list" where
  "MATCHED_FIELDS = [''organizationRef'', ''actorRef'', ''automationRef'', ''jobRef'', ''operationRef'', ''targetRef'', ''commandDigest'',
     ''cwdDigest'', ''envDigest'', ''configDigest'', ''capabilityDigest'']"

definition camel_words :: "string \<Rightarrow> string" where
  "camel_words s = concat (map (\<lambda>c. if is_upper c then [CHR '' '', ascii_lower c] else [c]) s)"

definition operationGrantUseDigest :: "(string \<Rightarrow> string) \<Rightarrow> operation_grant \<Rightarrow> js \<Rightarrow> string" where
  "operationGrantUseDigest sha g invocation =
    digest sha (JObj [(''grantRef'', JStr (og_grantRef g)), (''invocation'', stableValue invocation)])"

record grant_match =
  gm_grantRef :: string
  gm_sourceApprovalRef :: string
  gm_useDigest :: string

definition assertOperationGrantMatches ::
  "(string \<Rightarrow> string) \<Rightarrow> (string \<Rightarrow> int option) \<Rightarrow> operation_grant \<Rightarrow> js \<Rightarrow> grant_match res" where
  "assertOperationGrantMatches sha legacy grant invocation =
    bindE (normalizeOperationGrant legacy (grant_obj grant)) (\<lambda>value.
    bindE (mapE (\<lambda>f. bindE (fieldE invocation f) (\<lambda>v.
        if field (grant_obj value) f \<noteq> v then Inl (Error (''grant '' @ camel_words f @ '' drift'')) else Inr ())) MATCHED_FIELDS) (\<lambda>_.
    Inr \<lparr>gm_grantRef = og_grantRef value, gm_sourceApprovalRef = og_sourceApprovalRef value,
      gm_useDigest = operationGrantUseDigest sha value invocation\<rparr>))"

subsection \<open>The ledger\<close>

type_synonym ledger = "(string, operation_grant) jsmap"

definition ledger_put :: "(string \<Rightarrow> int option) \<Rightarrow> js \<Rightarrow> (ledger, operation_grant) act" where
  "ledger_put legacy grant =
    bindS (liftS (normalizeOperationGrant legacy grant)) (\<lambda>value.
    bindS (modifyS (mset_at (og_grantRef value) value)) (\<lambda>_. returnS value))"

definition ledger_get :: "string \<Rightarrow> (ledger, operation_grant) act" where
  "ledger_get grantRef m = (case mget m grantRef of None \<Rightarrow> (m, Inl (Error ''grant missing'')) | Some g \<Rightarrow> (m, Inr g))"

text \<open>\<open>clock\<close> is the instant the ledger's clock answers, the default of \<open>at\<close>.\<close>

definition ledger_revoke :: "(string \<Rightarrow> int option) \<Rightarrow> string \<Rightarrow> string \<Rightarrow> js \<Rightarrow> (ledger, operation_grant) act" where
  "ledger_revoke legacy clock grantRef at =
    bindS (ledger_get grantRef) (\<lambda>current.
    bindS (liftS (normalizeOperationGrant legacy (with_fields (grant_obj current)
        [(''status'', JStr ''revoked''), (''revokedAt'', if at = JUndef then JStr clock else at)]))) (\<lambda>next.
    bindS (modifyS (mset_at grantRef next)) (\<lambda>_. returnS next)))"

text \<open>A consumption in flight: the grant as it was read before the await.\<close>

record consumption =
  cn_grantRef :: string
  cn_invocation :: js
  cn_at :: string
  cn_current :: operation_grant

definition consume_begin :: "string \<Rightarrow> js \<Rightarrow> string \<Rightarrow> (ledger, consumption) act" where
  "consume_begin grantRef invocation at =
    bindS (ledger_get grantRef) (\<lambda>current.
    returnS \<lparr>cn_grantRef = grantRef, cn_invocation = invocation, cn_at = at, cn_current = current\<rparr>)"

record grant_use =
  gu_grant :: operation_grant
  gu_useRef :: string
  gu_useDigest :: string

definition next_status :: "operation_grant \<Rightarrow> string" where
  "next_status current = (if og_maxUses current \<le> og_uses current + 1 then ''exhausted'' else ''active'')"

definition consume_finish ::
  "(string \<Rightarrow> string) \<Rightarrow> (string \<Rightarrow> int option) \<Rightarrow> js \<Rightarrow> consumption \<Rightarrow> (ledger, grant_use) act" where
  "consume_finish sha legacy approval c =
    (let current = cn_current c in
     if \<not> truthy approval \<or> field approval ''status'' \<noteq> JStr ''approved'' then throwS (Error ''source_approval_missing'')
     else if og_status current = ''revoked'' then throwS (Error ''grant_revoked'')
     else if not_after legacy (og_expiresAt current) (cn_at c) then throwS (Error ''grant_expired'')
     else if og_uses current \<ge> og_maxUses current \<or> og_status current = ''exhausted'' then throwS (Error ''grant_exhausted'')
     else bindS (liftS (assertOperationGrantMatches sha legacy current (cn_invocation c))) (\<lambda>m.
       bindS (liftS (normalizeOperationGrant legacy (with_fields (grant_obj current)
         [(''uses'', JNum (og_uses current + 1)), (''status'', JStr (next_status current))]))) (\<lambda>next.
       bindS (modifyS (mset_at (cn_grantRef c) next)) (\<lambda>_.
       returnS \<lparr>gu_grant = next,
         gu_useRef = ''grantuse_'' @ take 24 (drop 7 (plainDigest sha (JObj [(''grantRef'', JStr (cn_grantRef c)), (''uses'', JNum (og_uses current + 1))]))),
         gu_useDigest = gm_useDigest m\<rparr>))))"

text \<open>A consumption that nothing interleaves.\<close>

definition consume :: "(string \<Rightarrow> string) \<Rightarrow> (string \<Rightarrow> int option) \<Rightarrow> js \<Rightarrow> string \<Rightarrow> js \<Rightarrow> string \<Rightarrow> (ledger, grant_use) act" where
  "consume sha legacy approval grantRef invocation at =
    bindS (consume_begin grantRef invocation at) (consume_finish sha legacy approval)"

subsection \<open>Histories of the ledger\<close>

datatype ledger_op = LPut js | LRevoke string string js | LConsume js string js string

definition ledger_step :: "(string \<Rightarrow> string) \<Rightarrow> (string \<Rightarrow> int option) \<Rightarrow> ledger_op \<Rightarrow> ledger \<Rightarrow> ledger \<times> string list" where
  "ledger_step sha legacy op m = (case op of
      LPut v \<Rightarrow> (fst (ledger_put legacy v m), [])
    | LRevoke clock k at \<Rightarrow> (fst (ledger_revoke legacy clock k at m), [])
    | LConsume approval k invocation at \<Rightarrow> (case consume sha legacy approval k invocation at m of
          (m', Inr _) \<Rightarrow> (m', [k]) | (m', Inl _) \<Rightarrow> (m', [])))"

text \<open>A history of calls with the references of the grants it consumed.\<close>

fun ledger_run :: "(string \<Rightarrow> string) \<Rightarrow> (string \<Rightarrow> int option) \<Rightarrow> ledger_op list \<Rightarrow> ledger \<Rightarrow> ledger \<times> string list" where
  "ledger_run sha legacy [] m = (m, [])"
| "ledger_run sha legacy (op # ops) m =
     (let (m', us) = ledger_step sha legacy op m; (m'', vs) = ledger_run sha legacy ops m' in (m'', us @ vs))"

definition puts :: "(string \<Rightarrow> int option) \<Rightarrow> string \<Rightarrow> ledger_op \<Rightarrow> bool" where
  "puts legacy k op = (case op of LPut v \<Rightarrow> (case normalizeOperationGrant legacy v of Inr g \<Rightarrow> og_grantRef g = k | _ \<Rightarrow> False) | _ \<Rightarrow> False)"

lemma grant_obj_fields [simp]:
  "plain_object (grant_obj g)" "field (grant_obj g) ''schema'' = JStr ''execution.operation-grant.v1''" "field (grant_obj g) ''grantRef'' = JStr (og_grantRef g)"
  "field (grant_obj g) ''sourceApprovalRef'' = JStr (og_sourceApprovalRef g)" "field (grant_obj g) ''organizationRef'' = JStr (og_organizationRef g)"
  "field (grant_obj g) ''actorRef'' = JStr (og_actorRef g)" "field (grant_obj g) ''automationRef'' = JStr (og_automationRef g)"
  "field (grant_obj g) ''jobRef'' = JStr (og_jobRef g)" "field (grant_obj g) ''operationRef'' = JStr (og_operationRef g)"
  "field (grant_obj g) ''targetRef'' = JStr (og_targetRef g)" "field (grant_obj g) ''commandDigest'' = JStr (og_commandDigest g)"
  "field (grant_obj g) ''cwdDigest'' = JStr (og_cwdDigest g)" "field (grant_obj g) ''envDigest'' = JStr (og_envDigest g)"
  "field (grant_obj g) ''configDigest'' = JStr (og_configDigest g)" "field (grant_obj g) ''capabilityDigest'' = JStr (og_capabilityDigest g)"
  "field (grant_obj g) ''issuedAt'' = JStr (og_issuedAt g)" "field (grant_obj g) ''expiresAt'' = JStr (og_expiresAt g)"
  "field (grant_obj g) ''maxUses'' = JNum (og_maxUses g)" "field (grant_obj g) ''uses'' = JNum (og_uses g)"
  "field (grant_obj g) ''status'' = JStr (og_status g)" "field (grant_obj g) ''revokedAt'' = js_opt (og_revokedAt g)"
  by (simp_all add: grant_obj_def)

lemma grant_parts [simp]:
  "grant_ref v l = Inr r \<longleftrightarrow> (\<exists>s. v = JStr s \<and> REF_RE (trim_js s) \<and> r = trim_js s)"
  "grant_sha v l = Inr r \<longleftrightarrow> v = JStr r \<and> DIGEST_RE r"
  "grant_instant legacy v l = Inr r \<longleftrightarrow> v = JStr r \<and> CHR ''T'' \<in> set r \<and> date_parse legacy r \<noteq> None"
  by (auto simp: grant_ref_def grant_sha_def grant_instant_def split: js.splits if_splits)

text \<open>What the ledger needs of a stored grant.\<close>

definition grant_ok :: "operation_grant \<Rightarrow> bool" where
  "grant_ok g \<longleftrightarrow> 0 \<le> og_uses g \<and> og_uses g \<le> og_maxUses g"

lemma grant_limits_Inr:
  "grant_limits v = Inr (mu, u) \<longleftrightarrow> field v ''maxUses'' = JNum mu \<and> field v ''uses'' = JNum u \<and> 1 \<le> mu \<and> 0 \<le> u \<and> u \<le> mu"
  by (cases "field v ''maxUses''"; cases "field v ''uses''") (auto simp: grant_limits_def)

lemma grant_record_counts:
  "grant_record legacy v i x mu u = Inr g \<Longrightarrow> og_maxUses g = mu \<and> og_uses g = u \<and> og_status g = to_string (field v ''status'') \<and> og_expiresAt g = x"
  by (auto simp: grant_record_def)

lemma normalize_counts:
  assumes "normalizeOperationGrant legacy v = Inr g"
  shows "grant_ok g" "field v ''maxUses'' = JNum (og_maxUses g)" "field v ''uses'' = JNum (og_uses g)" "field v ''status'' = JStr (og_status g)"
proof -
  from assms obtain i x mu u where c: "grant_limits v = Inr (mu, u)" "includes_str GRANT_STATUSES (field v ''status'')"
    "grant_record legacy v i x mu u = Inr g" by (auto simp: normalizeOperationGrant_def)
  from grant_record_counts[OF c(3)] c(1,2) show "grant_ok g" "field v ''maxUses'' = JNum (og_maxUses g)" "field v ''uses'' = JNum (og_uses g)"
    "field v ''status'' = JStr (og_status g)"
    by (auto simp: grant_ok_def grant_limits_Inr includes_str_iff)
qed

lemma with_fields_counts:
  "field (with_fields (grant_obj g) [(''uses'', u), (''status'', s)]) ''maxUses'' = JNum (og_maxUses g)"
  "field (with_fields (grant_obj g) [(''uses'', u), (''status'', s)]) ''uses'' = u"
  "field (with_fields (grant_obj g) [(''uses'', u), (''status'', s)]) ''status'' = s"
  "field (with_fields (grant_obj g) [(''status'', s), (''revokedAt'', u)]) ''maxUses'' = JNum (og_maxUses g)"
  "field (with_fields (grant_obj g) [(''status'', s), (''revokedAt'', u)]) ''uses'' = JNum (og_uses g)"
  "field (with_fields (grant_obj g) [(''status'', s), (''revokedAt'', u)]) ''status'' = s"
  by (simp_all add: with_fields_def grant_obj_def)

lemma consume_cases:
  assumes "consume sha legacy approval k invocation at m = (m', r)"
  shows "(\<exists>e. r = Inl e \<and> m' = m) \<or>
    (\<exists>g next u. r = Inr u \<and> mget m k = Some g \<and> og_status g \<noteq> ''revoked'' \<and> m' = mset_at k next m \<and>
       normalizeOperationGrant legacy (with_fields (grant_obj g) [(''uses'', JNum (og_uses g + 1)), (''status'', JStr (next_status g))]) = Inr next)"
proof (cases "mget m k")
  case None
  with assms show ?thesis by (auto simp: consume_def consume_begin_def ledger_get_def bindS_def)
next
  case (Some g)
  have run: "consume sha legacy approval k invocation at m =
      consume_finish sha legacy approval \<lparr>cn_grantRef = k, cn_invocation = invocation, cn_at = at, cn_current = g\<rparr> m"
    by (simp add: consume_def consume_begin_def ledger_get_def bindS_def Some)
  show ?thesis
  proof (cases "assertOperationGrantMatches sha legacy g invocation")
    case (Inl e)
    with assms show ?thesis unfolding run by (auto simp: consume_finish_def Let_def split: if_splits)
  next
    case (Inr w)
    show ?thesis
      by (cases "normalizeOperationGrant legacy (with_fields (grant_obj g) [(''uses'', JNum (og_uses g + 1)), (''status'', JStr (next_status g))])";
          use assms in \<open>auto simp: run Some Inr consume_finish_def Let_def split: if_splits\<close>)
  qed
qed

lemma ledger_step_key:
  assumes "ledger_step sha legacy op m = (m', us)" "\<not> puts legacy k op" and g: "mget m k = Some g" "grant_ok g"
  shows "\<exists>g'. mget m' k = Some g' \<and> grant_ok g' \<and> og_maxUses g' = og_maxUses g \<and> og_uses g' = og_uses g + int (count_list us k) \<and>
    (og_status g = ''revoked'' \<longrightarrow> og_status g' = ''revoked'' \<and> k \<notin> set us)"
proof (cases op)
  case (LPut v)
  with assms show ?thesis
    by (cases "normalizeOperationGrant legacy v") (auto simp: ledger_step_def ledger_put_def puts_def)
next
  case (LRevoke clock k' at)
  let ?v = "\<lambda>g. with_fields (grant_obj g) [(''status'', JStr ''revoked''), (''revokedAt'', if at = JUndef then JStr clock else at)]"
  from LRevoke assms(1) have m': "us = []" "m' = fst (ledger_revoke legacy clock k' at m)" by (auto simp: ledger_step_def)
  show ?thesis
  proof (cases "k' = k")
    case True
    show ?thesis
    proof (cases "normalizeOperationGrant legacy (?v g)")
      case (Inl e)
      with True g m' show ?thesis by (simp add: ledger_revoke_def ledger_get_def bindS_def)
    next
      case (Inr n)
      with True g m' normalize_counts[OF Inr] show ?thesis
        by (simp add: ledger_revoke_def ledger_get_def bindS_def with_fields_counts)
    qed
  next
    case False
    then have "mget m' k = mget m k"
      unfolding m'(2) by (cases "mget m k'"; cases "normalizeOperationGrant legacy (?v (the (mget m k')))")
        (simp_all add: ledger_revoke_def ledger_get_def bindS_def)
    with g m' show ?thesis by simp
  qed
next
  case (LConsume approval k' invocation at)
  obtain m1 r where c: "consume sha legacy approval k' invocation at m = (m1, r)" by fastforce
  from LConsume c assms(1) have m': "m' = m1" "us = (case r of Inr _ \<Rightarrow> [k'] | Inl _ \<Rightarrow> [])"
    by (auto simp: ledger_step_def split: sum.splits)
  from consume_cases[OF c] show ?thesis
  proof (elim disjE exE conjE)
    fix e assume "r = Inl e" "m1 = m"
    with m' g show ?thesis by simp
  next
    fix g0 nxt u assume h: "r = Inr u" "mget m k' = Some g0" "og_status g0 \<noteq> ''revoked''" "m1 = mset_at k' nxt m"
      "normalizeOperationGrant legacy (with_fields (grant_obj g0) [(''uses'', JNum (og_uses g0 + 1)), (''status'', JStr (next_status g0))]) = Inr nxt"
    from normalize_counts[OF h(5)] have n: "grant_ok nxt" "og_maxUses nxt = og_maxUses g0" "og_uses nxt = og_uses g0 + 1"
      by (simp_all add: with_fields_counts)
    show ?thesis using h n m' g by (cases "k' = k") auto
  qed
qed

lemma ledger_run_key:
  assumes "\<forall>op \<in> set ops. \<not> puts legacy k op" "mget m k = Some g" "grant_ok g"
  shows "\<exists>g'. mget (fst (ledger_run sha legacy ops m)) k = Some g' \<and> grant_ok g' \<and> og_maxUses g' = og_maxUses g \<and>
    og_uses g' = og_uses g + int (count_list (snd (ledger_run sha legacy ops m)) k) \<and>
    (og_status g = ''revoked'' \<longrightarrow> k \<notin> set (snd (ledger_run sha legacy ops m)))"
  using assms
proof (induction ops arbitrary: m g)
  case (Cons op ops)
  obtain m1 us where s: "ledger_step sha legacy op m = (m1, us)" by fastforce
  from ledger_step_key[OF s _ Cons.prems(2,3)] Cons.prems(1) obtain g1 where g1: "mget m1 k = Some g1" "grant_ok g1"
    "og_maxUses g1 = og_maxUses g" "og_uses g1 = og_uses g + int (count_list us k)"
    "og_status g = ''revoked'' \<longrightarrow> og_status g1 = ''revoked'' \<and> k \<notin> set us" by auto
  obtain m2 vs where t: "ledger_run sha legacy ops m1 = (m2, vs)" by fastforce
  from Cons.IH[OF _ g1(1,2)] Cons.prems(1) t g1 show ?case by (auto simp: s)
qed simp

lemma grant_uses_are_bounded_clauses:
  assumes put: "ledger_put legacy v m0 = (m, Inr g)" and ops: "\<forall>op \<in> set ops. \<not> puts legacy (og_grantRef g) op"
  shows "int (count_list (snd (ledger_run sha legacy ops m)) (og_grantRef g)) \<le> og_maxUses g - og_uses g"
    and "ledger_revoke legacy clock (og_grantRef g) at (fst (ledger_run sha legacy ops m)) = (m', Inr r) \<Longrightarrow>
      \<forall>op \<in> set ops'. \<not> puts legacy (og_grantRef g) op \<Longrightarrow> og_grantRef g \<notin> set (snd (ledger_run sha legacy ops' m'))"
proof -
  have m: "mget m (og_grantRef g) = Some g" and ok: "grant_ok g"
    using put normalize_counts(1)[of legacy v] by (cases "normalizeOperationGrant legacy v"; auto simp: ledger_put_def)+
  from ledger_run_key[OF ops m ok, of sha] obtain g1 where g1: "mget (fst (ledger_run sha legacy ops m)) (og_grantRef g) = Some g1" "grant_ok g1"
    "og_maxUses g1 = og_maxUses g" "og_uses g1 = og_uses g + int (count_list (snd (ledger_run sha legacy ops m)) (og_grantRef g))" by blast
  then show "int (count_list (snd (ledger_run sha legacy ops m)) (og_grantRef g)) \<le> og_maxUses g - og_uses g" by (simp add: grant_ok_def)
  show "og_grantRef g \<notin> set (snd (ledger_run sha legacy ops' m'))"
    if rev: "ledger_revoke legacy clock (og_grantRef g) at (fst (ledger_run sha legacy ops m)) = (m', Inr r)"
      and ops': "\<forall>op \<in> set ops'. \<not> puts legacy (og_grantRef g) op"
  proof -
    let ?v = "with_fields (grant_obj g1) [(''status'', JStr ''revoked''), (''revokedAt'', if at = JUndef then JStr clock else at)]"
    from rev g1(1) have n: "normalizeOperationGrant legacy ?v = Inr r" "m' = mset_at (og_grantRef g) r (fst (ledger_run sha legacy ops m))"
      by (cases "normalizeOperationGrant legacy ?v"; simp add: ledger_revoke_def ledger_get_def bindS_def)+
    from normalize_counts[OF n(1)] have "grant_ok r" "og_status r = ''revoked''" by (simp_all add: with_fields_counts)
    with ledger_run_key[OF ops', of m' r sha] n(2) show ?thesis by auto
  qed
qed

text \<open>
  C35: Whatever calls follow, one after the other, a grant put into the ledger is consumed at
  most as often as it has uses left until it is put again, and never after it was revoked.
\<close>

theorem grant_uses_are_bounded:
  assumes put: "ledger_put legacy v m0 = (m, Inr g)" and ops: "\<forall>op \<in> set ops. \<not> puts legacy (og_grantRef g) op"
  shows "int (count_list (snd (ledger_run sha legacy ops m)) (og_grantRef g)) \<le> og_maxUses g - og_uses g \<and>
    (ledger_revoke legacy clock (og_grantRef g) at (fst (ledger_run sha legacy ops m)) = (m', Inr r) \<and>
      (\<forall>op \<in> set ops'. \<not> puts legacy (og_grantRef g) op) \<longrightarrow> og_grantRef g \<notin> set (snd (ledger_run sha legacy ops' m')))"
  using grant_uses_are_bounded_clauses[OF assms] by blast

subsection \<open>Interleaved consumptions\<close>

definition sample_grant :: "int \<Rightarrow> int \<Rightarrow> string \<Rightarrow> operation_grant" where
  "sample_grant mx u st = \<lparr>og_grantRef = ''g1'', og_sourceApprovalRef = ''a1'', og_organizationRef = ''o1'', og_actorRef = ''u1'', og_automationRef = ''m1'',
     og_jobRef = ''j1'', og_operationRef = ''p1'', og_targetRef = ''t1'', og_commandDigest = ''sha256:'' @ replicate 64 CHR ''0'',
     og_cwdDigest = ''sha256:'' @ replicate 64 CHR ''1'', og_envDigest = ''sha256:'' @ replicate 64 CHR ''2'',
     og_configDigest = ''sha256:'' @ replicate 64 CHR ''3'', og_capabilityDigest = ''sha256:'' @ replicate 64 CHR ''4'',
     og_issuedAt = ''2026-03-01T00:00:00.000Z'', og_expiresAt = ''2026-03-01T00:10:00.000Z'', og_maxUses = mx, og_uses = u, og_status = st,
     og_revokedAt = None\<rparr>"

lemma sample_grant_parts:
  "REF_RE ''g1'' \<and> REF_RE ''a1'' \<and> REF_RE ''o1'' \<and> REF_RE ''u1'' \<and> REF_RE ''m1'' \<and> REF_RE ''j1'' \<and> REF_RE ''p1'' \<and> REF_RE ''t1''"
  "trim_js ''g1'' = ''g1'' \<and> trim_js ''a1'' = ''a1'' \<and> trim_js ''o1'' = ''o1'' \<and> trim_js ''u1'' = ''u1'' \<and> trim_js ''m1'' = ''m1'' \<and> trim_js ''j1'' = ''j1'' \<and> trim_js ''p1'' = ''p1'' \<and> trim_js ''t1'' = ''t1''"
  by code_simp+

lemma sample_digest: "is_digit c \<Longrightarrow> DIGEST_RE (''sha256:'' @ replicate 64 c)"
  by (simp add: DIGEST_RE_def list_all_iff)

lemma sample_grant_dates:
  "date_parse (\<lambda>_. None) ''2026-03-01T00:00:00.000Z'' = Some 1772323200000" "date_parse (\<lambda>_. None) ''2026-03-01T00:10:00.000Z'' = Some 1772323800000"
  by code_simp+

lemma sample_grant_normalized:
  assumes "1 \<le> mx" "0 \<le> u" "u \<le> mx" "st \<in> set GRANT_STATUSES"
  shows "normalizeOperationGrant (\<lambda>_. None) (grant_obj (sample_grant mx u st)) = Inr (sample_grant mx u st)"
proof -
  let ?g = "sample_grant mx u st"
  have d: "grant_sha (JStr (''sha256:'' @ replicate 64 c)) l = Inr (''sha256:'' @ replicate 64 c)" if "is_digit c" for c l
    using that sample_digest by simp
  have z: "is_digit CHR ''0''" "is_digit CHR ''1''" "is_digit CHR ''2''" "is_digit CHR ''3''" "is_digit CHR ''4''"
    by (simp_all add: is_digit_def ccode_def)
  have r: "grant_ref (JStr s) l = Inr s" if "REF_RE s" "trim_js s = s" for s l using that by (simp add: grant_ref_def)
  have rec: "grant_record (\<lambda>_. None) (grant_obj ?g) ''2026-03-01T00:00:00.000Z'' ''2026-03-01T00:10:00.000Z'' mx u = Inr ?g"
    unfolding grant_record_def grant_obj_fields sample_grant_def operation_grant.simps
    by (simp only: d z r sample_grant_parts bindE_Inr) (simp add: js_opt_def)
  have i: "grant_instant (\<lambda>_. None) (JStr ''2026-03-01T00:00:00.000Z'') l = Inr ''2026-03-01T00:00:00.000Z''"
    "grant_instant (\<lambda>_. None) (JStr ''2026-03-01T00:10:00.000Z'') l = Inr ''2026-03-01T00:10:00.000Z''" for l
    by (simp_all add: grant_instant_def sample_grant_dates)
  have n: "\<not> not_after (\<lambda>_. None) ''2026-03-01T00:10:00.000Z'' ''2026-03-01T00:00:00.000Z''" by (simp add: not_after_def sample_grant_dates)
  have f: "og_issuedAt ?g = ''2026-03-01T00:00:00.000Z''" "og_expiresAt ?g = ''2026-03-01T00:10:00.000Z''" "og_maxUses ?g = mx" "og_uses ?g = u" "og_status ?g = st"
    by (simp_all add: sample_grant_def)
  show ?thesis
    using assms by (simp add: normalizeOperationGrant_def f i n rec grant_limits_def includes_str_def del: bindE_eq_Inr grant_parts)
qed

lemma with_fields_grant:
  "with_fields (grant_obj g) [(''uses'', JNum u), (''status'', JStr st)] = grant_obj (g\<lparr>og_uses := u, og_status := st\<rparr>)"
  "with_fields (grant_obj g) [(''status'', JStr st), (''revokedAt'', JStr t)] = grant_obj (g\<lparr>og_status := st, og_revokedAt := Some t\<rparr>)"
  by (simp_all add: with_fields_def grant_obj_def js_opt_def)

lemma sample_grant_matches:
  assumes "1 \<le> mx" "0 \<le> u" "u \<le> mx" "st \<in> set GRANT_STATUSES"
  shows "\<exists>w. assertOperationGrantMatches sha (\<lambda>_. None) (sample_grant mx u st) (grant_obj (sample_grant 9 9 [])) = Inr w"
proof -
  have "field (grant_obj (sample_grant mx u st)) f = field (grant_obj (sample_grant 9 9 [])) f" if "f \<in> set MATCHED_FIELDS" for f
    using that by (auto simp: MATCHED_FIELDS_def sample_grant_def)
  then have "mapE (\<lambda>f. bindE (fieldE (grant_obj (sample_grant 9 9 [])) f) (\<lambda>v.
        if field (grant_obj (sample_grant mx u st)) f \<noteq> v then Inl (Error (''grant '' @ camel_words f @ '' drift'')) else Inr ())) MATCHED_FIELDS =
      Inr (map (\<lambda>_. ()) MATCHED_FIELDS)"
    by (simp add: list_all2_map2 list.rel_refl_strong) (auto simp: list_all2_same fieldE_def grant_obj_def)
  then show ?thesis by (simp add: assertOperationGrantMatches_def sample_grant_normalized[OF assms] del: mapE_eq_Inr bindE_eq_Inr)
qed

definition sample_approval :: js where
  "sample_approval = JObj [(''status'', JStr ''approved'')]"

lemma sample_finish:
  assumes "0 \<le> u" "u < mx"
  shows "\<exists>w. consume_finish sha (\<lambda>_. None) sample_approval \<lparr>cn_grantRef = ''g1'', cn_invocation = grant_obj (sample_grant 9 9 []),
      cn_at = ''2026-03-01T00:00:00.000Z'', cn_current = sample_grant mx u ''active''\<rparr> m =
    (mset_at ''g1'' (sample_grant mx (u + 1) (if mx \<le> u + 1 then ''exhausted'' else ''active'')) m, Inr w)"
proof -
  let ?g = "sample_grant mx u ''active''" and ?st = "if mx \<le> u + 1 then ''exhausted'' else ''active''"
  have st: "''active'' \<in> set GRANT_STATUSES" "?st \<in> set GRANT_STATUSES" by (simp_all add: GRANT_STATUSES_def)
  obtain w where w: "assertOperationGrantMatches sha (\<lambda>_. None) ?g (grant_obj (sample_grant 9 9 [])) = Inr w"
    using sample_grant_matches[of mx u "''active''" sha] assms st by auto
  have upd: "?g\<lparr>og_uses := u + 1, og_status := next_status ?g\<rparr> = sample_grant mx (u + 1) ?st"
    by (simp add: sample_grant_def next_status_def)
  have f: "og_status ?g = ''active''" "og_expiresAt ?g = ''2026-03-01T00:10:00.000Z''" "og_uses ?g = u" "og_maxUses ?g = mx"
    by (simp_all add: sample_grant_def)
  have n: "\<not> not_after (\<lambda>_. None) ''2026-03-01T00:10:00.000Z'' ''2026-03-01T00:00:00.000Z''" by (simp add: not_after_def sample_grant_dates)
  have nx: "normalizeOperationGrant (\<lambda>_. None) (grant_obj (sample_grant mx (u + 1) ?st)) = Inr (sample_grant mx (u + 1) ?st)"
    by (rule sample_grant_normalized) (use assms st in auto)
  show ?thesis
    using assms nx by (simp add: consume_finish_def sample_approval_def f n w with_fields_grant upd[unfolded f] del: bindE_eq_Inr)
qed

text \<open>
  Two consumptions in flight at once both succeed on a grant with a single use, and one in flight while
  the grant is revoked succeeds and makes the grant active again.
\<close>

lemma double_spend_race:
  "\<exists>c m1 m2 u1 u2. consume_begin ''g1'' (grant_obj (sample_grant 9 9 [])) ''2026-03-01T00:00:00.000Z'' [(''g1'', sample_grant 1 0 ''active'')] =
       ([(''g1'', sample_grant 1 0 ''active'')], Inr c) \<and>
     consume_finish sha (\<lambda>_. None) sample_approval c [(''g1'', sample_grant 1 0 ''active'')] = (m1, Inr u1) \<and>
     consume_finish sha (\<lambda>_. None) sample_approval c m1 = (m2, Inr u2)"
  using sample_finish[of 0 1 sha "[(''g1'', sample_grant 1 0 ''active'')]"]
    sample_finish[of 0 1 sha "mset_at ''g1'' (sample_grant 1 1 ''exhausted'') [(''g1'', sample_grant 1 0 ''active'')]"]
  by (auto simp: consume_begin_def ledger_get_def bindS_def mget_def)

lemma revocation_lost_race:
  "\<exists>c m1 r m2 u. consume_begin ''g1'' (grant_obj (sample_grant 9 9 [])) ''2026-03-01T00:00:00.000Z'' [(''g1'', sample_grant 2 0 ''active'')] =
       ([(''g1'', sample_grant 2 0 ''active'')], Inr c) \<and>
     ledger_revoke (\<lambda>_. None) ''t'' ''g1'' JNull [(''g1'', sample_grant 2 0 ''active'')] = (m1, Inr r) \<and> og_status r = ''revoked'' \<and>
     consume_finish sha (\<lambda>_. None) sample_approval c m1 = (m2, Inr u) \<and> map_option og_status (mget m2 ''g1'') = Some ''active''"
proof -
  let ?m = "[(''g1'', sample_grant 2 0 ''active'')]"
  have v: "with_fields (grant_obj (sample_grant 2 0 ''active'')) [(''status'', JStr ''revoked''), (''revokedAt'', JNull)] = grant_obj (sample_grant 2 0 ''revoked'')"
    by (simp add: with_fields_def grant_obj_def sample_grant_def js_opt_def)
  have "ledger_revoke (\<lambda>_. None) ''t'' ''g1'' JNull ?m = (mset_at ''g1'' (sample_grant 2 0 ''revoked'') ?m, Inr (sample_grant 2 0 ''revoked''))"
    by (simp add: ledger_revoke_def ledger_get_def bindS_def mget_def v sample_grant_normalized GRANT_STATUSES_def)
  moreover have "og_status (sample_grant mx u st) = st" for mx u st by (simp add: sample_grant_def)
  ultimately show ?thesis
    using sample_finish[of 0 2 sha "mset_at ''g1'' (sample_grant 2 0 ''revoked'') ?m"]
    by (auto simp: consume_begin_def ledger_get_def bindS_def mget_def[of ?m])
qed

theorem grant_uses_are_bounded_witness:
  "\<exists>m us. ledger_put (\<lambda>_. None) (grant_obj (sample_grant 1 0 ''active'')) [] = (m, Inr (sample_grant 1 0 ''active'')) \<and>
     us = snd (ledger_run (\<lambda>_. ''0'') (\<lambda>_. None) (replicate 3 (LConsume sample_approval ''g1'' (grant_obj (sample_grant 9 9 [])) ''2026-03-01T00:00:00.000Z'')) m) \<and>
     count_list us ''g1'' \<le> 1"
proof -
  let ?g = "sample_grant 1 0 ''active''"
  have r: "og_grantRef ?g = ''g1''" "og_maxUses ?g = 1" "og_uses ?g = 0" by (simp_all add: sample_grant_def)
  have p: "ledger_put (\<lambda>_. None) (grant_obj ?g) [] = (mset_at (og_grantRef ?g) ?g [], Inr ?g)"
    by (simp add: ledger_put_def sample_grant_normalized GRANT_STATUSES_def)
  from grant_uses_are_bounded[OF p, of "replicate 3 (LConsume sample_approval ''g1'' (grant_obj (sample_grant 9 9 [])) ''2026-03-01T00:00:00.000Z'')" "\<lambda>_. ''0''"]
  have "count_list (snd (ledger_run (\<lambda>_. ''0'') (\<lambda>_. None) (replicate 3 (LConsume sample_approval ''g1'' (grant_obj (sample_grant 9 9 [])) ''2026-03-01T00:00:00.000Z''))
      (mset_at (og_grantRef ?g) ?g []))) ''g1'' \<le> 1"
    by (auto simp: puts_def r)
  with p show ?thesis by blast
qed

end
