(* ===== verification/EventStore.thy ===== *)
theory EventStore
  imports SyncEnvelope JsonParse
begin

text \<open>
  The canonical event store (\<open>src/storage/sqlite-event-store.cjs\<close>) over the tables of
  \<open>migrations/001-s1-canonical-events.sql\<close>: validation of events and projections, the
  transactional append with its idempotency key, the projection records, their rebuild and the
  import of legacy logs.  A table is the list of its rows; a transaction that throws leaves
  the tables as they were.  A JSON column holds the value its text parses to.
\<close>

subsection \<open>Validation\<close>

definition STORE_FORBIDDEN_KEY :: "string \<Rightarrow> bool" where
  "STORE_FORBIDDEN_KEY k = (map ascii_lower k \<in> set [''password'', ''passwd'', ''cookie'', ''cookies'', ''set-cookie'', ''authorization'',
     ''authorizationcode'', ''accesstoken'', ''access_token'', ''access-token'', ''refreshtoken'', ''refresh_token'', ''refresh-token'',
     ''idtoken'', ''id_token'', ''id-token'', ''token'', ''profilepath'', ''browserprofile'', ''userdata'', ''userdatadir'', ''storagestate''])"

fun store_sensitive_from :: "bool \<Rightarrow> string \<Rightarrow> bool" where
  "store_sensitive_from boundary [] = False"
| "store_sensitive_from boundary (c # cs) =
     (key_block_here (c # cs) \<or> boundary \<and> (bearer_here (c # cs) \<or>
        list_ex (\<lambda>p. prefix_ci p (c # cs)) [''sessionid='', ''access_token='', ''refresh_token=''])
      \<or> store_sensitive_from (\<not> is_word c) cs)"

definition FORBIDDEN_STRING :: "string \<Rightarrow> bool" where
  "FORBIDDEN_STRING s = store_sensitive_from True s"

definition assertPlainObject :: "js \<Rightarrow> string \<Rightarrow> js res" where
  "assertPlainObject value label = (if \<not> plain_object value then Inl (TypeError (label @ '' must be an object'')) else Inr value)"

fun assertNoForbiddenSecrets :: "js \<Rightarrow> string \<Rightarrow> unit res"
and secret_items :: "nat \<Rightarrow> js list \<Rightarrow> string \<Rightarrow> unit res"
and secret_entries :: "(string \<times> js) list \<Rightarrow> string \<Rightarrow> unit res" where
  "assertNoForbiddenSecrets (JStr s) path =
     (if FORBIDDEN_STRING s then Inl (Error (''Forbidden secret-like value at '' @ path)) else Inr ())"
| "assertNoForbiddenSecrets (JArr vs) path = secret_items 0 vs path"
| "assertNoForbiddenSecrets (JObj kvs) path = secret_entries kvs path"
| "assertNoForbiddenSecrets _ path = Inr ()"
| "secret_items i [] path = Inr ()"
| "secret_items i (v # vs) path =
     bindE (assertNoForbiddenSecrets v (path @ ''['' @ nat_digits i @ '']'')) (\<lambda>_. secret_items (Suc i) vs path)"
| "secret_entries [] path = Inr ()"
| "secret_entries ((k, v) # kvs) path =
     (if STORE_FORBIDDEN_KEY k then Inl (Error (''Forbidden secret field at '' @ path @ ''.'' @ k))
      else bindE (assertNoForbiddenSecrets v (path @ ''.'' @ k)) (\<lambda>_. secret_entries kvs path))"

definition requiredString :: "js \<Rightarrow> string \<Rightarrow> string res" where
  "requiredString value label = (case value of
      JStr s \<Rightarrow> if trim_js s = [] then Inl (TypeError (label @ '' is required'')) else Inr (trim_js s)
    | _ \<Rightarrow> Inl (TypeError (label @ '' is required'')))"

record event_data =
  ev_id :: string
  ev_workspaceId :: string
  ev_aggregateType :: string
  ev_aggregateId :: string
  ev_eventType :: string
  ev_eventVersion :: int
  ev_idempotencyKey :: string
  ev_occurredAt :: string
  ev_payload :: js
  ev_metadata :: js

text \<open>The payload and the metadata default to an empty object.\<close>

definition event_part :: "js \<Rightarrow> string \<Rightarrow> js" where
  "event_part event k = (if field event k = JUndef then JObj [] else field event k)"

definition event_record :: "string \<Rightarrow> string \<Rightarrow> js \<Rightarrow> js \<Rightarrow> js \<Rightarrow> event_data res" where
  "event_record uuid now event payload metadata =
    bindE (case to_integer (coalesce (field event ''eventVersion'') (JNum 1)) of
             Some n \<Rightarrow> if n < 1 then Inl (RangeError ''event.eventVersion must be a positive integer'') else Inr n
           | None \<Rightarrow> Inl (RangeError ''event.eventVersion must be a positive integer'')) (\<lambda>version.
    bindE (requiredString (or_js (field event ''id'') (JStr uuid)) ''event.id'') (\<lambda>i.
    bindE (requiredString (field event ''workspaceId'') ''event.workspaceId'') (\<lambda>w.
    bindE (requiredString (field event ''aggregateType'') ''event.aggregateType'') (\<lambda>at.
    bindE (requiredString (field event ''aggregateId'') ''event.aggregateId'') (\<lambda>ai.
    bindE (requiredString (field event ''eventType'') ''event.eventType'') (\<lambda>et.
    bindE (requiredString (field event ''idempotencyKey'') ''event.idempotencyKey'') (\<lambda>k.
    bindE (requiredString (or_js (field event ''occurredAt'') (JStr now)) ''event.occurredAt'') (\<lambda>occ.
    Inr \<lparr>ev_id = i, ev_workspaceId = w, ev_aggregateType = at, ev_aggregateId = ai, ev_eventType = et, ev_eventVersion = version,
      ev_idempotencyKey = k, ev_occurredAt = occ, ev_payload = payload, ev_metadata = metadata\<rparr>))))))))"

definition normalizeEvent :: "string \<Rightarrow> string \<Rightarrow> js \<Rightarrow> event_data res" where
  "normalizeEvent uuid now input =
    bindE (assertPlainObject input ''event'') (\<lambda>event.
    bindE (assertPlainObject (event_part event ''payload'') ''event.payload'') (\<lambda>payload.
    bindE (assertPlainObject (event_part event ''metadata'') ''event.metadata'') (\<lambda>metadata.
    bindE (assertNoForbiddenSecrets payload ''event.payload'') (\<lambda>_.
    bindE (assertNoForbiddenSecrets metadata ''event.metadata'') (\<lambda>_.
    event_record uuid now event payload metadata)))))"

record projection_row =
  pr_projectionType :: string
  pr_projectionId :: string
  pr_workspaceId :: string
  pr_version :: int
  pr_data :: js
  pr_updatedEventSequence :: "int option"

definition normalizeProjection :: "js \<Rightarrow> projection_row option res" where
  "normalizeProjection input =
    (if nullish input then Inr None
     else bindE (assertPlainObject input ''projection'') (\<lambda>projection.
       bindE (case to_integer (field projection ''version'') of
                Some n \<Rightarrow> if n < 0 then Inl (RangeError ''projection.version must be a non-negative integer'') else Inr n
              | None \<Rightarrow> Inl (RangeError ''projection.version must be a non-negative integer'')) (\<lambda>version.
       bindE (assertPlainObject (field projection ''data'') ''projection.data'') (\<lambda>data.
       bindE (assertNoForbiddenSecrets data ''projection.data'') (\<lambda>_.
       bindE (requiredString (field projection ''projectionType'') ''projection.projectionType'') (\<lambda>t.
       bindE (requiredString (field projection ''projectionId'') ''projection.projectionId'') (\<lambda>i.
       bindE (requiredString (field projection ''workspaceId'') ''projection.workspaceId'') (\<lambda>w.
       Inr (Some \<lparr>pr_projectionType = t, pr_projectionId = i, pr_workspaceId = w, pr_version = version, pr_data = data,
         pr_updatedEventSequence = None\<rparr>)))))))))"

subsection \<open>The tables\<close>

record store =
  db_events :: "(int \<times> event_data) list"
  db_lastSequence :: int
  db_projections :: "projection_row list"
  db_imports :: "(string \<times> nat) list"

definition store_init :: store where
  "store_init = \<lparr>db_events = [], db_lastSequence = 0, db_projections = [], db_imports = []\<rparr>"


text \<open>What a JSON column holds: \<open>JSON.parse(stableStringify(value))\<close>.\<close>

definition stored_json :: "js \<Rightarrow> js" where
  "stored_json v = json_clone (stableValue v)"

definition withTransaction :: "('s \<Rightarrow> ('s \<times> 'a) res) \<Rightarrow> ('s, 'a) act" where
  "withTransaction f s = (case f s of Inl e \<Rightarrow> (s, Inl e) | Inr (s', x) \<Rightarrow> (s', Inr x))"

definition getEventByIdempotencyKey :: "store \<Rightarrow> string \<Rightarrow> (int \<times> event_data) option" where
  "getEventByIdempotencyKey db k = find (\<lambda>r. ev_idempotencyKey (snd r) = k) (db_events db)"

definition getProjection :: "store \<Rightarrow> string \<Rightarrow> string \<Rightarrow> projection_row option" where
  "getProjection db t i = find (\<lambda>r. pr_projectionType r = t \<and> pr_projectionId r = i) (db_projections db)"

text \<open>A clause of the query for a filter that is a non-empty string; the others are left out.\<close>

definition clause :: "string option \<Rightarrow> string \<Rightarrow> bool" where
  "clause filt value = (case filt of None \<Rightarrow> True | Some s \<Rightarrow> s = [] \<or> value = s)"

definition listEvents :: "store \<Rightarrow> string option \<Rightarrow> string option \<Rightarrow> string option \<Rightarrow> (int \<times> event_data) list" where
  "listEvents db workspaceId aggregateType aggregateId = sort_key fst (filter (\<lambda>r. clause workspaceId (ev_workspaceId (snd r)) \<and>
     clause aggregateType (ev_aggregateType (snd r)) \<and> clause aggregateId (ev_aggregateId (snd r))) (db_events db))"

definition listProjections :: "store \<Rightarrow> string option \<Rightarrow> string option \<Rightarrow> projection_row list" where
  "listProjections db projectionType workspaceId = sort_key (\<lambda>r. (pr_projectionType r, pr_projectionId r))
     (filter (\<lambda>r. clause projectionType (pr_projectionType r) \<and> clause workspaceId (pr_workspaceId r)) (db_projections db))"

subsection \<open>Appending\<close>

text \<open>The insert of an event: the id and the idempotency key are unique columns.\<close>

definition insert_event :: "event_data \<Rightarrow> store \<Rightarrow> store res" where
  "insert_event event db =
    (if list_ex (\<lambda>r. ev_id (snd r) = ev_id event) (db_events db) then Inl (Error ''UNIQUE constraint failed: execution_events.id'')
     else if list_ex (\<lambda>r. ev_idempotencyKey (snd r) = ev_idempotencyKey event) (db_events db)
     then Inl (Error ''UNIQUE constraint failed: execution_events.idempotency_key'')
     else Inr (db\<lparr>db_events := db_events db @ [(db_lastSequence db + 1,
         event\<lparr>ev_payload := stored_json (ev_payload event), ev_metadata := stored_json (ev_metadata event)\<rparr>)],
       db_lastSequence := db_lastSequence db + 1\<rparr>))"

text \<open>The upsert of a projection record: the type and the id are the primary key.\<close>

fun upsert :: "projection_row \<Rightarrow> projection_row list \<Rightarrow> projection_row list" where
  "upsert p [] = [p]"
| "upsert p (r # rs) = (if pr_projectionType r = pr_projectionType p \<and> pr_projectionId r = pr_projectionId p then p # rs else r # upsert p rs)"

definition writeProjection :: "projection_row \<Rightarrow> int \<Rightarrow> store \<Rightarrow> (store \<times> projection_row option) res" where
  "writeProjection projection sequence db =
    (let stored = projection\<lparr>pr_data := stored_json (pr_data projection), pr_updatedEventSequence := Some sequence\<rparr>;
         db' = db\<lparr>db_projections := upsert stored (db_projections db)\<rparr>;
         written = Inr (db', getProjection db' (pr_projectionType projection) (pr_projectionId projection))
     in case getProjection db (pr_projectionType projection) (pr_projectionId projection) of
       None \<Rightarrow> written
     | Some current \<Rightarrow>
         if pr_workspaceId current \<noteq> pr_workspaceId projection then Inl (Error ''Projection workspace is immutable'')
         else if pr_version projection < pr_version current then Inl (Error ''Projection version cannot move backwards'')
         else if pr_version projection = pr_version current \<and> stableStringify (pr_data current) \<noteq> stableStringify (pr_data projection)
         then Inl (Error ''Projection version collision'')
         else written)"

record append_result =
  ar_created :: bool
  ar_event :: "int \<times> event_data"
  ar_projection :: "projection_row option"

definition same_event :: "event_data \<Rightarrow> event_data \<Rightarrow> bool" where
  "same_event existing event \<longleftrightarrow> ev_workspaceId existing = ev_workspaceId event \<and> ev_aggregateType existing = ev_aggregateType event \<and>
     ev_aggregateId existing = ev_aggregateId event \<and> ev_eventType existing = ev_eventType event \<and>
     ev_eventVersion existing = ev_eventVersion event \<and>
     stableStringify (ev_payload existing) = stableStringify (ev_payload event) \<and>
     stableStringify (ev_metadata existing) = stableStringify (ev_metadata event)"

definition append_in :: "event_data \<Rightarrow> projection_row option \<Rightarrow> store \<Rightarrow> (store \<times> append_result) res" where
  "append_in event projection db = (case getEventByIdempotencyKey db (ev_idempotencyKey event) of
      Some existing \<Rightarrow>
        if \<not> same_event (snd existing) event then Inl (Error (''Idempotency key collision: '' @ ev_idempotencyKey event))
        else Inr (db, \<lparr>ar_created = False, ar_event = existing, ar_projection = (case projection of None \<Rightarrow> None
            | Some p \<Rightarrow> getProjection db (pr_projectionType p) (pr_projectionId p))\<rparr>)
    | None \<Rightarrow>
        bindE (insert_event event db) (\<lambda>db1.
        bindE (case projection of None \<Rightarrow> Inr (db1, None) | Some p \<Rightarrow> writeProjection p (db_lastSequence db1) db1) (\<lambda>(db2, stored).
        Inr (db2, \<lparr>ar_created = True, ar_event = (db_lastSequence db1, event), ar_projection = stored\<rparr>))))"

definition appendWithProjection :: "string \<Rightarrow> string \<Rightarrow> js \<Rightarrow> js \<Rightarrow> (store, append_result) act" where
  "appendWithProjection uuid now rawEvent rawProjection =
    bindS (liftS (normalizeEvent uuid now rawEvent)) (\<lambda>event.
    bindS (liftS (normalizeProjection rawProjection)) (\<lambda>projection.
    if (case projection of None \<Rightarrow> False | Some p \<Rightarrow> pr_workspaceId p \<noteq> ev_workspaceId event)
    then throwS (Error ''Projection workspace must match event workspace'')
    else withTransaction (append_in event projection)))"

definition appendEvent :: "string \<Rightarrow> string \<Rightarrow> js \<Rightarrow> (store, append_result) act" where
  "appendEvent uuid now event = appendWithProjection uuid now event JNull"

subsection \<open>Rebuild and digest\<close>

definition row_js :: "projection_row \<Rightarrow> js" where
  "row_js r = JObj [(''projectionType'', JStr (pr_projectionType r)), (''projectionId'', JStr (pr_projectionId r)),
     (''workspaceId'', JStr (pr_workspaceId r)), (''version'', JNum (pr_version r)), (''data'', pr_data r)]"

definition projectionDigest :: "(string \<Rightarrow> string) \<Rightarrow> store \<Rightarrow> string option \<Rightarrow> string option \<Rightarrow> string" where
  "projectionDigest sha db projectionType workspaceId =
    sha (stableStringify (JArr (map row_js (listProjections db projectionType workspaceId))))"

definition insert_projection :: "projection_row \<Rightarrow> store \<Rightarrow> store res" where
  "insert_projection p db =
    (if getProjection db (pr_projectionType p) (pr_projectionId p) \<noteq> None
     then Inl (Error ''UNIQUE constraint failed: projection_records.projection_type, projection_records.projection_id'')
     else Inr (db\<lparr>db_projections := db_projections db @ [p\<lparr>pr_data := stored_json (pr_data p), pr_updatedEventSequence := None\<rparr>]\<rparr>))"

fun foldE :: "('a \<Rightarrow> 's \<Rightarrow> 's res) \<Rightarrow> 'a list \<Rightarrow> 's \<Rightarrow> 's res" where
  "foldE f [] s = Inr s"
| "foldE f (x # xs) s = bindE (f x s) (foldE f xs)"

definition rebuilt_record :: "string \<Rightarrow> string option \<Rightarrow> js \<Rightarrow> projection_row res" where
  "rebuilt_record projectionType workspaceId v =
    bindE (normalizeProjection v) (\<lambda>p. case p of
      None \<Rightarrow> Inl (TypeError ''Cannot read properties of null'')
    | Some r \<Rightarrow> if pr_projectionType r \<noteq> projectionType then Inl (Error ''Reducer returned an unexpected projection type'')
                else if \<not> clause workspaceId (pr_workspaceId r) then Inl (Error ''Reducer returned an unexpected workspace'')
                else Inr r)"

text \<open>\<open>reducer\<close> is the caller's function on the map of states and an event.\<close>

definition rebuildProjection ::
  "(string \<Rightarrow> string) \<Rightarrow> js \<Rightarrow> ((int \<times> event_data) \<Rightarrow> ('k, js) jsmap \<Rightarrow> ('k, js) jsmap res) \<Rightarrow> string option \<Rightarrow> (store, nat \<times> string) act" where
  "rebuildProjection sha projectionType reducer workspaceId db =
    bindS (liftS (requiredString projectionType ''projectionType'')) (\<lambda>_.
    bindS (liftS (foldE reducer (listEvents db workspaceId None None) [])) (\<lambda>state.
    bindS (liftS (mapE normalizeProjection (mvalues state))) (\<lambda>_.
    bindS (liftS (mapE (rebuilt_record (to_string projectionType) workspaceId) (mvalues state))) (\<lambda>records.
    bindS (withTransaction (\<lambda>db. bindE (foldE insert_projection records
        (db\<lparr>db_projections := filter (\<lambda>r. \<not> (pr_projectionType r = to_string projectionType \<and> clause workspaceId (pr_workspaceId r))) (db_projections db)\<rparr>))
        (\<lambda>db'. Inr (db', ())))) (\<lambda>_.
    bindS (readS (\<lambda>db. (length records, projectionDigest sha db (Some (to_string projectionType)) workspaceId))) returnS))))) db"

subsection \<open>Import of a legacy log\<close>

definition legacy_mapped :: "string \<Rightarrow> string \<Rightarrow> string \<Rightarrow> nat \<Rightarrow> js \<Rightarrow> js res" where
  "legacy_mapped uuid sourceSha workspaceId index legacy =
    bindE (fieldE legacy ''id'') (\<lambda>i.
    let line = nat_digits (index + 1); type = field legacy ''type'' in
    Inr (JObj [(''id'', or_js i (JStr uuid)), (''workspaceId'', or_js (field legacy ''workspaceId'') (JStr workspaceId)),
      (''aggregateType'', or_js (field legacy ''aggregateType'') (JStr (takeWhile (\<lambda>c. c \<noteq> CHR ''.'') (to_string (or_js type (JStr ''legacy.event'')))))),
      (''aggregateId'', or_js (field legacy ''aggregateId'') (or_js (field (field legacy ''task'') ''id'') (or_js (field (field legacy ''worker'') ''id'')
         (or_js i (JStr (''legacy-'' @ line)))))),
      (''eventType'', or_js (field legacy ''eventType'') (or_js type (JStr ''legacy.event''))),
      (''eventVersion'', JNum 1), (''idempotencyKey'', JStr (''s0:'' @ sourceSha @ '':'' @ line)),
      (''occurredAt'', or_js (field legacy ''occurredAt'') (JStr ''1970-01-01T00:00:00.000Z'')),
      (''payload'', JObj [(''legacyEvent'', legacy)]),
      (''metadata'', JObj [(''source'', JStr ''s0-jsonl''), (''sourceSha256'', JStr sourceSha), (''sourceLine'', JNum (int (index + 1)))])]))"

text \<open>\<open>INSERT OR IGNORE\<close>: a row that breaks a unique column is skipped; \<open>gap\<close> is what the host's
  counter of sequences does then.\<close>

definition insert_or_ignore :: "(int \<Rightarrow> int) \<Rightarrow> event_data \<Rightarrow> store \<times> nat \<Rightarrow> store \<times> nat" where
  "insert_or_ignore gap event = (\<lambda>(db, count). case insert_event event db of
      Inr db' \<Rightarrow> (db', count + 1) | Inl _ \<Rightarrow> (db\<lparr>db_lastSequence := gap (db_lastSequence db)\<rparr>, count))"

text \<open>\<open>num\<close> is the parameter of \<open>parse_json\<close>, \<open>uuid i\<close> the identifier drawn for line \<open>i\<close>.\<close>

definition parse_lines :: "(string \<Rightarrow> js) \<Rightarrow> string \<Rightarrow> js list res" where
  "parse_lines num raw =
    mapE (\<lambda>(i, line). case parse_json num line of None \<Rightarrow> Inl (Error (''Invalid JSONL at line '' @ nat_digits (i + 1))) | Some v \<Rightarrow> Inr v)
      (enumerate 0 (filter (\<lambda>l. l \<noteq> []) (split_lines raw)))"

definition legacy_events :: "(nat \<Rightarrow> string) \<Rightarrow> string \<Rightarrow> string \<Rightarrow> js list \<Rightarrow> event_data list res" where
  "legacy_events uuid sourceSha workspaceId parsed =
    mapE (\<lambda>(i, legacy). bindE (legacy_mapped (uuid i) sourceSha workspaceId i legacy) (normalizeEvent (uuid i) [])) (enumerate 0 parsed)"

definition importS0Jsonl ::
  "(string \<Rightarrow> string) \<Rightarrow> (string \<Rightarrow> js) \<Rightarrow> (nat \<Rightarrow> string) \<Rightarrow> (int \<Rightarrow> int) \<Rightarrow> string \<Rightarrow> string \<Rightarrow> (store, bool \<times> nat) act" where
  "importS0Jsonl sha num uuid gap workspaceId raw db =
    (if list_ex (\<lambda>r. fst r = sha raw) (db_imports db) then (db, Inr (True, 0))
     else bindS (liftS (parse_lines num raw)) (\<lambda>parsed.
       bindS (liftS (legacy_events uuid (sha raw) workspaceId parsed)) (\<lambda>events.
       withTransaction (\<lambda>db. let (db', count) = fold (insert_or_ignore gap) events (db, 0)
         in Inr (db'\<lparr>db_imports := db_imports db' @ [(sha raw, count)]\<rparr>, (False, count))))) db)"

subsection \<open>The projection repository\<close>

record repository =
  rp_projectionType :: string
  rp_defaultWorkspaceId :: string
  rp_records :: "(string, js) jsmap"

definition openRepository :: "string \<Rightarrow> string \<Rightarrow> store \<Rightarrow> repository" where
  "openRepository projectionType defaultWorkspaceId db = \<lparr>rp_projectionType = projectionType, rp_defaultWorkspaceId = defaultWorkspaceId,
     rp_records = fold (\<lambda>p. mset_at (pr_projectionId p) (pr_data p)) (listProjections db (Some projectionType) None) []\<rparr>"

definition repository_get :: "repository \<Rightarrow> string \<Rightarrow> js option" where
  "repository_get r i = mget (rp_records r) i"

definition repository_list :: "repository \<Rightarrow> js list" where
  "repository_list r = mvalues (rp_records r)"

definition snapshot_event :: "string \<Rightarrow> js \<Rightarrow> js \<Rightarrow> string \<Rightarrow> int \<Rightarrow> js \<Rightarrow> js" where
  "snapshot_event t i workspaceId reason version stored = JObj [(''workspaceId'', workspaceId), (''aggregateType'', JStr t), (''aggregateId'', i),
     (''eventType'', JStr (t @ ''.snapshot'')), (''eventVersion'', JNum 1),
     (''idempotencyKey'', JStr (t @ '':snapshot:'' @ to_string i @ '':'' @ int_to_string version)),
     (''payload'', JObj [(''record'', stored), (''reason'', JStr reason)]), (''metadata'', JObj [(''projectionType'', JStr t)])]"

definition repository_save :: "string \<Rightarrow> string \<Rightarrow> js \<Rightarrow> string \<Rightarrow> (repository \<times> store, js) act" where
  "repository_save uuid now rec reason = (\<lambda>(r, db).
    (let t = rp_projectionType r; i = field rec ''id'' in
     if \<not> is_object rec \<or> \<not> truthy i then ((r, db), Inl (TypeError (t @ '' record id is required'')))
     else let version = (case getProjection db t (to_string i) of None \<Rightarrow> 0 | Some p \<Rightarrow> pr_version p) + 1;
              stored = with_fields rec [(''_revision'', JNum version)];
              workspaceId = or_js (field stored ''workspaceId'') (JStr (rp_defaultWorkspaceId r))
          in case appendWithProjection uuid now (snapshot_event t i workspaceId reason version stored)
               (JObj [(''projectionType'', JStr t), (''projectionId'', i), (''workspaceId'', workspaceId), (''version'', JNum version), (''data'', stored)]) db of
            (db', Inl e) \<Rightarrow> ((r, db'), Inl e)
          | (db', Inr _) \<Rightarrow> ((r\<lparr>rp_records := mset_at (to_string i) stored (rp_records r)\<rparr>, db'), Inr stored)))"

subsection \<open>Canonical text of what is stored\<close>

text \<open>The keys of an object are distinct, as those of every JavaScript object.\<close>

fun wf_js :: "js \<Rightarrow> bool" where
  "wf_js (JArr vs) = list_all wf_js vs"
| "wf_js (JObj kvs) = (distinct (map fst kvs) \<and> list_all (\<lambda>(k, v). wf_js v) kvs)"
| "wf_js _ = True"

lemma obj_simps:
  "stableValue (JObj kvs) = mk_obj (sort_key fst (on_values stableValue kvs))" "json_clone (JObj kvs) = JObj (on_values json_clone (defined_only kvs))"
  by (simp_all add: on_values_def defined_only_def)

lemma stable_undef [simp]: "stableValue v = JUndef \<longleftrightarrow> v = JUndef"
  by (cases v) (auto simp: mk_obj_def)

lemma clone_not_undef [simp]: "json_clone v \<noteq> JUndef"
  by (cases v) auto

lemma defined_stable: "defined_only (on_values stableValue kvs) = on_values stableValue (defined_only kvs)"
  by (induction kvs) (auto simp: defined_only_def on_values_def)

lemma json_clone_text: "json (json_clone v) = json v"
proof (induction v rule: json.induct)
  case (8 kvs)
  have f: "filter (\<lambda>(k, v). v \<noteq> JUndef) (map (\<lambda>(k, v). (k, json_clone v)) xs) = map (\<lambda>(k, v). (k, json_clone v)) xs" for xs
    by (induction xs) auto
  from 8 have "map (\<lambda>(k, v). quote k @ '':'' @ json v) (map (\<lambda>(k, v). (k, json_clone v)) (filter (\<lambda>(k, v). v \<noteq> JUndef) kvs)) =
      map (\<lambda>(k, v). quote k @ '':'' @ json v) (filter (\<lambda>(k, v). v \<noteq> JUndef) kvs)"
    by (auto split: prod.splits)
  then show ?case by (simp only: json_clone.simps json.simps f)
qed (auto cong: map_cong)

lemma stable_clone: "stableValue (json_clone v) = json_clone (stableValue v)"
proof (induction v rule: json_clone.induct)
  case (4 kvs)
  have ih: "on_values stableValue (on_values json_clone (defined_only kvs)) = on_values json_clone (on_values stableValue (defined_only kvs))"
    using 4 by (auto simp: on_values_def defined_only_def split: prod.splits)
  show ?case
    by (simp only: obj_simps mk_obj_clone defined_sort defined_stable ih sort_on_fst)
qed auto

lemma stable_stable: "wf_js v \<Longrightarrow> stableValue (stableValue v) = stableValue v"
proof (induction v rule: stableValue.induct)
  case (2 kvs)
  let ?ys = "on_values stableValue kvs" and ?P = "\<lambda>kv. index_key (fst kv) :: bool"
  let ?S = "sort_key fst ?ys"
  let ?zs = "sort_key (\<lambda>kv. digits_val 10 (fst kv)) (filter (\<lambda>kv. index_key (fst kv)) ?S) @ filter (\<lambda>kv. \<not> index_key (fst kv)) ?S"
  have z: "stableValue (JObj kvs) = JObj ?zs" by (simp only: obj_simps mk_obj_def)
  have m: "mset ?zs = mset ?S" by simp
  have inj: "inj_on fst (set ?zs)"
  proof -
    have "map fst ?ys = map fst kvs" by (auto simp: on_values_def)
    then have "distinct (map fst ?ys)" using 2(2) by simp
    then have "inj_on fst (set ?ys)" by (simp add: distinct_map)
    moreover have "set ?zs = set ?ys" by auto
    ultimately show ?thesis by simp
  qed
  have idem: "on_values stableValue ?zs = ?zs"
    using 2 by (auto simp: on_values_def list_all_iff intro!: map_idI split: prod.splits)
  have "sort_key fst ?zs = ?S" by (rule sort_key_inj_key_eq[OF m inj]) simp
  then show ?case by (simp only: z obj_simps(1)[of ?zs] idem) (simp only: mk_obj_def)
qed (auto simp: list_all_iff)

lemma stable_stored: "wf_js v \<Longrightarrow> stableStringify (stored_json v) = stableStringify v"
  by (simp add: stableStringify_def stored_json_def stable_clone json_clone_text stable_stable)

subsection \<open>The append, step by step\<close>

lemma requiredString_Inr [simp]: "requiredString v l = Inr t \<longleftrightarrow> (\<exists>s. v = JStr s \<and> trim_js s \<noteq> [] \<and> t = trim_js s)"
  by (auto simp: requiredString_def split: js.splits if_splits)

lemma requiredString_again:
  "requiredString (or_js v (JStr a)) l = Inr t \<Longrightarrow> trim_js b \<noteq> [] \<Longrightarrow> \<exists>t'. requiredString (or_js v (JStr b)) l = Inr t'"
  by (auto simp: or_js_def split: if_splits)

lemma event_version_case:
  "(case x of Some n \<Rightarrow> if n < 1 then Inl (RangeError m) else Inr n | None \<Rightarrow> Inl (RangeError m)) = Inr (k :: int) \<longleftrightarrow> x = Some k \<and> 1 \<le> k"
  by (cases x) auto

lemma event_record_again:
  assumes "event_record uuid now raw p m = Inr e" "trim_js u' \<noteq> []" "trim_js n' \<noteq> []"
  shows "ev_payload e = p \<and> ev_metadata e = m \<and> (\<exists>i t. event_record u' n' raw p m = Inr (e\<lparr>ev_id := i, ev_occurredAt := t\<rparr>))"
proof -
  from assms(1) obtain version i w at ai et k oc where s:
      "to_integer (coalesce (field raw ''eventVersion'') (JNum 1)) = Some version" "1 \<le> version"
      "requiredString (or_js (field raw ''id'') (JStr uuid)) ''event.id'' = Inr i" "requiredString (field raw ''workspaceId'') ''event.workspaceId'' = Inr w"
      "requiredString (field raw ''aggregateType'') ''event.aggregateType'' = Inr at" "requiredString (field raw ''aggregateId'') ''event.aggregateId'' = Inr ai"
      "requiredString (field raw ''eventType'') ''event.eventType'' = Inr et" "requiredString (field raw ''idempotencyKey'') ''event.idempotencyKey'' = Inr k"
      "requiredString (or_js (field raw ''occurredAt'') (JStr now)) ''event.occurredAt'' = Inr oc"
    and e: "e = \<lparr>ev_id = i, ev_workspaceId = w, ev_aggregateType = at, ev_aggregateId = ai, ev_eventType = et, ev_eventVersion = version,
      ev_idempotencyKey = k, ev_occurredAt = oc, ev_payload = p, ev_metadata = m\<rparr>"
    unfolding event_record_def by (auto simp: event_version_case simp del: requiredString_Inr)
  obtain i' where i': "requiredString (or_js (field raw ''id'') (JStr u')) ''event.id'' = Inr i'" using requiredString_again[OF s(3) assms(2)] by blast
  obtain t' where t': "requiredString (or_js (field raw ''occurredAt'') (JStr n')) ''event.occurredAt'' = Inr t'" using requiredString_again[OF s(9) assms(3)] by blast
  have "event_record u' n' raw p m = Inr (e\<lparr>ev_id := i', ev_occurredAt := t'\<rparr>)"
    unfolding event_record_def using s(2) by (simp add: s(1) s(4-8) i' t' e del: requiredString_Inr bindE_eq_Inr)
  with e show ?thesis by auto
qed

lemma event_record_parts: "event_record uuid now raw p m = Inr e \<Longrightarrow> ev_payload e = p \<and> ev_metadata e = m"
  by (auto simp: event_record_def simp del: requiredString_Inr)

lemma normalizeEvent_Inr:
  assumes "normalizeEvent uuid now raw = Inr e"
  shows "ev_payload e = event_part raw ''payload''" "ev_metadata e = event_part raw ''metadata''"
    "assertNoForbiddenSecrets (ev_payload e) ''event.payload'' = Inr ()" "assertNoForbiddenSecrets (ev_metadata e) ''event.metadata'' = Inr ()"
    "trim_js u' \<noteq> [] \<Longrightarrow> trim_js n' \<noteq> [] \<Longrightarrow> \<exists>i t. normalizeEvent u' n' raw = Inr (e\<lparr>ev_id := i, ev_occurredAt := t\<rparr>)"
proof -
  from assms have s: "plain_object raw" "plain_object (event_part raw ''payload'')" "plain_object (event_part raw ''metadata'')"
      "assertNoForbiddenSecrets (event_part raw ''payload'') ''event.payload'' = Inr ()" "assertNoForbiddenSecrets (event_part raw ''metadata'') ''event.metadata'' = Inr ()"
      "event_record uuid now raw (event_part raw ''payload'') (event_part raw ''metadata'') = Inr e"
    by (auto simp: normalizeEvent_def assertPlainObject_def)
  from event_record_parts[OF s(6)] s show "ev_payload e = event_part raw ''payload''" "ev_metadata e = event_part raw ''metadata''"
    "assertNoForbiddenSecrets (ev_payload e) ''event.payload'' = Inr ()" "assertNoForbiddenSecrets (ev_metadata e) ''event.metadata'' = Inr ()"
    by simp_all
  assume u: "trim_js u' \<noteq> []" "trim_js n' \<noteq> []"
  from event_record_again[OF s(6) u] show "\<exists>i t. normalizeEvent u' n' raw = Inr (e\<lparr>ev_id := i, ev_occurredAt := t\<rparr>)"
    by (simp add: normalizeEvent_def assertPlainObject_def s(1-5))
qed

definition event_row :: "event_data \<Rightarrow> event_data" where
  "event_row e = e\<lparr>ev_payload := stored_json (ev_payload e), ev_metadata := stored_json (ev_metadata e)\<rparr>"

lemma insert_event_Inr:
  "insert_event e db = Inr db' \<longleftrightarrow> (\<forall>r \<in> set (db_events db). ev_id (snd r) \<noteq> ev_id e \<and> ev_idempotencyKey (snd r) \<noteq> ev_idempotencyKey e) \<and>
     db' = db\<lparr>db_events := db_events db @ [(db_lastSequence db + 1, event_row e)], db_lastSequence := db_lastSequence db + 1\<rparr>"
  by (auto simp: insert_event_def event_row_def list_ex_iff)

lemma writeProjection_Inr:
  assumes "writeProjection p s db = Inr (db', q)"
  shows "\<exists>x. pr_projectionType x = pr_projectionType p \<and> pr_projectionId x = pr_projectionId p \<and> pr_workspaceId x = pr_workspaceId p \<and>
      pr_version x = pr_version p \<and> pr_data x = stored_json (pr_data p) \<and> db' = db\<lparr>db_projections := upsert x (db_projections db)\<rparr>"
    "getProjection db (pr_projectionType p) (pr_projectionId p) = Some c \<Longrightarrow> pr_workspaceId c = pr_workspaceId p \<and> pr_version c \<le> pr_version p \<and>
      (pr_version c = pr_version p \<longrightarrow> stableStringify (pr_data c) = stableStringify (pr_data p))"
  using assms by (auto simp: writeProjection_def Let_def split: option.splits if_splits
      intro!: exI[of _ "p\<lparr>pr_data := stored_json (pr_data p), pr_updatedEventSequence := Some s\<rparr>"])

lemma find_upsert:
  "find (\<lambda>r. pr_projectionType r = t \<and> pr_projectionId r = i) (upsert x rows) =
     (if pr_projectionType x = t \<and> pr_projectionId x = i then Some x else find (\<lambda>r. pr_projectionType r = t \<and> pr_projectionId r = i) rows)"
  by (induction rows) auto

lemma append_in_cases:
  assumes "append_in e p db = Inr (db', r)"
  obtains (duplicate) x where "getEventByIdempotencyKey db (ev_idempotencyKey e) = Some x" "same_event (snd x) e" "db' = db"
      "\<not> ar_created r" "ar_event r = x"
  | (created) db1 where "getEventByIdempotencyKey db (ev_idempotencyKey e) = None" "insert_event e db = Inr db1" "ar_created r"
      "ar_event r = (db_lastSequence db + 1, e)" "p = None \<and> db' = db1 \<or> (\<exists>y q. p = Some y \<and> writeProjection y (db_lastSequence db + 1) db1 = Inr (db', q))"
proof (cases "getEventByIdempotencyKey db (ev_idempotencyKey e)")
  case (Some x)
  with assms show ?thesis by (intro duplicate[of x]) (auto simp: append_in_def split: if_splits)
next
  case None
  with assms obtain db1 where i: "insert_event e db = Inr db1" by (auto simp: append_in_def)
  then have l: "db_lastSequence db1 = db_lastSequence db + 1" by (auto simp: insert_event_Inr)
  show ?thesis
    by (rule created[of db1]) (use None i l assms in \<open>auto simp: append_in_def split: option.splits\<close>)
qed

lemma appendWithProjection_cases:
  assumes "appendWithProjection uuid now rawE rawP db = (db', res)"
  obtains (failed) x where "res = Inl x" "db' = db"
  | (ok) e p r where "normalizeEvent uuid now rawE = Inr e" "normalizeProjection rawP = Inr p"
      "\<not> (case p of None \<Rightarrow> False | Some p \<Rightarrow> pr_workspaceId p \<noteq> ev_workspaceId e)" "append_in e p db = Inr (db', r)" "res = Inr r"
proof (cases "normalizeEvent uuid now rawE")
  case (Inl x)
  with assms show ?thesis by (intro failed[of x]) (auto simp: appendWithProjection_def)
next
  case (Inr e)
  note e = this
  show ?thesis
  proof (cases "normalizeProjection rawP")
    case (Inl x)
    with assms e show ?thesis by (intro failed[of x]) (auto simp: appendWithProjection_def)
  next
    case (Inr p)
    show ?thesis
    proof (cases "(case p of None \<Rightarrow> False | Some p \<Rightarrow> pr_workspaceId p \<noteq> ev_workspaceId e)")
      case True
      with assms e Inr show ?thesis by (intro failed) (auto simp: appendWithProjection_def)
    next
      case False
      show ?thesis
      proof (cases "append_in e p db")
        case (Inl x)
        with assms e Inr False show ?thesis by (intro failed[of x]) (auto simp: appendWithProjection_def withTransaction_def)
      next
        case (Inr y)
        obtain d r where y: "y = (d, r)" by fastforce
        show ?thesis
          by (rule ok[OF e \<open>normalizeProjection rawP = Inr p\<close> False])
            (use assms e \<open>normalizeProjection rawP = Inr p\<close> False Inr y in \<open>auto simp: appendWithProjection_def withTransaction_def\<close>)
      qed
    qed
  qed
qed

lemma append_events:
  assumes "append_in e p db = Inr (db', r)"
  shows "getEventByIdempotencyKey db' (ev_idempotencyKey e) = (if ar_created r then Some (fst (ar_event r), event_row e) else Some (ar_event r))"
  using assms
proof (cases rule: append_in_cases)
  case (duplicate x)
  then show ?thesis by simp
next
  case (created db1)
  have ev: "db_events db' = db_events db1"
    using created(5) by (auto dest: writeProjection_Inr(1))
  from created(1,2) show ?thesis
    by (auto simp: getEventByIdempotencyKey_def ev insert_event_Inr find_append event_row_def created(3,4))
qed

lemma field_wf: "wf_js v \<Longrightarrow> wf_js (field v k)"
  by (cases v) (auto simp: list_all_iff split: option.splits dest!: map_of_SomeD)

lemma same_event_row: "wf_js (ev_payload e) \<Longrightarrow> wf_js (ev_metadata e) \<Longrightarrow> same_event (event_row e) (e\<lparr>ev_id := i, ev_occurredAt := t\<rparr>)"
  by (simp add: same_event_def event_row_def stable_stored)

lemma same_event_update: "same_event x e \<Longrightarrow> same_event x (e\<lparr>ev_id := i, ev_occurredAt := t\<rparr>)"
  by (simp add: same_event_def)

lemma append_is_idempotent_clauses:
  shows "appendWithProjection uuid now rawE rawP db = (db', Inl x) \<Longrightarrow> db' = db"
    and "appendWithProjection uuid now rawE rawP db = (db', Inr r) \<Longrightarrow> wf_js rawE \<Longrightarrow> trim_js uuid' \<noteq> [] \<Longrightarrow> trim_js now' \<noteq> [] \<Longrightarrow>
      \<exists>r'. appendWithProjection uuid' now' rawE rawP db' = (db', Inr r') \<and> \<not> ar_created r' \<and> fst (ar_event r') = fst (ar_event r) \<and>
        same_event (snd (ar_event r')) (snd (ar_event r))"
    and "normalizeEvent uuid now rawE = Inr e \<Longrightarrow> getEventByIdempotencyKey db (ev_idempotencyKey e) = Some y \<Longrightarrow> \<not> same_event (snd y) e \<Longrightarrow>
      \<exists>x. appendWithProjection uuid now rawE rawP db = (db, Inl x)"
proof -
  show "appendWithProjection uuid now rawE rawP db = (db', Inl x) \<Longrightarrow> db' = db"
    by (erule appendWithProjection_cases) auto
  show "\<exists>r'. appendWithProjection uuid' now' rawE rawP db' = (db', Inr r') \<and> \<not> ar_created r' \<and> fst (ar_event r') = fst (ar_event r) \<and>
        same_event (snd (ar_event r')) (snd (ar_event r))"
    if first: "appendWithProjection uuid now rawE rawP db = (db', Inr r)" and wf: "wf_js rawE" and fresh: "trim_js uuid' \<noteq> []" "trim_js now' \<noteq> []"
  proof (rule appendWithProjection_cases[OF first])
    fix e p r0 assume h: "normalizeEvent uuid now rawE = Inr e" "normalizeProjection rawP = Inr p"
      "\<not> (case p of None \<Rightarrow> False | Some p \<Rightarrow> pr_workspaceId p \<noteq> ev_workspaceId e)" "append_in e p db = Inr (db', r0)" "Inr r = Inr r0"
    from normalizeEvent_Inr(5)[OF h(1) fresh] obtain i t where n: "normalizeEvent uuid' now' rawE = Inr (e\<lparr>ev_id := i, ev_occurredAt := t\<rparr>)" by blast
    have "wf_js (event_part rawE k)" for k using field_wf[OF wf] by (simp add: event_part_def)
    then have wfe: "wf_js (ev_payload e)" "wf_js (ev_metadata e)" by (simp_all add: normalizeEvent_Inr(1,2)[OF h(1)])
    obtain z where z: "getEventByIdempotencyKey db' (ev_idempotencyKey e) = Some z" "fst z = fst (ar_event r)"
      "same_event (snd z) (e\<lparr>ev_id := i, ev_occurredAt := t\<rparr>)" "same_event (snd z) (snd (ar_event r))"
    proof (rule append_in_cases[OF h(4)])
      fix x assume "getEventByIdempotencyKey db (ev_idempotencyKey e) = Some x" "same_event (snd x) e" "db' = db" "ar_event r0 = x"
      note x = this
      have "same_event (snd x) (snd (ar_event r))" using x(4) h(5) by (simp add: same_event_def)
      with x h(5) show thesis by (intro that[of x] same_event_update) simp_all
    next
      fix db1 assume c: "ar_created r0" "ar_event r0 = (db_lastSequence db + 1, e)"
      from append_events[OF h(4)] c have "getEventByIdempotencyKey db' (ev_idempotencyKey e) = Some (db_lastSequence db + 1, event_row e)" by simp
      moreover have "same_event (event_row e) e" using wfe by (simp add: same_event_def event_row_def stable_stored)
      ultimately show thesis using that c h(5) same_event_row[OF wfe] by simp
    qed
    have "\<exists>r'. append_in (e\<lparr>ev_id := i, ev_occurredAt := t\<rparr>) p db' = Inr (db', r') \<and> \<not> ar_created r' \<and> ar_event r' = z"
      using z by (simp add: append_in_def)
    then obtain r' where r': "append_in (e\<lparr>ev_id := i, ev_occurredAt := t\<rparr>) p db' = Inr (db', r')" "\<not> ar_created r'" "ar_event r' = z" by blast
    have "appendWithProjection uuid' now' rawE rawP db' = (db', Inr r')"
      using h(3) r'(1) by (cases p) (simp_all add: appendWithProjection_def n h(2) withTransaction_def)
    with r'(2,3) z show ?thesis by blast
  qed simp
  show "\<exists>x. appendWithProjection uuid now rawE rawP db = (db, Inl x)"
    if c: "normalizeEvent uuid now rawE = Inr e" "getEventByIdempotencyKey db (ev_idempotencyKey e) = Some y" "\<not> same_event (snd y) e"
  proof -
    have "append_in e p db = Inl (Error (''Idempotency key collision: '' @ ev_idempotencyKey e))" for p using c(2,3) by (simp add: append_in_def)
    with c(1) show ?thesis by (cases "normalizeProjection rawP") (auto simp: appendWithProjection_def withTransaction_def)
  qed
qed

text \<open>
  C36: Appending is atomic and idempotent: a call that throws leaves the store as it was,
  and after a call that succeeded the same call succeeds again, at any later time and with any fresh
  identifier, without creating an event or changing the store, and returns the event of the
  same sequence number; another event under the same key is refused.
\<close>

theorem append_is_idempotent:
  shows "(appendWithProjection uuid now rawE rawP db = (db', Inl x) \<longrightarrow> db' = db) \<and>
    (appendWithProjection uuid now rawE rawP db = (db', Inr r) \<and> wf_js rawE \<and> trim_js uuid' \<noteq> [] \<and> trim_js now' \<noteq> [] \<longrightarrow>
      (\<exists>r'. appendWithProjection uuid' now' rawE rawP db' = (db', Inr r') \<and> \<not> ar_created r' \<and> fst (ar_event r') = fst (ar_event r) \<and>
        same_event (snd (ar_event r')) (snd (ar_event r)))) \<and>
    (normalizeEvent uuid now rawE = Inr e \<and> getEventByIdempotencyKey db (ev_idempotencyKey e) = Some y \<and> \<not> same_event (snd y) e \<longrightarrow>
      (\<exists>x. appendWithProjection uuid now rawE rawP db = (db, Inl x)))"
  using append_is_idempotent_clauses[where uuid = uuid and now = now and rawE = rawE and rawP = rawP and db = db] by blast

subsection \<open>What the store keeps\<close>

fun deep_strings :: "js \<Rightarrow> string list" where
  "deep_strings (JStr s) = [s]"
| "deep_strings (JArr vs) = concat (map deep_strings vs)"
| "deep_strings (JObj kvs) = concat (map (\<lambda>(k, v). deep_strings v) kvs)"
| "deep_strings _ = []"

definition secret_free :: "js \<Rightarrow> bool" where
  "secret_free v \<longleftrightarrow> (\<forall>k \<in> set (deep_keys v). \<not> STORE_FORBIDDEN_KEY k) \<and> (\<forall>s \<in> set (deep_strings v). \<not> FORBIDDEN_STRING s)"

lemma assertNoForbiddenSecrets_iff:
  "assertNoForbiddenSecrets v p = Inr u \<longleftrightarrow> secret_free v"
  "secret_items i vs p = Inr u \<longleftrightarrow> (\<forall>v \<in> set vs. secret_free v)"
  "secret_entries kvs p = Inr u \<longleftrightarrow> (\<forall>kv \<in> set kvs. \<not> STORE_FORBIDDEN_KEY (fst kv) \<and> secret_free (snd kv))"
proof (induction v p and i vs p and kvs p rule: assertNoForbiddenSecrets_secret_items_secret_entries.induct)
  case (2 vs p)
  then show ?case by (auto simp: secret_free_def)
next
  case (3 kvs p)
  then show ?case by (force simp: secret_free_def)
qed (auto simp: secret_free_def)

lemma deep_obj:
  "set xs = set ys \<Longrightarrow> set (deep_keys (JObj xs)) = set (deep_keys (JObj ys))"
  "set xs = set ys \<Longrightarrow> set (deep_strings (JObj xs)) = set (deep_strings (JObj ys))"
  by auto

lemma deep_stable: "set (deep_keys (stableValue v)) = set (deep_keys v) \<and> set (deep_strings (stableValue v)) = set (deep_strings v)"
proof (induction v rule: stableValue.induct)
  case (2 kvs)
  have "\<exists>zs. stableValue (JObj kvs) = JObj zs \<and> set zs = set (on_values stableValue kvs)"
    unfolding obj_simps mk_obj_def by (rule exI, rule conjI[OF refl]) auto
  then obtain zs where z: "stableValue (JObj kvs) = JObj zs" "set zs = set (on_values stableValue kvs)" by blast
  have "set (deep_keys (JObj (on_values stableValue kvs))) = set (deep_keys (JObj kvs)) \<and>
      set (deep_strings (JObj (on_values stableValue kvs))) = set (deep_strings (JObj kvs))"
    using 2 by (force simp: on_values_def)
  with deep_obj[OF z(2)] show ?case by (simp only: z(1))
qed auto

lemma deep_clone: "set (deep_keys (json_clone v)) \<subseteq> set (deep_keys v) \<and> set (deep_strings (json_clone v)) \<subseteq> set (deep_strings v)"
  by (induction v rule: json_clone.induct) force+

lemma secret_free_stored: "secret_free v \<Longrightarrow> secret_free (stored_json v)"
  using deep_stable[of v] deep_clone[of "stableValue v"] by (auto simp: secret_free_def stored_json_def)

text \<open>One call on the store.  The sequence counter never runs backwards when an insert is ignored.\<close>

inductive store_step :: "store \<Rightarrow> store \<Rightarrow> bool" where
  append: "appendWithProjection uuid now rawE rawP db = (db', r) \<Longrightarrow> store_step db db'"
| rebuild: "rebuildProjection sha t (reducer :: int \<times> event_data \<Rightarrow> (string, js) jsmap \<Rightarrow> (string, js) jsmap res) w db = (db', r) \<Longrightarrow> store_step db db'"
| legacy_import: "importS0Jsonl sha num uuids gap w raw db = (db', r) \<Longrightarrow> \<forall>n. n \<le> gap n \<Longrightarrow> store_step db db'"

definition store_ok :: "store \<Rightarrow> bool" where
  "store_ok db \<longleftrightarrow> sorted_wrt (<) (map fst (db_events db)) \<and> (\<forall>r \<in> set (db_events db). fst r \<le> db_lastSequence db \<and>
      secret_free (ev_payload (snd r)) \<and> secret_free (ev_metadata (snd r))) \<and>
     distinct (map (ev_id \<circ> snd) (db_events db)) \<and> distinct (map (ev_idempotencyKey \<circ> snd) (db_events db))"

text \<open>The second store has the log of the first and possibly more.\<close>

definition extends :: "store \<Rightarrow> store \<Rightarrow> bool" where
  "extends db db' \<longleftrightarrow> (\<exists>rows. db_events db' = db_events db @ rows)"

lemma extends_refl [simp]: "extends db db"
  by (simp add: extends_def)

lemma extends_trans: "extends a b \<Longrightarrow> extends b c \<Longrightarrow> extends a c"
  by (auto simp: extends_def)

lemma insert_event_ok:
  assumes "insert_event e db = Inr db'" "store_ok db" "secret_free (ev_payload e)" "secret_free (ev_metadata e)"
  shows "store_ok db' \<and> extends db db'"
proof -
  have i: "\<forall>r \<in> set (db_events db). ev_id (snd r) \<noteq> ev_id e \<and> ev_idempotencyKey (snd r) \<noteq> ev_idempotencyKey e"
    and db': "db' = db\<lparr>db_events := db_events db @ [(db_lastSequence db + 1, event_row e)], db_lastSequence := db_lastSequence db + 1\<rparr>"
    using assms(1) by (simp_all add: insert_event_Inr)
  have f: "ev_id (event_row e) = ev_id e" "ev_idempotencyKey (event_row e) = ev_idempotencyKey e"
    "secret_free (ev_payload (event_row e))" "secret_free (ev_metadata (event_row e))"
    using assms(3,4) by (simp_all add: event_row_def secret_free_stored)
  have "store_ok db'"
    using assms(2) i f unfolding store_ok_def db' by (force simp: sorted_wrt_append)
  then show ?thesis by (simp add: extends_def db')
qed

lemma store_ok_cong: "db_events db' = db_events db \<Longrightarrow> db_lastSequence db \<le> db_lastSequence db' \<Longrightarrow> store_ok db \<Longrightarrow> store_ok db'"
  by (force simp: store_ok_def)

lemma normalizeEvent_secret_free: "normalizeEvent uuid now raw = Inr e \<Longrightarrow> secret_free (ev_payload e) \<and> secret_free (ev_metadata e)"
  using normalizeEvent_Inr(3,4) assertNoForbiddenSecrets_iff(1) by blast

lemma append_step_ok:
  assumes "appendWithProjection uuid now rawE rawP db = (db', res)" "store_ok db"
  shows "store_ok db' \<and> extends db db'"
proof (rule appendWithProjection_cases[OF assms(1)])
  show ?thesis if "db' = db" using that assms(2) by simp
  fix e p r assume h: "normalizeEvent uuid now rawE = Inr e" "append_in e p db = Inr (db', r)"
  show ?thesis
  proof (rule append_in_cases[OF h(2)])
    show ?thesis if "db' = db" using that assms(2) by simp
    fix db1 assume c: "insert_event e db = Inr db1" "p = None \<and> db' = db1 \<or> (\<exists>y q. p = Some y \<and> writeProjection y (db_lastSequence db + 1) db1 = Inr (db', q))"
    have "store_ok db1 \<and> extends db db1" using insert_event_ok[OF c(1) assms(2)] normalizeEvent_secret_free[OF h(1)] by blast
    moreover have "db_events db' = db_events db1 \<and> db_lastSequence db' = db_lastSequence db1" using c(2) by (auto dest: writeProjection_Inr(1))
    ultimately show ?thesis using store_ok_cong[of db' db1] by (simp add: extends_def)
  qed
qed

lemma foldE_inv: "foldE f xs s = Inr s' \<Longrightarrow> P s \<Longrightarrow> (\<And>x s s'. f x s = Inr s' \<Longrightarrow> P s \<Longrightarrow> P s') \<Longrightarrow> P s'"
  by (induction xs arbitrary: s) auto

lemma rebuild_events: "fst (rebuildProjection sha t reducer w db) = db \<or>
    (db_events (fst (rebuildProjection sha t reducer w db)) = db_events db \<and> db_lastSequence (fst (rebuildProjection sha t reducer w db)) = db_lastSequence db)"
proof -
  have ins: "db_events d' = db_events db \<and> db_lastSequence d' = db_lastSequence db"
    if "foldE insert_projection rs (db\<lparr>db_projections := ps\<rparr>) = Inr d'" for rs ps d'
    using that by (rule foldE_inv) (auto simp: insert_projection_def split: if_splits)
  show ?thesis
    by (cases "requiredString t ''projectionType''"; cases "foldE reducer (listEvents db w None None) []"; simp add: rebuildProjection_def bindS_def withTransaction_def)
      (auto split: sum.splits prod.splits dest!: ins simp: bindE_def)
qed

lemma ignore_ok:
  assumes "store_ok db" "secret_free (ev_payload e)" "secret_free (ev_metadata e)" "\<forall>n. n \<le> gap n"
  shows "store_ok (fst (insert_or_ignore gap e (db, n))) \<and> extends db (fst (insert_or_ignore gap e (db, n)))"
proof (cases "insert_event e db")
  case (Inl x)
  with assms show ?thesis by (auto simp: insert_or_ignore_def extends_def intro: store_ok_cong[of _ db])
next
  case (Inr d)
  with insert_event_ok[OF Inr assms(1-3)] show ?thesis by (simp add: insert_or_ignore_def)
qed

lemma import_fold_ok:
  assumes "\<forall>n. n \<le> gap n"
  shows "store_ok db \<Longrightarrow> \<forall>e \<in> set es. secret_free (ev_payload e) \<and> secret_free (ev_metadata e) \<Longrightarrow>
    store_ok (fst (fold (insert_or_ignore gap) es (db, n))) \<and> extends db (fst (fold (insert_or_ignore gap) es (db, n)))"
proof (induction es arbitrary: db n)
  case (Cons e es)
  obtain db1 n1 where d: "insert_or_ignore gap e (db, n) = (db1, n1)" by fastforce
  from ignore_ok[OF Cons.prems(1) _ _ assms, of e n] Cons.prems(2) d have "store_ok db1 \<and> extends db db1" by simp
  with Cons.IH[of db1 n1] Cons.prems(2) d show ?case by (auto intro: extends_trans)
qed simp

lemma legacy_events_secret_free:
  assumes "legacy_events uuids sh w parsed = Inr events" "e \<in> set events"
  shows "secret_free (ev_payload e) \<and> secret_free (ev_metadata e)"
proof -
  from mapE_all[OF assms(1)[unfolded legacy_events_def] assms(2)] obtain x where
    "(case x of (i, legacy) \<Rightarrow> bindE (legacy_mapped (uuids i) sh w i legacy) (normalizeEvent (uuids i) [])) = Inr e" by blast
  then show ?thesis by (cases x) (auto dest: normalizeEvent_secret_free)
qed

lemma import_step_ok:
  assumes "importS0Jsonl sha num uuids gap w raw db = (db', res)" "store_ok db" "\<forall>n. n \<le> gap n"
  shows "store_ok db' \<and> extends db db'"
proof (cases "list_ex (\<lambda>r. fst r = sha raw) (db_imports db)")
  case True
  with assms show ?thesis by (simp add: importS0Jsonl_def)
next
  case False
  show ?thesis
  proof (cases "parse_lines num raw")
    case (Inl e)
    with False assms show ?thesis by (simp add: importS0Jsonl_def)
  next
    case (Inr parsed)
    note p = this
    show ?thesis
    proof (cases "legacy_events uuids (sha raw) w parsed")
      case (Inl e)
      with False p assms show ?thesis by (simp add: importS0Jsonl_def)
    next
      case (Inr events)
      have sf: "\<forall>e \<in> set events. secret_free (ev_payload e) \<and> secret_free (ev_metadata e)"
        using legacy_events_secret_free[OF Inr] by blast
      obtain d n where d: "fold (insert_or_ignore gap) events (db, 0) = (d, n)" by fastforce
      have "db' = d\<lparr>db_imports := db_imports d @ [(sha raw, n)]\<rparr>"
        using assms(1) False p Inr d by (simp add: importS0Jsonl_def withTransaction_def)
      with import_fold_ok[OF assms(3,2) sf, of 0] d show ?thesis by (auto simp: extends_def intro: store_ok_cong[of _ d])
    qed
  qed
qed

lemma store_step_ok:
  assumes "store_step db db'" "store_ok db" shows "store_ok db' \<and> extends db db'"
  using assms
proof (cases rule: store_step.cases)
  case (append uuid now rawE rawP r)
  with append_step_ok assms(2) show ?thesis by blast
next
  case (rebuild sha t reducer w r)
  with rebuild_events[of sha t reducer w db] assms(2) show ?thesis by (auto simp: extends_def intro: store_ok_cong[of _ db])
next
  case (legacy_import sha num uuids gap w raw r)
  with import_step_ok assms(2) show ?thesis by blast
qed

lemma steps_ok: "store_step\<^sup>*\<^sup>* db db' \<Longrightarrow> store_ok db \<Longrightarrow> store_ok db' \<and> extends db db'"
  by (induction rule: rtranclp_induct) (auto dest: store_step_ok intro: extends_trans)

lemma append_projection_monotone:
  assumes "appendWithProjection uuid now rawE rawP db = (db', res)" "getProjection db t i = Some p"
  shows "\<exists>p'. getProjection db' t i = Some p' \<and> pr_workspaceId p' = pr_workspaceId p \<and> pr_version p \<le> pr_version p'"
proof (rule appendWithProjection_cases[OF assms(1)])
  show ?thesis if "db' = db" using that assms(2) by simp
  fix e q r assume h: "append_in e q db = Inr (db', r)"
  show ?thesis
  proof (rule append_in_cases[OF h])
    show ?thesis if "db' = db" using that assms(2) by simp
    fix db1 assume c: "insert_event e db = Inr db1" "q = None \<and> db' = db1 \<or> (\<exists>y z. q = Some y \<and> writeProjection y (db_lastSequence db + 1) db1 = Inr (db', z))"
    have same: "db_projections db1 = db_projections db" using c(1) by (auto simp: insert_event_Inr)
    from c(2) show ?thesis
    proof (elim disjE conjE exE)
      assume "db' = db1"
      with assms(2) same show ?thesis by (simp add: getProjection_def)
    next
      fix y z assume w: "writeProjection y (db_lastSequence db + 1) db1 = Inr (db', z)"
      from writeProjection_Inr(1)[OF w] obtain x where x: "pr_projectionType x = pr_projectionType y" "pr_projectionId x = pr_projectionId y"
        "pr_workspaceId x = pr_workspaceId y" "pr_version x = pr_version y" "db' = db1\<lparr>db_projections := upsert x (db_projections db1)\<rparr>" by blast
      have g: "getProjection db' t i = (if pr_projectionType y = t \<and> pr_projectionId y = i then Some x else getProjection db t i)"
        by (simp add: x getProjection_def find_upsert same)
      have old: "getProjection db1 t i = Some p" using assms(2) same by (simp add: getProjection_def)
      show ?thesis
      proof (cases "pr_projectionType y = t \<and> pr_projectionId y = i")
        case True
        with writeProjection_Inr(2)[OF w, of p] old x g show ?thesis by auto
      next
        case False
        then have "getProjection db' t i = getProjection db t i" unfolding g by (rule if_not_P)
        with assms(2) show ?thesis by simp
      qed
    qed
  qed
qed

lemma event_log_is_append_only_clauses:
  assumes "store_step\<^sup>*\<^sup>* store_init db"
  shows "store_step\<^sup>*\<^sup>* db db' \<Longrightarrow> \<exists>rows. db_events db' = db_events db @ rows"
    and "sorted_wrt (<) (map fst (db_events db))" "distinct (map (ev_id \<circ> snd) (db_events db))"
      "distinct (map (ev_idempotencyKey \<circ> snd) (db_events db))"
    and "r \<in> set (db_events db) \<Longrightarrow> secret_free (ev_payload (snd r)) \<and> secret_free (ev_metadata (snd r))"
    and "listEvents db None None None = db_events db"
    and "appendWithProjection uuid now rawE rawP db = (db', res) \<Longrightarrow> getProjection db t i = Some p \<Longrightarrow>
      \<exists>p'. getProjection db' t i = Some p' \<and> pr_workspaceId p' = pr_workspaceId p \<and> pr_version p \<le> pr_version p'"
proof -
  have "store_ok store_init" by (simp add: store_ok_def store_init_def)
  with steps_ok[OF assms] have ok: "store_ok db" by blast
  show "store_step\<^sup>*\<^sup>* db db' \<Longrightarrow> \<exists>rows. db_events db' = db_events db @ rows"
    using steps_ok[OF _ ok] unfolding extends_def by blast
  show s: "sorted_wrt (<) (map fst (db_events db))" "distinct (map (ev_id \<circ> snd) (db_events db))" "distinct (map (ev_idempotencyKey \<circ> snd) (db_events db))"
    using ok by (simp_all add: store_ok_def)
  show "r \<in> set (db_events db) \<Longrightarrow> secret_free (ev_payload (snd r)) \<and> secret_free (ev_metadata (snd r))"
    using ok by (simp add: store_ok_def)
  have "sorted (map fst (db_events db))" using s(1) by (rule sorted_wrt_mono_rel[rotated]) simp
  then show "listEvents db None None None = db_events db" by (simp add: listEvents_def clause_def sort_key_id_if_sorted)
  show "appendWithProjection uuid now rawE rawP db = (db', res) \<Longrightarrow> getProjection db t i = Some p \<Longrightarrow>
      \<exists>p'. getProjection db' t i = Some p' \<and> pr_workspaceId p' = pr_workspaceId p \<and> pr_version p \<le> pr_version p'"
    by (rule append_projection_monotone)
qed

text \<open>
  C37: Whatever calls reach a store, its log is append-only and well formed: every later
  store extends it; sequence numbers strictly increase, identifiers and idempotency keys are
  unique, no payload or metadata carries a forbidden key or secret-like string at any depth, and reading all
  events returns the log in order.  An append never lowers the version of a projection record
  and never moves it to another workspace.
\<close>

theorem event_log_is_append_only:
  assumes "store_step\<^sup>*\<^sup>* store_init db"
  shows "(store_step\<^sup>*\<^sup>* db db' \<longrightarrow> (\<exists>rows. db_events db' = db_events db @ rows)) \<and>
    sorted_wrt (<) (map fst (db_events db)) \<and> distinct (map (ev_id \<circ> snd) (db_events db)) \<and>
    distinct (map (ev_idempotencyKey \<circ> snd) (db_events db)) \<and>
    (r \<in> set (db_events db) \<longrightarrow> secret_free (ev_payload (snd r)) \<and> secret_free (ev_metadata (snd r))) \<and>
    listEvents db None None None = db_events db \<and>
    (appendWithProjection uuid now rawE rawP db = (db1, res) \<and> getProjection db t i = Some p \<longrightarrow>
      (\<exists>p'. getProjection db1 t i = Some p' \<and> pr_workspaceId p' = pr_workspaceId p \<and> pr_version p \<le> pr_version p'))"
  using event_log_is_append_only_clauses[OF assms] by blast

definition sample_event :: js where
  "sample_event = JObj [(''id'', JStr ''e1''), (''workspaceId'', JStr ''w''), (''aggregateType'', JStr ''run''), (''aggregateId'', JStr ''r1''),
     (''eventType'', JStr ''run.started''), (''idempotencyKey'', JStr ''k1''), (''occurredAt'', JStr ''t1''), (''payload'', JObj [(''step'', JNum 1)])]"

definition sample_stored :: event_data where
  "sample_stored = \<lparr>ev_id = ''e1'', ev_workspaceId = ''w'', ev_aggregateType = ''run'', ev_aggregateId = ''r1'', ev_eventType = ''run.started'',
     ev_eventVersion = 1, ev_idempotencyKey = ''k1'', ev_occurredAt = ''t1'', ev_payload = JObj [(''step'', JNum 1)], ev_metadata = JObj []\<rparr>"

lemma sample_event_normalized: "normalizeEvent ''u'' ''t'' sample_event = Inr sample_stored"
  by code_simp

lemma sample_append:
  "appendWithProjection ''u'' ''t'' sample_event JNull store_init =
     (\<lparr>db_events = [(1, event_row sample_stored)], db_lastSequence = 1, db_projections = [], db_imports = []\<rparr>,
      Inr \<lparr>ar_created = True, ar_event = (1, sample_stored), ar_projection = None\<rparr>)"
  by (simp add: appendWithProjection_def sample_event_normalized normalizeProjection_def withTransaction_def append_in_def
      getEventByIdempotencyKey_def insert_event_def event_row_def store_init_def)

theorem append_is_idempotent_witness:
  "\<exists>db r. appendWithProjection ''v'' ''s'' sample_event JNull db = (db, Inr r) \<and> \<not> ar_created r \<and> fst (ar_event r) = 1"
proof -
  let ?db = "\<lparr>db_events = [(1, event_row sample_stored)], db_lastSequence = 1, db_projections = [], db_imports = []\<rparr>"
  have "wf_js sample_event \<and> trim_js ''v'' \<noteq> [] \<and> trim_js ''s'' \<noteq> []" by (simp add: sample_event_def) code_simp
  with conjunct1[OF conjunct2[OF append_is_idempotent[where db' = ?db and uuid' = "''v''" and now' = "''s''"]]] sample_append
  obtain r where "appendWithProjection ''v'' ''s'' sample_event JNull ?db = (?db, Inr r)" "\<not> ar_created r"
    "fst (ar_event r) = fst (ar_event \<lparr>ar_created = True, ar_event = (1, sample_stored), ar_projection = None\<rparr>)"
    by metis
  then show ?thesis by (intro exI[of _ ?db] exI[of _ r]) simp
qed

theorem event_log_is_append_only_witness:
  "\<exists>db. store_step\<^sup>*\<^sup>* store_init db \<and> length (db_events db) = 1 \<and> listEvents db None None None = db_events db"
proof -
  let ?db = "\<lparr>db_events = [(1, event_row sample_stored)], db_lastSequence = 1, db_projections = [], db_imports = []\<rparr>"
  have "store_step\<^sup>*\<^sup>* store_init ?db" using store_step.append[OF sample_append] by blast
  moreover from this have "listEvents ?db None None None = db_events ?db" using event_log_is_append_only by blast
  ultimately show ?thesis by (intro exI[of _ ?db]) simp
qed

end
