(* ===== verification/JsText.thy ===== *)
theory JsText
  imports JsValue
begin

text \<open>
  The string methods the validators of GitHub and delegation records use:
  \<open>startsWith\<close>, \<open>endsWith\<close>, \<open>includes\<close>, \<open>split\<close> on one character, case-insensitive search, and the
  choice of one text of a list.
\<close>

definition startsWith :: "string \<Rightarrow> string \<Rightarrow> bool" where
  "startsWith s t = (take (length t) s = t)"

definition endsWith :: "string \<Rightarrow> string \<Rightarrow> bool" where
  "endsWith s t = (length t \<le> length s \<and> drop (length s - length t) s = t)"

fun text_includes :: "string \<Rightarrow> string \<Rightarrow> bool" where
  "text_includes [] t = (t = [])"
| "text_includes (c # s) t = (startsWith (c # s) t \<or> text_includes s t)"

fun split_on :: "char \<Rightarrow> string \<Rightarrow> string list" where
  "split_on d [] = [[]]"
| "split_on d (c # s) = (if c = d then [] # split_on d s
     else (case split_on d s of w # ws \<Rightarrow> (c # w) # ws | [] \<Rightarrow> [[c]]))"

text \<open>\<open>if (!LIST.includes(value)) throw e\<close> on a list of texts.\<close>

definition one_of :: "string list \<Rightarrow> js_error \<Rightarrow> js \<Rightarrow> string res" where
  "one_of allowed e v = (case v of JStr s \<Rightarrow> if s \<in> set allowed then Inr s else Inl e | _ \<Rightarrow> Inl e)"

text \<open>\<open>value ? check(value) : null\<close>\<close>

definition optionally :: "(js \<Rightarrow> 'a res) \<Rightarrow> js \<Rightarrow> 'a option res" where
  "optionally check v = (if truthy v then bindE (check v) (\<lambda>r. Inr (Some r)) else Inr None)"

lemma one_of_Inr [simp]: "one_of allowed e v = Inr s \<longleftrightarrow> v = JStr s \<and> s \<in> set allowed"
  by (auto simp: one_of_def split: js.splits if_splits)

lemma optionally_Inr [simp]: "optionally check v = Inr r \<longleftrightarrow>
    (if truthy v then \<exists>x. check v = Inr x \<and> r = Some x else r = None)"
  by (auto simp: optionally_def)

lemma startsWith_iff: "startsWith s t \<longleftrightarrow> (\<exists>u. s = t @ u)"
  unfolding startsWith_def by (metis append_eq_conv_conj append_take_drop_id)

lemma endsWith_iff: "endsWith s t \<longleftrightarrow> (\<exists>u. s = u @ t)"
  unfolding endsWith_def by (metis append_eq_conv_conj append_take_drop_id diff_diff_cancel length_append length_drop le_add2 add_diff_cancel_right')

lemma split_on_not_Nil [simp]: "split_on d s \<noteq> []"
  by (induction s) (auto split: list.splits)

lemma join_split: "join_with [d] (split_on d s) = s"
proof (induction s)
  case (Cons c s)
  obtain w ws where w: "split_on d s = w # ws" by (cases "split_on d s") auto
  then have "join_with [d] ((c # w) # ws) = c # join_with [d] (w # ws)" "join_with [d] ([] # w # ws) = d # join_with [d] (w # ws)"
    by (cases ws; simp)+
  with Cons w show ?case by simp
qed simp

lemma split_no_sep: "w \<in> set (split_on d s) \<Longrightarrow> d \<notin> set w"
proof (induction s arbitrary: w)
  case (Cons c s)
  then show ?case by (cases "split_on d s") (auto split: if_splits)
qed simp

lemma split_join: "ws \<noteq> [] \<Longrightarrow> \<forall>w \<in> set ws. d \<notin> set w \<Longrightarrow> split_on d (join_with [d] ws) = ws"
proof (induction ws rule: induct_list012)
  case (2 w)
  then show ?case by (induction w) auto
next
  case (3 w w' ws)
  have "split_on d (w @ d # s) = w # split_on d s" if "d \<notin> set w" for w s
    using that by (induction w) auto
  with 3 show ?case by simp
qed simp

text \<open>Paths compared by their segments.\<close>

lemma split_append: "split_on d (s @ d # t) = split_on d s @ split_on d t"
proof (induction s)
  case (Cons c s)
  then show ?case by (cases "split_on d s") auto
qed simp

lemma split_inject: "split_on d s = split_on d t \<Longrightarrow> s = t"
  by (metis join_split)

end
