(* ===== verification/GithubOwnership.thy ===== *)
theory GithubOwnership
  imports Workspace Json JsText
begin

text \<open>
  Registered repositories (\<open>src/domain/github-repository-model.cjs\<close>) and the ownership of their
  branches and paths (\<open>src/domain/github-ownership-model.cjs\<close>): registrations with their digest,
  branch reservations, path claims and the search for conflicts between them.
\<close>

subsection \<open>Registrations\<close>

record repo_registration =
  rr_id :: string
  rr_workspaceId :: string
  rr_provider :: string
  rr_owner :: string
  rr_repository :: string
  rr_visibilityHint :: "string option"
  rr_status :: string
  rr_createdAt :: js
  rr_semanticDigest :: string
  rr_archivedAt :: js

definition normalizeVisibility :: "js \<Rightarrow> string res" where
  "normalizeVisibility value = one_of [''public'', ''private'', ''unknown'']
     (TypeError ''visibilityHint must be public, private, or unknown'') value"

definition registrationDigest :: "(string \<Rightarrow> string) \<Rightarrow> repo_registration \<Rightarrow> string" where
  "registrationDigest sha r = plainDigest sha (JObj [(''workspaceId'', JStr (rr_workspaceId r)), (''provider'', JStr ''github''),
     (''owner'', JStr (rr_owner r)), (''repository'', JStr (rr_repository r))])"

definition createRepositoryRegistration :: "(string \<Rightarrow> string) \<Rightarrow> string \<Rightarrow> js \<Rightarrow> repo_registration res" where
  "createRepositoryRegistration sha now input =
    bindE (assertSafeIdentifier (field input ''id'') ''repository registration id'') (\<lambda>i.
    bindE (assertSafeIdentifier (field input ''workspaceId'') ''workspace id'') (\<lambda>w.
    bindE (assertSafeGitHubName (field input ''owner'') ''GitHub owner'') (\<lambda>ow.
    bindE (assertSafeGitHubName (field input ''repository'') ''GitHub repository'') (\<lambda>re.
    bindE (if field input ''visibilityHint'' = JUndef then Inr None
           else bindE (normalizeVisibility (field input ''visibilityHint'')) (\<lambda>v. Inr (Some v))) (\<lambda>v.
    let rec = \<lparr>rr_id = i, rr_workspaceId = w, rr_provider = ''github'', rr_owner = ow, rr_repository = re, rr_visibilityHint = v,
         rr_status = ''active'', rr_createdAt = or_js (field input ''createdAt'') (JStr now), rr_semanticDigest = [], rr_archivedAt = JUndef\<rparr>
    in Inr (rec\<lparr>rr_semanticDigest := registrationDigest sha rec\<rparr>))))))"

definition assertRepositoryRegistrationSemanticMatch :: "repo_registration option \<Rightarrow> repo_registration \<Rightarrow> repo_registration res" where
  "assertRepositoryRegistrationSemanticMatch existing candidate = (case existing of
      None \<Rightarrow> Inr candidate
    | Some e \<Rightarrow> if rr_semanticDigest e \<noteq> rr_semanticDigest candidate
                then Inl (Error (''Repository registration idempotency collision: '' @ rr_id candidate)) else Inr e)"

definition assertRepositoryRegistration :: "repo_registration option \<Rightarrow> repo_registration res" where
  "assertRepositoryRegistration registration = (case registration of
      None \<Rightarrow> Inl (TypeError ''repository registration is required'')
    | Some r \<Rightarrow>
        bindE (assertSafeIdentifier (JStr (rr_id r)) ''repository registration id'') (\<lambda>_.
        bindE (assertSafeIdentifier (JStr (rr_workspaceId r)) ''workspace id'') (\<lambda>_.
        bindE (assertSafeGitHubName (JStr (rr_owner r)) ''GitHub owner'') (\<lambda>_.
        bindE (assertSafeGitHubName (JStr (rr_repository r)) ''GitHub repository'') (\<lambda>_.
        if rr_status r \<notin> {''active'', ''archived''} then Inl (Error ''Unsupported repository registration status'') else Inr r)))))"

definition archiveRepositoryRegistration :: "repo_registration option \<Rightarrow> js \<Rightarrow> repo_registration res" where
  "archiveRepositoryRegistration registration occurredAt = bindE (assertRepositoryRegistration registration) (\<lambda>r.
     if rr_status r = ''archived'' then Inr r
     else Inr (r\<lparr>rr_status := ''archived'', rr_archivedAt := occurredAt\<rparr>))"

record repo_binding =
  rb_id :: string
  rb_workspaceId :: string
  rb_repositoryRegistrationId :: string
  rb_missionRunId :: "string option"
  rb_planStepId :: "string option"
  rb_createdAt :: js

definition createRepositoryBinding :: "string \<Rightarrow> js \<Rightarrow> repo_binding res" where
  "createRepositoryBinding now input =
    bindE (assertSafeIdentifier (field input ''workspaceId'') ''workspace id'') (\<lambda>w.
    bindE (assertSafeIdentifier (field input ''repositoryRegistrationId'') ''repository registration id'') (\<lambda>r.
    bindE (optionally (\<lambda>v. assertSafeIdentifier v ''mission run id'') (field input ''missionRunId'')) (\<lambda>m.
    bindE (optionally (\<lambda>v. assertSafeIdentifier v ''plan step id'') (field input ''planStepId'')) (\<lambda>p.
    if m = None \<and> p = None then Inl (TypeError ''repository binding requires missionRunId or planStepId'')
    else bindE (assertSafeIdentifier (field input ''id'') ''repository binding id'') (\<lambda>i.
    Inr \<lparr>rb_id = i, rb_workspaceId = w, rb_repositoryRegistrationId = r, rb_missionRunId = m, rb_planStepId = p,
      rb_createdAt = or_js (field input ''createdAt'') (JStr now)\<rparr>)))))"

text \<open>Each record of the rest argument is its \<open>workspaceId\<close>, or \<open>None\<close> when it is missing.\<close>

definition assertRepositoryWorkspace :: "js \<Rightarrow> string option list \<Rightarrow> string res" where
  "assertRepositoryWorkspace expectedWorkspaceId records =
    bindE (assertSafeIdentifier expectedWorkspaceId ''workspace id'') (\<lambda>expected.
      if list_all (\<lambda>r. r = Some expected) records then Inr expected
      else Inl (Error ''Cross-Workspace GitHub repository reference denied''))"


subsection \<open>Branches and paths\<close>

definition branch_char :: "char \<Rightarrow> bool" where
  "branch_char c = (is_alnum c \<or> c \<in> {CHR ''.'', CHR ''_'', CHR ''/'', CHR ''-''})"

definition assertSafeBranchName :: "js \<Rightarrow> string res" where
  "assertSafeBranchName value = (case value of
      JStr s \<Rightarrow>
        if length s < 1 \<or> 255 < length s then Inl (TypeError ''branch must be bounded text'')
        else if \<not> list_all branch_char s then Inl (TypeError ''branch contains unsupported characters'')
        else if startsWith s ''/'' \<or> endsWith s ''/'' \<or> startsWith s ''.'' \<or> endsWith s ''.''
          then Inl (TypeError ''branch has unsupported edge characters'')
        else if text_includes s ''..'' \<or> text_includes s ''//'' \<or> text_includes s (CHR 0x40 # ''{'') \<or> endsWith s ''.lock''
             \<or> text_includes s [CHR 0x5C]
          then Inl (TypeError ''branch contains an unsafe Git ref sequence'')
        else Inr s
    | _ \<Rightarrow> Inl (TypeError ''branch must be bounded text''))"

definition normalizePathPrefix :: "js \<Rightarrow> string res" where
  "normalizePathPrefix value = (case value of
      JStr s \<Rightarrow>
        if length s < 1 \<or> 512 < length s then Inl (TypeError ''path claim must be bounded text'')
        else if text_includes s [CHR 0x5C] \<or> startsWith s ''/'' then Inl (TypeError ''path claim must be repository-relative'')
        else let raw = (if endsWith s ''/**'' then take (length s - 3) s else s); segments = split_on CHR ''/'' raw in
          if list_ex (\<lambda>part. part = [] \<or> part = ''.'' \<or> part = ''..'') segments
            then Inl (TypeError ''path claim contains traversal or empty segments'')
          else if list_ex (list_ex (\<lambda>c. ccode c \<in> {0, 10, 13})) segments
            then Inl (TypeError ''path claim contains unsupported control characters'')
          else Inr (join_with ''/'' segments)
    | _ \<Rightarrow> Inl (TypeError ''path claim must be bounded text''))"

record branch_reservation =
  br_id :: string
  br_workspaceId :: string
  br_repositoryRegistrationId :: string
  br_branch :: string
  br_mode :: string
  br_ownerKind :: string
  br_ownerId :: string
  br_state :: string
  br_createdAt :: js
  br_releasedAt :: js

definition createBranchReservation :: "string \<Rightarrow> js \<Rightarrow> branch_reservation res" where
  "createBranchReservation now input =
    bindE (one_of [''exclusive_write'', ''read_only''] (TypeError ''unsupported branch reservation mode'')
             (or_js (field input ''mode'') (JStr ''exclusive_write''))) (\<lambda>mode.
    bindE (one_of [''mission_step'', ''task'', ''operator''] (TypeError ''unsupported branch reservation ownerKind'')
             (or_js (field input ''ownerKind'') (JStr ''mission_step''))) (\<lambda>kind.
    bindE (assertSafeIdentifier (field input ''id'') ''branch reservation id'') (\<lambda>i.
    bindE (assertSafeIdentifier (field input ''workspaceId'') ''workspace id'') (\<lambda>w.
    bindE (assertSafeIdentifier (field input ''repositoryRegistrationId'') ''repository registration id'') (\<lambda>r.
    bindE (assertSafeBranchName (field input ''branch'')) (\<lambda>b.
    bindE (assertSafeIdentifier (field input ''ownerId'') ''branch reservation owner id'') (\<lambda>ow.
    Inr \<lparr>br_id = i, br_workspaceId = w, br_repositoryRegistrationId = r, br_branch = b, br_mode = mode, br_ownerKind = kind,
      br_ownerId = ow, br_state = ''active'', br_createdAt = or_js (field input ''createdAt'') (JStr now), br_releasedAt = JNull\<rparr>)))))))"

definition releaseBranchReservation :: "branch_reservation option \<Rightarrow> js \<Rightarrow> js \<Rightarrow> branch_reservation res" where
  "releaseBranchReservation reservation occurredAt state = (case reservation of
      None \<Rightarrow> Inl (TypeError ''branch reservation is required'')
    | Some r \<Rightarrow> bindE (one_of [''released'', ''superseded''] (TypeError ''release state must be released or superseded'') state) (\<lambda>s.
        if br_state r \<noteq> ''active'' then Inr r else Inr (r\<lparr>br_state := s, br_releasedAt := occurredAt\<rparr>)))"

record path_claim =
  pt_id :: string
  pt_workspaceId :: string
  pt_repositoryRegistrationId :: string
  pt_branchReservationId :: string
  pt_pathPrefix :: string
  pt_mode :: string
  pt_ownerId :: string
  pt_state :: string
  pt_createdAt :: js

definition createPathOwnershipClaim :: "string \<Rightarrow> js \<Rightarrow> path_claim res" where
  "createPathOwnershipClaim now input =
    bindE (one_of [''exclusive_write'', ''read_only''] (TypeError ''unsupported path claim mode'')
             (or_js (field input ''mode'') (JStr ''exclusive_write''))) (\<lambda>mode.
    bindE (assertSafeIdentifier (field input ''id'') ''path ownership claim id'') (\<lambda>i.
    bindE (assertSafeIdentifier (field input ''workspaceId'') ''workspace id'') (\<lambda>w.
    bindE (assertSafeIdentifier (field input ''repositoryRegistrationId'') ''repository registration id'') (\<lambda>r.
    bindE (assertSafeIdentifier (field input ''branchReservationId'') ''branch reservation id'') (\<lambda>b.
    bindE (normalizePathPrefix (or_js (field input ''pathPattern'') (field input ''pathPrefix''))) (\<lambda>p.
    bindE (assertSafeIdentifier (field input ''ownerId'') ''path ownership owner id'') (\<lambda>ow.
    Inr \<lparr>pt_id = i, pt_workspaceId = w, pt_repositoryRegistrationId = r, pt_branchReservationId = b, pt_pathPrefix = p,
      pt_mode = mode, pt_ownerId = ow, pt_state = ''active'', pt_createdAt = or_js (field input ''createdAt'') (JStr now)\<rparr>)))))))"

subsection \<open>Conflicts\<close>

definition prefixContains :: "string \<Rightarrow> string \<Rightarrow> bool" where
  "prefixContains p candidate = (candidate = p \<or> startsWith candidate (p @ ''/''))"

definition pathClaimsConflict :: "path_claim option \<Rightarrow> path_claim option \<Rightarrow> bool" where
  "pathClaimsConflict left right = (case (left, right) of
      (Some l, Some r) \<Rightarrow>
        if pt_state l \<noteq> ''active'' \<or> pt_state r \<noteq> ''active'' then False
        else if pt_workspaceId l \<noteq> pt_workspaceId r \<or> pt_repositoryRegistrationId l \<noteq> pt_repositoryRegistrationId r then False
        else if pt_mode l \<noteq> ''exclusive_write'' \<or> pt_mode r \<noteq> ''exclusive_write'' then False
        else if pt_ownerId l = pt_ownerId r then False
        else prefixContains (pt_pathPrefix l) (pt_pathPrefix r) \<or> prefixContains (pt_pathPrefix r) (pt_pathPrefix l)
    | _ \<Rightarrow> False)"

definition branchReservationsConflict :: "branch_reservation option \<Rightarrow> branch_reservation option \<Rightarrow> bool" where
  "branchReservationsConflict left right = (case (left, right) of
      (Some l, Some r) \<Rightarrow>
        if br_state l \<noteq> ''active'' \<or> br_state r \<noteq> ''active'' then False
        else if br_workspaceId l \<noteq> br_workspaceId r \<or> br_repositoryRegistrationId l \<noteq> br_repositoryRegistrationId r then False
        else if br_branch l \<noteq> br_branch r then False
        else if br_mode l \<noteq> ''exclusive_write'' \<or> br_mode r \<noteq> ''exclusive_write'' then False
        else br_ownerId l \<noteq> br_ownerId r
    | _ \<Rightarrow> False)"

record ownership_conflict =
  oc_kind :: string
  oc_leftId :: string
  oc_rightId :: string
  oc_leftPath :: "string option"
  oc_rightPath :: "string option"

text \<open>The two nested loops over the indices \<open>i < j\<close>.\<close>

fun index_pairs :: "'a list \<Rightarrow> ('a \<times> 'a) list" where
  "index_pairs [] = []"
| "index_pairs (x # xs) = map (Pair x) xs @ index_pairs xs"

definition findOwnershipConflicts :: "branch_reservation list \<Rightarrow> path_claim list \<Rightarrow> ownership_conflict list" where
  "findOwnershipConflicts reservations claims =
    map (\<lambda>(l, r). \<lparr>oc_kind = ''branch'', oc_leftId = br_id l, oc_rightId = br_id r, oc_leftPath = None, oc_rightPath = None\<rparr>)
      (filter (\<lambda>(l, r). branchReservationsConflict (Some l) (Some r)) (index_pairs reservations)) @
    map (\<lambda>(l, r). \<lparr>oc_kind = ''path'', oc_leftId = pt_id l, oc_rightId = pt_id r,
          oc_leftPath = Some (pt_pathPrefix l), oc_rightPath = Some (pt_pathPrefix r)\<rparr>)
      (filter (\<lambda>(l, r). pathClaimsConflict (Some l) (Some r)) (index_pairs claims))"

subsection \<open>Lemmas\<close>

lemma normalizePathPrefix_Inr:
  assumes "normalizePathPrefix v = Inr p"
  shows "\<forall>w \<in> set (split_on CHR ''/'' p). w \<noteq> [] \<and> w \<noteq> ''.'' \<and> w \<noteq> ''..''" and "p \<noteq> []" and "\<not> startsWith p ''/''"
proof -
  from assms obtain s where v: "v = JStr s" by (cases v) (simp_all add: normalizePathPrefix_def)
  define raw where "raw = (if endsWith s ''/**'' then take (length s - 3) s else s)"
  note n = assms[unfolded v normalizePathPrefix_def js.case Let_def guard_eq_Inr, folded raw_def]
  note segs = conjunct2[OF conjunct2[OF n]]
  note e = conjunct1[OF segs]
  have "p = raw" using conjunct2[OF conjunct2[OF segs]] by (simp only: join_split sum.inject)
  with e show w: "\<forall>w \<in> set (split_on CHR ''/'' p). w \<noteq> [] \<and> w \<noteq> ''.'' \<and> w \<noteq> ''..''"
    by (simp only: list_ex_iff) blast
  from w show "p \<noteq> []" by (cases p) simp_all
  from w show "\<not> startsWith p ''/''" by (cases p) (simp_all add: startsWith_def split: if_splits)
qed

text \<open>The test on texts is the prefix test on the lists of segments.\<close>

lemma prefixContains_segments: "prefixContains p c \<longleftrightarrow> (\<exists>ws. split_on CHR ''/'' c = split_on CHR ''/'' p @ ws)"
proof
  assume "prefixContains p c"
  then consider "c = p" | u where "c = p @ CHR ''/'' # u" by (auto simp: prefixContains_def startsWith_iff)
  then show "\<exists>ws. split_on CHR ''/'' c = split_on CHR ''/'' p @ ws" by cases (auto simp: split_append)
next
  assume "\<exists>ws. split_on CHR ''/'' c = split_on CHR ''/'' p @ ws"
  then obtain ws where ws: "split_on CHR ''/'' c = split_on CHR ''/'' p @ ws" by blast
  show "prefixContains p c"
  proof (cases "ws = []")
    case True with ws split_inject[of "CHR ''/''" c p] show ?thesis by (simp add: prefixContains_def)
  next
    case False
    have "\<forall>w \<in> set ws. CHR ''/'' \<notin> set w" using split_no_sep[of _ "CHR ''/''" c] ws by auto
    with False have "split_on CHR ''/'' (p @ CHR ''/'' # join_with ''/'' ws) = split_on CHR ''/'' c"
      by (simp add: split_append split_join ws)
    then have "p @ CHR ''/'' # join_with ''/'' ws = c" by (rule split_inject)
    then show ?thesis by (auto simp: prefixContains_def startsWith_iff)
  qed
qed

lemma pathClaimsConflict_sym: "pathClaimsConflict a b = pathClaimsConflict b a"
  by (auto simp: pathClaimsConflict_def split: option.splits)

lemma branchReservationsConflict_sym: "branchReservationsConflict a b = branchReservationsConflict b a"
  by (auto simp: branchReservationsConflict_def split: option.splits)

lemma pathClaimsConflict_self [simp]: "\<not> pathClaimsConflict a a"
  by (simp add: pathClaimsConflict_def split: option.splits)

lemma branchReservationsConflict_self [simp]: "\<not> branchReservationsConflict a a"
  by (simp add: branchReservationsConflict_def split: option.splits)

lemma index_pairs_snoc: "set (index_pairs (xs @ [x])) = set (index_pairs xs) \<union> {(y, x) |y. y \<in> set xs}"
  by (induction xs) auto

lemma index_pairs_sym:
  assumes "\<And>a b. P a b = P b a" "\<And>a. \<not> P a a"
  shows "(\<exists>(a, b) \<in> set (index_pairs xs). P a b) \<longleftrightarrow> (\<exists>a \<in> set xs. \<exists>b \<in> set xs. P a b)"
proof (induction xs)
  case (Cons x xs)
  have "(\<exists>(a, b) \<in> set (index_pairs (x # xs)). P a b) \<longleftrightarrow> (\<exists>b \<in> set xs. P x b) \<or> (\<exists>(a, b) \<in> set (index_pairs xs). P a b)" by auto
  with Cons assms show ?case by auto
qed simp

end
