(* ===== verification/GithubDelivery.thy ===== *)
theory GithubDelivery
  imports GithubOwnership GraphSearch
begin

text \<open>
  Pull-request bindings, merge-order constraints, delivery evidence and repair proposals
  (\<open>src/domain/github-delivery-model.cjs\<close>).  The merge-order check is the cycle search of
  GraphSearch on the graph the active constraints span.
\<close>

definition GIT_SHA :: "string \<Rightarrow> bool" where
  "GIT_SHA s = (length s = 40 \<and> list_all is_hex s)"

definition assertSha :: "js \<Rightarrow> string \<Rightarrow> string res" where
  "assertSha value label = (case value of
      JStr s \<Rightarrow> if GIT_SHA s then Inr (map ascii_lower s) else Inl (TypeError (label @ '' must be a 40-character hex SHA''))
    | _ \<Rightarrow> Inl (TypeError (label @ '' must be a 40-character hex SHA'')))"

subsection \<open>Pull-request bindings\<close>

record pr_binding =
  pb_id :: string
  pb_workspaceId :: string
  pb_repositoryRegistrationId :: string
  pb_planStepId :: "string option"
  pb_number :: int
  pb_expectedHeadSha :: string
  pb_expectedBaseRef :: "string option"
  pb_state :: string
  pb_createdAt :: js
  pb_semanticDigest :: string
  pb_completedAt :: js

definition pullRequestBindingDigest :: "(string \<Rightarrow> string) \<Rightarrow> pr_binding \<Rightarrow> string" where
  "pullRequestBindingDigest sha b = plainDigest sha (JObj [(''workspaceId'', JStr (pb_workspaceId b)),
     (''repositoryRegistrationId'', JStr (pb_repositoryRegistrationId b)), (''planStepId'', or_js (js_opt (pb_planStepId b)) JNull),
     (''number'', JNum (pb_number b)), (''expectedHeadSha'', JStr (map ascii_lower (pb_expectedHeadSha b))),
     (''expectedBaseRef'', or_js (js_opt (pb_expectedBaseRef b)) JNull)])"

definition createPullRequestBinding :: "(string \<Rightarrow> string) \<Rightarrow> string \<Rightarrow> js \<Rightarrow> pr_binding res" where
  "createPullRequestBinding sha now input = (case field input ''number'' of
      JNum n \<Rightarrow>
        if n < 1 then Inl (TypeError ''pull request number must be a positive integer'')
        else
          bindE (assertSafeIdentifier (field input ''id'') ''pull request binding id'') (\<lambda>i.
          bindE (assertSafeIdentifier (field input ''workspaceId'') ''workspace id'') (\<lambda>w.
          bindE (assertSafeIdentifier (field input ''repositoryRegistrationId'') ''repository registration id'') (\<lambda>r.
          bindE (optionally (\<lambda>v. assertSafeIdentifier v ''plan step id'') (field input ''planStepId'')) (\<lambda>p.
          bindE (assertSha (field input ''expectedHeadSha'') ''expected head SHA'') (\<lambda>h.
          bindE (optionally (\<lambda>v. requiredText v ''expected base ref'' 255) (field input ''expectedBaseRef'')) (\<lambda>b.
          let rec = \<lparr>pb_id = i, pb_workspaceId = w, pb_repositoryRegistrationId = r, pb_planStepId = p, pb_number = n,
                pb_expectedHeadSha = h, pb_expectedBaseRef = b, pb_state = ''active'',
                pb_createdAt = or_js (field input ''createdAt'') (JStr now), pb_semanticDigest = [], pb_completedAt = JUndef\<rparr>
          in Inr (rec\<lparr>pb_semanticDigest := pullRequestBindingDigest sha rec\<rparr>)))))))
    | _ \<Rightarrow> Inl (TypeError ''pull request number must be a positive integer''))"

definition assertPullRequestBindingSemanticMatch :: "pr_binding option \<Rightarrow> pr_binding \<Rightarrow> pr_binding res" where
  "assertPullRequestBindingSemanticMatch existing candidate = (case existing of
      None \<Rightarrow> Inr candidate
    | Some e \<Rightarrow> if pb_semanticDigest e \<noteq> pb_semanticDigest candidate
                then Inl (Error (''Pull request binding idempotency collision: '' @ pb_id candidate)) else Inr e)"

definition supersedePullRequestBinding :: "pr_binding option \<Rightarrow> js \<Rightarrow> js \<Rightarrow> pr_binding res" where
  "supersedePullRequestBinding binding occurredAt state = (case binding of
      None \<Rightarrow> Inl (TypeError ''pull request binding is required'')
    | Some b \<Rightarrow> bindE (one_of [''superseded'', ''merged'', ''closed''] (TypeError ''unsupported pull request binding terminal state'') state) (\<lambda>s.
        if pb_state b \<noteq> ''active'' then Inr b else Inr (b\<lparr>pb_state := s, pb_completedAt := occurredAt\<rparr>)))"

subsection \<open>Merge order\<close>

record merge_constraint =
  mc_id :: string
  mc_workspaceId :: string
  mc_repositoryRegistrationId :: string
  mc_predecessor :: string
  mc_successor :: string
  mc_state :: string
  mc_createdAt :: js

definition createMergeOrderConstraint :: "string \<Rightarrow> js \<Rightarrow> merge_constraint res" where
  "createMergeOrderConstraint now input =
    bindE (assertSafeIdentifier (field input ''predecessorPullRequestBindingId'') ''predecessor pull request binding id'') (\<lambda>p.
    bindE (assertSafeIdentifier (field input ''successorPullRequestBindingId'') ''successor pull request binding id'') (\<lambda>s.
    if p = s then Inl (Error ''merge-order constraint cannot self-depend'')
    else
      bindE (assertSafeIdentifier (field input ''id'') ''merge-order constraint id'') (\<lambda>i.
      bindE (assertSafeIdentifier (field input ''workspaceId'') ''workspace id'') (\<lambda>w.
      bindE (assertSafeIdentifier (field input ''repositoryRegistrationId'') ''repository registration id'') (\<lambda>r.
      Inr \<lparr>mc_id = i, mc_workspaceId = w, mc_repositoryRegistrationId = r, mc_predecessor = p, mc_successor = s,
        mc_state = ''active'', mc_createdAt = or_js (field input ''createdAt'') (JStr now)\<rparr>)))))"

definition add_successor :: "merge_constraint \<Rightarrow> (string, string list) jsmap \<Rightarrow> (string, string list) jsmap" where
  "add_successor c graph = mset_at (mc_predecessor c) ((case mget graph (mc_predecessor c) of None \<Rightarrow> [] | Some ss \<Rightarrow> ss) @ [mc_successor c]) graph"

definition merge_graph :: "merge_constraint list \<Rightarrow> (string, string list) jsmap" where
  "merge_graph constraints = fold add_successor (filter (\<lambda>c. mc_state c = ''active'') constraints) []"

definition assertMergeOrderAcyclic :: "merge_constraint list \<Rightarrow> bool res" where
  "assertMergeOrderAcyclic constraints =
    (let graph = merge_graph constraints in
     bindE (dfs (Error ''merge-order constraint cycle detected'') None graph [] [] (map fst graph)) (\<lambda>_. Inr True))"

definition merge_rel :: "merge_constraint list \<Rightarrow> (string \<times> string) set" where
  "merge_rel cs = {(mc_predecessor c, mc_successor c) |c. c \<in> set cs \<and> mc_state c = ''active''}"

lemma edges_add_successor:
  "edges_of (add_successor c g) = insert (mc_predecessor c, mc_successor c) (edges_of g)"
proof -
  have "map_of (add_successor c g) = (map_of g)(mc_predecessor c \<mapsto>
      (case map_of g (mc_predecessor c) of None \<Rightarrow> [] | Some ss \<Rightarrow> ss) @ [mc_successor c])"
    by (simp add: add_successor_def mset_at_def mget_def update_conv')
  then show ?thesis by (auto simp: edges_of_def split: if_splits option.splits)
qed

lemma edges_merge_graph: "edges_of (merge_graph cs) = merge_rel cs"
proof -
  have "edges_of (fold add_successor cs g) = edges_of g \<union> {(mc_predecessor c, mc_successor c) |c. c \<in> set cs}" for cs g
    by (induction cs arbitrary: g) (auto simp: edges_add_successor)
  from this[of _ "[]"] show ?thesis by (auto simp: merge_graph_def merge_rel_def edges_of_def)
qed

lemma merge_order_total: "assertMergeOrderAcyclic cs = Inr True \<or> assertMergeOrderAcyclic cs = Inl (Error ''merge-order constraint cycle detected'')"
proof (cases "dfs (Error ''merge-order constraint cycle detected'') None (merge_graph cs) [] [] (map fst (merge_graph cs))")
  case (Inl e)
  with dfs_error[OF _ Inl] show ?thesis by (simp add: assertMergeOrderAcyclic_def Let_def succs_known_def)
qed (simp add: assertMergeOrderAcyclic_def Let_def)

lemma merge_order_acyclic_iff: "assertMergeOrderAcyclic cs = Inr True \<longleftrightarrow> acyclic (merge_rel cs)"
  using dfs_accepts_iff_acyclic[of None "merge_graph cs" "Error ''merge-order constraint cycle detected''"]
  by (simp add: assertMergeOrderAcyclic_def Let_def edges_merge_graph succs_known_def)

lemma merge_rel_snoc: "merge_rel (cs @ [c]) = (if mc_state c = ''active'' then insert (mc_predecessor c, mc_successor c) (merge_rel cs) else merge_rel cs)"
  by (auto simp: merge_rel_def)


subsection \<open>Delivery evidence and repair proposals\<close>

fun private_key_in :: "string \<Rightarrow> bool" where
  "private_key_in [] = False"
| "private_key_in (c # s) = (startsWith (c # s) ''privatekey'' \<or>
     startsWith (c # s) ''private'' \<and> 7 \<le> length s \<and> ccode (s ! 6) \<notin> {10, 13} \<and> startsWith (drop 7 s) ''key'' \<or> private_key_in s)"

definition EVIDENCE_SENSITIVE_KEY :: "string \<Rightarrow> bool" where
  "EVIDENCE_SENSITIVE_KEY k = (let l = map ascii_lower k in
     list_ex (text_includes l) [''authorization'', ''bearer'', ''cookie'', ''password'', ''secret'', ''token'', ''profilepath'', ''processid'']
     \<or> private_key_in l \<or> l = ''pid'' \<or> l = ''ppid'')"

fun assertJsonSafePrivacyBounded :: "js \<Rightarrow> string \<Rightarrow> bool res"
and bounded_items :: "nat \<Rightarrow> js list \<Rightarrow> string \<Rightarrow> bool res"
and bounded_entries :: "(string \<times> js) list \<Rightarrow> string \<Rightarrow> bool res" where
  "assertJsonSafePrivacyBounded JUndef path = Inl (TypeError (path @ '' must be JSON-safe''))"
| "assertJsonSafePrivacyBounded (JArr vs) path = bounded_items 0 vs path"
| "assertJsonSafePrivacyBounded (JObj kvs) path = bounded_entries kvs path"
| "assertJsonSafePrivacyBounded _ path = Inr True"
| "bounded_items i [] path = Inr True"
| "bounded_items i (v # vs) path =
     bindE (assertJsonSafePrivacyBounded v (path @ ''['' @ nat_digits i @ '']'')) (\<lambda>_. bounded_items (Suc i) vs path)"
| "bounded_entries [] path = Inr True"
| "bounded_entries ((k, v) # kvs) path =
     (if EVIDENCE_SENSITIVE_KEY k then Inl (Error (''Forbidden sensitive field in delivery evidence: '' @ path @ ''.'' @ k))
      else bindE (assertJsonSafePrivacyBounded v (path @ ''.'' @ k)) (\<lambda>_. bounded_entries kvs path))"

record delivery_evidence =
  ve_id :: string
  ve_workspaceId :: string
  ve_pullRequestBindingId :: string
  ve_kind :: string
  ve_headSha :: string
  ve_baseSha :: string
  ve_mergeCommitSha :: "string option"
  ve_checkDigest :: string
  ve_reviewDigest :: string
  ve_payload :: js
  ve_observedAt :: js

definition createDeliveryEvidence :: "string \<Rightarrow> js \<Rightarrow> delivery_evidence res" where
  "createDeliveryEvidence now input =
    bindE (one_of [''exact_head_ready'', ''merge_observed''] (TypeError ''unsupported delivery evidence kind'') (field input ''kind'')) (\<lambda>kind.
    let payload = or_js (field input ''payload'') (JObj []) in
    bindE (assertJsonSafePrivacyBounded payload ''delivery evidence payload'') (\<lambda>_.
    bindE (assertSafeIdentifier (field input ''id'') ''delivery evidence id'') (\<lambda>i.
    bindE (assertSafeIdentifier (field input ''workspaceId'') ''workspace id'') (\<lambda>w.
    bindE (assertSafeIdentifier (field input ''pullRequestBindingId'') ''pull request binding id'') (\<lambda>b.
    bindE (assertSha (field input ''headSha'') ''delivery head SHA'') (\<lambda>h.
    bindE (assertSha (field input ''baseSha'') ''delivery base SHA'') (\<lambda>bs.
    bindE (optionally (\<lambda>v. assertSha v ''merge commit SHA'') (field input ''mergeCommitSha'')) (\<lambda>m.
    bindE (requiredText (field input ''checkDigest'') ''check digest'' 100) (\<lambda>cd.
    bindE (requiredText (field input ''reviewDigest'') ''review digest'' 100) (\<lambda>rd.
    Inr \<lparr>ve_id = i, ve_workspaceId = w, ve_pullRequestBindingId = b, ve_kind = kind, ve_headSha = h, ve_baseSha = bs,
      ve_mergeCommitSha = m, ve_checkDigest = cd, ve_reviewDigest = rd, ve_payload = payload,
      ve_observedAt = or_js (field input ''observedAt'') (JStr now)\<rparr>))))))))))"

record repair_proposal =
  rp_id :: string
  rp_workspaceId :: string
  rp_pullRequestBindingId :: string
  rp_reasonCode :: string
  rp_description :: string
  rp_suggestedAction :: string
  rp_state :: string
  rp_createdAt :: js

definition createRepairProposal :: "string \<Rightarrow> js \<Rightarrow> repair_proposal res" where
  "createRepairProposal now input =
    bindE (assertSafeIdentifier (field input ''id'') ''repair proposal id'') (\<lambda>i.
    bindE (assertSafeIdentifier (field input ''workspaceId'') ''workspace id'') (\<lambda>w.
    bindE (assertSafeIdentifier (field input ''pullRequestBindingId'') ''pull request binding id'') (\<lambda>b.
    bindE (assertSafeIdentifier (field input ''reasonCode'') ''repair proposal reason code'') (\<lambda>r.
    bindE (requiredText (field input ''description'') ''repair proposal description'' 1000) (\<lambda>d.
    bindE (requiredText (field input ''suggestedAction'') ''repair proposal suggested action'' 500) (\<lambda>a.
    Inr \<lparr>rp_id = i, rp_workspaceId = w, rp_pullRequestBindingId = b, rp_reasonCode = r, rp_description = d, rp_suggestedAction = a,
      rp_state = ''proposed'', rp_createdAt = or_js (field input ''createdAt'') (JStr now)\<rparr>))))))"

text \<open>What evidence may carry: no sensitive key at any depth and nothing undefined.\<close>

fun no_undefined :: "js \<Rightarrow> bool" where
  "no_undefined JUndef = False"
| "no_undefined (JArr vs) = list_all no_undefined vs"
| "no_undefined (JObj kvs) = list_all (\<lambda>(k, v). no_undefined v) kvs"
| "no_undefined _ = True"

lemma assertJsonSafePrivacyBounded_iff:
  "(\<exists>r. assertJsonSafePrivacyBounded v p = Inr r) \<longleftrightarrow> no_undefined v \<and> (\<forall>k \<in> set (deep_keys v). \<not> EVIDENCE_SENSITIVE_KEY k)"
  "(\<exists>r. bounded_items i vs p = Inr r) \<longleftrightarrow> (\<forall>v \<in> set vs. no_undefined v \<and> (\<forall>k \<in> set (deep_keys v). \<not> EVIDENCE_SENSITIVE_KEY k))"
  "(\<exists>r. bounded_entries kvs p = Inr r) \<longleftrightarrow> (\<forall>kv \<in> set kvs. \<not> EVIDENCE_SENSITIVE_KEY (fst kv) \<and> no_undefined (snd kv) \<and>
     (\<forall>k \<in> set (deep_keys (snd kv)). \<not> EVIDENCE_SENSITIVE_KEY k))"
proof (induction v p and i vs p and kvs p rule: assertJsonSafePrivacyBounded_bounded_items_bounded_entries.induct)
  case (2 vs p)
  then show ?case by (simp add: list_all_iff) blast
next
  case (3 kvs p)
  then show ?case by (simp add: list_all_iff split_beta) blast
next
  case (6 i v vs p)
  then show ?case by (cases "assertJsonSafePrivacyBounded v (p @ ''['' @ nat_digits i @ '']'')") auto
next
  case (8 k v kvs p)
  then show ?case by (cases "assertJsonSafePrivacyBounded v (p @ ''.'' @ k)") auto
qed (simp_all add: exI[of "\<lambda>r. r" True])

end
