(* ===== verification/DeliveryGate.thy ===== *)
theory DeliveryGate
  imports GithubDelivery
begin

text \<open>
  The delivery gate (\<open>src/orchestration/github-delivery/delivery-gate.cjs\<close>): what blocks a bound
  pull request, the evidence that follows from an open gate, and the repair proposal that
  follows from a closed one.  Observations have the shape the GitHub adapter
  (\<open>src/main/github-observation/github-observation-adapter.cjs\<close>) writes: texts, flags and null are
  \<open>string\<close>, \<open>bool\<close> and \<open>None\<close>, and an observation always carries the digest the adapter computed.
\<close>

subsection \<open>Observations\<close>

record pr_snapshot =
  ps_state :: string
  ps_merged :: bool
  ps_headSha :: "string option"
  ps_baseSha :: "string option"
  ps_mergeCommitSha :: "string option"

record check_run =
  ck_name :: string
  ck_status :: string
  ck_conclusion :: "string option"

record checks_obs =
  co_headSha :: string
  co_checks :: "check_run list"
  co_digest :: string

record review_thread =
  th_id :: string
  th_resolved :: "bool option"

record review_obs =
  ro_headSha :: string
  ro_threads :: "review_thread list"
  ro_resolutionAvailable :: bool
  ro_digest :: string

record base_obs =
  bo_behindBy :: "int option"
  bo_mergeBaseSha :: "string option"

record gate_rules =
  dg_workspaceId :: string
  dg_requiredCheckNames :: "string list"
  dg_requireNoUnresolvedThreads :: bool
  dg_requireCurrentBase :: bool

subsection \<open>Blockers\<close>

definition BLOCKERS :: "string list" where
  "BLOCKERS = [''repository_inactive'', ''cross_workspace_binding'', ''ownership_conflict'', ''head_mismatch'', ''base_stale'',
     ''required_check_missing'', ''required_check_pending'', ''required_check_failed'', ''review_thread_unresolved'',
     ''merge_order_unsatisfied'', ''pull_request_closed_unmerged'', ''observation_incomplete'']"

record blocker =
  bk_code :: string
  bk_detail :: js

definition blocker_of :: "string \<Rightarrow> js \<Rightarrow> blocker res" where
  "blocker_of code detail = (if code \<notin> set BLOCKERS then Inl (Error (''Unsupported S3 blocker: '' @ code))
     else Inr \<lparr>bk_code = code, bk_detail = detail\<rparr>)"

text \<open>Every call names one of the codes, so that no call throws: \<open>block\<close> is its result.\<close>

definition block :: "string \<Rightarrow> (string \<times> js) list \<Rightarrow> blocker" where
  "block code detail = \<lparr>bk_code = code, bk_detail = JObj detail\<rparr>"

lemma blocker_of_block: "code \<in> set BLOCKERS \<Longrightarrow> blocker_of code (JObj detail) = Inr (block code detail)"
  by (simp add: blocker_of_def block_def)

definition other_head :: "pr_binding option \<Rightarrow> string \<Rightarrow> bool" where
  "other_head binding head = (case binding of None \<Rightarrow> False | Some b \<Rightarrow> head \<noteq> pb_expectedHeadSha b)"

definition collapseCheckState :: "check_run list \<Rightarrow> string" where
  "collapseCheckState checks =
    (if list_ex (\<lambda>c. ck_conclusion c \<in> Some ` set [''failure'', ''cancelled'', ''timed_out'', ''action_required'', ''stale'', ''unknown'']) checks then ''failed''
     else if list_ex (\<lambda>c. ck_status c \<noteq> ''completed'' \<or> ck_conclusion c = None) checks then ''pending''
     else if list_all (\<lambda>c. ck_conclusion c \<in> Some ` set [''success'', ''neutral'', ''skipped'']) checks then ''success''
     else ''failed'')"

definition check_blockers :: "checks_obs \<Rightarrow> string \<Rightarrow> blocker list" where
  "check_blockers observation name =
    (let checks = filter (\<lambda>c. ck_name c = name) (co_checks observation); state = collapseCheckState checks in
     if checks = [] then [block ''required_check_missing'' [(''name'', JStr name)]]
     else (if state = ''failed'' then [block ''required_check_failed'' [(''name'', JStr name)]] else []) @
          (if state = ''pending'' then [block ''required_check_pending'' [(''name'', JStr name)]] else []))"

definition evaluateRequiredChecks :: "string list \<Rightarrow> checks_obs option \<Rightarrow> pr_binding option \<Rightarrow> blocker list" where
  "evaluateRequiredChecks requiredNames observation binding =
    (if requiredNames = [] then []
     else case observation of
         None \<Rightarrow> [block ''observation_incomplete'' [(''observation'', JStr ''checks'')]]
       | Some ob \<Rightarrow>
           if other_head binding (co_headSha ob)
           then [block ''observation_incomplete'' [(''observation'', JStr ''checks'')]]
           else concat (map (check_blockers ob) (sortedSet requiredNames)))"

definition evaluateReviews :: "bool \<Rightarrow> review_obs option \<Rightarrow> pr_binding option \<Rightarrow> blocker list" where
  "evaluateReviews required observation binding =
    (if \<not> required then []
     else case observation of
         None \<Rightarrow> [block ''observation_incomplete'' [(''observation'', JStr ''review_threads'')]]
       | Some ob \<Rightarrow>
           if other_head binding (ro_headSha ob)
           then [block ''observation_incomplete'' [(''observation'', JStr ''review_threads'')]]
           else if \<not> ro_resolutionAvailable ob
           then [block ''observation_incomplete'' [(''observation'', JStr ''review_thread_resolution'')]]
           else map (\<lambda>t. block ''review_thread_unresolved'' [(''threadId'', JStr (th_id t))])
                  (filter (\<lambda>t. th_resolved t \<noteq> Some True) (ro_threads ob)))"

definition evaluateBase :: "bool \<Rightarrow> base_obs option \<Rightarrow> blocker list" where
  "evaluateBase required observation =
    (if \<not> required then []
     else case observation of
         None \<Rightarrow> [block ''observation_incomplete'' [(''observation'', JStr ''base_freshness'')]]
       | Some ob \<Rightarrow> (case bo_behindBy ob of
             None \<Rightarrow> [block ''observation_incomplete'' [(''observation'', JStr ''base_freshness'')]]
           | Some n \<Rightarrow> if n > 0 then [block ''base_stale'' [(''behindBy'', JNum n), (''mergeBaseSha'', or_js (js_opt (bo_mergeBaseSha ob)) JNull)]]
                        else []))"

definition evaluateMergeOrder :: "pr_binding option \<Rightarrow> merge_constraint list \<Rightarrow> delivery_evidence list \<Rightarrow> blocker list" where
  "evaluateMergeOrder binding constraints evidence = (case binding of
      None \<Rightarrow> []
    | Some b \<Rightarrow>
        map (\<lambda>c. block ''merge_order_unsatisfied'' [(''constraintId'', JStr (mc_id c)), (''predecessorPullRequestBindingId'', JStr (mc_predecessor c))])
          (filter (\<lambda>c. \<not> list_ex (\<lambda>e. ve_kind e = ''merge_observed'' \<and> ve_pullRequestBindingId e = mc_predecessor c) evidence)
            (filter (\<lambda>c. mc_state c = ''active'' \<and> mc_successor c = pb_id b) constraints)))"

subsection \<open>The gate\<close>

record delivery_input =
  di_registration :: "repo_registration option"
  di_binding :: "pr_binding option"
  di_snapshot :: "pr_snapshot option"
  di_gate :: "gate_rules option"
  di_conflicts :: "ownership_conflict list"
  di_checks :: "checks_obs option"
  di_reviews :: "review_obs option"
  di_base :: "base_obs option"
  di_constraints :: "merge_constraint list"
  di_evidence :: "delivery_evidence list"

definition js_of :: "('a \<Rightarrow> string) \<Rightarrow> 'a option \<Rightarrow> js" where
  "js_of f r = (case r of None \<Rightarrow> JUndef | Some x \<Rightarrow> JStr (f x))"

definition gate_workspace :: "delivery_input \<Rightarrow> js" where
  "gate_workspace d = or_js (or_js (or_js (js_of dg_workspaceId (di_gate d)) (js_of pb_workspaceId (di_binding d)))
     (js_of rr_workspaceId (di_registration d))) JNull"

definition record_blockers :: "delivery_input \<Rightarrow> blocker list" where
  "record_blockers d =
    (if case di_registration d of None \<Rightarrow> True | Some r \<Rightarrow> rr_status r \<noteq> ''active'' then [block ''repository_inactive'' []] else []) @
    (if case (di_binding d, di_registration d) of
          (Some b, Some r) \<Rightarrow> JStr (pb_workspaceId b) \<noteq> gate_workspace d \<or> JStr (rr_workspaceId r) \<noteq> gate_workspace d
        | _ \<Rightarrow> True
     then [block ''cross_workspace_binding'' []] else [])"

definition snapshot_blockers :: "pr_binding option \<Rightarrow> pr_snapshot option \<Rightarrow> blocker list" where
  "snapshot_blockers binding snapshot = (case snapshot of
      None \<Rightarrow> [block ''observation_incomplete'' [(''observation'', JStr ''pull_request'')]]
    | Some s \<Rightarrow> (case binding of
        None \<Rightarrow> []
      | Some b \<Rightarrow>
          (if ps_headSha s \<noteq> Some (pb_expectedHeadSha b)
           then [block ''head_mismatch'' [(''expectedHeadSha'', JStr (pb_expectedHeadSha b)), (''observedHeadSha'', or_js (js_opt (ps_headSha s)) JNull)]]
           else []) @
          (if ps_state s = ''closed'' \<and> \<not> ps_merged s then [block ''pull_request_closed_unmerged'' []] else [])))"

definition conflict_blocker :: "ownership_conflict \<Rightarrow> blocker" where
  "conflict_blocker c = block ''ownership_conflict'' [(''kind'', or_js (JStr (oc_kind c)) (JStr ''unknown'')),
     (''leftId'', or_js (JStr (oc_leftId c)) JNull), (''rightId'', or_js (JStr (oc_rightId c)) JNull)]"

definition gate_blockers :: "delivery_input \<Rightarrow> blocker list" where
  "gate_blockers d =
    record_blockers d @ snapshot_blockers (di_binding d) (di_snapshot d) @ map conflict_blocker (di_conflicts d) @
    evaluateRequiredChecks (case di_gate d of None \<Rightarrow> [] | Some g \<Rightarrow> dg_requiredCheckNames g) (di_checks d) (di_binding d) @
    evaluateReviews (case di_gate d of None \<Rightarrow> False | Some g \<Rightarrow> dg_requireNoUnresolvedThreads g) (di_reviews d) (di_binding d) @
    evaluateBase (case di_gate d of None \<Rightarrow> False | Some g \<Rightarrow> dg_requireCurrentBase g) (di_base d) @
    evaluateMergeOrder (di_binding d) (di_constraints d) (di_evidence d)"

definition blocker_key :: "blocker \<Rightarrow> string" where
  "blocker_key b = bk_code b @ '':'' @ json (bk_detail b)"

fun dedupe_from :: "string list \<Rightarrow> blocker list \<Rightarrow> blocker list" where
  "dedupe_from seen [] = []"
| "dedupe_from seen (b # bs) =
     (if blocker_key b \<in> set seen then dedupe_from seen bs else b # dedupe_from (blocker_key b # seen) bs)"

definition dedupeBlockers :: "blocker list \<Rightarrow> blocker list" where
  "dedupeBlockers items = dedupe_from [] items"

record gate_result =
  gr_state :: string
  gr_blockers :: "blocker list"
  gr_evaluatedHeadSha :: js
  gr_evaluatedBaseSha :: js

definition snapshot_sha :: "(pr_snapshot \<Rightarrow> string option) \<Rightarrow> pr_snapshot option \<Rightarrow> js" where
  "snapshot_sha f s = or_js (case s of None \<Rightarrow> JUndef | Some s \<Rightarrow> js_opt (f s)) JNull"

definition evaluateDeliveryGate :: "delivery_input \<Rightarrow> gate_result" where
  "evaluateDeliveryGate d =
    (let unique = dedupeBlockers (gate_blockers d);
         stale = list_ex (\<lambda>b. bk_code b = ''head_mismatch'' \<or> bk_code b = ''base_stale'') unique
     in \<lparr>gr_state = (if stale then ''stale'' else if unique \<noteq> [] then ''blocked'' else ''ready''), gr_blockers = unique,
         gr_evaluatedHeadSha = snapshot_sha ps_headSha (di_snapshot d), gr_evaluatedBaseSha = snapshot_sha ps_baseSha (di_snapshot d)\<rparr>)"


subsection \<open>Evidence and repair\<close>

definition obs_digest :: "(string \<Rightarrow> string) \<Rightarrow> ('o \<Rightarrow> string) \<Rightarrow> 'o option \<Rightarrow> string" where
  "obs_digest sha f ob = (case ob of None \<Rightarrow> digest sha (JObj []) | Some x \<Rightarrow> f x)"

definition evidence_obj ::
  "(string \<Rightarrow> string) \<Rightarrow> string \<Rightarrow> string \<Rightarrow> string \<Rightarrow> pr_binding \<Rightarrow> pr_snapshot \<Rightarrow> js \<Rightarrow> checks_obs option \<Rightarrow> review_obs option \<Rightarrow> string \<Rightarrow> js" where
  "evidence_obj sha kind i w b s merge checks reviews observedAt = JObj [(''id'', JStr i), (''workspaceId'', JStr w),
     (''pullRequestBindingId'', JStr (pb_id b)), (''kind'', JStr kind), (''headSha'', js_opt (ps_headSha s)), (''baseSha'', js_opt (ps_baseSha s)),
     (''mergeCommitSha'', merge), (''checkDigest'', JStr (obs_digest sha co_digest checks)),
     (''reviewDigest'', JStr (obs_digest sha ro_digest reviews)), (''observedAt'', JStr observedAt)]"

definition createExactHeadReadyEvidence ::
  "(string \<Rightarrow> string) \<Rightarrow> string \<Rightarrow> string \<Rightarrow> pr_binding option \<Rightarrow> pr_snapshot option \<Rightarrow> checks_obs option \<Rightarrow> review_obs option \<Rightarrow> string \<Rightarrow> js res" where
  "createExactHeadReadyEvidence sha i w binding snapshot checks reviews observedAt = (case (binding, snapshot) of
      (Some b, Some s) \<Rightarrow>
        if ps_headSha s \<noteq> Some (pb_expectedHeadSha b) then Inl (Error ''exact-head ready evidence requires matching bound head'')
        else Inr (evidence_obj sha ''exact_head_ready'' i w b s JNull checks reviews observedAt)
    | _ \<Rightarrow> Inl (Error ''exact-head ready evidence requires matching bound head''))"

definition createMergeObservedEvidence ::
  "(string \<Rightarrow> string) \<Rightarrow> string \<Rightarrow> string \<Rightarrow> pr_binding option \<Rightarrow> pr_snapshot option \<Rightarrow> checks_obs option \<Rightarrow> review_obs option \<Rightarrow> string \<Rightarrow> js res" where
  "createMergeObservedEvidence sha i w binding snapshot checks reviews observedAt = (case (binding, snapshot) of
      (Some b, Some s) \<Rightarrow>
        if ps_headSha s \<noteq> Some (pb_expectedHeadSha b) \<or> \<not> ps_merged s \<or> \<not> truthy (js_opt (ps_mergeCommitSha s))
        then Inl (Error ''merge evidence requires explicit merged snapshot for the bound exact head'')
        else Inr (evidence_obj sha ''merge_observed'' i w b s (js_opt (ps_mergeCommitSha s)) checks reviews observedAt)
    | _ \<Rightarrow> Inl (Error ''merge evidence requires explicit merged snapshot for the bound exact head''))"

definition repairSuggestion :: "string \<Rightarrow> string" where
  "repairSuggestion c = (case map_of
     [(''head_mismatch'', ''Review the new head and create an explicit local rebinding if appropriate.''),
      (''base_stale'', ''Review base freshness and prepare a bounded repair task; do not mutate GitHub automatically.''),
      (''ownership_conflict'', ''Resolve the local ownership conflict before continuing.''),
      (''required_check_failed'', ''Inspect failing exact-head checks and prepare a bounded repair task.''),
      (''required_check_pending'', ''Wait for the required exact-head check observation to become terminal.''),
      (''review_thread_unresolved'', ''Review unresolved provider evidence before continuing.''),
      (''merge_order_unsatisfied'', ''Wait for predecessor merge evidence.'')] c of
     Some t \<Rightarrow> t | None \<Rightarrow> ''Review the blocker and prepare a bounded local repair proposal.'')"

definition proposeRepair :: "string \<Rightarrow> string \<Rightarrow> pr_binding \<Rightarrow> blocker list \<Rightarrow> js res" where
  "proposeRepair i w binding blockers = (case blockers of
      [] \<Rightarrow> Inl (Error ''repair proposal requires a blocked or stale gate'')
    | primary # _ \<Rightarrow> Inr (JObj [(''id'', JStr i), (''workspaceId'', JStr w), (''pullRequestBindingId'', JStr (pb_id binding)),
        (''reasonCode'', JStr (bk_code primary)), (''description'', JStr (''Delivery gate requires review: '' @ bk_code primary)),
        (''suggestedAction'', JStr (repairSuggestion (bk_code primary))), (''state'', JStr ''proposed'')]))"

subsection \<open>When the gate is open\<close>

lemma dedupe_keys: "set seen \<union> blocker_key ` set (dedupe_from seen bs) = set seen \<union> blocker_key ` set bs"
  by (induction seen bs rule: dedupe_from.induct) auto

lemma dedupe_subset: "set (dedupe_from seen bs) \<subseteq> set bs"
  by (induction seen bs rule: dedupe_from.induct) auto

lemma dedupe_Nil_iff: "dedupeBlockers bs = [] \<longleftrightarrow> bs = []"
  by (cases bs) (simp_all add: dedupeBlockers_def)

lemma dedupe_distinct: "distinct (map blocker_key (dedupe_from seen bs)) \<and> set (map blocker_key (dedupe_from seen bs)) \<inter> set seen = {}"
  by (induction seen bs rule: dedupe_from.induct) auto

text \<open>The key \<open>code:detail\<close> of a blocker gives back its code, since no code holds a colon.\<close>

lemma BLOCKERS_no_colon: "c \<in> set BLOCKERS \<Longrightarrow> CHR '':'' \<notin> set c"
  by (auto simp: BLOCKERS_def)

lemma blocker_key_code: "blocker_key a = blocker_key b \<Longrightarrow> bk_code a \<in> set BLOCKERS \<Longrightarrow> bk_code b \<in> set BLOCKERS \<Longrightarrow> bk_code a = bk_code b"
  using colon_key_inject[of "bk_code a" "bk_code b" "json (bk_detail a)" "json (bk_detail b)"]
  by (simp add: blocker_key_def colon_key_def BLOCKERS_no_colon)

lemma collapse_success: "collapseCheckState cs = ''success'' \<longleftrightarrow>
   (\<forall>c \<in> set cs. ck_status c = ''completed'' \<and> ck_conclusion c \<in> {Some ''success'', Some ''neutral'', Some ''skipped''})"
proof -
  have "collapseCheckState cs = ''success'' \<longleftrightarrow>
      \<not> list_ex (\<lambda>c. ck_conclusion c \<in> Some ` set [''failure'', ''cancelled'', ''timed_out'', ''action_required'', ''stale'', ''unknown'']) cs \<and>
      \<not> list_ex (\<lambda>c. ck_status c \<noteq> ''completed'' \<or> ck_conclusion c = None) cs \<and>
      list_all (\<lambda>c. ck_conclusion c \<in> Some ` set [''success'', ''neutral'', ''skipped'']) cs"
    by (simp add: collapseCheckState_def)
  also have "\<dots> \<longleftrightarrow> (\<forall>c \<in> set cs. ck_status c = ''completed'' \<and> ck_conclusion c \<in> {Some ''success'', Some ''neutral'', Some ''skipped''})"
    by (force simp: list_ex_iff list_all_iff)
  finally show ?thesis .
qed

lemma collapse_cases: "collapseCheckState cs \<in> {''failed'', ''pending'', ''success''}"
  by (simp add: collapseCheckState_def)


lemma dedupe_codes:
  assumes "\<forall>b \<in> set bs. bk_code b \<in> set BLOCKERS"
  shows "c \<in> bk_code ` set (dedupeBlockers bs) \<longleftrightarrow> c \<in> bk_code ` set bs"
proof
  assume "c \<in> bk_code ` set bs"
  then obtain b where b: "b \<in> set bs" "c = bk_code b" by blast
  then have "blocker_key b \<in> blocker_key ` set (dedupeBlockers bs)" using dedupe_keys[of "[]" bs] by (simp add: dedupeBlockers_def)
  then obtain b' where b': "b' \<in> set (dedupeBlockers bs)" "blocker_key b' = blocker_key b" by auto
  moreover from b' have "b' \<in> set bs" using dedupe_subset by (auto simp: dedupeBlockers_def)
  ultimately show "c \<in> bk_code ` set (dedupeBlockers bs)" using blocker_key_code[of b' b] b assms by (metis image_eqI)
qed (use dedupe_subset in \<open>auto simp: dedupeBlockers_def\<close>)

lemma block_code [simp]: "bk_code (block c kvs) = c"
  by (simp add: block_def)

lemma known_codes: "''repository_inactive'' \<in> set BLOCKERS" "''cross_workspace_binding'' \<in> set BLOCKERS"
  "''ownership_conflict'' \<in> set BLOCKERS" "''head_mismatch'' \<in> set BLOCKERS" "''base_stale'' \<in> set BLOCKERS"
  "''required_check_missing'' \<in> set BLOCKERS" "''required_check_pending'' \<in> set BLOCKERS" "''required_check_failed'' \<in> set BLOCKERS"
  "''review_thread_unresolved'' \<in> set BLOCKERS" "''merge_order_unsatisfied'' \<in> set BLOCKERS"
  "''pull_request_closed_unmerged'' \<in> set BLOCKERS" "''observation_incomplete'' \<in> set BLOCKERS"
  by (simp_all add: BLOCKERS_def)

lemma gate_codes: "\<forall>b \<in> set (gate_blockers d). bk_code b \<in> set BLOCKERS"
proof -
  have "\<forall>b \<in> set (evaluateRequiredChecks ns ob bi). bk_code b \<in> set BLOCKERS" for ns ob bi
    by (auto simp: evaluateRequiredChecks_def check_blockers_def Let_def known_codes split: option.splits if_splits)
  moreover have "\<forall>b \<in> set (evaluateReviews q ob bi). bk_code b \<in> set BLOCKERS" for q ob bi
    by (auto simp: evaluateReviews_def known_codes split: option.splits if_splits)
  moreover have "\<forall>b \<in> set (evaluateBase q ob). bk_code b \<in> set BLOCKERS" for q ob
    by (auto simp: evaluateBase_def known_codes split: option.splits if_splits)
  moreover have "\<forall>b \<in> set (evaluateMergeOrder bi cs es). bk_code b \<in> set BLOCKERS" for bi cs es
    by (auto simp: evaluateMergeOrder_def known_codes split: option.splits)
  moreover have "\<forall>b \<in> set (snapshot_blockers bi sn). bk_code b \<in> set BLOCKERS" for bi sn
    by (auto simp: snapshot_blockers_def known_codes split: option.splits if_splits)
  moreover have "\<forall>b \<in> set (record_blockers d). bk_code b \<in> set BLOCKERS"
    by (auto simp: record_blockers_def known_codes split: option.splits if_splits)
  ultimately show ?thesis by (simp add: gate_blockers_def conflict_blocker_def known_codes ball_Un)
qed


definition checks_pass :: "string list \<Rightarrow> checks_obs option \<Rightarrow> pr_binding \<Rightarrow> bool" where
  "checks_pass names ob b \<longleftrightarrow> names = [] \<or> (\<exists>x. ob = Some x \<and> co_headSha x = pb_expectedHeadSha b \<and>
     (\<forall>n \<in> set names. (\<exists>c \<in> set (co_checks x). ck_name c = n) \<and>
       (\<forall>c \<in> set (co_checks x). ck_name c = n \<longrightarrow>
          ck_status c = ''completed'' \<and> ck_conclusion c \<in> {Some ''success'', Some ''neutral'', Some ''skipped''})))"

definition reviews_pass :: "bool \<Rightarrow> review_obs option \<Rightarrow> pr_binding \<Rightarrow> bool" where
  "reviews_pass required ob b \<longleftrightarrow> \<not> required \<or> (\<exists>x. ob = Some x \<and> ro_headSha x = pb_expectedHeadSha b \<and>
     ro_resolutionAvailable x \<and> (\<forall>t \<in> set (ro_threads x). th_resolved t = Some True))"

definition base_pass :: "bool \<Rightarrow> base_obs option \<Rightarrow> bool" where
  "base_pass required ob \<longleftrightarrow> \<not> required \<or> (\<exists>x n. ob = Some x \<and> bo_behindBy x = Some n \<and> n \<le> 0)"

definition order_pass :: "pr_binding \<Rightarrow> merge_constraint list \<Rightarrow> delivery_evidence list \<Rightarrow> bool" where
  "order_pass b cs es \<longleftrightarrow> (\<forall>c \<in> set cs. mc_state c = ''active'' \<longrightarrow> mc_successor c = pb_id b \<longrightarrow>
     (\<exists>e \<in> set es. ve_kind e = ''merge_observed'' \<and> ve_pullRequestBindingId e = mc_predecessor c))"

lemma check_blockers_Nil: "check_blockers ob n = [] \<longleftrightarrow> (\<exists>c \<in> set (co_checks ob). ck_name c = n) \<and>
   (\<forall>c \<in> set (co_checks ob). ck_name c = n \<longrightarrow> ck_status c = ''completed'' \<and> ck_conclusion c \<in> {Some ''success'', Some ''neutral'', Some ''skipped''})"
proof -
  let ?cs = "filter (\<lambda>c. ck_name c = n) (co_checks ob)"
  have "check_blockers ob n = [] \<longleftrightarrow> ?cs \<noteq> [] \<and> collapseCheckState ?cs = ''success''"
    using collapse_cases[of ?cs] by (auto simp: check_blockers_def Let_def)
  then show ?thesis unfolding collapse_success by (auto simp: filter_empty_conv)
qed

lemma checks_Nil: "evaluateRequiredChecks names ob (Some b) = [] \<longleftrightarrow> checks_pass names ob b"
  by (cases ob) (auto simp: evaluateRequiredChecks_def checks_pass_def other_head_def check_blockers_Nil)

lemma reviews_Nil: "evaluateReviews q ob (Some b) = [] \<longleftrightarrow> reviews_pass q ob b"
  by (cases ob) (auto simp: evaluateReviews_def reviews_pass_def other_head_def filter_empty_conv)

lemma base_Nil: "evaluateBase q ob = [] \<longleftrightarrow> base_pass q ob"
  by (auto simp: evaluateBase_def base_pass_def split: option.splits)

lemma order_Nil: "evaluateMergeOrder (Some b) cs es = [] \<longleftrightarrow> order_pass b cs es"
  by (auto simp: evaluateMergeOrder_def order_pass_def filter_empty_conv list_ex_iff)

lemma snapshot_Nil: "snapshot_blockers (Some b) sn = [] \<longleftrightarrow>
   (\<exists>s. sn = Some s \<and> ps_headSha s = Some (pb_expectedHeadSha b) \<and> (ps_state s = ''closed'' \<longrightarrow> ps_merged s))"
  by (auto simp: snapshot_blockers_def split: option.splits)

lemma record_Nil: "record_blockers d = [] \<longleftrightarrow> (\<exists>r b. di_registration d = Some r \<and> di_binding d = Some b \<and> rr_status r = ''active'' \<and>
   JStr (pb_workspaceId b) = gate_workspace d \<and> JStr (rr_workspaceId r) = gate_workspace d)"
  by (auto simp: record_blockers_def split: option.splits)

text \<open>The head of the snapshot is another one, or the base has moved on.\<close>

definition head_moved :: "delivery_input \<Rightarrow> bool" where
  "head_moved d \<longleftrightarrow> (\<exists>b s. di_binding d = Some b \<and> di_snapshot d = Some s \<and> ps_headSha s \<noteq> Some (pb_expectedHeadSha b))"

definition base_moved :: "delivery_input \<Rightarrow> bool" where
  "base_moved d \<longleftrightarrow> (\<exists>g x n. di_gate d = Some g \<and> dg_requireCurrentBase g \<and> di_base d = Some x \<and> bo_behindBy x = Some n \<and> 0 < n)"

lemma gate_stale_codes:
  "''head_mismatch'' \<in> bk_code ` set (gate_blockers d) \<longleftrightarrow> head_moved d"
  "''base_stale'' \<in> bk_code ` set (gate_blockers d) \<longleftrightarrow> base_moved d"
proof -
  have k: "c \<notin> bk_code ` set (evaluateRequiredChecks ns ob bi)" "c \<notin> bk_code ` set (evaluateReviews q ro bi)"
    "c \<notin> bk_code ` set (evaluateMergeOrder bi cs es)" "c \<notin> bk_code ` set (record_blockers d)"
    "c \<notin> bk_code ` set (map conflict_blocker xs)" if "c \<in> {''head_mismatch'', ''base_stale''}" for c ns ob bi q ro cs es xs
    using that by (auto simp: evaluateRequiredChecks_def check_blockers_def Let_def evaluateReviews_def evaluateMergeOrder_def
        record_blockers_def conflict_blocker_def split: option.splits if_splits)
  have s: "''head_mismatch'' \<in> bk_code ` set (snapshot_blockers bi sn) \<longleftrightarrow>
      (\<exists>b s. bi = Some b \<and> sn = Some s \<and> ps_headSha s \<noteq> Some (pb_expectedHeadSha b))" "''base_stale'' \<notin> bk_code ` set (snapshot_blockers bi sn)" for bi sn
    by (cases bi; cases sn; auto simp: snapshot_blockers_def image_Un)+
  have b: "''base_stale'' \<in> bk_code ` set (evaluateBase q ob) \<longleftrightarrow> q \<and> (\<exists>x n. ob = Some x \<and> bo_behindBy x = Some n \<and> 0 < n)"
    "''head_mismatch'' \<notin> bk_code ` set (evaluateBase q ob)" for q ob
    by (auto simp: evaluateBase_def split: option.splits)
  show "''head_mismatch'' \<in> bk_code ` set (gate_blockers d) \<longleftrightarrow> head_moved d"
    unfolding gate_blockers_def head_moved_def set_append image_Un Un_iff by (simp only: k s b simp_thms insert_iff)
  show "''base_stale'' \<in> bk_code ` set (gate_blockers d) \<longleftrightarrow> base_moved d"
    unfolding gate_blockers_def base_moved_def set_append image_Un Un_iff
    by (simp only: k s b simp_thms insert_iff) (auto split: option.splits)
qed


definition delivery_open :: "delivery_input \<Rightarrow> bool" where
  "delivery_open d \<longleftrightarrow> (\<exists>r b s. di_registration d = Some r \<and> rr_status r = ''active'' \<and> di_binding d = Some b \<and>
     JStr (pb_workspaceId b) = gate_workspace d \<and> JStr (rr_workspaceId r) = gate_workspace d \<and>
     di_snapshot d = Some s \<and> ps_headSha s = Some (pb_expectedHeadSha b) \<and> (ps_state s = ''closed'' \<longrightarrow> ps_merged s) \<and>
     di_conflicts d = [] \<and>
     checks_pass (case di_gate d of None \<Rightarrow> [] | Some g \<Rightarrow> dg_requiredCheckNames g) (di_checks d) b \<and>
     reviews_pass (case di_gate d of None \<Rightarrow> False | Some g \<Rightarrow> dg_requireNoUnresolvedThreads g) (di_reviews d) b \<and>
     base_pass (case di_gate d of None \<Rightarrow> False | Some g \<Rightarrow> dg_requireCurrentBase g) (di_base d) \<and>
     order_pass b (di_constraints d) (di_evidence d))"

lemma gate_blockers_Nil: "gate_blockers d = [] \<longleftrightarrow> delivery_open d"
proof (cases "di_binding d")
  case None
  then show ?thesis by (simp add: gate_blockers_def delivery_open_def record_Nil)
next
  case (Some b)
  then show ?thesis
    by (simp only: gate_blockers_def delivery_open_def record_Nil append_is_Nil_conv snapshot_Nil checks_Nil reviews_Nil base_Nil order_Nil
        map_is_Nil_conv option.inject) blast
qed

text \<open>
  C38: The delivery gate of a bound pull request opens exactly when nothing stands against the
  delivery: it is ready when the repository is registered and active, registration and
  binding belong to the gate's workspace, the observed head is the bound one and not closed
  unmerged, no ownership conflicts, every required check ran on that head and all its runs
  completed with success, neutral or skipped, every review thread is resolved, the base is not
  behind and every active predecessor has been merged; it is stale exactly when the head is
  another one or a required base has moved on, and blocked otherwise.  Its blockers carry known
  codes only and none twice.
\<close>

theorem delivery_gate_exact:
  "gr_state (evaluateDeliveryGate d) = (if head_moved d \<or> base_moved d then ''stale'' else if delivery_open d then ''ready'' else ''blocked'') \<and>
   (gr_blockers (evaluateDeliveryGate d) = []) = delivery_open d \<and>
   bk_code ` set (gr_blockers (evaluateDeliveryGate d)) \<subseteq> set BLOCKERS \<and>
   distinct (map blocker_key (gr_blockers (evaluateDeliveryGate d)))"
proof -
  let ?u = "dedupeBlockers (gate_blockers d)"
  have u: "gr_blockers (evaluateDeliveryGate d) = ?u"
    "gr_state (evaluateDeliveryGate d) = (if list_ex (\<lambda>b. bk_code b = ''head_mismatch'' \<or> bk_code b = ''base_stale'') ?u then ''stale''
       else if ?u \<noteq> [] then ''blocked'' else ''ready'')"
    by (simp_all add: evaluateDeliveryGate_def Let_def)
  have s: "list_ex (\<lambda>b. bk_code b = ''head_mismatch'' \<or> bk_code b = ''base_stale'') ?u \<longleftrightarrow> head_moved d \<or> base_moved d"
    unfolding gate_stale_codes[symmetric] dedupe_codes[OF gate_codes, symmetric] list_ex_iff by (auto intro: rev_image_eqI)
  have e: "?u = [] \<longleftrightarrow> delivery_open d" by (simp add: dedupe_Nil_iff gate_blockers_Nil)
  have "bk_code ` set ?u \<subseteq> set BLOCKERS" using dedupe_subset[of "[]" "gate_blockers d"] gate_codes[of d] by (auto simp: dedupeBlockers_def)
  moreover have "distinct (map blocker_key ?u)" using dedupe_distinct[of "[]"] by (simp add: dedupeBlockers_def)
  ultimately show ?thesis unfolding u s e by auto
qed

end
