(* ===== verification/AppEvents.thy ===== *)
theory AppEvents
  imports Workspace Json JsText
begin

text \<open>
  What the application services share: the events they append to the store's log, the
  derived ids, and reading a repository by an id that need not be a string.
\<close>

record app_event =
  ap_workspaceId :: string
  ap_type :: string
  ap_aggregateType :: string
  ap_aggregateId :: string
  ap_idempotencyKey :: string
  ap_payload :: js

text \<open>The store compares these fields when an idempotency key is used again.\<close>

definition same_stored_event :: "app_event \<Rightarrow> app_event \<Rightarrow> bool" where
  "same_stored_event x e \<longleftrightarrow> ap_workspaceId x = ap_workspaceId e \<and> ap_aggregateType x = ap_aggregateType e \<and>
     ap_aggregateId x = ap_aggregateId e \<and> ap_type x = ap_type e \<and>
     stableStringify (ap_payload x) = stableStringify (ap_payload e)"

definition put_event :: "app_event \<Rightarrow> app_event list \<Rightarrow> app_event list res" where
  "put_event e log = (case find (\<lambda>x. ap_idempotencyKey x = ap_idempotencyKey e) log of
      None \<Rightarrow> Inr (log @ [e])
    | Some x \<Rightarrow> if same_stored_event x e then Inr log else Inl (Error (''Idempotency key collision: '' @ ap_idempotencyKey e)))"

text \<open>\<open>parts.join(':')\<close>: undefined and null are empty.\<close>

definition bounded_id :: "(string \<Rightarrow> string) \<Rightarrow> string \<Rightarrow> js list \<Rightarrow> string" where
  "bounded_id sha p parts = p @ ''-'' @ take 20 (sha (join_with '':'' (map (\<lambda>v. if nullish v then [] else to_string v) parts)))"

text \<open>\<open>repository.get(id)\<close> finds nothing under what is no string.\<close>

definition get_js :: "(string, 'v) jsmap \<Rightarrow> js \<Rightarrow> 'v option" where
  "get_js m v = (case v of JStr s \<Rightarrow> mget m s | _ \<Rightarrow> None)"

text \<open>\<open>require(repository, id, label)\<close>\<close>

definition requireRecord :: "(string, 'v) jsmap \<Rightarrow> js \<Rightarrow> string \<Rightarrow> 'v res" where
  "requireRecord m i label = (case get_js m i of
      None \<Rightarrow> Inl (Error (label @ '' not found: '' @ to_string i)) | Some r \<Rightarrow> Inr r)"

lemma get_js_str [simp]: "get_js m (JStr i) = mget m i"
  by (simp add: get_js_def)

lemma requireRecord_Inr [simp]: "requireRecord m i label = Inr r \<longleftrightarrow> get_js m i = Some r"
  by (auto simp: requireRecord_def split: option.splits)

lemma put_event_Inr: "put_event e log = Inr log' \<Longrightarrow>
    (\<exists>x. find (\<lambda>x. ap_idempotencyKey x = ap_idempotencyKey e) log' = Some x \<and> same_stored_event x e) \<and>
    (\<forall>P x. find P log = Some x \<longrightarrow> find P log' = Some x)"
  by (auto simp: put_event_def same_stored_event_def find_append split: option.splits if_splits)

end
