(* ===== verification/GithubService.thy ===== *)
theory GithubService
  imports DeliveryGate AppEvents
begin

text \<open>
  The GitHub half of the S3 application service (\<open>src/application/s3-application-service.cjs\<close> with
  the overrides of \<open>src/application/s3-index.cjs\<close>): registering repositories, reserving branches,
  claiming paths, binding pull requests with their delivery gates, ordering merges, taking in
  an observation, releasing what waits for a merge, proposing repairs.  A projection repository
  is a map by id that never fails; the event log refuses a second content under a used key.
  What the service reads from the other stages is the record \<open>s3_env\<close>: the workspaces and the
  plan steps it finds, and the clock.
\<close>

subsection \<open>State\<close>

text \<open>Times that are written and never read (when a gate or a dependency was created or released) are left out.\<close>

record delivery_gate = gate_rules +
  gt_id :: string
  gt_pullRequestBindingId :: string
  gt_requireOwnershipClear :: bool
  gt_state :: string
  gt_blockers :: "blocker list"
  gt_evaluatedHeadSha :: js
  gt_evaluatedBaseSha :: js
  gt_evaluationDigest :: "string option"
  gt_lastEvaluatedAt :: js
  gt_satisfiedEvidenceId :: js

record observed_pr =
  op_id :: string
  op_workspaceId :: string
  op_pullRequestBindingId :: string
  op_snapshot :: pr_snapshot
  op_base :: "base_obs option"
  op_digest :: string

record delivery_dependency =
  dd_id :: string
  dd_workspaceId :: string
  dd_pullRequestBindingId :: string
  dd_missionId :: string
  dd_revisionId :: string
  dd_runId :: string
  dd_state :: string
  dd_evidenceId :: "string option"
  dd_missionRunId :: "string option"

record s3_state =
  s3_registrations :: "(string, repo_registration) jsmap"
  s3_repoBindings :: "(string, repo_binding) jsmap"
  s3_reservations :: "(string, branch_reservation) jsmap"
  s3_claims :: "(string, path_claim) jsmap"
  s3_bindings :: "(string, pr_binding) jsmap"
  s3_snapshots :: "(string, observed_pr) jsmap"
  s3_checks :: "(string, checks_obs) jsmap"
  s3_reviews :: "(string, review_obs) jsmap"
  s3_constraints :: "(string, merge_constraint) jsmap"
  s3_gates :: "(string, delivery_gate) jsmap"
  s3_evidence :: "(string, delivery_evidence) jsmap"
  s3_repairs :: "(string, repair_proposal) jsmap"
  s3_dependencies :: "(string, delivery_dependency) jsmap"
  s3_events :: "app_event list"

record s3_env =
  en_workspace :: "string \<Rightarrow> bool"
  en_planStep :: "js \<Rightarrow> js \<Rightarrow> bool"
  en_clock :: string

definition s3_init :: s3_state where
  "s3_init = \<lparr>s3_registrations = [], s3_repoBindings = [], s3_reservations = [], s3_claims = [], s3_bindings = [], s3_snapshots = [],
     s3_checks = [], s3_reviews = [], s3_constraints = [], s3_gates = [], s3_evidence = [], s3_repairs = [], s3_dependencies = [], s3_events = []\<rparr>"

subsection \<open>Helpers\<close>

definition boundedId3 :: "(string \<Rightarrow> string) \<Rightarrow> string \<Rightarrow> js list \<Rightarrow> string" where
  "boundedId3 sha p parts = p @ ''-'' @ take 20 (sha (join_with '':'' (map (\<lambda>v. if nullish v then [] else to_string v) parts)))"

definition requiredChecks :: "js \<Rightarrow> string list res" where
  "requiredChecks value = (case value of
      JUndef \<Rightarrow> Inr []
    | JArr items \<Rightarrow> bindE (mapE (\<lambda>item.
          let name = trim_js (to_string (or_js item (JStr []))) in
          if name = [] \<or> 100 < length name \<or> list_ex (\<lambda>c. ccode c \<in> {0, 10, 13}) name
          then Inl (TypeError ''required check name must be bounded text'') else Inr name) items) (\<lambda>names. Inr (sortedSet names))
    | _ \<Rightarrow> Inl (TypeError ''requiredCheckNames must be an array''))"

definition appendS3Event :: "app_event \<Rightarrow> (s3_state, unit) act" where
  "appendS3Event e s = (case find (\<lambda>x. ap_idempotencyKey x = ap_idempotencyKey e) (s3_events s) of
      None \<Rightarrow> (s\<lparr>s3_events := s3_events s @ [e]\<rparr>, Inr ())
    | Some x \<Rightarrow>
        if ap_workspaceId x = ap_workspaceId e \<and> ap_aggregateType x = ap_aggregateType e \<and> ap_aggregateId x = ap_aggregateId e
           \<and> ap_type x = ap_type e \<and> stableStringify (ap_payload x) = stableStringify (ap_payload e)
        then (s, Inr ()) else (s, Inl (Error (''Idempotency key collision: '' @ ap_idempotencyKey e))))"

definition requireWorkspaceRecord :: "('v \<Rightarrow> string) \<Rightarrow> (string, 'v) jsmap \<Rightarrow> js \<Rightarrow> js \<Rightarrow> string \<Rightarrow> 'v res" where
  "requireWorkspaceRecord ws m i w label = (case get_js m i of
      None \<Rightarrow> Inl (Error (label @ '' not found: '' @ to_string i))
    | Some r \<Rightarrow> if JStr (ws r) \<noteq> w then Inl (Error (''Cross-Workspace '' @ label @ '' access denied'')) else Inr r)"

subsection \<open>Repositories and branches\<close>

definition registerRepository :: "(string \<Rightarrow> string) \<Rightarrow> s3_env \<Rightarrow> js \<Rightarrow> (s3_state, repo_registration) act" where
  "registerRepository sha env input =
    bindS (liftS (fieldE input ''workspaceId'')) (\<lambda>w.
    if \<not> (case w of JStr ws \<Rightarrow> en_workspace env ws | _ \<Rightarrow> False) then throwS (Error (''Workspace not found: '' @ to_string w))
    else
      let i = or_js (field input ''id'') (JStr (boundedId3 sha ''githubrepo'' [w, field input ''owner'', field input ''repository''])) in
      bindS (liftS (createRepositoryRegistration sha (en_clock env)
          (with_fields input [(''id'', i), (''createdAt'', JStr (en_clock env))]))) (\<lambda>candidate.
      bindS (readS (\<lambda>s. mget (s3_registrations s) (rr_id candidate))) (\<lambda>existing. case existing of
          Some e \<Rightarrow> liftS (assertRepositoryRegistrationSemanticMatch (Some e) candidate)
        | None \<Rightarrow>
            bindS (modifyS (\<lambda>s. s\<lparr>s3_registrations := mset_at (rr_id candidate) candidate (s3_registrations s)\<rparr>)) (\<lambda>_.
            bindS (appendS3Event \<lparr>ap_workspaceId = rr_workspaceId candidate, ap_type = ''github.repository_registered'',
              ap_aggregateType = ''repositoryRegistration'', ap_aggregateId = rr_id candidate,
              ap_idempotencyKey = ''github.repository_registered:'' @ rr_id candidate @ '':'' @ rr_semanticDigest candidate,
              ap_payload = JObj [(''registrationId'', JStr (rr_id candidate)), (''owner'', JStr (rr_owner candidate)),
                (''repository'', JStr (rr_repository candidate))]\<rparr>) (\<lambda>_.
            returnS candidate)))))"

text \<open>\<open>sameFields\<close> compares the JSON texts of the named fields, which on texts is equality.\<close>

definition reservation_fields :: "branch_reservation \<Rightarrow> string list" where
  "reservation_fields r = [br_workspaceId r, br_repositoryRegistrationId r, br_branch r, br_mode r, br_ownerKind r, br_ownerId r]"

definition reserveBranch :: "(string \<Rightarrow> string) \<Rightarrow> s3_env \<Rightarrow> js \<Rightarrow> (s3_state, branch_reservation) act" where
  "reserveBranch sha env input =
    bindS (liftS (fieldE input ''repositoryRegistrationId'')) (\<lambda>rid.
    bindS (readS s3_registrations) (\<lambda>regs.
    bindS (liftS (requireWorkspaceRecord rr_workspaceId regs rid (field input ''workspaceId'') ''RepositoryRegistration'')) (\<lambda>registration.
    if rr_status registration \<noteq> ''active'' then throwS (Error ''RepositoryRegistration is not active'')
    else
      let i = or_js (field input ''id'') (JStr (boundedId3 sha ''githubbranch'' [JStr (rr_id registration), field input ''branch'', field input ''ownerId''])) in
      bindS (liftS (createBranchReservation (en_clock env) (with_fields input [(''id'', i), (''createdAt'', JStr (en_clock env))]))) (\<lambda>candidate.
      bindS (liftS (assertRepositoryWorkspace (field input ''workspaceId'') [Some (rr_workspaceId registration), Some (br_workspaceId candidate)])) (\<lambda>_.
      bindS (readS s3_reservations) (\<lambda>rs. case mget rs (br_id candidate) of
          Some existing \<Rightarrow>
            if reservation_fields existing \<noteq> reservation_fields candidate
            then throwS (Error (''Branch reservation idempotency collision: '' @ br_id candidate)) else returnS existing
        | None \<Rightarrow>
            if list_ex (\<lambda>c. oc_rightId c = br_id candidate \<or> oc_leftId c = br_id candidate)
                 (findOwnershipConflicts (mvalues rs @ [candidate]) [])
            then throwS (Error ''Branch reservation ownership conflict'')
            else
              bindS (modifyS (\<lambda>s. s\<lparr>s3_reservations := mset_at (br_id candidate) candidate (s3_reservations s)\<rparr>)) (\<lambda>_.
              bindS (appendS3Event \<lparr>ap_workspaceId = br_workspaceId candidate, ap_type = ''github.branch_reserved'',
                ap_aggregateType = ''branchReservation'', ap_aggregateId = br_id candidate,
                ap_idempotencyKey = ''github.branch_reserved:'' @ br_id candidate,
                ap_payload = JObj [(''reservationId'', JStr (br_id candidate)), (''repositoryRegistrationId'', JStr (rr_id registration)),
                  (''branch'', JStr (br_branch candidate)), (''mode'', JStr (br_mode candidate))]\<rparr>) (\<lambda>_.
              returnS candidate))))))))"

definition claim_fields :: "path_claim \<Rightarrow> string list" where
  "claim_fields c = [pt_workspaceId c, pt_repositoryRegistrationId c, pt_branchReservationId c, pt_pathPrefix c, pt_mode c, pt_ownerId c]"

definition claimPath ::
  "(string \<Rightarrow> string) \<Rightarrow> s3_env \<Rightarrow> js \<Rightarrow> branch_reservation \<Rightarrow> repo_registration \<Rightarrow> js \<Rightarrow> (s3_state, path_claim) act" where
  "claimPath sha env input reservation registration pathPrefix =
    (let i = boundedId3 sha ''githubpath'' [JStr (br_id reservation), field input ''ownerId'', JStr (to_string pathPrefix)] in
     bindS (liftS (createPathOwnershipClaim (en_clock env) (JObj [(''id'', JStr i), (''workspaceId'', field input ''workspaceId''),
         (''repositoryRegistrationId'', JStr (rr_id registration)), (''branchReservationId'', JStr (br_id reservation)),
         (''pathPrefix'', pathPrefix), (''mode'', or_js (field input ''mode'') (JStr (br_mode reservation))),
         (''ownerId'', field input ''ownerId''), (''createdAt'', JStr (en_clock env))]))) (\<lambda>candidate.
     bindS (readS s3_claims) (\<lambda>cs. case mget cs (pt_id candidate) of
         Some existing \<Rightarrow>
           if claim_fields existing \<noteq> claim_fields candidate
           then throwS (Error (''Path ownership idempotency collision: '' @ pt_id candidate)) else returnS existing
       | None \<Rightarrow>
           if list_ex (\<lambda>c. oc_rightId c = pt_id candidate \<or> oc_leftId c = pt_id candidate)
                (findOwnershipConflicts [] (mvalues cs @ [candidate]))
           then throwS (Error (''Path ownership conflict: '' @ pt_pathPrefix candidate))
           else
             bindS (modifyS (\<lambda>s. s\<lparr>s3_claims := mset_at (pt_id candidate) candidate (s3_claims s)\<rparr>)) (\<lambda>_.
             bindS (appendS3Event \<lparr>ap_workspaceId = pt_workspaceId candidate, ap_type = ''github.path_claimed'',
               ap_aggregateType = ''pathOwnershipClaim'', ap_aggregateId = pt_id candidate,
               ap_idempotencyKey = ''github.path_claimed:'' @ pt_id candidate,
               ap_payload = JObj [(''claimId'', JStr (pt_id candidate)), (''pathPrefix'', JStr (pt_pathPrefix candidate)),
                 (''ownerId'', JStr (pt_ownerId candidate)), (''mode'', JStr (pt_mode candidate))]\<rparr>) (\<lambda>_.
             returnS candidate)))))"

fun claim_each :: "('p \<Rightarrow> (s3_state, path_claim) act) \<Rightarrow> 'p list \<Rightarrow> (s3_state, path_claim list) act" where
  "claim_each claim [] = returnS []"
| "claim_each claim (p # ps) = bindS (claim p) (\<lambda>c. bindS (claim_each claim ps) (\<lambda>cs. returnS (c # cs)))"

definition claimPaths :: "(string \<Rightarrow> string) \<Rightarrow> s3_env \<Rightarrow> js \<Rightarrow> (s3_state, path_claim list) act" where
  "claimPaths sha env input =
    bindS (liftS (fieldE input ''branchReservationId'')) (\<lambda>bid.
    bindS (readS s3_reservations) (\<lambda>rs.
    bindS (liftS (requireWorkspaceRecord br_workspaceId rs bid (field input ''workspaceId'') ''BranchReservation'')) (\<lambda>reservation.
    bindS (readS s3_registrations) (\<lambda>regs.
    bindS (liftS (requireWorkspaceRecord rr_workspaceId regs (JStr (br_repositoryRegistrationId reservation)) (field input ''workspaceId'')
        ''RepositoryRegistration'')) (\<lambda>registration.
    if br_state reservation \<noteq> ''active'' \<or> rr_status registration \<noteq> ''active''
    then throwS (Error ''Repository or branch reservation is inactive'')
    else (case field input ''paths'' of
        JArr (p # ps) \<Rightarrow> claim_each (claimPath sha env input reservation registration) (p # ps)
      | _ \<Rightarrow> throwS (TypeError ''paths must contain at least one repository-relative prefix'')))))))"


subsection \<open>Pull requests and merge order\<close>

definition gate_fields :: "delivery_gate \<Rightarrow> string \<times> string \<times> string list \<times> bool \<times> bool \<times> bool" where
  "gate_fields g = (dg_workspaceId g, gt_pullRequestBindingId g, dg_requiredCheckNames g, dg_requireNoUnresolvedThreads g,
     dg_requireCurrentBase g, gt_requireOwnershipClear g)"

definition gate_config :: "js \<Rightarrow> pr_binding \<Rightarrow> string \<Rightarrow> string list \<Rightarrow> delivery_gate" where
  "gate_config input binding gateId names =
    \<lparr>dg_workspaceId = pb_workspaceId binding, dg_requiredCheckNames = names,
     dg_requireNoUnresolvedThreads = (field input ''requireNoUnresolvedThreads'' \<noteq> JBool False),
     dg_requireCurrentBase = (field input ''requireCurrentBase'' \<noteq> JBool False), gt_id = gateId,
     gt_pullRequestBindingId = pb_id binding, gt_requireOwnershipClear = (field input ''requireOwnershipClear'' \<noteq> JBool False),
     gt_state = ''waiting'', gt_blockers = [], gt_evaluatedHeadSha = JNull, gt_evaluatedBaseSha = JNull, gt_evaluationDigest = None,
     gt_lastEvaluatedAt = JNull, gt_satisfiedEvidenceId = JUndef\<rparr>"

definition store_binding :: "(string \<Rightarrow> string) \<Rightarrow> repo_registration \<Rightarrow> pr_binding \<Rightarrow> (s3_state, pr_binding) act" where
  "store_binding sha registration candidate =
    bindS (readS (\<lambda>s. mget (s3_bindings s) (pb_id candidate))) (\<lambda>existing. case existing of
        Some e \<Rightarrow> liftS (assertPullRequestBindingSemanticMatch (Some e) candidate)
      | None \<Rightarrow>
          bindS (modifyS (\<lambda>s. s\<lparr>s3_bindings := mset_at (pb_id candidate) candidate (s3_bindings s)\<rparr>)) (\<lambda>_.
          bindS (appendS3Event \<lparr>ap_workspaceId = pb_workspaceId candidate, ap_type = ''github.pull_request_bound'',
            ap_aggregateType = ''pullRequestBinding'', ap_aggregateId = pb_id candidate,
            ap_idempotencyKey = ''github.pull_request_bound:'' @ pb_id candidate @ '':'' @ pb_semanticDigest candidate,
            ap_payload = JObj [(''pullRequestBindingId'', JStr (pb_id candidate)), (''repositoryRegistrationId'', JStr (rr_id registration)),
              (''number'', JNum (pb_number candidate)), (''expectedHeadSha'', JStr (pb_expectedHeadSha candidate))]\<rparr>) (\<lambda>_.
          returnS candidate)))"

text \<open>A gate id that is no text has no row: the store refuses to write one.\<close>

definition store_gate :: "(string \<Rightarrow> string) \<Rightarrow> js \<Rightarrow> pr_binding \<Rightarrow> (s3_state, delivery_gate) act" where
  "store_gate sha input binding =
    bindS (liftS (requiredChecks (field input ''requiredCheckNames''))) (\<lambda>names.
    case or_js (field input ''deliveryGateId'') (JStr (boundedId3 sha ''deliverygate'' [JStr (pb_id binding)])) of
      JStr gateId \<Rightarrow>
        (let config = gate_config input binding gateId names in
         bindS (readS (\<lambda>s. mget (s3_gates s) gateId)) (\<lambda>existing. case existing of
             Some g \<Rightarrow> if gate_fields g \<noteq> gate_fields config then throwS (Error (''DeliveryGate idempotency collision: '' @ gateId)) else returnS g
           | None \<Rightarrow> bindS (modifyS (\<lambda>s. s\<lparr>s3_gates := mset_at gateId config (s3_gates s)\<rparr>)) (\<lambda>_. returnS config)))
    | _ \<Rightarrow> throwS (TypeError ''event.aggregateId is required''))"

definition repo_binding_fields :: "repo_binding \<Rightarrow> string \<times> string \<times> string option \<times> string option" where
  "repo_binding_fields b = (rb_workspaceId b, rb_repositoryRegistrationId b, rb_missionRunId b, rb_planStepId b)"

definition store_repo_binding :: "(string \<Rightarrow> string) \<Rightarrow> s3_env \<Rightarrow> js \<Rightarrow> (s3_state, repo_binding) act" where
  "store_repo_binding sha env input =
    (let i = boundedId3 sha ''repobinding'' [field input ''workspaceId'', field input ''repositoryRegistrationId'', field input ''planStepId''] in
     bindS (liftS (createRepositoryBinding (en_clock env) (JObj [(''id'', JStr i), (''workspaceId'', field input ''workspaceId''),
       (''repositoryRegistrationId'', field input ''repositoryRegistrationId''), (''planStepId'', field input ''planStepId''),
       (''createdAt'', JStr (en_clock env))]))) (\<lambda>candidate.
     bindS (readS (\<lambda>s. mget (s3_repoBindings s) i)) (\<lambda>existing. case existing of
         Some e \<Rightarrow> if repo_binding_fields e \<noteq> repo_binding_fields candidate
                    then throwS (Error (''RepositoryBinding idempotency collision: '' @ i)) else returnS e
       | None \<Rightarrow>
           bindS (modifyS (\<lambda>s. s\<lparr>s3_repoBindings := mset_at i candidate (s3_repoBindings s)\<rparr>)) (\<lambda>_.
           bindS (appendS3Event \<lparr>ap_workspaceId = rb_workspaceId candidate, ap_type = ''github.repository_bound'',
             ap_aggregateType = ''repositoryBinding'', ap_aggregateId = rb_id candidate,
             ap_idempotencyKey = ''github.repository_bound:'' @ rb_id candidate,
             ap_payload = JObj [(''repositoryBindingId'', JStr (rb_id candidate)),
               (''repositoryRegistrationId'', JStr (rb_repositoryRegistrationId candidate)), (''planStepId'', js_opt (rb_planStepId candidate))]\<rparr>) (\<lambda>_.
           returnS candidate)))))"

definition bindPullRequestBase :: "(string \<Rightarrow> string) \<Rightarrow> s3_env \<Rightarrow> js \<Rightarrow> (s3_state, pr_binding \<times> delivery_gate) act" where
  "bindPullRequestBase sha env input =
    bindS (liftS (fieldE input ''repositoryRegistrationId'')) (\<lambda>rid.
    bindS (readS s3_registrations) (\<lambda>regs.
    bindS (liftS (requireWorkspaceRecord rr_workspaceId regs rid (field input ''workspaceId'') ''RepositoryRegistration'')) (\<lambda>registration.
    if rr_status registration \<noteq> ''active'' then throwS (Error ''RepositoryRegistration is not active'')
    else if truthy (field input ''planStepId'') \<and> \<not> en_planStep env (field input ''workspaceId'') (field input ''planStepId'')
      then throwS (Error ''Bound S2 PlanStep was not found in Workspace'')
    else
      let i = or_js (field input ''id'') (JStr (boundedId3 sha ''githubpr'' [JStr (rr_id registration), field input ''number'', field input ''expectedHeadSha''])) in
      bindS (liftS (createPullRequestBinding sha (en_clock env) (with_fields input [(''id'', i), (''createdAt'', JStr (en_clock env))]))) (\<lambda>candidate.
      bindS (liftS (assertRepositoryWorkspace (field input ''workspaceId'') [Some (rr_workspaceId registration), Some (pb_workspaceId candidate)])) (\<lambda>_.
      bindS (store_binding sha registration candidate) (\<lambda>binding.
      bindS (store_gate sha input binding) (\<lambda>gate. returnS (binding, gate))))))))"

definition bindPullRequest :: "(string \<Rightarrow> string) \<Rightarrow> s3_env \<Rightarrow> js \<Rightarrow> (s3_state, pr_binding \<times> delivery_gate \<times> repo_binding option) act" where
  "bindPullRequest sha env input =
    bindS (bindPullRequestBase sha env input) (\<lambda>(binding, gate).
    if \<not> truthy (field input ''planStepId'') then returnS (binding, gate, None)
    else bindS (store_repo_binding sha env input) (\<lambda>rb. returnS (binding, gate, Some rb)))"

definition addMergeOrderConstraint :: "(string \<Rightarrow> string) \<Rightarrow> s3_env \<Rightarrow> js \<Rightarrow> (s3_state, merge_constraint) act" where
  "addMergeOrderConstraint sha env input =
    bindS (liftS (fieldE input ''predecessorPullRequestBindingId'')) (\<lambda>pid.
    bindS (readS s3_bindings) (\<lambda>bs.
    bindS (liftS (requireWorkspaceRecord pb_workspaceId bs pid (field input ''workspaceId'') ''Predecessor PullRequestBinding'')) (\<lambda>predecessor.
    bindS (liftS (requireWorkspaceRecord pb_workspaceId bs (field input ''successorPullRequestBindingId'') (field input ''workspaceId'')
       ''Successor PullRequestBinding'')) (\<lambda>successor.
    if pb_repositoryRegistrationId predecessor \<noteq> pb_repositoryRegistrationId successor
    then throwS (Error ''Merge-order bindings must use the same registered repository'')
    else
      let i = or_js (field input ''id'') (JStr (boundedId3 sha ''mergeorder'' [JStr (pb_id predecessor), JStr (pb_id successor)])) in
      bindS (liftS (createMergeOrderConstraint (en_clock env) (JObj [(''id'', i), (''workspaceId'', field input ''workspaceId''),
          (''repositoryRegistrationId'', JStr (pb_repositoryRegistrationId predecessor)),
          (''predecessorPullRequestBindingId'', JStr (pb_id predecessor)), (''successorPullRequestBindingId'', JStr (pb_id successor)),
          (''createdAt'', JStr (en_clock env))]))) (\<lambda>candidate.
      bindS (readS s3_constraints) (\<lambda>cs. case mget cs (mc_id candidate) of
          Some existing \<Rightarrow> returnS existing
        | None \<Rightarrow>
            bindS (liftS (assertMergeOrderAcyclic (mvalues cs @ [candidate]))) (\<lambda>_.
            bindS (modifyS (\<lambda>s. s\<lparr>s3_constraints := mset_at (mc_id candidate) candidate (s3_constraints s)\<rparr>)) (\<lambda>_.
            bindS (appendS3Event \<lparr>ap_workspaceId = mc_workspaceId candidate, ap_type = ''github.merge_order_created'',
              ap_aggregateType = ''mergeOrderConstraint'', ap_aggregateId = mc_id candidate,
              ap_idempotencyKey = ''github.merge_order_created:'' @ mc_id candidate,
              ap_payload = JObj [(''constraintId'', JStr (mc_id candidate)), (''predecessorPullRequestBindingId'', JStr (pb_id predecessor)),
                (''successorPullRequestBindingId'', JStr (pb_id successor))]\<rparr>) (\<lambda>_.
            returnS candidate)))))))))"


definition declareMissionDeliveryDependency ::
  "(string \<Rightarrow> string) \<Rightarrow> (js \<Rightarrow> (string \<times> string \<times> js) option) \<Rightarrow> (js \<Rightarrow> (string \<times> string \<times> string) option) \<Rightarrow> (string \<Rightarrow> bool) \<Rightarrow>
    s3_env \<Rightarrow> js \<Rightarrow> (s3_state, delivery_dependency) act" where
  "declareMissionDeliveryDependency sha mission revision has_run env input =
    bindS (liftS (fieldE input ''pullRequestBindingId'')) (\<lambda>pid.
    bindS (readS s3_bindings) (\<lambda>bs.
    bindS (liftS (requireWorkspaceRecord pb_workspaceId bs pid (field input ''workspaceId'') ''PullRequestBinding'')) (\<lambda>binding.
    case mission (field input ''missionId'') of
      None \<Rightarrow> throwS (Error (''Mission not found: '' @ to_string (field input ''missionId'')))
    | Some (mid, mws, current) \<Rightarrow>
        (case revision (or_js (field input ''revisionId'') current) of
          None \<Rightarrow> throwS (Error (''MissionRevision not found: '' @ to_string (or_js (field input ''revisionId'') current)))
        | Some (rid, rws, rmission) \<Rightarrow>
            if JStr mws \<noteq> field input ''workspaceId'' \<or> JStr rws \<noteq> field input ''workspaceId'' \<or> rmission \<noteq> mid
            then throwS (Error ''Cross-Workspace or mismatched Mission delivery dependency denied'')
            else
              bindS (liftS (assertSafeIdentifier (or_js (field input ''runId'') (JStr (boundedId3 sha ''deliveryrun'' [JStr (pb_id binding), JStr rid])))
                 ''delivery dependency run id'')) (\<lambda>runId.
              case or_js (field input ''id'') (JStr (boundedId3 sha ''deliverydep'' [JStr (pb_id binding), JStr rid, JStr runId])) of
                JStr i \<Rightarrow>
                  (let candidate = \<lparr>dd_id = i, dd_workspaceId = pb_workspaceId binding, dd_pullRequestBindingId = pb_id binding, dd_missionId = mid,
                      dd_revisionId = rid, dd_runId = runId, dd_state = ''waiting'', dd_evidenceId = None, dd_missionRunId = None\<rparr> in
                   bindS (readS (\<lambda>s. mget (s3_dependencies s) i)) (\<lambda>existing. case existing of
                       Some e \<Rightarrow>
                         if (dd_workspaceId e, dd_pullRequestBindingId e, dd_missionId e, dd_revisionId e, dd_runId e) \<noteq>
                            (dd_workspaceId candidate, dd_pullRequestBindingId candidate, mid, rid, runId)
                         then throwS (Error (''DeliveryDependency idempotency collision: '' @ i)) else returnS e
                     | None \<Rightarrow>
                         if has_run runId
                         then throwS (Error ''Delivery-dependent Mission run already exists; dependency must be declared before execution'')
                         else bindS (modifyS (\<lambda>s. s\<lparr>s3_dependencies := mset_at i candidate (s3_dependencies s)\<rparr>)) (\<lambda>_. returnS candidate)))
              | _ \<Rightarrow> throwS (TypeError ''event.aggregateId is required''))))))"

subsection \<open>Taking in an observation\<close>

text \<open>
  \<open>observeDelivery\<close> reads its records, waits for the four answers of the adapter and finishes
  in one go: \<open>observe_begin\<close> and \<open>observe_finish\<close>, between which other calls may run.
\<close>

record answers =
  an_snapshot :: pr_snapshot
  an_digest :: string
  an_checks :: checks_obs
  an_reviews :: review_obs
  an_base :: base_obs
  an_baseDigest :: string

record observing =
  ob_binding :: pr_binding
  ob_registration :: repo_registration
  ob_gate :: delivery_gate
  ob_before :: "string option"

definition find_gate :: "s3_state \<Rightarrow> js \<Rightarrow> js \<Rightarrow> delivery_gate option" where
  "find_gate s w b = find (\<lambda>g. JStr (dg_workspaceId g) = w \<and> JStr (gt_pullRequestBindingId g) = b) (mvalues (s3_gates s))"

definition observe_begin :: "js \<Rightarrow> s3_state \<Rightarrow> observing res" where
  "observe_begin input s =
    bindE (fieldE input ''pullRequestBindingId'') (\<lambda>pid.
    bindE (requireWorkspaceRecord pb_workspaceId (s3_bindings s) pid (field input ''workspaceId'') ''PullRequestBinding'') (\<lambda>binding.
    bindE (requireWorkspaceRecord rr_workspaceId (s3_registrations s) (JStr (pb_repositoryRegistrationId binding)) (field input ''workspaceId'')
        ''RepositoryRegistration'') (\<lambda>registration.
    case find_gate s (field input ''workspaceId'') (JStr (pb_id binding)) of
      None \<Rightarrow> Inl (Error ''DeliveryGate not found for PullRequestBinding'')
    | Some gate \<Rightarrow> Inr \<lparr>ob_binding = binding, ob_registration = registration, ob_gate = gate,
        ob_before = (case find_gate s (field input ''workspaceId'') pid of None \<Rightarrow> None | Some g \<Rightarrow> gt_evaluationDigest g)\<rparr>)))"

definition answered :: "answers \<Rightarrow> bool" where
  "answered a = truthy (js_opt (ps_headSha (an_snapshot a)))"

definition answered_base :: "answers \<Rightarrow> bool" where
  "answered_base a = (truthy (js_opt (ps_baseSha (an_snapshot a))) \<and> answered a)"

definition base_of :: "answers \<Rightarrow> base_obs option" where
  "base_of a = (if answered_base a then Some (an_base a) else None)"

text \<open>\<open>persistObservation\<close>: a record with the digest of the stored one is not written again.\<close>

definition same_record :: "('r \<Rightarrow> string) \<Rightarrow> string \<Rightarrow> 'r option \<Rightarrow> 'r option" where
  "same_record dig d existing = (case existing of None \<Rightarrow> None | Some e \<Rightarrow> if dig e = d then Some e else None)"

definition persist_snapshot :: "(string \<Rightarrow> string) \<Rightarrow> pr_binding \<Rightarrow> answers \<Rightarrow> (s3_state, observed_pr) act" where
  "persist_snapshot sha b a =
    (let i = boundedId3 sha ''prsnapshot'' [JStr (pb_id b)];
         d = digest sha (JObj [(''pullRequest'', JStr (an_digest a)), (''base'', if answered_base a then or_js (JStr (an_baseDigest a)) JNull else JNull)]);
         rec = \<lparr>op_id = i, op_workspaceId = pb_workspaceId b, op_pullRequestBindingId = pb_id b, op_snapshot = an_snapshot a, op_base = base_of a, op_digest = d\<rparr>
     in bindS (readS (\<lambda>s. same_record op_digest d (mget (s3_snapshots s) i))) (\<lambda>same. case same of
          Some e \<Rightarrow> returnS e
        | None \<Rightarrow>
            bindS (modifyS (\<lambda>s. s\<lparr>s3_snapshots := mset_at i rec (s3_snapshots s)\<rparr>)) (\<lambda>_.
            bindS (appendS3Event \<lparr>ap_workspaceId = pb_workspaceId b, ap_type = ''github.pull_request_observed'',
              ap_aggregateType = ''pullRequestBinding'', ap_aggregateId = pb_id b,
              ap_idempotencyKey = ''github.pull_request_observed:'' @ pb_id b @ '':'' @ d,
              ap_payload = JObj [(''pullRequestBindingId'', JStr (pb_id b)), (''headSha'', js_opt (ps_headSha (an_snapshot a))),
                (''baseSha'', js_opt (ps_baseSha (an_snapshot a))), (''digest'', JStr d)]\<rparr>) (\<lambda>_. returnS rec))))"

definition persist_checks :: "(string \<Rightarrow> string) \<Rightarrow> pr_binding \<Rightarrow> checks_obs \<Rightarrow> (s3_state, checks_obs) act" where
  "persist_checks sha b c =
    (let i = boundedId3 sha ''checkobs'' [JStr (pb_id b)] in
     bindS (readS (\<lambda>s. same_record co_digest (co_digest c) (mget (s3_checks s) i))) (\<lambda>same. case same of
          Some e \<Rightarrow> returnS e
        | None \<Rightarrow>
            bindS (modifyS (\<lambda>s. s\<lparr>s3_checks := mset_at i c (s3_checks s)\<rparr>)) (\<lambda>_.
            bindS (appendS3Event \<lparr>ap_workspaceId = pb_workspaceId b, ap_type = ''github.checks_observed'',
              ap_aggregateType = ''pullRequestBinding'', ap_aggregateId = pb_id b,
              ap_idempotencyKey = ''github.checks_observed:'' @ pb_id b @ '':'' @ co_digest c,
              ap_payload = JObj [(''pullRequestBindingId'', JStr (pb_id b)), (''headSha'', JStr (co_headSha c)), (''digest'', JStr (co_digest c)),
                (''checkCount'', JNum (int (length (co_checks c))))]\<rparr>) (\<lambda>_. returnS c))))"

definition persist_reviews :: "(string \<Rightarrow> string) \<Rightarrow> pr_binding \<Rightarrow> review_obs \<Rightarrow> (s3_state, review_obs) act" where
  "persist_reviews sha b r =
    (let i = boundedId3 sha ''reviewobs'' [JStr (pb_id b)] in
     bindS (readS (\<lambda>s. same_record ro_digest (ro_digest r) (mget (s3_reviews s) i))) (\<lambda>same. case same of
          Some e \<Rightarrow> returnS e
        | None \<Rightarrow>
            bindS (modifyS (\<lambda>s. s\<lparr>s3_reviews := mset_at i r (s3_reviews s)\<rparr>)) (\<lambda>_.
            bindS (appendS3Event \<lparr>ap_workspaceId = pb_workspaceId b, ap_type = ''github.review_threads_observed'',
              ap_aggregateType = ''pullRequestBinding'', ap_aggregateId = pb_id b,
              ap_idempotencyKey = ''github.review_threads_observed:'' @ pb_id b @ '':'' @ ro_digest r,
              ap_payload = JObj [(''pullRequestBindingId'', JStr (pb_id b)), (''headSha'', JStr (ro_headSha r)), (''digest'', JStr (ro_digest r)),
                (''threadCount'', JNum (int (length (ro_threads r)))), (''resolutionAvailable'', JBool (ro_resolutionAvailable r))]\<rparr>) (\<lambda>_. returnS r))))"

definition ownershipConflicts :: "s3_state \<Rightarrow> string \<Rightarrow> string \<Rightarrow> ownership_conflict list" where
  "ownershipConflicts s w r = findOwnershipConflicts
     (filter (\<lambda>x. br_workspaceId x = w \<and> br_repositoryRegistrationId x = r) (mvalues (s3_reservations s)))
     (filter (\<lambda>x. pt_workspaceId x = w \<and> pt_repositoryRegistrationId x = r) (mvalues (s3_claims s)))"

definition gate_input :: "s3_state \<Rightarrow> observing \<Rightarrow> observed_pr \<Rightarrow> checks_obs option \<Rightarrow> review_obs option \<Rightarrow> base_obs option \<Rightarrow> delivery_input" where
  "gate_input s ob sn c r b = (let w = pb_workspaceId (ob_binding ob) in
     \<lparr>di_registration = Some (ob_registration ob), di_binding = Some (ob_binding ob), di_snapshot = Some (op_snapshot sn),
      di_gate = Some (gate_rules.truncate (ob_gate ob)),
      di_conflicts = (if gt_requireOwnershipClear (ob_gate ob) then ownershipConflicts s w (rr_id (ob_registration ob)) else []),
      di_checks = c, di_reviews = r, di_base = b,
      di_constraints = filter (\<lambda>x. mc_workspaceId x = w) (mvalues (s3_constraints s)),
      di_evidence = filter (\<lambda>x. ve_workspaceId x = w) (mvalues (s3_evidence s))\<rparr>)"

definition blocker_js :: "blocker \<Rightarrow> js" where
  "blocker_js b = JObj [(''code'', JStr (bk_code b)), (''detail'', bk_detail b)]"

definition evaluation_digest :: "(string \<Rightarrow> string) \<Rightarrow> gate_result \<Rightarrow> string" where
  "evaluation_digest sha g = digest sha (JObj [(''state'', JStr (gr_state g)), (''blockers'', JArr (map blocker_js (gr_blockers g))),
     (''evaluatedHeadSha'', gr_evaluatedHeadSha g), (''evaluatedBaseSha'', gr_evaluatedBaseSha g)])"

definition store_evaluation :: "(string \<Rightarrow> string) \<Rightarrow> s3_env \<Rightarrow> delivery_gate \<Rightarrow> gate_result \<Rightarrow> (s3_state, delivery_gate) act" where
  "store_evaluation sha env gate result =
    (let d = evaluation_digest sha result;
         next = gate\<lparr>gt_state := gr_state result, gt_blockers := gr_blockers result, gt_evaluatedHeadSha := gr_evaluatedHeadSha result,
           gt_evaluatedBaseSha := gr_evaluatedBaseSha result, gt_evaluationDigest := Some d, gt_lastEvaluatedAt := JStr (en_clock env)\<rparr>
     in if gt_evaluationDigest gate = Some d then returnS gate
        else
          bindS (modifyS (\<lambda>s. s\<lparr>s3_gates := mset_at (gt_id gate) next (s3_gates s)\<rparr>)) (\<lambda>_.
          bindS (appendS3Event \<lparr>ap_workspaceId = dg_workspaceId gate, ap_type = ''github.delivery_gate_evaluated'',
            ap_aggregateType = ''deliveryGate'', ap_aggregateId = gt_id gate,
            ap_idempotencyKey = ''github.delivery_gate_evaluated:'' @ gt_id gate @ '':'' @ d,
            ap_payload = JObj [(''gateId'', JStr (gt_id gate)), (''state'', JStr (gr_state result)),
              (''blockerCodes'', js_strs (map bk_code (gr_blockers result))), (''headSha'', gr_evaluatedHeadSha result)]\<rparr>) (\<lambda>_.
          returnS next)))"

definition storeDeliveryEvidence :: "s3_env \<Rightarrow> js \<Rightarrow> string \<Rightarrow> (s3_state, delivery_evidence) act" where
  "storeDeliveryEvidence env derived gateId =
    bindS (readS (\<lambda>s. get_js (s3_evidence s) (field derived ''id''))) (\<lambda>existing. case existing of
        Some e \<Rightarrow> returnS e
      | None \<Rightarrow>
          bindS (liftS (createDeliveryEvidence (en_clock env) (with_fields derived [(''payload'', JObj [(''gateId'', JStr gateId),
            (''provider'', JStr ''github''), (''providerMode'', JStr ''read_only'')])]))) (\<lambda>rec.
          bindS (modifyS (\<lambda>s. s\<lparr>s3_evidence := mset_at (ve_id rec) rec (s3_evidence s)\<rparr>)) (\<lambda>_.
          bindS (appendS3Event \<lparr>ap_workspaceId = ve_workspaceId rec, ap_type = ''github.delivery_evidence_recorded'',
            ap_aggregateType = ''deliveryEvidence'', ap_aggregateId = ve_id rec,
            ap_idempotencyKey = ''github.delivery_evidence_recorded:'' @ ve_id rec,
            ap_payload = JObj [(''evidenceId'', JStr (ve_id rec)), (''pullRequestBindingId'', JStr (ve_pullRequestBindingId rec)),
              (''kind'', JStr (ve_kind rec)), (''headSha'', JStr (ve_headSha rec)), (''mergeCommitSha'', js_opt (ve_mergeCommitSha rec))]\<rparr>) (\<lambda>_.
          returnS rec))))"

text \<open>\<open>start d\<close> is what starting the mission of a dependency answers: the id of its run.\<close>

fun release_each :: "(delivery_dependency \<Rightarrow> string res) \<Rightarrow> delivery_evidence \<Rightarrow> delivery_dependency list \<Rightarrow> (s3_state, delivery_dependency list) act" where
  "release_each start evidence [] = returnS []"
| "release_each start evidence (d # ds) =
     bindS (liftS (start d)) (\<lambda>run.
     let stored = d\<lparr>dd_state := ''released'', dd_evidenceId := Some (ve_id evidence), dd_missionRunId := Some run\<rparr> in
     bindS (modifyS (\<lambda>s. s\<lparr>s3_dependencies := mset_at (dd_id d) stored (s3_dependencies s)\<rparr>)) (\<lambda>_.
     bindS (appendS3Event \<lparr>ap_workspaceId = dd_workspaceId d, ap_type = ''github.delivery_dependency_released'',
       ap_aggregateType = ''deliveryDependency'', ap_aggregateId = dd_id d,
       ap_idempotencyKey = ''github.delivery_dependency_released:'' @ dd_id d @ '':'' @ ve_id evidence,
       ap_payload = JObj [(''dependencyId'', JStr (dd_id d)), (''evidenceId'', JStr (ve_id evidence)), (''missionRunId'', JStr run)]\<rparr>) (\<lambda>_.
     bindS (release_each start evidence ds) (\<lambda>r. returnS (stored # r)))))"

definition releaseDeliveryDependencies ::
  "(delivery_dependency \<Rightarrow> string res) \<Rightarrow> pr_binding \<Rightarrow> delivery_evidence \<Rightarrow> (s3_state, delivery_dependency list) act" where
  "releaseDeliveryDependencies start binding evidence =
    (if ve_kind evidence \<noteq> ''merge_observed'' then returnS []
     else bindS (readS (\<lambda>s. filter (\<lambda>d. dd_workspaceId d = pb_workspaceId binding \<and> dd_pullRequestBindingId d = pb_id binding \<and>
            dd_state d = ''waiting'') (mvalues (s3_dependencies s)))) (\<lambda>ds. release_each start evidence ds))"


definition merged_binding :: "s3_env \<Rightarrow> pr_binding \<Rightarrow> (s3_state, unit) act" where
  "merged_binding env b =
    bindS (readS (\<lambda>s. mget (s3_bindings s) (pb_id b))) (\<lambda>current. case current of
        None \<Rightarrow> throwS (TypeError ''Cannot read properties of null: state'')
      | Some c \<Rightarrow>
          if pb_state c \<noteq> ''active'' then returnS ()
          else bindS (liftS (supersedePullRequestBinding (Some c) (JStr (en_clock env)) (JStr ''merged''))) (\<lambda>m.
               modifyS (\<lambda>s. s\<lparr>s3_bindings := mset_at (pb_id b) m (s3_bindings s)\<rparr>)))"

definition satisfied_gate :: "delivery_gate \<Rightarrow> delivery_evidence \<Rightarrow> (s3_state, delivery_gate) act" where
  "satisfied_gate gate evidence =
    (if gt_state gate = ''satisfied'' then returnS gate
     else let next = gate\<lparr>gt_state := ''satisfied'', gt_satisfiedEvidenceId := JStr (ve_id evidence)\<rparr> in
       bindS (modifyS (\<lambda>s. s\<lparr>s3_gates := mset_at (gt_id gate) next (s3_gates s)\<rparr>)) (\<lambda>_. returnS next))"

definition settle ::
  "(string \<Rightarrow> string) \<Rightarrow> (delivery_dependency \<Rightarrow> string res) \<Rightarrow> s3_env \<Rightarrow> string \<Rightarrow> observing \<Rightarrow> pr_snapshot \<Rightarrow> pr_snapshot \<Rightarrow>
    checks_obs option \<Rightarrow> review_obs option \<Rightarrow> delivery_gate \<Rightarrow> (s3_state, delivery_gate \<times> delivery_evidence option) act" where
  "settle sha start env w ob fresh stored c r gate =
    (let b = ob_binding ob; merge = ps_mergeCommitSha fresh in
     if ps_merged fresh \<and> truthy (js_opt merge) then
       bindS (liftS (createMergeObservedEvidence sha (boundedId3 sha ''deliverymerge'' [JStr (pb_id b), js_opt merge]) w (Some b) (Some stored)
           c r (en_clock env))) (\<lambda>derived.
       bindS (storeDeliveryEvidence env derived (gt_id (ob_gate ob))) (\<lambda>evidence.
       bindS (merged_binding env b) (\<lambda>_.
       bindS (satisfied_gate gate evidence) (\<lambda>gate'.
       bindS (releaseDeliveryDependencies start b evidence) (\<lambda>_. returnS (gate', Some evidence))))))
     else
       bindS (liftS (createExactHeadReadyEvidence sha (boundedId3 sha ''deliveryready'' [JStr (pb_id b), js_opt (ps_headSha fresh)]) w (Some b) (Some stored)
           c r (en_clock env))) (\<lambda>derived.
       bindS (storeDeliveryEvidence env derived (gt_id (ob_gate ob))) (\<lambda>evidence. returnS (gate, Some evidence))))"

text \<open>The override reports a changed evaluation once more, under a name of its own.\<close>

definition gate_changed :: "string option \<Rightarrow> delivery_gate \<Rightarrow> (s3_state, unit) act" where
  "gate_changed before gate = (case gt_evaluationDigest gate of
      None \<Rightarrow> returnS ()
    | Some d \<Rightarrow>
        if d = [] \<or> before = Some d then returnS ()
        else appendS3Event \<lparr>ap_workspaceId = dg_workspaceId gate, ap_type = ''github.delivery_gate_changed'',
          ap_aggregateType = ''deliveryGate'', ap_aggregateId = gt_id gate,
          ap_idempotencyKey = ''github.delivery_gate_changed:'' @ gt_id gate @ '':'' @ d,
          ap_payload = JObj [(''gateId'', JStr (gt_id gate)), (''state'', JStr (gt_state gate)),
            (''blockerCodes'', js_strs (map bk_code (gt_blockers gate))), (''evaluatedHeadSha'', gt_evaluatedHeadSha gate),
            (''evaluatedBaseSha'', gt_evaluatedBaseSha gate), (''evaluationDigest'', JStr d)]\<rparr>)"

definition observe_finish ::
  "(string \<Rightarrow> string) \<Rightarrow> (delivery_dependency \<Rightarrow> string res) \<Rightarrow> s3_env \<Rightarrow> observing \<Rightarrow> answers \<Rightarrow>
    (s3_state, delivery_gate \<times> delivery_evidence option) act" where
  "observe_finish sha start env ob a =
    (let b = ob_binding ob; fresh = an_snapshot a in
     bindS (persist_snapshot sha b a) (\<lambda>sn.
     bindS (if answered a then bindS (persist_checks sha b (an_checks a)) (\<lambda>c. returnS (Some c)) else returnS None) (\<lambda>c.
     bindS (if answered a then bindS (persist_reviews sha b (an_reviews a)) (\<lambda>r. returnS (Some r)) else returnS None) (\<lambda>r.
     bindS (readS (\<lambda>s. evaluateDeliveryGate (gate_input s ob sn c r (base_of a)))) (\<lambda>result.
     bindS (store_evaluation sha env (ob_gate ob) result) (\<lambda>gate.
     bindS (if gr_state result = ''ready'' \<and> answered_base a
            then settle sha start env (pb_workspaceId b) ob fresh (op_snapshot sn) c r gate else returnS (gate, None)) (\<lambda>(gate', evidence).
     bindS (gate_changed (ob_before ob) gate') (\<lambda>_. returnS (gate', evidence)))))))))"

definition observeDelivery ::
  "(string \<Rightarrow> string) \<Rightarrow> (delivery_dependency \<Rightarrow> string res) \<Rightarrow> s3_env \<Rightarrow> js \<Rightarrow> answers \<Rightarrow>
    (s3_state, delivery_gate \<times> delivery_evidence option) act" where
  "observeDelivery sha start env input a s = (case observe_begin input s of
      Inl e \<Rightarrow> (s, Inl e) | Inr ob \<Rightarrow> observe_finish sha start env ob a s)"

definition createRepairProposal3 :: "(string \<Rightarrow> string) \<Rightarrow> s3_env \<Rightarrow> js \<Rightarrow> (s3_state, repair_proposal) act" where
  "createRepairProposal3 sha env input =
    bindS (liftS (fieldE input ''pullRequestBindingId'')) (\<lambda>pid.
    bindS (readS s3_bindings) (\<lambda>bs.
    bindS (liftS (requireWorkspaceRecord pb_workspaceId bs pid (field input ''workspaceId'') ''PullRequestBinding'')) (\<lambda>binding.
    bindS (readS (\<lambda>s. find_gate s (field input ''workspaceId'') (JStr (pb_id binding)))) (\<lambda>gate.
    case gate of
      None \<Rightarrow> throwS (Error ''RepairProposal requires a blocked/stale DeliveryGate'')
    | Some g \<Rightarrow> (case gt_blockers g of
        [] \<Rightarrow> throwS (Error ''RepairProposal requires a blocked/stale DeliveryGate'')
      | primary # rest \<Rightarrow>
          let i = or_js (field input ''id'') (JStr (boundedId3 sha ''repairproposal'' [JStr (pb_id binding),
                or_js (js_opt (gt_evaluationDigest g)) (JStr (bk_code primary))])) in
          bindS (readS (\<lambda>s. get_js (s3_repairs s) i)) (\<lambda>existing. case existing of
              Some e \<Rightarrow> returnS e
            | None \<Rightarrow>
                bindS (liftS (bindE (proposeRepair (to_string i) (pb_workspaceId binding) binding (primary # rest)) (\<lambda>proposed.
                  createRepairProposal (en_clock env) (with_fields proposed [(''id'', i), (''createdAt'', JStr (en_clock env))])))) (\<lambda>rec.
                bindS (modifyS (\<lambda>s. s\<lparr>s3_repairs := mset_at (rp_id rec) rec (s3_repairs s)\<rparr>)) (\<lambda>_.
                bindS (appendS3Event \<lparr>ap_workspaceId = rp_workspaceId rec, ap_type = ''github.repair_proposed'',
                  ap_aggregateType = ''repairProposal'', ap_aggregateId = rp_id rec,
                  ap_idempotencyKey = ''github.repair_proposed:'' @ rp_id rec,
                  ap_payload = JObj [(''repairProposalId'', JStr (rp_id rec)), (''pullRequestBindingId'', JStr (rp_pullRequestBindingId rec)),
                    (''reasonCode'', JStr (rp_reasonCode rec))]\<rparr>) (\<lambda>_. returnS rec)))))))))"

end
