(* ===== verification/ActRules.thy ===== *)
theory ActRules
  imports Prelude
begin

text \<open>
  Introduction rules for what a stateful operation keeps: \<open>keeps P m\<close> from every state,
  \<open>keeps_at P s m\<close> from the state \<open>s\<close>.  A relation to the first state is kept as the
  predicate \<open>R s0\<close>.
\<close>

subsection \<open>Keeping a predicate, from a given state\<close>

definition keeps_at :: "('s \<Rightarrow> bool) \<Rightarrow> 's \<Rightarrow> ('s, 'a) act \<Rightarrow> bool" where
  "keeps_at P s m \<longleftrightarrow> (P s \<longrightarrow> P (fst (m s)))"

lemma keeps_atI: "keeps P m \<Longrightarrow> keeps_at P s m"
  by (simp add: keeps_def keeps_at_def)

lemma keeps_by_at: "(\<And>s. keeps_at P s m) \<Longrightarrow> keeps P m"
  by (simp add: keeps_def keeps_at_def)

lemma at_lift: "(\<And>x. r = Inr x \<Longrightarrow> keeps_at P s (f x)) \<Longrightarrow> keeps_at P s (bindS (liftS r) f)"
  by (cases r) (simp_all add: keeps_at_def)

lemma at_read: "keeps_at P s (f (h s)) \<Longrightarrow> keeps_at P s (bindS (readS h) f)"
  by (simp add: keeps_at_def)

lemma at_modify: "(P s \<Longrightarrow> P (g s)) \<Longrightarrow> (\<And>x. keeps P (f x)) \<Longrightarrow> keeps_at P s (bindS (modifyS g) f)"
  by (simp add: keeps_at_def keeps_def)

lemma at_bind: "keeps_at P s m \<Longrightarrow> (\<And>x. keeps P (f x)) \<Longrightarrow> keeps_at P s (bindS m f)"
  by (auto simp: keeps_at_def keeps_def bindS_def split: prod.splits sum.splits)

lemma at_if: "(c \<Longrightarrow> keeps_at P s a) \<Longrightarrow> (\<not> c \<Longrightarrow> keeps_at P s b) \<Longrightarrow> keeps_at P s (if c then a else b)"
  by simp

lemma at_option: "(x = None \<Longrightarrow> keeps_at P s f) \<Longrightarrow> (\<And>y. x = Some y \<Longrightarrow> keeps_at P s (g y)) \<Longrightarrow>
   keeps_at P s (case x of None \<Rightarrow> f | Some y \<Rightarrow> g y)"
  by (cases x) auto

lemma at_end: "keeps_at P s (returnS x)" "keeps_at P s (throwS e)" "keeps_at P s (liftS r)"
  by (simp_all add: keeps_at_def)

lemmas at_intros = at_lift at_read at_if at_option at_end

lemma keeps_if: "keeps P a \<Longrightarrow> keeps P b \<Longrightarrow> keeps P (if c then a else b)"
  by simp

lemma keeps_option: "keeps P f \<Longrightarrow> (\<And>y. keeps P (g y)) \<Longrightarrow> keeps P (case x of None \<Rightarrow> f | Some y \<Rightarrow> g y)"
  by (cases x) auto

lemma keeps_list: "keeps P f \<Longrightarrow> (\<And>y ys. keeps P (g y ys)) \<Longrightarrow> keeps P (case x of [] \<Rightarrow> f | y # ys \<Rightarrow> g y ys)"
  by (cases x) auto

lemma keeps_pair: "(\<And>a b. keeps P (f a b)) \<Longrightarrow> keeps P (case x of (a, b) \<Rightarrow> f a b)"
  by (cases x) auto

lemmas keeps_intros = keeps_bindS keeps_if keeps_option keeps_list keeps_pair keeps_trivial

end
