(* ===== verification/GithubSafety.thy ===== *)
theory GithubSafety
  imports GithubService ActRules "HOL-Library.Sublist"
begin

text \<open>
  What the GitHub service keeps over any sequence of its calls, interleaved at the one await:
  no two active exclusive owners of overlapping branches or paths, an acyclic merge order,
  evidence only for the bound head through an open gate.
\<close>

lemma keeps_event:
  assumes "\<And>s evs. P s \<Longrightarrow> P (s\<lparr>s3_events := evs\<rparr>)"
  shows "keeps P (appendS3Event e)"
  using assms by (auto simp: keeps_def appendS3Event_def split: option.splits)


subsection \<open>Ownership and order\<close>

definition ownership_ok :: "s3_state \<Rightarrow> bool" where
  "ownership_ok s \<longleftrightarrow>
    (\<forall>k r. mget (s3_reservations s) k = Some r \<longrightarrow> br_id r = k) \<and> distinct (map fst (s3_reservations s)) \<and>
    (\<forall>a \<in> set (mvalues (s3_reservations s)). \<forall>b \<in> set (mvalues (s3_reservations s)). \<not> branchReservationsConflict (Some a) (Some b)) \<and>
    (\<forall>k c. mget (s3_claims s) k = Some c \<longrightarrow> pt_id c = k) \<and> distinct (map fst (s3_claims s)) \<and>
    (\<forall>a \<in> set (mvalues (s3_claims s)). \<forall>b \<in> set (mvalues (s3_claims s)). \<not> pathClaimsConflict (Some a) (Some b)) \<and>
    acyclic (merge_rel (mvalues (s3_constraints s)))"

lemma ownership_ok_frame: "s3_reservations s' = s3_reservations s \<Longrightarrow> s3_claims s' = s3_claims s \<Longrightarrow> s3_constraints s' = s3_constraints s \<Longrightarrow>
   ownership_ok s \<Longrightarrow> ownership_ok s'"
  by (simp add: ownership_ok_def)

lemma ownership_event: "keeps ownership_ok (appendS3Event e)"
  by (rule keeps_event) (simp add: ownership_ok_def)

lemma no_new_branch_conflict:
  assumes "\<not> list_ex (\<lambda>c. oc_rightId c = br_id x \<or> oc_leftId c = br_id x) (findOwnershipConflicts (ys @ [x]) [])" "y \<in> set ys"
  shows "\<not> branchReservationsConflict (Some y) (Some x)"
proof
  assume c: "branchReservationsConflict (Some y) (Some x)"
  from assms(2) have "(y, x) \<in> set (index_pairs (ys @ [x]))" by (simp add: index_pairs_snoc)
  with c assms(1) show False by (force simp: findOwnershipConflicts_def list_ex_iff)
qed

lemma no_new_path_conflict:
  assumes "\<not> list_ex (\<lambda>c. oc_rightId c = pt_id x \<or> oc_leftId c = pt_id x) (findOwnershipConflicts [] (ys @ [x]))" "y \<in> set ys"
  shows "\<not> pathClaimsConflict (Some y) (Some x)"
proof
  assume c: "pathClaimsConflict (Some y) (Some x)"
  from assms(2) have "(y, x) \<in> set (index_pairs (ys @ [x]))" by (simp add: index_pairs_snoc)
  with c assms(1) show False by (force simp: findOwnershipConflicts_def list_ex_iff)
qed

lemma mvalues_new: "mget m k = None \<Longrightarrow> mvalues (mset_at k v m) = mvalues m @ [v]"
  by (simp add: mset_at_new mvalues_def)

lemma add_reservation:
  assumes "ownership_ok s" "mget (s3_reservations s) (br_id x) = None"
    "\<not> list_ex (\<lambda>c. oc_rightId c = br_id x \<or> oc_leftId c = br_id x) (findOwnershipConflicts (mvalues (s3_reservations s) @ [x]) [])"
  shows "ownership_ok (s\<lparr>s3_reservations := mset_at (br_id x) x (s3_reservations s)\<rparr>)"
  using assms no_new_branch_conflict[OF assms(3)] branchReservationsConflict_sym
  by (simp add: ownership_ok_def mvalues_new ball_Un)

lemma add_claim:
  assumes "ownership_ok s" "mget (s3_claims s) (pt_id x) = None"
    "\<not> list_ex (\<lambda>c. oc_rightId c = pt_id x \<or> oc_leftId c = pt_id x) (findOwnershipConflicts [] (mvalues (s3_claims s) @ [x]))"
  shows "ownership_ok (s\<lparr>s3_claims := mset_at (pt_id x) x (s3_claims s)\<rparr>)"
  using assms no_new_path_conflict[OF assms(3)] pathClaimsConflict_sym
  by (simp add: ownership_ok_def mvalues_new ball_Un)

lemma add_constraint:
  assumes "ownership_ok s" "mget (s3_constraints s) (mc_id x) = None" "assertMergeOrderAcyclic (mvalues (s3_constraints s) @ [x]) = Inr r"
  shows "ownership_ok (s\<lparr>s3_constraints := mset_at (mc_id x) x (s3_constraints s)\<rparr>)"
  using assms merge_order_acyclic_iff[of "mvalues (s3_constraints s) @ [x]"] merge_order_total[of "mvalues (s3_constraints s) @ [x]"]
  by (auto simp: ownership_ok_def mvalues_new)


lemma ownership_upd [simp]:
  "ownership_ok (s\<lparr>s3_registrations := a\<rparr>) = ownership_ok s" "ownership_ok (s\<lparr>s3_repoBindings := b\<rparr>) = ownership_ok s"
  "ownership_ok (s\<lparr>s3_bindings := c\<rparr>) = ownership_ok s" "ownership_ok (s\<lparr>s3_snapshots := d\<rparr>) = ownership_ok s"
  "ownership_ok (s\<lparr>s3_checks := e\<rparr>) = ownership_ok s" "ownership_ok (s\<lparr>s3_reviews := f\<rparr>) = ownership_ok s"
  "ownership_ok (s\<lparr>s3_gates := g\<rparr>) = ownership_ok s" "ownership_ok (s\<lparr>s3_evidence := h\<rparr>) = ownership_ok s"
  "ownership_ok (s\<lparr>s3_repairs := i\<rparr>) = ownership_ok s" "ownership_ok (s\<lparr>s3_dependencies := j\<rparr>) = ownership_ok s"
  by (simp_all add: ownership_ok_def)

lemmas own_intros = keeps_intros keeps_modifyS ownership_event

lemma keeps_js: "(\<And>x. keeps P (f x)) \<Longrightarrow> keeps P g \<Longrightarrow> keeps P (case v of JStr x \<Rightarrow> f x | _ \<Rightarrow> g)"
  by (cases v) auto

lemma register_ownership: "keeps ownership_ok (registerRepository sha env input)"
  unfolding registerRepository_def Let_def by (intro own_intros) simp_all

lemma bind_ownership: "keeps ownership_ok (bindPullRequest sha env input)"
  unfolding bindPullRequest_def bindPullRequestBase_def store_binding_def store_gate_def store_repo_binding_def Let_def
  by (intro own_intros keeps_js) simp_all

lemma repair_ownership: "keeps ownership_ok (createRepairProposal3 sha env input)"
  unfolding createRepairProposal3_def Let_def by (intro own_intros) simp_all

lemma declare_ownership: "keeps ownership_ok (declareMissionDeliveryDependency sha mission revision has_run env input)"
  unfolding declareMissionDeliveryDependency_def Let_def by (intro own_intros keeps_js) simp_all

lemma release_ownership: "keeps ownership_ok (release_each start ev ds)"
proof (induction ds)
  case (Cons d ds)
  then show ?case unfolding release_each.simps Let_def by (intro own_intros) simp_all
qed (simp only: release_each.simps keeps_trivial)

lemma observe_ownership: "keeps ownership_ok (observe_finish sha start env ob a)"
  unfolding observe_finish_def persist_snapshot_def persist_checks_def persist_reviews_def store_evaluation_def settle_def merged_binding_def
    satisfied_gate_def gate_changed_def storeDeliveryEvidence_def releaseDeliveryDependencies_def Let_def
  by (intro own_intros release_ownership) simp_all

lemma reserve_ownership: "keeps ownership_ok (reserveBranch sha env input)"
proof (rule keeps_by_at)
  fix s
  show "keeps_at ownership_ok s (reserveBranch sha env input)"
    unfolding reserveBranch_def Let_def
    by (intro at_intros) (auto intro!: at_modify own_intros add_reservation)
qed

lemma claim_ownership: "keeps ownership_ok (claimPath sha env input r g p)"
proof (rule keeps_by_at)
  fix s
  show "keeps_at ownership_ok s (claimPath sha env input r g p)"
    unfolding claimPath_def Let_def
    by (intro at_intros) (auto intro!: at_modify own_intros add_claim)
qed

lemma claims_ownership: "keeps ownership_ok (claimPaths sha env input)"
proof -
  have e: "keeps ownership_ok (claim_each (claimPath sha env input r g) ps)" for r g ps
  proof (induction ps)
    case (Cons p ps)
    then show ?case unfolding claim_each.simps by (intro own_intros claim_ownership)
  qed (simp only: claim_each.simps keeps_trivial)
  have "keeps ownership_ok (case v of JArr (p # ps) \<Rightarrow> claim_each (claimPath sha env input r g) (p # ps) | _ \<Rightarrow> throwS x)" for v x r g
    by (auto split: js.split list.split intro!: own_intros claim_ownership e)
  then show ?thesis unfolding claimPaths_def by (intro own_intros)
qed

lemma order_ownership: "keeps ownership_ok (addMergeOrderConstraint sha env input)"
proof (rule keeps_by_at)
  fix s
  show "keeps_at ownership_ok s (addMergeOrderConstraint sha env input)"
    unfolding addMergeOrderConstraint_def Let_def
    by (intro at_intros) (auto intro!: at_modify own_intros add_constraint)
qed


subsection \<open>Any sequence of calls\<close>

text \<open>
  The calls of the service, an observation in two parts: it may finish with the records of any
  earlier \<open>observe_begin\<close>, so the second part takes them from anywhere.
\<close>

inductive s3_step :: "(string \<Rightarrow> string) \<Rightarrow> s3_state \<Rightarrow> s3_state \<Rightarrow> bool" for sha where
  registered: "registerRepository sha env input s = (s', r) \<Longrightarrow> s3_step sha s s'"
| reserved: "reserveBranch sha env input s = (s', r) \<Longrightarrow> s3_step sha s s'"
| claimed: "claimPaths sha env input s = (s', r) \<Longrightarrow> s3_step sha s s'"
| bound: "bindPullRequest sha env input s = (s', r) \<Longrightarrow> s3_step sha s s'"
| ordered: "addMergeOrderConstraint sha env input s = (s', r) \<Longrightarrow> s3_step sha s s'"
| declared: "declareMissionDeliveryDependency sha mission revision has_run env input s = (s', r) \<Longrightarrow> s3_step sha s s'"
| observed: "observe_finish sha start env ob a s = (s', r) \<Longrightarrow> s3_step sha s s'"
| proposed: "createRepairProposal3 sha env input s = (s', r) \<Longrightarrow> s3_step sha s s'"

lemmas ownership_kept = register_ownership[THEN keepsD] reserve_ownership[THEN keepsD] claims_ownership[THEN keepsD] bind_ownership[THEN keepsD]
  order_ownership[THEN keepsD] declare_ownership[THEN keepsD] observe_ownership[THEN keepsD] repair_ownership[THEN keepsD]

lemma step_ownership: "s3_step sha s s' \<Longrightarrow> ownership_ok s \<Longrightarrow> ownership_ok s'"
  by (induction rule: s3_step.induct) (erule (1) ownership_kept)+

lemma steps_ownership: "(s3_step sha)\<^sup>*\<^sup>* s s' \<Longrightarrow> ownership_ok s \<Longrightarrow> ownership_ok s'"
  by (induction rule: rtranclp_induct) (auto intro: step_ownership)

lemma ownership_init: "ownership_ok s3_init"
  by (simp add: ownership_ok_def s3_init_def mvalues_def merge_rel_def acyclic_def)

text \<open>
  C9: Whatever calls the GitHub service receives, and however observations interleave with
  them, ownership stays exclusive: of two stored active exclusive claims on paths of one
  repository by different owners, the segments of neither path begin with the segments of the
  other; no branch of a repository is actively reserved for exclusive writing by two owners;
  and the active merge-order constraints contain no cycle, so that adding one more is accepted
  exactly when it closes none.
\<close>

theorem ownership_is_exclusive:
  assumes "(s3_step sha)\<^sup>*\<^sup>* s3_init s"
  shows "(mget (s3_claims s) i = Some c \<and> mget (s3_claims s) j = Some d \<and> pt_state c = ''active'' \<and> pt_state d = ''active'' \<and>
      pt_workspaceId c = pt_workspaceId d \<and> pt_repositoryRegistrationId c = pt_repositoryRegistrationId d \<and>
      pt_mode c = ''exclusive_write'' \<and> pt_mode d = ''exclusive_write'' \<and> pt_ownerId c \<noteq> pt_ownerId d \<longrightarrow>
        \<not> prefix (split_on CHR ''/'' (pt_pathPrefix c)) (split_on CHR ''/'' (pt_pathPrefix d))) \<and>
    (mget (s3_reservations s) i = Some a \<and> mget (s3_reservations s) j = Some b \<and> br_state a = ''active'' \<and> br_state b = ''active'' \<and>
      br_workspaceId a = br_workspaceId b \<and> br_repositoryRegistrationId a = br_repositoryRegistrationId b \<and>
      br_mode a = ''exclusive_write'' \<and> br_mode b = ''exclusive_write'' \<and> br_branch a = br_branch b \<longrightarrow> br_ownerId a = br_ownerId b) \<and>
    acyclic (merge_rel (mvalues (s3_constraints s))) \<and>
    (assertMergeOrderAcyclic (mvalues (s3_constraints s) @ [x]) = Inr True \<longleftrightarrow> mc_state x \<noteq> ''active'' \<or>
      (mc_successor x, mc_predecessor x) \<notin> (merge_rel (mvalues (s3_constraints s)))\<^sup>*)"
proof -
  from steps_ownership[OF assms ownership_init] have ok: "ownership_ok s" .
  have m: "v \<in> set (mvalues m)" if "mget m k = Some v" for m :: "(string, 'v) jsmap" and k v
    using that by (force simp: mvalues_def mget_def dest: map_of_SomeD)
  have acy: "acyclic (merge_rel (mvalues (s3_constraints s)))" using ok by (simp add: ownership_ok_def)
  have nc: "\<not> pathClaimsConflict (Some c) (Some d)" if "mget (s3_claims s) i = Some c" "mget (s3_claims s) j = Some d"
    using ok m[OF that(1)] m[OF that(2)] by (simp add: ownership_ok_def)
  have nb: "\<not> branchReservationsConflict (Some a) (Some b)" if "mget (s3_reservations s) i = Some a" "mget (s3_reservations s) j = Some b"
    using ok m[OF that(1)] m[OF that(2)] by (simp add: ownership_ok_def)
  show ?thesis
  proof (intro conjI impI)
    assume "mget (s3_claims s) i = Some c \<and> mget (s3_claims s) j = Some d \<and> pt_state c = ''active'' \<and> pt_state d = ''active'' \<and>
      pt_workspaceId c = pt_workspaceId d \<and> pt_repositoryRegistrationId c = pt_repositoryRegistrationId d \<and>
      pt_mode c = ''exclusive_write'' \<and> pt_mode d = ''exclusive_write'' \<and> pt_ownerId c \<noteq> pt_ownerId d"
    with nc show "\<not> prefix (split_on CHR ''/'' (pt_pathPrefix c)) (split_on CHR ''/'' (pt_pathPrefix d))"
      by (auto simp: pathClaimsConflict_def prefixContains_segments prefix_def)
  next
    assume "mget (s3_reservations s) i = Some a \<and> mget (s3_reservations s) j = Some b \<and> br_state a = ''active'' \<and> br_state b = ''active'' \<and>
      br_workspaceId a = br_workspaceId b \<and> br_repositoryRegistrationId a = br_repositoryRegistrationId b \<and>
      br_mode a = ''exclusive_write'' \<and> br_mode b = ''exclusive_write'' \<and> br_branch a = br_branch b"
    with nb show "br_ownerId a = br_ownerId b" by (auto simp: branchReservationsConflict_def)
  next
    show "acyclic (merge_rel (mvalues (s3_constraints s)))" by (rule acy)
    show "assertMergeOrderAcyclic (mvalues (s3_constraints s) @ [x]) = Inr True \<longleftrightarrow> mc_state x \<noteq> ''active'' \<or>
      (mc_successor x, mc_predecessor x) \<notin> (merge_rel (mvalues (s3_constraints s)))\<^sup>*"
      using acy by (simp add: merge_order_acyclic_iff merge_rel_snoc acyclic_insert)
  qed
qed


subsection \<open>Evidence and released missions\<close>

lemma field_with_fields: "field (with_fields v kvs) k = (case map_of (rev kvs) k of Some x \<Rightarrow> x | None \<Rightarrow> field v k)"
proof -
  have "map_of (fold (\<lambda>(k, v). AList.update k v) kvs xs) k = (case map_of (rev kvs) k of Some x \<Rightarrow> Some x | None \<Rightarrow> map_of xs k)" for xs
    by (induction kvs arbitrary: xs) (auto simp: update_conv' map_add_def split: option.splits)
  then show ?thesis by (cases v) (auto simp: with_fields_def split: option.splits)
qed

text \<open>What a call may write: evidence through an open gate, and releases that rest on merge evidence.\<close>

text \<open>
  What the gate is evaluated on is what the observation read: its own answer, or the stored
  record when that has the digest of the answer; checks and reviews only when a head was answered.
\<close>

definition stored_or_new :: "('r \<Rightarrow> string) \<Rightarrow> string \<Rightarrow> 'r option \<Rightarrow> 'r \<Rightarrow> 'r" where
  "stored_or_new dig d existing new = (case existing of None \<Rightarrow> new | Some e \<Rightarrow> if dig e = d then e else new)"

definition read_snapshot :: "(string \<Rightarrow> string) \<Rightarrow> s3_state \<Rightarrow> observing \<Rightarrow> answers \<Rightarrow> observed_pr" where
  "read_snapshot sha s ob a =
    (let i = boundedId3 sha ''prsnapshot'' [JStr (pb_id (ob_binding ob))];
         d = digest sha (JObj [(''pullRequest'', JStr (an_digest a)), (''base'', if answered_base a then or_js (JStr (an_baseDigest a)) JNull else JNull)])
     in stored_or_new op_digest d (mget (s3_snapshots s) i)
          \<lparr>op_id = i, op_workspaceId = pb_workspaceId (ob_binding ob), op_pullRequestBindingId = pb_id (ob_binding ob),
           op_snapshot = an_snapshot a, op_base = base_of a, op_digest = d\<rparr>)"

definition read_checks :: "(string \<Rightarrow> string) \<Rightarrow> s3_state \<Rightarrow> observing \<Rightarrow> answers \<Rightarrow> checks_obs option" where
  "read_checks sha s ob a = (if answered a
     then Some (stored_or_new co_digest (co_digest (an_checks a)) (mget (s3_checks s) (boundedId3 sha ''checkobs'' [JStr (pb_id (ob_binding ob))])) (an_checks a))
     else None)"

definition read_reviews :: "(string \<Rightarrow> string) \<Rightarrow> s3_state \<Rightarrow> observing \<Rightarrow> answers \<Rightarrow> review_obs option" where
  "read_reviews sha s ob a = (if answered a
     then Some (stored_or_new ro_digest (ro_digest (an_reviews a)) (mget (s3_reviews s) (boundedId3 sha ''reviewobs'' [JStr (pb_id (ob_binding ob))])) (an_reviews a))
     else None)"

definition gate_was_open :: "(string \<Rightarrow> string) \<Rightarrow> s3_state \<Rightarrow> observing \<Rightarrow> answers \<Rightarrow> bool \<Rightarrow> bool" where
  "gate_was_open sha s ob a merged \<longleftrightarrow>
     delivery_open (gate_input s ob (read_snapshot sha s ob a) (read_checks sha s ob a) (read_reviews sha s ob a) (base_of a)) \<and>
     (merged \<longrightarrow> ps_merged (op_snapshot (read_snapshot sha s ob a)) \<and> ps_merged (an_snapshot a))"

definition proven :: "(string \<Rightarrow> string) \<Rightarrow> s3_state \<Rightarrow> observing \<Rightarrow> answers \<Rightarrow> delivery_evidence \<Rightarrow> bool" where
  "proven sha s ob a e \<longleftrightarrow> ve_pullRequestBindingId e = pb_id (ob_binding ob) \<and> ve_headSha e = map ascii_lower (pb_expectedHeadSha (ob_binding ob)) \<and>
     gate_was_open sha s ob a (ve_kind e = ''merge_observed'')"

definition freed :: "(string \<Rightarrow> string) \<Rightarrow> s3_state \<Rightarrow> observing \<Rightarrow> answers \<Rightarrow> s3_state \<Rightarrow> delivery_dependency \<Rightarrow> bool" where
  "freed sha s ob a s' d \<longleftrightarrow> dd_state d = ''released'' \<and> dd_pullRequestBindingId d = pb_id (ob_binding ob) \<and> gate_was_open sha s ob a True \<and>
     (\<exists>e \<in> set (mvalues (s3_evidence s')). ve_kind e = ''merge_observed'' \<and> dd_evidenceId d = Some (ve_id e))"

definition settled :: "(string \<Rightarrow> string) \<Rightarrow> s3_state \<Rightarrow> observing \<Rightarrow> answers \<Rightarrow> s3_state \<Rightarrow> bool" where
  "settled sha s ob a s' \<longleftrightarrow>
    (\<forall>k e. mget (s3_evidence s') k = Some e \<longrightarrow> mget (s3_evidence s) k = Some e \<or> proven sha s ob a e) \<and>
    (\<forall>k d. mget (s3_dependencies s') k = Some d \<longrightarrow> mget (s3_dependencies s) k = Some d \<or> freed sha s ob a s' d)"

definition same_inputs :: "s3_state \<Rightarrow> s3_state \<Rightarrow> bool" where
  "same_inputs s s' \<longleftrightarrow> s3_evidence s' = s3_evidence s \<and> s3_dependencies s' = s3_dependencies s \<and> s3_reservations s' = s3_reservations s \<and>
     s3_claims s' = s3_claims s \<and> s3_constraints s' = s3_constraints s"

lemma same_inputs_gate: "same_inputs s s' \<Longrightarrow> gate_input s' ob sn c r b = gate_input s ob sn c r b"
  by (simp add: same_inputs_def gate_input_def ownershipConflicts_def Let_def)

lemma same_inputs_settled: "same_inputs s s' \<Longrightarrow> settled sha s ob a s'"
  by (simp add: same_inputs_def settled_def)

lemma bind_frame:
  assumes "F s" "keeps F m" "\<And>s1. F s1 \<Longrightarrow> Q s1" "\<And>x s1. F s1 \<Longrightarrow> m s = (s1, Inr x) \<Longrightarrow> Q (fst (f x s1))"
  shows "Q (fst (bindS m f s))"
proof -
  obtain s1 r where m: "m s = (s1, r)" by fastforce
  with keepsD[OF assms(2,1)] have "F s1" by blast
  with assms(3,4) m show ?thesis by (cases r) (auto simp: bindS_def)
qed

lemma keeps_event_same: "keeps (same_inputs s0) (appendS3Event e)"
  by (rule keeps_event) (simp add: same_inputs_def)

lemma persist_same: "keeps (same_inputs s0) (persist_snapshot sha b a)" "keeps (same_inputs s0) (persist_checks sha b c)"
  "keeps (same_inputs s0) (persist_reviews sha b r)" "keeps (same_inputs s0) (store_evaluation sha env g res)"
  unfolding persist_snapshot_def persist_checks_def persist_reviews_def store_evaluation_def Let_def
  by (intro keeps_intros keeps_modifyS keeps_event_same; simp add: same_inputs_def)+

definition kept_with :: "(string \<Rightarrow> string) \<Rightarrow> s3_state \<Rightarrow> observing \<Rightarrow> answers \<Rightarrow> delivery_evidence \<Rightarrow> s3_state \<Rightarrow> bool" where
  "kept_with sha s0 ob a e s \<longleftrightarrow> settled sha s0 ob a s \<and> e \<in> set (mvalues (s3_evidence s))"

lemma settled_upd [simp]:
  "settled sha s0 ob a (s\<lparr>s3_events := x1\<rparr>) = settled sha s0 ob a s" "settled sha s0 ob a (s\<lparr>s3_bindings := x2\<rparr>) = settled sha s0 ob a s"
  "settled sha s0 ob a (s\<lparr>s3_gates := x3\<rparr>) = settled sha s0 ob a s"
  by (simp_all add: settled_def freed_def)

lemma kept_event: "keeps (settled sha s0 ob a) (appendS3Event e)" "keeps (kept_with sha s0 ob a x) (appendS3Event e)"
  by (rule keeps_event, simp add: kept_with_def)+

lemma evidence_kept: "settled sha s0 ob a s \<Longrightarrow> proven sha s0 ob a rec \<Longrightarrow> mget (s3_evidence s) k = None \<Longrightarrow>
   settled sha s0 ob a (s\<lparr>s3_evidence := mset_at k rec (s3_evidence s)\<rparr>)"
  by (auto simp: settled_def freed_def mvalues_new)


lemma createDeliveryEvidence_Inr:
  assumes "createDeliveryEvidence now v = Inr e"
  shows "field v ''kind'' = JStr (ve_kind e)" "field v ''pullRequestBindingId'' = JStr (ve_pullRequestBindingId e)"
    "\<exists>h. field v ''headSha'' = JStr h \<and> ve_headSha e = map ascii_lower h"
proof -
  from assms obtain k i w b h bs m cd rd where k: "one_of [''exact_head_ready'', ''merge_observed''] (TypeError ''unsupported delivery evidence kind'') (field v ''kind'') = Inr k"
    and b: "assertSafeIdentifier (field v ''pullRequestBindingId'') ''pull request binding id'' = Inr b"
    and h: "assertSha (field v ''headSha'') ''delivery head SHA'' = Inr h"
    and e: "e = \<lparr>ve_id = i, ve_workspaceId = w, ve_pullRequestBindingId = b, ve_kind = k, ve_headSha = h, ve_baseSha = bs,
      ve_mergeCommitSha = m, ve_checkDigest = cd, ve_reviewDigest = rd, ve_payload = or_js (field v ''payload'') (JObj []),
      ve_observedAt = or_js (field v ''observedAt'') (JStr now)\<rparr>"
    unfolding createDeliveryEvidence_def Let_def bindE_eq_Inr sum.inject by (elim exE conjE) (erule that, assumption+, erule sym)
  show "field v ''kind'' = JStr (ve_kind e)" using k by (simp add: e)
  show "field v ''pullRequestBindingId'' = JStr (ve_pullRequestBindingId e)" using b by (simp add: e)
  show "\<exists>h. field v ''headSha'' = JStr h \<and> ve_headSha e = map ascii_lower h"
    using h by (auto simp: e assertSha_def split: js.splits if_splits)
qed

lemma createDeliveryEvidence_id: "createDeliveryEvidence now v = Inr e \<Longrightarrow> field v ''id'' = JStr (ve_id e)"
  unfolding createDeliveryEvidence_def Let_def by (auto simp del: requiredText_Inr)

lemma evidence_obj_fields:
  "field (evidence_obj sha k i w b s m c r t) ''kind'' = JStr k" "field (evidence_obj sha k i w b s m c r t) ''id'' = JStr i"
  "field (evidence_obj sha k i w b s m c r t) ''pullRequestBindingId'' = JStr (pb_id b)"
  "field (evidence_obj sha k i w b s m c r t) ''headSha'' = js_opt (ps_headSha s)"
  by (simp_all add: evidence_obj_def)

lemma evidence_proven:
  assumes d: "d = evidence_obj sha kind i w (ob_binding ob) (op_snapshot sn) m c r t" "ps_headSha (op_snapshot sn) = Some (pb_expectedHeadSha (ob_binding ob))"
    and e: "createDeliveryEvidence now (with_fields d [(''payload'', p)]) = Inr e" and g: "gate_was_open sha s ob a (kind = ''merge_observed'')"
  shows "proven sha s ob a e"
proof -
  have "field (with_fields d [(''payload'', p)]) ''kind'' = JStr kind" "field (with_fields d [(''payload'', p)]) ''pullRequestBindingId'' = JStr (pb_id (ob_binding ob))"
    "field (with_fields d [(''payload'', p)]) ''headSha'' = JStr (pb_expectedHeadSha (ob_binding ob))"
    by (simp_all add: field_with_fields d evidence_obj_fields js_opt_def)
  with createDeliveryEvidence_Inr[OF e] g show ?thesis by (auto simp: proven_def)
qed

text \<open>Storing evidence that was derived from an open gate.\<close>

lemma store_evidence_kept:
  assumes "settled sha s0 ob a s"
    and "\<And>e p now. createDeliveryEvidence now (with_fields d [(''payload'', p)]) = Inr e \<Longrightarrow> proven sha s0 ob a e"
    and st: "storeDeliveryEvidence env d g s = (s', r)"
  shows "settled sha s0 ob a s' \<and> (\<forall>e. r = Inr e \<longrightarrow> e \<in> set (mvalues (s3_evidence s')))"
proof (cases "get_js (s3_evidence s) (field d ''id'')")
  case (Some e)
  then have "e \<in> set (mvalues (s3_evidence s))"
    by (force simp: get_js_def mvalues_def mget_def split: js.splits dest: map_of_SomeD)
  with Some st assms(1) show ?thesis by (auto simp: storeDeliveryEvidence_def)
next
  case None
  let ?v = "with_fields d [(''payload'', JObj [(''gateId'', JStr g), (''provider'', JStr ''github''), (''providerMode'', JStr ''read_only'')])]"
  show ?thesis
  proof (cases "createDeliveryEvidence (en_clock env) ?v")
    case (Inl x)
    with None st assms(1) show ?thesis by (auto simp: storeDeliveryEvidence_def)
  next
    case (Inr e)
    let ?s = "s\<lparr>s3_evidence := mset_at (ve_id e) e (s3_evidence s)\<rparr>"
    have "field d ''id'' = JStr (ve_id e)" using createDeliveryEvidence_id[OF Inr] by (simp add: field_with_fields)
    with None have n: "mget (s3_evidence s) (ve_id e) = None" by (simp add: get_js_def)
    have "kept_with sha s0 ob a e ?s" using evidence_kept[OF assms(1) assms(2)[OF Inr] n] n by (simp add: kept_with_def mvalues_new)
    moreover have "\<exists>evt. storeDeliveryEvidence env d g s = bindS (appendS3Event evt) (\<lambda>_. returnS e) ?s"
      by (simp add: storeDeliveryEvidence_def None Inr) (rule exI, rule refl)
    then obtain evt s1 x where ev: "storeDeliveryEvidence env d g s = bindS (appendS3Event evt) (\<lambda>_. returnS e) ?s" "appendS3Event evt ?s = (s1, x)"
      by (metis surj_pair)
    ultimately have k: "kept_with sha s0 ob a e s1" using keepsD[OF kept_event(2)] by blast
    from st ev have "s' = s1 \<and> (r = Inr e \<or> (\<exists>z. r = Inl z))" by (cases x) (auto simp: bindS_def)
    with k show ?thesis by (auto simp: kept_with_def)
  qed
qed


lemma release_kept:
  assumes "ve_kind e = ''merge_observed''" "gate_was_open sha s0 ob a True"
  shows "\<forall>d \<in> set ds. dd_pullRequestBindingId d = pb_id (ob_binding ob) \<Longrightarrow> keeps (kept_with sha s0 ob a e) (release_each start e ds)"
proof (induction ds)
  case (Cons d ds)
  have m: "kept_with sha s0 ob a e (s\<lparr>s3_dependencies := mset_at (dd_id d)
      (d\<lparr>dd_state := ''released'', dd_evidenceId := Some (ve_id e), dd_missionRunId := Some run\<rparr>) (s3_dependencies s)\<rparr>)"
    if "kept_with sha s0 ob a e s" for s run
    using that assms Cons.prems unfolding kept_with_def settled_def freed_def by auto
  from Cons show ?case unfolding release_each.simps Let_def
    by (intro keeps_intros keeps_modifyS kept_event) (simp_all add: m)
qed (simp only: release_each.simps keeps_trivial)

lemma releaseDeliveryDependencies_kept:
  assumes "kept_with sha s0 ob a e s" "ve_kind e = ''merge_observed'' \<Longrightarrow> gate_was_open sha s0 ob a True"
  shows "settled sha s0 ob a (fst (releaseDeliveryDependencies start (ob_binding ob) e s))"
proof (cases "ve_kind e = ''merge_observed''")
  case True
  have "kept_with sha s0 ob a e (fst (releaseDeliveryDependencies start (ob_binding ob) e s))"
    using release_kept[OF True assms(2)[OF True], unfolded keeps_def] assms(1) by (simp add: releaseDeliveryDependencies_def True)
  then show ?thesis by (simp add: kept_with_def)
next
  case False
  with assms(1) show ?thesis by (simp add: releaseDeliveryDependencies_def kept_with_def)
qed

lemma gate_steps_kept: "keeps (kept_with sha s0 ob a e) (merged_binding env b)" "keeps (kept_with sha s0 ob a e) (satisfied_gate g e')"
  unfolding merged_binding_def satisfied_gate_def Let_def
  by (intro keeps_intros keeps_modifyS; simp add: kept_with_def)+

lemma open_head: "delivery_open (gate_input s ob sn c r b) \<Longrightarrow> ps_headSha (op_snapshot sn) = Some (pb_expectedHeadSha (ob_binding ob))"
  by (auto simp: delivery_open_def gate_input_def Let_def)

lemma settle_settled:
  assumes s: "settled sha s0 ob a s" and op: "delivery_open (gate_input s0 ob sn c r (base_of a))"
    and sn: "sn = read_snapshot sha s0 ob a" and cr: "c = read_checks sha s0 ob a" "r = read_reviews sha s0 ob a"
  shows "settled sha s0 ob a (fst (settle sha start env w ob (an_snapshot a) (op_snapshot sn) c r gate s))"
proof (cases "ps_merged (an_snapshot a) \<and> truthy (js_opt (ps_mergeCommitSha (an_snapshot a)))")
  case True
  let ?i = "boundedId3 sha ''deliverymerge'' [JStr (pb_id (ob_binding ob)), js_opt (ps_mergeCommitSha (an_snapshot a))]"
  show ?thesis
  proof (cases "createMergeObservedEvidence sha ?i w (Some (ob_binding ob)) (Some (op_snapshot sn)) c r (en_clock env)")
    case (Inl x)
    with True s show ?thesis by (simp add: settle_def Let_def)
  next
    case (Inr d)
    then have d: "d = evidence_obj sha ''merge_observed'' ?i w (ob_binding ob) (op_snapshot sn) (js_opt (ps_mergeCommitSha (op_snapshot sn))) c r (en_clock env)"
      and m: "ps_merged (op_snapshot sn)"
      by (auto simp: createMergeObservedEvidence_def split: if_splits)
    have g: "gate_was_open sha s0 ob a True" unfolding gate_was_open_def using op m True sn cr by blast
    then have p: "createDeliveryEvidence now (with_fields d [(''payload'', p)]) = Inr e \<Longrightarrow> proven sha s0 ob a e" for now p e
      using evidence_proven[OF d open_head[OF op]] by simp
    obtain s1 x where st: "storeDeliveryEvidence env d (gt_id (ob_gate ob)) s = (s1, x)" by fastforce
    from store_evidence_kept[OF s p st] have k: "settled sha s0 ob a s1" "\<And>e. x = Inr e \<Longrightarrow> kept_with sha s0 ob a e s1"
      by (auto simp: kept_with_def)
    have rest: "settled sha s0 ob a (fst (bindS (merged_binding env (ob_binding ob)) (\<lambda>_. bindS (satisfied_gate gate e) (\<lambda>gate'.
        bindS (releaseDeliveryDependencies start (ob_binding ob) e) (\<lambda>_. returnS (gate', Some e)))) s1))" if "kept_with sha s0 ob a e s1" for e
    proof (rule bind_frame[OF that gate_steps_kept(1)])
      fix u s2 assume "kept_with sha s0 ob a e s2"
      then show "settled sha s0 ob a (fst (bindS (satisfied_gate gate e) (\<lambda>gate'.
        bindS (releaseDeliveryDependencies start (ob_binding ob) e) (\<lambda>_. returnS (gate', Some e))) s2))"
      proof (rule bind_frame[OF _ gate_steps_kept(2)])
        fix g' s3 assume k3: "kept_with sha s0 ob a e s3"
        obtain s4 y where rl: "releaseDeliveryDependencies start (ob_binding ob) e s3 = (s4, y)" by fastforce
        with releaseDeliveryDependencies_kept[OF k3 g, of start] have "settled sha s0 ob a s4" by simp
        then show "settled sha s0 ob a (fst (bindS (releaseDeliveryDependencies start (ob_binding ob) e) (\<lambda>_. returnS (g', Some e)) s3))"
          by (cases y) (simp_all add: bindS_def rl)
      qed (simp add: kept_with_def)
    qed (simp add: kept_with_def)
    show ?thesis
    proof (cases x)
      case (Inl z)
      with k(1) show ?thesis by (simp add: settle_def Let_def True Inr bindS_def[of "storeDeliveryEvidence _ _ _"] st)
    next
      case (Inr e)
      with rest[OF k(2)[OF Inr]] \<open>createMergeObservedEvidence _ _ _ _ _ _ _ _ = _\<close>
      show ?thesis by (simp add: settle_def Let_def True bindS_def[of "storeDeliveryEvidence _ _ _"] st)
    qed
  qed
next
  case False
  let ?i = "boundedId3 sha ''deliveryready'' [JStr (pb_id (ob_binding ob)), js_opt (ps_headSha (an_snapshot a))]"
  show ?thesis
  proof (cases "createExactHeadReadyEvidence sha ?i w (Some (ob_binding ob)) (Some (op_snapshot sn)) c r (en_clock env)")
    case (Inl x)
    with False s show ?thesis by (auto simp: settle_def Let_def)
  next
    case (Inr d)
    then have d: "d = evidence_obj sha ''exact_head_ready'' ?i w (ob_binding ob) (op_snapshot sn) JNull c r (en_clock env)"
      by (auto simp: createExactHeadReadyEvidence_def split: if_splits)
    have "gate_was_open sha s0 ob a False" unfolding gate_was_open_def using op sn cr by blast
    then have p: "createDeliveryEvidence now (with_fields d [(''payload'', p)]) = Inr e \<Longrightarrow> proven sha s0 ob a e" for now p e
      using evidence_proven[OF d open_head[OF op]] by simp
    obtain s1 x where st: "storeDeliveryEvidence env d (gt_id (ob_gate ob)) s = (s1, x)" by fastforce
    have "settled sha s0 ob a s1" using store_evidence_kept[OF s _ st] p by blast
    with False Inr st show ?thesis
      by (cases x) (auto simp: settle_def Let_def bindS_def[of "storeDeliveryEvidence _ _ _"])
  qed
qed


lemma bind_at: "Q (fst (m s)) \<Longrightarrow> (\<And>x. keeps Q (f x)) \<Longrightarrow> Q (fst (bindS m f s))"
  by (auto simp: keeps_def bindS_def split: prod.splits sum.splits)

lemma gate_ready_open: "gr_state (evaluateDeliveryGate d) = ''ready'' \<Longrightarrow> delivery_open d"
  by (simp add: evaluateDeliveryGate_def Let_def dedupe_Nil_iff gate_blockers_Nil split: if_splits)

lemma evaluated_settled:
  assumes s1: "same_inputs s s1" and res: "result = evaluateDeliveryGate (gate_input s ob sn c r (base_of a))"
    and read: "sn = read_snapshot sha s ob a" "c = read_checks sha s ob a" "r = read_reviews sha s ob a"
  shows "settled sha s ob a (fst (bindS (if gr_state result = ''ready'' \<and> answered_base a
        then settle sha start env w ob (an_snapshot a) (op_snapshot sn) c r gate else returnS (gate, None))
      (\<lambda>(gate', evidence). bindS (gate_changed (ob_before ob) gate') (\<lambda>_. returnS (gate', evidence))) s1))"
proof (rule bind_at)
  show "settled sha s ob a (fst ((if gr_state result = ''ready'' \<and> answered_base a
        then settle sha start env w ob (an_snapshot a) (op_snapshot sn) c r gate else returnS (gate, None)) s1))"
    using settle_settled[OF same_inputs_settled[OF s1] _ read] gate_ready_open res same_inputs_settled[OF s1] by auto
  show "keeps (settled sha s ob a) (case x of (gate', evidence) \<Rightarrow> bindS (gate_changed (ob_before ob) gate') (\<lambda>_. returnS (gate', evidence)))" for x
    unfolding gate_changed_def by (intro keeps_intros kept_event)
qed

text \<open>What the three records are that the evaluation reads, and what storing them leaves alone.\<close>

lemma persisted:
  "persist_snapshot sha (ob_binding ob) a s = (s1, Inr sn) \<Longrightarrow> sn = read_snapshot sha s ob a"
  "persist_checks sha (ob_binding ob) (an_checks a) s = (s1, Inr c) \<Longrightarrow> answered a \<Longrightarrow> Some c = read_checks sha s ob a"
  "persist_reviews sha (ob_binding ob) (an_reviews a) s = (s1, Inr r) \<Longrightarrow> answered a \<Longrightarrow> Some r = read_reviews sha s ob a"
  unfolding persist_snapshot_def persist_checks_def persist_reviews_def Let_def read_snapshot_def read_checks_def read_reviews_def
  by (auto simp: bindS_def same_record_def stored_or_new_def split: option.splits if_splits prod.splits sum.splits)

definition before_checks :: "s3_state \<Rightarrow> s3_state \<Rightarrow> bool" where
  "before_checks s s' \<longleftrightarrow> same_inputs s s' \<and> s3_checks s' = s3_checks s \<and> s3_reviews s' = s3_reviews s"

definition before_reviews :: "s3_state \<Rightarrow> s3_state \<Rightarrow> bool" where
  "before_reviews s s' \<longleftrightarrow> same_inputs s s' \<and> s3_reviews s' = s3_reviews s"

lemma persist_leaves: "keeps (before_checks s0) (persist_snapshot sha b a)" "keeps (before_reviews s0) (persist_checks sha b c)"
  unfolding persist_snapshot_def persist_checks_def Let_def
  by (intro keeps_intros keeps_modifyS keeps_event; simp add: before_checks_def before_reviews_def same_inputs_def)+

lemma observe_settled: "settled sha s ob a (fst (observe_finish sha start env ob a s))"
proof -
  let ?b = "ob_binding ob"
  let ?rest = "\<lambda>sn c r. bindS (readS (\<lambda>s. evaluateDeliveryGate (gate_input s ob sn c r (base_of a)))) (\<lambda>result.
     bindS (store_evaluation sha env (ob_gate ob) result) (\<lambda>gate.
     bindS (if gr_state result = ''ready'' \<and> answered_base a
            then settle sha start env (pb_workspaceId ?b) ob (an_snapshot a) (op_snapshot sn) c r gate else returnS (gate, None)) (\<lambda>(gate', evidence).
     bindS (gate_changed (ob_before ob) gate') (\<lambda>_. returnS (gate', evidence)))))"
  let ?checks = "if answered a then bindS (persist_checks sha ?b (an_checks a)) (\<lambda>c. returnS (Some c)) else returnS None"
  let ?reviews = "if answered a then bindS (persist_reviews sha ?b (an_reviews a)) (\<lambda>r. returnS (Some r)) else returnS None"
  have ss: "settled sha s ob a s1" if "same_inputs s s1" for s1 using that by (rule same_inputs_settled)
  have eval: "settled sha s ob a (fst (?rest sn c r s1))"
    if "same_inputs s s1" "sn = read_snapshot sha s ob a" "c = read_checks sha s ob a" "r = read_reviews sha s ob a" for s1 sn c r
    unfolding bindS_simps
    by (rule bind_frame[where F = "same_inputs s", OF that(1) persist_same(4) ss])
       (simp_all add: evaluated_settled that(2,3,4) same_inputs_gate[OF that(1)])
  have reviews: "settled sha s ob a (fst (bindS ?reviews (?rest sn c) s1))"
    if "before_reviews s s1" "sn = read_snapshot sha s ob a" "c = read_checks sha s ob a" for s1 sn c
  proof (rule bind_frame[where F = "same_inputs s", OF _ _ ss])
    show "same_inputs s s1" using that(1) by (simp add: before_reviews_def)
    show "keeps (same_inputs s) ?reviews" by (intro keeps_intros persist_same)
    fix r s2 assume "same_inputs s s2" and m: "?reviews s1 = (s2, Inr r)"
    moreover have "r = read_reviews sha s ob a"
    proof (cases "answered a")
      case True
      with m obtain x where "persist_reviews sha ?b (an_reviews a) s1 = (s2, Inr x)" "r = Some x"
        by (auto simp: bindS_def split: prod.splits sum.splits)
      with persisted(3)[OF this(1) True] that(1) show ?thesis by (simp add: before_reviews_def read_reviews_def)
    qed (use m in \<open>simp add: read_reviews_def\<close>)
    ultimately show "settled sha s ob a (fst (?rest sn c r s2))" using eval that by blast
  qed
  have checks: "settled sha s ob a (fst (bindS ?checks (\<lambda>c. bindS ?reviews (?rest sn c)) s1))"
    if "before_checks s s1" "sn = read_snapshot sha s ob a" for s1 sn
  proof (rule bind_frame[where F = "before_reviews s"])
    show "before_reviews s s1" using that(1) by (simp add: before_checks_def before_reviews_def)
    show "keeps (before_reviews s) ?checks" by (intro keeps_intros persist_leaves)
    show "settled sha s ob a s2" if "before_reviews s s2" for s2 using that ss by (simp add: before_reviews_def)
    fix c s2 assume b: "before_reviews s s2" and m: "?checks s1 = (s2, Inr c)"
    have "c = read_checks sha s ob a"
    proof (cases "answered a")
      case True
      with m obtain x where "persist_checks sha ?b (an_checks a) s1 = (s2, Inr x)" "c = Some x"
        by (auto simp: bindS_def split: prod.splits sum.splits)
      with persisted(2)[OF this(1) True] that(1) show ?thesis by (simp add: before_checks_def read_checks_def)
    qed (use m in \<open>simp add: read_checks_def\<close>)
    with reviews[OF b that(2)] show "settled sha s ob a (fst (bindS ?reviews (?rest sn c) s2))" by blast
  qed
  show ?thesis unfolding observe_finish_def Let_def
  proof (rule bind_frame[where F = "before_checks s", OF _ persist_leaves(1)])
    show "before_checks s s" by (simp add: before_checks_def same_inputs_def)
    show "settled sha s ob a s2" if "before_checks s s2" for s2 using that ss by (simp add: before_checks_def)
    fix sn s2 assume "before_checks s s2" "persist_snapshot sha ?b a s = (s2, Inr sn)"
    with checks persisted(1) show "settled sha s ob a (fst (bindS ?checks (\<lambda>c. bindS ?reviews (?rest sn c)) s2))" by blast
  qed
qed

text \<open>
  C8: Evidence and released missions rest on an open gate.  Whatever an observation finds and
  whatever ran while it waited: every evidence it writes names the bound pull request and its
  bound head, and the delivery gate was open on the snapshot, the checks, the reviews and the base
  that this observation read (its answers, or the stored record with the digest of the answer);
  merge evidence is only written when the pull request was observed as merged.  A mission that
  waits for the delivery is only released when merge evidence is stored and the gate was open
  on a merged pull request.
\<close>

theorem evidence_through_open_gate:
  assumes "observe_finish sha start env ob a s = (s', res)"
  shows "(mget (s3_evidence s') k = Some e \<and> mget (s3_evidence s) k \<noteq> Some e \<longrightarrow>
      ve_pullRequestBindingId e = pb_id (ob_binding ob) \<and> ve_headSha e = map ascii_lower (pb_expectedHeadSha (ob_binding ob)) \<and>
      gate_was_open sha s ob a (ve_kind e = ''merge_observed'')) \<and>
    (mget (s3_dependencies s') j = Some d \<and> mget (s3_dependencies s) j \<noteq> Some d \<longrightarrow>
      dd_state d = ''released'' \<and> dd_pullRequestBindingId d = pb_id (ob_binding ob) \<and> gate_was_open sha s ob a True \<and>
      (\<exists>e \<in> set (mvalues (s3_evidence s')). ve_kind e = ''merge_observed'' \<and> dd_evidenceId d = Some (ve_id e)))"
proof -
  have "settled sha s ob a s'" using observe_settled[of sha s ob a start env] assms by simp
  then show ?thesis unfolding settled_def proven_def freed_def by blast
qed

subsection \<open>Examples\<close>

definition ex_sha40 :: "char \<Rightarrow> string" where
  "ex_sha40 c = replicate 40 c"

definition ex_ob :: observing where
  "ex_ob = \<lparr>ob_binding = \<lparr>pb_id = ''p1'', pb_workspaceId = ''w'', pb_repositoryRegistrationId = ''g1'', pb_planStepId = None, pb_number = 7,
       pb_expectedHeadSha = ex_sha40 CHR ''a'', pb_expectedBaseRef = None, pb_state = ''active'', pb_createdAt = JStr ''t'', pb_semanticDigest = ''d'', pb_completedAt = JUndef\<rparr>,
     ob_registration = \<lparr>rr_id = ''g1'', rr_workspaceId = ''w'', rr_provider = ''github'', rr_owner = ''o'', rr_repository = ''r'', rr_visibilityHint = None,
       rr_status = ''active'', rr_createdAt = JStr ''t'', rr_semanticDigest = ''d'', rr_archivedAt = JUndef\<rparr>,
     ob_gate = \<lparr>dg_workspaceId = ''w'', dg_requiredCheckNames = [''ci''], dg_requireNoUnresolvedThreads = True, dg_requireCurrentBase = False, gt_id = ''k1'',
       gt_pullRequestBindingId = ''p1'', gt_requireOwnershipClear = True, gt_state = ''waiting'', gt_blockers = [], gt_evaluatedHeadSha = JNull,
       gt_evaluatedBaseSha = JNull, gt_evaluationDigest = None, gt_lastEvaluatedAt = JNull, gt_satisfiedEvidenceId = JUndef\<rparr>,
     ob_before = None\<rparr>"

definition ex_answers :: answers where
  "ex_answers = \<lparr>an_snapshot = \<lparr>ps_state = ''closed'', ps_merged = True, ps_headSha = Some (ex_sha40 CHR ''a''), ps_baseSha = Some (ex_sha40 CHR ''b''),
       ps_mergeCommitSha = Some (ex_sha40 CHR ''c'')\<rparr>, an_digest = ''d1'',
     an_checks = \<lparr>co_headSha = ex_sha40 CHR ''a'', co_checks = [\<lparr>ck_name = ''ci'', ck_status = ''completed'', ck_conclusion = Some ''success''\<rparr>], co_digest = ''d2''\<rparr>,
     an_reviews = \<lparr>ro_headSha = ex_sha40 CHR ''a'', ro_threads = [], ro_resolutionAvailable = True, ro_digest = ''d3''\<rparr>,
     an_base = \<lparr>bo_behindBy = Some 0, bo_mergeBaseSha = None\<rparr>, an_baseDigest = ''d4''\<rparr>"

definition ex_state :: s3_state where
  "ex_state = s3_init\<lparr>s3_bindings := [(''p1'', ob_binding ex_ob)], s3_dependencies := [(''x1'', \<lparr>dd_id = ''x1'', dd_workspaceId = ''w'', dd_pullRequestBindingId = ''p1'',
     dd_missionId = ''m1'', dd_revisionId = ''v1'', dd_runId = ''run1'', dd_state = ''waiting'', dd_evidenceId = None, dd_missionRunId = None\<rparr>)]\<rparr>"

definition ex_env :: s3_env where
  "ex_env = \<lparr>en_workspace = (\<lambda>w. w = ''w''), en_planStep = (\<lambda>_ _. False), en_clock = ''t1''\<rparr>"

lemma ex_run: "map (\<lambda>(k, d). (k, dd_state d, dd_evidenceId d)) (s3_dependencies (fst (observe_finish (\<lambda>_. ''0'') (\<lambda>d. Inr (dd_runId d)) ex_env ex_ob ex_answers ex_state))) =
    [(''x1'', ''released'', Some ''deliverymerge-0'')]"
  by code_simp


theorem evidence_through_open_gate_witness:
  "\<exists>s' res e. observe_finish (\<lambda>_. ''0'') (\<lambda>d. Inr (dd_runId d)) ex_env ex_ob ex_answers ex_state = (s', res) \<and>
     gate_was_open (\<lambda>_. ''0'') ex_state ex_ob ex_answers True \<and> e \<in> set (mvalues (s3_evidence s')) \<and> ve_id e = ''deliverymerge-0''"
proof -
  obtain s' res where run: "observe_finish (\<lambda>_. ''0'') (\<lambda>d. Inr (dd_runId d)) ex_env ex_ob ex_answers ex_state = (s', res)" by fastforce
  with ex_run obtain d where d: "s3_dependencies s' = [(''x1'', d)]" "dd_state d = ''released''" "dd_evidenceId d = Some ''deliverymerge-0''" by auto
  have "mget (s3_dependencies s') ''x1'' = Some d \<and> mget (s3_dependencies ex_state) ''x1'' \<noteq> Some d"
    using d by (auto simp: mget_def ex_state_def)
  with evidence_through_open_gate[OF run, of _ _ "''x1''" d] obtain e
    where "gate_was_open (\<lambda>_. ''0'') ex_state ex_ob ex_answers True" "e \<in> set (mvalues (s3_evidence s'))" "dd_evidenceId d = Some (ve_id e)" by blast
  with run d(3) show ?thesis by (intro exI[of _ s'] exI[of _ res] exI[of _ e]) simp
qed

definition ex_key :: "string \<Rightarrow> string" where
  "ex_key s = filter id_char s"

definition ex_calls :: s3_state where
  "ex_calls =
    (let s1 = fst (registerRepository ex_key ex_env (JObj [(''id'', JStr ''g1''), (''workspaceId'', JStr ''w''), (''owner'', JStr ''o''), (''repository'', JStr ''r'')]) s3_init);
         s2 = fst (reserveBranch ex_key ex_env (JObj [(''id'', JStr ''b1''), (''workspaceId'', JStr ''w''), (''repositoryRegistrationId'', JStr ''g1''),
            (''branch'', JStr ''feature/a''), (''ownerId'', JStr ''o1'')]) s1);
         s3 = fst (reserveBranch ex_key ex_env (JObj [(''id'', JStr ''b2''), (''workspaceId'', JStr ''w''), (''repositoryRegistrationId'', JStr ''g1''),
            (''branch'', JStr ''feature/b''), (''ownerId'', JStr ''o2'')]) s2);
         s4 = fst (claimPaths ex_key ex_env (JObj [(''workspaceId'', JStr ''w''), (''branchReservationId'', JStr ''b1''), (''ownerId'', JStr ''o1''),
            (''paths'', JArr [JStr ''src/a/**''])]) s3)
     in fst (claimPaths ex_key ex_env (JObj [(''workspaceId'', JStr ''w''), (''branchReservationId'', JStr ''b2''), (''ownerId'', JStr ''o2''),
            (''paths'', JArr [JStr ''src/ab'', JStr ''src/a/b'', JStr ''docs''])]) s4))"

text \<open>The claim inside the other owner's path is refused, and the claims after it are not made.\<close>

lemma ex_claims: "map (\<lambda>(k, c). (k, pt_pathPrefix c, pt_ownerId c)) (s3_claims ex_calls) =
    [(''githubpath-b1o1srca'', ''src/a'', ''o1''), (''githubpath-b2o2srcab'', ''src/ab'', ''o2'')]"
  by code_simp

lemma step_fst: "registerRepository sha env input s = p \<Longrightarrow> s3_step sha s (fst p)" "reserveBranch sha env input s = q \<Longrightarrow> s3_step sha s (fst q)"
  "claimPaths sha env input s = u \<Longrightarrow> s3_step sha s (fst u)"
  by (cases p; cases q; cases u; auto intro: s3_step.intros)+

lemma ex_reachable: "(s3_step ex_key)\<^sup>*\<^sup>* s3_init ex_calls"
  unfolding ex_calls_def Let_def
  by (rule rtranclp.rtrancl_into_rtrancl[OF rtranclp.rtrancl_into_rtrancl[OF rtranclp.rtrancl_into_rtrancl[OF
        rtranclp.rtrancl_into_rtrancl[OF rtranclp.rtrancl_into_rtrancl[OF rtranclp.rtrancl_refl]]]]]) (rule step_fst[OF refl])+

theorem ownership_is_exclusive_witness:
  "\<exists>c d. mget (s3_claims ex_calls) ''githubpath-b1o1srca'' = Some c \<and> mget (s3_claims ex_calls) ''githubpath-b2o2srcab'' = Some d \<and>
     pt_ownerId c \<noteq> pt_ownerId d \<and> \<not> prefix (split_on CHR ''/'' (pt_pathPrefix c)) (split_on CHR ''/'' (pt_pathPrefix d)) \<and>
     acyclic (merge_rel (mvalues (s3_constraints ex_calls)))"
proof -
  obtain c d where s: "s3_claims ex_calls = [(''githubpath-b1o1srca'', c), (''githubpath-b2o2srcab'', d)]"
    and p: "pt_pathPrefix c = ''src/a''" "pt_pathPrefix d = ''src/ab''" "pt_ownerId c = ''o1''" "pt_ownerId d = ''o2''"
    using ex_claims by (auto simp: map_eq_Cons_conv)
  have "acyclic (merge_rel (mvalues (s3_constraints ex_calls)))" using ownership_is_exclusive[OF ex_reachable] by blast
  with s p show ?thesis by (simp add: mget_def)
qed


subsection \<open>Two calls that answer for something else\<close>

text \<open>
  A constraint asked for under a used id is not recorded: the call answers with the constraint
  that has the id, whatever pull requests and workspace it is of.
\<close>

lemma reused_constraint_id:
  assumes "fieldE input ''predecessorPullRequestBindingId'' = Inr pid"
    and "requireWorkspaceRecord pb_workspaceId (s3_bindings s) pid (field input ''workspaceId'') ''Predecessor PullRequestBinding'' = Inr a"
    and "requireWorkspaceRecord pb_workspaceId (s3_bindings s) (field input ''successorPullRequestBindingId'') (field input ''workspaceId'')
       ''Successor PullRequestBinding'' = Inr b"
    and "pb_repositoryRegistrationId a = pb_repositoryRegistrationId b"
    and "createMergeOrderConstraint (en_clock env) (JObj [(''id'', or_js (field input ''id'')
          (JStr (boundedId3 sha ''mergeorder'' [JStr (pb_id a), JStr (pb_id b)]))), (''workspaceId'', field input ''workspaceId''),
          (''repositoryRegistrationId'', JStr (pb_repositoryRegistrationId a)),
          (''predecessorPullRequestBindingId'', JStr (pb_id a)), (''successorPullRequestBindingId'', JStr (pb_id b)),
          (''createdAt'', JStr (en_clock env))]) = Inr c"
    and "mget (s3_constraints s) (mc_id c) = Some other"
  shows "addMergeOrderConstraint sha env input s = (s, Inr other)"
  using assms by (simp add: addMergeOrderConstraint_def)

text \<open>
  A satisfied gate is evaluated again by the next observation: when the base has moved on it
  goes back to stale, although its delivery is merged.
\<close>

lemma satisfied_gate_goes_stale:
  assumes "gt_state gate = ''satisfied''" "gr_state result = ''stale''"
    and "gt_evaluationDigest gate \<noteq> Some (evaluation_digest sha result)"
  shows "map_option gt_state (mget (s3_gates (fst (store_evaluation sha env gate result s))) (gt_id gate)) = Some ''stale''"
proof -
  have kept: "s3_gates (fst (bindS (appendS3Event e) (\<lambda>_. returnS x) t)) = s3_gates t" for e and x :: delivery_gate and t
    by (auto simp: bindS_def appendS3Event_def split: option.splits sum.splits prod.splits)
  show ?thesis using assms by (simp add: store_evaluation_def Let_def kept)
qed

end
