(* ===== verification/S1Service.thy ===== *)
theory S1Service
  imports Coordinator AppEvents
begin

text \<open>
  The S1 application service (\<open>src/application/s1-application-service.cjs\<close>) around the execution
  coordinator: what it seeds, installing and granting a capability, creating a task with its
  execution request, rejecting and approving a Human Gate with the task record and the
  evidence kept in step, and recovery at a restart.  A repository is a map by id whose writes
  do not fail; an approval is split at its \<open>await\<close> as in the coordinator.  \<open>app_env\<close> is what
  the service reads from its host: the hash, the collation, the reading of a foreign date, the
  clock and which browser workers are idle.
\<close>

subsection \<open>State\<close>

record app_env =
  ae_sha :: "string \<Rightarrow> string"
  ae_lc :: "string \<Rightarrow> string \<Rightarrow> bool"
  ae_legacy :: "string \<Rightarrow> int option"
  ae_clock :: string
  ae_nowMs :: int
  ae_idle :: "string \<Rightarrow> bool"

text \<open>A stored task: the node of the graph model and what the service adds to it.\<close>

record s1_task =
  tk_node :: task_node
  tk_blockers :: "blocker list"
  tk_executionRunId :: "string option"
  tk_humanGateId :: "string option"
  tk_resultObserved :: bool

text \<open>An evidence record of this service, or of the mission service that shares the repository.\<close>

record evidence =
  ev_id :: string
  ev_workspaceId :: "string option"
  ev_taskId :: "string option"
  ev_executionRunId :: "string option"
  ev_workerId :: js
  ev_missionRunId :: "string option"
  ev_stepAttemptId :: "string option"
  ev_stepId :: "string option"
  ev_type :: js
  ev_observedAt :: string
  ev_result :: js

record s1_worker_binding =
  wb_id :: string
  wb_workspaceId :: string
  wb_browserChannel :: string

record s1_state =
  s1_projects :: "(string, project) jsmap"
  s1_workspaces :: "(string, workspace) jsmap"
  s1_packages :: "(string, cap_package) jsmap"
  s1_versions :: "(string, cap_version) jsmap"
  s1_installations :: "(string, installation) jsmap"
  s1_agents :: "(string, agent) jsmap"
  s1_grants :: "(string, grant) jsmap"
  s1_graphs :: "(string, exec_graph) jsmap"
  s1_tasks :: "(string, s1_task) jsmap"
  s1_evidence :: "(string, evidence) jsmap"
  s1_workers :: "(string, s1_worker_binding) jsmap"
  s1_providers :: "(string, provider_snapshot) jsmap"
  s1_coord :: coord

definition s1_empty :: s1_state where
  "s1_empty = \<lparr>s1_projects = [], s1_workspaces = [], s1_packages = [], s1_versions = [], s1_installations = [],
     s1_agents = [], s1_grants = [], s1_graphs = [], s1_tasks = [], s1_evidence = [], s1_workers = [], s1_providers = [],
     s1_coord = \<lparr>co_runs = [], co_gates = [], co_locks = [], co_events = [], co_calls = []\<rparr>\<rparr>"

definition LOCAL_TARGET :: string where "LOCAL_TARGET = ''http://127.0.0.1:43119/task-form.html''"
definition LOCAL_PACKAGE_ID :: string where "LOCAL_PACKAGE_ID = ''local.form-submit''"
definition LOCAL_VERSION :: string where "LOCAL_VERSION = ''1.0.0''"
definition LOCAL_VERSION_ID :: string where "LOCAL_VERSION_ID = LOCAL_PACKAGE_ID @ ''@'' @ LOCAL_VERSION"
definition LOCAL_PROVIDER_SNAPSHOT_ID :: string where "LOCAL_PROVIDER_SNAPSHOT_ID = ''provider-local-form''"
definition LOCAL_DIGEST :: string where "LOCAL_DIGEST = ''sha256:'' @ replicate 64 (CHR ''a'')"

text \<open>An operation of the coordinator, on its part of the state.\<close>

definition in_coord :: "(coord, 'a) act \<Rightarrow> (s1_state, 'a) act" where
  "in_coord m s = (case m (s1_coord s) of (c, r) \<Rightarrow> (s\<lparr>s1_coord := c\<rparr>, r))"

definition save_task :: "s1_task \<Rightarrow> (s1_state, unit) act" where
  "save_task t = modifyS (\<lambda>s. s\<lparr>s1_tasks := mset_at (tn_id (tk_node t)) t (s1_tasks s)\<rparr>)"

definition task_at :: "s1_task \<Rightarrow> string \<Rightarrow> s1_task" where
  "task_at t st = t\<lparr>tk_node := (tk_node t)\<lparr>tn_state := st\<rparr>\<rparr>"

subsection \<open>Seeding\<close>

definition seed_project :: "app_env \<Rightarrow> (s1_state, unit) act" where
  "seed_project env = bindS (readS (\<lambda>s. mget (s1_projects s) ''s1-local-project'')) (\<lambda>found. case found of Some _ \<Rightarrow> returnS ()
    | None \<Rightarrow> bindS (liftS (createProject (ae_clock env) (JObj [(''id'', JStr ''s1-local-project''),
          (''name'', JStr ''S1 Local Project''), (''createdAt'', JStr (ae_clock env))]))) (\<lambda>p.
        modifyS (\<lambda>s. s\<lparr>s1_projects := mset_at (pr_id p) p (s1_projects s)\<rparr>)))"

definition seed_workspace :: "app_env \<Rightarrow> string \<Rightarrow> string \<Rightarrow> (s1_state, unit) act" where
  "seed_workspace env i name = bindS (readS (\<lambda>s. mget (s1_workspaces s) i)) (\<lambda>found. case found of Some _ \<Rightarrow> returnS ()
    | None \<Rightarrow> bindS (liftS (createWorkspace (ae_clock env) (JObj [(''id'', JStr i), (''projectId'', JStr ''s1-local-project''),
          (''name'', JStr name), (''createdAt'', JStr (ae_clock env))]))) (\<lambda>w.
        modifyS (\<lambda>s. s\<lparr>s1_workspaces := mset_at (ws_id w) w (s1_workspaces s)\<rparr>)))"

text \<open>The three records a published capability needs; the mission service seeds its own with them.\<close>

definition seed_package :: "string \<Rightarrow> string \<Rightarrow> string \<Rightarrow> (s1_state, unit) act" where
  "seed_package i name description = bindS (readS (\<lambda>s. mget (s1_packages s) i)) (\<lambda>found. case found of Some _ \<Rightarrow> returnS ()
    | None \<Rightarrow> bindS (liftS (createCapabilityPackage (JObj [(''id'', JStr i), (''name'', JStr name),
          (''publisher'', JStr ''project-owned''), (''description'', JStr description)]))) (\<lambda>p.
        modifyS (\<lambda>s. s\<lparr>s1_packages := mset_at i p (s1_packages s)\<rparr>)))"

definition seed_version :: "string \<Rightarrow> js \<Rightarrow> (s1_state, unit) act" where
  "seed_version i input = bindS (readS (\<lambda>s. mget (s1_versions s) i)) (\<lambda>found. case found of Some _ \<Rightarrow> returnS ()
    | None \<Rightarrow> bindS (liftS (publishCapabilityVersion input)) (\<lambda>v.
        modifyS (\<lambda>s. s\<lparr>s1_versions := mset_at i v (s1_versions s)\<rparr>)))"

definition seed_provider :: "app_env \<Rightarrow> string \<Rightarrow> js \<Rightarrow> (s1_state, unit) act" where
  "seed_provider env i input = bindS (readS (\<lambda>s. mget (s1_providers s) i)) (\<lambda>found. case found of Some _ \<Rightarrow> returnS ()
    | None \<Rightarrow> bindS (liftS (createProviderContractSnapshot (ae_sha env) (ae_legacy env) input)) (\<lambda>p.
        modifyS (\<lambda>s. s\<lparr>s1_providers := mset_at i p (s1_providers s)\<rparr>)))"

definition seed_agent :: "app_env \<Rightarrow> string \<Rightarrow> string \<Rightarrow> string \<Rightarrow> string \<Rightarrow> (s1_state, unit) act" where
  "seed_agent env workspaceId i name role = bindS (readS (\<lambda>s. mget (s1_agents s) i)) (\<lambda>found. case found of Some _ \<Rightarrow> returnS ()
    | None \<Rightarrow>
        bindS (readS (\<lambda>s. mget (s1_workspaces s) workspaceId)) (\<lambda>w.
        bindS (liftS (createAgent (JStr i) w (JStr name) (JStr role) (ae_clock env))) (\<lambda>a.
        modifyS (\<lambda>s. s\<lparr>s1_agents := mset_at (ag_id a) a (s1_agents s)\<rparr>))))"

definition seed_worker :: "string \<Rightarrow> string \<Rightarrow> string \<Rightarrow> (s1_state, unit) act" where
  "seed_worker i workspaceId channel = bindS (readS (\<lambda>s. mget (s1_workers s) i)) (\<lambda>found. case found of Some _ \<Rightarrow> returnS ()
    | None \<Rightarrow> modifyS (\<lambda>s. s\<lparr>s1_workers := mset_at i \<lparr>wb_id = i, wb_workspaceId = workspaceId, wb_browserChannel = channel\<rparr>
        (s1_workers s)\<rparr>))"

fun seq_acts :: "('s, unit) act list \<Rightarrow> ('s, unit) act" where
  "seq_acts [] = returnS ()"
| "seq_acts (m # ms) = bindS m (\<lambda>_. seq_acts ms)"

definition local_version_input :: js where
  "local_version_input = JObj [(''packageId'', JStr LOCAL_PACKAGE_ID), (''version'', JStr LOCAL_VERSION),
     (''integrityDigest'', JStr LOCAL_DIGEST),
     (''inputSchema'', JObj [(''type'', JStr ''object''), (''required'', js_strs [''payload''])]),
     (''outputSchema'', JObj [(''type'', JStr ''object'')]),
     (''evidenceRequirements'', js_strs [''local result text'', ''submission count'']),
     (''resourceRequirements'', js_strs [''browser profile'', ''local target'']),
     (''providerContractIds'', js_strs [LOCAL_PROVIDER_SNAPSHOT_ID]), (''humanGatePolicy'', JStr ''action'')]"

definition local_contract_input :: js where
  "local_contract_input = JObj [(''contractId'', JStr LOCAL_PROVIDER_SNAPSHOT_ID), (''providerId'', JStr ''project-owned''),
     (''surfaceId'', JStr ''local-form''), (''status'', JStr ''accepted''), (''reviewedAt'', JStr ''2026-08-01T00:00:00.000Z''),
     (''expiresAt'', JStr ''2030-01-01T00:00:00.000Z''), (''governingTermsDigest'', JStr LOCAL_DIGEST),
     (''permittedActions'', js_strs [''submit_payload'']), (''prohibitedActions'', JArr [])]"

definition seed :: "app_env \<Rightarrow> (s1_state, unit) act" where
  "seed env = seq_acts
    [seed_project env,
     seed_workspace env ''workspace-a'' ''Workspace A'',
     seed_workspace env ''workspace-b'' ''Workspace B'',
     seed_package LOCAL_PACKAGE_ID ''Local Form Submit'' ''Project-owned deterministic local form capability'',
     seed_version LOCAL_VERSION_ID local_version_input,
     seed_provider env LOCAL_PROVIDER_SNAPSHOT_ID local_contract_input,
     seed_agent env ''workspace-a'' ''agent-a'' ''Agent A'' ''operator'',
     seed_agent env ''workspace-b'' ''agent-b'' ''Agent B'' ''operator'',
     seed_worker ''s1-worker-chrome'' ''workspace-a'' ''chrome'',
     seed_worker ''s1-worker-chromium'' ''workspace-a'' ''chromium'']"

subsection \<open>Installing and granting a capability\<close>

text \<open>A missing argument takes the default of the parameter.\<close>

definition default_js :: "js \<Rightarrow> js \<Rightarrow> js" where
  "default_js v d = (if v = JUndef then d else v)"

definition installCapability :: "app_env \<Rightarrow> js \<Rightarrow> (s1_state, installation) act" where
  "installCapability env input =
    (let w = field input ''workspaceId'';
         packageId = default_js (field input ''packageId'') (JStr LOCAL_PACKAGE_ID);
         version = default_js (field input ''version'') (JStr LOCAL_VERSION);
         i = bounded_id (ae_sha env) ''install'' [w, packageId, version]
     in
     bindS (readS s1_workspaces) (\<lambda>wss.
     bindS (liftS (requireRecord wss w ''Workspace'')) (\<lambda>workspace.
     bindS (readS s1_versions) (\<lambda>vs.
     bindS (liftS (requireRecord vs (JStr (to_string packageId @ ''@'' @ to_string version)) ''Capability version'')) (\<lambda>record.
     bindS (readS (\<lambda>s. mget (s1_installations s) i)) (\<lambda>existing. case existing of
         Some e \<Rightarrow> returnS e
       | None \<Rightarrow>
           bindS (liftS (createCapabilityInstallation (Some workspace) (Some record) (JStr i) (ae_clock env))) (\<lambda>n.
           bindS (modifyS (\<lambda>s. s\<lparr>s1_installations := mset_at (in_id n) n (s1_installations s)\<rparr>)) (\<lambda>_.
           returnS n))))))))"

text \<open>\<open>JSON.stringify([...values].sort())\<close> for the comparison with the stored lists.\<close>

definition sorted_text :: "js \<Rightarrow> string res" where
  "sorted_text values = bindE (as_array values (TypeError ''values is not iterable'')) (\<lambda>vs.
     Inr (json (JArr (sort_by (\<lambda>a b. to_string a \<le> to_string b) vs))))"

definition same_grant :: "grant \<Rightarrow> js \<Rightarrow> js \<Rightarrow> js \<Rightarrow> js \<Rightarrow> js \<Rightarrow> bool res" where
  "same_grant e workspaceId agentId installationId allowedActions allowedTargets =
    (if JStr (gr_workspaceId e) \<noteq> workspaceId \<or> JStr (gr_agentId e) \<noteq> agentId \<or> JStr (gr_installationId e) \<noteq> installationId
     then Inr False
     else bindE (sorted_text (js_strs (gr_allowedActions e))) (\<lambda>a. bindE (sorted_text allowedActions) (\<lambda>a'.
       if a \<noteq> a' then Inr False
       else bindE (sorted_text (js_strs (gr_allowedTargets e))) (\<lambda>t. bindE (sorted_text allowedTargets) (\<lambda>t'. Inr (t = t'))))))"

definition grantCapability :: "app_env \<Rightarrow> js \<Rightarrow> (s1_state, grant) act" where
  "grantCapability env input =
    (let w = field input ''workspaceId''; a = field input ''agentId''; n = field input ''installationId'';
         actions = default_js (field input ''allowedActions'') (js_strs [''submit_payload'']);
         targets = default_js (field input ''allowedTargets'') (js_strs [LOCAL_TARGET]);
         i = bounded_id (ae_sha env) ''grant'' [w, a, n]
     in
     bindS (readS (\<lambda>s. mget (s1_grants s) i)) (\<lambda>existing. case existing of
         Some e \<Rightarrow>
           bindS (liftS (same_grant e w a n actions targets)) (\<lambda>same.
           if \<not> same then throwS (Error (''Grant idempotency collision: '' @ i)) else returnS e)
       | None \<Rightarrow>
           bindS (readS s1_workspaces) (\<lambda>wss. bindS (liftS (requireRecord wss w ''Workspace'')) (\<lambda>workspace.
           bindS (readS s1_agents) (\<lambda>ags. bindS (liftS (requireRecord ags a ''Agent'')) (\<lambda>agent.
           bindS (readS s1_installations) (\<lambda>ins. bindS (liftS (requireRecord ins n ''Installation'')) (\<lambda>inst.
           bindS (liftS (createAgentCapabilityGrant (JStr i) (Some workspace) (Some agent) (Some inst) actions targets
                           (ae_clock env))) (\<lambda>g.
           bindS (modifyS (\<lambda>s. s\<lparr>s1_grants := mset_at (gr_id g) g (s1_grants s)\<rparr>)) (\<lambda>_.
           returnS g))))))))))"

subsection \<open>Tasks\<close>

record created_task =
  ct_task :: s1_task
  ct_run :: "exec_run option"
  ct_gate :: "gate option"

definition task_payload :: "js \<Rightarrow> string" where
  "task_payload input = to_string (or_js (field input ''payload'') (JStr []))"

definition same_task :: "s1_task \<Rightarrow> js \<Rightarrow> bool" where
  "same_task e input \<longleftrightarrow> JStr (tn_workspaceId (tk_node e)) = field input ''workspaceId'' \<and>
     JStr (tn_agentId (tk_node e)) = field input ''agentId'' \<and>
     JStr (tn_installationId (tk_node e)) = field input ''installationId'' \<and>
     JStr (tn_capabilityAction (tk_node e)) = or_js (field input ''capabilityAction'') (JStr ''submit_payload'') \<and>
     JStr (tn_target (tk_node e)) = or_js (field input ''target'') (JStr LOCAL_TARGET) \<and>
     task_payload (tn_input (tk_node e)) = task_payload input"

definition existing_task :: "s1_state \<Rightarrow> s1_task \<Rightarrow> created_task" where
  "existing_task s t = \<lparr>ct_task = t, ct_run = Option.bind (tk_executionRunId t) (run_get (s1_coord s)),
     ct_gate = Option.bind (tk_humanGateId t) (mget (co_gates (s1_coord s)))\<rparr>"

text \<open>The graph and the queued task; both stay stored when the request that follows throws.\<close>

definition open_task :: "app_env \<Rightarrow> js \<Rightarrow> workspace \<Rightarrow> (s1_state, s1_task) act" where
  "open_task env input workspace =
    (let i = field input ''id'';
         graphId = or_js (field input ''graphId'') (JStr (bounded_id (ae_sha env) ''graph'' [field input ''workspaceId'', i]))
     in
     bindS (readS (\<lambda>s. get_js (s1_graphs s) graphId)) (\<lambda>found.
     bindS (case found of Some _ \<Rightarrow> returnS ()
       | None \<Rightarrow>
           bindS (liftS (createExecutionGraph graphId (JStr (ws_id workspace))
               (or_js (field input ''graphName'') (JStr (''Graph for '' @ to_string i))))) (\<lambda>g.
           modifyS (\<lambda>s. s\<lparr>s1_graphs := mset_at (eg_id g) g (s1_graphs s)\<rparr>))) (\<lambda>_.
     bindS (liftS (createTaskNode (JObj [(''id'', i), (''workspaceId'', JStr (ws_id workspace)), (''graphId'', graphId),
         (''agentId'', field input ''agentId''), (''installationId'', field input ''installationId''),
         (''capabilityAction'', or_js (field input ''capabilityAction'') (JStr ''submit_payload'')),
         (''target'', or_js (field input ''target'') (JStr LOCAL_TARGET)),
         (''input'', JObj [(''payload'', JStr (task_payload input))]), (''state'', JStr ''queued'')]))) (\<lambda>node.
     let task = \<lparr>tk_node = node, tk_blockers = [], tk_executionRunId = None, tk_humanGateId = None, tk_resultObserved = False\<rparr> in
     bindS (save_task task) (\<lambda>_. returnS task)))))"

definition active_grant :: "s1_state \<Rightarrow> string \<Rightarrow> string \<Rightarrow> string \<Rightarrow> grant option" where
  "active_grant s workspaceId agentId installationId =
    find (\<lambda>g. gr_workspaceId g = workspaceId \<and> gr_agentId g = agentId \<and> gr_installationId g = installationId
            \<and> gr_status g = ''active'') (mvalues (s1_grants s))"

definition task_request :: "app_env \<Rightarrow> js \<Rightarrow> workspace \<Rightarrow> s1_task \<Rightarrow> s1_state \<Rightarrow> exec_request" where
  "task_request env input workspace task s =
    (let node = tk_node task;
         worker = or_js (field input ''workerId'') (JStr ''s1-worker-chromium'');
         provider = mget (s1_providers s) LOCAL_PROVIDER_SNAPSHOT_ID
     in \<lparr>er_executionRunId = bounded_id (ae_sha env) ''run'' [JStr (tn_workspaceId node), JStr (tn_id node)],
         er_gateId = JStr (bounded_id (ae_sha env) ''gate'' [JStr (tn_workspaceId node), JStr (tn_id node)]),
         er_ready = \<lparr>ri_workspace = Some workspace, ri_agent = mget (s1_agents s) (tn_agentId node),
           ri_installation = mget (s1_installations s) (tn_installationId node),
           ri_grant = active_grant s (ws_id workspace) (tn_agentId node) (tn_installationId node), ri_task = Some node,
           ri_providerSnapshot = provider, ri_currentProviderDigest = map_option ps_snapshotDigest provider,
           ri_nowMs = ae_nowMs env, ri_dependenciesReady = JBool True, ri_resourceConflicts = [],
           ri_recoveryRequired = JUndef, ri_humanGatePolicy = JStr ''action''\<rparr>,
         er_workerId = worker, er_payload = JStr (task_payload input), er_actionClass = JStr ''EXTERNAL_WRITE'',
         er_payloadPreview = JObj [(''payload'', JStr (task_payload input))],
         er_evidenceExpected = js_strs [''local result text'', ''submission count''],
         er_resources = JArr [JObj [(''type'', JStr ''browser_profile''), (''key'', worker)],
           JObj [(''type'', JStr ''provider_surface''), (''key'', JStr (tn_target node))]]\<rparr>)"

definition s1_createTask :: "app_env \<Rightarrow> js \<Rightarrow> (s1_state, created_task) act" where
  "s1_createTask env input =
    bindS (readS s1_workspaces) (\<lambda>wss.
    bindS (liftS (requireRecord wss (field input ''workspaceId'') ''Workspace'')) (\<lambda>workspace.
    bindS (readS (\<lambda>s. get_js (s1_tasks s) (field input ''id''))) (\<lambda>found. case found of
        Some t \<Rightarrow>
          if \<not> same_task t input then throwS (Error (''Task idempotency collision: '' @ to_string (field input ''id'')))
          else readS (\<lambda>s. existing_task s t)
      | None \<Rightarrow>
          bindS (open_task env input workspace) (\<lambda>task.
          bindS (readS (task_request env input workspace task)) (\<lambda>request.
          bindS (in_coord (coord_request (ae_lc env) (ae_legacy env) (ae_clock env) request)) (\<lambda>(created, run, gate).
          let stored = (task_at task (if xr_state run = ''blocked'' then ''waiting_resource'' else ''waiting_human''))
                \<lparr>tk_blockers := xr_blockers run, tk_executionRunId := Some (er_executionRunId request),
                 tk_humanGateId := map_option hg_id gate\<rparr> in
          bindS (save_task stored) (\<lambda>_.
          returnS \<lparr>ct_task = stored, ct_run = Some run, ct_gate = gate\<rparr>)))))))"

subsection \<open>Deciding a Human Gate\<close>

text \<open>The task of a run that has one is saved in the given shape.\<close>

definition update_task :: "string option \<Rightarrow> (s1_task \<Rightarrow> s1_task) \<Rightarrow> (s1_state, unit) act" where
  "update_task i f = bindS (readS (\<lambda>s. Option.bind i (mget (s1_tasks s)))) (\<lambda>found. case found of
      None \<Rightarrow> returnS () | Some t \<Rightarrow> save_task (f t))"

definition cancelled_task :: "s1_task \<Rightarrow> s1_task" where
  "cancelled_task t = (task_at t ''cancelled'')\<lparr>tk_blockers := []\<rparr>"

definition review_task :: "s1_task \<Rightarrow> s1_task" where
  "review_task t = (task_at t ''waiting_human'')\<lparr>tk_blockers := [Blocker ''recovery_requires_review'' JUndef]\<rparr>"

definition observed_task :: "s1_task \<Rightarrow> s1_task" where
  "observed_task t = (task_at t ''waiting_human'')\<lparr>tk_blockers := [], tk_resultObserved := True\<rparr>"

definition s1_reject :: "app_env \<Rightarrow> string \<Rightarrow> (s1_state, bool \<times> exec_run option \<times> gate) act" where
  "s1_reject env gateId =
    bindS (in_coord (coord_reject (ae_clock env) gateId)) (\<lambda>(changed, run, gate). case run of
        None \<Rightarrow> throwS (TypeError ''Cannot read properties of null (reading taskId)'')
      | Some r \<Rightarrow> bindS (update_task (xr_taskId r) cancelled_task) (\<lambda>_. returnS (changed, run, gate)))"

text \<open>The revalidation reads the stored snapshot of the contract the run was requested under.\<close>

definition s1_revalidate :: "app_env \<Rightarrow> s1_state \<Rightarrow> exec_run \<Rightarrow> js_error option" where
  "s1_revalidate env s run = (case xr_providerSnapshot run of
      None \<Rightarrow> Some (TypeError ''Cannot read properties of undefined (reading id)'')
    | Some p \<Rightarrow> service_revalidator (ae_legacy env) (ae_nowMs env) (mget (s1_providers s) (ps_contractId p)) run)"

text \<open>The task and the evidence after an approval that has a result; \<open>execution\<close> is its \<open>execution\<close> field.\<close>

definition result_of :: "js \<Rightarrow> js" where
  "result_of execution = or_js (field execution ''result'') execution"

definition note_result :: "app_env \<Rightarrow> exec_run \<Rightarrow> js \<Rightarrow> (s1_state, unit) act" where
  "note_result env run execution =
    bindS (readS (\<lambda>s. Option.bind (xr_taskId run) (mget (s1_tasks s)))) (\<lambda>found. case found of
        None \<Rightarrow> returnS ()
      | Some t \<Rightarrow>
          if xr_state run \<noteq> ''result_observed'' then returnS ()
          else
            let i = bounded_id (ae_sha env) ''evidence'' [js_opt (xr_workspaceId run), JStr (xr_id run)] in
            bindS (save_task (observed_task t)) (\<lambda>_.
            bindS (readS (\<lambda>s. mget (s1_evidence s) i)) (\<lambda>existing. case existing of Some _ \<Rightarrow> returnS ()
              | None \<Rightarrow> modifyS (\<lambda>s. s\<lparr>s1_evidence := mset_at i
                  \<lparr>ev_id = i, ev_workspaceId = xr_workspaceId run, ev_taskId = xr_taskId run, ev_executionRunId = Some (xr_id run),
                   ev_workerId = xr_workerId run, ev_missionRunId = None, ev_stepAttemptId = None, ev_stepId = None,
                   ev_type = JStr ''local-result'', ev_observedAt = ae_clock env, ev_result = result_of execution\<rparr>
                  (s1_evidence s)\<rparr>))))"

text \<open>The handler of a failed approval: the task is put under review, the exception goes on.\<close>

definition review_after :: "string \<Rightarrow> (s1_state, unit) act" where
  "review_after gateId =
    bindS (readS (\<lambda>s. Option.bind (mget (co_gates (s1_coord s)) gateId) (\<lambda>g. run_get (s1_coord s) (hg_executionRunId g)))) (\<lambda>run.
      case run of None \<Rightarrow> returnS () | Some r \<Rightarrow> update_task (xr_taskId r) review_task)"

definition catchS :: "('s, 'a) act \<Rightarrow> (js_error \<Rightarrow> ('s, 'a) act) \<Rightarrow> ('s, 'a) act" where
  "catchS m h s = (case m s of (s', Inl e) \<Rightarrow> h e s' | (s', Inr x) \<Rightarrow> (s', Inr x))"

definition recovered_gate :: "s1_state \<Rightarrow> string \<Rightarrow> bool" where
  "recovered_gate s gateId \<longleftrightarrow>
    (case Option.bind (mget (co_gates (s1_coord s)) gateId) (\<lambda>g. run_get (s1_coord s) (hg_executionRunId g)) of
       None \<Rightarrow> False | Some r \<Rightarrow> xr_recoveryReason r \<notin> {None, Some []})"

definition s1_approve_begin :: "app_env \<Rightarrow> string \<Rightarrow> (s1_state, approval) act" where
  "s1_approve_begin env gateId =
    bindS (readS (\<lambda>s. recovered_gate s gateId)) (\<lambda>recovered.
    if recovered then throwS (Error ''Recovered or uncertain execution cannot be replayed; create a new reviewed task'')
    else catchS
      (bindS (readS (s1_revalidate env)) (\<lambda>revalidate.
       bindS (in_coord (approve_begin (ae_clock env) revalidate gateId)) (\<lambda>a. case a of
           AlreadyStarted run gate \<Rightarrow> bindS (note_result env run (or_js (xr_execution run) JNull)) (\<lambda>_. returnS a)
         | Started run gate \<Rightarrow> returnS a)))
      (\<lambda>e. bindS (review_after gateId) (\<lambda>_. throwS e)))"

definition s1_approve_finish :: "app_env \<Rightarrow> string \<Rightarrow> exec_run \<Rightarrow> js_error + js \<Rightarrow> (s1_state, exec_run) act" where
  "s1_approve_finish env gateId run outcome = catchS
    (bindS (in_coord (approve_finish (ae_clock env) run outcome)) (\<lambda>completed.
     bindS (note_result env completed (xr_execution completed)) (\<lambda>_.
     returnS completed)))
    (\<lambda>e. bindS (review_after gateId) (\<lambda>_. throwS e))"

subsection \<open>Restart\<close>

fun review_tasks :: "exec_run list \<Rightarrow> (s1_state, unit) act" where
  "review_tasks [] = returnS ()"
| "review_tasks (r # rs) = bindS (update_task (xr_taskId r) review_task) (\<lambda>_. review_tasks rs)"

definition s1_recoverUncertain :: "(s1_state, exec_run list) act" where
  "s1_recoverUncertain = bindS (in_coord coord_recoverUncertain) (\<lambda>recovered.
     bindS (review_tasks recovered) (\<lambda>_. returnS recovered))"

text \<open>The constructor over a store that was written before: seeds, locks, recovery.\<close>

definition s1_restart :: "app_env \<Rightarrow> (s1_state, unit) act" where
  "s1_restart env =
    bindS (seed env) (\<lambda>_.
    bindS (readS (\<lambda>s. rehydrateLocks (ae_lc env) (s1_coord s))) (\<lambda>restored.
    bindS (liftS restored) (\<lambda>locks.
    bindS (modifyS (\<lambda>s. s\<lparr>s1_coord := (s1_coord s)\<lparr>co_locks := locks\<rparr>\<rparr>)) (\<lambda>_.
    bindS s1_recoverUncertain (\<lambda>_. returnS ())))))"

end
