(* ===== verification/MissionService.thy ===== *)
theory MissionService
  imports S1Service Handoffs
begin

text \<open>
  The S2 mission service (\<open>src/application/s2-application-service.cjs\<close>), first part: its
  repositories, creating missions and revisions, the execution of a local step with its
  outputs, evidence and handoffs, the scheduling of an external step over the S1 service, and
  the evaluation loop of a run.  The S1 service is a part of the state; a repository is a map
  by id whose writes do not fail, without the revision counters of its records.
\<close>

subsection \<open>State\<close>

record s2_mission =
  ms_mission :: mission
  ms_objective :: string
  ms_draftRevisionId :: string

record draft_revision =
  dv_id :: string
  dv_missionId :: string
  dv_workspaceId :: string
  dv_objective :: string
  dv_createdAt :: string

text \<open>A planned revision carries its integration digest and its status beside the model's fields.\<close>

datatype s2_revision = Draft draft_revision | Planned mission_revision string string

record s2_step =
  ss_step :: plan_step
  ss_workerId :: js
  ss_payload :: string
  ss_executionMode :: string

record s2_plan =
  sp_plan :: exec_plan
  sp_steps :: "s2_step list"
  sp_bindings :: "step_binding list"
  sp_integrationDigest :: string

record s2_attempt =
  sa_attempt :: step_attempt
  sa_humanGateId :: "string option"
  sa_blockers :: "blocker list"
  sa_workerId :: js

record s2_state =
  s2_s1 :: s1_state
  s2_missions :: "(string, s2_mission) jsmap"
  s2_revisions :: "(string, s2_revision) jsmap"
  s2_plans :: "(string, s2_plan) jsmap"
  s2_bindings :: "(string, step_binding) jsmap"
  s2_runs :: "(string, mission_run) jsmap"
  s2_attempts :: "(string, s2_attempt) jsmap"
  s2_outputs :: "(string, step_output) jsmap"
  s2_handoffs :: "(string, agent_handoff) jsmap"
  s2_events :: "app_event list"

definition s2_empty :: s2_state where
  "s2_empty = \<lparr>s2_s1 = s1_empty, s2_missions = [], s2_revisions = [], s2_plans = [], s2_bindings = [], s2_runs = [],
     s2_attempts = [], s2_outputs = [], s2_handoffs = [], s2_events = []\<rparr>"

definition LOCAL_TRANSFORM_PACKAGE_ID :: string where "LOCAL_TRANSFORM_PACKAGE_ID = ''local.mission-transform''"
definition LOCAL_TRANSFORM_VERSION :: string where "LOCAL_TRANSFORM_VERSION = ''1.0.0''"
definition LOCAL_TRANSFORM_VERSION_ID :: string where
  "LOCAL_TRANSFORM_VERSION_ID = LOCAL_TRANSFORM_PACKAGE_ID @ ''@'' @ LOCAL_TRANSFORM_VERSION"
definition LOCAL_TRANSFORM_PROVIDER_ID :: string where "LOCAL_TRANSFORM_PROVIDER_ID = ''provider-local-transform''"
definition LOCAL_TRANSFORM_DIGEST :: string where "LOCAL_TRANSFORM_DIGEST = ''sha256:'' @ replicate 64 (CHR ''b'')"

text \<open>An operation of the S1 service, on its part of the state.\<close>

definition in_s1 :: "(s1_state, 'a) act \<Rightarrow> (s2_state, 'a) act" where
  "in_s1 m s = (case m (s2_s1 s) of (t, r) \<Rightarrow> (s\<lparr>s2_s1 := t\<rparr>, r))"

definition appendS2Event :: "app_event \<Rightarrow> (s2_state, unit) act" where
  "appendS2Event e s = (case put_event e (s2_events s) of Inl er \<Rightarrow> (s, Inl er) | Inr log \<Rightarrow> (s\<lparr>s2_events := log\<rparr>, Inr ()))"

text \<open>Every S2 event has the key \<open>type:suffix\<close>.\<close>

definition s2_event :: "string \<Rightarrow> string \<Rightarrow> string \<Rightarrow> string \<Rightarrow> string \<Rightarrow> (string \<times> js) list \<Rightarrow> app_event" where
  "s2_event type ws aggregateType aggregateId suffix payload =
    \<lparr>ap_workspaceId = ws, ap_type = type, ap_aggregateType = aggregateType, ap_aggregateId = aggregateId,
     ap_idempotencyKey = type @ '':'' @ suffix, ap_payload = JObj payload\<rparr>"

subsection \<open>Seeding\<close>

definition transform_version_input :: js where
  "transform_version_input = JObj [(''packageId'', JStr LOCAL_TRANSFORM_PACKAGE_ID), (''version'', JStr LOCAL_TRANSFORM_VERSION),
     (''integrityDigest'', JStr LOCAL_TRANSFORM_DIGEST), (''inputSchema'', JObj [(''type'', JStr ''object'')]),
     (''outputSchema'', JObj [(''type'', JStr ''object'')]), (''evidenceRequirements'', js_strs [''local-transform-evidence'']),
     (''resourceRequirements'', JArr []), (''providerContractIds'', js_strs [LOCAL_TRANSFORM_PROVIDER_ID]),
     (''humanGatePolicy'', JStr ''never'')]"

definition transform_contract_input :: js where
  "transform_contract_input = JObj [(''contractId'', JStr LOCAL_TRANSFORM_PROVIDER_ID), (''providerId'', JStr ''project-owned''),
     (''surfaceId'', JStr ''local-mission-transform''), (''status'', JStr ''accepted''),
     (''reviewedAt'', JStr ''2026-08-01T00:00:00.000Z''), (''expiresAt'', JStr ''2030-01-01T00:00:00.000Z''),
     (''governingTermsDigest'', JStr LOCAL_TRANSFORM_DIGEST),
     (''permittedActions'', js_strs [''transform_payload'', ''join_payload'']), (''prohibitedActions'', JArr [])]"

definition seedS2 :: "app_env \<Rightarrow> (s2_state, unit) act" where
  "seedS2 env =
    bindS (readS (\<lambda>s. mget (s1_workspaces (s2_s1 s)) ''workspace-a'')) (\<lambda>workspace.
    in_s1 (seq_acts
      ((if workspace = None then [] else [seed_agent env ''workspace-a'' ''agent-a2'' ''Agent A2'' ''local-transform'']) @
       [seed_package LOCAL_TRANSFORM_PACKAGE_ID ''Local Mission Transform''
          ''Deterministic project-owned transform and join capability for S2 mission handoff validation'',
        seed_version LOCAL_TRANSFORM_VERSION_ID transform_version_input,
        seed_provider env LOCAL_TRANSFORM_PROVIDER_ID transform_contract_input])))"

subsection \<open>Missions\<close>

definition input_objective :: "js \<Rightarrow> string" where
  "input_objective input = to_string (or_js (field input ''objective'') (JStr []))"

definition s2_createMission :: "app_env \<Rightarrow> js \<Rightarrow> (s2_state, s2_mission \<times> s2_revision option) act" where
  "s2_createMission env input =
    bindS (readS (\<lambda>s. s1_workspaces (s2_s1 s))) (\<lambda>wss.
    bindS (liftS (requireRecord wss (field input ''workspaceId'') ''Workspace'')) (\<lambda>workspace.
    let i = or_js (field input ''id'') (JStr (bounded_id (ae_sha env) ''mission''
              [JStr (ws_id workspace), or_js (field input ''idempotencyKey'') (field input ''title'')])) in
    bindS (readS (\<lambda>s. get_js (s2_missions s) i)) (\<lambda>existing. case existing of
        Some m \<Rightarrow>
          if mi_workspaceId (ms_mission m) \<noteq> ws_id workspace \<or> JStr (mi_title (ms_mission m)) \<noteq> field input ''title''
             \<or> ms_objective m \<noteq> input_objective input
          then throwS (Error (''Mission idempotency collision: '' @ to_string i))
          else readS (\<lambda>s. (m, mget (s2_revisions s) (ms_draftRevisionId m)))
      | None \<Rightarrow>
          bindS (liftS (createMission (ae_clock env) (JObj [(''id'', i), (''workspaceId'', JStr (ws_id workspace)),
              (''title'', field input ''title''), (''createdAt'', JStr (ae_clock env))]))) (\<lambda>base.
          let m = \<lparr>ms_mission = base, ms_objective = input_objective input,
                ms_draftRevisionId = bounded_id (ae_sha env) ''missionrev'' [i, JStr ''draft'']\<rparr>;
              d = \<lparr>dv_id = ms_draftRevisionId m, dv_missionId = mi_id base, dv_workspaceId = ws_id workspace,
                dv_objective = input_objective input, dv_createdAt = ae_clock env\<rparr> in
          bindS (modifyS (\<lambda>s. s\<lparr>s2_missions := mset_at (mi_id base) m (s2_missions s),
                               s2_revisions := mset_at (dv_id d) (Draft d) (s2_revisions s)\<rparr>)) (\<lambda>_.
          bindS (appendS2Event (s2_event ''mission.created'' (ws_id workspace) ''mission'' (mi_id base) (mi_id base)
              [(''missionId'', JStr (mi_id base))])) (\<lambda>_.
          returnS (m, Some (Draft d))))))))"

subsection \<open>Revisions\<close>

definition validateBinding :: "app_env \<Rightarrow> s1_state \<Rightarrow> step_binding \<Rightarrow> unit res" where
  "validateBinding env s b =
    bindE (requireRecord (s1_workspaces s) (JStr (sb_workspaceId b)) ''Workspace'') (\<lambda>workspace.
    bindE (requireRecord (s1_agents s) (JStr (sb_agentId b)) ''Agent'') (\<lambda>agent.
    bindE (requireRecord (s1_installations s) (JStr (sb_installationId b)) ''Installation'') (\<lambda>inst.
    bindE (requireRecord (s1_versions s) (JStr (sb_capabilityVersionId b)) ''Capability version'') (\<lambda>version.
    if in_packageId inst \<noteq> cv_packageId version \<or> in_version inst \<noteq> cv_version version
       \<or> in_integrityDigest inst \<noteq> cv_integrityDigest version
    then Inl (Error ''Step binding capability installation/version mismatch'')
    else
      bindE (assertGrantAllows (Some workspace) (Some agent) (Some inst)
               (active_grant s (ws_id workspace) (ag_id agent) (in_id inst)) (JStr (sb_action b)) (JStr (sb_target b))) (\<lambda>_.
      bindE (requireRecord (s1_providers s) (JStr (sb_providerSnapshotId b)) ''Provider snapshot'') (\<lambda>snapshot.
      bindE (assertProviderSnapshotAllows (ae_legacy env) (Some snapshot) (JStr (sb_action b)) (ae_nowMs env)) (\<lambda>_.
      Inr ())))))))"

definition local_target :: "string \<Rightarrow> bool" where
  "local_target target = startsWith target ''local://''"

text \<open>One element of \<open>input.steps\<close>; \<open>revisionId\<close> and \<open>planId\<close> are the ids of the new revision.\<close>

definition build_binding :: "app_env \<Rightarrow> js \<Rightarrow> js \<Rightarrow> js \<Rightarrow> string \<Rightarrow> step_binding res" where
  "build_binding env input revisionId raw target =
    createStepBinding (JObj [
      (''id'', or_js (field raw ''bindingId'') (JStr (bounded_id (ae_sha env) ''binding'' [revisionId, field raw ''id'']))),
      (''workspaceId'', field input ''workspaceId''), (''agentId'', field raw ''agentId''),
      (''installationId'', field raw ''installationId''), (''capabilityVersionId'', field raw ''capabilityVersionId''),
      (''action'', JStr (to_string (or_js (field raw ''action'') (JStr [])))), (''target'', JStr target),
      (''providerSnapshotId'', or_js (field raw ''providerSnapshotId'')
         (JStr (if local_target target then LOCAL_TRANSFORM_PROVIDER_ID else LOCAL_PROVIDER_SNAPSHOT_ID)))])"

definition build_step :: "app_env \<Rightarrow> s1_state \<Rightarrow> js \<Rightarrow> js \<Rightarrow> js \<Rightarrow> js \<Rightarrow> (s2_step \<times> step_binding) res" where
  "build_step env s input revisionId planId raw =
    bindE (fieldE raw ''target'') (\<lambda>rawTarget.
    let target = to_string (or_js rawTarget (JStr [])) in
    bindE (build_binding env input revisionId raw target) (\<lambda>binding.
    bindE (validateBinding env s binding) (\<lambda>_.
    bindE (createPlanStep (JObj [(''id'', field raw ''id''), (''planId'', planId), (''workspaceId'', field input ''workspaceId''),
        (''name'', or_js (field raw ''name'') (field raw ''id'')), (''bindingId'', JStr (sb_id binding)),
        (''dependsOn'', or_js (field raw ''dependsOn'') (JArr [])), (''declaredInputs'', or_js (field raw ''declaredInputs'') (JArr [])),
        (''declaredOutputs'', or_js (field raw ''declaredOutputs'') (JArr [])),
        (''evidenceRequirements'', or_js (field raw ''evidenceRequirements'') (JArr [])),
        (''humanGatePolicy'', or_js (field raw ''humanGatePolicy'') (JStr (if local_target target then ''never'' else ''action''))),
        (''resourceRequirements'', or_js (field raw ''resourceRequirements'') (JArr []))])) (\<lambda>step.
    Inr (\<lparr>ss_step = step, ss_workerId = or_js (field raw ''workerId'') JNull,
          ss_payload = (if field raw ''payload'' = JUndef then [] else to_string (field raw ''payload'')),
          ss_executionMode = (if local_target target then ''local'' else ''s1'')\<rparr>, binding)))))"

definition binding_js :: "step_binding \<Rightarrow> js" where
  "binding_js b = JObj [(''id'', JStr (sb_id b)), (''workspaceId'', JStr (sb_workspaceId b)), (''agentId'', JStr (sb_agentId b)),
     (''installationId'', JStr (sb_installationId b)), (''capabilityVersionId'', JStr (sb_capabilityVersionId b)),
     (''action'', JStr (sb_action b)), (''target'', JStr (sb_target b)), (''providerSnapshotId'', JStr (sb_providerSnapshotId b))]"

definition s2_step_js :: "s2_step \<Rightarrow> js" where
  "s2_step_js s = (let p = ss_step s in JObj [(''id'', JStr (st_id p)), (''planId'', JStr (st_planId p)),
     (''workspaceId'', JStr (st_workspaceId p)), (''name'', JStr (st_name p)), (''bindingId'', JStr (st_bindingId p)),
     (''dependsOn'', js_strs (st_dependsOn p)), (''declaredInputs'', JArr (st_declaredInputs p)),
     (''declaredOutputs'', JArr (st_declaredOutputs p)), (''evidenceRequirements'', JArr (st_evidenceRequirements p)),
     (''humanGatePolicy'', JStr (st_humanGatePolicy p)), (''resourceRequirements'', JArr (st_resourceRequirements p)),
     (''workerId'', ss_workerId s), (''payload'', JStr (ss_payload s)), (''executionMode'', JStr (ss_executionMode s))])"

definition integration_digest :: "app_env \<Rightarrow> js \<Rightarrow> s2_step list \<Rightarrow> step_binding list \<Rightarrow> string list \<Rightarrow> string" where
  "integration_digest env objective steps bindings terminals =
    digest (ae_sha env) (JObj [(''objective'', objective), (''steps'', JArr (map s2_step_js steps)),
      (''bindings'', JArr (map binding_js bindings)), (''terminalStepIds'', js_strs terminals)])"

text \<open>\<open>Number(v)\<close>; a numeral that is no integer is refused later like \<open>NaN\<close>.\<close>

definition number_js :: "js \<Rightarrow> js" where
  "number_js v = (case v of JDbl s \<Rightarrow> JDbl s
     | _ \<Rightarrow> (case to_integer v of Some n \<Rightarrow> JNum n | None \<Rightarrow> JDbl ''NaN''))"

definition next_revision :: "s2_state \<Rightarrow> string \<Rightarrow> int" where
  "next_revision s missionId =
    (let ns = concat (map (\<lambda>r. case r of Planned b _ _ \<Rightarrow> if mr_missionId b = missionId \<and> 0 < mr_revision b then [mr_revision b] else []
                | Draft _ \<Rightarrow> []) (mvalues (s2_revisions s)))
     in case ns of [] \<Rightarrow> 1 | n # ns \<Rightarrow> fold max ns n + 1)"

fun save_bindings :: "app_env \<Rightarrow> step_binding list \<Rightarrow> (s2_state, unit) act" where
  "save_bindings env [] = returnS ()"
| "save_bindings env (b # bs) =
     bindS (readS (\<lambda>s. mget (s2_bindings s) (sb_id b))) (\<lambda>current. case current of
         Some c \<Rightarrow>
           if digest (ae_sha env) (binding_js c) \<noteq> digest (ae_sha env) (binding_js b)
           then throwS (Error (''Step binding idempotency collision: '' @ sb_id b))
           else save_bindings env bs
       | None \<Rightarrow>
           bindS (modifyS (\<lambda>s. s\<lparr>s2_bindings := mset_at (sb_id b) b (s2_bindings s)\<rparr>)) (\<lambda>_.
           save_bindings env bs))"

text \<open>The ids, steps and bindings of a revision, computed before anything is stored.\<close>

record revision_draft =
  rd_revisionId :: js
  rd_planId :: js
  rd_number :: js
  rd_steps :: "s2_step list"
  rd_bindings :: "step_binding list"
  rd_plan :: exec_plan
  rd_digest :: string

definition draft_revision_of :: "app_env \<Rightarrow> js \<Rightarrow> s2_mission \<Rightarrow> js list \<Rightarrow> s2_state \<Rightarrow> revision_draft res" where
  "draft_revision_of env input m raws s =
    (let number = number_js (or_js (field input ''revision'') (JNum (next_revision s (mi_id (ms_mission m)))));
         revisionId = or_js (field input ''id'')
           (JStr (bounded_id (ae_sha env) ''missionrev'' [JStr (mi_id (ms_mission m)), number]));
         planId = or_js (field input ''planId'') (JStr (bounded_id (ae_sha env) ''missionplan'' [revisionId]))
     in
     bindE (mapE (build_step env (s2_s1 s) input revisionId planId) raws) (\<lambda>built.
     let steps = map fst built; bindings = map snd built in
     bindE (createExecutionPlan (ae_sha env) (ae_lc env) (JObj [(''id'', planId), (''missionRevisionId'', revisionId),
         (''workspaceId'', field input ''workspaceId''),
         (''terminalStepIds'', or_js (field input ''terminalStepIds'') (js_strs [st_id (ss_step (last steps))]))])
       (map (\<lambda>x. Built (ss_step x)) steps) bindings) (\<lambda>plan.
     Inr \<lparr>rd_revisionId = revisionId, rd_planId = planId, rd_number = number, rd_steps = steps, rd_bindings = bindings,
       rd_plan = plan, rd_digest = integration_digest env (field input ''objective'') steps bindings (pl_terminalStepIds plan)\<rparr>)))"

definition store_revision :: "app_env \<Rightarrow> js \<Rightarrow> s2_mission \<Rightarrow> revision_draft \<Rightarrow> (s2_state, s2_mission \<times> s2_revision \<times> s2_plan option) act" where
  "store_revision env input m rd =
    (let plan = \<lparr>sp_plan = rd_plan rd, sp_steps = rd_steps rd, sp_bindings = rd_bindings rd, sp_integrationDigest = rd_digest rd\<rparr> in
     bindS (save_bindings env (rd_bindings rd)) (\<lambda>_.
     bindS (modifyS (\<lambda>s. s\<lparr>s2_plans := mset_at (pl_id (rd_plan rd)) plan (s2_plans s)\<rparr>)) (\<lambda>_.
     bindS (liftS (createMissionRevision (ae_sha env) (ae_clock env) (JObj [(''id'', rd_revisionId rd),
         (''missionId'', JStr (mi_id (ms_mission m))), (''workspaceId'', JStr (mi_workspaceId (ms_mission m))),
         (''revision'', rd_number rd), (''objective'', field input ''objective''), (''planId'', rd_planId rd),
         (''createdAt'', JStr (ae_clock env))]))) (\<lambda>base.
     let revision = Planned base (rd_digest rd) ''ready'';
         selected = m\<lparr>ms_mission := (ms_mission m)\<lparr>mi_currentRevisionId := JStr (mr_id base), mi_updatedAt := JStr (ae_clock env)\<rparr>\<rparr>
     in
     bindS (modifyS (\<lambda>s. s\<lparr>s2_revisions := mset_at (mr_id base) revision (s2_revisions s),
                          s2_missions := mset_at (mi_id (ms_mission m)) selected (s2_missions s)\<rparr>)) (\<lambda>_.
     bindS (appendS2Event (s2_event ''mission.revision_created'' (mi_workspaceId (ms_mission m)) ''mission'' (mi_id (ms_mission m))
         (mr_id base) [(''revisionId'', JStr (mr_id base)), (''planId'', JStr (pl_id (rd_plan rd))),
           (''integrationDigest'', JStr (rd_digest rd))])) (\<lambda>_.
     returnS (selected, revision, Some plan)))))))"

definition s2_createRevision :: "app_env \<Rightarrow> js \<Rightarrow> (s2_state, s2_mission \<times> s2_revision \<times> s2_plan option) act" where
  "s2_createRevision env input =
    bindS (readS s2_missions) (\<lambda>ms.
    bindS (liftS (requireRecord ms (field input ''missionId'') ''Mission'')) (\<lambda>m.
    if JStr (mi_workspaceId (ms_mission m)) \<noteq> field input ''workspaceId''
    then throwS (Error ''Cross-Workspace Mission revision denied'')
    else case field input ''steps'' of JArr raws \<Rightarrow>
      if raws = [] then throwS (TypeError ''Mission revision requires steps'')
      else
        bindS (readS (draft_revision_of env input m raws)) (\<lambda>drafted.
        bindS (liftS drafted) (\<lambda>rd.
        bindS (readS (\<lambda>s. get_js (s2_revisions s) (rd_revisionId rd))) (\<lambda>existing. case existing of
            None \<Rightarrow> store_revision env input m rd
          | Some (Draft d) \<Rightarrow> throwS (Error (''Mission revision idempotency collision: '' @ to_string (rd_revisionId rd)))
          | Some (Planned base dg st) \<Rightarrow>
              if dg \<noteq> rd_digest rd
              then throwS (Error (''Mission revision idempotency collision: '' @ to_string (rd_revisionId rd)))
              else readS (\<lambda>s. (m, Planned base dg st, mget (s2_plans s) (mr_planId base))))))
    | _ \<Rightarrow> throwS (TypeError ''Mission revision requires steps'')))"

subsection \<open>Attempts of a run\<close>

definition attempts_of :: "s2_state \<Rightarrow> string \<Rightarrow> s2_attempt list" where
  "attempts_of s runId = filter (\<lambda>a. at_missionRunId (sa_attempt a) = runId) (mvalues (s2_attempts s))"

definition handoffs_of :: "s2_state \<Rightarrow> string \<Rightarrow> agent_handoff list" where
  "handoffs_of s runId = filter (\<lambda>h. ho_missionRunId h = runId) (mvalues (s2_handoffs s))"

definition latest_of :: "s2_state \<Rightarrow> string \<Rightarrow> string \<Rightarrow> step_attempt option" where
  "latest_of s runId stepId = latestAttempt (map sa_attempt (attempts_of s runId)) stepId"

text \<open>\<open>missionRun.get(id)\<close>: a record is stored under its own id.\<close>

definition run_at :: "s2_state \<Rightarrow> string \<Rightarrow> mission_run option" where
  "run_at s runId = find (\<lambda>r. run_id r = runId) (mvalues (s2_runs s))"

definition ready_of :: "app_env \<Rightarrow> s2_state \<Rightarrow> mission_run \<Rightarrow> s2_plan \<Rightarrow> string list" where
  "ready_of env s run plan =
    fst (deriveReadySet (ae_lc env) run (map ss_step (sp_steps plan)) (map sa_attempt (attempts_of s (run_id run)))
           (map handoff_ref_of (handoffs_of s (run_id run))) (\<lambda>_. JNull))"

definition save_attempt :: "s2_attempt \<Rightarrow> (s2_state, unit) act" where
  "save_attempt a = modifyS (\<lambda>s. s\<lparr>s2_attempts := mset_at (at_id (sa_attempt a)) a (s2_attempts s)\<rparr>)"

definition move_attempt :: "app_env \<Rightarrow> string \<Rightarrow> string \<Rightarrow> s2_attempt \<Rightarrow> s2_attempt res" where
  "move_attempt env reason st a =
    bindE (transitionAttempt (ae_clock env) (JStr reason) (sa_attempt a) st) (\<lambda>x. Inr (a\<lparr>sa_attempt := x\<rparr>))"

text \<open>\<open>transitionAttempt\<close>, then \<open>stepAttempt.save\<close>.\<close>

definition shift_attempt :: "app_env \<Rightarrow> string \<Rightarrow> string \<Rightarrow> s2_attempt \<Rightarrow> (s2_state, s2_attempt) act" where
  "shift_attempt env reason st a =
    bindS (liftS (move_attempt env reason st a)) (\<lambda>a'. bindS (save_attempt a') (\<lambda>_. returnS a'))"

definition save_run2 :: "mission_run \<Rightarrow> (s2_state, unit) act" where
  "save_run2 r = modifyS (\<lambda>s. s\<lparr>s2_runs := mset_at (run_id r) r (s2_runs s)\<rparr>)"

definition shift_run :: "app_env \<Rightarrow> js \<Rightarrow> string \<Rightarrow> mission_run \<Rightarrow> (s2_state, mission_run) act" where
  "shift_run env reason st r =
    bindS (liftS (transitionRun (ae_clock env) reason r st)) (\<lambda>r'. bindS (save_run2 r') (\<lambda>_. returnS r'))"

subsection \<open>Outputs, evidence and handoffs\<close>

definition attempt_event :: "string \<Rightarrow> step_attempt \<Rightarrow> (string \<times> js) list \<Rightarrow> app_event" where
  "attempt_event type a payload = s2_event type (at_workspaceId a) ''stepAttempt'' (at_id a) (at_id a) payload"

definition evidence_id :: "app_env \<Rightarrow> step_attempt \<Rightarrow> js \<Rightarrow> string" where
  "evidence_id env a requirement = bounded_id (ae_sha env) ''evidence'' [JStr (at_id a), requirement]"

fun record_outputs :: "app_env \<Rightarrow> step_attempt \<Rightarrow> s2_step \<Rightarrow> js \<Rightarrow> js list \<Rightarrow> (s2_state, unit) act" where
  "record_outputs env a step value [] = returnS ()"
| "record_outputs env a step value (name # names) =
     (let outputId = bounded_id (ae_sha env) ''stepoutput'' [JStr (at_id a), name] in
      bindS (readS (\<lambda>s. mget (s2_outputs s) outputId)) (\<lambda>existing.
      bindS (case existing of Some _ \<Rightarrow> returnS ()
        | None \<Rightarrow>
            bindS (liftS (createStepOutput (ae_clock env) (JObj [(''id'', JStr outputId),
                (''workspaceId'', JStr (at_workspaceId a)), (''missionRunId'', JStr (at_missionRunId a)),
                (''stepAttemptId'', JStr (at_id a)), (''outputName'', name),
                (''schemaDigest'', JStr (digest (ae_sha env) (JObj [(''outputName'', name)]))), (''value'', value),
                (''evidenceIds'', js_strs (map (evidence_id env a) (st_evidenceRequirements (ss_step step)))),
                (''createdAt'', JStr (ae_clock env))]))) (\<lambda>out.
            modifyS (\<lambda>s. s\<lparr>s2_outputs := mset_at (so_id out) out (s2_outputs s)\<rparr>))) (\<lambda>_.
      bindS (appendS2Event (s2_event ''step.output_recorded'' (at_workspaceId a) ''stepAttempt'' (at_id a) outputId
          [(''stepId'', JStr (st_id (ss_step step))), (''outputId'', JStr outputId), (''outputName'', name)])) (\<lambda>_.
      record_outputs env a step value names))))"

fun record_evidence :: "app_env \<Rightarrow> step_attempt \<Rightarrow> s2_step \<Rightarrow> js \<Rightarrow> js list \<Rightarrow> (s2_state, unit) act" where
  "record_evidence env a step value [] = returnS ()"
| "record_evidence env a step value (requirement # rs) =
     (let i = evidence_id env a requirement in
      bindS (in_s1 (modifyS (\<lambda>s. case mget (s1_evidence s) i of Some _ \<Rightarrow> s
        | None \<Rightarrow> s\<lparr>s1_evidence := mset_at i
            \<lparr>ev_id = i, ev_workspaceId = Some (at_workspaceId a), ev_taskId = None, ev_executionRunId = None, ev_workerId = JUndef,
             ev_missionRunId = Some (at_missionRunId a), ev_stepAttemptId = Some (at_id a), ev_stepId = Some (st_id (ss_step step)),
             ev_type = requirement, ev_observedAt = ae_clock env, ev_result = value\<rparr> (s1_evidence s)\<rparr>))) (\<lambda>_.
      record_evidence env a step value rs))"

definition recordOutputsAndEvidence :: "app_env \<Rightarrow> step_attempt \<Rightarrow> s2_step \<Rightarrow> js \<Rightarrow> (s2_state, unit) act" where
  "recordOutputsAndEvidence env a step value =
    bindS (record_outputs env a step value (filter truthy (map declaredName (st_declaredOutputs (ss_step step))))) (\<lambda>_.
    record_evidence env a step value (st_evidenceRequirements (ss_step step)))"

definition record_handoff :: "app_env \<Rightarrow> step_attempt \<Rightarrow> plan_step \<Rightarrow> step_output list \<Rightarrow> plan_step \<Rightarrow> js \<Rightarrow> (s2_state, unit) act" where
  "record_handoff env a source outputs target descriptor =
    (if field descriptor ''fromStepId'' \<noteq> JStr (st_id source) then returnS ()
     else case find (\<lambda>o'. strict_eq_str (field descriptor ''outputName'') (so_outputName o')) outputs of
       None \<Rightarrow> returnS ()
     | Some output \<Rightarrow>
         let i = bounded_id (ae_sha env) ''handoff''
               [JStr (at_missionRunId a), JStr (st_id source), JStr (st_id target), field descriptor ''name''] in
         bindS (readS (\<lambda>s. mget (s2_handoffs s) i)) (\<lambda>existing. case existing of Some _ \<Rightarrow> returnS ()
           | None \<Rightarrow>
               bindS (liftS (createAgentHandoff (ae_clock env) (JObj [(''id'', JStr i), (''workspaceId'', JStr (at_workspaceId a)),
                   (''missionRunId'', JStr (at_missionRunId a)), (''inputName'', field descriptor ''name''),
                   (''createdAt'', JStr (ae_clock env))]) (Some source) (Some target) (Some output))) (\<lambda>h.
               bindS (modifyS (\<lambda>s. s\<lparr>s2_handoffs := mset_at (ho_id h) h (s2_handoffs s)\<rparr>)) (\<lambda>_.
               appendS2Event (s2_event ''agent.handoff_recorded'' (at_workspaceId a) ''missionRun'' (at_missionRunId a) (ho_id h)
                 [(''handoffId'', JStr (ho_id h)), (''outputId'', JStr (so_id output)),
                  (''fromStepAttemptId'', JStr (at_id a)), (''toStepId'', JStr (st_id target))])))))"

fun record_handoffs :: "app_env \<Rightarrow> step_attempt \<Rightarrow> plan_step \<Rightarrow> step_output list \<Rightarrow> (plan_step \<times> js) list \<Rightarrow> (s2_state, unit) act" where
  "record_handoffs env a source outputs [] = returnS ()"
| "record_handoffs env a source outputs ((target, descriptor) # rest) =
     bindS (record_handoff env a source outputs target descriptor) (\<lambda>_. record_handoffs env a source outputs rest)"

definition handoff_targets :: "plan_step \<Rightarrow> s2_plan \<Rightarrow> (plan_step \<times> js) list" where
  "handoff_targets source plan = concat (map (\<lambda>t. map (\<lambda>d. (ss_step t, d)) (st_declaredInputs (ss_step t)))
     (filter (\<lambda>t. st_id source \<in> set (st_dependsOn (ss_step t))) (sp_steps plan)))"

definition recordHandoffsForCompletedAttempt :: "app_env \<Rightarrow> step_attempt \<Rightarrow> s2_step \<Rightarrow> s2_plan \<Rightarrow> (s2_state, unit) act" where
  "recordHandoffsForCompletedAttempt env a source plan =
    bindS (readS (\<lambda>s. filter (\<lambda>x. so_stepAttemptId x = at_id a) (mvalues (s2_outputs s)))) (\<lambda>outputs.
    record_handoffs env a (ss_step source) outputs (handoff_targets (ss_step source) plan))"

subsection \<open>Executing a step\<close>

text \<open>The value of one declared input: the output of the handoff that names it.\<close>

definition local_input :: "s2_state \<Rightarrow> step_attempt \<Rightarrow> plan_step \<Rightarrow> js \<Rightarrow> (string \<times> js) res" where
  "local_input s a step descriptor =
    (case find (\<lambda>h. ho_missionRunId h = at_missionRunId a \<and> ho_toStepId h = st_id step
                  \<and> strict_eq_str (declaredName descriptor) (ho_inputName h)) (mvalues (s2_handoffs s)) of
       None \<Rightarrow> Inl (Error (''Missing declared handoff for '' @ st_id step @ ''.'' @ to_string (declaredName descriptor)))
     | Some h \<Rightarrow> bindE (requireRecord (s2_outputs s) (JStr (ho_outputId h)) ''Step output'') (\<lambda>out.
         Inr (ho_inputName h, so_value out)))"

definition local_value :: "s2_state \<Rightarrow> step_attempt \<Rightarrow> s2_step \<Rightarrow> js res" where
  "local_value s a step =
    bindE (mapE (local_input s a (ss_step step)) (st_declaredInputs (ss_step step))) (\<lambda>inputs.
    Inr (if st_declaredInputs (ss_step step) \<noteq> []
      then JObj [(''kind'', JStr ''join''), (''inputs'', mk_obj (fold (\<lambda>(k, v). AList.update k v) inputs []))]
      else JObj [(''kind'', JStr ''local-transform''), (''stepId'', JStr (st_id (ss_step step))),
        (''payload'', JStr (ss_payload step))]))"

definition executeLocalAttempt :: "app_env \<Rightarrow> s2_attempt \<Rightarrow> s2_step \<Rightarrow> s2_plan \<Rightarrow> (s2_state, s2_attempt) act" where
  "executeLocalAttempt env attempt step plan =
    bindS (shift_attempt env ''local deterministic execution'' ''active'' attempt) (\<lambda>active.
    bindS (readS (\<lambda>s. local_value s (sa_attempt attempt) step)) (\<lambda>result.
    bindS (liftS result) (\<lambda>value.
    bindS (liftS (assertJsonSafe value ''value'')) (\<lambda>_.
    bindS (recordOutputsAndEvidence env (sa_attempt active) step value) (\<lambda>_.
    bindS (shift_attempt env ''local result observed'' ''completed'' active) (\<lambda>completed.
    bindS (appendS2Event (attempt_event ''step.attempt_completed'' (sa_attempt completed)
        [(''stepId'', JStr (at_stepId (sa_attempt completed))), (''local'', JBool True)])) (\<lambda>_.
    bindS (recordHandoffsForCompletedAttempt env (sa_attempt completed) step plan) (\<lambda>_.
    returnS completed))))))))"

definition selectIdleWorker :: "app_env \<Rightarrow> s1_state \<Rightarrow> string \<Rightarrow> string" where
  "selectIdleWorker env s workspaceId =
    (let bs = filter (\<lambda>w. wb_workspaceId w = workspaceId) (mvalues (s1_workers s)) in
     case find (\<lambda>w. ae_idle env (wb_id w)) bs of Some w \<Rightarrow> wb_id w
     | None \<Rightarrow> (case bs of w # _ \<Rightarrow> wb_id w | [] \<Rightarrow> ''s1-worker-chromium''))"

definition external_task_input :: "app_env \<Rightarrow> s1_state \<Rightarrow> step_attempt \<Rightarrow> s2_step \<Rightarrow> step_binding \<Rightarrow> js \<Rightarrow> js" where
  "external_task_input env s a step b worker =
    JObj [(''id'', JStr (bounded_id (ae_sha env) ''s2task'' [JStr (at_id a)])), (''workspaceId'', JStr (at_workspaceId a)),
      (''agentId'', JStr (sb_agentId b)), (''installationId'', JStr (sb_installationId b)),
      (''capabilityAction'', JStr (sb_action b)), (''target'', JStr (sb_target b)), (''workerId'', worker),
      (''payload'', JStr (if ss_payload step \<noteq> [] then ss_payload step
         else at_missionRunId a @ '':'' @ st_id (ss_step step)))]"

text \<open>The attempt after the answer of the S1 service: waiting for its gate, blocked, or as it was.\<close>

definition scheduled_attempt :: "app_env \<Rightarrow> created_task \<Rightarrow> js \<Rightarrow> s2_attempt \<Rightarrow> s2_attempt res" where
  "scheduled_attempt env result worker attempt =
    bindE (case ct_gate result of
        Some _ \<Rightarrow> move_attempt env ''human gate requested'' ''waiting_human'' attempt
      | None \<Rightarrow> if map_option xr_state (ct_run result) = Some ''blocked''
          then move_attempt env ''S1 execution blocked'' ''blocked'' attempt else Inr attempt) (\<lambda>moved.
    Inr (moved\<lparr>sa_attempt := (sa_attempt moved)\<lparr>at_executionRunId := map_option xr_id (ct_run result)\<rparr>,
      sa_humanGateId := map_option hg_id (ct_gate result),
      sa_blockers := (case ct_run result of Some r \<Rightarrow> xr_blockers r | None \<Rightarrow> []), sa_workerId := worker\<rparr>))"

definition s2_blocker_js :: "blocker \<Rightarrow> js" where
  "s2_blocker_js b = JObj [(''code'', JStr (bl_code b)), (''detail'', bl_detail b)]"

definition scheduleExternalAttempt :: "app_env \<Rightarrow> s2_attempt \<Rightarrow> s2_step \<Rightarrow> (s2_state, s2_attempt) act" where
  "scheduleExternalAttempt env attempt step =
    (let a = sa_attempt attempt in
     bindS (readS s2_bindings) (\<lambda>bs.
     bindS (liftS (requireRecord bs (JStr (st_bindingId (ss_step step))) ''Step binding'')) (\<lambda>binding.
     bindS (readS (\<lambda>s. or_js (ss_workerId step) (JStr (selectIdleWorker env (s2_s1 s) (at_workspaceId a))))) (\<lambda>worker.
     bindS (readS (\<lambda>s. external_task_input env (s2_s1 s) a step binding worker)) (\<lambda>input.
     bindS (in_s1 (s1_createTask env input)) (\<lambda>result.
     bindS (liftS (scheduled_attempt env result worker attempt)) (\<lambda>next.
     bindS (save_attempt next) (\<lambda>_.
     bindS (appendS2Event (attempt_event
         (if ct_gate result \<noteq> None then ''step.attempt_waiting_human'' else ''plan.step_blocked'') a
         [(''executionRunId'', js_opt (map_option xr_id (ct_run result))), (''gateId'', js_opt (map_option hg_id (ct_gate result))),
          (''blockers'', JArr (map s2_blocker_js (case ct_run result of Some r \<Rightarrow> xr_blockers r | None \<Rightarrow> [])))])) (\<lambda>_.
     returnS next)))))))))"

subsection \<open>Completion of a run\<close>

definition evidence_by_step :: "s2_state \<Rightarrow> string \<Rightarrow> (string, js list) jsmap" where
  "evidence_by_step s runId =
    (let evs = filter (\<lambda>e. ev_missionRunId e = Some runId) (mvalues (s1_evidence (s2_s1 s)))
     in map (\<lambda>i. (i, map ev_type (filter (\<lambda>e. ev_stepId e = Some i) evs)))
          (remdups (concat (map (\<lambda>e. case ev_stepId e of Some i \<Rightarrow> [i] | None \<Rightarrow> []) evs))))"

definition completion_verdict :: "s2_state \<Rightarrow> mission_run \<Rightarrow> s2_plan \<Rightarrow> bool" where
  "completion_verdict s run plan =
    fst (evaluateMissionCompletion run (map ss_step (sp_steps plan)) (pl_terminalStepIds (sp_plan plan))
      (map sa_attempt (attempts_of s (run_id run))) (evidence_by_step s (run_id run)))"

definition maybeCompleteMission :: "app_env \<Rightarrow> string \<Rightarrow> (s2_state, unit) act" where
  "maybeCompleteMission env runId =
    bindS (readS (\<lambda>s. run_at s runId)) (\<lambda>found. case found of None \<Rightarrow> returnS ()
      | Some run \<Rightarrow>
          if run_state run \<noteq> ''running'' then returnS ()
          else
            bindS (readS s2_plans) (\<lambda>ps.
            bindS (liftS (requireRecord ps (JStr (run_planId run)) ''Execution plan'')) (\<lambda>plan.
            bindS (readS (\<lambda>s. completion_verdict s run plan)) (\<lambda>complete.
            if \<not> complete then returnS ()
            else
              bindS (shift_run env (JStr ''terminal evidence satisfied'') ''completed'' run) (\<lambda>completed.
              appendS2Event (s2_event ''mission.run_completed'' (run_workspaceId completed) ''missionRun'' (run_id completed)
                (run_id completed) [(''missionId'', JStr (run_missionId completed))]))))))"

subsection \<open>The evaluation loop\<close>

text \<open>One ready step: a step that has an attempt by now is passed over.  The answer is \<open>progressed\<close>.\<close>

definition evaluate_step :: "app_env \<Rightarrow> string \<Rightarrow> s2_plan \<Rightarrow> string \<Rightarrow> (s2_state, bool) act" where
  "evaluate_step env runId plan stepId =
    bindS (readS (\<lambda>s. latest_of s runId stepId)) (\<lambda>latest.
    if latest \<noteq> None then returnS False
    else
      bindS (readS (\<lambda>s. run_at s runId)) (\<lambda>current. case (current, find (\<lambda>x. st_id (ss_step x) = stepId) (sp_steps plan)) of
          (Some run, Some step) \<Rightarrow>
            bindS (liftS (createStepAttempt (ae_sha env) run (ss_step step) 1 (ae_clock env))) (\<lambda>a.
            let attempt = \<lparr>sa_attempt = a, sa_humanGateId = None, sa_blockers = [], sa_workerId = JUndef\<rparr> in
            bindS (save_attempt attempt) (\<lambda>_.
            bindS (appendS2Event (s2_event ''step.attempt_created'' (run_workspaceId run) ''stepAttempt'' (at_id a) (at_id a)
                [(''missionRunId'', JStr runId), (''stepId'', JStr stepId)])) (\<lambda>_.
            if ss_executionMode step = ''local''
            then bindS (executeLocalAttempt env attempt step plan) (\<lambda>_. returnS True)
            else bindS (scheduleExternalAttempt env attempt step) (\<lambda>_. returnS False))))
        | _ \<Rightarrow> throwS (TypeError ''run and step are required'')))"

fun evaluate_steps :: "app_env \<Rightarrow> string \<Rightarrow> s2_plan \<Rightarrow> string list \<Rightarrow> (s2_state, bool) act" where
  "evaluate_steps env runId plan [] = returnS False"
| "evaluate_steps env runId plan (i # is) =
     bindS (evaluate_step env runId plan i) (\<lambda>p. bindS (evaluate_steps env runId plan is) (\<lambda>q. returnS (p \<or> q)))"

definition evaluate_pass :: "app_env \<Rightarrow> string \<Rightarrow> s2_plan \<Rightarrow> mission_run \<Rightarrow> (s2_state, bool) act" where
  "evaluate_pass env runId plan run =
    bindS (readS (\<lambda>s. ready_of env s run plan)) (\<lambda>ready. evaluate_steps env runId plan ready)"

end
