(* ===== verification/MissionLoop.thy ===== *)
theory MissionLoop
  imports MissionService ActRules JsonText
begin

text \<open>
  The evaluation loop of a mission run (\<open>evaluateRun\<close> of
  \<open>src/application/s2-application-service.cjs\<close>) as a terminating function: every pass that
  asks for another one settles a step whose first attempt was not recorded yet.  The proof
  does not assume that attempt ids are different: the event log refuses a second step under
  the id of the first.
\<close>

subsection \<open>What an operation on one attempt leaves alone\<close>

definition same_attempt :: "s2_attempt \<Rightarrow> s2_attempt \<Rightarrow> bool" where
  "same_attempt a b \<longleftrightarrow> at_id (sa_attempt b) = at_id (sa_attempt a) \<and>
     at_missionRunId (sa_attempt b) = at_missionRunId (sa_attempt a) \<and>
     at_stepId (sa_attempt b) = at_stepId (sa_attempt a) \<and>
     at_workspaceId (sa_attempt b) = at_workspaceId (sa_attempt a) \<and>
     at_attemptNumber (sa_attempt b) = at_attemptNumber (sa_attempt a)"

definition log_extends :: "app_event list \<Rightarrow> app_event list \<Rightarrow> bool" where
  "log_extends l l' \<longleftrightarrow> (\<exists>zs. l' = l @ zs)"

text \<open>The log grows, and in the repository of attempts only the given attempt is written.\<close>

definition calm :: "s2_attempt \<Rightarrow> s2_state \<Rightarrow> s2_state \<Rightarrow> bool" where
  "calm a s0 s \<longleftrightarrow> log_extends (s2_events s0) (s2_events s) \<and> s2_runs s = s2_runs s0 \<and>
     (\<forall>k. k \<noteq> at_id (sa_attempt a) \<longrightarrow> mget (s2_attempts s) k = mget (s2_attempts s0) k) \<and>
     (\<exists>b. mget (s2_attempts s) (at_id (sa_attempt a)) = Some b \<and> same_attempt a b)"

lemma same_attempt_refl [simp]: "same_attempt a a"
  by (simp add: same_attempt_def)

lemma same_attempt_trans: "same_attempt a b \<Longrightarrow> same_attempt b c \<Longrightarrow> same_attempt a c"
  by (simp add: same_attempt_def)

lemma log_extends_find: "log_extends l l' \<Longrightarrow> find P l = Some x \<Longrightarrow> find P l' = Some x"
  by (auto simp: log_extends_def find_append)

lemma put_event_extends: "put_event e log = Inr log' \<Longrightarrow> log_extends log log'"
  by (auto simp: put_event_def log_extends_def split: option.splits if_splits)

lemma log_extends_trans: "log_extends a b \<Longrightarrow> log_extends b c \<Longrightarrow> log_extends a c"
  by (auto simp: log_extends_def)

lemma keeps_bind_post:
  assumes "keeps P m" "\<And>s s' x. m s = (s', Inr x) \<Longrightarrow> Q x" "\<And>x. Q x \<Longrightarrow> keeps P (f x)"
  shows "keeps P (bindS m f)"
  unfolding keeps_def
proof (intro allI impI)
  fix s assume "P s"
  obtain s' r where m: "m s = (s', r)" by fastforce
  with assms(1) \<open>P s\<close> have "P s'" by (auto simp: keeps_def dest: spec[of _ s])
  with assms(2,3) m show "P (fst (bindS m f s))" by (cases r) (auto simp: bindS_def keeps_def)
qed

lemma keeps_liftS: "(\<And>x. r = Inr x \<Longrightarrow> keeps P (f x)) \<Longrightarrow> keeps P (bindS (liftS r) f)"
  by (cases r) (simp_all add: keeps_def)

lemma keeps_in_s1:
  assumes "\<And>s t. P s \<Longrightarrow> P (s\<lparr>s2_s1 := t\<rparr>)"
  shows "keeps P (in_s1 m)"
  using assms by (auto simp: keeps_def in_s1_def split: prod.splits)

lemma keeps_s2_event:
  assumes "\<And>s l. P s \<Longrightarrow> log_extends (s2_events s) l \<Longrightarrow> P (s\<lparr>s2_events := l\<rparr>)"
  shows "keeps P (appendS2Event e)"
  using assms by (auto simp: keeps_def appendS2Event_def dest: put_event_extends split: sum.splits)

lemma calm_s1: "keeps (calm a s0) (in_s1 m)"
  by (rule keeps_in_s1) (simp add: calm_def)

lemma calm_event: "keeps (calm a s0) (appendS2Event e)"
  by (rule keeps_s2_event) (auto simp: calm_def intro: log_extends_trans)

lemma calm_save: "same_attempt a b \<Longrightarrow> keeps (calm a s0) (save_attempt b)"
  unfolding save_attempt_def by (rule keeps_modifyS) (auto simp: calm_def same_attempt_def)

lemma move_attempt_same: "move_attempt env reason st a = Inr b \<Longrightarrow> same_attempt a b"
  by (auto simp: move_attempt_def transitionAttempt_def same_attempt_def split: if_splits)

lemma shift_attempt_result: "shift_attempt env reason st a s = (s', Inr b) \<Longrightarrow> same_attempt a b"
  by (cases "move_attempt env reason st a") (auto simp: shift_attempt_def save_attempt_def dest: move_attempt_same)

lemma calm_shift:
  assumes "same_attempt a b"
  shows "keeps (calm a s0) (shift_attempt env reason st b)"
  unfolding shift_attempt_def
  by (intro keeps_liftS keeps_bindS keeps_trivial calm_save) (blast intro: same_attempt_trans assms move_attempt_same)

lemma calm_fields: "(\<And>s. s2_events (f s) = s2_events s \<and> s2_runs (f s) = s2_runs s \<and> s2_attempts (f s) = s2_attempts s) \<Longrightarrow>
   keeps (calm a s0) (modifyS f)"
  by (rule keeps_modifyS) (simp add: calm_def)

lemmas calm_intros = keeps_liftS keeps_intros calm_s1 calm_event calm_fields

lemma record_outputs_calm: "keeps (calm a s0) (record_outputs env x step value names)"
proof (induction names)
  case Nil
  show ?case unfolding record_outputs.simps by (rule keeps_trivial)
next
  case (Cons n ns)
  then show ?case unfolding record_outputs.simps Let_def by (intro calm_intros) simp_all
qed

lemma record_evidence_calm: "keeps (calm a s0) (record_evidence env x step value rs)"
proof (induction rs)
  case Nil
  show ?case unfolding record_evidence.simps by (rule keeps_trivial)
next
  case (Cons r rs)
  then show ?case unfolding record_evidence.simps Let_def by (intro calm_intros)
qed

lemma record_handoff_calm: "keeps (calm a s0) (record_handoff env x source outputs target descriptor)"
  unfolding record_handoff_def Let_def by (intro calm_intros) simp_all

lemma record_handoffs_calm: "keeps (calm a s0) (record_handoffs env x source outputs ts)"
proof (induction ts)
  case Nil
  show ?case unfolding record_handoffs.simps by (rule keeps_trivial)
next
  case (Cons t ts)
  then show ?case by (cases t) (simp add: keeps_bindS record_handoff_calm)
qed

lemma executeLocalAttempt_calm: "same_attempt a b \<Longrightarrow> keeps (calm a s0) (executeLocalAttempt env b step plan)"
  unfolding executeLocalAttempt_def recordOutputsAndEvidence_def recordHandoffsForCompletedAttempt_def
  by (intro keeps_bind_post[where Q = "same_attempt a"] calm_shift calm_intros record_outputs_calm record_evidence_calm
      record_handoffs_calm; (blast dest: shift_attempt_result intro: same_attempt_trans)?)

lemma scheduled_attempt_same: "scheduled_attempt env result worker a = Inr b \<Longrightarrow> same_attempt a b"
proof -
  have "same_attempt a (c\<lparr>sa_attempt := (sa_attempt c)\<lparr>at_executionRunId := r\<rparr>, sa_humanGateId := g, sa_blockers := bs, sa_workerId := w\<rparr>)"
    if "same_attempt a c" for c r g bs w
    using that by (simp add: same_attempt_def)
  then show "scheduled_attempt env result worker a = Inr b \<Longrightarrow> same_attempt a b"
    by (auto simp: scheduled_attempt_def split: option.split_asm if_splits dest!: move_attempt_same)
qed

lemma scheduleExternalAttempt_calm: "same_attempt a b \<Longrightarrow> keeps (calm a s0) (scheduleExternalAttempt env b step)"
  unfolding scheduleExternalAttempt_def Let_def
  by (intro calm_intros calm_save) (blast dest: scheduled_attempt_same intro: same_attempt_trans)+

subsection \<open>Steps whose first attempt is not recorded\<close>

definition created_event :: "app_env \<Rightarrow> string \<Rightarrow> string \<Rightarrow> string \<Rightarrow> app_event" where
  "created_event env ws runId stepId =
    (let i = semanticAttemptId (ae_sha env) runId stepId 1
     in s2_event ''step.attempt_created'' ws ''stepAttempt'' i i [(''missionRunId'', JStr runId), (''stepId'', JStr stepId)])"

definition created_key :: "app_env \<Rightarrow> string \<Rightarrow> string \<Rightarrow> string" where
  "created_key env runId stepId = ''step.attempt_created:'' @ semanticAttemptId (ae_sha env) runId stepId 1"

definition names_step :: "string \<Rightarrow> string \<Rightarrow> app_event \<Rightarrow> bool" where
  "names_step runId stepId x \<longleftrightarrow>
    stableStringify (ap_payload x) = stableStringify (JObj [(''missionRunId'', JStr runId), (''stepId'', JStr stepId)])"

definition first_attempt_stored :: "app_env \<Rightarrow> string \<Rightarrow> s2_state \<Rightarrow> string \<Rightarrow> bool" where
  "first_attempt_stored env runId s stepId \<longleftrightarrow>
    (\<exists>b. mget (s2_attempts s) (semanticAttemptId (ae_sha env) runId stepId 1) = Some b \<and>
       at_missionRunId (sa_attempt b) = runId \<and> at_stepId (sa_attempt b) = stepId)"

definition open_step :: "app_env \<Rightarrow> string \<Rightarrow> s2_state \<Rightarrow> string \<Rightarrow> bool" where
  "open_step env runId s stepId \<longleftrightarrow>
    (case find (\<lambda>x. ap_idempotencyKey x = created_key env runId stepId) (s2_events s) of
       None \<Rightarrow> True | Some x \<Rightarrow> names_step runId stepId x \<and> \<not> first_attempt_stored env runId s stepId)"

definition open_steps :: "app_env \<Rightarrow> string \<Rightarrow> s2_plan \<Rightarrow> s2_state \<Rightarrow> string set" where
  "open_steps env runId plan s = {i \<in> set (map (\<lambda>x. st_id (ss_step x)) (sp_steps plan)). open_step env runId s i}"

lemma finite_open_steps [simp]: "finite (open_steps env runId plan s)"
  by (simp add: open_steps_def)

lemma card_open_steps: "card (open_steps env runId plan s) \<le> length (sp_steps plan)"
proof -
  have "card (open_steps env runId plan s) \<le> card (set (map (\<lambda>x. st_id (ss_step x)) (sp_steps plan)))"
    by (rule card_mono) (auto simp: open_steps_def)
  also have "\<dots> \<le> length (map (\<lambda>x. st_id (ss_step x)) (sp_steps plan))" by (rule card_length)
  finally show ?thesis by simp
qed

lemma step_text: "stableStringify (JObj [(''missionRunId'', JStr r), (''stepId'', JStr t)]) =
    ''{'' @ quote ''missionRunId'' @ '':'' @ quote r @ '','' @ quote ''stepId'' @ '':'' @ quote t @ ''}''"
  by (simp add: stableStringify_def mk_obj_def index_key_def is_digit_def ccode_def less_char_def)

lemma names_step_inject: "names_step r t x \<Longrightarrow> names_step r' t' x \<Longrightarrow> r = r' \<and> t = t'"
  unfolding names_step_def step_text by (simp add: quote_inject)

lemma run_at_id: "run_at s runId = Some run \<Longrightarrow> run_id run = runId"
  by (auto simp: run_at_def dest: find_Some_set)

lemma stored_attempt_latest: "mget (s2_attempts s) k = Some b \<Longrightarrow> at_missionRunId (sa_attempt b) = runId \<Longrightarrow>
   at_stepId (sa_attempt b) = stepId \<Longrightarrow> latest_of s runId stepId \<noteq> None"
proof -
  assume b: "mget (s2_attempts s) k = Some b" "at_missionRunId (sa_attempt b) = runId" "at_stepId (sa_attempt b) = stepId"
  then have "b \<in> set (attempts_of s runId)"
    by (force simp: attempts_of_def mvalues_def mget_def dest: map_of_SomeD)
  then show ?thesis using b(3) unfolding latest_of_def latestAttempt_None by auto
qed

text \<open>What a step that was evaluated without an exception leaves behind.\<close>

lemma evaluate_step_effect:
  assumes "evaluate_step env runId plan i s = (s', Inr r)"
  shows "s' = s \<and> \<not> r \<or>
    latest_of s runId i = None \<and> log_extends (s2_events s) (s2_events s') \<and>
    (\<exists>x. find (\<lambda>x. ap_idempotencyKey x = created_key env runId i) (s2_events s') = Some x \<and> names_step runId i x) \<and>
    first_attempt_stored env runId s' i \<and>
    (\<forall>k. k \<noteq> semanticAttemptId (ae_sha env) runId i 1 \<longrightarrow> mget (s2_attempts s') k = mget (s2_attempts s) k)"
proof (cases "latest_of s runId i = None")
  case False
  then show ?thesis using assms by (simp add: evaluate_step_def)
next
  case True
  obtain run where run: "run_at s runId = Some run"
    using assms True by (cases "run_at s runId") (auto simp: evaluate_step_def)
  obtain step where step: "find (\<lambda>x. st_id (ss_step x) = i) (sp_steps plan) = Some step"
    using assms True run by (cases "find (\<lambda>x. st_id (ss_step x) = i) (sp_steps plan)") (auto simp: evaluate_step_def)
  from step have i: "st_id (ss_step step) = i" by (auto dest: find_Some_set)
  obtain a where a: "createStepAttempt (ae_sha env) run (ss_step step) 1 (ae_clock env) = Inr a"
    "at_id a = semanticAttemptId (ae_sha env) runId i 1" "at_missionRunId a = runId" "at_stepId a = i"
    using run_at_id[OF run] i by (simp add: createStepAttempt_def)
  let ?at = "\<lparr>sa_attempt = a, sa_humanGateId = None, sa_blockers = [], sa_workerId = JUndef\<rparr>"
  let ?e = "created_event env (run_workspaceId run) runId i"
  let ?s1 = "s\<lparr>s2_attempts := mset_at (at_id a) ?at (s2_attempts s)\<rparr>"
  let ?rest = "if ss_executionMode step = ''local'' then bindS (executeLocalAttempt env ?at step plan) (\<lambda>_. returnS True)
     else bindS (scheduleExternalAttempt env ?at step) (\<lambda>_. returnS False)"
  have all: "evaluate_step env runId plan i s = bindS (appendS2Event ?e) (\<lambda>_. ?rest) ?s1"
    using True by (simp add: evaluate_step_def run step a save_attempt_def created_event_def Let_def)
  obtain log where log: "put_event ?e (s2_events s) = Inr log"
    using assms unfolding all by (cases "put_event ?e (s2_events s)") (auto simp: appendS2Event_def bindS_def)
  let ?s2 = "?s1\<lparr>s2_events := log\<rparr>"
  have ap: "appendS2Event ?e ?s1 = (?s2, Inr ())" by (simp add: appendS2Event_def log)
  have rest: "?rest ?s2 = (s', Inr r)"
    using assms unfolding all bindS_Inr[where m = "appendS2Event ?e" and s = ?s1 and s' = ?s2 and x = "()", OF ap] .
  have "keeps (calm ?at ?s2) ?rest"
    by (intro keeps_if keeps_bindS executeLocalAttempt_calm scheduleExternalAttempt_calm keeps_trivial) simp_all
  moreover have "calm ?at ?s2 ?s2" by (auto simp: calm_def log_extends_def)
  ultimately have "calm ?at ?s2 (fst (?rest ?s2))" unfolding keeps_def by blast
  then have calm: "calm ?at ?s2 s'" unfolding rest by simp
  have key: "ap_idempotencyKey ?e = created_key env runId i"
    by (simp add: created_event_def created_key_def s2_event_def Let_def)
  from put_event_Inr[OF log] obtain x where
    "find (\<lambda>x. ap_idempotencyKey x = created_key env runId i) log = Some x" "same_stored_event x ?e"
    unfolding key by blast
  moreover from this(2) have "names_step runId i x"
    by (simp add: same_stored_event_def names_step_def created_event_def s2_event_def Let_def)
  moreover have "log_extends log (s2_events s')" using calm by (simp add: calm_def)
  ultimately show ?thesis using True calm a put_event_extends[OF log]
    by (auto simp: calm_def first_attempt_stored_def same_attempt_def intro: log_extends_trans dest: log_extends_find)
qed

lemma evaluate_step_open:
  assumes "evaluate_step env runId plan i s = (s', Inr r)"
  shows "open_steps env runId plan s' \<subseteq> open_steps env runId plan s \<and>
    (r \<and> i \<in> set (map (\<lambda>x. st_id (ss_step x)) (sp_steps plan)) \<longrightarrow>
     open_steps env runId plan s' \<subset> open_steps env runId plan s)"
proof (cases "s' = s \<and> \<not> r")
  case False
  let ?key = "\<lambda>v x. ap_idempotencyKey x = created_key env runId v"
  from evaluate_step_effect[OF assms] False obtain x where
    none: "latest_of s runId i = None" and ext: "log_extends (s2_events s) (s2_events s')" and
    x: "find (?key i) (s2_events s') = Some x" "names_step runId i x" and st: "first_attempt_stored env runId s' i" and
    oth: "\<forall>k. k \<noteq> semanticAttemptId (ae_sha env) runId i 1 \<longrightarrow> mget (s2_attempts s') k = mget (s2_attempts s) k"
    by blast
  have ns: "\<not> first_attempt_stored env runId s i"
    using none stored_attempt_latest unfolding first_attempt_stored_def by blast
  have closed: "\<not> open_step env runId s' i" using x st by (simp add: open_step_def)
  have mono: "\<not> open_step env runId s' v" if v: "\<not> open_step env runId s v" for v
  proof -
    from v obtain y where y: "find (?key v) (s2_events s) = Some y"
      "names_step runId v y \<Longrightarrow> first_attempt_stored env runId s v"
      by (auto simp: open_step_def split: option.split_asm)
    from log_extends_find[OF ext y(1)] have y': "find (?key v) (s2_events s') = Some y" .
    have "first_attempt_stored env runId s' v" if n: "names_step runId v y"
    proof (cases "semanticAttemptId (ae_sha env) runId v 1 = semanticAttemptId (ae_sha env) runId i 1")
      case True
      then have "y = x" using x(1) y' by (simp add: created_key_def)
      with n x(2) names_step_inject have "v = i" by blast
      with st show ?thesis by simp
    next
      case False
      with oth y(2)[OF n] show ?thesis by (simp add: first_attempt_stored_def)
    qed
    with y' show ?thesis by (simp add: open_step_def)
  qed
  have "open_step env runId s i"
  proof (rule ccontr)
    assume "\<not> open_step env runId s i"
    then obtain y where y: "find (?key i) (s2_events s) = Some y" "names_step runId i y \<Longrightarrow> first_attempt_stored env runId s i"
      by (auto simp: open_step_def split: option.split_asm)
    from log_extends_find[OF ext y(1)] x have "names_step runId i y" by simp
    with y(2) ns show False by blast
  qed
  with mono closed show ?thesis by (auto simp: open_steps_def)
qed auto

lemma evaluate_steps_open:
  assumes "evaluate_steps env runId plan is s = (s', Inr r)"
    and "set is \<subseteq> set (map (\<lambda>x. st_id (ss_step x)) (sp_steps plan))"
  shows "open_steps env runId plan s' \<subseteq> open_steps env runId plan s \<and>
    (r \<longrightarrow> open_steps env runId plan s' \<subset> open_steps env runId plan s)"
  using assms
proof (induction "is" arbitrary: s r)
  case (Cons i "is")
  from Cons.prems(1) obtain t p q where t: "evaluate_step env runId plan i s = (t, Inr p)"
    "evaluate_steps env runId plan is t = (s', Inr q)" "r = (p \<or> q)"
    by (auto simp: bindS_def split: prod.splits sum.splits)
  from Cons.IH[OF t(2)] Cons.prems(2) evaluate_step_open[OF t(1)] t(3) show ?case by auto
qed simp

lemma ready_of_steps: "set (ready_of env s run plan) \<subseteq> set (map (\<lambda>x. st_id (ss_step x)) (sp_steps plan))"
  by (auto simp: ready_of_def ready_set)

lemma evaluate_pass_open:
  assumes "evaluate_pass env runId plan run s = (s', Inr True)"
  shows "card (open_steps env runId plan s') < card (open_steps env runId plan s)"
  using evaluate_steps_open[of env runId plan "ready_of env s run plan" s s' True] assms ready_of_steps[of env s run plan]
  by (simp add: evaluate_pass_def psubset_card_mono)

subsection \<open>The loop\<close>

text \<open>\<open>while (progressed && run is running)\<close>; the run is read again before every pass.\<close>

function evaluate_loop :: "app_env \<Rightarrow> string \<Rightarrow> s2_plan \<Rightarrow> (s2_state, unit) act" where
  "evaluate_loop env runId plan s = (case run_at s runId of None \<Rightarrow> (s, Inr ())
     | Some run \<Rightarrow>
         if run_state run \<noteq> ''running'' then (s, Inr ())
         else (case evaluate_pass env runId plan run s of
             (s', Inl e) \<Rightarrow> (s', Inl e)
           | (s', Inr progressed) \<Rightarrow> if progressed then evaluate_loop env runId plan s' else (s', Inr ())))"
  by pat_completeness auto
termination
  by (relation "measure (\<lambda>(env, runId, plan, s). card (open_steps env runId plan s))")
     (auto dest: evaluate_pass_open[OF sym])

declare evaluate_loop.simps [simp del]

definition evaluateRun :: "app_env \<Rightarrow> string \<Rightarrow> (s2_state, mission_run option) act" where
  "evaluateRun env runId =
    bindS (readS (\<lambda>s. run_at s runId)) (\<lambda>found. case found of
        None \<Rightarrow> throwS (Error (''Mission run not found: '' @ runId))
      | Some run \<Rightarrow>
          if run_state run \<noteq> ''running'' then returnS (Some run)
          else
            bindS (readS s2_plans) (\<lambda>ps.
            bindS (liftS (requireRecord ps (JStr (run_planId run)) ''Execution plan'')) (\<lambda>plan.
            bindS (evaluate_loop env runId plan) (\<lambda>_.
            bindS (maybeCompleteMission env runId) (\<lambda>_.
            readS (\<lambda>s. run_at s runId))))))"

text \<open>The loop cut off after a number of passes: \<open>None\<close> when it wants one more.\<close>

fun evaluate_passes :: "nat \<Rightarrow> app_env \<Rightarrow> string \<Rightarrow> s2_plan \<Rightarrow> s2_state \<Rightarrow> (s2_state \<times> (js_error + unit)) option" where
  "evaluate_passes 0 env runId plan s = None"
| "evaluate_passes (Suc n) env runId plan s = (case run_at s runId of None \<Rightarrow> Some (s, Inr ())
     | Some run \<Rightarrow>
         if run_state run \<noteq> ''running'' then Some (s, Inr ())
         else (case evaluate_pass env runId plan run s of
             (s', Inl e) \<Rightarrow> Some (s', Inl e)
           | (s', Inr progressed) \<Rightarrow> if progressed then evaluate_passes n env runId plan s' else Some (s', Inr ())))"

lemma evaluate_passes_enough:
  "card (open_steps env runId plan s) < n \<Longrightarrow> evaluate_passes n env runId plan s = Some (evaluate_loop env runId plan s)"
proof (induction n arbitrary: s)
  case (Suc n)
  have IH: "evaluate_passes n env runId plan s' = Some (evaluate_loop env runId plan s')"
    if "evaluate_pass env runId plan run s = (s', Inr True)" for run s'
    using evaluate_pass_open[OF that] Suc.prems by (intro Suc.IH) simp
  show ?case
    by (subst evaluate_loop.simps) (auto simp: IH split: option.split prod.split sum.split)
qed simp

text \<open>
  C2: The evaluation of a mission run always ends: whatever the state and whatever the steps do
  or throw, the loop is left within one pass more than the plan has steps.
\<close>

theorem evaluation_ends:
  "evaluate_passes (Suc (length (sp_steps plan))) env runId plan s = Some (evaluate_loop env runId plan s)"
  by (rule evaluate_passes_enough) (rule le_imp_less_Suc[OF card_open_steps])

end
