(* ===== verification/MissionControl.thy ===== *)
theory MissionControl
  imports MissionLoop
begin

text \<open>
  The S2 mission service, second part (\<open>src/application/s2-application-service.cjs\<close> with the
  overrides of \<open>src/application/s2-index.cjs\<close>): starting, pausing, resuming and cancelling a
  mission, the decisions of a Human Gate over the S1 service, the reviewed retry and the
  recovery at a restart, and the service as a sequence of such calls.
\<close>

subsection \<open>Starting, pausing, resuming\<close>

definition requireRun :: "js \<Rightarrow> (s2_state, mission_run) act" where
  "requireRun i = bindS (readS (\<lambda>s. case i of JStr runId \<Rightarrow> run_at s runId | _ \<Rightarrow> None)) (\<lambda>found. case found of
      None \<Rightarrow> throwS (Error (''Mission run not found: '' @ to_string i)) | Some run \<Rightarrow> returnS run)"

definition requireRunInWorkspace :: "js \<Rightarrow> js \<Rightarrow> (s2_state, mission_run) act" where
  "requireRunInWorkspace runId workspaceId =
    bindS (requireRun runId) (\<lambda>run.
    if JStr (run_workspaceId run) \<noteq> workspaceId then throwS (Error ''Cross-Workspace MissionRun access denied'')
    else returnS run)"

definition run_event :: "string \<Rightarrow> mission_run \<Rightarrow> string \<Rightarrow> (string \<times> js) list \<Rightarrow> app_event" where
  "run_event type run suffix payload = s2_event type (run_workspaceId run) ''missionRun'' (run_id run) suffix payload"

text \<open>The key of a change that can happen again carries the version of the run.\<close>

definition versioned :: "mission_run \<Rightarrow> string" where
  "versioned run = run_id run @ '':'' @ int_to_string (run_version run)"

text \<open>The workspace of a revision and what starting it reads; a draft has no plan.\<close>

definition revision_workspace :: "s2_revision \<Rightarrow> string" where
  "revision_workspace r = (case r of Draft d \<Rightarrow> dv_workspaceId d | Planned b _ _ \<Rightarrow> mr_workspaceId b)"

definition open_run :: "app_env \<Rightarrow> mission \<Rightarrow> mission_revision \<Rightarrow> s2_plan \<Rightarrow> js \<Rightarrow> (s2_state, mission_run) act" where
  "open_run env m base plan runId =
    bindS (liftS (createMissionRun (ae_clock env) (JObj [(''id'', runId), (''workspaceId'', JStr (mi_workspaceId m)),
        (''missionId'', JStr (mi_id m)), (''missionRevisionId'', JStr (mr_id base)), (''planId'', JStr (pl_id (sp_plan plan))),
        (''createdAt'', JStr (ae_clock env))]))) (\<lambda>created.
    bindS (shift_run env (JStr ''mission start'') ''running'' created) (\<lambda>run.
    bindS (appendS2Event (run_event ''mission.run_started'' run (run_id run)
        [(''missionId'', JStr (mi_id m)), (''revisionId'', JStr (mr_id base)), (''planId'', JStr (pl_id (sp_plan plan)))])) (\<lambda>_.
    returnS run)))"

definition start_run :: "app_env \<Rightarrow> mission \<Rightarrow> mission_revision \<Rightarrow> string \<Rightarrow> s2_plan \<Rightarrow> js \<Rightarrow> (s2_state, mission_run option) act" where
  "start_run env m base dg plan runId =
    bindS (readS (\<lambda>s. case runId of JStr i \<Rightarrow> run_at s i | _ \<Rightarrow> None)) (\<lambda>existing. case existing of
        Some run \<Rightarrow> returnS (Some run)
      | None \<Rightarrow>
          let frozen = Planned (freezeMissionRevision (ae_clock env) base) dg ''frozen'' in
          bindS (modifyS (\<lambda>s. s\<lparr>s2_revisions := mset_at (mr_id base) frozen (s2_revisions s)\<rparr>)) (\<lambda>_.
          bindS (open_run env m base plan runId) (\<lambda>run.
          evaluateRun env (run_id run))))"

definition startMission :: "app_env \<Rightarrow> js \<Rightarrow> (s2_state, mission_run option) act" where
  "startMission env input =
    bindS (readS s2_missions) (\<lambda>ms.
    bindS (liftS (requireRecord ms (field input ''missionId'') ''Mission'')) (\<lambda>m.
    bindS (readS s2_revisions) (\<lambda>rs.
    bindS (liftS (requireRecord rs (or_js (field input ''revisionId'') (mi_currentRevisionId (ms_mission m))) ''Mission revision'')) (\<lambda>revision.
    if JStr (mi_workspaceId (ms_mission m)) \<noteq> field input ''workspaceId'' \<or> JStr (revision_workspace revision) \<noteq> field input ''workspaceId''
    then throwS (Error ''Cross-Workspace Mission start denied'')
    else case revision of Draft _ \<Rightarrow> throwS (Error ''Execution plan not found: null'')
    | Planned base dg status \<Rightarrow>
        bindS (readS s2_plans) (\<lambda>ps.
        bindS (liftS (requireRecord ps (JStr (mr_planId base)) ''Execution plan'')) (\<lambda>plan.
        start_run env (ms_mission m) base dg plan
          (or_js (field input ''runId'') (JStr (bounded_id (ae_sha env) ''missionrun'' [JStr (mr_id base)])))))))))"

definition change_run :: "app_env \<Rightarrow> string \<Rightarrow> string \<Rightarrow> string \<Rightarrow> js \<Rightarrow> (s2_state, mission_run) act" where
  "change_run env st type defaultReason input =
    bindS (requireRunInWorkspace (field input ''runId'') (field input ''workspaceId'')) (\<lambda>run.
    bindS (shift_run env (or_js (field input ''reason'') (JStr defaultReason)) st run) (\<lambda>next.
    bindS (appendS2Event (run_event type next (versioned next) [(''reason'', JStr (run_lastReason next))])) (\<lambda>_.
    returnS next)))"

definition pauseMission :: "app_env \<Rightarrow> js \<Rightarrow> (s2_state, mission_run) act" where
  "pauseMission env input = change_run env ''paused'' ''mission.run_paused'' ''operator pause'' input"

definition resumeMission :: "app_env \<Rightarrow> js \<Rightarrow> (s2_state, mission_run option) act" where
  "resumeMission env input =
    bindS (change_run env ''running'' ''mission.run_resumed'' ''operator resume'' input) (\<lambda>next.
    evaluateRun env (run_id next))"

subsection \<open>Cancelling\<close>

definition set_recovery :: "app_env \<Rightarrow> string \<Rightarrow> s2_attempt \<Rightarrow> s2_attempt" where
  "set_recovery env reason a = a\<lparr>sa_attempt := (sa_attempt a)\<lparr>at_state := ''recovery_required'',
     at_recoveryReason := Some reason, at_updatedAt := ae_clock env\<rparr>\<rparr>"

text \<open>One attempt of the cancelled run; a refused transition is swallowed.\<close>

definition cancel_attempt :: "app_env \<Rightarrow> s2_attempt \<Rightarrow> (s2_state, unit) act" where
  "cancel_attempt env a =
    bindS (case (if at_state (sa_attempt a) = ''waiting_human'' then sa_humanGateId a else None) of
        None \<Rightarrow> returnS ()
      | Some g \<Rightarrow>
          bindS (readS (\<lambda>s. mget (co_gates (s1_coord (s2_s1 s))) g)) (\<lambda>gate.
          if map_option hg_state gate = Some ''requested'' then bindS (in_s1 (s1_reject env g)) (\<lambda>_. returnS ())
          else returnS ())) (\<lambda>_.
    bindS (readS (\<lambda>s. mget (s2_attempts s) (at_id (sa_attempt a)))) (\<lambda>found. case found of
        None \<Rightarrow> returnS ()
      | Some current \<Rightarrow>
          if at_state (sa_attempt current) \<in> {''completed'', ''cancelled'', ''failed''} then returnS ()
          else if at_state (sa_attempt current) = ''active''
          then save_attempt (set_recovery env ''mission_cancel_requires_review'' current)
          else (case move_attempt env ''mission cancelled'' ''cancelled'' current of
              Inl _ \<Rightarrow> returnS () | Inr a' \<Rightarrow> save_attempt a')))"

fun cancel_attempts :: "app_env \<Rightarrow> s2_attempt list \<Rightarrow> (s2_state, unit) act" where
  "cancel_attempts env [] = returnS ()"
| "cancel_attempts env (a # as) = bindS (cancel_attempt env a) (\<lambda>_. cancel_attempts env as)"

definition cancelMission :: "app_env \<Rightarrow> js \<Rightarrow> (s2_state, mission_run) act" where
  "cancelMission env input =
    bindS (requireRunInWorkspace (field input ''runId'') (field input ''workspaceId'')) (\<lambda>run.
    if run_state run = ''cancelled'' then returnS run
    else
      bindS (readS (\<lambda>s. attempts_of s (run_id run))) (\<lambda>attempts.
      bindS (cancel_attempts env attempts) (\<lambda>_.
      bindS (shift_run env (or_js (field input ''reason'') (JStr ''operator cancel'')) ''cancelled'' run) (\<lambda>cancelled.
      bindS (appendS2Event (run_event ''mission.run_cancelled'' cancelled (versioned cancelled)
          [(''reason'', JStr (run_lastReason cancelled))])) (\<lambda>_.
      returnS cancelled)))))"

subsection \<open>Deciding a Human Gate\<close>

definition attempt_of_gate :: "s2_state \<Rightarrow> string \<Rightarrow> s2_attempt option" where
  "attempt_of_gate s gateId = (case mget (co_gates (s1_coord (s2_s1 s))) gateId of None \<Rightarrow> None
     | Some gate \<Rightarrow> find (\<lambda>a. at_executionRunId (sa_attempt a) = Some (hg_executionRunId gate)) (mvalues (s2_attempts s)))"

definition s2_reject :: "app_env \<Rightarrow> string \<Rightarrow> (s2_state, bool \<times> exec_run option \<times> gate) act" where
  "s2_reject env gateId =
    bindS (readS (\<lambda>s. attempt_of_gate s gateId)) (\<lambda>attempt.
    bindS (in_s1 (s1_reject env gateId)) (\<lambda>result. case attempt of
        None \<Rightarrow> returnS result
      | Some a \<Rightarrow>
          if at_state (sa_attempt a) \<noteq> ''waiting_human'' then returnS result
          else
            bindS (shift_attempt env ''human gate rejected'' ''cancelled'' a) (\<lambda>cancelled.
            bindS (appendS2Event (attempt_event ''step.attempt_cancelled'' (sa_attempt cancelled)
                [(''reason'', JStr ''human_gate_rejected'')])) (\<lambda>_.
            bindS (evaluateRun env (at_missionRunId (sa_attempt cancelled))) (\<lambda>_.
            returnS result)))))"

text \<open>The guards of an approval: no start while the mission is paused, cancelled or under recovery.\<close>

definition approval_guard :: "s2_attempt option \<Rightarrow> (s2_state, unit) act" where
  "approval_guard attempt = (case attempt of None \<Rightarrow> returnS ()
    | Some a \<Rightarrow>
        bindS (requireRun (JStr (at_missionRunId (sa_attempt a)))) (\<lambda>run.
        if run_state run = ''paused'' then throwS (Error ''Mission is paused; no new external step may start'')
        else if run_state run = ''cancelled'' then throwS (Error ''Mission is cancelled; no external step may start'')
        else if at_recoveryReason (sa_attempt a) \<notin> {None, Some []} \<or> at_state (sa_attempt a) = ''recovery_required''
        then throwS (Error ''Recovered StepAttempt cannot be replayed; create a reviewed retry'')
        else returnS ()))"

text \<open>The result of the external step, observed: outputs, evidence, completion, handoffs, evaluation.\<close>

definition observe_attempt :: "app_env \<Rightarrow> s2_attempt \<Rightarrow> exec_run \<Rightarrow> js \<Rightarrow> s2_step option \<Rightarrow> s2_plan \<Rightarrow> (s2_state, unit) act" where
  "observe_attempt env latest run value found plan =
    bindS (liftS (assertJsonSafe value ''value'')) (\<lambda>_.
    bindS (liftS (if at_state (sa_attempt latest) = ''active'' then Inr (sa_attempt latest)
                  else markExternalStart (ae_clock env) (xr_id run) (sa_attempt latest))) (\<lambda>x.
    let active = latest\<lparr>sa_attempt := x\<rparr> in
    bindS (save_attempt active) (\<lambda>_. case found of
        None \<Rightarrow> throwS (TypeError ''Cannot read properties of undefined (reading declaredOutputs)'')
      | Some step \<Rightarrow>
          bindS (recordOutputsAndEvidence env x step value) (\<lambda>_.
          bindS (shift_attempt env ''S1 result observed'' ''completed'' active) (\<lambda>completed.
          bindS (appendS2Event (attempt_event ''step.attempt_completed'' (sa_attempt completed)
              [(''stepId'', JStr (at_stepId (sa_attempt completed))),
               (''executionRunId'', js_opt (at_executionRunId (sa_attempt completed)))])) (\<lambda>_.
          bindS (recordHandoffsForCompletedAttempt env (sa_attempt completed) step plan) (\<lambda>_.
          bindS (evaluateRun env (at_missionRunId (sa_attempt completed))) (\<lambda>_.
          returnS ()))))))))"

definition complete_attempt :: "app_env \<Rightarrow> s2_attempt option \<Rightarrow> exec_run \<Rightarrow> js \<Rightarrow> (s2_state, unit) act" where
  "complete_attempt env attempt run execution = (case attempt of None \<Rightarrow> returnS ()
    | Some a \<Rightarrow>
        if xr_state run \<noteq> ''result_observed'' then returnS ()
        else
          bindS (requireRun (JStr (at_missionRunId (sa_attempt a)))) (\<lambda>missionRun.
          bindS (readS s2_plans) (\<lambda>ps.
          bindS (liftS (requireRecord ps (JStr (run_planId missionRun)) ''Execution plan'')) (\<lambda>plan.
          bindS (readS s2_attempts) (\<lambda>as.
          bindS (liftS (requireRecord as (JStr (at_id (sa_attempt a))) ''Step attempt'')) (\<lambda>latest.
          if at_state (sa_attempt latest) = ''completed'' then returnS ()
          else observe_attempt env latest run (or_js (result_of execution) (JObj [(''observed'', JBool True)]))
                 (find (\<lambda>x. st_id (ss_step x) = at_stepId (sa_attempt a)) (sp_steps plan)) plan))))))"

text \<open>The handler of a failed approval: the attempt and its running mission go into recovery.\<close>

definition recover_attempt :: "app_env \<Rightarrow> s2_attempt option \<Rightarrow> (s2_state, unit) act" where
  "recover_attempt env attempt = (case attempt of None \<Rightarrow> returnS ()
    | Some a \<Rightarrow>
        bindS (readS (\<lambda>s. mget (s2_attempts s) (at_id (sa_attempt a)))) (\<lambda>found. case found of
            None \<Rightarrow> returnS ()
          | Some latest \<Rightarrow>
              if at_state (sa_attempt latest) \<in> {''completed'', ''recovery_required''} then returnS ()
              else
                let recovered = set_recovery env ''application_recovery_requires_review'' latest in
                bindS (save_attempt (recovered\<lparr>sa_attempt := (sa_attempt recovered)\<lparr>at_externalStartCommitted := True\<rparr>\<rparr>)) (\<lambda>_.
                bindS (readS (\<lambda>s. run_at s (at_missionRunId (sa_attempt latest)))) (\<lambda>run. case run of
                    None \<Rightarrow> returnS ()
                  | Some r \<Rightarrow>
                      if run_state r \<noteq> ''running'' then returnS ()
                      else bindS (shift_run env (JStr ''uncertain external StepAttempt'') ''recovery_required'' r) (\<lambda>_. returnS ())))))"

definition s2_approve_begin :: "app_env \<Rightarrow> string \<Rightarrow> (s2_state, s2_attempt option \<times> approval) act" where
  "s2_approve_begin env gateId =
    bindS (readS (\<lambda>s. attempt_of_gate s gateId)) (\<lambda>attempt.
    bindS (approval_guard attempt) (\<lambda>_. catchS
      (bindS (in_s1 (s1_approve_begin env gateId)) (\<lambda>a. case a of
          AlreadyStarted run gate \<Rightarrow> bindS (complete_attempt env attempt run (or_js (xr_execution run) JNull)) (\<lambda>_. returnS (attempt, a))
        | Started run gate \<Rightarrow> returnS (attempt, a)))
      (\<lambda>e. bindS (recover_attempt env attempt) (\<lambda>_. throwS e))))"

definition s2_approve_finish :: "app_env \<Rightarrow> string \<Rightarrow> s2_attempt option \<Rightarrow> exec_run \<Rightarrow> js_error + js \<Rightarrow> (s2_state, exec_run) act" where
  "s2_approve_finish env gateId attempt run outcome = catchS
    (bindS (in_s1 (s1_approve_finish env gateId run outcome)) (\<lambda>completed.
     bindS (complete_attempt env attempt completed (xr_execution completed)) (\<lambda>_. returnS completed)))
    (\<lambda>e. bindS (recover_attempt env attempt) (\<lambda>_. throwS e))"

subsection \<open>Retry after review\<close>

text \<open>The contained external execution of the earlier attempt gives its resources back and is superseded.\<close>

definition supersede_run :: "app_env \<Rightarrow> exec_run \<Rightarrow> (s1_state, unit) act" where
  "supersede_run env prior =
    bindS (in_coord (release_run (xr_id prior) (ae_clock env))) (\<lambda>released.
    bindS (if released = [] then returnS ()
      else in_coord (log_event ''resource.released'' (''release:'' @ xr_id prior) (xr_id prior) None released JUndef)) (\<lambda>_.
    bindS (in_coord (save_run (prior\<lparr>xr_state := ''cancelled'', xr_recoveryReason := Some ''reviewed_retry_superseded'',
        xr_completedAt := Some (ae_clock env)\<rparr>))) (\<lambda>_.
    bindS (update_task (xr_taskId prior) (\<lambda>t. (task_at t ''cancelled'')
        \<lparr>tk_blockers := [Blocker ''recovery_reviewed_retry_created'' JUndef]\<rparr>)) (\<lambda>_.
    in_coord (log_event ''execution.reviewed_for_retry'' (''reviewed-retry:'' @ xr_id prior) (xr_id prior) None []
      (js_opt (xr_recoveryReason prior)))))))"

definition reconcileReviewedExternalAttempt :: "app_env \<Rightarrow> step_attempt \<Rightarrow> (s1_state, unit) act" where
  "reconcileReviewedExternalAttempt env previous =
    (case (if at_executionRunId previous \<in> {None, Some []} then None else at_executionRunId previous) of
       None \<Rightarrow> returnS ()
     | Some i \<Rightarrow>
         bindS (readS (\<lambda>s. run_get (s1_coord s) i)) (\<lambda>found. case found of
             None \<Rightarrow> returnS ()
           | Some prior \<Rightarrow>
               if xr_recoveryReason prior \<in> {None, Some []} \<and> xr_state prior \<notin> {''cancelled'', ''failed''}
               then throwS (Error ''External execution is not recovery-contained for reviewed retry'')
               else if xr_recoveryReason prior = Some ''reviewed_retry_superseded'' then returnS ()
               else supersede_run env prior))"

definition retry_attempt :: "app_env \<Rightarrow> js \<Rightarrow> mission_run \<Rightarrow> (s2_state, s2_attempt option) act" where
  "retry_attempt env input run =
    bindS (readS s2_attempts) (\<lambda>as.
    bindS (liftS (requireRecord as (field input ''previousAttemptId'') ''Previous StepAttempt'')) (\<lambda>previous.
    if at_missionRunId (sa_attempt previous) \<noteq> run_id run then throwS (Error ''StepAttempt does not belong to MissionRun'')
    else
      bindS (readS s2_plans) (\<lambda>ps.
      bindS (liftS (requireRecord ps (JStr (run_planId run)) ''Execution plan'')) (\<lambda>plan.
      case find (\<lambda>x. st_id (ss_step x) = at_stepId (sa_attempt previous)) (sp_steps plan) of
          None \<Rightarrow> throwS (TypeError ''Cannot read properties of undefined (reading id)'')
        | Some step \<Rightarrow>
            bindS (liftS (retryAfterReview (ae_sha env) (sa_attempt previous) run (ss_step step)
                (JBool (field input ''reviewed'' = JBool True)) (ae_clock env))) (\<lambda>x.
            let retried = \<lparr>sa_attempt = x, sa_humanGateId = None, sa_blockers = [], sa_workerId = JUndef\<rparr> in
            bindS (save_attempt retried) (\<lambda>_.
            bindS (appendS2Event (s2_event ''step.attempt_created'' (run_workspaceId run) ''stepAttempt'' (at_id x) (at_id x)
                [(''retryOf'', JStr (at_id (sa_attempt previous))), (''attemptNumber'', JNum (at_attemptNumber x))])) (\<lambda>_.
            bindS (if ss_executionMode step = ''local'' then executeLocalAttempt env retried step plan
                   else scheduleExternalAttempt env retried step) (\<lambda>_.
            readS (\<lambda>s. mget (s2_attempts s) (at_id x)))))))))) "

definition retryStep_base :: "app_env \<Rightarrow> js \<Rightarrow> (s2_state, s2_attempt option) act" where
  "retryStep_base env input =
    bindS (requireRunInWorkspace (field input ''runId'') (field input ''workspaceId'')) (\<lambda>found.
    bindS (if run_state found = ''recovery_required''
           then shift_run env (JStr ''reviewed retry authorized'') ''running'' found else returnS found) (\<lambda>run.
    if run_state run \<noteq> ''running'' then throwS (Error ''Mission must be running for reviewed retry'')
    else retry_attempt env input run))"

definition retryStepAfterReview :: "app_env \<Rightarrow> js \<Rightarrow> (s2_state, s2_attempt option) act" where
  "retryStepAfterReview env input =
    (if field input ''reviewed'' \<noteq> JBool True then throwS (Error ''Explicit human review is required before retry'')
     else
       bindS (requireRunInWorkspace (field input ''runId'') (field input ''workspaceId'')) (\<lambda>run.
       bindS (readS s2_attempts) (\<lambda>as.
       bindS (liftS (requireRecord as (field input ''previousAttemptId'') ''Previous StepAttempt'')) (\<lambda>previous.
       let p = sa_attempt previous in
       if at_missionRunId p \<noteq> run_id run then throwS (Error ''StepAttempt does not belong to MissionRun'')
       else if \<not> (at_state p = ''waiting_human'' \<and> at_recoveryReason p \<notin> {None, Some []})
               \<and> at_state p \<notin> {''recovery_required'', ''failed'', ''cancelled''}
       then throwS (Error ''Previous StepAttempt is not safely contained for retry'')
       else
         bindS (in_s1 (reconcileReviewedExternalAttempt env p)) (\<lambda>_.
         retryStep_base env input)))))"

subsection \<open>Recovery and restart\<close>

fun recover_each :: "app_env \<Rightarrow> s2_attempt list \<Rightarrow> (s2_state, unit) act" where
  "recover_each env [] = returnS ()"
| "recover_each env (a # as) =
     bindS (save_attempt (a\<lparr>sa_attempt := recoverAttempt (ae_clock env) (sa_attempt a)\<rparr>)) (\<lambda>_. recover_each env as)"

fun recover_missions :: "app_env \<Rightarrow> string list \<Rightarrow> (s2_state, unit) act" where
  "recover_missions env [] = returnS ()"
| "recover_missions env (i # is) =
     bindS (readS (\<lambda>s. run_at s i)) (\<lambda>found.
     bindS (case found of None \<Rightarrow> returnS ()
       | Some r \<Rightarrow> if run_state r \<noteq> ''running'' then returnS ()
           else bindS (shift_run env (JStr ''application recovery requires review'') ''recovery_required'' r) (\<lambda>_. returnS ())) (\<lambda>_.
     recover_missions env is))"

text \<open>The runs in the order of their first recovered attempt.\<close>

definition recoverS2Uncertain :: "app_env \<Rightarrow> (s2_state, unit) act" where
  "recoverS2Uncertain env =
    bindS (readS (\<lambda>s. filter (\<lambda>a. at_state (sa_attempt a) = ''active'') (mvalues (s2_attempts s)))) (\<lambda>active.
    bindS (recover_each env active) (\<lambda>_.
    recover_missions env (rev (remdups (rev (map (\<lambda>a. at_missionRunId (sa_attempt a)) active))))))"

definition s2_restart :: "app_env \<Rightarrow> (s2_state, unit) act" where
  "s2_restart env =
    bindS (in_s1 (s1_restart env)) (\<lambda>_.
    bindS (seedS2 env) (\<lambda>_.
    recoverS2Uncertain env))"

subsection \<open>The service as a sequence of calls\<close>

text \<open>
  A call in flight is an approval whose runtime call has not answered: the gate, the attempt
  found when it began, and the run it started.  A restart loses what is in flight.
\<close>

record mission_service =
  mv_state :: s2_state
  mv_inflight :: "(string \<times> s2_attempt option \<times> exec_run) list"

datatype mission_op = CreateMission js | CreateRevision js | StartMission js | PauseMission js | ResumeMission js
  | CancelMission js | RetryStep js | RejectMissionGate string | ApproveMissionGate string
  | MissionRuntimeAnswers nat "js_error + js" | InstallCapability js | GrantCapability js | RestartMissions

definition on_state :: "(s2_state, 'a) act \<Rightarrow> mission_service \<Rightarrow> mission_service" where
  "on_state m v = v\<lparr>mv_state := fst (m (mv_state v))\<rparr>"

definition approve_call :: "app_env \<Rightarrow> string \<Rightarrow> mission_service \<Rightarrow> mission_service" where
  "approve_call env g v = (case s2_approve_begin env g (mv_state v) of
      (s, Inr (attempt, Started run _)) \<Rightarrow> \<lparr>mv_state = s, mv_inflight = mv_inflight v @ [(g, attempt, run)]\<rparr>
    | (s, _) \<Rightarrow> v\<lparr>mv_state := s\<rparr>)"

definition answer_call :: "app_env \<Rightarrow> nat \<Rightarrow> js_error + js \<Rightarrow> mission_service \<Rightarrow> mission_service" where
  "answer_call env n outcome v = (if n < length (mv_inflight v)
     then (case mv_inflight v ! n of (g, attempt, run) \<Rightarrow>
       \<lparr>mv_state = fst (s2_approve_finish env g attempt run outcome (mv_state v)),
        mv_inflight = take n (mv_inflight v) @ drop (Suc n) (mv_inflight v)\<rparr>)
     else v)"

definition mission_step :: "app_env \<Rightarrow> mission_op \<Rightarrow> mission_service \<Rightarrow> mission_service" where
  "mission_step env oper v = (case oper of
      CreateMission input \<Rightarrow> on_state (s2_createMission env input) v
    | CreateRevision input \<Rightarrow> on_state (s2_createRevision env input) v
    | StartMission input \<Rightarrow> on_state (startMission env input) v
    | PauseMission input \<Rightarrow> on_state (pauseMission env input) v
    | ResumeMission input \<Rightarrow> on_state (resumeMission env input) v
    | CancelMission input \<Rightarrow> on_state (cancelMission env input) v
    | RetryStep input \<Rightarrow> on_state (retryStepAfterReview env input) v
    | RejectMissionGate g \<Rightarrow> on_state (s2_reject env g) v
    | ApproveMissionGate g \<Rightarrow> approve_call env g v
    | MissionRuntimeAnswers n outcome \<Rightarrow> answer_call env n outcome v
    | InstallCapability input \<Rightarrow> on_state (in_s1 (installCapability env input)) v
    | GrantCapability input \<Rightarrow> on_state (in_s1 (grantCapability env input)) v
    | RestartMissions \<Rightarrow> (on_state (s2_restart env) v)\<lparr>mv_inflight := []\<rparr>)"

text \<open>Every call has its own view of the host: its clock, which workers are idle.\<close>

fun mission_history :: "(app_env \<times> mission_op) list \<Rightarrow> mission_service \<Rightarrow> mission_service" where
  "mission_history [] v = v"
| "mission_history ((env, oper) # ops) v = mission_history ops (mission_step env oper v)"

end
