(* ===== verification/MissionSafety.thy ===== *)
theory MissionSafety
  imports MissionControl
begin

text \<open>
  What the mission service keeps over any sequence of its calls, with approvals interleaved at
  the await of the runtime: run states only move along the orchestrator's table, recorded
  outputs, handoffs and events never change, and the runtime is only ever called by an
  approval whose mission is open.
\<close>

subsection \<open>Who calls the runtime\<close>

definition no_calls :: "string list \<Rightarrow> coord \<Rightarrow> bool" where
  "no_calls cs c \<longleftrightarrow> co_calls c = cs"

lemma nc_modify: "(\<And>c. co_calls (f c) = co_calls c) \<Longrightarrow> keeps (no_calls cs) (modifyS f)"
  by (rule keeps_modifyS) (simp add: no_calls_def)

lemma nc_log: "keeps (no_calls cs) (log_event t k r g ls d)"
  unfolding log_event_def by (rule nc_modify) simp

lemma nc_save: "keeps (no_calls cs) (save_run r)"
  unfolding save_run_def by (intro keeps_if keeps_trivial nc_modify) simp

lemma nc_release: "keeps (no_calls cs) (release_run i now)"
  by (simp add: keeps_def no_calls_def release_run_def split: prod.splits)

lemma nc_acquire: "keeps (no_calls cs) (acquire_for lc now input w t)"
  by (auto simp: keeps_def no_calls_def acquire_for_def split: sum.splits)

lemma nc_gate: "keeps (no_calls cs) (request_gate now input)"
  by (auto simp: keeps_def no_calls_def request_gate_def split: sum.splits)

lemma nc_decision: "keeps (no_calls cs) (gate_decision now i d)"
  by (auto simp: keeps_def no_calls_def gate_decision_def split: sum.splits)

lemmas nc_intros = keeps_intros nc_log nc_save nc_release nc_acquire nc_gate nc_decision

lemma nc_request: "keeps (no_calls cs) (coord_request lc legacy now input)"
proof -
  have "keeps (no_calls cs) (request_ready lc now input h w t)" for h w t
    unfolding request_ready_def Let_def by (intro nc_intros)
  moreover have "keeps (no_calls cs) (request_blocked now input bs)" for bs
    unfolding request_blocked_def Let_def by (intro nc_intros)
  ultimately have "keeps (no_calls cs) (request_new lc legacy now input rs)" for rs
    unfolding request_new_def by (auto split: option.split intro!: nc_intros)
  then have "keeps (no_calls cs) (bindS (liftS (as_array (or_js (er_resources input) (JArr [])) (TypeError ''resources.map is not a function''))) (\<lambda>rs.
        bindS (liftS (lock_conflicts l rs None)) (request_new lc legacy now input)))" for l
    by (intro nc_intros)
  then show ?thesis unfolding keeps_def coord_request_def by (auto split: option.split)
qed

lemma nc_reject: "keeps (no_calls cs) (coord_reject now g)"
  unfolding coord_reject_def Let_def by (intro nc_intros)

lemma nc_finish: "keeps (no_calls cs) (approve_finish now run outcome)"
  by (cases outcome) (auto simp: approve_finish_def Let_def intro!: nc_intros)

lemma nc_recover: "keeps (no_calls cs) (recover_runs rs)"
proof (induction rs)
  case Nil
  show ?case unfolding recover_runs.simps by (rule keeps_trivial)
next
  case (Cons r rs)
  then show ?case unfolding recover_runs.simps Let_def by (intro nc_intros)
qed

text \<open>
  The gate and the run an approval of \<open>i\<close> finds when it goes on: the gate is open (or was
  approved before), the run of the gate waits, and the revalidator lets it pass.
\<close>

definition approvable :: "coord \<Rightarrow> (exec_run \<Rightarrow> js_error option) \<Rightarrow> string \<Rightarrow> gate \<Rightarrow> exec_run \<Rightarrow> bool" where
  "approvable c revalidate i g r \<longleftrightarrow> mget (co_gates c) i = Some g \<and> hg_state g \<in> {''requested'', ''approved''} \<and>
     run_get c (hg_executionRunId g) = Some r \<and> xr_state r = ''waiting_human'' \<and> revalidate r = None"

lemma gate_decision_open:
  "gate_decision now i ''approved'' c = (c', Inr x) \<Longrightarrow> mget (co_gates c) i = Some g \<Longrightarrow> hg_state g \<in> {''requested'', ''approved''}"
  by (auto simp: gate_decision_def gate_decide_def decide_current_def bindE_def split: sum.splits if_splits)

lemma gate_decision_calls: "gate_decision now i d c = (c', x) \<Longrightarrow> co_calls c' = co_calls c"
  by (auto simp: gate_decision_def split: sum.splits)

text \<open>The start of an approval calls the runtime at most once, with the run it starts, the run of the gate.\<close>

lemma approve_begin_calls:
  assumes "approve_begin now revalidate i c = (c', x)"
  shows "co_calls c' = co_calls c \<or> (\<exists>g r run gate. approvable c revalidate i g r \<and> x = Inr (Started run gate) \<and>
     xr_id run = xr_id r \<and> co_calls c' = co_calls c @ [xr_id r])"
proof (cases "\<exists>g r. mget (co_gates c) i = Some g \<and> run_get c (hg_executionRunId g) = Some r \<and>
    xr_state r = ''waiting_human'' \<and> revalidate r = None")
  case False
  have "co_calls (fst (approve_begin now revalidate i c)) = co_calls c"
  proof (cases "mget (co_gates c) i")
    case (Some g)
    show ?thesis
    proof (cases "run_get c (hg_executionRunId g)")
      case r: (Some r)
      with Some False show ?thesis by (cases "revalidate r") (auto simp: approve_begin_def)
    qed (simp add: Some approve_begin_def)
  qed (simp add: approve_begin_def)
  with assms show ?thesis by simp
next
  case True
  then obtain g r where g: "mget (co_gates c) i = Some g" "run_get c (hg_executionRunId g) = Some r"
    "xr_state r = ''waiting_human''" "revalidate r = None" by blast
  obtain c1 d where d: "gate_decision now i ''approved'' c = (c1, d)" by fastforce
  note calls = gate_decision_calls[OF d]
  show ?thesis
  proof (cases d)
    case (Inl e)
    with g d assms calls show ?thesis by (auto simp: approve_begin_def bindS_def)
  next
    case (Inr y)
    have "approvable c revalidate i g r" using g gate_decision_open[OF d[unfolded Inr] g(1)] by (simp add: approvable_def)
    moreover have "co_calls (fst (approve_begin now revalidate i c)) = co_calls c \<or>
      (\<exists>run gate. snd (approve_begin now revalidate i c) = Inr (Started run gate) \<and> xr_id run = xr_id r \<and>
        co_calls (fst (approve_begin now revalidate i c)) = co_calls c @ [xr_id r])"
      using g d calls by (cases y) (simp add: approve_begin_def Inr bindS_def Let_def log_event_def save_run_def call_runtime_def)
    ultimately show ?thesis using assms by auto
  qed
qed

definition quiet1 :: "string list \<Rightarrow> s1_state \<Rightarrow> bool" where
  "quiet1 cs s \<longleftrightarrow> co_calls (s1_coord s) = cs"

lemma keeps_catch: "keeps P m \<Longrightarrow> (\<And>e. keeps P (h e)) \<Longrightarrow> keeps P (catchS m h)"
  by (auto simp: keeps_def catchS_def split: prod.splits sum.splits)

lemma q1_coord: "keeps (no_calls cs) m \<Longrightarrow> keeps (quiet1 cs) (in_coord m)"
  by (auto simp: keeps_def quiet1_def no_calls_def in_coord_def split: prod.splits)

lemma q1_modify: "(\<And>s. s1_coord (f s) = s1_coord s) \<Longrightarrow> keeps (quiet1 cs) (modifyS f)"
  by (rule keeps_modifyS) (simp add: quiet1_def)

lemma q1_save: "keeps (quiet1 cs) (save_task t)"
  unfolding save_task_def by (rule q1_modify) simp

lemma q1_update: "keeps (quiet1 cs) (update_task i f)"
  unfolding update_task_def by (intro keeps_intros q1_save)

lemma q1_review: "keeps (quiet1 cs) (review_after g)"
  unfolding review_after_def by (intro keeps_intros q1_update)

lemma q1_note: "keeps (quiet1 cs) (note_result env run x)"
  unfolding note_result_def Let_def by (intro keeps_intros q1_save q1_modify) simp

lemmas q1_intros = keeps_intros q1_save q1_update q1_review q1_note q1_coord nc_request nc_reject nc_finish nc_recover nc_log nc_save nc_release

lemma q1_create: "keeps (quiet1 cs) (s1_createTask env input)"
  unfolding s1_createTask_def open_task_def Let_def by (intro q1_intros q1_modify) simp_all

lemma q1_reject: "keeps (quiet1 cs) (s1_reject env g)"
  unfolding s1_reject_def by (intro q1_intros)

lemma q1_finish: "keeps (quiet1 cs) (s1_approve_finish env g run outcome)"
  unfolding s1_approve_finish_def by (intro q1_intros keeps_catch)

lemma q1_seq: "(\<And>m. m \<in> set ms \<Longrightarrow> keeps (quiet1 cs) m) \<Longrightarrow> keeps (quiet1 cs) (seq_acts ms)"
proof (induction ms)
  case Nil
  show ?case unfolding seq_acts.simps by (rule keeps_trivial)
next
  case (Cons m ms)
  then show ?case unfolding seq_acts.simps by (intro keeps_bindS) simp_all
qed

lemma q1_seeds: "keeps (quiet1 cs) (seed_project env)" "keeps (quiet1 cs) (seed_workspace env i n)"
  "keeps (quiet1 cs) (seed_package i n d)" "keeps (quiet1 cs) (seed_version i v)" "keeps (quiet1 cs) (seed_provider env i v)"
  "keeps (quiet1 cs) (seed_agent env w i n r)" "keeps (quiet1 cs) (seed_worker i w ch)"
  unfolding seed_project_def seed_workspace_def seed_package_def seed_version_def seed_provider_def seed_agent_def seed_worker_def
  by (intro q1_intros q1_modify; simp)+

lemma q1_seed: "keeps (quiet1 cs) (seed env)"
  unfolding seed_def by (rule q1_seq) (auto intro: q1_seeds)

lemma q1_review_tasks: "keeps (quiet1 cs) (review_tasks rs)"
proof (induction rs)
  case Nil
  show ?case unfolding review_tasks.simps by (rule keeps_trivial)
next
  case (Cons r rs)
  then show ?case unfolding review_tasks.simps by (intro q1_intros)
qed

lemma q1_restart: "keeps (quiet1 cs) (s1_restart env)"
  unfolding s1_restart_def s1_recoverUncertain_def coord_recoverUncertain_def
  by (intro q1_intros q1_seed q1_review_tasks keeps_modifyS) (simp add: quiet1_def)

lemma q1_install: "keeps (quiet1 cs) (installCapability env input)"
  unfolding installCapability_def Let_def by (intro q1_intros q1_modify) simp

lemma q1_grant: "keeps (quiet1 cs) (grantCapability env input)"
  unfolding grantCapability_def Let_def by (intro q1_intros q1_modify) simp

lemma q1_reconcile: "keeps (quiet1 cs) (reconcileReviewedExternalAttempt env p)"
  unfolding reconcileReviewedExternalAttempt_def supersede_run_def by (intro q1_intros)

text \<open>The same for the mission service.\<close>

definition quiet :: "string list \<Rightarrow> s2_state \<Rightarrow> bool" where
  "quiet cs s \<longleftrightarrow> quiet1 cs (s2_s1 s)"

lemma q_s1: "keeps (quiet1 cs) m \<Longrightarrow> keeps (quiet cs) (in_s1 m)"
  by (auto simp: keeps_def quiet_def in_s1_def split: prod.splits)

lemma q_modify: "(\<And>s. s2_s1 (f s) = s2_s1 s) \<Longrightarrow> keeps (quiet cs) (modifyS f)"
  by (rule keeps_modifyS) (simp add: quiet_def)

lemma q_event: "keeps (quiet cs) (appendS2Event e)"
  by (rule keeps_s2_event) (simp add: quiet_def)

lemma q_attempt: "keeps (quiet cs) (save_attempt a)"
  unfolding save_attempt_def by (rule q_modify) simp

lemma q_shift: "keeps (quiet cs) (shift_attempt env reason st a)"
  unfolding shift_attempt_def by (intro keeps_intros q_attempt)

lemma q_run: "keeps (quiet cs) (shift_run env reason st r)"
  unfolding shift_run_def save_run2_def by (intro keeps_intros q_modify) simp

lemma q_require: "keeps (quiet cs) (requireRun i)" "keeps (quiet cs) (requireRunInWorkspace i w)"
  unfolding requireRunInWorkspace_def requireRun_def by (intro keeps_intros)+

lemmas q_intros = keeps_intros q_event q_attempt q_shift q_run q_require q_s1 q1_create q1_reject q1_install q1_grant q1_reconcile

subsection \<open>What every call of the service is made of\<close>

text \<open>The parts of the state a write of a mission, a plan or a step binding leaves alone.\<close>

definition run_parts :: "s2_state \<Rightarrow> s1_state \<times> (string, mission_run) jsmap \<times> (string, s2_attempt) jsmap
    \<times> (string, step_output) jsmap \<times> (string, agent_handoff) jsmap \<times> app_event list" where
  "run_parts s = (s2_s1 s, s2_runs s, s2_attempts s, s2_outputs s, s2_handoffs s, s2_events s)"

locale mission_frame =
  fixes P :: "s2_state \<Rightarrow> bool"
  assumes event: "keeps P (appendS2Event e)"
    and attempt: "keeps P (save_attempt a)"
    and new_s1: "P s \<Longrightarrow> co_calls (s1_coord t) = co_calls (s1_coord (s2_s1 s)) \<Longrightarrow> P (s\<lparr>s2_s1 := t\<rparr>)"
    and new_output: "P s \<Longrightarrow> mget (s2_outputs s) (so_id out) = None \<Longrightarrow> P (s\<lparr>s2_outputs := mset_at (so_id out) out (s2_outputs s)\<rparr>)"
    and new_handoff: "P s \<Longrightarrow> mget (s2_handoffs s) (ho_id h) = None \<Longrightarrow> P (s\<lparr>s2_handoffs := mset_at (ho_id h) h (s2_handoffs s)\<rparr>)"
    and move_run: "P s \<Longrightarrow> run_at s (run_id r) = Some r \<Longrightarrow> transitionRun now reason r st = Inr r' \<Longrightarrow>
      P (s\<lparr>s2_runs := mset_at (run_id r') r' (s2_runs s)\<rparr>)"
    and new_run: "P s \<Longrightarrow> run_at s (run_id r) = None \<Longrightarrow> P (s\<lparr>s2_runs := mset_at (run_id r) r (s2_runs s)\<rparr>)"
    and other: "P s \<Longrightarrow> run_parts s' = run_parts s \<Longrightarrow> P s'"
begin

lemma s1_part: "(\<And>cs. keeps (quiet1 cs) m) \<Longrightarrow> keeps P (in_s1 m)"
  unfolding keeps_def in_s1_def quiet1_def by (auto split: prod.splits intro!: new_s1) (metis fst_conv)

lemma shift_attempt: "keeps P (shift_attempt env reason st a)"
  unfolding shift_attempt_def by (intro keeps_intros attempt)

lemma shift_run: "run_at s (run_id r) = Some r \<Longrightarrow> keeps_at P s (shift_run env reason st r)"
  unfolding shift_run_def save_run2_def
  by (intro at_lift at_modify keeps_trivial) (rule move_run)

lemma others: "(\<And>s. run_parts (f s) = run_parts s) \<Longrightarrow> keeps P (modifyS f)"
  by (rule keeps_modifyS) (rule other)

lemma create_task: "keeps P (in_s1 (s1_createTask env input))"
  by (rule s1_part) (rule q1_create)

lemma reject_s1: "keeps P (in_s1 (s1_reject env g))"
  by (rule s1_part) (rule q1_reject)

lemmas parts = keeps_intros event attempt shift_attempt create_task reject_s1

lemma record_evidence: "keeps P (record_evidence env x step value rs)"
proof (induction rs)
  case Nil
  show ?case unfolding record_evidence.simps by (rule keeps_trivial)
next
  case (Cons r rs)
  have "keeps P (in_s1 (modifyS (\<lambda>s. case mget (s1_evidence s) i of Some _ \<Rightarrow> s
        | None \<Rightarrow> s\<lparr>s1_evidence := mset_at i e (s1_evidence s)\<rparr>)))" for i e
    by (rule s1_part) (auto intro!: q1_modify split: option.split)
  with Cons show ?case unfolding record_evidence.simps Let_def by (intro keeps_bindS)
qed

lemma record_outputs: "keeps P (record_outputs env x step value names)"
proof (induction names)
  case Nil
  show ?case unfolding record_outputs.simps by (rule keeps_trivial)
next
  case (Cons n ns)
  have so: "so_id out = i" if "createStepOutput now (JObj ((''id'', JStr i) # kvs)) = Inr out" for now i kvs out
    using that by (auto simp: createStepOutput_def)
  show ?case
  proof (rule keeps_by_at)
    fix s show "keeps_at P s (record_outputs env x step value (n # ns))"
      unfolding record_outputs.simps Let_def
      by (intro at_read at_bind at_option at_end at_lift keeps_bindS event Cons.IH)
         (auto simp: keeps_at_def dest!: so intro: new_output)
  qed
qed

lemma record_outputs_evidence: "keeps P (recordOutputsAndEvidence env x step value)"
  unfolding recordOutputsAndEvidence_def by (intro keeps_bindS record_outputs record_evidence)

lemma record_handoff: "keeps P (record_handoff env x src outs tgt d)"
proof (rule keeps_by_at)
  have ho: "ho_id h = i" if "createAgentHandoff now (JObj ((''id'', JStr i) # kvs)) (Some a) (Some b) (Some out) = Inr h" for now i kvs a b out h
    using that unfolding createAgentHandoff_def option.case prod.case by (auto simp: field.simps simp del: set_map)
  fix s show "keeps_at P s (record_handoff env x src outs tgt d)"
    unfolding record_handoff_def Let_def
    by (intro at_if at_option at_end at_read at_lift at_modify event) (auto dest!: ho intro: new_handoff)
qed

lemma record_handoffs: "keeps P (record_handoffs env x src outs ts)"
proof (induction ts)
  case Nil
  show ?case unfolding record_handoffs.simps by (rule keeps_trivial)
next
  case (Cons t ts)
  then show ?case by (cases t) (simp add: keeps_bindS record_handoff)
qed

lemma completed_handoffs: "keeps P (recordHandoffsForCompletedAttempt env x src plan)"
  unfolding recordHandoffsForCompletedAttempt_def by (intro keeps_intros record_handoffs)

lemma execute_local: "keeps P (executeLocalAttempt env a step plan)"
  unfolding executeLocalAttempt_def by (intro parts record_outputs_evidence completed_handoffs)

lemma schedule_external: "keeps P (scheduleExternalAttempt env a step)"
  unfolding scheduleExternalAttempt_def Let_def by (intro parts)

end

lemma run_at_self: "run_at s i = Some r \<Longrightarrow> run_at s (run_id r) = Some r"
  using run_at_id by metis

lemma at_requireRun:
  assumes "\<And>run. run_at s (run_id run) = Some run \<Longrightarrow> keeps_at P s (f run)"
  shows "keeps_at P s (bindS (requireRun i) f)"
proof -
  define k where "k = (case i of JStr runId \<Rightarrow> run_at s runId | _ \<Rightarrow> None)"
  have r: "requireRun i s = (case k of None \<Rightarrow> (s, Inl (Error (''Mission run not found: '' @ to_string i))) | Some run \<Rightarrow> (s, Inr run))"
    by (simp add: requireRun_def k_def split: option.split)
  have "run_at s (run_id run) = Some run" if "k = Some run" for run
    using that by (auto simp: k_def intro: run_at_self split: js.split_asm)
  with assms show ?thesis by (cases k) (auto simp: keeps_at_def bindS_def r)
qed

lemma at_requireRunInWorkspace:
  assumes "\<And>run. run_at s (run_id run) = Some run \<Longrightarrow> keeps_at P s (f run)"
  shows "keeps_at P s (bindS (requireRunInWorkspace i w) f)"
proof -
  have assoc: "bindS (bindS m g) f t = bindS m (\<lambda>x. bindS (g x) f) t" for m g f t
    by (auto simp: bindS_def split: prod.splits sum.splits)
  have "keeps_at P s (bindS (requireRun i) (\<lambda>run. bindS
      (if JStr (run_workspaceId run) \<noteq> w then throwS (Error ''Cross-Workspace MissionRun access denied'') else returnS run) f))"
    by (rule at_requireRun) (use assms in \<open>auto simp: keeps_at_def bindS_def\<close>)
  then show ?thesis unfolding requireRunInWorkspace_def keeps_at_def assoc .
qed

context mission_frame begin

lemma evaluate_step: "keeps P (evaluate_step env runId plan i)"
  unfolding evaluate_step_def Let_def by (intro parts execute_local schedule_external)

lemma evaluate_steps: "keeps P (evaluate_steps env runId plan is)"
proof (induction "is")
  case Nil
  show ?case unfolding evaluate_steps.simps by (rule keeps_trivial)
next
  case (Cons i "is")
  then show ?case unfolding evaluate_steps.simps by (intro keeps_intros evaluate_step)
qed

lemma evaluate_pass: "keeps P (evaluate_pass env runId plan run)"
  unfolding evaluate_pass_def by (intro keeps_intros evaluate_steps)

lemma evaluate_loop: "P s \<Longrightarrow> P (fst (evaluate_loop env runId plan s))"
proof (induction env runId plan s rule: evaluate_loop.induct)
  case (1 env runId plan s)
  show ?case
  proof (cases "run_at s runId")
    case (Some run)
    obtain s' r where p: "evaluate_pass env runId plan run s = (s', r)" by fastforce
    from keepsD[OF evaluate_pass 1(2) p] have "P s'" .
    with 1 Some p show ?thesis by (subst evaluate_loop.simps) (auto split: sum.split)
  qed (use 1 in \<open>subst evaluate_loop.simps, simp\<close>)
qed

lemma maybe_complete: "keeps P (maybeCompleteMission env runId)"
proof (rule keeps_by_at)
  fix s show "keeps_at P s (maybeCompleteMission env runId)"
    unfolding maybeCompleteMission_def
    by (intro at_intros at_bind shift_run event) (auto dest: run_at_self)
qed

lemma evaluate_run: "keeps P (evaluateRun env runId)"
proof -
  have "keeps P (evaluate_loop env runId plan)" for plan by (simp add: keeps_def evaluate_loop)
  then show ?thesis unfolding evaluateRun_def by (intro keeps_intros maybe_complete)
qed

lemma change_run: "keeps P (change_run env st type reason input)"
proof (rule keeps_by_at)
  fix s show "keeps_at P s (change_run env st type reason input)"
    unfolding change_run_def
    by (intro at_requireRunInWorkspace at_bind shift_run keeps_intros event) simp
qed

lemma pause_resume: "keeps P (pauseMission env input)" "keeps P (resumeMission env input)"
  unfolding pauseMission_def resumeMission_def by (intro keeps_bindS change_run evaluate_run)+

lemma complete: "keeps P (complete_attempt env a run x)"
proof -
  have "keeps P (observe_attempt env latest run v step plan)" for latest v step plan
    unfolding observe_attempt_def Let_def
    by (intro parts record_outputs_evidence completed_handoffs evaluate_run)
  moreover have "keeps P (requireRun i)" for i unfolding requireRun_def by (intro keeps_intros)
  ultimately show ?thesis unfolding complete_attempt_def by (intro keeps_intros)
qed

lemma recover: "keeps P (recover_attempt env a)"
proof -
  have "keeps_at P s (bindS (readS (\<lambda>s. run_at s i)) (\<lambda>run. case run of None \<Rightarrow> returnS ()
      | Some r \<Rightarrow> if run_state r \<noteq> ''running'' then returnS () else bindS (shift_run env reason st r) (\<lambda>_. returnS ())))" for s i reason st
    by (intro at_intros at_bind shift_run keeps_trivial) (auto dest: run_at_self)
  note piece = keeps_by_at[OF this]
  show ?thesis
  proof (rule keeps_by_at)
    fix s show "keeps_at P s (recover_attempt env a)"
      unfolding recover_attempt_def Let_def
      by (intro at_read at_option at_if at_end at_bind keeps_atI[OF attempt] piece)
  qed
qed

lemma finish: "keeps P (s2_approve_finish env g a run outcome)"
  unfolding s2_approve_finish_def by (intro keeps_catch keeps_intros s1_part q1_finish complete recover)

lemma reject: "keeps P (s2_reject env g)"
  unfolding s2_reject_def by (intro parts evaluate_run)

lemma recover_uncertain: "keeps P (recoverS2Uncertain env)"
proof -
  have e: "keeps P (recover_each env as)" for as
  proof (induction as)
    case Nil
    show ?case unfolding recover_each.simps by (rule keeps_trivial)
  next
    case (Cons a as)
    then show ?case unfolding recover_each.simps by (intro keeps_bindS attempt)
  qed
  have m: "keeps P (recover_missions env is)" for "is"
  proof (induction "is")
    case Nil
    show ?case unfolding recover_missions.simps by (rule keeps_trivial)
  next
    case (Cons i "is")
    show ?case
    proof (rule keeps_by_at)
      fix s show "keeps_at P s (recover_missions env (i # is))"
        unfolding recover_missions.simps
        by (intro at_read at_bind at_option at_if at_end shift_run keeps_trivial Cons.IH) (auto dest: run_at_self)
    qed
  qed
  show ?thesis unfolding recoverS2Uncertain_def by (intro keeps_intros e m)
qed

end

lemma runs_kept: "keeps (\<lambda>t. s2_runs t = R) (cancel_attempts env as)"
proof (induction as)
  case Nil
  show ?case unfolding cancel_attempts.simps by (rule keeps_trivial)
next
  case (Cons a as)
  have "keeps (\<lambda>t. s2_runs t = R) (in_s1 m)" for m by (rule keeps_in_s1) simp
  moreover have "keeps (\<lambda>t. s2_runs t = R) (save_attempt a)" for a
    unfolding save_attempt_def by (rule keeps_modifyS) simp
  ultimately have "keeps (\<lambda>t. s2_runs t = R) (cancel_attempt env a)"
    unfolding cancel_attempt_def by (auto split: option.split sum.split intro!: keeps_intros)
  with Cons show ?case unfolding cancel_attempts.simps by (intro keeps_bindS)
qed

lemma at_bind_runs:
  fixes s :: s2_state
  assumes "keeps P m" "keeps (\<lambda>t. s2_runs t = s2_runs s) m" "\<And>x t. s2_runs t = s2_runs s \<Longrightarrow> keeps_at P t (f x)"
  shows "keeps_at P s (bindS m f)"
proof -
  obtain t r where m: "m s = (t, r)" by fastforce
  with assms(1,2) have "P s \<Longrightarrow> P t" "s2_runs t = s2_runs s" by (auto simp: keeps_def dest: spec[of _ s])
  with assms(3)[of t] m show ?thesis by (cases r) (auto simp: keeps_at_def bindS_def)
qed

lemma createMissionRun_id: "createMissionRun now input = Inr r \<Longrightarrow> field input ''id'' = JStr (run_id r)"
  by (auto simp: createMissionRun_def)

lemma at_modify_at: "(P s \<Longrightarrow> P (g s)) \<Longrightarrow> keeps_at P (g s) (f ()) \<Longrightarrow> keeps_at P s (bindS (modifyS g) f)"
  by (simp add: keeps_at_def)

context mission_frame begin

lemma cancel: "keeps P (cancelMission env input)"
proof -
  have one: "keeps P (cancel_attempt env a)" for a
    unfolding cancel_attempt_def by (auto split: option.split sum.split intro!: keeps_intros attempt reject_s1)
  have c: "keeps P (cancel_attempts env as)" for as
  proof (induction as)
    case Nil
    show ?case unfolding cancel_attempts.simps by (rule keeps_trivial)
  next
    case (Cons a as)
    show ?case unfolding cancel_attempts.simps by (intro keeps_bindS one Cons.IH)
  qed
  show ?thesis
  proof (rule keeps_by_at)
    fix s show "keeps_at P s (cancelMission env input)"
      unfolding cancelMission_def
    proof (intro at_requireRunInWorkspace at_if at_end at_read, rule at_bind_runs[OF c runs_kept])
      fix run and t :: s2_state assume "run_at s (run_id run) = Some run" "s2_runs t = s2_runs s"
      then have r: "run_at t (run_id run) = Some run" by (simp add: run_at_def)
      show "keeps_at P t (bindS (shift_run env (or_js (field input ''reason'') (JStr ''operator cancel'')) ''cancelled'' run) (\<lambda>cancelled.
          bindS (appendS2Event (run_event ''mission.run_cancelled'' cancelled (versioned cancelled)
            [(''reason'', JStr (run_lastReason cancelled))])) (\<lambda>_. returnS cancelled)))"
        by (intro at_bind shift_run[OF r] keeps_bindS event keeps_trivial)
    qed
  qed
qed

lemma retry: "keeps P (retryStepAfterReview env input)"
proof -
  have a: "keeps P (retry_attempt env input run)" for run
    unfolding retry_attempt_def Let_def by (intro parts execute_local schedule_external)
  have b: "keeps P (retryStep_base env input)"
  proof (rule keeps_by_at)
    fix s show "keeps_at P s (retryStep_base env input)"
      unfolding retryStep_base_def
      by (intro at_requireRunInWorkspace at_bind at_if shift_run at_end keeps_intros a) simp_all
  qed
  have "keeps P (requireRunInWorkspace i w)" for i w
    unfolding requireRunInWorkspace_def requireRun_def by (intro keeps_intros)
  then show ?thesis unfolding retryStepAfterReview_def Let_def
    by (intro keeps_intros s1_part q1_reconcile b)
qed

lemma create_mission: "keeps P (s2_createMission env input)"
  unfolding s2_createMission_def Let_def by (intro keeps_intros others event) (simp add: run_parts_def)

lemma create_revision: "keeps P (s2_createRevision env input)"
proof -
  have b: "keeps P (save_bindings env bs)" for bs
  proof (induction bs)
    case Nil
    show ?case unfolding save_bindings.simps by (rule keeps_trivial)
  next
    case (Cons b bs)
    then show ?case unfolding save_bindings.simps by (intro keeps_intros others) (simp_all add: run_parts_def)
  qed
  have "keeps P (store_revision env input m rd)" for m rd
    unfolding store_revision_def Let_def by (intro keeps_intros b others event) (simp_all add: run_parts_def)
  then show ?thesis unfolding s2_createRevision_def
    by (auto split: js.split option.split s2_revision.split intro!: keeps_intros)
qed

lemma open_run: "(\<And>i. runId = JStr i \<Longrightarrow> run_at s i = None) \<Longrightarrow> keeps_at P s (open_run env m base plan runId)"
  unfolding open_run_def shift_run_def save_run2_def
proof (intro at_lift)
  fix c assume none: "\<And>i. runId = JStr i \<Longrightarrow> run_at s i = None"
    and c: "createMissionRun (ae_clock env) (JObj [(''id'', runId), (''workspaceId'', JStr (mi_workspaceId m)),
        (''missionId'', JStr (mi_id m)), (''missionRevisionId'', JStr (mr_id base)), (''planId'', JStr (pl_id (sp_plan plan))),
        (''createdAt'', JStr (ae_clock env))]) = Inr c"
  from createMissionRun_id[OF c] have "runId = JStr (run_id c)" by simp
  then have n: "run_at s (run_id c) = None" by (rule none)
  have "P s \<Longrightarrow> P (s\<lparr>s2_runs := mset_at (run_id r) r (s2_runs s)\<rparr>)"
    if "transitionRun now reason c st = Inr r" for now reason st r
    using that n by (intro new_run) (auto simp: transitionRun_def split: if_splits)
  then show "keeps_at P s (bindS (bindS (liftS (transitionRun (ae_clock env) (JStr ''mission start'') c ''running''))
      (\<lambda>r'. bindS (modifyS (\<lambda>s. s\<lparr>s2_runs := mset_at (run_id r') r' (s2_runs s)\<rparr>)) (\<lambda>_. returnS r')))
      (\<lambda>run. bindS (appendS2Event (run_event ''mission.run_started'' run (run_id run)
        [(''missionId'', JStr (mi_id m)), (''revisionId'', JStr (mr_id base)), (''planId'', JStr (pl_id (sp_plan plan)))])) (\<lambda>_.
      returnS run)))"
    by (intro at_bind at_lift at_modify keeps_intros event)
qed

lemma start: "keeps P (startMission env input)"
proof -
  have "keeps_at P s (bindS (modifyS (\<lambda>s. s\<lparr>s2_revisions := mset_at k v (s2_revisions s)\<rparr>)) (\<lambda>_.
      bindS (open_run env m base plan runId) (\<lambda>run. evaluateRun env (run_id run))))"
    if "(case runId of JStr i \<Rightarrow> run_at s i | _ \<Rightarrow> None) = None" for s k v m base plan runId
    by (intro at_modify_at at_bind open_run evaluate_run)
       (use that in \<open>auto simp: run_at_def run_parts_def intro: other\<close>)
  then have "keeps P (start_run env m base dg plan runId)" for m base dg plan runId
    unfolding start_run_def Let_def by (intro keeps_by_at at_read at_option at_end)
  then show ?thesis unfolding startMission_def
    by (auto split: s2_revision.split intro!: keeps_intros)
qed

lemma restart: "keeps P (s2_restart env)"
proof -
  have "keeps P (seedS2 env)"
    unfolding seedS2_def by (intro keeps_intros s1_part q1_seq) (auto intro: q1_seeds split: if_splits)
  then show ?thesis unfolding s2_restart_def by (intro keeps_intros s1_part q1_restart recover_uncertain)
qed

text \<open>Every call but an approval and the answer of the runtime, and the end of an approval.\<close>

lemma on_state: "keeps P m \<Longrightarrow> P (mv_state v) \<Longrightarrow> P (mv_state (on_state m v))"
  by (simp add: on_state_def keeps_def)

lemma answer: "P (mv_state v) \<Longrightarrow> P (mv_state (answer_call env n outcome v))"
  using finish by (auto simp: answer_call_def keeps_def split: prod.split)

lemma call:
  assumes "P (mv_state v)" "\<And>g. oper \<noteq> ApproveMissionGate g"
  shows "P (mv_state (mission_step env oper v))"
  using assms by (cases oper) (auto simp: mission_step_def intro!: on_state answer create_mission create_revision start
      pause_resume cancel retry reject restart s1_part q1_install q1_grant)

end

interpretation calls: mission_frame "quiet cs"
proof
  show "keeps (quiet cs) (appendS2Event e)" for e by (rule q_event)
  show "keeps (quiet cs) (save_attempt a)" for a by (rule q_attempt)
qed (simp_all add: quiet_def quiet1_def run_parts_def)

text \<open>When the mission of a gate lets its approval go on to the runtime.\<close>

definition mission_lets :: "s2_state \<Rightarrow> string \<Rightarrow> bool" where
  "mission_lets s i \<longleftrightarrow> (case attempt_of_gate s i of None \<Rightarrow> True
     | Some a \<Rightarrow> (\<exists>r. run_at s (at_missionRunId (sa_attempt a)) = Some r \<and> run_state r \<notin> {''paused'', ''cancelled''}) \<and>
         at_recoveryReason (sa_attempt a) \<in> {None, Some []} \<and> at_state (sa_attempt a) \<noteq> ''recovery_required'')"

lemma quiet1_same: "keeps (quiet1 (co_calls (s1_coord s))) m \<Longrightarrow> co_calls (s1_coord (fst (m s))) = co_calls (s1_coord s)"
  by (simp add: keeps_def quiet1_def)

lemma s1_approve_begin_calls:
  assumes "s1_approve_begin env g s = (s', r)"
  shows "co_calls (s1_coord s') = co_calls (s1_coord s) \<or>
    \<not> recovered_gate s g \<and> (\<exists>run gate h x. r = Inr (Started run gate) \<and> approvable (s1_coord s) (s1_revalidate env s) g h x \<and>
      co_calls (s1_coord s') = co_calls (s1_coord s) @ [xr_id x])"
proof (cases "recovered_gate s g")
  case True
  then show ?thesis using assms by (simp add: s1_approve_begin_def)
next
  case False
  obtain c q where q: "approve_begin (ae_clock env) (s1_revalidate env s) g (s1_coord s) = (c, q)" by fastforce
  have b: "s1_approve_begin env g s = catchS (\<lambda>t. bindS (in_coord (approve_begin (ae_clock env) (s1_revalidate env s) g)) (\<lambda>a. case a of
           AlreadyStarted run gate \<Rightarrow> bindS (note_result env run (or_js (xr_execution run) JNull)) (\<lambda>_. returnS a)
         | Started run gate \<Rightarrow> returnS a) s) (\<lambda>e. bindS (review_after g) (\<lambda>_. throwS e)) s"
    using False by (simp add: s1_approve_begin_def catchS_def)
  show ?thesis
  proof (cases "\<exists>run gate. q = Inr (Started run gate)")
    case True
    then obtain run gate where qs: "q = Inr (Started run gate)" by blast
    then have "s1_approve_begin env g s = (s\<lparr>s1_coord := c\<rparr>, Inr (Started run gate))"
      unfolding b by (simp add: catchS_def bindS_def in_coord_def q)
    then have "s' = s\<lparr>s1_coord := c\<rparr>" "r = Inr (Started run gate)" using assms by simp_all
    with approve_begin_calls[OF q] False show ?thesis unfolding qs by auto
  next
    case no: False
    let ?t = "s\<lparr>s1_coord := c\<rparr>"
    have c: "co_calls c = co_calls (s1_coord s)" using approve_begin_calls[OF q] no by blast
    have r: "keeps (quiet1 cs) (bindS (review_after g) (\<lambda>_. throwS e))" for cs and e :: js_error
      by (intro q1_intros)
    have n: "keeps (quiet1 cs) (bindS (note_result env run x) (\<lambda>_. returnS a))" for cs run x and a :: approval
      by (intro q1_intros)
    have "co_calls (s1_coord (fst (s1_approve_begin env g s))) = co_calls (s1_coord s)"
    proof (cases q)
      case (Inl e)
      then have "s1_approve_begin env g s = bindS (review_after g) (\<lambda>_. throwS e) ?t"
        unfolding b by (simp add: catchS_def bindS_def in_coord_def q split: prod.split sum.split)
      with quiet1_same[where s = ?t, OF r] c show ?thesis by simp
    next
      case (Inr a)
      with no obtain run gate where a: "a = AlreadyStarted run gate" by (cases a) auto
      obtain u v where uv: "bindS (note_result env run (or_js (xr_execution run) JNull)) (\<lambda>_. returnS a) ?t = (u, v)" by fastforce
      with quiet1_same[where s = ?t and m = "bindS (note_result env run (or_js (xr_execution run) JNull)) (\<lambda>_. returnS a)", OF n] c have cu: "co_calls (s1_coord u) = co_calls (s1_coord s)" by simp
      have "s1_approve_begin env g s = (case v of Inl e \<Rightarrow> bindS (review_after g) (\<lambda>_. throwS e) u | Inr x \<Rightarrow> (u, Inr x))"
        using uv unfolding b a by (auto simp: catchS_def bindS_def in_coord_def q Inr a split: sum.split)
      with quiet1_same[where s = u, OF r] cu show ?thesis by (cases v) auto
    qed
    with assms show ?thesis by simp
  qed
qed

lemma approval_guard_ok:
  assumes "approval_guard (attempt_of_gate s i) s = (s', r)"
  shows "s' = s \<and> (r = Inr () \<longrightarrow> mission_lets s i)"
  using assms unfolding mission_lets_def
  by (cases "attempt_of_gate s i"; cases "run_at s (at_missionRunId (sa_attempt (the (attempt_of_gate s i))))")
    (auto simp: approval_guard_def requireRun_def bindS_def split: if_splits)

lemma quiet_same: "(\<And>cs. keeps (quiet cs) m) \<Longrightarrow> co_calls (s1_coord (s2_s1 (fst (m s)))) = co_calls (s1_coord (s2_s1 s))"
  by (simp add: keeps_def quiet_def quiet1_def)

lemma s2_approve_begin_calls:
  assumes "s2_approve_begin env g s = (s', r)"
  shows "co_calls (s1_coord (s2_s1 s')) = co_calls (s1_coord (s2_s1 s)) \<or>
    mission_lets s g \<and> \<not> recovered_gate (s2_s1 s) g \<and>
    (\<exists>h x. approvable (s1_coord (s2_s1 s)) (s1_revalidate env (s2_s1 s)) g h x \<and>
      co_calls (s1_coord (s2_s1 s')) = co_calls (s1_coord (s2_s1 s)) @ [xr_id x])"
proof -
  let ?at = "attempt_of_gate s g"
  obtain t q where guard: "approval_guard ?at s = (t, q)" by fastforce
  note ok = approval_guard_ok[OF guard]
  show ?thesis
  proof (cases q)
    case (Inl e)
    with assms guard ok show ?thesis by (simp add: s2_approve_begin_def bindS_def)
  next
    case (Inr u)
    with ok have t: "approval_guard ?at s = (s, Inr ())" using guard by simp
    obtain c v where v: "s1_approve_begin env g (s2_s1 s) = (c, v)" by fastforce
    let ?t = "s\<lparr>s2_s1 := c\<rparr>"
    let ?h = "\<lambda>e. bindS (recover_attempt env ?at) (\<lambda>_. throwS e)"
    have b: "s2_approve_begin env g s = (case v of Inl e \<Rightarrow> ?h e ?t
       | Inr (AlreadyStarted run gate) \<Rightarrow>
           catchS (bindS (complete_attempt env ?at run (or_js (xr_execution run) JNull)) (\<lambda>_. returnS (?at, AlreadyStarted run gate))) ?h ?t
       | Inr (Started run gate) \<Rightarrow> (?t, Inr (?at, Started run gate)))"
      using t v by (auto simp: s2_approve_begin_def bindS_def catchS_def in_s1_def split: sum.split approval.split)
    have h: "keeps (quiet cs) (?h e)" for cs and e :: js_error by (intro keeps_intros calls.recover)
    have n: "keeps (quiet cs) (catchS (bindS (complete_attempt env ?at run x) (\<lambda>_. returnS y)) ?h)" for cs run x y
      by (intro keeps_catch keeps_intros calls.complete calls.recover)
    from s1_approve_begin_calls[OF v] show ?thesis
    proof (elim disjE conjE exE)
      assume c: "co_calls (s1_coord c) = co_calls (s1_coord (s2_s1 s))"
      have "co_calls (s1_coord (s2_s1 (fst (s2_approve_begin env g s)))) = co_calls (s1_coord (s2_s1 ?t))"
        unfolding b by (auto simp: quiet_same[OF h] quiet_same[OF n] split: sum.split approval.split)
      with c assms show ?thesis by simp
    next
      fix run gate h x assume a: "\<not> recovered_gate (s2_s1 s) g" "v = Inr (Started run gate)"
        "approvable (s1_coord (s2_s1 s)) (s1_revalidate env (s2_s1 s)) g h x"
        "co_calls (s1_coord c) = co_calls (s1_coord (s2_s1 s)) @ [xr_id x]"
      from a(2) b assms have "s' = ?t" by simp
      with a t ok guard show ?thesis by (auto simp: Inr)
    qed
  qed
qed

lemma attempt_of_gate_run:
  "attempt_of_gate s i = Some a \<Longrightarrow> mget (co_gates (s1_coord (s2_s1 s))) i = Some gate \<Longrightarrow>
     at_executionRunId (sa_attempt a) = Some (hg_executionRunId gate)"
  by (auto simp: attempt_of_gate_def find_Some_iff)

lemma open_mission_gate:
  assumes "mission_lets s i" "\<not> recovered_gate (s2_s1 s) i" "approvable (s1_coord (s2_s1 s)) rv i g x"
  shows "mget (co_gates (s1_coord (s2_s1 s))) i = Some g \<and> hg_state g \<in> {''requested'', ''approved''} \<and>
      run_get (s1_coord (s2_s1 s)) (hg_executionRunId g) = Some x \<and>
      xr_state x = ''waiting_human'' \<and> xr_recoveryReason x \<in> {None, Some []} \<and> rv x = None \<and>
      (case attempt_of_gate s i of None \<Rightarrow> True
       | Some a \<Rightarrow> at_executionRunId (sa_attempt a) = Some (hg_executionRunId g) \<and>
           at_recoveryReason (sa_attempt a) \<in> {None, Some []} \<and> at_state (sa_attempt a) \<noteq> ''recovery_required'' \<and>
           (\<exists>r. run_at s (at_missionRunId (sa_attempt a)) = Some r \<and> run_state r \<noteq> ''paused'' \<and> run_state r \<noteq> ''cancelled''))"
proof -
  have g: "mget (co_gates (s1_coord (s2_s1 s))) i = Some g" and r: "run_get (s1_coord (s2_s1 s)) (hg_executionRunId g) = Some x"
    using assms(3) by (simp_all add: approvable_def)
  have rec: "xr_recoveryReason x \<in> {None, Some []}" using assms(2) g r by (simp add: recovered_gate_def)
  show ?thesis
  proof (cases "attempt_of_gate s i")
    case None
    with assms(3) rec show ?thesis by (simp add: approvable_def)
  next
    case (Some a)
    with assms(1) have "at_recoveryReason (sa_attempt a) \<in> {None, Some []} \<and> at_state (sa_attempt a) \<noteq> ''recovery_required'' \<and>
      (\<exists>r. run_at s (at_missionRunId (sa_attempt a)) = Some r \<and> run_state r \<noteq> ''paused'' \<and> run_state r \<noteq> ''cancelled'')"
      by (simp add: mission_lets_def)
    with assms(3) rec attempt_of_gate_run[OF Some g] show ?thesis by (simp add: approvable_def Some)
  qed
qed

text \<open>
  C3: The runtime is called by no call of the service but an approval, at most once in it and
  for the run of the gate that is approved: the gate is not rejected or expired, the run waits,
  is marked neither recovered nor uncertain, and passes the revalidator.  When the run is that
  of an attempt, its mission is neither paused nor cancelled and the attempt not under recovery.
  (The code asks nothing else of the mission: in one that is \<open>recovery_required\<close> for another
  attempt an open gate can still be approved.)  Starting, resuming, retrying, cancelling,
  answering and restarting call nothing, whatever they schedule.
\<close>

theorem runtime_called_only_in_open_missions:
  "co_calls (s1_coord (s2_s1 (mv_state (mission_step env oper v)))) = co_calls (s1_coord (s2_s1 (mv_state v))) \<or>
   (\<exists>i gate x. oper = ApproveMissionGate i \<and>
      mget (co_gates (s1_coord (s2_s1 (mv_state v)))) i = Some gate \<and> hg_state gate \<in> {''requested'', ''approved''} \<and>
      run_get (s1_coord (s2_s1 (mv_state v))) (hg_executionRunId gate) = Some x \<and>
      xr_state x = ''waiting_human'' \<and> xr_recoveryReason x \<in> {None, Some []} \<and>
      s1_revalidate env (s2_s1 (mv_state v)) x = None \<and>
      (case attempt_of_gate (mv_state v) i of None \<Rightarrow> True
       | Some a \<Rightarrow> at_executionRunId (sa_attempt a) = Some (hg_executionRunId gate) \<and>
           at_recoveryReason (sa_attempt a) \<in> {None, Some []} \<and> at_state (sa_attempt a) \<noteq> ''recovery_required'' \<and>
           (\<exists>r. run_at (mv_state v) (at_missionRunId (sa_attempt a)) = Some r \<and> run_state r \<noteq> ''paused'' \<and> run_state r \<noteq> ''cancelled'')) \<and>
      co_calls (s1_coord (s2_s1 (mv_state (mission_step env oper v)))) = co_calls (s1_coord (s2_s1 (mv_state v))) @ [xr_id x])"
proof (cases "\<exists>g. oper = ApproveMissionGate g")
  case True
  then obtain g where g: "oper = ApproveMissionGate g" by blast
  obtain s r where sr: "s2_approve_begin env g (mv_state v) = (s, r)" by fastforce
  then have s: "mv_state (mission_step env oper v) = s"
    by (auto simp: mission_step_def g approve_call_def split: sum.split approval.split)
  from s2_approve_begin_calls[OF sr] show ?thesis
  proof (elim disjE conjE exE)
    fix h x assume "mission_lets (mv_state v) g" "\<not> recovered_gate (s2_s1 (mv_state v)) g"
      "approvable (s1_coord (s2_s1 (mv_state v))) (s1_revalidate env (s2_s1 (mv_state v))) g h x"
      and c: "co_calls (s1_coord (s2_s1 s)) = co_calls (s1_coord (s2_s1 (mv_state v))) @ [xr_id x]"
    note open_mission_gate[OF this(1-3)]
    then show ?thesis unfolding s c by (intro disjI2 exI[of _ g] exI[of _ h] exI[of _ x]) (simp only: g simp_thms)
  qed (simp add: s)
next
  case False
  then have "quiet (co_calls (s1_coord (s2_s1 (mv_state v)))) (mv_state (mission_step env oper v))"
    by (intro calls.call) (auto simp: quiet_def quiet1_def)
  then show ?thesis by (simp add: quiet_def quiet1_def)
qed

subsection \<open>Nothing recorded is lost\<close>

abbreviation orchestrator_move :: "string \<times> js \<Rightarrow> mission_run \<Rightarrow> string \<Rightarrow> mission_run res" where
  "orchestrator_move \<equiv> \<lambda>(occurredAt, reason) r s. transitionRun occurredAt reason r s"

definition moved :: "mission_run \<Rightarrow> mission_run \<Rightarrow> bool" where
  "moved r r' \<longleftrightarrow> (\<exists>ms. run_moves orchestrator_move r ms = Inr r')"

definition runs_by_id :: "s2_state \<Rightarrow> bool" where
  "runs_by_id s \<longleftrightarrow> list_all (\<lambda>(k, r). k = run_id r) (s2_runs s)"

definition since :: "s2_state \<Rightarrow> s2_state \<Rightarrow> bool" where
  "since s0 s \<longleftrightarrow> runs_by_id s \<and> (\<forall>i r. run_at s0 i = Some r \<longrightarrow> (\<exists>r'. run_at s i = Some r' \<and> moved r r')) \<and>
    (\<forall>k x. mget (s2_outputs s0) k = Some x \<longrightarrow> mget (s2_outputs s) k = Some x) \<and>
    (\<forall>k x. mget (s2_handoffs s0) k = Some x \<longrightarrow> mget (s2_handoffs s) k = Some x) \<and>
    log_extends (s2_events s0) (s2_events s)"

lemma run_moves_snoc: "run_moves mv r ms = Inr r1 \<Longrightarrow> mv a r1 s = Inr r2 \<Longrightarrow> run_moves mv r (ms @ [(a, s)]) = Inr r2"
  by (induction mv r ms rule: run_moves.induct) auto

lemma moved_refl [simp]: "moved r r"
  unfolding moved_def by (rule exI[of _ "[]"]) simp

lemma moved_step: "moved r r1 \<Longrightarrow> transitionRun now reason r1 st = Inr r2 \<Longrightarrow> moved r r2"
  unfolding moved_def by (auto intro: run_moves_snoc[where a = "(now, reason)"])

lemma run_at_mget: "runs_by_id s \<Longrightarrow> run_at s i = mget (s2_runs s) i"
proof -
  have "list_all (\<lambda>(k, r). k = run_id r) m \<Longrightarrow> find (\<lambda>r. run_id r = i) (mvalues m) = mget m i" for m
  proof (induction m)
    case (Cons x m)
    obtain k r where "x = (k, r)" by (cases x)
    with Cons show ?case by (simp add: mvalues_def mget_def)
  qed (simp add: mvalues_def mget_def)
  then show "runs_by_id s \<Longrightarrow> run_at s i = mget (s2_runs s) i" by (simp add: runs_by_id_def run_at_def)
qed

lemma runs_by_id_save: "runs_by_id s \<Longrightarrow> runs_by_id (s\<lparr>s2_runs := mset_at (run_id r) r (s2_runs s)\<rparr>)"
proof -
  have "list_all (\<lambda>(k, r). k = run_id r) m \<Longrightarrow> list_all (\<lambda>(k, r). k = run_id r) (AList.update (run_id r) r m)" for m
    by (induction m) auto
  then show "runs_by_id s \<Longrightarrow> runs_by_id (s\<lparr>s2_runs := mset_at (run_id r) r (s2_runs s)\<rparr>)"
    by (simp add: runs_by_id_def mset_at_def)
qed

lemma run_at_save: "runs_by_id s \<Longrightarrow> run_at (s\<lparr>s2_runs := mset_at (run_id r) r (s2_runs s)\<rparr>) i = (if i = run_id r then Some r else run_at s i)"
  using run_at_mget[OF runs_by_id_save, of s r i] run_at_mget[of s i] by simp

lemma transitionRun_id: "transitionRun now reason r st = Inr r' \<Longrightarrow> run_id r' = run_id r"
  by (auto simp: transitionRun_def split: if_splits)

interpretation kept: mission_frame "since s0"
proof
  show "keeps (since s0) (appendS2Event e)" for e
    by (rule keeps_s2_event) (auto simp: since_def runs_by_id_def run_at_def intro: log_extends_trans)
  show "keeps (since s0) (save_attempt a)" for a
    unfolding save_attempt_def by (rule keeps_modifyS) (simp add: since_def runs_by_id_def run_at_def)
  show "since s0 (s\<lparr>s2_runs := mset_at (run_id r') r' (s2_runs s)\<rparr>)"
    if "since s0 s" "run_at s (run_id r) = Some r" "transitionRun now reason r st = Inr r'" for s r now reason st r'
  proof -
    from that(1) have k: "runs_by_id s" by (simp add: since_def)
    have ra: "run_at (s\<lparr>s2_runs := mset_at (run_id r') r' (s2_runs s)\<rparr>) i = (if i = run_id r then Some r' else run_at s i)" for i
      using run_at_save[OF k, of r' i] transitionRun_id[OF that(3)] by simp
    show ?thesis unfolding since_def ra
      using that runs_by_id_save[OF k, of r'] by (fastforce simp: since_def intro: moved_step)
  qed
  show "since s0 (s\<lparr>s2_runs := mset_at (run_id r) r (s2_runs s)\<rparr>)"
    if "since s0 s" "run_at s (run_id r) = None" for s r
  proof -
    from that(1) have k: "runs_by_id s" by (simp add: since_def)
    show ?thesis unfolding since_def run_at_save[OF k]
      using that runs_by_id_save[OF k, of r] by (fastforce simp: since_def)
  qed
qed (auto simp: since_def runs_by_id_def run_at_def run_parts_def)

lemma approve_since: "keeps (since s0) (s2_approve_begin env g)"
proof -
  have "keeps (since s0) (approval_guard a)" for a
    unfolding approval_guard_def requireRun_def by (intro keeps_intros)
  moreover have "keeps (since s0) (in_s1 m)" for m
    by (rule keeps_in_s1) (simp add: since_def runs_by_id_def run_at_def)
  ultimately show ?thesis unfolding s2_approve_begin_def
    by (auto split: approval.split intro!: keeps_intros keeps_catch kept.complete kept.recover)
qed

lemma mission_step_since: "since s0 (mv_state v) \<Longrightarrow> since s0 (mv_state (mission_step env oper v))"
proof (cases "\<exists>g. oper = ApproveMissionGate g")
  case True
  assume v: "since s0 (mv_state v)"
  from True obtain g where g: "oper = ApproveMissionGate g" by blast
  obtain s r where sr: "s2_approve_begin env g (mv_state v) = (s, r)" by fastforce
  then have "mv_state (mission_step env oper v) = s"
    by (auto simp: mission_step_def g approve_call_def split: sum.split approval.split)
  with keepsD[OF approve_since v sr] show ?thesis by simp
next
  case False
  assume "since s0 (mv_state v)"
  with False show ?thesis by (intro kept.call) auto
qed

lemma mission_history_since: "since s0 (mv_state v) \<Longrightarrow> since s0 (mv_state (mission_history ops v))"
proof (induction ops arbitrary: v)
  case (Cons e ops)
  then show ?case using mission_step_since by (cases e) auto
qed simp

definition mission_init :: mission_service where
  "mission_init = \<lparr>mv_state = s2_empty, mv_inflight = []\<rparr>"

text \<open>What holds between an earlier and a later state of the service.\<close>

definition only_forward :: "s2_state \<Rightarrow> s2_state \<Rightarrow> bool" where
  "only_forward s s' \<longleftrightarrow>
    (\<forall>i r. run_at s i = Some r \<longrightarrow> (\<exists>r'. run_at s' i = Some r' \<and>
       (run_state r, run_state r') \<in> (succ_rel (table_succs ORCHESTRATOR_TRANSITIONS))\<^sup>* \<and>
       (run_state r \<in> {''completed'', ''cancelled'', ''failed''} \<longrightarrow> r' = r) \<and>
       run_version r \<le> run_version r' \<and> (run_version r' = run_version r \<longrightarrow> r' = r))) \<and>
    (\<forall>k x. mget (s2_outputs s) k = Some x \<longrightarrow> mget (s2_outputs s') k = Some x) \<and>
    (\<forall>k x. mget (s2_handoffs s) k = Some x \<longrightarrow> mget (s2_handoffs s') k = Some x) \<and>
    (\<exists>es. s2_events s' = s2_events s @ es)"

lemma since_only_forward: "since s s' \<Longrightarrow> only_forward s s'"
proof -
  have "(run_state r, run_state r') \<in> (succ_rel (table_succs ORCHESTRATOR_TRANSITIONS))\<^sup>* \<and>
     (run_state r \<in> {''completed'', ''cancelled'', ''failed''} \<longrightarrow> r' = r) \<and>
     run_version r \<le> run_version r' \<and> (run_version r' = run_version r \<longrightarrow> r' = r)" if "moved r r'" for r r'
  proof -
    from that obtain ms where ms: "run_moves orchestrator_move r ms = Inr r'" by (auto simp: moved_def)
    have "table_succs ORCHESTRATOR_TRANSITIONS (run_state r) = []" if "run_state r \<in> {''completed'', ''cancelled'', ''failed''}"
      using that by (auto simp: table_succs_def ORCHESTRATOR_TRANSITIONS_def)
    with orun.run_path[OF ms] orun.run_terminal[OF _ ms] orun.run_version[OF ms] orun.run_unchanged[OF ms] show ?thesis by blast
  qed
  then show "since s s' \<Longrightarrow> only_forward s s'"
    unfolding since_def only_forward_def log_extends_def by blast
qed

text \<open>
  C5: Over any sequence of calls, approvals interleaved and restarts included, the mission
  service only goes forward: a run moves along the orchestrator's table and never leaves a
  final state, its version counts the changes, and no step output, no handoff and no event
  that was recorded is changed or removed.
\<close>

theorem mission_records_only_go_forward:
  "only_forward (mv_state (mission_history ops mission_init)) (mv_state (mission_history later (mission_history ops mission_init)))"
proof -
  have "since (mv_state mission_init) (mv_state mission_init)"
    by (simp add: mission_init_def s2_empty_def since_def runs_by_id_def log_extends_def)
  then have "since (mv_state mission_init) (mv_state (mission_history ops mission_init))" by (rule mission_history_since)
  then have "runs_by_id (mv_state (mission_history ops mission_init))" by (simp add: since_def)
  then have "since (mv_state (mission_history ops mission_init)) (mv_state (mission_history ops mission_init))"
    by (simp add: since_def log_extends_def)
  from since_only_forward[OF mission_history_since[OF this]] show ?thesis .
qed

subsection \<open>A retry that answers for the wrong attempt\<close>

text \<open>
  A retry takes the number after the attempt it is asked to retry, not after the latest one.
  Asked a second time for the same earlier attempt it writes over the attempt of the first
  retry: a completed step is waiting again, although its gate is decided and its result was
  observed.
\<close>

definition ex_mission_env :: app_env where
  "ex_mission_env = \<lparr>ae_sha = rev, ae_lc = (\<lambda>a b. a \<le> b), ae_legacy = (\<lambda>_. None), ae_clock = ''t9'', ae_nowMs = 0, ae_idle = (\<lambda>_. True)\<rparr>"

definition ex_attempt :: "int \<Rightarrow> string \<Rightarrow> s2_attempt" where
  "ex_attempt n st = \<lparr>sa_attempt = \<lparr>at_id = semanticAttemptId rev ''r1'' ''s1'' n, at_missionRunId = ''r1'', at_workspaceId = ''w'',
     at_stepId = ''s1'', at_attemptNumber = n, at_state = st, at_executionRunId = (if n = 1 then None else Some ''x2''),
     at_recoveryReason = None, at_externalStartCommitted = False, at_lastReason = None, at_createdAt = ''t0'', at_updatedAt = ''t0''\<rparr>,
     sa_humanGateId = (if n = 1 then None else Some ''g2''), sa_blockers = [], sa_workerId = JStr ''k''\<rparr>"

definition ex_step :: s2_step where
  "ex_step = \<lparr>ss_step = sample_step\<lparr>st_workspaceId := ''w''\<rparr>, ss_workerId = JStr ''k'', ss_payload = ''x'', ss_executionMode = ''s1''\<rparr>"

definition ex_node :: task_node where
  "ex_node = \<lparr>tn_id = bounded_id rev ''s2task'' [JStr (semanticAttemptId rev ''r1'' ''s1'' 2)], tn_workspaceId = ''w'', tn_graphId = ''g'',
     tn_agentId = ''a'', tn_installationId = ''n'', tn_capabilityAction = ''submit'', tn_target = ''http://t'',
     tn_input = JObj [(''payload'', JStr ''x'')], tn_state = ''waiting_human'', tn_version = 0, tn_lastReason = JStr ''created''\<rparr>"

definition ex_gate :: gate where
  "ex_gate = \<lparr>hg_id = ''g2'', hg_workspaceId = ''w'', hg_taskId = tn_id ex_node, hg_executionRunId = ''x2'', hg_actionClass = ''EXTERNAL_WRITE'',
     hg_workerId = ''k'', hg_capabilityAction = ''submit'', hg_target = ''http://t'', hg_payloadPreview = JObj [], hg_evidenceExpected = JArr [],
     hg_state = ''approved'', hg_requestedAt = ''t1'', hg_decidedAt = Some ''t2''\<rparr>"

definition ex_run :: exec_run where
  "ex_run = \<lparr>xr_id = ''x2'', xr_workspaceId = Some ''w'', xr_taskId = Some (tn_id ex_node), xr_workerId = JStr ''k'', xr_capabilityAction = ''submit'',
     xr_target = ''http://t'', xr_payload = JStr ''x'', xr_providerSnapshot = None, xr_currentProviderDigest = None, xr_state = ''result_observed'',
     xr_blockers = [], xr_requestedAt = ''t1'', xr_startedAt = Some ''t2'', xr_completedAt = Some ''t3'', xr_execution = JStr ''ok'', xr_recoveryReason = None\<rparr>"

definition ex_mission_state :: s2_state where
  "ex_mission_state = s2_empty\<lparr>
     s2_s1 := s1_empty\<lparr>
       s1_workspaces := [(''w'', \<lparr>ws_id = ''w'', ws_projectId = ''p'', ws_name = ''W'', ws_status = ''active'', ws_createdAt = JNull, ws_updatedAt = JNull\<rparr>)],
       s1_tasks := [(tn_id ex_node, \<lparr>tk_node = ex_node, tk_blockers = [], tk_executionRunId = Some ''x2'', tk_humanGateId = Some ''g2'', tk_resultObserved = True\<rparr>)],
       s1_coord := \<lparr>co_runs = [(''x2'', ex_run)], co_gates = [(''g2'', ex_gate)], co_locks = [], co_events = [], co_calls = [''x2'']\<rparr>\<rparr>,
     s2_runs := [(''r1'', sample_mission_run\<lparr>run_id := ''r1'', run_workspaceId := ''w''\<rparr>)],
     s2_plans := [(''p'', \<lparr>sp_plan = \<lparr>pl_id = ''p'', pl_missionRevisionId = ''r'', pl_workspaceId = ''w'', pl_stepIds = [''s1''],
        pl_terminalStepIds = [''s1''], pl_contentDigest = ''d''\<rparr>, sp_steps = [ex_step], sp_bindings = [], sp_integrationDigest = ''d''\<rparr>)],
     s2_bindings := [(''b'', \<lparr>sb_id = ''b'', sb_workspaceId = ''w'', sb_agentId = ''a'', sb_installationId = ''n'', sb_capabilityVersionId = ''v'',
        sb_action = ''submit'', sb_target = ''http://t'', sb_providerSnapshotId = ''ps''\<rparr>)],
     s2_attempts := [(at_id (sa_attempt (ex_attempt 1 ''cancelled'')), ex_attempt 1 ''cancelled''),
       (at_id (sa_attempt (ex_attempt 2 ''completed'')), ex_attempt 2 ''completed'')]\<rparr>"

definition ex_retry :: js where
  "ex_retry = JObj [(''runId'', JStr ''r1''), (''workspaceId'', JStr ''w''),
     (''previousAttemptId'', JStr (semanticAttemptId rev ''r1'' ''s1'' 1)), (''reviewed'', JBool True)]"

definition attempt_states :: "s2_state \<Rightarrow> string list" where
  "attempt_states s = map (\<lambda>a. at_state (sa_attempt a)) (mvalues (s2_attempts s))"

lemma second_retry_reopens_completed_step:
  "attempt_states ex_mission_state = [''cancelled'', ''completed''] \<and>
   attempt_states (fst (retryStepAfterReview ex_mission_env ex_retry ex_mission_state)) = [''cancelled'', ''waiting_human''] \<and>
   \<not> isl (snd (retryStepAfterReview ex_mission_env ex_retry ex_mission_state))"
  by code_simp

end
