(* ===== verification/Delegation.thy ===== *)
theory Delegation
  imports Capabilities SyncEnvelope JsText
begin

text \<open>
  Delegation between instances (\<open>src/delegation/policy/index.cjs\<close>): peer
  bindings, policies, requests, what a policy allows, and the classifier that decides whether a
  request extends the chain of its peer.  \<open>now\<close> is the default of a missing time,
  \<open>legacy\<close> reads dates that are not ISO text.
\<close>

subsection \<open>Validators\<close>

definition POLICY_STATES :: "string list" where "POLICY_STATES = [''active'', ''superseded'', ''revoked'']"
definition PEER_STATES :: "string list" where "PEER_STATES = [''active'', ''suspended'', ''revoked'']"

definition exactIdentifier :: "js \<Rightarrow> string \<Rightarrow> string res" where
  "exactIdentifier value label = bindE (assertSafeIdentifier value label) (\<lambda>i.
     if CHR ''*'' \<in> set i then Inl (Error (label @ '' must not be wildcarded'')) else Inr i)"

definition CAPABILITY_VERSION_REFERENCE :: "string \<Rightarrow> bool" where
  "CAPABILITY_VERSION_REFERENCE t \<longleftrightarrow> SAFE_IDENTIFIER (takeWhile (\<lambda>c. c \<noteq> CHR ''@'') t) \<and>
     (case dropWhile (\<lambda>c. c \<noteq> CHR ''@'') t of [] \<Rightarrow> False | _ # v \<Rightarrow> VERSION_PATTERN v)"

definition capabilityVersionReference :: "js \<Rightarrow> string \<Rightarrow> string res" where
  "capabilityVersionReference value label = bindE (requiredText value label 160) (\<lambda>t.
     if \<not> CAPABILITY_VERSION_REFERENCE t then Inl (TypeError (label @ '' must be canonical packageId@semver'')) else Inr t)"

text \<open>The three list validators differ in the check of an element.\<close>

definition unique_list :: "(js \<Rightarrow> string res) \<Rightarrow> js \<Rightarrow> string \<Rightarrow> string list res" where
  "unique_list check value label = (case value of JArr vs \<Rightarrow>
      if vs = [] then Inl (TypeError (label @ '' must be a non-empty array''))
      else bindE (mapE check vs) (\<lambda>items.
        if \<not> distinct items then Inl (Error (label @ '' must not contain duplicates'')) else Inr (sort items))
    | _ \<Rightarrow> Inl (TypeError (label @ '' must be a non-empty array'')))"

definition uniqueIdentifierList :: "js \<Rightarrow> string \<Rightarrow> string list res" where
  "uniqueIdentifierList value label = unique_list (\<lambda>v. exactIdentifier v label) value label"

definition uniqueCapabilityVersionList :: "js \<Rightarrow> string \<Rightarrow> string list res" where
  "uniqueCapabilityVersionList value label = unique_list (\<lambda>v. capabilityVersionReference v label) value label"

definition uniqueTextList :: "js \<Rightarrow> string \<Rightarrow> string list res" where
  "uniqueTextList value label = (case value of JArr vs \<Rightarrow>
      if vs = [] then Inl (TypeError (label @ '' must be a non-empty array''))
      else bindE (mapE (\<lambda>v. requiredText v label 2048) vs) (\<lambda>items.
        if list_ex (\<lambda>t. CHR ''*'' \<in> set t) items then Inl (Error (label @ '' must not contain wildcard entries''))
        else if \<not> distinct items then Inl (Error (label @ '' must not contain duplicates'')) else Inr (sort items))
    | _ \<Rightarrow> Inl (TypeError (label @ '' must be a non-empty array'')))"

subsection \<open>Peer bindings and policies\<close>

record peer_binding =
  pb_id :: string
  pb_sourceInstanceId :: string
  pb_sourceWorkspaceId :: string
  pb_destinationInstanceId :: string
  pb_destinationWorkspaceId :: string
  pb_status :: string
  pb_createdAt :: string
  pb_updatedAt :: string

definition createDelegationPeerBinding :: "(string \<Rightarrow> int option) \<Rightarrow> string \<Rightarrow> js \<Rightarrow> peer_binding res" where
  "createDelegationPeerBinding legacy now input =
    (if \<not> plain_object input then Inl (TypeError ''DelegationPeerBinding input is required'')
     else bindE (one_of PEER_STATES (Error ''Invalid DelegationPeerBinding status'') (or_js (field input ''status'') (JStr ''active''))) (\<lambda>status.
     bindE (exactIdentifier (field input ''sourceInstanceId'') ''source instance id'') (\<lambda>src.
     bindE (exactIdentifier (field input ''destinationInstanceId'') ''destination instance id'') (\<lambda>dst.
     if src = dst then Inl (Error ''delegation peer binding requires distinct source and destination instances'')
     else bindE (exactIdentifier (field input ''id'') ''delegation peer binding id'') (\<lambda>i.
     bindE (exactIdentifier (field input ''sourceWorkspaceId'') ''source workspace id'') (\<lambda>sw.
     bindE (exactIdentifier (field input ''destinationWorkspaceId'') ''destination workspace id'') (\<lambda>dw.
     bindE (isoInstant legacy (or_js (field input ''createdAt'') (JStr now)) ''peer binding createdAt'') (\<lambda>c.
     bindE (isoInstant legacy (or_js (or_js (field input ''updatedAt'') (field input ''createdAt'')) (JStr now)) ''peer binding updatedAt'') (\<lambda>u.
     Inr \<lparr>pb_id = i, pb_sourceInstanceId = src, pb_sourceWorkspaceId = sw, pb_destinationInstanceId = dst,
       pb_destinationWorkspaceId = dw, pb_status = status, pb_createdAt = c, pb_updatedAt = u\<rparr>)))))))))"

record delegation_policy =
  dp_id :: string
  dp_version :: string
  dp_peerBindingId :: string
  dp_destinationWorkspaceId :: string
  dp_status :: string
  dp_allowedCapabilityVersionIds :: "string list"
  dp_allowedActions :: "string list"
  dp_allowedTargets :: "string list"
  dp_maxPendingRequests :: int
  dp_maxAcceptedNotStarted :: int
  dp_expiresAt :: "string option"
  dp_createdAt :: string

text \<open>\<open>Date.parse(expiresAt) <= Date.parse(at)\<close>; a date that cannot be read compares as false.\<close>

definition at_or_before :: "(string \<Rightarrow> int option) \<Rightarrow> string \<Rightarrow> string \<Rightarrow> bool" where
  "at_or_before legacy a b = (case (date_parse legacy a, date_parse legacy b) of (Some x, Some y) \<Rightarrow> x \<le> y | _ \<Rightarrow> False)"

definition policy_over :: "(string \<Rightarrow> int option) \<Rightarrow> delegation_policy \<Rightarrow> string \<Rightarrow> bool" where
  "policy_over legacy p at = (case dp_expiresAt p of None \<Rightarrow> False | Some e \<Rightarrow> e \<noteq> [] \<and> at_or_before legacy e at)"

definition createDelegationPolicySnapshot :: "(string \<Rightarrow> int option) \<Rightarrow> string \<Rightarrow> js \<Rightarrow> delegation_policy res" where
  "createDelegationPolicySnapshot legacy now input =
    (if \<not> plain_object input then Inl (TypeError ''DelegationPolicySnapshot input is required'')
     else bindE (one_of POLICY_STATES (Error ''Invalid DelegationPolicySnapshot status'') (or_js (field input ''status'') (JStr ''active''))) (\<lambda>status.
     bindE (if nullish (field input ''expiresAt'') then Inr None
            else bindE (isoInstant legacy (field input ''expiresAt'') ''policy expiresAt'') (\<lambda>e. Inr (Some e))) (\<lambda>expiresAt.
     bindE (isoInstant legacy (or_js (field input ''createdAt'') (JStr now)) ''policy createdAt'') (\<lambda>createdAt.
     if (case expiresAt of None \<Rightarrow> False | Some e \<Rightarrow> at_or_before legacy e createdAt) then Inl (Error ''policy expiry must be after creation'')
     else bindE (exactIdentifier (field input ''id'') ''delegation policy id'') (\<lambda>i.
     bindE (requiredText (field input ''version'') ''delegation policy version'' 80) (\<lambda>v.
     bindE (exactIdentifier (field input ''peerBindingId'') ''peer binding id'') (\<lambda>p.
     bindE (exactIdentifier (field input ''destinationWorkspaceId'') ''destination workspace id'') (\<lambda>w.
     bindE (uniqueCapabilityVersionList (field input ''allowedCapabilityVersionIds'') ''allowed capability version id'') (\<lambda>cs.
     bindE (uniqueIdentifierList (field input ''allowedActions'') ''allowed action'') (\<lambda>as.
     bindE (uniqueTextList (field input ''allowedTargets'') ''allowed target'') (\<lambda>ts.
     bindE (positiveInteger (coalesce (field input ''maxPendingRequests'') (JNum 8)) ''maxPendingRequests'' False) (\<lambda>mp.
     bindE (positiveInteger (coalesce (field input ''maxAcceptedNotStarted'') (JNum 2)) ''maxAcceptedNotStarted'' False) (\<lambda>ma.
     Inr \<lparr>dp_id = i, dp_version = v, dp_peerBindingId = p, dp_destinationWorkspaceId = w, dp_status = status,
       dp_allowedCapabilityVersionIds = cs, dp_allowedActions = as, dp_allowedTargets = ts, dp_maxPendingRequests = mp,
       dp_maxAcceptedNotStarted = ma, dp_expiresAt = expiresAt, dp_createdAt = createdAt\<rparr>))))))))))))) "

subsection \<open>Requests\<close>

record delegation_request =
  dr_id :: string
  dr_sourceInstanceId :: string
  dr_sourceWorkspaceId :: string
  dr_destinationInstanceId :: string
  dr_destinationWorkspaceId :: string
  dr_peerBindingId :: string
  dr_policyId :: string
  dr_policyVersion :: string
  dr_sourceMissionId :: "string option"
  dr_sourcePlanStepId :: "string option"
  dr_capabilityVersionId :: string
  dr_action :: string
  dr_target :: string
  dr_payloadClass :: string
  dr_payload :: js
  dr_payloadDigest :: string
  dr_requestSequence :: int
  dr_previousRequestDigest :: "string option"
  dr_createdAt :: string
  dr_requestDigest :: string

definition request_base :: "delegation_request \<Rightarrow> js" where
  "request_base r = JObj [(''id'', JStr (dr_id r)), (''sourceInstanceId'', JStr (dr_sourceInstanceId r)),
     (''sourceWorkspaceId'', JStr (dr_sourceWorkspaceId r)), (''destinationInstanceId'', JStr (dr_destinationInstanceId r)),
     (''destinationWorkspaceId'', JStr (dr_destinationWorkspaceId r)), (''peerBindingId'', JStr (dr_peerBindingId r)),
     (''policyId'', JStr (dr_policyId r)), (''policyVersion'', JStr (dr_policyVersion r)),
     (''sourceMissionId'', js_opt (dr_sourceMissionId r)), (''sourcePlanStepId'', js_opt (dr_sourcePlanStepId r)),
     (''capabilityVersionId'', JStr (dr_capabilityVersionId r)), (''action'', JStr (dr_action r)), (''target'', JStr (dr_target r)),
     (''payloadClass'', JStr (dr_payloadClass r)), (''payload'', dr_payload r), (''payloadDigest'', JStr (dr_payloadDigest r)),
     (''requestSequence'', JNum (dr_requestSequence r)), (''previousRequestDigest'', js_opt (dr_previousRequestDigest r)),
     (''createdAt'', JStr (dr_createdAt r))]"

definition optionalExact :: "js \<Rightarrow> string \<Rightarrow> string option res" where
  "optionalExact v label = (if nullish v then Inr None else bindE (exactIdentifier v label) (\<lambda>i. Inr (Some i)))"

text \<open>The digest of the request covers every other field.\<close>

definition request_fields :: "(string \<Rightarrow> int option) \<Rightarrow> string \<Rightarrow> js \<Rightarrow> delegation_request \<Rightarrow> delegation_request res" where
  "request_fields legacy now input r =
    bindE (exactIdentifier (field input ''id'') ''delegation request id'') (\<lambda>i.
    bindE (exactIdentifier (field input ''sourceInstanceId'') ''source instance id'') (\<lambda>si.
    bindE (exactIdentifier (field input ''sourceWorkspaceId'') ''source workspace id'') (\<lambda>sw.
    bindE (exactIdentifier (field input ''destinationInstanceId'') ''destination instance id'') (\<lambda>di.
    bindE (exactIdentifier (field input ''destinationWorkspaceId'') ''destination workspace id'') (\<lambda>dw.
    bindE (exactIdentifier (field input ''peerBindingId'') ''peer binding id'') (\<lambda>pb.
    bindE (exactIdentifier (field input ''policyId'') ''delegation policy id'') (\<lambda>po.
    bindE (requiredText (field input ''policyVersion'') ''delegation policy version'' 80) (\<lambda>pv.
    bindE (optionalExact (field input ''sourceMissionId'') ''source mission id'') (\<lambda>sm.
    bindE (optionalExact (field input ''sourcePlanStepId'') ''source plan step id'') (\<lambda>sp.
    bindE (capabilityVersionReference (field input ''capabilityVersionId'') ''capability version id'') (\<lambda>cv.
    bindE (exactIdentifier (field input ''action'') ''delegation action'') (\<lambda>ac.
    bindE (requiredText (field input ''target'') ''delegation target'' 2048) (\<lambda>tg.
    bindE (exactIdentifier (or_js (field input ''payloadClass'') (JStr ''bounded-input'')) ''payload class'') (\<lambda>pc.
    bindE (isoInstant legacy (or_js (field input ''createdAt'') (JStr now)) ''delegation request createdAt'') (\<lambda>cr.
    Inr (r\<lparr>dr_id := i, dr_sourceInstanceId := si, dr_sourceWorkspaceId := sw, dr_destinationInstanceId := di,
      dr_destinationWorkspaceId := dw, dr_peerBindingId := pb, dr_policyId := po, dr_policyVersion := pv,
      dr_sourceMissionId := sm, dr_sourcePlanStepId := sp, dr_capabilityVersionId := cv, dr_action := ac, dr_target := tg,
      dr_payloadClass := pc, dr_createdAt := cr\<rparr>))))))))))))))))"

definition blank_request :: delegation_request where
  "blank_request = \<lparr>dr_id = [], dr_sourceInstanceId = [], dr_sourceWorkspaceId = [], dr_destinationInstanceId = [], dr_destinationWorkspaceId = [],
     dr_peerBindingId = [], dr_policyId = [], dr_policyVersion = [], dr_sourceMissionId = None, dr_sourcePlanStepId = None,
     dr_capabilityVersionId = [], dr_action = [], dr_target = [], dr_payloadClass = [], dr_payload = JNull, dr_payloadDigest = [],
     dr_requestSequence = 0, dr_previousRequestDigest = None, dr_createdAt = [], dr_requestDigest = []\<rparr>"

definition createDelegationRequest :: "(string \<Rightarrow> string) \<Rightarrow> (string \<Rightarrow> int option) \<Rightarrow> string \<Rightarrow> js \<Rightarrow> delegation_request res" where
  "createDelegationRequest sha legacy now input =
    (if \<not> plain_object input then Inl (TypeError ''DelegationRequest input is required'')
     else bindE (positiveInteger (field input ''requestSequence'') ''delegation request sequence'' False) (\<lambda>n.
     bindE (optionalText (field input ''previousRequestDigest'') ''previousRequestDigest'' 100) (\<lambda>prev.
     if n = 1 \<and> prev \<noteq> None then Inl (Error ''request sequence 1 must not have previousRequestDigest'')
     else if n > 1 \<and> prev = None then Inl (Error ''request sequence > 1 requires previousRequestDigest'')
     else bindE (safeClone (coalesce (field input ''payload'') (JObj [])) ''$'' 0) (\<lambda>payload.
     bindE (request_fields legacy now input (blank_request\<lparr>dr_payload := payload, dr_payloadDigest := digest sha payload,
         dr_requestSequence := n, dr_previousRequestDigest := prev\<rparr>)) (\<lambda>r.
     Inr (r\<lparr>dr_requestDigest := digest sha (request_base r)\<rparr>))))))"

subsection \<open>What a policy allows, and the chain of requests\<close>

text \<open>\<open>observedAt\<close> is the time of the check; the answer is the reason code, \<open>None\<close> when allowed.\<close>

definition policy_refusal :: "(string \<Rightarrow> int option) \<Rightarrow> string \<Rightarrow> delegation_policy option \<Rightarrow> delegation_request \<Rightarrow> string option" where
  "policy_refusal legacy observedAt policy request = (case policy of
      None \<Rightarrow> Some ''policy_missing''
    | Some p \<Rightarrow>
        if dp_status p \<noteq> ''active'' then Some (if dp_status p = ''revoked'' then ''policy_revoked'' else ''policy_missing'')
        else if policy_over legacy p observedAt then Some ''policy_expired''
        else if dp_id p \<noteq> dr_policyId request \<or> dp_version p \<noteq> dr_policyVersion request then Some ''policy_version_mismatch''
        else if dp_peerBindingId p \<noteq> dr_peerBindingId request then Some ''peer_binding_mismatch''
        else if dp_destinationWorkspaceId p \<noteq> dr_destinationWorkspaceId request then Some ''cross_workspace''
        else if dr_capabilityVersionId request \<notin> set (dp_allowedCapabilityVersionIds p) then Some ''capability_not_allowed''
        else if dr_action request \<notin> set (dp_allowedActions p) then Some ''action_not_allowed''
        else if dr_target request \<notin> set (dp_allowedTargets p) then Some ''target_not_allowed''
        else None)"

definition assertPolicyAllowsRequest :: "(string \<Rightarrow> int option) \<Rightarrow> string \<Rightarrow> delegation_policy option \<Rightarrow> delegation_request \<Rightarrow> bool \<times> string" where
  "assertPolicyAllowsRequest legacy observedAt policy request = (case policy_refusal legacy observedAt policy request of
      Some code \<Rightarrow> (False, code) | None \<Rightarrow> (True, ''policy_allows_request''))"

record request_verdict =
  rv_state :: string
  rv_reasonCode :: string
  rv_expectedSequence :: "int option"
  rv_requestSequence :: "int option"
  rv_requestDigest :: "string option"

definition request_verdict_of :: "string \<Rightarrow> string \<Rightarrow> request_verdict" where
  "request_verdict_of st code = \<lparr>rv_state = st, rv_reasonCode = code, rv_expectedSequence = None,
     rv_requestSequence = None, rv_requestDigest = None\<rparr>"

definition classifyDelegationRequestAppend :: "peer_binding \<Rightarrow> int \<Rightarrow> string option \<Rightarrow> delegation_request option \<Rightarrow> delegation_request
    \<Rightarrow> request_verdict res" where
  "classifyDelegationRequestAppend peer lastSequence lastDigest existing request =
    (if pb_status peer \<noteq> ''active'' then Inr (request_verdict_of ''rejected'' (''peer_binding_'' @ pb_status peer))
     else if dr_peerBindingId request \<noteq> pb_id peer then Inr (request_verdict_of ''rejected'' ''peer_binding_mismatch'')
     else if dr_sourceInstanceId request \<noteq> pb_sourceInstanceId peer then Inr (request_verdict_of ''rejected'' ''unknown_source_instance'')
     else if dr_destinationInstanceId request \<noteq> pb_destinationInstanceId peer then Inr (request_verdict_of ''rejected'' ''wrong_destination_instance'')
     else if dr_sourceWorkspaceId request \<noteq> pb_sourceWorkspaceId peer \<or> dr_destinationWorkspaceId request \<noteq> pb_destinationWorkspaceId peer
     then Inr (request_verdict_of ''rejected'' ''cross_workspace'')
     else case existing of
       Some e \<Rightarrow>
         if dr_id e \<noteq> dr_id request then Inl (Error ''existingRequest id mismatch'')
         else if dr_requestDigest e = dr_requestDigest request then Inr ((request_verdict_of ''duplicate'' ''exact_duplicate'')\<lparr>rv_requestSequence := Some (dr_requestSequence request)\<rparr>)
         else Inr ((request_verdict_of ''divergent'' ''request_digest_conflict'')\<lparr>rv_requestSequence := Some (dr_requestSequence request)\<rparr>)
     | None \<Rightarrow>
         if dr_requestSequence request \<le> lastSequence
         then Inr ((request_verdict_of ''divergent'' ''request_sequence_reuse_or_regression'')\<lparr>rv_expectedSequence := Some (lastSequence + 1)\<rparr>)
         else if dr_requestSequence request > lastSequence + 1
         then Inr ((request_verdict_of ''gap'' ''request_sequence_gap'')\<lparr>rv_expectedSequence := Some (lastSequence + 1)\<rparr>)
         else if lastSequence = 0 \<and> dr_previousRequestDigest request \<noteq> None
         then Inr (request_verdict_of ''divergent'' ''unexpected_previous_request_digest'')
         else if lastSequence \<noteq> 0 \<and> dr_previousRequestDigest request \<noteq> lastDigest
         then Inr (request_verdict_of ''divergent'' ''previous_request_digest_mismatch'')
         else Inr ((request_verdict_of ''accepted'' ''append_current'')\<lparr>rv_requestSequence := Some (dr_requestSequence request),
               rv_requestDigest := Some (dr_requestDigest request)\<rparr>))"

record cancellation_proposal =
  cx_id :: string
  cx_delegationRequestId :: string
  cx_reasonClass :: string
  cx_createdAt :: string

definition createDelegationCancellationProposal :: "(string \<Rightarrow> int option) \<Rightarrow> string \<Rightarrow> js \<Rightarrow> cancellation_proposal res" where
  "createDelegationCancellationProposal legacy now input =
    bindE (exactIdentifier (field input ''id'') ''delegation cancellation proposal id'') (\<lambda>i.
    bindE (exactIdentifier (field input ''delegationRequestId'') ''delegation request id'') (\<lambda>r.
    bindE (exactIdentifier (or_js (field input ''reasonClass'') (JStr ''source_withdrawal'')) ''cancellation reason class'') (\<lambda>c.
    bindE (isoInstant legacy (or_js (field input ''createdAt'') (JStr now)) ''cancellation proposal createdAt'') (\<lambda>t.
    Inr \<lparr>cx_id = i, cx_delegationRequestId = r, cx_reasonClass = c, cx_createdAt = t\<rparr>))))"

end
