(* ===== verification/DelegationAdmission.thy ===== *)
theory DelegationAdmission
  imports Delegation
begin

text \<open>
  Admission of a delegated request (\<open>src/delegation/admission/index.cjs\<close>): the proposal a
  request becomes at its destination, the snapshot of everything that stands against it, the
  human decision on the snapshot, the binding to a local execution, and cancellation by the
  source.  What the destination looks up in its own records (installation, grant, provider,
  resources, scheduling) arrives as untyped values, the counts as integers.
\<close>

subsection \<open>Proposals\<close>

definition PROPOSAL_STATES :: "string list" where
  "PROPOSAL_STATES = [''received'', ''inadmissible'', ''waiting_human'', ''accepted'', ''rejected'', ''cancelled_before_start'',
     ''bound'', ''terminal'']"

record incoming_proposal =
  ip_id :: string
  ip_delegationRequestId :: string
  ip_peerBindingId :: string
  ip_policyId :: string
  ip_workspaceId :: string
  ip_state :: string
  ip_reasonCode :: "string option"
  ip_receivedAt :: string
  ip_updatedAt :: string

definition createIncomingDelegationProposal :: "(string \<Rightarrow> int option) \<Rightarrow> string \<Rightarrow> js \<Rightarrow> incoming_proposal res" where
  "createIncomingDelegationProposal legacy now input =
    bindE (one_of PROPOSAL_STATES (Error ''Invalid IncomingDelegationProposal state'') (or_js (field input ''state'') (JStr ''received''))) (\<lambda>state.
    bindE (assertSafeIdentifier (field input ''id'') ''incoming delegation proposal id'') (\<lambda>i.
    bindE (assertSafeIdentifier (field input ''delegationRequestId'') ''delegation request id'') (\<lambda>r.
    bindE (assertSafeIdentifier (field input ''peerBindingId'') ''peer binding id'') (\<lambda>p.
    bindE (assertSafeIdentifier (field input ''policyId'') ''policy id'') (\<lambda>q.
    bindE (assertSafeIdentifier (field input ''workspaceId'') ''workspace id'') (\<lambda>w.
    bindE (optionalIdentifier (field input ''reasonCode'') ''proposal reason code'') (\<lambda>c.
    bindE (isoInstant legacy (or_js (field input ''receivedAt'') (JStr now)) ''proposal receivedAt'') (\<lambda>t.
    bindE (isoInstant legacy (or_js (or_js (field input ''updatedAt'') (field input ''receivedAt'')) (JStr now)) ''proposal updatedAt'') (\<lambda>u.
    Inr \<lparr>ip_id = i, ip_delegationRequestId = r, ip_peerBindingId = p, ip_policyId = q, ip_workspaceId = w, ip_state = state,
      ip_reasonCode = c, ip_receivedAt = t, ip_updatedAt = u\<rparr>)))))))))"

text \<open>\<open>{ ...proposal, state, reasonCode, updatedAt }\<close>\<close>

definition moved_proposal :: "'a incoming_proposal_scheme \<Rightarrow> string \<Rightarrow> string \<Rightarrow> js \<Rightarrow> js" where
  "moved_proposal p state reason updatedAt = JObj [(''id'', JStr (ip_id p)), (''delegationRequestId'', JStr (ip_delegationRequestId p)),
     (''peerBindingId'', JStr (ip_peerBindingId p)), (''policyId'', JStr (ip_policyId p)), (''workspaceId'', JStr (ip_workspaceId p)),
     (''state'', JStr state), (''reasonCode'', JStr reason), (''receivedAt'', JStr (ip_receivedAt p)), (''updatedAt'', updatedAt)]"

subsection \<open>The admission snapshot\<close>

text \<open>\<open>a === b\<close>; two objects that were read separately are never the same.\<close>

definition same_primitive :: "js \<Rightarrow> js \<Rightarrow> bool" where
  "same_primitive a b \<longleftrightarrow> a = b \<and> \<not> is_object a \<and> a \<noteq> JDbl ''NaN''"

lemma same_primitive_str [simp]: "same_primitive v (JStr s) \<longleftrightarrow> v = JStr s"
  by (auto simp: same_primitive_def)

record admission_input =
  ai_id :: js
  ai_proposalId :: js
  ai_request :: delegation_request
  ai_peerBinding :: "peer_binding option"
  ai_policy :: "delegation_policy option"
  ai_localInstallation :: js
  ai_localGrant :: js
  ai_providerRequired :: bool
  ai_providerAuthority :: js
  ai_resourceState :: js
  ai_schedulingState :: js
  ai_pendingCount :: int
  ai_acceptedNotStartedCount :: int
  ai_observedAt :: js

text \<open>\<open>addReason(reasons, condition, code)\<close>, in sequence.\<close>

definition addReasons :: "(bool \<times> string) list \<Rightarrow> string list" where
  "addReasons cs = map snd (filter fst cs)"

definition peer_reasons :: "admission_input \<Rightarrow> string list" where
  "peer_reasons i = (let r = ai_request i in case ai_peerBinding i of
      None \<Rightarrow> [''peer_binding_missing'']
    | Some p \<Rightarrow> addReasons
       [(pb_status p = ''suspended'', ''peer_binding_suspended''),
        (pb_status p = ''revoked'', ''peer_binding_revoked''),
        (pb_id p \<noteq> dr_peerBindingId r, ''peer_binding_mismatch''),
        (pb_sourceInstanceId p \<noteq> dr_sourceInstanceId r, ''unknown_source_instance''),
        (pb_destinationInstanceId p \<noteq> dr_destinationInstanceId r, ''wrong_destination_instance''),
        (pb_sourceWorkspaceId p \<noteq> dr_sourceWorkspaceId r \<or> pb_destinationWorkspaceId p \<noteq> dr_destinationWorkspaceId r, ''cross_workspace'')])"

text \<open>\<open>Number(count || 0) >= Number(limit || Infinity)\<close>\<close>

definition limit_reached :: "int \<Rightarrow> int \<Rightarrow> bool" where
  "limit_reached n limit = (limit \<noteq> 0 \<and> limit \<le> n)"

definition policy_reasons :: "(string \<Rightarrow> int option) \<Rightarrow> string \<Rightarrow> admission_input \<Rightarrow> string list" where
  "policy_reasons legacy observedAt i = (let r = ai_request i in case ai_policy i of
      None \<Rightarrow> [''policy_missing'']
    | Some p \<Rightarrow> addReasons
       [(dp_status p = ''revoked'', ''policy_revoked''),
        (dp_status p = ''superseded'', ''policy_stale''),
        (dp_id p \<noteq> dr_policyId r \<or> dp_version p \<noteq> dr_policyVersion r, ''policy_version_mismatch''),
        (dp_peerBindingId p \<noteq> dr_peerBindingId r, ''peer_binding_mismatch''),
        (dp_destinationWorkspaceId p \<noteq> dr_destinationWorkspaceId r, ''cross_workspace''),
        (policy_over legacy p observedAt, ''policy_expired''),
        (dr_capabilityVersionId r \<notin> set (dp_allowedCapabilityVersionIds p), ''capability_not_allowed''),
        (dr_action r \<notin> set (dp_allowedActions p), ''action_not_allowed''),
        (dr_target r \<notin> set (dp_allowedTargets p), ''target_not_allowed''),
        (limit_reached (ai_pendingCount i) (dp_maxPendingRequests p), ''pending_limit_reached''),
        (limit_reached (ai_acceptedNotStartedCount i) (dp_maxAcceptedNotStarted p), ''accepted_not_started_limit_reached'')])"

definition installation_reasons :: "admission_input \<Rightarrow> string list" where
  "installation_reasons i = (let r = ai_request i; l = ai_localInstallation i; status = field l ''status'' in
     if \<not> truthy l then [''local_installation_missing'']
     else addReasons
       [(field l ''workspaceId'' \<noteq> JStr (dr_destinationWorkspaceId r), ''cross_workspace''),
        (field l ''capabilityVersionId'' \<noteq> JStr (dr_capabilityVersionId r), ''local_installation_version_mismatch''),
        (truthy status \<and> \<not> includes_str [''active'', ''installed''] status, ''local_installation_inactive'')])"

text \<open>\<open>Array.isArray(list) && !list.includes(text)\<close>\<close>

definition left_out :: "js \<Rightarrow> string \<Rightarrow> bool" where
  "left_out v t = (case v of JArr vs \<Rightarrow> JStr t \<notin> set vs | _ \<Rightarrow> False)"

definition grant_reasons :: "admission_input \<Rightarrow> string list" where
  "grant_reasons i = (let r = ai_request i; l = ai_localInstallation i; g = ai_localGrant i; status = field g ''status'' in
     if \<not> truthy g then [''local_grant_missing'']
     else addReasons
       [(field g ''workspaceId'' \<noteq> JStr (dr_destinationWorkspaceId r), ''cross_workspace''),
        (truthy l \<and> \<not> same_primitive (field g ''installationId'') (field l ''id''), ''local_grant_installation_mismatch''),
        (truthy status \<and> status \<noteq> JStr ''active'', ''local_grant_inactive''),
        (left_out (field g ''allowedActions'') (dr_action r), ''local_grant_action_missing''),
        (left_out (field g ''allowedTargets'') (dr_target r), ''local_grant_target_missing'')])"

definition authority_reasons :: "admission_input \<Rightarrow> string list" where
  "authority_reasons i = addReasons
     [(ai_providerRequired i \<and> \<not> truthy (ai_providerAuthority i), ''provider_authority_missing''),
      (ai_providerRequired i \<and> truthy (ai_providerAuthority i) \<and> field (ai_providerAuthority i) ''status'' \<noteq> JStr ''current'',
       ''provider_authority_stale''),
      (truthy (ai_resourceState i) \<and> field (ai_resourceState i) ''status'' = JStr ''stale'', ''resource_state_stale''),
      (truthy (ai_resourceState i) \<and> field (ai_resourceState i) ''status'' = JStr ''blocked'', ''resource_blocked''),
      (truthy (ai_schedulingState i) \<and> field (ai_schedulingState i) ''status'' = JStr ''stale'', ''scheduling_state_stale''),
      (truthy (ai_schedulingState i) \<and> field (ai_schedulingState i) ''status'' = JStr ''over_capacity'', ''scheduling_capacity_exhausted'')]"

definition admission_reasons :: "(string \<Rightarrow> int option) \<Rightarrow> string \<Rightarrow> admission_input \<Rightarrow> string list" where
  "admission_reasons legacy observedAt i =
     peer_reasons i @ policy_reasons legacy observedAt i @ installation_reasons i @ grant_reasons i @ authority_reasons i"

record delegation_admission =
  da_id :: string
  da_proposalId :: string
  da_workspaceId :: string
  da_peerBindingDigest :: "string option"
  da_policyDigest :: "string option"
  da_capabilityInstallationId :: js
  da_agentCapabilityGrantId :: js
  da_providerUseDigest :: "string option"
  da_resourceStateDigest :: "string option"
  da_schedulingStateDigest :: "string option"
  da_requestDigest :: string
  da_admissible :: bool
  da_reasonCodes :: "string list"
  da_observedAt :: string
  da_admissionDigest :: string

definition peer_js :: "peer_binding \<Rightarrow> js" where
  "peer_js p = JObj [(''id'', JStr (pb_id p)), (''sourceInstanceId'', JStr (pb_sourceInstanceId p)),
     (''sourceWorkspaceId'', JStr (pb_sourceWorkspaceId p)), (''destinationInstanceId'', JStr (pb_destinationInstanceId p)),
     (''destinationWorkspaceId'', JStr (pb_destinationWorkspaceId p)), (''status'', JStr (pb_status p)),
     (''createdAt'', JStr (pb_createdAt p)), (''updatedAt'', JStr (pb_updatedAt p))]"

definition delegation_policy_js :: "delegation_policy \<Rightarrow> js" where
  "delegation_policy_js p = JObj [(''id'', JStr (dp_id p)), (''version'', JStr (dp_version p)), (''peerBindingId'', JStr (dp_peerBindingId p)),
     (''destinationWorkspaceId'', JStr (dp_destinationWorkspaceId p)), (''status'', JStr (dp_status p)),
     (''allowedCapabilityVersionIds'', js_strs (dp_allowedCapabilityVersionIds p)), (''allowedActions'', js_strs (dp_allowedActions p)),
     (''allowedTargets'', js_strs (dp_allowedTargets p)), (''maxPendingRequests'', JNum (dp_maxPendingRequests p)),
     (''maxAcceptedNotStarted'', JNum (dp_maxAcceptedNotStarted p)), (''expiresAt'', js_opt (dp_expiresAt p)),
     (''createdAt'', JStr (dp_createdAt p))]"

definition admission_base :: "delegation_admission \<Rightarrow> js" where
  "admission_base a = JObj [(''id'', JStr (da_id a)), (''proposalId'', JStr (da_proposalId a)), (''workspaceId'', JStr (da_workspaceId a)),
     (''peerBindingDigest'', js_opt (da_peerBindingDigest a)), (''policyDigest'', js_opt (da_policyDigest a)),
     (''capabilityInstallationId'', da_capabilityInstallationId a), (''agentCapabilityGrantId'', da_agentCapabilityGrantId a),
     (''providerUseDigest'', js_opt (da_providerUseDigest a)), (''resourceStateDigest'', js_opt (da_resourceStateDigest a)),
     (''schedulingStateDigest'', js_opt (da_schedulingStateDigest a)), (''requestDigest'', JStr (da_requestDigest a)),
     (''admissible'', JBool (da_admissible a)), (''reasonCodes'', js_strs (da_reasonCodes a)), (''observedAt'', JStr (da_observedAt a))]"

definition digest_if :: "(string \<Rightarrow> string) \<Rightarrow> js \<Rightarrow> string option" where
  "digest_if sha v = (if truthy v then Some (digest sha v) else None)"

definition evaluateDelegationAdmission :: "(string \<Rightarrow> string) \<Rightarrow> (string \<Rightarrow> int option) \<Rightarrow> string \<Rightarrow> admission_input \<Rightarrow> delegation_admission res" where
  "evaluateDelegationAdmission sha legacy now i =
    bindE (isoInstant legacy (or_js (ai_observedAt i) (JStr now)) ''admission observedAt'') (\<lambda>observedAt.
    let reasons = sort (remdups (admission_reasons legacy observedAt i)); r = ai_request i in
    bindE (assertSafeIdentifier (or_js (ai_id i) (JStr (''admission-'' @ dr_id r))) ''delegation admission snapshot id'') (\<lambda>aid.
    bindE (assertSafeIdentifier (ai_proposalId i) ''proposal id'') (\<lambda>pid.
    bindE (assertSafeIdentifier (JStr (dr_destinationWorkspaceId r)) ''workspace id'') (\<lambda>w.
    bindE (requiredText (JStr (dr_requestDigest r)) ''requestDigest'' 100) (\<lambda>rd.
    let base = \<lparr>da_id = aid, da_proposalId = pid, da_workspaceId = w,
          da_peerBindingDigest = map_option (\<lambda>p. digest sha (peer_js p)) (ai_peerBinding i),
          da_policyDigest = map_option (\<lambda>p. digest sha (delegation_policy_js p)) (ai_policy i),
          da_capabilityInstallationId = or_js (field (ai_localInstallation i) ''id'') JNull,
          da_agentCapabilityGrantId = or_js (field (ai_localGrant i) ''id'') JNull,
          da_providerUseDigest = digest_if sha (ai_providerAuthority i),
          da_resourceStateDigest = digest_if sha (ai_resourceState i),
          da_schedulingStateDigest = digest_if sha (ai_schedulingState i),
          da_requestDigest = rd, da_admissible = (reasons = []), da_reasonCodes = reasons, da_observedAt = observedAt,
          da_admissionDigest = []\<rparr>
    in Inr (base\<lparr>da_admissionDigest := digest sha (admission_base base)\<rparr>))))))"

subsection \<open>The snapshot applied, the human decision, the binding\<close>

definition applyAdmissionToProposal ::
  "(string \<Rightarrow> int option) \<Rightarrow> string \<Rightarrow> 'a incoming_proposal_scheme option \<Rightarrow> delegation_admission \<Rightarrow> js \<Rightarrow> incoming_proposal res" where
  "applyAdmissionToProposal legacy now proposal admission updatedAt = (case proposal of
      None \<Rightarrow> Inl (Error ''proposal/admission mismatch'')
    | Some p \<Rightarrow>
        if ip_id p \<noteq> da_proposalId admission then Inl (Error ''proposal/admission mismatch'')
        else if ip_state p \<notin> {''received'', ''inadmissible''} then Inl (Error (''cannot apply admission from proposal state '' @ ip_state p))
        else createIncomingDelegationProposal legacy now (moved_proposal p
          (if da_admissible admission then ''waiting_human'' else ''inadmissible'')
          (if da_admissible admission then ''human_gate_required''
           else case da_reasonCodes admission of [] \<Rightarrow> ''inadmissible'' | c # _ \<Rightarrow> if c = [] then ''inadmissible'' else c)
          (if updatedAt = JUndef then JStr now else updatedAt)))"

record delegation_acceptance =
  xa_id :: string
  xa_proposalId :: string
  xa_workspaceId :: string
  xa_humanGateId :: string
  xa_state :: string
  xa_admissionSnapshotId :: string
  xa_decidedAt :: string

definition current_snapshot :: "'a incoming_proposal_scheme \<Rightarrow> delegation_admission option \<Rightarrow> delegation_admission res" where
  "current_snapshot p admission = (case admission of
      None \<Rightarrow> Inl (Error ''current admissible snapshot is required'')
    | Some a \<Rightarrow> if da_proposalId a \<noteq> ip_id p \<or> \<not> da_admissible a then Inl (Error ''current admissible snapshot is required'') else Inr a)"

definition createDelegationAcceptance :: "(string \<Rightarrow> int option) \<Rightarrow> string \<Rightarrow> 'a incoming_proposal_scheme option \<Rightarrow> delegation_admission option
    \<Rightarrow> js \<Rightarrow> delegation_acceptance res" where
  "createDelegationAcceptance legacy now proposal admission input = (case proposal of
      None \<Rightarrow> Inl (Error ''delegation proposal must be waiting_human'')
    | Some p \<Rightarrow>
        if ip_state p \<noteq> ''waiting_human'' then Inl (Error ''delegation proposal must be waiting_human'')
        else bindE (one_of [''accepted'', ''rejected''] (Error ''DelegationAcceptance state must be accepted or rejected'') (field input ''state'')) (\<lambda>state.
          bindE (current_snapshot p admission) (\<lambda>a.
          bindE (assertSafeIdentifier (field input ''id'') ''delegation acceptance id'') (\<lambda>i.
          bindE (assertSafeIdentifier (field input ''humanGateId'') ''human gate id'') (\<lambda>g.
          bindE (assertSafeIdentifier (JStr (da_id a)) ''admission snapshot id'') (\<lambda>s.
          bindE (isoInstant legacy (or_js (field input ''decidedAt'') (JStr now)) ''delegation acceptance decidedAt'') (\<lambda>t.
          Inr \<lparr>xa_id = i, xa_proposalId = ip_id p, xa_workspaceId = ip_workspaceId p, xa_humanGateId = g, xa_state = state,
            xa_admissionSnapshotId = s, xa_decidedAt = t\<rparr>)))))))"

record execution_binding =
  db_id :: string
  db_proposalId :: string
  db_delegationRequestId :: string
  db_workspaceId :: string
  db_localMissionId :: "string option"
  db_localPlanStepId :: "string option"
  db_localTaskId :: "string option"
  db_localStepAttemptId :: "string option"
  db_localExecutionRunId :: "string option"
  db_createdAt :: string

definition LOCAL_REFS :: "string list" where
  "LOCAL_REFS = [''localMissionId'', ''localPlanStepId'', ''localTaskId'', ''localStepAttemptId'', ''localExecutionRunId'']"

definition local_ref :: "js \<Rightarrow> string \<Rightarrow> string option res" where
  "local_ref identity k = optionalIdentifier (field identity k) k"

definition local_refs :: "js \<Rightarrow> execution_binding \<Rightarrow> execution_binding res" where
  "local_refs identity b =
    bindE (local_ref identity ''localMissionId'') (\<lambda>m.
    bindE (local_ref identity ''localPlanStepId'') (\<lambda>p.
    bindE (local_ref identity ''localTaskId'') (\<lambda>t.
    bindE (local_ref identity ''localStepAttemptId'') (\<lambda>a.
    bindE (local_ref identity ''localExecutionRunId'') (\<lambda>r.
    Inr (b\<lparr>db_localMissionId := m, db_localPlanStepId := p, db_localTaskId := t, db_localStepAttemptId := a, db_localExecutionRunId := r\<rparr>))))))"

text \<open>The guards before a binding, in the order of the code.\<close>

definition binding_guard :: "bool \<Rightarrow> 'a incoming_proposal_scheme option \<Rightarrow> delegation_acceptance option \<Rightarrow> delegation_admission option
    \<Rightarrow> 'a incoming_proposal_scheme res" where
  "binding_guard bound proposal acceptance admission =
    (if bound then Inl (Error ''delegation request is already bound'')
     else case proposal of None \<Rightarrow> Inl (Error ''proposal must still be waiting_human before binding'')
     | Some p \<Rightarrow>
        if ip_state p \<noteq> ''waiting_human'' then Inl (Error ''proposal must still be waiting_human before binding'')
        else case acceptance of None \<Rightarrow> Inl (Error ''accepted destination HumanGate decision is required'')
        | Some x \<Rightarrow>
           if xa_proposalId x \<noteq> ip_id p \<or> xa_state x \<noteq> ''accepted'' then Inl (Error ''accepted destination HumanGate decision is required'')
           else bindE (current_snapshot p admission) (\<lambda>a.
             if xa_admissionSnapshotId x \<noteq> da_id a then Inl (Error ''acceptance/admission snapshot mismatch'') else Inr p))"

definition createDelegatedExecutionBinding :: "(string \<Rightarrow> int option) \<Rightarrow> string \<Rightarrow> execution_binding option \<Rightarrow> 'a incoming_proposal_scheme option
    \<Rightarrow> delegation_acceptance option \<Rightarrow> delegation_admission option \<Rightarrow> js \<Rightarrow> execution_binding res" where
  "createDelegatedExecutionBinding legacy now existing proposal acceptance admission input =
    bindE (binding_guard (existing \<noteq> None) proposal acceptance admission) (\<lambda>p.
    let identity = or_js (field input ''localIdentity'') (JObj []) in
    if \<not> list_ex (\<lambda>k. truthy (field identity k)) LOCAL_REFS then Inl (Error ''destination-local execution identity is required'')
    else bindE (local_refs identity \<lparr>db_id = [], db_proposalId = ip_id p, db_delegationRequestId = ip_delegationRequestId p,
           db_workspaceId = ip_workspaceId p, db_localMissionId = None, db_localPlanStepId = None, db_localTaskId = None,
           db_localStepAttemptId = None, db_localExecutionRunId = None, db_createdAt = []\<rparr>) (\<lambda>b.
      bindE (assertSafeIdentifier (field input ''id'') ''delegated execution binding id'') (\<lambda>i.
      bindE (isoInstant legacy (or_js (field input ''createdAt'') (JStr now)) ''delegated execution binding createdAt'') (\<lambda>t.
      Inr (b\<lparr>db_id := i, db_createdAt := t\<rparr>)))))"

text \<open>The answer tells whether the proposal is a new one.\<close>

record 'a cancellation_result =
  cr_proposal :: "'a + incoming_proposal"
  cr_state :: string
  cr_reasonCode :: string

definition applyCancellationProposal :: "(string \<Rightarrow> int option) \<Rightarrow> string \<Rightarrow> 'a incoming_proposal_scheme option \<Rightarrow> execution_binding option
    \<Rightarrow> bool \<Rightarrow> js \<Rightarrow> ('a incoming_proposal_scheme) cancellation_result res" where
  "applyCancellationProposal legacy now proposal executionBinding acceptedLocally updatedAt = (case proposal of
      None \<Rightarrow> Inl (TypeError ''proposal is required'')
    | Some p \<Rightarrow>
        if executionBinding \<noteq> None
        then Inr \<lparr>cr_proposal = Inl p, cr_state = ip_state p, cr_reasonCode = ''post_start_remote_cancel_non_authoritative''\<rparr>
        else if \<not> acceptedLocally
        then Inr \<lparr>cr_proposal = Inl p, cr_state = ip_state p, cr_reasonCode = ''cancellation_proposal_pending_local_decision''\<rparr>
        else if ip_state p \<notin> {''received'', ''inadmissible'', ''waiting_human''}
        then Inl (Error (''cannot cancel proposal from state '' @ ip_state p))
        else bindE (createIncomingDelegationProposal legacy now (moved_proposal p ''cancelled_before_start''
            ''source_cancellation_accepted_locally'' (if updatedAt = JUndef then JStr now else updatedAt))) (\<lambda>c.
          Inr \<lparr>cr_proposal = Inr c, cr_state = ip_state c, cr_reasonCode = ''source_cancellation_accepted_locally''\<rparr>))"

subsection \<open>Admission and the checks of the policy module\<close>

lemma addReasons_Nil: "addReasons cs = [] \<longleftrightarrow> list_all (\<lambda>(c, _). \<not> c) cs"
  by (auto simp: addReasons_def list_all_iff filter_empty_conv)

text \<open>What the installation, the grant and the authorities of the destination must be.\<close>

definition local_authority :: "admission_input \<Rightarrow> bool" where
  "local_authority i \<longleftrightarrow> installation_reasons i = [] \<and> grant_reasons i = [] \<and> authority_reasons i = []"

text \<open>The request as the append classifier and the policy check of the policy module see it.\<close>

definition peer_accepts :: "peer_binding \<Rightarrow> delegation_request \<Rightarrow> bool" where
  "peer_accepts p r = (case classifyDelegationRequestAppend p 0 None None r of Inr v \<Rightarrow> rv_state v \<noteq> ''rejected'' | Inl _ \<Rightarrow> False)"

definition admits :: "(string \<Rightarrow> int option) \<Rightarrow> string \<Rightarrow> admission_input \<Rightarrow> bool" where
  "admits legacy t i = (case (ai_peerBinding i, ai_policy i) of
      (Some p, Some q) \<Rightarrow> peer_accepts p (ai_request i) \<and> fst (assertPolicyAllowsRequest legacy t (Some q) (ai_request i)) \<and>
        \<not> limit_reached (ai_pendingCount i) (dp_maxPendingRequests q) \<and>
        \<not> limit_reached (ai_acceptedNotStartedCount i) (dp_maxAcceptedNotStarted q) \<and> local_authority i
    | _ \<Rightarrow> False)"

lemma peer_accepts_iff: "peer_accepts p r \<longleftrightarrow> pb_status p = ''active'' \<and> dr_peerBindingId r = pb_id p \<and>
    dr_sourceInstanceId r = pb_sourceInstanceId p \<and> dr_destinationInstanceId r = pb_destinationInstanceId p \<and>
    dr_sourceWorkspaceId r = pb_sourceWorkspaceId p \<and> dr_destinationWorkspaceId r = pb_destinationWorkspaceId p"
  by (simp add: peer_accepts_def classifyDelegationRequestAppend_def request_verdict_of_def)

lemma policy_allows_iff: "fst (assertPolicyAllowsRequest legacy t (Some q) r) \<longleftrightarrow> policy_refusal legacy t (Some q) r = None"
  by (simp add: assertPolicyAllowsRequest_def split: option.splits)

lemma peer_reasons_Nil: "\<forall>p. ai_peerBinding i = Some p \<longrightarrow> pb_status p \<in> set PEER_STATES \<Longrightarrow>
    peer_reasons i = [] \<longleftrightarrow> (\<exists>p. ai_peerBinding i = Some p \<and> peer_accepts p (ai_request i))"
  by (cases "ai_peerBinding i") (auto simp: peer_reasons_def Let_def addReasons_Nil peer_accepts_iff PEER_STATES_def)

lemma policy_reasons_Nil: "\<forall>q. ai_policy i = Some q \<longrightarrow> dp_status q \<in> set POLICY_STATES \<Longrightarrow>
    policy_reasons legacy t i = [] \<longleftrightarrow> (\<exists>q. ai_policy i = Some q \<and> policy_refusal legacy t (Some q) (ai_request i) = None \<and>
      \<not> limit_reached (ai_pendingCount i) (dp_maxPendingRequests q) \<and>
      \<not> limit_reached (ai_acceptedNotStartedCount i) (dp_maxAcceptedNotStarted q))"
  by (cases "ai_policy i") (auto simp: policy_reasons_def Let_def addReasons_Nil policy_refusal_def POLICY_STATES_def)

lemma sort_remdups_Nil [simp]: "sort (remdups xs) = [] \<longleftrightarrow> xs = []"
  by (metis set_empty set_remdups set_sort)

lemma admission_Inr:
  assumes "evaluateDelegationAdmission sha legacy now i = Inr a"
  shows "da_admissible a = (admission_reasons legacy (da_observedAt a) i = []) \<and>
    ai_proposalId i = JStr (da_proposalId a) \<and> set (da_reasonCodes a) = set (admission_reasons legacy (da_observedAt a) i)"
  using assms by (auto simp: evaluateDelegationAdmission_def Let_def)

text \<open>
  C40: The admission snapshot of a request is admissible exactly when the append classifier does
  not reject the request for its peer, the policy check allows it, neither limit of the policy
  is reached and the destination's own installation, grant, provider, resources and scheduling
  stand: the two modules, written separately, agree on peers and policies in valid states.
\<close>

theorem admission_agrees_with_policy_module:
  assumes "evaluateDelegationAdmission sha legacy now i = Inr a"
    and "\<forall>p. ai_peerBinding i = Some p \<longrightarrow> pb_status p \<in> set PEER_STATES"
    and "\<forall>q. ai_policy i = Some q \<longrightarrow> dp_status q \<in> set POLICY_STATES"
  shows "da_admissible a \<longleftrightarrow> admits legacy (da_observedAt a) i"
  using peer_reasons_Nil[OF assms(2)] policy_reasons_Nil[OF assms(3)] admission_Inr[OF assms(1)]
  by (auto simp: admission_reasons_def admits_def local_authority_def policy_allows_iff split: option.splits)

definition sample_request :: delegation_request where
  "sample_request = blank_request\<lparr>dr_id := ''request-1'', dr_sourceInstanceId := ''instance-a'', dr_sourceWorkspaceId := ''workspace-a'',
     dr_destinationInstanceId := ''instance-b'', dr_destinationWorkspaceId := ''workspace-b'', dr_peerBindingId := ''peer-1'',
     dr_policyId := ''policy-1'', dr_policyVersion := ''1'', dr_capabilityVersionId := ''local.form@1.0.0'', dr_action := ''submit'',
     dr_target := ''http://127.0.0.1/'', dr_requestSequence := 1, dr_requestDigest := ''sha256:1''\<rparr>"

definition sample_peer :: peer_binding where
  "sample_peer = \<lparr>pb_id = ''peer-1'', pb_sourceInstanceId = ''instance-a'', pb_sourceWorkspaceId = ''workspace-a'',
     pb_destinationInstanceId = ''instance-b'', pb_destinationWorkspaceId = ''workspace-b'', pb_status = ''active'',
     pb_createdAt = ''2026-01-01T00:00:00.000Z'', pb_updatedAt = ''2026-01-01T00:00:00.000Z''\<rparr>"

definition sample_policy :: delegation_policy where
  "sample_policy = \<lparr>dp_id = ''policy-1'', dp_version = ''1'', dp_peerBindingId = ''peer-1'', dp_destinationWorkspaceId = ''workspace-b'',
     dp_status = ''active'', dp_allowedCapabilityVersionIds = [''local.form@1.0.0''], dp_allowedActions = [''submit''],
     dp_allowedTargets = [''http://127.0.0.1/''], dp_maxPendingRequests = 8, dp_maxAcceptedNotStarted = 2,
     dp_expiresAt = Some ''2027-01-01T00:00:00.000Z'', dp_createdAt = ''2026-01-01T00:00:00.000Z''\<rparr>"

definition sample_input :: "string \<Rightarrow> admission_input" where
  "sample_input at = \<lparr>ai_id = JUndef, ai_proposalId = JStr ''proposal-1'', ai_request = sample_request, ai_peerBinding = Some sample_peer,
     ai_policy = Some sample_policy,
     ai_localInstallation = JObj [(''id'', JStr ''install-1''), (''workspaceId'', JStr ''workspace-b''),
       (''capabilityVersionId'', JStr ''local.form@1.0.0''), (''status'', JStr ''installed'')],
     ai_localGrant = JObj [(''id'', JStr ''grant-1''), (''workspaceId'', JStr ''workspace-b''), (''installationId'', JStr ''install-1''),
       (''status'', JStr ''active''), (''allowedActions'', js_strs [''submit'']), (''allowedTargets'', js_strs [''http://127.0.0.1/''])],
     ai_providerRequired = False, ai_providerAuthority = JNull, ai_resourceState = JNull, ai_schedulingState = JNull,
     ai_pendingCount = 1, ai_acceptedNotStartedCount = 0, ai_observedAt = JStr at\<rparr>"

text \<open>The same request is admitted before its policy expires and not after.\<close>

theorem admission_agrees_with_policy_module_witness:
  "admits (\<lambda>_. None) ''2026-06-01T00:00:00.000Z'' (sample_input ''2026-06-01T00:00:00.000Z'') \<and>
   \<not> admits (\<lambda>_. None) ''2027-06-01T00:00:00.000Z'' (sample_input ''2027-06-01T00:00:00.000Z'')"
proof -
  let ?e = "\<lambda>t. evaluateDelegationAdmission (\<lambda>_. ''0'') (\<lambda>_. None) [] (sample_input t)"
  let ?t = "''2026-06-01T00:00:00.000Z''" and ?u = "''2027-06-01T00:00:00.000Z''"
  have t: "(case ?e ?t of Inr a \<Rightarrow> da_admissible a \<and> da_observedAt a = ?t | _ \<Rightarrow> False)" by code_simp
  have u: "(case ?e ?u of Inr a \<Rightarrow> \<not> da_admissible a \<and> da_observedAt a = ?u | _ \<Rightarrow> False)" by code_simp
  obtain a where a: "?e ?t = Inr a" "da_admissible a" "da_observedAt a = ?t" using t by (cases "?e ?t") auto
  obtain b where b: "?e ?u = Inr b" "\<not> da_admissible b" "da_observedAt b = ?u" using u by (cases "?e ?u") auto
  have p: "\<forall>p. ai_peerBinding (sample_input s) = Some p \<longrightarrow> pb_status p \<in> set PEER_STATES"
    and q: "\<forall>q. ai_policy (sample_input s) = Some q \<longrightarrow> dp_status q \<in> set POLICY_STATES" for s
    by (simp_all add: sample_input_def sample_peer_def sample_policy_def PEER_STATES_def POLICY_STATES_def)
  from admission_agrees_with_policy_module[OF a(1) p q] admission_agrees_with_policy_module[OF b(1) p q] a b
  show ?thesis by simp
qed

end
