(* ===== verification/DelegationService.thy ===== *)
theory DelegationService
  imports DelegationAdmission MissionControl
begin

text \<open>
  The S8 delegation service (\<open>src/application/s8-index.cjs\<close> with the overrides of
  \<open>s8-destination-authority-service.cjs\<close> that the product installs), first part: peers,
  policies, requests of the source, the authority the destination finds in its own records,
  and the inbox of the destination.  The mission and coordinator services are a part of the
  state.  Each row of the inbox is an operation up to the \<open>await\<close> that acknowledges it; the
  event of an accepted row is appended after it.
\<close>

subsection \<open>State\<close>

record known_peer = peer_binding +
  kp_workspaceId :: string
  kp_localRole :: string

record known_policy = delegation_policy +
  kq_workspaceId :: string

record known_request = delegation_request +
  kr_workspaceId :: string
  kr_direction :: string
  kr_transportState :: string

record known_proposal = incoming_proposal +
  kd_humanGateId :: "string option"

record delegation_ack =
  xk_id :: string
  xk_workspaceId :: string
  xk_requestId :: string
  xk_requestDigest :: string
  xk_state :: string
  xk_reasonCode :: js
  xk_observedAt :: string

text \<open>\<open>actionClass\<close> and \<open>evidenceExpected\<close> are the same in every gate and left out.\<close>

record destination_gate =
  xg_id :: string
  xg_workspaceId :: string
  xg_proposalId :: string
  xg_delegationRequestId :: string
  xg_admissionSnapshotId :: string
  xg_state :: string
  xg_capabilityAction :: string
  xg_target :: string
  xg_payloadPreview :: js
  xg_requestedAt :: string
  xg_decidedAt :: "string option"

record delegation_divergence =
  xv_id :: string
  xv_workspaceId :: string
  xv_requestId :: js
  xv_state :: string
  xv_reasonCode :: string
  xv_observedDigest :: js
  xv_observedAt :: string

text \<open>The step of a local plan that waits for the receipt of a request.\<close>

record step_link =
  sl_id :: string
  sl_workspaceId :: string
  sl_delegationRequestId :: string
  sl_requestDigest :: string
  sl_missionId :: string
  sl_missionRevisionId :: string
  sl_planId :: string
  sl_stepId :: string
  sl_state :: string
  sl_createdAt :: string
  sl_receiptDigest :: js
  sl_sourceStepAttemptId :: "string option"
  sl_consumedAt :: "string option"

record receipt_consumption =
  rc8_id :: string
  rc8_workspaceId :: string
  rc8_delegationRequestId :: string
  rc8_receiptMirrorId :: js
  rc8_receiptDigest :: js
  rc8_sourceMissionId :: "string option"
  rc8_sourceMissionRevisionId :: "string option"
  rc8_sourcePlanId :: "string option"
  rc8_sourcePlanStepId :: "string option"
  rc8_sourceStepAttemptId :: "string option"
  rc8_consumedAt :: string

record delegation_receipt =
  xp_id :: string
  xp_delegationRequestId :: string
  xp_delegatedExecutionBindingId :: string
  xp_sourceInstanceId :: string
  xp_sourceWorkspaceId :: string
  xp_destinationInstanceId :: string
  xp_destinationWorkspaceId :: string
  xp_state :: string
  xp_resultClass :: "string option"
  xp_resultSummary :: js
  xp_evidenceDigests :: "string list"
  xp_receiptRevision :: int
  xp_observedAt :: string
  xp_receiptDigest :: string
  xp_transportState :: string

record s8_state =
  s8_s2 :: s2_state
  s8_peers :: "(string, known_peer) jsmap"
  s8_policies :: "(string, known_policy) jsmap"
  s8_requests :: "(string, known_request) jsmap"
  s8_acks :: "(string, delegation_ack) jsmap"
  s8_proposals :: "(string, known_proposal) jsmap"
  s8_admissions :: "(string, delegation_admission) jsmap"
  s8_gates :: "(string, destination_gate) jsmap"
  s8_acceptances :: "(string, delegation_acceptance) jsmap"
  s8_bindings :: "(string, execution_binding) jsmap"
  s8_receipts :: "(string, delegation_receipt) jsmap"
  s8_receiptMirror :: "(string, js) jsmap"
  s8_cancellations :: "(string, js) jsmap"
  s8_divergences :: "(string, delegation_divergence) jsmap"
  s8_links :: "(string, step_link) jsmap"
  s8_consumptions :: "(string, receipt_consumption) jsmap"
  s8_events :: "app_event list"

definition s8_init :: "s2_state \<Rightarrow> s8_state" where
  "s8_init s = \<lparr>s8_s2 = s, s8_peers = [], s8_policies = [], s8_requests = [], s8_acks = [], s8_proposals = [], s8_admissions = [],
     s8_gates = [], s8_acceptances = [], s8_bindings = [], s8_receipts = [], s8_receiptMirror = [], s8_cancellations = [], s8_divergences = [],
     s8_links = [], s8_consumptions = [], s8_events = []\<rparr>"

text \<open>
  What the service reads of the stages below that are not part of its state: the id of the
  local instance, the id of the active scheduling policy of a workspace, whether a transport is
  configured, and the evaluation of a run as the scheduling service overrides it.
\<close>

record s8_env =
  de_app :: app_env
  de_instance :: string
  de_policyId :: "string \<Rightarrow> js"
  de_transport :: bool
  de_start :: "js \<Rightarrow> (s2_state, mission_run) act"
  de_evaluate :: "string \<Rightarrow> (s2_state, unit) act"

definition in_s2 :: "(s2_state, 'a) act \<Rightarrow> (s8_state, 'a) act" where
  "in_s2 m s = (case m (s8_s2 s) of (t, r) \<Rightarrow> (s\<lparr>s8_s2 := t\<rparr>, r))"

definition appendS8Event :: "app_event \<Rightarrow> (s8_state, unit) act" where
  "appendS8Event e s = (case put_event e (s8_events s) of Inl er \<Rightarrow> (s, Inl er) | Inr log \<Rightarrow> (s\<lparr>s8_events := log\<rparr>, Inr ()))"

text \<open>\<open>String(input?.workspaceId || '')\<close>\<close>

definition workspace_of :: "js \<Rightarrow> string" where
  "workspace_of input = to_string (or_js (field input ''workspaceId'') (JStr []))"

definition requireS7Workspace :: "string \<Rightarrow> (s8_state, unit) act" where
  "requireS7Workspace w = bindS (readS (\<lambda>s. mget (s1_workspaces (s2_s1 (s8_s2 s))) w)) (\<lambda>found. case found of
      None \<Rightarrow> throwS (Error (''Workspace not found or inactive: '' @ w))
    | Some ws \<Rightarrow> if ws_status ws \<noteq> ''active'' then throwS (Error (''Workspace not found or inactive: '' @ w)) else returnS ())"

subsection \<open>Peers and policies\<close>

definition localDelegationRole :: "s8_env \<Rightarrow> 'a peer_binding_scheme \<Rightarrow> js \<Rightarrow> string res" where
  "localDelegationRole env b workspaceId =
    (if pb_sourceInstanceId b = de_instance env \<and> JStr (pb_sourceWorkspaceId b) = workspaceId then Inr ''source''
     else if pb_destinationInstanceId b = de_instance env \<and> JStr (pb_destinationWorkspaceId b) = workspaceId then Inr ''destination''
     else Inl (Error ''delegation_peer_binding_not_local_to_workspace''))"

definition recordPeerBinding :: "s8_env \<Rightarrow> js \<Rightarrow> (s8_state, known_peer) act" where
  "recordPeerBinding env input =
    (let app = de_app env; sha = ae_sha app in
     bindS (requireS7Workspace (workspace_of input)) (\<lambda>_.
     bindS (liftS (createDelegationPeerBinding (ae_legacy app) (ae_clock app) input)) (\<lambda>candidate.
     bindS (liftS (localDelegationRole env candidate (field input ''workspaceId''))) (\<lambda>role.
     bindS (readS (\<lambda>s. mget (s8_peers s) (pb_id candidate))) (\<lambda>existing. case existing of
         Some e \<Rightarrow>
           if digest sha (peer_js (peer_binding.truncate e)) \<noteq> digest sha (peer_js candidate)
              \<or> JStr (kp_workspaceId e) \<noteq> field input ''workspaceId'' \<or> kp_localRole e \<noteq> role
           then throwS (Error (''DelegationPeerBinding idempotency collision: '' @ pb_id candidate)) else returnS e
       | None \<Rightarrow>
           let stored = peer_binding.extend candidate \<lparr>kp_workspaceId = workspace_of input, kp_localRole = role\<rparr> in
           bindS (modifyS (\<lambda>s. s\<lparr>s8_peers := mset_at (pb_id candidate) stored (s8_peers s)\<rparr>)) (\<lambda>_.
           bindS (appendS8Event \<lparr>ap_workspaceId = workspace_of input, ap_type = ''delegation.peer_binding_recorded'',
             ap_aggregateType = ''delegationPeerBinding'', ap_aggregateId = pb_id candidate,
             ap_idempotencyKey = ''delegation.peer_binding_recorded:'' @ pb_id candidate,
             ap_payload = JObj [(''peerBindingId'', JStr (pb_id candidate)), (''localRole'', JStr role), (''status'', JStr (pb_status candidate))]\<rparr>) (\<lambda>_.
           returnS stored)))))))"

definition recordDelegationPolicy :: "s8_env \<Rightarrow> js \<Rightarrow> (s8_state, known_policy) act" where
  "recordDelegationPolicy env input =
    (let app = de_app env; sha = ae_sha app; w = workspace_of input in
     bindS (requireS7Workspace w) (\<lambda>_.
     bindS (readS (\<lambda>s. get_js (s8_peers s) (field input ''peerBindingId''))) (\<lambda>found. case found of
         None \<Rightarrow> throwS (Error ''peer_binding_missing'')
       | Some peer \<Rightarrow>
         bindS (liftS (localDelegationRole env peer (JStr w))) (\<lambda>role.
         if role \<noteq> ''destination'' then throwS (Error ''delegation_policy_must_be_recorded_by_destination'')
         else
           bindS (liftS (createDelegationPolicySnapshot (ae_legacy app) (ae_clock app) input)) (\<lambda>candidate.
           if dp_destinationWorkspaceId candidate \<noteq> w \<or> dp_peerBindingId candidate \<noteq> pb_id peer then throwS (Error ''cross_workspace'')
           else
             bindS (readS (\<lambda>s. mget (s8_policies s) (dp_id candidate))) (\<lambda>existing. case existing of
                 Some e \<Rightarrow>
                   if digest sha (delegation_policy_js (delegation_policy.truncate e)) \<noteq> digest sha (delegation_policy_js candidate)
                      \<or> kq_workspaceId e \<noteq> w
                   then throwS (Error (''DelegationPolicy idempotency collision: '' @ dp_id candidate)) else returnS e
               | None \<Rightarrow>
                   let stored = delegation_policy.extend candidate \<lparr>kq_workspaceId = w\<rparr> in
                   bindS (modifyS (\<lambda>s. s\<lparr>s8_policies := mset_at (dp_id candidate) stored (s8_policies s)\<rparr>)) (\<lambda>_.
                   bindS (appendS8Event \<lparr>ap_workspaceId = w, ap_type = ''delegation.policy_recorded'',
                     ap_aggregateType = ''delegationPolicy'', ap_aggregateId = dp_id candidate,
                     ap_idempotencyKey = ''delegation.policy_recorded:'' @ dp_id candidate @ '':'' @ dp_version candidate,
                     ap_payload = JObj [(''policyId'', JStr (dp_id candidate)), (''version'', JStr (dp_version candidate)),
                       (''status'', JStr (dp_status candidate))]\<rparr>) (\<lambda>_.
                   returnS stored))))))))"

subsection \<open>Requests of the source\<close>

definition peer_requests :: "string \<Rightarrow> string \<Rightarrow> s8_state \<Rightarrow> known_request list" where
  "peer_requests direction peerId s =
     sort_key dr_requestSequence (filter (\<lambda>r. kr_direction r = direction \<and> dr_peerBindingId r = peerId) (mvalues (s8_requests s)))"

definition nextRequestSequence :: "string \<Rightarrow> s8_state \<Rightarrow> int \<times> string option" where
  "nextRequestSequence peerId s = (case rev (peer_requests ''outbound'' peerId s) of [] \<Rightarrow> (1, None)
     | previous # _ \<Rightarrow> (dr_requestSequence previous + 1, Some (dr_requestDigest previous)))"

definition request_event :: "string \<Rightarrow> known_request \<Rightarrow> app_event" where
  "request_event w r = \<lparr>ap_workspaceId = w, ap_type = ''delegation.request_created'', ap_aggregateType = ''delegationRequest'',
     ap_aggregateId = dr_id r, ap_idempotencyKey = ''delegation.request_created:'' @ dr_id r @ '':'' @ dr_requestDigest r,
     ap_payload = JObj [(''delegationRequestId'', JStr (dr_id r)), (''peerBindingId'', JStr (dr_peerBindingId r)),
       (''requestSequence'', JNum (dr_requestSequence r)), (''requestDigest'', JStr (dr_requestDigest r)),
       (''destinationInstanceId'', JStr (dr_destinationInstanceId r)), (''destinationWorkspaceId'', JStr (dr_destinationWorkspaceId r))]\<rparr>"

definition create_request :: "s8_env \<Rightarrow> js \<Rightarrow> (s8_state, known_request) act" where
  "create_request env input =
    (let app = de_app env; sha = ae_sha app; w = workspace_of input in
     bindS (requireS7Workspace w) (\<lambda>_.
     bindS (readS (\<lambda>s. get_js (s8_peers s) (field input ''peerBindingId''))) (\<lambda>found. case found of
         None \<Rightarrow> throwS (Error ''peer_binding_missing'')
       | Some peer \<Rightarrow>
         if pb_status peer \<noteq> ''active'' then throwS (Error ''peer_binding_missing'')
         else bindS (liftS (localDelegationRole env peer (JStr w))) (\<lambda>role.
         if role \<noteq> ''source'' then throwS (Error ''delegation_request_must_be_created_by_source'')
         else bindS (readS (nextRequestSequence (pb_id peer))) (\<lambda>(n, prev).
           bindS (liftS (createDelegationRequest sha (ae_legacy app) (ae_clock app) (with_fields input
             [(''id'', or_js (field input ''id'') (JStr (bounded_id sha ''delegation-request'' [JStr (pb_id peer), JNum n]))),
              (''sourceInstanceId'', JStr (pb_sourceInstanceId peer)), (''sourceWorkspaceId'', JStr (pb_sourceWorkspaceId peer)),
              (''destinationInstanceId'', JStr (pb_destinationInstanceId peer)), (''destinationWorkspaceId'', JStr (pb_destinationWorkspaceId peer)),
              (''requestSequence'', JNum n), (''previousRequestDigest'', js_opt prev),
              (''createdAt'', or_js (field input ''createdAt'') (JStr (ae_clock app)))]))) (\<lambda>candidate.
           bindS (readS (\<lambda>s. mget (s8_requests s) (dr_id candidate))) (\<lambda>existing. case existing of
               Some e \<Rightarrow>
                 if dr_requestDigest e \<noteq> dr_requestDigest candidate \<or> kr_direction e \<noteq> ''outbound''
                 then throwS (Error (''DelegationRequest idempotency collision: '' @ dr_id candidate)) else returnS e
             | None \<Rightarrow>
                 let stored = delegation_request.extend candidate
                       \<lparr>kr_workspaceId = w, kr_direction = ''outbound'', kr_transportState = ''pending''\<rparr> in
                 bindS (modifyS (\<lambda>s. s\<lparr>s8_requests := mset_at (dr_id candidate) stored (s8_requests s)\<rparr>)) (\<lambda>_.
                 bindS (appendS8Event (request_event w stored)) (\<lambda>_.
                 returnS stored))))))))) "

text \<open>\<open>pushDelegationRequest\<close> up to its \<open>await\<close>, and with the answer of the transport.\<close>

definition push_begin :: "s8_env \<Rightarrow> js \<Rightarrow> (s8_state, known_request) act" where
  "push_begin env input =
    (let w = workspace_of input in
     bindS (requireS7Workspace w) (\<lambda>_.
     bindS (readS (\<lambda>s. get_js (s8_requests s) (field input ''requestId''))) (\<lambda>found. case found of
         None \<Rightarrow> throwS (Error ''delegation_request_not_found'')
       | Some r \<Rightarrow> if kr_workspaceId r \<noteq> w \<or> kr_direction r \<noteq> ''outbound'' then throwS (Error ''delegation_request_not_found'')
           else if \<not> de_transport env then throwS (Error ''delegation_endpoint_unavailable'') else returnS r)))"

definition push_finish :: "s8_env \<Rightarrow> string \<Rightarrow> known_request \<Rightarrow> js \<Rightarrow> (s8_state, delegation_ack) act" where
  "push_finish env w request response =
    (let app = de_app env; ack = or_js (or_js (field response ''ack'') response) (JObj []);
         state = (if includes_str [''accepted'', ''duplicate'', ''rejected'', ''divergent''] (field ack ''state'')
                  then to_string (field ack ''state'') else ''accepted'');
         reason = or_js (field ack ''reasonCode'') (JStr (if state = ''duplicate'' then ''exact_duplicate'' else ''transport_accepted''));
         stored = \<lparr>xk_id = bounded_id (ae_sha app) ''delegation-ack'' [JStr (dr_id request), JStr (dr_requestDigest request)],
           xk_workspaceId = w, xk_requestId = dr_id request, xk_requestDigest = dr_requestDigest request, xk_state = state,
           xk_reasonCode = reason, xk_observedAt = ae_clock app\<rparr> in
     bindS (modifyS (\<lambda>s. s\<lparr>s8_acks := mset_at (xk_id stored) stored (s8_acks s),
       s8_requests := mset_at (dr_id request) (request\<lparr>kr_transportState :=
         (if state = ''accepted'' \<or> state = ''duplicate'' then ''acknowledged'' else state)\<rparr>) (s8_requests s)\<rparr>)) (\<lambda>_.
     bindS (appendS8Event \<lparr>ap_workspaceId = w, ap_type = ''delegation.request_acknowledged'', ap_aggregateType = ''delegationRequest'',
       ap_aggregateId = dr_id request,
       ap_idempotencyKey = ''delegation.request_acknowledged:'' @ dr_id request @ '':'' @ dr_requestDigest request @ '':'' @ state,
       ap_payload = JObj [(''requestId'', JStr (dr_id request)), (''state'', JStr state), (''reasonCode'', reason)]\<rparr>) (\<lambda>_.
     returnS stored)))"

subsection \<open>What the destination finds in its own records\<close>

record local_authority =
  la_installation :: "installation option"
  la_grant :: "grant option"
  la_agent :: "agent option"
  la_providerId :: "string option"
  la_providerAuthority :: js
  la_resourceState :: js
  la_schedulingState :: js

definition version_of :: "installation \<Rightarrow> string" where
  "version_of i = in_packageId i @ ''@'' @ in_version i"

definition lock_js :: "lock \<Rightarrow> js" where
  "lock_js l = JObj [(''id'', JStr (lk_id l)), (''workspaceId'', JStr (lk_workspaceId l)), (''taskId'', JStr (lk_taskId l)),
     (''executionRunId'', JStr (lk_executionRunId l)), (''resourceType'', JStr (lk_resourceType l)),
     (''resourceKey'', JStr (lk_resourceKey l)), (''normalizedKey'', JStr (lk_normalizedKey l)),
     (''acquiredAt'', JStr (lk_acquiredAt l)), (''releasedAt'', js_opt (lk_releasedAt l))]"

definition request_installation :: "s8_env \<Rightarrow> s1_state \<Rightarrow> 'a delegation_request_scheme \<Rightarrow> installation option" where
  "request_installation env s r = (case sort_by (\<lambda>a b. ae_lc (de_app env) (in_id a) (in_id b))
       (filter (\<lambda>i. in_workspaceId i = dr_destinationWorkspaceId r \<and> version_of i = dr_capabilityVersionId r \<and> in_status i = ''installed'')
          (mvalues (s1_installations s))) of [] \<Rightarrow> None | i # _ \<Rightarrow> Some i)"

definition request_grant :: "s8_env \<Rightarrow> s1_state \<Rightarrow> 'a delegation_request_scheme \<Rightarrow> installation \<Rightarrow> grant option" where
  "request_grant env s r i = (case sort_by (\<lambda>a b. ae_lc (de_app env) (gr_id a) (gr_id b))
       (filter (\<lambda>g. gr_workspaceId g = dr_destinationWorkspaceId r \<and> gr_installationId g = in_id i \<and> gr_status g = ''active'' \<and>
            dr_action r \<in> set (gr_allowedActions g) \<and> dr_target r \<in> set (gr_allowedTargets g)) (mvalues (s1_grants s)))
     of [] \<Rightarrow> None | g # _ \<Rightarrow> Some g)"

text \<open>\<open>!expiresAt || Date.parse(expiresAt) > Date.parse(now)\<close>\<close>

definition provider_current :: "app_env \<Rightarrow> provider_snapshot \<Rightarrow> bool" where
  "provider_current app p \<longleftrightarrow> ps_status p = ''accepted'' \<and> (ps_expiresAt p = [] \<or>
     (case (date_parse (ae_legacy app) (ps_expiresAt p), date_parse (ae_legacy app) (ae_clock app)) of
        (Some e, Some n) \<Rightarrow> n < e | _ \<Rightarrow> False))"

definition provider_authority :: "s8_env \<Rightarrow> s1_state \<Rightarrow> string \<Rightarrow> js" where
  "provider_authority env s i = (let p = mget (s1_providers s) i in JObj [(''id'', JStr i),
     (''status'', JStr (case p of Some x \<Rightarrow> if provider_current (de_app env) x then ''current'' else ''stale'' | None \<Rightarrow> ''stale'')),
     (''snapshotDigest'', js_opt (map_option ps_snapshotDigest p))])"

definition localAuthorityForRequest :: "s8_env \<Rightarrow> 'a delegation_request_scheme \<Rightarrow> s8_state \<Rightarrow> local_authority" where
  "localAuthorityForRequest env r s8 =
    (let s = s2_s1 (s8_s2 s8); w = dr_destinationWorkspaceId r;
         inst = request_installation env s r;
         grant = Option.bind inst (request_grant env s r);
         provider = Option.bind inst (\<lambda>i. Option.bind (mget (s1_versions s) (version_of i)) (\<lambda>v.
           case cv_providerContractIds v of p # _ \<Rightarrow> if p = [] then None else Some p | [] \<Rightarrow> None))
     in \<lparr>la_installation = inst, la_grant = grant,
         la_agent = Option.bind grant (\<lambda>g. mget (s1_agents s) (gr_agentId g)), la_providerId = provider,
         la_providerAuthority = (case provider of Some p \<Rightarrow> provider_authority env s p | None \<Rightarrow> JNull),
         la_resourceState = JObj [(''status'', JStr ''current''), (''lockDigest'', JStr (digest (ae_sha (de_app env))
           (JArr (map lock_js (filter (\<lambda>l. lk_workspaceId l = w) (mvalues (co_locks (s1_coord s))))))))],
         la_schedulingState = JObj [(''status'', JStr ''current''), (''policyId'', de_policyId env w)]\<rparr>)"

definition installation_js :: "installation option \<Rightarrow> js" where
  "installation_js x = (case x of None \<Rightarrow> JNull | Some i \<Rightarrow> JObj [(''id'', JStr (in_id i)), (''workspaceId'', JStr (in_workspaceId i)),
     (''packageId'', JStr (in_packageId i)), (''version'', JStr (in_version i)), (''integrityDigest'', JStr (in_integrityDigest i)),
     (''status'', JStr (in_status i)), (''installedAt'', JStr (in_installedAt i)), (''capabilityVersionId'', JStr (version_of i))])"

definition local_grant_js :: "grant option \<Rightarrow> js" where
  "local_grant_js x = (case x of None \<Rightarrow> JNull | Some g \<Rightarrow> JObj [(''id'', JStr (gr_id g)), (''workspaceId'', JStr (gr_workspaceId g)),
     (''agentId'', JStr (gr_agentId g)), (''installationId'', JStr (gr_installationId g)), (''allowedActions'', js_strs (gr_allowedActions g)),
     (''allowedTargets'', js_strs (gr_allowedTargets g)), (''status'', JStr (gr_status g)), (''grantedAt'', JStr (gr_grantedAt g))])"

definition pendingCount :: "s8_state \<Rightarrow> string \<Rightarrow> nat" where
  "pendingCount s w = length (filter (\<lambda>p. ip_workspaceId p = w \<and> ip_state p \<in> {''received'', ''inadmissible'', ''waiting_human''})
     (mvalues (s8_proposals s)))"

definition acceptedNotStartedCount :: "s8_state \<Rightarrow> string \<Rightarrow> nat" where
  "acceptedNotStartedCount s w = length (filter (\<lambda>b. db_workspaceId b = w \<and> (db_localExecutionRunId b = None \<or> db_localExecutionRunId b = Some []))
     (mvalues (s8_bindings s)))"

definition current_input :: "s8_env \<Rightarrow> 'a incoming_proposal_scheme \<Rightarrow> 'b delegation_request_scheme \<Rightarrow> s8_state \<Rightarrow> admission_input" where
  "current_input env p r s = (let a = localAuthorityForRequest env r s; w = dr_destinationWorkspaceId r in
     \<lparr>ai_id = JStr (bounded_id (ae_sha (de_app env)) ''delegation-admission'' [JStr (ip_id p), JStr (ae_clock (de_app env))]),
      ai_proposalId = JStr (ip_id p), ai_request = delegation_request.truncate r,
      ai_peerBinding = map_option peer_binding.truncate (mget (s8_peers s) (dr_peerBindingId r)),
      ai_policy = map_option delegation_policy.truncate (mget (s8_policies s) (dr_policyId r)),
      ai_localInstallation = installation_js (la_installation a), ai_localGrant = local_grant_js (la_grant a),
      ai_providerRequired = (la_providerId a \<noteq> None), ai_providerAuthority = la_providerAuthority a,
      ai_resourceState = la_resourceState a, ai_schedulingState = la_schedulingState a,
      ai_pendingCount = int (pendingCount s w), ai_acceptedNotStartedCount = int (acceptedNotStartedCount s w),
      ai_observedAt = JStr (ae_clock (de_app env))\<rparr>)"

definition currentAdmission :: "s8_env \<Rightarrow> 'a incoming_proposal_scheme \<Rightarrow> 'b delegation_request_scheme \<Rightarrow> s8_state \<Rightarrow> delegation_admission res" where
  "currentAdmission env p r s =
     evaluateDelegationAdmission (ae_sha (de_app env)) (ae_legacy (de_app env)) (ae_clock (de_app env)) (current_input env p r s)"

subsection \<open>The inbox of the destination\<close>

definition recordDelegationDivergence :: "s8_env \<Rightarrow> string \<Rightarrow> js \<Rightarrow> string \<Rightarrow> string \<Rightarrow> js \<Rightarrow> (s8_state, unit) act" where
  "recordDelegationDivergence env w requestId st reason observed =
    (let i = bounded_id (ae_sha (de_app env)) ''delegation-divergence''
           [JStr w, or_js requestId (JStr ''unknown''), JStr reason, or_js observed (JStr ''none'')] in
     modifyS (\<lambda>s. if mget (s8_divergences s) i \<noteq> None then s else s\<lparr>s8_divergences := mset_at i
       \<lparr>xv_id = i, xv_workspaceId = w, xv_requestId = or_js requestId JNull, xv_state = st, xv_reasonCode = reason,
        xv_observedDigest = observed, xv_observedAt = ae_clock (de_app env)\<rparr> (s8_divergences s)\<rparr>))"

definition gate_preview :: "'a delegation_request_scheme \<Rightarrow> delegation_admission \<Rightarrow> js" where
  "gate_preview r a = JObj [(''sourceInstanceId'', JStr (dr_sourceInstanceId r)), (''sourceWorkspaceId'', JStr (dr_sourceWorkspaceId r)),
     (''destinationWorkspaceId'', JStr (dr_destinationWorkspaceId r)), (''policyId'', JStr (dr_policyId r)),
     (''policyVersion'', JStr (dr_policyVersion r)), (''capabilityVersionId'', JStr (dr_capabilityVersionId r)),
     (''action'', JStr (dr_action r)), (''target'', JStr (dr_target r)), (''payloadClass'', JStr (dr_payloadClass r)),
     (''payloadDigest'', JStr (dr_payloadDigest r)), (''admissionSnapshotId'', JStr (da_id a))]"

definition delegation_gate_id :: "s8_env \<Rightarrow> 'a incoming_proposal_scheme \<Rightarrow> string" where
  "delegation_gate_id env p = bounded_id (ae_sha (de_app env)) ''delegation-gate'' [JStr (ip_id p)]"

definition requestDelegationGate :: "s8_env \<Rightarrow> 'a incoming_proposal_scheme \<Rightarrow> 'b delegation_request_scheme \<Rightarrow> delegation_admission
    \<Rightarrow> (s8_state, destination_gate) act" where
  "requestDelegationGate env p r a =
    bindS (readS (\<lambda>s. mget (s8_gates s) (delegation_gate_id env p))) (\<lambda>existing. case existing of
        Some g \<Rightarrow> returnS g
      | None \<Rightarrow>
          let g = \<lparr>xg_id = delegation_gate_id env p, xg_workspaceId = ip_workspaceId p, xg_proposalId = ip_id p,
                xg_delegationRequestId = dr_id r, xg_admissionSnapshotId = da_id a, xg_state = ''requested'',
                xg_capabilityAction = dr_action r, xg_target = dr_target r, xg_payloadPreview = gate_preview r a,
                xg_requestedAt = ae_clock (de_app env), xg_decidedAt = None\<rparr> in
          bindS (modifyS (\<lambda>s. s\<lparr>s8_gates := mset_at (xg_id g) g (s8_gates s)\<rparr>)) (\<lambda>_.
          bindS (appendS8Event \<lparr>ap_workspaceId = ip_workspaceId p, ap_type = ''delegation.human_gate_requested'',
            ap_aggregateType = ''delegationHumanGate'', ap_aggregateId = xg_id g,
            ap_idempotencyKey = ''delegation.human_gate_requested:'' @ xg_id g,
            ap_payload = JObj [(''proposalId'', JStr (ip_id p)), (''delegationRequestId'', JStr (dr_id r)),
              (''admissionSnapshotId'', JStr (da_id a)), (''actionClass'', JStr ''DELEGATION_ADMISSION'')]\<rparr>) (\<lambda>_.
          returnS g)))"

definition put_proposal :: "known_proposal \<Rightarrow> (s8_state, unit) act" where
  "put_proposal p = modifyS (\<lambda>s. s\<lparr>s8_proposals := mset_at (ip_id p) p (s8_proposals s)\<rparr>)"

definition with_gate :: "incoming_proposal \<Rightarrow> string option \<Rightarrow> known_proposal" where
  "with_gate p g = incoming_proposal.extend p \<lparr>kd_humanGateId = g\<rparr>"

text \<open>The proposal of a request that is new here, before it is evaluated.\<close>

definition open_proposal :: "s8_env \<Rightarrow> string \<Rightarrow> delegation_request \<Rightarrow> (s8_state, known_proposal) act" where
  "open_proposal env w r =
    (let app = de_app env; i = bounded_id (ae_sha app) ''delegation-proposal'' [JStr (dr_id r)] in
     bindS (readS (\<lambda>s. mget (s8_proposals s) i)) (\<lambda>existing. case existing of
         Some p \<Rightarrow> returnS p
       | None \<Rightarrow>
           bindS (liftS (createIncomingDelegationProposal (ae_legacy app) (ae_clock app) (JObj [(''id'', JStr i),
             (''delegationRequestId'', JStr (dr_id r)), (''peerBindingId'', JStr (dr_peerBindingId r)), (''policyId'', JStr (dr_policyId r)),
             (''workspaceId'', JStr w), (''state'', JStr ''received''), (''receivedAt'', JStr (ae_clock app))]))) (\<lambda>p.
           bindS (put_proposal (with_gate p None)) (\<lambda>_. returnS (with_gate p None)))))"

definition admit_proposal :: "s8_env \<Rightarrow> known_proposal \<Rightarrow> known_request \<Rightarrow> (s8_state, known_proposal \<times> delegation_admission) act" where
  "admit_proposal env p r =
    (let app = de_app env in
     bindS (readS (currentAdmission env p r)) (\<lambda>evaluated.
     bindS (liftS evaluated) (\<lambda>a.
     bindS (modifyS (\<lambda>s. s\<lparr>s8_admissions := mset_at (da_id a) a (s8_admissions s)\<rparr>)) (\<lambda>_.
     bindS (liftS (applyAdmissionToProposal (ae_legacy app) (ae_clock app) (Some p) a (JStr (ae_clock app)))) (\<lambda>moved.
     if da_admissible a
     then bindS (requestDelegationGate env moved r a) (\<lambda>g.
       bindS (put_proposal (with_gate moved (Some (xg_id g)))) (\<lambda>_. returnS (with_gate moved (Some (xg_id g)), a)))
     else bindS (put_proposal (with_gate moved None)) (\<lambda>_. returnS (with_gate moved None, a)))))))"

datatype inbox_outcome = Refused | Answered string string | Taken known_request known_proposal delegation_admission

definition inbox_verdict :: "string \<Rightarrow> delegation_request \<Rightarrow> s8_state \<Rightarrow> request_verdict res" where
  "inbox_verdict w r s =
    (let prior = (case rev (filter (\<lambda>x. dr_id x \<noteq> dr_id r) (peer_requests ''inbound'' (dr_peerBindingId r) s)) of [] \<Rightarrow> None | x # _ \<Rightarrow> Some x) in
     case mget (s8_peers s) (dr_peerBindingId r) of
       None \<Rightarrow> Inr (request_verdict_of ''rejected'' ''peer_binding_missing'')
     | Some peer \<Rightarrow> classifyDelegationRequestAppend (peer_binding.truncate peer)
         (case prior of Some x \<Rightarrow> dr_requestSequence x | None \<Rightarrow> 0) (map_option dr_requestDigest prior)
         (map_option delegation_request.truncate (mget (s8_requests s) (dr_id r))) r)"

text \<open>A row of the inbox whose request is well formed and carries its own digest.\<close>

definition take_request :: "s8_env \<Rightarrow> string \<Rightarrow> delegation_request \<Rightarrow> (s8_state, inbox_outcome) act" where
  "take_request env w r =
    bindS (readS (inbox_verdict w r)) (\<lambda>verdict.
    bindS (liftS verdict) (\<lambda>v.
    if rv_state v = ''duplicate'' then returnS (Answered ''duplicate'' ''exact_duplicate'')
    else if rv_state v \<noteq> ''accepted''
    then bindS (recordDelegationDivergence env w (JStr (dr_id r)) (rv_state v) (rv_reasonCode v) (JStr (dr_requestDigest r))) (\<lambda>_.
      returnS (Answered (if rv_state v = ''divergent'' then ''divergent'' else ''rejected'') (rv_reasonCode v)))
    else
      let stored = delegation_request.extend r \<lparr>kr_workspaceId = w, kr_direction = ''inbound'', kr_transportState = ''received''\<rparr> in
      bindS (modifyS (\<lambda>s. s\<lparr>s8_requests := mset_at (dr_id r) stored (s8_requests s)\<rparr>)) (\<lambda>_.
      bindS (open_proposal env w r) (\<lambda>p.
      bindS (admit_proposal env p stored) (\<lambda>(q, a).
      returnS (Taken stored q a))))))"

definition receive_row :: "s8_env \<Rightarrow> string \<Rightarrow> js \<Rightarrow> (s8_state, inbox_outcome) act" where
  "receive_row env w raw =
    (let app = de_app env;
         refuse = (\<lambda>reason. bindS (recordDelegationDivergence env w (or_js (field raw ''id'') JNull) ''rejected'' reason
           (or_js (field raw ''requestDigest'') JNull)) (\<lambda>_. returnS Refused)) in
     case createDelegationRequest (ae_sha app) (ae_legacy app) (ae_clock app) raw of
       Inl _ \<Rightarrow> refuse ''payload_schema_rejected''
     | Inr r \<Rightarrow> if field raw ''requestDigest'' \<noteq> JStr (dr_requestDigest r) then refuse ''request_digest_conflict''
                else take_request env w r)"

text \<open>After the acknowledgement of a row that was taken.\<close>

definition received_event :: "string \<Rightarrow> known_request \<Rightarrow> known_proposal \<Rightarrow> delegation_admission \<Rightarrow> app_event" where
  "received_event w r p a = \<lparr>ap_workspaceId = w, ap_type = ''delegation.request_received'', ap_aggregateType = ''delegationProposal'',
     ap_aggregateId = ip_id p, ap_idempotencyKey = ''delegation.request_received:'' @ dr_id r @ '':'' @ dr_requestDigest r,
     ap_payload = JObj [(''requestId'', JStr (dr_id r)), (''proposalId'', JStr (ip_id p)), (''admissible'', JBool (da_admissible a)),
       (''reasonCodes'', js_strs (da_reasonCodes a))]\<rparr>"

text \<open>A row of the cancellation inbox.\<close>

definition receive_cancellation :: "s8_env \<Rightarrow> string \<Rightarrow> js \<Rightarrow> (s8_state, unit) act" where
  "receive_cancellation env w raw =
    bindS (liftS (fieldE raw ''id'')) (\<lambda>i.
    bindS (readS (\<lambda>s. (get_js (s8_cancellations s) i, get_js (s8_requests s) (field raw ''delegationRequestId'')))) (\<lambda>(existing, request).
    if existing \<noteq> None then returnS ()
    else case request of None \<Rightarrow> returnS ()
      | Some r \<Rightarrow>
          if kr_workspaceId r \<noteq> w \<or> kr_direction r \<noteq> ''inbound'' then returnS ()
          else bindS (liftS (safeClone raw ''$'' 0)) (\<lambda>clone.
            case i of
              JStr k \<Rightarrow> if k = [] then throwS (TypeError ''delegationCancellation record id is required'')
                else modifyS (\<lambda>s. s\<lparr>s8_cancellations := mset_at k (with_fields clone [(''workspaceId'', JStr w),
                  (''direction'', JStr ''inbound''), (''state'', JStr ''pending_local_decision'')]) (s8_cancellations s)\<rparr>)
            | _ \<Rightarrow> throwS (TypeError ''delegationCancellation record id is required''))))"

end
