(* ===== verification/DelegationDecision.thy ===== *)
theory DelegationDecision
  imports DelegationService
begin

text \<open>
  The S8 delegation service, second part: the decision of the destination's human on a
  proposal, the local mission an accepted request becomes, the binding between them, and the
  cancellation the source proposes (\<open>src/application/s8-index.cjs\<close>, with
  \<open>s8-destination-authority-service.cjs\<close>, whose methods the product service installs).
\<close>

subsection \<open>The local mission of a request\<close>

definition mission_input :: "s8_env \<Rightarrow> known_proposal \<Rightarrow> known_request \<Rightarrow> js" where
  "mission_input env p r = JObj [(''id'', JStr (bounded_id (ae_sha (de_app env)) ''delegated-mission'' [JStr (dr_id r)])),
     (''workspaceId'', JStr (ip_workspaceId p)), (''title'', JStr (''Delegated request '' @ dr_id r)),
     (''objective'', JStr (''Execute bounded delegated '' @ dr_action r))]"

definition delegated_step_id :: "s8_env \<Rightarrow> known_request \<Rightarrow> string" where
  "delegated_step_id env r = bounded_id (ae_sha (de_app env)) ''delegated-step'' [JStr (dr_id r)]"

text \<open>The one step of the plan: the capability, action and target of the request, behind a gate.\<close>

definition delegated_step :: "s8_env \<Rightarrow> known_request \<Rightarrow> installation \<Rightarrow> agent \<Rightarrow> js" where
  "delegated_step env r i a = JObj [(''id'', JStr (delegated_step_id env r)), (''name'', JStr (''Delegated '' @ dr_action r)),
     (''agentId'', JStr (ag_id a)), (''installationId'', JStr (in_id i)), (''capabilityVersionId'', JStr (dr_capabilityVersionId r)),
     (''action'', JStr (dr_action r)), (''target'', JStr (dr_target r)), (''dependsOn'', JArr []), (''declaredInputs'', JArr []),
     (''declaredOutputs'', js_strs [''delegation-result'']), (''evidenceRequirements'', js_strs [''local result text'', ''submission count'']),
     (''humanGatePolicy'', JStr ''action''), (''resourceRequirements'', JArr []), (''priority'', JStr ''normal''),
     (''payload'', JStr (json (dr_payload r)))]"

definition revision_input :: "s8_env \<Rightarrow> known_proposal \<Rightarrow> known_request \<Rightarrow> installation \<Rightarrow> agent \<Rightarrow> string \<Rightarrow> js" where
  "revision_input env p r i a missionId = JObj [(''id'', JStr (bounded_id (ae_sha (de_app env)) ''delegated-revision'' [JStr (dr_id r)])),
     (''workspaceId'', JStr (ip_workspaceId p)), (''missionId'', JStr missionId), (''revision'', JNum 1),
     (''objective'', JStr (''Destination-local execution for '' @ dr_id r)), (''terminalStepIds'', js_strs [delegated_step_id env r]),
     (''steps'', JArr [delegated_step env r i a])]"

definition revision_id :: "s2_revision \<Rightarrow> string" where
  "revision_id v = (case v of Draft d \<Rightarrow> dv_id d | Planned b _ _ \<Rightarrow> mr_id b)"

text \<open>\<open>createMission\<close>, \<open>createRevision\<close>, \<open>startMission\<close>; the result is the mission and the attempt of the step.\<close>

definition launch :: "s8_env \<Rightarrow> known_proposal \<Rightarrow> known_request \<Rightarrow> installation \<Rightarrow> agent \<Rightarrow> (s2_state, string \<times> s2_attempt option) act" where
  "launch env p r i a =
    bindS (s2_createMission (de_app env) (mission_input env p r)) (\<lambda>(m, _).
    let missionId = mi_id (ms_mission m) in
    bindS (s2_createRevision (de_app env) (revision_input env p r i a missionId)) (\<lambda>(_, revision, _).
    bindS (de_start env (JObj [(''workspaceId'', JStr (ip_workspaceId p)), (''missionId'', JStr missionId),
        (''revisionId'', JStr (revision_id revision)),
        (''runId'', JStr (bounded_id (ae_sha (de_app env)) ''delegated-mission-run'' [JStr (dr_id r)]))])) (\<lambda>run.
    readS (\<lambda>s. (missionId, find (\<lambda>x. at_missionRunId (sa_attempt x) = run_id run \<and>
        at_stepId (sa_attempt x) = delegated_step_id env r) (mvalues (s2_attempts s)))))))"

definition binding_of_request :: "s8_state \<Rightarrow> string \<Rightarrow> execution_binding option" where
  "binding_of_request s i = find (\<lambda>b. db_delegationRequestId b = i) (mvalues (s8_bindings s))"

definition binding_input :: "s8_env \<Rightarrow> known_request \<Rightarrow> string \<Rightarrow> s2_attempt option \<Rightarrow> js" where
  "binding_input env r missionId attempt = JObj [(''id'', JStr (bounded_id (ae_sha (de_app env)) ''delegated-binding'' [JStr (dr_id r)])),
     (''localIdentity'', JObj [(''localMissionId'', JStr missionId), (''localPlanStepId'', JStr (delegated_step_id env r)),
        (''localStepAttemptId'', js_opt (map_option (\<lambda>x. at_id (sa_attempt x)) attempt)),
        (''localExecutionRunId'', js_opt (Option.bind attempt (\<lambda>x. at_executionRunId (sa_attempt x))))]),
     (''createdAt'', JStr (ae_clock (de_app env)))]"

definition createLocalDelegatedMission :: "s8_env \<Rightarrow> known_proposal \<Rightarrow> known_request \<Rightarrow> delegation_admission \<Rightarrow> delegation_acceptance
    \<Rightarrow> (s8_state, execution_binding) act" where
  "createLocalDelegatedMission env p r admission acceptance =
    bindS (readS (\<lambda>s. (binding_of_request s (dr_id r), localAuthorityForRequest env r s))) (\<lambda>(existing, authority).
    case existing of Some b \<Rightarrow> returnS b
    | None \<Rightarrow>
        (case (la_installation authority, la_grant authority, la_agent authority) of
           (Some i, Some _, Some a) \<Rightarrow>
             bindS (in_s2 (launch env p r i a)) (\<lambda>(missionId, attempt).
             bindS (liftS (createDelegatedExecutionBinding (ae_legacy (de_app env)) (ae_clock (de_app env)) None (Some p) (Some acceptance)
                 (Some admission) (binding_input env r missionId attempt))) (\<lambda>b.
             bindS (modifyS (\<lambda>s. s\<lparr>s8_bindings := mset_at (db_id b) b (s8_bindings s)\<rparr>)) (\<lambda>_.
             returnS b)))
         | _ \<Rightarrow> throwS (Error ''local_authority_missing_before_binding'')))"

subsection \<open>The decision\<close>

definition decideDelegationGate :: "s8_env \<Rightarrow> destination_gate option \<Rightarrow> string \<Rightarrow> (s8_state, destination_gate) act" where
  "decideDelegationGate env gate st = (case gate of
      None \<Rightarrow> throwS (Error ''destination delegation HumanGate is not pending'')
    | Some g \<Rightarrow>
        if xg_state g \<noteq> ''requested'' then throwS (Error ''destination delegation HumanGate is not pending'')
        else if st \<notin> {''approved'', ''rejected''} then throwS (Error ''invalid destination delegation gate decision'')
        else let g' = g\<lparr>xg_state := st, xg_decidedAt := Some (ae_clock (de_app env))\<rparr> in
          bindS (modifyS (\<lambda>s. s\<lparr>s8_gates := mset_at (xg_id g) g' (s8_gates s)\<rparr>)) (\<lambda>_. returnS g'))"

definition gate_of_proposal :: "known_proposal \<Rightarrow> s8_state \<Rightarrow> destination_gate option" where
  "gate_of_proposal p s = Option.bind (kd_humanGateId p) (mget (s8_gates s))"

definition restate :: "s8_env \<Rightarrow> string \<Rightarrow> string \<Rightarrow> known_proposal \<Rightarrow> known_proposal" where
  "restate env st reason p = p\<lparr>ip_state := st, ip_reasonCode := Some reason, ip_updatedAt := ae_clock (de_app env)\<rparr>"

text \<open>An admission that no longer holds expires the gate and closes the proposal; then the call throws.\<close>

definition stale_admission :: "s8_env \<Rightarrow> known_proposal \<Rightarrow> delegation_admission \<Rightarrow> (s8_state, 'a) act" where
  "stale_admission env p a =
    (let reason = (case da_reasonCodes a of c # _ \<Rightarrow> if c = [] then None else Some c | [] \<Rightarrow> None) in
     bindS (readS (gate_of_proposal p)) (\<lambda>gate.
     bindS (modifyS (\<lambda>s. case gate of
         Some g \<Rightarrow> if xg_state g = ''requested''
           then s\<lparr>s8_gates := mset_at (xg_id g) (g\<lparr>xg_state := ''expired'', xg_decidedAt := Some (ae_clock (de_app env))\<rparr>) (s8_gates s)\<rparr> else s
       | None \<Rightarrow> s)) (\<lambda>_.
     bindS (put_proposal (restate env ''inadmissible'' (case reason of Some c \<Rightarrow> c | None \<Rightarrow> ''inadmissible'') p)) (\<lambda>_.
     throwS (Error (case reason of Some c \<Rightarrow> c | None \<Rightarrow> ''delegation_admission_stale''))))))"

definition decision_input :: "s8_env \<Rightarrow> string \<Rightarrow> known_proposal \<Rightarrow> destination_gate \<Rightarrow> string \<Rightarrow> js" where
  "decision_input env prefix p g st = JObj [(''id'', JStr (bounded_id (ae_sha (de_app env)) prefix [JStr (ip_id p)])),
     (''humanGateId'', JStr (xg_id g)), (''state'', JStr st), (''decidedAt'', JStr (ae_clock (de_app env)))]"

definition store_acceptance :: "s8_env \<Rightarrow> string \<Rightarrow> known_proposal \<Rightarrow> delegation_admission \<Rightarrow> destination_gate \<Rightarrow> string
    \<Rightarrow> (s8_state, delegation_acceptance) act" where
  "store_acceptance env prefix p a g st =
    bindS (liftS (createDelegationAcceptance (ae_legacy (de_app env)) (ae_clock (de_app env)) (Some p) (Some a)
      (decision_input env prefix p g st))) (\<lambda>x.
    bindS (modifyS (\<lambda>s. s\<lparr>s8_acceptances := mset_at (xa_id x) x (s8_acceptances s)\<rparr>)) (\<lambda>_. returnS x))"

definition bound_event :: "string \<Rightarrow> known_proposal \<Rightarrow> known_request \<Rightarrow> execution_binding \<Rightarrow> app_event" where
  "bound_event w p r b = \<lparr>ap_workspaceId = w, ap_type = ''delegation.execution_bound'', ap_aggregateType = ''delegatedExecutionBinding'',
     ap_aggregateId = db_id b, ap_idempotencyKey = ''delegation.execution_bound:'' @ db_id b,
     ap_payload = JObj [(''proposalId'', JStr (ip_id p)), (''requestId'', JStr (dr_id r)), (''bindingId'', JStr (db_id b)),
       (''localMissionId'', js_opt (db_localMissionId b)), (''localStepAttemptId'', js_opt (db_localStepAttemptId b))]\<rparr>"

definition bind_proposal :: "s8_env \<Rightarrow> string \<Rightarrow> known_proposal \<Rightarrow> known_request \<Rightarrow> delegation_admission \<Rightarrow> (s8_state, execution_binding) act" where
  "bind_proposal env w p r a =
    bindS (readS (gate_of_proposal p)) (\<lambda>gate.
    bindS (decideDelegationGate env gate ''approved'') (\<lambda>g.
    bindS (store_acceptance env ''delegation-acceptance'' p a g ''accepted'') (\<lambda>x.
    bindS (createLocalDelegatedMission env p r a x) (\<lambda>b.
    bindS (put_proposal (restate env ''bound'' ''destination_local_execution_bound'' p)) (\<lambda>_.
    bindS (appendS8Event (bound_event w p r b)) (\<lambda>_.
    returnS b))))))"

definition proposal_in :: "string \<Rightarrow> js \<Rightarrow> s8_state \<Rightarrow> known_proposal res" where
  "proposal_in w i s = (case get_js (s8_proposals s) i of
      None \<Rightarrow> Inl (Error ''delegation_proposal_not_found'')
    | Some p \<Rightarrow> if ip_workspaceId p \<noteq> w then Inl (Error ''delegation_proposal_not_found'') else Inr p)"

definition approveDelegationProposal :: "s8_env \<Rightarrow> js \<Rightarrow> (s8_state, execution_binding) act" where
  "approveDelegationProposal env input =
    (let w = workspace_of input in
     bindS (requireS7Workspace w) (\<lambda>_.
     bindS (readS (proposal_in w (field input ''proposalId''))) (\<lambda>found.
     bindS (liftS found) (\<lambda>p.
     bindS (readS (\<lambda>s. find (\<lambda>b. db_proposalId b = ip_id p) (mvalues (s8_bindings s)))) (\<lambda>existing. case existing of
         Some b \<Rightarrow> returnS b
       | None \<Rightarrow>
         if ip_state p \<noteq> ''waiting_human'' then throwS (Error ''delegation proposal is not waiting_human'')
         else bindS (readS (\<lambda>s. mget (s8_requests s) (ip_delegationRequestId p))) (\<lambda>request. case request of
             None \<Rightarrow> throwS (TypeError ''Cannot read properties of null: peerBindingId'')
           | Some r \<Rightarrow>
             bindS (readS (currentAdmission env p r)) (\<lambda>evaluated.
             bindS (liftS evaluated) (\<lambda>a.
             bindS (modifyS (\<lambda>s. s\<lparr>s8_admissions := mset_at (da_id a) a (s8_admissions s)\<rparr>)) (\<lambda>_.
             if \<not> da_admissible a then stale_admission env p a else bind_proposal env w p r a)))))))))"

definition latestAdmissionForProposal :: "s8_env \<Rightarrow> string \<Rightarrow> s8_state \<Rightarrow> delegation_admission option" where
  "latestAdmissionForProposal env i s = (case sort_by (\<lambda>a b. ae_lc (de_app env) (da_observedAt b) (da_observedAt a))
       (filter (\<lambda>a. da_proposalId a = i) (mvalues (s8_admissions s))) of [] \<Rightarrow> None | a # _ \<Rightarrow> Some a)"

definition rejectDelegationProposal :: "s8_env \<Rightarrow> js \<Rightarrow> (s8_state, delegation_acceptance) act" where
  "rejectDelegationProposal env input =
    (let w = workspace_of input in
     bindS (requireS7Workspace w) (\<lambda>_.
     bindS (readS (proposal_in w (field input ''proposalId''))) (\<lambda>found.
     bindS (liftS found) (\<lambda>p.
     if ip_state p \<noteq> ''waiting_human'' then throwS (Error ''delegation proposal is not waiting_human'')
     else bindS (readS (latestAdmissionForProposal env (ip_id p))) (\<lambda>latest. case latest of
         None \<Rightarrow> throwS (Error ''current admissible snapshot is required'')
       | Some a \<Rightarrow>
         if \<not> da_admissible a then throwS (Error ''current admissible snapshot is required'')
         else bindS (readS (gate_of_proposal p)) (\<lambda>gate.
           bindS (decideDelegationGate env gate ''rejected'') (\<lambda>g.
           bindS (store_acceptance env ''delegation-rejection'' p a g ''rejected'') (\<lambda>x.
           bindS (put_proposal (restate env ''rejected'' ''human_gate_rejected'' p)) (\<lambda>_.
           returnS x)))))))))"

subsection \<open>Cancellation\<close>

definition save_cancellation :: "js \<Rightarrow> (s8_state, unit) act" where
  "save_cancellation c = (case field c ''id'' of
      JStr k \<Rightarrow> if k = [] then throwS (TypeError ''delegationCancellation record id is required'')
        else modifyS (\<lambda>s. s\<lparr>s8_cancellations := mset_at k c (s8_cancellations s)\<rparr>)
    | _ \<Rightarrow> throwS (TypeError ''delegationCancellation record id is required''))"

text \<open>\<open>proposeDelegationCancellation\<close> up to its \<open>await\<close>, and after it.\<close>

definition cancellation_js :: "cancellation_proposal \<Rightarrow> js" where
  "cancellation_js c = JObj [(''id'', JStr (cx_id c)), (''delegationRequestId'', JStr (cx_delegationRequestId c)),
     (''reasonClass'', JStr (cx_reasonClass c)), (''createdAt'', JStr (cx_createdAt c))]"

definition propose_begin :: "s8_env \<Rightarrow> js \<Rightarrow> (s8_state, js) act" where
  "propose_begin env input =
    (let app = de_app env; w = workspace_of input in
     bindS (readS (\<lambda>s. get_js (s8_requests s) (field input ''requestId''))) (\<lambda>found. case found of
         None \<Rightarrow> throwS (Error ''delegation_request_not_found'')
       | Some r \<Rightarrow>
         if kr_workspaceId r \<noteq> w \<or> kr_direction r \<noteq> ''outbound'' then throwS (Error ''delegation_request_not_found'')
         else bindS (liftS (createDelegationCancellationProposal (ae_legacy app) (ae_clock app) (JObj
             [(''id'', or_js (field input ''id'') (JStr (bounded_id (ae_sha app) ''delegation-cancel'' [JStr (dr_id r)]))),
              (''delegationRequestId'', JStr (dr_id r)), (''reasonClass'', or_js (field input ''reasonClass'') (JStr ''source_withdrawal'')),
              (''createdAt'', JStr (ae_clock app))]))) (\<lambda>c.
           bindS (readS (\<lambda>s. mget (s8_cancellations s) (cx_id c))) (\<lambda>existing.
           let stored = (case existing of Some e \<Rightarrow> e | None \<Rightarrow> with_fields (cancellation_js c)
                 [(''workspaceId'', JStr w), (''direction'', JStr ''outbound''), (''state'', JStr ''pending_transport'')]) in
           bindS (if existing = None then save_cancellation stored else returnS ()) (\<lambda>_.
           if \<not> de_transport env then throwS (Error ''delegation_endpoint_unavailable'') else returnS stored)))))"

definition propose_finish :: "js \<Rightarrow> (s8_state, unit) act" where
  "propose_finish stored = save_cancellation (with_fields stored [(''state'', JStr ''submitted'')])"

definition resolve_event :: "js \<Rightarrow> string \<Rightarrow> string \<Rightarrow> (s8_state, js) act" where
  "resolve_event c st reason =
    (let c' = with_fields c [(''state'', JStr st), (''reasonCode'', JStr reason)] in bindS (save_cancellation c') (\<lambda>_. returnS c'))"

definition resolveDelegationCancellation :: "s8_env \<Rightarrow> js \<Rightarrow> (s8_state, js) act" where
  "resolveDelegationCancellation env input =
    (let app = de_app env; w = workspace_of input in
     bindS (readS (\<lambda>s. get_js (s8_cancellations s) (field input ''cancellationId''))) (\<lambda>found. case found of
         None \<Rightarrow> throwS (Error ''delegation_cancellation_not_found'')
       | Some c \<Rightarrow>
         if field c ''workspaceId'' \<noteq> JStr w \<or> field c ''direction'' \<noteq> JStr ''inbound''
         then throwS (Error ''delegation_cancellation_not_found'')
         else if field c ''state'' \<noteq> JStr ''pending_local_decision'' then returnS c
         else bindS (readS (\<lambda>s. find (\<lambda>p. JStr (ip_delegationRequestId p) = field c ''delegationRequestId'' \<and> ip_workspaceId p = w)
               (mvalues (s8_proposals s)))) (\<lambda>proposal. case proposal of
             None \<Rightarrow> throwS (Error ''delegation_proposal_not_found'')
           | Some p \<Rightarrow>
             if field input ''acceptedLocally'' = JBool True
             then bindS (readS (\<lambda>s. binding_of_request s (ip_delegationRequestId p))) (\<lambda>bound.
               bindS (liftS (applyCancellationProposal (ae_legacy app) (ae_clock app) (Some p) bound True (JStr (ae_clock app)))) (\<lambda>result.
               bindS (case cr_proposal result of Inr q \<Rightarrow> put_proposal (with_gate q None) | Inl _ \<Rightarrow> returnS ()) (\<lambda>_.
               resolve_event c (if cr_reasonCode result = ''post_start_remote_cancel_non_authoritative''
                 then ''non_authoritative_after_start'' else ''accepted_locally'') (cr_reasonCode result))))
             else resolve_event c ''rejected_locally'' ''destination_rejected_cancellation_proposal'')))"

subsection \<open>The receipt of a binding\<close>

definition receiptState :: "exec_run \<Rightarrow> string" where
  "receiptState run =
    (if xr_state run = ''result_observed'' \<or> xr_state run = ''completed'' then ''completed''
     else if xr_state run = ''failed'' then ''failed''
     else if xr_state run = ''cancelled'' then ''cancelled''
     else if xr_recoveryReason run \<noteq> None \<and> xr_recoveryReason run \<noteq> Some [] then ''uncertain''
     else ''running'')"

definition receipt_base :: "delegation_receipt \<Rightarrow> js" where
  "receipt_base x = JObj [(''id'', JStr (xp_id x)), (''delegationRequestId'', JStr (xp_delegationRequestId x)),
     (''delegatedExecutionBindingId'', JStr (xp_delegatedExecutionBindingId x)), (''sourceInstanceId'', JStr (xp_sourceInstanceId x)),
     (''sourceWorkspaceId'', JStr (xp_sourceWorkspaceId x)), (''destinationInstanceId'', JStr (xp_destinationInstanceId x)),
     (''destinationWorkspaceId'', JStr (xp_destinationWorkspaceId x)), (''state'', JStr (xp_state x)),
     (''resultClass'', js_opt (xp_resultClass x)), (''resultSummary'', xp_resultSummary x),
     (''evidenceDigests'', js_strs (xp_evidenceDigests x)), (''receiptRevision'', JNum (xp_receiptRevision x)),
     (''observedAt'', JStr (xp_observedAt x))]"

definition evidence_digest :: "(string \<Rightarrow> string) \<Rightarrow> evidence \<Rightarrow> string" where
  "evidence_digest sha e = digest sha (JObj [(''id'', JStr (ev_id e)), (''type'', ev_type e), (''observedAt'', JStr (ev_observedAt e))])"

definition next_receipt_revision :: "s8_state \<Rightarrow> string \<Rightarrow> int" where
  "next_receipt_revision s i = (case rev (sort_key xp_receiptRevision (filter (\<lambda>x. xp_delegationRequestId x = i) (mvalues (s8_receipts s)))) of
      [] \<Rightarrow> 1 | x # _ \<Rightarrow> xp_receiptRevision x + 1)"

definition createDelegationReceipt :: "s8_env \<Rightarrow> execution_binding \<Rightarrow> s8_state \<Rightarrow> delegation_receipt option" where
  "createDelegationReceipt env b s =
    (let s1 = s2_s1 (s8_s2 s); sha = ae_sha (de_app env) in
     case (mget (s8_requests s) (db_delegationRequestId b),
           Option.bind (db_localExecutionRunId b) (\<lambda>i. mget (co_runs (s1_coord s1)) i)) of
       (Some r, Some run) \<Rightarrow>
         let revision = next_receipt_revision s (dr_id r);
             x = \<lparr>xp_id = bounded_id sha ''delegation-receipt'' [JStr (dr_id r), JNum revision], xp_delegationRequestId = dr_id r,
               xp_delegatedExecutionBindingId = db_id b, xp_sourceInstanceId = dr_sourceInstanceId r,
               xp_sourceWorkspaceId = dr_sourceWorkspaceId r, xp_destinationInstanceId = dr_destinationInstanceId r,
               xp_destinationWorkspaceId = dr_destinationWorkspaceId r, xp_state = receiptState run,
               xp_resultClass = (if xr_state run = ''result_observed'' then Some ''bounded-local-result-observed'' else None),
               xp_resultSummary = JObj [(''executionState'', JStr (xr_state run)), (''recoveryReason'', js_opt (xr_recoveryReason run))],
               xp_evidenceDigests = map (evidence_digest sha) (filter (\<lambda>e. ev_executionRunId e = Some (xr_id run)) (mvalues (s1_evidence s1))),
               xp_receiptRevision = revision, xp_observedAt = ae_clock (de_app env), xp_receiptDigest = [], xp_transportState = ''pending''\<rparr>
         in Some (x\<lparr>xp_receiptDigest := digest sha (receipt_base x)\<rparr>)
     | _ \<Rightarrow> None)"

text \<open>
  \<open>publishDelegationReceipt\<close> up to its \<open>await\<close>, and after it, whether the transport took the
  receipt or threw; \<open>transportReasonCode\<close> of the second case is left out.
\<close>

definition publish_begin :: "s8_env \<Rightarrow> execution_binding \<Rightarrow> (s8_state, delegation_receipt option) act" where
  "publish_begin env b =
    bindS (readS (createDelegationReceipt env b)) (\<lambda>candidate. case candidate of
        None \<Rightarrow> returnS None
      | Some x \<Rightarrow>
          bindS (readS (\<lambda>s. mget (s8_receipts s) (xp_id x))) (\<lambda>existing. case existing of
              Some e \<Rightarrow> returnS (Some e)
            | None \<Rightarrow> bindS (modifyS (\<lambda>s. s\<lparr>s8_receipts := mset_at (xp_id x) x (s8_receipts s)\<rparr>)) (\<lambda>_. returnS (Some x))))"

definition publish_finish :: "delegation_receipt \<Rightarrow> bool \<Rightarrow> (s8_state, unit) act" where
  "publish_finish x delivered = modifyS (\<lambda>s. s\<lparr>s8_receipts := mset_at (xp_id x)
     (x\<lparr>xp_transportState := (if delivered then ''submitted'' else ''pending'')\<rparr>) (s8_receipts s)\<rparr>)"

text \<open>The binding of the gate an approval was for: its receipt is published when the approval returns.\<close>

definition binding_of_gate :: "js \<Rightarrow> s8_state \<Rightarrow> execution_binding option" where
  "binding_of_gate gateId s = (case gate_get gateId (co_gates (s1_coord (s2_s1 (s8_s2 s)))) of None \<Rightarrow> None
     | Some g \<Rightarrow> find (\<lambda>b. db_localExecutionRunId b = Some (hg_executionRunId g)) (mvalues (s8_bindings s)))"

end
