(* ===== verification/DelegationSource.thy ===== *)
theory DelegationSource
  imports DelegationDecision
begin

text \<open>
  The S8 delegation service, third part: the source.  A step of a plan bound to a request
  before its mission starts, the attempt of such a step held back until a receipt is consumed,
  the receipts pulled from the exchange and their explicit consumption
  (\<open>src/application/s8-source-handoff-service.cjs\<close> over \<open>src/application/s8-index.cjs\<close>).
\<close>

subsection \<open>A step bound to a request\<close>

definition source_step :: "s8_env \<Rightarrow> js \<Rightarrow> s8_state \<Rightarrow> (mission \<times> mission_revision \<times> s2_plan \<times> s2_step) option res" where
  "source_step env input s8 =
    (let s = s8_s2 s8; w = workspace_of input; missionId = field input ''sourceMissionId''; stepId = field input ''sourcePlanStepId'' in
     if \<not> truthy missionId \<and> \<not> truthy stepId then Inr None
     else if \<not> truthy missionId \<or> \<not> truthy stepId then Inl (Error ''sourceMissionId and sourcePlanStepId must be provided together'')
     else bindE (requireRecord (s2_missions s) missionId ''Source Mission'') (\<lambda>sm.
       let m = ms_mission sm in
       if mi_workspaceId m \<noteq> w then Inl (Error ''Cross-Workspace source delegation denied'')
       else bindE (requireRecord (s2_revisions s) (mi_currentRevisionId m) ''Source Mission revision'') (\<lambda>revision. case revision of
           Draft d \<Rightarrow> Inl (Error ''source_mission_revision_not_ready'')
         | Planned base _ status \<Rightarrow>
           if mr_workspaceId base \<noteq> w \<or> status = ''draft'' then Inl (Error ''source_mission_revision_not_ready'')
           else bindE (requireRecord (s2_plans s) (JStr (mr_planId base)) ''Source ExecutionPlan'') (\<lambda>plan.
             case find (\<lambda>x. JStr (st_id (ss_step x)) = stepId) (sp_steps plan) of
               None \<Rightarrow> Inl (Error ''source_plan_step_not_current'')
             | Some step \<Rightarrow>
               if list_ex (\<lambda>r. run_missionId r = mi_id m \<and> run_missionRevisionId r = mr_id base) (mvalues (s2_runs s))
               then Inl (Error ''source_delegation_must_bind_before_mission_start'')
               else case find (\<lambda>l. sl_workspaceId l = w \<and> sl_missionRevisionId l = mr_id base \<and> sl_planId l = pl_id (sp_plan plan) \<and>
                     sl_stepId l = st_id (ss_step step)) (mvalues (s8_links s8)) of
                   Some l \<Rightarrow> if JStr (sl_delegationRequestId l) \<noteq> field input ''id''
                     then Inl (Error ''source_plan_step_already_delegated'') else Inr (Some (m, base, plan, step))
                 | None \<Rightarrow> Inr (Some (m, base, plan, step))))))"

definition link_of :: "s8_env \<Rightarrow> string \<Rightarrow> known_request \<Rightarrow> mission \<Rightarrow> mission_revision \<Rightarrow> s2_plan \<Rightarrow> s2_step \<Rightarrow> step_link" where
  "link_of env w r m base plan step = \<lparr>sl_id = bounded_id (ae_sha (de_app env)) ''delegation-source-step''
       [JStr (dr_id r), JStr (mr_id base), JStr (st_id (ss_step step))],
     sl_workspaceId = w, sl_delegationRequestId = dr_id r, sl_requestDigest = dr_requestDigest r, sl_missionId = mi_id m,
     sl_missionRevisionId = mr_id base, sl_planId = pl_id (sp_plan plan), sl_stepId = st_id (ss_step step),
     sl_state = ''awaiting_receipt'', sl_createdAt = ae_clock (de_app env), sl_receiptDigest = JUndef, sl_sourceStepAttemptId = None,
     sl_consumedAt = None\<rparr>"

definition link_fields :: "step_link \<Rightarrow> string list" where
  "link_fields l = [sl_delegationRequestId l, sl_requestDigest l, sl_missionRevisionId l, sl_planId l, sl_stepId l]"

definition link_event :: "step_link \<Rightarrow> app_event" where
  "link_event l = \<lparr>ap_workspaceId = sl_workspaceId l, ap_type = ''delegation.source_step_bound'',
     ap_aggregateType = ''delegationSourceStepBinding'', ap_aggregateId = sl_id l,
     ap_idempotencyKey = ''delegation.source_step_bound:'' @ sl_id l,
     ap_payload = JObj [(''delegationRequestId'', JStr (sl_delegationRequestId l)), (''missionId'', JStr (sl_missionId l)),
       (''missionRevisionId'', JStr (sl_missionRevisionId l)), (''planId'', JStr (sl_planId l)), (''stepId'', JStr (sl_stepId l))]\<rparr>"

definition save_link :: "step_link \<Rightarrow> (s8_state, unit) act" where
  "save_link l = modifyS (\<lambda>s. s\<lparr>s8_links := mset_at (sl_id l) l (s8_links s)\<rparr>)"

definition s8_createRequest :: "s8_env \<Rightarrow> js \<Rightarrow> (s8_state, known_request) act" where
  "s8_createRequest env input =
    bindS (readS (source_step env input)) (\<lambda>source.
    bindS (liftS source) (\<lambda>src.
    bindS (create_request env input) (\<lambda>r. case src of
        None \<Rightarrow> returnS r
      | Some (m, base, plan, step) \<Rightarrow>
          let candidate = link_of env (workspace_of input) r m base plan step in
          bindS (readS (\<lambda>s. mget (s8_links s) (sl_id candidate))) (\<lambda>existing. case existing of
              Some l \<Rightarrow> if link_fields l \<noteq> link_fields candidate
                then throwS (Error (''DelegationSourceStepBinding idempotency collision: '' @ sl_id candidate)) else returnS r
            | None \<Rightarrow>
                bindS (save_link candidate) (\<lambda>_.
                bindS (appendS8Event (link_event candidate)) (\<lambda>_.
                returnS r))))))"

subsection \<open>Holding the attempt back\<close>

definition links_of_run :: "s8_state \<Rightarrow> mission_run \<Rightarrow> step_link list" where
  "links_of_run s run = filter (\<lambda>l. sl_workspaceId l = run_workspaceId run \<and> sl_missionId l = run_missionId run \<and>
     sl_missionRevisionId l = run_missionRevisionId run \<and> sl_planId l = run_planId run) (mvalues (s8_links s))"

definition receipt_blocker :: "step_link \<Rightarrow> js" where
  "receipt_blocker l = JObj [(''code'', JStr ''delegation_receipt_required''), (''delegationRequestId'', JStr (sl_delegationRequestId l))]"

text \<open>The blocker's request id is kept where the model of a blocker has its detail.\<close>

definition block_step :: "app_env \<Rightarrow> mission_run \<Rightarrow> s2_step \<Rightarrow> step_link \<Rightarrow> (s2_state, unit) act" where
  "block_step app run step l =
    bindS (liftS (createStepAttempt (ae_sha app) run (ss_step step) 1 (ae_clock app))) (\<lambda>a.
    let ready = \<lparr>sa_attempt = a, sa_humanGateId = None, sa_blockers = [], sa_workerId = JUndef\<rparr> in
    bindS (save_attempt ready) (\<lambda>_.
    bindS (appendS2Event (attempt_event ''step.attempt_created'' a [(''missionRunId'', JStr (run_id run)),
      (''stepId'', JStr (st_id (ss_step step))), (''delegationRequestId'', JStr (sl_delegationRequestId l))])) (\<lambda>_.
    bindS (liftS (move_attempt app ''delegation_receipt_required'' ''blocked'' ready)) (\<lambda>moved.
    bindS (save_attempt (moved\<lparr>sa_blockers := [Blocker ''delegation_receipt_required'' (JStr (sl_delegationRequestId l))]\<rparr>)) (\<lambda>_.
    appendS2Event (s2_event ''plan.step_blocked'' (run_workspaceId run) ''stepAttempt'' (at_id a) (at_id a @ '':delegation_receipt_required'')
      [(''missionRunId'', JStr (run_id run)), (''stepId'', JStr (st_id (ss_step step))),
       (''delegationRequestId'', JStr (sl_delegationRequestId l)), (''blockers'', JArr [receipt_blocker l])]))))))"

fun block_links :: "s8_env \<Rightarrow> mission_run \<Rightarrow> s2_plan \<Rightarrow> step_link list \<Rightarrow> (s8_state, unit) act" where
  "block_links env run plan [] = returnS ()"
| "block_links env run plan (l # ls) = (case find (\<lambda>x. st_id (ss_step x) = sl_stepId l) (sp_steps plan) of
      None \<Rightarrow> throwS (Error ''delegated source step is missing from frozen plan'')
    | Some step \<Rightarrow>
        bindS (readS (\<lambda>s. latest_of (s8_s2 s) (run_id run) (st_id (ss_step step)))) (\<lambda>latest.
        bindS (if latest = None then in_s2 (block_step (de_app env) run step l) else returnS ()) (\<lambda>_.
        block_links env run plan ls)))"

definition ensureDelegatedSourceAttemptsBlocked :: "s8_env \<Rightarrow> mission_run \<Rightarrow> (s8_state, unit) act" where
  "ensureDelegatedSourceAttemptsBlocked env run =
    bindS (readS (\<lambda>s. requireRecord (s2_plans (s8_s2 s)) (JStr (run_planId run)) ''Execution plan'')) (\<lambda>found.
    bindS (liftS found) (\<lambda>plan.
    bindS (readS (\<lambda>s. links_of_run s run)) (\<lambda>ls.
    block_links env run plan ls)))"

definition s8_evaluateRun :: "s8_env \<Rightarrow> string \<Rightarrow> (s8_state, unit) act" where
  "s8_evaluateRun env runId =
    bindS (in_s2 (requireRun (JStr runId))) (\<lambda>run.
    if run_state run \<noteq> ''running'' then returnS ()
    else bindS (ensureDelegatedSourceAttemptsBlocked env run) (\<lambda>_. in_s2 (de_evaluate env runId)))"

subsection \<open>Receipts\<close>

text \<open>A row of \<open>pullDelegationReceipts\<close>: the record is \<open>{ id: key, ...receipt, workspaceId, direction }\<close>.\<close>

definition mirrored :: "string \<Rightarrow> string \<Rightarrow> js \<Rightarrow> js" where
  "mirrored key w safe = with_fields (with_fields (JObj [(''id'', JStr key)]) (case safe of JObj kvs \<Rightarrow> kvs | _ \<Rightarrow> []))
     [(''workspaceId'', JStr w), (''direction'', JStr ''inbound'')]"

definition mirror_key :: "s8_env \<Rightarrow> js \<Rightarrow> string" where
  "mirror_key env r = bounded_id (ae_sha (de_app env)) ''delegation-receipt-mirror'' [field r ''delegationRequestId'', field r ''receiptRevision'']"

definition receive_receipt :: "s8_env \<Rightarrow> string \<Rightarrow> js \<Rightarrow> (s8_state, string) act" where
  "receive_receipt env w raw =
    bindS (liftS (fieldE raw ''sourceInstanceId'')) (\<lambda>source.
    if source \<noteq> JStr (de_instance env) \<or> field raw ''sourceWorkspaceId'' \<noteq> JStr w
    then bindS (recordDelegationDivergence env w (or_js (field raw ''delegationRequestId'') JNull) ''rejected'' ''cross_workspace_receipt''
        (or_js (field raw ''receiptDigest'') JNull)) (\<lambda>_. returnS ''divergent'')
    else bindS (liftS (safeClone raw ''$'' 0)) (\<lambda>safe.
      bindS (readS (\<lambda>s. mget (s8_receiptMirror s) (mirror_key env safe))) (\<lambda>existing. case existing of
          Some e \<Rightarrow>
            if same_primitive (field e ''receiptDigest'') (field safe ''receiptDigest'') then returnS ''duplicate''
            else bindS (recordDelegationDivergence env w (field safe ''delegationRequestId'') ''divergent'' ''receipt_digest_conflict''
                (field safe ''receiptDigest'')) (\<lambda>_. returnS ''divergent'')
        | None \<Rightarrow>
            let stored = mirrored (mirror_key env safe) w safe in
            (case field stored ''id'' of
               JStr k \<Rightarrow> if k = [] then throwS (TypeError ''delegationReceiptMirror record id is required'')
                 else bindS (modifyS (\<lambda>s. s\<lparr>s8_receiptMirror := mset_at k stored (s8_receiptMirror s)\<rparr>)) (\<lambda>_. returnS ''accepted'')
             | _ \<Rightarrow> throwS (TypeError ''delegationReceiptMirror record id is required'')))))"

subsection \<open>Consuming a receipt\<close>

definition spread_array :: "js \<Rightarrow> js list res" where
  "spread_array v = (case v of JArr vs \<Rightarrow> Inr vs | JStr s \<Rightarrow> Inr (map (\<lambda>c. JStr [c]) s) | _ \<Rightarrow> Inl (TypeError ''value is not iterable''))"

definition receiptValue :: "js \<Rightarrow> known_request \<Rightarrow> js res" where
  "receiptValue receipt r =
    bindE (spread_array (or_js (field receipt ''evidenceDigests'') (JArr []))) (\<lambda>evidence.
    let value = JObj [(''kind'', JStr ''delegation-receipt''), (''delegationRequestId'', JStr (dr_id r)),
      (''receiptDigest'', field receipt ''receiptDigest''), (''resultClass'', or_js (field receipt ''resultClass'') JNull),
      (''resultSummary'', or_js (field receipt ''resultSummary'') JNull), (''evidenceDigests'', JArr evidence),
      (''destinationInstanceId'', or_js (field receipt ''destinationInstanceId'') (JStr (dr_destinationInstanceId r))),
      (''destinationWorkspaceId'', or_js (field receipt ''destinationWorkspaceId'') (JStr (dr_destinationWorkspaceId r)))] in
    bindE (assertJsonSafe value ''value'') (\<lambda>_. Inr value))"

text \<open>The receipt and the request it answers; both variants of the operation start with it.\<close>

definition receipt_and_request :: "js \<Rightarrow> s8_state \<Rightarrow> (js \<times> known_request) res" where
  "receipt_and_request input s = (case get_js (s8_receiptMirror s) (field input ''receiptMirrorId'') of
      None \<Rightarrow> Inl (Error ''delegation_receipt_not_found'')
    | Some receipt \<Rightarrow>
        if field receipt ''workspaceId'' \<noteq> JStr (workspace_of input) then Inl (Error ''delegation_receipt_not_found'')
        else if field receipt ''state'' \<noteq> JStr ''completed'' then Inl (Error ''delegation_receipt_not_completed'')
        else (case get_js (s8_requests s) (field receipt ''delegationRequestId'') of
            None \<Rightarrow> Inl (Error ''delegation_source_request_not_found'')
          | Some r \<Rightarrow> if kr_direction r \<noteq> ''outbound'' \<or> kr_workspaceId r \<noteq> workspace_of input
              then Inl (Error ''delegation_source_request_not_found'') else Inr (receipt, r)))"

definition consumption_id :: "s8_env \<Rightarrow> known_request \<Rightarrow> js \<Rightarrow> string" where
  "consumption_id env r receipt = bounded_id (ae_sha (de_app env)) ''delegation-receipt-consumption''
     [JStr (dr_id r), field receipt ''receiptDigest'']"

definition consumption_of :: "s8_env \<Rightarrow> string \<Rightarrow> js \<Rightarrow> known_request \<Rightarrow> string option \<Rightarrow> string option \<Rightarrow> string option \<Rightarrow> string option
    \<Rightarrow> string option \<Rightarrow> receipt_consumption" where
  "consumption_of env w receipt r mission revision plan step attempt = \<lparr>rc8_id = consumption_id env r receipt, rc8_workspaceId = w,
     rc8_delegationRequestId = dr_id r, rc8_receiptMirrorId = field receipt ''id'', rc8_receiptDigest = field receipt ''receiptDigest'',
     rc8_sourceMissionId = mission, rc8_sourceMissionRevisionId = revision, rc8_sourcePlanId = plan, rc8_sourcePlanStepId = step,
     rc8_sourceStepAttemptId = attempt, rc8_consumedAt = ae_clock (de_app env)\<rparr>"

definition consumed_event :: "receipt_consumption \<Rightarrow> (string \<times> js) list \<Rightarrow> app_event" where
  "consumed_event c payload = \<lparr>ap_workspaceId = rc8_workspaceId c, ap_type = ''delegation.receipt_consumed'',
     ap_aggregateType = ''delegationReceiptConsumption'', ap_aggregateId = rc8_id c,
     ap_idempotencyKey = ''delegation.receipt_consumed:'' @ rc8_id c,
     ap_payload = JObj ([(''requestId'', JStr (rc8_delegationRequestId c)), (''receiptDigest'', rc8_receiptDigest c)] @ payload)\<rparr>"

definition save_consumption :: "receipt_consumption \<Rightarrow> (s8_state, unit) act" where
  "save_consumption c = modifyS (\<lambda>s. s\<lparr>s8_consumptions := mset_at (rc8_id c) c (s8_consumptions s)\<rparr>)"

text \<open>A request that names no step, or names one without a binding: the receipt is only recorded.\<close>

definition source_plan_check :: "string \<Rightarrow> known_request \<Rightarrow> s2_state \<Rightarrow> unit res" where
  "source_plan_check w r s = (case dr_sourceMissionId r of None \<Rightarrow> Inr ()
    | Some mid \<Rightarrow> (case mget (s2_missions s) mid of
        None \<Rightarrow> Inl (Error ''source_mission_not_found'')
      | Some sm \<Rightarrow>
          if mi_workspaceId (ms_mission sm) \<noteq> w then Inl (Error ''source_mission_not_found'')
          else (case get_js (s2_revisions s) (mi_currentRevisionId (ms_mission sm)) of
              None \<Rightarrow> Inl (Error ''source_mission_revision_missing'')
            | Some revision \<Rightarrow>
                let plan = (case revision of Planned b _ _ \<Rightarrow> mget (s2_plans s) (mr_planId b) | Draft _ \<Rightarrow> None) in
                case dr_sourcePlanStepId r of None \<Rightarrow> Inr ()
                | Some step \<Rightarrow> if list_ex (\<lambda>x. st_id (ss_step x) = step) (case plan of Some p \<Rightarrow> sp_steps p | None \<Rightarrow> [])
                    then Inr () else Inl (Error ''source_plan_step_not_current''))))"

definition record_consumption :: "s8_env \<Rightarrow> string \<Rightarrow> js \<Rightarrow> known_request \<Rightarrow> (s8_state, receipt_consumption) act" where
  "record_consumption env w receipt r =
    bindS (readS (\<lambda>s. mget (s8_consumptions s) (consumption_id env r receipt))) (\<lambda>existing. case existing of
        Some c \<Rightarrow> returnS c
      | None \<Rightarrow>
          bindS (readS (\<lambda>s. source_plan_check w r (s8_s2 s))) (\<lambda>checked.
          bindS (liftS checked) (\<lambda>_.
          let c = consumption_of env w receipt r (dr_sourceMissionId r) None None (dr_sourcePlanStepId r) None in
          bindS (save_consumption c) (\<lambda>_.
          bindS (appendS8Event (consumed_event c [(''sourceMissionId'', js_opt (dr_sourceMissionId r)),
            (''sourcePlanStepId'', js_opt (dr_sourcePlanStepId r))])) (\<lambda>_.
          returnS c)))))"

text \<open>The bound step: its mission, revision, plan and run must be those of the binding.\<close>

definition bound_plan :: "step_link \<Rightarrow> s2_state \<Rightarrow> (s2_plan \<times> s2_step \<times> mission_run) res" where
  "bound_plan l s =
    bindE (requireRecord (s2_missions s) (JStr (sl_missionId l)) ''Source Mission'') (\<lambda>sm.
    if mi_currentRevisionId (ms_mission sm) \<noteq> JStr (sl_missionRevisionId l) then Inl (Error ''source_mission_revision_stale'')
    else bindE (requireRecord (s2_revisions s) (JStr (sl_missionRevisionId l)) ''Source Mission revision'') (\<lambda>revision. case revision of
        Draft _ \<Rightarrow> Inl (Error ''source_plan_stale'')
      | Planned base _ _ \<Rightarrow>
        if mr_planId base \<noteq> sl_planId l then Inl (Error ''source_plan_stale'')
        else bindE (requireRecord (s2_plans s) (JStr (sl_planId l)) ''Source ExecutionPlan'') (\<lambda>plan.
          case find (\<lambda>x. st_id (ss_step x) = sl_stepId l) (sp_steps plan) of
            None \<Rightarrow> Inl (Error ''source_plan_step_not_current'')
          | Some step \<Rightarrow>
            (case find (\<lambda>r. run_workspaceId r = sl_workspaceId l \<and> run_missionId r = mi_id (ms_mission sm) \<and>
                  run_missionRevisionId r = mr_id base \<and> run_planId r = pl_id (sp_plan plan) \<and> run_state r \<in> {''running'', ''paused''})
                (mvalues (s2_runs s)) of
               None \<Rightarrow> Inl (Error ''source_mission_run_not_active'')
             | Some run \<Rightarrow> if run_state run \<noteq> ''running''
                 then Inl (Error ''source_mission_must_be_running_to_consume_receipt'') else Inr (plan, step, run)))))"

text \<open>The attempt of the step from blocked to completed, with the receipt as its output.\<close>

definition complete_by_receipt :: "s8_env \<Rightarrow> s2_plan \<Rightarrow> s2_step \<Rightarrow> s2_attempt \<Rightarrow> js \<Rightarrow> known_request \<Rightarrow> (s2_state, s2_attempt) act" where
  "complete_by_receipt env plan step attempt receipt r =
    (let app = de_app env in
     bindS (liftS (move_attempt app ''delegation receipt explicitly consumed'' ''ready'' attempt)) (\<lambda>moved.
     bindS (save_attempt (moved\<lparr>sa_blockers := []\<rparr>)) (\<lambda>_.
     bindS (shift_attempt app ''delegation receipt handoff'' ''active'' (moved\<lparr>sa_blockers := []\<rparr>)) (\<lambda>active.
     bindS (liftS (receiptValue receipt r)) (\<lambda>value.
     bindS (recordOutputsAndEvidence app (sa_attempt active) step value) (\<lambda>_.
     bindS (shift_attempt app ''delegation receipt consumed'' ''completed'' active) (\<lambda>completed.
     bindS (appendS2Event (attempt_event ''step.attempt_completed'' (sa_attempt completed)
       [(''stepId'', JStr (at_stepId (sa_attempt completed))), (''delegationRequestId'', JStr (dr_id r)),
        (''receiptDigest'', field receipt ''receiptDigest''), (''delegated'', JBool True)])) (\<lambda>_.
     bindS (recordHandoffsForCompletedAttempt app (sa_attempt completed) step plan) (\<lambda>_.
     returnS completed)))))))))"

text \<open>The latest attempt of a step with what the service keeps beside it.\<close>

definition stored_latest :: "s2_state \<Rightarrow> string \<Rightarrow> string \<Rightarrow> s2_attempt option" where
  "stored_latest s runId stepId = (case latest_of s runId stepId of None \<Rightarrow> None
     | Some a \<Rightarrow> find (\<lambda>x. sa_attempt x = a) (attempts_of s runId))"

definition hand_off :: "s8_env \<Rightarrow> string \<Rightarrow> step_link \<Rightarrow> js \<Rightarrow> known_request \<Rightarrow> s2_plan \<Rightarrow> s2_step \<Rightarrow> mission_run \<Rightarrow> s2_attempt
    \<Rightarrow> (s8_state, receipt_consumption) act" where
  "hand_off env w l receipt r plan step run attempt =
    bindS (in_s2 (complete_by_receipt env plan step attempt receipt r)) (\<lambda>completed.
    let c = consumption_of env w receipt r (Some (sl_missionId l)) (Some (sl_missionRevisionId l)) (Some (sl_planId l))
      (Some (st_id (ss_step step))) (Some (at_id (sa_attempt completed))) in
    bindS (save_consumption c) (\<lambda>_.
    bindS (save_link (l\<lparr>sl_state := ''receipt_consumed'', sl_receiptDigest := field receipt ''receiptDigest'',
      sl_sourceStepAttemptId := Some (at_id (sa_attempt completed)), sl_consumedAt := Some (rc8_consumedAt c)\<rparr>)) (\<lambda>_.
    bindS (appendS8Event (consumed_event c [(''sourceMissionId'', JStr (sl_missionId l)), (''sourceMissionRevisionId'', JStr (sl_missionRevisionId l)),
      (''sourcePlanId'', JStr (sl_planId l)), (''sourcePlanStepId'', JStr (st_id (ss_step step))),
      (''sourceStepAttemptId'', JStr (at_id (sa_attempt completed)))])) (\<lambda>_.
    bindS (s8_evaluateRun env (run_id run)) (\<lambda>_.
    returnS c)))))"

definition consume_bound :: "s8_env \<Rightarrow> string \<Rightarrow> step_link \<Rightarrow> js \<Rightarrow> known_request \<Rightarrow> (s8_state, receipt_consumption) act" where
  "consume_bound env w l receipt r =
    bindS (readS (\<lambda>s. mget (s8_consumptions s) (consumption_id env r receipt))) (\<lambda>existing. case existing of
        Some c \<Rightarrow> returnS c
      | None \<Rightarrow>
          bindS (readS (\<lambda>s. bound_plan l (s8_s2 s))) (\<lambda>found.
          bindS (liftS found) (\<lambda>(plan, step, run).
          bindS (ensureDelegatedSourceAttemptsBlocked env run) (\<lambda>_.
          bindS (readS (\<lambda>s. stored_latest (s8_s2 s) (run_id run) (st_id (ss_step step)))) (\<lambda>latest. case latest of
              None \<Rightarrow> throwS (Error ''source_delegated_step_attempt_missing'')
            | Some attempt \<Rightarrow>
                if at_state (sa_attempt attempt) = ''completed''
                then bindS (readS (\<lambda>s. find (\<lambda>c. rc8_workspaceId c = w \<and> rc8_delegationRequestId c = dr_id r \<and>
                       same_primitive (rc8_receiptDigest c) (field receipt ''receiptDigest'')) (mvalues (s8_consumptions s)))) (\<lambda>done.
                     case done of Some c \<Rightarrow> returnS c
                     | None \<Rightarrow> throwS (Error ''source_delegated_step_already_completed_by_other_evidence''))
                else if at_state (sa_attempt attempt) \<noteq> ''blocked'' \<or> at_lastReason (sa_attempt attempt) \<noteq> Some ''delegation_receipt_required''
                then throwS (Error ''source_delegated_step_not_waiting_for_receipt'')
                else hand_off env w l receipt r plan step run attempt)))))"

definition consumeDelegationReceipt :: "s8_env \<Rightarrow> js \<Rightarrow> (s8_state, receipt_consumption) act" where
  "consumeDelegationReceipt env input =
    (let w = workspace_of input in
     bindS (readS (receipt_and_request input)) (\<lambda>found.
     bindS (liftS found) (\<lambda>(receipt, r).
     bindS (readS (\<lambda>s. find (\<lambda>l. sl_workspaceId l = w \<and> sl_delegationRequestId l = dr_id r) (mvalues (s8_links s)))) (\<lambda>link. case link of
         None \<Rightarrow> record_consumption env w receipt r
       | Some l \<Rightarrow> consume_bound env w l receipt r))))"

text \<open>
  The key of the mirror is replaced by the id the receipt itself carries, so that a second
  receipt of the same revision is not found: it is counted as accepted and written over the
  first, whatever the two say.
\<close>

definition pulled_receipt :: "string \<Rightarrow> string \<Rightarrow> js" where
  "pulled_receipt state dig = JObj [(''id'', JStr ''receipt-1''), (''delegationRequestId'', JStr ''request-1''),
     (''sourceInstanceId'', JStr ''instance-a''), (''sourceWorkspaceId'', JStr ''workspace-a''), (''state'', JStr state),
     (''receiptRevision'', JNum 1), (''receiptDigest'', JStr dig)]"

definition pulled_key :: "s8_env \<Rightarrow> string" where
  "pulled_key env = bounded_id (ae_sha (de_app env)) ''delegation-receipt-mirror'' [JStr ''request-1'', JNum 1]"

lemma pulled_key_not_own: "pulled_key env \<noteq> ''receipt-1''"
  by (simp add: pulled_key_def bounded_id_def)

lemma pulled_fields [simp]:
  "field (pulled_receipt st d) ''sourceInstanceId'' = JStr ''instance-a''" "field (pulled_receipt st d) ''sourceWorkspaceId'' = JStr ''workspace-a''"
  "fieldE (pulled_receipt st d) ''sourceInstanceId'' = Inr (JStr ''instance-a'')"
  "mirror_key env (pulled_receipt st d) = pulled_key env"
  by (simp_all add: pulled_receipt_def mirror_key_def fieldE_def pulled_key_def)

lemma mirrored_pulled: "field (mirrored key w (pulled_receipt st d)) ''id'' = JStr ''receipt-1''"
  "field (mirrored key w (pulled_receipt st d)) ''state'' = JStr st"
  by (simp_all add: mirrored_def pulled_receipt_def with_fields_def)

lemma receive_pulled:
  assumes e: "de_instance env = ''instance-a''" and c: "clean 0 (pulled_receipt st d)"
    and n: "mget (s8_receiptMirror s) (pulled_key env) = None"
  shows "receive_receipt env ''workspace-a'' (pulled_receipt st d) s =
    (s\<lparr>s8_receiptMirror := mset_at ''receipt-1'' (mirrored (pulled_key env) ''workspace-a'' (pulled_receipt st d))
       (s8_receiptMirror s)\<rparr>, Inr ''accepted'')"
proof -
  have "safeClone (pulled_receipt st d) ''$'' 0 = Inr (pulled_receipt st d)" using c by (simp add: safeClone_iff)
  then show ?thesis using e n by (simp add: receive_receipt_def mirrored_pulled)
qed

lemma conflicting_receipt_overwrites:
  assumes e: "de_instance env = ''instance-a''" and m: "s8_receiptMirror s = []"
    and c: "clean 0 (pulled_receipt st d)" "clean 0 (pulled_receipt st' d')"
  defines "first \<equiv> receive_receipt env ''workspace-a'' (pulled_receipt st d) s"
  defines "second \<equiv> receive_receipt env ''workspace-a'' (pulled_receipt st' d') (fst first)"
  shows "snd first = Inr ''accepted'' \<and> snd second = Inr ''accepted'' \<and>
    (\<exists>r. s8_receiptMirror (fst second) = [(''receipt-1'', r)] \<and> field r ''state'' = JStr st')"
proof -
  have f: "first = (s\<lparr>s8_receiptMirror := [(''receipt-1'', mirrored (pulled_key env) ''workspace-a'' (pulled_receipt st d))]\<rparr>,
      Inr ''accepted'')"
    unfolding first_def by (subst receive_pulled[OF e c(1)]) (simp_all add: m mget_def mset_at_def)
  have "second = receive_receipt env ''workspace-a'' (pulled_receipt st' d') (fst first)" by (simp add: second_def)
  also have "\<dots> = ((fst first)\<lparr>s8_receiptMirror := [(''receipt-1'', mirrored (pulled_key env) ''workspace-a'' (pulled_receipt st' d'))]\<rparr>,
      Inr ''accepted'')"
    using pulled_key_not_own[of env]
    by (subst receive_pulled[OF e c(2)]) (simp_all add: f mget_def mset_at_def)
  finally show ?thesis by (simp add: f mirrored_pulled)
qed

end
