(* ===== verification/ActHoare.thy ===== *)
theory ActHoare
  imports Prelude
begin

text \<open>
  Triples for operations that may throw: from a state with \<open>P\<close>, a result \<open>x\<close> comes with a state
  in \<open>Q x\<close> and an exception with one in \<open>E\<close>.  The rules follow the shape of an operation from
  its front; what was read or computed is named by the bound variable of its continuation.
\<close>

definition triple :: "('s \<Rightarrow> bool) \<Rightarrow> ('s, 'a) act \<Rightarrow> ('a \<Rightarrow> 's \<Rightarrow> bool) \<Rightarrow> ('s \<Rightarrow> bool) \<Rightarrow> bool" where
  "triple P m Q E \<longleftrightarrow> (\<forall>s. P s \<longrightarrow> (case m s of (s', Inl e) \<Rightarrow> E s' | (s', Inr x) \<Rightarrow> Q x s'))"

lemma tripleD: "triple P m Q E \<Longrightarrow> P s \<Longrightarrow> m s = (s', Inr x) \<Longrightarrow> Q x s'"
  "triple P m Q E \<Longrightarrow> P s \<Longrightarrow> m s = (s', Inl e) \<Longrightarrow> E s'"
  by (auto simp: triple_def dest!: spec[of _ s])

lemma triple_fst: "triple P m (\<lambda>_. E) E \<Longrightarrow> P s \<Longrightarrow> E (fst (m s))"
  using tripleD[of P m "\<lambda>_. E" E s "fst (m s)"] by (cases "m s"; cases "snd (m s)") auto

lemma t_bind: "triple P m R E \<Longrightarrow> (\<And>x. triple (R x) (k x) Q E) \<Longrightarrow> triple P (bindS m k) Q E"
  unfolding triple_def
proof (intro allI impI)
  fix s assume m: "\<forall>s. P s \<longrightarrow> (case m s of (s', Inl e) \<Rightarrow> E s' | (s', Inr x) \<Rightarrow> R x s')" and p: "P s"
    and k: "\<And>x. \<forall>s. R x s \<longrightarrow> (case k x s of (s', Inl e) \<Rightarrow> E s' | (s', Inr y) \<Rightarrow> Q y s')"
  obtain s' r where r: "m s = (s', r)" by fastforce
  with m p have "case r of Inl e \<Rightarrow> E s' | Inr x \<Rightarrow> R x s'" by (auto dest!: spec[of _ s])
  with k r show "case bindS m k s of (s', Inl e) \<Rightarrow> E s' | (s', Inr x) \<Rightarrow> Q x s'"
    by (cases r) (auto simp: bindS_def)
qed

lemma t_pre: "triple P' m Q E \<Longrightarrow> (\<And>s. P s \<Longrightarrow> P' s) \<Longrightarrow> triple P m Q E"
  by (auto simp: triple_def)

lemma t_post:
  assumes m: "triple P m Q' E'" and q: "\<And>x s. Q' x s \<Longrightarrow> Q x s" and e: "\<And>s. E' s \<Longrightarrow> E s"
  shows "triple P m Q E"
  unfolding triple_def
proof (intro allI impI)
  fix s assume "P s"
  obtain s' r where r: "m s = (s', r)" by fastforce
  show "case m s of (s', Inl e) \<Rightarrow> E s' | (s', Inr x) \<Rightarrow> Q x s'"
  proof (cases r)
    case (Inl x)
    with tripleD(2)[OF m \<open>P s\<close>] r e show ?thesis by simp
  next
    case (Inr x)
    with tripleD(1)[OF m \<open>P s\<close>] r q show ?thesis by simp
  qed
qed

lemma t_return: "(\<And>s. P s \<Longrightarrow> Q x s) \<Longrightarrow> triple P (returnS x) Q E"
  by (simp add: triple_def)

lemma t_throw: "(\<And>s. P s \<Longrightarrow> E s) \<Longrightarrow> triple P (throwS e) Q E"
  by (simp add: triple_def)

lemma t_false: "(\<And>s. \<not> P s) \<Longrightarrow> triple P m Q E"
  by (simp add: triple_def)

lemma t_modify: "(\<And>s. P s \<Longrightarrow> Q () (g s)) \<Longrightarrow> triple P (modifyS g) Q E"
  by (simp add: triple_def)

lemma t_read: "(\<And>x. triple (\<lambda>s. P s \<and> h s = x) (k x) Q E) \<Longrightarrow> triple P (bindS (readS h) k) Q E"
  by (auto simp: triple_def)

lemma t_lift: "(\<And>x. r = Inr x \<Longrightarrow> triple P (k x) Q E) \<Longrightarrow> (\<And>s. P s \<Longrightarrow> E s) \<Longrightarrow> triple P (bindS (liftS r) k) Q E"
  by (cases r) (simp_all add: triple_def)

lemma t_if: "(c \<Longrightarrow> triple P a Q E) \<Longrightarrow> (\<not> c \<Longrightarrow> triple P b Q E) \<Longrightarrow> triple P (if c then a else b) Q E"
  by simp

lemma t_option: "(x = None \<Longrightarrow> triple P a Q E) \<Longrightarrow> (\<And>y. x = Some y \<Longrightarrow> triple P (b y) Q E) \<Longrightarrow>
    triple P (case x of None \<Rightarrow> a | Some y \<Rightarrow> b y) Q E"
  by (cases x) auto

lemma t_pair: "(\<And>a b. x = (a, b) \<Longrightarrow> triple P (f a b) Q E) \<Longrightarrow> triple P (case x of (a, b) \<Rightarrow> f a b) Q E"
  by (cases x) auto

text \<open>An operation that keeps what is known of the state.\<close>

lemma t_keep: "keeps P m \<Longrightarrow> triple P m (\<lambda>_. P) P"
  by (auto simp: triple_def keeps_def split: prod.splits sum.splits)

end
