(* ===== verification/DelegationSafety.thy ===== *)
theory DelegationSafety
  imports DelegationSource ActHoare ActRules
begin

text \<open>
  Histories of the delegation service: the chain of requests of a peer on both sides, decisions
  that stay decided, and the one binding of a request, made by an approval only.
\<close>

subsection \<open>Histories\<close>

text \<open>
  The pushes that wait for the transport are kept with what they have read; the other calls
  that finish after an \<open>await\<close> may bring any value.  \<open>Below\<close> is any change of the mission and
  coordinator services.
\<close>

record delegation_service =
  dx_state :: s8_state
  dx_pushes :: "(string \<times> known_request) list"

datatype delegation_op = RecordPeer js | RecordPolicy js | CreateDelegation js | Push js | PushAnswered nat js
  | Row string js | RowEvent string known_request known_proposal delegation_admission | CancellationRow string js
  | ApproveDelegation js | RejectDelegation js | ProposeCancellation js | ProposeAnswered js | ResolveCancellation js
  | Publish execution_binding | PublishAnswered delegation_receipt bool | ReceiptRow string js | ConsumeReceipt js
  | EvaluateRun string | Below "s2_state \<Rightarrow> s2_state"

definition on_s8 :: "(s8_state, 'a) act \<Rightarrow> delegation_service \<Rightarrow> delegation_service" where
  "on_s8 m v = v\<lparr>dx_state := fst (m (dx_state v))\<rparr>"

definition push_call :: "s8_env \<Rightarrow> js \<Rightarrow> delegation_service \<Rightarrow> delegation_service" where
  "push_call env input v = (case push_begin env input (dx_state v) of
      (s, Inr r) \<Rightarrow> \<lparr>dx_state = s, dx_pushes = dx_pushes v @ [(workspace_of input, r)]\<rparr>
    | (s, Inl _) \<Rightarrow> v\<lparr>dx_state := s\<rparr>)"

definition push_answer :: "s8_env \<Rightarrow> nat \<Rightarrow> js \<Rightarrow> delegation_service \<Rightarrow> delegation_service" where
  "push_answer env n response v = (if n < length (dx_pushes v)
     then (case dx_pushes v ! n of (w, r) \<Rightarrow>
       \<lparr>dx_state = fst (push_finish env w r response (dx_state v)),
        dx_pushes = take n (dx_pushes v) @ drop (Suc n) (dx_pushes v)\<rparr>)
     else v)"

definition delegation_step :: "s8_env \<Rightarrow> delegation_op \<Rightarrow> delegation_service \<Rightarrow> delegation_service" where
  "delegation_step env oper v = (case oper of
      RecordPeer i \<Rightarrow> on_s8 (recordPeerBinding env i) v | RecordPolicy i \<Rightarrow> on_s8 (recordDelegationPolicy env i) v
    | CreateDelegation i \<Rightarrow> on_s8 (s8_createRequest env i) v | Push i \<Rightarrow> push_call env i v
    | PushAnswered n response \<Rightarrow> push_answer env n response v
    | Row w raw \<Rightarrow> on_s8 (receive_row env w raw) v | RowEvent w r p a \<Rightarrow> on_s8 (appendS8Event (received_event w r p a)) v
    | CancellationRow w raw \<Rightarrow> on_s8 (receive_cancellation env w raw) v
    | ApproveDelegation i \<Rightarrow> on_s8 (approveDelegationProposal env i) v | RejectDelegation i \<Rightarrow> on_s8 (rejectDelegationProposal env i) v
    | ProposeCancellation i \<Rightarrow> on_s8 (propose_begin env i) v | ProposeAnswered c \<Rightarrow> on_s8 (propose_finish c) v
    | ResolveCancellation i \<Rightarrow> on_s8 (resolveDelegationCancellation env i) v
    | Publish b \<Rightarrow> on_s8 (publish_begin env b) v | PublishAnswered x delivered \<Rightarrow> on_s8 (publish_finish x delivered) v
    | ReceiptRow w raw \<Rightarrow> on_s8 (receive_receipt env w raw) v | ConsumeReceipt i \<Rightarrow> on_s8 (consumeDelegationReceipt env i) v
    | EvaluateRun i \<Rightarrow> on_s8 (s8_evaluateRun env i) v
    | Below f \<Rightarrow> v\<lparr>dx_state := (dx_state v)\<lparr>s8_s2 := f (s8_s2 (dx_state v))\<rparr>\<rparr>)"

fun delegation_history :: "(s8_env \<times> delegation_op) list \<Rightarrow> delegation_service \<Rightarrow> delegation_service" where
  "delegation_history [] v = v"
| "delegation_history ((env, oper) # ops) v = delegation_history ops (delegation_step env oper v)"

lemma delegation_history_append: "delegation_history (xs @ ys) v = delegation_history ys (delegation_history xs v)"
  by (induction xs arbitrary: v) auto

subsection \<open>What the operations leave alone\<close>

text \<open>\<open>frame f m\<close>: the operation \<open>m\<close> does not change the part \<open>f\<close> of the state.\<close>

definition frame :: "('s \<Rightarrow> 'v) \<Rightarrow> ('s, 'a) act \<Rightarrow> bool" where
  "frame f m \<longleftrightarrow> (\<forall>s. f (fst (m s)) = f s)"

lemma frame_keeps: "frame f m \<longleftrightarrow> (\<forall>v. keeps (\<lambda>s. f s = v) m)"
  by (auto simp: frame_def keeps_def)

lemma frame_bind: "frame f m \<Longrightarrow> (\<And>x. frame f (k x)) \<Longrightarrow> frame f (bindS m k)"
  unfolding frame_keeps by (auto intro: keeps_bindS)

lemma frame_modify: "(\<And>s. f (g s) = f s) \<Longrightarrow> frame f (modifyS g)"
  by (simp add: frame_def)

lemma frame_trivial: "frame f (returnS x)" "frame f (throwS e)" "frame f (liftS r)" "frame f (readS h)"
  by (simp_all add: frame_def)

lemma frame_if: "frame f a \<Longrightarrow> frame f b \<Longrightarrow> frame f (if c then a else b)"
  by simp

lemma frame_option: "frame f a \<Longrightarrow> (\<And>y. frame f (b y)) \<Longrightarrow> frame f (case x of None \<Rightarrow> a | Some y \<Rightarrow> b y)"
  by (cases x) auto

lemma frame_sum: "(\<And>y. frame f (a y)) \<Longrightarrow> (\<And>y. frame f (b y)) \<Longrightarrow> frame f (case x of Inl y \<Rightarrow> a y | Inr y \<Rightarrow> b y)"
  by (cases x) auto

lemma frame_pair: "(\<And>a b. frame f (g a b)) \<Longrightarrow> frame f (case x of (a, b) \<Rightarrow> g a b)"
  by (cases x) auto

lemma frame_text: "frame f a \<Longrightarrow> (\<And>t. frame f (b t)) \<Longrightarrow>
    frame f (case v of JStr t \<Rightarrow> b t | _ \<Rightarrow> a)"
  by (cases v) auto

lemma frame_in_s2: "(\<And>s t. f (s\<lparr>s8_s2 := t\<rparr>) = f s) \<Longrightarrow> frame f (in_s2 m)"
  by (simp add: frame_def in_s2_def split: prod.splits)

lemma frame_event: "(\<And>s t. f (s\<lparr>s8_events := t\<rparr>) = f s) \<Longrightarrow> frame f (appendS8Event e)"
  by (simp add: frame_def appendS8Event_def split: sum.splits)

lemma frame_divergence: "(\<And>s t. f (s\<lparr>s8_divergences := t\<rparr>) = f s) \<Longrightarrow> frame f (recordDelegationDivergence env w i st r d)"
  unfolding recordDelegationDivergence_def Let_def by (rule frame_modify) simp

lemmas frame_intros = frame_bind frame_trivial frame_if frame_option frame_sum frame_pair frame_text frame_in_s2 frame_event frame_divergence

text \<open>Which repositories each operation writes.\<close>

lemma fr_workspace: "frame f (requireS7Workspace w)"
  unfolding requireS7Workspace_def by (intro frame_intros)

lemma fr_peer: "(\<And>s t. f (s\<lparr>s8_peers := t\<rparr>) = f s) \<Longrightarrow> (\<And>s t. f (s\<lparr>s8_events := t\<rparr>) = f s) \<Longrightarrow> frame f (recordPeerBinding env i)"
  unfolding recordPeerBinding_def Let_def by (intro frame_intros fr_workspace frame_modify) simp_all

lemma fr_policy: "(\<And>s t. f (s\<lparr>s8_policies := t\<rparr>) = f s) \<Longrightarrow> (\<And>s t. f (s\<lparr>s8_events := t\<rparr>) = f s) \<Longrightarrow> frame f (recordDelegationPolicy env i)"
  unfolding recordDelegationPolicy_def Let_def by (intro frame_intros fr_workspace frame_modify) simp_all

lemma fr_create: "(\<And>s t. f (s\<lparr>s8_requests := t\<rparr>) = f s) \<Longrightarrow> (\<And>s t. f (s\<lparr>s8_events := t\<rparr>) = f s) \<Longrightarrow> frame f (create_request env i)"
  unfolding create_request_def Let_def by (intro frame_intros fr_workspace frame_modify) simp_all

lemma fr_link: "(\<And>s t. f (s\<lparr>s8_links := t\<rparr>) = f s) \<Longrightarrow> frame f (save_link l)"
  unfolding save_link_def by (rule frame_modify) simp

lemma fr_createRequest: "(\<And>s t. f (s\<lparr>s8_requests := t\<rparr>) = f s) \<Longrightarrow> (\<And>s t. f (s\<lparr>s8_events := t\<rparr>) = f s) \<Longrightarrow>
    (\<And>s t. f (s\<lparr>s8_links := t\<rparr>) = f s) \<Longrightarrow> frame f (s8_createRequest env i)"
  unfolding s8_createRequest_def Let_def by (intro frame_intros fr_create fr_link) simp_all

lemma fr_push_begin: "frame f (push_begin env i)"
  unfolding push_begin_def Let_def by (intro frame_intros fr_workspace)

lemma fr_push_finish: "(\<And>s t u. f (s\<lparr>s8_acks := t, s8_requests := u\<rparr>) = f s) \<Longrightarrow> (\<And>s t. f (s\<lparr>s8_events := t\<rparr>) = f s) \<Longrightarrow>
    frame f (push_finish env w r resp)"
  unfolding push_finish_def Let_def by (intro frame_intros frame_modify) simp_all

lemma fr_proposal: "(\<And>s t. f (s\<lparr>s8_proposals := t\<rparr>) = f s) \<Longrightarrow> frame f (put_proposal p)"
  unfolding put_proposal_def by (rule frame_modify) simp

lemma fr_gate: "(\<And>s t. f (s\<lparr>s8_gates := t\<rparr>) = f s) \<Longrightarrow> (\<And>s t. f (s\<lparr>s8_events := t\<rparr>) = f s) \<Longrightarrow> frame f (requestDelegationGate env p r a)"
  unfolding requestDelegationGate_def Let_def by (intro frame_intros frame_modify) simp_all

lemma fr_open: "(\<And>s t. f (s\<lparr>s8_proposals := t\<rparr>) = f s) \<Longrightarrow> frame f (open_proposal env w r)"
  unfolding open_proposal_def Let_def by (intro frame_intros fr_proposal) simp_all

lemma fr_admit: "(\<And>s t. f (s\<lparr>s8_proposals := t\<rparr>) = f s) \<Longrightarrow> (\<And>s t. f (s\<lparr>s8_admissions := t\<rparr>) = f s) \<Longrightarrow>
    (\<And>s t. f (s\<lparr>s8_gates := t\<rparr>) = f s) \<Longrightarrow> (\<And>s t. f (s\<lparr>s8_events := t\<rparr>) = f s) \<Longrightarrow> frame f (admit_proposal env p r)"
  unfolding admit_proposal_def Let_def by (intro frame_intros fr_proposal fr_gate frame_modify) simp_all

lemma fr_row: "(\<And>s t. f (s\<lparr>s8_proposals := t\<rparr>) = f s) \<Longrightarrow> (\<And>s t. f (s\<lparr>s8_admissions := t\<rparr>) = f s) \<Longrightarrow>
    (\<And>s t. f (s\<lparr>s8_gates := t\<rparr>) = f s) \<Longrightarrow> (\<And>s t. f (s\<lparr>s8_events := t\<rparr>) = f s) \<Longrightarrow>
    (\<And>s t. f (s\<lparr>s8_requests := t\<rparr>) = f s) \<Longrightarrow> (\<And>s t. f (s\<lparr>s8_divergences := t\<rparr>) = f s) \<Longrightarrow> frame f (receive_row env w raw)"
  unfolding receive_row_def take_request_def Let_def by (intro frame_intros fr_open fr_admit frame_modify) simp_all

lemma fr_cancellation_row: "(\<And>s t. f (s\<lparr>s8_cancellations := t\<rparr>) = f s) \<Longrightarrow> frame f (receive_cancellation env w raw)"
  unfolding receive_cancellation_def by (intro frame_intros frame_modify) simp_all

lemma fr_decide: "(\<And>s t. f (s\<lparr>s8_gates := t\<rparr>) = f s) \<Longrightarrow> frame f (decideDelegationGate env g st)"
  unfolding decideDelegationGate_def Let_def by (intro frame_intros frame_modify) simp_all

lemma fr_acceptance: "(\<And>s t. f (s\<lparr>s8_acceptances := t\<rparr>) = f s) \<Longrightarrow> frame f (store_acceptance env pre p a g st)"
  unfolding store_acceptance_def by (intro frame_intros frame_modify) simp_all

lemma fr_stale: "(\<And>s t. f (s\<lparr>s8_gates := t\<rparr>) = f s) \<Longrightarrow> (\<And>s t. f (s\<lparr>s8_proposals := t\<rparr>) = f s) \<Longrightarrow> frame f (stale_admission env p a)"
  unfolding stale_admission_def Let_def by (intro frame_intros fr_proposal frame_modify) (simp_all split: option.split)

lemma fr_reject: "(\<And>s t. f (s\<lparr>s8_gates := t\<rparr>) = f s) \<Longrightarrow> (\<And>s t. f (s\<lparr>s8_proposals := t\<rparr>) = f s) \<Longrightarrow>
    (\<And>s t. f (s\<lparr>s8_acceptances := t\<rparr>) = f s) \<Longrightarrow> frame f (rejectDelegationProposal env i)"
  unfolding rejectDelegationProposal_def Let_def by (intro frame_intros fr_workspace fr_proposal fr_decide fr_acceptance) simp_all

lemma fr_mission: "(\<And>s t. f (s\<lparr>s8_bindings := t\<rparr>) = f s) \<Longrightarrow> (\<And>s t. f (s\<lparr>s8_s2 := t\<rparr>) = f s) \<Longrightarrow>
    frame f (createLocalDelegatedMission env p r a x)"
  unfolding createLocalDelegatedMission_def by (intro frame_intros frame_modify) simp_all

lemma fr_bind: "(\<And>s t. f (s\<lparr>s8_bindings := t\<rparr>) = f s) \<Longrightarrow> (\<And>s t. f (s\<lparr>s8_s2 := t\<rparr>) = f s) \<Longrightarrow>
    (\<And>s t. f (s\<lparr>s8_gates := t\<rparr>) = f s) \<Longrightarrow> (\<And>s t. f (s\<lparr>s8_proposals := t\<rparr>) = f s) \<Longrightarrow>
    (\<And>s t. f (s\<lparr>s8_acceptances := t\<rparr>) = f s) \<Longrightarrow> (\<And>s t. f (s\<lparr>s8_events := t\<rparr>) = f s) \<Longrightarrow> frame f (bind_proposal env w p r a)"
  unfolding bind_proposal_def by (intro frame_intros fr_proposal fr_decide fr_acceptance fr_mission) simp_all

lemma fr_approve: "(\<And>s t. f (s\<lparr>s8_bindings := t\<rparr>) = f s) \<Longrightarrow> (\<And>s t. f (s\<lparr>s8_s2 := t\<rparr>) = f s) \<Longrightarrow>
    (\<And>s t. f (s\<lparr>s8_gates := t\<rparr>) = f s) \<Longrightarrow> (\<And>s t. f (s\<lparr>s8_proposals := t\<rparr>) = f s) \<Longrightarrow> (\<And>s t. f (s\<lparr>s8_admissions := t\<rparr>) = f s) \<Longrightarrow>
    (\<And>s t. f (s\<lparr>s8_acceptances := t\<rparr>) = f s) \<Longrightarrow> (\<And>s t. f (s\<lparr>s8_events := t\<rparr>) = f s) \<Longrightarrow> frame f (approveDelegationProposal env i)"
  unfolding approveDelegationProposal_def Let_def by (intro frame_intros fr_workspace fr_stale fr_bind frame_modify) simp_all

lemma fr_save_cancellation: "(\<And>s t. f (s\<lparr>s8_cancellations := t\<rparr>) = f s) \<Longrightarrow> frame f (save_cancellation c)"
  unfolding save_cancellation_def by (intro frame_intros frame_modify) simp_all

lemma fr_propose: "(\<And>s t. f (s\<lparr>s8_cancellations := t\<rparr>) = f s) \<Longrightarrow> frame f (propose_begin env i)"
  "(\<And>s t. f (s\<lparr>s8_cancellations := t\<rparr>) = f s) \<Longrightarrow> frame f (propose_finish c)"
  unfolding propose_begin_def propose_finish_def Let_def by (intro frame_intros fr_save_cancellation; simp)+

lemma fr_resolve: "(\<And>s t. f (s\<lparr>s8_cancellations := t\<rparr>) = f s) \<Longrightarrow> (\<And>s t. f (s\<lparr>s8_proposals := t\<rparr>) = f s) \<Longrightarrow>
    frame f (resolveDelegationCancellation env i)"
  unfolding resolveDelegationCancellation_def resolve_event_def Let_def
  by (intro frame_intros fr_save_cancellation fr_proposal) simp_all

lemma fr_publish: "(\<And>s t. f (s\<lparr>s8_receipts := t\<rparr>) = f s) \<Longrightarrow> frame f (publish_begin env b)"
  "(\<And>s t. f (s\<lparr>s8_receipts := t\<rparr>) = f s) \<Longrightarrow> frame f (publish_finish x d)"
  unfolding publish_begin_def publish_finish_def by (intro frame_intros frame_modify; simp)+

lemma fr_receipt_row: "(\<And>s t. f (s\<lparr>s8_receiptMirror := t\<rparr>) = f s) \<Longrightarrow> (\<And>s t. f (s\<lparr>s8_divergences := t\<rparr>) = f s) \<Longrightarrow>
    frame f (receive_receipt env w raw)"
  unfolding receive_receipt_def Let_def by (intro frame_intros frame_modify) simp_all

lemma fr_blocks: "(\<And>s t. f (s\<lparr>s8_s2 := t\<rparr>) = f s) \<Longrightarrow> frame f (block_links env run plan ls)"
proof (induction ls)
  case Nil
  show ?case unfolding block_links.simps by (rule frame_trivial)
next
  case (Cons l ls)
  then show ?case unfolding block_links.simps by (intro frame_intros) simp_all
qed

lemma fr_evaluate: "(\<And>s t. f (s\<lparr>s8_s2 := t\<rparr>) = f s) \<Longrightarrow> frame f (s8_evaluateRun env i)"
  unfolding s8_evaluateRun_def ensureDelegatedSourceAttemptsBlocked_def by (intro frame_intros fr_blocks) simp_all

lemma fr_consumption: "(\<And>s t. f (s\<lparr>s8_consumptions := t\<rparr>) = f s) \<Longrightarrow> frame f (save_consumption c)"
  unfolding save_consumption_def by (rule frame_modify) simp

lemma fr_consume: "(\<And>s t. f (s\<lparr>s8_s2 := t\<rparr>) = f s) \<Longrightarrow> (\<And>s t. f (s\<lparr>s8_consumptions := t\<rparr>) = f s) \<Longrightarrow>
    (\<And>s t. f (s\<lparr>s8_links := t\<rparr>) = f s) \<Longrightarrow> (\<And>s t. f (s\<lparr>s8_events := t\<rparr>) = f s) \<Longrightarrow> frame f (consumeDelegationReceipt env i)"
  unfolding consumeDelegationReceipt_def record_consumption_def consume_bound_def hand_off_def Let_def
    ensureDelegatedSourceAttemptsBlocked_def
  by (intro frame_intros fr_consumption fr_link fr_evaluate fr_blocks) simp_all

lemmas fr_ops = fr_peer fr_policy fr_createRequest fr_row fr_cancellation_row fr_approve fr_reject fr_propose fr_resolve fr_publish
  fr_receipt_row fr_consume fr_evaluate frame_event

subsection \<open>One binding, by an approval\<close>

text \<open>What an approval that binds has found in the state it started from.\<close>

definition may_bind :: "s8_env \<Rightarrow> js \<Rightarrow> s8_state \<Rightarrow> known_proposal \<Rightarrow> known_request \<Rightarrow> bool" where
  "may_bind env i s p r \<longleftrightarrow> proposal_in (workspace_of i) (field i ''proposalId'') s = Inr p \<and> ip_state p = ''waiting_human'' \<and>
     mget (s8_requests s) (ip_delegationRequestId p) = Some r \<and>
     (case gate_of_proposal p s of Some g \<Rightarrow> xg_state g = ''requested'' | None \<Rightarrow> False) \<and>
     (case currentAdmission env p r s of Inr a \<Rightarrow> da_admissible a | Inl _ \<Rightarrow> False)"

definition binds :: "s8_env \<Rightarrow> js \<Rightarrow> s8_state \<Rightarrow> s8_state \<Rightarrow> bool" where
  "binds env i s s' \<longleftrightarrow> (\<exists>p r b. may_bind env i s p r \<and> binding_of_request s (dr_id r) = None \<and>
     s8_bindings s' = mset_at (db_id b) b (s8_bindings s) \<and> db_delegationRequestId b = ip_delegationRequestId p \<and>
     db_proposalId b = ip_id p)"

definition unbound :: "s8_state \<Rightarrow> s8_state \<Rightarrow> bool" where
  "unbound s0 s \<longleftrightarrow> s8_bindings s = s8_bindings s0"

lemma local_refs_keep: "local_refs identity b = Inr b' \<Longrightarrow> db_delegationRequestId b' = db_delegationRequestId b \<and> db_proposalId b' = db_proposalId b"
  by (auto simp: local_refs_def)

lemma binding_Inr: "createDelegatedExecutionBinding legacy now ex (Some p) x a i = Inr b \<Longrightarrow>
    db_delegationRequestId b = ip_delegationRequestId p \<and> db_proposalId b = ip_id p"
  by (auto simp: createDelegatedExecutionBinding_def Let_def binding_guard_def split: option.splits if_splits dest!: local_refs_keep)

lemma unbound_frame: "frame s8_bindings m \<Longrightarrow> triple (unbound s0) m (\<lambda>_. unbound s0) (unbound s0)"
  by (rule t_keep) (simp add: unbound_def[abs_def] frame_keeps)

lemma t_authority: "(\<And>i g a. x = (Some i, Some g, Some a) \<Longrightarrow> triple P (f i a) Q E) \<Longrightarrow> triple P h Q E \<Longrightarrow>
    triple P (case x of (Some i, Some _, Some a) \<Rightarrow> f i a | _ \<Rightarrow> h) Q E"
  by (auto split: prod.splits option.splits)

lemma t_mission: "triple (unbound s0) (createLocalDelegatedMission env p r a x)
    (\<lambda>b s. unbound s0 s \<or> binding_of_request s0 (dr_id r) = None \<and> s8_bindings s = mset_at (db_id b) b (s8_bindings s0) \<and>
       db_delegationRequestId b = ip_delegationRequestId p \<and> db_proposalId b = ip_id p) (unbound s0)"
proof (cases "binding_of_request s0 (dr_id r)")
  case (Some b)
  have "createLocalDelegatedMission env p r a x s = (s, Inr b)" if "unbound s0 s" for s
    using that Some by (simp add: createLocalDelegatedMission_def binding_of_request_def unbound_def)
  then show ?thesis by (simp add: triple_def)
next
  case None
  show ?thesis
    unfolding createLocalDelegatedMission_def
  proof (rule t_read, rule t_pair, rule t_option, goal_cases)
    case (1 x existing authority)
    show ?case
    proof (rule t_authority, goal_cases)
      case (1 i g ag)
      show ?case
      proof (rule t_pre[where P'="unbound s0"], rule t_bind[OF unbound_frame[OF frame_in_s2]], goal_cases)
        case (2 y)
        show ?case
        proof (rule t_pair, rule t_lift, goal_cases)
          case (1 missionId attempt b)
          from binding_Inr[OF this(2)] None show ?case
            by (simp add: triple_def unbound_def)
        qed
      qed simp_all
    next
      case 2
      show ?case by (rule t_throw) simp
    qed
  next
    case (2 x existing authority y)
    with None show ?case by (intro t_false) (auto simp: unbound_def binding_of_request_def)
  qed
qed

lemma t_decide: "triple (unbound s0) (decideDelegationGate env gate st)
    (\<lambda>_ s. unbound s0 s \<and> (case gate of Some g \<Rightarrow> xg_state g = ''requested'' | None \<Rightarrow> False)) (unbound s0)"
proof (cases "case gate of Some g \<Rightarrow> xg_state g = ''requested'' | None \<Rightarrow> False")
  case True
  have "frame s8_bindings (decideDelegationGate env gate st)" by (rule fr_decide) simp
  from unbound_frame[OF this] True show ?thesis by (simp add: triple_def)
next
  case False
  then show ?thesis by (cases gate) (simp_all add: decideDelegationGate_def triple_def)
qed

definition approved :: "s8_env \<Rightarrow> js \<Rightarrow> s8_state \<Rightarrow> s8_state \<Rightarrow> bool" where
  "approved env i s0 s \<longleftrightarrow> unbound s0 s \<or> binds env i s0 s"

lemma unbound_approved: "unbound s0 s \<Longrightarrow> approved env i s0 s"
  by (simp add: approved_def)

lemma approved_frame: "frame s8_bindings m \<Longrightarrow> triple (approved env i s0) m (\<lambda>_. approved env i s0) (approved env i s0)"
  by (rule t_keep) (auto simp: approved_def[abs_def] binds_def unbound_def frame_def keeps_def)

lemma t_bind_proposal:
  assumes p: "proposal_in (workspace_of i) (field i ''proposalId'') s0 = Inr p" "ip_state p = ''waiting_human''"
    and r: "mget (s8_requests s0) (ip_delegationRequestId p) = Some r" and a: "currentAdmission env p r s0 = Inr a" "da_admissible a"
  shows "triple (\<lambda>s. unbound s0 s \<and> s8_gates s = s8_gates s0) (bind_proposal env w p r a) (\<lambda>_. approved env i s0) (approved env i s0)"
  unfolding bind_proposal_def
proof (rule t_read, goal_cases)
  case (1 gate)
  show ?case
  proof (cases "gate = gate_of_proposal p s0")
    case False
    then show ?thesis by (intro t_false) (auto simp: gate_of_proposal_def)
  next
    case True
    show ?thesis
    proof (rule t_pre[where P'="unbound s0"], rule t_bind[OF t_post[OF t_decide _ unbound_approved]], assumption, assumption, goal_cases)
      case (1 g)
      show ?case
      proof (cases "case gate of Some g \<Rightarrow> xg_state g = ''requested'' | None \<Rightarrow> False")
        case False
        then show ?thesis by (intro t_false) auto
      next
        case pending: True
        with p r a True have m: "may_bind env i s0 p r" by (simp add: may_bind_def)
        have store: "frame s8_bindings (store_acceptance env pre p a g st)" for pre st by (rule fr_acceptance) simp
        have save: "frame s8_bindings (put_proposal q)" for q by (rule fr_proposal) simp
        have event: "frame s8_bindings (appendS8Event e)" for e by (rule frame_event) simp
        show ?thesis
        proof (rule t_pre[where P'="unbound s0"],
            rule t_bind[OF t_post[OF unbound_frame[OF store] _ unbound_approved]], assumption, assumption,
            rule t_bind[where R="\<lambda>_. approved env i s0"])
          fix x
          show "triple (unbound s0) (createLocalDelegatedMission env p r a x) (\<lambda>_. approved env i s0) (approved env i s0)"
            by (rule t_post[OF t_mission]) (use m in \<open>auto simp: approved_def binds_def\<close>)
        next
          fix b
          show "triple (approved env i s0) (bindS (put_proposal (restate env ''bound'' ''destination_local_execution_bound'' p))
              (\<lambda>_. bindS (appendS8Event (bound_event w p r b)) (\<lambda>_. returnS b))) (\<lambda>_. approved env i s0) (approved env i s0)"
            by (rule t_bind[OF approved_frame[OF save]], rule t_bind[OF approved_frame[OF event]], rule t_return)
        qed simp
      qed
    qed simp_all
  qed
qed

lemma t_approve: "triple (\<lambda>s. s = s0) (approveDelegationProposal env i) (\<lambda>_. approved env i s0) (approved env i s0)"
proof -
  have start: "s = s0 \<Longrightarrow> approved env i s0 s" for s by (simp add: approved_def unbound_def)
  have ws: "triple (\<lambda>s. s = s0) (requireS7Workspace w) (\<lambda>_ s. s = s0) (\<lambda>s. s = s0)" for w
    by (simp add: requireS7Workspace_def triple_def split: option.split)
  show ?thesis
    unfolding approveDelegationProposal_def Let_def
  proof (rule t_bind[OF t_post[OF ws _ start]], assumption, assumption, rule t_read, rule t_lift, rule t_read, rule t_option, goal_cases)
    case (1 x found p existing)
    note found = 1
    show ?case
    proof (rule t_if, rule t_throw, simp add: start, rule t_read, rule t_option, rule t_throw, simp add: start, rule t_read, rule t_lift, goal_cases)
      case (1 request r evaluated a)
      show ?case
      proof (cases "proposal_in (workspace_of i) (field i ''proposalId'') s0 = found \<and> mget (s8_requests s0) (ip_delegationRequestId p) = request \<and>
          currentAdmission env p r s0 = evaluated")
        case False
        then show ?thesis by (intro t_false) auto
      next
        case True
        have stale: "frame s8_bindings (stale_admission env p a)" by (rule fr_stale) simp_all
        show ?thesis
        proof (rule t_bind[where R="\<lambda>_ s. unbound s0 s \<and> s8_gates s = s8_gates s0"], rule t_modify, goal_cases)
          case (1 s)
          then show ?case by (auto simp: unbound_def)
        next
          case (2 y)
          show ?case
          proof (rule t_if)
            show "triple (\<lambda>s. unbound s0 s \<and> s8_gates s = s8_gates s0) (stale_admission env p a) (\<lambda>_. approved env i s0) (approved env i s0)"
              by (rule t_pre[OF approved_frame[OF stale]]) (auto intro: unbound_approved)
          next
            assume "\<not> \<not> da_admissible a"
            then show "triple (\<lambda>s. unbound s0 s \<and> s8_gates s = s8_gates s0) (bind_proposal env (workspace_of i) p r a)
                (\<lambda>_. approved env i s0) (approved env i s0)"
              using True found 1 by (intro t_bind_proposal) auto
          qed
        qed
      qed
    qed (auto simp: start)
  qed (auto simp: triple_def start)
qed

text \<open>Requests are kept under their own ids.\<close>

definition requests_keyed :: "s8_state \<Rightarrow> bool" where
  "requests_keyed s \<longleftrightarrow> (\<forall>k r. mget (s8_requests s) k = Some r \<longrightarrow> dr_id r = k)"

lemma keyed_put: "requests_keyed s \<Longrightarrow> dr_id r = k \<Longrightarrow> requests_keyed (s\<lparr>s8_requests := mset_at k r (s8_requests s)\<rparr>)"
  by (auto simp: requests_keyed_def split: if_splits)

lemma keyed_frame: "frame s8_requests m \<Longrightarrow> keeps requests_keyed m"
  by (auto simp: frame_def keeps_def requests_keyed_def)

lemma extend_id [simp]: "dr_id (delegation_request.extend r x) = dr_id r"
  by (simp add: delegation_request.defs)

lemma keyed_event: "keeps requests_keyed (appendS8Event e)"
  by (rule keyed_frame, rule frame_event) simp

lemma keyed_workspace: "keeps requests_keyed (requireS7Workspace w)"
  by (rule keyed_frame, rule fr_workspace)

lemma keyed_create: "keeps requests_keyed (create_request env i)"
  unfolding create_request_def Let_def
  by (intro keeps_intros keyed_workspace keyed_event keeps_modifyS) (simp add: keyed_put)

lemma keyed_createRequest: "keeps requests_keyed (s8_createRequest env i)"
proof -
  have "keeps requests_keyed (save_link l)" for l by (rule keyed_frame, rule fr_link) simp
  then show ?thesis unfolding s8_createRequest_def Let_def by (intro keeps_intros keyed_create keyed_event)
qed

lemma keyed_push: "keeps requests_keyed (push_finish env w r resp)"
  unfolding push_finish_def Let_def
proof (intro keeps_intros keyed_event keeps_modifyS)
  fix s assume "requests_keyed s"
  then show "requests_keyed (s\<lparr>s8_acks := mset_at k a (s8_acks s), s8_requests := mset_at (dr_id r) (r\<lparr>kr_transportState := t\<rparr>) (s8_requests s)\<rparr>)" for k a t
    by (auto simp: requests_keyed_def split: if_splits)
qed

lemma keyed_row: "keeps requests_keyed (receive_row env w raw)"
proof -
  have a: "keeps requests_keyed (open_proposal env w r)" for r by (rule keyed_frame, rule fr_open) simp
  have b: "keeps requests_keyed (admit_proposal env p r)" for p r by (rule keyed_frame, rule fr_admit) simp_all
  have c: "keeps requests_keyed (recordDelegationDivergence env w i st r d)" for i st r d
    by (rule keyed_frame, rule frame_divergence) simp
  have "keeps requests_keyed (take_request env w r)" for r
    unfolding take_request_def Let_def by (intro keeps_intros a b c keeps_modifyS) (simp add: keyed_put)
  with c show ?thesis unfolding receive_row_def Let_def
    by (cases "createDelegationRequest (ae_sha (de_app env)) (ae_legacy (de_app env)) (ae_clock (de_app env)) raw")
      (simp_all add: keeps_if keeps_bindS)
qed

lemma on_s8_state [simp]: "dx_state (on_s8 m v) = fst (m (dx_state v))" "dx_pushes (on_s8 m v) = dx_pushes v"
  by (simp_all add: on_s8_def)

lemma push_call_state: "f (dx_state (push_call env i v)) = f (dx_state v)" if "frame f (push_begin env i)" for f :: "s8_state \<Rightarrow> 'v"
proof -
  obtain s r where b: "push_begin env i (dx_state v) = (s, r)" by fastforce
  have "f s = f (dx_state v)" using that unfolding frame_def by (metis b fst_conv)
  then show ?thesis by (cases r) (simp_all add: push_call_def b)
qed

lemma step_keyed: "requests_keyed (dx_state v) \<Longrightarrow> requests_keyed (dx_state (delegation_step env oper v))"
proof (cases oper)
  case (PushAnswered n response)
  assume "requests_keyed (dx_state v)"
  with PushAnswered keyed_push show ?thesis
    by (auto simp: delegation_step_def push_answer_def keeps_def split: prod.split)
next
  case (Push i)
  assume "requests_keyed (dx_state v)"
  with Push push_call_state[OF fr_push_begin, of s8_requests env i v] show ?thesis
    by (simp add: delegation_step_def requests_keyed_def)
next
  case (CreateDelegation i)
  assume "requests_keyed (dx_state v)"
  with CreateDelegation keyed_createRequest show ?thesis by (simp add: delegation_step_def keeps_def)
next
  case (Row w raw)
  assume "requests_keyed (dx_state v)"
  with Row keyed_row show ?thesis by (simp add: delegation_step_def keeps_def)
qed (simp_all add: delegation_step_def requests_keyed_def fr_ops[unfolded frame_def])

definition bound_once :: "s8_state \<Rightarrow> bool" where
  "bound_once s \<longleftrightarrow> distinct (map db_delegationRequestId (mvalues (s8_bindings s)))"

lemma distinct_put: "distinct (map f (mvalues m)) \<Longrightarrow> f b \<notin> f ` set (mvalues m) \<Longrightarrow> distinct (map f (mvalues (mset_at k b m)))"
proof (induction m)
  case Nil
  then show ?case by (simp add: mset_at_def mvalues_def)
next
  case (Cons x m)
  obtain j y where x: "x = (j, y)" by (cases x)
  have sub: "set (mvalues (mset_at k b m)) \<subseteq> insert b (set (mvalues m))"
    by (induction m) (auto simp: mset_at_def mvalues_def split: if_splits)
  show ?case
  proof (cases "j = k")
    case True
    with Cons.prems x show ?thesis by (auto simp: mset_at_def mvalues_def)
  next
    case False
    then have "mvalues (mset_at k b (x # m)) = y # mvalues (mset_at k b m)" by (simp add: x mset_at_def mvalues_def)
    moreover have "f y \<notin> f ` insert b (set (mvalues m))" using Cons.prems x by (auto simp: mvalues_def)
    then have "f y \<notin> f ` set (mvalues (mset_at k b m))" using sub by blast
    moreover have "distinct (map f (mvalues (mset_at k b m)))" using Cons x by (simp add: mvalues_def)
    ultimately show ?thesis by simp
  qed
qed

lemma binds_once: "bound_once s \<Longrightarrow> requests_keyed s \<Longrightarrow> binds env i s s' \<Longrightarrow> bound_once s'"
proof -
  assume once: "bound_once s" and keyed: "requests_keyed s" and bound: "binds env i s s'"
  from bound obtain p :: known_proposal and r b where m: "mget (s8_requests s) (ip_delegationRequestId p) = Some r" "binding_of_request s (dr_id r) = None"
    and b: "s8_bindings s' = mset_at (db_id b) b (s8_bindings s)" "db_delegationRequestId b = ip_delegationRequestId p"
    unfolding binds_def may_bind_def by (elim exE conjE) (rule that; assumption)
  from keyed m(1) b(2) have "dr_id r = db_delegationRequestId b" by (simp add: requests_keyed_def)
  with m(2) have "db_delegationRequestId b \<notin> db_delegationRequestId ` set (mvalues (s8_bindings s))"
    unfolding binding_of_request_def find_None_iff by auto
  with once show ?thesis unfolding bound_once_def b(1) by (rule distinct_put)
qed

lemma step_bindings: "s8_bindings (dx_state (delegation_step env oper v)) = s8_bindings (dx_state v) \<or>
    (\<exists>i. oper = ApproveDelegation i \<and> binds env i (dx_state v) (dx_state (delegation_step env oper v)))"
proof (cases oper)
  case (ApproveDelegation i)
  have "approved env i (dx_state v) (fst (approveDelegationProposal env i (dx_state v)))"
    by (rule triple_fst[OF t_approve]) simp
  with ApproveDelegation show ?thesis by (simp add: delegation_step_def approved_def unbound_def)
next
  case (PushAnswered n response)
  have "frame s8_bindings (push_finish env w r response)" for w r by (rule fr_push_finish) simp_all
  with PushAnswered show ?thesis by (simp add: delegation_step_def push_answer_def frame_def split: prod.split)
next
  case (Push i)
  with push_call_state[OF fr_push_begin, of s8_bindings env i v] show ?thesis by (simp add: delegation_step_def)
qed (simp_all add: delegation_step_def fr_ops[unfolded frame_def])

lemma history_binds_once:
  "requests_keyed (dx_state v) \<Longrightarrow> bound_once (dx_state v) \<Longrightarrow> bound_once (dx_state (delegation_history h v)) \<and>
     requests_keyed (dx_state (delegation_history h v))"
proof (induction h v rule: delegation_history.induct)
  case (2 env oper ops v)
  have "bound_once (dx_state (delegation_step env oper v))"
    using step_bindings[of env oper v] 2(2,3) binds_once[of "dx_state v"] by (auto simp: bound_once_def)
  with 2 step_keyed show ?case by simp
qed simp

definition delegation_init :: "s2_state \<Rightarrow> delegation_service" where
  "delegation_init s = \<lparr>dx_state = s8_init s, dx_pushes = []\<rparr>"

text \<open>
  C4: Over any calls and answers a delegated request is bound to at most one local execution,
  and only an approval binds one: of a proposal that waits for a human behind a gate that is
  still open, whose request the peer, the policy and the destination's own records admit at
  that moment.
\<close>

theorem delegation_bound_once_by_approval:
  "bound_once (dx_state (delegation_history h (delegation_init s))) \<and>
   (let v = delegation_history h (delegation_init s); v' = delegation_step env oper v in
    s8_bindings (dx_state v') = s8_bindings (dx_state v) \<or>
    (\<exists>i. oper = ApproveDelegation i \<and> binds env i (dx_state v) (dx_state v')))"
  using history_binds_once[of "delegation_init s" h] step_bindings
  by (simp add: Let_def delegation_init_def s8_init_def requests_keyed_def bound_once_def mvalues_def)

end
