(* ===== verification/AppendOnly.thy ===== *)
theory AppendOnly
  imports Prelude "HOL-Library.Sublist"
begin

text \<open>
  The contract of a store that keeps what it was given first: an operation leaves its items as
  they are or appends one that fits them.
\<close>

locale write_once =
  fixes items :: "'s \<Rightarrow> 'x list" and step :: "'op \<Rightarrow> 's \<Rightarrow> 's" and fits :: "'s \<Rightarrow> 'x \<Rightarrow> bool"
  assumes step_items: "items (step oper s) = items s \<or> (\<exists>x. items (step oper s) = items s @ [x] \<and> fits s x)"
begin

lemma step_prefix: "prefix (items s) (items (step oper s))"
  using step_items[of oper s] by (auto simp: prefix_def)

lemma run_prefix: "prefix (items s) (items (fold step ops s))"
proof (induction ops arbitrary: s)
  case (Cons oper ops)
  from step_prefix[of s oper] Cons[of "step oper s"] show ?case by (auto intro: prefix_order.trans)
qed simp

lemma run_pairwise:
  assumes "\<And>s x y. fits s x \<Longrightarrow> y \<in> set (items s) \<Longrightarrow> Q y x" "sorted_wrt Q (items s)"
  shows "sorted_wrt Q (items (fold step ops s))"
  using assms(2)
proof (induction ops arbitrary: s)
  case (Cons oper ops)
  from step_items[of oper s] Cons.prems have "sorted_wrt Q (items (step oper s))"
    by (auto simp: sorted_wrt_append intro: assms(1))
  then show ?case by (simp add: Cons.IH)
qed simp

text \<open>A condition on an item and the state that later operations keep.\<close>

lemma run_all:
  assumes "\<And>s x. fits s x \<Longrightarrow> good s x" "\<And>s oper x. good s x \<Longrightarrow> good (step oper s) x" "\<forall>x \<in> set (items s). good s x"
  shows "\<forall>x \<in> set (items (fold step ops s)). good (fold step ops s) x"
  using assms(3)
proof (induction ops arbitrary: s)
  case (Cons oper ops)
  have old: "\<forall>x \<in> set (items s). good (step oper s) x" using Cons.prems assms(2) by blast
  have new: "fits s x \<Longrightarrow> good (step oper s) x" for x using assms(1,2) by blast
  from step_items[of oper s] have "\<forall>x \<in> set (items (step oper s)). good (step oper s) x"
  proof (elim disjE exE conjE)
    fix x assume "items (step oper s) = items s @ [x]" "fits s x"
    with old new[of x] show ?thesis by simp
  qed (simp add: old)
  then show ?case by (simp add: Cons.IH)
qed simp

end

end
