(* ===== verification/DelegationMirror.thy ===== *)
theory DelegationMirror
  imports DelegationAdmission SyncMirror AppendOnly
begin

text \<open>
  The exchange between two instances (\<open>src/delegation/transport/mirror.cjs\<close>, class
  \<open>DelegationExchangeMirror\<close>): requests, acknowledgements, receipts and cancellations, each kept
  as the first writer sent it.  Values arrive untyped, parsed from JSON for each call.  The
  class keeps its maps beside lists of their keys in order of arrival; a map of the model is in
  insertion order, which is that list.  \<open>gt\<close> and \<open>ordered\<close> are the host's comparison and sort
  where a number is no integer.
\<close>

subsection \<open>State and operations\<close>

record exchange =
  xm_requests :: "(js, js) jsmap"
  xm_acks :: "(js, js) jsmap"
  xm_receipts :: "(string, js) jsmap"
  xm_cancellations :: "(js, js) jsmap"

definition exchange_init :: exchange where
  "exchange_init = \<lparr>xm_requests = [], xm_acks = [], xm_receipts = [], xm_cancellations = []\<rparr>"

record exchange_answer =
  xn_state :: string
  xn_reasonCode :: string
  xn_record :: "js option"

definition exchange_says :: "string \<Rightarrow> string \<Rightarrow> js option \<Rightarrow> exchange_answer" where
  "exchange_says st code r = \<lparr>xn_state = st, xn_reasonCode = code, xn_record = r\<rparr>"

definition same_slot :: "js \<Rightarrow> js \<Rightarrow> bool" where
  "same_slot item request \<longleftrightarrow> same_primitive (field item ''sourceInstanceId'') (field request ''sourceInstanceId'') \<and>
     same_primitive (field item ''peerBindingId'') (field request ''peerBindingId'') \<and>
     same_primitive (field item ''requestSequence'') (field request ''requestSequence'')"

definition appendRequest :: "js \<Rightarrow> (exchange, exchange_answer) act" where
  "appendRequest request =
    (if \<not> is_object request then throwS (TypeError ''delegation request is required'')
     else bindS (readS xm_requests) (\<lambda>rs. case envelope_get rs (field request ''id'') of
         Some existing \<Rightarrow>
           if same_primitive (field existing ''requestDigest'') (field request ''requestDigest'')
           then returnS (exchange_says ''duplicate'' ''exact_duplicate'' (Some existing))
           else returnS (exchange_says ''divergent'' ''request_digest_conflict'' None)
       | None \<Rightarrow>
           if list_ex (\<lambda>item. same_slot item request) (mvalues rs)
           then returnS (exchange_says ''divergent'' ''request_sequence_conflict'' None)
           else
             let stored = with_fields request [] in
             bindS (modifyS (\<lambda>m. m\<lparr>xm_requests := envelope_put (field request ''id'') stored (xm_requests m)\<rparr>)) (\<lambda>_.
             returnS (exchange_says ''accepted'' ''stored'' (Some stored)))))"

definition recordAck :: "js \<Rightarrow> (exchange, exchange_answer) act" where
  "recordAck ack =
    (if \<not> is_object ack then throwS (TypeError ''delegation acknowledgement is required'')
     else bindS (readS (\<lambda>m. envelope_get (xm_requests m) (field ack ''requestId''))) (\<lambda>request. case request of
         None \<Rightarrow> returnS (exchange_says ''rejected'' ''unknown_request'' None)
       | Some r \<Rightarrow>
         if \<not> same_primitive (field r ''requestDigest'') (field ack ''requestDigest'')
         then returnS (exchange_says ''divergent'' ''request_digest_conflict'' None)
         else bindS (readS (\<lambda>m. envelope_get (xm_acks m) (field ack ''requestId''))) (\<lambda>existing. case existing of
             Some e \<Rightarrow>
               if json e = json ack then returnS (exchange_says ''duplicate'' ''exact_duplicate'' (Some e))
               else returnS (exchange_says ''divergent'' ''ack_conflict'' None)
           | None \<Rightarrow>
               let stored = with_fields ack [] in
               bindS (modifyS (\<lambda>m. m\<lparr>xm_acks := envelope_put (field ack ''requestId'') stored (xm_acks m)\<rparr>)) (\<lambda>_.
               returnS (exchange_says ''accepted'' ''stored'' (Some stored))))))"

definition receipt_key :: "js \<Rightarrow> string" where
  "receipt_key r = to_string (field r ''delegationRequestId'') @ '':'' @ to_string (field r ''receiptRevision'')"

definition appendReceipt :: "js \<Rightarrow> (exchange, exchange_answer) act" where
  "appendReceipt receipt =
    (if \<not> is_object receipt then throwS (TypeError ''delegation receipt is required'')
     else bindS (readS (\<lambda>m. mget (xm_receipts m) (receipt_key receipt))) (\<lambda>existing. case existing of
         Some e \<Rightarrow>
           if same_primitive (field e ''receiptDigest'') (field receipt ''receiptDigest'')
           then returnS (exchange_says ''duplicate'' ''exact_duplicate'' (Some e))
           else returnS (exchange_says ''divergent'' ''receipt_digest_conflict'' None)
       | None \<Rightarrow>
           let stored = with_fields receipt [] in
           bindS (modifyS (\<lambda>m. m\<lparr>xm_receipts := mset_at (receipt_key receipt) stored (xm_receipts m)\<rparr>)) (\<lambda>_.
           returnS (exchange_says ''accepted'' ''stored'' (Some stored)))))"

text \<open>A stored cancellation carries the scope and the sequence of its request.\<close>

definition scoped_cancellation :: "js \<Rightarrow> js \<Rightarrow> js" where
  "scoped_cancellation proposal r = with_fields proposal (map (\<lambda>k. (k, field r k))
     [''sourceInstanceId'', ''sourceWorkspaceId'', ''destinationInstanceId'', ''destinationWorkspaceId'', ''requestSequence''])"

definition appendCancellation :: "js \<Rightarrow> (exchange, exchange_answer) act" where
  "appendCancellation proposal =
    (if \<not> is_object proposal then throwS (TypeError ''cancellation proposal is required'')
     else bindS (readS (\<lambda>m. envelope_get (xm_cancellations m) (field proposal ''id''))) (\<lambda>existing. case existing of
         Some e \<Rightarrow>
           if json e = json proposal then returnS (exchange_says ''duplicate'' ''exact_duplicate'' (Some e))
           else returnS (exchange_says ''divergent'' ''cancellation_id_conflict'' None)
       | None \<Rightarrow>
         bindS (readS (\<lambda>m. envelope_get (xm_requests m) (field proposal ''delegationRequestId''))) (\<lambda>request. case request of
             None \<Rightarrow> returnS (exchange_says ''rejected'' ''unknown_request'' None)
           | Some r \<Rightarrow>
               let stored = scoped_cancellation proposal r in
               bindS (modifyS (\<lambda>m. m\<lparr>xm_cancellations := envelope_put (field proposal ''id'') stored (xm_cancellations m)\<rparr>)) (\<lambda>_.
               returnS (exchange_says ''accepted'' ''stored'' (Some stored))))))"

subsection \<open>Reading\<close>

definition seq_number :: "string \<Rightarrow> js \<Rightarrow> int" where
  "seq_number k item = (case to_integer (field item k) of Some n \<Rightarrow> n | None \<Rightarrow> 0)"

definition by_number :: "(js list \<Rightarrow> js list) \<Rightarrow> string \<Rightarrow> js list \<Rightarrow> js list" where
  "by_number ordered k items = (if list_all (\<lambda>i. to_integer (field i k) \<noteq> None) items then sort_key (seq_number k) items else ordered items)"

definition read_scope :: "(js \<Rightarrow> js \<Rightarrow> bool) \<Rightarrow> (js list \<Rightarrow> js list) \<Rightarrow> string \<Rightarrow> string \<Rightarrow> string \<Rightarrow> js list \<Rightarrow> js \<Rightarrow> js list" where
  "read_scope gt ordered instance workspace number items query =
    (let since = field query (if number = ''receiptRevision'' then ''sinceRevision'' else ''sinceSequence'') in
     by_number ordered number (filter (\<lambda>item. same_primitive (field item instance) (field query instance) \<and>
       same_primitive (field item workspace) (field query workspace) \<and>
       number_greater gt (field item number) (if since = JUndef then JNum 0 else since)) items))"

definition readInbox :: "(js \<Rightarrow> js \<Rightarrow> bool) \<Rightarrow> (js list \<Rightarrow> js list) \<Rightarrow> exchange \<Rightarrow> js \<Rightarrow> js list" where
  "readInbox gt ordered m = read_scope gt ordered ''destinationInstanceId'' ''destinationWorkspaceId'' ''requestSequence'' (mvalues (xm_requests m))"

definition readReceipts :: "(js \<Rightarrow> js \<Rightarrow> bool) \<Rightarrow> (js list \<Rightarrow> js list) \<Rightarrow> exchange \<Rightarrow> js \<Rightarrow> js list" where
  "readReceipts gt ordered m = read_scope gt ordered ''sourceInstanceId'' ''sourceWorkspaceId'' ''receiptRevision'' (mvalues (xm_receipts m))"

definition readCancellations :: "(js \<Rightarrow> js \<Rightarrow> bool) \<Rightarrow> (js list \<Rightarrow> js list) \<Rightarrow> exchange \<Rightarrow> js \<Rightarrow> js list" where
  "readCancellations gt ordered m = read_scope gt ordered ''destinationInstanceId'' ''destinationWorkspaceId'' ''requestSequence''
     (mvalues (xm_cancellations m))"

subsection \<open>Histories\<close>

datatype exchange_op = AppendRequest js | RecordAck js | AppendReceipt js | AppendCancellation js

definition exchange_step :: "exchange_op \<Rightarrow> exchange \<Rightarrow> exchange" where
  "exchange_step oper m = (case oper of
      AppendRequest r \<Rightarrow> fst (appendRequest r m) | RecordAck a \<Rightarrow> fst (recordAck a m)
    | AppendReceipt r \<Rightarrow> fst (appendReceipt r m) | AppendCancellation c \<Rightarrow> fst (appendCancellation c m))"

definition exchange_run :: "exchange_op list \<Rightarrow> exchange \<Rightarrow> exchange" where
  "exchange_run ops m = fold exchange_step ops m"

subsection \<open>What a history keeps\<close>

lemma field_added: "field (with_fields v kvs) k = (case map_of (rev kvs) k of Some x \<Rightarrow> x | None \<Rightarrow> (case v of JObj _ \<Rightarrow> field v k | _ \<Rightarrow> JUndef))"
proof -
  have u: "map_of (fold (\<lambda>(k, v). AList.update k v) kvs xs) k = (map_of xs ++ map_of (rev kvs)) k" for xs
    by (induction kvs arbitrary: xs) (auto simp: update_conv' map_add_def split: option.splits)
  show ?thesis by (cases v) (auto simp: with_fields_def u map_add_def split: option.splits)
qed

lemma envelope_get_append: "envelope_get m k = Some v \<Longrightarrow> envelope_get (m @ xs) k = Some v"
  by (auto simp: envelope_get_def mget_def split: if_splits option.splits)

lemma envelope_put_new: "envelope_get m k = None \<Longrightarrow> envelope_put k v m = m @ [(k, v)]"
  by (auto simp: envelope_get_def envelope_put_def mset_at_new split: if_splits)

definition request_fits :: "exchange \<Rightarrow> js \<times> js \<Rightarrow> bool" where
  "request_fits m x \<longleftrightarrow> (\<forall>y \<in> set (xm_requests m). \<not> same_slot (snd y) (snd x))"

definition ack_matches :: "exchange \<Rightarrow> js \<times> js \<Rightarrow> bool" where
  "ack_matches m x = (case envelope_get (xm_requests m) (fst x) of None \<Rightarrow> False
     | Some r \<Rightarrow> same_primitive (field r ''requestDigest'') (field (snd x) ''requestDigest''))"

definition cancellation_matches :: "exchange \<Rightarrow> js \<times> js \<Rightarrow> bool" where
  "cancellation_matches m x = (case envelope_get (xm_requests m) (field (snd x) ''delegationRequestId'') of None \<Rightarrow> False
     | Some r \<Rightarrow> list_all (\<lambda>k. field (snd x) k = field r k)
         [''sourceInstanceId'', ''sourceWorkspaceId'', ''destinationInstanceId'', ''destinationWorkspaceId'', ''requestSequence''])"

lemma same_slot_stored: "same_slot y (with_fields r []) = same_slot y r"
  by (cases r) (simp_all add: same_slot_def with_fields_def)

lemma appendRequest_items: "xm_requests (fst (appendRequest r m)) = xm_requests m \<or>
    (\<exists>x. xm_requests (fst (appendRequest r m)) = xm_requests m @ [x] \<and> request_fits m x)"
proof (cases "envelope_get (xm_requests m) (field r ''id'')")
  case None
  show ?thesis
  proof (cases "is_object r \<and> \<not> list_ex (\<lambda>item. same_slot item r) (mvalues (xm_requests m))")
    case True
    then have "request_fits m (field r ''id'', with_fields r [])"
      by (auto simp: request_fits_def same_slot_stored list_ex_iff mvalues_def)
    moreover have "xm_requests (fst (appendRequest r m)) = xm_requests m @ [(field r ''id'', with_fields r [])]"
      using True None by (simp add: appendRequest_def Let_def envelope_put_new)
    ultimately show ?thesis by blast
  next
    case False
    with None show ?thesis by (auto simp: appendRequest_def Let_def)
  qed
qed (simp add: appendRequest_def)

lemma recordAck_items: "xm_acks (fst (recordAck a m)) = xm_acks m \<or>
    (\<exists>x. xm_acks (fst (recordAck a m)) = xm_acks m @ [x] \<and> ack_matches m x)"
proof (cases "envelope_get (xm_requests m) (field a ''requestId'')")
  case (Some r)
  have f: "field (with_fields a []) k = field a k" for k by (cases a) (simp_all add: field_added)
  show ?thesis
  proof (cases "envelope_get (xm_acks m) (field a ''requestId'')")
    case None
    with Some f show ?thesis by (simp add: recordAck_def Let_def envelope_put_new ack_matches_def)
  qed (simp add: recordAck_def Some)
qed (simp add: recordAck_def)

lemma appendReceipt_items: "xm_receipts (fst (appendReceipt r m)) = xm_receipts m \<or>
    (\<exists>x. xm_receipts (fst (appendReceipt r m)) = xm_receipts m @ [x] \<and> fst x \<notin> fst ` set (xm_receipts m))"
proof (cases "mget (xm_receipts m) (receipt_key r)")
  case None
  have "receipt_key r \<notin> fst ` set (xm_receipts m)" using None by (simp add: mget_eq_None)
  with None show ?thesis by (simp add: appendReceipt_def Let_def mset_at_new)
qed (simp add: appendReceipt_def)

lemma appendCancellation_items: "xm_cancellations (fst (appendCancellation c m)) = xm_cancellations m \<or>
    (\<exists>x. xm_cancellations (fst (appendCancellation c m)) = xm_cancellations m @ [x] \<and> cancellation_matches m x)"
proof (cases "envelope_get (xm_cancellations m) (field c ''id'')")
  case None
  show ?thesis
  proof (cases "envelope_get (xm_requests m) (field c ''delegationRequestId'')")
    case (Some r)
    have "field (scoped_cancellation c r) ''delegationRequestId'' = field c ''delegationRequestId''"
      by (cases c) (simp_all add: scoped_cancellation_def field_added)
    with Some have "cancellation_matches m (field c ''id'', scoped_cancellation c r)"
      by (simp add: cancellation_matches_def scoped_cancellation_def field_added)
    moreover have "xm_cancellations (fst (appendCancellation c m)) \<in>
        {xm_cancellations m, xm_cancellations m @ [(field c ''id'', scoped_cancellation c r)]}"
      using None Some by (simp add: appendCancellation_def Let_def envelope_put_new)
    ultimately show ?thesis by blast
  qed (simp add: appendCancellation_def None)
qed (simp add: appendCancellation_def)

text \<open>An operation on one map leaves the others alone.\<close>

lemma exchange_frames:
  "xm_acks (fst (appendRequest r m)) = xm_acks m" "xm_receipts (fst (appendRequest r m)) = xm_receipts m"
  "xm_cancellations (fst (appendRequest r m)) = xm_cancellations m"
  "xm_requests (fst (recordAck r m)) = xm_requests m" "xm_receipts (fst (recordAck r m)) = xm_receipts m"
  "xm_cancellations (fst (recordAck r m)) = xm_cancellations m"
  "xm_requests (fst (appendReceipt r m)) = xm_requests m" "xm_acks (fst (appendReceipt r m)) = xm_acks m"
  "xm_cancellations (fst (appendReceipt r m)) = xm_cancellations m"
  "xm_requests (fst (appendCancellation r m)) = xm_requests m" "xm_acks (fst (appendCancellation r m)) = xm_acks m"
  "xm_receipts (fst (appendCancellation r m)) = xm_receipts m"
  by (auto simp: appendRequest_def recordAck_def appendReceipt_def appendCancellation_def Let_def split: option.splits)

interpretation kept_requests: write_once xm_requests exchange_step request_fits
proof
  fix oper s
  show "xm_requests (exchange_step oper s) = xm_requests s \<or>
      (\<exists>x. xm_requests (exchange_step oper s) = xm_requests s @ [x] \<and> request_fits s x)"
    using appendRequest_items by (cases oper) (simp_all add: exchange_step_def exchange_frames)
qed

interpretation kept_acks: write_once xm_acks exchange_step ack_matches
proof
  fix oper s
  show "xm_acks (exchange_step oper s) = xm_acks s \<or>
      (\<exists>x. xm_acks (exchange_step oper s) = xm_acks s @ [x] \<and> ack_matches s x)"
    using recordAck_items by (cases oper) (simp_all add: exchange_step_def exchange_frames)
qed

interpretation kept_receipts: write_once xm_receipts exchange_step "\<lambda>m x. fst x \<notin> fst ` set (xm_receipts m)"
proof
  fix oper s
  show "xm_receipts (exchange_step oper s) = xm_receipts s \<or>
      (\<exists>x. xm_receipts (exchange_step oper s) = xm_receipts s @ [x] \<and> fst x \<notin> fst ` set (xm_receipts s))"
    using appendReceipt_items by (cases oper) (simp_all add: exchange_step_def exchange_frames)
qed

interpretation kept_cancellations: write_once xm_cancellations exchange_step cancellation_matches
proof
  fix oper s
  show "xm_cancellations (exchange_step oper s) = xm_cancellations s \<or>
      (\<exists>x. xm_cancellations (exchange_step oper s) = xm_cancellations s @ [x] \<and> cancellation_matches s x)"
    using appendCancellation_items by (cases oper) (simp_all add: exchange_step_def exchange_frames)
qed

lemma request_found: "envelope_get (xm_requests m) k = Some r \<Longrightarrow> envelope_get (xm_requests (exchange_step oper m)) k = Some r"
  using kept_requests.step_prefix[of m oper] by (auto simp: prefix_def intro: envelope_get_append)

lemma ack_still: "ack_matches m x \<Longrightarrow> ack_matches (exchange_step oper m) x"
  using request_found[of m "fst x"] by (auto simp: ack_matches_def split: option.splits)

lemma cancellation_still: "cancellation_matches m x \<Longrightarrow> cancellation_matches (exchange_step oper m) x"
  using request_found[of m "field (snd x) ''delegationRequestId''"] by (auto simp: cancellation_matches_def split: option.splits)

text \<open>What holds of every exchange, and how one extends an earlier one.\<close>

definition exchange_ok :: "exchange \<Rightarrow> bool" where
  "exchange_ok m \<longleftrightarrow> sorted_wrt (\<lambda>x y. \<not> same_slot (snd x) (snd y)) (xm_requests m) \<and> distinct (map fst (xm_receipts m)) \<and>
     (\<forall>x \<in> set (xm_acks m). ack_matches m x) \<and> (\<forall>x \<in> set (xm_cancellations m). cancellation_matches m x)"

definition exchange_extends :: "exchange \<Rightarrow> exchange \<Rightarrow> bool" where
  "exchange_extends m m' \<longleftrightarrow> prefix (xm_requests m) (xm_requests m') \<and> prefix (xm_acks m) (xm_acks m') \<and>
     prefix (xm_receipts m) (xm_receipts m') \<and> prefix (xm_cancellations m) (xm_cancellations m')"

lemma exchange_run_ok: "exchange_ok (exchange_run ops exchange_init)"
proof -
  have r: "sorted_wrt (\<lambda>x y. \<not> same_slot (snd x) (snd y)) (xm_requests (exchange_run ops exchange_init))"
    unfolding exchange_run_def by (rule kept_requests.run_pairwise) (auto simp: request_fits_def exchange_init_def)
  have "sorted_wrt (\<lambda>x y. fst x \<noteq> fst y) (xm_receipts (exchange_run ops exchange_init))"
    unfolding exchange_run_def by (rule kept_receipts.run_pairwise) (auto simp: exchange_init_def intro: rev_image_eqI)
  then have c: "distinct (map fst (xm_receipts (exchange_run ops exchange_init)))"
    by (simp add: distinct_map distinct_conv_nth inj_on_def sorted_wrt_iff_nth_less in_set_conv_nth) (metis linorder_neqE_nat)
  have a: "\<forall>x \<in> set (xm_acks (exchange_run ops exchange_init)). ack_matches (exchange_run ops exchange_init) x"
    unfolding exchange_run_def by (rule kept_acks.run_all) (auto simp: exchange_init_def ack_still)
  have d: "\<forall>x \<in> set (xm_cancellations (exchange_run ops exchange_init)). cancellation_matches (exchange_run ops exchange_init) x"
    unfolding exchange_run_def by (rule kept_cancellations.run_all) (auto simp: exchange_init_def cancellation_still)
  from r c a d show ?thesis by (simp add: exchange_ok_def)
qed

text \<open>
  C39: Whatever is sent to the exchange, in whatever order: nothing stored is ever changed,
  moved or removed; no two requests take one place in the sequence of a source and a peer; no
  two receipts take one revision; every acknowledgement is of the digest of a stored request,
  and every cancellation carries the scope of the stored request it names.
\<close>

theorem exchange_keeps_what_came_first:
  "exchange_ok (exchange_run ops exchange_init) \<and>
   exchange_extends (exchange_run ops exchange_init) (exchange_run (ops @ ops') exchange_init)"
  using exchange_run_ok by (simp add: exchange_extends_def exchange_run_def kept_requests.run_prefix kept_acks.run_prefix
      kept_receipts.run_prefix kept_cancellations.run_prefix)

text \<open>
  A cancellation that is sent again is not recognised: the stored one has the scope of its
  request beside what was sent, and the two texts differ.
\<close>

definition sent_request :: js where
  "sent_request = JObj [(''id'', JStr ''request-1''), (''requestDigest'', JStr ''sha256:a''), (''requestSequence'', JNum 1),
     (''sourceInstanceId'', JStr ''instance-a''), (''sourceWorkspaceId'', JStr ''workspace-a''),
     (''destinationInstanceId'', JStr ''instance-b''), (''destinationWorkspaceId'', JStr ''workspace-b''), (''peerBindingId'', JStr ''peer-ab'')]"

definition sent_cancellation :: js where
  "sent_cancellation = JObj [(''id'', JStr ''cancel-1''), (''delegationRequestId'', JStr ''request-1''),
     (''reasonClass'', JStr ''source_withdrawal''), (''createdAt'', JStr ''2026-01-01T00:00:00.000Z'')]"

lemma scoped_text: "json (scoped_cancellation sent_cancellation sent_request) \<noteq> json sent_cancellation"
  by (simp add: scoped_cancellation_def sent_cancellation_def sent_request_def with_fields_def)

lemma cancellation_resent_is_a_conflict:
  "let m = exchange_run [AppendRequest sent_request, AppendCancellation sent_cancellation] exchange_init in
   xm_cancellations m = [(JStr ''cancel-1'', scoped_cancellation sent_cancellation sent_request)] \<and>
   appendCancellation sent_cancellation m = (m, Inr (exchange_says ''divergent'' ''cancellation_id_conflict'' None))"
proof -
  have f: "field sent_request ''id'' = JStr ''request-1''" "field sent_cancellation ''id'' = JStr ''cancel-1''"
    "field sent_cancellation ''delegationRequestId'' = JStr ''request-1''" "is_object sent_request" "is_object sent_cancellation"
    "with_fields sent_request [] = sent_request"
    by (simp_all add: sent_request_def sent_cancellation_def with_fields_def)
  show ?thesis
    by (simp add: Let_def exchange_run_def exchange_step_def exchange_init_def appendRequest_def appendCancellation_def f scoped_text
        envelope_get_def envelope_put_def mvalues_def mset_at_def mget_def)
qed

end
