(* ===== verification/Spec2Isabelle.thy ===== *)
theory Spec2Isabelle
  imports TaskGraph TaskLifecycle Plans Missions Handoffs Capabilities Locks Gates Readiness Coordinator
    CoordinatorSafety CoordinatorLocks S6Scheduling SyncEnvelope SyncMirror SyncLog Collaboration Authorization OperationGrants EventStore GithubSafety MissionSafety DelegationSafety DelegationMirror
begin

text \<open>
  AI Execution OS: a verification library of its control plane.

  The program is an Electron application whose main process runs agents' work under human
  control: tasks and missions are planned as graphs, every external effect waits behind a Human
  Gate and holds resource locks while it runs, what happened is kept in an append-only event
  store, and workspaces on other machines are reached only through exchanges that carry
  digests.  The library models that control plane (\<open>src/domain\<close>, \<open>src/orchestration\<close>,
  \<open>src/main/scheduler\<close>, \<open>src/main/human-gate\<close>, \<open>src/main/resource-lock\<close>, \<open>src/scheduling\<close>,
  \<open>src/sync\<close>, \<open>src/authorization\<close>, \<open>src/delegation\<close>, \<open>src/storage\<close> and the application
  services S1, S2, S3, S6 and S8 of \<open>src/application\<close>) definition by definition, each named
  after the function it translates.
\<close>

section \<open>The parts and how they interact\<close>

text \<open>
  The application services form one chain of subclasses, S1 to S8, over one store.  Each keeps
  repositories (\<open>projection-repository.cjs\<close>: one map from ids to records per record type) and
  appends events with an idempotency key.  Their state is one record per service:
  \<open>s1_state\<close> (with the coordinator's \<open>coord\<close>: runs, gates, locks, the log) is the first part of
  \<open>s2_state\<close>, which is the first part of \<open>s8_state\<close>; the GitHub and scheduling services have
  the records \<open>s3_state\<close> and \<open>s6_state\<close>.

  \<^item> \<^bold>\<open>Values.\<close>  \<open>Prelude\<close> has exceptions as the sum \<open>error + 'a\<close>, the operations of a state
    that may throw (\<open>act\<close>: the state and then the result or the exception, so that what was
    written before a throw stays written), and the JavaScript \<open>Map\<close> as an association list in
    insertion order.  \<open>JsValue\<close> has the untyped values every constructor takes, \<open>JsText\<close> the
    string methods, \<open>Json\<close> and \<open>JsonText\<close> \<open>JSON.stringify\<close> and the canonical text that digests
    are taken of, \<open>JsonParse\<close> \<open>JSON.parse\<close> with the proof that it reads back what
    \<open>JSON.stringify\<close> wrote, and the lines of a log file, \<open>JsDate\<close> \<open>Date.parse\<close> of the ISO forms and \<open>toISOString\<close>.  \<open>Contracts\<close> holds
    the interfaces, \<open>ActRules\<close> and \<open>ActHoare\<close> the rules that carry proofs through \<open>act\<close>.
  \<^item> \<^bold>\<open>Tasks and plans.\<close>  \<open>Workspace\<close>, \<open>TaskGraph\<close> (\<open>execution-graph-model.cjs\<close>),
    \<open>TaskLifecycle\<close> (\<open>task-state.cjs\<close>, \<open>task-repository.cjs\<close> over the
    file of \<open>event-store.cjs\<close>), \<open>Plans\<close> (\<open>plan-model.cjs\<close>),
    \<open>Missions\<close> (\<open>mission-model.cjs\<close>, \<open>mission-orchestrator.cjs\<close>), \<open>Handoffs\<close>
    (\<open>step-output-model.cjs\<close>, \<open>agent-handoff-model.cjs\<close>).  \<open>GraphSearch\<close> is the depth-first search
    that graphs, plans and the merge order of pull requests share.
  \<^item> \<^bold>\<open>Execution.\<close>  \<open>Capabilities\<close> (capabilities, agents, provider contracts), \<open>Locks\<close>
    (\<open>resource-lock-manager.cjs\<close>), \<open>Gates\<close> (\<open>human-gate-service.cjs\<close>), \<open>Readiness\<close>
    (\<open>readiness-evaluator.cjs\<close>) and \<open>Coordinator\<close> (\<open>execution-coordinator.cjs\<close>), which calls the
    four; \<open>CoordinatorSafety\<close> and \<open>CoordinatorLocks\<close> are about all histories of its calls.
  \<^item> \<^bold>\<open>Services.\<close>  \<open>S1Service\<close> (\<open>s1-application-service.cjs\<close>), \<open>MissionService\<close>,
    \<open>MissionControl\<close> (\<open>s2-application-service.cjs\<close>, \<open>s2-index.cjs\<close>) with \<open>MissionLoop\<close> (the
    evaluation loop ends) and \<open>MissionSafety\<close> (all histories), \<open>AppEvents\<close> (the events and
    ids all of them use).
  \<^item> \<^bold>\<open>Scheduling.\<close>  \<open>SchedPolicy\<close>, \<open>SchedCapacity\<close>, \<open>SchedDecision\<close> (\<open>src/scheduling\<close>) and
    \<open>S6Scheduling\<close> (\<open>s6-index.cjs\<close>, \<open>s6-scheduler-service.cjs\<close>).
  \<^item> \<^bold>\<open>Synchronisation.\<close>  \<open>SyncEnvelope\<close>, \<open>SyncMirror\<close>, \<open>SyncLog\<close>, \<open>Collaboration\<close>
    (\<open>src/sync\<close>).
  \<^item> \<^bold>\<open>Authority.\<close>  \<open>Authorization\<close> and \<open>OperationGrants\<close> (\<open>src/authorization\<close>).
  \<^item> \<^bold>\<open>Storage.\<close>  \<open>EventStore\<close> (\<open>sqlite-event-store.cjs\<close> over its tables,
    \<open>projection-repository.cjs\<close>).
  \<^item> \<^bold>\<open>GitHub.\<close>  \<open>GithubOwnership\<close>, \<open>GithubDelivery\<close> (\<open>src/domain/github-*.cjs\<close>), \<open>DeliveryGate\<close>
    (\<open>delivery-gate.cjs\<close>), \<open>GithubService\<close> (\<open>s3-application-service.cjs\<close>, \<open>s3-index.cjs\<close>),
    \<open>GithubSafety\<close>.
  \<^item> \<^bold>\<open>Delegation.\<close>  \<open>Delegation\<close> (\<open>src/delegation/policy\<close>), \<open>DelegationAdmission\<close>
    (\<open>src/delegation/admission\<close>), \<open>DelegationMirror\<close> (the exchange,
    \<open>src/delegation/transport/mirror.cjs\<close>), and the service the product installs
    (\<open>s8-product-service.cjs\<close>: \<open>s8-index.cjs\<close> with the methods of
    \<open>s8-destination-authority-service.cjs\<close> and \<open>s8-source-handoff-service.cjs\<close>) in
    \<open>DelegationService\<close>, \<open>DelegationDecision\<close> and \<open>DelegationSource\<close>; \<open>DelegationSafety\<close> is
    about all histories of its calls.
\<close>

section \<open>What the lemmas show\<close>

text \<open>
  \<^item> Validators are \<^emph>\<open>exact\<close>: \<open>validate_iff_wf\<close>, \<open>plan_validation_exact\<close>, \<open>grant_check_exact\<close>,
    \<open>capacity_exact\<close>, \<open>delivery_gate_exact\<close>, \<open>authorization_decision_exact\<close> give the condition a
    check computes as a statement about the records, in both directions.
  \<^item> State machines are tables; each is an instance of the locale \<open>state_machine\<close> (or
    \<open>versioned_machine\<close>) of \<open>Contracts\<close>, which gives what final states and counters of versions
    promise.  Repositories are instances of \<open>keyed_store\<close>, numbered logs of \<open>chained_log\<close>, the
    stores of the exchange of \<open>write_once\<close> (\<open>AppendOnly\<close>), predicates on the mission service of
    \<open>mission_frame\<close>.
  \<^item> Statements on \<^emph>\<open>histories\<close> quantify over every list of calls with every input, also after
    calls that threw: the runtime is called at most once per run and only behind an approved
    gate, with all locks held; run and attempt states only follow the table; recorded outputs,
    handoffs and events never change; a delegated request is bound at most once, by an approval
    of its pending gate; ownership of branches and paths is exclusive; what an exchange stored
    first stays; a log of envelopes is one chain without a gap.
  \<^item> Two modules that were written apart agree: \<open>ready_implies_granted\<close>,
    \<open>mirror_agrees_with_classifier\<close>, \<open>admission_agrees_with_policy_module\<close>.
  \<^item> Round trips: an instant through its ISO text, the task repository through the JSON
    lines of its file, the lock table through the event log at a restart.
  \<^item> A few lemmas show what goes wrong, on concrete data: \<open>double_spend_race\<close> and
    \<open>revocation_lost_race\<close> in \<open>OperationGrants\<close>, \<open>reused_constraint_id\<close> and
    \<open>satisfied_gate_goes_stale\<close> in \<open>GithubSafety\<close>, \<open>second_retry_reopens_completed_step\<close> in
    \<open>MissionSafety\<close>, \<open>cancellation_resent_is_a_conflict\<close> in \<open>DelegationMirror\<close>,
    \<open>conflicting_receipt_overwrites\<close> in \<open>DelegationSource\<close>.
\<close>

section \<open>Conventions, parameters and bounds\<close>

text \<open>
  \<^item> \<^bold>\<open>Interleaving.\<close>  Between two \<open>await\<close>s JavaScript runs one call alone.  An operation that
    awaits is therefore modelled as the part before and the part after (\<open>s1_approve_begin\<close> and
    \<open>s1_approve_finish\<close>, \<open>consume_begin\<close> and \<open>consume_finish\<close>, \<open>observe_begin\<close> and
    \<open>observe_finish\<close>, \<open>push_begin\<close> and \<open>push_finish\<close>), the locals kept over the await being a
    record; a history may run any calls in between, and the answer that was awaited is any
    value.  The rows of a pulled inbox are operations of their own.  In \<open>DelegationSafety\<close> the
    step \<open>Below f\<close> is any change \<open>f\<close> of the services below.
  \<^item> \<^bold>\<open>Numbers.\<close>  Integers are \<open>int\<close>: the counters of the program are JavaScript safe integers
    that are only incremented.  Other numbers are kept as their text (\<open>JDbl\<close>); where the code
    reads or compares them, \<open>num\<close>, \<open>gt\<close> and \<open>ordered\<close> are parameters;
    \<open>num\<close> is also what \<open>JSON.parse\<close> makes of a number that is not a safe integer.
  \<^item> \<^bold>\<open>Parameters\<close> stand for what is outside the repository: \<open>sha\<close> for SHA-256 in hexadecimal,
    \<open>lc\<close> for \<open>localeCompare\<close>, \<open>legacy\<close> for \<open>Date.parse\<close> of texts that are not ISO, \<open>now\<close> and
    \<open>ae_clock\<close> for the clock, \<open>uuid\<close> for random ids; and for what a part finds of parts that
    are modelled apart or not: \<open>ae_idle\<close> the idle workers of the worker manager, \<open>reducer\<close> of
    \<open>rebuildProjection\<close>, \<open>start\<close> and \<open>de_start\<close> the start of a mission as later stages
    override it, \<open>de_evaluate\<close> the evaluation of a run, \<open>de_policyId\<close> the active policy of a
    workspace, \<open>de_instance\<close> the id of the local instance.  A theorem holds for all of them unless
    its hypotheses say what is used.
  \<^item> \<^bold>\<open>Values.\<close>  Objects are trees without sharing; \<open>Object.freeze\<close> is the identity on them.
    Characters are those of \<open>char\<close>, so code units above 255 have no value, and an escape of
    such a unit in a text is not read.  The message of an
    \<open>Error\<close> is kept where the code sets it.
  \<^item> \<^bold>\<open>Termination.\<close>  One definition has fuel: \<open>read_value\<close> of \<open>JsonParse\<close> has a
    bound on its nested calls.  \<open>parse_json\<close> gives it \<open>2 * length + 1\<close>, and
    \<open>parse_json_enough\<close> shows that a larger bound gives the same result, since each value
    read takes a character of the text.  The depth-first search ends by
    the measure of vertices not yet visited and edges left; the loop of \<open>evaluateRun\<close> ends since
    a pass that goes on has moved a step that was open, and \<open>evaluation_ends\<close> gives the bound:
    a copy of the loop that may run at most one pass more than the plan has steps returns what
    the loop returns.
\<close>

section \<open>What is not modelled\<close>

text \<open>
  Checkpoints and the read-only queries of the services; the base variants of the gate methods
  that the product overrides; the derivation of scheduling records from mission state (S6); the
  operator console (S4), the provider service and its network adapters (S5), the HTTP sides of
  synchronisation and delegation (S7 and \<open>transport/index.cjs\<close>), the provider runtime, agent
  discovery, federation and the MCP attestation; browser workers, Electron windows, IPC glue,
  the renderer and the scripts.  They are input and output, display, or validators outside the
  control plane; the manifest lists each with its reason.
\<close>

end
